(* ===== verification/Prelude.thy ===== *)
theory Prelude
  imports Main "HOL-Library.Word" "HOL-Library.Monad_Syntax"
begin

text \<open>
  Shared ground of the development: the integer types of the C code, the library's return
  codes, the bit macros of \<open>include/esp-stub-lib/bit_utils.h\<close> with the arithmetic facts
  that make them usable, and generic lemmas on words and lists.

  A C \<open>uint8_t\<close>, \<open>uint16_t\<close>, \<open>uint32_t\<close> or \<open>uint64_t\<close> is a machine word of that width, so
  every addition and subtraction wraps as it does on the chip. A return code (C \<open>int\<close>) is
  an \<open>int\<close>; the codes never take part in arithmetic. A byte buffer is a list of bytes.
\<close>

unbundle bit_operations_syntax

type_synonym u8 = "8 word"
type_synonym u16 = "16 word"
type_synonym u32 = "32 word"
type_synonym u64 = "64 word"
type_synonym rc = int

named_theorems rcs \<open>the numeric values of the return codes\<close>
named_theorems regs \<open>the numeric values of register addresses, masks and other C macros\<close>
named_theorems ev_simps \<open>what a primitive or a component operation adds to the trace\<close>
named_theorems evs_rules \<open>operations that change nothing but the trace\<close>
named_theorems frames \<open>what an operation leaves unchanged\<close>

section \<open>Return codes (err.h, nand.h)\<close>

definition STUB_LIB_OK :: rc where [rcs]: "STUB_LIB_OK = 0"
definition STUB_LIB_FAIL :: rc where [rcs]: "STUB_LIB_FAIL = 0x10000000"
definition STUB_LIB_ERR_UNKNOWN_FLASH_ID :: rc where
  [rcs]: "STUB_LIB_ERR_UNKNOWN_FLASH_ID = 0x10000000 + 0x1"
definition STUB_LIB_ERR_FLASH_READ_UNALIGNED :: rc where
  [rcs]: "STUB_LIB_ERR_FLASH_READ_UNALIGNED = 0x10000000 + 0x2"
definition STUB_LIB_ERR_FLASH_WRITE_UNALIGNED :: rc where
  [rcs]: "STUB_LIB_ERR_FLASH_WRITE_UNALIGNED = 0x10000000 + 0x3"
definition STUB_LIB_ERR_FLASH_READ :: rc where
  [rcs]: "STUB_LIB_ERR_FLASH_READ = 0x10000000 + 0x4"
definition STUB_LIB_ERR_NOT_SUPPORTED :: rc where
  [rcs]: "STUB_LIB_ERR_NOT_SUPPORTED = 0x10000000 + 0x5"
definition STUB_LIB_ERR_INVALID_ARG :: rc where
  [rcs]: "STUB_LIB_ERR_INVALID_ARG = 0x10000000 + 0x6"
definition STUB_LIB_ERR_FLASH_BUSY :: rc where
  [rcs]: "STUB_LIB_ERR_FLASH_BUSY = 0x10000000 + 0x7"
definition STUB_LIB_ERR_FLASH_WRITE :: rc where
  [rcs]: "STUB_LIB_ERR_FLASH_WRITE = 0x10000000 + 0x8"
definition STUB_LIB_ERR_TIMEOUT :: rc where
  [rcs]: "STUB_LIB_ERR_TIMEOUT = 0x10000000 + 0x9"

section \<open>The macros of bit\_utils.h\<close>

definition BIT :: "nat \<Rightarrow> u32" where
  [regs]: "BIT nr = push_bit nr 1"

definition ALIGN_UP :: "'a::len word \<Rightarrow> 'a word \<Rightarrow> 'a word" where
  "ALIGN_UP x a = (x + (a - 1)) AND NOT (a - 1)"

definition ALIGN_DOWN :: "'a::len word \<Rightarrow> 'a word \<Rightarrow> 'a word" where
  "ALIGN_DOWN x a = x AND NOT (a - 1)"

definition IS_ALIGNED :: "'a::len word \<Rightarrow> 'a word \<Rightarrow> bool" where
  "IS_ALIGNED x a \<longleftrightarrow> x AND (a - 1) = 0"

definition MIB :: "u32 \<Rightarrow> u32" where
  "MIB x = x * 1024 * 1024"

definition GIB :: "u32 \<Rightarrow> u64" where
  "GIB x = ucast x * 1024 * 1024 * 1024"

section \<open>Words\<close>

lemma and_pow2_minus_one: "x AND (2 ^ n - 1) = take_bit n (x :: 'a::len word)"
  by (simp add: take_bit_eq_mask mask_eq_exp_minus_1)

lemma unat_take_bit: "unat (take_bit n (x :: 'a::len word)) = unat x mod 2 ^ n"
  by (simp only: unsigned_take_bit_eq) (simp only: take_bit_eq_mod)

lemma unat_and_pow2: "unat (x AND (2 ^ n - 1) :: 'a::len word) = unat x mod 2 ^ n"
  by (simp only: and_pow2_minus_one unat_take_bit)

lemma IS_ALIGNED_pow2: "IS_ALIGNED x (2 ^ n) \<longleftrightarrow> 2 ^ n dvd unat (x :: 'a::len word)"
  by (simp add: IS_ALIGNED_def word_unat_eq_iff unat_and_pow2 dvd_eq_mod_eq_0)

lemma ALIGN_DOWN_pow2: "ALIGN_DOWN x (2 ^ n) = x - (x AND (2 ^ n - 1))" for x :: "'a::len word"
proof -
  have "x = (x AND NOT (2 ^ n - 1)) + (x AND (2 ^ n - 1))"
    by (subst disjunctive_add) (auto simp: bit_simps intro!: bit_word_eqI)
  then show ?thesis by (metis ALIGN_DOWN_def add_diff_cancel)
qed

lemma unat_ALIGN_DOWN_pow2: "unat (ALIGN_DOWN x (2 ^ n)) = unat x - unat x mod 2 ^ n"
  for x :: "'a::len word"
proof -
  have "x AND (2 ^ n - 1) \<le> x" by (simp add: word_le_nat_alt unat_and_pow2)
  then show ?thesis by (simp add: ALIGN_DOWN_pow2 unat_sub unat_and_pow2)
qed

lemmas IS_ALIGNED_4 = IS_ALIGNED_pow2 [where n = 2, simplified]
lemmas IS_ALIGNED_16 = IS_ALIGNED_pow2 [where n = 4, simplified]
lemmas IS_ALIGNED_32 = IS_ALIGNED_pow2 [where n = 5, simplified]
lemmas IS_ALIGNED_64 = IS_ALIGNED_pow2 [where n = 6, simplified]
lemmas IS_ALIGNED_4096 = IS_ALIGNED_pow2 [where n = 12, simplified]
lemmas unat_ALIGN_DOWN_4 = unat_ALIGN_DOWN_pow2 [where n = 2, simplified]
lemmas ALIGN_DOWN_4 = ALIGN_DOWN_pow2 [where n = 2, simplified]
lemmas unat_and_3 = unat_and_pow2 [where n = 2, simplified]
lemmas unat_and_4095 = unat_and_pow2 [where n = 12, simplified]

lemma unat_diff: "b \<le> a \<Longrightarrow> unat (a - b) = unat a - unat (b :: 'a::len word)"
  by (simp add: unat_sub)

lemma unat_pred: "(x :: 'a::len word) \<noteq> 0 \<Longrightarrow> unat (x - 1) = unat x - 1"
  by (simp add: unat_minus_one)

lemma unat_pred_less: "(x :: 'a::len word) \<noteq> 0 \<Longrightarrow> unat (x - 1) < unat x"
  by (simp add: unat_minus_one unat_gt_0)

lemma unat_add_lt:
  "unat a + unat (b :: 'a::len word) < 2 ^ LENGTH('a) \<Longrightarrow> unat (a + b) = unat a + unat b"
  by (simp add: unat_word_ariths)

lemma unat_add_lt32:
  "unat a + unat (b :: u32) < 4294967296 \<Longrightarrow> unat (a + b) = unat a + unat b"
  by (simp add: unat_word_ariths)

lemma unat_lt32: "unat (x :: u32) < 4294967296"
  using unsigned_less [where w = x and 'a = nat] by simp

lemma unat_lt64: "unat (x :: u64) < 18446744073709551616"
  using unsigned_less [where w = x and 'a = nat] by simp

lemma unat_of_nat32: "n < 4294967296 \<Longrightarrow> unat (of_nat n :: u32) = n"
  by (simp add: unat_of_nat)

section \<open>Lists\<close>

lemma take_drop_length: "n \<le> length xs \<Longrightarrow> length (take m (drop n xs)) = min m (length xs - n)"
  by simp

lemma take_append_take_drop: "take n xs @ take m (drop n xs) = take (n + m) xs"
  by (simp add: take_add)

lemma nth_pad:
  assumes "off + length ys \<le> n"
  shows "i < n \<Longrightarrow>
    (replicate off c @ ys @ replicate (n - off - length ys) c) ! i =
      (if off \<le> i \<and> i < off + length ys then ys ! (i - off) else c)"
  using assms by (auto simp: nth_append)

end
