(* ===== verification/World.thy ===== *)
theory World
  imports Prelude
begin

text \<open>
  The machine the library runs on. The code talks to three things that are not in the
  repository: memory-mapped registers, functions and variables in the chip's ROM, and the
  memory window through which the cache shows the flash. Their behaviour is a parameter of
  the model: a world carries one response function for each, which may answer every request
  differently depending on everything that happened before. What the code does is the
  sequence of events it causes, kept in order in the world's trace.

  The second part holds the register macros of \<open>include/esp-stub-lib/soc_utils.h\<close>, the
  wrappers of \<open>src/rom_wrappers.c\<close> and the polling helpers of
  \<open>src/target/base/include/private/helpers.h\<close>. A busy-wait loop without a bound is a
  \<open>partial_function (option)\<close>: None means that the loop never ends.
\<close>

section \<open>Requests and events\<close>

datatype flash_fn =
    Esp_rom_spiflash_config_param | Esp_rom_spiflash_attach | Esp_rom_spiflash_write
  | Esp_rom_spiflash_write_encrypted | Esp_rom_spiflash_read | Esp_rom_spiflash_erase_chip
  | Esp_rom_spiflash_erase_area | Esp_rom_spiflash_write_enable
  | Esp_rom_spiflash_write_encrypted_enable | Esp_rom_spiflash_write_encrypted_disable
  | Esp_rom_spiflash_unlock | Esp_rom_spi_flash_update_id | Esp_rom_opiflash_exec_cmd
  | Esp_rom_opiflash_mode_reset | Esp_rom_opiflash_cache_mode_config | Spi_cache_mode_switch
  | Spi_common_set_flash_cs_timing | Esp_rom_efuse_get_flash_gpio_info
  | Ets_efuse_flash_octal_mode | Esp_rom_efuse_flash_encryption_enabled
  | Esp8266_rom_spiflash_attach | Esp_rom_spiflash_select_padsfunc | Esp_rom_spiflash_boot_attach
  | Esp_rom_opiflash_exec_cmd_eco nat | Exec_flash_cmd | Esp_rom_spi_set_op_mode
  | Esp_rom_spi_set_address_bit_len | Esp_rom_recover_key

datatype cache_fn =
    Cache_Freeze_ICache_Enable | Cache_Freeze_ICache_Disable | Cache_Freeze_DCache_Enable
  | Cache_Freeze_DCache_Disable | Cache_Invalidate_ICache_All | Cache_Invalidate_DCache_All
  | Cache_WriteBack_All | Cache_Invalidate_Addr | Cache_WriteBack_Addr | ROM_Boot_Cache_Init
  | Cache_Flush_rom | Cache_Read_Disable_rom | Cache_Read_Enable_rom
  | Cache_Suspend_ICache | Cache_Resume_ICache | Cache_Suspend_DCache | Cache_Resume_DCache
  | Cache_Allocate_SRAM | Cache_Set_ICache_Mode | Cache_MMU_Init | Cache_Invalidate_All
  | Cache_Freeze_Enable | Cache_Freeze_Disable | Cache_Enable_L2_Cache
  | Cache_Suspend_L1_CORE0_ICache_Autoload | Cache_Resume_L1_CORE0_ICache_Autoload
  | Cache_Suspend_L1_CORE1_ICache_Autoload | Cache_Resume_L1_CORE1_ICache_Autoload
  | Cache_Suspend_L1_DCache_Autoload | Cache_Resume_L1_DCache_Autoload
  | Cache_Suspend_L2_Cache_Autoload | Cache_Resume_L2_Cache_Autoload
  | Freeze_l1_icache0_enable | Freeze_l1_icache0_disable | Freeze_l1_icache1_enable
  | Freeze_l1_icache1_disable | Freeze_l1_dcache_enable | Freeze_l1_dcache_disable

datatype gpio_fn =
    Esp_rom_gpio_pad_select_gpio | Esp_rom_gpio_connect_out_signal
  | Esp_rom_gpio_connect_in_signal | Gpio_output_enable | Gpio_output_disable
  | Gpio_pad_set_drv | Gpio_pad_input_enable

datatype io_fn =
    Esp_rom_isr_attach | Esp_rom_isr_unmask | Esp_rom_isr_mask | Esp_rom_uart_tx_one_char
  | Esp_rom_uart_rx_one_char | Esp_rom_get_uart_device | Esp_rom_uart_attach
  | Esp_rom_uart_init | Esp_rom_uart_set_as_console | Esp_rom_uart_div_modify
  | Esp_rom_uart_tx_wait_idle | Esp_rom_uart_flush_tx | Ets_install_putc1 | Ets_install_putc2
  | Ets_install_uart_printf | Ets_install_usb_printf | Esp_rom_uart_tx_switch
  | Esp_rom_route_intr_matrix

datatype usb_fn =
    Esp_rom_cdc_acm_fifo_fill | Esp_rom_cdc_acm_fifo_read | Esp_rom_cdc_acm_rx_fifo_cnt
  | Esp_rom_cdc_acm_line_ctrl_get | Esp_rom_cdc_acm_irq_rx_enable
  | Esp_rom_cdc_acm_irq_rx_disable | Esp_rom_cdc_acm_irq_callback_set
  | Esp_rom_cdc_acm_irq_state_enable | Esp_rom_usb_dc_check_poll_for_interrupts
  | Esp_rom_usb_dc_prepare_persist | Esp_rom_chip_usb_set_persist_flags
  | Esp_rom_software_reset_cpu | Esp_rom_usb_dw_isr_handler

datatype sys_fn =
    Ets_delay_us | Crc16_le | Esp_rom_get_xtal_freq | Esp_rom_get_cpu_ticks_per_us
  | Esp_rom_set_cpu_ticks_per_us | Esp_rom_regi2c_write | Esp_rom_regi2c_write_mask
  | GetSecurityInfoProc | Ets_sha_enable | Ets_sha_disable | Ets_sha_init | Ets_sha_update
  | Ets_sha_finish | MD5Init | MD5Update | MD5Final | GetSecurityInfoProcEco1
  | GetSecurityInfoProcEco7 | Mbedtls_md5_starts_ret | Mbedtls_md5_update_ret
  | Mbedtls_md5_finish_ret | Esp_rom_get_detected_xtal_freq | Esp_rom_get_cpu_freq
  | Esp_rom_get_apb_freq | Esp_rom_get_apb_frequency | Rom_i2c_writeReg | Esp_rom_delay_us

datatype sdio_fn =
    Sip_get_ptr | Sip_download_begin | Slc_from_host_chain_fetch | Slc_send_to_host_chain
  | Slc_to_host_chain_recycle | Esp_rom_esprv_intc_int_set_priority

text \<open>The ROM functions the library links against, grouped by subsystem.\<close>

datatype rom_fn =
    FlashFn flash_fn | CacheFn cache_fn | GpioFn gpio_fn | IoFn io_fn | UsbFn usb_fn
  | SysFn sys_fn | SdioFn sdio_fn

text \<open>
  Variables that live in the ROM's data: the fields of \<open>rom_spiflash_legacy_data\<close>, the
  pointer \<open>rom_spiflash_legacy_funcs\<close>, the console flag, the fields of the ROM's UART
  device the library reads, the revision and the pointers to tables of functions. The fields
  of the ESP8266's static \<open>g_rom_flashchip_custom\<close> are cells as well, because the library
  hands out its address in place of the ROM's.
\<close>

datatype rom_var =
    Dummy_len_plus nat | Chip_flash_id | Chip_size | Chip_block_size | Chip_sector_size
  | Chip_page_size | Chip_status_mask | Rom_spiflash_legacy_funcs | G_uart_print
  | Uart_baud_rate | Uart_buff_uart_no | Rom_eco_version | Rom_cache_internal_table_ptr
  | Rom_spi_usr_cmd_legacy_funcs | Custom_flash_id | Custom_chip_size | Custom_block_size
  | Custom_sector_size | Custom_page_size | Custom_status_mask

datatype cell = Mmio u32 | RomVar rom_var

text \<open>Static objects whose address the code hands to hardware; the linker chooses it.\<close>

datatype sym =
    Sym_flash_funcs | Sym_log_buf_write_char | Sym_cdcacm_callback | Sym_usb_isr_wrapper
  | Sym_uart_acm_dev | Sym_dmadesc_tx | Sym_dmadesc_rx | Sym_sha_ctx
  | Sym_sdio_rx_desc | Sym_sdio_tx_desc | Sym_sdio_isr | Sym_rom_usb_dw_isr

text \<open>
  An event: a register or ROM variable read with the value it gave, one written, a ROM call
  with its scalar arguments, the bytes it was handed, its result and the bytes it returned,
  and bulk copies from and to mapped memory.
\<close>

datatype ev =
    Rd cell u32
  | Wr cell u32
  | Call rom_fn "u32 list" "u8 list" u32 "u8 list"
  | Ld u32 "u8 list"
  | St u32 "u8 list"

record world =
  rd_dev :: "ev list \<Rightarrow> cell \<Rightarrow> u32"
  rom_dev :: "ev list \<Rightarrow> rom_fn \<Rightarrow> u32 list \<Rightarrow> u8 list \<Rightarrow> u32 \<times> u8 list"
  mem_dev :: "ev list \<Rightarrow> u32 \<Rightarrow> nat \<Rightarrow> u8 list"
  sym_addr :: "sym \<Rightarrow> u32"
  trace :: "ev list"

definition emit :: "ev \<Rightarrow> 'a world_scheme \<Rightarrow> 'a world_scheme" where
  "emit e w = w\<lparr>trace := trace w @ [e]\<rparr>"

definition peek :: "cell \<Rightarrow> 'a world_scheme \<Rightarrow> u32" where
  "peek c w = rd_dev w (trace w) c"

definition cell_read :: "cell \<Rightarrow> 'a world_scheme \<Rightarrow> u32 \<times> 'a world_scheme" where
  "cell_read c w = (peek c w, emit (Rd c (peek c w)) w)"

definition cell_write :: "cell \<Rightarrow> u32 \<Rightarrow> 'a world_scheme \<Rightarrow> 'a world_scheme" where
  "cell_write c v w = emit (Wr c v) w"

definition rom_call ::
  "rom_fn \<Rightarrow> u32 list \<Rightarrow> u8 list \<Rightarrow> 'a world_scheme \<Rightarrow> (u32 \<times> u8 list) \<times> 'a world_scheme" where
  "rom_call f args data w =
     (let (ret, out) = rom_dev w (trace w) f args data
      in ((ret, out), emit (Call f args data ret out) w))"

text \<open>A ROM function of type void, and one whose result is a number.\<close>

definition rom_void :: "rom_fn \<Rightarrow> u32 list \<Rightarrow> u8 list \<Rightarrow> 'a world_scheme \<Rightarrow> 'a world_scheme" where
  "rom_void f args data w = snd (rom_call f args data w)"

definition rom_num ::
  "rom_fn \<Rightarrow> u32 list \<Rightarrow> u8 list \<Rightarrow> 'a world_scheme \<Rightarrow> u32 \<times> 'a world_scheme" where
  "rom_num f args data w = (let ((ret, out), w) = rom_call f args data w in (ret, w))"

definition mem_load :: "u32 \<Rightarrow> nat \<Rightarrow> 'a world_scheme \<Rightarrow> u8 list \<times> 'a world_scheme" where
  "mem_load a n w = (let bs = mem_dev w (trace w) a n in (bs, emit (Ld a bs) w))"

definition mem_store :: "u32 \<Rightarrow> u8 list \<Rightarrow> 'a world_scheme \<Rightarrow> 'a world_scheme" where
  "mem_store a bs w = emit (St a bs) w"

text \<open>
  A number a ROM function stores through a pointer: four bytes, the least significant first.
  When it stores nothing the variable keeps its value.
\<close>

definition stored_u32 :: "u8 list \<Rightarrow> u32 \<Rightarrow> u32" where
  "stored_u32 out old = (case out of
     [a, b, c, d] \<Rightarrow> ucast a OR push_bit 8 (ucast b) OR push_bit 16 (ucast c) OR push_bit 24 (ucast d) | _ \<Rightarrow> old)"

lemma stored_u32_any: "length out = 4 \<Longrightarrow> stored_u32 out old = stored_u32 out 0"
  by (auto simp: stored_u32_def split: list.splits)

subsection \<open>What the primitives change\<close>

text \<open>
  A world after more events: everything but the trace is as before, component state
  included. \<open>emits P w w'\<close>: w' is w after some events, all of which satisfy P. The rules
  for it compose like the code does, so that what kind of events an operation can cause is
  proved from its parts.
\<close>

definition after :: "'a world_scheme \<Rightarrow> ev list \<Rightarrow> 'a world_scheme" where
  "after w es = w\<lparr>trace := trace w @ es\<rparr>"

definition emits :: "(ev \<Rightarrow> bool) \<Rightarrow> 'a world_scheme \<Rightarrow> 'a world_scheme \<Rightarrow> bool" where
  "emits P w w' \<longleftrightarrow> (\<exists>es. list_all P es \<and> w' = after w es)"

lemma after_fields [simp]:
  "trace (after w es) = trace w @ es" "rd_dev (after w es) = rd_dev w"
  "rom_dev (after w es) = rom_dev w" "mem_dev (after w es) = mem_dev w"
  "sym_addr (after w es) = sym_addr w" "world.more (after w es) = world.more w"
  by (simp_all add: after_def)

lemma after_after [simp]: "after (after w es) fs = after w (es @ fs)"
  by (simp add: after_def)

lemma after_Nil [simp]: "after w [] = w"
  by (simp add: after_def)

lemma emit_after: "emit e w = after w [e]"
  by (simp add: emit_def after_def)

lemma emits_refl [intro]: "emits P w w"
  unfolding emits_def by (rule exI [where x = "[]"]) simp

lemma emits_trans [trans]: "emits P w w' \<Longrightarrow> emits P w' w'' \<Longrightarrow> emits P w w''"
  unfolding emits_def by (metis after_after list_all_append)

lemma emits_mono: "emits P w w' \<Longrightarrow> (\<And>e. P e \<Longrightarrow> Q e) \<Longrightarrow> emits Q w w'"
  unfolding emits_def by (auto simp: list_all_iff)

lemma emits_after: "list_all P es \<Longrightarrow> emits P w (after w es)"
  unfolding emits_def by blast

lemma emits_emit: "P e \<Longrightarrow> emits P w (emit e w)"
  by (simp add: emit_after emits_after)

lemma emitsE:
  assumes "emits P w w'"
  obtains es where "list_all P es" "w' = after w es"
  using assms unfolding emits_def by blast

lemma emit_fields [simp, frames]:
  "trace (emit e w) = trace w @ [e]" "rd_dev (emit e w) = rd_dev w"
  "rom_dev (emit e w) = rom_dev w" "mem_dev (emit e w) = mem_dev w"
  "sym_addr (emit e w) = sym_addr w" "world.more (emit e w) = world.more w"
  by (simp_all add: emit_def)

lemma cell_read_simps [simp]:
  "fst (cell_read c w) = peek c w" "snd (cell_read c w) = emit (Rd c (peek c w)) w"
  by (simp_all add: cell_read_def)

text \<open>What the ROM answers to a call made now.\<close>

definition rom_ret :: "rom_fn \<Rightarrow> u32 list \<Rightarrow> u8 list \<Rightarrow> 'a world_scheme \<Rightarrow> u32" where
  "rom_ret f args data w = fst (rom_dev w (trace w) f args data)"

definition rom_out :: "rom_fn \<Rightarrow> u32 list \<Rightarrow> u8 list \<Rightarrow> 'a world_scheme \<Rightarrow> u8 list" where
  "rom_out f args data w = snd (rom_dev w (trace w) f args data)"

lemma rom_call_eq:
  "rom_call f args data w =
     ((rom_ret f args data w, rom_out f args data w),
      emit (Call f args data (rom_ret f args data w) (rom_out f args data w)) w)"
  by (simp add: rom_call_def rom_ret_def rom_out_def split_beta)

lemma rom_void_eq:
  "rom_void f args data w =
     emit (Call f args data (rom_ret f args data w) (rom_out f args data w)) w"
  by (simp add: rom_void_def rom_call_eq)

lemma rom_num_eq:
  "rom_num f args data w =
     (rom_ret f args data w,
      emit (Call f args data (rom_ret f args data w) (rom_out f args data w)) w)"
  by (simp add: rom_num_def rom_call_eq)

section \<open>The register macros of soc\_utils.h\<close>

definition REG_READ :: "u32 \<Rightarrow> 'a world_scheme \<Rightarrow> u32 \<times> 'a world_scheme" where
  "REG_READ r w = cell_read (Mmio r) w"

definition REG_WRITE :: "u32 \<Rightarrow> u32 \<Rightarrow> 'a world_scheme \<Rightarrow> 'a world_scheme" where
  "REG_WRITE r v w = cell_write (Mmio r) v w"

definition REG_GET_BIT :: "u32 \<Rightarrow> u32 \<Rightarrow> 'a world_scheme \<Rightarrow> u32 \<times> 'a world_scheme" where
  "REG_GET_BIT r b w = (let (v, w) = REG_READ r w in (v AND b, w))"

definition REG_SET_BIT :: "u32 \<Rightarrow> u32 \<Rightarrow> 'a world_scheme \<Rightarrow> 'a world_scheme" where
  "REG_SET_BIT r b w = (let (v, w) = REG_READ r w in REG_WRITE r (v OR b) w)"

definition REG_CLR_BIT :: "u32 \<Rightarrow> u32 \<Rightarrow> 'a world_scheme \<Rightarrow> 'a world_scheme" where
  "REG_CLR_BIT r b w = (let (v, w) = REG_READ r w in REG_WRITE r (v AND NOT b) w)"

text \<open>A field is named by its unshifted mask \<open>_V\<close> and its shift \<open>_S\<close>.\<close>

definition REG_GET_FIELD :: "u32 \<Rightarrow> u32 \<Rightarrow> nat \<Rightarrow> 'a world_scheme \<Rightarrow> u32 \<times> 'a world_scheme" where
  "REG_GET_FIELD r fV fS w = (let (v, w) = REG_READ r w in (drop_bit fS v AND fV, w))"

definition REG_SET_FIELD :: "u32 \<Rightarrow> u32 \<Rightarrow> nat \<Rightarrow> u32 \<Rightarrow> 'a world_scheme \<Rightarrow> 'a world_scheme" where
  "REG_SET_FIELD r fV fS x w =
     (let (v, w) = REG_READ r w
      in REG_WRITE r ((v AND NOT (push_bit fS fV)) OR push_bit fS (x AND fV)) w)"

definition READ_PERI_REG :: "u32 \<Rightarrow> 'a world_scheme \<Rightarrow> u32 \<times> 'a world_scheme" where
  "READ_PERI_REG r w = REG_READ r w"

definition WRITE_PERI_REG :: "u32 \<Rightarrow> u32 \<Rightarrow> 'a world_scheme \<Rightarrow> 'a world_scheme" where
  "WRITE_PERI_REG r v w = REG_WRITE r v w"

definition CLEAR_PERI_REG_MASK :: "u32 \<Rightarrow> u32 \<Rightarrow> 'a world_scheme \<Rightarrow> 'a world_scheme" where
  "CLEAR_PERI_REG_MASK r m w = (let (v, w) = READ_PERI_REG r w in WRITE_PERI_REG r (v AND NOT m) w)"

definition SET_PERI_REG_MASK :: "u32 \<Rightarrow> u32 \<Rightarrow> 'a world_scheme \<Rightarrow> 'a world_scheme" where
  "SET_PERI_REG_MASK r m w = (let (v, w) = READ_PERI_REG r w in WRITE_PERI_REG r (v OR m) w)"

definition SET_PERI_REG_BITS ::
  "u32 \<Rightarrow> u32 \<Rightarrow> u32 \<Rightarrow> nat \<Rightarrow> 'a world_scheme \<Rightarrow> 'a world_scheme" where
  "SET_PERI_REG_BITS r bit_map x s w =
     (let (v, w) = READ_PERI_REG r w
      in WRITE_PERI_REG r ((v AND NOT (push_bit s bit_map)) OR push_bit s (x AND bit_map)) w)"

subsection \<open>Their events\<close>

lemma REG_READ_eq: "REG_READ r w = (peek (Mmio r) w, after w [Rd (Mmio r) (peek (Mmio r) w)])"
  by (simp add: REG_READ_def cell_read_def emit_after)

lemma REG_WRITE_eq: "REG_WRITE r v w = after w [Wr (Mmio r) v]"
  by (simp add: REG_WRITE_def cell_write_def emit_after)

text \<open>A read-modify-write: one read, then one write of a value computed from it.\<close>

lemma rmw_eq:
  "REG_SET_BIT r b w = after w [Rd (Mmio r) (peek (Mmio r) w), Wr (Mmio r) (peek (Mmio r) w OR b)]"
  "REG_CLR_BIT r b w =
     after w [Rd (Mmio r) (peek (Mmio r) w), Wr (Mmio r) (peek (Mmio r) w AND NOT b)]"
  "REG_SET_FIELD r fV fS x w =
     after w [Rd (Mmio r) (peek (Mmio r) w),
       Wr (Mmio r) ((peek (Mmio r) w AND NOT (push_bit fS fV)) OR push_bit fS (x AND fV))]"
  by (simp_all add: REG_SET_BIT_def REG_CLR_BIT_def REG_SET_FIELD_def REG_READ_eq REG_WRITE_eq)

lemma peri_eq:
  "READ_PERI_REG r w = REG_READ r w" "WRITE_PERI_REG r v w = REG_WRITE r v w"
  "SET_PERI_REG_MASK r m w = REG_SET_BIT r m w" "CLEAR_PERI_REG_MASK r m w = REG_CLR_BIT r m w"
  "SET_PERI_REG_BITS r bm x s w = REG_SET_FIELD r bm s x w"
  by (simp_all add: READ_PERI_REG_def WRITE_PERI_REG_def SET_PERI_REG_MASK_def
      CLEAR_PERI_REG_MASK_def SET_PERI_REG_BITS_def REG_SET_BIT_def REG_CLR_BIT_def
      REG_SET_FIELD_def)

lemma REG_GET_eq:
  "REG_GET_BIT r b w = (peek (Mmio r) w AND b, after w [Rd (Mmio r) (peek (Mmio r) w)])"
  "REG_GET_FIELD r fV fS w =
     (drop_bit fS (peek (Mmio r) w) AND fV, after w [Rd (Mmio r) (peek (Mmio r) w)])"
  by (simp_all add: REG_GET_BIT_def REG_GET_FIELD_def REG_READ_eq)

lemma cell_eq:
  "cell_read c w = (peek c w, after w [Rd c (peek c w)])" "cell_write c v w = after w [Wr c v]"
  by (simp_all add: cell_read_def cell_write_def emit_after)

lemma rom_eq:
  "rom_void f args data w =
     after w [Call f args data (rom_ret f args data w) (rom_out f args data w)]"
  "rom_num f args data w = (rom_ret f args data w,
     after w [Call f args data (rom_ret f args data w) (rom_out f args data w)])"
  "rom_call f args data w = ((rom_ret f args data w, rom_out f args data w),
     after w [Call f args data (rom_ret f args data w) (rom_out f args data w)])"
  by (simp_all add: rom_void_eq rom_num_eq rom_call_eq emit_after)

lemma mem_eq:
  "mem_load a n w = (mem_dev w (trace w) a n, after w [Ld a (mem_dev w (trace w) a n)])"
  "mem_store a bs w = after w [St a bs]"
  by (simp_all add: mem_load_def mem_store_def emit_after Let_def)

text \<open>Everything a primitive does, as one bundle of equations.\<close>

lemmas prim_eq = peri_eq REG_READ_eq REG_WRITE_eq rmw_eq REG_GET_eq cell_eq rom_eq mem_eq

subsection \<open>Operations that only add events\<close>

text \<open>Every primitive does, and so does what is made of them.\<close>

definition evs :: "'a world_scheme \<Rightarrow> 'a world_scheme \<Rightarrow> bool" where
  "evs w w' \<longleftrightarrow> emits (\<lambda>_. True) w w'"

lemma evs_refl [evs_rules]: "evs w w"
  by (auto simp: evs_def)

lemma evs_trans: "evs w u \<Longrightarrow> evs u v \<Longrightarrow> evs w v"
  unfolding evs_def by (rule emits_trans)

lemma evs_after: "evs w u \<Longrightarrow> evs w (after u es)"
  unfolding evs_def by (erule emits_trans) (simp add: emits_after list_all_iff)

lemma evs_prims [evs_rules]:
  "evs w u \<Longrightarrow> evs w (emit e u)" "evs w u \<Longrightarrow> evs w (mem_store a bs u)"
  "evs w u \<Longrightarrow> evs w (snd (mem_load a n u))" "evs w u \<Longrightarrow> evs w (snd (rom_call f args d u))"
  "evs w u \<Longrightarrow> evs w (SET_PERI_REG_MASK r v u)" "evs w u \<Longrightarrow> evs w (SET_PERI_REG_BITS r a v n u)"
  "evs w u \<Longrightarrow> evs w (REG_WRITE r v u)" "evs w u \<Longrightarrow> evs w (WRITE_PERI_REG r v u)"
  "evs w u \<Longrightarrow> evs w (REG_SET_BIT r v u)" "evs w u \<Longrightarrow> evs w (REG_CLR_BIT r v u)"
  "evs w u \<Longrightarrow> evs w (CLEAR_PERI_REG_MASK r v u)" "evs w u \<Longrightarrow> evs w (REG_SET_FIELD r a b v u)"
  "evs w u \<Longrightarrow> evs w (cell_write c v u)" "evs w u \<Longrightarrow> evs w (rom_void f args d u)"
  "evs w u \<Longrightarrow> evs w (snd (rom_num f args d u))" "evs w u \<Longrightarrow> evs w (snd (cell_read c u))"
  "evs w u \<Longrightarrow> evs w (snd (REG_READ r u))" "evs w u \<Longrightarrow> evs w (snd (READ_PERI_REG r u))"
  by (simp_all add: prim_eq emit_after evs_after)

section \<open>rom\_wrappers.c and helpers.h\<close>

definition stub_lib_delay_us :: "u32 \<Rightarrow> 'a world_scheme \<Rightarrow> 'a world_scheme" where
  "stub_lib_delay_us us w = rom_void (SysFn Ets_delay_us) [us] [] w"

definition stub_lib_crc16_le ::
  "u16 \<Rightarrow> u8 list \<Rightarrow> u32 \<Rightarrow> 'a world_scheme \<Rightarrow> u16 \<times> 'a world_scheme" where
  "stub_lib_crc16_le crc buf len w =
     (let (r, w) = rom_num (SysFn Crc16_le) [ucast crc, len] (take (unat len) buf) w
      in (ucast r, w))"

text \<open>
  A bare busy-wait \<open>while (P(REG_READ(r))) {}\<close>: None when the register never leaves P.
\<close>

partial_function (option) busy_wait ::
  "u32 \<Rightarrow> (u32 \<Rightarrow> bool) \<Rightarrow> 'a world_scheme \<Rightarrow> 'a world_scheme option" where
  "busy_wait r C w = (let (v, w) = REG_READ r w in if C v then busy_wait r C w else Some w)"

declare busy_wait.simps [code]

text \<open>
  The loop of both helpers: \<open>while ((*timeout_us)--)\<close> with a one microsecond delay and one
  register read per round. The result carries the counter as the caller sees it afterwards.
\<close>

function wait_reg_loop ::
  "(u32 \<Rightarrow> bool) \<Rightarrow> u32 \<Rightarrow> u64 \<Rightarrow> 'a world_scheme \<Rightarrow> rc \<times> u64 \<times> 'a world_scheme" where
  "wait_reg_loop P r t w =
     (if t = 0 then (STUB_LIB_ERR_TIMEOUT, t - 1, w)
      else (let w = stub_lib_delay_us 1 w; (v, w) = REG_READ r w
            in if P v then (STUB_LIB_OK, t - 1, w) else wait_reg_loop P r (t - 1) w))"
  by pat_completeness auto
termination
  by (relation "measure (\<lambda>(P, r, t, w). unat t)") (auto simp: unat_pred_less)

declare wait_reg_loop.simps [simp del]

definition stub_target_wait_reg_state ::
  "u32 \<Rightarrow> u32 \<Rightarrow> u64 option \<Rightarrow> 'a world_scheme \<Rightarrow> rc \<times> u64 option \<times> 'a world_scheme" where
  "stub_target_wait_reg_state r expected timeout_us w =
     (case timeout_us of
        Some t \<Rightarrow>
          if t = 0 then
            (let (v, w) = REG_READ r w
             in (if v = expected then STUB_LIB_OK else STUB_LIB_ERR_TIMEOUT, Some t, w))
          else (let (res, t, w) = wait_reg_loop (\<lambda>v. v = expected) r t w in (res, Some t, w))
      | None \<Rightarrow>
          (let (v, w) = REG_READ r w
           in (if v = expected then STUB_LIB_OK else STUB_LIB_ERR_TIMEOUT, None, w)))"

definition stub_target_wait_reg_bit_set ::
  "u32 \<Rightarrow> u32 \<Rightarrow> u64 option \<Rightarrow> 'a world_scheme \<Rightarrow> rc \<times> u64 option \<times> 'a world_scheme" where
  "stub_target_wait_reg_bit_set r bit_mask timeout_us w =
     (case timeout_us of
        Some t \<Rightarrow>
          if t = 0 then
            (let (v, w) = REG_READ r w
             in (if v AND bit_mask \<noteq> 0 then STUB_LIB_OK else STUB_LIB_ERR_TIMEOUT, Some t, w))
          else (let (res, t, w) = wait_reg_loop (\<lambda>v. v AND bit_mask \<noteq> 0) r t w
                in (res, Some t, w))
      | None \<Rightarrow>
          (let (v, w) = REG_READ r w
           in (if v AND bit_mask \<noteq> 0 then STUB_LIB_OK else STUB_LIB_ERR_TIMEOUT, None, w)))"

subsection \<open>Polling\<close>

lemma stub_lib_delay_us_eq:
  "stub_lib_delay_us us w = after w [Call (SysFn Ets_delay_us) [us] []
     (rom_ret (SysFn Ets_delay_us) [us] [] w) (rom_out (SysFn Ets_delay_us) [us] [] w)]"
  by (simp add: stub_lib_delay_us_def rom_eq)

lemma busy_wait_unfold:
  "busy_wait r P w =
     (if P (peek (Mmio r) w) then busy_wait r P (after w [Rd (Mmio r) (peek (Mmio r) w)])
      else Some (after w [Rd (Mmio r) (peek (Mmio r) w)]))"
  by (subst busy_wait.simps) (simp add: REG_READ_eq)

text \<open>A busy-wait that ends has only read its register, and P failed at the last read.\<close>

lemma busy_wait_result:
  assumes "busy_wait r P w = Some w'"
  shows "emits (\<lambda>e. \<exists>v. e = Rd (Mmio r) v) w w'"
proof (rule busy_wait.raw_induct
    [where P = "\<lambda>r C w w'. emits (\<lambda>e. \<exists>v. e = Rd (Mmio r) v) w w'", OF _ assms])
  fix f :: "u32 \<Rightarrow> (u32 \<Rightarrow> bool) \<Rightarrow> 'a world_scheme \<Rightarrow> 'a world_scheme option" and r P w w'
  assume IH: "\<And>r P w w'. f r P w = Some w' \<Longrightarrow> emits (\<lambda>e. \<exists>v. e = Rd (Mmio r) v) w w'"
    and eq: "(let (v, w) = REG_READ r w in if P v then f r P w else Some w) = Some w'"
  let ?w = "after w [Rd (Mmio r) (peek (Mmio r) w)]"
  have "emits (\<lambda>e. \<exists>v. e = Rd (Mmio r) v) w ?w" by (rule emits_after) simp
  moreover from eq IH have "emits (\<lambda>e. \<exists>v. e = Rd (Mmio r) v) ?w w'"
    by (auto simp: REG_READ_eq split: if_splits)
  ultimately show "emits (\<lambda>e. \<exists>v. e = Rd (Mmio r) v) w w'" by (rule emits_trans)
qed

lemma busy_wait_idle:
  "\<not> P (peek (Mmio r) w) \<Longrightarrow>
     busy_wait r P w = Some (after w [Rd (Mmio r) (peek (Mmio r) w)])"
  by (subst busy_wait_unfold) simp

text \<open>
  A register settles when, whatever happened before, enough reads of it find C false; then a
  busy-wait on it returns.
\<close>

fun reads_of_reg :: "nat \<Rightarrow> u32 \<Rightarrow> 'a world_scheme \<Rightarrow> 'a world_scheme" where
  "reads_of_reg 0 r w = w"
| "reads_of_reg (Suc n) r w = reads_of_reg n r (after w [Rd (Mmio r) (peek (Mmio r) w)])"

definition settles :: "u32 \<Rightarrow> (u32 \<Rightarrow> bool) \<Rightarrow> 'a world_scheme \<Rightarrow> bool" where
  "settles r C w \<longleftrightarrow> (\<forall>es. \<exists>n. \<not> C (peek (Mmio r) (reads_of_reg n r (after w es))))"

lemma settles_after [simp]: "settles r C w \<Longrightarrow> settles r C (after w es)"
  by (auto simp: settles_def)

lemma reads_of_reg_devs: "rd_dev (reads_of_reg n r w) = rd_dev w"
  by (induction n arbitrary: w) simp_all

lemma settles_cong:
  fixes w :: "'a world_scheme" and w' :: "'b world_scheme"
  assumes s: "settles r C w" and d: "rd_dev w' = rd_dev w" and t: "trace w' = trace w @ fs"
  shows "settles r C w'"
  unfolding settles_def
proof
  fix es
  have "trace (reads_of_reg n r u') = trace (reads_of_reg n r u)"
    if "trace u' = trace u" "rd_dev u' = rd_dev u" for n and u :: "'a world_scheme" and u' :: "'b world_scheme"
    using that by (induction n arbitrary: u u') (simp_all add: peek_def)
  from this [of "after w' es" "after w (fs @ es)"]
  have "peek (Mmio r) (reads_of_reg n r (after w' es)) = peek (Mmio r) (reads_of_reg n r (after w (fs @ es)))" for n
    by (simp add: peek_def reads_of_reg_devs d t)
  then show "\<exists>n. \<not> C (peek (Mmio r) (reads_of_reg n r (after w' es)))"
    using s unfolding settles_def by metis
qed

lemma settles_mono: "settles r C w \<Longrightarrow> (\<And>v. D v \<Longrightarrow> C v) \<Longrightarrow> settles r D w"
  by (auto simp: settles_def)

lemma busy_wait_settles:
  assumes "settles r C w"
  obtains es where "busy_wait r C w = Some (after w es)" "list_all (\<lambda>e. \<exists>v. e = Rd (Mmio r) v) es"
proof -
  have "\<exists>w'. busy_wait r C u = Some w'" if "\<not> C (peek (Mmio r) (reads_of_reg n r u))" for n u
    using that
  proof (induction n arbitrary: u)
    case 0
    then show ?case by (simp add: busy_wait_idle)
  next
    case (Suc n)
    then show ?case using busy_wait_unfold [of r C u] by (cases "C (peek (Mmio r) u)") auto
  qed
  then obtain w' where w': "busy_wait r C w = Some w'" using assms unfolding settles_def by (metis after_Nil)
  from busy_wait_result [OF this] show thesis by (elim emitsE) (use w' that in blast)
qed

subsection \<open>Bounded waits\<close>

text \<open>
  What a bounded wait does: it only reads its register and delays. It reports success at the
  first poll that finds what it waits for, and a timeout when as many polls as the bound
  allows have not.
\<close>

definition poll_of :: "u32 \<Rightarrow> ev \<Rightarrow> bool" where
  "poll_of r e \<longleftrightarrow> (case e of Rd c v \<Rightarrow> c = Mmio r | Call f args d ret out \<Rightarrow> f = SysFn Ets_delay_us | _ \<Rightarrow> False)"

definition polled :: "ev list \<Rightarrow> u32 list" where
  "polled es = concat (map (\<lambda>e. case e of Rd c v \<Rightarrow> [v] | _ \<Rightarrow> []) es)"

lemma polled_simps [simp]:
  "polled [] = []" "polled (es @ fs) = polled es @ polled fs" "polled (Rd c v # es) = v # polled es"
  "polled (Call f args d r out # es) = polled es" "polled (Wr c v # es) = polled es"
  by (simp_all add: polled_def)

definition waited :: "(u32 \<Rightarrow> bool) \<Rightarrow> nat \<Rightarrow> rc \<Rightarrow> u32 list \<Rightarrow> bool" where
  "waited P n res vs \<longleftrightarrow>
     (res = STUB_LIB_OK \<and> vs \<noteq> [] \<and> P (last vs) \<and> list_all (\<lambda>v. \<not> P v) (butlast vs) \<and> length vs \<le> n) \<or>
     (res = STUB_LIB_ERR_TIMEOUT \<and> list_all (\<lambda>v. \<not> P v) vs \<and> length vs = n)"

lemma wait_reg_loop_waits:
  "wait_reg_loop P r t w = (res, t', w') \<Longrightarrow>
     \<exists>es. w' = after w es \<and> list_all (poll_of r) es \<and> waited P (unat t) res (polled es)"
proof (induction P r t w arbitrary: w' rule: wait_reg_loop.induct)
  case (1 P r t w)
  let ?w1 = "stub_lib_delay_us 1 w"
  let ?v = "peek (Mmio r) ?w1"
  let ?w2 = "after ?w1 [Rd (Mmio r) ?v]"
  have w2: "\<exists>es. ?w2 = after w es \<and> list_all (poll_of r) es \<and> polled es = [?v]"
    unfolding stub_lib_delay_us_eq after_after by (rule exI, rule conjI, rule refl) (simp add: poll_of_def)
  then obtain es where es: "?w2 = after w es" "list_all (poll_of r) es" "polled es = [?v]" by blast
  show ?case
  proof (cases "t = 0")
    case True
    then have "res = STUB_LIB_ERR_TIMEOUT \<and> w' = w" using 1(2) by (subst (asm) wait_reg_loop.simps) simp
    then show ?thesis using True by (intro exI [of _ "[]"]) (simp add: waited_def)
  next
    case t: False
    then have n: "unat t = Suc (unat (t - 1))" by (simp add: unat_pred unat_gt_0)
    show ?thesis
    proof (cases "P ?v")
      case True
      then have "res = STUB_LIB_OK \<and> w' = ?w2"
        using 1(2) t by (subst (asm) wait_reg_loop.simps) (simp add: REG_READ_eq Let_def)
      then show ?thesis using es True n by (intro exI [of _ es]) (simp add: waited_def)
    next
      case False
      then have "wait_reg_loop P r (t - 1) ?w2 = (res, t', w')"
        using 1(2) t by (subst (asm) wait_reg_loop.simps) (simp add: REG_READ_eq Let_def)
      then obtain fs where "w' = after ?w2 fs" "list_all (poll_of r) fs" "waited P (unat (t - 1)) res (polled fs)"
        using 1(1) [of ?w1 "(?v, ?w2)" ?v ?w2] t False by (auto simp: REG_READ_eq)
      then show ?thesis using es False n
        by (intro exI [of _ "es @ fs"]) (auto simp: waited_def)
    qed
  qed
qed

lemma wait_bit_waits:
  assumes "stub_target_wait_reg_bit_set r m (Some t) w = (res, t', w')"
  obtains es where "w' = after w es" "list_all (poll_of r) es"
    "waited (\<lambda>v. v AND m \<noteq> 0) (max 1 (unat t)) res (polled es)"
proof (cases "t = 0")
  case True
  then have "res = (if peek (Mmio r) w AND m \<noteq> 0 then STUB_LIB_OK else STUB_LIB_ERR_TIMEOUT)"
    "w' = after w [Rd (Mmio r) (peek (Mmio r) w)]"
    using assms by (simp_all add: stub_target_wait_reg_bit_set_def REG_READ_eq)
  then show ?thesis by (intro that [of "[Rd (Mmio r) (peek (Mmio r) w)]"]) (auto simp: poll_of_def waited_def True)
next
  case False
  then obtain t'' where "wait_reg_loop (\<lambda>v. v AND m \<noteq> 0) r t w = (res, t'', w')"
    using assms by (auto simp: stub_target_wait_reg_bit_set_def split: prod.splits)
  moreover have "max 1 (unat t) = unat t" using False unat_gt_0 [of t] by linarith
  ultimately show ?thesis using wait_reg_loop_waits that by metis
qed

end
