(* ===== verification/S3_Regs.thy ===== *)
theory S3_Regs
  imports Prelude
begin

text \<open>
  The register addresses, bit masks and field shifts of the ESP32-S3 build that the modelled
  code uses, each under its C name and with the value its header gives it. A field macro
  \<open>F\<close> comes as its unshifted mask \<open>F_V\<close> and its shift \<open>F_S\<close>. All of them are in the
  collection \<open>regs\<close>.
\<close>

section \<open>flash.h\<close>

definition FLASH_SPI_NUM_INT :: u32 where [regs]: "FLASH_SPI_NUM_INT = 0x0"
definition FLASH_SPI_NUM :: u32 where [regs]: "FLASH_SPI_NUM = 0x1"
definition STUB_FLASH_SECTOR_SIZE :: u32 where [regs]: "STUB_FLASH_SECTOR_SIZE = 0x1000"
definition STUB_FLASH_BLOCK_SIZE :: u32 where [regs]: "STUB_FLASH_BLOCK_SIZE = 0x10000"
definition STUB_FLASH_PAGE_SIZE :: u32 where [regs]: "STUB_FLASH_PAGE_SIZE = 0x100"
definition STUB_FLASH_STATUS_MASK :: u32 where [regs]: "STUB_FLASH_STATUS_MASK = 0xffff"

section \<open>flash\_commands.h\<close>

definition CMD_WREN :: u32 where [regs]: "CMD_WREN = 0x6"
definition CMD_FSTRD4B :: u32 where [regs]: "CMD_FSTRD4B = 0xc"
definition CMD_PROGRAM_PAGE_4B :: u32 where [regs]: "CMD_PROGRAM_PAGE_4B = 0x12"
definition CMD_SECTOR_ERASE_4B :: u32 where [regs]: "CMD_SECTOR_ERASE_4B = 0x21"
definition CMD_LARGE_BLOCK_ERASE_4B :: u32 where [regs]: "CMD_LARGE_BLOCK_ERASE_4B = 0xdc"
definition ESP_ROM_OPIFLASH_SEL_CS0 :: u32 where [regs]: "ESP_ROM_OPIFLASH_SEL_CS0 = 0x1"

section \<open>io\_mux\_reg.h\<close>

definition SPI_CLK_GPIO_NUM :: u32 where [regs]: "SPI_CLK_GPIO_NUM = 0x1e"
definition SPI_Q_GPIO_NUM :: u32 where [regs]: "SPI_Q_GPIO_NUM = 0x1f"
definition SPI_D_GPIO_NUM :: u32 where [regs]: "SPI_D_GPIO_NUM = 0x20"
definition SPI_CS0_GPIO_NUM :: u32 where [regs]: "SPI_CS0_GPIO_NUM = 0x1d"
definition MCU_SEL_M :: u32 where [regs]: "MCU_SEL_M = 0x7000"
definition MCU_SEL_S :: nat where [regs]: "MCU_SEL_S = 12"
definition PERIPHS_IO_MUX_GPIO9_U :: u32 where [regs]: "PERIPHS_IO_MUX_GPIO9_U = 0x60009028"
definition PERIPHS_IO_MUX_GPIO10_U :: u32 where [regs]: "PERIPHS_IO_MUX_GPIO10_U = 0x6000902c"
definition PERIPHS_IO_MUX_GPIO11_U :: u32 where [regs]: "PERIPHS_IO_MUX_GPIO11_U = 0x60009030"
definition PERIPHS_IO_MUX_GPIO12_U :: u32 where [regs]: "PERIPHS_IO_MUX_GPIO12_U = 0x60009034"
definition PERIPHS_IO_MUX_GPIO13_U :: u32 where [regs]: "PERIPHS_IO_MUX_GPIO13_U = 0x60009038"
definition PERIPHS_IO_MUX_GPIO14_U :: u32 where [regs]: "PERIPHS_IO_MUX_GPIO14_U = 0x6000903c"
definition MAX_PAD_GPIO_NUM :: u32 where [regs]: "MAX_PAD_GPIO_NUM = 0x30"

section \<open>spi\_mem\_reg.h\<close>

definition REG_SPI_MEM_BASE :: "u32 \<Rightarrow> u32" where
  [regs]: "REG_SPI_MEM_BASE i = 0x60003000 - i * 0x1000"
definition SPI_MEM_CMD_REG :: "u32 \<Rightarrow> u32" where
  [regs]: "SPI_MEM_CMD_REG i = REG_SPI_MEM_BASE i + 0x0"
definition SPI_MEM_ADDR_REG :: "u32 \<Rightarrow> u32" where
  [regs]: "SPI_MEM_ADDR_REG i = REG_SPI_MEM_BASE i + 0x4"
definition SPI_MEM_RD_STATUS_REG :: "u32 \<Rightarrow> u32" where
  [regs]: "SPI_MEM_RD_STATUS_REG i = REG_SPI_MEM_BASE i + 0x2C"
definition SPI_MEM_CTRL_REG :: "u32 \<Rightarrow> u32" where
  [regs]: "SPI_MEM_CTRL_REG i = REG_SPI_MEM_BASE i + 0x8"
definition SPI_MEM_CTRL2_REG :: "u32 \<Rightarrow> u32" where
  [regs]: "SPI_MEM_CTRL2_REG i = REG_SPI_MEM_BASE i + 0x10"
definition SPI_MEM_CLOCK_REG :: "u32 \<Rightarrow> u32" where
  [regs]: "SPI_MEM_CLOCK_REG i = REG_SPI_MEM_BASE i + 0x14"
definition SPI_MEM_USER_REG :: "u32 \<Rightarrow> u32" where
  [regs]: "SPI_MEM_USER_REG i = REG_SPI_MEM_BASE i + 0x18"
definition SPI_MEM_USER1_REG :: "u32 \<Rightarrow> u32" where
  [regs]: "SPI_MEM_USER1_REG i = REG_SPI_MEM_BASE i + 0x1C"
definition SPI_MEM_USER2_REG :: "u32 \<Rightarrow> u32" where
  [regs]: "SPI_MEM_USER2_REG i = REG_SPI_MEM_BASE i + 0x20"
definition SPI_MEM_MISO_DLEN_REG :: "u32 \<Rightarrow> u32" where
  [regs]: "SPI_MEM_MISO_DLEN_REG i = REG_SPI_MEM_BASE i + 0x28"
definition SPI_MEM_MOSI_DLEN_REG :: "u32 \<Rightarrow> u32" where
  [regs]: "SPI_MEM_MOSI_DLEN_REG i = REG_SPI_MEM_BASE i + 0x24"
definition SPI_MEM_MISC_REG :: "u32 \<Rightarrow> u32" where
  [regs]: "SPI_MEM_MISC_REG i = REG_SPI_MEM_BASE i + 0x34"
definition SPI_MEM_CACHE_FCTRL_REG :: "u32 \<Rightarrow> u32" where
  [regs]: "SPI_MEM_CACHE_FCTRL_REG i = REG_SPI_MEM_BASE i + 0x3C"
definition SPI_MEM_FSM_REG :: "u32 \<Rightarrow> u32" where
  [regs]: "SPI_MEM_FSM_REG i = REG_SPI_MEM_BASE i + 0x54"
definition SPI_MEM_DDR_REG :: "u32 \<Rightarrow> u32" where
  [regs]: "SPI_MEM_DDR_REG i = REG_SPI_MEM_BASE i + 0xE0"
definition SPI_MEM_TIMING_CALI_REG :: "u32 \<Rightarrow> u32" where
  [regs]: "SPI_MEM_TIMING_CALI_REG i = REG_SPI_MEM_BASE i + 0xA8"
definition SPI_MEM_FLASH_RDSR :: u32 where [regs]: "SPI_MEM_FLASH_RDSR = 0x8000000"
definition SPI_MEM_FLASH_SE :: u32 where [regs]: "SPI_MEM_FLASH_SE = 0x1000000"
definition SPI_MEM_FLASH_BE :: u32 where [regs]: "SPI_MEM_FLASH_BE = 0x800000"
definition SPI_MEM_ST :: u32 where [regs]: "SPI_MEM_ST = 0x7"
definition SPI_MEM_ST_V :: u32 where [regs]: "SPI_MEM_ST_V = 0x7"
definition SPI_MEM_ST_S :: nat where [regs]: "SPI_MEM_ST_S = 0"
definition SPI_MEM_CACHE_FLASH_USR_CMD :: u32 where [regs]: "SPI_MEM_CACHE_FLASH_USR_CMD = 0x4"
definition SPI_MEM_CS0_DIS :: u32 where [regs]: "SPI_MEM_CS0_DIS = 0x1"
definition SPI_MEM_CS1_DIS :: u32 where [regs]: "SPI_MEM_CS1_DIS = 0x2"
definition SPI_MEM_WP_REG :: u32 where [regs]: "SPI_MEM_WP_REG = 0x200000"
definition SPI_MEM_RESANDRES :: u32 where [regs]: "SPI_MEM_RESANDRES = 0x8000"
definition SPI_MEM_USR_COMMAND :: u32 where [regs]: "SPI_MEM_USR_COMMAND = 0x80000000"
definition SPI_MEM_USR_COMMAND_BITLEN_V :: u32 where [regs]: "SPI_MEM_USR_COMMAND_BITLEN_V = 0xf"
definition SPI_MEM_USR_COMMAND_BITLEN_S :: nat where [regs]: "SPI_MEM_USR_COMMAND_BITLEN_S = 28"
definition SPI_MEM_USR_MISO_DBITLEN_V :: u32 where [regs]: "SPI_MEM_USR_MISO_DBITLEN_V = 0x3ff"
definition SPI_MEM_USR_MISO_DBITLEN_S :: nat where [regs]: "SPI_MEM_USR_MISO_DBITLEN_S = 0"
definition SPI_MEM_USR_MOSI_DBITLEN_V :: u32 where [regs]: "SPI_MEM_USR_MOSI_DBITLEN_V = 0x3ff"
definition SPI_MEM_USR_MOSI_DBITLEN_S :: nat where [regs]: "SPI_MEM_USR_MOSI_DBITLEN_S = 0"
definition SPI_MEM_CACHE_REQ_EN :: u32 where [regs]: "SPI_MEM_CACHE_REQ_EN = 0x1"
definition SPI_MEM_TIMING_CALI_M :: u32 where [regs]: "SPI_MEM_TIMING_CALI_M = 0x2"
definition SPI_MEM_EXTRA_DUMMY_CYCLELEN_V :: u32 where [regs]: "SPI_MEM_EXTRA_DUMMY_CYCLELEN_V = 0x7"
definition SPI_MEM_EXTRA_DUMMY_CYCLELEN_S :: nat where [regs]: "SPI_MEM_EXTRA_DUMMY_CYCLELEN_S = 2"
definition SPI_MEM_SPI_FMEM_DDR_EN :: u32 where [regs]: "SPI_MEM_SPI_FMEM_DDR_EN = 0x1"
definition SPI_MEM_USR_ADDR_BITLEN_V :: u32 where [regs]: "SPI_MEM_USR_ADDR_BITLEN_V = 0x3f"
definition SPI_MEM_USR_ADDR_BITLEN_S :: nat where [regs]: "SPI_MEM_USR_ADDR_BITLEN_S = 26"

section \<open>cache.h\<close>

definition STUB_CACHE_CAP_HAS_INVALIDATE_ADDR :: u32 where [regs]: "STUB_CACHE_CAP_HAS_INVALIDATE_ADDR = 0x1"

section \<open>ext\_mem\_reg.h\<close>

definition EXTMEM_DCACHE_CTRL_REG :: u32 where [regs]: "EXTMEM_DCACHE_CTRL_REG = 0x600c4000"
definition EXTMEM_DCACHE_ENABLE :: u32 where [regs]: "EXTMEM_DCACHE_ENABLE = 0x1"
definition EXTMEM_DCACHE_CTRL1_REG :: u32 where [regs]: "EXTMEM_DCACHE_CTRL1_REG = 0x600c4004"
definition EXTMEM_DCACHE_SHUT_CORE0_BUS :: u32 where [regs]: "EXTMEM_DCACHE_SHUT_CORE0_BUS = 0x1"

section \<open>hwcrypto\_reg.h\<close>

definition AES_XTS_DESTINATION_REG :: u32 where [regs]: "AES_XTS_DESTINATION_REG = 0x600cc044"
definition AES_XTS_SIZE_REG :: u32 where [regs]: "AES_XTS_SIZE_REG = 0x600cc040"
definition AES_XTS_PLAIN_BASE :: u32 where [regs]: "AES_XTS_PLAIN_BASE = 0x600cc000"
definition AES_XTS_PHYSICAL_ADDR_REG :: u32 where [regs]: "AES_XTS_PHYSICAL_ADDR_REG = 0x600cc048"
definition AES_XTS_TRIGGER_REG :: u32 where [regs]: "AES_XTS_TRIGGER_REG = 0x600cc04c"
definition AES_XTS_STATE_REG :: u32 where [regs]: "AES_XTS_STATE_REG = 0x600cc058"
definition AES_XTS_RELEASE_REG :: u32 where [regs]: "AES_XTS_RELEASE_REG = 0x600cc050"
definition AES_XTS_DESTROY_REG :: u32 where [regs]: "AES_XTS_DESTROY_REG = 0x600cc054"

section \<open>aes\_xts.h\<close>

definition MAX_ENCRYPT_BLOCK :: u32 where [regs]: "MAX_ENCRYPT_BLOCK = 0x40"

section \<open>soc.h\<close>

definition SOC_DROM_LOW :: u32 where [regs]: "SOC_DROM_LOW = 0x3c000000"
definition REG_SPI_BASE :: "u32 \<Rightarrow> u32" where
  [regs]: "REG_SPI_BASE i = 0x60024000 + (i - 2) * 0x1000"
definition SOC_IROM_LOW :: u32 where [regs]: "SOC_IROM_LOW = 0x42000000"
definition SOC_IROM_HIGH :: u32 where [regs]: "SOC_IROM_HIGH = 0x44000000"
definition SOC_DROM_HIGH :: u32 where [regs]: "SOC_DROM_HIGH = 0x3e000000"
definition SOC_IRAM_LOW :: u32 where [regs]: "SOC_IRAM_LOW = 0x40370000"
definition SOC_IRAM_HIGH :: u32 where [regs]: "SOC_IRAM_HIGH = 0x403e0000"
definition SOC_DRAM_LOW :: u32 where [regs]: "SOC_DRAM_LOW = 0x3fc88000"
definition SOC_DRAM_HIGH :: u32 where [regs]: "SOC_DRAM_HIGH = 0x3fd00000"
definition SOC_RTC_IRAM_LOW :: u32 where [regs]: "SOC_RTC_IRAM_LOW = 0x600fe000"
definition SOC_RTC_IRAM_HIGH :: u32 where [regs]: "SOC_RTC_IRAM_HIGH = 0x60100000"
definition SOC_RTC_DRAM_LOW :: u32 where [regs]: "SOC_RTC_DRAM_LOW = 0x600fe000"
definition SOC_RTC_DRAM_HIGH :: u32 where [regs]: "SOC_RTC_DRAM_HIGH = 0x60100000"
definition SOC_RTC_DATA_LOW :: u32 where [regs]: "SOC_RTC_DATA_LOW = 0x50000000"
definition SOC_RTC_DATA_HIGH :: u32 where [regs]: "SOC_RTC_DATA_HIGH = 0x50002000"

section \<open>reg\_base.h\<close>

definition DR_REG_MMU_TABLE :: u32 where [regs]: "DR_REG_MMU_TABLE = 0x600c5000"

section \<open>ext\_mem\_defs.h\<close>

definition SOC_MMU_INVALID :: u32 where [regs]: "SOC_MMU_INVALID = 0x4000"

section \<open>spi\_reg.h\<close>

definition SPI_CMD_REG :: "u32 \<Rightarrow> u32" where
  [regs]: "SPI_CMD_REG i = REG_SPI_BASE i + 0x0"
definition SPI_ADDR_REG :: "u32 \<Rightarrow> u32" where
  [regs]: "SPI_ADDR_REG i = REG_SPI_BASE i + 0x4"
definition SPI_CTRL_REG :: "u32 \<Rightarrow> u32" where
  [regs]: "SPI_CTRL_REG i = REG_SPI_BASE i + 0x8"
definition SPI_CLOCK_REG :: "u32 \<Rightarrow> u32" where
  [regs]: "SPI_CLOCK_REG i = REG_SPI_BASE i + 0xC"
definition SPI_USER_REG :: "u32 \<Rightarrow> u32" where
  [regs]: "SPI_USER_REG i = REG_SPI_BASE i + 0x10"
definition SPI_USER1_REG :: "u32 \<Rightarrow> u32" where
  [regs]: "SPI_USER1_REG i = REG_SPI_BASE i + 0x14"
definition SPI_USER2_REG :: "u32 \<Rightarrow> u32" where
  [regs]: "SPI_USER2_REG i = REG_SPI_BASE i + 0x18"
definition SPI_MS_DLEN_REG :: "u32 \<Rightarrow> u32" where
  [regs]: "SPI_MS_DLEN_REG i = REG_SPI_BASE i + 0x1C"
definition SPI_MISC_REG :: "u32 \<Rightarrow> u32" where
  [regs]: "SPI_MISC_REG i = REG_SPI_BASE i + 0x20"
definition SPI_DIN_MODE_REG :: "u32 \<Rightarrow> u32" where
  [regs]: "SPI_DIN_MODE_REG i = REG_SPI_BASE i + 0x24"
definition SPI_DIN_NUM_REG :: "u32 \<Rightarrow> u32" where
  [regs]: "SPI_DIN_NUM_REG i = REG_SPI_BASE i + 0x28"
definition SPI_DOUT_MODE_REG :: "u32 \<Rightarrow> u32" where
  [regs]: "SPI_DOUT_MODE_REG i = REG_SPI_BASE i + 0x2C"
definition SPI_DMA_CONF_REG :: "u32 \<Rightarrow> u32" where
  [regs]: "SPI_DMA_CONF_REG i = REG_SPI_BASE i + 0x30"
definition SPI_W0_REG :: "u32 \<Rightarrow> u32" where
  [regs]: "SPI_W0_REG i = REG_SPI_BASE i + 0x98"
definition SPI_SLAVE_REG :: "u32 \<Rightarrow> u32" where
  [regs]: "SPI_SLAVE_REG i = REG_SPI_BASE i + 0xE0"
definition SPI_CLK_GATE_REG :: "u32 \<Rightarrow> u32" where
  [regs]: "SPI_CLK_GATE_REG i = REG_SPI_BASE i + 0xE8"
definition SPI_USR :: u32 where [regs]: "SPI_USR = 0x1000000"
definition SPI_UPDATE :: u32 where [regs]: "SPI_UPDATE = 0x800000"
definition SPI_CS_SETUP :: u32 where [regs]: "SPI_CS_SETUP = 0x80"
definition SPI_CS_HOLD :: u32 where [regs]: "SPI_CS_HOLD = 0x40"
definition SPI_DOUTDIN :: u32 where [regs]: "SPI_DOUTDIN = 0x1"
definition SPI_USR_COMMAND :: u32 where [regs]: "SPI_USR_COMMAND = 0x80000000"
definition SPI_USR_ADDR :: u32 where [regs]: "SPI_USR_ADDR = 0x40000000"
definition SPI_USR_MOSI :: u32 where [regs]: "SPI_USR_MOSI = 0x8000000"
definition SPI_USR_MISO :: u32 where [regs]: "SPI_USR_MISO = 0x10000000"
definition SPI_USR_COMMAND_BITLEN_V :: u32 where [regs]: "SPI_USR_COMMAND_BITLEN_V = 0xf"
definition SPI_USR_COMMAND_BITLEN_S :: nat where [regs]: "SPI_USR_COMMAND_BITLEN_S = 28"
definition SPI_USR_ADDR_BITLEN_V :: u32 where [regs]: "SPI_USR_ADDR_BITLEN_V = 0x1f"
definition SPI_USR_ADDR_BITLEN_S :: nat where [regs]: "SPI_USR_ADDR_BITLEN_S = 27"
definition SPI_BUF_AFIFO_RST :: u32 where [regs]: "SPI_BUF_AFIFO_RST = 0x40000000"
definition SPI_RX_AFIFO_RST :: u32 where [regs]: "SPI_RX_AFIFO_RST = 0x20000000"
definition SPI_CLK_EN :: u32 where [regs]: "SPI_CLK_EN = 0x1"
definition SPI_MST_CLK_ACTIVE :: u32 where [regs]: "SPI_MST_CLK_ACTIVE = 0x2"
definition SPI_MST_CLK_SEL :: u32 where [regs]: "SPI_MST_CLK_SEL = 0x4"
definition SPI_WP_POL :: u32 where [regs]: "SPI_WP_POL = 0x200000"
definition SPI_HOLD_POL :: u32 where [regs]: "SPI_HOLD_POL = 0x100000"
definition SPI_CLKCNT_N_S :: nat where [regs]: "SPI_CLKCNT_N_S = 12"
definition SPI_CLKCNT_L_S :: nat where [regs]: "SPI_CLKCNT_L_S = 0"
definition SPI_CS_SETUP_TIME_V :: u32 where [regs]: "SPI_CS_SETUP_TIME_V = 0x1f"
definition SPI_CS_SETUP_TIME_S :: nat where [regs]: "SPI_CS_SETUP_TIME_S = 17"
definition SPI_CS_HOLD_TIME_V :: u32 where [regs]: "SPI_CS_HOLD_TIME_V = 0x1f"
definition SPI_CS_HOLD_TIME_S :: nat where [regs]: "SPI_CS_HOLD_TIME_S = 22"
definition SPI_W1_REG :: "u32 \<Rightarrow> u32" where
  [regs]: "SPI_W1_REG i = REG_SPI_BASE i + 0x9C"
definition SPI_W2_REG :: "u32 \<Rightarrow> u32" where
  [regs]: "SPI_W2_REG i = REG_SPI_BASE i + 0xA0"
definition SPI_W3_REG :: "u32 \<Rightarrow> u32" where
  [regs]: "SPI_W3_REG i = REG_SPI_BASE i + 0xA4"
definition SPI_DMA_INT_ENA_REG :: "u32 \<Rightarrow> u32" where
  [regs]: "SPI_DMA_INT_ENA_REG i = REG_SPI_BASE i + 0x34"
definition SPI_DMA_INT_RAW_REG :: "u32 \<Rightarrow> u32" where
  [regs]: "SPI_DMA_INT_RAW_REG i = REG_SPI_BASE i + 0x3C"
definition SPI_DMA_INT_CLR_REG :: "u32 \<Rightarrow> u32" where
  [regs]: "SPI_DMA_INT_CLR_REG i = REG_SPI_BASE i + 0x38"
definition SPI_SLAVE1_REG :: "u32 \<Rightarrow> u32" where
  [regs]: "SPI_SLAVE1_REG i = REG_SPI_BASE i + 0xE4"
definition SPI_SLAVE_MODE :: u32 where [regs]: "SPI_SLAVE_MODE = 0x4000000"
definition SPI_SLV_DATA_BITLEN :: u32 where [regs]: "SPI_SLV_DATA_BITLEN = 0x3ffff"
definition SPI_SLV_WR_DMA_DONE_INT_RAW :: u32 where [regs]: "SPI_SLV_WR_DMA_DONE_INT_RAW = 0x200"
definition SPI_SLV_WR_DMA_DONE_INT_CLR :: u32 where [regs]: "SPI_SLV_WR_DMA_DONE_INT_CLR = 0x200"
definition SPI_SLV_RD_DMA_DONE_INT_RAW :: u32 where [regs]: "SPI_SLV_RD_DMA_DONE_INT_RAW = 0x100"
definition SPI_SLV_RD_DMA_DONE_INT_CLR :: u32 where [regs]: "SPI_SLV_RD_DMA_DONE_INT_CLR = 0x100"
definition SPI_DMA_AFIFO_RST :: u32 where [regs]: "SPI_DMA_AFIFO_RST = 0x80000000"
definition SPI_DMA_RX_ENA :: u32 where [regs]: "SPI_DMA_RX_ENA = 0x8000000"
definition SPI_DMA_TX_ENA :: u32 where [regs]: "SPI_DMA_TX_ENA = 0x10000000"

section \<open>system\_reg.h\<close>

definition SYSTEM_PERIP_CLK_EN0_REG :: u32 where [regs]: "SYSTEM_PERIP_CLK_EN0_REG = 0x600c0018"
definition SYSTEM_SPI2_CLK_EN :: u32 where [regs]: "SYSTEM_SPI2_CLK_EN = 0x40"
definition SYSTEM_PERIP_RST_EN0_REG :: u32 where [regs]: "SYSTEM_PERIP_RST_EN0_REG = 0x600c0020"
definition SYSTEM_SPI2_RST :: u32 where [regs]: "SYSTEM_SPI2_RST = 0x40"
definition SYSTEM_CPU_PER_CONF_REG :: u32 where [regs]: "SYSTEM_CPU_PER_CONF_REG = 0x600c0010"
definition SYSTEM_PLL_FREQ_SEL_V :: u32 where [regs]: "SYSTEM_PLL_FREQ_SEL_V = 0x1"
definition SYSTEM_PLL_FREQ_SEL_S :: nat where [regs]: "SYSTEM_PLL_FREQ_SEL_S = 2"
definition SYSTEM_SYSCLK_CONF_REG :: u32 where [regs]: "SYSTEM_SYSCLK_CONF_REG = 0x600c0060"
definition SYSTEM_SOC_CLK_SEL_V :: u32 where [regs]: "SYSTEM_SOC_CLK_SEL_V = 0x3"
definition SYSTEM_SOC_CLK_SEL_S :: nat where [regs]: "SYSTEM_SOC_CLK_SEL_S = 10"
definition SYSTEM_CPUPERIOD_SEL_V :: u32 where [regs]: "SYSTEM_CPUPERIOD_SEL_V = 0x3"
definition SYSTEM_CPUPERIOD_SEL_S :: nat where [regs]: "SYSTEM_CPUPERIOD_SEL_S = 0"
definition SYSTEM_PRE_DIV_CNT_V :: u32 where [regs]: "SYSTEM_PRE_DIV_CNT_V = 0x3ff"
definition SYSTEM_PRE_DIV_CNT_S :: nat where [regs]: "SYSTEM_PRE_DIV_CNT_S = 0"

section \<open>gpio\_sig\_map.h\<close>

definition FSPICLK_OUT_IDX :: u32 where [regs]: "FSPICLK_OUT_IDX = 0x65"
definition FSPID_OUT_IDX :: u32 where [regs]: "FSPID_OUT_IDX = 0x67"
definition FSPICS0_OUT_IDX :: u32 where [regs]: "FSPICS0_OUT_IDX = 0x6e"
definition FSPIQ_IN_IDX :: u32 where [regs]: "FSPIQ_IN_IDX = 0x66"
definition FSPIHD_OUT_IDX :: u32 where [regs]: "FSPIHD_OUT_IDX = 0x68"
definition FSPIWP_OUT_IDX :: u32 where [regs]: "FSPIWP_OUT_IDX = 0x69"

section \<open>gdma\_reg.h\<close>

definition GDMA_IN_CONF0_CH0_REG :: u32 where [regs]: "GDMA_IN_CONF0_CH0_REG = 0x6003f000"
definition GDMA_IN_RST_CH0 :: u32 where [regs]: "GDMA_IN_RST_CH0 = 0x1"
definition GDMA_IN_LINK_CH0_REG :: u32 where [regs]: "GDMA_IN_LINK_CH0_REG = 0x6003f020"
definition GDMA_INLINK_ADDR_CH0 :: u32 where [regs]: "GDMA_INLINK_ADDR_CH0 = 0xfffff"
definition GDMA_IN_INT_CLR_CH0_REG :: u32 where [regs]: "GDMA_IN_INT_CLR_CH0_REG = 0x6003f014"
definition GDMA_INFIFO_UDF_L1_CH0_INT_CLR :: u32 where [regs]: "GDMA_INFIFO_UDF_L1_CH0_INT_CLR = 0x80"
definition GDMA_INLINK_START_CH0 :: u32 where [regs]: "GDMA_INLINK_START_CH0 = 0x400000"
definition GDMA_IN_INT_RAW_CH0_REG :: u32 where [regs]: "GDMA_IN_INT_RAW_CH0_REG = 0x6003f008"
definition GDMA_IN_SUC_EOF_CH0_INT_RAW :: u32 where [regs]: "GDMA_IN_SUC_EOF_CH0_INT_RAW = 0x2"
definition GDMA_IN_SUC_EOF_CH0_INT_CLR :: u32 where [regs]: "GDMA_IN_SUC_EOF_CH0_INT_CLR = 0x2"
definition GDMA_OUT_CONF0_CH0_REG :: u32 where [regs]: "GDMA_OUT_CONF0_CH0_REG = 0x6003f060"
definition GDMA_OUT_RST_CH0 :: u32 where [regs]: "GDMA_OUT_RST_CH0 = 0x1"
definition GDMA_OUT_LINK_CH0_REG :: u32 where [regs]: "GDMA_OUT_LINK_CH0_REG = 0x6003f080"
definition GDMA_OUTLINK_START_CH0 :: u32 where [regs]: "GDMA_OUTLINK_START_CH0 = 0x200000"
definition GDMA_OUT_INT_RAW_CH0_REG :: u32 where [regs]: "GDMA_OUT_INT_RAW_CH0_REG = 0x6003f068"
definition GDMA_OUT_DONE_CH0_INT_RAW :: u32 where [regs]: "GDMA_OUT_DONE_CH0_INT_RAW = 0x1"
definition GDMA_OUT_INT_CLR_CH0_REG :: u32 where [regs]: "GDMA_OUT_INT_CLR_CH0_REG = 0x6003f074"
definition GDMA_OUT_DONE_CH0_INT_CLR :: u32 where [regs]: "GDMA_OUT_DONE_CH0_INT_CLR = 0x1"

section \<open>spi\_slave\_protocol.h\<close>

definition SPI_SLV_STA_TOGGLE :: u32 where [regs]: "SPI_SLV_STA_TOGGLE = 0x1"
definition SPI_SLV_STA_INIT :: u32 where [regs]: "SPI_SLV_STA_INIT = 0x2"
definition SPI_SLV_STA_LEN_SHIFT :: nat where [regs]: "SPI_SLV_STA_LEN_SHIFT = 2"
definition SPI_SLV_STATE_INIT :: u32 where [regs]: "SPI_SLV_STATE_INIT = 0x3"
definition SPI_SLV_CMD_IDLE :: u32 where [regs]: "SPI_SLV_CMD_IDLE = 0xaa"
definition SPI_SLV_CMD_READY :: u32 where [regs]: "SPI_SLV_CMD_READY = 0xa5"
definition SPI_SLV_CMD_DONE :: u32 where [regs]: "SPI_SLV_CMD_DONE = 0x55"
definition SPI_SLV_TX_TIMEOUT_US :: u32 where [regs]: "SPI_SLV_TX_TIMEOUT_US = 0xf4240"
definition SPI_SLV_DMA_DONE_TIMEOUT_US :: u32 where [regs]: "SPI_SLV_DMA_DONE_TIMEOUT_US = 0x186a0"
definition LLDESC_SPI_MAX_BUFFER_SIZE :: u32 where [regs]: "LLDESC_SPI_MAX_BUFFER_SIZE = 0xffc"
definition LLDESC_SPI_SIZE_MASK :: u32 where [regs]: "LLDESC_SPI_SIZE_MASK = 0xfff"
definition SPI_SLV_RX_DESC_COUNT :: u32 where [regs]: "SPI_SLV_RX_DESC_COUNT = 0x5"
definition SPI_SLV_RX_MAX_LEN :: u32 where [regs]: "SPI_SLV_RX_MAX_LEN = 0x4fec"

section \<open>interrupt\_core0\_reg.h\<close>

definition INTERRUPT_CORE0_USB_INTR_MAP_REG :: u32 where [regs]: "INTERRUPT_CORE0_USB_INTR_MAP_REG = 0x600c2098"
definition INTERRUPT_CORE0_USB_DEVICE_INT_MAP_REG :: u32 where [regs]: "INTERRUPT_CORE0_USB_DEVICE_INT_MAP_REG = 0x600c2180"

section \<open>usb\_reg.h\<close>

definition USB_GAHBCFG_REG :: u32 where [regs]: "USB_GAHBCFG_REG = 0x60080008"
definition USB_GLBLLNTRMSK :: u32 where [regs]: "USB_GLBLLNTRMSK = 0x1"

section \<open>rtc\_cntl\_reg.h\<close>

definition RTC_CNTL_OPTION1_REG :: u32 where [regs]: "RTC_CNTL_OPTION1_REG = 0x6000812c"
definition RTC_CNTL_FORCE_DOWNLOAD_BOOT :: u32 where [regs]: "RTC_CNTL_FORCE_DOWNLOAD_BOOT = 0x1"
definition RTC_CNTL_OPTIONS0_REG :: u32 where [regs]: "RTC_CNTL_OPTIONS0_REG = 0x60008000"
definition RTC_CNTL_BB_I2C_FORCE_PD :: u32 where [regs]: "RTC_CNTL_BB_I2C_FORCE_PD = 0x40"
definition RTC_CNTL_BBPLL_FORCE_PD :: u32 where [regs]: "RTC_CNTL_BBPLL_FORCE_PD = 0x400"
definition RTC_CNTL_BBPLL_I2C_FORCE_PD :: u32 where [regs]: "RTC_CNTL_BBPLL_I2C_FORCE_PD = 0x100"
definition RTC_CNTL_DATE_REG :: u32 where [regs]: "RTC_CNTL_DATE_REG = 0x600081fc"
definition RTC_CNTL_SLAVE_PD_V :: u32 where [regs]: "RTC_CNTL_SLAVE_PD_V = 0x3f"
definition RTC_CNTL_SLAVE_PD_S :: nat where [regs]: "RTC_CNTL_SLAVE_PD_S = 13"
definition RTC_CNTL_INT_CLR_REG :: u32 where [regs]: "RTC_CNTL_INT_CLR_REG = 0x6000804c"
definition RTC_CNTL_WDT_INT_CLR :: u32 where [regs]: "RTC_CNTL_WDT_INT_CLR = 0x8"
definition RTC_CNTL_WDTWPROTECT_REG :: u32 where [regs]: "RTC_CNTL_WDTWPROTECT_REG = 0x600080b0"
definition RTC_CNTL_WDTCONFIG0_REG :: u32 where [regs]: "RTC_CNTL_WDTCONFIG0_REG = 0x60008098"
definition RTC_CNTL_SWD_INT_CLR :: u32 where [regs]: "RTC_CNTL_SWD_INT_CLR = 0x8000"
definition RTC_CNTL_SWD_WPROTECT_REG :: u32 where [regs]: "RTC_CNTL_SWD_WPROTECT_REG = 0x600080b8"
definition RTC_CNTL_SWD_CONF_REG :: u32 where [regs]: "RTC_CNTL_SWD_CONF_REG = 0x600080b4"
definition RTC_CNTL_SWD_AUTO_FEED_EN :: u32 where [regs]: "RTC_CNTL_SWD_AUTO_FEED_EN = 0x80000000"

section \<open>esp\_rom\_caps.h\<close>

definition ESP_ROM_USB_OTG_NUM :: u32 where [regs]: "ESP_ROM_USB_OTG_NUM = 0x3"
definition ESP_ROM_USB_SERIAL_DEVICE_NUM :: u32 where [regs]: "ESP_ROM_USB_SERIAL_DEVICE_NUM = 0x4"

section \<open>usb\_serial\_jtag\_reg.h\<close>

definition USB_SERIAL_JTAG_INT_ST_REG :: u32 where [regs]: "USB_SERIAL_JTAG_INT_ST_REG = 0x6003800c"
definition USB_SERIAL_JTAG_INT_CLR_REG :: u32 where [regs]: "USB_SERIAL_JTAG_INT_CLR_REG = 0x60038014"
definition USB_SERIAL_JTAG_INT_ENA_REG :: u32 where [regs]: "USB_SERIAL_JTAG_INT_ENA_REG = 0x60038010"
definition USB_SERIAL_JTAG_EP1_CONF_REG :: u32 where [regs]: "USB_SERIAL_JTAG_EP1_CONF_REG = 0x60038004"
definition USB_SERIAL_JTAG_SERIAL_OUT_EP_DATA_AVAIL :: u32 where [regs]: "USB_SERIAL_JTAG_SERIAL_OUT_EP_DATA_AVAIL = 0x4"
definition USB_SERIAL_JTAG_EP1_REG :: u32 where [regs]: "USB_SERIAL_JTAG_EP1_REG = 0x60038000"
definition USB_SERIAL_JTAG_SERIAL_IN_EP_DATA_FREE :: u32 where [regs]: "USB_SERIAL_JTAG_SERIAL_IN_EP_DATA_FREE = 0x2"
definition USB_SERIAL_JTAG_WR_DONE :: u32 where [regs]: "USB_SERIAL_JTAG_WR_DONE = 0x1"

section \<open>uart\_reg.h\<close>

definition REG_UART_BASE :: "u32 \<Rightarrow> u32" where
  [regs]: "REG_UART_BASE i = 0x60000000 + i * 0x10000 + (if i > 1 then 0xe000 else 0)"
definition UART_INT_CLR_REG :: "u32 \<Rightarrow> u32" where
  [regs]: "UART_INT_CLR_REG i = REG_UART_BASE i + 0x10"
definition UART_INT_ENA_REG :: "u32 \<Rightarrow> u32" where
  [regs]: "UART_INT_ENA_REG i = REG_UART_BASE i + 0xc"
definition UART_INT_ST_REG :: "u32 \<Rightarrow> u32" where
  [regs]: "UART_INT_ST_REG i = REG_UART_BASE i + 0x8"
definition UART_STATUS_REG :: "u32 \<Rightarrow> u32" where
  [regs]: "UART_STATUS_REG i = REG_UART_BASE i + 0x1c"
definition UART_RXFIFO_CNT_S :: nat where [regs]: "UART_RXFIFO_CNT_S = 0"
definition UART_RXFIFO_CNT_V :: u32 where [regs]: "UART_RXFIFO_CNT_V = 0x3ff"
definition UART_FIFO_REG :: "u32 \<Rightarrow> u32" where
  [regs]: "UART_FIFO_REG i = REG_UART_BASE i + 0x0"
definition UART_RXFIFO_RD_BYTE_V :: u32 where [regs]: "UART_RXFIFO_RD_BYTE_V = 0xff"
definition UART_CONF1_REG :: "u32 \<Rightarrow> u32" where
  [regs]: "UART_CONF1_REG i = REG_UART_BASE i + 0x24"
definition UART_RXFIFO_FULL_THRHD_V :: u32 where [regs]: "UART_RXFIFO_FULL_THRHD_V = 0x3ff"
definition UART_RXFIFO_FULL_THRHD_S :: nat where [regs]: "UART_RXFIFO_FULL_THRHD_S = 0"
definition UART_MEM_CONF_REG :: "u32 \<Rightarrow> u32" where
  [regs]: "UART_MEM_CONF_REG i = REG_UART_BASE i + 0x60"
definition UART_RX_TOUT_THRHD_V :: u32 where [regs]: "UART_RX_TOUT_THRHD_V = 0x3ff"
definition UART_RX_TOUT_THRHD_S :: nat where [regs]: "UART_RX_TOUT_THRHD_S = 17"
definition UART_RX_TOUT_EN_V :: u32 where [regs]: "UART_RX_TOUT_EN_V = 0x1"
definition UART_RX_TOUT_EN_S :: nat where [regs]: "UART_RX_TOUT_EN_S = 23"

section \<open>efuse\_reg.h\<close>

definition EFUSE_RD_SYS_PART1_DATA4_REG :: u32 where [regs]: "EFUSE_RD_SYS_PART1_DATA4_REG = 0x6000706c"
definition EFUSE_BLK_VERSION_MAJOR_V :: u32 where [regs]: "EFUSE_BLK_VERSION_MAJOR_V = 0x3"
definition EFUSE_BLK_VERSION_MAJOR_S :: nat where [regs]: "EFUSE_BLK_VERSION_MAJOR_S = 0"
definition EFUSE_RD_MAC_SPI_SYS_3_REG :: u32 where [regs]: "EFUSE_RD_MAC_SPI_SYS_3_REG = 0x60007050"
definition EFUSE_BLK_VERSION_MINOR_V :: u32 where [regs]: "EFUSE_BLK_VERSION_MINOR_V = 0x7"
definition EFUSE_BLK_VERSION_MINOR_S :: nat where [regs]: "EFUSE_BLK_VERSION_MINOR_S = 24"
definition EFUSE_RD_MAC_SPI_SYS_4_REG :: u32 where [regs]: "EFUSE_RD_MAC_SPI_SYS_4_REG = 0x60007054"
definition EFUSE_K_RTC_LDO_V :: u32 where [regs]: "EFUSE_K_RTC_LDO_V = 0x7f"
definition EFUSE_K_RTC_LDO_S :: nat where [regs]: "EFUSE_K_RTC_LDO_S = 13"
definition EFUSE_K_DIG_LDO_V :: u32 where [regs]: "EFUSE_K_DIG_LDO_V = 0x7f"
definition EFUSE_K_DIG_LDO_S :: nat where [regs]: "EFUSE_K_DIG_LDO_S = 20"
definition EFUSE_V_RTC_DBIAS20_V :: u32 where [regs]: "EFUSE_V_RTC_DBIAS20_V = 0x1f"
definition EFUSE_V_RTC_DBIAS20_S :: nat where [regs]: "EFUSE_V_RTC_DBIAS20_S = 27"
definition EFUSE_RD_MAC_SPI_SYS_5_REG :: u32 where [regs]: "EFUSE_RD_MAC_SPI_SYS_5_REG = 0x60007058"
definition EFUSE_V_RTC_DBIAS20_1_V :: u32 where [regs]: "EFUSE_V_RTC_DBIAS20_1_V = 0x7"
definition EFUSE_V_RTC_DBIAS20_1_S :: nat where [regs]: "EFUSE_V_RTC_DBIAS20_1_S = 0"
definition EFUSE_V_DIG_DBIAS20_V :: u32 where [regs]: "EFUSE_V_DIG_DBIAS20_V = 0xff"
definition EFUSE_V_DIG_DBIAS20_S :: nat where [regs]: "EFUSE_V_DIG_DBIAS20_S = 3"
definition EFUSE_DIG_DBIAS_HVT_V :: u32 where [regs]: "EFUSE_DIG_DBIAS_HVT_V = 0x1f"
definition EFUSE_DIG_DBIAS_HVT_S :: nat where [regs]: "EFUSE_DIG_DBIAS_HVT_S = 11"

section \<open>regi2c\_dig\_reg.h\<close>

definition I2C_DIG_REG :: u32 where [regs]: "I2C_DIG_REG = 0x6d"
definition I2C_DIG_REG_HOSTID :: u32 where [regs]: "I2C_DIG_REG_HOSTID = 0x1"
definition I2C_DIG_REG_EXT_RTC_DREG :: u32 where [regs]: "I2C_DIG_REG_EXT_RTC_DREG = 0x4"
definition I2C_DIG_REG_EXT_RTC_DREG_MSB :: u32 where [regs]: "I2C_DIG_REG_EXT_RTC_DREG_MSB = 0x4"
definition I2C_DIG_REG_EXT_RTC_DREG_LSB :: u32 where [regs]: "I2C_DIG_REG_EXT_RTC_DREG_LSB = 0x0"
definition I2C_DIG_REG_EXT_DIG_DREG :: u32 where [regs]: "I2C_DIG_REG_EXT_DIG_DREG = 0x6"
definition I2C_DIG_REG_EXT_DIG_DREG_MSB :: u32 where [regs]: "I2C_DIG_REG_EXT_DIG_DREG_MSB = 0x4"
definition I2C_DIG_REG_EXT_DIG_DREG_LSB :: u32 where [regs]: "I2C_DIG_REG_EXT_DIG_DREG_LSB = 0x0"

section \<open>regi2c\_defs.h\<close>

definition I2C_MST_ANA_CONF0_REG :: u32 where [regs]: "I2C_MST_ANA_CONF0_REG = 0x6000e040"
definition I2C_MST_BBPLL_STOP_FORCE_HIGH :: u32 where [regs]: "I2C_MST_BBPLL_STOP_FORCE_HIGH = 0x4"
definition I2C_MST_BBPLL_STOP_FORCE_LOW :: u32 where [regs]: "I2C_MST_BBPLL_STOP_FORCE_LOW = 0x8"
definition I2C_MST_BBPLL_CAL_DONE :: u32 where [regs]: "I2C_MST_BBPLL_CAL_DONE = 0x1000000"

section \<open>regi2c\_bbpll.h\<close>

definition I2C_BBPLL :: u32 where [regs]: "I2C_BBPLL = 0x66"
definition I2C_BBPLL_HOSTID :: u32 where [regs]: "I2C_BBPLL_HOSTID = 0x1"
definition I2C_BBPLL_MODE_HF :: u32 where [regs]: "I2C_BBPLL_MODE_HF = 0x4"
definition I2C_BBPLL_OC_REF_DIV :: u32 where [regs]: "I2C_BBPLL_OC_REF_DIV = 0x2"
definition I2C_BBPLL_OC_DCHGP_LSB :: u32 where [regs]: "I2C_BBPLL_OC_DCHGP_LSB = 0x4"
definition I2C_BBPLL_OC_DIV_7_0 :: u32 where [regs]: "I2C_BBPLL_OC_DIV_7_0 = 0x3"
definition I2C_BBPLL_OC_DR1 :: u32 where [regs]: "I2C_BBPLL_OC_DR1 = 0x5"
definition I2C_BBPLL_OC_DR1_MSB :: u32 where [regs]: "I2C_BBPLL_OC_DR1_MSB = 0x2"
definition I2C_BBPLL_OC_DR1_LSB :: u32 where [regs]: "I2C_BBPLL_OC_DR1_LSB = 0x0"
definition I2C_BBPLL_OC_DR3 :: u32 where [regs]: "I2C_BBPLL_OC_DR3 = 0x5"
definition I2C_BBPLL_OC_DR3_MSB :: u32 where [regs]: "I2C_BBPLL_OC_DR3_MSB = 0x6"
definition I2C_BBPLL_OC_DR3_LSB :: u32 where [regs]: "I2C_BBPLL_OC_DR3_LSB = 0x4"
definition I2C_BBPLL_OC_DCUR :: u32 where [regs]: "I2C_BBPLL_OC_DCUR = 0x6"
definition I2C_BBPLL_OC_DLREF_SEL_LSB :: u32 where [regs]: "I2C_BBPLL_OC_DLREF_SEL_LSB = 0x6"
definition I2C_BBPLL_OC_DHREF_SEL_LSB :: u32 where [regs]: "I2C_BBPLL_OC_DHREF_SEL_LSB = 0x4"
definition I2C_BBPLL_OC_VCO_DBIAS :: u32 where [regs]: "I2C_BBPLL_OC_VCO_DBIAS = 0x9"
definition I2C_BBPLL_OC_VCO_DBIAS_MSB :: u32 where [regs]: "I2C_BBPLL_OC_VCO_DBIAS_MSB = 0x1"
definition I2C_BBPLL_OC_VCO_DBIAS_LSB :: u32 where [regs]: "I2C_BBPLL_OC_VCO_DBIAS_LSB = 0x0"

section \<open>clock.h\<close>

definition MHZ :: u32 where [regs]: "MHZ = 0xf4240"

end
