(* ===== verification/Flash_Target.thy ===== *)
theory Flash_Target
  imports World S3_Regs
begin

text \<open>
  The internal flash interface (\<open>src/target/base/include/target/flash.h\<close>, \<open>aes_xts.h\<close>)
  and the generic implementations of \<open>src/target/common/src/flash.c\<close>.

  The library calls its target through link-time symbols \<open>stub_target_*\<close>: a weak generic
  function, or the chip's strong one. The record \<open>flash_target\<close> is that link: one field per
  symbol, so a linked program is a value of the record, and the code above it takes the
  record as an argument. A generic function that calls other symbols takes them as
  arguments, because the linker may bind them to a chip's own functions.
\<close>

section \<open>Types of the interface\<close>

datatype attach_policy = STUB_LIB_FLASH_ATTACH_ALWAYS | STUB_LIB_FLASH_ATTACH_IF_NEEDED

datatype spi_flash_mode =
    SPI_FLASH_QIO_MODE | SPI_FLASH_QOUT_MODE | SPI_FLASH_DIO_MODE | SPI_FLASH_DOUT_MODE
  | SPI_FLASH_FASTRD_MODE | SPI_FLASH_SLOWRD_MODE | SPI_FLASH_OPI_STR_MODE
  | SPI_FLASH_OPI_DTR_MODE | SPI_FLASH_OOUT_MODE | SPI_FLASH_OIO_STR_MODE
  | SPI_FLASH_OIO_DTR_MODE | SPI_FLASH_QPI_MODE | SPI_FLASH_OPI_HEX_DTR_MODE

primrec spi_flash_mode_num :: "spi_flash_mode \<Rightarrow> u32" where
  "spi_flash_mode_num SPI_FLASH_QIO_MODE = 0"
| "spi_flash_mode_num SPI_FLASH_QOUT_MODE = 1"
| "spi_flash_mode_num SPI_FLASH_DIO_MODE = 2"
| "spi_flash_mode_num SPI_FLASH_DOUT_MODE = 3"
| "spi_flash_mode_num SPI_FLASH_FASTRD_MODE = 4"
| "spi_flash_mode_num SPI_FLASH_SLOWRD_MODE = 5"
| "spi_flash_mode_num SPI_FLASH_OPI_STR_MODE = 6"
| "spi_flash_mode_num SPI_FLASH_OPI_DTR_MODE = 7"
| "spi_flash_mode_num SPI_FLASH_OOUT_MODE = 8"
| "spi_flash_mode_num SPI_FLASH_OIO_STR_MODE = 9"
| "spi_flash_mode_num SPI_FLASH_OIO_DTR_MODE = 10"
| "spi_flash_mode_num SPI_FLASH_QPI_MODE = 11"
| "spi_flash_mode_num SPI_FLASH_OPI_HEX_DTR_MODE = 12"

text \<open>
  The parameters of one flash command. A data pointer is the bytes it points at, None for
  NULL; the receive pointer is only NULL or not, the bytes received are the result of the
  call. Bit lengths, C \<open>int\<close>s the code only hands on, are kept as their 32-bit pattern.
\<close>

record opiflash_cmd_params =
  p_spi_num :: u32
  p_mode :: spi_flash_mode
  p_cmd :: u32
  p_cmd_bit_len :: u32
  p_addr :: u32
  p_addr_bit_len :: u32
  p_dummy_bits :: u32
  p_mosi_data :: "u8 list option"
  p_mosi_bit_len :: u32
  p_miso_data :: bool
  p_miso_bit_len :: u32
  p_cs_mask :: u32
  p_is_write_erase_operation :: bool

text \<open>A pointer to the ROM's chip description: where each of its fields lives.\<close>

record chip_ptr =
  c_flash_id :: rom_var
  c_chip_size :: rom_var
  c_block_size :: rom_var
  c_sector_size :: rom_var
  c_page_size :: rom_var
  c_status_mask :: rom_var

text \<open>
  \<open>'s\<close> is the target's own state buffer (the \<open>void *state\<close> of the interface; None is
  NULL), \<open>'w\<close> the state of the machine. An operation that touches hardware may wait for it,
  so it returns an option: None if it never returns.
\<close>

record ('s, 'w) flash_target =
  t_4byte_addr_supported :: bool
  t_reset_default_spi_pins :: "'w \<Rightarrow> 'w option"
  t_update_config :: "u32 \<Rightarrow> u32 \<Rightarrow> u32 \<Rightarrow> u32 \<Rightarrow> u32 \<Rightarrow> u32 \<Rightarrow> 'w \<Rightarrow> (rc \<times> 'w) option"
  t_get_max_supported_flash_size :: u32
  t_state_size :: u32
  t_init :: "'s option \<Rightarrow> attach_policy \<Rightarrow> 'w \<Rightarrow> ('s option \<times> 'w) option"
  t_attach :: "u32 \<Rightarrow> bool \<Rightarrow> 'w \<Rightarrow> 'w option"
  t_get_config :: chip_ptr
  t_get_flash_id :: "'w \<Rightarrow> (u32 \<times> 'w) option"
  t_deinit :: "'s option \<Rightarrow> 'w \<Rightarrow> 'w option"
  t_write_enable :: "'w \<Rightarrow> 'w option"
  t_write_buff :: "u32 \<Rightarrow> u8 list \<Rightarrow> u32 \<Rightarrow> bool \<Rightarrow> 'w \<Rightarrow> (rc \<times> 'w) option"
  t_read_buff :: "u32 \<Rightarrow> u32 \<Rightarrow> 'w \<Rightarrow> ((rc \<times> u8 list) \<times> 'w) option"
  t_erase_chip :: "'w \<Rightarrow> (rc \<times> 'w) option"
  t_is_busy :: "'w \<Rightarrow> (bool \<times> 'w) option"
  t_erase_sector_start :: "u32 \<Rightarrow> 'w \<Rightarrow> 'w option"
  t_erase_block_start :: "u32 \<Rightarrow> 'w \<Rightarrow> 'w option"
  t_opiflash_exec_cmd :: "opiflash_cmd_params \<Rightarrow> 'w \<Rightarrow> (u8 list \<times> 'w) option"
  t_write_encrypted_enable :: "'w \<Rightarrow> 'w option"
  t_write_encrypted_disable :: "'w \<Rightarrow> 'w option"
  t_unlock :: "'w \<Rightarrow> (rc \<times> 'w) option"
  t_rom_spiflash_erase_area :: "u32 \<Rightarrow> u32 \<Rightarrow> 'w \<Rightarrow> (u32 \<times> 'w) option"
  t_set_4byte_cache_mode :: "bool \<Rightarrow> 'w \<Rightarrow> 'w option"
  t_aes_xts_init :: "'w \<Rightarrow> 'w option"
  t_aes_xts_encrypt_trigger :: "u32 \<Rightarrow> u8 list \<Rightarrow> u32 \<Rightarrow> 'w \<Rightarrow> 'w option"
  t_aes_xts_wait_data_ready :: "u64 \<Rightarrow> 'w \<Rightarrow> (rc \<times> 'w) option"
  t_aes_xts_clear :: "'w \<Rightarrow> 'w option"

text \<open>
  A ROM flash command: the scalars in the order of the parameters, the bytes the data
  pointer is good for, and as result what was received (nothing without a receive pointer).
  The chips call different ROM functions with the same parameters.
\<close>

definition rom_exec_flash_cmd ::
  "flash_fn \<Rightarrow> opiflash_cmd_params \<Rightarrow> 'a world_scheme \<Rightarrow> u8 list \<times> 'a world_scheme" where
  "rom_exec_flash_cmd f p w =
     (let ((ret, out), w) = rom_call (FlashFn f)
        [p_spi_num p, spi_flash_mode_num (p_mode p), p_cmd p, p_cmd_bit_len p, p_addr p,
         p_addr_bit_len p, p_dummy_bits p, p_mosi_bit_len p, of_bool (p_miso_data p),
         p_miso_bit_len p, p_cs_mask p, of_bool (p_is_write_erase_operation p)]
        (case p_mosi_data p of None \<Rightarrow> [] | Some d \<Rightarrow> take ((unat (p_mosi_bit_len p) + 7) div 8) d) w
      in (if p_miso_data p then out else [], w))"

section \<open>Generic implementations (common/src/flash.c)\<close>

text \<open>
  What the generic functions take from the headers of the chip they are compiled for: the
  pins of the flash, if \<open>soc/io_mux_reg.h\<close> names them (clock, Q, D and CS0), and from
  \<open>soc/spi_mem_compat.h\<close> the registers of the controller \<open>FLASH_SPI_NUM\<close> and its commands.
\<close>

record flash_soc =
  spi_gpio_nums :: "(u32 \<times> u32 \<times> u32 \<times> u32) option"
  cmd_reg :: u32
  addr_reg :: u32
  rd_status_reg :: u32
  flash_se :: u32
  flash_be :: u32
  flash_rdsr :: u32

definition ESP_ROM_SPIFLASH_RESULT_OK :: u32 where [rcs]: "ESP_ROM_SPIFLASH_RESULT_OK = 0"

definition stub_target_reset_default_spi_pins ::
  "flash_soc \<Rightarrow> 'a world_scheme \<Rightarrow> 'a world_scheme option" where
  "stub_target_reset_default_spi_pins S w =
     (case spi_gpio_nums S of
        None \<Rightarrow> Some w
      | Some (clk, q, d, cs0) \<Rightarrow>
          (let w = rom_void (GpioFn Esp_rom_gpio_pad_select_gpio) [clk] [] w;
               w = rom_void (GpioFn Esp_rom_gpio_pad_select_gpio) [q] [] w;
               w = rom_void (GpioFn Esp_rom_gpio_pad_select_gpio) [d] [] w;
               w = rom_void (GpioFn Esp_rom_gpio_pad_select_gpio) [cs0] [] w
           in Some w))"

definition stub_target_flash_update_config ::
  "u32 \<Rightarrow> u32 \<Rightarrow> u32 \<Rightarrow> u32 \<Rightarrow> u32 \<Rightarrow> u32 \<Rightarrow> 'a world_scheme \<Rightarrow> (rc \<times> 'a world_scheme) option" where
  "stub_target_flash_update_config flash_id flash_size block_size sector_size page_size status_mask w =
     (let (res, w) = rom_num (FlashFn Esp_rom_spiflash_config_param)
            [flash_id, flash_size, block_size, sector_size, page_size, status_mask] [] w
      in if res \<noteq> ESP_ROM_SPIFLASH_RESULT_OK then Some (STUB_LIB_FAIL, w) else Some (STUB_LIB_OK, w))"

definition stub_target_flash_id_to_flash_size :: "u32 \<Rightarrow> u32" where
  "stub_target_flash_id_to_flash_size flash_id =
     (let i = flash_id AND 0xff in
      if i \<in> {0x12, 0x13, 0x14, 0x15, 0x16, 0x17, 0x18, 0x19, 0x1A, 0x1B, 0x1C}
      then push_bit (unat i) 1
      else if i = 0x39 then MIB 32
      else 0)"

definition stub_target_get_max_supported_flash_size :: u32 where
  "stub_target_get_max_supported_flash_size = 16 * 1024 * 1024"

definition stub_target_flash_get_spiconfig_efuse :: "'w \<Rightarrow> u32 \<times> 'w" where
  "stub_target_flash_get_spiconfig_efuse w = (0, w)"

definition stub_target_flash_state_size :: u32 where
  "stub_target_flash_state_size = 0"

definition stub_target_flash_state_save :: "'s option \<Rightarrow> 'w \<Rightarrow> 's option \<times> 'w" where
  "stub_target_flash_state_save state w = (state, w)"

definition stub_target_flash_state_restore :: "'s option \<Rightarrow> 'w \<Rightarrow> 'w" where
  "stub_target_flash_state_restore state w = w"

definition stub_target_flash_needs_attach :: "'w \<Rightarrow> bool \<times> 'w" where
  "stub_target_flash_needs_attach w = (True, w)"

definition stub_target_flash_attach :: "u32 \<Rightarrow> bool \<Rightarrow> 'a world_scheme \<Rightarrow> 'a world_scheme option" where
  "stub_target_flash_attach ishspi legacy w =
     Some (rom_void (FlashFn Esp_rom_spiflash_attach) [ishspi, of_bool legacy] [] w)"

text \<open>\<open>||\<close> does not ask \<open>needs_attach\<close> when the policy already decides.\<close>

definition stub_target_flash_init ::
  "('w \<Rightarrow> bool \<times> 'w) \<Rightarrow> ('w \<Rightarrow> u32 \<times> 'w) \<Rightarrow> (u32 \<Rightarrow> bool \<Rightarrow> 'w \<Rightarrow> 'w option) \<Rightarrow>
   's option \<Rightarrow> attach_policy \<Rightarrow> 'w \<Rightarrow> ('s option \<times> 'w) option" where
  "stub_target_flash_init needs_attach get_spiconfig_efuse attach state attach_policy w =
     (let (needed, w) = (if attach_policy = STUB_LIB_FLASH_ATTACH_ALWAYS then (True, w)
                         else needs_attach w)
      in if needed then
           do { let (spiconfig, w) = get_spiconfig_efuse w;
                w \<leftarrow> attach spiconfig False w;
                Some (state, w) }
         else Some (state, w))"

definition stub_target_flash_get_config :: chip_ptr where
  "stub_target_flash_get_config =
     \<lparr>c_flash_id = Chip_flash_id, c_chip_size = Chip_size, c_block_size = Chip_block_size,
      c_sector_size = Chip_sector_size, c_page_size = Chip_page_size,
      c_status_mask = Chip_status_mask\<rparr>"

definition stub_target_flash_get_flash_id ::
  "chip_ptr \<Rightarrow> 'a world_scheme \<Rightarrow> (u32 \<times> 'a world_scheme) option" where
  "stub_target_flash_get_flash_id get_config w =
     (let w = rom_void (FlashFn Esp_rom_spi_flash_update_id) [] [] w
      in Some (cell_read (RomVar (c_flash_id get_config)) w))"

definition stub_target_flash_deinit :: "('s option \<Rightarrow> 'w \<Rightarrow> 'w) \<Rightarrow> 's option \<Rightarrow> 'w \<Rightarrow> 'w option" where
  "stub_target_flash_deinit state_restore state w = Some (state_restore state w)"

text \<open>The chip pointer that \<open>esp_rom_spiflash_write_enable\<close> takes is not a number of the model.\<close>

definition stub_target_flash_write_enable :: "'a world_scheme \<Rightarrow> 'a world_scheme option" where
  "stub_target_flash_write_enable w = Some (rom_void (FlashFn Esp_rom_spiflash_write_enable) [] [] w)"

definition stub_target_flash_write_buff ::
  "u32 \<Rightarrow> u8 list \<Rightarrow> u32 \<Rightarrow> bool \<Rightarrow> 'a world_scheme \<Rightarrow> (rc \<times> 'a world_scheme) option" where
  "stub_target_flash_write_buff addr buffer sz encrypt w =
     (let (res, w) =
        (if encrypt then
           rom_num (FlashFn Esp_rom_spiflash_write_encrypted) [addr, sz] (take (unat sz) buffer) w
         else rom_num (FlashFn Esp_rom_spiflash_write) [addr, sz] (take (unat sz) buffer) w)
      in Some (if res = ESP_ROM_SPIFLASH_RESULT_OK then STUB_LIB_OK else STUB_LIB_ERR_FLASH_WRITE, w))"

definition stub_target_flash_read_buff ::
  "u32 \<Rightarrow> u32 \<Rightarrow> 'a world_scheme \<Rightarrow> ((rc \<times> u8 list) \<times> 'a world_scheme) option" where
  "stub_target_flash_read_buff addr sz w =
     (let ((res, buffer), w) = rom_call (FlashFn Esp_rom_spiflash_read) [addr, sz] [] w
      in Some ((if res = ESP_ROM_SPIFLASH_RESULT_OK then STUB_LIB_OK else STUB_LIB_ERR_FLASH_READ, buffer), w))"

definition stub_target_flash_erase_chip :: "'a world_scheme \<Rightarrow> (rc \<times> 'a world_scheme) option" where
  "stub_target_flash_erase_chip w =
     (let (res, w) = rom_num (FlashFn Esp_rom_spiflash_erase_chip) [] [] w
      in if res = ESP_ROM_SPIFLASH_RESULT_OK then Some (STUB_LIB_OK, w) else Some (STUB_LIB_FAIL, w))"

definition stub_target_flash_is_busy ::
  "flash_soc \<Rightarrow> ('a world_scheme \<Rightarrow> 'a world_scheme option) \<Rightarrow> 'a world_scheme \<Rightarrow> (bool \<times> 'a world_scheme) option" where
  "stub_target_flash_is_busy S spi_wait_ready w =
     do { w \<leftarrow> spi_wait_ready w;
          let w = REG_WRITE (rd_status_reg S) 0 w;
          let w = REG_WRITE (cmd_reg S) (flash_rdsr S) w;
          w \<leftarrow> busy_wait (cmd_reg S) (\<lambda>v. v \<noteq> 0) w;
          let (status_value, w) = REG_READ (rd_status_reg S) w;
          Some (status_value AND BIT 0 \<noteq> 0, w) }"

definition stub_target_flash_erase_sector_start ::
  "flash_soc \<Rightarrow> ('a world_scheme \<Rightarrow> 'a world_scheme option) \<Rightarrow> ('a world_scheme \<Rightarrow> 'a world_scheme option) \<Rightarrow>
   u32 \<Rightarrow> 'a world_scheme \<Rightarrow> 'a world_scheme option" where
  "stub_target_flash_erase_sector_start S write_enable spi_wait_ready addr w =
     do { w \<leftarrow> write_enable w;
          w \<leftarrow> spi_wait_ready w;
          let w = REG_WRITE (addr_reg S) (addr AND 0xffffff) w;
          let w = REG_WRITE (cmd_reg S) (flash_se S) w;
          busy_wait (cmd_reg S) (\<lambda>v. v \<noteq> 0) w }"

definition stub_target_flash_erase_block_start ::
  "flash_soc \<Rightarrow> ('a world_scheme \<Rightarrow> 'a world_scheme option) \<Rightarrow> ('a world_scheme \<Rightarrow> 'a world_scheme option) \<Rightarrow>
   u32 \<Rightarrow> 'a world_scheme \<Rightarrow> 'a world_scheme option" where
  "stub_target_flash_erase_block_start S write_enable spi_wait_ready addr w =
     do { w \<leftarrow> write_enable w;
          w \<leftarrow> spi_wait_ready w;
          let w = REG_WRITE (addr_reg S) (addr AND 0xffffff) w;
          let w = REG_WRITE (cmd_reg S) (flash_be S) w;
          busy_wait (cmd_reg S) (\<lambda>v. v \<noteq> 0) w }"

definition stub_target_opiflash_exec_cmd ::
  "opiflash_cmd_params \<Rightarrow> 'w \<Rightarrow> (u8 list \<times> 'w) option" where
  "stub_target_opiflash_exec_cmd params w = Some ([], w)"

definition stub_target_flash_write_encrypted_enable :: "'a world_scheme \<Rightarrow> 'a world_scheme option" where
  "stub_target_flash_write_encrypted_enable w =
     Some (rom_void (FlashFn Esp_rom_spiflash_write_encrypted_enable) [] [] w)"

definition stub_target_flash_write_encrypted_disable :: "'a world_scheme \<Rightarrow> 'a world_scheme option" where
  "stub_target_flash_write_encrypted_disable w =
     Some (rom_void (FlashFn Esp_rom_spiflash_write_encrypted_disable) [] [] w)"

definition stub_target_flash_unlock :: "'a world_scheme \<Rightarrow> (rc \<times> 'a world_scheme) option" where
  "stub_target_flash_unlock w =
     (let (res, w) = rom_num (FlashFn Esp_rom_spiflash_unlock) [] [] w
      in if res = ESP_ROM_SPIFLASH_RESULT_OK then Some (STUB_LIB_OK, w) else Some (STUB_LIB_FAIL, w))"

definition stub_target_rom_spiflash_erase_area ::
  "u32 \<Rightarrow> u32 \<Rightarrow> 'a world_scheme \<Rightarrow> (u32 \<times> 'a world_scheme) option" where
  "stub_target_rom_spiflash_erase_area addr sz w =
     Some (rom_num (FlashFn Esp_rom_spiflash_erase_area) [addr, sz] [] w)"

definition stub_target_flash_set_4byte_cache_mode :: "bool \<Rightarrow> 'w \<Rightarrow> 'w option" where
  "stub_target_flash_set_4byte_cache_mode enable w = Some w"

end
