(* ===== verification/Flash_4byte.thy ===== *)
theory Flash_4byte
  imports Flash_Target
begin

text \<open>
  Flash beyond 16 MB: \<open>src/target/common/src/flash_4byte.c\<close>, and the ready wait of
  \<open>src/flash.c\<close> that it calls.
\<close>

section \<open>Waiting for the flash (flash.c)\<close>

text \<open>How many rounds a wait can still take: the counter wraps, but never inside the loop.\<close>

definition rounds_left :: "u64 \<Rightarrow> u64 \<Rightarrow> nat" where
  "rounds_left t e = (if e < t then unat t - unat e else Suc (unat t))"

lemma rounds_left_less:
  assumes "e + 1 < t"
  shows "rounds_left t (e + 1) < rounds_left t e"
proof (cases "unat e = 18446744073709551615")
  case True
  then have "unat (e + 1) = 0" by (simp add: unat_word_ariths)
  moreover have "\<not> e < t" using True unat_lt64 [of t] by (simp add: word_less_nat_alt)
  ultimately show ?thesis using assms by (simp add: rounds_left_def)
next
  case False
  then have "unat (e + 1) = unat e + 1"
    using unat_lt64 [of e] by (simp add: unat_word_ariths)
  then show ?thesis using assms by (auto simp: rounds_left_def word_less_nat_alt)
qed

text \<open>
  The do-while loop of \<open>stub_lib_flash_wait_ready\<close>, from a given value of \<open>elapsed_us\<close>.
  The counter is a 64-bit word; the recursion ends because it cannot pass the timeout.
\<close>

function wait_ready_loop ::
  "('s, 'a world_scheme) flash_target \<Rightarrow> u64 \<Rightarrow> u64 \<Rightarrow> 'a world_scheme \<Rightarrow>
   (rc \<times> 'a world_scheme) option" where
  "wait_ready_loop T timeout_us elapsed_us w =
     do { (busy, w) \<leftarrow> t_is_busy T w;
          if \<not> busy then Some (STUB_LIB_OK, w)
          else (let w = stub_lib_delay_us 1 w; elapsed_us = elapsed_us + 1
                in if elapsed_us < timeout_us then wait_ready_loop T timeout_us elapsed_us w
                   else Some (STUB_LIB_ERR_TIMEOUT, w)) }"
  by pat_completeness auto
termination
  by (relation "measure (\<lambda>(T, t, e, w). rounds_left t e)") (auto intro: rounds_left_less)

declare wait_ready_loop.simps [simp del]

definition stub_lib_flash_wait_ready ::
  "('s, 'a world_scheme) flash_target \<Rightarrow> u64 \<Rightarrow> 'a world_scheme \<Rightarrow> (rc \<times> 'a world_scheme) option" where
  "stub_lib_flash_wait_ready T timeout_us w = wait_ready_loop T timeout_us 0 w"

section \<open>Commands with a four byte address\<close>

definition exec_write_cmd_4b ::
  "('s, 'w) flash_target \<Rightarrow> u32 \<Rightarrow> u32 \<Rightarrow> u8 list option \<Rightarrow> u32 \<Rightarrow> 'w \<Rightarrow> 'w option" where
  "exec_write_cmd_4b T spi_num flash_addr data bit_len w =
     map_option snd (t_opiflash_exec_cmd T
       \<lparr>p_spi_num = spi_num, p_mode = SPI_FLASH_FASTRD_MODE, p_cmd = CMD_PROGRAM_PAGE_4B,
        p_cmd_bit_len = 8, p_addr = flash_addr, p_addr_bit_len = 32, p_dummy_bits = 0,
        p_mosi_data = data, p_mosi_bit_len = bit_len, p_miso_data = False, p_miso_bit_len = 0,
        p_cs_mask = ESP_ROM_OPIFLASH_SEL_CS0, p_is_write_erase_operation = True\<rparr> w)"

definition exec_read_cmd_4b ::
  "('s, 'w) flash_target \<Rightarrow> u32 \<Rightarrow> u32 \<Rightarrow> u32 \<Rightarrow> 'w \<Rightarrow> (u8 list \<times> 'w) option" where
  "exec_read_cmd_4b T spi_num flash_addr bit_len w =
     t_opiflash_exec_cmd T
       \<lparr>p_spi_num = spi_num, p_mode = SPI_FLASH_FASTRD_MODE, p_cmd = CMD_FSTRD4B,
        p_cmd_bit_len = 8, p_addr = flash_addr, p_addr_bit_len = 32, p_dummy_bits = 8,
        p_mosi_data = None, p_mosi_bit_len = 0, p_miso_data = True, p_miso_bit_len = bit_len,
        p_cs_mask = ESP_ROM_OPIFLASH_SEL_CS0, p_is_write_erase_operation = False\<rparr> w"

definition exec_erase_cmd_4b ::
  "('s, 'w) flash_target \<Rightarrow> u32 \<Rightarrow> u32 \<Rightarrow> u32 \<Rightarrow> 'w \<Rightarrow> 'w option" where
  "exec_erase_cmd_4b T spi_num flash_addr erase_cmd w =
     map_option snd (t_opiflash_exec_cmd T
       \<lparr>p_spi_num = spi_num, p_mode = SPI_FLASH_SLOWRD_MODE, p_cmd = erase_cmd,
        p_cmd_bit_len = 8, p_addr = flash_addr, p_addr_bit_len = 32, p_dummy_bits = 0,
        p_mosi_data = None, p_mosi_bit_len = 0, p_miso_data = False, p_miso_bit_len = 0,
        p_cs_mask = ESP_ROM_OPIFLASH_SEL_CS0, p_is_write_erase_operation = True\<rparr> w)"

definition get_write_chunk_size_unencrypted :: "u32 \<Rightarrow> u32 \<Rightarrow> u32" where
  "get_write_chunk_size_unencrypted remaining page_space =
     (let chunk = (if remaining \<ge> 32 then 32 else remaining)
      in if chunk \<le> page_space then chunk else page_space)"

definition get_write_block_size_encrypted :: "u32 \<Rightarrow> u32 \<Rightarrow> u32 \<Rightarrow> u8" where
  "get_write_block_size_encrypted flash_addr remaining page_space =
     (if IS_ALIGNED flash_addr 64 \<and> remaining \<ge> 64 \<and> page_space \<ge> 64 then 64
      else if IS_ALIGNED flash_addr 32 \<and> remaining \<ge> 32 \<and> page_space \<ge> 32 then 32
      else 16)"

lemma unat_mod_256: "unat (flash_addr mod STUB_FLASH_PAGE_SIZE) = unat flash_addr mod 256"
  by (simp add: regs unat_mod)

lemma unat_page_space:
  "unat (STUB_FLASH_PAGE_SIZE - flash_addr mod STUB_FLASH_PAGE_SIZE) = 256 - unat flash_addr mod 256"
proof -
  have "flash_addr mod STUB_FLASH_PAGE_SIZE \<le> STUB_FLASH_PAGE_SIZE"
    by (simp add: word_le_nat_alt unat_mod_256) (simp add: regs)
  then show ?thesis by (simp add: unat_diff unat_mod_256) (simp add: regs)
qed

text \<open>A chunk is what is left, at most 32 bytes, and never reaches past its page.\<close>

lemma unat_chunk:
  "unat (get_write_chunk_size_unencrypted sz (STUB_FLASH_PAGE_SIZE - a mod STUB_FLASH_PAGE_SIZE)) =
     min (min (unat sz) 32) (256 - unat a mod 256)"
  by (auto simp: get_write_chunk_size_unencrypted_def word_le_nat_alt unat_page_space)

lemma chunk_pos_le:
  fixes a sz :: u32
  assumes "sz \<noteq> 0"
  defines "c \<equiv> get_write_chunk_size_unencrypted sz (STUB_FLASH_PAGE_SIZE - a mod STUB_FLASH_PAGE_SIZE)"
  shows "0 < unat c" "unat c \<le> unat sz" "unat (sz - c) = unat sz - unat c"
proof -
  have u: "unat c = min (min (unat sz) 32) (256 - unat a mod 256)"
    unfolding c_def by (rule unat_chunk)
  have "unat a mod 256 < 256" by simp
  then show "0 < unat c" using assms(1) u by (simp add: unat_gt_0)
  show le: "unat c \<le> unat sz" using u by simp
  show "unat (sz - c) = unat sz - unat c"
    using le by (simp add: unat_diff word_le_nat_alt)
qed

lemma chunk_decreases:
  "sz \<noteq> 0 \<Longrightarrow> unat sz - unat (get_write_chunk_size_unencrypted sz
     (STUB_FLASH_PAGE_SIZE - a mod STUB_FLASH_PAGE_SIZE)) < unat sz"
  using chunk_pos_le [of sz a] by (simp add: unat_gt_0)

section \<open>Write\<close>

text \<open>The while loop of \<open>stub_target_flash_4byte_write_unencrypted\<close>.\<close>

function write_loop_unencrypted ::
  "('s, 'a world_scheme) flash_target \<Rightarrow> u32 \<Rightarrow> u64 \<Rightarrow> u32 \<Rightarrow> u8 list \<Rightarrow> u32 \<Rightarrow> 'a world_scheme \<Rightarrow>
   (rc \<times> 'a world_scheme) option" where
  "write_loop_unencrypted T spi_num timeout_us flash_addr data sz w =
     (if sz > 0 then
        (let page_space = STUB_FLASH_PAGE_SIZE - (flash_addr mod STUB_FLASH_PAGE_SIZE);
             chunk_size = get_write_chunk_size_unencrypted sz page_space
         in do { w \<leftarrow> t_write_enable T w;
                 w \<leftarrow> exec_write_cmd_4b T spi_num flash_addr (Some data) (8 * chunk_size) w;
                 (res, w) \<leftarrow> stub_lib_flash_wait_ready T timeout_us w;
                 if res \<noteq> STUB_LIB_OK then Some (STUB_LIB_ERR_TIMEOUT, w)
                 else write_loop_unencrypted T spi_num timeout_us (flash_addr + chunk_size)
                        (drop (unat chunk_size) data) (sz - chunk_size) w })
      else Some (STUB_LIB_OK, w))"
  by pat_completeness auto
termination
  by (relation "measure (\<lambda>(T, n, t, a, d, sz, w). unat sz)")
    (auto simp: chunk_pos_le(3) chunk_decreases word_gt_0)

declare write_loop_unencrypted.simps [simp del]

definition stub_target_flash_4byte_write_unencrypted ::
  "('s, 'a world_scheme) flash_target \<Rightarrow> u32 \<Rightarrow> u32 \<Rightarrow> u8 list \<Rightarrow> u32 \<Rightarrow> u64 \<Rightarrow> 'a world_scheme \<Rightarrow>
   (rc \<times> 'a world_scheme) option" where
  "stub_target_flash_4byte_write_unencrypted T spi_num flash_addr data sz timeout_us w =
     do { (res, w) \<leftarrow> stub_lib_flash_wait_ready T timeout_us w;
          if res \<noteq> STUB_LIB_OK then Some (STUB_LIB_ERR_TIMEOUT, w)
          else write_loop_unencrypted T spi_num timeout_us flash_addr data sz w }"

text \<open>
  The while loop of the encrypted write. It subtracts a whole block from \<open>size\<close> each round,
  so it ends for a multiple of 16 bytes and would run for ever on anything else. The code
  leaves the loop through its label \<open>cleanup\<close>; the loop's value is \<open>ret\<close> at that point.
\<close>

partial_function (option) write_loop_encrypted ::
  "('s, 'a world_scheme) flash_target \<Rightarrow> u32 \<Rightarrow> u64 \<Rightarrow> u32 \<Rightarrow> u8 list \<Rightarrow> u32 \<Rightarrow> 'a world_scheme \<Rightarrow>
   (rc \<times> 'a world_scheme) option" where
  "write_loop_encrypted T spi_num timeout_us flash_addr data sz w =
     (if sz > 0 then
        (let page_space = STUB_FLASH_PAGE_SIZE - (flash_addr mod STUB_FLASH_PAGE_SIZE);
             block_size = ucast (get_write_block_size_encrypted flash_addr sz page_space) :: u32
         in do { w \<leftarrow> t_aes_xts_encrypt_trigger T flash_addr data block_size w;
                 w \<leftarrow> t_write_enable T w;
                 (res, w) \<leftarrow> t_aes_xts_wait_data_ready T timeout_us w;
                 if res \<noteq> STUB_LIB_OK then Some (STUB_LIB_ERR_TIMEOUT, w)
                 else do {
                   w \<leftarrow> exec_write_cmd_4b T spi_num flash_addr None (8 * block_size - 1) w;
                   w \<leftarrow> t_aes_xts_clear T w;
                   (res, w) \<leftarrow> stub_lib_flash_wait_ready T timeout_us w;
                   if res \<noteq> STUB_LIB_OK then Some (STUB_LIB_ERR_TIMEOUT, w)
                   else write_loop_encrypted T spi_num timeout_us (flash_addr + block_size)
                          (drop (unat block_size) data) (sz - block_size) w } })
      else Some (STUB_LIB_OK, w))"

declare write_loop_encrypted.simps [code]

definition stub_target_flash_4byte_write_encrypted ::
  "('s, 'a world_scheme) flash_target \<Rightarrow> u32 \<Rightarrow> u32 \<Rightarrow> u8 list \<Rightarrow> u32 \<Rightarrow> u64 \<Rightarrow> 'a world_scheme \<Rightarrow>
   (rc \<times> 'a world_scheme) option" where
  "stub_target_flash_4byte_write_encrypted T spi_num flash_addr data sz timeout_us w =
     (if \<not> IS_ALIGNED flash_addr 16 \<or> \<not> IS_ALIGNED sz 16
      then Some (STUB_LIB_ERR_FLASH_WRITE_UNALIGNED, w)
      else do {
        w \<leftarrow> t_write_encrypted_enable T w;
        w \<leftarrow> t_aes_xts_init T w;
        (res, w) \<leftarrow> t_unlock T w;
        (ret, w) \<leftarrow>
          (if res \<noteq> STUB_LIB_OK then Some (STUB_LIB_FAIL, w)
           else do {
             (res, w) \<leftarrow> stub_lib_flash_wait_ready T timeout_us w;
             if res \<noteq> STUB_LIB_OK then Some (STUB_LIB_ERR_TIMEOUT, w)
             else write_loop_encrypted T spi_num timeout_us flash_addr data sz w });
        \<comment> \<open>cleanup:\<close>
        w \<leftarrow> t_write_encrypted_disable T w;
        Some (ret, w) })"

text \<open>\<open>ALIGN_UP((uint64_t)size, 1024) / 1024 * WRITE_PER_KB_TIMEOUT_US\<close>\<close>

definition write_timeout_us :: "u32 \<Rightarrow> u64" where
  "write_timeout_us sz = ALIGN_UP (ucast sz) 1024 div 1024 * 40000"

definition stub_target_flash_4byte_write ::
  "('s, 'a world_scheme) flash_target \<Rightarrow> u32 \<Rightarrow> u32 \<Rightarrow> u8 list \<Rightarrow> u32 \<Rightarrow> bool \<Rightarrow> 'a world_scheme \<Rightarrow>
   (rc \<times> 'a world_scheme) option" where
  "stub_target_flash_4byte_write T spi_num flash_addr data sz encrypt w =
     (let timeout_us = write_timeout_us sz
      in if encrypt then stub_target_flash_4byte_write_encrypted T spi_num flash_addr data sz timeout_us w
         else stub_target_flash_4byte_write_unencrypted T spi_num flash_addr data sz timeout_us w)"

section \<open>Read\<close>

text \<open>The loop of the read; its result is the bytes received, in order.\<close>

function read_loop_4b ::
  "('s, 'w) flash_target \<Rightarrow> u32 \<Rightarrow> u32 \<Rightarrow> u32 \<Rightarrow> 'w \<Rightarrow> (u8 list \<times> 'w) option" where
  "read_loop_4b T spi_num flash_addr sz w =
     (if sz > 0 then
        (let chunk_size = (if sz > 16 then 16 else sz)
         in do { (bs, w) \<leftarrow> exec_read_cmd_4b T spi_num flash_addr (8 * chunk_size) w;
                 (rest, w) \<leftarrow> read_loop_4b T spi_num (flash_addr + chunk_size) (sz - chunk_size) w;
                 Some (bs @ rest, w) })
      else Some ([], w))"
  by pat_completeness auto
termination
  by (relation "measure (\<lambda>(T, n, a, sz, w). unat sz)")
    (auto simp: word_gt_0 unat_gt_0 word_less_nat_alt unat_diff word_le_nat_alt split: if_splits)

declare read_loop_4b.simps [simp del]

definition stub_target_flash_4byte_read ::
  "('s, 'a world_scheme) flash_target \<Rightarrow> u32 \<Rightarrow> u32 \<Rightarrow> u32 \<Rightarrow> 'a world_scheme \<Rightarrow>
   ((rc \<times> u8 list) \<times> 'a world_scheme) option" where
  "stub_target_flash_4byte_read T spi_num flash_addr sz w =
     do { (res, w) \<leftarrow> stub_lib_flash_wait_ready T 10000 w;
          if res \<noteq> STUB_LIB_OK then Some ((STUB_LIB_ERR_TIMEOUT, []), w)
          else do { (bs, w) \<leftarrow> read_loop_4b T spi_num flash_addr sz w;
                    Some ((STUB_LIB_OK, bs), w) } }"

section \<open>Erase\<close>

definition erase_start_4b ::
  "('s, 'a world_scheme) flash_target \<Rightarrow> u32 \<Rightarrow> u32 \<Rightarrow> u32 \<Rightarrow> 'a world_scheme \<Rightarrow>
   (rc \<times> 'a world_scheme) option" where
  "erase_start_4b T spi_num flash_addr erase_cmd w =
     do { (res, w) \<leftarrow> stub_lib_flash_wait_ready T 10000 w;
          if res \<noteq> STUB_LIB_OK then Some (STUB_LIB_ERR_TIMEOUT, w)
          else do { w \<leftarrow> t_write_enable T w;
                    w \<leftarrow> exec_erase_cmd_4b T spi_num flash_addr erase_cmd w;
                    Some (STUB_LIB_OK, w) } }"

definition stub_target_flash_4byte_erase_sector_start ::
  "('s, 'a world_scheme) flash_target \<Rightarrow> u32 \<Rightarrow> u32 \<Rightarrow> 'a world_scheme \<Rightarrow> (rc \<times> 'a world_scheme) option" where
  "stub_target_flash_4byte_erase_sector_start T spi_num flash_addr w =
     erase_start_4b T spi_num flash_addr CMD_SECTOR_ERASE_4B w"

definition stub_target_flash_4byte_erase_block_start ::
  "('s, 'a world_scheme) flash_target \<Rightarrow> u32 \<Rightarrow> u32 \<Rightarrow> 'a world_scheme \<Rightarrow> (rc \<times> 'a world_scheme) option" where
  "stub_target_flash_4byte_erase_block_start T spi_num flash_addr w =
     erase_start_4b T spi_num flash_addr CMD_LARGE_BLOCK_ERASE_4B w"

definition erase_timeout_us :: "u32 \<Rightarrow> u64" where
  "erase_timeout_us sz = ucast (ALIGN_UP sz 1024 div 1024 * 100000)"

definition stub_target_flash_4byte_erase_sector ::
  "('s, 'a world_scheme) flash_target \<Rightarrow> u32 \<Rightarrow> u32 \<Rightarrow> 'a world_scheme \<Rightarrow> (rc \<times> 'a world_scheme) option" where
  "stub_target_flash_4byte_erase_sector T spi_num flash_addr w =
     do { (ret, w) \<leftarrow> erase_start_4b T spi_num flash_addr CMD_SECTOR_ERASE_4B w;
          if ret \<noteq> STUB_LIB_OK then Some (ret, w)
          else do {
            (res, w) \<leftarrow> stub_lib_flash_wait_ready T (erase_timeout_us STUB_FLASH_SECTOR_SIZE) w;
            Some (if res \<noteq> STUB_LIB_OK then STUB_LIB_ERR_TIMEOUT else STUB_LIB_OK, w) } }"

definition stub_target_flash_4byte_erase_block ::
  "('s, 'a world_scheme) flash_target \<Rightarrow> u32 \<Rightarrow> u32 \<Rightarrow> 'a world_scheme \<Rightarrow> (rc \<times> 'a world_scheme) option" where
  "stub_target_flash_4byte_erase_block T spi_num flash_addr w =
     do { (ret, w) \<leftarrow> erase_start_4b T spi_num flash_addr CMD_LARGE_BLOCK_ERASE_4B w;
          if ret \<noteq> STUB_LIB_OK then Some (ret, w)
          else do {
            (res, w) \<leftarrow> stub_lib_flash_wait_ready T (erase_timeout_us STUB_FLASH_BLOCK_SIZE) w;
            Some (if res \<noteq> STUB_LIB_OK then STUB_LIB_ERR_TIMEOUT else STUB_LIB_OK, w) } }"

end
