(* ===== verification/Flash_Lib.thy ===== *)
theory Flash_Lib
  imports Flash_4byte
begin

text \<open>
  The public flash API, \<open>src/flash.c\<close>, over any target. Its one static variable,
  \<open>large_flash_mode\<close>, is a field the state of the machine is extended with.
\<close>

record flash_world = world +
  large_flash_mode :: bool

record stub_lib_flash_config =
  cfg_flash_id :: u32
  cfg_flash_size :: u32
  cfg_block_size :: u32
  cfg_sector_size :: u32
  cfg_page_size :: u32
  cfg_status_mask :: u32

type_synonym ('s, 'a) ftarget = "('s, 'a flash_world_scheme) flash_target"

definition STUB_FLASH_ERASE_TIMEOUT_US :: u32 where
  "STUB_FLASH_ERASE_TIMEOUT_US = 1000000"

definition use_4byte :: "('s, 'a) ftarget \<Rightarrow> 'a flash_world_scheme \<Rightarrow> bool" where
  "use_4byte T w \<longleftrightarrow> t_4byte_addr_supported T \<and> large_flash_mode w"

definition flash_write_buff ::
  "('s, 'a) ftarget \<Rightarrow> u32 \<Rightarrow> u8 list \<Rightarrow> u32 \<Rightarrow> bool \<Rightarrow> 'a flash_world_scheme \<Rightarrow>
   (rc \<times> 'a flash_world_scheme) option" where
  "flash_write_buff T addr buffer sz encrypt w =
     (if use_4byte T w
      then stub_target_flash_4byte_write T FLASH_SPI_NUM addr buffer sz encrypt w
      else t_write_buff T addr buffer sz encrypt w)"

text \<open>\<open>memcpy(word + offset, src, size)\<close> into a word of four \<open>0xFF\<close> bytes.\<close>

definition partial_word :: "u8 list \<Rightarrow> nat \<Rightarrow> nat \<Rightarrow> u8 list" where
  "partial_word src n offset =
     replicate offset 0xFF @ take n src @ replicate (4 - offset - n) 0xFF"

definition flash_write_partial_word ::
  "('s, 'a) ftarget \<Rightarrow> u32 \<Rightarrow> u8 list \<Rightarrow> u32 \<Rightarrow> u32 \<Rightarrow> 'a flash_world_scheme \<Rightarrow>
   (rc \<times> 'a flash_world_scheme) option" where
  "flash_write_partial_word T word_addr src sz offset w =
     flash_write_buff T word_addr (partial_word src (unat sz) (unat offset)) 4 False w"

definition stub_lib_flash_update_config ::
  "('s, 'a) ftarget \<Rightarrow> stub_lib_flash_config option \<Rightarrow> 'a flash_world_scheme \<Rightarrow>
   (rc \<times> 'a flash_world_scheme) option" where
  "stub_lib_flash_update_config T config w =
     (case config of
        None \<Rightarrow> Some (STUB_LIB_ERR_INVALID_ARG, w)
      | Some c \<Rightarrow> t_update_config T (cfg_flash_id c) (cfg_flash_size c) (cfg_block_size c)
                    (cfg_sector_size c) (cfg_page_size c) (cfg_status_mask c) w)"

definition stub_lib_flash_attach ::
  "('s, 'a) ftarget \<Rightarrow> u32 \<Rightarrow> bool \<Rightarrow> 'a flash_world_scheme \<Rightarrow> 'a flash_world_scheme option" where
  "stub_lib_flash_attach T ishspi legacy w =
     do { w \<leftarrow> t_reset_default_spi_pins T w; t_attach T ishspi legacy w }"

definition stub_lib_flash_state_size :: "('s, 'a) ftarget \<Rightarrow> u32" where
  "stub_lib_flash_state_size T = t_state_size T"

definition stub_lib_flash_init_ex ::
  "('s, 'a) ftarget \<Rightarrow> 's option \<Rightarrow> attach_policy \<Rightarrow> bool \<Rightarrow> 'a flash_world_scheme \<Rightarrow>
   (rc \<times> 's option \<times> 'a flash_world_scheme) option" where
  "stub_lib_flash_init_ex T state attach_policy enable_4byte_cache_mode w =
     do { (state, w) \<leftarrow> t_init T state attach_policy w;
          (flash_id, w) \<leftarrow> t_get_flash_id T w;
          let flash_size = stub_target_flash_id_to_flash_size flash_id;
          let (flash_size, return_code) =
            (if flash_size = 0
             then (t_get_max_supported_flash_size T, STUB_LIB_ERR_UNKNOWN_FLASH_ID)
             else (flash_size, STUB_LIB_OK));
          w \<leftarrow> (if t_4byte_addr_supported T \<and> flash_size > MIB 16
                then let w = w\<lparr>large_flash_mode := True\<rparr>
                     in if enable_4byte_cache_mode then t_set_4byte_cache_mode T True w else Some w
                else Some w);
          (config_ret, w) \<leftarrow> t_update_config T flash_id flash_size STUB_FLASH_BLOCK_SIZE
             STUB_FLASH_SECTOR_SIZE STUB_FLASH_PAGE_SIZE STUB_FLASH_STATUS_MASK w;
          Some (if config_ret \<noteq> STUB_LIB_OK then config_ret else return_code, state, w) }"

definition stub_lib_flash_init ::
  "('s, 'a) ftarget \<Rightarrow> 's option \<Rightarrow> 'a flash_world_scheme \<Rightarrow>
   (rc \<times> 's option \<times> 'a flash_world_scheme) option" where
  "stub_lib_flash_init T state w =
     stub_lib_flash_init_ex T state STUB_LIB_FLASH_ATTACH_ALWAYS False w"

definition stub_lib_flash_deinit ::
  "('s, 'a) ftarget \<Rightarrow> 's option \<Rightarrow> 'a flash_world_scheme \<Rightarrow> 'a flash_world_scheme option" where
  "stub_lib_flash_deinit T state w =
     do { w \<leftarrow> (if use_4byte T w
                then do { w \<leftarrow> t_set_4byte_cache_mode T False w;
                          Some (w\<lparr>large_flash_mode := False\<rparr>) }
                else Some w);
          t_deinit T state w }"

definition stub_lib_flash_get_config ::
  "('s, 'a) ftarget \<Rightarrow> 'a flash_world_scheme \<Rightarrow> stub_lib_flash_config \<times> 'a flash_world_scheme" where
  "stub_lib_flash_get_config T w =
     (let chip = t_get_config T;
          (flash_id, w) = cell_read (RomVar (c_flash_id chip)) w;
          (flash_size, w) = cell_read (RomVar (c_chip_size chip)) w;
          (block_size, w) = cell_read (RomVar (c_block_size chip)) w;
          (sector_size, w) = cell_read (RomVar (c_sector_size chip)) w;
          (page_size, w) = cell_read (RomVar (c_page_size chip)) w;
          (status_mask, w) = cell_read (RomVar (c_status_mask chip)) w
      in (\<lparr>cfg_flash_id = flash_id, cfg_flash_size = flash_size, cfg_block_size = block_size,
           cfg_sector_size = sector_size, cfg_page_size = page_size,
           cfg_status_mask = status_mask\<rparr>, w))"

definition stub_lib_flash_read_buff ::
  "('s, 'a) ftarget \<Rightarrow> u32 \<Rightarrow> u32 \<Rightarrow> 'a flash_world_scheme \<Rightarrow>
   ((rc \<times> u8 list) \<times> 'a flash_world_scheme) option" where
  "stub_lib_flash_read_buff T addr sz w =
     (if \<not> IS_ALIGNED addr 4 \<or> \<not> IS_ALIGNED sz 4
      then Some ((STUB_LIB_ERR_FLASH_READ_UNALIGNED, []), w)
      else if use_4byte T w then stub_target_flash_4byte_read T FLASH_SPI_NUM addr sz w
      else t_read_buff T addr sz w)"

definition stub_lib_flash_write_buff ::
  "('s, 'a) ftarget \<Rightarrow> u32 \<Rightarrow> u8 list \<Rightarrow> u32 \<Rightarrow> bool \<Rightarrow> 'a flash_world_scheme \<Rightarrow>
   (rc \<times> 'a flash_world_scheme) option" where
  "stub_lib_flash_write_buff T addr buffer sz encrypt w =
     (if sz = 0 then Some (STUB_LIB_OK, w)
      else if encrypt then
        (if \<not> IS_ALIGNED addr 16 \<or> \<not> IS_ALIGNED sz 16
         then Some (STUB_LIB_ERR_FLASH_WRITE_UNALIGNED, w)
         else flash_write_buff T addr buffer sz True w)
      else if IS_ALIGNED addr 4 \<and> IS_ALIGNED sz 4 then flash_write_buff T addr buffer sz False w
      else
        (let src = buffer; flash_addr = ALIGN_DOWN addr 4; offset = addr - flash_addr in do {
          (res, src, sz, flash_addr, w) \<leftarrow>
            (if offset \<noteq> 0 then
               (let head_size = min sz (4 - offset) in do {
                  (res, w) \<leftarrow> flash_write_partial_word T flash_addr src head_size offset w;
                  Some (res, drop (unat head_size) src, sz - head_size, flash_addr + 4, w) })
             else Some (STUB_LIB_OK, src, sz, flash_addr, w));
          if res \<noteq> STUB_LIB_OK then Some (res, w)
          else (let aligned_size = ALIGN_DOWN sz 4 in do {
            (res, src, sz, flash_addr, w) \<leftarrow>
              (if aligned_size > 0 then do {
                 (res, w) \<leftarrow> flash_write_buff T flash_addr src aligned_size False w;
                 Some (res, drop (unat aligned_size) src, sz - aligned_size,
                       flash_addr + aligned_size, w) }
               else Some (STUB_LIB_OK, src, sz, flash_addr, w));
            if res \<noteq> STUB_LIB_OK then Some (res, w)
            else if sz > 0 then flash_write_partial_word T flash_addr src sz 0 w
            else Some (STUB_LIB_OK, w) }) }))"

definition stub_lib_flash_erase_chip ::
  "('s, 'a) ftarget \<Rightarrow> 'a flash_world_scheme \<Rightarrow> (rc \<times> 'a flash_world_scheme) option" where
  "stub_lib_flash_erase_chip T w = t_erase_chip T w"

text \<open>
  \<open>next_erase_addr\<close> and \<open>remaining_size\<close> are passed by pointer (None is NULL); the result
  carries what they point at afterwards.
\<close>

definition stub_lib_flash_start_next_erase ::
  "('s, 'a) ftarget \<Rightarrow> u32 option \<Rightarrow> u32 option \<Rightarrow> u32 \<Rightarrow> 'a flash_world_scheme \<Rightarrow>
   (rc \<times> u32 option \<times> u32 option \<times> 'a flash_world_scheme) option" where
  "stub_lib_flash_start_next_erase T next_erase_addr remaining_size timeout_us w =
     (case (next_erase_addr, remaining_size) of
        (Some addr, Some remaining) \<Rightarrow> do {
          (res, w) \<leftarrow> stub_lib_flash_wait_ready T (ucast timeout_us) w;
          if res \<noteq> STUB_LIB_OK
          then Some (STUB_LIB_ERR_TIMEOUT, next_erase_addr, remaining_size, w)
          else if remaining = 0
          then Some (STUB_LIB_OK, next_erase_addr, remaining_size, w)
          else
            (let block_erase = (remaining \<ge> STUB_FLASH_BLOCK_SIZE \<and> addr mod STUB_FLASH_BLOCK_SIZE = 0);
                 erase_size = (if block_erase then STUB_FLASH_BLOCK_SIZE else STUB_FLASH_SECTOR_SIZE)
             in if \<not> block_erase \<and> \<not> IS_ALIGNED addr STUB_FLASH_SECTOR_SIZE
                then Some (STUB_LIB_ERR_INVALID_ARG, next_erase_addr, remaining_size, w)
                else do {
                  (res, w) \<leftarrow>
                    (if use_4byte T w then
                       if block_erase
                       then stub_target_flash_4byte_erase_block_start T FLASH_SPI_NUM addr w
                       else stub_target_flash_4byte_erase_sector_start T FLASH_SPI_NUM addr w
                     else do {
                       w \<leftarrow> (if block_erase then t_erase_block_start T addr w
                             else t_erase_sector_start T addr w);
                       Some (STUB_LIB_OK, w) });
                  if res \<noteq> STUB_LIB_OK then Some (res, next_erase_addr, remaining_size, w)
                  else Some (STUB_LIB_OK, Some (addr + erase_size),
                         Some (if remaining \<ge> erase_size then remaining - erase_size else 0), w) }) }
      | _ \<Rightarrow> Some (STUB_LIB_ERR_INVALID_ARG, next_erase_addr, remaining_size, w))"

text \<open>A successful step on something left to erase leaves less of it.\<close>

lemma start_next_erase_decreases:
  assumes "stub_lib_flash_start_next_erase T (Some addr) (Some sz) t w = Some (STUB_LIB_OK, a', s', w')"
    and "sz \<noteq> 0"
  shows "\<exists>sz'. s' = Some sz' \<and> unat sz' < unat sz"
proof -
  have "unat (sz - e) < unat sz" if "e \<le> sz" "e \<noteq> 0" for e
  proof -
    have "0 < unat e" using that by (simp add: unat_gt_0)
    then show ?thesis using that by (simp add: unat_diff word_le_nat_alt)
  qed
  moreover have "0 < unat sz" using assms(2) by (simp add: unat_gt_0)
  ultimately show ?thesis
    using assms by (auto simp: stub_lib_flash_start_next_erase_def rcs regs Let_def
      bind_eq_Some_conv split: if_splits)
qed

text \<open>The while loop of \<open>stub_lib_flash_erase_area\<close>: None if some step never returns.\<close>

function erase_area_loop ::
  "('s, 'a) ftarget \<Rightarrow> u32 \<Rightarrow> u32 \<Rightarrow> 'a flash_world_scheme \<Rightarrow> (rc \<times> 'a flash_world_scheme) option" where
  "erase_area_loop T addr sz w =
     (if sz > 0 then
        (case stub_lib_flash_start_next_erase T (Some addr) (Some sz) STUB_FLASH_ERASE_TIMEOUT_US w of
           Some (res, Some addr', Some sz', w') \<Rightarrow>
             if res \<noteq> STUB_LIB_OK then Some (res, w') else erase_area_loop T addr' sz' w'
         | _ \<Rightarrow> None)
      else Some (STUB_LIB_OK, w))"
  by pat_completeness auto
termination
  by (relation "measure (\<lambda>(T, a, sz, w). unat sz)")
    (auto dest: start_next_erase_decreases simp: word_gt_0)

declare erase_area_loop.simps [simp del]

definition stub_lib_flash_erase_area ::
  "('s, 'a) ftarget \<Rightarrow> u32 \<Rightarrow> u32 \<Rightarrow> 'a flash_world_scheme \<Rightarrow> (rc \<times> 'a flash_world_scheme) option" where
  "stub_lib_flash_erase_area T addr sz w =
     (if \<not> IS_ALIGNED addr STUB_FLASH_SECTOR_SIZE \<or> \<not> IS_ALIGNED sz STUB_FLASH_SECTOR_SIZE
      then Some (STUB_LIB_ERR_INVALID_ARG, w)
      else do {
        (res, w) \<leftarrow> erase_area_loop T addr sz w;
        if res \<noteq> STUB_LIB_OK then Some (res, w)
        else stub_lib_flash_wait_ready T (ucast STUB_FLASH_ERASE_TIMEOUT_US) w })"

definition stub_lib_flash_rom_erase_area ::
  "('s, 'a) ftarget \<Rightarrow> u32 \<Rightarrow> u32 \<Rightarrow> 'a flash_world_scheme \<Rightarrow> (rc \<times> 'a flash_world_scheme) option" where
  "stub_lib_flash_rom_erase_area T addr sz w =
     (if use_4byte T w then Some (STUB_LIB_ERR_NOT_SUPPORTED, w)
      else if \<not> IS_ALIGNED addr STUB_FLASH_SECTOR_SIZE \<or> \<not> IS_ALIGNED sz STUB_FLASH_SECTOR_SIZE
      then Some (STUB_LIB_ERR_INVALID_ARG, w)
      else do {
        (res, w) \<leftarrow> t_rom_spiflash_erase_area T addr sz w;
        Some (if res \<noteq> ESP_ROM_SPIFLASH_RESULT_OK then STUB_LIB_FAIL else STUB_LIB_OK, w) })"

end
