(* ===== verification/Flash_Spec.thy ===== *)
theory Flash_Spec
  imports Flash_Lib
begin

text \<open>
  What the flash driver promises, independent of the chip it runs on.

  The abstract state is the memory of a NOR flash: programming a byte can only clear bits,
  erasing sets a range to \<open>0xFF\<close>. The locale \<open>nor_flash\<close> is the contract between the
  library and its target: what each \<open>stub_target_*\<close> operation does to that memory, to the
  chip's write-enable latch and to its readiness. Inside it the generic driver code is
  proved once; a target provides the contract by an interpretation.
\<close>

section \<open>What programming and erasing do to the memory\<close>

type_synonym image = "u32 \<Rightarrow> u8"

definition program :: "u32 \<Rightarrow> u8 list \<Rightarrow> image \<Rightarrow> image" where
  "program a bs m = (\<lambda>x. if unat (x - a) < length bs then m x AND bs ! unat (x - a) else m x)"

definition erase :: "u32 \<Rightarrow> nat \<Rightarrow> image \<Rightarrow> image" where
  "erase a n m = (\<lambda>x. if unat (x - a) < n then 0xFF else m x)"

definition page_program :: "u32 \<Rightarrow> u8 list \<Rightarrow> image \<Rightarrow> image" where
  "page_program a bs m = (\<lambda>x.
     if unat x div 256 = unat a div 256 \<and> unat (x - a) mod 256 < length bs
     then m x AND bs ! (unat (x - a) mod 256) else m x)"

lemma and_FF [simp]: "m AND 0xFF = (m :: u8)"
proof -
  have "(0xFF :: u8) = - 1" by simp
  then show ?thesis by (metis and.right_neutral)
qed

lemma program_Nil [simp]: "program a [] m = m"
  by (simp add: program_def)

lemma program_FF [simp]: "program a (replicate n 0xFF) m = m"
  by (simp add: program_def fun_eq_iff)

lemma unat_sub_of_nat:
  fixes d :: u32
  assumes "n < 4294967296"
  shows "unat (d - of_nat n) = (if n \<le> unat d then unat d - n else unat d + 4294967296 - n)"
proof -
  have "unat (of_nat n :: u32) = n" using assms by (simp add: unat_of_nat)
  then show ?thesis
    using assms unat_lt32 [of d] by (simp add: unat_sub_if_size word_size)
qed

lemma unat_sub32:
  "unat (x - a :: u32) = (if unat a \<le> unat x then unat x - unat a else unat x + 4294967296 - unat a)"
  using unat_sub_of_nat [of "unat a" x] unat_lt32 [of a] by simp

lemma unat_shift:
  fixes x a :: u32
  assumes "n < 4294967296"
  shows "unat (x - (a + of_nat n)) =
    (if n \<le> unat (x - a) then unat (x - a) - n else unat (x - a) + 4294967296 - n)"
  using unat_sub_of_nat [OF assms, of "x - a"] by (simp add: algebra_simps)

lemma program_append:
  assumes "length xs + length ys \<le> 4294967296"
  shows "program (a + of_nat (length xs)) ys (program a xs m) = program a (xs @ ys) m"
proof (cases "ys = []")
  case False
  then have "length xs < 4294967296" using assms by (cases ys) auto
  then show ?thesis
    using assms by (auto simp: program_def fun_eq_iff unat_shift nth_append)
qed simp

lemma erase_append:
  assumes "n + k \<le> 4294967296"
  shows "erase (a + of_nat n) k (erase a n m) = erase a (n + k) m"
proof (cases "k = 0")
  case False
  then have "n < 4294967296" using assms by simp
  then show ?thesis
    using assms by (auto simp: erase_def fun_eq_iff unat_shift)
qed (simp add: erase_def)

lemma program_padded:
  assumes "l + length ys + r \<le> 4294967296"
  shows "program a (replicate l 0xFF @ ys @ replicate r 0xFF) m = program (a + of_nat l) ys m"
proof -
  have "program a (replicate l 0xFF @ ys @ replicate r 0xFF) m =
    program (a + of_nat l) (ys @ replicate r 0xFF) m"
    using assms program_append [of "replicate l 0xFF" "ys @ replicate r 0xFF" a m] by simp
  also have "\<dots> = program (a + of_nat l) ys m"
    using assms program_append [of ys "replicate r 0xFF" "a + of_nat l" m] by simp
  finally show ?thesis .
qed

lemma in_page_iff:
  fixes A X L k :: nat
  assumes L: "A mod 256 + L \<le> 256" and A: "A < 4294967296"
    and k: "k = (if A \<le> X then X - A else X + 4294967296 - A)"
  shows "k < L \<longleftrightarrow> X div 256 = A div 256 \<and> k mod 256 < L"
proof -
  obtain q r where q: "A = 256 * q + r" "r < 256" "A div 256 = q" "A mod 256 = r"
    by (metis mod_less_divisor mult_div_mod_eq zero_less_numeral)
  obtain p s where p: "X = 256 * p + s" "s < 256" "X div 256 = p"
    by (metis mod_less_divisor mult_div_mod_eq zero_less_numeral)
  have q24: "q < 16777216" using q A by simp
  show ?thesis
  proof (cases "p = q")
    case True
    show ?thesis
    proof (cases "r \<le> s")
      case True
      then have "k = s - r" using \<open>p = q\<close> p q k by simp
      then show ?thesis using \<open>p = q\<close> p q by simp
    next
      case False
      then have "k = (s + 256 - r) + 256 * 16777215" using \<open>p = q\<close> p q k by simp
      moreover from this have "k mod 256 = s + 256 - r"
        using False p q by (simp only: mod_mult_self2) simp
      ultimately have "L \<le> k" "L \<le> k mod 256" using L q by linarith+
      then show ?thesis by simp
    qed
  next
    case False
    have "L \<le> k"
    proof (cases "A \<le> X")
      case True
      then have "q + 1 \<le> p" using False p q by simp
      then show ?thesis using True k p q L by simp
    next
      case False
      then show ?thesis using k p q L q24 by simp
    qed
    then show ?thesis using False p q by simp
  qed
qed

lemma page_program_in_page:
  assumes "unat a mod 256 + length bs \<le> 256"
  shows "page_program a bs = program a bs"
proof (intro ext)
  fix m x
  note iff = in_page_iff [OF assms unat_lt32 unat_sub32 [of x a]]
  show "page_program a bs m x = program a bs m x"
    using iff assms by (auto simp: page_program_def program_def)
qed
section \<open>The contract\<close>

lemma align_id:
  fixes x :: u32
  assumes "2 ^ n dvd unat x"
  shows "x AND NOT (2 ^ n - 1) = x"
proof -
  have "x AND (2 ^ n - 1) = 0"
    by (rule word_unat_eq_iff [THEN iffD2]) (use assms in \<open>simp add: unat_and_pow2\<close>)
  then show ?thesis using ALIGN_DOWN_pow2 [of x n] by (simp add: ALIGN_DOWN_def)
qed

locale nor_flash =
  fixes T :: "('s, 'a) ftarget"
    and mem :: "'a flash_world_scheme \<Rightarrow> image"
    and wel :: "'a flash_world_scheme \<Rightarrow> bool"
    and ready :: "'a flash_world_scheme \<Rightarrow> bool"
  assumes delay:
      "mem (stub_lib_delay_us n w) = mem w" "ready w \<Longrightarrow> ready (stub_lib_delay_us n w)"
      "large_flash_mode (stub_lib_delay_us n w) = large_flash_mode w"
    and is_busy: "t_is_busy T w = Some (b, w') \<Longrightarrow>
      mem w' = mem w \<and> (\<not> b \<longrightarrow> ready w') \<and> large_flash_mode w' = large_flash_mode w"
    and write_enable: "t_write_enable T w = Some w' \<Longrightarrow> ready w \<Longrightarrow>
      mem w' = mem w \<and> wel w' \<and> ready w' \<and> large_flash_mode w' = large_flash_mode w"
    and write_buff: "t_write_buff T a d n False w = Some (STUB_LIB_OK, w') \<Longrightarrow>
      mem w' = program a (take (unat n) d) (mem w) \<and> large_flash_mode w' = large_flash_mode w"
    and program_page: "t_4byte_addr_supported T \<Longrightarrow> t_opiflash_exec_cmd T p w = Some (out, w') \<Longrightarrow> ready w \<Longrightarrow> wel w \<Longrightarrow>
      p_cmd p = CMD_PROGRAM_PAGE_4B \<Longrightarrow> p_mosi_data p = Some d \<Longrightarrow> p_mosi_bit_len p = 8 * n \<Longrightarrow>
      unat n \<le> 32 \<Longrightarrow>
      mem w' = page_program (p_addr p) (take (unat n) d) (mem w) \<and>
      large_flash_mode w' = large_flash_mode w"
    and erase_cmd: "t_4byte_addr_supported T \<Longrightarrow> t_opiflash_exec_cmd T p w = Some (out, w') \<Longrightarrow> ready w \<Longrightarrow> wel w \<Longrightarrow>
      p_mosi_data p = None \<Longrightarrow>
      (p_cmd p = CMD_SECTOR_ERASE_4B \<longrightarrow>
         mem w' = erase (p_addr p AND NOT 0xFFF) 0x1000 (mem w)) \<and>
      (p_cmd p = CMD_LARGE_BLOCK_ERASE_4B \<longrightarrow>
         mem w' = erase (p_addr p AND NOT 0xFFFF) 0x10000 (mem w)) \<and>
      large_flash_mode w' = large_flash_mode w"
    and erase_sector_start: "t_erase_sector_start T a w = Some w' \<Longrightarrow> ready w \<Longrightarrow>
      mem w' = erase (a AND 0xFFFFFF AND NOT 0xFFF) 0x1000 (mem w) \<and>
      large_flash_mode w' = large_flash_mode w"
    and erase_block_start: "t_erase_block_start T a w = Some w' \<Longrightarrow> ready w \<Longrightarrow>
      mem w' = erase (a AND 0xFFFFFF AND NOT 0xFFFF) 0x10000 (mem w) \<and>
      large_flash_mode w' = large_flash_mode w"
begin

lemma wait_ready_loop_mem':
  assumes "wait_ready_loop T' t e w = Some (res, w')" and "T' = T"
  shows "mem w' = mem w \<and> large_flash_mode w' = large_flash_mode w \<and>
    (res = STUB_LIB_OK \<longrightarrow> ready w')"
  using assms
proof (induction T' t e w arbitrary: res w' rule: wait_ready_loop.induct)
  case (1 T' t e w)
  obtain b w1 where b: "t_is_busy T w = Some (b, w1)"
    using 1(2,3) by (subst (asm) wait_ready_loop.simps) (auto simp: bind_eq_Some_conv)
  note step = is_busy [OF b]
  show ?case
  proof (cases "b \<and> e + 1 < t")
    case True
    with 1(2,3) b have "wait_ready_loop T t (e + 1) (stub_lib_delay_us 1 w1) = Some (res, w')"
      by (subst (asm) wait_ready_loop.simps) (simp add: Let_def)
    with 1(1) [of "(b, w1)" b w1 "stub_lib_delay_us 1 w1" "e + 1" res w'] 1(3) b True step delay
    show ?thesis by simp
  next
    case False
    with 1(2,3) b step delay show ?thesis
      by (subst (asm) wait_ready_loop.simps) (auto simp: Let_def rcs split: if_splits)
  qed
qed

lemma wait_ready_mem:
  assumes "stub_lib_flash_wait_ready T t w = Some (res, w')"
  shows "mem w' = mem w" "large_flash_mode w' = large_flash_mode w"
    "res = STUB_LIB_OK \<Longrightarrow> ready w'"
  using wait_ready_loop_mem' [OF assms [unfolded stub_lib_flash_wait_ready_def]] by auto

text \<open>Writing page by page in chunks programs exactly the bytes given.\<close>

lemma program_chunk:
  fixes c sz :: u32
  assumes "unat c \<le> unat sz" "unat sz \<le> length d"
  shows "program (a + c) (take (unat sz - unat c) (drop (unat c) d)) (program a (take (unat c) d) m) =
    program a (take (unat sz) d) m"
proof -
  have "program (a + of_nat (length (take (unat c) d))) (take (unat sz - unat c) (drop (unat c) d))
      (program a (take (unat c) d) m) =
    program a (take (unat c) d @ take (unat sz - unat c) (drop (unat c) d)) m"
    by (rule program_append) (use assms unat_lt32 [of sz] in simp)
  moreover have "of_nat (length (take (unat c) d)) = c" using assms by (simp add: min_absorb2)
  ultimately show ?thesis using assms by (simp add: take_append_take_drop)
qed

lemma program_next:
  fixes k :: u32
  assumes "unat k + j \<le> length d" "unat k + j \<le> 4294967296"
  shows "program (a + k) (take j (drop (unat k) d)) (program a (take (unat k) d) m) =
    program a (take (unat k + j) d) m"
proof -
  have l: "length (take (unat k) d) = unat k" using assms by simp
  have "program (a + of_nat (length (take (unat k) d))) (take j (drop (unat k) d))
      (program a (take (unat k) d) m) = program a (take (unat k) d @ take j (drop (unat k) d)) m"
    by (rule program_append) (use assms in simp)
  then show ?thesis unfolding l by (simp add: take_append_take_drop)
qed

lemma write_loop_mem':
  assumes "write_loop_unencrypted T' n t a d sz w = Some (STUB_LIB_OK, w')" and "T' = T"
    and "ready w" and "unat sz \<le> length d" and sup: "t_4byte_addr_supported T"
  shows "mem w' = program a (take (unat sz) d) (mem w) \<and> large_flash_mode w' = large_flash_mode w \<and>
    ready w'"
  using assms(1-4)
proof (induction T' n t a d sz w arbitrary: w' rule: write_loop_unencrypted.induct)
  case (1 T' n t a d sz w)
  define c where "c = get_write_chunk_size_unencrypted sz (STUB_FLASH_PAGE_SIZE - a mod STUB_FLASH_PAGE_SIZE)"
  show ?case
  proof (cases "sz > 0")
    case False
    then have "sz = 0" by (simp add: word_gt_0)
    then show ?thesis using 1(2,4) by (subst (asm) write_loop_unencrypted.simps) simp
  next
    case True
    then have nz: "sz \<noteq> 0" by auto
    note cle = chunk_pos_le [OF nz, of a, folded c_def]
    have cu: "unat c = min (min (unat sz) 32) (256 - unat a mod 256)"
      unfolding c_def by (rule unat_chunk)
    obtain w1 w2 w3 out where
        w1: "t_write_enable T w = Some w1"
      and w2: "t_opiflash_exec_cmd T
         \<lparr>p_spi_num = n, p_mode = SPI_FLASH_FASTRD_MODE, p_cmd = CMD_PROGRAM_PAGE_4B,
          p_cmd_bit_len = 8, p_addr = a, p_addr_bit_len = 32, p_dummy_bits = 0,
          p_mosi_data = Some d, p_mosi_bit_len = 8 * c, p_miso_data = False, p_miso_bit_len = 0,
          p_cs_mask = ESP_ROM_OPIFLASH_SEL_CS0, p_is_write_erase_operation = True\<rparr> w1 = Some (out, w2)"
      and w3: "stub_lib_flash_wait_ready T t w2 = Some (STUB_LIB_OK, w3)"
      and rest: "write_loop_unencrypted T n t (a + c) (drop (unat c) d) (sz - c) w3 = Some (STUB_LIB_OK, w')"
      using 1(2,3) True
      by (subst (asm) write_loop_unencrypted.simps)
        (auto simp: bind_eq_Some_conv exec_write_cmd_4b_def Let_def c_def [symmetric] rcs split: if_splits)
    note en = write_enable [OF w1 \<open>ready w\<close>]
    have "mem w2 = page_program a (take (unat c) d) (mem w1) \<and> large_flash_mode w2 = large_flash_mode w1"
      using program_page [OF sup w2] en cu by simp
    moreover have "page_program a (take (unat c) d) = program a (take (unat c) d)"
      proof (rule page_program_in_page)
      have "unat a mod 256 + unat c \<le> 256" using cu mod_less_divisor [of 256 "unat a"] by linarith
      then show "unat a mod 256 + length (take (unat c) d) \<le> 256" by simp
    qed
    moreover note wait_ready_mem [OF w3]
    ultimately have w3': "mem w3 = program a (take (unat c) d) (mem w)" "ready w3"
      "large_flash_mode w3 = large_flash_mode w"
      using en by simp_all
    have "mem w' = program (a + c) (take (unat (sz - c)) (drop (unat c) d)) (mem w3) \<and>
      large_flash_mode w' = large_flash_mode w3 \<and> ready w'"
      using 1(1) [OF True refl refl, folded c_def, of w1 w2 "(STUB_LIB_OK, w3)" STUB_LIB_OK w3 w']
        1(3,5) w1 w2 w3 rest w3'(2) cle
      by (simp add: exec_write_cmd_4b_def)
    then show ?thesis using w3' cle 1(5) program_chunk [of c sz d a "mem w"] by simp
  qed
qed

lemma write_loop_mem:
  "write_loop_unencrypted T n t a d sz w = Some (STUB_LIB_OK, w') \<Longrightarrow> ready w \<Longrightarrow> unat sz \<le> length d \<Longrightarrow>
   t_4byte_addr_supported T \<Longrightarrow>
   mem w' = program a (take (unat sz) d) (mem w) \<and> large_flash_mode w' = large_flash_mode w"
  using write_loop_mem' by blast

lemma flash_write_buff_mem:
  assumes "flash_write_buff T a d sz False w = Some (STUB_LIB_OK, w')" and "unat sz \<le> length d"
  shows "mem w' = program a (take (unat sz) d) (mem w)" "large_flash_mode w' = large_flash_mode w"
proof -
  have "mem w' = program a (take (unat sz) d) (mem w) \<and> large_flash_mode w' = large_flash_mode w"
  proof (cases "use_4byte T w")
    case True
    then obtain w1 where "stub_lib_flash_wait_ready T (write_timeout_us sz) w = Some (STUB_LIB_OK, w1)"
      and "write_loop_unencrypted T FLASH_SPI_NUM (write_timeout_us sz) a d sz w1 = Some (STUB_LIB_OK, w')"
      using assms(1)
      by (auto simp: flash_write_buff_def stub_target_flash_4byte_write_def Let_def
          stub_target_flash_4byte_write_unencrypted_def bind_eq_Some_conv rcs split: if_splits)
    then show ?thesis
      using write_loop_mem wait_ready_mem assms(2) True unfolding use_4byte_def by metis
  next
    case False
    then show ?thesis using write_buff assms(1) by (simp add: flash_write_buff_def)
  qed
  then show "mem w' = program a (take (unat sz) d) (mem w)" "large_flash_mode w' = large_flash_mode w"
    by auto
qed

text \<open>An unaligned head or tail goes out as a whole word padded with \<open>0xFF\<close>.\<close>

lemma partial_word_mem:
  assumes "flash_write_partial_word T b src n off w = Some (STUB_LIB_OK, w')"
    and "unat off + unat n \<le> 4" "unat n \<le> length src"
  shows "mem w' = program (b + off) (take (unat n) src) (mem w)"
    "large_flash_mode w' = large_flash_mode w"
proof -
  have len: "length (partial_word src (unat n) (unat off)) = 4"
    using assms(2,3) by (simp add: partial_word_def)
  note r = flash_write_buff_mem [OF assms(1) [unfolded flash_write_partial_word_def]]
  show "large_flash_mode w' = large_flash_mode w" using r(2) len by simp
  have "mem w' = program b (partial_word src (unat n) (unat off)) (mem w)" using r(1) len by simp
  also have "\<dots> = program (b + of_nat (unat off)) (take (unat n) src) (mem w)"
    unfolding partial_word_def by (rule program_padded) (use assms(2,3) in simp)
  finally show "mem w' = program (b + off) (take (unat n) src) (mem w)" by simp
qed

text \<open>
  From a word boundary on, the whole words go out as they are and the rest of the last word
  padded.
\<close>

lemma last_word_mem:
  assumes "(if k > 0 then flash_write_partial_word T f d k 0 w else Some (STUB_LIB_OK, w)) = Some (STUB_LIB_OK, w')"
    and "unat k < 4" "unat k \<le> length d"
  shows "mem w' = program f (take (unat k) d) (mem w)"
proof (cases "k > 0")
  case True
  then show ?thesis using partial_word_mem(1) [of f d k 0 w w'] assms by simp
next
  case False
  then show ?thesis using assms(1) by (simp add: word_gt_0)
qed

lemma unat_whole_words:
  fixes s :: u32
  shows "unat (ALIGN_DOWN s 4) \<le> unat s" "unat (s - ALIGN_DOWN s 4) = unat s - unat (ALIGN_DOWN s 4)"
    "unat (s - ALIGN_DOWN s 4) < 4"
proof -
  have u: "unat (ALIGN_DOWN s 4) = unat s - unat s mod 4" by (rule unat_ALIGN_DOWN_4)
  then show le: "unat (ALIGN_DOWN s 4) \<le> unat s" by simp
  show e: "unat (s - ALIGN_DOWN s 4) = unat s - unat (ALIGN_DOWN s 4)"
    by (rule unat_diff) (use le in \<open>simp add: word_le_nat_alt\<close>)
  have "unat s mod 4 < 4" by simp
  then show "unat (s - ALIGN_DOWN s 4) < 4" using u e by linarith
qed

lemma aligned_rest_mem:
  fixes s :: u32
  defines "m \<equiv> ALIGN_DOWN s 4"
  assumes run: "do {
      (res, src, s', fa, w) \<leftarrow>
        (if m > 0 then do {
           (res, w) \<leftarrow> flash_write_buff T f d m False w;
           Some (res, drop (unat m) d, s - m, f + m, w) }
         else Some (STUB_LIB_OK, d, s, f, w));
      if res \<noteq> STUB_LIB_OK then Some (res, w)
      else if s' > 0 then flash_write_partial_word T fa src s' 0 w
      else Some (STUB_LIB_OK, w) } = Some (STUB_LIB_OK, w')"
    and len: "unat s \<le> length d"
  shows "mem w' = program f (take (unat s) d) (mem w)"
proof -
  note m = unat_whole_words [of s, folded m_def]
  show ?thesis
  proof (cases "m > 0")
    case True
    with run obtain w2 where b: "flash_write_buff T f d m False w = Some (STUB_LIB_OK, w2)"
      and t: "(if s - m > 0 then flash_write_partial_word T (f + m) (drop (unat m) d) (s - m) 0 w2
        else Some (STUB_LIB_OK, w2)) = Some (STUB_LIB_OK, w')"
      by (auto simp: bind_eq_Some_conv split: if_splits)
    have "mem w2 = program f (take (unat m) d) (mem w)"
      using flash_write_buff_mem(1) [OF b] m(1) len by simp
    moreover have "mem w' = program (f + m) (take (unat (s - m)) (drop (unat m) d)) (mem w2)"
      using last_word_mem [OF t m(3)] m(1,2) len by simp
    ultimately show ?thesis
      using program_next [of m "unat (s - m)" d f "mem w"] m(1,2) len unat_lt32 [of s] by simp
  next
    case False
    then have z: "m = 0" by (simp add: word_gt_0)
    then have "(if s > 0 then flash_write_partial_word T f d s 0 w else Some (STUB_LIB_OK, w)) = Some (STUB_LIB_OK, w')"
      using run by (simp cong: if_cong)
    then show ?thesis by (rule last_word_mem) (use m(3) len z in simp_all)
  qed
qed

lemma write_buff_mem:
  assumes ok: "stub_lib_flash_write_buff T a d sz False w = Some (STUB_LIB_OK, w')"
    and len: "unat sz \<le> length d"
  shows "mem w' = program a (take (unat sz) d) (mem w)"
proof -
  define off where "off = a - ALIGN_DOWN a 4"
  define h where "h = min sz (4 - off)"
  have off: "unat off < 4" by (simp add: off_def ALIGN_DOWN_4 unat_and_3)
  consider "sz = 0" | "sz \<noteq> 0" "IS_ALIGNED a 4" "IS_ALIGNED sz 4" | "sz \<noteq> 0" "\<not> (IS_ALIGNED a 4 \<and> IS_ALIGNED sz 4)" "off = 0"
    | "sz \<noteq> 0" "\<not> (IS_ALIGNED a 4 \<and> IS_ALIGNED sz 4)" "off \<noteq> 0" by blast
  then show ?thesis
  proof cases
    case 1
    then show ?thesis using ok by (simp add: stub_lib_flash_write_buff_def)
  next
    case 2
    then have "flash_write_buff T a d sz False w = Some (STUB_LIB_OK, w')" using ok by (simp add: stub_lib_flash_write_buff_def)
    then show ?thesis by (rule flash_write_buff_mem(1)) (rule len)
  next
    case 3
    then have al: "(IS_ALIGNED a 4 \<and> IS_ALIGNED sz 4) = False" "ALIGN_DOWN a 4 = a" by (simp_all add: off_def)
    show ?thesis
      by (rule aligned_rest_mem [OF _ len])
        (use ok 3(1) in \<open>simp add: stub_lib_flash_write_buff_def Let_def al cong: if_cong split del: if_split\<close>)
  next
    case 4
    have off4: "unat (4 - off) = 4 - unat off" using off by (simp add: unat_diff word_le_nat_alt)
    have h: "unat h \<le> unat sz" "unat off + unat h \<le> 4" "unat (sz - h) = unat sz - unat h"
      using off off4 by (auto simp: h_def min_def word_le_nat_alt unat_diff)
    define A where "A = ALIGN_DOWN a 4"
    define f where "f = A + 4"
    have hf: "h = min sz (4 - off)" "f = A + 4" and unal: "(IS_ALIGNED a 4 \<and> IS_ALIGNED sz 4) = False"
      and A: "ALIGN_DOWN a 4 = A" "a - A = off" "a \<noteq> A"
      using 4 by (simp_all add: h_def f_def A_def off_def)
    have a: "A + off = a" by (simp add: off_def A_def)
    from ok obtain w1 where w1: "flash_write_partial_word T A d h off w = Some (STUB_LIB_OK, w1)"
      and rest: "do {
          (res, src, s', fa, w) \<leftarrow>
            (if ALIGN_DOWN (sz - h) 4 > 0 then do {
               (res, w) \<leftarrow> flash_write_buff T f (drop (unat h) d) (ALIGN_DOWN (sz - h) 4) False w1;
               Some (res, drop (unat (ALIGN_DOWN (sz - h) 4)) (drop (unat h) d), sz - h - ALIGN_DOWN (sz - h) 4,
                 f + ALIGN_DOWN (sz - h) 4, w) }
             else Some (STUB_LIB_OK, drop (unat h) d, sz - h, f, w1));
          if res \<noteq> STUB_LIB_OK then Some (res, w)
          else if s' > 0 then flash_write_partial_word T fa src s' 0 w
          else Some (STUB_LIB_OK, w) } = Some (STUB_LIB_OK, w')"
      by (auto simp: stub_lib_flash_write_buff_def Let_def hf A unal 4(1) bind_eq_Some_conv split: if_splits)
    have "mem w1 = program a (take (unat h) d) (mem w)" using partial_word_mem(1) [OF w1] h a len by simp
    then have r: "mem w' = program f (take (unat (sz - h)) (drop (unat h) d)) (program a (take (unat h) d) (mem w))"
      using aligned_rest_mem [OF rest] h len by simp
    show ?thesis
    proof (cases "sz = h")
      case False
      then have "f = a + h" using a by (auto simp: f_def h_def min_def split: if_splits)
      then show ?thesis using r h len unat_lt32 [of sz] program_next [of h "unat (sz - h)" d a "mem w"] by simp
    qed (use r in simp)
  qed
qed

text \<open>Erasing: one step takes the largest unit that fits, the loop takes the whole area.\<close>

lemma erase_start_4b_mem:
  assumes "erase_start_4b T n a c w = Some (STUB_LIB_OK, w')" and sup: "t_4byte_addr_supported T"
  shows "c = CMD_SECTOR_ERASE_4B \<Longrightarrow> mem w' = erase (a AND NOT 0xFFF) 0x1000 (mem w)"
    "c = CMD_LARGE_BLOCK_ERASE_4B \<Longrightarrow> mem w' = erase (a AND NOT 0xFFFF) 0x10000 (mem w)"
    "large_flash_mode w' = large_flash_mode w"
proof -
  obtain w1 w2 out where w1: "stub_lib_flash_wait_ready T 10000 w = Some (STUB_LIB_OK, w1)"
    and w2: "t_write_enable T w1 = Some w2"
    and w3: "t_opiflash_exec_cmd T
       \<lparr>p_spi_num = n, p_mode = SPI_FLASH_SLOWRD_MODE, p_cmd = c,
        p_cmd_bit_len = 8, p_addr = a, p_addr_bit_len = 32, p_dummy_bits = 0,
        p_mosi_data = None, p_mosi_bit_len = 0, p_miso_data = False, p_miso_bit_len = 0,
        p_cs_mask = ESP_ROM_OPIFLASH_SEL_CS0, p_is_write_erase_operation = True\<rparr> w2 = Some (out, w')"
    using assms(1) by (auto simp: erase_start_4b_def exec_erase_cmd_4b_def bind_eq_Some_conv rcs split: if_splits)
  note r = wait_ready_mem [OF w1]
  note en = write_enable [OF w2 r(3) [OF refl]]
  note er = erase_cmd [OF sup w3]
  show "c = CMD_SECTOR_ERASE_4B \<Longrightarrow> mem w' = erase (a AND NOT 0xFFF) 0x1000 (mem w)"
    "c = CMD_LARGE_BLOCK_ERASE_4B \<Longrightarrow> mem w' = erase (a AND NOT 0xFFFF) 0x10000 (mem w)"
    "large_flash_mode w' = large_flash_mode w"
    using er en r by simp_all
qed

lemma start_next_erase_mem:
  assumes ok: "stub_lib_flash_start_next_erase T (Some a) (Some sz) t w = Some (STUB_LIB_OK, a', s', w')"
    and sz: "sz \<noteq> 0" and al: "4096 dvd unat a" "4096 dvd unat sz"
    and lim: "use_4byte T w \<or> unat a + unat sz \<le> 16777216"
  obtains e where "a' = Some (a + e)" "s' = Some (sz - e)" "0 < unat e" "unat e \<le> unat sz"
    "4096 dvd unat e" "mem w' = erase a (unat e) (mem w)" "large_flash_mode w' = large_flash_mode w"
proof -
  have sz4: "4096 \<le> unat sz" using al(2) sz by (auto simp: dvd_imp_le unat_gt_0)
  obtain w1 where w1: "stub_lib_flash_wait_ready T (ucast t) w = Some (STUB_LIB_OK, w1)"
    using ok sz by (auto simp: stub_lib_flash_start_next_erase_def bind_eq_Some_conv rcs split: if_splits)
  note r = wait_ready_mem [OF w1]
  have u: "use_4byte T w1 = use_4byte T w" by (simp add: use_4byte_def r(2))
  have low: "a AND 0xFFFFFF = a" if "\<not> use_4byte T w"
  proof (rule word_unat_eq_iff [THEN iffD2])
    show "unat (a AND 0xFFFFFF) = unat a"
      using unat_and_pow2 [of a 24] lim that sz4 by simp
  qed
  have al12: "a AND NOT 0xFFF = a" using align_id [of 12 a] al(1) by simp
  define big where "big \<longleftrightarrow> sz \<ge> STUB_FLASH_BLOCK_SIZE \<and> a mod STUB_FLASH_BLOCK_SIZE = 0"
  define e where "e = (if big then STUB_FLASH_BLOCK_SIZE else STUB_FLASH_SECTOR_SIZE)"
  have e: "unat e = (if big then 0x10000 else 0x1000)" by (simp add: e_def regs)
  have al16: "a AND NOT 0xFFFF = a" if big
  proof -
    have "unat (a mod STUB_FLASH_BLOCK_SIZE) = 0" using that by (simp add: big_def)
    then have "65536 dvd unat a" by (simp add: regs unat_mod dvd_eq_mod_eq_0)
    then show ?thesis using align_id [of 16 a] by simp
  qed
  have "unat e \<le> unat sz" using sz4 by (auto simp: e big_def word_le_nat_alt regs)
  moreover from this have "e \<le> sz" by (simp add: word_le_nat_alt)
  moreover have "4096 dvd unat e" by (simp add: e)
  moreover have "a' = Some (a + e)" "s' = Some (sz - e)"
    using ok w1 \<open>e \<le> sz\<close> sz
    by (auto simp: stub_lib_flash_start_next_erase_def bind_eq_Some_conv rcs Let_def e_def big_def split: if_splits)
  moreover have "mem w' = erase a (unat e) (mem w1) \<and> large_flash_mode w' = large_flash_mode w1"
  proof (cases "use_4byte T w1")
    case True
    then have "erase_start_4b T FLASH_SPI_NUM a (if big then CMD_LARGE_BLOCK_ERASE_4B else CMD_SECTOR_ERASE_4B) w1
      = Some (STUB_LIB_OK, w')"
      using ok w1 sz
      by (auto simp: stub_lib_flash_start_next_erase_def bind_eq_Some_conv rcs Let_def big_def
          stub_target_flash_4byte_erase_block_start_def stub_target_flash_4byte_erase_sector_start_def
          split: if_splits)
    from erase_start_4b_mem [OF this] True show ?thesis by (cases big) (simp_all add: use_4byte_def e al12 [simplified] al16 [simplified])
  next
    case False
    then have a24: "a AND 0xFFFFFF = a" using low u by blast
    from False have "(if big then t_erase_block_start T a w1 else t_erase_sector_start T a w1) = Some w'"
      using ok w1 sz
      by (auto simp: stub_lib_flash_start_next_erase_def bind_eq_Some_conv rcs Let_def big_def split: if_splits)
    moreover have "erase (a AND 0xFFFFFF AND NOT 0xFFF) = erase a" by (simp only: and.assoc [symmetric] a24 al12)
    moreover have "erase (a AND 0xFFFFFF AND NOT 0xFFFF) = erase a" if big
      by (simp only: and.assoc [symmetric] a24 al16 [OF that])
    ultimately show ?thesis
      using erase_sector_start [of a w1 w'] erase_block_start [of a w1 w'] r(3)
      by (cases big) (simp_all add: e)
  qed
  ultimately show ?thesis using that [of e] r e by simp
qed

lemma erase_area_loop_mem':
  assumes "erase_area_loop T' a sz w = Some (STUB_LIB_OK, w')" and "T' = T"
    and "4096 dvd unat a" "4096 dvd unat sz"
    and "use_4byte T w \<or> unat a + unat sz \<le> 16777216"
  shows "mem w' = erase a (unat sz) (mem w)"
  using assms
proof (induction T' a sz w arbitrary: w' rule: erase_area_loop.induct)
  case (1 T' a sz w)
  show ?case
  proof (cases "sz > 0")
    case False
    then have "sz = 0" by (simp add: word_gt_0)
    then show ?thesis using 1(2) by (subst (asm) erase_area_loop.simps) (simp add: erase_def)
  next
    case True
    obtain a' s' w1 where
        step: "stub_lib_flash_start_next_erase T (Some a) (Some sz) STUB_FLASH_ERASE_TIMEOUT_US w =
          Some (STUB_LIB_OK, Some a', Some s', w1)"
      and rest: "erase_area_loop T a' s' w1 = Some (STUB_LIB_OK, w')"
      using 1(2,3) True
      by (subst (asm) erase_area_loop.simps) (auto split: option.splits prod.splits if_splits)
    have "sz \<noteq> 0" using True by auto
    from start_next_erase_mem [OF step this 1(4,5,6)] obtain e where
      e: "a' = a + e" "s' = sz - e" "0 < unat e" "unat e \<le> unat sz" "4096 dvd unat e"
        "mem w1 = erase a (unat e) (mem w)" "large_flash_mode w1 = large_flash_mode w"
      by (metis option.inject)
    have s': "unat s' = unat sz - unat e" using e by (simp add: unat_diff word_le_nat_alt)
    have lim': "use_4byte T w1 \<or> unat a' + unat s' \<le> 16777216"
    proof (cases "use_4byte T w")
      case False
      then have "unat a' = unat a + unat e" unfolding e(1) using 1(6) e by (intro unat_add_lt32) simp
      then show ?thesis using 1(6) e s' False by simp
    qed (simp add: use_4byte_def e)
    have a'd: "4096 dvd unat a'"
      using e(1) 1(4) e(5) by (simp add: unat_word_ariths dvd_mod_iff)
    have "mem w' = erase a' (unat s') (mem w1)"
    proof (rule 1(1))
      show "0 < sz" by fact
    qed (use step rest 1(3,4,5) e s' a'd lim' in auto)
    also have "\<dots> = erase a (unat sz) (mem w)"
      using erase_append [of "unat e" "unat s'" a "mem w"] e s' unat_lt32 [of sz] by simp
    finally show ?thesis .
  qed
qed

lemma erase_area_mem:
  assumes ok: "stub_lib_flash_erase_area T a sz w = Some (STUB_LIB_OK, w')"
    and lim: "use_4byte T w \<or> unat a + unat sz \<le> 16777216"
  shows "mem w' = erase a (unat sz) (mem w)" "ready w'"
proof -
  obtain w1 where al: "IS_ALIGNED a STUB_FLASH_SECTOR_SIZE" "IS_ALIGNED sz STUB_FLASH_SECTOR_SIZE"
    and l: "erase_area_loop T a sz w = Some (STUB_LIB_OK, w1)"
    and r: "stub_lib_flash_wait_ready T (ucast STUB_FLASH_ERASE_TIMEOUT_US) w1 = Some (STUB_LIB_OK, w')"
    using ok by (auto simp: stub_lib_flash_erase_area_def bind_eq_Some_conv rcs split: if_splits)
  have "4096 dvd unat a" "4096 dvd unat sz"
    using al by (simp_all add: STUB_FLASH_SECTOR_SIZE_def IS_ALIGNED_4096)
  then show "mem w' = erase a (unat sz) (mem w)" "ready w'"
    using erase_area_loop_mem' [OF l refl] lim wait_ready_mem [OF r] by simp_all
qed

end

end
