(* ===== verification/Cache.thy ===== *)
theory Cache
  imports World S3_Regs
begin

text \<open>
  The cache API, \<open>src/cache.c\<close>, its target interface with the generic implementations of
  \<open>src/target/common/src/cache.c\<close>, and those of the ESP32-S3
  (\<open>src/target/esp32s3/src/cache.c\<close>). No operation waits, so they are total.
\<close>

record ('s, 'w) cache_target =
  tc_get_caps :: u32
  tc_writeback_all :: "'w \<Rightarrow> 'w"
  tc_invalidate_all :: "'w \<Rightarrow> 'w"
  tc_invalidate_addr :: "u32 \<Rightarrow> u32 \<Rightarrow> 'w \<Rightarrow> 'w"
  tc_writeback_addr :: "u32 \<Rightarrow> u32 \<Rightarrow> 'w \<Rightarrow> 'w"
  tc_stop :: "'w \<Rightarrow> 'w"
  tc_start :: "'w \<Rightarrow> 'w"
  tc_state_size :: u32
  tc_init :: "'s option \<Rightarrow> 'w \<Rightarrow> 's option \<times> 'w"
  tc_deinit :: "'s option \<Rightarrow> 'w \<Rightarrow> 'w"
  tc_is_enabled :: "'w \<Rightarrow> bool \<times> 'w"

section \<open>Generic implementations (common/src/cache.c)\<close>

definition stub_target_cache_get_caps :: u32 where "stub_target_cache_get_caps = 0"

definition stub_target_cache_writeback_all :: "'w \<Rightarrow> 'w" where
  "stub_target_cache_writeback_all w = w"

definition stub_target_cache_invalidate_all :: "'w \<Rightarrow> 'w" where
  "stub_target_cache_invalidate_all w = w"

definition stub_target_cache_invalidate_addr :: "u32 \<Rightarrow> u32 \<Rightarrow> 'w \<Rightarrow> 'w" where
  "stub_target_cache_invalidate_addr vaddr sz w = w"

definition stub_target_cache_writeback_addr :: "u32 \<Rightarrow> u32 \<Rightarrow> 'w \<Rightarrow> 'w" where
  "stub_target_cache_writeback_addr vaddr sz w = w"

definition stub_target_cache_stop :: "'w \<Rightarrow> 'w" where "stub_target_cache_stop w = w"

definition stub_target_cache_start :: "'w \<Rightarrow> 'w" where "stub_target_cache_start w = w"

definition stub_target_cache_state_size :: u32 where "stub_target_cache_state_size = 0"

definition stub_target_cache_init :: "'s option \<Rightarrow> 'w \<Rightarrow> 's option \<times> 'w" where
  "stub_target_cache_init state w = (state, w)"

definition stub_target_cache_deinit :: "'s option \<Rightarrow> 'w \<Rightarrow> 'w" where
  "stub_target_cache_deinit state w = w"

definition stub_target_cache_is_enabled :: "'w \<Rightarrow> bool \<times> 'w" where
  "stub_target_cache_is_enabled w = (False, w)"

section \<open>The public API (src/cache.c)\<close>

definition stub_lib_cache_get_caps :: "('s, 'w) cache_target \<Rightarrow> u32" where
  "stub_lib_cache_get_caps C = tc_get_caps C"

definition stub_lib_cache_writeback_all :: "('s, 'w) cache_target \<Rightarrow> 'w \<Rightarrow> 'w" where
  "stub_lib_cache_writeback_all C w = tc_writeback_all C w"

definition stub_lib_cache_invalidate_all :: "('s, 'w) cache_target \<Rightarrow> 'w \<Rightarrow> 'w" where
  "stub_lib_cache_invalidate_all C w = tc_invalidate_all C w"

definition stub_lib_cache_invalidate_addr :: "('s, 'w) cache_target \<Rightarrow> u32 \<Rightarrow> u32 \<Rightarrow> 'w \<Rightarrow> 'w" where
  "stub_lib_cache_invalidate_addr C vaddr sz w = tc_invalidate_addr C vaddr sz w"

definition stub_lib_cache_writeback_addr :: "('s, 'w) cache_target \<Rightarrow> u32 \<Rightarrow> u32 \<Rightarrow> 'w \<Rightarrow> 'w" where
  "stub_lib_cache_writeback_addr C vaddr sz w = tc_writeback_addr C vaddr sz w"

definition stub_lib_cache_stop :: "('s, 'w) cache_target \<Rightarrow> 'w \<Rightarrow> 'w" where
  "stub_lib_cache_stop C w = tc_stop C w"

definition stub_lib_cache_start :: "('s, 'w) cache_target \<Rightarrow> 'w \<Rightarrow> 'w" where
  "stub_lib_cache_start C w = tc_start C w"

definition stub_lib_cache_state_size :: "('s, 'w) cache_target \<Rightarrow> u32" where
  "stub_lib_cache_state_size C = tc_state_size C"

definition stub_lib_cache_init :: "('s, 'w) cache_target \<Rightarrow> 's option \<Rightarrow> 'w \<Rightarrow> 's option \<times> 'w" where
  "stub_lib_cache_init C state w = tc_init C state w"

definition stub_lib_cache_deinit :: "('s, 'w) cache_target \<Rightarrow> 's option \<Rightarrow> 'w \<Rightarrow> 'w" where
  "stub_lib_cache_deinit C state w = tc_deinit C state w"

definition stub_lib_is_cache_enabled :: "('s, 'w) cache_target \<Rightarrow> 'w \<Rightarrow> bool \<times> 'w" where
  "stub_lib_is_cache_enabled C w = tc_is_enabled C w"

section \<open>ESP32-S3 (esp32s3/src/cache.c)\<close>

definition CACHE_FREEZE_ACK_BUSY :: u32 where [regs]: "CACHE_FREEZE_ACK_BUSY = 0"

definition s3_cache_get_caps :: u32 where
  "s3_cache_get_caps = STUB_CACHE_CAP_HAS_INVALIDATE_ADDR"

definition s3_cache_writeback_all :: "'a world_scheme \<Rightarrow> 'a world_scheme" where
  "s3_cache_writeback_all w = rom_void (CacheFn Cache_WriteBack_All) [] [] w"

definition s3_cache_writeback_addr :: "u32 \<Rightarrow> u32 \<Rightarrow> 'a world_scheme \<Rightarrow> 'a world_scheme" where
  "s3_cache_writeback_addr vaddr sz w = rom_void (CacheFn Cache_WriteBack_Addr) [vaddr, sz] [] w"

definition s3_cache_invalidate_all :: "'a world_scheme \<Rightarrow> 'a world_scheme" where
  "s3_cache_invalidate_all w =
     (let w = rom_void (CacheFn Cache_Invalidate_DCache_All) [] [] w
      in rom_void (CacheFn Cache_Invalidate_ICache_All) [] [] w)"

definition s3_cache_invalidate_addr :: "u32 \<Rightarrow> u32 \<Rightarrow> 'a world_scheme \<Rightarrow> 'a world_scheme" where
  "s3_cache_invalidate_addr vaddr sz w = rom_void (CacheFn Cache_Invalidate_Addr) [vaddr, sz] [] w"

definition s3_cache_stop :: "'a world_scheme \<Rightarrow> 'a world_scheme" where
  "s3_cache_stop w =
     (let w = rom_void (CacheFn Cache_Freeze_ICache_Enable) [CACHE_FREEZE_ACK_BUSY] [] w
      in rom_void (CacheFn Cache_Freeze_DCache_Enable) [CACHE_FREEZE_ACK_BUSY] [] w)"

definition s3_cache_start :: "'a world_scheme \<Rightarrow> 'a world_scheme" where
  "s3_cache_start w =
     (let w = rom_void (CacheFn Cache_Freeze_DCache_Disable) [] [] w
      in rom_void (CacheFn Cache_Freeze_ICache_Disable) [] [] w)"

text \<open>\<open>&&\<close> reads the second register only when the first bit is set.\<close>

definition s3_cache_is_enabled :: "'a world_scheme \<Rightarrow> bool \<times> 'a world_scheme" where
  "s3_cache_is_enabled w =
     (let (v, w) = REG_GET_BIT EXTMEM_DCACHE_CTRL_REG EXTMEM_DCACHE_ENABLE w
      in if v \<noteq> 0 then
           (let (v, w) = REG_GET_BIT EXTMEM_DCACHE_CTRL1_REG EXTMEM_DCACHE_SHUT_CORE0_BUS w
            in (\<not> (v \<noteq> 0), w))
         else (False, w))"

definition s3_cache_init :: "'s option \<Rightarrow> 'a world_scheme \<Rightarrow> 's option \<times> 'a world_scheme" where
  "s3_cache_init state w =
     (let (cache_was_enabled, w) = s3_cache_is_enabled w
      in (state, if \<not> cache_was_enabled then rom_void (CacheFn ROM_Boot_Cache_Init) [] [] w else w))"

text \<open>The S3 build links its own functions, and the generic ones it does not define.\<close>

definition s3_cache_target :: "(unit, 'a world_scheme) cache_target" where
  "s3_cache_target =
     \<lparr>tc_get_caps = s3_cache_get_caps, tc_writeback_all = s3_cache_writeback_all,
      tc_invalidate_all = s3_cache_invalidate_all, tc_invalidate_addr = s3_cache_invalidate_addr,
      tc_writeback_addr = s3_cache_writeback_addr, tc_stop = s3_cache_stop,
      tc_start = s3_cache_start, tc_state_size = stub_target_cache_state_size,
      tc_init = s3_cache_init, tc_deinit = stub_target_cache_deinit,
      tc_is_enabled = s3_cache_is_enabled\<rparr>"

lemmas s3_cache_defs = stub_lib_cache_stop_def stub_lib_cache_start_def
  stub_lib_cache_invalidate_addr_def stub_lib_cache_invalidate_all_def s3_cache_target_def
  s3_cache_stop_def s3_cache_start_def s3_cache_invalidate_addr_def s3_cache_invalidate_all_def

section \<open>What stopping and starting the cache does\<close>

definition is_cache_call :: "ev \<Rightarrow> bool" where
  "is_cache_call e \<longleftrightarrow> (case e of Call (CacheFn f) _ _ _ _ \<Rightarrow> True | _ \<Rightarrow> False)"

lemma s3_cache_stop_start_emits [ev_simps]:
  "emits is_cache_call w (stub_lib_cache_stop s3_cache_target w)"
  "emits is_cache_call w (stub_lib_cache_start s3_cache_target w)"
  by (auto simp: s3_cache_defs prim_eq Let_def is_cache_call_def intro!: emits_after)

end
