(* ===== verification/S3_Aes_Xts.thy ===== *)
theory S3_Aes_Xts
  imports World S3_Regs
begin

text \<open>
  The AES-XTS engine that encrypts flash writes: the generic functions of
  \<open>src/target/common/src/aes_xts.c\<close>, for chips without one, and the ESP32-S3's of
  \<open>src/target/esp32s3/src/aes_xts.c\<close>.
\<close>

section \<open>Generic implementations\<close>

definition stub_target_aes_xts_init :: "'w \<Rightarrow> 'w option" where
  "stub_target_aes_xts_init w = Some w"

definition stub_target_aes_xts_encrypt_trigger :: "u32 \<Rightarrow> u8 list \<Rightarrow> u32 \<Rightarrow> 'w \<Rightarrow> 'w option" where
  "stub_target_aes_xts_encrypt_trigger flash_addr data block_size w = Some w"

definition stub_target_aes_xts_wait_data_ready :: "u64 \<Rightarrow> 'w \<Rightarrow> (rc \<times> 'w) option" where
  "stub_target_aes_xts_wait_data_ready timeout_us w = Some (STUB_LIB_ERR_NOT_SUPPORTED, w)"

definition stub_target_aes_xts_clear :: "'w \<Rightarrow> 'w option" where
  "stub_target_aes_xts_clear w = Some w"

section \<open>ESP32-S3\<close>

definition AES_XTS_STATE_DONE :: u32 where [regs]: "AES_XTS_STATE_DONE = 0x2"
definition AES_XTS_STATE_VISIBLE :: u32 where [regs]: "AES_XTS_STATE_VISIBLE = 0x3"

definition s3_aes_xts_init :: "'a world_scheme \<Rightarrow> 'a world_scheme option" where
  "s3_aes_xts_init w = Some (REG_WRITE AES_XTS_DESTINATION_REG 0 w)"

definition s3_aes_xts_encrypt_trigger ::
  "u32 \<Rightarrow> u8 list \<Rightarrow> u32 \<Rightarrow> 'a world_scheme \<Rightarrow> 'a world_scheme option" where
  "s3_aes_xts_encrypt_trigger flash_addr data block_size w =
     (let plaintext_offs = flash_addr mod MAX_ENCRYPT_BLOCK;
          w = REG_WRITE AES_XTS_SIZE_REG (drop_bit 5 block_size) w;
          w = mem_store (AES_XTS_PLAIN_BASE + plaintext_offs) (take (unat block_size) data) w;
          w = REG_WRITE AES_XTS_PHYSICAL_ADDR_REG flash_addr w
      in Some (REG_WRITE AES_XTS_TRIGGER_REG 1 w))"

text \<open>Both waits count down one timeout: the second gets what the first left.\<close>

definition s3_aes_xts_wait_data_ready :: "u64 \<Rightarrow> 'a world_scheme \<Rightarrow> (rc \<times> 'a world_scheme) option" where
  "s3_aes_xts_wait_data_ready timeout_us w =
     (let (ret, timeout_us, w) =
        stub_target_wait_reg_state AES_XTS_STATE_REG AES_XTS_STATE_DONE (Some timeout_us) w
      in if ret \<noteq> STUB_LIB_OK then Some (ret, w)
         else
           (let w = REG_WRITE AES_XTS_RELEASE_REG 1 w;
                (ret, timeout_us, w) =
                  stub_target_wait_reg_state AES_XTS_STATE_REG AES_XTS_STATE_VISIBLE timeout_us w
            in Some (ret, w)))"

definition s3_aes_xts_clear :: "'a world_scheme \<Rightarrow> 'a world_scheme option" where
  "s3_aes_xts_clear w = Some (REG_WRITE AES_XTS_DESTROY_REG 1 w)"

end
