(* ===== verification/S3_Flash.thy ===== *)
theory S3_Flash
  imports Flash_Spec Cache S3_Aes_Xts
begin

text \<open>
  The flash target of the ESP32-S3, \<open>src/target/esp32s3/src/flash.c\<close>: saving and restoring
  the SPI controllers around the stub's use of the flash, the switch of the cache to four
  byte addresses, and the link of all flash symbols of that build. The static
  \<open>s_addr32_state\<close> extends the state of the machine. Logging calls expand to nothing in
  this build.
\<close>

section \<open>State\<close>

definition SPI_USER_REG_ID :: nat where "SPI_USER_REG_ID = 0"
definition SPI_CTRL_REG_ID :: nat where "SPI_CTRL_REG_ID = 1"
definition SPI_CTRL2_REG_ID :: nat where "SPI_CTRL2_REG_ID = 2"
definition SPI_CLOCK_REG_ID :: nat where "SPI_CLOCK_REG_ID = 3"
definition SPI_DDR_REG_ID :: nat where "SPI_DDR_REG_ID = 4"
definition SPI_TIMING_CALI_REG_ID :: nat where "SPI_TIMING_CALI_REG_ID = 5"
definition SPI_REGS_NUM :: nat where "SPI_REGS_NUM = 6"

definition SPI0_USER_REG_ID :: nat where "SPI0_USER_REG_ID = 0"
definition SPI0_USER1_REG_ID :: nat where "SPI0_USER1_REG_ID = 1"
definition SPI0_USER2_REG_ID :: nat where "SPI0_USER2_REG_ID = 2"
definition SPI0_CTRL_REG_ID :: nat where "SPI0_CTRL_REG_ID = 3"
definition SPI0_CTRL2_REG_ID :: nat where "SPI0_CTRL2_REG_ID = 4"
definition SPI0_CACHE_FCTRL_REG_ID :: nat where "SPI0_CACHE_FCTRL_REG_ID = 5"
definition SPI0_DDR_REG_ID :: nat where "SPI0_DDR_REG_ID = 6"
definition SPI0_TIMING_CALI_REG_ID :: nat where "SPI0_TIMING_CALI_REG_ID = 7"
definition SPI0_CLOCK_REG_ID :: nat where "SPI0_CLOCK_REG_ID = 8"
definition SPI0_MISC_REG_ID :: nat where "SPI0_MISC_REG_ID = 9"
definition SPI0_MISO_DLEN_REG_ID :: nat where "SPI0_MISO_DLEN_REG_ID = 10"
definition SPI0_MOSI_DLEN_REG_ID :: nat where "SPI0_MOSI_DLEN_REG_ID = 11"
definition SPI0_REGS_NUM :: nat where "SPI0_REGS_NUM = 12"

lemmas reg_ids = SPI_USER_REG_ID_def SPI_CTRL_REG_ID_def SPI_CTRL2_REG_ID_def SPI_CLOCK_REG_ID_def
  SPI_DDR_REG_ID_def SPI_TIMING_CALI_REG_ID_def SPI_REGS_NUM_def
  SPI0_USER_REG_ID_def SPI0_USER1_REG_ID_def SPI0_USER2_REG_ID_def SPI0_CTRL_REG_ID_def
  SPI0_CTRL2_REG_ID_def SPI0_CACHE_FCTRL_REG_ID_def SPI0_DDR_REG_ID_def
  SPI0_TIMING_CALI_REG_ID_def SPI0_CLOCK_REG_ID_def SPI0_MISC_REG_ID_def
  SPI0_MISO_DLEN_REG_ID_def SPI0_MOSI_DLEN_REG_ID_def SPI0_REGS_NUM_def

record s3_flash_state =
  spi_regs :: "u32 list"
  spi0_regs :: "u32 list"
  st_dummy_len_plus :: u8
  spi0_dummy_len_plus :: u8
  target_cr2 :: u8
  octal_active :: bool

text \<open>The buffer comes from the client with arbitrary contents, but with the arrays' lengths.\<close>

definition wf_state :: "s3_flash_state \<Rightarrow> bool" where
  "wf_state s \<longleftrightarrow> length (spi_regs s) = SPI_REGS_NUM \<and> length (spi0_regs s) = SPI0_REGS_NUM"

record addr32_state =
  applied :: bool
  saved_user :: u32
  saved_user1 :: u32
  saved_user2 :: u32
  saved_cache_fctrl :: u32
  saved_ctrl :: u32
  saved_timing_cali :: u32
  saved_dummy_len_plus :: u8

record s3_world = flash_world +
  s_addr32_state :: addr32_state

definition s3_flash_state_size :: u32 where
  "s3_flash_state_size = of_nat (4 * SPI_REGS_NUM + 4 * SPI0_REGS_NUM + 1 + 1 + 1 + 1)"

definition MXIC_CMD_WRCR2_SPI :: u32 where [regs]: "MXIC_CMD_WRCR2_SPI = 0x72"
definition MXIC_CR2_MODE_OPI_STR :: u8 where [regs]: "MXIC_CR2_MODE_OPI_STR = 0x01"
definition MXIC_CR2_MODE_OPI_DTR :: u8 where [regs]: "MXIC_CR2_MODE_OPI_DTR = 0x02"

section \<open>Commands and readiness\<close>

definition s3_flash_get_spiconfig_efuse :: "'a world_scheme \<Rightarrow> u32 \<times> 'a world_scheme" where
  "s3_flash_get_spiconfig_efuse w = rom_num (FlashFn Esp_rom_efuse_get_flash_gpio_info) [] [] w"

text \<open>The ROM gets the address of the static table \<open>funcs\<close>.\<close>

definition s3_flash_init_funcs :: "'a world_scheme \<Rightarrow> 'a world_scheme" where
  "s3_flash_init_funcs w = cell_write (RomVar Rom_spiflash_legacy_funcs) (sym_addr w Sym_flash_funcs) w"

definition rom_opiflash_exec_cmd :: "opiflash_cmd_params \<Rightarrow> 'a world_scheme \<Rightarrow> u8 list \<times> 'a world_scheme" where
  "rom_opiflash_exec_cmd p w = rom_exec_flash_cmd Esp_rom_opiflash_exec_cmd p w"

definition s3_opiflash_exec_cmd ::
  "opiflash_cmd_params \<Rightarrow> 'a world_scheme \<Rightarrow> (u8 list \<times> 'a world_scheme) option" where
  "s3_opiflash_exec_cmd params w = Some (rom_opiflash_exec_cmd params w)"

definition s3_spi_wait_ready :: "'a world_scheme \<Rightarrow> 'a world_scheme option" where
  "s3_spi_wait_ready w =
     do { w \<leftarrow> busy_wait (SPI_MEM_FSM_REG FLASH_SPI_NUM)
                 (\<lambda>v. drop_bit SPI_MEM_ST_S v AND SPI_MEM_ST_V \<noteq> 0) w;
          busy_wait (SPI_MEM_FSM_REG FLASH_SPI_NUM_INT) (\<lambda>v. v AND SPI_MEM_ST \<noteq> 0) w }"

definition s3_get_max_supported_flash_size :: u32 where
  "s3_get_max_supported_flash_size = ucast (GIB 1)"

definition s3_flash_needs_attach :: "'a world_scheme \<Rightarrow> bool \<times> 'a world_scheme" where
  "s3_flash_needs_attach w =
     (let (v, w) = READ_PERI_REG (SPI_MEM_CACHE_FCTRL_REG FLASH_SPI_NUM_INT) w
      in (v AND SPI_MEM_CACHE_FLASH_USR_CMD = 0, w))"

section \<open>Saving and restoring SPI1\<close>

text \<open>Saving one register into its slot.\<close>

definition save_spi_reg ::
  "nat \<Rightarrow> u32 \<Rightarrow> s3_flash_state \<times> 'a world_scheme \<Rightarrow> s3_flash_state \<times> 'a world_scheme" where
  "save_spi_reg i r sw =
     (let (s, w) = sw; (v, w) = READ_PERI_REG r w in (s\<lparr>spi_regs := (spi_regs s)[i := v]\<rparr>, w))"

definition save_spi0_reg ::
  "nat \<Rightarrow> u32 \<Rightarrow> s3_flash_state \<times> 'a world_scheme \<Rightarrow> s3_flash_state \<times> 'a world_scheme" where
  "save_spi0_reg i r sw =
     (let (s, w) = sw; (v, w) = REG_READ r w in (s\<lparr>spi0_regs := (spi0_regs s)[i := v]\<rparr>, w))"

definition s3_flash_state_save ::
  "s3_flash_state option \<Rightarrow> 'a world_scheme \<Rightarrow> s3_flash_state option \<times> 'a world_scheme" where
  "s3_flash_state_save state w =
     (case state of
        None \<Rightarrow> (None, w)
      | Some s \<Rightarrow>
          (let sw = save_spi_reg SPI_USER_REG_ID (SPI_MEM_USER_REG FLASH_SPI_NUM) (s, w);
               sw = save_spi_reg SPI_CTRL_REG_ID (SPI_MEM_CTRL_REG FLASH_SPI_NUM) sw;
               sw = save_spi_reg SPI_CTRL2_REG_ID (SPI_MEM_CTRL2_REG FLASH_SPI_NUM) sw;
               sw = save_spi_reg SPI_CLOCK_REG_ID (SPI_MEM_CLOCK_REG FLASH_SPI_NUM) sw;
               sw = save_spi_reg SPI_DDR_REG_ID (SPI_MEM_DDR_REG FLASH_SPI_NUM) sw;
               (s, w) = save_spi_reg SPI_TIMING_CALI_REG_ID (SPI_MEM_TIMING_CALI_REG FLASH_SPI_NUM) sw;
               (v, w) = cell_read (RomVar (Dummy_len_plus (unat FLASH_SPI_NUM))) w
           in (Some (s\<lparr>st_dummy_len_plus := ucast v\<rparr>), w)))"

definition s3_flash_state_restore ::
  "s3_flash_state option \<Rightarrow> 'a world_scheme \<Rightarrow> 'a world_scheme" where
  "s3_flash_state_restore state w =
     (case state of
        None \<Rightarrow> w
      | Some s \<Rightarrow>
          (let w = WRITE_PERI_REG (SPI_MEM_CTRL_REG FLASH_SPI_NUM) (spi_regs s ! SPI_CTRL_REG_ID) w;
               w = WRITE_PERI_REG (SPI_MEM_CTRL2_REG FLASH_SPI_NUM) (spi_regs s ! SPI_CTRL2_REG_ID) w;
               w = WRITE_PERI_REG (SPI_MEM_CLOCK_REG FLASH_SPI_NUM) (spi_regs s ! SPI_CLOCK_REG_ID) w;
               w = WRITE_PERI_REG (SPI_MEM_DDR_REG FLASH_SPI_NUM) (spi_regs s ! SPI_DDR_REG_ID) w;
               w = WRITE_PERI_REG (SPI_MEM_USER_REG FLASH_SPI_NUM) (spi_regs s ! SPI_USER_REG_ID) w;
               w = WRITE_PERI_REG (SPI_MEM_TIMING_CALI_REG FLASH_SPI_NUM) (spi_regs s ! SPI_TIMING_CALI_REG_ID) w
           in cell_write (RomVar (Dummy_len_plus (unat FLASH_SPI_NUM))) (ucast (st_dummy_len_plus s)) w))"

definition s3_spi_init :: "'a world_scheme \<Rightarrow> 'a world_scheme" where
  "s3_spi_init w =
     (let freqbits = 0x30103;
          w = REG_CLR_BIT (SPI_MEM_MISC_REG FLASH_SPI_NUM_INT) SPI_MEM_CS0_DIS w;
          w = REG_SET_BIT (SPI_MEM_MISC_REG FLASH_SPI_NUM_INT) SPI_MEM_CS1_DIS w;
          w = rom_void (FlashFn Spi_common_set_flash_cs_timing) [] [] w;
          w = WRITE_PERI_REG (SPI_MEM_CLOCK_REG FLASH_SPI_NUM) freqbits w;
          w = WRITE_PERI_REG (SPI_MEM_CLOCK_REG FLASH_SPI_NUM_INT) freqbits w;
          w = WRITE_PERI_REG (SPI_MEM_CTRL_REG FLASH_SPI_NUM) (SPI_MEM_WP_REG OR SPI_MEM_RESANDRES) w;
          w = WRITE_PERI_REG (SPI_MEM_CTRL_REG FLASH_SPI_NUM_INT) SPI_MEM_WP_REG w;
          w = WRITE_PERI_REG (SPI_MEM_USER_REG FLASH_SPI_NUM) 0 w;
          w = WRITE_PERI_REG (SPI_MEM_USER1_REG FLASH_SPI_NUM) 0 w;
          w = WRITE_PERI_REG (SPI_MEM_USER2_REG FLASH_SPI_NUM) (push_bit SPI_MEM_USR_COMMAND_BITLEN_S 0x7) w;
          w = REG_SET_FIELD (SPI_MEM_MISO_DLEN_REG FLASH_SPI_NUM_INT)
                SPI_MEM_USR_MISO_DBITLEN_V SPI_MEM_USR_MISO_DBITLEN_S 0xff w;
          w = REG_SET_FIELD (SPI_MEM_MOSI_DLEN_REG FLASH_SPI_NUM_INT)
                SPI_MEM_USR_MOSI_DBITLEN_V SPI_MEM_USR_MOSI_DBITLEN_S 0xff w;
          w = REG_SET_FIELD (SPI_MEM_USER2_REG FLASH_SPI_NUM_INT)
                SPI_MEM_USR_COMMAND_BITLEN_V SPI_MEM_USR_COMMAND_BITLEN_S 0x7 w;
          w = REG_SET_BIT (SPI_MEM_CACHE_FCTRL_REG FLASH_SPI_NUM_INT) SPI_MEM_CACHE_REQ_EN w;
          w = WRITE_PERI_REG (SPI_MEM_DDR_REG FLASH_SPI_NUM_INT) 0 w;
          w = WRITE_PERI_REG (SPI_MEM_DDR_REG FLASH_SPI_NUM) 0 w;
          w = rom_void (FlashFn Spi_cache_mode_switch) [0] [] w;
          w = REG_SET_BIT (SPI_MEM_CACHE_FCTRL_REG FLASH_SPI_NUM_INT) SPI_MEM_CACHE_FLASH_USR_CMD w;
          w = cell_write (RomVar (Dummy_len_plus (unat FLASH_SPI_NUM))) 0 w;
          w = CLEAR_PERI_REG_MASK (SPI_MEM_TIMING_CALI_REG FLASH_SPI_NUM) SPI_MEM_TIMING_CALI_M w
      in REG_SET_FIELD (SPI_MEM_TIMING_CALI_REG FLASH_SPI_NUM)
           SPI_MEM_EXTRA_DUMMY_CYCLELEN_V SPI_MEM_EXTRA_DUMMY_CYCLELEN_S 0 w)"

section \<open>The octal flash: SPI0 and the chip's mode\<close>

definition octal_save_spi0_state ::
  "s3_flash_state \<Rightarrow> 'a world_scheme \<Rightarrow> s3_flash_state \<times> 'a world_scheme" where
  "octal_save_spi0_state s w =
     (let sw = save_spi0_reg SPI0_USER_REG_ID (SPI_MEM_USER_REG FLASH_SPI_NUM_INT) (s, w);
          sw = save_spi0_reg SPI0_USER1_REG_ID (SPI_MEM_USER1_REG FLASH_SPI_NUM_INT) sw;
          sw = save_spi0_reg SPI0_USER2_REG_ID (SPI_MEM_USER2_REG FLASH_SPI_NUM_INT) sw;
          sw = save_spi0_reg SPI0_CTRL_REG_ID (SPI_MEM_CTRL_REG FLASH_SPI_NUM_INT) sw;
          sw = save_spi0_reg SPI0_CTRL2_REG_ID (SPI_MEM_CTRL2_REG FLASH_SPI_NUM_INT) sw;
          sw = save_spi0_reg SPI0_CACHE_FCTRL_REG_ID (SPI_MEM_CACHE_FCTRL_REG FLASH_SPI_NUM_INT) sw;
          sw = save_spi0_reg SPI0_DDR_REG_ID (SPI_MEM_DDR_REG FLASH_SPI_NUM_INT) sw;
          sw = save_spi0_reg SPI0_TIMING_CALI_REG_ID (SPI_MEM_TIMING_CALI_REG FLASH_SPI_NUM_INT) sw;
          sw = save_spi0_reg SPI0_CLOCK_REG_ID (SPI_MEM_CLOCK_REG FLASH_SPI_NUM_INT) sw;
          sw = save_spi0_reg SPI0_MISC_REG_ID (SPI_MEM_MISC_REG FLASH_SPI_NUM_INT) sw;
          sw = save_spi0_reg SPI0_MISO_DLEN_REG_ID (SPI_MEM_MISO_DLEN_REG FLASH_SPI_NUM_INT) sw;
          (s, w) = save_spi0_reg SPI0_MOSI_DLEN_REG_ID (SPI_MEM_MOSI_DLEN_REG FLASH_SPI_NUM_INT) sw;
          (v, w) = cell_read (RomVar (Dummy_len_plus (unat FLASH_SPI_NUM_INT))) w;
          s = s\<lparr>spi0_dummy_len_plus := ucast v\<rparr>;
          s = s\<lparr>target_cr2 :=
                 (if spi0_regs s ! SPI0_DDR_REG_ID AND SPI_MEM_SPI_FMEM_DDR_EN \<noteq> 0
                  then MXIC_CR2_MODE_OPI_DTR else MXIC_CR2_MODE_OPI_STR)\<rparr>
      in (s\<lparr>octal_active := True\<rparr>, w))"

definition octal_restore_chip_mode :: "u8 \<Rightarrow> 'a world_scheme \<Rightarrow> 'a world_scheme" where
  "octal_restore_chip_mode cr2 w =
     (let (_, w) = rom_opiflash_exec_cmd
            \<lparr>p_spi_num = FLASH_SPI_NUM, p_mode = SPI_FLASH_FASTRD_MODE, p_cmd = CMD_WREN,
             p_cmd_bit_len = 8, p_addr = 0, p_addr_bit_len = 0, p_dummy_bits = 0,
             p_mosi_data = None, p_mosi_bit_len = 0, p_miso_data = False, p_miso_bit_len = 0,
             p_cs_mask = ESP_ROM_OPIFLASH_SEL_CS0, p_is_write_erase_operation = False\<rparr> w;
          w = stub_lib_delay_us 10 w;
          (_, w) = rom_opiflash_exec_cmd
            \<lparr>p_spi_num = FLASH_SPI_NUM, p_mode = SPI_FLASH_FASTRD_MODE, p_cmd = MXIC_CMD_WRCR2_SPI,
             p_cmd_bit_len = 8, p_addr = 0, p_addr_bit_len = 32, p_dummy_bits = 0,
             p_mosi_data = Some [cr2], p_mosi_bit_len = 8, p_miso_data = False, p_miso_bit_len = 0,
             p_cs_mask = ESP_ROM_OPIFLASH_SEL_CS0, p_is_write_erase_operation = False\<rparr> w
      in stub_lib_delay_us 40 w)"

definition octal_restore_spi0_state :: "s3_flash_state \<Rightarrow> 'a world_scheme \<Rightarrow> 'a world_scheme" where
  "octal_restore_spi0_state s w =
     (let w = REG_WRITE (SPI_MEM_CLOCK_REG FLASH_SPI_NUM_INT) (spi0_regs s ! SPI0_CLOCK_REG_ID) w;
          w = REG_WRITE (SPI_MEM_USER_REG FLASH_SPI_NUM_INT) (spi0_regs s ! SPI0_USER_REG_ID) w;
          w = REG_WRITE (SPI_MEM_USER1_REG FLASH_SPI_NUM_INT) (spi0_regs s ! SPI0_USER1_REG_ID) w;
          w = REG_WRITE (SPI_MEM_USER2_REG FLASH_SPI_NUM_INT) (spi0_regs s ! SPI0_USER2_REG_ID) w;
          w = REG_WRITE (SPI_MEM_CTRL_REG FLASH_SPI_NUM_INT) (spi0_regs s ! SPI0_CTRL_REG_ID) w;
          w = REG_WRITE (SPI_MEM_CTRL2_REG FLASH_SPI_NUM_INT) (spi0_regs s ! SPI0_CTRL2_REG_ID) w;
          w = REG_WRITE (SPI_MEM_CACHE_FCTRL_REG FLASH_SPI_NUM_INT) (spi0_regs s ! SPI0_CACHE_FCTRL_REG_ID) w;
          w = REG_WRITE (SPI_MEM_DDR_REG FLASH_SPI_NUM_INT) (spi0_regs s ! SPI0_DDR_REG_ID) w;
          w = REG_WRITE (SPI_MEM_TIMING_CALI_REG FLASH_SPI_NUM_INT) (spi0_regs s ! SPI0_TIMING_CALI_REG_ID) w;
          w = REG_WRITE (SPI_MEM_MISC_REG FLASH_SPI_NUM_INT) (spi0_regs s ! SPI0_MISC_REG_ID) w;
          w = REG_WRITE (SPI_MEM_MISO_DLEN_REG FLASH_SPI_NUM_INT) (spi0_regs s ! SPI0_MISO_DLEN_REG_ID) w;
          w = REG_WRITE (SPI_MEM_MOSI_DLEN_REG FLASH_SPI_NUM_INT) (spi0_regs s ! SPI0_MOSI_DLEN_REG_ID) w
      in cell_write (RomVar (Dummy_len_plus (unat FLASH_SPI_NUM_INT))) (ucast (spi0_dummy_len_plus s)) w)"

section \<open>Four byte addresses for the cache\<close>

definition enable_4byte_cache_mode :: "'a s3_world_scheme \<Rightarrow> 'a s3_world_scheme" where
  "enable_4byte_cache_mode w =
     (let (v, w) = REG_GET_FIELD (SPI_MEM_USER1_REG FLASH_SPI_NUM_INT)
            SPI_MEM_USR_ADDR_BITLEN_V SPI_MEM_USR_ADDR_BITLEN_S w
      in if v = 31 then w
         else
           (let (u, w) = REG_READ (SPI_MEM_USER_REG FLASH_SPI_NUM_INT) w;
                (u1, w) = REG_READ (SPI_MEM_USER1_REG FLASH_SPI_NUM_INT) w;
                (u2, w) = REG_READ (SPI_MEM_USER2_REG FLASH_SPI_NUM_INT) w;
                (cf, w) = REG_READ (SPI_MEM_CACHE_FCTRL_REG FLASH_SPI_NUM_INT) w;
                (ct, w) = REG_READ (SPI_MEM_CTRL_REG FLASH_SPI_NUM_INT) w;
                (tc, w) = REG_READ (SPI_MEM_TIMING_CALI_REG FLASH_SPI_NUM_INT) w;
                (d, w) = cell_read (RomVar (Dummy_len_plus (unat FLASH_SPI_NUM_INT))) w;
                w = w\<lparr>s_addr32_state := (s_addr32_state w)\<lparr>saved_user := u, saved_user1 := u1,
                       saved_user2 := u2, saved_cache_fctrl := cf, saved_ctrl := ct,
                       saved_timing_cali := tc, saved_dummy_len_plus := ucast d\<rparr>\<rparr>;
                w = CLEAR_PERI_REG_MASK (SPI_MEM_TIMING_CALI_REG FLASH_SPI_NUM_INT) SPI_MEM_TIMING_CALI_M w;
                w = REG_SET_FIELD (SPI_MEM_TIMING_CALI_REG FLASH_SPI_NUM_INT)
                      SPI_MEM_EXTRA_DUMMY_CYCLELEN_V SPI_MEM_EXTRA_DUMMY_CYCLELEN_S 0 w;
                w = cell_write (RomVar (Dummy_len_plus (unat FLASH_SPI_NUM_INT))) 0 w;
                w = stub_lib_cache_stop s3_cache_target w;
                w = rom_void (FlashFn Esp_rom_opiflash_cache_mode_config)
                      [spi_flash_mode_num SPI_FLASH_FASTRD_MODE, 32, 8, CMD_FSTRD4B, 8, 0] [] w;
                w = stub_lib_cache_start s3_cache_target w
            in w\<lparr>s_addr32_state := (s_addr32_state w)\<lparr>applied := True\<rparr>\<rparr>))"

definition disable_4byte_cache_mode :: "'a s3_world_scheme \<Rightarrow> 'a s3_world_scheme" where
  "disable_4byte_cache_mode w =
     (let s = s_addr32_state w
      in if \<not> applied s then w
         else
           (let w = stub_lib_cache_stop s3_cache_target w;
                w = REG_WRITE (SPI_MEM_USER_REG FLASH_SPI_NUM_INT) (saved_user s) w;
                w = REG_WRITE (SPI_MEM_USER1_REG FLASH_SPI_NUM_INT) (saved_user1 s) w;
                w = REG_WRITE (SPI_MEM_USER2_REG FLASH_SPI_NUM_INT) (saved_user2 s) w;
                w = REG_WRITE (SPI_MEM_CACHE_FCTRL_REG FLASH_SPI_NUM_INT) (saved_cache_fctrl s) w;
                w = REG_WRITE (SPI_MEM_CTRL_REG FLASH_SPI_NUM_INT) (saved_ctrl s) w;
                w = REG_WRITE (SPI_MEM_TIMING_CALI_REG FLASH_SPI_NUM_INT) (saved_timing_cali s) w;
                w = cell_write (RomVar (Dummy_len_plus (unat FLASH_SPI_NUM_INT)))
                      (ucast (saved_dummy_len_plus s)) w;
                w = stub_lib_cache_start s3_cache_target w
            in w\<lparr>s_addr32_state := (s_addr32_state w)\<lparr>applied := False\<rparr>\<rparr>))"

definition s3_set_4byte_cache_mode :: "bool \<Rightarrow> 'a s3_world_scheme \<Rightarrow> 'a s3_world_scheme option" where
  "s3_set_4byte_cache_mode enable w =
     Some (if enable then enable_4byte_cache_mode w else disable_4byte_cache_mode w)"

section \<open>Initialisation and release\<close>

definition s3_flash_init ::
  "s3_flash_state option \<Rightarrow> attach_policy \<Rightarrow> 'a world_scheme \<Rightarrow>
   (s3_flash_state option \<times> 'a world_scheme) option" where
  "s3_flash_init state attach_policy w =
     do { let (octal, w) = rom_num (FlashFn Ets_efuse_flash_octal_mode) [] [] w;
          let octal_mode = (octal \<noteq> 0);
          let (needs_attach, w) = (if attach_policy = STUB_LIB_FLASH_ATTACH_ALWAYS then (True, w)
                                   else s3_flash_needs_attach w);
          let (s, w) = s3_flash_state_save state w;
          let s = map_option (\<lambda>s. s\<lparr>octal_active := False, target_cr2 := 0\<rparr>) s;
          (s, w) \<leftarrow>
            (if needs_attach then do {
               let (spiconfig, w) = s3_flash_get_spiconfig_efuse w;
               w \<leftarrow> stub_target_flash_attach spiconfig False w;
               Some (s, w) }
             else
               (let (s, w) = (case s of
                       Some st \<Rightarrow> if octal_mode then apfst Some (octal_save_spi0_state st w) else (s, w)
                     | None \<Rightarrow> (s, w));
                    w = s3_spi_init w;
                    w = (if octal_mode
                         then rom_void (FlashFn Esp_rom_opiflash_mode_reset) [FLASH_SPI_NUM] [] w else w)
                in Some (s, w)));
          let w = REG_SET_BIT (SPI_MEM_USER_REG FLASH_SPI_NUM) SPI_MEM_USR_COMMAND w;
          Some (s, if octal_mode then s3_flash_init_funcs w else w) }"

definition s3_flash_deinit :: "s3_flash_state option \<Rightarrow> 'a world_scheme \<Rightarrow> 'a world_scheme option" where
  "s3_flash_deinit state w =
     (let w = (case state of
                 Some s \<Rightarrow>
                   if octal_active s then
                     (let w = stub_lib_cache_stop s3_cache_target w;
                          w = octal_restore_chip_mode (target_cr2 s) w;
                          w = octal_restore_spi0_state s w
                      in stub_lib_cache_start s3_cache_target w)
                   else w
               | None \<Rightarrow> w)
      in Some (s3_flash_state_restore state w))"

section \<open>The link of the ESP32-S3 build\<close>

definition s3_flash_soc :: flash_soc where
  "s3_flash_soc =
     \<lparr>spi_gpio_nums = Some (SPI_CLK_GPIO_NUM, SPI_Q_GPIO_NUM, SPI_D_GPIO_NUM, SPI_CS0_GPIO_NUM),
      cmd_reg = SPI_MEM_CMD_REG FLASH_SPI_NUM, addr_reg = SPI_MEM_ADDR_REG FLASH_SPI_NUM,
      rd_status_reg = SPI_MEM_RD_STATUS_REG FLASH_SPI_NUM, flash_se = SPI_MEM_FLASH_SE,
      flash_be = SPI_MEM_FLASH_BE, flash_rdsr = SPI_MEM_FLASH_RDSR\<rparr>"

definition s3_flash_target :: "(s3_flash_state, 'a s3_world_scheme) flash_target" where
  "s3_flash_target =
     \<lparr>t_4byte_addr_supported = True,
      t_reset_default_spi_pins = stub_target_reset_default_spi_pins s3_flash_soc,
      t_update_config = stub_target_flash_update_config,
      t_get_max_supported_flash_size = s3_get_max_supported_flash_size,
      t_state_size = s3_flash_state_size,
      t_init = s3_flash_init,
      t_attach = stub_target_flash_attach,
      t_get_config = stub_target_flash_get_config,
      t_get_flash_id = stub_target_flash_get_flash_id stub_target_flash_get_config,
      t_deinit = s3_flash_deinit,
      t_write_enable = stub_target_flash_write_enable,
      t_write_buff = stub_target_flash_write_buff,
      t_read_buff = stub_target_flash_read_buff,
      t_erase_chip = stub_target_flash_erase_chip,
      t_is_busy = stub_target_flash_is_busy s3_flash_soc s3_spi_wait_ready,
      t_erase_sector_start =
        stub_target_flash_erase_sector_start s3_flash_soc stub_target_flash_write_enable s3_spi_wait_ready,
      t_erase_block_start =
        stub_target_flash_erase_block_start s3_flash_soc stub_target_flash_write_enable s3_spi_wait_ready,
      t_opiflash_exec_cmd = s3_opiflash_exec_cmd,
      t_write_encrypted_enable = stub_target_flash_write_encrypted_enable,
      t_write_encrypted_disable = stub_target_flash_write_encrypted_disable,
      t_unlock = stub_target_flash_unlock,
      t_rom_spiflash_erase_area = stub_target_rom_spiflash_erase_area,
      t_set_4byte_cache_mode = s3_set_4byte_cache_mode,
      t_aes_xts_init = s3_aes_xts_init,
      t_aes_xts_encrypt_trigger = s3_aes_xts_encrypt_trigger,
      t_aes_xts_wait_data_ready = s3_aes_xts_wait_data_ready,
      t_aes_xts_clear = s3_aes_xts_clear\<rparr>"

text \<open>Each symbol of the link, for the simplifier.\<close>

lemma s3_link [simp]:
  "t_4byte_addr_supported s3_flash_target = True"
  "t_reset_default_spi_pins s3_flash_target = stub_target_reset_default_spi_pins s3_flash_soc"
  "t_update_config s3_flash_target = stub_target_flash_update_config"
  "t_get_max_supported_flash_size s3_flash_target = s3_get_max_supported_flash_size"
  "t_state_size s3_flash_target = s3_flash_state_size"
  "t_init s3_flash_target = s3_flash_init"
  "t_attach s3_flash_target = stub_target_flash_attach"
  "t_get_config s3_flash_target = stub_target_flash_get_config"
  "t_get_flash_id s3_flash_target = stub_target_flash_get_flash_id stub_target_flash_get_config"
  "t_deinit s3_flash_target = s3_flash_deinit"
  "t_write_enable s3_flash_target = stub_target_flash_write_enable"
  "t_write_buff s3_flash_target = stub_target_flash_write_buff"
  "t_read_buff s3_flash_target = stub_target_flash_read_buff"
  "t_erase_chip s3_flash_target = stub_target_flash_erase_chip"
  "t_is_busy s3_flash_target = stub_target_flash_is_busy s3_flash_soc s3_spi_wait_ready"
  "t_erase_sector_start s3_flash_target = stub_target_flash_erase_sector_start s3_flash_soc stub_target_flash_write_enable s3_spi_wait_ready"
  "t_erase_block_start s3_flash_target = stub_target_flash_erase_block_start s3_flash_soc stub_target_flash_write_enable s3_spi_wait_ready"
  "t_opiflash_exec_cmd s3_flash_target = s3_opiflash_exec_cmd"
  "t_write_encrypted_enable s3_flash_target = stub_target_flash_write_encrypted_enable"
  "t_write_encrypted_disable s3_flash_target = stub_target_flash_write_encrypted_disable"
  "t_unlock s3_flash_target = stub_target_flash_unlock"
  "t_rom_spiflash_erase_area s3_flash_target = stub_target_rom_spiflash_erase_area"
  "t_set_4byte_cache_mode s3_flash_target = s3_set_4byte_cache_mode"
  "t_aes_xts_init s3_flash_target = s3_aes_xts_init"
  "t_aes_xts_encrypt_trigger s3_flash_target = s3_aes_xts_encrypt_trigger"
  "t_aes_xts_wait_data_ready s3_flash_target = s3_aes_xts_wait_data_ready"
  "t_aes_xts_clear s3_flash_target = s3_aes_xts_clear"
  by (simp_all add: s3_flash_target_def)

end
