(* ===== verification/Nor_Chip.thy ===== *)
theory Nor_Chip
  imports Flash_Spec
begin

text \<open>
  Which targets meet the contract \<open>nor_flash\<close>, and a second one for reading. The chip on the
  bus is a reference NOR flash that follows the trace: the commands the ROM functions and the
  SPI controller send it act on its memory, its write-enable latch and its busy state, and it
  counts as ready once a status read has shown the busy bit clear. What the ROM's write
  function does to the chip when it reports success is its documented behaviour; no property
  looks at the memory after a failure. The locale \<open>nor_target\<close> says what a target of the
  library adds to the generic functions; its interpretations are the flash drivers of the chips.
\<close>

section \<open>The reference chip\<close>

record chip =
  cmem :: image
  cwel :: bool
  cbusy :: bool
  careg :: u32

text \<open>A program or erase command acts only when write is enabled and the chip is idle.\<close>

definition chip_modify :: "(image \<Rightarrow> image) \<Rightarrow> chip \<Rightarrow> chip" where
  "chip_modify f c = (if cwel c \<and> \<not> cbusy c then c\<lparr>cmem := f (cmem c), cwel := False, cbusy := True\<rparr> else c)"

definition chip_wren :: "chip \<Rightarrow> chip" where
  "chip_wren c = (if cbusy c then c else c\<lparr>cwel := True\<rparr>)"

definition chip_cmd :: "u32 \<Rightarrow> u32 \<Rightarrow> u8 list \<Rightarrow> chip \<Rightarrow> chip" where
  "chip_cmd cmd a d c =
     (if cmd = CMD_WREN then chip_wren c
      else if cmd = CMD_PROGRAM_PAGE_4B then chip_modify (page_program a d) c
      else if cmd = CMD_SECTOR_ERASE_4B then chip_modify (erase (a AND NOT 0xFFF) 0x1000) c
      else if cmd = CMD_LARGE_BLOCK_ERASE_4B then chip_modify (erase (a AND NOT 0xFFFF) 0x10000) c
      else c)"

text \<open>The ROM functions that send a given command; each chip has one of them or several.\<close>

fun exec_fn :: "flash_fn \<Rightarrow> bool" where
  "exec_fn Esp_rom_opiflash_exec_cmd = True"
| "exec_fn (Esp_rom_opiflash_exec_cmd_eco n) = True"
| "exec_fn Exec_flash_cmd = True"
| "exec_fn _ = False"

definition chip_call :: "flash_fn \<Rightarrow> u32 list \<Rightarrow> u8 list \<Rightarrow> u32 \<Rightarrow> chip \<Rightarrow> chip" where
  "chip_call f args d ret c =
     (if f = Esp_rom_spiflash_write_enable then chip_wren c
      else if f = Esp_rom_spiflash_write \<and> length args = 2 \<and> ret = ESP_ROM_SPIFLASH_RESULT_OK
      then c\<lparr>cmem := program (args ! 0) d (cmem c), cwel := False, cbusy := False\<rparr>
      else if exec_fn f \<and> length args = 12
      then chip_cmd (args ! 2) (args ! 4) d c
      else c)"

text \<open>Bit 30 of the command register is the write enable command in all controllers.\<close>

definition chip_reg :: "flash_soc \<Rightarrow> u32 \<Rightarrow> u32 \<Rightarrow> chip \<Rightarrow> chip" where
  "chip_reg S r v c =
     (if r = addr_reg S then c\<lparr>careg := v\<rparr>
      else if r = cmd_reg S \<and> v = BIT 30 then chip_wren c
      else if r = cmd_reg S \<and> v = flash_se S
      then chip_modify (erase (careg c AND NOT 0xFFF) 0x1000) c
      else if r = cmd_reg S \<and> v = flash_be S
      then chip_modify (erase (careg c AND NOT 0xFFFF) 0x10000) c
      else c)"

definition chip_step :: "flash_soc \<Rightarrow> ev \<Rightarrow> chip \<Rightarrow> chip" where
  "chip_step S e c =
     (case e of
        Call (FlashFn f) args d ret out \<Rightarrow> chip_call f args d ret c
      | Wr (Mmio r) v \<Rightarrow> chip_reg S r v c
      | Rd (Mmio r) v \<Rightarrow> if r = rd_status_reg S \<and> v AND BIT 0 = 0 then c\<lparr>cbusy := False\<rparr> else c
      | _ \<Rightarrow> c)"

text \<open>The chip after a trace, from memory m; whether it is busy at first is not known.\<close>

definition chip_of :: "flash_soc \<Rightarrow> image \<Rightarrow> ev list \<Rightarrow> chip" where
  "chip_of S m es = fold (chip_step S) es \<lparr>cmem = m, cwel = False, cbusy = True, careg = 0\<rparr>"

definition flash_chip :: "flash_soc \<Rightarrow> image \<Rightarrow> 'a world_scheme \<Rightarrow> chip" where
  "flash_chip S m w = chip_of S m (trace w)"

definition flash_mem :: "flash_soc \<Rightarrow> image \<Rightarrow> 'a world_scheme \<Rightarrow> image" where
  "flash_mem S m w = cmem (flash_chip S m w)"

lemma flash_chip_after: "flash_chip S m (after w es) = fold (chip_step S) es (flash_chip S m w)"
  by (simp add: flash_chip_def chip_of_def)

lemma flash_chip_emits:
  assumes "emits P w w'" and "\<And>e c. P e \<Longrightarrow> chip_step S e c = c"
  shows "flash_chip S m w' = flash_chip S m w"
proof -
  obtain es where es: "list_all P es" "w' = after w es" using assms(1) by (rule emitsE)
  have "fold (chip_step S) es c = c" for c
    using es(1) by (induction es arbitrary: c) (auto simp: assms(2))
  then show ?thesis using es(2) by (simp add: flash_chip_after)
qed

lemma large_flash_mode_after [simp]: "large_flash_mode (after w es) = large_flash_mode w"
  by (simp add: after_def)

lemma emits_large: "emits P w w' \<Longrightarrow> large_flash_mode w' = large_flash_mode w"
  by (auto simp: emits_def)

lemmas chip_defs = flash_chip_after chip_step_def chip_call_def chip_reg_def chip_cmd_def chip_wren_def
  chip_modify_def

text \<open>Bytes of an image, for reading.\<close>

definition image_bytes :: "image \<Rightarrow> u32 \<Rightarrow> nat \<Rightarrow> u8 list" where
  "image_bytes m a n = map (\<lambda>i. m (a + of_nat i)) [0..<n]"

lemma image_bytes_append:
  "image_bytes m a n @ image_bytes m (a + of_nat n) k = image_bytes m a (n + k)"
proof -
  have "image_bytes m (a + of_nat n) k = map (\<lambda>i. m (a + of_nat i)) [n..<n + k]"
    by (rule nth_equalityI) (simp_all add: image_bytes_def add.assoc)
  moreover have "[0..<n + k] = [0..<n] @ [n..<n + k]" using upt_add_eq_append [of 0 n k] by simp
  ultimately show ?thesis by (simp add: image_bytes_def)
qed

text \<open>
  The ROM and the controller answer reads with what the chip holds: the read command with
  the bytes from its address on, as many as the receive length asks for, and the ROM's read
  function, when it succeeds, with the bytes of the range.
\<close>

definition reads_chip :: "flash_soc \<Rightarrow> image \<Rightarrow> 'a world_scheme \<Rightarrow> bool" where
  "reads_chip S m w \<longleftrightarrow>
     (\<forall>f es args d. exec_fn f \<and> length args = 12 \<and> args ! 2 = CMD_FSTRD4B \<longrightarrow>
        snd (rom_dev w es (FlashFn f) args d) =
        image_bytes (cmem (chip_of S m es)) (args ! 4) (unat (args ! 9) div 8)) \<and>
     (\<forall>es a n. fst (rom_dev w es (FlashFn Esp_rom_spiflash_read) [a, n] []) = 0 \<longrightarrow>
        snd (rom_dev w es (FlashFn Esp_rom_spiflash_read) [a, n] []) =
        image_bytes (cmem (chip_of S m es)) a (unat n))"

lemma reads_chip_after [simp]: "reads_chip S m (after w es) = reads_chip S m w"
  by (simp add: reads_chip_def)

lemma reads_chip_emits: "emits P w w' \<Longrightarrow> reads_chip S m w' = reads_chip S m w"
  by (auto elim: emitsE)

section \<open>What a target brings\<close>

text \<open>Reads of registers other than the status, and of variables of the ROM.\<close>

definition polls :: "flash_soc \<Rightarrow> ev \<Rightarrow> bool" where
  "polls S e \<longleftrightarrow> (case e of Rd (Mmio r) v \<Rightarrow> r \<noteq> rd_status_reg S | Rd (RomVar x) v \<Rightarrow> True | _ \<Rightarrow> False)"

lemma polls_step: "polls S e \<Longrightarrow> chip_step S e c = c"
  by (auto simp: polls_def chip_step_def split: ev.splits cell.splits)

lemma busy_wait_polls:
  "busy_wait r C w = Some w' \<Longrightarrow> r \<noteq> rd_status_reg S \<Longrightarrow> emits (polls S) w w'"
  by (rule emits_mono [OF busy_wait_result]) (auto simp: polls_def)

lemma unat_8_mult: "unat n \<le> 32 \<Longrightarrow> (unat (8 * n :: u32) + 7) div 8 = unat n"
  by (simp add: unat_word_ariths)

text \<open>What polling the flash puts on the bus.\<close>

definition poll_ev :: "flash_soc \<Rightarrow> ev \<Rightarrow> bool" where
  "poll_ev S e \<longleftrightarrow> (case e of
     Rd c v \<Rightarrow> True
   | Wr (Mmio r) v \<Rightarrow> r = rd_status_reg S \<or> r = cmd_reg S
   | Call f args d ret out \<Rightarrow> f = SysFn Ets_delay_us
   | _ \<Rightarrow> False)"

lemma poll_ev_polls: "emits (polls S) w w' \<Longrightarrow> emits (poll_ev S) w w'"
  by (erule emits_mono) (auto simp: polls_def poll_ev_def split: ev.splits)

lemma delay_poll_ev: "emits (poll_ev S) w (stub_lib_delay_us n w)"
  by (simp add: stub_lib_delay_us_eq poll_ev_def emits_after)

locale nor_target =
  fixes S :: flash_soc
    and T :: "('s, 'a) ftarget"
    and spi_wait_ready :: "'a flash_world_scheme \<Rightarrow> 'a flash_world_scheme option"
    and write_enable :: "'a flash_world_scheme \<Rightarrow> 'a flash_world_scheme option"
  assumes regs_distinct: "distinct [cmd_reg S, addr_reg S, rd_status_reg S]"
    and cmds_distinct: "distinct [BIT 30, flash_se S, flash_be S, flash_rdsr S]"
    and wait: "spi_wait_ready w = Some w' \<Longrightarrow> emits (polls S) w w'"
    and wren: "write_enable w = Some w' \<Longrightarrow> \<not> cbusy (flash_chip S m w) \<Longrightarrow>
      flash_chip S m w' = (flash_chip S m w)\<lparr>cwel := True\<rparr> \<and> large_flash_mode w' = large_flash_mode w"
    and link: "t_is_busy T = stub_target_flash_is_busy S spi_wait_ready"
      "t_write_enable T = write_enable"
      "t_erase_sector_start T = stub_target_flash_erase_sector_start S write_enable spi_wait_ready"
      "t_erase_block_start T = stub_target_flash_erase_block_start S write_enable spi_wait_ready"
      "t_read_buff T = stub_target_flash_read_buff"
    and rom_write: "t_write_buff T a d n False w = Some (STUB_LIB_OK, w') \<Longrightarrow>
      rom_num (FlashFn Esp_rom_spiflash_write) [a, n] (take (unat n) d) w = (ESP_ROM_SPIFLASH_RESULT_OK, w')"
    and exec: "t_4byte_addr_supported T \<Longrightarrow> t_opiflash_exec_cmd T p w = Some (out, w') \<Longrightarrow>
      \<exists>f u. exec_fn f \<and> emits (polls S) w u \<and> rom_exec_flash_cmd f p u = (out, w')"
begin

lemma ne [simp]:
  "cmd_reg S \<noteq> addr_reg S" "cmd_reg S \<noteq> rd_status_reg S" "addr_reg S \<noteq> rd_status_reg S"
  "addr_reg S \<noteq> cmd_reg S" "rd_status_reg S \<noteq> cmd_reg S" "rd_status_reg S \<noteq> addr_reg S"
  "flash_rdsr S \<noteq> BIT 30" "flash_rdsr S \<noteq> flash_se S" "flash_rdsr S \<noteq> flash_be S"
  "flash_se S \<noteq> BIT 30" "flash_be S \<noteq> BIT 30" "flash_se S \<noteq> flash_be S" "flash_be S \<noteq> flash_se S"
  using regs_distinct cmds_distinct by auto

lemma quiet:
  assumes "emits (polls S) w w'"
  shows "flash_chip S m w' = flash_chip S m w" "large_flash_mode w' = large_flash_mode w"
  using flash_chip_emits [OF assms polls_step] emits_large [OF assms] by auto

lemma cmd_wait:
  assumes "busy_wait (cmd_reg S) C w = Some w'"
  shows "flash_chip S m w' = flash_chip S m w" "large_flash_mode w' = large_flash_mode w"
  using quiet [OF busy_wait_polls [OF assms ne(2)]] by auto

lemma is_busy_steps:
  assumes "t_is_busy T w = Some (b, w')"
  obtains w1 w2 w3 where "emits (polls S) w w1"
    "w2 = after w1 [Wr (Mmio (rd_status_reg S)) 0, Wr (Mmio (cmd_reg S)) (flash_rdsr S)]"
    "busy_wait (cmd_reg S) (\<lambda>v. v \<noteq> 0) w2 = Some w3"
    "w' = after w3 [Rd (Mmio (rd_status_reg S)) (peek (Mmio (rd_status_reg S)) w3)]"
    "b \<longleftrightarrow> peek (Mmio (rd_status_reg S)) w3 AND BIT 0 \<noteq> 0"
proof -
  define c where "c v = after v [Wr (Mmio (rd_status_reg S)) 0, Wr (Mmio (cmd_reg S)) (flash_rdsr S)]"
    for v :: "'a flash_world_scheme"
  define s where "s v = peek (Mmio (rd_status_reg S)) v" for v :: "'a flash_world_scheme"
  obtain w1 w3 where w1: "spi_wait_ready w = Some w1"
    and w3: "busy_wait (cmd_reg S) (\<lambda>v. v \<noteq> 0) (c w1) = Some w3"
    and w': "w' = after w3 [Rd (Mmio (rd_status_reg S)) (s w3)]" and b: "b \<longleftrightarrow> s w3 AND BIT 0 \<noteq> 0"
    using assms
    by (auto simp: link stub_target_flash_is_busy_def bind_eq_Some_conv prim_eq Let_def c_def s_def)
  show ?thesis
    by (rule that [OF wait [OF w1] c_def [of w1] w3]) (use w' b in \<open>simp_all add: s_def\<close>)
qed

lemma is_busy_ok:
  assumes "t_is_busy T w = Some (b, w')"
  shows "flash_mem S m w' = flash_mem S m w" "\<not> b \<Longrightarrow> \<not> cbusy (flash_chip S m w')"
    "large_flash_mode w' = large_flash_mode w"
proof -
  obtain w1 w2 w3 where p: "emits (polls S) w w1"
    and w2: "w2 = after w1 [Wr (Mmio (rd_status_reg S)) 0, Wr (Mmio (cmd_reg S)) (flash_rdsr S)]"
    and w3: "busy_wait (cmd_reg S) (\<lambda>v. v \<noteq> 0) w2 = Some w3"
    and w': "w' = after w3 [Rd (Mmio (rd_status_reg S)) (peek (Mmio (rd_status_reg S)) w3)]"
    and b: "b \<longleftrightarrow> peek (Mmio (rd_status_reg S)) w3 AND BIT 0 \<noteq> 0"
    using assms by (rule is_busy_steps)
  have "flash_chip S m w2 = flash_chip S m w1" "large_flash_mode w2 = large_flash_mode w1"
    by (simp_all add: w2 chip_defs)
  then show "flash_mem S m w' = flash_mem S m w" "\<not> b \<Longrightarrow> \<not> cbusy (flash_chip S m w')"
    "large_flash_mode w' = large_flash_mode w"
    using cmd_wait [OF w3] quiet [OF p] b by (simp_all add: w' flash_mem_def chip_defs)
qed

text \<open>A command of the driver reaches the chip with its address and its data bytes.\<close>

lemma exec_ok:
  assumes "t_4byte_addr_supported T" and "t_opiflash_exec_cmd T p w = Some (out, w')"
  shows "flash_chip S m w' = chip_cmd (p_cmd p) (p_addr p)
     (case p_mosi_data p of None \<Rightarrow> [] | Some d \<Rightarrow> take ((unat (p_mosi_bit_len p) + 7) div 8) d) (flash_chip S m w)"
    "large_flash_mode w' = large_flash_mode w"
proof -
  obtain f u where f: "exec_fn f" "emits (polls S) w u" "rom_exec_flash_cmd f p u = (out, w')"
    using exec [OF assms] by blast
  have "f \<noteq> Esp_rom_spiflash_write_enable" "f \<noteq> Esp_rom_spiflash_write" using f(1) by auto
  then have "flash_chip S m w' = chip_cmd (p_cmd p) (p_addr p)
      (case p_mosi_data p of None \<Rightarrow> [] | Some d \<Rightarrow> take ((unat (p_mosi_bit_len p) + 7) div 8) d) (flash_chip S m u)
    \<and> large_flash_mode w' = large_flash_mode u"
    using f(1,3) by (auto simp: rom_exec_flash_cmd_def prim_eq flash_chip_after chip_step_def chip_call_def)
  then show "flash_chip S m w' = chip_cmd (p_cmd p) (p_addr p)
      (case p_mosi_data p of None \<Rightarrow> [] | Some d \<Rightarrow> take ((unat (p_mosi_bit_len p) + 7) div 8) d) (flash_chip S m w)"
    "large_flash_mode w' = large_flash_mode w"
    using quiet [OF f(2)] by simp_all
qed

lemma erase_start_ok:
  assumes v: "v = flash_se S \<and> E = erase (a AND 0xFFFFFF AND NOT 0xFFF) 0x1000 \<or>
      v = flash_be S \<and> E = erase (a AND 0xFFFFFF AND NOT 0xFFFF) 0x10000"
    and run: "do { w \<leftarrow> write_enable w;
          w \<leftarrow> spi_wait_ready w;
          let w = REG_WRITE (addr_reg S) (a AND 0xffffff) w;
          let w = REG_WRITE (cmd_reg S) v w;
          busy_wait (cmd_reg S) (\<lambda>v. v \<noteq> 0) w } = Some w'"
    and idle: "\<not> cbusy (flash_chip S m w)"
  shows "flash_mem S m w' = E (flash_mem S m w) \<and> large_flash_mode w' = large_flash_mode w"
proof -
  define c where "c u = after u [Wr (Mmio (addr_reg S)) (a AND 0xffffff), Wr (Mmio (cmd_reg S)) v]"
    for u :: "'a flash_world_scheme"
  obtain w1 w2 where w1: "write_enable w = Some w1" and w2: "spi_wait_ready w1 = Some w2"
    and w3: "busy_wait (cmd_reg S) (\<lambda>v. v \<noteq> 0) (c w2) = Some w'"
    using run by (auto simp: bind_eq_Some_conv prim_eq Let_def c_def)
  have r: "flash_chip S m w2 = (flash_chip S m w)\<lparr>cwel := True\<rparr>" "large_flash_mode w2 = large_flash_mode w"
    using wren [OF w1 idle] quiet [OF wait [OF w2]] by simp_all
  have "cmem (flash_chip S m (c w2)) = E (cmem (flash_chip S m w2))"
    using v
  proof (elim disjE conjE)
    assume "v = flash_se S" "E = erase (a AND 0xFFFFFF AND NOT 0xFFF) 0x1000"
    then show ?thesis using idle r by (simp add: c_def chip_defs and.assoc)
  next
    assume "v = flash_be S" "E = erase (a AND 0xFFFFFF AND NOT 0xFFFF) 0x10000"
    then show ?thesis using idle r by (simp add: c_def chip_defs and.assoc)
  qed
  then show ?thesis using r cmd_wait [OF w3] by (simp add: flash_mem_def) (simp add: c_def)
qed

text \<open>Polling the flash leaves only harmless events.\<close>

lemma is_busy_emits: "t_is_busy T w = Some (b, w') \<Longrightarrow> emits (poll_ev S) w w'"
proof -
  assume b: "t_is_busy T w = Some (b, w')"
  obtain w1 w2 w3 where p: "emits (polls S) w w1"
    and w2: "w2 = after w1 [Wr (Mmio (rd_status_reg S)) 0, Wr (Mmio (cmd_reg S)) (flash_rdsr S)]"
    and w3: "busy_wait (cmd_reg S) (\<lambda>v. v \<noteq> 0) w2 = Some w3"
    and w': "w' = after w3 [Rd (Mmio (rd_status_reg S)) (peek (Mmio (rd_status_reg S)) w3)]"
    using b by (rule is_busy_steps)
  note poll_ev_polls [OF p]
  also have "emits (poll_ev S) w1 w2" by (simp add: w2 poll_ev_def emits_after)
  also have "emits (poll_ev S) w2 w3"
    by (rule poll_ev_polls [OF busy_wait_polls [OF w3 ne(2)]])
  also have "emits (poll_ev S) w3 w'" by (simp add: w' poll_ev_def emits_after)
  finally show ?thesis .
qed

lemma wait_ready_loop_emits:
  assumes "wait_ready_loop T' t e w = Some (res, w')" and "T' = T"
  shows "emits (poll_ev S) w w'"
  using assms
proof (induction T' t e w arbitrary: res w' rule: wait_ready_loop.induct)
  case (1 T' t e w)
  obtain b w1 where b: "t_is_busy T' w = Some (b, w1)"
    using 1(2) by (subst (asm) wait_ready_loop.simps) (auto simp: bind_eq_Some_conv)
  note e1 = is_busy_emits [OF b [unfolded 1(3)]]
  note e2 = delay_poll_ev [of S w1 1]
  show ?case
  proof (cases "b \<and> e + 1 < t")
    case True
    with 1(2) b have "wait_ready_loop T' t (e + 1) (stub_lib_delay_us 1 w1) = Some (res, w')"
      by (subst (asm) wait_ready_loop.simps) (simp add: Let_def)
    with 1(1) [OF b refl _ refl refl] True 1(3) have "emits (poll_ev S) (stub_lib_delay_us 1 w1) w'" by blast
    with e1 e2 show ?thesis by (blast intro: emits_trans)
  next
    case False
    with 1(2) b have "w' = w1 \<or> w' = stub_lib_delay_us 1 w1"
      by (subst (asm) wait_ready_loop.simps) (auto simp: Let_def split: if_splits)
    with e1 e2 show ?thesis by (blast intro: emits_trans)
  qed
qed

lemma wait_ready_emits: "stub_lib_flash_wait_ready T t w = Some (res, w') \<Longrightarrow> emits (poll_ev S) w w'"
  unfolding stub_lib_flash_wait_ready_def by (rule wait_ready_loop_emits) simp_all

end

text \<open>Such a target meets the contract for writing and erasing.\<close>

sublocale nor_target \<subseteq> nor: nor_flash T "flash_mem S m" "\<lambda>w. cwel (flash_chip S m w)"
    "\<lambda>w. \<not> cbusy (flash_chip S m w)" for m
proof (unfold_locales, goal_cases)
  case (1 n w)
  then show ?case by (simp add: flash_mem_def stub_lib_delay_us_eq chip_defs)
next
  case (2 w n)
  then show ?case by (simp add: stub_lib_delay_us_eq chip_defs)
next
  case (3 n w)
  then show ?case by (simp add: stub_lib_delay_us_eq)
next
  case (4 w b w')
  then show ?case using is_busy_ok by blast
next
  case (5 w w')
  then show ?case using wren [of w w' m] by (simp add: link flash_mem_def)
next
  case (6 a d n w w')
  then show ?case using rom_write [of a d n w w'] by (auto simp: prim_eq flash_mem_def chip_defs rcs)
next
  case (7 p w out w' d n)
  then show ?case
    using exec_ok(1) [of p w out w' m] exec_ok(2) [of p w out w'] by (simp add: flash_mem_def unat_8_mult chip_cmd_def chip_modify_def)
      (simp add: regs)
next
  case (8 p w out w')
  then show ?case
    using exec_ok(1) [of p w out w' m] exec_ok(2) [of p w out w'] by (simp add: flash_mem_def chip_cmd_def chip_modify_def) (simp add: regs)
next
  case (9 a w w')
  then show ?case by (intro erase_start_ok) (auto simp: link stub_target_flash_erase_sector_start_def)
next
  case (10 a w w')
  then show ?case by (intro erase_start_ok) (auto simp: link stub_target_flash_erase_block_start_def)
qed

section \<open>The common case\<close>

text \<open>
  The targets that keep the generic write enable and ROM write only have to say which
  registers they use, how they wait for the controller and how they send commands.
\<close>

lemma weak_write_enable_chip:
  assumes "stub_target_flash_write_enable w = Some w'" and "\<not> cbusy (flash_chip S m w)"
  shows "flash_chip S m w' = (flash_chip S m w)\<lparr>cwel := True\<rparr> \<and> large_flash_mode w' = large_flash_mode w"
  using assms by (auto simp: stub_target_flash_write_enable_def prim_eq chip_defs)

lemma weak_write_buff_rom:
  assumes "stub_target_flash_write_buff a d n False w = Some (STUB_LIB_OK, w')"
  shows "rom_num (FlashFn Esp_rom_spiflash_write) [a, n] (take (unat n) d) w = (ESP_ROM_SPIFLASH_RESULT_OK, w')"
  using assms by (auto simp: stub_target_flash_write_buff_def rcs split: prod.splits if_splits)

lemma generic_nor_target:
  fixes S :: flash_soc and T :: "('s, 'a) ftarget"
  assumes "distinct [cmd_reg S, addr_reg S, rd_status_reg S]"
    and "distinct [BIT 30, flash_se S, flash_be S, flash_rdsr S]"
    and "\<And>w w'. spi_wait_ready w = Some w' \<Longrightarrow> emits (polls S) w w'"
    and "t_is_busy T = stub_target_flash_is_busy S spi_wait_ready"
      "t_write_enable T = stub_target_flash_write_enable"
      "t_erase_sector_start T =
        stub_target_flash_erase_sector_start S stub_target_flash_write_enable spi_wait_ready"
      "t_erase_block_start T =
        stub_target_flash_erase_block_start S stub_target_flash_write_enable spi_wait_ready"
      "t_read_buff T = stub_target_flash_read_buff"
      "t_write_buff T = stub_target_flash_write_buff"
    and "\<And>p w out w'. t_4byte_addr_supported T \<Longrightarrow> t_opiflash_exec_cmd T p w = Some (out, w') \<Longrightarrow>
      \<exists>f u. exec_fn f \<and> emits (polls S) w u \<and> rom_exec_flash_cmd f p u = (out, w')"
  shows "nor_target S T spi_wait_ready stub_target_flash_write_enable"
  using assms weak_write_enable_chip weak_write_buff_rom by unfold_locales simp_all

section \<open>Reading\<close>

context nor_target
begin

lemma exec_read:
  assumes "exec_read_cmd_4b T n a bits w = Some (bs, w')" and "reads_chip S m w"
    and sup: "t_4byte_addr_supported T"
  shows "bs = image_bytes (flash_mem S m w) a (unat bits div 8) \<and> flash_mem S m w' = flash_mem S m w \<and>
    reads_chip S m w'"
proof -
  define p where "p = \<lparr>p_spi_num = n, p_mode = SPI_FLASH_FASTRD_MODE, p_cmd = CMD_FSTRD4B,
     p_cmd_bit_len = 8, p_addr = a, p_addr_bit_len = 32, p_dummy_bits = 8, p_mosi_data = None,
     p_mosi_bit_len = 0, p_miso_data = True, p_miso_bit_len = bits,
     p_cs_mask = ESP_ROM_OPIFLASH_SEL_CS0, p_is_write_erase_operation = False\<rparr>"
  have run: "t_opiflash_exec_cmd T p w = Some (bs, w')"
    using assms(1) by (simp add: exec_read_cmd_4b_def p_def)
  obtain f u where f: "exec_fn f" "emits (polls S) w u" "rom_exec_flash_cmd f p u = (bs, w')"
    using exec [OF sup run] by blast
  define args where "args = [n, spi_flash_mode_num SPI_FLASH_FASTRD_MODE, CMD_FSTRD4B, 8, a, 32, 8, 0, 1,
     bits, ESP_ROM_OPIFLASH_SEL_CS0, 0]"
  have w': "w' = after u [Call (FlashFn f) args [] (rom_ret (FlashFn f) args [] u) bs]"
    and bs: "bs = rom_out (FlashFn f) args [] u"
    using f(3) by (auto simp: rom_exec_flash_cmd_def prim_eq p_def args_def)
  have u: "flash_chip S m u = flash_chip S m w" "reads_chip S m u"
    using quiet(1) [OF f(2)] reads_chip_emits [OF f(2)] assms(2) by simp_all
  have "snd (rom_dev u (trace u) (FlashFn f) args []) =
     image_bytes (cmem (chip_of S m (trace u))) (args ! 4) (unat (args ! 9) div 8)"
    using u(2) f(1) unfolding reads_chip_def by (simp add: args_def)
  then have "bs = image_bytes (flash_mem S m u) a (unat bits div 8)"
    by (simp add: bs rom_out_def args_def flash_mem_def flash_chip_def)
  moreover have "flash_mem S m w' = flash_mem S m u"
    using exec_ok(1) [OF sup run, of m] u(1)
    by (simp add: flash_mem_def p_def chip_cmd_def) (simp add: regs)
  ultimately show ?thesis using u w' by (simp add: flash_mem_def)
qed

lemma read_loop:
  assumes "read_loop_4b T' n a sz w = Some (bs, w')" and "T' = T" and "reads_chip S m w"
    and sup: "t_4byte_addr_supported T"
  shows "bs = image_bytes (flash_mem S m w) a (unat sz) \<and> flash_mem S m w' = flash_mem S m w"
  using assms(1-3)
proof (induction T' n a sz w arbitrary: bs w' rule: read_loop_4b.induct)
  case (1 T' n a sz w)
  show ?case
  proof (cases "sz > 0")
    case False
    then have "sz = 0" by (simp add: word_gt_0)
    then show ?thesis using 1(2) by (subst (asm) read_loop_4b.simps) (simp add: image_bytes_def)
  next
    case True
    define c where "c = (if sz > 16 then 16 else sz)"
    obtain b1 w1 b2 where b1: "exec_read_cmd_4b T' n a (8 * c) w = Some (b1, w1)"
      and b2: "read_loop_4b T' n (a + c) (sz - c) w1 = Some (b2, w')" and bs: "bs = b1 @ b2"
      using 1(2) True by (subst (asm) read_loop_4b.simps) (auto simp: bind_eq_Some_conv c_def Let_def)
    note r = exec_read [OF b1 [unfolded 1(3)] 1(4) sup]
    have c: "unat c \<le> 16" "unat c \<le> unat sz" "unat (sz - c) = unat sz - unat c"
      by (auto simp: c_def word_less_nat_alt unat_diff word_le_nat_alt split: if_splits)
    then have "unat (8 * c) div 8 = unat c" by (simp add: unat_word_ariths)
    moreover have "b2 = image_bytes (flash_mem S m w1) (a + c) (unat (sz - c)) \<and>
        flash_mem S m w' = flash_mem S m w1"
      by (rule 1(1) [OF True c_def b1 refl b2 1(3)]) (use r in simp)
    ultimately show ?thesis
      using r c image_bytes_append [of "flash_mem S m w" a "unat c" "unat (sz - c)"] by (simp add: bs)
  qed
qed

lemma read_buff_image:
  assumes run: "stub_lib_flash_read_buff T a sz w = Some ((STUB_LIB_OK, bs), w')"
    and chip: "reads_chip S m w"
  shows "bs = image_bytes (flash_mem S m w) a (unat sz) \<and> flash_mem S m w' = flash_mem S m w"
proof (cases "use_4byte T w")
  case True
  then obtain w1 where w1: "stub_lib_flash_wait_ready T 10000 w = Some (STUB_LIB_OK, w1)"
    and rd: "read_loop_4b T FLASH_SPI_NUM a sz w1 = Some (bs, w')"
    using run by (auto simp: stub_lib_flash_read_buff_def stub_target_flash_4byte_read_def
        bind_eq_Some_conv rcs split: if_splits)
  have "reads_chip S m w1" using reads_chip_emits [OF wait_ready_emits [OF w1]] chip by simp
  then show ?thesis
    using read_loop [OF rd refl] nor.wait_ready_mem(1) [OF w1] True by (simp add: use_4byte_def)
next
  case False
  let ?f = "FlashFn Esp_rom_spiflash_read"
  have "stub_target_flash_read_buff a sz w = Some ((STUB_LIB_OK, bs), w')"
    using run False by (simp add: stub_lib_flash_read_buff_def rcs link split: if_splits)
  then have "w' = after w [Call ?f [a, sz] [] 0 bs]" "rom_ret ?f [a, sz] [] w = 0" "rom_out ?f [a, sz] [] w = bs"
    by (auto simp: stub_target_flash_read_buff_def prim_eq rcs split: if_splits)
  then show ?thesis
    using chip by (auto simp: reads_chip_def flash_mem_def chip_defs rom_ret_def rom_out_def flash_chip_def [symmetric])
qed

end

section \<open>The promises of the flash API\<close>

text \<open>
  An unencrypted write of any address and size that reports success has programmed exactly
  its bytes. With four byte addresses switched off, an erase must lie in the first 16 MiB.
\<close>

definition writes_exactly :: "flash_soc \<Rightarrow> ('s, 'a) ftarget \<Rightarrow> bool" where
  "writes_exactly S T \<longleftrightarrow>
     (\<forall>m a d sz w w'. stub_lib_flash_write_buff T a d sz False w = Some (STUB_LIB_OK, w') \<and> unat sz \<le> length d \<longrightarrow>
        flash_mem S m w' = program a (take (unat sz) d) (flash_mem S m w))"

definition erases_exactly :: "flash_soc \<Rightarrow> ('s, 'a) ftarget \<Rightarrow> bool" where
  "erases_exactly S T \<longleftrightarrow>
     (\<forall>m a sz w w'. stub_lib_flash_erase_area T a sz w = Some (STUB_LIB_OK, w') \<and>
        (use_4byte T w \<or> unat a + unat sz \<le> 0x1000000) \<longrightarrow>
        flash_mem S m w' = erase a (unat sz) (flash_mem S m w) \<and> \<not> cbusy (flash_chip S m w'))"

definition reads_exactly :: "flash_soc \<Rightarrow> ('s, 'a) ftarget \<Rightarrow> bool" where
  "reads_exactly S T \<longleftrightarrow>
     (\<forall>m a sz w bs w'. stub_lib_flash_read_buff T a sz w = Some ((STUB_LIB_OK, bs), w') \<and> reads_chip S m w \<longrightarrow>
        bs = image_bytes (flash_mem S m w) a (unat sz) \<and> flash_mem S m w' = flash_mem S m w)"

lemma writes_exactlyD:
  "writes_exactly S T \<Longrightarrow> stub_lib_flash_write_buff T a d sz False w = Some (STUB_LIB_OK, w') \<Longrightarrow>
     unat sz \<le> length d \<Longrightarrow> flash_mem S m w' = program a (take (unat sz) d) (flash_mem S m w)"
  unfolding writes_exactly_def by blast

lemma erases_exactlyD:
  "erases_exactly S T \<Longrightarrow> stub_lib_flash_erase_area T a sz w = Some (STUB_LIB_OK, w') \<Longrightarrow>
     use_4byte T w \<or> unat a + unat sz \<le> 0x1000000 \<Longrightarrow>
     flash_mem S m w' = erase a (unat sz) (flash_mem S m w) \<and> \<not> cbusy (flash_chip S m w')"
  unfolding erases_exactly_def by blast

lemma reads_exactlyD:
  "reads_exactly S T \<Longrightarrow> stub_lib_flash_read_buff T a sz w = Some ((STUB_LIB_OK, bs), w') \<Longrightarrow> reads_chip S m w \<Longrightarrow>
     bs = image_bytes (flash_mem S m w) a (unat sz) \<and> flash_mem S m w' = flash_mem S m w"
  unfolding reads_exactly_def by blast

context nor_target
begin

lemma writes: "writes_exactly S T"
  unfolding writes_exactly_def using nor.write_buff_mem by blast

lemma erases: "erases_exactly S T"
  unfolding erases_exactly_def by (intro allI impI conjI nor.erase_area_mem) (elim conjE; assumption)+

lemma reads: "reads_exactly S T"
  unfolding reads_exactly_def using read_buff_image by blast

end

end
