(* ===== verification/S3_Nor.thy ===== *)
theory S3_Nor
  imports S3_Flash Nor_Chip
begin

text \<open>
  The ESP32-S3's flash target meets the contract \<open>nor_target\<close>: it keeps the generic write
  enable and ROM write, polls the two flash controllers before a command, and sends four byte
  commands through its octal flash code in the ROM.
\<close>

abbreviation s3_chip :: "image \<Rightarrow> 'a world_scheme \<Rightarrow> chip" where
  "s3_chip \<equiv> flash_chip s3_flash_soc"

abbreviation s3_mem :: "image \<Rightarrow> 'a world_scheme \<Rightarrow> image" where
  "s3_mem \<equiv> flash_mem s3_flash_soc"

lemma s3_spi_wait_ready_polls:
  assumes "s3_spi_wait_ready w = Some w'"
  shows "emits (polls s3_flash_soc) w w'"
proof -
  obtain w1 where a: "busy_wait (SPI_MEM_FSM_REG FLASH_SPI_NUM)
        (\<lambda>v. drop_bit SPI_MEM_ST_S v AND SPI_MEM_ST_V \<noteq> 0) w = Some w1"
    and b: "busy_wait (SPI_MEM_FSM_REG FLASH_SPI_NUM_INT) (\<lambda>v. v AND SPI_MEM_ST \<noteq> 0) w1 = Some w'"
    using assms by (auto simp: s3_spi_wait_ready_def bind_eq_Some_conv)
  have "SPI_MEM_FSM_REG FLASH_SPI_NUM \<noteq> rd_status_reg s3_flash_soc"
    "SPI_MEM_FSM_REG FLASH_SPI_NUM_INT \<noteq> rd_status_reg s3_flash_soc"
    by (simp_all add: s3_flash_soc_def regs)
  then show ?thesis using busy_wait_polls [OF a] busy_wait_polls [OF b] by (blast intro: emits_trans)
qed

lemma s3_exec_rom:
  assumes "s3_opiflash_exec_cmd p w = Some (out, w')"
  shows "\<exists>f u. exec_fn f \<and> emits (polls s3_flash_soc) w u \<and> rom_exec_flash_cmd f p u = (out, w')"
proof -
  have "rom_exec_flash_cmd Esp_rom_opiflash_exec_cmd p w = (out, w')"
    using assms by (simp add: s3_opiflash_exec_cmd_def rom_opiflash_exec_cmd_def)
  moreover have "emits (polls s3_flash_soc) w w" by (rule emits_refl)
  ultimately show ?thesis using exec_fn.simps(1) by blast
qed

interpretation s3: nor_target s3_flash_soc s3_flash_target s3_spi_wait_ready stub_target_flash_write_enable
proof (rule generic_nor_target, goal_cases)
  case 1
  show ?case by (simp add: s3_flash_soc_def regs)
next
  case 2
  show ?case by (simp add: s3_flash_soc_def regs BIT_def)
next
  case (3 w w')
  then show ?case by (rule s3_spi_wait_ready_polls)
next
  case (10 p w out w')
  then have "s3_opiflash_exec_cmd p w = Some (out, w')" by (simp add: s3_flash_target_def)
  then show ?case by (rule s3_exec_rom)
qed (simp_all add: s3_flash_target_def)

end
