(* ===== verification/S3_Flash_Props.thy ===== *)
theory S3_Flash_Props
  imports S3_Nor
begin

text \<open>
  What the flash API promises on the ESP32-S3: writes and erases change exactly the bytes
  they name, reads return the chip's bytes, and the wait for the flash does what its
  timeout says.
\<close>

section \<open>Concrete worlds\<close>

text \<open>
  For concrete runs: a world whose registers all read 0 and whose ROM functions all return 0
  and no bytes, and the same world in large flash mode.
\<close>

definition quiet_world :: s3_world where
  "quiet_world =
     \<lparr>rd_dev = \<lambda>_ _. 0, rom_dev = \<lambda>_ _ _ _. (0, []), mem_dev = \<lambda>_ _ n. replicate n 0,
      sym_addr = \<lambda>_. 0, trace = [], large_flash_mode = False,
      s_addr32_state = \<lparr>applied = False, saved_user = 0, saved_user1 = 0, saved_user2 = 0,
        saved_cache_fctrl = 0, saved_ctrl = 0, saved_timing_cali = 0, saved_dummy_len_plus = 0\<rparr>\<rparr>"

definition large_world :: s3_world where
  "large_world = quiet_world\<lparr>large_flash_mode := True\<rparr>"

text \<open>Running an operation to a result that satisfies a test.\<close>

definition gives :: "('r \<times> 'w) option \<Rightarrow> ('r \<Rightarrow> bool) \<Rightarrow> bool" where
  "gives x p = (case x of Some (r, w) \<Rightarrow> p r | None \<Rightarrow> False)"

lemma givesE:
  assumes "gives x (\<lambda>r. r = c)"
  obtains w where "x = Some (c, w)"
  using assms by (auto simp: gives_def split: option.splits prod.splits)

section \<open>Writing and erasing\<close>

text \<open>
  An unencrypted write of any address and size that reports success has programmed
  exactly the given bytes: every byte of the range is ANDed with its data byte and every
  other byte of the chip is as before, whether the write went out through the ROM or, in
  large flash mode, page by page through four byte commands, and with any unaligned head and
  tail.
\<close>

lemma write_buff_programs:
  assumes "stub_lib_flash_write_buff s3_flash_target a d sz False w = Some (STUB_LIB_OK, w')"
    and "unat sz \<le> length d"
  shows "s3_mem m w' = program a (take (unat sz) d) (s3_mem m w)"
  using s3.nor.write_buff_mem assms by blast

text \<open>Five bytes across a page boundary, with an unaligned head and tail, by four byte commands.\<close>

lemma write_buff_programs_witness:
  "\<exists>w'. stub_lib_flash_write_buff s3_flash_target 0x10FD [1, 2, 3, 4, 5] 5 False large_world = Some (STUB_LIB_OK, w') \<and>
     s3_mem (\<lambda>_. 0xFF) w' = program 0x10FD [1, 2, 3, 4, 5] (s3_mem (\<lambda>_. 0xFF) large_world)"
proof -
  have "gives (stub_lib_flash_write_buff s3_flash_target 0x10FD [1, 2, 3, 4, 5] 5 False large_world)
    (\<lambda>r. r = STUB_LIB_OK)" by code_simp
  then obtain w' where w: "stub_lib_flash_write_buff s3_flash_target 0x10FD [1, 2, 3, 4, 5] 5 False large_world =
    Some (STUB_LIB_OK, w')" by (rule givesE)
  from write_buff_programs [OF w, of "\<lambda>_. 0xFF"] w show ?thesis by simp
qed

text \<open>
  An area erase that reports success has set exactly the bytes of the area to 0xFF and
  left the chip idle, by any mix of sector and block erases; without four byte addresses
  this needs the area to lie in the first 16 MiB.
\<close>

lemma erase_area_erases:
  assumes "stub_lib_flash_erase_area s3_flash_target a sz w = Some (STUB_LIB_OK, w')"
    and "large_flash_mode w \<or> unat a + unat sz \<le> 0x1000000"
  shows "s3_mem m w' = erase a (unat sz) (s3_mem m w) \<and> \<not> cbusy (s3_chip m w')"
  using s3.nor.erase_area_mem [OF assms(1)] assms(2) by (simp add: use_4byte_def s3_flash_target_def)

lemma erase_area_erases_witness:
  "\<exists>w'. stub_lib_flash_erase_area s3_flash_target 0xF000 0x12000 large_world = Some (STUB_LIB_OK, w') \<and>
     s3_mem (\<lambda>_. 0) w' = erase 0xF000 0x12000 (s3_mem (\<lambda>_. 0) large_world) \<and> \<not> cbusy (s3_chip (\<lambda>_. 0) w')"
proof -
  have "gives (stub_lib_flash_erase_area s3_flash_target 0xF000 0x12000 large_world) (\<lambda>r. r = STUB_LIB_OK)"
    by code_simp
  then obtain w' where w: "stub_lib_flash_erase_area s3_flash_target 0xF000 0x12000 large_world =
    Some (STUB_LIB_OK, w')" by (rule givesE)
  have "large_flash_mode large_world" by (simp add: large_world_def)
  from erase_area_erases [OF w disjI1 [OF this], of "\<lambda>_. 0"] w show ?thesis by simp
qed

section \<open>Waiting\<close>

text \<open>The world before the n-th poll, if all earlier ones found the flash busy.\<close>

primrec poll_state ::
  "('s, 'a world_scheme) flash_target \<Rightarrow> 'a world_scheme \<Rightarrow> nat \<Rightarrow> 'a world_scheme" where
  "poll_state T w 0 = w"
| "poll_state T w (Suc n) = stub_lib_delay_us 1 (snd (the (t_is_busy T (poll_state T w n))))"

definition busy_at :: "('s, 'a world_scheme) flash_target \<Rightarrow> 'a world_scheme \<Rightarrow> nat \<Rightarrow> bool" where
  "busy_at T w n = fst (the (t_is_busy T (poll_state T w n)))"

lemma poll_state_Suc: "poll_state T w (Suc n) = poll_state T (poll_state T w 1) n"
  by (induction n) simp_all

lemma busy_at_Suc: "busy_at T w (Suc n) = busy_at T (poll_state T w 1) n"
  unfolding busy_at_def by (simp only: poll_state_Suc)

lemma wait_ready_loop_spec:
  assumes "\<forall>n<max 1 (unat t - unat e). t_is_busy T (poll_state T w n) \<noteq> None" and "e < t \<or> e = 0"
  shows "((\<forall>n<max 1 (unat t - unat e). busy_at T w n) \<longrightarrow> wait_ready_loop T t e w =
        Some (STUB_LIB_ERR_TIMEOUT, poll_state T w (max 1 (unat t - unat e)))) \<and>
    (\<forall>n<max 1 (unat t - unat e). (\<forall>i<n. busy_at T w i) \<and> \<not> busy_at T w n \<longrightarrow>
      wait_ready_loop T t e w = Some (STUB_LIB_OK, snd (the (t_is_busy T (poll_state T w n)))))"
  using assms
proof (induction T t e w rule: wait_ready_loop.induct)
  case (1 T t e w)
  obtain b w1 where b: "t_is_busy T w = Some (b, w1)" using 1(2) [rule_format, of 0] by fastforce
  define w2 where "w2 = stub_lib_delay_us 1 w1"
  have p1: "poll_state T w 1 = w2" and b0: "busy_at T w 0 = b"
    using b by (simp_all add: w2_def busy_at_def)
  show ?case
  proof (cases "b \<and> e + 1 < t")
    case False
    then have "b \<Longrightarrow> max 1 (unat t - unat e) = 1"
      using 1(3) unat_lt64 [of e] unat_lt64 [of t]
      by (cases "e = 0") (auto simp: word_less_nat_alt unat_word_ariths)
    moreover have "w1 = snd (the (t_is_busy T (poll_state T w n)))" if "\<forall>i<n. busy_at T w i" "\<not> b" for n
      using that b0 b by (cases n) auto
    ultimately show ?thesis using b b0 p1 False
      by (subst (1 2) wait_ready_loop.simps) (auto simp: Let_def w2_def)
  next
    case True
    then have "unat (e + 1) = unat e + 1 \<and> unat e + 1 < unat t" 
      using 1(3) unat_lt64 [of e] unat_lt64 [of t]
      by (cases "e = 0") (auto simp: word_less_nat_alt unat_word_ariths)
    then have R: "max 1 (unat t - unat e) = Suc (max 1 (unat t - unat (e + 1)))" by auto
    have eq: "wait_ready_loop T t e w = wait_ready_loop T t (e + 1) w2"
      using True b by (subst wait_ready_loop.simps) (simp add: w2_def Let_def)
    have IH: "((\<forall>n<max 1 (unat t - unat (e + 1)). busy_at T w2 n) \<longrightarrow> wait_ready_loop T t (e + 1) w2 =
        Some (STUB_LIB_ERR_TIMEOUT, poll_state T w2 (max 1 (unat t - unat (e + 1))))) \<and>
      (\<forall>n<max 1 (unat t - unat (e + 1)). (\<forall>i<n. busy_at T w2 i) \<and> \<not> busy_at T w2 n \<longrightarrow>
        wait_ready_loop T t (e + 1) w2 = Some (STUB_LIB_OK, snd (the (t_is_busy T (poll_state T w2 n)))))"
      using 1(1) [OF b refl _ w2_def refl] 1(2) [unfolded R All_less_Suc2 p1 poll_state_Suc] True by simp
    have b0': "busy_at T w 0" using b0 True by simp
    show ?thesis
      unfolding R eq All_less_Suc2 busy_at_Suc p1 poll_state_Suc
      using IH b0' by simp
  qed
qed

text \<open>
  C7: A wait for the flash polls it once per microsecond, at least once and at most as often
  as its timeout says: it reports success at the first poll that finds the flash idle, and a
  timeout exactly when every poll finds it busy.
\<close>

lemma wait_ready_outcome:
  assumes "\<forall>n<max 1 (unat t). t_is_busy T (poll_state T w n) \<noteq> None"
  shows "((\<forall>n<max 1 (unat t). busy_at T w n) \<longrightarrow> stub_lib_flash_wait_ready T t w =
        Some (STUB_LIB_ERR_TIMEOUT, poll_state T w (max 1 (unat t)))) \<and>
    (\<forall>n<max 1 (unat t). (\<forall>i<n. busy_at T w i) \<and> \<not> busy_at T w n \<longrightarrow>
      stub_lib_flash_wait_ready T t w = Some (STUB_LIB_OK, snd (the (t_is_busy T (poll_state T w n)))))"
  using wait_ready_loop_spec [of t 0 T w] assms by (simp add: stub_lib_flash_wait_ready_def)

lemma wait_ready_outcome_witness:
  "stub_lib_flash_wait_ready s3_flash_target 1 quiet_world =
     Some (STUB_LIB_OK, snd (the (t_is_busy s3_flash_target quiet_world)))"
proof -
  have "gives (t_is_busy s3_flash_target quiet_world) (\<lambda>b. b = False)" by code_simp
  then have "t_is_busy s3_flash_target quiet_world \<noteq> None" "\<not> busy_at s3_flash_target quiet_world 0"
    by (auto simp: gives_def busy_at_def split: option.splits)
  then show ?thesis using wait_ready_outcome [of 1 s3_flash_target quiet_world] by simp
qed

section \<open>Reading\<close>

text \<open>
  A read that reports success returns the bytes the chip holds at the address, all of
  them and in order, and leaves the chip unchanged.
\<close>

lemma read_buff_returns_image:
  assumes "stub_lib_flash_read_buff s3_flash_target a sz w = Some ((STUB_LIB_OK, bs), w')"
    and "reads_chip s3_flash_soc m w"
  shows "bs = image_bytes (s3_mem m w) a (unat sz) \<and> s3_mem m w' = s3_mem m w"
  using s3.read_buff_image assms by blast

text \<open>A world whose ROM reads the chip, in large flash mode.\<close>

definition reading_world :: "image \<Rightarrow> s3_world" where
  "reading_world m = large_world\<lparr>rom_dev := \<lambda>es f args d.
     (0, if case f of FlashFn g \<Rightarrow> exec_fn g | _ \<Rightarrow> False
         then image_bytes (cmem (chip_of s3_flash_soc m es)) (args ! 4) (unat (args ! 9) div 8)
         else if f = FlashFn Esp_rom_spiflash_read
         then image_bytes (cmem (chip_of s3_flash_soc m es)) (args ! 0) (unat (args ! 1))
         else [])\<rparr>"

lemma read_buff_returns_image_witness:
  "\<exists>bs w'. stub_lib_flash_read_buff s3_flash_target 0x1000 20 (reading_world (\<lambda>x. ucast x)) =
       Some ((STUB_LIB_OK, bs), w') \<and>
     bs = image_bytes (s3_mem (\<lambda>x. ucast x) (reading_world (\<lambda>x. ucast x))) 0x1000 20"
proof -
  have "gives (stub_lib_flash_read_buff s3_flash_target 0x1000 20 (reading_world (\<lambda>x. ucast x)))
    (\<lambda>r. fst r = STUB_LIB_OK)" by code_simp
  then obtain bs w' where r: "stub_lib_flash_read_buff s3_flash_target 0x1000 20 (reading_world (\<lambda>x. ucast x)) =
    Some ((STUB_LIB_OK, bs), w')" by (auto simp: gives_def split: option.splits)
  have "reads_chip s3_flash_soc (\<lambda>x. ucast x) (reading_world (\<lambda>x. ucast x))"
    by (simp add: reads_chip_def reading_world_def)
  from read_buff_returns_image [OF r this] r show ?thesis by auto
qed

end
