(* ===== verification/Plain.thy ===== *)
theory Plain
  imports Cache
begin

text \<open>
  Registers and variables that simply hold what was last written to them, and what a read
  of one gives after a sequence of events.
\<close>

section \<open>Cells that behave as memory\<close>

text \<open>
  A control register or a variable is \<open>plain\<close> when it holds what was last written to it: a
  write to it sets it, and neither reads, nor writes to other cells, nor the ROM functions
  that stop and start the cache, wait, or query the eFuses change it. Other ROM functions
  may: the flash ROM reprograms the controllers.
\<close>

definition harmless :: "rom_fn \<Rightarrow> bool" where
  "harmless f \<longleftrightarrow> (case f of CacheFn g \<Rightarrow> True
     | FlashFn g \<Rightarrow> g = Ets_efuse_flash_octal_mode \<or> g = Esp_rom_efuse_get_flash_gpio_info
     | SysFn g \<Rightarrow> g = Ets_delay_us \<or> g = Esp_rom_delay_us | _ \<Rightarrow> False)"

definition keeps :: "cell \<Rightarrow> ev \<Rightarrow> bool" where
  "keeps c e \<longleftrightarrow> (case e of Wr c' v \<Rightarrow> c' \<noteq> c | Call f args d r out \<Rightarrow> harmless f | _ \<Rightarrow> True)"

definition plain :: "'a world_scheme \<Rightarrow> cell \<Rightarrow> bool" where
  "plain w c \<longleftrightarrow> (\<forall>es v. rd_dev w (es @ [Wr c v]) c = v) \<and>
     (\<forall>es e. keeps c e \<longrightarrow> rd_dev w (es @ [e]) c = rd_dev w es c)"

lemma plain_after [simp]: "plain (after w es) = plain w"
  by (simp add: plain_def fun_eq_iff)

lemma plain_cong: "rd_dev w' = rd_dev w \<Longrightarrow> plain w' c = plain w c"
  by (simp add: plain_def)

lemma peek_keeps:
  assumes "plain w c" and "list_all (keeps c) es"
  shows "peek c (after w es) = peek c w"
  using assms(2)
proof (induction es rule: rev_induct)
  case (snoc e es)
  then have "peek c (after w (es @ [e])) = peek c (after w es)"
    using assms(1) by (simp add: plain_def peek_def flip: append_assoc)
  then show ?case using snoc by simp
qed simp

lemma peek_written:
  assumes "plain w c" and "list_all (keeps c) es'"
  shows "peek c (after w (es @ Wr c v # es')) = v"
proof -
  have "peek c (after (after w (es @ [Wr c v])) es') = peek c (after w (es @ [Wr c v]))"
    by (rule peek_keeps) (use assms in simp_all)
  moreover have "peek c (after w (es @ [Wr c v])) = v"
    using assms(1) by (simp add: plain_def peek_def flip: append_assoc)
  ultimately show ?thesis by simp
qed

lemma keeps_simps [simp]:
  "keeps c (Rd c' v)" "keeps c (Wr c' v) \<longleftrightarrow> c' \<noteq> c" "keeps c (Call (CacheFn f) args d r out)"
  "keeps c (Call (SysFn Ets_delay_us) args d r out)" "keeps c (Call (SysFn Esp_rom_delay_us) args d r out)" "keeps c (Ld a bs)" "keeps c (St a bs)"
  "keeps c (Call (FlashFn Ets_efuse_flash_octal_mode) args d r out)"
  by (simp_all add: keeps_def harmless_def)

lemma is_cache_call_keeps: "is_cache_call e \<Longrightarrow> keeps c e"
  by (cases e) (auto simp: is_cache_call_def keeps_def harmless_def split: rom_fn.splits)

text \<open>What a read-modify-write leaves in a plain cell.\<close>

lemma plain_peek:
  assumes "plain w c"
  shows "peek c (REG_SET_BIT r b w) = (if c = Mmio r then peek c w OR b else peek c w)"
    "peek c (REG_CLR_BIT r b w) = (if c = Mmio r then peek c w AND NOT b else peek c w)"
    "c \<noteq> Mmio r \<Longrightarrow> peek c (REG_SET_FIELD r fV fS x w) = peek c w"
  using assms peek_keeps [of w c] peek_written [of w c "[]" "[Rd c (peek c w)]"]
  by (auto simp: rmw_eq)

lemma rmw_plain [simp]:
  "plain (REG_SET_BIT r b w) = plain w" "plain (REG_CLR_BIT r b w) = plain w"
  "plain (REG_SET_FIELD r fV fS x w) = plain w"
  by (simp_all add: rmw_eq)

text \<open>A list of writes to different plain cells leaves each of them with its value.\<close>

definition wrs :: "(cell \<times> u32) list \<Rightarrow> ev list" where
  "wrs xs = map (\<lambda>(c, v). Wr c v) xs"

lemma keeps_writes: "c \<notin> fst ` set xs \<Longrightarrow> list_all (keeps c) (wrs xs)"
  by (force simp: wrs_def list_all_iff)

lemma peek_writes:
  assumes "plain w c" "(c, v) \<in> set xs" "distinct (map fst xs)" "list_all (keeps c) fs"
  shows "peek c (after w (es @ wrs xs @ fs)) = v"
proof -
  obtain ys zs where xs: "xs = ys @ (c, v) # zs" using assms(2) by (meson split_list)
  have "list_all (keeps c) (wrs zs)" using assms(3) by (intro keeps_writes) (auto simp: xs)
  then show ?thesis
    using peek_written [OF assms(1), of "wrs zs @ fs" "es @ wrs ys" v] assms(4) by (simp add: xs wrs_def)
qed

lemma ucast_byte: "unat v < 256 \<Longrightarrow> ucast (ucast (v :: u32) :: u8) = v"
  by (simp add: word_unat_eq_iff unsigned_ucast_eq unsigned_take_bit_eq take_bit_eq_mod unat_mod)

section \<open>What was written\<close>

text \<open>The values written to a register, in order.\<close>

definition written :: "u32 \<Rightarrow> ev list \<Rightarrow> u32 list" where
  "written r es = concat (map (\<lambda>e. case e of Wr c v \<Rightarrow> if c = Mmio r then [v] else [] | _ \<Rightarrow> []) es)"

lemma written_simps [simp]:
  "written r [] = []" "written r (es @ fs) = written r es @ written r fs"
  "written r (Rd c v # es) = written r es" "written r (Call f args d x out # es) = written r es"
  "written r (Wr (Mmio a) v # es) = (if a = r then v # written r es else written r es)"
  by (simp_all add: written_def)

lemma polls_written: "list_all (poll_of r) es \<Longrightarrow> written q es = []"
  by (induction es) (auto simp: poll_of_def written_def split: ev.splits)

section \<open>A register file\<close>

text \<open>A concrete device: every cell holds what was last written to it, and d before that.\<close>

definition regfile :: "u32 \<Rightarrow> ev list \<Rightarrow> cell \<Rightarrow> u32" where
  "regfile d es c = fold (\<lambda>e v. case e of Wr c' x \<Rightarrow> if c' = c then x else v | _ \<Rightarrow> v) es d"

lemma regfile_plain: "rd_dev w = regfile d \<Longrightarrow> plain w c"
  by (auto simp: plain_def regfile_def keeps_def split: ev.splits)

end
