(* ===== verification/Mmu.thy ===== *)
theory Mmu
  imports Plain Flash_Lib
begin

text \<open>
  Reading flash through the cache, \<open>src/mmu.c\<close>: pages of the flash are mapped into the data
  window of the CPU for the time of one copy. The target's view of its MMU table is a record
  of operations (\<open>include/target/mmu.h\<close>); \<open>src/target/common/src/mmu.c\<close> has the generic
  ones. The static \<open>s_mmap_state\<close> extends the state of the machine.
\<close>

definition STUB_MMU_PAGE_SIZE_8KB :: u32 where [regs]: "STUB_MMU_PAGE_SIZE_8KB = 0x2000"
definition STUB_MMU_PAGE_SIZE_16KB :: u32 where [regs]: "STUB_MMU_PAGE_SIZE_16KB = 0x4000"
definition STUB_MMU_PAGE_SIZE_32KB :: u32 where [regs]: "STUB_MMU_PAGE_SIZE_32KB = 0x8000"
definition STUB_MMU_PAGE_SIZE_64KB :: u32 where [regs]: "STUB_MMU_PAGE_SIZE_64KB = 0x10000"
definition STUB_MMU_PAGE_SIZE_128KB :: u32 where [regs]: "STUB_MMU_PAGE_SIZE_128KB = 0x20000"
definition STUB_MMU_PAGE_SIZE_256KB :: u32 where [regs]: "STUB_MMU_PAGE_SIZE_256KB = 0x40000"

section \<open>The target\<close>

record 'w mmu_target =
  tm_get_page_size :: "'w \<Rightarrow> u32 \<times> 'w"
  tm_get_drom_vaddr :: "'w \<Rightarrow> u32 \<times> 'w"
  tm_get_drom_entry_start :: u32
  tm_get_drom_entry_end :: u32
  tm_write_entry :: "u32 \<Rightarrow> u32 \<Rightarrow> 'w \<Rightarrow> 'w"
  tm_read_entry :: "u32 \<Rightarrow> 'w \<Rightarrow> u32 \<times> 'w"
  tm_set_entry_invalid :: "u32 \<Rightarrow> 'w \<Rightarrow> 'w"
  tm_restore_entry :: "u32 \<Rightarrow> u32 \<Rightarrow> 'w \<Rightarrow> 'w"
  tm_has_valid_entry :: "'w \<Rightarrow> bool \<times> 'w"

definition stub_target_mmu_get_page_size :: "'w \<Rightarrow> u32 \<times> 'w" where
  "stub_target_mmu_get_page_size w = (STUB_MMU_PAGE_SIZE_64KB, w)"

definition stub_target_mmu_get_drom_vaddr :: "'w \<Rightarrow> u32 \<times> 'w" where
  "stub_target_mmu_get_drom_vaddr w = (0, w)"

definition stub_target_mmu_get_drom_entry_start :: u32 where
  "stub_target_mmu_get_drom_entry_start = 0"

definition stub_target_mmu_get_drom_entry_end :: u32 where
  "stub_target_mmu_get_drom_entry_end = 0"

definition stub_target_mmu_write_entry :: "u32 \<Rightarrow> u32 \<Rightarrow> 'w \<Rightarrow> 'w" where
  "stub_target_mmu_write_entry entry_id flash_page_num w = w"

definition stub_target_mmu_read_entry :: "u32 \<Rightarrow> 'w \<Rightarrow> u32 \<times> 'w" where
  "stub_target_mmu_read_entry entry_id w = (0, w)"

definition stub_target_mmu_set_entry_invalid :: "u32 \<Rightarrow> 'w \<Rightarrow> 'w" where
  "stub_target_mmu_set_entry_invalid entry_id w = w"

definition stub_target_mmu_restore_entry :: "u32 \<Rightarrow> u32 \<Rightarrow> 'w \<Rightarrow> 'w" where
  "stub_target_mmu_restore_entry entry_id raw_value w = w"

definition stub_target_mmu_has_valid_entry :: "'w \<Rightarrow> bool \<times> 'w" where
  "stub_target_mmu_has_valid_entry w = (False, w)"

section \<open>Mapping, unmapping, reading\<close>

definition STUB_MMAP_MAX_PAGES :: u32 where [regs]: "STUB_MMAP_MAX_PAGES = 8"

record mmap_state =
  vaddr_base :: u32
  entry_start :: u32
  page_count :: u32
  saved_entries :: "u32 list"

record mmap_world = flash_world +
  s_mmap_state :: mmap_state

text \<open>The array \<open>saved_entries\<close> always has its declared length.\<close>

definition wf_mmap :: "'a mmap_world_scheme \<Rightarrow> bool" where
  "wf_mmap w \<longleftrightarrow> length (saved_entries (s_mmap_state w)) = unat STUB_MMAP_MAX_PAGES"

definition mmu_page_shift :: "u32 \<Rightarrow> nat" where
  "mmu_page_shift page_size =
     (if page_size = STUB_MMU_PAGE_SIZE_8KB then 13
      else if page_size = STUB_MMU_PAGE_SIZE_16KB then 14
      else if page_size = STUB_MMU_PAGE_SIZE_32KB then 15
      else if page_size = STUB_MMU_PAGE_SIZE_64KB then 16
      else if page_size = STUB_MMU_PAGE_SIZE_128KB then 17
      else if page_size = STUB_MMU_PAGE_SIZE_256KB then 18
      else 0)"

definition mmu_invalidate_region :: "('s, 'w) cache_target \<Rightarrow> u32 \<Rightarrow> u32 \<Rightarrow> 'w \<Rightarrow> 'w" where
  "mmu_invalidate_region C vaddr sz w =
     (if stub_lib_cache_get_caps C AND STUB_CACHE_CAP_HAS_INVALIDATE_ADDR \<noteq> 0
      then stub_lib_cache_invalidate_addr C vaddr sz w
      else stub_lib_cache_invalidate_all C (stub_lib_cache_writeback_all C w))"

text \<open>The bodies of the three \<open>for\<close> loops, for one i.\<close>

definition save_entry :: "'a mmap_world_scheme mmu_target \<Rightarrow> u32 \<Rightarrow> nat \<Rightarrow> 'a mmap_world_scheme \<Rightarrow> 'a mmap_world_scheme" where
  "save_entry M start i w =
     (let (v, w) = tm_read_entry M (start + of_nat i) w
      in w\<lparr>s_mmap_state := (s_mmap_state w)\<lparr>saved_entries := (saved_entries (s_mmap_state w))[i := v]\<rparr>\<rparr>)"

definition map_entry :: "'a mmap_world_scheme mmu_target \<Rightarrow> u32 \<Rightarrow> u32 \<Rightarrow> nat \<Rightarrow> 'a mmap_world_scheme \<Rightarrow> 'a mmap_world_scheme" where
  "map_entry M start flash_page i w = tm_write_entry M (start + of_nat i) (flash_page + of_nat i) w"

definition unmap_entry :: "'a mmap_world_scheme mmu_target \<Rightarrow> nat \<Rightarrow> 'a mmap_world_scheme \<Rightarrow> 'a mmap_world_scheme" where
  "unmap_entry M i w =
     (let s = s_mmap_state w in tm_restore_entry M (entry_start s + of_nat i) (saved_entries s ! i) w)"

text \<open>The part of \<open>mmu_mmap\<close> between stopping and starting the cache.\<close>

definition mmap_program ::
  "'a mmap_world_scheme mmu_target \<Rightarrow> ('s, 'a mmap_world_scheme) cache_target \<Rightarrow> u32 \<Rightarrow> u32 \<Rightarrow> u32 \<Rightarrow> u32 \<Rightarrow> u32 \<Rightarrow>
   'a mmap_world_scheme \<Rightarrow> 'a mmap_world_scheme" where
  "mmap_program M C page_size start base flash_page pages w =
     (let w = stub_lib_cache_stop C w;
          w = fold (save_entry M start) [0..<unat pages] w;
          w = fold (map_entry M start flash_page) [0..<unat pages] w;
          w = w\<lparr>s_mmap_state := (s_mmap_state w)\<lparr>vaddr_base := base,
                 entry_start := start, page_count := pages\<rparr>\<rparr>;
          w = mmu_invalidate_region C base (pages * page_size) w
      in stub_lib_cache_start C w)"

text \<open>The result is the return code and, when it is OK, the virtual address.\<close>

definition mmu_mmap ::
  "'a mmap_world_scheme mmu_target \<Rightarrow> ('s, 'a mmap_world_scheme) cache_target \<Rightarrow> u32 \<Rightarrow> u32 \<Rightarrow>
   'a mmap_world_scheme \<Rightarrow> (rc \<times> u32) \<times> 'a mmap_world_scheme" where
  "mmu_mmap M C flash_paddr sz w =
     (let (page_size, w) = tm_get_page_size M w;
          page_shift = mmu_page_shift page_size;
          aligned = ALIGN_DOWN flash_paddr page_size;
          offset = flash_paddr - aligned
      in if sz = 0 \<or> page_shift = 0 then ((STUB_LIB_ERR_INVALID_ARG, 0), w)
         else if sz > 0xFFFFFFFF - offset then ((STUB_LIB_ERR_INVALID_ARG, 0), w)
         else
           (let map_size = sz + offset;
                pages = drop_bit page_shift (map_size + page_size - 1)
            in if pages > STUB_MMAP_MAX_PAGES then ((STUB_LIB_ERR_INVALID_ARG, 0), w)
               else
                 (let drom_start = tm_get_drom_entry_start M;
                      drom_end = tm_get_drom_entry_end M;
                      drom_count = drom_end - drom_start
                  in if pages > drom_count then ((STUB_LIB_ERR_INVALID_ARG, 0), w)
                     else
                       (let start = drom_end - pages;
                            (drom_vaddr, w) = tm_get_drom_vaddr M w;
                            base = drom_vaddr + (start - drom_start) * page_size;
                            w = mmap_program M C page_size start base (drop_bit page_shift aligned) pages w
                        in ((STUB_LIB_OK, base + offset), w)))))"

definition mmu_munmap ::
  "'a mmap_world_scheme mmu_target \<Rightarrow> ('s, 'a mmap_world_scheme) cache_target \<Rightarrow>
   'a mmap_world_scheme \<Rightarrow> 'a mmap_world_scheme" where
  "mmu_munmap M C w =
     (if page_count (s_mmap_state w) = 0 then w
      else
        (let (page_size, w) = tm_get_page_size M w;
             w = stub_lib_cache_stop C w;
             w = fold (unmap_entry M) [0..<unat (page_count (s_mmap_state w))] w;
             w = mmu_invalidate_region C (vaddr_base (s_mmap_state w))
                   (page_count (s_mmap_state w) * page_size) w;
             w = stub_lib_cache_start C w
         in w\<lparr>s_mmap_state := (s_mmap_state w)\<lparr>page_count := 0\<rparr>\<rparr>))"

definition stub_lib_mmu_read_flash ::
  "'a mmap_world_scheme mmu_target \<Rightarrow> ('s, 'a mmap_world_scheme) cache_target \<Rightarrow> u32 \<Rightarrow> u32 \<Rightarrow>
   'a mmap_world_scheme \<Rightarrow> (rc \<times> u8 list) \<times> 'a mmap_world_scheme" where
  "stub_lib_mmu_read_flash M C addr sz w =
     (let ((rc, vaddr), w) = mmu_mmap M C addr sz w
      in if rc \<noteq> STUB_LIB_OK then ((rc, []), w)
         else
           (let (buffer, w) = mem_load vaddr (unat sz) w;
                w = mmu_munmap M C w
            in ((STUB_LIB_OK, buffer), w)))"

lemma read_flashE:
  assumes "stub_lib_mmu_read_flash M C a sz w = ((STUB_LIB_OK, bs), w')"
  obtains v w1 where "mmu_mmap M C a sz w = ((STUB_LIB_OK, v), w1)" "bs = fst (mem_load v (unat sz) w1)"
    "w' = mmu_munmap M C (snd (mem_load v (unat sz) w1))"
proof -
  obtain rc v w1 where m: "mmu_mmap M C a sz w = ((rc, v), w1)" by (metis surj_pair)
  then show ?thesis
    using assms that by (auto simp: stub_lib_mmu_read_flash_def Let_def split_beta split: if_splits)
qed

section \<open>The contract with the MMU\<close>

text \<open>
  What the driver relies on: a table of entries that reading leaves alone, that writing and
  restoring an entry changes in that entry only, and that nothing the cache does changes.
  \<open>raw p\<close> is the entry for flash page p.
\<close>

lemma word_index:
  fixes e s :: u32
  assumes "n < 4294967296"
  shows "e = s + of_nat n \<longleftrightarrow> unat (e - s) = n"
proof -
  have "e = s + of_nat n \<longleftrightarrow> e - s = of_nat n" by (auto simp: algebra_simps)
  then show ?thesis using assms by (simp add: word_unat_eq_iff unat_of_nat32)
qed

definition in_range :: "(u32 \<Rightarrow> bool) \<Rightarrow> u32 \<Rightarrow> nat \<Rightarrow> bool" where
  "in_range valid start n \<longleftrightarrow> unat start + n < 4294967296 \<and> (\<forall>i<n. valid (start + of_nat i))"

lemma in_range_Suc: "in_range valid start (Suc n) \<Longrightarrow> in_range valid start n"
  by (simp add: in_range_def)

locale mmu_table =
  fixes M :: "'a mmap_world_scheme mmu_target" and C :: "('s, 'a mmap_world_scheme) cache_target"
    and ok :: "'a mmap_world_scheme \<Rightarrow> bool"
    and entry :: "'a mmap_world_scheme \<Rightarrow> u32 \<Rightarrow> u32" and raw :: "u32 \<Rightarrow> u32"
    and page_size drom_base :: u32 and shift :: nat and valid_entry :: "u32 \<Rightarrow> bool"
    and flash :: "u32 \<Rightarrow> u8" and flash_pages :: nat
  assumes get_page_size: "ok w \<Longrightarrow> tm_get_page_size M w = (p, w') \<Longrightarrow>
      p = page_size \<and> ok w' \<and> entry w' = entry w \<and> s_mmap_state w' = s_mmap_state w"
    and get_drom_vaddr: "ok w \<Longrightarrow> tm_get_drom_vaddr M w = (v, w') \<Longrightarrow>
      v = drom_base \<and> ok w' \<and> entry w' = entry w \<and> s_mmap_state w' = s_mmap_state w"
    and read_entry: "ok w \<Longrightarrow> valid_entry e \<Longrightarrow> tm_read_entry M e w = (v, w') \<Longrightarrow>
      v = entry w e \<and> ok w' \<and> entry w' = entry w \<and> s_mmap_state w' = s_mmap_state w"
    and write_entry: "ok w \<Longrightarrow> valid_entry e \<Longrightarrow> ok (tm_write_entry M e p w) \<and>
      entry (tm_write_entry M e p w) = (entry w)(e := raw p) \<and>
      s_mmap_state (tm_write_entry M e p w) = s_mmap_state w"
    and restore_entry: "ok w \<Longrightarrow> valid_entry e \<Longrightarrow> ok (tm_restore_entry M e v w) \<and>
      entry (tm_restore_entry M e v w) = (entry w)(e := v) \<and>
      s_mmap_state (tm_restore_entry M e v w) = s_mmap_state w"
    and load: "ok w \<Longrightarrow> ok (snd (mem_load a n w)) \<and> entry (snd (mem_load a n w)) = entry w \<and>
      s_mmap_state (snd (mem_load a n w)) = s_mmap_state w"
    and own_state: "ok w \<Longrightarrow> ok (w\<lparr>s_mmap_state := s\<rparr>) \<and> entry (w\<lparr>s_mmap_state := s\<rparr>) = entry w"
    and cache_stop: "ok w \<Longrightarrow> ok (stub_lib_cache_stop C w) \<and> entry (stub_lib_cache_stop C w) = entry w \<and>
      s_mmap_state (stub_lib_cache_stop C w) = s_mmap_state w"
    and cache_start: "ok w \<Longrightarrow> ok (stub_lib_cache_start C w) \<and> entry (stub_lib_cache_start C w) = entry w \<and>
      s_mmap_state (stub_lib_cache_start C w) = s_mmap_state w"
    and invalidate: "ok w \<Longrightarrow> ok (mmu_invalidate_region C v k w) \<and>
      entry (mmu_invalidate_region C v k w) = entry w \<and>
      s_mmap_state (mmu_invalidate_region C v k w) = s_mmap_state w"
    and drom_entries: "tm_get_drom_entry_start M \<le> e \<Longrightarrow> e < tm_get_drom_entry_end M \<Longrightarrow> valid_entry e"
    and drom_order: "tm_get_drom_entry_start M \<le> tm_get_drom_entry_end M"
    and drom_size: "unat (tm_get_drom_entry_end M - tm_get_drom_entry_start M) * 2 ^ shift \<le> 4294967296"
    and shift: "mmu_page_shift page_size = shift" "page_size = 2 ^ shift" "0 < shift" "shift < 32"
    and window: "ok w \<Longrightarrow> i < n \<Longrightarrow>
      entry w (tm_get_drom_entry_start M + of_nat (unat (a + of_nat i - drom_base) div 2 ^ shift)) = raw p \<Longrightarrow>
      unat p < flash_pages \<Longrightarrow> unat (a + of_nat i - drom_base) div 2 ^ shift < unat (tm_get_drom_entry_end M - tm_get_drom_entry_start M) \<Longrightarrow>
      fst (mem_load a n w) ! i = flash (p * page_size + of_nat (unat (a + of_nat i - drom_base) mod 2 ^ shift))"
    and flash_pages: "flash_pages * 2 ^ shift \<le> 4294967296"
    and load_length: "ok w \<Longrightarrow> length (fst (mem_load a n w)) = n"
begin

text \<open>The three loops, over n entries.\<close>

lemma save_loop:
  assumes "ok w" "in_range valid_entry start n" "n \<le> length (saved_entries (s_mmap_state w))"
  defines "w' \<equiv> fold (save_entry M start) [0..<n] w"
  shows "ok w' \<and> entry w' = entry w \<and>
    s_mmap_state w' = (s_mmap_state w)\<lparr>saved_entries :=
      map (\<lambda>i. entry w (start + of_nat i)) [0..<n] @ drop n (saved_entries (s_mmap_state w))\<rparr>"
  using assms(2,3) unfolding w'_def
proof (induction n)
  case (Suc n)
  define u where "u = fold (save_entry M start) [0..<n] w"
  from Suc have IH: "ok u" "entry u = entry w"
    "s_mmap_state u = (s_mmap_state w)\<lparr>saved_entries :=
      map (\<lambda>i. entry w (start + of_nat i)) [0..<n] @ drop n (saved_entries (s_mmap_state w))\<rparr>"
    by (simp_all add: u_def in_range_Suc)
  obtain v u' where r: "tm_read_entry M (start + of_nat n) u = (v, u')" by fastforce
  have "valid_entry (start + of_nat n)" using Suc(2) by (simp add: in_range_def)
  note re = read_entry [OF IH(1) this r]
  have d: "drop n (saved_entries (s_mmap_state w)) =
    saved_entries (s_mmap_state w) ! n # drop (Suc n) (saved_entries (s_mmap_state w))"
    using Suc(3) by (simp add: Cons_nth_drop_Suc)
  have eq: "fold (save_entry M start) [0..<Suc n] w = save_entry M start n u" by (simp add: u_def)
  have sv: "save_entry M start n u = u'\<lparr>s_mmap_state := (s_mmap_state w)\<lparr>saved_entries :=
    map (\<lambda>i. entry w (start + of_nat i)) [0..<Suc n] @ drop (Suc n) (saved_entries (s_mmap_state w))\<rparr>\<rparr>"
    using re IH by (simp add: save_entry_def r list_update_append d)
  show ?case
    unfolding eq sv using own_state [of u'] re IH by simp
qed (use assms(1) in simp)

lemma map_loop:
  fixes p :: u32
  assumes "ok w" "in_range valid_entry start n"
  defines "w' \<equiv> fold (map_entry M start p) [0..<n] w"
  shows "ok w' \<and> s_mmap_state w' = s_mmap_state w \<and>
    (\<forall>e. entry w' e = (if unat (e - start) < n then raw (p + (e - start)) else entry w e))"
  using assms(2) unfolding w'_def
proof (induction n)
  case (Suc n)
  define u where "u = fold (map_entry M start p) [0..<n] w"
  from Suc have IH: "ok u" "s_mmap_state u = s_mmap_state w"
    "\<And>e. entry u e = (if unat (e - start) < n then raw (p + (e - start)) else entry w e)"
    by (simp_all add: u_def in_range_Suc)
  have ve: "valid_entry (start + of_nat n)" using Suc(2) by (simp add: in_range_def)
  have step: "fold (map_entry M start p) [0..<Suc n] w = map_entry M start p n u" by (simp add: u_def)
  note we = write_entry [OF IH(1) ve, of "p + of_nat n"]
  have n: "n < 4294967296" using Suc(2) by (simp add: in_range_def)
  have res: "ok (map_entry M start p n u)" "s_mmap_state (map_entry M start p n u) = s_mmap_state w"
    "entry (map_entry M start p n u) = (entry u)(start + of_nat n := raw (p + of_nat n))"
    using we IH by (simp_all add: map_entry_def)
  have "entry (map_entry M start p n u) e =
    (if unat (e - start) < Suc n then raw (p + (e - start)) else entry w e)" for e
  proof (cases "unat (e - start) = n")
    case True
    then have "e = start + of_nat n" using word_index [OF n, of e start] by blast
    then show ?thesis using True by (simp add: res(3))
  next
    case False
    then have "e \<noteq> start + of_nat n" using word_index [OF n, of e start] by blast
    then show ?thesis using False IH(3) by (simp add: res(3) less_Suc_eq)
  qed
  then show ?case unfolding step using res by blast
qed (use assms(1) in simp)

lemma unmap_loop:
  assumes "ok w" "in_range valid_entry (entry_start (s_mmap_state w)) n" 
  defines "w' \<equiv> fold (unmap_entry M) [0..<n] w"
  shows "ok w' \<and> s_mmap_state w' = s_mmap_state w \<and>
    (\<forall>e. entry w' e = (if unat (e - entry_start (s_mmap_state w)) < n
       then saved_entries (s_mmap_state w) ! unat (e - entry_start (s_mmap_state w)) else entry w e))"
  using assms(2) unfolding w'_def
proof (induction n)
  case (Suc n)
  define u where "u = fold (unmap_entry M) [0..<n] w"
  let ?s = "entry_start (s_mmap_state w)"
  from Suc have IH: "ok u" "s_mmap_state u = s_mmap_state w"
    "\<And>e. entry u e = (if unat (e - ?s) < n then saved_entries (s_mmap_state w) ! unat (e - ?s) else entry w e)"
    by (simp_all add: u_def in_range_Suc)
  have ve: "valid_entry (?s + of_nat n)" using Suc(2) by (simp add: in_range_def)
  have step: "fold (unmap_entry M) [0..<Suc n] w = unmap_entry M n u" by (simp add: u_def)
  note we = restore_entry [OF IH(1) ve, of "saved_entries (s_mmap_state w) ! n"]
  have n: "n < 4294967296" using Suc(2) by (simp add: in_range_def)
  have res: "ok (unmap_entry M n u)" "s_mmap_state (unmap_entry M n u) = s_mmap_state w"
    "entry (unmap_entry M n u) = (entry u)(?s + of_nat n := saved_entries (s_mmap_state w) ! n)"
    using we IH by (simp_all add: unmap_entry_def Let_def)
  have "entry (unmap_entry M n u) e = (if unat (e - ?s) < Suc n
       then saved_entries (s_mmap_state w) ! unat (e - ?s) else entry w e)" for e
  proof (cases "unat (e - ?s) = n")
    case True
    then have "e = ?s + of_nat n" using word_index [OF n, of e ?s] by blast
    then show ?thesis using True by (simp add: res(3))
  next
    case False
    then have "e \<noteq> ?s + of_nat n" using word_index [OF n, of e ?s] by blast
    then show ?thesis using False IH(3) by (simp add: res(3) less_Suc_eq)
  qed
  then show ?case unfolding step using res by blast
qed (use assms(1) in simp)

lemma unat_page_size: "unat page_size = 2 ^ shift"
proof -
  have "(2 :: nat) ^ shift < 2 ^ 32" using shift(4) by (intro power_strict_increasing) simp_all
  then have "unat (of_nat (2 ^ shift) :: u32) = 2 ^ shift" by (intro unat_of_nat32) simp
  then show ?thesis by (simp add: shift(2))
qed

lemma page_aligned: "drop_bit shift (ALIGN_DOWN a page_size) * page_size = ALIGN_DOWN a page_size"
proof -
  have "drop_bit shift x * 2 ^ shift = push_bit shift (drop_bit shift x)" for x :: u32
    by (simp add: push_bit_eq_mult)
  moreover have "push_bit shift (drop_bit shift (ALIGN_DOWN a page_size)) = ALIGN_DOWN a page_size"
    by (rule bit_word_eqI)
      (auto simp: ALIGN_DOWN_def shift(2) bit_simps and_pow2_minus_one mask_eq_exp_minus_1 [symmetric])
  ultimately show ?thesis by (simp add: shift(2))
qed

lemma map_range:
  assumes "unat pages \<le> unat (tm_get_drom_entry_end M - tm_get_drom_entry_start M)"
  defines "start \<equiv> tm_get_drom_entry_end M - pages"
  shows "in_range valid_entry start (unat pages)"
    "unat (start - tm_get_drom_entry_start M) + unat pages =
      unat (tm_get_drom_entry_end M - tm_get_drom_entry_start M)"
proof -
  let ?s = "tm_get_drom_entry_start M" and ?e = "tm_get_drom_entry_end M"
  have c: "unat (?e - ?s) = unat ?e - unat ?s" using drom_order by (simp add: unat_diff)
  have le: "unat ?s \<le> unat ?e" using drom_order by (simp add: word_le_nat_alt)
  have st: "unat start = unat ?e - unat pages"
    unfolding start_def by (rule unat_diff) (use assms(1) c le in \<open>simp add: word_le_nat_alt\<close>)
  have "unat (start + of_nat i) = unat start + i" if "i < unat pages" for i
  proof -
    have "unat (of_nat i :: u32) = i" using that unat_lt32 [of pages] by (intro unat_of_nat32) simp
    then show ?thesis using that st assms(1) c le unat_lt32 [of ?e] by (subst unat_add_lt32) simp_all
  qed
  then show "in_range valid_entry start (unat pages)"
    using st assms(1) c le unat_lt32 [of ?e]
    by (auto simp: in_range_def word_le_nat_alt word_less_nat_alt intro!: drom_entries)
  have "unat (start - ?s) = unat start - unat ?s"
    by (rule unat_diff) (use st assms(1) c le in \<open>simp add: word_le_nat_alt\<close>)
  then show "unat (start - ?s) + unat pages = unat (?e - ?s)" using st assms(1) c le by simp
qed

lemma mmap_ok:
  assumes ok: "ok w" and wf: "wf_mmap w" and mm: "mmu_mmap M C a sz w = ((STUB_LIB_OK, v), w')"
  defines "offset \<equiv> a - ALIGN_DOWN a page_size"
  obtains pages start where
    "pages = drop_bit shift (sz + offset + page_size - 1)" "start = tm_get_drom_entry_end M - pages"
    "unat pages \<le> 8" "unat pages \<le> unat (tm_get_drom_entry_end M - tm_get_drom_entry_start M)"
    "v = drom_base + (start - tm_get_drom_entry_start M) * page_size + offset" "ok w'"
    "\<And>e. entry w' e = (if unat (e - start) < unat pages
       then raw (drop_bit shift (ALIGN_DOWN a page_size) + (e - start)) else entry w e)"
    "entry_start (s_mmap_state w') = start" "page_count (s_mmap_state w') = pages"
    "\<And>i. i < unat pages \<Longrightarrow> saved_entries (s_mmap_state w') ! i = entry w (start + of_nat i)"
    "unat sz + unat offset < 4294967296" "sz \<noteq> 0" "wf_mmap w'"
proof -
  obtain ps w1 where w1: "tm_get_page_size M w = (ps, w1)" by fastforce
  note p1 = get_page_size [OF ok w1]
  define pages where "pages = drop_bit shift (sz + offset + page_size - 1)"
  define start where "start = tm_get_drom_entry_end M - pages"
  have c: "sz \<noteq> 0" "\<not> sz > 0xFFFFFFFF - offset" "\<not> pages > STUB_MMAP_MAX_PAGES"
    "\<not> pages > tm_get_drom_entry_end M - tm_get_drom_entry_start M"
    using mm w1 p1 shift(1,3)
    by (auto simp: mmu_mmap_def Let_def rcs offset_def pages_def split: if_splits prod.splits)
  obtain b w2 where w2: "tm_get_drom_vaddr M w1 = (b, w2)" by fastforce
  have "ok w1" using p1 by simp
  note p2 = get_drom_vaddr [OF this w2]
  define w3 where "w3 = fold (save_entry M start) [0..<unat pages] (stub_lib_cache_stop C w2)"
  define w4 where "w4 = fold (map_entry M start (drop_bit shift (ALIGN_DOWN a page_size))) [0..<unat pages] w3"
  define base where "base = drom_base + (start - tm_get_drom_entry_start M) * page_size"
  define w5 where "w5 = w4\<lparr>s_mmap_state := (s_mmap_state w4)\<lparr>vaddr_base := base,
                                   entry_start := start, page_count := pages\<rparr>\<rparr>"
  have w': "w' = stub_lib_cache_start C (mmu_invalidate_region C base (pages * page_size) w5)"
    and v: "v = base + offset"
    using mm w1 p1 p2 w2 c shift(1,3)
    by (simp_all add: mmu_mmap_def mmap_program_def Let_def rcs offset_def [symmetric] pages_def [symmetric] start_def [symmetric]
        w3_def [symmetric] w4_def [symmetric] base_def [symmetric] w5_def [symmetric])
  have pages8: "unat pages \<le> 8" using c(3) by (simp add: regs word_less_nat_alt)
  have cnt: "unat pages \<le> unat (tm_get_drom_entry_end M - tm_get_drom_entry_start M)"
    using c(4) by (simp add: word_less_nat_alt)
  note rng = map_range [OF cnt, folded start_def]
  have s2: "ok (stub_lib_cache_stop C w2)" "entry (stub_lib_cache_stop C w2) = entry w"
    "s_mmap_state (stub_lib_cache_stop C w2) = s_mmap_state w"
    using cache_stop [of w2] p1 p2 by simp_all
  have len: "length (saved_entries (s_mmap_state w)) = 8" using wf by (simp add: wf_mmap_def regs)
  have s3: "ok w3" "entry w3 = entry w" "s_mmap_state w3 = (s_mmap_state w)\<lparr>saved_entries :=
      map (\<lambda>i. entry w (start + of_nat i)) [0..<unat pages] @ drop (unat pages) (saved_entries (s_mmap_state w))\<rparr>"
    using save_loop [OF s2(1) rng(1)] s2 len pages8 by (simp_all add: w3_def)
  have s4: "ok w4" "s_mmap_state w4 = s_mmap_state w3"
    "\<And>e. entry w4 e = (if unat (e - start) < unat pages
       then raw (drop_bit shift (ALIGN_DOWN a page_size) + (e - start)) else entry w e)"
    using map_loop [OF s3(1) rng(1)] s3 by (simp_all add: w4_def)
  have s5: "ok w5" "entry w5 = entry w4" using own_state [OF s4(1)] by (simp_all add: w5_def)
  note inv = invalidate [OF s5(1), of base "pages * page_size"]
  note cs = cache_start [OF conjunct1 [OF inv]]
  have sm: "s_mmap_state w' = (s_mmap_state w4)\<lparr>vaddr_base := base, entry_start := start, page_count := pages\<rparr>"
    using inv cs by (simp add: w' w5_def)
  show ?thesis
  proof (rule that [OF pages_def start_def pages8 cnt])
    show "v = drom_base + (start - tm_get_drom_entry_start M) * page_size + offset" by (simp add: v base_def)
    show "ok w'" using cs by (simp add: w')
    show "entry w' e = (if unat (e - start) < unat pages
       then raw (drop_bit shift (ALIGN_DOWN a page_size) + (e - start)) else entry w e)" for e
      using inv cs s5 s4(3) by (simp add: w')
    show "entry_start (s_mmap_state w') = start" "page_count (s_mmap_state w') = pages" by (simp_all add: sm)
    show "saved_entries (s_mmap_state w') ! i = entry w (start + of_nat i)" if "i < unat pages" for i
      using that by (simp add: sm s4 s3 nth_append)
    have "unat (0xFFFFFFFF - offset) = 4294967295 - unat offset"
      using unat_lt32 [of offset] by (subst unat_diff) (simp_all add: word_le_nat_alt)
    then show "unat sz + unat offset < 4294967296"
      using c(2) unat_lt32 [of offset] by (simp add: word_less_nat_alt)
    show "sz \<noteq> 0" by fact
    show "wf_mmap w'" using len pages8 by (simp add: wf_mmap_def sm s4 s3 regs)
  qed
qed

lemma munmap_entries:
  assumes "ok w" "in_range valid_entry (entry_start (s_mmap_state w)) (unat (page_count (s_mmap_state w)))"
  shows "ok (mmu_munmap M C w) \<and> page_count (s_mmap_state (mmu_munmap M C w)) = 0 \<and>
    (\<forall>e. entry (mmu_munmap M C w) e =
      (if unat (e - entry_start (s_mmap_state w)) < unat (page_count (s_mmap_state w))
       then saved_entries (s_mmap_state w) ! unat (e - entry_start (s_mmap_state w)) else entry w e))"
proof (cases "page_count (s_mmap_state w) = 0")
  case True
  then show ?thesis using assms by (simp add: mmu_munmap_def)
next
  case False
  obtain ps w1 where w1: "tm_get_page_size M w = (ps, w1)" by fastforce
  note p1 = get_page_size [OF assms(1) w1]
  define n where "n = unat (page_count (s_mmap_state w))"
  define w2 where "w2 = stub_lib_cache_stop C w1"
  have s2: "ok w2" "entry w2 = entry w" "s_mmap_state w2 = s_mmap_state w"
    using cache_stop [of w1] p1 by (simp_all add: w2_def)
  define w3 where "w3 = fold (unmap_entry M) [0..<n] w2"
  have s3: "ok w3" "s_mmap_state w3 = s_mmap_state w"
    "\<And>e. entry w3 e = (if unat (e - entry_start (s_mmap_state w)) < n
       then saved_entries (s_mmap_state w) ! unat (e - entry_start (s_mmap_state w)) else entry w e)"
    using unmap_loop [of w2 n] s2 assms(2) by (simp_all add: w3_def n_def)
  define w4 where "w4 = stub_lib_cache_start C (mmu_invalidate_region C (vaddr_base (s_mmap_state w))
     (page_count (s_mmap_state w) * ps) w3)"
  have s4: "ok w4" "entry w4 = entry w3" "s_mmap_state w4 = s_mmap_state w"
    using invalidate [OF s3(1)] cache_start s3(2) by (simp_all add: w4_def)
  have "mmu_munmap M C w = w4\<lparr>s_mmap_state := (s_mmap_state w4)\<lparr>page_count := 0\<rparr>\<rparr>"
    using False w1 s2 s3(2)
    by (simp add: mmu_munmap_def Let_def w2_def [symmetric] n_def [symmetric] w3_def [symmetric] w4_def)
  then show ?thesis using own_state [OF s4(1)] s4 s3 by (simp add: n_def)
qed

text \<open>A read that succeeds leaves every entry of the table as it was, and nothing mapped.\<close>

lemma read_flash_restores:
  assumes ok: "ok w" and wf: "wf_mmap w"
    and rd: "stub_lib_mmu_read_flash M C a sz w = ((STUB_LIB_OK, bs), w')"
  shows "entry w' = entry w \<and> page_count (s_mmap_state w') = 0"
proof -
  obtain v w1 where w1: "mmu_mmap M C a sz w = ((STUB_LIB_OK, v), w1)"
    and w': "w' = mmu_munmap M C (snd (mem_load v (unat sz) w1))"
    using rd by (rule read_flashE)
  obtain pages start where m: "start = tm_get_drom_entry_end M - pages" "unat pages \<le> 8"
    "unat pages \<le> unat (tm_get_drom_entry_end M - tm_get_drom_entry_start M)" "ok w1"
    "\<And>e. entry w1 e = (if unat (e - start) < unat pages
       then raw (drop_bit shift (ALIGN_DOWN a page_size) + (e - start)) else entry w e)"
    "entry_start (s_mmap_state w1) = start" "page_count (s_mmap_state w1) = pages"
    "\<And>i. i < unat pages \<Longrightarrow> saved_entries (s_mmap_state w1) ! i = entry w (start + of_nat i)"
    using mmap_ok [OF ok wf w1] by metis
  let ?w2 = "snd (mem_load v (unat sz) w1)"
  note l = load [OF m(4), of v "unat sz"]
  have "in_range valid_entry (entry_start (s_mmap_state ?w2)) (unat (page_count (s_mmap_state ?w2)))"
    using map_range(1) [OF m(3)] l m(1,6,7) by simp
  note un = munmap_entries [OF conjunct1 [OF l] this]
  have "entry w' e = entry w e" for e
    using un m l by (auto simp: w')
  then show ?thesis using un by (auto simp: w')
qed

text \<open>The arithmetic of the window: pages, and where in them a byte lies.\<close>

lemma page_offset: "unat (a - ALIGN_DOWN a page_size) = unat a mod 2 ^ shift"
  using unat_and_pow2 [of a shift] ALIGN_DOWN_pow2 [of a shift] by (simp add: shift(2))

lemma pages_needed:
  assumes "unat off < 2 ^ shift" "unat sz + 2 * 2 ^ shift \<le> 4294967296"
  shows "unat (drop_bit shift (sz + off + page_size - 1)) = (unat sz + unat off + 2 ^ shift - 1) div 2 ^ shift"
proof -
  have S: "0 < (2 :: nat) ^ shift" by simp
  have "unat (sz + off) = unat sz + unat off" by (rule unat_add_lt32) (use assms in simp)
  moreover have "unat (sz + off + page_size) = unat (sz + off) + unat page_size"
    by (rule unat_add_lt32) (use assms calculation unat_page_size S in simp)
  ultimately have e: "unat (sz + off + page_size) = unat sz + unat off + 2 ^ shift" using unat_page_size by simp
  then have "sz + off + page_size \<noteq> 0" using S by (metis add_is_0 not_gr_zero unat_0)
  then have "unat (sz + off + page_size - 1) = unat sz + unat off + 2 ^ shift - 1" using e by (simp add: unat_pred)
  then show ?thesis by (simp only: unat_drop_bit_eq) (simp only: drop_bit_eq_div)
qed

lemma page_reached:
  assumes "i < n"
  shows "(b + i) div 2 ^ shift < (n + b + 2 ^ shift - 1) div (2 ^ shift :: nat)"
proof -
  have "b + i \<le> n + b - 1" using assms by simp
  then have "(b + i) div 2 ^ shift \<le> (n + b - 1) div (2 ^ shift)" by (rule div_le_mono)
  also have "\<dots> < (n + b - 1) div 2 ^ shift + 1" by simp
  also have "\<dots> = (n + b - 1 + 2 ^ shift) div 2 ^ shift" by (intro div_add_self2 [symmetric]) simp
  also have "n + b - 1 + 2 ^ shift = n + b + 2 ^ shift - 1" using assms by simp
  finally show ?thesis .
qed

lemma window_offset:
  assumes "(unat s + n) * 2 ^ shift \<le> 4294967296" "t < n * 2 ^ shift"
  shows "unat (s * page_size + of_nat t) = unat s * 2 ^ shift + t"
proof -
  have "s * page_size + of_nat t = of_nat (unat s * 2 ^ shift + t)" by (simp add: shift(2))
  moreover have "unat s * 2 ^ shift + t < 4294967296" using assms by (simp add: add_mult_distrib)
  ultimately show ?thesis by (simp only: unat_of_nat32)
qed

lemma first_page: "unat (drop_bit shift (ALIGN_DOWN a page_size)) = unat a div 2 ^ shift"
proof -
  have "unat (ALIGN_DOWN a page_size) = 2 ^ shift * (unat a div 2 ^ shift)"
    using unat_ALIGN_DOWN_pow2 [of a shift] by (simp add: shift(2) minus_mod_eq_mult_div)
  moreover have "unat (drop_bit shift (ALIGN_DOWN a page_size)) = unat (ALIGN_DOWN a page_size) div 2 ^ shift"
    by (simp only: unat_drop_bit_eq) (simp only: drop_bit_eq_div)
  ultimately show ?thesis by simp
qed

lemma byte_in_page:
  assumes "unat a + i < flash_pages * 2 ^ shift"
  defines "t \<equiv> unat a mod 2 ^ shift + i"
  shows "unat (drop_bit shift (ALIGN_DOWN a page_size) + of_nat (t div 2 ^ shift)) < flash_pages"
    "(drop_bit shift (ALIGN_DOWN a page_size) + of_nat (t div 2 ^ shift)) * page_size + of_nat (t mod 2 ^ shift) = a + of_nat i"
proof -
  have "unat a + i = t + unat a div 2 ^ shift * 2 ^ shift"
    using mod_div_mult_eq [of "unat a" "2 ^ shift"] unfolding t_def by linarith
  then have p: "unat a div 2 ^ shift + t div 2 ^ shift = (unat a + i) div 2 ^ shift" by simp
  have l: "(unat a + i) div 2 ^ shift < flash_pages" using assms(1) by (simp add: div_less_iff_less_mult)
  have "flash_pages \<le> flash_pages * 2 ^ shift" by simp
  then have ll: "(unat a + i) div 2 ^ shift < 4294967296"
    by (rule order.strict_trans2 [OF l order.trans [OF _ flash_pages]])
  have "t div 2 ^ shift \<le> (unat a + i) div 2 ^ shift" unfolding p [symmetric] by (rule le_add2)
  then have "t div 2 ^ shift < 4294967296" using ll by (rule le_less_trans)
  then have k: "unat (of_nat (t div 2 ^ shift) :: u32) = t div 2 ^ shift" by (rule unat_of_nat32)
  show "unat (drop_bit shift (ALIGN_DOWN a page_size) + of_nat (t div 2 ^ shift)) < flash_pages"
    using p by (subst unat_add_lt32) (use l ll in \<open>simp_all add: first_page k\<close>)
  have "of_nat (t div 2 ^ shift * 2 ^ shift + t mod 2 ^ shift) =
      of_nat (t div 2 ^ shift) * page_size + (of_nat (t mod 2 ^ shift) :: u32)"
    by (simp only: of_nat_add of_nat_mult of_nat_power of_nat_numeral shift(2))
  then have "of_nat (t div 2 ^ shift) * page_size + of_nat (t mod 2 ^ shift) = (of_nat t :: u32)"
    by (simp only: div_mult_mod_eq)
  moreover have "(of_nat t :: u32) = a - ALIGN_DOWN a page_size + of_nat i"
    by (simp add: t_def flip: page_offset)
  ultimately show "(drop_bit shift (ALIGN_DOWN a page_size) + of_nat (t div 2 ^ shift)) * page_size +
      of_nat (t mod 2 ^ shift) = a + of_nat i"
    by (simp add: distrib_right add.assoc page_aligned)
qed

text \<open>And, unless the page count wraps around, it returns the bytes of the flash.\<close>

lemma read_flash_data:
  assumes ok: "ok w" and wf: "wf_mmap w"
    and rd: "stub_lib_mmu_read_flash M C a sz w = ((STUB_LIB_OK, bs), w')"
    and nw: "unat sz + 2 * 2 ^ shift \<le> 4294967296"
    and fits: "unat a + unat sz \<le> flash_pages * 2 ^ shift"
  shows "bs = map (\<lambda>i. flash (a + of_nat i)) [0..<unat sz]"
proof -
  obtain v w1 where w1: "mmu_mmap M C a sz w = ((STUB_LIB_OK, v), w1)"
    and bs: "bs = fst (mem_load v (unat sz) w1)"
    using rd by (rule read_flashE)
  define off where "off = a - ALIGN_DOWN a page_size"
  let ?d0 = "tm_get_drom_entry_start M" and ?d1 = "tm_get_drom_entry_end M" and ?S = "(2 :: nat) ^ shift"
  let ?p = "drop_bit shift (ALIGN_DOWN a page_size)"
  obtain pages start where m: "pages = drop_bit shift (sz + off + page_size - 1)" "start = ?d1 - pages"
    "unat pages \<le> unat (?d1 - ?d0)" "v = drom_base + (start - ?d0) * page_size + off" "ok w1"
    "\<And>e. entry w1 e = (if unat (e - start) < unat pages then raw (?p + (e - start)) else entry w e)"
    using mmap_ok [OF ok wf w1, folded off_def] by metis
  note rng = map_range [OF m(3), folded m(2)]
  have off: "unat off = unat a mod ?S" unfolding off_def by (rule page_offset)
  then have pg: "unat pages = (unat sz + unat off + ?S - 1) div ?S" using pages_needed [OF _ nw, of off] by (simp add: m(1))
  have "bs ! i = flash (a + of_nat i)" if i: "i < unat sz" for i
  proof -
    let ?t = "unat off + i"
    let ?k = "?t div ?S"
    have k: "?k < unat pages" using page_reached [OF i, of "unat off"] pg by simp
    then have t: "?t < unat pages * ?S" by (simp add: div_less_iff_less_mult)
    have "v + of_nat i - drom_base = (start - ?d0) * page_size + of_nat ?t" by (simp add: m(4))
    then have u: "unat (v + of_nat i - drom_base) = unat (start - ?d0) * ?S + ?t"
      by (simp only:) (rule window_offset [OF _ t], use drom_size rng(2) in simp)
    have dv: "unat (v + of_nat i - drom_base) div ?S = unat (start - ?d0) + ?k"
      and md: "unat (v + of_nat i - drom_base) mod ?S = ?t mod ?S" by (simp_all add: u)
    have "unat (of_nat ?k :: u32) = ?k" by (rule unat_of_nat32) (use k unat_lt32 [of pages] in simp)
    then have e: "entry w1 (?d0 + of_nat (unat (start - ?d0) + ?k)) = raw (?p + of_nat ?k)" using k by (simp add: m(6))
    have "unat a + i < flash_pages * ?S" using fits i by simp
    note b = byte_in_page [OF this, folded off]
    have "bs ! i = flash ((?p + of_nat ?k) * page_size + of_nat (unat (v + of_nat i - drom_base) mod ?S))"
      using window [OF m(5) i, of v] rng(2) k e b(1) unfolding bs dv by simp
    then show ?thesis by (simp add: md b(2))
  qed
  then show ?thesis by (intro nth_equalityI) (simp_all add: bs load_length m(5))
qed

end

end
