(* ===== verification/S3_Mmu.thy ===== *)
theory S3_Mmu
  imports Mmu
begin

text \<open>
  The MMU of the ESP32-S3, \<open>src/target/esp32s3/src/mmu.c\<close>: a table of memory-mapped
  words. It meets the contract \<open>mmu_table\<close> when those words behave as memory and the data
  cache shows the flash through them.
\<close>

definition ESP32S3_STUB_MMU_DROM_ENTRY_START :: u32 where [regs]: "ESP32S3_STUB_MMU_DROM_ENTRY_START = 2"
definition ESP32S3_STUB_MMU_DROM_ENTRY_END :: u32 where [regs]: "ESP32S3_STUB_MMU_DROM_ENTRY_END = 256"

text \<open>\<open>MMU_TABLE[entry_id]\<close>\<close>

definition MMU_TABLE :: "u32 \<Rightarrow> u32" where
  "MMU_TABLE entry_id = DR_REG_MMU_TABLE + 4 * entry_id"

definition s3_mmu_get_drom_entry_start :: u32 where
  "s3_mmu_get_drom_entry_start = ESP32S3_STUB_MMU_DROM_ENTRY_START"

definition s3_mmu_get_drom_entry_end :: u32 where
  "s3_mmu_get_drom_entry_end = ESP32S3_STUB_MMU_DROM_ENTRY_END"

definition s3_mmu_get_drom_vaddr :: "'w \<Rightarrow> u32 \<times> 'w" where
  "s3_mmu_get_drom_vaddr w =
     (let (page_size, w) = stub_target_mmu_get_page_size w
      in (SOC_DROM_LOW + s3_mmu_get_drom_entry_start * page_size, w))"

definition s3_mmu_write_entry :: "u32 \<Rightarrow> u32 \<Rightarrow> 'a world_scheme \<Rightarrow> 'a world_scheme" where
  "s3_mmu_write_entry entry_id flash_page_num w = REG_WRITE (MMU_TABLE entry_id) flash_page_num w"

definition s3_mmu_read_entry :: "u32 \<Rightarrow> 'a world_scheme \<Rightarrow> u32 \<times> 'a world_scheme" where
  "s3_mmu_read_entry entry_id w = REG_READ (MMU_TABLE entry_id) w"

definition s3_mmu_set_entry_invalid :: "u32 \<Rightarrow> 'a world_scheme \<Rightarrow> 'a world_scheme" where
  "s3_mmu_set_entry_invalid entry_id w = REG_WRITE (MMU_TABLE entry_id) SOC_MMU_INVALID w"

definition s3_mmu_restore_entry :: "u32 \<Rightarrow> u32 \<Rightarrow> 'a world_scheme \<Rightarrow> 'a world_scheme" where
  "s3_mmu_restore_entry entry_id raw_value w = REG_WRITE (MMU_TABLE entry_id) raw_value w"

definition s3_mmu_target :: "'a world_scheme mmu_target" where
  "s3_mmu_target =
     \<lparr>tm_get_page_size = stub_target_mmu_get_page_size, tm_get_drom_vaddr = s3_mmu_get_drom_vaddr,
      tm_get_drom_entry_start = s3_mmu_get_drom_entry_start,
      tm_get_drom_entry_end = s3_mmu_get_drom_entry_end,
      tm_write_entry = s3_mmu_write_entry, tm_read_entry = s3_mmu_read_entry,
      tm_set_entry_invalid = s3_mmu_set_entry_invalid, tm_restore_entry = s3_mmu_restore_entry,
      tm_has_valid_entry = stub_target_mmu_has_valid_entry\<rparr>"

lemma s3_mmu_link [simp]:
  "tm_get_page_size s3_mmu_target = stub_target_mmu_get_page_size"
  "tm_get_drom_vaddr s3_mmu_target = s3_mmu_get_drom_vaddr"
  "tm_get_drom_entry_start s3_mmu_target = 2" "tm_get_drom_entry_end s3_mmu_target = 256"
  "tm_write_entry s3_mmu_target = s3_mmu_write_entry" "tm_read_entry s3_mmu_target = s3_mmu_read_entry"
  "tm_restore_entry s3_mmu_target = s3_mmu_restore_entry"
  by (simp_all add: s3_mmu_target_def s3_mmu_get_drom_entry_start_def s3_mmu_get_drom_entry_end_def regs)

section \<open>The table and the window\<close>

definition mmu_cell :: "u32 \<Rightarrow> cell" where
  "mmu_cell e = Mmio (MMU_TABLE e)"

definition s3_entry_ok :: "u32 \<Rightarrow> bool" where
  "s3_entry_ok e \<longleftrightarrow> e < 512"

definition s3_entries :: "'a world_scheme \<Rightarrow> u32 \<Rightarrow> u32" where
  "s3_entries w e = (if s3_entry_ok e then peek (mmu_cell e) w else 0)"

definition s3_window :: u32 where
  "s3_window = SOC_DROM_LOW + 2 * 0x10000"

text \<open>
  The byte at window offset x is the byte of the flash page its entry names; entries from
  \<open>0x4000\<close> on (invalid, or external RAM) show no flash.
\<close>

definition window_shows :: "(u32 \<Rightarrow> u8) \<Rightarrow> 'a world_scheme \<Rightarrow> bool" where
  "window_shows flash w \<longleftrightarrow> (\<forall>es a n. length (mem_dev w es a n) = n \<and>
     (\<forall>i x p. i < n \<and> x = unat (a + of_nat i - s3_window) \<and> x div 2 ^ 16 < 254 \<and>
        p = rd_dev w es (mmu_cell (2 + of_nat (x div 2 ^ 16))) \<and> unat p < 0x4000 \<longrightarrow>
        mem_dev w es a n ! i = flash (p * 0x10000 + of_nat (x mod 2 ^ 16))))"

definition s3_mmu_ok :: "(u32 \<Rightarrow> u8) \<Rightarrow> 'a world_scheme \<Rightarrow> bool" where
  "s3_mmu_ok flash w \<longleftrightarrow> (\<forall>e. s3_entry_ok e \<longrightarrow> plain w (mmu_cell e)) \<and> window_shows flash w"

lemma mmu_cell_inj: "s3_entry_ok e \<Longrightarrow> s3_entry_ok f \<Longrightarrow> mmu_cell e = mmu_cell f \<longleftrightarrow> e = f"
proof -
  assume ok: "s3_entry_ok e" "s3_entry_ok f"
  then have "unat (4 * e) = 4 * unat e" "unat (4 * f) = 4 * unat f"
    by (simp_all add: s3_entry_ok_def word_less_nat_alt unat_word_ariths)
  then have "4 * e = 4 * f \<longleftrightarrow> e = f" by (metis mult_left_cancel word_unat_eq_iff zero_neq_numeral)
  then show ?thesis by (simp add: mmu_cell_def MMU_TABLE_def)
qed

lemma s3_mmu_ok_after [simp]: "s3_mmu_ok flash (after w es) = s3_mmu_ok flash w"
  by (simp add: s3_mmu_ok_def window_shows_def)

lemma s3_entries_after:
  assumes "s3_mmu_ok flash w" "\<And>e. s3_entry_ok e \<Longrightarrow> list_all (keeps (mmu_cell e)) es"
  shows "s3_entries (after w es) = s3_entries w"
  using assms by (auto simp: s3_entries_def s3_mmu_ok_def fun_eq_iff intro!: peek_keeps)

lemma s3_entries_write:
  assumes "s3_mmu_ok flash w" "s3_entry_ok e"
  shows "s3_entries (after w [Wr (mmu_cell e) v]) = (s3_entries w)(e := v)"
proof
  fix f
  show "s3_entries (after w [Wr (mmu_cell e) v]) f = ((s3_entries w)(e := v)) f"
    using assms peek_keeps [of w "mmu_cell f" "[Wr (mmu_cell e) v]"] peek_written [of w "mmu_cell e" "[]" "[]" v]
      mmu_cell_inj [of e f]
    by (cases "e = f") (auto simp: s3_entries_def s3_mmu_ok_def)
qed

lemma s_mmap_state_after [simp]: "s_mmap_state (after w es) = s_mmap_state w"
  by (simp add: after_def)

lemma s_mmap_update [simp]:
  "s3_mmu_ok flash (w\<lparr>s_mmap_state := s\<rparr>) = s3_mmu_ok flash w"
  "s3_entries (w\<lparr>s_mmap_state := s\<rparr>) = s3_entries w"
  by (simp_all add: s3_mmu_ok_def window_shows_def plain_def s3_entries_def fun_eq_iff peek_def)

lemma s3_entries_window:
  assumes "k < 254"
  shows "s3_entries w (2 + of_nat k) = rd_dev w (trace w) (mmu_cell (2 + of_nat k))"
proof -
  have "unat (of_nat k :: u32) = k" using assms by (simp add: unat_of_nat32)
  moreover have "unat (2 + of_nat k :: u32) = unat (2 :: u32) + unat (of_nat k :: u32)"
    by (rule unat_add_lt32) (use assms calculation in simp)
  ultimately show ?thesis using assms by (simp add: s3_entries_def s3_entry_ok_def word_less_nat_alt peek_def)
qed

interpretation s3_mmu: mmu_table s3_mmu_target s3_cache_target "s3_mmu_ok flash" s3_entries "\<lambda>p. p"
    "0x10000" s3_window 16 s3_entry_ok flash "0x4000" for flash
proof (unfold_locales, goal_cases)
  case (1 w p w')
  then show ?case by (simp add: stub_target_mmu_get_page_size_def regs)
next
  case (2 w v w')
  then show ?case
    by (auto simp: s3_mmu_get_drom_vaddr_def stub_target_mmu_get_page_size_def s3_window_def
        s3_mmu_get_drom_entry_start_def regs)
next
  case (3 w e v w')
  then show ?case
    by (auto simp: s3_mmu_read_entry_def REG_READ_eq s3_entries_after mmu_cell_def [symmetric] s3_entries_def [of w e])
next
  case (4 w e p)
  then show ?case
    by (simp add: s3_mmu_write_entry_def REG_WRITE_eq mmu_cell_def [symmetric] s3_entries_write)
next
  case (5 w e v)
  then show ?case
    by (simp add: s3_mmu_restore_entry_def REG_WRITE_eq mmu_cell_def [symmetric] s3_entries_write)
next
  case (6 w a n)
  then show ?case by (auto simp: mem_eq s3_entries_after)
next
  case (7 w s)
  then show ?case by simp
next
  case (8 w)
  then show ?case by (auto simp: s3_cache_defs prim_eq Let_def s3_entries_after)
next
  case (9 w)
  then show ?case by (auto simp: s3_cache_defs prim_eq Let_def s3_entries_after)
next
  case (10 w v k)
  then show ?case
    by (auto simp: mmu_invalidate_region_def stub_lib_cache_get_caps_def s3_cache_get_caps_def s3_cache_defs
        prim_eq regs s3_entries_after)
next
  case (11 e)
  then show ?case by (auto simp: s3_entry_ok_def word_less_nat_alt)
next
  case (18 w i n a p)
  then show ?case
    by (auto simp: s3_mmu_ok_def window_shows_def mem_eq s3_entries_window)
next
  case (20 w a n)
  then show ?case by (simp add: s3_mmu_ok_def window_shows_def mem_eq)
qed (simp_all add: mmu_page_shift_def regs)


section \<open>Reading flash through the cache\<close>

text \<open>What is refused: nothing to read, or a range that spans more than eight pages.\<close>

definition pages_spanned :: "u32 \<Rightarrow> u32 \<Rightarrow> nat" where
  "pages_spanned a sz = (unat a mod 0x10000 + unat sz + 0xFFFF) div 0x10000"

lemma power_numeral_65536: "(2 :: nat) ^ 16 = 0x10000"
  by simp

lemma mmu_read_flash_rc:
  assumes "sz \<le> 0xFFFE0000"
  shows "fst (fst (stub_lib_mmu_read_flash s3_mmu_target s3_cache_target a sz w)) =
      (if sz = 0 \<or> pages_spanned a sz > 8 then STUB_LIB_ERR_INVALID_ARG else STUB_LIB_OK) \<and>
    (sz = 0 \<or> pages_spanned a sz > 8 \<longrightarrow>
      snd (stub_lib_mmu_read_flash s3_mmu_target s3_cache_target a sz w) = w)"
proof -
  define off where "off = a - ALIGN_DOWN a 0x10000"
  have off: "unat off = unat a mod 0x10000"
    using unat_and_pow2 [of a 16] ALIGN_DOWN_pow2 [of a 16] by (simp add: off_def)
  have sz: "unat sz \<le> 0xFFFE0000" using assms by (simp add: word_le_nat_alt)
  have o: "unat off < 0x10000" using off by simp
  have "unat (0xFFFFFFFF - off) = 4294967295 - unat off"
    using o by (subst unat_diff) (simp_all add: word_le_nat_alt)
  then have c1: "\<not> sz > 0xFFFFFFFF - off" using o sz by (simp add: word_less_nat_alt)
  have u1: "unat (sz + off) = unat sz + unat off" by (rule unat_add_lt32) (use sz o in simp)
  have "unat (sz + off + 0xFFFF) = unat (sz + off) + unat (0xFFFF :: u32)"
    by (rule unat_add_lt32) (use sz o u1 in simp)
  moreover have "sz + off + 0x10000 - 1 = sz + off + 0xFFFF" by simp
  ultimately have "unat (drop_bit 16 (sz + off + 0x10000 - 1)) = drop_bit 16 (unat sz + unat off + 0xFFFF)"
    using u1 by (simp only: unat_drop_bit_eq) simp
  then have pg: "unat (drop_bit 16 (sz + off + 0x10000 - 1)) = pages_spanned a sz"
    unfolding pages_spanned_def off drop_bit_nat_def by (simp only: add.commute add.left_commute)  (simp only: power_numeral_65536)
  have ps: "mmu_page_shift STUB_MMU_PAGE_SIZE_64KB = 16" by (simp add: mmu_page_shift_def regs)
  define start where "start = 256 - drop_bit 16 (sz + off + 0x10000 - 1)"
  have mm: "mmu_mmap s3_mmu_target s3_cache_target a sz w =
    (if sz = 0 \<or> pages_spanned a sz > 8 then ((STUB_LIB_ERR_INVALID_ARG, 0), w)
     else ((STUB_LIB_OK, s3_window + (start - 2) * 0x10000 + off),
       mmap_program s3_mmu_target s3_cache_target 0x10000 start (s3_window + (start - 2) * 0x10000)
         (drop_bit 16 (ALIGN_DOWN a 0x10000)) (drop_bit 16 (sz + off + 0x10000 - 1)) w))"
  proof (cases "sz = 0 \<or> pages_spanned a sz > 8")
    case True
    then show ?thesis
      using c1 [unfolded off_def] pg [unfolded off_def] ps
      by (auto simp: mmu_mmap_def stub_target_mmu_get_page_size_def Let_def
          STUB_MMU_PAGE_SIZE_64KB_def STUB_MMAP_MAX_PAGES_def word_less_nat_alt)
  next
    case False
    then have "sz \<noteq> 0" "\<not> drop_bit 16 (sz + off + 0x10000 - 1) > 8" "\<not> drop_bit 16 (sz + off + 0x10000 - 1) > 254"
      using pg by (simp_all add: word_less_nat_alt)
    then show ?thesis
      using c1 False ps
      by (simp add: mmu_mmap_def stub_target_mmu_get_page_size_def s3_mmu_get_drom_vaddr_def Let_def off_def [symmetric]
          start_def algebra_simps STUB_MMU_PAGE_SIZE_64KB_def STUB_MMAP_MAX_PAGES_def s3_window_def
          s3_mmu_get_drom_entry_start_def ESP32S3_STUB_MMU_DROM_ENTRY_START_def)
  qed
  show ?thesis
    by (cases "sz = 0 \<or> pages_spanned a sz > 8") (simp_all add: stub_lib_mmu_read_flash_def mm rcs split_beta)
qed

text \<open>
  Reading flash through the cache window returns the bytes of the flash at the address,
  for any size that does not wrap and any offset in a page, and leaves every entry of the
  MMU table as it found it and nothing mapped.
\<close>

lemma mmu_read_flash_reads:
  assumes "s3_mmu_ok flash w" "wf_mmap w"
    and "stub_lib_mmu_read_flash s3_mmu_target s3_cache_target a sz w = ((STUB_LIB_OK, bs), w')"
    and "sz \<le> 0xFFFE0000" "unat a + unat sz \<le> 0x40000000"
  shows "bs = map (\<lambda>i. flash (a + of_nat i)) [0..<unat sz] \<and> s3_entries w' = s3_entries w \<and>
    page_count (s_mmap_state w') = 0"
proof -
  have "unat sz + 2 * 2 ^ 16 \<le> 4294967296" using assms(4) by (simp add: word_le_nat_alt)
  moreover have "unat a + unat sz \<le> 0x4000 * 2 ^ 16" using assms(5) by simp
  ultimately show ?thesis
    using s3_mmu.read_flash_data [OF assms(1-3)] s3_mmu.read_flash_restores [OF assms(1-3)] by blast
qed

text \<open>A register file with a window, for concrete runs.\<close>

definition window_world :: mmap_world where
  "window_world =
     \<lparr>rd_dev = regfile 0x4000, rom_dev = \<lambda>_ _ _ _. (0, []),
      mem_dev = \<lambda>es a n. map (\<lambda>i. let x = unat (a + of_nat i - s3_window)
        in ucast (regfile 0x4000 es (mmu_cell (2 + of_nat (x div 2 ^ 16))) * 0x10000 + of_nat (x mod 2 ^ 16))) [0..<n],
      sym_addr = \<lambda>_. 0, trace = [],
      large_flash_mode = False,
      s_mmap_state = \<lparr>vaddr_base = 0, entry_start = 0, page_count = 0, saved_entries = replicate 8 0\<rparr>\<rparr>"

lemma window_world_ok: "s3_mmu_ok (\<lambda>x. ucast x) window_world" "wf_mmap window_world"
proof -
  have "plain window_world c" for c by (rule regfile_plain [of _ "0x4000"]) (simp add: window_world_def)
  then show "s3_mmu_ok (\<lambda>x. ucast x) window_world"
    by (auto simp: s3_mmu_ok_def window_shows_def window_world_def Let_def)
  show "wf_mmap window_world" by (simp add: wf_mmap_def window_world_def regs)
qed

lemma mmu_read_flash_reads_witness:
  "\<exists>bs w'. stub_lib_mmu_read_flash s3_mmu_target s3_cache_target 0x1FFFE 4 window_world = ((STUB_LIB_OK, bs), w') \<and>
     bs = map (\<lambda>i. ucast (0x1FFFE + of_nat i :: u32)) [0..<4] \<and> s3_entries w' = s3_entries window_world"
proof -
  have "fst (fst (stub_lib_mmu_read_flash s3_mmu_target s3_cache_target 0x1FFFE 4 window_world)) = STUB_LIB_OK"
    using mmu_read_flash_rc [of 4 "0x1FFFE" window_world] by (simp add: pages_spanned_def)
  then obtain bs w' where r: "stub_lib_mmu_read_flash s3_mmu_target s3_cache_target 0x1FFFE 4 window_world = ((STUB_LIB_OK, bs), w')"
    by (metis prod.collapse)
  from mmu_read_flash_reads [OF window_world_ok r] r show ?thesis by simp
qed

text \<open>
  A read of nothing or of a range that spans more than eight pages is refused as an
  invalid argument without touching anything; any other read succeeds.
\<close>

lemma mmu_read_flash_refuses:
  assumes "sz \<le> 0xFFFE0000"
  shows "fst (fst (stub_lib_mmu_read_flash s3_mmu_target s3_cache_target a sz w)) =
      (if sz = 0 \<or> pages_spanned a sz > 8 then STUB_LIB_ERR_INVALID_ARG else STUB_LIB_OK) \<and>
    (sz = 0 \<or> pages_spanned a sz > 8 \<longrightarrow>
      snd (stub_lib_mmu_read_flash s3_mmu_target s3_cache_target a sz w) = w)"
  using assms by (rule mmu_read_flash_rc)

lemma mmu_read_flash_refuses_witness:
  "fst (fst (stub_lib_mmu_read_flash s3_mmu_target s3_cache_target 0xFFFF 0x70002 window_world)) =
     STUB_LIB_ERR_INVALID_ARG"
  using mmu_read_flash_refuses [of "0x70002" "0xFFFF" window_world] by (simp add: pages_spanned_def)

end
