(* ===== verification/Chip_Regs.thy ===== *)
theory Chip_Regs
  imports Prelude
begin

text \<open>
  Constants of the chips other than the ESP32-S3: register addresses, bit masks and the
  layout of the MMU, each under its C name with the chip in front and with the value the
  chip's headers under \<open>src/target/CHIP/include/soc\<close> give it. A macro with a controller index
  has the value at index 0.
\<close>

section \<open>ESP32C6\<close>

definition c6_SPI_MEM_MMU_POWER_CTRL_REG :: u32 where [regs]: "c6_SPI_MEM_MMU_POWER_CTRL_REG = 0x60002384"
definition c6_SPI_MEM_MMU_ITEM_INDEX_REG :: u32 where [regs]: "c6_SPI_MEM_MMU_ITEM_INDEX_REG = 0x60002380"
definition c6_SPI_MEM_MMU_ITEM_CONTENT_REG :: u32 where [regs]: "c6_SPI_MEM_MMU_ITEM_CONTENT_REG = 0x6000237c"
definition c6_SPI_MEM_MMU_PAGE_SIZE_V :: u32 where [regs]: "c6_SPI_MEM_MMU_PAGE_SIZE_V = 0x3"
definition c6_SPI_MEM_MMU_PAGE_SIZE_S :: nat where [regs]: "c6_SPI_MEM_MMU_PAGE_SIZE_S = 3"
definition c6_SOC_DROM_LOW :: u32 where [regs]: "c6_SOC_DROM_LOW = 0x42000000"
definition c6_SOC_MMU_ENTRY_NUM :: u32 where [regs]: "c6_SOC_MMU_ENTRY_NUM = 0x100"
definition c6_SOC_MMU_VALID :: u32 where [regs]: "c6_SOC_MMU_VALID = 0x200"
definition c6_SOC_MMU_SENSITIVE :: u32 where [regs]: "c6_SOC_MMU_SENSITIVE = 0x400"
definition c6_SOC_MMU_INVALID :: u32 where [regs]: "c6_SOC_MMU_INVALID = 0x0"
definition c6_EXTMEM_L1_CACHE_CTRL_REG :: u32 where [regs]: "c6_EXTMEM_L1_CACHE_CTRL_REG = 0x600c8004"
definition c6_EXTMEM_L1_CACHE_SHUT_DBUS :: u32 where [regs]: "c6_EXTMEM_L1_CACHE_SHUT_DBUS = 0x2"
definition c6_EXTMEM_L1_CACHE_SHUT_IBUS :: u32 where [regs]: "c6_EXTMEM_L1_CACHE_SHUT_IBUS = 0x1"

section \<open>ESP32H2\<close>

definition h2_SPI_MEM_MMU_POWER_CTRL_REG :: u32 where [regs]: "h2_SPI_MEM_MMU_POWER_CTRL_REG = 0x60002384"
definition h2_SPI_MEM_MMU_ITEM_INDEX_REG :: u32 where [regs]: "h2_SPI_MEM_MMU_ITEM_INDEX_REG = 0x60002380"
definition h2_SPI_MEM_MMU_ITEM_CONTENT_REG :: u32 where [regs]: "h2_SPI_MEM_MMU_ITEM_CONTENT_REG = 0x6000237c"
definition h2_SPI_MEM_MMU_PAGE_SIZE_V :: u32 where [regs]: "h2_SPI_MEM_MMU_PAGE_SIZE_V = 0x3"
definition h2_SPI_MEM_MMU_PAGE_SIZE_S :: nat where [regs]: "h2_SPI_MEM_MMU_PAGE_SIZE_S = 3"
definition h2_SOC_DROM_LOW :: u32 where [regs]: "h2_SOC_DROM_LOW = 0x42000000"
definition h2_SOC_MMU_ENTRY_NUM :: u32 where [regs]: "h2_SOC_MMU_ENTRY_NUM = 0x100"
definition h2_SOC_MMU_VALID :: u32 where [regs]: "h2_SOC_MMU_VALID = 0x200"
definition h2_SOC_MMU_SENSITIVE :: u32 where [regs]: "h2_SOC_MMU_SENSITIVE = 0x400"
definition h2_SOC_MMU_INVALID :: u32 where [regs]: "h2_SOC_MMU_INVALID = 0x0"
definition h2_EXTMEM_L1_CACHE_CTRL_REG :: u32 where [regs]: "h2_EXTMEM_L1_CACHE_CTRL_REG = 0x600c8004"
definition h2_EXTMEM_L1_CACHE_SHUT_DBUS :: u32 where [regs]: "h2_EXTMEM_L1_CACHE_SHUT_DBUS = 0x2"
definition h2_EXTMEM_L1_CACHE_SHUT_IBUS :: u32 where [regs]: "h2_EXTMEM_L1_CACHE_SHUT_IBUS = 0x1"

section \<open>ESP32H21\<close>

definition h21_SPI_MEM_MMU_POWER_CTRL_REG :: u32 where [regs]: "h21_SPI_MEM_MMU_POWER_CTRL_REG = 0x60002384"
definition h21_SPI_MEM_MMU_ITEM_INDEX_REG :: u32 where [regs]: "h21_SPI_MEM_MMU_ITEM_INDEX_REG = 0x60002380"
definition h21_SPI_MEM_MMU_ITEM_CONTENT_REG :: u32 where [regs]: "h21_SPI_MEM_MMU_ITEM_CONTENT_REG = 0x6000237c"
definition h21_SPI_MEM_MMU_PAGE_SIZE_V :: u32 where [regs]: "h21_SPI_MEM_MMU_PAGE_SIZE_V = 0x3"
definition h21_SPI_MEM_MMU_PAGE_SIZE_S :: nat where [regs]: "h21_SPI_MEM_MMU_PAGE_SIZE_S = 3"
definition h21_SOC_DROM_LOW :: u32 where [regs]: "h21_SOC_DROM_LOW = 0x42000000"
definition h21_SOC_MMU_ENTRY_NUM :: u32 where [regs]: "h21_SOC_MMU_ENTRY_NUM = 0x100"
definition h21_SOC_MMU_VALID :: u32 where [regs]: "h21_SOC_MMU_VALID = 0x200"
definition h21_SOC_MMU_SENSITIVE :: u32 where [regs]: "h21_SOC_MMU_SENSITIVE = 0x400"
definition h21_SOC_MMU_INVALID :: u32 where [regs]: "h21_SOC_MMU_INVALID = 0x0"
definition h21_CACHE_L1_CACHE_CTRL_REG :: u32 where [regs]: "h21_CACHE_L1_CACHE_CTRL_REG = 0x600c8004"
definition h21_CACHE_L1_CACHE_SHUT_BUS0 :: u32 where [regs]: "h21_CACHE_L1_CACHE_SHUT_BUS0 = 0x1"
definition h21_CACHE_L1_CACHE_SHUT_BUS1 :: u32 where [regs]: "h21_CACHE_L1_CACHE_SHUT_BUS1 = 0x2"

section \<open>ESP32H4\<close>

definition h4_SPI_MEM_MMU_POWER_CTRL_REG :: u32 where [regs]: "h4_SPI_MEM_MMU_POWER_CTRL_REG = 0x60098384"
definition h4_SPI_MEM_MMU_ITEM_INDEX_REG :: u32 where [regs]: "h4_SPI_MEM_MMU_ITEM_INDEX_REG = 0x60098380"
definition h4_SPI_MEM_MMU_ITEM_CONTENT_REG :: u32 where [regs]: "h4_SPI_MEM_MMU_ITEM_CONTENT_REG = 0x6009837c"
definition h4_SPI_MMU_PAGE_SIZE_V :: u32 where [regs]: "h4_SPI_MMU_PAGE_SIZE_V = 0x3"
definition h4_SPI_MMU_PAGE_SIZE_S :: nat where [regs]: "h4_SPI_MMU_PAGE_SIZE_S = 3"
definition h4_SOC_DROM_LOW :: u32 where [regs]: "h4_SOC_DROM_LOW = 0x42000000"
definition h4_SOC_MMU_ENTRY_NUM :: u32 where [regs]: "h4_SOC_MMU_ENTRY_NUM = 0x200"
definition h4_SOC_MMU_VALID :: u32 where [regs]: "h4_SOC_MMU_VALID = 0x400"
definition h4_SOC_MMU_SENSITIVE :: u32 where [regs]: "h4_SOC_MMU_SENSITIVE = 0x800"
definition h4_SOC_MMU_INVALID :: u32 where [regs]: "h4_SOC_MMU_INVALID = 0x0"
definition h4_CACHE_L1_ICACHE_CTRL_REG :: u32 where [regs]: "h4_CACHE_L1_ICACHE_CTRL_REG = 0x60008000"
definition h4_CACHE_L1_ICACHE_SHUT_IBUS0 :: u32 where [regs]: "h4_CACHE_L1_ICACHE_SHUT_IBUS0 = 0x1"
definition h4_CACHE_L1_ICACHE_SHUT_IBUS1 :: u32 where [regs]: "h4_CACHE_L1_ICACHE_SHUT_IBUS1 = 0x2"
definition h4_CACHE_L1_DCACHE_CTRL_REG :: u32 where [regs]: "h4_CACHE_L1_DCACHE_CTRL_REG = 0x60008004"
definition h4_CACHE_L1_DCACHE_SHUT_DBUS0 :: u32 where [regs]: "h4_CACHE_L1_DCACHE_SHUT_DBUS0 = 0x1"
definition h4_CACHE_L1_DCACHE_SHUT_DBUS1 :: u32 where [regs]: "h4_CACHE_L1_DCACHE_SHUT_DBUS1 = 0x2"
definition h4_SOC_MMU_ACCESS_FLASH :: u32 where [regs]: "h4_SOC_MMU_ACCESS_FLASH = 0x0"
definition h4_SOC_MMU_ACCESS_PSRAM :: u32 where [regs]: "h4_SOC_MMU_ACCESS_PSRAM = 0x200"
definition h4_LP_AON_SRAM_USAGE_CONF_REG :: u32 where [regs]: "h4_LP_AON_SRAM_USAGE_CONF_REG = 0x600b2898"
definition h4_LP_AON_DCACHE_USAGE :: u32 where [regs]: "h4_LP_AON_DCACHE_USAGE = 0x1"
definition h4_LP_AON_ICACHE1_USAGE :: u32 where [regs]: "h4_LP_AON_ICACHE1_USAGE = 0x2"

section \<open>ESP32C61\<close>

definition c61_SPI_MEM_MMU_POWER_CTRL_REG :: u32 where [regs]: "c61_SPI_MEM_MMU_POWER_CTRL_REG = 0x60002384"
definition c61_SPI_MEM_MMU_ITEM_INDEX_REG :: u32 where [regs]: "c61_SPI_MEM_MMU_ITEM_INDEX_REG = 0x60002380"
definition c61_SPI_MEM_MMU_ITEM_CONTENT_REG :: u32 where [regs]: "c61_SPI_MEM_MMU_ITEM_CONTENT_REG = 0x6000237c"
definition c61_SPI_MMU_PAGE_SIZE_V :: u32 where [regs]: "c61_SPI_MMU_PAGE_SIZE_V = 0x3"
definition c61_SPI_MMU_PAGE_SIZE_S :: nat where [regs]: "c61_SPI_MMU_PAGE_SIZE_S = 3"
definition c61_SOC_DROM_LOW :: u32 where [regs]: "c61_SOC_DROM_LOW = 0x42000000"
definition c61_SOC_MMU_ENTRY_NUM :: u32 where [regs]: "c61_SOC_MMU_ENTRY_NUM = 0x200"
definition c61_SOC_MMU_VALID :: u32 where [regs]: "c61_SOC_MMU_VALID = 0x400"
definition c61_SOC_MMU_SENSITIVE :: u32 where [regs]: "c61_SOC_MMU_SENSITIVE = 0x800"
definition c61_SOC_MMU_INVALID :: u32 where [regs]: "c61_SOC_MMU_INVALID = 0x0"
definition c61_CACHE_L1_CACHE_CTRL_REG :: u32 where [regs]: "c61_CACHE_L1_CACHE_CTRL_REG = 0x600c8004"
definition c61_CACHE_L1_CACHE_SHUT_BUS0 :: u32 where [regs]: "c61_CACHE_L1_CACHE_SHUT_BUS0 = 0x1"
definition c61_CACHE_L1_CACHE_SHUT_BUS1 :: u32 where [regs]: "c61_CACHE_L1_CACHE_SHUT_BUS1 = 0x2"

section \<open>ESP32C5\<close>

definition c5_SPI_MEM_MMU_ITEM_INDEX_REG :: u32 where [regs]: "c5_SPI_MEM_MMU_ITEM_INDEX_REG = 0x60002380"
definition c5_SPI_MEM_MMU_ITEM_CONTENT_REG :: u32 where [regs]: "c5_SPI_MEM_MMU_ITEM_CONTENT_REG = 0x6000237c"
definition c5_SOC_DROM_LOW :: u32 where [regs]: "c5_SOC_DROM_LOW = 0x42000000"
definition c5_SOC_MMU_ENTRY_NUM :: u32 where [regs]: "c5_SOC_MMU_ENTRY_NUM = 0x200"
definition c5_SOC_MMU_VALID :: u32 where [regs]: "c5_SOC_MMU_VALID = 0x400"
definition c5_SOC_MMU_SENSITIVE :: u32 where [regs]: "c5_SOC_MMU_SENSITIVE = 0x800"
definition c5_SOC_MMU_INVALID :: u32 where [regs]: "c5_SOC_MMU_INVALID = 0x0"
definition c5_CACHE_L1_CACHE_CTRL_REG :: u32 where [regs]: "c5_CACHE_L1_CACHE_CTRL_REG = 0x600c8004"
definition c5_CACHE_L1_CACHE_SHUT_BUS0 :: u32 where [regs]: "c5_CACHE_L1_CACHE_SHUT_BUS0 = 0x1"
definition c5_CACHE_L1_CACHE_SHUT_BUS1 :: u32 where [regs]: "c5_CACHE_L1_CACHE_SHUT_BUS1 = 0x2"

section \<open>ESP32P4\<close>

definition p4_SPI_MEM_C_MMU_ITEM_INDEX_REG :: u32 where [regs]: "p4_SPI_MEM_C_MMU_ITEM_INDEX_REG = 0x5008c380"
definition p4_SPI_MEM_C_MMU_ITEM_CONTENT_REG :: u32 where [regs]: "p4_SPI_MEM_C_MMU_ITEM_CONTENT_REG = 0x5008c37c"
definition p4_SOC_DROM_LOW :: u32 where [regs]: "p4_SOC_DROM_LOW = 0x40000000"
definition p4_SOC_MMU_ENTRY_NUM :: u32 where [regs]: "p4_SOC_MMU_ENTRY_NUM = 0x400"
definition p4_SOC_MMU_FLASH_VALID :: u32 where [regs]: "p4_SOC_MMU_FLASH_VALID = 0x1000"
definition p4_SOC_MMU_FLASH_SENSITIVE :: u32 where [regs]: "p4_SOC_MMU_FLASH_SENSITIVE = 0x2000"
definition p4_SOC_MMU_FLASH_INVALID :: u32 where [regs]: "p4_SOC_MMU_FLASH_INVALID = 0x0"
definition p4_SOC_MMU_ACCESS_FLASH :: u32 where [regs]: "p4_SOC_MMU_ACCESS_FLASH = 0x0"
definition p4_CACHE_L1_ICACHE_CTRL_REG :: u32 where [regs]: "p4_CACHE_L1_ICACHE_CTRL_REG = 0x3ff10000"
definition p4_CACHE_L1_ICACHE_SHUT_IBUS0 :: u32 where [regs]: "p4_CACHE_L1_ICACHE_SHUT_IBUS0 = 0x1"
definition p4_CACHE_L1_ICACHE_SHUT_IBUS1 :: u32 where [regs]: "p4_CACHE_L1_ICACHE_SHUT_IBUS1 = 0x2"
definition p4_CACHE_L1_DCACHE_CTRL_REG :: u32 where [regs]: "p4_CACHE_L1_DCACHE_CTRL_REG = 0x3ff10004"
definition p4_CACHE_L1_DCACHE_SHUT_DBUS0 :: u32 where [regs]: "p4_CACHE_L1_DCACHE_SHUT_DBUS0 = 0x1"
definition p4_CACHE_L1_DCACHE_SHUT_DBUS1 :: u32 where [regs]: "p4_CACHE_L1_DCACHE_SHUT_DBUS1 = 0x2"

section \<open>ESP32S31\<close>

definition s31_SPI_MEM_C_MMU_POWER_CTRL_REG :: u32 where [regs]: "s31_SPI_MEM_C_MMU_POWER_CTRL_REG = 0x20500384"
definition s31_SPI_MMU_PAGE_SIZE_V :: u32 where [regs]: "s31_SPI_MMU_PAGE_SIZE_V = 0x3"
definition s31_SPI_MMU_PAGE_SIZE_S :: nat where [regs]: "s31_SPI_MMU_PAGE_SIZE_S = 3"
definition s31_SPI_MEM_C_MMU_ITEM_INDEX_REG :: u32 where [regs]: "s31_SPI_MEM_C_MMU_ITEM_INDEX_REG = 0x20500380"
definition s31_SPI_MEM_C_MMU_ITEM_CONTENT_REG :: u32 where [regs]: "s31_SPI_MEM_C_MMU_ITEM_CONTENT_REG = 0x2050037c"
definition s31_SOC_DROM_LOW :: u32 where [regs]: "s31_SOC_DROM_LOW = 0x40000000"
definition s31_SOC_MMU_ENTRY_NUM :: u32 where [regs]: "s31_SOC_MMU_ENTRY_NUM = 0x400"
definition s31_SOC_MMU_FLASH_VALID :: u32 where [regs]: "s31_SOC_MMU_FLASH_VALID = 0x1000"
definition s31_SOC_MMU_FLASH_SENSITIVE :: u32 where [regs]: "s31_SOC_MMU_FLASH_SENSITIVE = 0x2000"
definition s31_SOC_MMU_FLASH_INVALID :: u32 where [regs]: "s31_SOC_MMU_FLASH_INVALID = 0x0"
definition s31_SOC_MMU_ACCESS_FLASH :: u32 where [regs]: "s31_SOC_MMU_ACCESS_FLASH = 0x0"
definition s31_SOC_MMU_ACCESS_PSRAM :: u32 where [regs]: "s31_SOC_MMU_ACCESS_PSRAM = 0x400"
definition s31_CACHE_L1_ICACHE_CTRL_REG :: u32 where [regs]: "s31_CACHE_L1_ICACHE_CTRL_REG = 0x2c000000"
definition s31_CACHE_L1_ICACHE_SHUT_IBUS0 :: u32 where [regs]: "s31_CACHE_L1_ICACHE_SHUT_IBUS0 = 0x1"
definition s31_CACHE_L1_ICACHE_SHUT_IBUS1 :: u32 where [regs]: "s31_CACHE_L1_ICACHE_SHUT_IBUS1 = 0x2"
definition s31_CACHE_L1_DCACHE_CTRL_REG :: u32 where [regs]: "s31_CACHE_L1_DCACHE_CTRL_REG = 0x2c000004"
definition s31_CACHE_L1_DCACHE_SHUT_DBUS0 :: u32 where [regs]: "s31_CACHE_L1_DCACHE_SHUT_DBUS0 = 0x1"
definition s31_CACHE_L1_DCACHE_SHUT_DBUS1 :: u32 where [regs]: "s31_CACHE_L1_DCACHE_SHUT_DBUS1 = 0x2"

section \<open>ESP32\<close>

definition esp32_DPORT_PRO_CACHE_CTRL1_REG :: u32 where [regs]: "esp32_DPORT_PRO_CACHE_CTRL1_REG = 0x3ff00044"
definition esp32_DPORT_PRO_CACHE_MASK_DRAM1 :: u32 where [regs]: "esp32_DPORT_PRO_CACHE_MASK_DRAM1 = 0x8"
definition esp32_DPORT_PRO_CACHE_CTRL_REG :: u32 where [regs]: "esp32_DPORT_PRO_CACHE_CTRL_REG = 0x3ff00040"
definition esp32_DPORT_PRO_DRAM_HL :: u32 where [regs]: "esp32_DPORT_PRO_DRAM_HL = 0x10000"
definition esp32_DPORT_PRO_CACHE_ENABLE :: u32 where [regs]: "esp32_DPORT_PRO_CACHE_ENABLE = 0x8"
definition esp32_DPORT_CACHE_BUS_MASK :: u32 where [regs]: "esp32_DPORT_CACHE_BUS_MASK = 0x3f"
definition esp32_DPORT_PRO_CACHE_MASK_DROM0 :: u32 where [regs]: "esp32_DPORT_PRO_CACHE_MASK_DROM0 = 0x10"
definition esp32_SOC_EXTRAM_DATA_LOW :: u32 where [regs]: "esp32_SOC_EXTRAM_DATA_LOW = 0x3f800000"
definition esp32_DPORT_PRO_FLASH_MMU_TABLE :: u32 where [regs]: "esp32_DPORT_PRO_FLASH_MMU_TABLE = 0x3ff10000"
definition esp32_SOC_DROM_LOW :: u32 where [regs]: "esp32_SOC_DROM_LOW = 0x3f400000"
definition esp32_SOC_MMU_INVALID :: u32 where [regs]: "esp32_SOC_MMU_INVALID = 0x100"
definition esp32_SOC_MMU_DROM0_PAGES_START :: u32 where [regs]: "esp32_SOC_MMU_DROM0_PAGES_START = 0x0"
definition esp32_SOC_MMU_DROM0_PAGES_END :: u32 where [regs]: "esp32_SOC_MMU_DROM0_PAGES_END = 0x40"
definition esp32_EFUSE_BLK0_RDATA0_REG :: u32 where [regs]: "esp32_EFUSE_BLK0_RDATA0_REG = 0x3ff5a000"
definition esp32_EFUSE_RD_FLASH_CRYPT_CNT_V :: u32 where [regs]: "esp32_EFUSE_RD_FLASH_CRYPT_CNT_V = 0x7f"
definition esp32_EFUSE_RD_FLASH_CRYPT_CNT_S :: nat where [regs]: "esp32_EFUSE_RD_FLASH_CRYPT_CNT_S = 20"

section \<open>ESP32S2\<close>

definition s2_EXTMEM_PRO_ICACHE_AUTOLOAD_ENA :: u32 where [regs]: "s2_EXTMEM_PRO_ICACHE_AUTOLOAD_ENA = 0x40000"
definition s2_EXTMEM_PRO_DCACHE_AUTOLOAD_ENA :: u32 where [regs]: "s2_EXTMEM_PRO_DCACHE_AUTOLOAD_ENA = 0x40000"
definition s2_EXTMEM_PRO_ICACHE_CTRL_REG :: u32 where [regs]: "s2_EXTMEM_PRO_ICACHE_CTRL_REG = 0x61800040"
definition s2_EXTMEM_PRO_ICACHE_ENABLE :: u32 where [regs]: "s2_EXTMEM_PRO_ICACHE_ENABLE = 0x1"
definition s2_EXTMEM_PRO_ICACHE_CTRL1_REG :: u32 where [regs]: "s2_EXTMEM_PRO_ICACHE_CTRL1_REG = 0x61800044"
definition s2_EXTMEM_PRO_ICACHE_MASK_DROM0 :: u32 where [regs]: "s2_EXTMEM_PRO_ICACHE_MASK_DROM0 = 0x4"
definition s2_DR_REG_MMU_TABLE :: u32 where [regs]: "s2_DR_REG_MMU_TABLE = 0x61801000"
definition s2_SOC_DROM_LOW :: u32 where [regs]: "s2_SOC_DROM_LOW = 0x3f000000"
definition s2_SOC_MMU_INVALID :: u32 where [regs]: "s2_SOC_MMU_INVALID = 0x4000"
definition s2_SOC_MMU_ACCESS_FLASH :: u32 where [regs]: "s2_SOC_MMU_ACCESS_FLASH = 0x8000"
definition s2_SOC_MMU_DROM0_PAGES_START :: u32 where [regs]: "s2_SOC_MMU_DROM0_PAGES_START = 0x80"
definition s2_SOC_MMU_DROM0_PAGES_END :: u32 where [regs]: "s2_SOC_MMU_DROM0_PAGES_END = 0xc0"

section \<open>ESP32C2\<close>

definition c2_EXTMEM_ICACHE_CTRL_REG :: u32 where [regs]: "c2_EXTMEM_ICACHE_CTRL_REG = 0x600c4000"
definition c2_EXTMEM_ICACHE_ENABLE :: u32 where [regs]: "c2_EXTMEM_ICACHE_ENABLE = 0x1"
definition c2_EXTMEM_ICACHE_CTRL1_REG :: u32 where [regs]: "c2_EXTMEM_ICACHE_CTRL1_REG = 0x600c4004"
definition c2_EXTMEM_ICACHE_SHUT_DBUS :: u32 where [regs]: "c2_EXTMEM_ICACHE_SHUT_DBUS = 0x2"
definition c2_DR_REG_MMU_TABLE :: u32 where [regs]: "c2_DR_REG_MMU_TABLE = 0x600c5000"
definition c2_SOC_DROM_LOW :: u32 where [regs]: "c2_SOC_DROM_LOW = 0x3c000000"
definition c2_SOC_MMU_INVALID :: u32 where [regs]: "c2_SOC_MMU_INVALID = 0x40"
definition c2_EXTMEM_CACHE_CONF_MISC_REG :: u32 where [regs]: "c2_EXTMEM_CACHE_CONF_MISC_REG = 0x600c40c8"
definition c2_EXTMEM_CACHE_MMU_PAGE_SIZE_V :: u32 where [regs]: "c2_EXTMEM_CACHE_MMU_PAGE_SIZE_V = 0x3"
definition c2_EXTMEM_CACHE_MMU_PAGE_SIZE_S :: nat where [regs]: "c2_EXTMEM_CACHE_MMU_PAGE_SIZE_S = 3"

section \<open>ESP32C3\<close>

definition c3_EXTMEM_ICACHE_CTRL_REG :: u32 where [regs]: "c3_EXTMEM_ICACHE_CTRL_REG = 0x600c4000"
definition c3_EXTMEM_ICACHE_ENABLE :: u32 where [regs]: "c3_EXTMEM_ICACHE_ENABLE = 0x1"
definition c3_EXTMEM_ICACHE_CTRL1_REG :: u32 where [regs]: "c3_EXTMEM_ICACHE_CTRL1_REG = 0x600c4004"
definition c3_EXTMEM_ICACHE_SHUT_DBUS :: u32 where [regs]: "c3_EXTMEM_ICACHE_SHUT_DBUS = 0x2"
definition c3_DR_REG_MMU_TABLE :: u32 where [regs]: "c3_DR_REG_MMU_TABLE = 0x600c5000"
definition c3_SOC_DROM_LOW :: u32 where [regs]: "c3_SOC_DROM_LOW = 0x3c000000"
definition c3_SOC_MMU_INVALID :: u32 where [regs]: "c3_SOC_MMU_INVALID = 0x100"

end
