(* ===== verification/Soc.thy ===== *)
theory Soc
  imports World
begin

text \<open>
  The chips the library is built for, and their memory maps: the ranges of each chip's
  \<open>src/target/CHIP/include/soc/soc.h\<close> with the capabilities of \<open>soc\_caps.h\<close>, and the
  classification of addresses by \<open>src/mem\_utils.c\<close> and \<open>src/target/common/src/mem\_utils.c\<close>.
\<close>

section \<open>The chips\<close>

datatype chip =
    ESP8266 | ESP32 | ESP32S2 | ESP32S3 | ESP32C2 | ESP32C3 | ESP32C5
  | ESP32C6 | ESP32C61 | ESP32H2 | ESP32H21 | ESP32H4 | ESP32P4 | ESP32S31

instantiation chip :: enum
begin

definition enum_chip :: "chip list" where
  "enum_chip = [ESP8266, ESP32, ESP32S2, ESP32S3, ESP32C2, ESP32C3, ESP32C5, ESP32C6, ESP32C61, ESP32H2, ESP32H21, ESP32H4, ESP32P4, ESP32S31]"

definition enum_all_chip :: "(chip \<Rightarrow> bool) \<Rightarrow> bool" where
  "enum_all_chip P \<longleftrightarrow> list_all P (enum_class.enum :: chip list)"

definition enum_ex_chip :: "(chip \<Rightarrow> bool) \<Rightarrow> bool" where
  "enum_ex_chip P \<longleftrightarrow> list_ex P (enum_class.enum :: chip list)"

instance
proof
  have u: "(UNIV :: chip set) = set enum_class.enum"
    unfolding enum_chip_def by (rule UNIV_eq_I) (case_tac x; simp)
  then show "(UNIV :: chip set) = set enum_class.enum" .
  show "distinct (enum_class.enum :: chip list)" by (simp add: enum_chip_def)
  show "enum_class.enum_all P \<longleftrightarrow> Ball (UNIV :: chip set) P" for P
    unfolding u enum_all_chip_def by (simp add: list_all_iff)
  show "enum_class.enum_ex P \<longleftrightarrow> Bex (UNIV :: chip set) P" for P
    unfolding u enum_ex_chip_def by (simp add: list_ex_iff)
qed

end

section \<open>Memory maps\<close>

text \<open>
  A build of the library: a range is the pair of its \<open>LOW\<close> and \<open>HIGH\<close> macros, None when the
  header does not define them; the flags say whether the capability macro is defined as 1.
\<close>

record soc =
  r_irom :: "(u32 \<times> u32) option"
  r_drom :: "(u32 \<times> u32) option"
  r_iram :: "(u32 \<times> u32) option"
  r_dram :: "(u32 \<times> u32) option"
  r_rtc_iram :: "(u32 \<times> u32) option"
  r_rtc_dram :: "(u32 \<times> u32) option"
  r_rtc_data :: "(u32 \<times> u32) option"
  r_tcm :: "(u32 \<times> u32) option"
  c_fast :: bool
  c_slow :: bool
  c_tcm :: bool

definition esp8266_soc :: soc where
  "esp8266_soc = \<lparr>r_irom = Some (0x40200000, 0x40300000), r_drom = Some (0x40200000, 0x40300000),
     r_iram = Some (0x40100000, 0x40108000), r_dram = Some (0x3FFE8000, 0x40000000),
     r_rtc_iram = None, r_rtc_dram = None,
     r_rtc_data = Some (0x60001200, 0x60001400), r_tcm = None,
     c_fast = False, c_slow = False, c_tcm = False\<rparr>"

definition esp32_soc :: soc where
  "esp32_soc = \<lparr>r_irom = Some (0x400D0000, 0x40400000), r_drom = Some (0x3F400000, 0x3F800000),
     r_iram = Some (0x40080000, 0x400AA000), r_dram = Some (0x3FFAE000, 0x40000000),
     r_rtc_iram = Some (0x400C0000, 0x400C2000), r_rtc_dram = Some (0x3FF80000, 0x3FF82000),
     r_rtc_data = Some (0x50000000, 0x50002000), r_tcm = None,
     c_fast = True, c_slow = True, c_tcm = False\<rparr>"

definition esp32s2_soc :: soc where
  "esp32s2_soc = \<lparr>r_irom = Some (0x40080000, 0x40800000), r_drom = Some (0x3F000000, 0x3FF80000),
     r_iram = Some (0x40020000, 0x40070000), r_dram = Some (0x3FFB0000, 0x40000000),
     r_rtc_iram = Some (0x40070000, 0x40072000), r_rtc_dram = Some (0x3FF9E000, 0x3FFA0000),
     r_rtc_data = Some (0x50000000, 0x50002000), r_tcm = None,
     c_fast = True, c_slow = True, c_tcm = False\<rparr>"

definition esp32s3_soc :: soc where
  "esp32s3_soc = \<lparr>r_irom = Some (0x42000000, 0x44000000), r_drom = Some (0x3C000000, 0x3E000000),
     r_iram = Some (0x40370000, 0x403E0000), r_dram = Some (0x3FC88000, 0x3FD00000),
     r_rtc_iram = Some (0x600FE000, 0x60100000), r_rtc_dram = Some (0x600FE000, 0x60100000),
     r_rtc_data = Some (0x50000000, 0x50002000), r_tcm = None,
     c_fast = True, c_slow = True, c_tcm = False\<rparr>"

definition esp32c2_soc :: soc where
  "esp32c2_soc = \<lparr>r_irom = Some (0x42000000, 0x42400000), r_drom = Some (0x3C000000, 0x3C400000),
     r_iram = Some (0x4037C000, 0x403C0000), r_dram = Some (0x3FCA0000, 0x3FCE0000),
     r_rtc_iram = None, r_rtc_dram = None,
     r_rtc_data = None, r_tcm = None,
     c_fast = False, c_slow = False, c_tcm = False\<rparr>"

definition esp32c3_soc :: soc where
  "esp32c3_soc = \<lparr>r_irom = Some (0x42000000, 0x42800000), r_drom = Some (0x3C000000, 0x3C800000),
     r_iram = Some (0x4037C000, 0x403E0000), r_dram = Some (0x3FC80000, 0x3FCE0000),
     r_rtc_iram = Some (0x50000000, 0x50002000), r_rtc_dram = Some (0x50000000, 0x50002000),
     r_rtc_data = Some (0x50000000, 0x50002000), r_tcm = None,
     c_fast = True, c_slow = False, c_tcm = False\<rparr>"

definition esp32c5_soc :: soc where
  "esp32c5_soc = \<lparr>r_irom = Some (0x42000000, 0x44000000), r_drom = Some (0x42000000, 0x44000000),
     r_iram = Some (0x40800000, 0x40860000), r_dram = Some (0x40800000, 0x40860000),
     r_rtc_iram = Some (0x50000000, 0x50004000), r_rtc_dram = Some (0x50000000, 0x50004000),
     r_rtc_data = Some (0x50000000, 0x50004000), r_tcm = None,
     c_fast = True, c_slow = False, c_tcm = False\<rparr>"

definition esp32c6_soc :: soc where
  "esp32c6_soc = \<lparr>r_irom = Some (0x42000000, 0x42800000), r_drom = Some (0x42000000, 0x42800000),
     r_iram = Some (0x40800000, 0x40880000), r_dram = Some (0x40800000, 0x40880000),
     r_rtc_iram = Some (0x50000000, 0x50004000), r_rtc_dram = Some (0x50000000, 0x50004000),
     r_rtc_data = Some (0x50000000, 0x50004000), r_tcm = None,
     c_fast = True, c_slow = False, c_tcm = False\<rparr>"

definition esp32c61_soc :: soc where
  "esp32c61_soc = \<lparr>r_irom = Some (0x42000000, 0x44000000), r_drom = Some (0x42000000, 0x44000000),
     r_iram = Some (0x40800000, 0x40850000), r_dram = Some (0x40800000, 0x40850000),
     r_rtc_iram = None, r_rtc_dram = None,
     r_rtc_data = None, r_tcm = None,
     c_fast = False, c_slow = False, c_tcm = False\<rparr>"

definition esp32h2_soc :: soc where
  "esp32h2_soc = \<lparr>r_irom = Some (0x42000000, 0x42800000), r_drom = Some (0x42000000, 0x42800000),
     r_iram = Some (0x40800000, 0x40850000), r_dram = Some (0x40800000, 0x40850000),
     r_rtc_iram = Some (0x50000000, 0x50001000), r_rtc_dram = Some (0x50000000, 0x50001000),
     r_rtc_data = Some (0x50000000, 0x50001000), r_tcm = None,
     c_fast = True, c_slow = False, c_tcm = False\<rparr>"

definition esp32h21_soc :: soc where
  "esp32h21_soc = \<lparr>r_irom = Some (0x42000000, 0x43000000), r_drom = Some (0x42000000, 0x43000000),
     r_iram = Some (0x40800000, 0x40850000), r_dram = Some (0x40800000, 0x40850000),
     r_rtc_iram = Some (0x50000000, 0x50001000), r_rtc_dram = Some (0x50000000, 0x50001000),
     r_rtc_data = Some (0x50000000, 0x50001000), r_tcm = None,
     c_fast = True, c_slow = False, c_tcm = False\<rparr>"

definition esp32h4_soc :: soc where
  "esp32h4_soc = \<lparr>r_irom = Some (0x42000000, 0x44000000), r_drom = Some (0x42000000, 0x44000000),
     r_iram = Some (0x40810000, 0x40860000), r_dram = Some (0x40810000, 0x40860000),
     r_rtc_iram = Some (0x50000000, 0x50004000), r_rtc_dram = Some (0x50000000, 0x50004000),
     r_rtc_data = Some (0x50000000, 0x50004000), r_tcm = None,
     c_fast = False, c_slow = False, c_tcm = False\<rparr>"

definition esp32p4_soc :: soc where
  "esp32p4_soc = \<lparr>r_irom = Some (0x40000000, 0x44000000), r_drom = Some (0x40000000, 0x44000000),
     r_iram = Some (0x4FF00000, 0x4FFC0000), r_dram = Some (0x4FF00000, 0x4FFC0000),
     r_rtc_iram = Some (0x50108000, 0x50110000), r_rtc_dram = Some (0x50108000, 0x50110000),
     r_rtc_data = Some (0x50108000, 0x50110000), r_tcm = Some (0x30100000, 0x30102000),
     c_fast = True, c_slow = False, c_tcm = True\<rparr>"

definition esp32s31_soc :: soc where
  "esp32s31_soc = \<lparr>r_irom = Some (0x40000000, 0x44000000), r_drom = Some (0x40000000, 0x44000000),
     r_iram = Some (0x2F000000, 0x2F080000), r_dram = Some (0x2F000000, 0x2F080000),
     r_rtc_iram = Some (0x2E000000, 0x2E008000), r_rtc_dram = Some (0x2E000000, 0x2E008000),
     r_rtc_data = Some (0x2E000000, 0x2E008000), r_tcm = None,
     c_fast = True, c_slow = False, c_tcm = False\<rparr>"

fun soc_of :: "chip \<Rightarrow> soc" where
  "soc_of ESP8266 = esp8266_soc"
| "soc_of ESP32 = esp32_soc"
| "soc_of ESP32S2 = esp32s2_soc"
| "soc_of ESP32S3 = esp32s3_soc"
| "soc_of ESP32C2 = esp32c2_soc"
| "soc_of ESP32C3 = esp32c3_soc"
| "soc_of ESP32C5 = esp32c5_soc"
| "soc_of ESP32C6 = esp32c6_soc"
| "soc_of ESP32C61 = esp32c61_soc"
| "soc_of ESP32H2 = esp32h2_soc"
| "soc_of ESP32H21 = esp32h21_soc"
| "soc_of ESP32H4 = esp32h4_soc"
| "soc_of ESP32P4 = esp32p4_soc"
| "soc_of ESP32S31 = esp32s31_soc"

section \<open>The classification of addresses\<close>

definition within :: "(u32 \<times> u32) option \<Rightarrow> u32 \<Rightarrow> bool" where
  "within r addr \<longleftrightarrow> (case r of Some (low, high) \<Rightarrow> addr \<ge> low \<and> addr < high | None \<Rightarrow> False)"

definition stub_target_mem_is_irom :: "soc \<Rightarrow> u32 \<Rightarrow> bool" where
  "stub_target_mem_is_irom S addr = within (r_irom S) addr"
definition stub_target_mem_is_drom :: "soc \<Rightarrow> u32 \<Rightarrow> bool" where
  "stub_target_mem_is_drom S addr = within (r_drom S) addr"
definition stub_target_mem_is_iram :: "soc \<Rightarrow> u32 \<Rightarrow> bool" where
  "stub_target_mem_is_iram S addr = within (r_iram S) addr"
definition stub_target_mem_is_dram :: "soc \<Rightarrow> u32 \<Rightarrow> bool" where
  "stub_target_mem_is_dram S addr = within (r_dram S) addr"
definition stub_target_mem_is_rtc_iram_fast :: "soc \<Rightarrow> u32 \<Rightarrow> bool" where
  "stub_target_mem_is_rtc_iram_fast S addr = (if c_fast S then within (r_rtc_iram S) addr else False)"
definition stub_target_mem_is_rtc_dram_fast :: "soc \<Rightarrow> u32 \<Rightarrow> bool" where
  "stub_target_mem_is_rtc_dram_fast S addr = (if c_fast S then within (r_rtc_dram S) addr else False)"
definition stub_target_mem_is_rtc_slow :: "soc \<Rightarrow> u32 \<Rightarrow> bool" where
  "stub_target_mem_is_rtc_slow S addr = (if c_slow S then within (r_rtc_data S) addr else False)"
definition stub_target_mem_is_tcm :: "soc \<Rightarrow> u32 \<Rightarrow> bool" where
  "stub_target_mem_is_tcm S addr = (if c_tcm S then within (r_tcm S) addr else False)"

definition stub_lib_mem_is_irom :: "soc \<Rightarrow> u32 \<Rightarrow> bool" where
  "stub_lib_mem_is_irom S addr = stub_target_mem_is_irom S addr"
definition stub_lib_mem_is_drom :: "soc \<Rightarrow> u32 \<Rightarrow> bool" where
  "stub_lib_mem_is_drom S addr = stub_target_mem_is_drom S addr"
definition stub_lib_mem_is_iram :: "soc \<Rightarrow> u32 \<Rightarrow> bool" where
  "stub_lib_mem_is_iram S addr = stub_target_mem_is_iram S addr"
definition stub_lib_mem_is_dram :: "soc \<Rightarrow> u32 \<Rightarrow> bool" where
  "stub_lib_mem_is_dram S addr = stub_target_mem_is_dram S addr"
definition stub_lib_mem_is_rtc_iram_fast :: "soc \<Rightarrow> u32 \<Rightarrow> bool" where
  "stub_lib_mem_is_rtc_iram_fast S addr = stub_target_mem_is_rtc_iram_fast S addr"
definition stub_lib_mem_is_rtc_dram_fast :: "soc \<Rightarrow> u32 \<Rightarrow> bool" where
  "stub_lib_mem_is_rtc_dram_fast S addr = stub_target_mem_is_rtc_dram_fast S addr"
definition stub_lib_mem_is_rtc_slow :: "soc \<Rightarrow> u32 \<Rightarrow> bool" where
  "stub_lib_mem_is_rtc_slow S addr = stub_target_mem_is_rtc_slow S addr"
definition stub_lib_mem_is_tcm :: "soc \<Rightarrow> u32 \<Rightarrow> bool" where
  "stub_lib_mem_is_tcm S addr = stub_target_mem_is_tcm S addr"

section \<open>Every map is well formed\<close>

text \<open>The kinds of memory, with the test of the API and the range behind it.\<close>

datatype mem_kind = IROM | DROM | IRAM | DRAM | RTC_IRAM | RTC_DRAM | RTC_DATA | TCM

instantiation mem_kind :: enum
begin

definition enum_mem_kind :: "mem_kind list" where
  "enum_mem_kind = [IROM, DROM, IRAM, DRAM, RTC_IRAM, RTC_DRAM, RTC_DATA, TCM]"

definition enum_all_mem_kind :: "(mem_kind \<Rightarrow> bool) \<Rightarrow> bool" where
  "enum_all_mem_kind P \<longleftrightarrow> list_all P (enum_class.enum :: mem_kind list)"

definition enum_ex_mem_kind :: "(mem_kind \<Rightarrow> bool) \<Rightarrow> bool" where
  "enum_ex_mem_kind P \<longleftrightarrow> list_ex P (enum_class.enum :: mem_kind list)"

instance
proof
  have u: "(UNIV :: mem_kind set) = set enum_class.enum"
    unfolding enum_mem_kind_def by (rule UNIV_eq_I) (case_tac x; simp)
  then show "(UNIV :: mem_kind set) = set enum_class.enum" .
  show "distinct (enum_class.enum :: mem_kind list)" by (simp add: enum_mem_kind_def)
  show "enum_class.enum_all P \<longleftrightarrow> Ball (UNIV :: mem_kind set) P" for P
    unfolding u enum_all_mem_kind_def by (simp add: list_all_iff)
  show "enum_class.enum_ex P \<longleftrightarrow> Bex (UNIV :: mem_kind set) P" for P
    unfolding u enum_ex_mem_kind_def by (simp add: list_ex_iff)
qed

end

fun mem_is :: "soc \<Rightarrow> mem_kind \<Rightarrow> u32 \<Rightarrow> bool" where
  "mem_is S IROM = stub_lib_mem_is_irom S"
| "mem_is S DROM = stub_lib_mem_is_drom S"
| "mem_is S IRAM = stub_lib_mem_is_iram S"
| "mem_is S DRAM = stub_lib_mem_is_dram S"
| "mem_is S RTC_IRAM = stub_lib_mem_is_rtc_iram_fast S"
| "mem_is S RTC_DRAM = stub_lib_mem_is_rtc_dram_fast S"
| "mem_is S RTC_DATA = stub_lib_mem_is_rtc_slow S"
| "mem_is S TCM = stub_lib_mem_is_tcm S"

fun range_of :: "soc \<Rightarrow> mem_kind \<Rightarrow> (u32 \<times> u32) option" where
  "range_of S IROM = r_irom S"
| "range_of S DROM = r_drom S"
| "range_of S IRAM = r_iram S"
| "range_of S DRAM = r_dram S"
| "range_of S RTC_IRAM = r_rtc_iram S"
| "range_of S RTC_DRAM = r_rtc_dram S"
| "range_of S RTC_DATA = r_rtc_data S"
| "range_of S TCM = r_tcm S"

fun compiled :: "soc \<Rightarrow> mem_kind \<Rightarrow> bool" where
  "compiled S RTC_IRAM = c_fast S"
| "compiled S RTC_DRAM = c_fast S"
| "compiled S RTC_DATA = c_slow S"
| "compiled S TCM = c_tcm S"
| "compiled S k = True"

text \<open>The build has every range it uses, none is empty, and two are the same or apart.\<close>

definition soc_ok :: "soc \<Rightarrow> bool" where
  "soc_ok S \<longleftrightarrow> (\<forall>k. compiled S k \<longrightarrow> (case range_of S k of Some (l, h) \<Rightarrow> l < h | None \<Rightarrow> False)) \<and>
     (\<forall>k j. compiled S k \<longrightarrow> compiled S j \<longrightarrow> range_of S k = range_of S j \<or>
        snd (the (range_of S k)) \<le> fst (the (range_of S j)) \<or> snd (the (range_of S j)) \<le> fst (the (range_of S k)))"

lemma mem_is_iff: "mem_is S k a \<longleftrightarrow> compiled S k \<and> within (range_of S k) a"
  by (cases k) (auto simp: stub_lib_mem_is_irom_def stub_lib_mem_is_drom_def stub_lib_mem_is_iram_def
      stub_lib_mem_is_dram_def stub_lib_mem_is_rtc_iram_fast_def stub_lib_mem_is_rtc_dram_fast_def
      stub_lib_mem_is_rtc_slow_def stub_lib_mem_is_tcm_def stub_target_mem_is_irom_def stub_target_mem_is_drom_def
      stub_target_mem_is_iram_def stub_target_mem_is_dram_def stub_target_mem_is_rtc_iram_fast_def
      stub_target_mem_is_rtc_dram_fast_def stub_target_mem_is_rtc_slow_def stub_target_mem_is_tcm_def)

lemma all_soc_ok: "\<forall>c. soc_ok (soc_of c)"
  by code_simp

lemma soc_ok_apart:
  assumes "soc_ok S" "mem_is S k a" "mem_is S j a"
  shows "range_of S k = range_of S j"
proof -
  obtain l h l' h' where r: "range_of S k = Some (l, h)" "range_of S j = Some (l', h')" "l \<le> a" "a < h" "l' \<le> a" "a < h'"
    and c: "compiled S k" "compiled S j"
    using assms(2,3) by (auto simp: mem_is_iff within_def split: option.splits)
  have "\<not> h \<le> l'" "\<not> h' \<le> l" using r(3-6) by auto
  then show ?thesis using assms(1) c r(1,2) unfolding soc_ok_def by fastforce
qed

text \<open>
  C40: The memory map of every chip is well formed: each kind of memory its build tests for
  has a range, none is empty, and an address that two tests accept lies in one range that
  both kinds share.
\<close>

lemma memory_maps_sound:
  "soc_ok (soc_of c) \<and> (mem_is (soc_of c) k a \<and> mem_is (soc_of c) j a \<longrightarrow> range_of (soc_of c) k = range_of (soc_of c) j)"
  using all_soc_ok soc_ok_apart by blast

lemma esp32c6_text: "mem_is (soc_of ESP32C6) IROM 0x42000100" "mem_is (soc_of ESP32C6) DROM 0x42000100"
  by code_simp+

lemma memory_maps_sound_witness: "range_of (soc_of ESP32C6) IROM = range_of (soc_of ESP32C6) DROM"
  using memory_maps_sound [of ESP32C6 IROM "0x42000100" DROM] esp32c6_text by blast

end
