(* ===== verification/Security.thy ===== *)
theory Security
  imports Soc Chip_Regs
begin

text \<open>
  Security information and flash encryption: the API of \<open>src/security.c\<close> over an arbitrary
  target, the weak versions of \<open>src/target/common/src/security.c\<close>, and the targets of the
  ESP32, the ESP32-S2, the ESP32-C3 and the ESP8266.
\<close>

section \<open>The target and the API\<close>

text \<open>
  A buffer is None for a null pointer, otherwise its size; what the ROM writes to it is a
  result.
\<close>

record 'w security_target =
  ts_info_size :: u32
  ts_get_info :: "u32 option \<Rightarrow> 'w \<Rightarrow> (rc \<times> u8 list) \<times> 'w"
  ts_flash_is_encrypted :: "'w \<Rightarrow> bool \<times> 'w"

definition stub_lib_security_info_size :: "'w security_target \<Rightarrow> u32" where
  "stub_lib_security_info_size T = ts_info_size T"

definition stub_lib_get_security_info ::
  "'w security_target \<Rightarrow> u32 option \<Rightarrow> 'w \<Rightarrow> (rc \<times> u8 list) \<times> 'w" where
  "stub_lib_get_security_info T buffer w = ts_get_info T buffer w"

definition stub_lib_security_flash_is_encrypted :: "'w security_target \<Rightarrow> 'w \<Rightarrow> bool \<times> 'w" where
  "stub_lib_security_flash_is_encrypted T w = ts_flash_is_encrypted T w"

section \<open>The weak versions\<close>

definition SECURITY_INFO_BYTES_DEFAULT :: u32 where [regs]: "SECURITY_INFO_BYTES_DEFAULT = 20"

definition stub_target_security_info_size :: u32 where
  "stub_target_security_info_size = SECURITY_INFO_BYTES_DEFAULT"

text \<open>The size it asks for is that of the chip the library is linked for.\<close>

definition stub_target_get_security_info ::
  "u32 \<Rightarrow> u32 option \<Rightarrow> 'a world_scheme \<Rightarrow> (rc \<times> u8 list) \<times> 'a world_scheme" where
  "stub_target_get_security_info required_size buffer w =
     (case buffer of
        None \<Rightarrow> ((STUB_LIB_ERR_INVALID_ARG, []), w)
      | Some buffer_size \<Rightarrow>
          if buffer_size < required_size then ((STUB_LIB_ERR_INVALID_ARG, []), w)
          else
            (let ((ret, out), w) = rom_call (SysFn GetSecurityInfoProc) [0, 0] [] w
             in ((if ret = 0 then STUB_LIB_OK else STUB_LIB_FAIL, out), w)))"

definition stub_target_security_flash_is_encrypted :: "'a world_scheme \<Rightarrow> bool \<times> 'a world_scheme" where
  "stub_target_security_flash_is_encrypted w =
     (let (r, w) = rom_num (FlashFn Esp_rom_efuse_flash_encryption_enabled) [] [] w in (r \<noteq> 0, w))"

section \<open>The chips that differ\<close>

subsection \<open>ESP32\<close>

definition esp32_security_info_size :: u32 where "esp32_security_info_size = 0"

definition esp32_get_security_info ::
  "u32 option \<Rightarrow> 'a world_scheme \<Rightarrow> (rc \<times> u8 list) \<times> 'a world_scheme" where
  "esp32_get_security_info buffer w = ((STUB_LIB_ERR_NOT_SUPPORTED, []), w)"

text \<open>The \<open>while\<close> loop over the counter's bits.\<close>

function crypt_cnt_loop :: "u32 \<Rightarrow> bool \<Rightarrow> bool" where
  "crypt_cnt_loop flash_crypt_cnt enabled =
     (if flash_crypt_cnt = 0 then enabled
      else crypt_cnt_loop (drop_bit 1 flash_crypt_cnt)
        (if flash_crypt_cnt AND 1 \<noteq> 0 then \<not> enabled else enabled))"
  by pat_completeness auto
termination
  by (relation "measure (\<lambda>(c, e). unat c)") (auto simp: drop_bit_Suc unat_div unat_gt_0 intro!: div_less_dividend)

declare crypt_cnt_loop.simps [simp del]

definition esp32_security_flash_is_encrypted :: "'a world_scheme \<Rightarrow> bool \<times> 'a world_scheme" where
  "esp32_security_flash_is_encrypted w =
     (let (flash_crypt_cnt, w) = REG_READ esp32_EFUSE_BLK0_RDATA0_REG w;
          flash_crypt_cnt = drop_bit esp32_EFUSE_RD_FLASH_CRYPT_CNT_S flash_crypt_cnt AND
            esp32_EFUSE_RD_FLASH_CRYPT_CNT_V
      in (crypt_cnt_loop flash_crypt_cnt False, w))"

subsection \<open>ESP32-S2, ESP32-C3, ESP8266\<close>

definition s2_security_info_size :: u32 where "s2_security_info_size = 12"

definition c3_security_info_size :: u32 where "c3_security_info_size = 20"

definition c3_get_security_info ::
  "u32 option \<Rightarrow> 'a world_scheme \<Rightarrow> (rc \<times> u8 list) \<times> 'a world_scheme" where
  "c3_get_security_info buffer w =
     (case buffer of
        None \<Rightarrow> ((STUB_LIB_ERR_INVALID_ARG, []), w)
      | Some buffer_size \<Rightarrow>
          if buffer_size < c3_security_info_size then ((STUB_LIB_ERR_INVALID_ARG, []), w)
          else
            (let (eco, w) = cell_read (RomVar Rom_eco_version) w;
                 ((ret, out), w) =
                   (if eco \<ge> 7 then rom_call (SysFn GetSecurityInfoProcEco7) [0, 0] [] w
                    else rom_call (SysFn GetSecurityInfoProcEco1) [0, 0] [] w)
             in ((if ret = 0 then STUB_LIB_OK else STUB_LIB_FAIL, out), w)))"

definition esp8266_security_info_size :: u32 where "esp8266_security_info_size = 0"

definition esp8266_get_security_info ::
  "u32 option \<Rightarrow> 'a world_scheme \<Rightarrow> (rc \<times> u8 list) \<times> 'a world_scheme" where
  "esp8266_get_security_info buffer w = ((STUB_LIB_ERR_NOT_SUPPORTED, []), w)"

definition esp8266_security_flash_is_encrypted :: "'w \<Rightarrow> bool \<times> 'w" where
  "esp8266_security_flash_is_encrypted w = (False, w)"

subsection \<open>Which chip has which\<close>

definition rom_security_target :: "'a world_scheme security_target" where
  "rom_security_target =
     \<lparr>ts_info_size = stub_target_security_info_size,
      ts_get_info = stub_target_get_security_info stub_target_security_info_size,
      ts_flash_is_encrypted = stub_target_security_flash_is_encrypted\<rparr>"

fun security_target_of :: "chip \<Rightarrow> 'a world_scheme security_target" where
  "security_target_of ESP32 =
     \<lparr>ts_info_size = esp32_security_info_size, ts_get_info = esp32_get_security_info,
      ts_flash_is_encrypted = esp32_security_flash_is_encrypted\<rparr>"
| "security_target_of ESP8266 =
     \<lparr>ts_info_size = esp8266_security_info_size, ts_get_info = esp8266_get_security_info,
      ts_flash_is_encrypted = esp8266_security_flash_is_encrypted\<rparr>"
| "security_target_of ESP32S2 =
     \<lparr>ts_info_size = s2_security_info_size,
      ts_get_info = stub_target_get_security_info s2_security_info_size,
      ts_flash_is_encrypted = stub_target_security_flash_is_encrypted\<rparr>"
| "security_target_of ESP32C3 =
     \<lparr>ts_info_size = c3_security_info_size, ts_get_info = c3_get_security_info,
      ts_flash_is_encrypted = stub_target_security_flash_is_encrypted\<rparr>"
| "security_target_of c = rom_security_target"

lemmas security_defs = stub_lib_security_info_size_def stub_lib_get_security_info_def
  stub_lib_security_flash_is_encrypted_def stub_target_get_security_info_def
  stub_target_security_info_size_def stub_target_security_flash_is_encrypted_def
  esp32_get_security_info_def esp32_security_info_size_def esp8266_get_security_info_def
  esp8266_security_info_size_def s2_security_info_size_def c3_security_info_size_def
  c3_get_security_info_def rom_security_target_def

section \<open>Refused requests\<close>

text \<open>
  A null pointer or a buffer smaller than the size the chip reports is refused on every chip
  before the ROM is called; the chips whose ROM has no such function always refuse.
\<close>

lemma security_info_refused:
  assumes "\<And>n. buffer = Some n \<Longrightarrow> n < stub_lib_security_info_size (security_target_of c :: 'a world_scheme security_target)"
  shows "stub_lib_get_security_info (security_target_of c) buffer (w :: 'a world_scheme) =
    ((if c = ESP32 \<or> c = ESP8266 then STUB_LIB_ERR_NOT_SUPPORTED else STUB_LIB_ERR_INVALID_ARG, []), w)"
  using assms by (cases c; cases buffer) (simp_all add: security_defs)

lemma security_info_refused_witness:
  "stub_lib_get_security_info (security_target_of ESP32S2) (Some 11) (w :: world) =
     ((STUB_LIB_ERR_INVALID_ARG, []), w)"
  using security_info_refused [of "Some 11" ESP32S2 w] by (simp add: security_defs)

section \<open>The ESP32's counter\<close>

text \<open>Every time encryption is switched on or off one more bit of the counter is burnt.\<close>

lemma bits_shift:
  fixes c :: u32
  shows "odd (card {i. bit c i}) \<longleftrightarrow> odd (card {i. bit (drop_bit 1 c) i}) \<noteq> bit c 0"
proof -
  have fin: "finite {i. bit (drop_bit 1 c) i}"
    by (rule finite_subset [of _ "{..<32}"]) (auto simp: bit_simps dest: bit_imp_le_length)
  have "{i. bit c i} = (if bit c 0 then {0} else {}) \<union> Suc ` {i. bit (drop_bit 1 c) i}"
    by (auto simp: bit_simps image_iff gr0_conv_Suc intro: gr0I) (metis not0_implies_Suc)+
  then have "card {i. bit c i} = (if bit c 0 then 1 else 0) + card {i. bit (drop_bit 1 c) i}"
    using fin by (simp add: card_Un_disjoint card_image)
  then show ?thesis by simp
qed

lemma crypt_cnt_loop_parity: "crypt_cnt_loop c e \<longleftrightarrow> e \<noteq> odd (card {i. bit c i})"
proof (induction c e rule: crypt_cnt_loop.induct)
  case (1 c e)
  show ?case
  proof (cases "c = 0")
    case False
    let ?e = "if c AND 1 \<noteq> 0 then \<not> e else e"
    have b: "c AND 1 \<noteq> 0 \<longleftrightarrow> bit c 0" by (simp add: and_one_eq bit_0 even_iff_mod_2_eq_zero)
    have "crypt_cnt_loop c e = crypt_cnt_loop (drop_bit 1 c) ?e"
      by (subst crypt_cnt_loop.simps) (simp only: False if_False)
    also have "\<dots> \<longleftrightarrow> ?e \<noteq> odd (card {i. bit (drop_bit 1 c) i})" using 1 [OF False] .
    finally show ?thesis unfolding b bits_shift [of c] by argo
  qed (simp add: crypt_cnt_loop.simps)
qed

text \<open>
  The ESP32 reports an encrypted flash exactly when an odd number of the seven bits of
  the encryption counter in the eFuses is set.
\<close>

lemma esp32_encrypted_parity:
  "fst (stub_lib_security_flash_is_encrypted (security_target_of ESP32) w) \<longleftrightarrow>
     odd (card {i. 20 \<le> i \<and> i < 27 \<and> bit (peek (Mmio esp32_EFUSE_BLK0_RDATA0_REG) w) i})"
proof -
  define v where "v = peek (Mmio esp32_EFUSE_BLK0_RDATA0_REG) w"
  have "{i. 20 \<le> i \<and> i < 27 \<and> bit v i} = (+) 20 ` {i. bit (drop_bit 20 v AND mask 7) i}"
  proof (intro set_eqI iffI)
    fix i assume "i \<in> {i. 20 \<le> i \<and> i < 27 \<and> bit v i}"
    then show "i \<in> (+) 20 ` {i. bit (drop_bit 20 v AND mask 7) i}"
      by (intro image_eqI [of _ _ "i - 20"]) (auto simp: bit_simps)
  qed (auto simp: bit_simps)
  then have "card {i. 20 \<le> i \<and> i < 27 \<and> bit v i} = card {i. bit (drop_bit 20 v AND mask 7) i}"
    by (simp add: card_image)
  moreover have "(0x7F :: u32) = mask 7" by (simp add: mask_eq_exp_minus_1)
  ultimately show ?thesis
    by (simp add: stub_lib_security_flash_is_encrypted_def esp32_security_flash_is_encrypted_def REG_READ_eq
        crypt_cnt_loop_parity regs v_def)
qed

end
