(* ===== verification/Chip_Mmu.thy ===== *)
theory Chip_Mmu
  imports S3_Mmu Chip_Regs Security
begin

text \<open>
  The MMU drivers of the other chips, \<open>src/target/CHIP/src/mmu.c\<close>. The ESP32, ESP32-S2,
  ESP32-C2 and ESP32-C3 have a table of memory-mapped words like the ESP32-S3; the newer chips
  reach an entry through an index register and a content register, mark it valid, and mark it
  sensitive when the flash is encrypted. Each chip's functions are translated one by one, with
  the chip's name in front; \<open>mmu_target_of\<close> links them into the interface.
\<close>

section \<open>Indexed entries\<close>

text \<open>
  The loop of \<open>stub\_target\_mmu\_has\_valid\_entry\<close>: k entries from i on are read until one
  satisfies the condition.
\<close>

fun scan_entries :: "(u32 \<Rightarrow> 'w \<Rightarrow> u32 \<times> 'w) \<Rightarrow> (u32 \<Rightarrow> bool) \<Rightarrow> nat \<Rightarrow> u32 \<Rightarrow> 'w \<Rightarrow> bool \<times> 'w" where
  "scan_entries rd C 0 i w = (False, w)"
| "scan_entries rd C (Suc k) i w =
     (let (mmu_raw_value, w) = rd i w
      in if C mmu_raw_value then (True, w) else scan_entries rd C k (i + 1) w)"

subsection \<open>ESP32-C6\<close>

definition ESP32C6_STUB_MMU_DROM_ENTRY_START :: u32 where [regs]: "ESP32C6_STUB_MMU_DROM_ENTRY_START = 2"

definition c6_mmu_get_page_size :: "'a world_scheme \<Rightarrow> u32 \<times> 'a world_scheme" where
  "c6_mmu_get_page_size w =
     (let (page_size, w) = REG_GET_FIELD c6_SPI_MEM_MMU_POWER_CTRL_REG c6_SPI_MEM_MMU_PAGE_SIZE_V c6_SPI_MEM_MMU_PAGE_SIZE_S w
      in if page_size = 0 then (STUB_MMU_PAGE_SIZE_64KB, w)
         else if page_size = 1 then (STUB_MMU_PAGE_SIZE_32KB, w)
         else if page_size = 2 then (STUB_MMU_PAGE_SIZE_16KB, w)
         else (STUB_MMU_PAGE_SIZE_8KB, w))"

definition c6_mmu_get_drom_entry_start :: "u32" where
  "c6_mmu_get_drom_entry_start = ESP32C6_STUB_MMU_DROM_ENTRY_START"

definition c6_mmu_get_drom_entry_end :: "u32" where
  "c6_mmu_get_drom_entry_end = c6_SOC_MMU_ENTRY_NUM"

definition c6_mmu_get_drom_vaddr :: "'a world_scheme \<Rightarrow> u32 \<times> 'a world_scheme" where
  "c6_mmu_get_drom_vaddr w =
     (let (page_size, w) = c6_mmu_get_page_size w
      in (c6_SOC_DROM_LOW + c6_mmu_get_drom_entry_start * page_size, w))"

definition c6_mmu_write_entry :: "u32 \<Rightarrow> u32 \<Rightarrow> 'a world_scheme \<Rightarrow> 'a world_scheme" where
  "c6_mmu_write_entry entry_id flash_page_num w =
     (let (encrypted, w) = stub_target_security_flash_is_encrypted w;
          flash_page_num = (if encrypted then flash_page_num OR c6_SOC_MMU_SENSITIVE else flash_page_num);
          mmu_raw_value = flash_page_num OR c6_SOC_MMU_VALID;
          w = REG_WRITE c6_SPI_MEM_MMU_ITEM_INDEX_REG entry_id w
      in REG_WRITE c6_SPI_MEM_MMU_ITEM_CONTENT_REG mmu_raw_value w)"

definition c6_mmu_read_entry :: "u32 \<Rightarrow> 'a world_scheme \<Rightarrow> u32 \<times> 'a world_scheme" where
  "c6_mmu_read_entry entry_id w =
     (let w = REG_WRITE c6_SPI_MEM_MMU_ITEM_INDEX_REG entry_id w in REG_READ c6_SPI_MEM_MMU_ITEM_CONTENT_REG w)"

definition c6_mmu_set_entry_invalid :: "u32 \<Rightarrow> 'a world_scheme \<Rightarrow> 'a world_scheme" where
  "c6_mmu_set_entry_invalid entry_id w =
     (let w = REG_WRITE c6_SPI_MEM_MMU_ITEM_INDEX_REG entry_id w in REG_WRITE c6_SPI_MEM_MMU_ITEM_CONTENT_REG c6_SOC_MMU_INVALID w)"

definition c6_mmu_restore_entry :: "u32 \<Rightarrow> u32 \<Rightarrow> 'a world_scheme \<Rightarrow> 'a world_scheme" where
  "c6_mmu_restore_entry entry_id raw_value w =
     (let w = REG_WRITE c6_SPI_MEM_MMU_ITEM_INDEX_REG entry_id w in REG_WRITE c6_SPI_MEM_MMU_ITEM_CONTENT_REG raw_value w)"

definition c6_mmu_has_valid_entry :: "'a world_scheme \<Rightarrow> bool \<times> 'a world_scheme" where
  "c6_mmu_has_valid_entry w =
     scan_entries c6_mmu_read_entry (\<lambda>v. v AND c6_SOC_MMU_VALID \<noteq> 0)
       (unat c6_SOC_MMU_ENTRY_NUM) 0 w"

subsection \<open>ESP32-H2\<close>

definition ESP32H2_STUB_MMU_DROM_ENTRY_START :: u32 where [regs]: "ESP32H2_STUB_MMU_DROM_ENTRY_START = 2"

definition h2_mmu_get_page_size :: "'a world_scheme \<Rightarrow> u32 \<times> 'a world_scheme" where
  "h2_mmu_get_page_size w =
     (let (page_size, w) = REG_GET_FIELD h2_SPI_MEM_MMU_POWER_CTRL_REG h2_SPI_MEM_MMU_PAGE_SIZE_V h2_SPI_MEM_MMU_PAGE_SIZE_S w
      in if page_size = 0 then (STUB_MMU_PAGE_SIZE_64KB, w)
         else if page_size = 1 then (STUB_MMU_PAGE_SIZE_32KB, w)
         else if page_size = 2 then (STUB_MMU_PAGE_SIZE_16KB, w)
         else (STUB_MMU_PAGE_SIZE_8KB, w))"

definition h2_mmu_get_drom_entry_start :: "u32" where
  "h2_mmu_get_drom_entry_start = ESP32H2_STUB_MMU_DROM_ENTRY_START"

definition h2_mmu_get_drom_entry_end :: "u32" where
  "h2_mmu_get_drom_entry_end = h2_SOC_MMU_ENTRY_NUM"

definition h2_mmu_get_drom_vaddr :: "'a world_scheme \<Rightarrow> u32 \<times> 'a world_scheme" where
  "h2_mmu_get_drom_vaddr w =
     (let (page_size, w) = h2_mmu_get_page_size w
      in (h2_SOC_DROM_LOW + h2_mmu_get_drom_entry_start * page_size, w))"

definition h2_mmu_write_entry :: "u32 \<Rightarrow> u32 \<Rightarrow> 'a world_scheme \<Rightarrow> 'a world_scheme" where
  "h2_mmu_write_entry entry_id flash_page_num w =
     (let (encrypted, w) = stub_target_security_flash_is_encrypted w;
          flash_page_num = (if encrypted then flash_page_num OR h2_SOC_MMU_SENSITIVE else flash_page_num);
          mmu_raw_value = flash_page_num OR h2_SOC_MMU_VALID;
          w = REG_WRITE h2_SPI_MEM_MMU_ITEM_INDEX_REG entry_id w
      in REG_WRITE h2_SPI_MEM_MMU_ITEM_CONTENT_REG mmu_raw_value w)"

definition h2_mmu_read_entry :: "u32 \<Rightarrow> 'a world_scheme \<Rightarrow> u32 \<times> 'a world_scheme" where
  "h2_mmu_read_entry entry_id w =
     (let w = REG_WRITE h2_SPI_MEM_MMU_ITEM_INDEX_REG entry_id w in REG_READ h2_SPI_MEM_MMU_ITEM_CONTENT_REG w)"

definition h2_mmu_set_entry_invalid :: "u32 \<Rightarrow> 'a world_scheme \<Rightarrow> 'a world_scheme" where
  "h2_mmu_set_entry_invalid entry_id w =
     (let w = REG_WRITE h2_SPI_MEM_MMU_ITEM_INDEX_REG entry_id w in REG_WRITE h2_SPI_MEM_MMU_ITEM_CONTENT_REG h2_SOC_MMU_INVALID w)"

definition h2_mmu_restore_entry :: "u32 \<Rightarrow> u32 \<Rightarrow> 'a world_scheme \<Rightarrow> 'a world_scheme" where
  "h2_mmu_restore_entry entry_id raw_value w =
     (let w = REG_WRITE h2_SPI_MEM_MMU_ITEM_INDEX_REG entry_id w in REG_WRITE h2_SPI_MEM_MMU_ITEM_CONTENT_REG raw_value w)"

definition h2_mmu_has_valid_entry :: "'a world_scheme \<Rightarrow> bool \<times> 'a world_scheme" where
  "h2_mmu_has_valid_entry w =
     scan_entries h2_mmu_read_entry (\<lambda>v. v AND h2_SOC_MMU_VALID \<noteq> 0)
       (unat h2_SOC_MMU_ENTRY_NUM) 0 w"

subsection \<open>ESP32-H21\<close>

definition ESP32H21_STUB_MMU_DROM_ENTRY_START :: u32 where [regs]: "ESP32H21_STUB_MMU_DROM_ENTRY_START = 2"

definition h21_mmu_get_page_size :: "'a world_scheme \<Rightarrow> u32 \<times> 'a world_scheme" where
  "h21_mmu_get_page_size w =
     (let (page_size, w) = REG_GET_FIELD h21_SPI_MEM_MMU_POWER_CTRL_REG h21_SPI_MEM_MMU_PAGE_SIZE_V h21_SPI_MEM_MMU_PAGE_SIZE_S w
      in if page_size = 0 then (STUB_MMU_PAGE_SIZE_64KB, w)
         else if page_size = 1 then (STUB_MMU_PAGE_SIZE_32KB, w)
         else if page_size = 2 then (STUB_MMU_PAGE_SIZE_16KB, w)
         else (STUB_MMU_PAGE_SIZE_8KB, w))"

definition h21_mmu_get_drom_entry_start :: "u32" where
  "h21_mmu_get_drom_entry_start = ESP32H21_STUB_MMU_DROM_ENTRY_START"

definition h21_mmu_get_drom_entry_end :: "u32" where
  "h21_mmu_get_drom_entry_end = h21_SOC_MMU_ENTRY_NUM"

definition h21_mmu_get_drom_vaddr :: "'a world_scheme \<Rightarrow> u32 \<times> 'a world_scheme" where
  "h21_mmu_get_drom_vaddr w =
     (let (page_size, w) = h21_mmu_get_page_size w
      in (h21_SOC_DROM_LOW + h21_mmu_get_drom_entry_start * page_size, w))"

definition h21_mmu_write_entry :: "u32 \<Rightarrow> u32 \<Rightarrow> 'a world_scheme \<Rightarrow> 'a world_scheme" where
  "h21_mmu_write_entry entry_id flash_page_num w =
     (let (encrypted, w) = stub_target_security_flash_is_encrypted w;
          flash_page_num = (if encrypted then flash_page_num OR h21_SOC_MMU_SENSITIVE else flash_page_num);
          mmu_raw_value = flash_page_num OR h21_SOC_MMU_VALID;
          w = REG_WRITE h21_SPI_MEM_MMU_ITEM_INDEX_REG entry_id w
      in REG_WRITE h21_SPI_MEM_MMU_ITEM_CONTENT_REG mmu_raw_value w)"

definition h21_mmu_read_entry :: "u32 \<Rightarrow> 'a world_scheme \<Rightarrow> u32 \<times> 'a world_scheme" where
  "h21_mmu_read_entry entry_id w =
     (let w = REG_WRITE h21_SPI_MEM_MMU_ITEM_INDEX_REG entry_id w in REG_READ h21_SPI_MEM_MMU_ITEM_CONTENT_REG w)"

definition h21_mmu_set_entry_invalid :: "u32 \<Rightarrow> 'a world_scheme \<Rightarrow> 'a world_scheme" where
  "h21_mmu_set_entry_invalid entry_id w =
     (let w = REG_WRITE h21_SPI_MEM_MMU_ITEM_INDEX_REG entry_id w in REG_WRITE h21_SPI_MEM_MMU_ITEM_CONTENT_REG h21_SOC_MMU_INVALID w)"

definition h21_mmu_restore_entry :: "u32 \<Rightarrow> u32 \<Rightarrow> 'a world_scheme \<Rightarrow> 'a world_scheme" where
  "h21_mmu_restore_entry entry_id raw_value w =
     (let w = REG_WRITE h21_SPI_MEM_MMU_ITEM_INDEX_REG entry_id w in REG_WRITE h21_SPI_MEM_MMU_ITEM_CONTENT_REG raw_value w)"

definition h21_mmu_has_valid_entry :: "'a world_scheme \<Rightarrow> bool \<times> 'a world_scheme" where
  "h21_mmu_has_valid_entry w =
     scan_entries h21_mmu_read_entry (\<lambda>v. v AND h21_SOC_MMU_VALID \<noteq> 0)
       (unat h21_SOC_MMU_ENTRY_NUM) 0 w"

subsection \<open>ESP32-C61\<close>

definition ESP32C61_STUB_MMU_DROM_ENTRY_START :: u32 where [regs]: "ESP32C61_STUB_MMU_DROM_ENTRY_START = 2"

definition c61_mmu_get_page_size :: "'a world_scheme \<Rightarrow> u32 \<times> 'a world_scheme" where
  "c61_mmu_get_page_size w =
     (let (page_size, w) = REG_GET_FIELD c61_SPI_MEM_MMU_POWER_CTRL_REG c61_SPI_MMU_PAGE_SIZE_V c61_SPI_MMU_PAGE_SIZE_S w
      in if page_size = 0 then (STUB_MMU_PAGE_SIZE_64KB, w)
         else if page_size = 1 then (STUB_MMU_PAGE_SIZE_32KB, w)
         else if page_size = 2 then (STUB_MMU_PAGE_SIZE_16KB, w)
         else (STUB_MMU_PAGE_SIZE_8KB, w))"

definition c61_mmu_get_drom_entry_start :: "u32" where
  "c61_mmu_get_drom_entry_start = ESP32C61_STUB_MMU_DROM_ENTRY_START"

definition c61_mmu_get_drom_entry_end :: "u32" where
  "c61_mmu_get_drom_entry_end = c61_SOC_MMU_ENTRY_NUM"

definition c61_mmu_get_drom_vaddr :: "'a world_scheme \<Rightarrow> u32 \<times> 'a world_scheme" where
  "c61_mmu_get_drom_vaddr w =
     (let (page_size, w) = c61_mmu_get_page_size w
      in (c61_SOC_DROM_LOW + c61_mmu_get_drom_entry_start * page_size, w))"

definition c61_mmu_write_entry :: "u32 \<Rightarrow> u32 \<Rightarrow> 'a world_scheme \<Rightarrow> 'a world_scheme" where
  "c61_mmu_write_entry entry_id flash_page_num w =
     (let (encrypted, w) = stub_target_security_flash_is_encrypted w;
          flash_page_num = (if encrypted then flash_page_num OR c61_SOC_MMU_SENSITIVE else flash_page_num);
          mmu_raw_value = flash_page_num OR c61_SOC_MMU_VALID;
          w = REG_WRITE c61_SPI_MEM_MMU_ITEM_INDEX_REG entry_id w
      in REG_WRITE c61_SPI_MEM_MMU_ITEM_CONTENT_REG mmu_raw_value w)"

definition c61_mmu_read_entry :: "u32 \<Rightarrow> 'a world_scheme \<Rightarrow> u32 \<times> 'a world_scheme" where
  "c61_mmu_read_entry entry_id w =
     (let w = REG_WRITE c61_SPI_MEM_MMU_ITEM_INDEX_REG entry_id w in REG_READ c61_SPI_MEM_MMU_ITEM_CONTENT_REG w)"

definition c61_mmu_set_entry_invalid :: "u32 \<Rightarrow> 'a world_scheme \<Rightarrow> 'a world_scheme" where
  "c61_mmu_set_entry_invalid entry_id w =
     (let w = REG_WRITE c61_SPI_MEM_MMU_ITEM_INDEX_REG entry_id w in REG_WRITE c61_SPI_MEM_MMU_ITEM_CONTENT_REG c61_SOC_MMU_INVALID w)"

definition c61_mmu_restore_entry :: "u32 \<Rightarrow> u32 \<Rightarrow> 'a world_scheme \<Rightarrow> 'a world_scheme" where
  "c61_mmu_restore_entry entry_id raw_value w =
     (let w = REG_WRITE c61_SPI_MEM_MMU_ITEM_INDEX_REG entry_id w in REG_WRITE c61_SPI_MEM_MMU_ITEM_CONTENT_REG raw_value w)"

definition c61_mmu_has_valid_entry :: "'a world_scheme \<Rightarrow> bool \<times> 'a world_scheme" where
  "c61_mmu_has_valid_entry w =
     scan_entries c61_mmu_read_entry (\<lambda>v. v AND c61_SOC_MMU_VALID \<noteq> 0)
       (unat c61_SOC_MMU_ENTRY_NUM) 0 w"

subsection \<open>ESP32-C5\<close>

definition ESP32C5_STUB_MMU_DROM_ENTRY_START :: u32 where [regs]: "ESP32C5_STUB_MMU_DROM_ENTRY_START = 2"

definition c5_mmu_get_drom_entry_start :: "u32" where
  "c5_mmu_get_drom_entry_start = ESP32C5_STUB_MMU_DROM_ENTRY_START"

definition c5_mmu_get_drom_entry_end :: "u32" where
  "c5_mmu_get_drom_entry_end = c5_SOC_MMU_ENTRY_NUM"

definition c5_mmu_get_drom_vaddr :: "'a world_scheme \<Rightarrow> u32 \<times> 'a world_scheme" where
  "c5_mmu_get_drom_vaddr w =
     (let (page_size, w) = stub_target_mmu_get_page_size w
      in (c5_SOC_DROM_LOW + c5_mmu_get_drom_entry_start * page_size, w))"

definition c5_mmu_write_entry :: "u32 \<Rightarrow> u32 \<Rightarrow> 'a world_scheme \<Rightarrow> 'a world_scheme" where
  "c5_mmu_write_entry entry_id flash_page_num w =
     (let (encrypted, w) = stub_target_security_flash_is_encrypted w;
          flash_page_num = (if encrypted then flash_page_num OR c5_SOC_MMU_SENSITIVE else flash_page_num);
          mmu_raw_value = flash_page_num OR c5_SOC_MMU_VALID;
          w = REG_WRITE c5_SPI_MEM_MMU_ITEM_INDEX_REG entry_id w
      in REG_WRITE c5_SPI_MEM_MMU_ITEM_CONTENT_REG mmu_raw_value w)"

definition c5_mmu_read_entry :: "u32 \<Rightarrow> 'a world_scheme \<Rightarrow> u32 \<times> 'a world_scheme" where
  "c5_mmu_read_entry entry_id w =
     (let w = REG_WRITE c5_SPI_MEM_MMU_ITEM_INDEX_REG entry_id w in REG_READ c5_SPI_MEM_MMU_ITEM_CONTENT_REG w)"

definition c5_mmu_set_entry_invalid :: "u32 \<Rightarrow> 'a world_scheme \<Rightarrow> 'a world_scheme" where
  "c5_mmu_set_entry_invalid entry_id w =
     (let w = REG_WRITE c5_SPI_MEM_MMU_ITEM_INDEX_REG entry_id w in REG_WRITE c5_SPI_MEM_MMU_ITEM_CONTENT_REG c5_SOC_MMU_INVALID w)"

definition c5_mmu_restore_entry :: "u32 \<Rightarrow> u32 \<Rightarrow> 'a world_scheme \<Rightarrow> 'a world_scheme" where
  "c5_mmu_restore_entry entry_id raw_value w =
     (let w = REG_WRITE c5_SPI_MEM_MMU_ITEM_INDEX_REG entry_id w in REG_WRITE c5_SPI_MEM_MMU_ITEM_CONTENT_REG raw_value w)"

definition c5_mmu_has_valid_entry :: "'a world_scheme \<Rightarrow> bool \<times> 'a world_scheme" where
  "c5_mmu_has_valid_entry w =
     scan_entries c5_mmu_read_entry (\<lambda>v. v AND c5_SOC_MMU_VALID \<noteq> 0)
       (unat c5_SOC_MMU_ENTRY_NUM) 0 w"

subsection \<open>ESP32-H4\<close>

definition ESP32H4_STUB_MMU_DROM_ENTRY_START :: u32 where [regs]: "ESP32H4_STUB_MMU_DROM_ENTRY_START = 2"

definition h4_mmu_get_page_size :: "'a world_scheme \<Rightarrow> u32 \<times> 'a world_scheme" where
  "h4_mmu_get_page_size w =
     (let (page_size, w) = REG_GET_FIELD h4_SPI_MEM_MMU_POWER_CTRL_REG h4_SPI_MMU_PAGE_SIZE_V h4_SPI_MMU_PAGE_SIZE_S w
      in if page_size = 0 then (STUB_MMU_PAGE_SIZE_64KB, w)
         else if page_size = 1 then (STUB_MMU_PAGE_SIZE_32KB, w)
         else if page_size = 2 then (STUB_MMU_PAGE_SIZE_16KB, w)
         else (STUB_MMU_PAGE_SIZE_8KB, w))"

definition h4_mmu_get_drom_entry_start :: "u32" where
  "h4_mmu_get_drom_entry_start = ESP32H4_STUB_MMU_DROM_ENTRY_START"

definition h4_mmu_get_drom_entry_end :: "u32" where
  "h4_mmu_get_drom_entry_end = h4_SOC_MMU_ENTRY_NUM"

definition h4_mmu_get_drom_vaddr :: "'a world_scheme \<Rightarrow> u32 \<times> 'a world_scheme" where
  "h4_mmu_get_drom_vaddr w =
     (let (page_size, w) = h4_mmu_get_page_size w
      in (h4_SOC_DROM_LOW + h4_mmu_get_drom_entry_start * page_size, w))"

definition h4_mmu_write_entry :: "u32 \<Rightarrow> u32 \<Rightarrow> 'a world_scheme \<Rightarrow> 'a world_scheme" where
  "h4_mmu_write_entry entry_id flash_page_num w =
     (let mmu_raw_value = flash_page_num OR h4_SOC_MMU_ACCESS_FLASH;
          (encrypted, w) = stub_target_security_flash_is_encrypted w;
          mmu_raw_value = (if encrypted then mmu_raw_value OR h4_SOC_MMU_SENSITIVE else mmu_raw_value);
          mmu_raw_value = mmu_raw_value OR h4_SOC_MMU_VALID;
          w = REG_WRITE h4_SPI_MEM_MMU_ITEM_INDEX_REG entry_id w
      in REG_WRITE h4_SPI_MEM_MMU_ITEM_CONTENT_REG mmu_raw_value w)"

definition h4_mmu_read_entry :: "u32 \<Rightarrow> 'a world_scheme \<Rightarrow> u32 \<times> 'a world_scheme" where
  "h4_mmu_read_entry entry_id w =
     (let w = REG_WRITE h4_SPI_MEM_MMU_ITEM_INDEX_REG entry_id w in REG_READ h4_SPI_MEM_MMU_ITEM_CONTENT_REG w)"

definition h4_mmu_set_entry_invalid :: "u32 \<Rightarrow> 'a world_scheme \<Rightarrow> 'a world_scheme" where
  "h4_mmu_set_entry_invalid entry_id w =
     (let w = REG_WRITE h4_SPI_MEM_MMU_ITEM_INDEX_REG entry_id w in REG_WRITE h4_SPI_MEM_MMU_ITEM_CONTENT_REG h4_SOC_MMU_INVALID w)"

definition h4_mmu_restore_entry :: "u32 \<Rightarrow> u32 \<Rightarrow> 'a world_scheme \<Rightarrow> 'a world_scheme" where
  "h4_mmu_restore_entry entry_id raw_value w =
     (let w = REG_WRITE h4_SPI_MEM_MMU_ITEM_INDEX_REG entry_id w in REG_WRITE h4_SPI_MEM_MMU_ITEM_CONTENT_REG raw_value w)"

definition h4_mmu_has_valid_entry :: "'a world_scheme \<Rightarrow> bool \<times> 'a world_scheme" where
  "h4_mmu_has_valid_entry w =
     scan_entries h4_mmu_read_entry (\<lambda>v. v AND h4_SOC_MMU_VALID \<noteq> 0 \<and> \<not> (v AND h4_SOC_MMU_ACCESS_PSRAM \<noteq> 0))
       (unat h4_SOC_MMU_ENTRY_NUM) 0 w"

subsection \<open>ESP32-P4\<close>

definition ESP32P4_STUB_MMU_DROM_ENTRY_START :: u32 where [regs]: "ESP32P4_STUB_MMU_DROM_ENTRY_START = 2"

definition p4_mmu_get_page_size :: "'a world_scheme \<Rightarrow> u32 \<times> 'a world_scheme" where
  "p4_mmu_get_page_size w = (STUB_MMU_PAGE_SIZE_64KB, w)"

definition p4_mmu_get_drom_entry_start :: "u32" where
  "p4_mmu_get_drom_entry_start = ESP32P4_STUB_MMU_DROM_ENTRY_START"

definition p4_mmu_get_drom_entry_end :: "u32" where
  "p4_mmu_get_drom_entry_end = p4_SOC_MMU_ENTRY_NUM"

definition p4_mmu_get_drom_vaddr :: "'a world_scheme \<Rightarrow> u32 \<times> 'a world_scheme" where
  "p4_mmu_get_drom_vaddr w =
     (let (page_size, w) = p4_mmu_get_page_size w
      in (p4_SOC_DROM_LOW + p4_mmu_get_drom_entry_start * page_size, w))"

definition p4_mmu_write_entry :: "u32 \<Rightarrow> u32 \<Rightarrow> 'a world_scheme \<Rightarrow> 'a world_scheme" where
  "p4_mmu_write_entry entry_id flash_page_num w =
     (let mmu_raw_value = flash_page_num OR p4_SOC_MMU_FLASH_VALID OR p4_SOC_MMU_ACCESS_FLASH;
          (encrypted, w) = stub_target_security_flash_is_encrypted w;
          mmu_raw_value = (if encrypted then mmu_raw_value OR p4_SOC_MMU_FLASH_SENSITIVE else mmu_raw_value);
          w = REG_WRITE p4_SPI_MEM_C_MMU_ITEM_INDEX_REG entry_id w
      in REG_WRITE p4_SPI_MEM_C_MMU_ITEM_CONTENT_REG mmu_raw_value w)"

definition p4_mmu_read_entry :: "u32 \<Rightarrow> 'a world_scheme \<Rightarrow> u32 \<times> 'a world_scheme" where
  "p4_mmu_read_entry entry_id w =
     (let w = REG_WRITE p4_SPI_MEM_C_MMU_ITEM_INDEX_REG entry_id w in REG_READ p4_SPI_MEM_C_MMU_ITEM_CONTENT_REG w)"

definition p4_mmu_set_entry_invalid :: "u32 \<Rightarrow> 'a world_scheme \<Rightarrow> 'a world_scheme" where
  "p4_mmu_set_entry_invalid entry_id w =
     (let w = REG_WRITE p4_SPI_MEM_C_MMU_ITEM_INDEX_REG entry_id w in REG_WRITE p4_SPI_MEM_C_MMU_ITEM_CONTENT_REG p4_SOC_MMU_FLASH_INVALID w)"

definition p4_mmu_restore_entry :: "u32 \<Rightarrow> u32 \<Rightarrow> 'a world_scheme \<Rightarrow> 'a world_scheme" where
  "p4_mmu_restore_entry entry_id raw_value w =
     (let w = REG_WRITE p4_SPI_MEM_C_MMU_ITEM_INDEX_REG entry_id w in REG_WRITE p4_SPI_MEM_C_MMU_ITEM_CONTENT_REG raw_value w)"

definition p4_mmu_has_valid_entry :: "'a world_scheme \<Rightarrow> bool \<times> 'a world_scheme" where
  "p4_mmu_has_valid_entry w =
     scan_entries p4_mmu_read_entry (\<lambda>v. v AND p4_SOC_MMU_FLASH_VALID = p4_SOC_MMU_FLASH_VALID)
       (unat p4_SOC_MMU_ENTRY_NUM) 0 w"

subsection \<open>ESP32-S31\<close>

definition ESP32S31_STUB_MMU_DROM_ENTRY_START :: u32 where [regs]: "ESP32S31_STUB_MMU_DROM_ENTRY_START = 2"

definition s31_mmu_get_page_size :: "'a world_scheme \<Rightarrow> u32 \<times> 'a world_scheme" where
  "s31_mmu_get_page_size w =
     (let (page_size, w) = REG_GET_FIELD s31_SPI_MEM_C_MMU_POWER_CTRL_REG s31_SPI_MMU_PAGE_SIZE_V s31_SPI_MMU_PAGE_SIZE_S w
      in if page_size = 0 then (STUB_MMU_PAGE_SIZE_256KB, w)
         else if page_size = 1 then (STUB_MMU_PAGE_SIZE_128KB, w)
         else if page_size = 2 then (STUB_MMU_PAGE_SIZE_64KB, w)
         else (STUB_MMU_PAGE_SIZE_32KB, w))"

definition s31_mmu_get_drom_entry_start :: "u32" where
  "s31_mmu_get_drom_entry_start = ESP32S31_STUB_MMU_DROM_ENTRY_START"

definition s31_mmu_get_drom_entry_end :: "u32" where
  "s31_mmu_get_drom_entry_end = s31_SOC_MMU_ENTRY_NUM"

definition s31_mmu_get_drom_vaddr :: "'a world_scheme \<Rightarrow> u32 \<times> 'a world_scheme" where
  "s31_mmu_get_drom_vaddr w =
     (let (page_size, w) = s31_mmu_get_page_size w
      in (s31_SOC_DROM_LOW + s31_mmu_get_drom_entry_start * page_size, w))"

definition s31_mmu_write_entry :: "u32 \<Rightarrow> u32 \<Rightarrow> 'a world_scheme \<Rightarrow> 'a world_scheme" where
  "s31_mmu_write_entry entry_id flash_page_num w =
     (let mmu_raw_value = flash_page_num OR s31_SOC_MMU_FLASH_VALID OR s31_SOC_MMU_ACCESS_FLASH;
          (encrypted, w) = stub_target_security_flash_is_encrypted w;
          mmu_raw_value = (if encrypted then mmu_raw_value OR s31_SOC_MMU_FLASH_SENSITIVE else mmu_raw_value);
          w = REG_WRITE s31_SPI_MEM_C_MMU_ITEM_INDEX_REG entry_id w
      in REG_WRITE s31_SPI_MEM_C_MMU_ITEM_CONTENT_REG mmu_raw_value w)"

definition s31_mmu_read_entry :: "u32 \<Rightarrow> 'a world_scheme \<Rightarrow> u32 \<times> 'a world_scheme" where
  "s31_mmu_read_entry entry_id w =
     (let w = REG_WRITE s31_SPI_MEM_C_MMU_ITEM_INDEX_REG entry_id w in REG_READ s31_SPI_MEM_C_MMU_ITEM_CONTENT_REG w)"

definition s31_mmu_set_entry_invalid :: "u32 \<Rightarrow> 'a world_scheme \<Rightarrow> 'a world_scheme" where
  "s31_mmu_set_entry_invalid entry_id w =
     (let w = REG_WRITE s31_SPI_MEM_C_MMU_ITEM_INDEX_REG entry_id w in REG_WRITE s31_SPI_MEM_C_MMU_ITEM_CONTENT_REG s31_SOC_MMU_FLASH_INVALID w)"

definition s31_mmu_restore_entry :: "u32 \<Rightarrow> u32 \<Rightarrow> 'a world_scheme \<Rightarrow> 'a world_scheme" where
  "s31_mmu_restore_entry entry_id raw_value w =
     (let w = REG_WRITE s31_SPI_MEM_C_MMU_ITEM_INDEX_REG entry_id w in REG_WRITE s31_SPI_MEM_C_MMU_ITEM_CONTENT_REG raw_value w)"

definition s31_mmu_has_valid_entry :: "'a world_scheme \<Rightarrow> bool \<times> 'a world_scheme" where
  "s31_mmu_has_valid_entry w =
     scan_entries s31_mmu_read_entry (\<lambda>v. v AND s31_SOC_MMU_FLASH_VALID \<noteq> 0 \<and> \<not> (v AND s31_SOC_MMU_ACCESS_PSRAM \<noteq> 0))
       (unat s31_SOC_MMU_ENTRY_NUM) 0 w"

section \<open>Memory-mapped tables\<close>

subsection \<open>ESP32\<close>

text \<open>The address of \<open>DPORT\_PRO\_FLASH\_MMU\_TABLE[entry\_id]\<close>.\<close>

definition esp32_MMU_TABLE :: "u32 \<Rightarrow> u32" where
  "esp32_MMU_TABLE entry_id = esp32_DPORT_PRO_FLASH_MMU_TABLE + 4 * entry_id"

definition esp32_mmu_get_drom_entry_start :: "u32" where
  "esp32_mmu_get_drom_entry_start = esp32_SOC_MMU_DROM0_PAGES_START"

definition esp32_mmu_get_drom_entry_end :: "u32" where
  "esp32_mmu_get_drom_entry_end = esp32_SOC_MMU_DROM0_PAGES_END"

definition esp32_mmu_get_drom_vaddr :: "'a world_scheme \<Rightarrow> u32 \<times> 'a world_scheme" where
  "esp32_mmu_get_drom_vaddr w = (esp32_SOC_DROM_LOW, w)"

definition esp32_mmu_write_entry :: "u32 \<Rightarrow> u32 \<Rightarrow> 'a world_scheme \<Rightarrow> 'a world_scheme" where
  "esp32_mmu_write_entry entry_id flash_page_num w = REG_WRITE (esp32_MMU_TABLE entry_id) flash_page_num w"

definition esp32_mmu_read_entry :: "u32 \<Rightarrow> 'a world_scheme \<Rightarrow> u32 \<times> 'a world_scheme" where
  "esp32_mmu_read_entry entry_id w = REG_READ (esp32_MMU_TABLE entry_id) w"

definition esp32_mmu_set_entry_invalid :: "u32 \<Rightarrow> 'a world_scheme \<Rightarrow> 'a world_scheme" where
  "esp32_mmu_set_entry_invalid entry_id w = REG_WRITE (esp32_MMU_TABLE entry_id) esp32_SOC_MMU_INVALID w"

definition esp32_mmu_restore_entry :: "u32 \<Rightarrow> u32 \<Rightarrow> 'a world_scheme \<Rightarrow> 'a world_scheme" where
  "esp32_mmu_restore_entry entry_id raw_value w = REG_WRITE (esp32_MMU_TABLE entry_id) raw_value w"

subsection \<open>ESP32-S2\<close>

text \<open>The address of \<open>DR\_REG\_MMU\_TABLE[entry\_id]\<close>.\<close>

definition s2_MMU_TABLE :: "u32 \<Rightarrow> u32" where
  "s2_MMU_TABLE entry_id = s2_DR_REG_MMU_TABLE + 4 * entry_id"

definition s2_mmu_get_drom_entry_start :: "u32" where
  "s2_mmu_get_drom_entry_start = s2_SOC_MMU_DROM0_PAGES_START"

definition s2_mmu_get_drom_entry_end :: "u32" where
  "s2_mmu_get_drom_entry_end = s2_SOC_MMU_DROM0_PAGES_END"

definition s2_mmu_get_drom_vaddr :: "'a world_scheme \<Rightarrow> u32 \<times> 'a world_scheme" where
  "s2_mmu_get_drom_vaddr w = (s2_SOC_DROM_LOW, w)"

definition s2_mmu_write_entry :: "u32 \<Rightarrow> u32 \<Rightarrow> 'a world_scheme \<Rightarrow> 'a world_scheme" where
  "s2_mmu_write_entry entry_id flash_page_num w = REG_WRITE (s2_MMU_TABLE entry_id) (flash_page_num OR s2_SOC_MMU_ACCESS_FLASH) w"

definition s2_mmu_read_entry :: "u32 \<Rightarrow> 'a world_scheme \<Rightarrow> u32 \<times> 'a world_scheme" where
  "s2_mmu_read_entry entry_id w = REG_READ (s2_MMU_TABLE entry_id) w"

definition s2_mmu_set_entry_invalid :: "u32 \<Rightarrow> 'a world_scheme \<Rightarrow> 'a world_scheme" where
  "s2_mmu_set_entry_invalid entry_id w = REG_WRITE (s2_MMU_TABLE entry_id) s2_SOC_MMU_INVALID w"

definition s2_mmu_restore_entry :: "u32 \<Rightarrow> u32 \<Rightarrow> 'a world_scheme \<Rightarrow> 'a world_scheme" where
  "s2_mmu_restore_entry entry_id raw_value w = REG_WRITE (s2_MMU_TABLE entry_id) raw_value w"

subsection \<open>ESP32-C2\<close>

definition ESP32C2_STUB_MMU_DROM_ENTRY_START :: u32 where [regs]: "ESP32C2_STUB_MMU_DROM_ENTRY_START = 2"

definition ESP32C2_STUB_MMU_DROM_ENTRY_END :: u32 where [regs]: "ESP32C2_STUB_MMU_DROM_ENTRY_END = 64"

text \<open>The address of \<open>DR\_REG\_MMU\_TABLE[entry\_id]\<close>.\<close>

definition c2_MMU_TABLE :: "u32 \<Rightarrow> u32" where
  "c2_MMU_TABLE entry_id = c2_DR_REG_MMU_TABLE + 4 * entry_id"

definition c2_mmu_get_page_size :: "'a world_scheme \<Rightarrow> u32 \<times> 'a world_scheme" where
  "c2_mmu_get_page_size w =
     (let (page_size, w) = REG_GET_FIELD c2_EXTMEM_CACHE_CONF_MISC_REG c2_EXTMEM_CACHE_MMU_PAGE_SIZE_V c2_EXTMEM_CACHE_MMU_PAGE_SIZE_S w
      in if page_size = 0 then (STUB_MMU_PAGE_SIZE_16KB, w)
         else if page_size = 1 then (STUB_MMU_PAGE_SIZE_32KB, w)
         else (STUB_MMU_PAGE_SIZE_64KB, w))"

definition c2_mmu_get_drom_entry_start :: "u32" where
  "c2_mmu_get_drom_entry_start = ESP32C2_STUB_MMU_DROM_ENTRY_START"

definition c2_mmu_get_drom_entry_end :: "u32" where
  "c2_mmu_get_drom_entry_end = ESP32C2_STUB_MMU_DROM_ENTRY_END"

definition c2_mmu_get_drom_vaddr :: "'a world_scheme \<Rightarrow> u32 \<times> 'a world_scheme" where
  "c2_mmu_get_drom_vaddr w =
     (let (page_size, w) = c2_mmu_get_page_size w
      in (c2_SOC_DROM_LOW + c2_mmu_get_drom_entry_start * page_size, w))"

definition c2_mmu_write_entry :: "u32 \<Rightarrow> u32 \<Rightarrow> 'a world_scheme \<Rightarrow> 'a world_scheme" where
  "c2_mmu_write_entry entry_id flash_page_num w = REG_WRITE (c2_MMU_TABLE entry_id) flash_page_num w"

definition c2_mmu_read_entry :: "u32 \<Rightarrow> 'a world_scheme \<Rightarrow> u32 \<times> 'a world_scheme" where
  "c2_mmu_read_entry entry_id w = REG_READ (c2_MMU_TABLE entry_id) w"

definition c2_mmu_set_entry_invalid :: "u32 \<Rightarrow> 'a world_scheme \<Rightarrow> 'a world_scheme" where
  "c2_mmu_set_entry_invalid entry_id w = REG_WRITE (c2_MMU_TABLE entry_id) c2_SOC_MMU_INVALID w"

definition c2_mmu_restore_entry :: "u32 \<Rightarrow> u32 \<Rightarrow> 'a world_scheme \<Rightarrow> 'a world_scheme" where
  "c2_mmu_restore_entry entry_id raw_value w = REG_WRITE (c2_MMU_TABLE entry_id) raw_value w"

subsection \<open>ESP32-C3\<close>

definition ESP32C3_STUB_MMU_DROM_ENTRY_START :: u32 where [regs]: "ESP32C3_STUB_MMU_DROM_ENTRY_START = 2"

definition ESP32C3_STUB_MMU_DROM_ENTRY_END :: u32 where [regs]: "ESP32C3_STUB_MMU_DROM_ENTRY_END = 128"

text \<open>The address of \<open>DR\_REG\_MMU\_TABLE[entry\_id]\<close>.\<close>

definition c3_MMU_TABLE :: "u32 \<Rightarrow> u32" where
  "c3_MMU_TABLE entry_id = c3_DR_REG_MMU_TABLE + 4 * entry_id"

definition c3_mmu_get_drom_entry_start :: "u32" where
  "c3_mmu_get_drom_entry_start = ESP32C3_STUB_MMU_DROM_ENTRY_START"

definition c3_mmu_get_drom_entry_end :: "u32" where
  "c3_mmu_get_drom_entry_end = ESP32C3_STUB_MMU_DROM_ENTRY_END"

definition c3_mmu_get_drom_vaddr :: "'a world_scheme \<Rightarrow> u32 \<times> 'a world_scheme" where
  "c3_mmu_get_drom_vaddr w =
     (let (page_size, w) = stub_target_mmu_get_page_size w
      in (c3_SOC_DROM_LOW + c3_mmu_get_drom_entry_start * page_size, w))"

definition c3_mmu_write_entry :: "u32 \<Rightarrow> u32 \<Rightarrow> 'a world_scheme \<Rightarrow> 'a world_scheme" where
  "c3_mmu_write_entry entry_id flash_page_num w = REG_WRITE (c3_MMU_TABLE entry_id) flash_page_num w"

definition c3_mmu_read_entry :: "u32 \<Rightarrow> 'a world_scheme \<Rightarrow> u32 \<times> 'a world_scheme" where
  "c3_mmu_read_entry entry_id w = REG_READ (c3_MMU_TABLE entry_id) w"

definition c3_mmu_set_entry_invalid :: "u32 \<Rightarrow> 'a world_scheme \<Rightarrow> 'a world_scheme" where
  "c3_mmu_set_entry_invalid entry_id w = REG_WRITE (c3_MMU_TABLE entry_id) c3_SOC_MMU_INVALID w"

definition c3_mmu_restore_entry :: "u32 \<Rightarrow> u32 \<Rightarrow> 'a world_scheme \<Rightarrow> 'a world_scheme" where
  "c3_mmu_restore_entry entry_id raw_value w = REG_WRITE (c3_MMU_TABLE entry_id) raw_value w"

section \<open>The interface, chip by chip\<close>

text \<open>The ESP8266 has no MMU driver: the weak versions of \<open>common/src/mmu.c\<close> are linked.\<close>

fun mmu_target_of :: "chip \<Rightarrow> 'a world_scheme mmu_target" where
  "mmu_target_of ESP32C6 =
     \<lparr>tm_get_page_size = c6_mmu_get_page_size, tm_get_drom_vaddr = c6_mmu_get_drom_vaddr,
      tm_get_drom_entry_start = c6_mmu_get_drom_entry_start,
      tm_get_drom_entry_end = c6_mmu_get_drom_entry_end,
      tm_write_entry = c6_mmu_write_entry, tm_read_entry = c6_mmu_read_entry,
      tm_set_entry_invalid = c6_mmu_set_entry_invalid, tm_restore_entry = c6_mmu_restore_entry,
      tm_has_valid_entry = c6_mmu_has_valid_entry\<rparr>"
| "mmu_target_of ESP32H2 =
     \<lparr>tm_get_page_size = h2_mmu_get_page_size, tm_get_drom_vaddr = h2_mmu_get_drom_vaddr,
      tm_get_drom_entry_start = h2_mmu_get_drom_entry_start,
      tm_get_drom_entry_end = h2_mmu_get_drom_entry_end,
      tm_write_entry = h2_mmu_write_entry, tm_read_entry = h2_mmu_read_entry,
      tm_set_entry_invalid = h2_mmu_set_entry_invalid, tm_restore_entry = h2_mmu_restore_entry,
      tm_has_valid_entry = h2_mmu_has_valid_entry\<rparr>"
| "mmu_target_of ESP32H21 =
     \<lparr>tm_get_page_size = h21_mmu_get_page_size, tm_get_drom_vaddr = h21_mmu_get_drom_vaddr,
      tm_get_drom_entry_start = h21_mmu_get_drom_entry_start,
      tm_get_drom_entry_end = h21_mmu_get_drom_entry_end,
      tm_write_entry = h21_mmu_write_entry, tm_read_entry = h21_mmu_read_entry,
      tm_set_entry_invalid = h21_mmu_set_entry_invalid, tm_restore_entry = h21_mmu_restore_entry,
      tm_has_valid_entry = h21_mmu_has_valid_entry\<rparr>"
| "mmu_target_of ESP32C61 =
     \<lparr>tm_get_page_size = c61_mmu_get_page_size, tm_get_drom_vaddr = c61_mmu_get_drom_vaddr,
      tm_get_drom_entry_start = c61_mmu_get_drom_entry_start,
      tm_get_drom_entry_end = c61_mmu_get_drom_entry_end,
      tm_write_entry = c61_mmu_write_entry, tm_read_entry = c61_mmu_read_entry,
      tm_set_entry_invalid = c61_mmu_set_entry_invalid, tm_restore_entry = c61_mmu_restore_entry,
      tm_has_valid_entry = c61_mmu_has_valid_entry\<rparr>"
| "mmu_target_of ESP32C5 =
     \<lparr>tm_get_page_size = stub_target_mmu_get_page_size, tm_get_drom_vaddr = c5_mmu_get_drom_vaddr,
      tm_get_drom_entry_start = c5_mmu_get_drom_entry_start,
      tm_get_drom_entry_end = c5_mmu_get_drom_entry_end,
      tm_write_entry = c5_mmu_write_entry, tm_read_entry = c5_mmu_read_entry,
      tm_set_entry_invalid = c5_mmu_set_entry_invalid, tm_restore_entry = c5_mmu_restore_entry,
      tm_has_valid_entry = c5_mmu_has_valid_entry\<rparr>"
| "mmu_target_of ESP32H4 =
     \<lparr>tm_get_page_size = h4_mmu_get_page_size, tm_get_drom_vaddr = h4_mmu_get_drom_vaddr,
      tm_get_drom_entry_start = h4_mmu_get_drom_entry_start,
      tm_get_drom_entry_end = h4_mmu_get_drom_entry_end,
      tm_write_entry = h4_mmu_write_entry, tm_read_entry = h4_mmu_read_entry,
      tm_set_entry_invalid = h4_mmu_set_entry_invalid, tm_restore_entry = h4_mmu_restore_entry,
      tm_has_valid_entry = h4_mmu_has_valid_entry\<rparr>"
| "mmu_target_of ESP32P4 =
     \<lparr>tm_get_page_size = p4_mmu_get_page_size, tm_get_drom_vaddr = p4_mmu_get_drom_vaddr,
      tm_get_drom_entry_start = p4_mmu_get_drom_entry_start,
      tm_get_drom_entry_end = p4_mmu_get_drom_entry_end,
      tm_write_entry = p4_mmu_write_entry, tm_read_entry = p4_mmu_read_entry,
      tm_set_entry_invalid = p4_mmu_set_entry_invalid, tm_restore_entry = p4_mmu_restore_entry,
      tm_has_valid_entry = p4_mmu_has_valid_entry\<rparr>"
| "mmu_target_of ESP32S31 =
     \<lparr>tm_get_page_size = s31_mmu_get_page_size, tm_get_drom_vaddr = s31_mmu_get_drom_vaddr,
      tm_get_drom_entry_start = s31_mmu_get_drom_entry_start,
      tm_get_drom_entry_end = s31_mmu_get_drom_entry_end,
      tm_write_entry = s31_mmu_write_entry, tm_read_entry = s31_mmu_read_entry,
      tm_set_entry_invalid = s31_mmu_set_entry_invalid, tm_restore_entry = s31_mmu_restore_entry,
      tm_has_valid_entry = s31_mmu_has_valid_entry\<rparr>"
| "mmu_target_of ESP32 =
     \<lparr>tm_get_page_size = stub_target_mmu_get_page_size, tm_get_drom_vaddr = esp32_mmu_get_drom_vaddr,
      tm_get_drom_entry_start = esp32_mmu_get_drom_entry_start,
      tm_get_drom_entry_end = esp32_mmu_get_drom_entry_end,
      tm_write_entry = esp32_mmu_write_entry, tm_read_entry = esp32_mmu_read_entry,
      tm_set_entry_invalid = esp32_mmu_set_entry_invalid, tm_restore_entry = esp32_mmu_restore_entry,
      tm_has_valid_entry = stub_target_mmu_has_valid_entry\<rparr>"
| "mmu_target_of ESP32S2 =
     \<lparr>tm_get_page_size = stub_target_mmu_get_page_size, tm_get_drom_vaddr = s2_mmu_get_drom_vaddr,
      tm_get_drom_entry_start = s2_mmu_get_drom_entry_start,
      tm_get_drom_entry_end = s2_mmu_get_drom_entry_end,
      tm_write_entry = s2_mmu_write_entry, tm_read_entry = s2_mmu_read_entry,
      tm_set_entry_invalid = s2_mmu_set_entry_invalid, tm_restore_entry = s2_mmu_restore_entry,
      tm_has_valid_entry = stub_target_mmu_has_valid_entry\<rparr>"
| "mmu_target_of ESP32C2 =
     \<lparr>tm_get_page_size = c2_mmu_get_page_size, tm_get_drom_vaddr = c2_mmu_get_drom_vaddr,
      tm_get_drom_entry_start = c2_mmu_get_drom_entry_start,
      tm_get_drom_entry_end = c2_mmu_get_drom_entry_end,
      tm_write_entry = c2_mmu_write_entry, tm_read_entry = c2_mmu_read_entry,
      tm_set_entry_invalid = c2_mmu_set_entry_invalid, tm_restore_entry = c2_mmu_restore_entry,
      tm_has_valid_entry = stub_target_mmu_has_valid_entry\<rparr>"
| "mmu_target_of ESP32C3 =
     \<lparr>tm_get_page_size = stub_target_mmu_get_page_size, tm_get_drom_vaddr = c3_mmu_get_drom_vaddr,
      tm_get_drom_entry_start = c3_mmu_get_drom_entry_start,
      tm_get_drom_entry_end = c3_mmu_get_drom_entry_end,
      tm_write_entry = c3_mmu_write_entry, tm_read_entry = c3_mmu_read_entry,
      tm_set_entry_invalid = c3_mmu_set_entry_invalid, tm_restore_entry = c3_mmu_restore_entry,
      tm_has_valid_entry = stub_target_mmu_has_valid_entry\<rparr>"
| "mmu_target_of ESP32S3 = s3_mmu_target"
| "mmu_target_of ESP8266 =
     \<lparr>tm_get_page_size = stub_target_mmu_get_page_size, tm_get_drom_vaddr = stub_target_mmu_get_drom_vaddr,
      tm_get_drom_entry_start = stub_target_mmu_get_drom_entry_start,
      tm_get_drom_entry_end = stub_target_mmu_get_drom_entry_end,
      tm_write_entry = stub_target_mmu_write_entry, tm_read_entry = stub_target_mmu_read_entry,
      tm_set_entry_invalid = stub_target_mmu_set_entry_invalid,
      tm_restore_entry = stub_target_mmu_restore_entry,
      tm_has_valid_entry = stub_target_mmu_has_valid_entry\<rparr>"

end
