(* ===== verification/Chip_Cache.thy ===== *)
theory Chip_Cache
  imports Chip_Mmu
begin

text \<open>
  The caches of the other chips, \<open>src/target/CHIP/src/cache.c\<close>, each function translated with
  the chip's name in front. Stopping the cache freezes it on most chips; on the ESP32-S2 and the
  ESP32-P4 it suspends the caches or their autoload engines and remembers in
  \<open>s\_saved\_autoload\<close> which of them were running.
\<close>

record autoload_world = mmap_world +
  s_saved_autoload :: u32

definition STUB_CACHE_CAP_SHARED_IDCACHE :: u32 where
  [regs]: "STUB_CACHE_CAP_SHARED_IDCACHE = BIT 1"

section \<open>One cache for instructions and data\<close>

subsection \<open>ESP32-C6\<close>

definition c6_cache_get_caps :: "u32" where
  "c6_cache_get_caps = STUB_CACHE_CAP_HAS_INVALIDATE_ADDR OR STUB_CACHE_CAP_SHARED_IDCACHE"

definition c6_cache_invalidate_all :: "'a world_scheme \<Rightarrow> 'a world_scheme" where
  "c6_cache_invalidate_all w = rom_void (CacheFn Cache_Invalidate_ICache_All) [] [] w"

definition c6_cache_invalidate_addr :: "u32 \<Rightarrow> u32 \<Rightarrow> 'a world_scheme \<Rightarrow> 'a world_scheme" where
  "c6_cache_invalidate_addr vaddr sz w = rom_void (CacheFn Cache_Invalidate_Addr) [vaddr, sz] [] w"

definition c6_cache_stop :: "'a world_scheme \<Rightarrow> 'a world_scheme" where
  "c6_cache_stop w = rom_void (CacheFn Cache_Freeze_ICache_Enable) [CACHE_FREEZE_ACK_BUSY] [] w"

definition c6_cache_start :: "'a world_scheme \<Rightarrow> 'a world_scheme" where
  "c6_cache_start w = rom_void (CacheFn Cache_Freeze_ICache_Disable) [] [] w"

definition c6_cache_is_enabled :: "'a world_scheme \<Rightarrow> bool \<times> 'a world_scheme" where
  "c6_cache_is_enabled w =
     (let (ctrl, w) = REG_READ c6_EXTMEM_L1_CACHE_CTRL_REG w;
          (valid, w) = c6_mmu_has_valid_entry w
      in (valid \<and> \<not> (ctrl AND (c6_EXTMEM_L1_CACHE_SHUT_DBUS OR c6_EXTMEM_L1_CACHE_SHUT_IBUS) \<noteq> 0), w))"

definition c6_cache_init :: "'s option \<Rightarrow> 'a world_scheme \<Rightarrow> 's option \<times> 'a world_scheme" where
  "c6_cache_init state w =
     (let (cache_was_enabled, w) = c6_cache_is_enabled w
      in (state, if \<not> cache_was_enabled then rom_void (CacheFn ROM_Boot_Cache_Init) [] [] w else w))"

subsection \<open>ESP32-H2\<close>

definition h2_cache_get_caps :: "u32" where
  "h2_cache_get_caps = STUB_CACHE_CAP_HAS_INVALIDATE_ADDR OR STUB_CACHE_CAP_SHARED_IDCACHE"

definition h2_cache_invalidate_all :: "'a world_scheme \<Rightarrow> 'a world_scheme" where
  "h2_cache_invalidate_all w = rom_void (CacheFn Cache_Invalidate_ICache_All) [] [] w"

definition h2_cache_invalidate_addr :: "u32 \<Rightarrow> u32 \<Rightarrow> 'a world_scheme \<Rightarrow> 'a world_scheme" where
  "h2_cache_invalidate_addr vaddr sz w = rom_void (CacheFn Cache_Invalidate_Addr) [vaddr, sz] [] w"

definition h2_cache_stop :: "'a world_scheme \<Rightarrow> 'a world_scheme" where
  "h2_cache_stop w = rom_void (CacheFn Cache_Freeze_ICache_Enable) [CACHE_FREEZE_ACK_BUSY] [] w"

definition h2_cache_start :: "'a world_scheme \<Rightarrow> 'a world_scheme" where
  "h2_cache_start w = rom_void (CacheFn Cache_Freeze_ICache_Disable) [] [] w"

definition h2_cache_is_enabled :: "'a world_scheme \<Rightarrow> bool \<times> 'a world_scheme" where
  "h2_cache_is_enabled w =
     (let (ctrl, w) = REG_READ h2_EXTMEM_L1_CACHE_CTRL_REG w;
          (valid, w) = h2_mmu_has_valid_entry w
      in (valid \<and> \<not> (ctrl AND (h2_EXTMEM_L1_CACHE_SHUT_DBUS OR h2_EXTMEM_L1_CACHE_SHUT_IBUS) \<noteq> 0), w))"

definition h2_cache_init :: "'s option \<Rightarrow> 'a world_scheme \<Rightarrow> 's option \<times> 'a world_scheme" where
  "h2_cache_init state w =
     (let (cache_was_enabled, w) = h2_cache_is_enabled w
      in (state, if \<not> cache_was_enabled then rom_void (CacheFn ROM_Boot_Cache_Init) [] [] w else w))"

subsection \<open>ESP32-H21\<close>

definition h21_cache_get_caps :: "u32" where
  "h21_cache_get_caps = STUB_CACHE_CAP_HAS_INVALIDATE_ADDR OR STUB_CACHE_CAP_SHARED_IDCACHE"

definition h21_cache_invalidate_all :: "'a world_scheme \<Rightarrow> 'a world_scheme" where
  "h21_cache_invalidate_all w = rom_void (CacheFn Cache_Invalidate_ICache_All) [] [] w"

definition h21_cache_invalidate_addr :: "u32 \<Rightarrow> u32 \<Rightarrow> 'a world_scheme \<Rightarrow> 'a world_scheme" where
  "h21_cache_invalidate_addr vaddr sz w = rom_void (CacheFn Cache_Invalidate_Addr) [vaddr, sz] [] w"

definition h21_cache_stop :: "'a world_scheme \<Rightarrow> 'a world_scheme" where
  "h21_cache_stop w = rom_void (CacheFn Cache_Freeze_ICache_Enable) [CACHE_FREEZE_ACK_BUSY] [] w"

definition h21_cache_start :: "'a world_scheme \<Rightarrow> 'a world_scheme" where
  "h21_cache_start w = rom_void (CacheFn Cache_Freeze_ICache_Disable) [] [] w"

definition h21_cache_is_enabled :: "'a world_scheme \<Rightarrow> bool \<times> 'a world_scheme" where
  "h21_cache_is_enabled w =
     (let (ctrl, w) = REG_READ h21_CACHE_L1_CACHE_CTRL_REG w;
          (valid, w) = h21_mmu_has_valid_entry w
      in (valid \<and> \<not> (ctrl AND (h21_CACHE_L1_CACHE_SHUT_BUS0 OR h21_CACHE_L1_CACHE_SHUT_BUS1) \<noteq> 0), w))"

definition h21_cache_init :: "'s option \<Rightarrow> 'a world_scheme \<Rightarrow> 's option \<times> 'a world_scheme" where
  "h21_cache_init state w =
     (let (cache_was_enabled, w) = h21_cache_is_enabled w
      in (state, if \<not> cache_was_enabled then rom_void (CacheFn ROM_Boot_Cache_Init) [] [] w else w))"

subsection \<open>ESP32-C2\<close>

definition c2_cache_get_caps :: "u32" where
  "c2_cache_get_caps = STUB_CACHE_CAP_HAS_INVALIDATE_ADDR OR STUB_CACHE_CAP_SHARED_IDCACHE"

definition c2_cache_invalidate_all :: "'a world_scheme \<Rightarrow> 'a world_scheme" where
  "c2_cache_invalidate_all w = rom_void (CacheFn Cache_Invalidate_ICache_All) [] [] w"

definition c2_cache_invalidate_addr :: "u32 \<Rightarrow> u32 \<Rightarrow> 'a world_scheme \<Rightarrow> 'a world_scheme" where
  "c2_cache_invalidate_addr vaddr sz w = rom_void (CacheFn Cache_Invalidate_Addr) [vaddr, sz] [] w"

definition c2_cache_stop :: "'a world_scheme \<Rightarrow> 'a world_scheme" where
  "c2_cache_stop w = rom_void (CacheFn Cache_Freeze_ICache_Enable) [CACHE_FREEZE_ACK_BUSY] [] w"

definition c2_cache_start :: "'a world_scheme \<Rightarrow> 'a world_scheme" where
  "c2_cache_start w = rom_void (CacheFn Cache_Freeze_ICache_Disable) [] [] w"

definition c2_cache_is_enabled :: "'a world_scheme \<Rightarrow> bool \<times> 'a world_scheme" where
  "c2_cache_is_enabled w =
     (let (b, w) = REG_GET_BIT c2_EXTMEM_ICACHE_CTRL_REG c2_EXTMEM_ICACHE_ENABLE w
      in if b \<noteq> 0 then
           (let (b, w) = REG_GET_BIT c2_EXTMEM_ICACHE_CTRL1_REG c2_EXTMEM_ICACHE_SHUT_DBUS w
            in (\<not> (b \<noteq> 0), w))
         else (False, w))"

definition c2_cache_init :: "'s option \<Rightarrow> 'a world_scheme \<Rightarrow> 's option \<times> 'a world_scheme" where
  "c2_cache_init state w =
     (let (cache_was_enabled, w) = c2_cache_is_enabled w
      in (state, if \<not> cache_was_enabled then rom_void (CacheFn ROM_Boot_Cache_Init) [] [] w else w))"

subsection \<open>ESP32-C3\<close>

definition c3_cache_get_caps :: "u32" where
  "c3_cache_get_caps = STUB_CACHE_CAP_HAS_INVALIDATE_ADDR OR STUB_CACHE_CAP_SHARED_IDCACHE"

definition c3_cache_invalidate_all :: "'a world_scheme \<Rightarrow> 'a world_scheme" where
  "c3_cache_invalidate_all w = rom_void (CacheFn Cache_Invalidate_ICache_All) [] [] w"

definition c3_cache_invalidate_addr :: "u32 \<Rightarrow> u32 \<Rightarrow> 'a world_scheme \<Rightarrow> 'a world_scheme" where
  "c3_cache_invalidate_addr vaddr sz w = rom_void (CacheFn Cache_Invalidate_Addr) [vaddr, sz] [] w"

definition c3_cache_stop :: "'a world_scheme \<Rightarrow> 'a world_scheme" where
  "c3_cache_stop w = rom_void (CacheFn Cache_Freeze_ICache_Enable) [CACHE_FREEZE_ACK_BUSY] [] w"

definition c3_cache_start :: "'a world_scheme \<Rightarrow> 'a world_scheme" where
  "c3_cache_start w = rom_void (CacheFn Cache_Freeze_ICache_Disable) [] [] w"

definition c3_cache_is_enabled :: "'a world_scheme \<Rightarrow> bool \<times> 'a world_scheme" where
  "c3_cache_is_enabled w =
     (let (b, w) = REG_GET_BIT c3_EXTMEM_ICACHE_CTRL_REG c3_EXTMEM_ICACHE_ENABLE w
      in if b \<noteq> 0 then
           (let (b, w) = REG_GET_BIT c3_EXTMEM_ICACHE_CTRL1_REG c3_EXTMEM_ICACHE_SHUT_DBUS w
            in (\<not> (b \<noteq> 0), w))
         else (False, w))"

definition c3_cache_init :: "'s option \<Rightarrow> 'a world_scheme \<Rightarrow> 's option \<times> 'a world_scheme" where
  "c3_cache_init state w =
     (let (cache_was_enabled, w) = c3_cache_is_enabled w
      in (state, if \<not> cache_was_enabled then rom_void (CacheFn ROM_Boot_Cache_Init) [] [] w else w))"

subsection \<open>ESP32-C61\<close>

definition c61_cache_get_caps :: "u32" where
  "c61_cache_get_caps = STUB_CACHE_CAP_HAS_INVALIDATE_ADDR OR STUB_CACHE_CAP_SHARED_IDCACHE"

definition c61_cache_writeback_all :: "'a world_scheme \<Rightarrow> 'a world_scheme" where
  "c61_cache_writeback_all w = rom_void (CacheFn Cache_WriteBack_All) [] [] w"

definition c61_cache_invalidate_all :: "'a world_scheme \<Rightarrow> 'a world_scheme" where
  "c61_cache_invalidate_all w = rom_void (CacheFn Cache_Invalidate_All) [] [] w"

definition c61_cache_invalidate_addr :: "u32 \<Rightarrow> u32 \<Rightarrow> 'a world_scheme \<Rightarrow> 'a world_scheme" where
  "c61_cache_invalidate_addr vaddr sz w = rom_void (CacheFn Cache_Invalidate_Addr) [vaddr, sz] [] w"

definition c61_cache_stop :: "'a world_scheme \<Rightarrow> 'a world_scheme" where
  "c61_cache_stop w = rom_void (CacheFn Cache_Freeze_Enable) [CACHE_FREEZE_ACK_BUSY] [] w"

definition c61_cache_start :: "'a world_scheme \<Rightarrow> 'a world_scheme" where
  "c61_cache_start w = rom_void (CacheFn Cache_Freeze_Disable) [] [] w"

definition c61_cache_is_enabled :: "'a world_scheme \<Rightarrow> bool \<times> 'a world_scheme" where
  "c61_cache_is_enabled w =
     (let (ctrl, w) = REG_READ c61_CACHE_L1_CACHE_CTRL_REG w;
          (valid, w) = c61_mmu_has_valid_entry w
      in (valid \<and> \<not> (ctrl AND (c61_CACHE_L1_CACHE_SHUT_BUS0 OR c61_CACHE_L1_CACHE_SHUT_BUS1) \<noteq> 0), w))"

definition c61_cache_init :: "'s option \<Rightarrow> 'a world_scheme \<Rightarrow> 's option \<times> 'a world_scheme" where
  "c61_cache_init state w =
     (let (cache_was_enabled, w) = c61_cache_is_enabled w
      in (state, if \<not> cache_was_enabled then rom_void (CacheFn ROM_Boot_Cache_Init) [] [] w else w))"

subsection \<open>ESP32-C5\<close>

definition c5_cache_get_caps :: "u32" where
  "c5_cache_get_caps = STUB_CACHE_CAP_HAS_INVALIDATE_ADDR OR STUB_CACHE_CAP_SHARED_IDCACHE"

definition c5_cache_writeback_all :: "'a world_scheme \<Rightarrow> 'a world_scheme" where
  "c5_cache_writeback_all w = rom_void (CacheFn Cache_WriteBack_All) [] [] w"

definition c5_cache_writeback_addr :: "u32 \<Rightarrow> u32 \<Rightarrow> 'a world_scheme \<Rightarrow> 'a world_scheme" where
  "c5_cache_writeback_addr vaddr sz w = rom_void (CacheFn Cache_WriteBack_Addr) [vaddr, sz] [] w"

definition c5_cache_invalidate_all :: "'a world_scheme \<Rightarrow> 'a world_scheme" where
  "c5_cache_invalidate_all w = rom_void (CacheFn Cache_Invalidate_All) [] [] w"

definition c5_cache_invalidate_addr :: "u32 \<Rightarrow> u32 \<Rightarrow> 'a world_scheme \<Rightarrow> 'a world_scheme" where
  "c5_cache_invalidate_addr vaddr sz w = rom_void (CacheFn Cache_Invalidate_Addr) [vaddr, sz] [] w"

definition c5_cache_stop :: "'a world_scheme \<Rightarrow> 'a world_scheme" where
  "c5_cache_stop w = rom_void (CacheFn Cache_Freeze_Enable) [CACHE_FREEZE_ACK_BUSY] [] w"

definition c5_cache_start :: "'a world_scheme \<Rightarrow> 'a world_scheme" where
  "c5_cache_start w = rom_void (CacheFn Cache_Freeze_Disable) [] [] w"

definition c5_cache_is_enabled :: "'a world_scheme \<Rightarrow> bool \<times> 'a world_scheme" where
  "c5_cache_is_enabled w =
     (let (ctrl, w) = REG_READ c5_CACHE_L1_CACHE_CTRL_REG w;
          (valid, w) = c5_mmu_has_valid_entry w
      in (valid \<and> \<not> (ctrl AND (c5_CACHE_L1_CACHE_SHUT_BUS0 OR c5_CACHE_L1_CACHE_SHUT_BUS1) \<noteq> 0), w))"

definition c5_cache_init :: "'s option \<Rightarrow> 'a world_scheme \<Rightarrow> 's option \<times> 'a world_scheme" where
  "c5_cache_init state w =
     (let (cache_was_enabled, w) = c5_cache_is_enabled w
      in (state, if \<not> cache_was_enabled then rom_void (CacheFn ROM_Boot_Cache_Init) [] [] w else w))"

section \<open>Several caches, named by a bit map\<close>

subsection \<open>ESP32-H4\<close>

definition h4_CACHE_MAP_ICACHE0 :: u32 where [regs]: "h4_CACHE_MAP_ICACHE0 = BIT 0"

definition h4_CACHE_MAP_ICACHE1 :: u32 where [regs]: "h4_CACHE_MAP_ICACHE1 = BIT 1"

definition h4_CACHE_MAP_DCACHE :: u32 where [regs]: "h4_CACHE_MAP_DCACHE = BIT 4"

definition h4_CACHE_MAP_ALL :: u32 where [regs]: "h4_CACHE_MAP_ALL = h4_CACHE_MAP_ICACHE0 OR h4_CACHE_MAP_ICACHE1 OR h4_CACHE_MAP_DCACHE"

definition h4_cache_get_caps :: "u32" where
  "h4_cache_get_caps = STUB_CACHE_CAP_HAS_INVALIDATE_ADDR"

definition h4_cache_writeback_all :: "'a world_scheme \<Rightarrow> 'a world_scheme" where
  "h4_cache_writeback_all w = rom_void (CacheFn Cache_WriteBack_All) [] [] w"

definition h4_cache_writeback_addr :: "u32 \<Rightarrow> u32 \<Rightarrow> 'a world_scheme \<Rightarrow> 'a world_scheme" where
  "h4_cache_writeback_addr vaddr sz w = rom_void (CacheFn Cache_WriteBack_Addr) [vaddr, sz] [] w"

definition h4_cache_invalidate_all :: "'a world_scheme \<Rightarrow> 'a world_scheme" where
  "h4_cache_invalidate_all w = rom_void (CacheFn Cache_Invalidate_All) [h4_CACHE_MAP_ALL] [] w"

definition h4_cache_invalidate_addr :: "u32 \<Rightarrow> u32 \<Rightarrow> 'a world_scheme \<Rightarrow> 'a world_scheme" where
  "h4_cache_invalidate_addr vaddr sz w = rom_void (CacheFn Cache_Invalidate_Addr) [h4_CACHE_MAP_ALL, vaddr, sz] [] w"

definition h4_cache_stop :: "'a world_scheme \<Rightarrow> 'a world_scheme" where
  "h4_cache_stop w = rom_void (CacheFn Cache_Freeze_Enable) [h4_CACHE_MAP_ALL, CACHE_FREEZE_ACK_BUSY] [] w"

definition h4_cache_start :: "'a world_scheme \<Rightarrow> 'a world_scheme" where
  "h4_cache_start w = rom_void (CacheFn Cache_Freeze_Disable) [h4_CACHE_MAP_ALL] [] w"

definition h4_cache_is_enabled :: "'a world_scheme \<Rightarrow> bool \<times> 'a world_scheme" where
  "h4_cache_is_enabled w =
     (let (icache_ctrl, w) = REG_READ h4_CACHE_L1_ICACHE_CTRL_REG w
      in if icache_ctrl AND (h4_CACHE_L1_ICACHE_SHUT_IBUS0 OR h4_CACHE_L1_ICACHE_SHUT_IBUS1) \<noteq> 0
         then (False, w)
         else
           (let (dcache_ctrl, w) = REG_READ h4_CACHE_L1_DCACHE_CTRL_REG w
            in if dcache_ctrl AND (h4_CACHE_L1_DCACHE_SHUT_DBUS0 OR h4_CACHE_L1_DCACHE_SHUT_DBUS1) \<noteq> 0
               then (False, w) else h4_mmu_has_valid_entry w))"

definition h4_cache_init :: "'s option \<Rightarrow> 'a world_scheme \<Rightarrow> 's option \<times> 'a world_scheme" where
  "h4_cache_init state w =
     (let (cache_was_enabled, w) = h4_cache_is_enabled w
      in (state, (if \<not> cache_was_enabled then 
           (let w = rom_void (CacheFn ROM_Boot_Cache_Init) [] [] w;
                w = REG_SET_BIT h4_LP_AON_SRAM_USAGE_CONF_REG h4_LP_AON_DCACHE_USAGE w
            in REG_SET_BIT h4_LP_AON_SRAM_USAGE_CONF_REG h4_LP_AON_ICACHE1_USAGE w) else w)))"

subsection \<open>ESP32-P4\<close>

definition p4_CACHE_MAP_L1_ICACHE_0 :: u32 where [regs]: "p4_CACHE_MAP_L1_ICACHE_0 = BIT 0"

definition p4_CACHE_MAP_L1_ICACHE_1 :: u32 where [regs]: "p4_CACHE_MAP_L1_ICACHE_1 = BIT 1"

definition p4_CACHE_MAP_L1_DCACHE :: u32 where [regs]: "p4_CACHE_MAP_L1_DCACHE = BIT 4"

definition p4_CACHE_MAP_L2_CACHE :: u32 where [regs]: "p4_CACHE_MAP_L2_CACHE = BIT 5"

definition p4_CACHE_MAP_L1_ICACHE :: u32 where [regs]: "p4_CACHE_MAP_L1_ICACHE = p4_CACHE_MAP_L1_ICACHE_0 OR p4_CACHE_MAP_L1_ICACHE_1"

definition p4_CACHE_MAP_ALL :: u32 where [regs]: "p4_CACHE_MAP_ALL = p4_CACHE_MAP_L1_ICACHE OR p4_CACHE_MAP_L1_DCACHE OR p4_CACHE_MAP_L2_CACHE"

definition p4_cache_get_caps :: "u32" where
  "p4_cache_get_caps = STUB_CACHE_CAP_HAS_INVALIDATE_ADDR OR STUB_CACHE_CAP_SHARED_IDCACHE"

definition p4_cache_writeback_addr :: "u32 \<Rightarrow> u32 \<Rightarrow> 'a world_scheme \<Rightarrow> 'a world_scheme" where
  "p4_cache_writeback_addr vaddr sz w = rom_void (CacheFn Cache_WriteBack_Addr) [p4_CACHE_MAP_L1_DCACHE OR p4_CACHE_MAP_L2_CACHE, vaddr, sz] [] w"

definition p4_cache_writeback_all :: "'a world_scheme \<Rightarrow> 'a world_scheme" where
  "p4_cache_writeback_all w = rom_void (CacheFn Cache_WriteBack_All) [p4_CACHE_MAP_ALL] [] w"

definition p4_cache_invalidate_all :: "'a world_scheme \<Rightarrow> 'a world_scheme" where
  "p4_cache_invalidate_all w = rom_void (CacheFn Cache_Invalidate_All) [p4_CACHE_MAP_ALL] [] w"

definition p4_cache_invalidate_addr :: "u32 \<Rightarrow> u32 \<Rightarrow> 'a world_scheme \<Rightarrow> 'a world_scheme" where
  "p4_cache_invalidate_addr vaddr sz w =
     (let w = rom_void (CacheFn Cache_Invalidate_Addr) [p4_CACHE_MAP_L2_CACHE, vaddr, sz] [] w;
          w = rom_void (CacheFn Cache_Invalidate_Addr) [p4_CACHE_MAP_L1_ICACHE, vaddr, sz] [] w
      in rom_void (CacheFn Cache_Invalidate_Addr) [p4_CACHE_MAP_L1_DCACHE, vaddr, sz] [] w)"

definition p4_cache_stop :: "'a autoload_world_scheme \<Rightarrow> 'a autoload_world_scheme" where
  "p4_cache_stop w =
     (let w = w\<lparr>s_saved_autoload := 0\<rparr>;
          (r, w) = rom_num (CacheFn Cache_Suspend_L1_CORE0_ICache_Autoload) [] [] w;
          w = (if r \<noteq> 0 then w\<lparr>s_saved_autoload := s_saved_autoload w OR BIT 0\<rparr> else w);
          (r, w) = rom_num (CacheFn Cache_Suspend_L1_CORE1_ICache_Autoload) [] [] w;
          w = (if r \<noteq> 0 then w\<lparr>s_saved_autoload := s_saved_autoload w OR BIT 1\<rparr> else w);
          (r, w) = rom_num (CacheFn Cache_Suspend_L1_DCache_Autoload) [] [] w;
          w = (if r \<noteq> 0 then w\<lparr>s_saved_autoload := s_saved_autoload w OR BIT 2\<rparr> else w);
          (r, w) = rom_num (CacheFn Cache_Suspend_L2_Cache_Autoload) [] [] w
      in if r \<noteq> 0 then w\<lparr>s_saved_autoload := s_saved_autoload w OR BIT 3\<rparr> else w)"

definition p4_cache_start :: "'a autoload_world_scheme \<Rightarrow> 'a autoload_world_scheme" where
  "p4_cache_start w =
     (let w = rom_void (CacheFn Cache_Resume_L2_Cache_Autoload) [if s_saved_autoload w AND BIT 3 \<noteq> 0 then 1 else 0] [] w;
          w = rom_void (CacheFn Cache_Resume_L1_DCache_Autoload) [if s_saved_autoload w AND BIT 2 \<noteq> 0 then 1 else 0] [] w;
          w = rom_void (CacheFn Cache_Resume_L1_CORE0_ICache_Autoload) [if s_saved_autoload w AND BIT 0 \<noteq> 0 then 1 else 0] [] w
      in rom_void (CacheFn Cache_Resume_L1_CORE1_ICache_Autoload) [if s_saved_autoload w AND BIT 1 \<noteq> 0 then 1 else 0] [] w)"

definition p4_cache_is_enabled :: "'a world_scheme \<Rightarrow> bool \<times> 'a world_scheme" where
  "p4_cache_is_enabled w =
     (let (icache_ctrl, w) = REG_READ p4_CACHE_L1_ICACHE_CTRL_REG w
      in if icache_ctrl AND (p4_CACHE_L1_ICACHE_SHUT_IBUS0 OR p4_CACHE_L1_ICACHE_SHUT_IBUS1) \<noteq> 0
         then (False, w)
         else
           (let (dcache_ctrl, w) = REG_READ p4_CACHE_L1_DCACHE_CTRL_REG w
            in if dcache_ctrl AND (p4_CACHE_L1_DCACHE_SHUT_DBUS0 OR p4_CACHE_L1_DCACHE_SHUT_DBUS1) \<noteq> 0
               then (False, w) else p4_mmu_has_valid_entry w))"

definition p4_cache_init :: "'s option \<Rightarrow> 'a world_scheme \<Rightarrow> 's option \<times> 'a world_scheme" where
  "p4_cache_init state w =
     (let (cache_was_enabled, w) = p4_cache_is_enabled w
      in (state, (if \<not> cache_was_enabled then 
           (let w = rom_void (CacheFn ROM_Boot_Cache_Init) [] [] w
            in rom_void (CacheFn Cache_Enable_L2_Cache) [0] [] w) else w)))"

subsection \<open>ESP32-S31\<close>

definition s31_CACHE_MAP_L1_ICACHE_0 :: u32 where [regs]: "s31_CACHE_MAP_L1_ICACHE_0 = BIT 0"

definition s31_CACHE_MAP_L1_ICACHE_1 :: u32 where [regs]: "s31_CACHE_MAP_L1_ICACHE_1 = BIT 1"

definition s31_CACHE_MAP_L1_DCACHE :: u32 where [regs]: "s31_CACHE_MAP_L1_DCACHE = BIT 4"

definition s31_CACHE_MAP_L1_ICACHE :: u32 where [regs]: "s31_CACHE_MAP_L1_ICACHE = s31_CACHE_MAP_L1_ICACHE_0 OR s31_CACHE_MAP_L1_ICACHE_1"

definition s31_CACHE_MAP_ALL :: u32 where [regs]: "s31_CACHE_MAP_ALL = s31_CACHE_MAP_L1_ICACHE OR s31_CACHE_MAP_L1_DCACHE"

definition s31_cache_get_caps :: "u32" where
  "s31_cache_get_caps = STUB_CACHE_CAP_HAS_INVALIDATE_ADDR OR STUB_CACHE_CAP_SHARED_IDCACHE"

definition s31_cache_writeback_addr :: "u32 \<Rightarrow> u32 \<Rightarrow> 'a world_scheme \<Rightarrow> 'a world_scheme" where
  "s31_cache_writeback_addr vaddr sz w = rom_void (CacheFn Cache_WriteBack_Addr) [s31_CACHE_MAP_L1_DCACHE, vaddr, sz] [] w"

definition s31_cache_writeback_all :: "'a world_scheme \<Rightarrow> 'a world_scheme" where
  "s31_cache_writeback_all w = rom_void (CacheFn Cache_WriteBack_All) [s31_CACHE_MAP_ALL] [] w"

definition s31_cache_invalidate_all :: "'a world_scheme \<Rightarrow> 'a world_scheme" where
  "s31_cache_invalidate_all w = rom_void (CacheFn Cache_Invalidate_All) [s31_CACHE_MAP_ALL] [] w"

definition s31_cache_invalidate_addr :: "u32 \<Rightarrow> u32 \<Rightarrow> 'a world_scheme \<Rightarrow> 'a world_scheme" where
  "s31_cache_invalidate_addr vaddr sz w =
     (let w = rom_void (CacheFn Cache_Invalidate_Addr) [s31_CACHE_MAP_L1_ICACHE, vaddr, sz] [] w
      in rom_void (CacheFn Cache_Invalidate_Addr) [s31_CACHE_MAP_L1_DCACHE, vaddr, sz] [] w)"

text \<open>A call through the ROM's table reads the pointer to the table first.\<close>

definition s31_table_call :: "cache_fn \<Rightarrow> u32 list \<Rightarrow> 'a world_scheme \<Rightarrow> 'a world_scheme" where
  "s31_table_call f args w =
     (let (table, w) = cell_read (RomVar Rom_cache_internal_table_ptr) w in rom_void (CacheFn f) args [] w)"

definition s31_cache_stop :: "'a world_scheme \<Rightarrow> 'a world_scheme" where
  "s31_cache_stop w =
     (let w = s31_table_call Freeze_l1_icache0_enable [CACHE_FREEZE_ACK_BUSY] w;
          w = s31_table_call Freeze_l1_icache1_enable [CACHE_FREEZE_ACK_BUSY] w
      in s31_table_call Freeze_l1_dcache_enable [CACHE_FREEZE_ACK_BUSY] w)"

definition s31_cache_start :: "'a world_scheme \<Rightarrow> 'a world_scheme" where
  "s31_cache_start w =
     (let w = s31_table_call Freeze_l1_dcache_disable [] w;
          w = s31_table_call Freeze_l1_icache1_disable [] w
      in s31_table_call Freeze_l1_icache0_disable [] w)"

definition s31_cache_is_enabled :: "'a world_scheme \<Rightarrow> bool \<times> 'a world_scheme" where
  "s31_cache_is_enabled w =
     (let (icache_ctrl, w) = REG_READ s31_CACHE_L1_ICACHE_CTRL_REG w
      in if icache_ctrl AND (s31_CACHE_L1_ICACHE_SHUT_IBUS0 OR s31_CACHE_L1_ICACHE_SHUT_IBUS1) \<noteq> 0
         then (False, w)
         else
           (let (dcache_ctrl, w) = REG_READ s31_CACHE_L1_DCACHE_CTRL_REG w
            in if dcache_ctrl AND (s31_CACHE_L1_DCACHE_SHUT_DBUS0 OR s31_CACHE_L1_DCACHE_SHUT_DBUS1) \<noteq> 0
               then (False, w) else s31_mmu_has_valid_entry w))"

definition s31_cache_init :: "'s option \<Rightarrow> 'a world_scheme \<Rightarrow> 's option \<times> 'a world_scheme" where
  "s31_cache_init state w =
     (let (cache_was_enabled, w) = s31_cache_is_enabled w
      in (state, if \<not> cache_was_enabled then rom_void (CacheFn ROM_Boot_Cache_Init) [] [] w else w))"

section \<open>ESP32-S2\<close>

definition s2_CACHE_MEMORY_ICACHE_LOW :: u32 where [regs]: "s2_CACHE_MEMORY_ICACHE_LOW = BIT 0"

definition s2_CACHE_MEMORY_INVALID :: u32 where [regs]: "s2_CACHE_MEMORY_INVALID = 0"

definition s2_CACHE_SIZE_8KB :: u32 where [regs]: "s2_CACHE_SIZE_8KB = 0"

definition s2_CACHE_4WAYS_ASSOC :: u32 where [regs]: "s2_CACHE_4WAYS_ASSOC = 0"

definition s2_CACHE_LINE_SIZE_32B :: u32 where [regs]: "s2_CACHE_LINE_SIZE_32B = 1"

definition s2_cache_get_caps :: "u32" where
  "s2_cache_get_caps = STUB_CACHE_CAP_HAS_INVALIDATE_ADDR"

definition s2_cache_writeback_all :: "'a world_scheme \<Rightarrow> 'a world_scheme" where
  "s2_cache_writeback_all w = rom_void (CacheFn Cache_WriteBack_All) [] [] w"

definition s2_cache_writeback_addr :: "u32 \<Rightarrow> u32 \<Rightarrow> 'a world_scheme \<Rightarrow> 'a world_scheme" where
  "s2_cache_writeback_addr vaddr sz w = rom_void (CacheFn Cache_WriteBack_Addr) [vaddr, sz] [] w"

definition s2_cache_invalidate_all :: "'a world_scheme \<Rightarrow> 'a world_scheme" where
  "s2_cache_invalidate_all w =
     (let w = rom_void (CacheFn Cache_Invalidate_DCache_All) [] [] w
      in rom_void (CacheFn Cache_Invalidate_ICache_All) [] [] w)"

definition s2_cache_invalidate_addr :: "u32 \<Rightarrow> u32 \<Rightarrow> 'a world_scheme \<Rightarrow> 'a world_scheme" where
  "s2_cache_invalidate_addr vaddr sz w = rom_void (CacheFn Cache_Invalidate_Addr) [vaddr, sz] [] w"

definition s2_cache_stop :: "'a autoload_world_scheme \<Rightarrow> 'a autoload_world_scheme" where
  "s2_cache_stop w =
     (let w = w\<lparr>s_saved_autoload := 0\<rparr>;
          (r, w) = rom_num (CacheFn Cache_Suspend_ICache) [] [] w;
          w = (if r \<noteq> 0 then w\<lparr>s_saved_autoload := s_saved_autoload w OR BIT 0\<rparr> else w);
          (r, w) = rom_num (CacheFn Cache_Suspend_DCache) [] [] w
      in if r \<noteq> 0 then w\<lparr>s_saved_autoload := s_saved_autoload w OR BIT 1\<rparr> else w)"

definition s2_cache_start :: "'a autoload_world_scheme \<Rightarrow> 'a autoload_world_scheme" where
  "s2_cache_start w =
     (let w = rom_void (CacheFn Cache_Resume_ICache) [if s_saved_autoload w AND BIT 0 \<noteq> 0 then s2_EXTMEM_PRO_ICACHE_AUTOLOAD_ENA else 0] [] w
      in rom_void (CacheFn Cache_Resume_DCache) [if s_saved_autoload w AND BIT 1 \<noteq> 0 then s2_EXTMEM_PRO_DCACHE_AUTOLOAD_ENA else 0] [] w)"

definition s2_cache_is_enabled :: "'a world_scheme \<Rightarrow> bool \<times> 'a world_scheme" where
  "s2_cache_is_enabled w =
     (let (b, w) = REG_GET_BIT s2_EXTMEM_PRO_ICACHE_CTRL_REG s2_EXTMEM_PRO_ICACHE_ENABLE w
      in if b \<noteq> 0 then
           (let (b, w) = REG_GET_BIT s2_EXTMEM_PRO_ICACHE_CTRL1_REG s2_EXTMEM_PRO_ICACHE_MASK_DROM0 w
            in (\<not> (b \<noteq> 0), w))
         else (False, w))"

definition s2_cache_init :: "'s option \<Rightarrow> 'a world_scheme \<Rightarrow> 's option \<times> 'a world_scheme" where
  "s2_cache_init state w =
     (let (cache_was_enabled, w) = s2_cache_is_enabled w
      in (state,
          if \<not> cache_was_enabled then
            (let w = rom_void (CacheFn Cache_Allocate_SRAM)
                   [s2_CACHE_MEMORY_ICACHE_LOW, s2_CACHE_MEMORY_INVALID, s2_CACHE_MEMORY_INVALID,
                    s2_CACHE_MEMORY_INVALID] [] w;
                 w = rom_void (CacheFn Cache_Suspend_ICache) [] [] w;
                 w = rom_void (CacheFn Cache_Set_ICache_Mode)
                   [s2_CACHE_SIZE_8KB, s2_CACHE_4WAYS_ASSOC, s2_CACHE_LINE_SIZE_32B] [] w;
                 w = rom_void (CacheFn Cache_Invalidate_ICache_All) [] [] w;
                 w = rom_void (CacheFn Cache_MMU_Init) [] [] w;
                 w = REG_CLR_BIT s2_EXTMEM_PRO_ICACHE_CTRL1_REG s2_EXTMEM_PRO_ICACHE_MASK_DROM0 w
             in rom_void (CacheFn Cache_Resume_ICache) [0] [] w)
          else w))"

section \<open>ESP32\<close>

definition esp32_cache_get_caps :: "u32" where
  "esp32_cache_get_caps = STUB_CACHE_CAP_SHARED_IDCACHE"

definition esp32_cache_is_enabled :: "'a world_scheme \<Rightarrow> bool \<times> 'a world_scheme" where
  "esp32_cache_is_enabled w =
     (let (b, w) = REG_GET_BIT esp32_DPORT_PRO_CACHE_CTRL_REG esp32_DPORT_PRO_CACHE_ENABLE w in (b \<noteq> 0, w))"

text \<open>One round of the loop that reads 64 KB through the cache; x is \<open>32 * i\<close>.\<close>

definition esp32_evict :: "bool \<Rightarrow> nat \<Rightarrow> 'a world_scheme \<Rightarrow> 'a world_scheme" where
  "esp32_evict lowhigh i w =
     (let w = snd (mem_load (esp32_SOC_EXTRAM_DATA_LOW + 32 * of_nat i) 1 w)
      in if lowhigh then snd (mem_load (esp32_SOC_EXTRAM_DATA_LOW + (32 * of_nat i + 0x200000)) 1 w) else w)"

definition esp32_cache_writeback_all :: "'a world_scheme \<Rightarrow> 'a world_scheme" where
  "esp32_cache_writeback_all w =
     (let (dram1, w) = REG_GET_BIT esp32_DPORT_PRO_CACHE_CTRL1_REG esp32_DPORT_PRO_CACHE_MASK_DRAM1 w
      in if dram1 \<noteq> 0 then w
         else
           (let (was_enabled, w) = esp32_cache_is_enabled w;
                w = (if \<not> was_enabled then rom_void (CacheFn Cache_Read_Enable_rom) [0] [] w else w);
                (lowhigh, w) = REG_GET_BIT esp32_DPORT_PRO_CACHE_CTRL_REG esp32_DPORT_PRO_DRAM_HL w;
                w = fold (esp32_evict (lowhigh \<noteq> 0)) [0..<2048] w
            in if \<not> was_enabled then rom_void (CacheFn Cache_Read_Disable_rom) [0] [] w else w))"

definition esp32_cache_invalidate_all :: "'a world_scheme \<Rightarrow> 'a world_scheme" where
  "esp32_cache_invalidate_all w =
     (let w = rom_void (CacheFn Cache_Flush_rom) [0] [] w
      in rom_void (CacheFn Cache_Flush_rom) [1] [] w)"

definition esp32_cache_stop :: "'a world_scheme \<Rightarrow> 'a world_scheme" where
  "esp32_cache_stop w = rom_void (CacheFn Cache_Read_Disable_rom) [0] [] w"

definition esp32_cache_start :: "'a world_scheme \<Rightarrow> 'a world_scheme" where
  "esp32_cache_start w = rom_void (CacheFn Cache_Read_Enable_rom) [0] [] w"

definition esp32_cache_init :: "'s option \<Rightarrow> 'a world_scheme \<Rightarrow> 's option \<times> 'a world_scheme" where
  "esp32_cache_init state w =
     (let (enabled, w) = esp32_cache_is_enabled w
      in (state,
          if \<not> enabled then
            (let w = rom_void (CacheFn Cache_Read_Disable_rom) [0] [] w;
                 w = rom_void (CacheFn Cache_Flush_rom) [0] [] w;
                 (ctrl1, w) = REG_READ esp32_DPORT_PRO_CACHE_CTRL1_REG w;
                 ctrl1 = ctrl1 OR esp32_DPORT_CACHE_BUS_MASK;
                 ctrl1 = ctrl1 AND NOT esp32_DPORT_PRO_CACHE_MASK_DROM0;
                 w = REG_WRITE esp32_DPORT_PRO_CACHE_CTRL1_REG ctrl1 w
             in rom_void (CacheFn Cache_Read_Enable_rom) [0] [] w)
          else w))"

section \<open>The interface, chip by chip\<close>

text \<open>Where a chip has no version of its own, the weak one of \<open>common/src/cache.c\<close> is linked.\<close>

fun cache_target_of :: "chip \<Rightarrow> (unit, 'a autoload_world_scheme) cache_target" where
  "cache_target_of ESP32C6 =
     \<lparr>tc_get_caps = c6_cache_get_caps, tc_writeback_all = stub_target_cache_writeback_all,
      tc_invalidate_all = c6_cache_invalidate_all, tc_invalidate_addr = c6_cache_invalidate_addr,
      tc_writeback_addr = stub_target_cache_writeback_addr, tc_stop = c6_cache_stop,
      tc_start = c6_cache_start, tc_state_size = stub_target_cache_state_size,
      tc_init = c6_cache_init, tc_deinit = stub_target_cache_deinit,
      tc_is_enabled = c6_cache_is_enabled\<rparr>"
| "cache_target_of ESP32H2 =
     \<lparr>tc_get_caps = h2_cache_get_caps, tc_writeback_all = stub_target_cache_writeback_all,
      tc_invalidate_all = h2_cache_invalidate_all, tc_invalidate_addr = h2_cache_invalidate_addr,
      tc_writeback_addr = stub_target_cache_writeback_addr, tc_stop = h2_cache_stop,
      tc_start = h2_cache_start, tc_state_size = stub_target_cache_state_size,
      tc_init = h2_cache_init, tc_deinit = stub_target_cache_deinit,
      tc_is_enabled = h2_cache_is_enabled\<rparr>"
| "cache_target_of ESP32H21 =
     \<lparr>tc_get_caps = h21_cache_get_caps, tc_writeback_all = stub_target_cache_writeback_all,
      tc_invalidate_all = h21_cache_invalidate_all, tc_invalidate_addr = h21_cache_invalidate_addr,
      tc_writeback_addr = stub_target_cache_writeback_addr, tc_stop = h21_cache_stop,
      tc_start = h21_cache_start, tc_state_size = stub_target_cache_state_size,
      tc_init = h21_cache_init, tc_deinit = stub_target_cache_deinit,
      tc_is_enabled = h21_cache_is_enabled\<rparr>"
| "cache_target_of ESP32C2 =
     \<lparr>tc_get_caps = c2_cache_get_caps, tc_writeback_all = stub_target_cache_writeback_all,
      tc_invalidate_all = c2_cache_invalidate_all, tc_invalidate_addr = c2_cache_invalidate_addr,
      tc_writeback_addr = stub_target_cache_writeback_addr, tc_stop = c2_cache_stop,
      tc_start = c2_cache_start, tc_state_size = stub_target_cache_state_size,
      tc_init = c2_cache_init, tc_deinit = stub_target_cache_deinit,
      tc_is_enabled = c2_cache_is_enabled\<rparr>"
| "cache_target_of ESP32C3 =
     \<lparr>tc_get_caps = c3_cache_get_caps, tc_writeback_all = stub_target_cache_writeback_all,
      tc_invalidate_all = c3_cache_invalidate_all, tc_invalidate_addr = c3_cache_invalidate_addr,
      tc_writeback_addr = stub_target_cache_writeback_addr, tc_stop = c3_cache_stop,
      tc_start = c3_cache_start, tc_state_size = stub_target_cache_state_size,
      tc_init = c3_cache_init, tc_deinit = stub_target_cache_deinit,
      tc_is_enabled = c3_cache_is_enabled\<rparr>"
| "cache_target_of ESP32C61 =
     \<lparr>tc_get_caps = c61_cache_get_caps, tc_writeback_all = c61_cache_writeback_all,
      tc_invalidate_all = c61_cache_invalidate_all, tc_invalidate_addr = c61_cache_invalidate_addr,
      tc_writeback_addr = stub_target_cache_writeback_addr, tc_stop = c61_cache_stop,
      tc_start = c61_cache_start, tc_state_size = stub_target_cache_state_size,
      tc_init = c61_cache_init, tc_deinit = stub_target_cache_deinit,
      tc_is_enabled = c61_cache_is_enabled\<rparr>"
| "cache_target_of ESP32C5 =
     \<lparr>tc_get_caps = c5_cache_get_caps, tc_writeback_all = c5_cache_writeback_all,
      tc_invalidate_all = c5_cache_invalidate_all, tc_invalidate_addr = c5_cache_invalidate_addr,
      tc_writeback_addr = c5_cache_writeback_addr, tc_stop = c5_cache_stop,
      tc_start = c5_cache_start, tc_state_size = stub_target_cache_state_size,
      tc_init = c5_cache_init, tc_deinit = stub_target_cache_deinit,
      tc_is_enabled = c5_cache_is_enabled\<rparr>"
| "cache_target_of ESP32H4 =
     \<lparr>tc_get_caps = h4_cache_get_caps, tc_writeback_all = h4_cache_writeback_all,
      tc_invalidate_all = h4_cache_invalidate_all, tc_invalidate_addr = h4_cache_invalidate_addr,
      tc_writeback_addr = h4_cache_writeback_addr, tc_stop = h4_cache_stop,
      tc_start = h4_cache_start, tc_state_size = stub_target_cache_state_size,
      tc_init = h4_cache_init, tc_deinit = stub_target_cache_deinit,
      tc_is_enabled = h4_cache_is_enabled\<rparr>"
| "cache_target_of ESP32P4 =
     \<lparr>tc_get_caps = p4_cache_get_caps, tc_writeback_all = p4_cache_writeback_all,
      tc_invalidate_all = p4_cache_invalidate_all, tc_invalidate_addr = p4_cache_invalidate_addr,
      tc_writeback_addr = p4_cache_writeback_addr, tc_stop = p4_cache_stop,
      tc_start = p4_cache_start, tc_state_size = stub_target_cache_state_size,
      tc_init = p4_cache_init, tc_deinit = stub_target_cache_deinit,
      tc_is_enabled = p4_cache_is_enabled\<rparr>"
| "cache_target_of ESP32S31 =
     \<lparr>tc_get_caps = s31_cache_get_caps, tc_writeback_all = s31_cache_writeback_all,
      tc_invalidate_all = s31_cache_invalidate_all, tc_invalidate_addr = s31_cache_invalidate_addr,
      tc_writeback_addr = s31_cache_writeback_addr, tc_stop = s31_cache_stop,
      tc_start = s31_cache_start, tc_state_size = stub_target_cache_state_size,
      tc_init = s31_cache_init, tc_deinit = stub_target_cache_deinit,
      tc_is_enabled = s31_cache_is_enabled\<rparr>"
| "cache_target_of ESP32S2 =
     \<lparr>tc_get_caps = s2_cache_get_caps, tc_writeback_all = s2_cache_writeback_all,
      tc_invalidate_all = s2_cache_invalidate_all, tc_invalidate_addr = s2_cache_invalidate_addr,
      tc_writeback_addr = s2_cache_writeback_addr, tc_stop = s2_cache_stop,
      tc_start = s2_cache_start, tc_state_size = stub_target_cache_state_size,
      tc_init = s2_cache_init, tc_deinit = stub_target_cache_deinit,
      tc_is_enabled = s2_cache_is_enabled\<rparr>"
| "cache_target_of ESP32 =
     \<lparr>tc_get_caps = esp32_cache_get_caps, tc_writeback_all = esp32_cache_writeback_all,
      tc_invalidate_all = esp32_cache_invalidate_all, tc_invalidate_addr = stub_target_cache_invalidate_addr,
      tc_writeback_addr = stub_target_cache_writeback_addr, tc_stop = esp32_cache_stop,
      tc_start = esp32_cache_start, tc_state_size = stub_target_cache_state_size,
      tc_init = esp32_cache_init, tc_deinit = stub_target_cache_deinit,
      tc_is_enabled = esp32_cache_is_enabled\<rparr>"
| "cache_target_of ESP8266 =
     \<lparr>tc_get_caps = stub_target_cache_get_caps, tc_writeback_all = stub_target_cache_writeback_all,
      tc_invalidate_all = stub_target_cache_invalidate_all, tc_invalidate_addr = stub_target_cache_invalidate_addr,
      tc_writeback_addr = stub_target_cache_writeback_addr, tc_stop = stub_target_cache_stop,
      tc_start = stub_target_cache_start, tc_state_size = stub_target_cache_state_size,
      tc_init = stub_target_cache_init, tc_deinit = stub_target_cache_deinit,
      tc_is_enabled = stub_target_cache_is_enabled\<rparr>"
| "cache_target_of ESP32S3 = s3_cache_target"

lemmas chip_cache_stop_defs = c6_cache_stop_def
  c6_cache_start_def
  h2_cache_stop_def
  h2_cache_start_def
  h21_cache_stop_def
  h21_cache_start_def
  c2_cache_stop_def
  c2_cache_start_def
  c3_cache_stop_def
  c3_cache_start_def
  c61_cache_stop_def
  c61_cache_start_def
  c5_cache_stop_def
  c5_cache_start_def
  h4_cache_stop_def
  h4_cache_start_def
  p4_cache_stop_def
  p4_cache_start_def
  s31_cache_stop_def
  s31_cache_start_def
  s2_cache_stop_def
  s2_cache_start_def
  esp32_cache_stop_def
  esp32_cache_start_def

lemmas chip_cache_invalidate_defs = c6_cache_invalidate_all_def
  c6_cache_invalidate_addr_def
  c6_cache_get_caps_def
  h2_cache_invalidate_all_def
  h2_cache_invalidate_addr_def
  h2_cache_get_caps_def
  h21_cache_invalidate_all_def
  h21_cache_invalidate_addr_def
  h21_cache_get_caps_def
  c2_cache_invalidate_all_def
  c2_cache_invalidate_addr_def
  c2_cache_get_caps_def
  c3_cache_invalidate_all_def
  c3_cache_invalidate_addr_def
  c3_cache_get_caps_def
  c61_cache_invalidate_all_def
  c61_cache_invalidate_addr_def
  c61_cache_writeback_all_def
  c61_cache_get_caps_def
  c5_cache_invalidate_all_def
  c5_cache_invalidate_addr_def
  c5_cache_writeback_all_def
  c5_cache_get_caps_def
  h4_cache_invalidate_all_def
  h4_cache_invalidate_addr_def
  h4_cache_writeback_all_def
  h4_cache_get_caps_def
  p4_cache_invalidate_all_def
  p4_cache_invalidate_addr_def
  p4_cache_writeback_all_def
  p4_cache_get_caps_def
  s31_cache_invalidate_all_def
  s31_cache_invalidate_addr_def
  s31_cache_writeback_all_def
  s31_cache_get_caps_def
  s2_cache_invalidate_all_def
  s2_cache_invalidate_addr_def
  s2_cache_writeback_all_def
  s2_cache_get_caps_def
  esp32_cache_invalidate_all_def
  esp32_cache_writeback_all_def
  esp32_cache_get_caps_def

end
