(* ===== verification/Flash_Regs.thy ===== *)
theory Flash_Regs
  imports Chip_Regs
begin

text \<open>
  Constants of the flash controllers and the encryption engines of the chips other than the
  ESP32-S3, each under its C name with the chip in front and with the value the chip's headers
  give it. A macro that takes the number of a controller is a function.
\<close>

section \<open>ESP8266\<close>

definition esp8266_SPI_W0 :: u32 where [regs]: "esp8266_SPI_W0 = 0x60000240"
definition esp8266_SPI_CMD :: u32 where [regs]: "esp8266_SPI_CMD = 0x60000200"
definition esp8266_SPI_FLASH_RDID :: u32 where [regs]: "esp8266_SPI_FLASH_RDID = 0x10000000"
definition esp8266_SPI_EXT2_REG :: u32 where [regs]: "esp8266_SPI_EXT2_REG = 0x600002f8"
definition esp8266_SPI_ST_V :: u32 where [regs]: "esp8266_SPI_ST_V = 0x7"
definition esp8266_SPI_ST_S :: nat where [regs]: "esp8266_SPI_ST_S = 0"
definition esp8266_SPI_CMD_REG :: u32 where [regs]: "esp8266_SPI_CMD_REG = 0x60000200"
definition esp8266_SPI_FLASH_WREN :: u32 where [regs]: "esp8266_SPI_FLASH_WREN = 0x40000000"
definition esp8266_SPI_MEM_CMD_REG :: "u32 \<Rightarrow> u32" where [regs]: "esp8266_SPI_MEM_CMD_REG i = 0x60000200"
definition esp8266_SPI_MEM_ADDR_REG :: "u32 \<Rightarrow> u32" where [regs]: "esp8266_SPI_MEM_ADDR_REG i = 0x60000204"
definition esp8266_SPI_MEM_RD_STATUS_REG :: "u32 \<Rightarrow> u32" where [regs]: "esp8266_SPI_MEM_RD_STATUS_REG i = 0x60000210"
definition esp8266_SPI_MEM_FLASH_SE :: u32 where [regs]: "esp8266_SPI_MEM_FLASH_SE = 0x1000000"
definition esp8266_SPI_MEM_FLASH_BE :: u32 where [regs]: "esp8266_SPI_MEM_FLASH_BE = 0x800000"
definition esp8266_SPI_MEM_FLASH_RDSR :: u32 where [regs]: "esp8266_SPI_MEM_FLASH_RDSR = 0x8000000"

section \<open>ESP32\<close>

definition esp32_DR_REG_GPIO_BASE :: u32 where [regs]: "esp32_DR_REG_GPIO_BASE = 0x3ff44000"
definition esp32_REG_SPI_BASE :: "u32 \<Rightarrow> u32" where
  [regs]: "esp32_REG_SPI_BASE i =
     0x3ff42000 + (if i > 1 then i * 0x1000 + 0x20000 else ((NOT i) AND 1) * 0x1000)"
definition esp32_SPI_W0_REG :: "u32 \<Rightarrow> u32" where [regs]: "esp32_SPI_W0_REG i = esp32_REG_SPI_BASE i + 0x80"
definition esp32_SPI_CMD_REG :: "u32 \<Rightarrow> u32" where [regs]: "esp32_SPI_CMD_REG i = esp32_REG_SPI_BASE i + 0x0"
definition esp32_SPI_FLASH_RDID :: u32 where [regs]: "esp32_SPI_FLASH_RDID = 0x10000000"
definition esp32_SPI_EXT2_REG :: "u32 \<Rightarrow> u32" where [regs]: "esp32_SPI_EXT2_REG i = esp32_REG_SPI_BASE i + 0xF8"
definition esp32_SPI_ST_V :: u32 where [regs]: "esp32_SPI_ST_V = 0x7"
definition esp32_SPI_ST_S :: nat where [regs]: "esp32_SPI_ST_S = 0"
definition esp32_SPI_USER_REG :: "u32 \<Rightarrow> u32" where [regs]: "esp32_SPI_USER_REG i = esp32_REG_SPI_BASE i + 0x1C"
definition esp32_SPI_USER1_REG :: "u32 \<Rightarrow> u32" where [regs]: "esp32_SPI_USER1_REG i = esp32_REG_SPI_BASE i + 0x20"
definition esp32_SPI_USER2_REG :: "u32 \<Rightarrow> u32" where [regs]: "esp32_SPI_USER2_REG i = esp32_REG_SPI_BASE i + 0x24"
definition esp32_SPI_SLAVE_REG :: "u32 \<Rightarrow> u32" where [regs]: "esp32_SPI_SLAVE_REG i = esp32_REG_SPI_BASE i + 0x38"
definition esp32_SPI_CLOCK_REG :: "u32 \<Rightarrow> u32" where [regs]: "esp32_SPI_CLOCK_REG i = esp32_REG_SPI_BASE i + 0x18"
definition esp32_SPI_CTRL_REG :: "u32 \<Rightarrow> u32" where [regs]: "esp32_SPI_CTRL_REG i = esp32_REG_SPI_BASE i + 0x8"
definition esp32_SPI_CACHE_FCTRL_REG :: "u32 \<Rightarrow> u32" where [regs]: "esp32_SPI_CACHE_FCTRL_REG i = esp32_REG_SPI_BASE i + 0x50"
definition esp32_SPI_CACHE_FLASH_USR_CMD :: u32 where [regs]: "esp32_SPI_CACHE_FLASH_USR_CMD = 0x4"
definition esp32_SPI_WP_REG :: u32 where [regs]: "esp32_SPI_WP_REG = 0x200000"
definition esp32_SPI_RESANDRES :: u32 where [regs]: "esp32_SPI_RESANDRES = 0x8000"
definition esp32_SPI_USR_ADDR_BITLEN_V :: u32 where [regs]: "esp32_SPI_USR_ADDR_BITLEN_V = 0x3f"
definition esp32_SPI_USR_ADDR_BITLEN_S :: nat where [regs]: "esp32_SPI_USR_ADDR_BITLEN_S = 26"
definition esp32_SPI_USR_DUMMY_CYCLELEN_V :: u32 where [regs]: "esp32_SPI_USR_DUMMY_CYCLELEN_V = 0xff"
definition esp32_SPI_USR_DUMMY_CYCLELEN_S :: nat where [regs]: "esp32_SPI_USR_DUMMY_CYCLELEN_S = 0"
definition esp32_SPI_USR_COMMAND :: u32 where [regs]: "esp32_SPI_USR_COMMAND = 0x80000000"
definition esp32_SPI_MEM_CMD_REG :: "u32 \<Rightarrow> u32" where [regs]: "esp32_SPI_MEM_CMD_REG i = esp32_REG_SPI_BASE i + 0x0"
definition esp32_SPI_MEM_ADDR_REG :: "u32 \<Rightarrow> u32" where [regs]: "esp32_SPI_MEM_ADDR_REG i = esp32_REG_SPI_BASE i + 0x4"
definition esp32_SPI_MEM_RD_STATUS_REG :: "u32 \<Rightarrow> u32" where [regs]: "esp32_SPI_MEM_RD_STATUS_REG i = esp32_REG_SPI_BASE i + 0x10"
definition esp32_SPI_MEM_FLASH_SE :: u32 where [regs]: "esp32_SPI_MEM_FLASH_SE = 0x1000000"
definition esp32_SPI_MEM_FLASH_BE :: u32 where [regs]: "esp32_SPI_MEM_FLASH_BE = 0x800000"
definition esp32_SPI_MEM_FLASH_RDSR :: u32 where [regs]: "esp32_SPI_MEM_FLASH_RDSR = 0x8000000"
definition esp32_SPI_CLK_GPIO_NUM :: u32 where [regs]: "esp32_SPI_CLK_GPIO_NUM = 0x6"
definition esp32_SPI_Q_GPIO_NUM :: u32 where [regs]: "esp32_SPI_Q_GPIO_NUM = 0x7"
definition esp32_SPI_D_GPIO_NUM :: u32 where [regs]: "esp32_SPI_D_GPIO_NUM = 0x8"
definition esp32_SPI_CS0_GPIO_NUM :: u32 where [regs]: "esp32_SPI_CS0_GPIO_NUM = 0xb"

section \<open>ESP32S2\<close>

definition s2_SPI_MEM_FSM_REG :: "u32 \<Rightarrow> u32" where [regs]: "s2_SPI_MEM_FSM_REG i = 0x3f403054 - i * 0x1000"
definition s2_SPI_MEM_ST :: u32 where [regs]: "s2_SPI_MEM_ST = 0x7"
definition s2_SPI_MEM_CACHE_FCTRL_REG :: "u32 \<Rightarrow> u32" where [regs]: "s2_SPI_MEM_CACHE_FCTRL_REG i = 0x3f40303c - i * 0x1000"
definition s2_SPI_MEM_CACHE_FLASH_USR_CMD :: u32 where [regs]: "s2_SPI_MEM_CACHE_FLASH_USR_CMD = 0x4"
definition s2_SPI_MEM_USER_REG :: "u32 \<Rightarrow> u32" where [regs]: "s2_SPI_MEM_USER_REG i = 0x3f403018 - i * 0x1000"
definition s2_SPI_MEM_CLOCK_REG :: "u32 \<Rightarrow> u32" where [regs]: "s2_SPI_MEM_CLOCK_REG i = 0x3f403014 - i * 0x1000"
definition s2_SPI_MEM_CTRL_REG :: "u32 \<Rightarrow> u32" where [regs]: "s2_SPI_MEM_CTRL_REG i = 0x3f403008 - i * 0x1000"
definition s2_SPI_MEM_MISC_REG :: "u32 \<Rightarrow> u32" where [regs]: "s2_SPI_MEM_MISC_REG i = 0x3f403034 - i * 0x1000"
definition s2_SPI_MEM_CS0_DIS :: u32 where [regs]: "s2_SPI_MEM_CS0_DIS = 0x1"
definition s2_SPI_MEM_CS1_DIS :: u32 where [regs]: "s2_SPI_MEM_CS1_DIS = 0x2"
definition s2_SPI_MEM_WP_REG :: u32 where [regs]: "s2_SPI_MEM_WP_REG = 0x200000"
definition s2_SPI_MEM_RESANDRES :: u32 where [regs]: "s2_SPI_MEM_RESANDRES = 0x8000"
definition s2_SPI_MEM_MISO_DLEN_REG :: "u32 \<Rightarrow> u32" where [regs]: "s2_SPI_MEM_MISO_DLEN_REG i = 0x3f403028 - i * 0x1000"
definition s2_SPI_MEM_USR_MISO_DBITLEN_V :: u32 where [regs]: "s2_SPI_MEM_USR_MISO_DBITLEN_V = 0x7ff"
definition s2_SPI_MEM_USR_MISO_DBITLEN_S :: nat where [regs]: "s2_SPI_MEM_USR_MISO_DBITLEN_S = 0"
definition s2_SPI_MEM_MOSI_DLEN_REG :: "u32 \<Rightarrow> u32" where [regs]: "s2_SPI_MEM_MOSI_DLEN_REG i = 0x3f403024 - i * 0x1000"
definition s2_SPI_MEM_USR_MOSI_DBITLEN_V :: u32 where [regs]: "s2_SPI_MEM_USR_MOSI_DBITLEN_V = 0x7ff"
definition s2_SPI_MEM_USR_MOSI_DBITLEN_S :: nat where [regs]: "s2_SPI_MEM_USR_MOSI_DBITLEN_S = 0"
definition s2_SPI_MEM_USER2_REG :: "u32 \<Rightarrow> u32" where [regs]: "s2_SPI_MEM_USER2_REG i = 0x3f403020 - i * 0x1000"
definition s2_SPI_MEM_USR_COMMAND_BITLEN_V :: u32 where [regs]: "s2_SPI_MEM_USR_COMMAND_BITLEN_V = 0xf"
definition s2_SPI_MEM_USR_COMMAND_BITLEN_S :: nat where [regs]: "s2_SPI_MEM_USR_COMMAND_BITLEN_S = 28"
definition s2_SPI_MEM_CACHE_REQ_EN :: u32 where [regs]: "s2_SPI_MEM_CACHE_REQ_EN = 0x1"
definition s2_SPI_MEM_DDR_REG :: "u32 \<Rightarrow> u32" where [regs]: "s2_SPI_MEM_DDR_REG i = 0x3f4030d4 - i * 0x1000"
definition s2_SPI_MEM_USR_COMMAND :: u32 where [regs]: "s2_SPI_MEM_USR_COMMAND = 0x80000000"
definition s2_SPI_MEM_CMD_REG :: "u32 \<Rightarrow> u32" where [regs]: "s2_SPI_MEM_CMD_REG i = 0x3f403000 - i * 0x1000"
definition s2_SPI_MEM_ADDR_REG :: "u32 \<Rightarrow> u32" where [regs]: "s2_SPI_MEM_ADDR_REG i = 0x3f403004 - i * 0x1000"
definition s2_SPI_MEM_RD_STATUS_REG :: "u32 \<Rightarrow> u32" where [regs]: "s2_SPI_MEM_RD_STATUS_REG i = 0x3f40302c - i * 0x1000"
definition s2_SPI_MEM_FLASH_SE :: u32 where [regs]: "s2_SPI_MEM_FLASH_SE = 0x1000000"
definition s2_SPI_MEM_FLASH_BE :: u32 where [regs]: "s2_SPI_MEM_FLASH_BE = 0x800000"
definition s2_SPI_MEM_FLASH_RDSR :: u32 where [regs]: "s2_SPI_MEM_FLASH_RDSR = 0x8000000"
definition s2_SPI_CLK_GPIO_NUM :: u32 where [regs]: "s2_SPI_CLK_GPIO_NUM = 0x1e"
definition s2_SPI_Q_GPIO_NUM :: u32 where [regs]: "s2_SPI_Q_GPIO_NUM = 0x1f"
definition s2_SPI_D_GPIO_NUM :: u32 where [regs]: "s2_SPI_D_GPIO_NUM = 0x20"
definition s2_SPI_CS0_GPIO_NUM :: u32 where [regs]: "s2_SPI_CS0_GPIO_NUM = 0x1d"

section \<open>ESP32C2\<close>

definition c2_SPI_MEM_CMD_REG :: "u32 \<Rightarrow> u32" where [regs]: "c2_SPI_MEM_CMD_REG i = 0x60003000 - i * 0x1000"
definition c2_SPI_MEM_MST_ST_V :: u32 where [regs]: "c2_SPI_MEM_MST_ST_V = 0xf"
definition c2_SPI_MEM_MST_ST_S :: nat where [regs]: "c2_SPI_MEM_MST_ST_S = 0"
definition c2_SPI_MEM_ADDR_REG :: "u32 \<Rightarrow> u32" where [regs]: "c2_SPI_MEM_ADDR_REG i = 0x60003004 - i * 0x1000"
definition c2_SPI_MEM_RD_STATUS_REG :: "u32 \<Rightarrow> u32" where [regs]: "c2_SPI_MEM_RD_STATUS_REG i = 0x6000302c - i * 0x1000"
definition c2_SPI_MEM_FLASH_SE :: u32 where [regs]: "c2_SPI_MEM_FLASH_SE = 0x1000000"
definition c2_SPI_MEM_FLASH_BE :: u32 where [regs]: "c2_SPI_MEM_FLASH_BE = 0x800000"
definition c2_SPI_MEM_FLASH_RDSR :: u32 where [regs]: "c2_SPI_MEM_FLASH_RDSR = 0x8000000"
definition c2_SPI_CLK_GPIO_NUM :: u32 where [regs]: "c2_SPI_CLK_GPIO_NUM = 0xf"
definition c2_SPI_Q_GPIO_NUM :: u32 where [regs]: "c2_SPI_Q_GPIO_NUM = 0x11"
definition c2_SPI_D_GPIO_NUM :: u32 where [regs]: "c2_SPI_D_GPIO_NUM = 0x10"
definition c2_SPI_CS0_GPIO_NUM :: u32 where [regs]: "c2_SPI_CS0_GPIO_NUM = 0xe"

section \<open>ESP32C3\<close>

definition c3_SPI_MEM_FSM_REG :: "u32 \<Rightarrow> u32" where [regs]: "c3_SPI_MEM_FSM_REG i = 0x60003054 - i * 0x1000"
definition c3_SPI_MEM_EM_ST_V :: u32 where [regs]: "c3_SPI_MEM_EM_ST_V = 0x7"
definition c3_SPI_MEM_EM_ST_S :: nat where [regs]: "c3_SPI_MEM_EM_ST_S = 4"
definition c3_SPI_MEM_CMD_REG :: "u32 \<Rightarrow> u32" where [regs]: "c3_SPI_MEM_CMD_REG i = 0x60003000 - i * 0x1000"
definition c3_SPI_MEM_MST_ST_V :: u32 where [regs]: "c3_SPI_MEM_MST_ST_V = 0xf"
definition c3_SPI_MEM_MST_ST_S :: nat where [regs]: "c3_SPI_MEM_MST_ST_S = 0"
definition c3_SPI_MEM_ADDR_REG :: "u32 \<Rightarrow> u32" where [regs]: "c3_SPI_MEM_ADDR_REG i = 0x60003004 - i * 0x1000"
definition c3_SPI_MEM_RD_STATUS_REG :: "u32 \<Rightarrow> u32" where [regs]: "c3_SPI_MEM_RD_STATUS_REG i = 0x6000302c - i * 0x1000"
definition c3_SPI_MEM_FLASH_SE :: u32 where [regs]: "c3_SPI_MEM_FLASH_SE = 0x1000000"
definition c3_SPI_MEM_FLASH_BE :: u32 where [regs]: "c3_SPI_MEM_FLASH_BE = 0x800000"
definition c3_SPI_MEM_FLASH_RDSR :: u32 where [regs]: "c3_SPI_MEM_FLASH_RDSR = 0x8000000"
definition c3_SPI_CLK_GPIO_NUM :: u32 where [regs]: "c3_SPI_CLK_GPIO_NUM = 0xf"
definition c3_SPI_Q_GPIO_NUM :: u32 where [regs]: "c3_SPI_Q_GPIO_NUM = 0x11"
definition c3_SPI_D_GPIO_NUM :: u32 where [regs]: "c3_SPI_D_GPIO_NUM = 0x10"
definition c3_SPI_CS0_GPIO_NUM :: u32 where [regs]: "c3_SPI_CS0_GPIO_NUM = 0xe"

section \<open>ESP32C5\<close>

definition c5_SPI_MEM_CMD_REG :: "u32 \<Rightarrow> u32" where [regs]: "c5_SPI_MEM_CMD_REG i = 0x60002000 + i * 0x1000"
definition c5_SPI_MEM_MST_ST_V :: u32 where [regs]: "c5_SPI_MEM_MST_ST_V = 0xf"
definition c5_SPI_MEM_MST_ST_S :: nat where [regs]: "c5_SPI_MEM_MST_ST_S = 0"
definition c5_SPI_MEM_USER_REG :: "u32 \<Rightarrow> u32" where [regs]: "c5_SPI_MEM_USER_REG i = 0x60002018 + i * 0x1000"
definition c5_SPI_MEM_USR_COMMAND :: u32 where [regs]: "c5_SPI_MEM_USR_COMMAND = 0x80000000"
definition c5_SPI_MEM_XTS_DESTINATION_REG :: "u32 \<Rightarrow> u32" where [regs]: "c5_SPI_MEM_XTS_DESTINATION_REG i = 0x60002344 + i * 0x1000"
definition c5_SPI_MEM_XTS_LINESIZE_REG :: "u32 \<Rightarrow> u32" where [regs]: "c5_SPI_MEM_XTS_LINESIZE_REG i = 0x60002340 + i * 0x1000"
definition c5_SPI_MEM_XTS_PLAIN_BASE_REG :: "u32 \<Rightarrow> u32" where [regs]: "c5_SPI_MEM_XTS_PLAIN_BASE_REG i = 0x60002300 + i * 0x1000"
definition c5_SPI_MEM_XTS_PHYSICAL_ADDRESS_REG :: "u32 \<Rightarrow> u32" where [regs]: "c5_SPI_MEM_XTS_PHYSICAL_ADDRESS_REG i = 0x60002348 + i * 0x1000"
definition c5_SPI_MEM_XTS_TRIGGER_REG :: "u32 \<Rightarrow> u32" where [regs]: "c5_SPI_MEM_XTS_TRIGGER_REG i = 0x6000234c + i * 0x1000"
definition c5_SPI_MEM_XTS_STATE_REG :: "u32 \<Rightarrow> u32" where [regs]: "c5_SPI_MEM_XTS_STATE_REG i = 0x60002358 + i * 0x1000"
definition c5_SPI_MEM_XTS_RELEASE_REG :: "u32 \<Rightarrow> u32" where [regs]: "c5_SPI_MEM_XTS_RELEASE_REG i = 0x60002350 + i * 0x1000"
definition c5_SPI_MEM_XTS_DESTROY_REG :: "u32 \<Rightarrow> u32" where [regs]: "c5_SPI_MEM_XTS_DESTROY_REG i = 0x60002354 + i * 0x1000"
definition c5_SPI_MEM_ADDR_REG :: "u32 \<Rightarrow> u32" where [regs]: "c5_SPI_MEM_ADDR_REG i = 0x60002004 + i * 0x1000"
definition c5_SPI_MEM_RD_STATUS_REG :: "u32 \<Rightarrow> u32" where [regs]: "c5_SPI_MEM_RD_STATUS_REG i = 0x6000202c + i * 0x1000"
definition c5_SPI_MEM_FLASH_SE :: u32 where [regs]: "c5_SPI_MEM_FLASH_SE = 0x1000000"
definition c5_SPI_MEM_FLASH_BE :: u32 where [regs]: "c5_SPI_MEM_FLASH_BE = 0x800000"
definition c5_SPI_MEM_FLASH_RDSR :: u32 where [regs]: "c5_SPI_MEM_FLASH_RDSR = 0x8000000"
definition c5_SPI_CLK_GPIO_NUM :: u32 where [regs]: "c5_SPI_CLK_GPIO_NUM = 0x15"
definition c5_SPI_Q_GPIO_NUM :: u32 where [regs]: "c5_SPI_Q_GPIO_NUM = 0x11"
definition c5_SPI_D_GPIO_NUM :: u32 where [regs]: "c5_SPI_D_GPIO_NUM = 0x16"
definition c5_SPI_CS0_GPIO_NUM :: u32 where [regs]: "c5_SPI_CS0_GPIO_NUM = 0x10"

section \<open>ESP32C6\<close>

definition c6_SPI_MEM_CMD_REG :: "u32 \<Rightarrow> u32" where [regs]: "c6_SPI_MEM_CMD_REG i = 0x60002000 + i * 0x1000"
definition c6_SPI_MEM_MST_ST_V :: u32 where [regs]: "c6_SPI_MEM_MST_ST_V = 0xf"
definition c6_SPI_MEM_MST_ST_S :: nat where [regs]: "c6_SPI_MEM_MST_ST_S = 0"
definition c6_SPI_MEM_SLV_ST_V :: u32 where [regs]: "c6_SPI_MEM_SLV_ST_V = 0xf"
definition c6_SPI_MEM_SLV_ST_S :: nat where [regs]: "c6_SPI_MEM_SLV_ST_S = 4"
definition c6_SPI_MEM_ADDR_REG :: "u32 \<Rightarrow> u32" where [regs]: "c6_SPI_MEM_ADDR_REG i = 0x60002004 + i * 0x1000"
definition c6_SPI_MEM_RD_STATUS_REG :: "u32 \<Rightarrow> u32" where [regs]: "c6_SPI_MEM_RD_STATUS_REG i = 0x6000202c + i * 0x1000"
definition c6_SPI_MEM_FLASH_SE :: u32 where [regs]: "c6_SPI_MEM_FLASH_SE = 0x1000000"
definition c6_SPI_MEM_FLASH_BE :: u32 where [regs]: "c6_SPI_MEM_FLASH_BE = 0x800000"
definition c6_SPI_MEM_FLASH_RDSR :: u32 where [regs]: "c6_SPI_MEM_FLASH_RDSR = 0x8000000"
definition c6_SPI_CLK_GPIO_NUM :: u32 where [regs]: "c6_SPI_CLK_GPIO_NUM = 0x1d"
definition c6_SPI_Q_GPIO_NUM :: u32 where [regs]: "c6_SPI_Q_GPIO_NUM = 0x19"
definition c6_SPI_D_GPIO_NUM :: u32 where [regs]: "c6_SPI_D_GPIO_NUM = 0x1e"
definition c6_SPI_CS0_GPIO_NUM :: u32 where [regs]: "c6_SPI_CS0_GPIO_NUM = 0x18"

section \<open>ESP32C61\<close>

definition c61_SPI_MEM_CMD_REG :: "u32 \<Rightarrow> u32" where [regs]: "c61_SPI_MEM_CMD_REG i = 0x60002000 + i * 0x1000"
definition c61_SPI_MEM_MST_ST_V :: u32 where [regs]: "c61_SPI_MEM_MST_ST_V = 0xf"
definition c61_SPI_MEM_MST_ST_S :: nat where [regs]: "c61_SPI_MEM_MST_ST_S = 0"
definition c61_SPI_MEM_SLV_ST_V :: u32 where [regs]: "c61_SPI_MEM_SLV_ST_V = 0xf"
definition c61_SPI_MEM_SLV_ST_S :: nat where [regs]: "c61_SPI_MEM_SLV_ST_S = 4"
definition c61_SPI_MEM_USER_REG :: "u32 \<Rightarrow> u32" where [regs]: "c61_SPI_MEM_USER_REG i = 0x60002018 + i * 0x1000"
definition c61_SPI_MEM_USR_COMMAND :: u32 where [regs]: "c61_SPI_MEM_USR_COMMAND = 0x80000000"
definition c61_SPI_MEM_XTS_DESTINATION_REG :: "u32 \<Rightarrow> u32" where [regs]: "c61_SPI_MEM_XTS_DESTINATION_REG i = 0x60002344 + i * 0x1000"
definition c61_SPI_MEM_XTS_LINESIZE_REG :: "u32 \<Rightarrow> u32" where [regs]: "c61_SPI_MEM_XTS_LINESIZE_REG i = 0x60002340 + i * 0x1000"
definition c61_SPI_MEM_XTS_PLAIN_BASE_REG :: "u32 \<Rightarrow> u32" where [regs]: "c61_SPI_MEM_XTS_PLAIN_BASE_REG i = 0x60002300 + i * 0x1000"
definition c61_SPI_MEM_XTS_PHYSICAL_ADDRESS_REG :: "u32 \<Rightarrow> u32" where [regs]: "c61_SPI_MEM_XTS_PHYSICAL_ADDRESS_REG i = 0x60002348 + i * 0x1000"
definition c61_SPI_MEM_XTS_TRIGGER_REG :: "u32 \<Rightarrow> u32" where [regs]: "c61_SPI_MEM_XTS_TRIGGER_REG i = 0x6000234c + i * 0x1000"
definition c61_SPI_MEM_XTS_STATE_REG :: "u32 \<Rightarrow> u32" where [regs]: "c61_SPI_MEM_XTS_STATE_REG i = 0x60002358 + i * 0x1000"
definition c61_SPI_MEM_XTS_RELEASE_REG :: "u32 \<Rightarrow> u32" where [regs]: "c61_SPI_MEM_XTS_RELEASE_REG i = 0x60002350 + i * 0x1000"
definition c61_SPI_MEM_XTS_DESTROY_REG :: "u32 \<Rightarrow> u32" where [regs]: "c61_SPI_MEM_XTS_DESTROY_REG i = 0x60002354 + i * 0x1000"
definition c61_SPI_MEM_ADDR_REG :: "u32 \<Rightarrow> u32" where [regs]: "c61_SPI_MEM_ADDR_REG i = 0x60002004 + i * 0x1000"
definition c61_SPI_MEM_RD_STATUS_REG :: "u32 \<Rightarrow> u32" where [regs]: "c61_SPI_MEM_RD_STATUS_REG i = 0x6000202c + i * 0x1000"
definition c61_SPI_MEM_FLASH_SE :: u32 where [regs]: "c61_SPI_MEM_FLASH_SE = 0x1000000"
definition c61_SPI_MEM_FLASH_BE :: u32 where [regs]: "c61_SPI_MEM_FLASH_BE = 0x800000"
definition c61_SPI_MEM_FLASH_RDSR :: u32 where [regs]: "c61_SPI_MEM_FLASH_RDSR = 0x8000000"
definition c61_SPI_CLK_GPIO_NUM :: u32 where [regs]: "c61_SPI_CLK_GPIO_NUM = 0x14"
definition c61_SPI_Q_GPIO_NUM :: u32 where [regs]: "c61_SPI_Q_GPIO_NUM = 0x10"
definition c61_SPI_D_GPIO_NUM :: u32 where [regs]: "c61_SPI_D_GPIO_NUM = 0x15"
definition c61_SPI_CS0_GPIO_NUM :: u32 where [regs]: "c61_SPI_CS0_GPIO_NUM = 0xf"

section \<open>ESP32H2\<close>

definition h2_SPI_MEM_CMD_REG :: "u32 \<Rightarrow> u32" where [regs]: "h2_SPI_MEM_CMD_REG i = 0x60002000 + i * 0x1000"
definition h2_SPI_MEM_MST_ST_V :: u32 where [regs]: "h2_SPI_MEM_MST_ST_V = 0xf"
definition h2_SPI_MEM_MST_ST_S :: nat where [regs]: "h2_SPI_MEM_MST_ST_S = 0"
definition h2_SPI_MEM_SLV_ST_V :: u32 where [regs]: "h2_SPI_MEM_SLV_ST_V = 0xf"
definition h2_SPI_MEM_SLV_ST_S :: nat where [regs]: "h2_SPI_MEM_SLV_ST_S = 4"
definition h2_SPI_MEM_ADDR_REG :: "u32 \<Rightarrow> u32" where [regs]: "h2_SPI_MEM_ADDR_REG i = 0x60002004 + i * 0x1000"
definition h2_SPI_MEM_RD_STATUS_REG :: "u32 \<Rightarrow> u32" where [regs]: "h2_SPI_MEM_RD_STATUS_REG i = 0x6000202c + i * 0x1000"
definition h2_SPI_MEM_FLASH_SE :: u32 where [regs]: "h2_SPI_MEM_FLASH_SE = 0x1000000"
definition h2_SPI_MEM_FLASH_BE :: u32 where [regs]: "h2_SPI_MEM_FLASH_BE = 0x800000"
definition h2_SPI_MEM_FLASH_RDSR :: u32 where [regs]: "h2_SPI_MEM_FLASH_RDSR = 0x8000000"
definition h2_SPI_CLK_GPIO_NUM :: u32 where [regs]: "h2_SPI_CLK_GPIO_NUM = 0x13"
definition h2_SPI_Q_GPIO_NUM :: u32 where [regs]: "h2_SPI_Q_GPIO_NUM = 0x10"
definition h2_SPI_D_GPIO_NUM :: u32 where [regs]: "h2_SPI_D_GPIO_NUM = 0x14"
definition h2_SPI_CS0_GPIO_NUM :: u32 where [regs]: "h2_SPI_CS0_GPIO_NUM = 0xf"

section \<open>ESP32H21\<close>

definition h21_SPI_MEM_CMD_REG :: "u32 \<Rightarrow> u32" where [regs]: "h21_SPI_MEM_CMD_REG i = 0x60002000 + i * 0x1000"
definition h21_SPI_MEM_MST_ST_V :: u32 where [regs]: "h21_SPI_MEM_MST_ST_V = 0xf"
definition h21_SPI_MEM_MST_ST_S :: nat where [regs]: "h21_SPI_MEM_MST_ST_S = 0"
definition h21_SPI_MEM_SLV_ST_V :: u32 where [regs]: "h21_SPI_MEM_SLV_ST_V = 0xf"
definition h21_SPI_MEM_SLV_ST_S :: nat where [regs]: "h21_SPI_MEM_SLV_ST_S = 4"
definition h21_SPI_MEM_ADDR_REG :: "u32 \<Rightarrow> u32" where [regs]: "h21_SPI_MEM_ADDR_REG i = 0x60002004 + i * 0x1000"
definition h21_SPI_MEM_RD_STATUS_REG :: "u32 \<Rightarrow> u32" where [regs]: "h21_SPI_MEM_RD_STATUS_REG i = 0x6000202c + i * 0x1000"
definition h21_SPI_MEM_FLASH_SE :: u32 where [regs]: "h21_SPI_MEM_FLASH_SE = 0x1000000"
definition h21_SPI_MEM_FLASH_BE :: u32 where [regs]: "h21_SPI_MEM_FLASH_BE = 0x800000"
definition h21_SPI_MEM_FLASH_RDSR :: u32 where [regs]: "h21_SPI_MEM_FLASH_RDSR = 0x8000000"
definition h21_SPI_CLK_GPIO_NUM :: u32 where [regs]: "h21_SPI_CLK_GPIO_NUM = 0x18"
definition h21_SPI_Q_GPIO_NUM :: u32 where [regs]: "h21_SPI_Q_GPIO_NUM = 0x15"
definition h21_SPI_D_GPIO_NUM :: u32 where [regs]: "h21_SPI_D_GPIO_NUM = 0x19"
definition h21_SPI_CS0_GPIO_NUM :: u32 where [regs]: "h21_SPI_CS0_GPIO_NUM = 0x14"

section \<open>ESP32H4\<close>

definition h4_SPI_MEM_CMD_REG :: "u32 \<Rightarrow> u32" where [regs]: "h4_SPI_MEM_CMD_REG i = 0x60098000 + i * 0x1000"
definition h4_SPI_MEM_MST_ST_V :: u32 where [regs]: "h4_SPI_MEM_MST_ST_V = 0xf"
definition h4_SPI_MEM_MST_ST_S :: nat where [regs]: "h4_SPI_MEM_MST_ST_S = 0"
definition h4_SPI_MEM_SLV_ST_V :: u32 where [regs]: "h4_SPI_MEM_SLV_ST_V = 0xf"
definition h4_SPI_MEM_SLV_ST_S :: nat where [regs]: "h4_SPI_MEM_SLV_ST_S = 4"
definition h4_SPI_MEM_USER_REG :: "u32 \<Rightarrow> u32" where [regs]: "h4_SPI_MEM_USER_REG i = 0x60098018 + i * 0x1000"
definition h4_SPI_MEM_USR_COMMAND :: u32 where [regs]: "h4_SPI_MEM_USR_COMMAND = 0x80000000"
definition h4_SPI_MEM_XTS_DESTINATION_REG :: "u32 \<Rightarrow> u32" where [regs]: "h4_SPI_MEM_XTS_DESTINATION_REG i = 0x60098344 + i * 0x1000"
definition h4_SPI_MEM_XTS_LINESIZE_REG :: "u32 \<Rightarrow> u32" where [regs]: "h4_SPI_MEM_XTS_LINESIZE_REG i = 0x60098340 + i * 0x1000"
definition h4_SPI_MEM_XTS_PLAIN_BASE_REG :: "u32 \<Rightarrow> u32" where [regs]: "h4_SPI_MEM_XTS_PLAIN_BASE_REG i = 0x60098300 + i * 0x1000"
definition h4_SPI_MEM_XTS_PHYSICAL_ADDRESS_REG :: "u32 \<Rightarrow> u32" where [regs]: "h4_SPI_MEM_XTS_PHYSICAL_ADDRESS_REG i = 0x60098348 + i * 0x1000"
definition h4_SPI_MEM_XTS_TRIGGER_REG :: "u32 \<Rightarrow> u32" where [regs]: "h4_SPI_MEM_XTS_TRIGGER_REG i = 0x6009834c + i * 0x1000"
definition h4_SPI_MEM_XTS_STATE_REG :: "u32 \<Rightarrow> u32" where [regs]: "h4_SPI_MEM_XTS_STATE_REG i = 0x60098358 + i * 0x1000"
definition h4_SPI_MEM_XTS_RELEASE_REG :: "u32 \<Rightarrow> u32" where [regs]: "h4_SPI_MEM_XTS_RELEASE_REG i = 0x60098350 + i * 0x1000"
definition h4_SPI_MEM_XTS_DESTROY_REG :: "u32 \<Rightarrow> u32" where [regs]: "h4_SPI_MEM_XTS_DESTROY_REG i = 0x60098354 + i * 0x1000"
definition h4_SPI_MEM_ADDR_REG :: "u32 \<Rightarrow> u32" where [regs]: "h4_SPI_MEM_ADDR_REG i = 0x60098004 + i * 0x1000"
definition h4_SPI_MEM_RD_STATUS_REG :: "u32 \<Rightarrow> u32" where [regs]: "h4_SPI_MEM_RD_STATUS_REG i = 0x6009802c + i * 0x1000"
definition h4_SPI_MEM_FLASH_SE :: u32 where [regs]: "h4_SPI_MEM_FLASH_SE = 0x1000000"
definition h4_SPI_MEM_FLASH_BE :: u32 where [regs]: "h4_SPI_MEM_FLASH_BE = 0x800000"
definition h4_SPI_MEM_FLASH_RDSR :: u32 where [regs]: "h4_SPI_MEM_FLASH_RDSR = 0x8000000"
definition h4_SPI_CLK_GPIO_NUM :: u32 where [regs]: "h4_SPI_CLK_GPIO_NUM = 0xb"
definition h4_SPI_Q_GPIO_NUM :: u32 where [regs]: "h4_SPI_Q_GPIO_NUM = 0x8"
definition h4_SPI_D_GPIO_NUM :: u32 where [regs]: "h4_SPI_D_GPIO_NUM = 0xc"
definition h4_SPI_CS0_GPIO_NUM :: u32 where [regs]: "h4_SPI_CS0_GPIO_NUM = 0x7"

section \<open>ESP32P4\<close>

definition p4_EFUSE_RD_REPEAT_DATA1_REG :: u32 where [regs]: "p4_EFUSE_RD_REPEAT_DATA1_REG = 0x5012d034"
definition p4_EFUSE_DOWNLOAD_MODE_XPD_ON_V :: u32 where [regs]: "p4_EFUSE_DOWNLOAD_MODE_XPD_ON_V = 0x1"
definition p4_EFUSE_DOWNLOAD_MODE_XPD_ON_S :: nat where [regs]: "p4_EFUSE_DOWNLOAD_MODE_XPD_ON_S = 16"
definition p4_PMU_DATE_REG :: u32 where [regs]: "p4_PMU_DATE_REG = 0x501153fc"
definition p4_SPI1_MEM_C_CMD_REG :: u32 where [regs]: "p4_SPI1_MEM_C_CMD_REG = 0x5008d000"
definition p4_SPI1_MEM_C_MST_ST_V :: u32 where [regs]: "p4_SPI1_MEM_C_MST_ST_V = 0xf"
definition p4_SPI1_MEM_C_MST_ST_S :: nat where [regs]: "p4_SPI1_MEM_C_MST_ST_S = 0"
definition p4_SPI1_MEM_C_SLV_ST_V :: u32 where [regs]: "p4_SPI1_MEM_C_SLV_ST_V = 0xf"
definition p4_SPI1_MEM_C_SLV_ST_S :: nat where [regs]: "p4_SPI1_MEM_C_SLV_ST_S = 4"
definition p4_SPI_MEM_C_CACHE_FCTRL_REG :: u32 where [regs]: "p4_SPI_MEM_C_CACHE_FCTRL_REG = 0x5008c03c"
definition p4_SPI_MEM_C_CACHE_USR_ADDR_4BYTE :: u32 where [regs]: "p4_SPI_MEM_C_CACHE_USR_ADDR_4BYTE = 0x2"
definition p4_SPI_MEM_C_USER1_REG :: u32 where [regs]: "p4_SPI_MEM_C_USER1_REG = 0x5008c01c"
definition p4_SPI_MEM_C_USR_ADDR_BITLEN_V :: u32 where [regs]: "p4_SPI_MEM_C_USR_ADDR_BITLEN_V = 0x3f"
definition p4_SPI_MEM_C_USR_ADDR_BITLEN_S :: nat where [regs]: "p4_SPI_MEM_C_USR_ADDR_BITLEN_S = 26"
definition p4_SPI_MEM_C_USER_REG :: u32 where [regs]: "p4_SPI_MEM_C_USER_REG = 0x5008c018"
definition p4_SPI_MEM_C_USER2_REG :: u32 where [regs]: "p4_SPI_MEM_C_USER2_REG = 0x5008c020"
definition p4_SPI_MEM_C_CTRL_REG :: u32 where [regs]: "p4_SPI_MEM_C_CTRL_REG = 0x5008c008"
definition p4_SPI_MEM_C_DDR_REG :: u32 where [regs]: "p4_SPI_MEM_C_DDR_REG = 0x5008c0d4"
definition p4_SPI_MEM_C_TIMING_CALI_REG :: u32 where [regs]: "p4_SPI_MEM_C_TIMING_CALI_REG = 0x5008c180"
definition p4_SPI_MEM_C_TIMING_CALI_M :: u32 where [regs]: "p4_SPI_MEM_C_TIMING_CALI_M = 0x2"
definition p4_SPI_MEM_C_EXTRA_DUMMY_CYCLELEN_V :: u32 where [regs]: "p4_SPI_MEM_C_EXTRA_DUMMY_CYCLELEN_V = 0x7"
definition p4_SPI_MEM_C_EXTRA_DUMMY_CYCLELEN_S :: nat where [regs]: "p4_SPI_MEM_C_EXTRA_DUMMY_CYCLELEN_S = 2"
definition p4_SPI_MEM_C_TIMING_CALI_UPDATE :: u32 where [regs]: "p4_SPI_MEM_C_TIMING_CALI_UPDATE = 0x40"
definition p4_SPI_MEM_C_USR_DUMMY :: u32 where [regs]: "p4_SPI_MEM_C_USR_DUMMY = 0x20000000"
definition p4_SPI_MEM_C_USR_DUMMY_CYCLELEN_V :: u32 where [regs]: "p4_SPI_MEM_C_USR_DUMMY_CYCLELEN_V = 0x3f"
definition p4_SPI_MEM_C_USR_DUMMY_CYCLELEN_S :: nat where [regs]: "p4_SPI_MEM_C_USR_DUMMY_CYCLELEN_S = 0"
definition p4_SPI_MEM_C_USR_COMMAND_VALUE_V :: u32 where [regs]: "p4_SPI_MEM_C_USR_COMMAND_VALUE_V = 0xffff"
definition p4_SPI_MEM_C_USR_COMMAND_VALUE_S :: nat where [regs]: "p4_SPI_MEM_C_USR_COMMAND_VALUE_S = 0"
definition p4_SPI_MEM_C_USR_COMMAND_BITLEN_V :: u32 where [regs]: "p4_SPI_MEM_C_USR_COMMAND_BITLEN_V = 0xf"
definition p4_SPI_MEM_C_USR_COMMAND_BITLEN_S :: nat where [regs]: "p4_SPI_MEM_C_USR_COMMAND_BITLEN_S = 28"
definition p4_SPI_MEM_C_FMEM__VAR_DUMMY_V :: u32 where [regs]: "p4_SPI_MEM_C_FMEM__VAR_DUMMY_V = 0x1"
definition p4_SPI_MEM_C_FMEM__VAR_DUMMY_S :: nat where [regs]: "p4_SPI_MEM_C_FMEM__VAR_DUMMY_S = 1"
definition p4_SPI_MEM_C_FDUMMY_RIN :: u32 where [regs]: "p4_SPI_MEM_C_FDUMMY_RIN = 0x4"
definition p4_SPI_MEM_C_WP_REG :: u32 where [regs]: "p4_SPI_MEM_C_WP_REG = 0x200000"
definition p4_SPI_MEM_C_D_POL :: u32 where [regs]: "p4_SPI_MEM_C_D_POL = 0x80000"
definition p4_SPI_MEM_C_Q_POL :: u32 where [regs]: "p4_SPI_MEM_C_Q_POL = 0x40000"
definition p4_SPI_MEM_USER_REG :: "u32 \<Rightarrow> u32" where [regs]: "p4_SPI_MEM_USER_REG i = 0x5008d018"
definition p4_SPI_MEM_USR_COMMAND :: u32 where [regs]: "p4_SPI_MEM_USR_COMMAND = 0x80000000"
definition p4_SPI_MEM_C_XTS_DESTINATION_REG :: u32 where [regs]: "p4_SPI_MEM_C_XTS_DESTINATION_REG = 0x5008c344"
definition p4_SPI_MEM_C_XTS_LINESIZE_REG :: u32 where [regs]: "p4_SPI_MEM_C_XTS_LINESIZE_REG = 0x5008c340"
definition p4_SPI_MEM_C_XTS_PLAIN_BASE_REG :: u32 where [regs]: "p4_SPI_MEM_C_XTS_PLAIN_BASE_REG = 0x5008c300"
definition p4_SPI_MEM_C_XTS_PHYSICAL_ADDRESS_REG :: u32 where [regs]: "p4_SPI_MEM_C_XTS_PHYSICAL_ADDRESS_REG = 0x5008c348"
definition p4_SPI_MEM_C_XTS_TRIGGER_REG :: u32 where [regs]: "p4_SPI_MEM_C_XTS_TRIGGER_REG = 0x5008c34c"
definition p4_SPI_MEM_C_XTS_STATE_REG :: u32 where [regs]: "p4_SPI_MEM_C_XTS_STATE_REG = 0x5008c358"
definition p4_SPI_MEM_C_XTS_RELEASE_REG :: u32 where [regs]: "p4_SPI_MEM_C_XTS_RELEASE_REG = 0x5008c350"
definition p4_SPI_MEM_C_XTS_DESTROY_REG :: u32 where [regs]: "p4_SPI_MEM_C_XTS_DESTROY_REG = 0x5008c354"
definition p4_SPI_MEM_CMD_REG :: "u32 \<Rightarrow> u32" where [regs]: "p4_SPI_MEM_CMD_REG i = 0x5008d000"
definition p4_SPI_MEM_ADDR_REG :: "u32 \<Rightarrow> u32" where [regs]: "p4_SPI_MEM_ADDR_REG i = 0x5008d004"
definition p4_SPI_MEM_RD_STATUS_REG :: "u32 \<Rightarrow> u32" where [regs]: "p4_SPI_MEM_RD_STATUS_REG i = 0x5008d02c"
definition p4_SPI_MEM_FLASH_SE :: u32 where [regs]: "p4_SPI_MEM_FLASH_SE = 0x1000000"
definition p4_SPI_MEM_FLASH_BE :: u32 where [regs]: "p4_SPI_MEM_FLASH_BE = 0x800000"
definition p4_SPI_MEM_FLASH_RDSR :: u32 where [regs]: "p4_SPI_MEM_FLASH_RDSR = 0x8000000"

section \<open>ESP32S31\<close>

definition s31_SPI_MEM_CMD_REG :: "u32 \<Rightarrow> u32" where [regs]: "s31_SPI_MEM_CMD_REG i = 0x20501000"
definition s31_SPI_MEM_MST_ST_V :: u32 where [regs]: "s31_SPI_MEM_MST_ST_V = 0xf"
definition s31_SPI_MEM_MST_ST_S :: nat where [regs]: "s31_SPI_MEM_MST_ST_S = 0"
definition s31_SPI_MEM_SLV_ST_V :: u32 where [regs]: "s31_SPI_MEM_SLV_ST_V = 0xf"
definition s31_SPI_MEM_SLV_ST_S :: nat where [regs]: "s31_SPI_MEM_SLV_ST_S = 4"
definition s31_SPI_MEM_USER_REG :: "u32 \<Rightarrow> u32" where [regs]: "s31_SPI_MEM_USER_REG i = 0x20501018"
definition s31_SPI_MEM_USR_COMMAND :: u32 where [regs]: "s31_SPI_MEM_USR_COMMAND = 0x80000000"
definition s31_SPI_MEM_C_XTS_DESTINATION_REG :: u32 where [regs]: "s31_SPI_MEM_C_XTS_DESTINATION_REG = 0x20500344"
definition s31_SPI_MEM_C_XTS_LINESIZE_REG :: u32 where [regs]: "s31_SPI_MEM_C_XTS_LINESIZE_REG = 0x20500340"
definition s31_SPI_MEM_C_XTS_PLAIN_BASE_REG :: u32 where [regs]: "s31_SPI_MEM_C_XTS_PLAIN_BASE_REG = 0x20500300"
definition s31_SPI_MEM_C_XTS_PHYSICAL_ADDRESS_REG :: u32 where [regs]: "s31_SPI_MEM_C_XTS_PHYSICAL_ADDRESS_REG = 0x20500348"
definition s31_SPI_MEM_C_XTS_TRIGGER_REG :: u32 where [regs]: "s31_SPI_MEM_C_XTS_TRIGGER_REG = 0x2050034c"
definition s31_SPI_MEM_C_XTS_STATE_REG :: u32 where [regs]: "s31_SPI_MEM_C_XTS_STATE_REG = 0x20500358"
definition s31_SPI_MEM_C_XTS_RELEASE_REG :: u32 where [regs]: "s31_SPI_MEM_C_XTS_RELEASE_REG = 0x20500350"
definition s31_SPI_MEM_C_XTS_DESTROY_REG :: u32 where [regs]: "s31_SPI_MEM_C_XTS_DESTROY_REG = 0x20500354"
definition s31_SPI_MEM_ADDR_REG :: "u32 \<Rightarrow> u32" where [regs]: "s31_SPI_MEM_ADDR_REG i = 0x20501004"
definition s31_SPI_MEM_RD_STATUS_REG :: "u32 \<Rightarrow> u32" where [regs]: "s31_SPI_MEM_RD_STATUS_REG i = 0x2050102c"
definition s31_SPI_MEM_FLASH_SE :: u32 where [regs]: "s31_SPI_MEM_FLASH_SE = 0x1000000"
definition s31_SPI_MEM_FLASH_BE :: u32 where [regs]: "s31_SPI_MEM_FLASH_BE = 0x800000"
definition s31_SPI_MEM_FLASH_RDSR :: u32 where [regs]: "s31_SPI_MEM_FLASH_RDSR = 0x8000000"

end
