(* ===== verification/Chip_Aes_Xts.thy ===== *)
theory Chip_Aes_Xts
  imports S3_Aes_Xts Flash_Regs
begin

text \<open>
  The AES-XTS engines of the other chips that encrypt flash writes themselves,
  \<open>src/target/CHIP/src/aes_xts.c\<close>: those of the ESP32-C5, ESP32-C61, ESP32-H4, ESP32-P4 and
  ESP32-S31. They differ from the ESP32-S3's in their registers; the ESP32-H4 and ESP32-S31
  first have the ROM put the key in place.
\<close>

section \<open>ESP32-C5\<close>

definition c5_INTERNAL_SPI_NUM :: u32 where [regs]: "c5_INTERNAL_SPI_NUM = 0"
definition c5_AES_XTS_STATE_DONE :: u32 where [regs]: "c5_AES_XTS_STATE_DONE = 2"
definition c5_AES_XTS_STATE_VISIBLE :: u32 where [regs]: "c5_AES_XTS_STATE_VISIBLE = 3"

definition c5_aes_xts_init :: "'a world_scheme \<Rightarrow> 'a world_scheme option" where
  "c5_aes_xts_init w = Some (REG_WRITE (c5_SPI_MEM_XTS_DESTINATION_REG c5_INTERNAL_SPI_NUM) 0 w)"

definition c5_aes_xts_encrypt_trigger ::
  "u32 \<Rightarrow> u8 list \<Rightarrow> u32 \<Rightarrow> 'a world_scheme \<Rightarrow> 'a world_scheme option" where
  "c5_aes_xts_encrypt_trigger flash_addr data block_size w =
     (let plaintext_offs = flash_addr mod MAX_ENCRYPT_BLOCK;
          w = REG_WRITE (c5_SPI_MEM_XTS_LINESIZE_REG c5_INTERNAL_SPI_NUM) (drop_bit 5 block_size) w;
          w = mem_store (c5_SPI_MEM_XTS_PLAIN_BASE_REG c5_INTERNAL_SPI_NUM + plaintext_offs) (take (unat block_size) data) w;
          w = REG_WRITE (c5_SPI_MEM_XTS_PHYSICAL_ADDRESS_REG c5_INTERNAL_SPI_NUM) flash_addr w
      in Some (REG_WRITE (c5_SPI_MEM_XTS_TRIGGER_REG c5_INTERNAL_SPI_NUM) 1 w))"

definition c5_aes_xts_wait_data_ready :: "u64 \<Rightarrow> 'a world_scheme \<Rightarrow> (rc \<times> 'a world_scheme) option" where
  "c5_aes_xts_wait_data_ready timeout_us w =
     (let (ret, timeout_us, w) =
        stub_target_wait_reg_state (c5_SPI_MEM_XTS_STATE_REG c5_INTERNAL_SPI_NUM) c5_AES_XTS_STATE_DONE (Some timeout_us) w
      in if ret \<noteq> STUB_LIB_OK then Some (ret, w)
         else
           (let w = REG_WRITE (c5_SPI_MEM_XTS_RELEASE_REG c5_INTERNAL_SPI_NUM) 1 w;
                (ret, timeout_us, w) =
                  stub_target_wait_reg_state (c5_SPI_MEM_XTS_STATE_REG c5_INTERNAL_SPI_NUM) c5_AES_XTS_STATE_VISIBLE timeout_us w
            in Some (ret, w)))"

definition c5_aes_xts_clear :: "'a world_scheme \<Rightarrow> 'a world_scheme option" where
  "c5_aes_xts_clear w = Some (REG_WRITE (c5_SPI_MEM_XTS_DESTROY_REG c5_INTERNAL_SPI_NUM) 1 w)"

section \<open>ESP32-C61\<close>

definition c61_INTERNAL_SPI_NUM :: u32 where [regs]: "c61_INTERNAL_SPI_NUM = 0"
definition c61_AES_XTS_STATE_DONE :: u32 where [regs]: "c61_AES_XTS_STATE_DONE = 2"
definition c61_AES_XTS_STATE_VISIBLE :: u32 where [regs]: "c61_AES_XTS_STATE_VISIBLE = 3"

definition c61_aes_xts_init :: "'a world_scheme \<Rightarrow> 'a world_scheme option" where
  "c61_aes_xts_init w = Some (REG_WRITE (c61_SPI_MEM_XTS_DESTINATION_REG c61_INTERNAL_SPI_NUM) 0 w)"

definition c61_aes_xts_encrypt_trigger ::
  "u32 \<Rightarrow> u8 list \<Rightarrow> u32 \<Rightarrow> 'a world_scheme \<Rightarrow> 'a world_scheme option" where
  "c61_aes_xts_encrypt_trigger flash_addr data block_size w =
     (let plaintext_offs = flash_addr mod MAX_ENCRYPT_BLOCK;
          w = REG_WRITE (c61_SPI_MEM_XTS_LINESIZE_REG c61_INTERNAL_SPI_NUM) (drop_bit 5 block_size) w;
          w = mem_store (c61_SPI_MEM_XTS_PLAIN_BASE_REG c61_INTERNAL_SPI_NUM + plaintext_offs) (take (unat block_size) data) w;
          w = REG_WRITE (c61_SPI_MEM_XTS_PHYSICAL_ADDRESS_REG c61_INTERNAL_SPI_NUM) flash_addr w
      in Some (REG_WRITE (c61_SPI_MEM_XTS_TRIGGER_REG c61_INTERNAL_SPI_NUM) 1 w))"

definition c61_aes_xts_wait_data_ready :: "u64 \<Rightarrow> 'a world_scheme \<Rightarrow> (rc \<times> 'a world_scheme) option" where
  "c61_aes_xts_wait_data_ready timeout_us w =
     (let (ret, timeout_us, w) =
        stub_target_wait_reg_state (c61_SPI_MEM_XTS_STATE_REG c61_INTERNAL_SPI_NUM) c61_AES_XTS_STATE_DONE (Some timeout_us) w
      in if ret \<noteq> STUB_LIB_OK then Some (ret, w)
         else
           (let w = REG_WRITE (c61_SPI_MEM_XTS_RELEASE_REG c61_INTERNAL_SPI_NUM) 1 w;
                (ret, timeout_us, w) =
                  stub_target_wait_reg_state (c61_SPI_MEM_XTS_STATE_REG c61_INTERNAL_SPI_NUM) c61_AES_XTS_STATE_VISIBLE timeout_us w
            in Some (ret, w)))"

definition c61_aes_xts_clear :: "'a world_scheme \<Rightarrow> 'a world_scheme option" where
  "c61_aes_xts_clear w = Some (REG_WRITE (c61_SPI_MEM_XTS_DESTROY_REG c61_INTERNAL_SPI_NUM) 1 w)"

section \<open>ESP32-H4\<close>

definition h4_INTERNAL_SPI_NUM :: u32 where [regs]: "h4_INTERNAL_SPI_NUM = 0"
definition h4_AES_XTS_STATE_DONE :: u32 where [regs]: "h4_AES_XTS_STATE_DONE = 2"
definition h4_AES_XTS_STATE_VISIBLE :: u32 where [regs]: "h4_AES_XTS_STATE_VISIBLE = 3"

definition h4_aes_xts_init :: "'a world_scheme \<Rightarrow> 'a world_scheme option" where
  "h4_aes_xts_init w = Some (let (_, w) = rom_num (FlashFn Esp_rom_recover_key) [0] [] w in REG_WRITE (h4_SPI_MEM_XTS_DESTINATION_REG h4_INTERNAL_SPI_NUM) 0 w)"

definition h4_aes_xts_encrypt_trigger ::
  "u32 \<Rightarrow> u8 list \<Rightarrow> u32 \<Rightarrow> 'a world_scheme \<Rightarrow> 'a world_scheme option" where
  "h4_aes_xts_encrypt_trigger flash_addr data block_size w =
     (let plaintext_offs = flash_addr mod MAX_ENCRYPT_BLOCK;
          w = REG_WRITE (h4_SPI_MEM_XTS_LINESIZE_REG h4_INTERNAL_SPI_NUM) (drop_bit 5 block_size) w;
          w = mem_store (h4_SPI_MEM_XTS_PLAIN_BASE_REG h4_INTERNAL_SPI_NUM + plaintext_offs) (take (unat block_size) data) w;
          w = REG_WRITE (h4_SPI_MEM_XTS_PHYSICAL_ADDRESS_REG h4_INTERNAL_SPI_NUM) flash_addr w
      in Some (REG_WRITE (h4_SPI_MEM_XTS_TRIGGER_REG h4_INTERNAL_SPI_NUM) 1 w))"

definition h4_aes_xts_wait_data_ready :: "u64 \<Rightarrow> 'a world_scheme \<Rightarrow> (rc \<times> 'a world_scheme) option" where
  "h4_aes_xts_wait_data_ready timeout_us w =
     (let (ret, timeout_us, w) =
        stub_target_wait_reg_state (h4_SPI_MEM_XTS_STATE_REG h4_INTERNAL_SPI_NUM) h4_AES_XTS_STATE_DONE (Some timeout_us) w
      in if ret \<noteq> STUB_LIB_OK then Some (ret, w)
         else
           (let w = REG_WRITE (h4_SPI_MEM_XTS_RELEASE_REG h4_INTERNAL_SPI_NUM) 1 w;
                (ret, timeout_us, w) =
                  stub_target_wait_reg_state (h4_SPI_MEM_XTS_STATE_REG h4_INTERNAL_SPI_NUM) h4_AES_XTS_STATE_VISIBLE timeout_us w
            in Some (ret, w)))"

definition h4_aes_xts_clear :: "'a world_scheme \<Rightarrow> 'a world_scheme option" where
  "h4_aes_xts_clear w = Some (REG_WRITE (h4_SPI_MEM_XTS_DESTROY_REG h4_INTERNAL_SPI_NUM) 1 w)"

section \<open>ESP32-P4\<close>

definition p4_AES_XTS_STATE_DONE :: u32 where [regs]: "p4_AES_XTS_STATE_DONE = 2"
definition p4_AES_XTS_STATE_VISIBLE :: u32 where [regs]: "p4_AES_XTS_STATE_VISIBLE = 3"

definition p4_aes_xts_init :: "'a world_scheme \<Rightarrow> 'a world_scheme option" where
  "p4_aes_xts_init w = Some (REG_WRITE p4_SPI_MEM_C_XTS_DESTINATION_REG 0 w)"

definition p4_aes_xts_encrypt_trigger ::
  "u32 \<Rightarrow> u8 list \<Rightarrow> u32 \<Rightarrow> 'a world_scheme \<Rightarrow> 'a world_scheme option" where
  "p4_aes_xts_encrypt_trigger flash_addr data block_size w =
     (let plaintext_offs = flash_addr mod MAX_ENCRYPT_BLOCK;
          w = REG_WRITE p4_SPI_MEM_C_XTS_LINESIZE_REG (drop_bit 5 block_size) w;
          w = mem_store (p4_SPI_MEM_C_XTS_PLAIN_BASE_REG + plaintext_offs) (take (unat block_size) data) w;
          w = REG_WRITE p4_SPI_MEM_C_XTS_PHYSICAL_ADDRESS_REG flash_addr w
      in Some (REG_WRITE p4_SPI_MEM_C_XTS_TRIGGER_REG 1 w))"

definition p4_aes_xts_wait_data_ready :: "u64 \<Rightarrow> 'a world_scheme \<Rightarrow> (rc \<times> 'a world_scheme) option" where
  "p4_aes_xts_wait_data_ready timeout_us w =
     (let (ret, timeout_us, w) =
        stub_target_wait_reg_state p4_SPI_MEM_C_XTS_STATE_REG p4_AES_XTS_STATE_DONE (Some timeout_us) w
      in if ret \<noteq> STUB_LIB_OK then Some (ret, w)
         else
           (let w = REG_WRITE p4_SPI_MEM_C_XTS_RELEASE_REG 1 w;
                (ret, timeout_us, w) =
                  stub_target_wait_reg_state p4_SPI_MEM_C_XTS_STATE_REG p4_AES_XTS_STATE_VISIBLE timeout_us w
            in Some (ret, w)))"

definition p4_aes_xts_clear :: "'a world_scheme \<Rightarrow> 'a world_scheme option" where
  "p4_aes_xts_clear w = Some (REG_WRITE p4_SPI_MEM_C_XTS_DESTROY_REG 1 w)"

section \<open>ESP32-S31\<close>

definition s31_AES_XTS_STATE_DONE :: u32 where [regs]: "s31_AES_XTS_STATE_DONE = 2"
definition s31_AES_XTS_STATE_VISIBLE :: u32 where [regs]: "s31_AES_XTS_STATE_VISIBLE = 3"

definition s31_aes_xts_init :: "'a world_scheme \<Rightarrow> 'a world_scheme option" where
  "s31_aes_xts_init w = Some (let (_, w) = rom_num (FlashFn Esp_rom_recover_key) [0] [] w in REG_WRITE s31_SPI_MEM_C_XTS_DESTINATION_REG 0 w)"

definition s31_aes_xts_encrypt_trigger ::
  "u32 \<Rightarrow> u8 list \<Rightarrow> u32 \<Rightarrow> 'a world_scheme \<Rightarrow> 'a world_scheme option" where
  "s31_aes_xts_encrypt_trigger flash_addr data block_size w =
     (let plaintext_offs = flash_addr mod MAX_ENCRYPT_BLOCK;
          w = REG_WRITE s31_SPI_MEM_C_XTS_LINESIZE_REG (drop_bit 5 block_size) w;
          w = mem_store (s31_SPI_MEM_C_XTS_PLAIN_BASE_REG + plaintext_offs) (take (unat block_size) data) w;
          w = REG_WRITE s31_SPI_MEM_C_XTS_PHYSICAL_ADDRESS_REG flash_addr w
      in Some (REG_WRITE s31_SPI_MEM_C_XTS_TRIGGER_REG 1 w))"

definition s31_aes_xts_wait_data_ready :: "u64 \<Rightarrow> 'a world_scheme \<Rightarrow> (rc \<times> 'a world_scheme) option" where
  "s31_aes_xts_wait_data_ready timeout_us w =
     (let (ret, timeout_us, w) =
        stub_target_wait_reg_state s31_SPI_MEM_C_XTS_STATE_REG s31_AES_XTS_STATE_DONE (Some timeout_us) w
      in if ret \<noteq> STUB_LIB_OK then Some (ret, w)
         else
           (let w = REG_WRITE s31_SPI_MEM_C_XTS_RELEASE_REG 1 w;
                (ret, timeout_us, w) =
                  stub_target_wait_reg_state s31_SPI_MEM_C_XTS_STATE_REG s31_AES_XTS_STATE_VISIBLE timeout_us w
            in Some (ret, w)))"

definition s31_aes_xts_clear :: "'a world_scheme \<Rightarrow> 'a world_scheme option" where
  "s31_aes_xts_clear w = Some (REG_WRITE s31_SPI_MEM_C_XTS_DESTROY_REG 1 w)"

end
