(* ===== verification/Clock.thy ===== *)
theory Clock
  imports Plain S3_Regs "HOL-Library.Signed_Division"
begin

text \<open>
  Clocks and watchdogs: \<open>src/clock.c\<close>, the weak \<open>src/target/common/src/clock.c\<close> and the
  ESP32-S3's \<open>src/target/esp32s3/src/clock.c\<close>, which computes the regulator voltages for
  240 MHz from the calibration in the eFuses. C's \<open>int32_t\<close> values are integers here; the
  calibration fields are so small that no operation on them overflows.
\<close>

section \<open>The API and the weak target\<close>

record 'w clock_target =
  tk_init :: "'w \<Rightarrow> 'w option"
  tk_disable_watchdogs :: "'w \<Rightarrow> 'w"

definition stub_target_clock_init :: "'w \<Rightarrow> 'w" where "stub_target_clock_init w = w"
definition stub_target_get_cpu_freq :: "'w \<Rightarrow> u32 \<times> 'w" where "stub_target_get_cpu_freq w = (0, w)"
definition stub_target_get_apb_freq :: "'w \<Rightarrow> u32 \<times> 'w" where "stub_target_get_apb_freq w = (0, w)"
definition stub_target_clock_disable_watchdogs :: "'w \<Rightarrow> 'w" where "stub_target_clock_disable_watchdogs w = w"

definition stub_lib_clock_init :: "'a world_scheme clock_target \<Rightarrow> 'a world_scheme \<Rightarrow> 'a world_scheme option" where
  "stub_lib_clock_init T w = do { w \<leftarrow> tk_init T w; Some (stub_lib_delay_us 10000 w) }"

definition stub_lib_clock_disable_watchdogs :: "'w clock_target \<Rightarrow> 'w \<Rightarrow> 'w" where
  "stub_lib_clock_disable_watchdogs T w = tk_disable_watchdogs T w"

section \<open>The ESP32-S3\<close>

definition CPU_FREQ_MHZ :: u32 where [regs]: "CPU_FREQ_MHZ = 240"
definition DIG_DBIAS_240M_DEFAULT :: u32 where [regs]: "DIG_DBIAS_240M_DEFAULT = 28"
definition RTC_DBIAS_240M_DEFAULT :: u32 where [regs]: "RTC_DBIAS_240M_DEFAULT = 28"
definition K_RTC_MID_MUL10000 :: int where [regs]: "K_RTC_MID_MUL10000 = 198"
definition K_DIG_MID_MUL10000 :: int where [regs]: "K_DIG_MID_MUL10000 = 211"
definition V_RTC_MID_MUL10000 :: int where [regs]: "V_RTC_MID_MUL10000 = 10181"
definition V_DIG_MID_MUL10000 :: int where [regs]: "V_DIG_MID_MUL10000 = 10841"
definition V_DIG_1V3_MUL10000 :: int where [regs]: "V_DIG_1V3_MUL10000 = 13000"
definition DBIAS_MIN :: u32 where [regs]: "DBIAS_MIN = 15"
definition DBIAS_MAX :: u32 where [regs]: "DBIAS_MAX = 31"
definition DBIAS_RTC_TOLERANCE :: int where [regs]: "DBIAS_RTC_TOLERANCE = 250"
definition DBIAS_CALIBRATION_DIVISOR :: int where [regs]: "DBIAS_CALIBRATION_DIVISOR = 500"
definition DBIAS_SETTLE_US :: u32 where [regs]: "DBIAS_SETTLE_US = 40"
definition DEFAULT_LDO_SLAVE :: u32 where [regs]: "DEFAULT_LDO_SLAVE = 7"

record clock_world = world +
  s_cpu_freq :: u32

definition efuse_field :: "u32 \<Rightarrow> u32 \<Rightarrow> nat \<Rightarrow> 'a world_scheme \<Rightarrow> u32 \<times> 'a world_scheme" where
  "efuse_field r m s w = (let (v, w) = REG_READ r w in (drop_bit s v AND m, w))"

definition sign_magnitude :: "u32 \<Rightarrow> u32 \<Rightarrow> u32 \<Rightarrow> int" where
  "sign_magnitude value sign_bit magnitude_mask =
     (if value AND sign_bit \<noteq> 0 then - sint (value AND magnitude_mask) else sint value)"

definition has_pvt_dbias_calibration :: "'a world_scheme \<Rightarrow> bool \<times> 'a world_scheme" where
  "has_pvt_dbias_calibration w =
     (let (major, w) = efuse_field EFUSE_RD_SYS_PART1_DATA4_REG EFUSE_BLK_VERSION_MAJOR_V EFUSE_BLK_VERSION_MAJOR_S w;
          (minor, w) = efuse_field EFUSE_RD_MAC_SPI_SYS_3_REG EFUSE_BLK_VERSION_MINOR_V EFUSE_BLK_VERSION_MINOR_S w
      in ((major \<le> 1 \<and> minor = 1) \<or> major > 1 \<or> (major = 1 \<and> minor \<ge> 2), w))"

definition get_k_rtc_ldo :: "'a world_scheme \<Rightarrow> int \<times> 'a world_scheme" where
  "get_k_rtc_ldo w =
     (let (raw, w) = efuse_field EFUSE_RD_MAC_SPI_SYS_4_REG EFUSE_K_RTC_LDO_V EFUSE_K_RTC_LDO_S w
      in (sign_magnitude raw (BIT 6) 0x3F, w))"

definition get_k_dig_ldo :: "'a world_scheme \<Rightarrow> int \<times> 'a world_scheme" where
  "get_k_dig_ldo w =
     (let (raw, w) = efuse_field EFUSE_RD_MAC_SPI_SYS_4_REG EFUSE_K_DIG_LDO_V EFUSE_K_DIG_LDO_S w
      in (sign_magnitude raw (BIT 6) 0x3F, w))"

definition get_v_rtc_dbias20 :: "'a world_scheme \<Rightarrow> int \<times> 'a world_scheme" where
  "get_v_rtc_dbias20 w =
     (let (low, w) = efuse_field EFUSE_RD_MAC_SPI_SYS_4_REG EFUSE_V_RTC_DBIAS20_V EFUSE_V_RTC_DBIAS20_S w;
          (high, w) = efuse_field EFUSE_RD_MAC_SPI_SYS_5_REG EFUSE_V_RTC_DBIAS20_1_V EFUSE_V_RTC_DBIAS20_1_S w
      in (sign_magnitude (push_bit 5 high OR low) (BIT 7) 0x7F, w))"

definition get_v_dig_dbias20 :: "'a world_scheme \<Rightarrow> int \<times> 'a world_scheme" where
  "get_v_dig_dbias20 w =
     (let (raw, w) = efuse_field EFUSE_RD_MAC_SPI_SYS_5_REG EFUSE_V_DIG_DBIAS20_V EFUSE_V_DIG_DBIAS20_S w
      in (sign_magnitude raw (BIT 7) 0x7F, w))"

text \<open>Both search loops: the first value from \<open>dbias\<close> on that satisfies P, or the largest.\<close>

function first_dbias :: "(u32 \<Rightarrow> bool) \<Rightarrow> u32 \<Rightarrow> u32" where
  "first_dbias P dbias =
     (if dbias < DBIAS_MAX then if P dbias then dbias else first_dbias P (dbias + 1) else DBIAS_MAX)"
  by pat_completeness auto
termination
proof (relation "measure (\<lambda>(P, d). 31 - unat d)")
  fix P and d :: u32
  assume "d < DBIAS_MAX"
  then show "((P, d + 1), (P, d)) \<in> measure (\<lambda>(P, d). 31 - unat d)"
    by (simp add: regs word_less_nat_alt unat_word_ariths)
qed simp

declare first_dbias.simps [simp del]

definition get_dig_1v3_dbias :: "'a world_scheme \<Rightarrow> u32 \<times> 'a world_scheme" where
  "get_dig_1v3_dbias w =
     (let (v, w) = get_v_dig_dbias20 w;
          voltage_at_20 = V_DIG_MID_MUL10000 + v * 10000 sdiv DBIAS_CALIBRATION_DIVISOR;
          (k, w) = get_k_dig_ldo w;
          slope = K_DIG_MID_MUL10000 + k
      in (first_dbias (\<lambda>dbias. voltage_at_20 + slope * (sint dbias - 20) \<ge> V_DIG_1V3_MUL10000) DBIAS_MIN, w))"

definition get_rtc_dbias :: "u32 \<Rightarrow> 'a world_scheme \<Rightarrow> u32 \<times> 'a world_scheme" where
  "get_rtc_dbias dig_dbias w =
     (let (vr, w) = get_v_rtc_dbias20 w;
          rtc_voltage_at_20 = V_RTC_MID_MUL10000 + vr * 10000 sdiv DBIAS_CALIBRATION_DIVISOR;
          (vd, w) = get_v_dig_dbias20 w;
          dig_voltage_at_20 = V_DIG_MID_MUL10000 + vd * 10000 sdiv DBIAS_CALIBRATION_DIVISOR;
          (kr, w) = get_k_rtc_ldo w;
          rtc_slope = K_RTC_MID_MUL10000 + kr;
          (kd, w) = get_k_dig_ldo w;
          dig_slope = K_DIG_MID_MUL10000 + kd;
          dig_voltage = dig_voltage_at_20 + dig_slope * (sint dig_dbias - 20)
      in (first_dbias (\<lambda>dbias. rtc_voltage_at_20 + rtc_slope * (sint dbias - 20) \<ge> dig_voltage - DBIAS_RTC_TOLERANCE)
            DBIAS_MIN, w))"

text \<open>
  The macro \<open>MIN\<close> evaluates the smaller argument twice: the calibration is computed again
  when it is the smaller one. The result is the pair of the RTC and the digital value.
\<close>

definition get_240m_dbias :: "'a world_scheme \<Rightarrow> (u32 \<times> u32) \<times> 'a world_scheme" where
  "get_240m_dbias w =
     (let (calibrated, w) = has_pvt_dbias_calibration w
      in if \<not> calibrated then ((RTC_DBIAS_240M_DEFAULT, DIG_DBIAS_240M_DEFAULT), w)
         else
           (let (hvt, w) = efuse_field EFUSE_RD_MAC_SPI_SYS_5_REG EFUSE_DIG_DBIAS_HVT_V EFUSE_DIG_DBIAS_HVT_S w
            in if hvt = 0 then ((RTC_DBIAS_240M_DEFAULT, DIG_DBIAS_240M_DEFAULT), w)
               else
                 (let (a, w) = get_dig_1v3_dbias w;
                      (dig, w) = (if a < hvt + 3 then get_dig_1v3_dbias w else (hvt + 3, w));
                      (rtc, w) = get_rtc_dbias dig w
                  in ((rtc, dig), w))))"

definition regi2c_write :: "u32 list \<Rightarrow> 'a world_scheme \<Rightarrow> 'a world_scheme" where
  "regi2c_write args w = rom_void (SysFn Esp_rom_regi2c_write) args [] w"

definition regi2c_write_mask :: "u32 list \<Rightarrow> 'a world_scheme \<Rightarrow> 'a world_scheme" where
  "regi2c_write_mask args w = rom_void (SysFn Esp_rom_regi2c_write_mask) args [] w"

definition set_regulator_dbias :: "u32 \<Rightarrow> u32 \<Rightarrow> 'a world_scheme \<Rightarrow> 'a world_scheme" where
  "set_regulator_dbias rtc_dbias dig_dbias w =
     (let w = regi2c_write_mask [I2C_DIG_REG, I2C_DIG_REG_HOSTID, I2C_DIG_REG_EXT_RTC_DREG, I2C_DIG_REG_EXT_RTC_DREG_MSB,
                I2C_DIG_REG_EXT_RTC_DREG_LSB, ucast (ucast rtc_dbias :: u8)] w
      in regi2c_write_mask [I2C_DIG_REG, I2C_DIG_REG_HOSTID, I2C_DIG_REG_EXT_DIG_DREG, I2C_DIG_REG_EXT_DIG_DREG_MSB,
                I2C_DIG_REG_EXT_DIG_DREG_LSB, ucast (ucast dig_dbias :: u8)] w)"

definition configure_bbpll :: "'a world_scheme \<Rightarrow> 'a world_scheme option" where
  "configure_bbpll w =
     (let w = REG_CLR_BIT RTC_CNTL_OPTIONS0_REG (RTC_CNTL_BB_I2C_FORCE_PD OR RTC_CNTL_BBPLL_FORCE_PD OR RTC_CNTL_BBPLL_I2C_FORCE_PD) w;
          w = REG_SET_FIELD SYSTEM_CPU_PER_CONF_REG SYSTEM_PLL_FREQ_SEL_V SYSTEM_PLL_FREQ_SEL_S 1 w;
          w = REG_CLR_BIT I2C_MST_ANA_CONF0_REG I2C_MST_BBPLL_STOP_FORCE_HIGH w;
          w = REG_SET_BIT I2C_MST_ANA_CONF0_REG I2C_MST_BBPLL_STOP_FORCE_LOW w;
          w = regi2c_write [I2C_BBPLL, I2C_BBPLL_HOSTID, I2C_BBPLL_MODE_HF, 0x6B] w;
          w = regi2c_write [I2C_BBPLL, I2C_BBPLL_HOSTID, I2C_BBPLL_OC_REF_DIV, push_bit (unat I2C_BBPLL_OC_DCHGP_LSB) 5 OR 0] w;
          w = regi2c_write [I2C_BBPLL, I2C_BBPLL_HOSTID, I2C_BBPLL_OC_DIV_7_0, 8] w;
          w = regi2c_write_mask [I2C_BBPLL, I2C_BBPLL_HOSTID, I2C_BBPLL_OC_DR1, I2C_BBPLL_OC_DR1_MSB, I2C_BBPLL_OC_DR1_LSB, 0] w;
          w = regi2c_write_mask [I2C_BBPLL, I2C_BBPLL_HOSTID, I2C_BBPLL_OC_DR3, I2C_BBPLL_OC_DR3_MSB, I2C_BBPLL_OC_DR3_LSB, 0] w;
          w = regi2c_write [I2C_BBPLL, I2C_BBPLL_HOSTID, I2C_BBPLL_OC_DCUR,
                push_bit (unat I2C_BBPLL_OC_DLREF_SEL_LSB) 1 OR push_bit (unat I2C_BBPLL_OC_DHREF_SEL_LSB) 3 OR 3] w;
          w = regi2c_write_mask [I2C_BBPLL, I2C_BBPLL_HOSTID, I2C_BBPLL_OC_VCO_DBIAS, I2C_BBPLL_OC_VCO_DBIAS_MSB,
                I2C_BBPLL_OC_VCO_DBIAS_LSB, 3] w
      in do {
        w \<leftarrow> busy_wait I2C_MST_ANA_CONF0_REG (\<lambda>v. v AND I2C_MST_BBPLL_CAL_DONE = 0) w;
        let w = stub_lib_delay_us 10 w;
        let w = REG_CLR_BIT I2C_MST_ANA_CONF0_REG I2C_MST_BBPLL_STOP_FORCE_LOW w;
        Some (REG_SET_BIT I2C_MST_ANA_CONF0_REG I2C_MST_BBPLL_STOP_FORCE_HIGH w) })"

text \<open>The part of \<open>stub\_target\_clock\_init\<close> after the PLL runs.\<close>

definition clock_select_240m :: "'a clock_world_scheme \<Rightarrow> 'a clock_world_scheme" where
  "clock_select_240m w =
     (let w = REG_SET_FIELD RTC_CNTL_DATE_REG RTC_CNTL_SLAVE_PD_V RTC_CNTL_SLAVE_PD_S
                (drop_bit (unat (CPU_FREQ_MHZ div 80)) DEFAULT_LDO_SLAVE) w;
          w = w\<lparr>s_cpu_freq := CPU_FREQ_MHZ * MHZ\<rparr>;
          w = REG_SET_FIELD SYSTEM_CPU_PER_CONF_REG SYSTEM_PLL_FREQ_SEL_V SYSTEM_PLL_FREQ_SEL_S 1 w;
          w = REG_SET_FIELD SYSTEM_CPU_PER_CONF_REG SYSTEM_CPUPERIOD_SEL_V SYSTEM_CPUPERIOD_SEL_S 2 w;
          w = REG_SET_FIELD SYSTEM_SYSCLK_CONF_REG SYSTEM_PRE_DIV_CNT_V SYSTEM_PRE_DIV_CNT_S 0 w;
          w = REG_SET_FIELD SYSTEM_SYSCLK_CONF_REG SYSTEM_SOC_CLK_SEL_V SYSTEM_SOC_CLK_SEL_S 1 w
      in rom_void (SysFn Esp_rom_set_cpu_ticks_per_us) [CPU_FREQ_MHZ] [] w)"

definition s3_clock_init :: "'a clock_world_scheme \<Rightarrow> 'a clock_world_scheme option" where
  "s3_clock_init w =
     (let ((rtc_dbias, dig_dbias), w) = get_240m_dbias w;
          w = set_regulator_dbias rtc_dbias dig_dbias w;
          w = stub_lib_delay_us DBIAS_SETTLE_US w;
          (sel, w) = REG_GET_FIELD SYSTEM_SYSCLK_CONF_REG SYSTEM_SOC_CLK_SEL_V SYSTEM_SOC_CLK_SEL_S w
      in do { w \<leftarrow> (if sel \<noteq> 1 then configure_bbpll w else Some w);
              Some (clock_select_240m w) })"

definition s3_get_cpu_freq :: "'a clock_world_scheme \<Rightarrow> u32 \<times> 'a clock_world_scheme" where
  "s3_get_cpu_freq w =
     (if s_cpu_freq w = 0 then
        (let (t, w) = rom_num (SysFn Esp_rom_get_cpu_ticks_per_us) [] [] w in (t * MHZ, w))
      else (s_cpu_freq w, w))"

definition s3_get_apb_freq :: "'a world_scheme \<Rightarrow> u32 \<times> 'a world_scheme" where
  "s3_get_apb_freq w =
     (let (clock_sel, w) = REG_GET_FIELD SYSTEM_SYSCLK_CONF_REG SYSTEM_SOC_CLK_SEL_V SYSTEM_SOC_CLK_SEL_S w
      in if clock_sel = 0 then rom_num (SysFn Esp_rom_get_xtal_freq) [] [] w
         else if clock_sel = 1 then (80 * MHZ, w)
         else if clock_sel = 2 then (8 * MHZ, w)
         else (16 * MHZ, w))"

definition RTC_CNTL_WDT_KEY :: u32 where [regs]: "RTC_CNTL_WDT_KEY = 0x50D83AA1"
definition RTC_CNTL_SWD_KEY :: u32 where [regs]: "RTC_CNTL_SWD_KEY = 0x8F1D312A"

definition s3_clock_disable_watchdogs :: "'a world_scheme \<Rightarrow> 'a world_scheme" where
  "s3_clock_disable_watchdogs w =
     (let w = REG_SET_BIT RTC_CNTL_INT_CLR_REG RTC_CNTL_WDT_INT_CLR w;
          w = WRITE_PERI_REG RTC_CNTL_WDTWPROTECT_REG RTC_CNTL_WDT_KEY w;
          w = WRITE_PERI_REG RTC_CNTL_WDTCONFIG0_REG 0 w;
          w = WRITE_PERI_REG RTC_CNTL_WDTWPROTECT_REG 0 w;
          w = REG_SET_BIT RTC_CNTL_INT_CLR_REG RTC_CNTL_SWD_INT_CLR w;
          w = WRITE_PERI_REG RTC_CNTL_SWD_WPROTECT_REG RTC_CNTL_SWD_KEY w;
          w = SET_PERI_REG_MASK RTC_CNTL_SWD_CONF_REG RTC_CNTL_SWD_AUTO_FEED_EN w
      in WRITE_PERI_REG RTC_CNTL_SWD_WPROTECT_REG 0 w)"

definition s3_clock_target :: "'a clock_world_scheme clock_target" where
  "s3_clock_target = \<lparr>tk_init = s3_clock_init, tk_disable_watchdogs = s3_clock_disable_watchdogs\<rparr>"

section \<open>The regulator voltages\<close>

text \<open>The search loop finds the least value.\<close>

lemma first_dbias_least:
  "unat d \<le> 31 \<Longrightarrow> first_dbias P d = of_nat (LEAST n. unat d \<le> n \<and> (31 \<le> n \<or> P (of_nat n)))"
proof (induction P d rule: first_dbias.induct)
  case (1 P d)
  show ?case
  proof (cases "d < DBIAS_MAX \<and> \<not> P d")
    case True
    then have lt: "d < DBIAS_MAX" and np: "\<not> P d" by auto
    then have u: "unat (d + 1) = unat d + 1" "unat d < 31" by (simp_all add: regs word_less_nat_alt unat_word_ariths)
    have "unat d \<le> n \<and> (31 \<le> n \<or> P (of_nat n)) \<longleftrightarrow> unat (d + 1) \<le> n \<and> (31 \<le> n \<or> P (of_nat n))" for n
      using np u by (cases "n = unat d") auto
    moreover have "first_dbias P d = first_dbias P (d + 1)" using lt np by (subst first_dbias.simps) simp
    ultimately show ?thesis using 1(1) [OF lt np] u by simp
  next
    case False
    have "(LEAST n. unat d \<le> n \<and> (31 \<le> n \<or> P (of_nat n))) = unat d"
      by (rule Least_equality) (use False 1(2) in \<open>auto simp: regs word_less_nat_alt\<close>)
    moreover have "first_dbias P d = d"
    proof (cases "d < DBIAS_MAX")
      case True
      then show ?thesis using False by (subst first_dbias.simps) simp
    next
      case False
      then have "d = DBIAS_MAX" using 1(2) by (simp add: regs word_less_nat_alt word_unat_eq_iff)
      then show ?thesis by (subst first_dbias.simps) simp
    qed
    ultimately show ?thesis by simp
  qed
qed

lemma first_dbias_bounds: "unat d \<le> 31 \<Longrightarrow> unat d \<le> unat (first_dbias P d) \<and> unat (first_dbias P d) \<le> 31"
proof (induction P d rule: first_dbias.induct)
  case (1 P d)
  show ?case
  proof (cases "d < DBIAS_MAX \<and> \<not> P d")
    case True
    then have lt: "d < DBIAS_MAX" and np: "\<not> P d" by auto
    then have u: "unat (d + 1) = unat d + 1" "unat d < 31" by (simp_all add: regs word_less_nat_alt unat_word_ariths)
    have "first_dbias P d = first_dbias P (d + 1)" using lt np by (subst first_dbias.simps) simp
    then show ?thesis using 1(1) [OF lt np] u by simp
  next
    case False
    then show ?thesis using 1(2) by (subst (1 2) first_dbias.simps) (auto simp: regs word_less_nat_alt)
  qed
qed

lemma dbias_bounds:
  "15 \<le> unat (fst (get_dig_1v3_dbias w)) \<and> unat (fst (get_dig_1v3_dbias w)) \<le> 31"
  "15 \<le> unat (fst (get_rtc_dbias d w)) \<and> unat (fst (get_rtc_dbias d w)) \<le> 31"
  using first_dbias_bounds [of DBIAS_MIN] by (simp_all add: get_dig_1v3_dbias_def get_rtc_dbias_def split_beta Let_def regs)

lemma efuse_field_eq:
  "efuse_field r m s w = (drop_bit s (peek (Mmio r) w) AND m, after w [Rd (Mmio r) (peek (Mmio r) w)])"
  by (simp add: efuse_field_def REG_READ_eq)

text \<open>
  Whatever the eFuses and other registers read, the RTC setting lies between 15 and 31
  and the digital one between 4 and 31, so both fit their five bit fields.
\<close>

lemma clock_dbias_bounds:
  "15 \<le> unat (fst (fst (get_240m_dbias w))) \<and> unat (fst (fst (get_240m_dbias w))) \<le> 31 \<and>
   4 \<le> unat (snd (fst (get_240m_dbias w))) \<and> unat (snd (fst (get_240m_dbias w))) \<le> 31"
proof -
  define w1 where "w1 = snd (has_pvt_dbias_calibration w)"
  define e where "e = efuse_field EFUSE_RD_MAC_SPI_SYS_5_REG EFUSE_DIG_DBIAS_HVT_V EFUSE_DIG_DBIAS_HVT_S w1"
  define hvt where "hvt = fst e"
  define g where "g = get_dig_1v3_dbias (snd e)"
  define d where "d = (if fst g < hvt + 3 then get_dig_1v3_dbias (snd g) else (hvt + 3, snd g))"
  show ?thesis
  proof (cases "fst (has_pvt_dbias_calibration w) \<and> hvt \<noteq> 0")
    case False
    then have "fst (get_240m_dbias w) = (28, 28)"
      unfolding get_240m_dbias_def split_beta Let_def w1_def [symmetric] e_def [symmetric] hvt_def [symmetric]
      by (auto simp: regs)
    then show ?thesis by simp
  next
    case True
    then have r: "fst (get_240m_dbias w) = (fst (get_rtc_dbias (fst d) (snd d)), fst d)"
      unfolding get_240m_dbias_def split_beta Let_def w1_def [symmetric] e_def [symmetric] hvt_def [symmetric]
        g_def [symmetric] d_def [symmetric] by simp
    have "hvt = drop_bit 11 (peek (Mmio EFUSE_RD_MAC_SPI_SYS_5_REG) w1) AND (2 ^ 5 - 1)"
      by (simp add: hvt_def e_def efuse_field_eq regs)
    then have "unat hvt < 32" by (simp only: unat_and_pow2) simp
    then have h: "unat (hvt + 3) = unat hvt + 3" by (simp add: unat_word_ariths)
    have "0 < unat hvt" using True by (simp add: unat_gt_0)
    then have "4 \<le> unat (fst d) \<and> unat (fst d) \<le> 31"
      using dbias_bounds(1) [of "snd g"] dbias_bounds(1) [of "snd e"] h
      by (auto simp: d_def g_def word_less_nat_alt)
    then show ?thesis using dbias_bounds(2) [of "fst d" "snd d"] by (simp add: r)
  qed
qed

text \<open>
  What the calibration means: an eFuse field holds a magnitude and a sign, voltages are in
  units of 0.1 mV and linear in the setting.
\<close>

definition sign_mag :: "nat \<Rightarrow> nat \<Rightarrow> int" where
  "sign_mag n x = (if odd (x div 2 ^ n) then - int (x mod 2 ^ n) else int x)"

definition fuse_bits :: "nat \<Rightarrow> nat \<Rightarrow> u32 \<Rightarrow> nat" where
  "fuse_bits s n v = unat v div 2 ^ s mod 2 ^ n"

record fuses =
  f_data4 :: u32
  f_sys3 :: u32
  f_sys4 :: u32
  f_sys5 :: u32

definition fused :: "fuses \<Rightarrow> 'a world_scheme \<Rightarrow> bool" where
  "fused f w \<longleftrightarrow> (\<forall>es. rd_dev w es (Mmio EFUSE_RD_SYS_PART1_DATA4_REG) = f_data4 f \<and>
     rd_dev w es (Mmio EFUSE_RD_MAC_SPI_SYS_3_REG) = f_sys3 f \<and>
     rd_dev w es (Mmio EFUSE_RD_MAC_SPI_SYS_4_REG) = f_sys4 f \<and>
     rd_dev w es (Mmio EFUSE_RD_MAC_SPI_SYS_5_REG) = f_sys5 f)"

definition dig_voltage :: "fuses \<Rightarrow> nat \<Rightarrow> int" where
  "dig_voltage f d = 10841 + 20 * sign_mag 7 (fuse_bits 3 8 (f_sys5 f)) +
     (211 + sign_mag 6 (fuse_bits 20 7 (f_sys4 f))) * (int d - 20)"

definition rtc_voltage :: "fuses \<Rightarrow> nat \<Rightarrow> int" where
  "rtc_voltage f d = 10181 + 20 * sign_mag 7 (32 * fuse_bits 0 3 (f_sys5 f) + fuse_bits 27 5 (f_sys4 f)) +
     (198 + sign_mag 6 (fuse_bits 13 7 (f_sys4 f))) * (int d - 20)"

definition calibrated :: "fuses \<Rightarrow> bool" where
  "calibrated f \<longleftrightarrow> (let major = fuse_bits 0 2 (f_data4 f); minor = fuse_bits 24 3 (f_sys3 f)
     in (major \<le> 1 \<and> minor = 1) \<or> 1 < major \<or> (major = 1 \<and> 2 \<le> minor)) \<and> fuse_bits 11 5 (f_sys5 f) \<noteq> 0"

definition least_setting :: "(nat \<Rightarrow> bool) \<Rightarrow> nat" where
  "least_setting P = (LEAST n. 15 \<le> n \<and> (31 \<le> n \<or> P n))"

lemma field_bits: "unat (drop_bit s v AND (2 ^ n - 1)) = fuse_bits s n (v :: u32)"
  by (simp only: unat_and_pow2 unat_drop_bit_eq fuse_bits_def) (simp only: drop_bit_eq_div)

lemma sint_small: "unat (x :: u32) < 2 ^ 31 \<Longrightarrow> sint x = int (unat x)"
proof -
  assume a: "unat x < 2 ^ 31"
  have u: "uint x = int (unat x)" by simp
  have "int (unat x) < 2 ^ 31" using a by (metis of_nat_less_iff of_nat_numeral of_nat_power)
  then have "uint x < 2 ^ 31" by (simp only: u)
  have "- (2 ^ 31) \<le> uint x" by (rule order_trans [of _ 0]) simp_all
  then have "signed_take_bit 31 (uint x) = uint x" using \<open>uint x < 2 ^ 31\<close> by (intro signed_take_bit_int_eq_self)
  moreover have "sint x = signed_take_bit 31 (uint x)" by (simp add: sint_uint)
  ultimately show ?thesis using u by metis
qed

lemma bit_odd: "bit (v :: u32) n \<longleftrightarrow> odd (unat v div 2 ^ n)"
proof -
  have "bit (unat v) n \<longleftrightarrow> bit v n" by (auto simp: bit_unsigned_iff dest: bit_imp_le_length)
  then show ?thesis by (simp add: bit_iff_odd)
qed

lemma sign_magnitude_eq:
  assumes "unat v < 2 ^ (n + 1)" "n < 31"
  shows "sign_magnitude v (BIT n) (2 ^ n - 1) = sign_mag n (unat v)"
proof -
  have "(2 :: nat) ^ (n + 1) \<le> 2 ^ 31" using assms(2) by (intro power_increasing) simp_all
  then have v: "unat v < 2 ^ 31" using assms(1) by linarith
  have m: "unat (v AND (2 ^ n - 1)) = unat v mod 2 ^ n" by (rule unat_and_pow2)
  moreover have "unat v mod 2 ^ n < 2 ^ 31" using v by (meson le_less_trans mod_less_eq_dividend)
  moreover have "v AND BIT n \<noteq> 0 \<longleftrightarrow> odd (unat v div 2 ^ n)"
    unfolding BIT_def bit_iff_and_push_bit_not_eq_0 [symmetric] by (rule bit_odd)
  ultimately show ?thesis using v unfolding sign_magnitude_def sign_mag_def by (simp add: sint_small m)
qed

lemma fuse_bits_less: "fuse_bits s n v < 2 ^ n"
  by (simp add: fuse_bits_def)

lemma fuse_calibration:
  assumes "fused f w"
  shows "fst (get_v_dig_dbias20 w) = sign_mag 7 (fuse_bits 3 8 (f_sys5 f))"
    "fst (get_k_dig_ldo w) = sign_mag 6 (fuse_bits 20 7 (f_sys4 f))"
    "fst (get_k_rtc_ldo w) = sign_mag 6 (fuse_bits 13 7 (f_sys4 f))"
    "fst (get_v_rtc_dbias20 w) = sign_mag 7 (32 * fuse_bits 0 3 (f_sys5 f) + fuse_bits 27 5 (f_sys4 f))"
proof -
  have p: "peek (Mmio EFUSE_RD_MAC_SPI_SYS_4_REG) (after w es) = f_sys4 f"
    "peek (Mmio EFUSE_RD_MAC_SPI_SYS_5_REG) (after w es) = f_sys5 f" for es
    using assms by (simp_all add: fused_def peek_def)
  note p0 = p [of "[]", simplified]
  have m: "(0x7F :: u32) = 2 ^ 7 - 1" "(0x3F :: u32) = 2 ^ 6 - 1" "(0xFF :: u32) = 2 ^ 8 - 1"
    "(0x1F :: u32) = 2 ^ 5 - 1" "(7 :: u32) = 2 ^ 3 - 1" by simp_all
  show "fst (get_v_dig_dbias20 w) = sign_mag 7 (fuse_bits 3 8 (f_sys5 f))"
  proof -
    have "unat (drop_bit 3 (f_sys5 f) AND (2 ^ 8 - 1)) = fuse_bits 3 8 (f_sys5 f)" by (rule field_bits)
    then show ?thesis using sign_magnitude_eq [of "drop_bit 3 (f_sys5 f) AND (2 ^ 8 - 1)" 7] fuse_bits_less [of 3 8 "f_sys5 f"]
      by (simp add: get_v_dig_dbias20_def efuse_field_eq p0) (simp add: regs)
  qed
  show "fst (get_k_dig_ldo w) = sign_mag 6 (fuse_bits 20 7 (f_sys4 f))"
  proof -
    have "unat (drop_bit 20 (f_sys4 f) AND (2 ^ 7 - 1)) = fuse_bits 20 7 (f_sys4 f)" by (rule field_bits)
    then show ?thesis using sign_magnitude_eq [of "drop_bit 20 (f_sys4 f) AND (2 ^ 7 - 1)" 6] fuse_bits_less [of 20 7 "f_sys4 f"]
      by (simp add: get_k_dig_ldo_def efuse_field_eq p0) (simp add: regs)
  qed
  show "fst (get_k_rtc_ldo w) = sign_mag 6 (fuse_bits 13 7 (f_sys4 f))"
  proof -
    have "unat (drop_bit 13 (f_sys4 f) AND (2 ^ 7 - 1)) = fuse_bits 13 7 (f_sys4 f)" by (rule field_bits)
    then show ?thesis using sign_magnitude_eq [of "drop_bit 13 (f_sys4 f) AND (2 ^ 7 - 1)" 6] fuse_bits_less [of 13 7 "f_sys4 f"]
      by (simp add: get_k_rtc_ldo_def efuse_field_eq p0) (simp add: regs)
  qed
  show "fst (get_v_rtc_dbias20 w) = sign_mag 7 (32 * fuse_bits 0 3 (f_sys5 f) + fuse_bits 27 5 (f_sys4 f))"
  proof -
    define hi where "hi = drop_bit 0 (f_sys5 f) AND (2 ^ 3 - 1)"
    define lo where "lo = drop_bit 27 (f_sys4 f) AND (2 ^ 5 - 1)"
    have u: "unat hi = fuse_bits 0 3 (f_sys5 f)" "unat lo = fuse_bits 27 5 (f_sys4 f)"
      unfolding hi_def lo_def by (rule field_bits)+
    have b: "unat hi < 2 ^ 3" "unat lo < 2 ^ 5" unfolding u by (rule fuse_bits_less)+
    have "push_bit 5 hi OR lo = push_bit 5 hi + lo"
      by (rule disjunctive_add [symmetric]) (auto simp: lo_def and_pow2_minus_one [of _ 5, simplified] bit_simps)
    then have "unat (push_bit 5 hi OR lo) = 32 * unat hi + unat lo"
      using b by (simp add: push_bit_eq_mult unat_word_ariths)
    then show ?thesis using sign_magnitude_eq [of "push_bit 5 hi OR lo" 7] b
      unfolding get_v_rtc_dbias20_def efuse_field_eq Let_def split_conv p p0 after_after
      by (simp add: u) (simp add: regs hi_def lo_def)
  qed
qed

lemma fused_after [simp]: "fused f (after w es) = fused f w"
  by (simp add: fused_def)

text \<open>Reading the eFuses changes nothing.\<close>

definition reads :: "'a world_scheme \<Rightarrow> 'a world_scheme \<Rightarrow> bool" where
  "reads w w' \<longleftrightarrow> emits (\<lambda>e. \<exists>r v. e = Rd (Mmio r) v) w w'"

lemma reads_refl: "reads w w" and reads_trans: "reads u v \<Longrightarrow> reads v w \<Longrightarrow> reads u w"
  by (auto simp: reads_def intro: emits_trans)

lemma reads_fused: "reads w w' \<Longrightarrow> fused f w \<Longrightarrow> fused f w'"
  by (auto simp: reads_def elim!: emitsE)

lemma reads_efuse: "reads u w \<Longrightarrow> reads u (snd (efuse_field r m s w))"
  unfolding efuse_field_eq by (erule reads_trans) (auto simp: reads_def intro: emits_after)

lemma reads_fields:
  assumes "reads u w"
  shows "reads u (snd (has_pvt_dbias_calibration w))" "reads u (snd (get_v_dig_dbias20 w))"
    "reads u (snd (get_k_dig_ldo w))" "reads u (snd (get_k_rtc_ldo w))" "reads u (snd (get_v_rtc_dbias20 w))"
  by (simp_all add: has_pvt_dbias_calibration_def get_v_dig_dbias20_def get_k_dig_ldo_def get_k_rtc_ldo_def
      get_v_rtc_dbias20_def split_beta Let_def reads_efuse assms)

lemma reads_dbias:
  assumes "reads u w"
  shows "reads u (snd (get_dig_1v3_dbias w))" "reads u (snd (get_rtc_dbias d w))"
  by (simp_all add: get_dig_1v3_dbias_def get_rtc_dbias_def split_beta Let_def reads_fields assms)

lemma reads_240m: "reads w (snd (get_240m_dbias w))"
  by (auto simp: get_240m_dbias_def split_beta Let_def intro!: reads_dbias reads_efuse reads_fields reads_refl)

text \<open>The two searches compute the least settings.\<close>

lemma least_setting_bounds: "15 \<le> least_setting P \<and> least_setting P \<le> 31"
  unfolding least_setting_def
  by (rule LeastI2 [where a = 31]) (auto intro: Least_le [of "\<lambda>n. 15 \<le> n \<and> (31 \<le> n \<or> P n)" 31])

lemma sint_setting: "n \<le> 31 \<Longrightarrow> sint (of_nat n :: u32) = int n"
  using sint_small [of "of_nat n"] by (simp add: unat_of_nat32)

lemma search_setting:
  assumes "\<And>n. n < 31 \<Longrightarrow> P (of_nat n) \<longleftrightarrow> Q n"
  shows "first_dbias P DBIAS_MIN = of_nat (least_setting Q)"
proof -
  have "unat DBIAS_MIN \<le> 31" by (simp add: regs)
  then have "first_dbias P DBIAS_MIN = of_nat (LEAST n. unat DBIAS_MIN \<le> n \<and> (31 \<le> n \<or> P (of_nat n)))"
    by (rule first_dbias_least)
  moreover have "unat DBIAS_MIN \<le> n \<and> (31 \<le> n \<or> P (of_nat n)) \<longleftrightarrow> 15 \<le> n \<and> (31 \<le> n \<or> Q n)" for n
    using assms [of n] by (cases "n < 31") (auto simp: regs)
  ultimately show ?thesis by (simp add: least_setting_def)
qed

lemma sdiv_500: "v * 10000 sdiv 500 = 20 * (v :: int)"
proof -
  have "\<bar>v * 10000\<bar> div 500 = 20 * \<bar>v\<bar>" by (simp add: abs_mult)
  moreover have "sgn v * (20 * \<bar>v\<bar>) = 20 * v" by (simp add: sgn_mult_abs mult.left_commute)
  ultimately show ?thesis by (simp add: signed_divide_int_def sgn_mult)
qed

lemma get_dig_spec:
  assumes "fused f w"
  shows "fst (get_dig_1v3_dbias w) = of_nat (least_setting (\<lambda>n. 13000 \<le> dig_voltage f n))"
proof -
  have "fused f (snd (get_v_dig_dbias20 w))" using reads_fields(2) [OF reads_refl] assms by (rule reads_fused)
  note c = fuse_calibration [OF this] fuse_calibration [OF assms]
  show ?thesis
    unfolding get_dig_1v3_dbias_def split_beta Let_def fst_conv
    by (intro search_setting) (simp add: c dig_voltage_def sdiv_500 regs sint_setting)
qed

lemma get_rtc_spec:
  assumes "fused f w" "d \<le> 31"
  shows "fst (get_rtc_dbias (of_nat d) w) = of_nat (least_setting (\<lambda>n. dig_voltage f d - 250 \<le> rtc_voltage f n))"
proof -
  define w1 where "w1 = snd (get_v_rtc_dbias20 w)"
  define w2 where "w2 = snd (get_v_dig_dbias20 w1)"
  define w3 where "w3 = snd (get_k_rtc_ldo w2)"
  have w1: "fused f w1" unfolding w1_def using reads_fields(5) [OF reads_refl] assms(1) by (rule reads_fused)
  have w2: "fused f w2" unfolding w2_def using reads_fields(2) [OF reads_refl] w1 by (rule reads_fused)
  have w3: "fused f w3" unfolding w3_def using reads_fields(4) [OF reads_refl] w2 by (rule reads_fused)
  note c = fuse_calibration [OF assms(1)] fuse_calibration [OF w1] fuse_calibration [OF w2] fuse_calibration [OF w3]
  show ?thesis
    unfolding get_rtc_dbias_def split_beta Let_def fst_conv w1_def [symmetric] w2_def [symmetric] w3_def [symmetric]
    by (intro search_setting)
      (simp add: c assms(2) rtc_voltage_def dig_voltage_def sdiv_500 regs sint_setting)
qed

text \<open>The settings a calibrated chip gets, and the defaults of an uncalibrated one.\<close>

definition settings_240m :: "fuses \<Rightarrow> nat \<times> nat" where
  "settings_240m f =
     (if calibrated f then
        (let dig = min (least_setting (\<lambda>n. 13000 \<le> dig_voltage f n)) (fuse_bits 11 5 (f_sys5 f) + 3)
         in (least_setting (\<lambda>n. dig_voltage f dig - 250 \<le> rtc_voltage f n), dig))
      else (28, 28))"

lemma calibration_test:
  assumes "fused f w"
  defines "w1 \<equiv> snd (has_pvt_dbias_calibration w)"
  defines "h \<equiv> fst (efuse_field EFUSE_RD_MAC_SPI_SYS_5_REG EFUSE_DIG_DBIAS_HVT_V EFUSE_DIG_DBIAS_HVT_S w1)"
  shows "unat h = fuse_bits 11 5 (f_sys5 f)" "calibrated f \<longleftrightarrow> fst (has_pvt_dbias_calibration w) \<and> h \<noteq> 0"
proof -
  have p: "peek (Mmio EFUSE_RD_SYS_PART1_DATA4_REG) (after w es) = f_data4 f"
    "peek (Mmio EFUSE_RD_MAC_SPI_SYS_3_REG) (after w es) = f_sys3 f" for es
    using assms(1) by (simp_all add: fused_def peek_def)
  note p0 = p [of "[]", simplified]
  have "fused f w1" unfolding w1_def using reads_fields(1) [OF reads_refl] assms(1) by (rule reads_fused)
  then have "peek (Mmio EFUSE_RD_MAC_SPI_SYS_5_REG) w1 = f_sys5 f" by (simp add: fused_def peek_def)
  then have "h = drop_bit 11 (f_sys5 f) AND (2 ^ 5 - 1)" by (simp add: h_def efuse_field_eq regs)
  then show h: "unat h = fuse_bits 11 5 (f_sys5 f)" by (simp only: field_bits)
  define major where "major = drop_bit 0 (f_data4 f) AND (2 ^ 2 - 1)"
  define minor where "minor = drop_bit 24 (f_sys3 f) AND (2 ^ 3 - 1)"
  have u: "unat major = fuse_bits 0 2 (f_data4 f)" "unat minor = fuse_bits 24 3 (f_sys3 f)"
    unfolding major_def minor_def by (rule field_bits)+
  have "fst (has_pvt_dbias_calibration w) \<longleftrightarrow>
      (major \<le> 1 \<and> minor = 1) \<or> major > 1 \<or> (major = 1 \<and> minor \<ge> 2)"
    unfolding has_pvt_dbias_calibration_def efuse_field_eq Let_def split_conv p p0 fst_conv
    by (simp add: regs major_def minor_def)
  then show "calibrated f \<longleftrightarrow> fst (has_pvt_dbias_calibration w) \<and> h \<noteq> 0"
    using h by (simp add: calibrated_def Let_def u [symmetric] word_le_nat_alt word_less_nat_alt word_unat_eq_iff)
qed

text \<open>
  C35: For any calibration in the eFuses the regulator settings computed for 240 MHz are
  those of the specification: the least digital setting between 15 and 31 that reaches 1.3
  V, limited by the fused bound, and the least RTC setting whose voltage is within 25 mV of
  it; a chip without calibration gets the defaults.
\<close>

lemma clock_dbias_meets_spec:
  assumes "fused f w"
  shows "fst (get_240m_dbias w) = map_prod of_nat of_nat (settings_240m f)"
proof -
  define w1 where "w1 = snd (has_pvt_dbias_calibration w)"
  define e where "e = efuse_field EFUSE_RD_MAC_SPI_SYS_5_REG EFUSE_DIG_DBIAS_HVT_V EFUSE_DIG_DBIAS_HVT_S w1"
  define hvt where "hvt = fst e"
  define g where "g = get_dig_1v3_dbias (snd e)"
  define d where "d = (if fst g < hvt + 3 then get_dig_1v3_dbias (snd g) else (hvt + 3, snd g))"
  note cal = calibration_test [OF assms, folded w1_def, folded e_def, folded hvt_def]
  show ?thesis
  proof (cases "calibrated f")
    case False
    then show ?thesis using cal
      unfolding get_240m_dbias_def split_beta Let_def w1_def [symmetric] e_def [symmetric] hvt_def [symmetric]
      by (auto simp: regs settings_240m_def)
  next
    case True
    let ?D = "least_setting (\<lambda>n. 13000 \<le> dig_voltage f n)" and ?h = "fuse_bits 11 5 (f_sys5 f) + 3"
    have r: "fst (get_240m_dbias w) = (fst (get_rtc_dbias (fst d) (snd d)), fst d)"
      using True cal unfolding get_240m_dbias_def split_beta Let_def w1_def [symmetric] e_def [symmetric] hvt_def [symmetric]
        g_def [symmetric] d_def [symmetric] by simp
    have "reads w (snd e)" unfolding e_def w1_def by (intro reads_efuse reads_fields reads_refl)
    then have fe: "fused f (snd e)" using assms reads_fused by blast
    then have fg: "fused f (snd g)" unfolding g_def by (intro reads_fused [OF reads_dbias(1) [OF reads_refl]])
    then have fd: "fused f (snd d)" using reads_fused [OF reads_dbias(1) [OF reads_refl]] by (auto simp: d_def)
    have D: "15 \<le> ?D" "?D \<le> 31" using least_setting_bounds by blast+
    have h: "unat (hvt + 3) = ?h" using cal(1) fuse_bits_less [of 11 5 "f_sys5 f"] by (simp add: unat_word_ariths)
    have g: "fst g = of_nat ?D" unfolding g_def by (rule get_dig_spec [OF fe])
    then have "fst d = of_nat (min ?D ?h)"
      using get_dig_spec [OF fg] h D by (auto simp: d_def word_less_nat_alt unat_of_nat32 word_unat_eq_iff min_def)
    then have "fst (get_rtc_dbias (fst d) (snd d)) = of_nat (least_setting (\<lambda>n. dig_voltage f (min ?D ?h) - 250 \<le> rtc_voltage f n))"
      using get_rtc_spec [OF fd, of "min ?D ?h"] D by simp
    then show ?thesis using \<open>fst d = _\<close> True by (simp add: r settings_240m_def Let_def)
  qed
qed

section \<open>Switching to 240 MHz\<close>

text \<open>The write of a regulator setting, and the calls of the ROM that program something.\<close>

definition dreg_call :: "ev \<Rightarrow> u32 \<Rightarrow> u32 \<Rightarrow> bool" where
  "dreg_call e r v \<longleftrightarrow> (\<exists>ret out. e = Call (SysFn Esp_rom_regi2c_write_mask) [I2C_DIG_REG, I2C_DIG_REG_HOSTID, r, 4, 0, v] [] ret out)"

lemma ucast_setting: "unat v \<le> 31 \<Longrightarrow> ucast (ucast v :: u8) = (v :: u32)"
  by (rule ucast_byte) simp

lemma evs_busy_wait: "busy_wait r P w = Some w' \<Longrightarrow> evs w w'"
  unfolding evs_def by (erule busy_wait_result [THEN emits_mono]) simp

lemma evs_regi2c [evs_rules]: "evs w u \<Longrightarrow> evs w (regi2c_write a u)" "evs w u \<Longrightarrow> evs w (regi2c_write_mask a u)"
  "evs w u \<Longrightarrow> evs w (stub_lib_delay_us n u)"
  by (simp_all add: regi2c_write_def regi2c_write_mask_def stub_lib_delay_us_def evs_rules)

lemma evs_bbpll:
  assumes "configure_bbpll w = Some w'"
  shows "evs w w'"
proof -
  obtain u v where v: "busy_wait I2C_MST_ANA_CONF0_REG (\<lambda>v. v AND I2C_MST_BBPLL_CAL_DONE = 0) u = Some v" and u: "evs w u"
    and w': "w' = REG_SET_BIT I2C_MST_ANA_CONF0_REG I2C_MST_BBPLL_STOP_FORCE_HIGH
      (REG_CLR_BIT I2C_MST_ANA_CONF0_REG I2C_MST_BBPLL_STOP_FORCE_LOW (stub_lib_delay_us 10 v))"
    using assms unfolding configure_bbpll_def Let_def
    by (auto simp: evs_rules split: Option.bind_splits)
  show ?thesis unfolding w' by (intro evs_rules evs_trans [OF u evs_busy_wait [OF v]])
qed

lemma evs_trace: "evs w w' \<Longrightarrow> \<exists>fs. trace w' = trace w @ fs"
  by (auto simp: evs_def elim!: emitsE)

lemma s_cpu_freq_after [simp]: "s_cpu_freq (after w es) = s_cpu_freq w"
  by (simp add: after_def)

text \<open>
  C36: Switching the clock to 240 MHz writes nothing before it has set the voltages of both
  regulators to the computed settings, and afterwards the driver reports 240 MHz.
\<close>

lemma clock_init_voltage_first:
  assumes "s3_clock_init w = Some w'"
  shows "\<exists>es e1 e2 fs rtc dig. trace w' = trace w @ es @ [e1, e2] @ fs \<and> list_all (\<lambda>e. \<exists>r v. e = Rd (Mmio r) v) es \<and>
    dreg_call e1 I2C_DIG_REG_EXT_RTC_DREG rtc \<and> dreg_call e2 I2C_DIG_REG_EXT_DIG_DREG dig \<and>
    (rtc, dig) = fst (get_240m_dbias w) \<and> s3_get_cpu_freq w' = (240000000, w')"
proof -
  obtain rtc dig w1 where g: "get_240m_dbias w = ((rtc, dig), w1)" by (metis prod_cases3 surj_pair)
  obtain es where es: "w1 = after w es" "list_all (\<lambda>e. \<exists>r v. e = Rd (Mmio r) v) es"
    using reads_240m [of w] by (auto simp: g reads_def elim: emitsE)
  have small: "unat rtc \<le> 31" "unat dig \<le> 31" using clock_dbias_bounds [of w] by (simp_all add: g)
  define w2 where "w2 = set_regulator_dbias rtc dig w1"
  obtain e1 e2 where e: "w2 = after w1 [e1, e2]" "dreg_call e1 I2C_DIG_REG_EXT_RTC_DREG rtc"
    "dreg_call e2 I2C_DIG_REG_EXT_DIG_DREG dig"
    unfolding w2_def set_regulator_dbias_def regi2c_write_mask_def Let_def rom_eq after_after
    using ucast_setting [OF small(1)] ucast_setting [OF small(2)] by (force simp: dreg_call_def regs)
  define w3 where "w3 = stub_lib_delay_us DBIAS_SETTLE_US w2"
  define r where "r = REG_GET_FIELD SYSTEM_SYSCLK_CONF_REG SYSTEM_SOC_CLK_SEL_V SYSTEM_SOC_CLK_SEL_S w3"
  obtain w4 where w4: "(if fst r \<noteq> 1 then configure_bbpll (snd r) else Some (snd r)) = Some w4"
    and w': "w' = clock_select_240m w4"
  proof -
    have "(if fst r \<noteq> 1 then configure_bbpll (snd r) else Some (snd r)) \<bind> (\<lambda>w. Some (clock_select_240m w)) = Some w'"
      using assms unfolding s3_clock_init_def g Let_def split_conv r_def w3_def w2_def by (simp add: split_beta)
    then show ?thesis using that by (auto split: Option.bind_splits)
  qed
  have "evs w2 (snd r)" by (simp add: r_def w3_def REG_GET_FIELD_def split_beta evs_rules)
  then have "evs w2 w4" using w4 evs_bbpll by (auto intro: evs_trans split: if_splits)
  then obtain fs where "trace w4 = trace w2 @ fs" using evs_trace by blast
  moreover obtain gs where "trace w' = trace w4 @ gs" "s_cpu_freq w' = CPU_FREQ_MHZ * MHZ"
    by (simp add: w' clock_select_240m_def Let_def prim_eq)
  moreover have "trace w2 = trace w @ es @ [e1, e2]" by (simp add: e(1) es(1))
  moreover have "CPU_FREQ_MHZ * MHZ = 240000000" by (simp add: regs)
  ultimately show ?thesis using e(2,3) es(2) g
    by (intro exI [of _ es] exI [of _ e1] exI [of _ e2] exI [of _ "fs @ gs"] exI [of _ rtc] exI [of _ dig])
      (simp add: s3_get_cpu_freq_def)
qed

section \<open>Watchdogs\<close>

text \<open>
  Disabling the watchdogs leaves the RTC watchdog off, the super watchdog feeding
  itself and the write protection of both locked again.
\<close>

lemma watchdogs_disabled:
  assumes "plain w (Mmio RTC_CNTL_WDTWPROTECT_REG)" "plain w (Mmio RTC_CNTL_WDTCONFIG0_REG)"
    "plain w (Mmio RTC_CNTL_SWD_WPROTECT_REG)" "plain w (Mmio RTC_CNTL_SWD_CONF_REG)"
  defines "w' \<equiv> stub_lib_clock_disable_watchdogs s3_clock_target w"
  shows "peek (Mmio RTC_CNTL_WDTCONFIG0_REG) w' = 0 \<and> bit (peek (Mmio RTC_CNTL_SWD_CONF_REG) w') 31 \<and>
    peek (Mmio RTC_CNTL_WDTWPROTECT_REG) w' = 0 \<and> peek (Mmio RTC_CNTL_SWD_WPROTECT_REG) w' = 0"
proof -
  let ?W = "\<lambda>r v. Wr (Mmio r) v"
  obtain i1 i2 c o1 o2 v where w': "w' = after w [Rd (Mmio RTC_CNTL_INT_CLR_REG) i1, ?W RTC_CNTL_INT_CLR_REG o1,
      ?W RTC_CNTL_WDTWPROTECT_REG RTC_CNTL_WDT_KEY, ?W RTC_CNTL_WDTCONFIG0_REG 0, ?W RTC_CNTL_WDTWPROTECT_REG 0,
      Rd (Mmio RTC_CNTL_INT_CLR_REG) i2, ?W RTC_CNTL_INT_CLR_REG o2, ?W RTC_CNTL_SWD_WPROTECT_REG RTC_CNTL_SWD_KEY,
      Rd (Mmio RTC_CNTL_SWD_CONF_REG) c, ?W RTC_CNTL_SWD_CONF_REG (v OR RTC_CNTL_SWD_AUTO_FEED_EN), ?W RTC_CNTL_SWD_WPROTECT_REG 0]"
    unfolding w'_def stub_lib_clock_disable_watchdogs_def s3_clock_target_def clock_target.simps s3_clock_disable_watchdogs_def
      Let_def prim_eq after_after append.simps by blast
  let ?es = "[Rd (Mmio RTC_CNTL_INT_CLR_REG) i1, ?W RTC_CNTL_INT_CLR_REG o1, ?W RTC_CNTL_WDTWPROTECT_REG RTC_CNTL_WDT_KEY]"
  let ?fs = "[Rd (Mmio RTC_CNTL_INT_CLR_REG) i2, ?W RTC_CNTL_INT_CLR_REG o2, ?W RTC_CNTL_SWD_WPROTECT_REG RTC_CNTL_SWD_KEY,
      Rd (Mmio RTC_CNTL_SWD_CONF_REG) c, ?W RTC_CNTL_SWD_CONF_REG (v OR RTC_CNTL_SWD_AUTO_FEED_EN), ?W RTC_CNTL_SWD_WPROTECT_REG 0]"
  have "peek (Mmio RTC_CNTL_WDTCONFIG0_REG) (after w (?es @ ?W RTC_CNTL_WDTCONFIG0_REG 0 # (?W RTC_CNTL_WDTWPROTECT_REG 0 # ?fs))) = 0"
    by (rule peek_written [OF assms(2)]) (simp add: regs)
  moreover have "peek (Mmio RTC_CNTL_WDTWPROTECT_REG)
      (after w ((?es @ [?W RTC_CNTL_WDTCONFIG0_REG 0]) @ ?W RTC_CNTL_WDTWPROTECT_REG 0 # ?fs)) = 0"
    by (rule peek_written [OF assms(1)]) (simp add: regs)
  moreover have "peek (Mmio RTC_CNTL_SWD_CONF_REG)
      (after w ((?es @ [?W RTC_CNTL_WDTCONFIG0_REG 0, ?W RTC_CNTL_WDTWPROTECT_REG 0] @ take 4 ?fs) @
        ?W RTC_CNTL_SWD_CONF_REG (v OR RTC_CNTL_SWD_AUTO_FEED_EN) # [?W RTC_CNTL_SWD_WPROTECT_REG 0])) = v OR RTC_CNTL_SWD_AUTO_FEED_EN"
    by (rule peek_written [OF assms(4)]) (simp add: regs)
  moreover have "peek (Mmio RTC_CNTL_SWD_WPROTECT_REG)
      (after w ((?es @ [?W RTC_CNTL_WDTCONFIG0_REG 0, ?W RTC_CNTL_WDTWPROTECT_REG 0] @ take 5 ?fs) @ ?W RTC_CNTL_SWD_WPROTECT_REG 0 # [])) = 0"
    by (rule peek_written [OF assms(3)]) simp
  moreover have "bit (v OR RTC_CNTL_SWD_AUTO_FEED_EN) 31" by (simp add: bit_or_iff regs)
  ultimately show ?thesis by (simp add: w')
qed

section \<open>Examples\<close>

text \<open>A calibrated chip whose registers behave as memory.\<close>

definition some_fuses :: fuses where
  "some_fuses = \<lparr>f_data4 = 1, f_sys3 = push_bit 24 2, f_sys4 = push_bit 20 5 OR push_bit 13 3,
     f_sys5 = push_bit 11 20 OR push_bit 3 10\<rparr>"

definition clock_world_1 :: clock_world where
  "clock_world_1 = \<lparr>rd_dev = \<lambda>es c. if c = Mmio EFUSE_RD_SYS_PART1_DATA4_REG then f_data4 some_fuses
       else if c = Mmio EFUSE_RD_MAC_SPI_SYS_3_REG then f_sys3 some_fuses
       else if c = Mmio EFUSE_RD_MAC_SPI_SYS_4_REG then f_sys4 some_fuses
       else if c = Mmio EFUSE_RD_MAC_SPI_SYS_5_REG then f_sys5 some_fuses
       else if c = Mmio SYSTEM_SYSCLK_CONF_REG then push_bit 10 1 else 0,
     rom_dev = \<lambda>_ _ _ _. (0, []), mem_dev = \<lambda>_ _ _. [], sym_addr = \<lambda>_. 0, trace = [], s_cpu_freq = 0\<rparr>"

lemma clock_dbias_meets_spec_witness:
  "fst (get_240m_dbias clock_world_1) = map_prod of_nat of_nat (settings_240m some_fuses) \<and> calibrated some_fuses"
proof -
  have "fused some_fuses clock_world_1" by (simp add: fused_def clock_world_1_def regs)
  moreover have "calibrated some_fuses" by (simp add: calibrated_def some_fuses_def fuse_bits_def Let_def)
  ultimately show ?thesis by (simp add: clock_dbias_meets_spec)
qed

lemma clock_init_voltage_first_witness:
  "\<exists>w' e1 e2 fs rtc dig. s3_clock_init clock_world_1 = Some w' \<and> dreg_call e1 I2C_DIG_REG_EXT_RTC_DREG rtc \<and>
    dreg_call e2 I2C_DIG_REG_EXT_DIG_DREG dig \<and> s3_get_cpu_freq w' = (240000000, w')"
proof -
  obtain es where es: "snd (get_240m_dbias clock_world_1) = after clock_world_1 es"
    using reads_240m [of clock_world_1] unfolding reads_def by (elim emitsE)
  obtain rtc dig where "fst (get_240m_dbias clock_world_1) = (rtc, dig)" by (cases "fst (get_240m_dbias clock_world_1)")
  then have g: "get_240m_dbias clock_world_1 = ((rtc, dig), after clock_world_1 es)" using es by (simp add: prod_eq_iff)
  define w3 where "w3 = stub_lib_delay_us DBIAS_SETTLE_US (set_regulator_dbias rtc dig (after clock_world_1 es))"
  have "evs clock_world_1 w3"
    unfolding w3_def set_regulator_dbias_def Let_def by (simp add: evs_rules evs_after)
  then have "rd_dev w3 = rd_dev clock_world_1" unfolding evs_def by (elim emitsE) simp
  then have "fst (REG_GET_FIELD SYSTEM_SYSCLK_CONF_REG SYSTEM_SOC_CLK_SEL_V SYSTEM_SOC_CLK_SEL_S w3) = 1"
    by (simp add: REG_GET_eq peek_def clock_world_1_def regs)
  then have "\<exists>w'. s3_clock_init clock_world_1 = Some w'"
    unfolding s3_clock_init_def g Let_def split_conv w3_def [symmetric] by (simp add: split_beta)
  then show ?thesis using clock_init_voltage_first by metis
qed

definition clock_world_2 :: clock_world where
  "clock_world_2 = clock_world_1\<lparr>rd_dev := regfile 7\<rparr>"

lemma watchdogs_disabled_witness:
  "peek (Mmio RTC_CNTL_WDTCONFIG0_REG) (stub_lib_clock_disable_watchdogs s3_clock_target clock_world_2) = 0"
proof -
  have "plain clock_world_2 c" for c by (rule regfile_plain) (simp add: clock_world_2_def)
  then show ?thesis using watchdogs_disabled [of clock_world_2] by blast
qed

end
