(* ===== verification/Clock_Regs.thy ===== *)
theory Clock_Regs
  imports Flash_Regs
begin

text \<open>
  Constants of the clock trees, regulators and watchdogs of the chips other than the ESP32-S3,
  each under its C name with the chip in front and with the value the chip's headers give it.
\<close>

section \<open>ESP32\<close>

definition esp32_I2C_BBPLL :: u32 where [regs]: "esp32_I2C_BBPLL = 0x66"
definition esp32_I2C_BBPLL_HOSTID :: u32 where [regs]: "esp32_I2C_BBPLL_HOSTID = 0x4"
definition esp32_RTC_CNTL_OPTIONS0_REG :: u32 where [regs]: "esp32_RTC_CNTL_OPTIONS0_REG = 0x3ff48000"
definition esp32_RTC_CNTL_BIAS_I2C_FORCE_PD :: u32 where [regs]: "esp32_RTC_CNTL_BIAS_I2C_FORCE_PD = 0x40000"
definition esp32_RTC_CNTL_BB_I2C_FORCE_PD :: u32 where [regs]: "esp32_RTC_CNTL_BB_I2C_FORCE_PD = 0x40"
definition esp32_RTC_CNTL_BBPLL_FORCE_PD :: u32 where [regs]: "esp32_RTC_CNTL_BBPLL_FORCE_PD = 0x400"
definition esp32_RTC_CNTL_BBPLL_I2C_FORCE_PD :: u32 where [regs]: "esp32_RTC_CNTL_BBPLL_I2C_FORCE_PD = 0x100"
definition esp32_ANA_CONFIG_REG :: u32 where [regs]: "esp32_ANA_CONFIG_REG = 0x6000e044"
definition esp32_I2C_BBPLL_M :: u32 where [regs]: "esp32_I2C_BBPLL_M = 0x20000"
definition esp32_I2C_BBPLL_IR_CAL_DELAY :: u32 where [regs]: "esp32_I2C_BBPLL_IR_CAL_DELAY = 0x0"
definition esp32_I2C_BBPLL_IR_CAL_EXT_CAP :: u32 where [regs]: "esp32_I2C_BBPLL_IR_CAL_EXT_CAP = 0x1"
definition esp32_I2C_BBPLL_OC_ENB_FCAL :: u32 where [regs]: "esp32_I2C_BBPLL_OC_ENB_FCAL = 0x4"
definition esp32_I2C_BBPLL_OC_ENB_VCON :: u32 where [regs]: "esp32_I2C_BBPLL_OC_ENB_VCON = 0xa"
definition esp32_I2C_BBPLL_BBADC_CAL_7_0 :: u32 where [regs]: "esp32_I2C_BBPLL_BBADC_CAL_7_0 = 0xc"
definition esp32_I2C_BBPLL_ENDIV5 :: u32 where [regs]: "esp32_I2C_BBPLL_ENDIV5 = 0xb"
definition esp32_I2C_BBPLL_BBADC_DSMP :: u32 where [regs]: "esp32_I2C_BBPLL_BBADC_DSMP = 0x9"
definition esp32_I2C_BBPLL_OC_LREF :: u32 where [regs]: "esp32_I2C_BBPLL_OC_LREF = 0x2"
definition esp32_I2C_BBPLL_OC_DIV_7_0 :: u32 where [regs]: "esp32_I2C_BBPLL_OC_DIV_7_0 = 0x3"
definition esp32_I2C_BBPLL_OC_DCUR :: u32 where [regs]: "esp32_I2C_BBPLL_OC_DCUR = 0x5"
definition esp32_RTC_CNTL_CLK_CONF_REG :: u32 where [regs]: "esp32_RTC_CNTL_CLK_CONF_REG = 0x3ff48070"
definition esp32_RTC_CNTL_SOC_CLK_SEL_V :: u32 where [regs]: "esp32_RTC_CNTL_SOC_CLK_SEL_V = 0x3"
definition esp32_RTC_CNTL_SOC_CLK_SEL_S :: nat where [regs]: "esp32_RTC_CNTL_SOC_CLK_SEL_S = 27"
definition esp32_RTC_CNTL_REG :: u32 where [regs]: "esp32_RTC_CNTL_REG = 0x3ff4807c"
definition esp32_RTC_CNTL_DIG_DBIAS_WAK_V :: u32 where [regs]: "esp32_RTC_CNTL_DIG_DBIAS_WAK_V = 0x7"
definition esp32_RTC_CNTL_DIG_DBIAS_WAK_S :: nat where [regs]: "esp32_RTC_CNTL_DIG_DBIAS_WAK_S = 11"
definition esp32_RTC_CNTL_DBIAS_1V25 :: u32 where [regs]: "esp32_RTC_CNTL_DBIAS_1V25 = 0x7"
definition esp32_DPORT_CPU_PER_CONF_REG :: u32 where [regs]: "esp32_DPORT_CPU_PER_CONF_REG = 0x3ff0003c"
definition esp32_SYSCON_PLL_TICK_CONF_REG :: u32 where [regs]: "esp32_SYSCON_PLL_TICK_CONF_REG = 0x3ff66008"
definition esp32_RTC_CNTL_STORE5_REG :: u32 where [regs]: "esp32_RTC_CNTL_STORE5_REG = 0x3ff480b4"
definition esp32_RTC_CNTL_INT_CLR_REG :: u32 where [regs]: "esp32_RTC_CNTL_INT_CLR_REG = 0x3ff48048"
definition esp32_RTC_CNTL_WDT_INT_CLR :: u32 where [regs]: "esp32_RTC_CNTL_WDT_INT_CLR = 0x8"
definition esp32_RTC_CNTL_WDTWPROTECT_REG :: u32 where [regs]: "esp32_RTC_CNTL_WDTWPROTECT_REG = 0x3ff480a4"
definition esp32_RTC_CNTL_WDTCONFIG0_REG :: u32 where [regs]: "esp32_RTC_CNTL_WDTCONFIG0_REG = 0x3ff4808c"

section \<open>ESP32S2\<close>

definition s2_RTC_CNTL_REG :: u32 where [regs]: "s2_RTC_CNTL_REG = 0x3f408084"
definition s2_RTC_CNTL_DIG_DBIAS_WAK_V :: u32 where [regs]: "s2_RTC_CNTL_DIG_DBIAS_WAK_V = 0x7"
definition s2_RTC_CNTL_DIG_DBIAS_WAK_S :: nat where [regs]: "s2_RTC_CNTL_DIG_DBIAS_WAK_S = 11"
definition s2_RTC_CNTL_DIG_DBIAS_1V20 :: u32 where [regs]: "s2_RTC_CNTL_DIG_DBIAS_1V20 = 0x7"
definition s2_RTC_CNTL_DBIAS_WAK_V :: u32 where [regs]: "s2_RTC_CNTL_DBIAS_WAK_V = 0x7"
definition s2_RTC_CNTL_DBIAS_WAK_S :: nat where [regs]: "s2_RTC_CNTL_DBIAS_WAK_S = 25"
definition s2_DPORT_SYSCLK_CONF_REG :: u32 where [regs]: "s2_DPORT_SYSCLK_CONF_REG = 0x3f4c008c"
definition s2_DPORT_SOC_CLK_SEL_V :: u32 where [regs]: "s2_DPORT_SOC_CLK_SEL_V = 0x3"
definition s2_DPORT_SOC_CLK_SEL_S :: nat where [regs]: "s2_DPORT_SOC_CLK_SEL_S = 10"
definition s2_DPORT_CPU_PER_CONF_REG :: u32 where [regs]: "s2_DPORT_CPU_PER_CONF_REG = 0x3f4c0018"
definition s2_DPORT_PLL_FREQ_SEL_V :: u32 where [regs]: "s2_DPORT_PLL_FREQ_SEL_V = 0x1"
definition s2_DPORT_PLL_FREQ_SEL_S :: nat where [regs]: "s2_DPORT_PLL_FREQ_SEL_S = 2"
definition s2_DPORT_CPUPERIOD_SEL_V :: u32 where [regs]: "s2_DPORT_CPUPERIOD_SEL_V = 0x3"
definition s2_DPORT_CPUPERIOD_SEL_S :: nat where [regs]: "s2_DPORT_CPUPERIOD_SEL_S = 0"
definition s2_RTC_CNTL_INT_CLR_REG :: u32 where [regs]: "s2_RTC_CNTL_INT_CLR_REG = 0x3f40804c"
definition s2_RTC_CNTL_WDT_INT_CLR :: u32 where [regs]: "s2_RTC_CNTL_WDT_INT_CLR = 0x8"
definition s2_RTC_CNTL_WDTWPROTECT_REG :: u32 where [regs]: "s2_RTC_CNTL_WDTWPROTECT_REG = 0x3f4080ac"
definition s2_RTC_CNTL_WDTCONFIG0_REG :: u32 where [regs]: "s2_RTC_CNTL_WDTCONFIG0_REG = 0x3f408094"
definition s2_RTC_CNTL_SWD_INT_CLR :: u32 where [regs]: "s2_RTC_CNTL_SWD_INT_CLR = 0x8000"
definition s2_RTC_CNTL_SWD_WPROTECT_REG :: u32 where [regs]: "s2_RTC_CNTL_SWD_WPROTECT_REG = 0x3f4080b4"
definition s2_RTC_CNTL_SWD_CONF_REG :: u32 where [regs]: "s2_RTC_CNTL_SWD_CONF_REG = 0x3f4080b0"
definition s2_RTC_CNTL_SWD_AUTO_FEED_EN :: u32 where [regs]: "s2_RTC_CNTL_SWD_AUTO_FEED_EN = 0x80000000"

section \<open>ESP32C2\<close>

definition c2_SYSTEM_PERIP_CLK_EN0_REG :: u32 where [regs]: "c2_SYSTEM_PERIP_CLK_EN0_REG = 0x600c0010"
definition c2_SYSTEM_TIMERGROUP_CLK_EN :: u32 where [regs]: "c2_SYSTEM_TIMERGROUP_CLK_EN = 0x2000"
definition c2_SYSTEM_PERIP_RST_EN0_REG :: u32 where [regs]: "c2_SYSTEM_PERIP_RST_EN0_REG = 0x600c0018"
definition c2_SYSTEM_TIMERGROUP_RST :: u32 where [regs]: "c2_SYSTEM_TIMERGROUP_RST = 0x2000"
definition c2_RTC_CNTL_CLK_CONF_REG :: u32 where [regs]: "c2_RTC_CNTL_CLK_CONF_REG = 0x60008068"
definition c2_RTC_CNTL_ENB_CK8M :: u32 where [regs]: "c2_RTC_CNTL_ENB_CK8M = 0x40"
definition c2_RTC_CNTL_ENB_CK8M_DIV :: u32 where [regs]: "c2_RTC_CNTL_ENB_CK8M_DIV = 0x80"
definition c2_RTC_CNTL_DIG_CLK8M_D256_EN :: u32 where [regs]: "c2_RTC_CNTL_DIG_CLK8M_D256_EN = 0x200"
definition c2_RTC_CNTL_TIMER1_REG :: u32 where [regs]: "c2_RTC_CNTL_TIMER1_REG = 0x6000801c"
definition c2_RTC_CNTL_CK8M_WAIT_V :: u32 where [regs]: "c2_RTC_CNTL_CK8M_WAIT_V = 0xff"
definition c2_RTC_CNTL_CK8M_WAIT_S :: nat where [regs]: "c2_RTC_CNTL_CK8M_WAIT_S = 6"
definition c2_TIMG_RTCCALICFG_REG :: "u32 \<Rightarrow> u32" where [regs]: "c2_TIMG_RTCCALICFG_REG i = 0x6001f068 + i * 0x1000"
definition c2_TIMG_RTC_CALI_START_CYCLING :: u32 where [regs]: "c2_TIMG_RTC_CALI_START_CYCLING = 0x1000"
definition c2_TIMG_RTCCALICFG2_REG :: "u32 \<Rightarrow> u32" where [regs]: "c2_TIMG_RTCCALICFG2_REG i = 0x6001f080 + i * 0x1000"
definition c2_TIMG_RTC_CALI_TIMEOUT_THRES_V :: u32 where [regs]: "c2_TIMG_RTC_CALI_TIMEOUT_THRES_V = 0x1ffffff"
definition c2_TIMG_RTC_CALI_TIMEOUT_THRES_S :: nat where [regs]: "c2_TIMG_RTC_CALI_TIMEOUT_THRES_S = 7"
definition c2_TIMG_RTC_CALI_RDY :: u32 where [regs]: "c2_TIMG_RTC_CALI_RDY = 0x8000"
definition c2_TIMG_RTC_CALI_TIMEOUT :: u32 where [regs]: "c2_TIMG_RTC_CALI_TIMEOUT = 0x1"
definition c2_TIMG_RTC_CALI_CLK_SEL_V :: u32 where [regs]: "c2_TIMG_RTC_CALI_CLK_SEL_V = 0x3"
definition c2_TIMG_RTC_CALI_CLK_SEL_S :: nat where [regs]: "c2_TIMG_RTC_CALI_CLK_SEL_S = 13"
definition c2_TIMG_RTC_CALI_MAX_V :: u32 where [regs]: "c2_TIMG_RTC_CALI_MAX_V = 0x7fff"
definition c2_TIMG_RTC_CALI_MAX_S :: nat where [regs]: "c2_TIMG_RTC_CALI_MAX_S = 16"
definition c2_TIMG_RTC_CALI_START :: u32 where [regs]: "c2_TIMG_RTC_CALI_START = 0x80000000"
definition c2_TIMG_RTCCALICFG1_REG :: "u32 \<Rightarrow> u32" where [regs]: "c2_TIMG_RTCCALICFG1_REG i = 0x6001f06c + i * 0x1000"
definition c2_TIMG_RTC_CALI_VALUE_V :: u32 where [regs]: "c2_TIMG_RTC_CALI_VALUE_V = 0x1ffffff"
definition c2_TIMG_RTC_CALI_VALUE_S :: nat where [regs]: "c2_TIMG_RTC_CALI_VALUE_S = 7"
definition c2_SYSTEM_SYSCLK_CONF_REG :: u32 where [regs]: "c2_SYSTEM_SYSCLK_CONF_REG = 0x600c0058"
definition c2_SYSTEM_SOC_CLK_SEL_V :: u32 where [regs]: "c2_SYSTEM_SOC_CLK_SEL_V = 0x3"
definition c2_SYSTEM_SOC_CLK_SEL_S :: nat where [regs]: "c2_SYSTEM_SOC_CLK_SEL_S = 10"
definition c2_SYSTEM_CPU_PER_CONF_REG :: u32 where [regs]: "c2_SYSTEM_CPU_PER_CONF_REG = 0x600c0008"
definition c2_SYSTEM_PLL_FREQ_SEL_V :: u32 where [regs]: "c2_SYSTEM_PLL_FREQ_SEL_V = 0x1"
definition c2_SYSTEM_PLL_FREQ_SEL_S :: nat where [regs]: "c2_SYSTEM_PLL_FREQ_SEL_S = 2"
definition c2_RTC_CNTL_INT_CLR_REG :: u32 where [regs]: "c2_RTC_CNTL_INT_CLR_REG = 0x60008044"
definition c2_RTC_CNTL_WDT_INT_CLR :: u32 where [regs]: "c2_RTC_CNTL_WDT_INT_CLR = 0x8"
definition c2_RTC_CNTL_WDTWPROTECT_REG :: u32 where [regs]: "c2_RTC_CNTL_WDTWPROTECT_REG = 0x6000809c"
definition c2_RTC_CNTL_WDTCONFIG0_REG :: u32 where [regs]: "c2_RTC_CNTL_WDTCONFIG0_REG = 0x60008084"
definition c2_RTC_CNTL_SWD_INT_CLR :: u32 where [regs]: "c2_RTC_CNTL_SWD_INT_CLR = 0x8000"
definition c2_RTC_CNTL_SWD_WPROTECT_REG :: u32 where [regs]: "c2_RTC_CNTL_SWD_WPROTECT_REG = 0x600080a4"
definition c2_RTC_CNTL_SWD_CONF_REG :: u32 where [regs]: "c2_RTC_CNTL_SWD_CONF_REG = 0x600080a0"
definition c2_RTC_CNTL_SWD_AUTO_FEED_EN :: u32 where [regs]: "c2_RTC_CNTL_SWD_AUTO_FEED_EN = 0x80000000"

section \<open>ESP32C3\<close>

definition c3_SYSTEM_SYSCLK_CONF_REG :: u32 where [regs]: "c3_SYSTEM_SYSCLK_CONF_REG = 0x600c0058"
definition c3_SYSTEM_SOC_CLK_SEL_V :: u32 where [regs]: "c3_SYSTEM_SOC_CLK_SEL_V = 0x3"
definition c3_SYSTEM_SOC_CLK_SEL_S :: nat where [regs]: "c3_SYSTEM_SOC_CLK_SEL_S = 10"
definition c3_SYSTEM_CPU_PER_CONF_REG :: u32 where [regs]: "c3_SYSTEM_CPU_PER_CONF_REG = 0x600c0008"
definition c3_SYSTEM_PLL_FREQ_SEL_V :: u32 where [regs]: "c3_SYSTEM_PLL_FREQ_SEL_V = 0x1"
definition c3_SYSTEM_PLL_FREQ_SEL_S :: nat where [regs]: "c3_SYSTEM_PLL_FREQ_SEL_S = 2"
definition c3_SYSTEM_CPUPERIOD_SEL_V :: u32 where [regs]: "c3_SYSTEM_CPUPERIOD_SEL_V = 0x3"
definition c3_SYSTEM_CPUPERIOD_SEL_S :: nat where [regs]: "c3_SYSTEM_CPUPERIOD_SEL_S = 0"
definition c3_RTC_CNTL_INT_CLR_REG :: u32 where [regs]: "c3_RTC_CNTL_INT_CLR_REG = 0x6000804c"
definition c3_RTC_CNTL_WDT_INT_CLR :: u32 where [regs]: "c3_RTC_CNTL_WDT_INT_CLR = 0x8"
definition c3_RTC_CNTL_WDTWPROTECT_REG :: u32 where [regs]: "c3_RTC_CNTL_WDTWPROTECT_REG = 0x600080a8"
definition c3_RTC_CNTL_WDTCONFIG0_REG :: u32 where [regs]: "c3_RTC_CNTL_WDTCONFIG0_REG = 0x60008090"
definition c3_RTC_CNTL_SWD_INT_CLR :: u32 where [regs]: "c3_RTC_CNTL_SWD_INT_CLR = 0x8000"
definition c3_RTC_CNTL_SWD_WPROTECT_REG :: u32 where [regs]: "c3_RTC_CNTL_SWD_WPROTECT_REG = 0x600080b0"
definition c3_RTC_CNTL_SWD_CONF_REG :: u32 where [regs]: "c3_RTC_CNTL_SWD_CONF_REG = 0x600080ac"
definition c3_RTC_CNTL_SWD_AUTO_FEED_EN :: u32 where [regs]: "c3_RTC_CNTL_SWD_AUTO_FEED_EN = 0x80000000"

section \<open>ESP32C5\<close>

definition c5_PCR_BUS_CLK_UPDATE_REG :: u32 where [regs]: "c5_PCR_BUS_CLK_UPDATE_REG = 0x60096144"
definition c5_PCR_BUS_CLOCK_UPDATE_V :: u32 where [regs]: "c5_PCR_BUS_CLOCK_UPDATE_V = 0x1"
definition c5_PCR_BUS_CLOCK_UPDATE_S :: nat where [regs]: "c5_PCR_BUS_CLOCK_UPDATE_S = 0"
definition c5_PCR_BUS_CLOCK_UPDATE :: u32 where [regs]: "c5_PCR_BUS_CLOCK_UPDATE = 0x1"
definition c5_PCR_PLL_DIV_CLK_EN_REG :: u32 where [regs]: "c5_PCR_PLL_DIV_CLK_EN_REG = 0x60096128"
definition c5_PCR_PLL_160M_CLK_EN :: u32 where [regs]: "c5_PCR_PLL_160M_CLK_EN = 0x2"
definition c5_PCR_CPU_FREQ_CONF_REG :: u32 where [regs]: "c5_PCR_CPU_FREQ_CONF_REG = 0x60096118"
definition c5_PCR_CPU_DIV_NUM_V :: u32 where [regs]: "c5_PCR_CPU_DIV_NUM_V = 0xff"
definition c5_PCR_CPU_DIV_NUM_S :: nat where [regs]: "c5_PCR_CPU_DIV_NUM_S = 0"
definition c5_PCR_AHB_FREQ_CONF_REG :: u32 where [regs]: "c5_PCR_AHB_FREQ_CONF_REG = 0x6009611c"
definition c5_PCR_AHB_DIV_NUM_V :: u32 where [regs]: "c5_PCR_AHB_DIV_NUM_V = 0xff"
definition c5_PCR_AHB_DIV_NUM_S :: nat where [regs]: "c5_PCR_AHB_DIV_NUM_S = 0"
definition c5_PCR_SYSCLK_CONF_REG :: u32 where [regs]: "c5_PCR_SYSCLK_CONF_REG = 0x60096110"
definition c5_PCR_SOC_CLK_SEL_V :: u32 where [regs]: "c5_PCR_SOC_CLK_SEL_V = 0x3"
definition c5_PCR_SOC_CLK_SEL_S :: nat where [regs]: "c5_PCR_SOC_CLK_SEL_S = 16"
definition c5_LP_WDT_INT_CLR_REG :: u32 where [regs]: "c5_LP_WDT_INT_CLR_REG = 0x600b1c30"
definition c5_LP_WDT_LP_WDT_INT_CLR :: u32 where [regs]: "c5_LP_WDT_LP_WDT_INT_CLR = 0x80000000"
definition c5_LP_WDT_WPROTECT_REG :: u32 where [regs]: "c5_LP_WDT_WPROTECT_REG = 0x600b1c18"
definition c5_LP_WDT_CONFIG0_REG :: u32 where [regs]: "c5_LP_WDT_CONFIG0_REG = 0x600b1c00"
definition c5_LP_WDT_SUPER_WDT_INT_CLR :: u32 where [regs]: "c5_LP_WDT_SUPER_WDT_INT_CLR = 0x40000000"
definition c5_LP_WDT_SWD_WPROTECT_REG :: u32 where [regs]: "c5_LP_WDT_SWD_WPROTECT_REG = 0x600b1c20"
definition c5_LP_WDT_SWD_CONFIG_REG :: u32 where [regs]: "c5_LP_WDT_SWD_CONFIG_REG = 0x600b1c1c"
definition c5_LP_WDT_SWD_AUTO_FEED_EN :: u32 where [regs]: "c5_LP_WDT_SWD_AUTO_FEED_EN = 0x40000"

section \<open>ESP32C6\<close>

definition c6_PMU_HP_ACTIVE_ICG_MODEM_REG :: u32 where [regs]: "c6_PMU_HP_ACTIVE_ICG_MODEM_REG = 0x600b000c"
definition c6_PMU_HP_ACTIVE_DIG_ICG_MODEM_CODE_V :: u32 where [regs]: "c6_PMU_HP_ACTIVE_DIG_ICG_MODEM_CODE_V = 0x3"
definition c6_PMU_HP_ACTIVE_DIG_ICG_MODEM_CODE_S :: nat where [regs]: "c6_PMU_HP_ACTIVE_DIG_ICG_MODEM_CODE_S = 30"
definition c6_MODEM_SYSCON_CLK_CONF_POWER_ST_REG :: u32 where [regs]: "c6_MODEM_SYSCON_CLK_CONF_POWER_ST_REG = 0x600a980c"
definition c6_MODEM_SYSCON_CLK_MODEM_APB_ST_MAP_V :: u32 where [regs]: "c6_MODEM_SYSCON_CLK_MODEM_APB_ST_MAP_V = 0xf"
definition c6_MODEM_SYSCON_CLK_MODEM_APB_ST_MAP_S :: nat where [regs]: "c6_MODEM_SYSCON_CLK_MODEM_APB_ST_MAP_S = 28"
definition c6_MODEM_LPCON_CLK_CONF_POWER_ST_REG :: u32 where [regs]: "c6_MODEM_LPCON_CLK_CONF_POWER_ST_REG = 0x600af020"
definition c6_MODEM_LPCON_CLK_I2C_MST_ST_MAP_V :: u32 where [regs]: "c6_MODEM_LPCON_CLK_I2C_MST_ST_MAP_V = 0xf"
definition c6_MODEM_LPCON_CLK_I2C_MST_ST_MAP_S :: nat where [regs]: "c6_MODEM_LPCON_CLK_I2C_MST_ST_MAP_S = 24"
definition c6_MODEM_LPCON_CLK_LP_APB_ST_MAP_V :: u32 where [regs]: "c6_MODEM_LPCON_CLK_LP_APB_ST_MAP_V = 0xf"
definition c6_MODEM_LPCON_CLK_LP_APB_ST_MAP_S :: nat where [regs]: "c6_MODEM_LPCON_CLK_LP_APB_ST_MAP_S = 28"
definition c6_PMU_IMM_MODEM_ICG_REG :: u32 where [regs]: "c6_PMU_IMM_MODEM_ICG_REG = 0x600b00dc"
definition c6_PMU_UPDATE_DIG_ICG_MODEM_EN :: u32 where [regs]: "c6_PMU_UPDATE_DIG_ICG_MODEM_EN = 0x80000000"
definition c6_PMU_IMM_SLEEP_SYSCLK_REG :: u32 where [regs]: "c6_PMU_IMM_SLEEP_SYSCLK_REG = 0x600b00d0"
definition c6_PMU_UPDATE_DIG_ICG_SWITCH :: u32 where [regs]: "c6_PMU_UPDATE_DIG_ICG_SWITCH = 0x10000000"
definition c6_I2C_ANA_MST_ANA_CONF2_REG :: u32 where [regs]: "c6_I2C_ANA_MST_ANA_CONF2_REG = 0x600af820"
definition c6_REGI2C_CONF2_DIG_REG_SEL :: u32 where [regs]: "c6_REGI2C_CONF2_DIG_REG_SEL = 0x1000"
definition c6_I2C_ANA_MST_ANA_CONF1_REG :: u32 where [regs]: "c6_I2C_ANA_MST_ANA_CONF1_REG = 0x600af81c"
definition c6_REGI2C_CONF1_DIG_REG_SEL :: u32 where [regs]: "c6_REGI2C_CONF1_DIG_REG_SEL = 0x400"
definition c6_I2C_ANA_MST_ANA_CONF1_M :: u32 where [regs]: "c6_I2C_ANA_MST_ANA_CONF1_M = 0xffffff"
definition c6_I2C_ANA_MST_I2C_CTRL_REG :: "u32 \<Rightarrow> u32" where [regs]: "c6_I2C_ANA_MST_I2C_CTRL_REG i = 0x600af800 + i * 0x4"
definition c6_REGI2C_RTC_BUSY :: u32 where [regs]: "c6_REGI2C_RTC_BUSY = 0x2000000"
definition c6_I2C_DIG_REG :: u32 where [regs]: "c6_I2C_DIG_REG = 0x6d"
definition c6_REGI2C_RTC_SLAVE_ID_V :: u32 where [regs]: "c6_REGI2C_RTC_SLAVE_ID_V = 0xff"
definition c6_REGI2C_RTC_SLAVE_ID_S :: nat where [regs]: "c6_REGI2C_RTC_SLAVE_ID_S = 0"
definition c6_REGI2C_RTC_ADDR_V :: u32 where [regs]: "c6_REGI2C_RTC_ADDR_V = 0xff"
definition c6_REGI2C_RTC_ADDR_S :: nat where [regs]: "c6_REGI2C_RTC_ADDR_S = 8"
definition c6_REGI2C_RTC_DATA_V :: u32 where [regs]: "c6_REGI2C_RTC_DATA_V = 0xff"
definition c6_REGI2C_RTC_DATA_S :: nat where [regs]: "c6_REGI2C_RTC_DATA_S = 16"
definition c6_REGI2C_RTC_WR_CNTL :: u32 where [regs]: "c6_REGI2C_RTC_WR_CNTL = 0x1000000"
definition c6_EFUSE_RD_MAC_SPI_SYS_3_REG :: u32 where [regs]: "c6_EFUSE_RD_MAC_SPI_SYS_3_REG = 0x600b0850"
definition c6_EFUSE_BLK_VERSION_MAJOR_V :: u32 where [regs]: "c6_EFUSE_BLK_VERSION_MAJOR_V = 0x3"
definition c6_EFUSE_BLK_VERSION_MAJOR_S :: nat where [regs]: "c6_EFUSE_BLK_VERSION_MAJOR_S = 30"
definition c6_EFUSE_BLK_VERSION_MINOR_V :: u32 where [regs]: "c6_EFUSE_BLK_VERSION_MINOR_V = 0x7"
definition c6_EFUSE_BLK_VERSION_MINOR_S :: nat where [regs]: "c6_EFUSE_BLK_VERSION_MINOR_S = 27"
definition c6_MODEM_LPCON_CLK_CONF_REG :: u32 where [regs]: "c6_MODEM_LPCON_CLK_CONF_REG = 0x600af018"
definition c6_MODEM_LPCON_CLK_I2C_MST_EN :: u32 where [regs]: "c6_MODEM_LPCON_CLK_I2C_MST_EN = 0x4"
definition c6_MODEM_LPCON_I2C_MST_CLK_CONF_REG :: u32 where [regs]: "c6_MODEM_LPCON_I2C_MST_CLK_CONF_REG = 0x600af010"
definition c6_MODEM_LPCON_CLK_I2C_MST_SEL_160M :: u32 where [regs]: "c6_MODEM_LPCON_CLK_I2C_MST_SEL_160M = 0x1"
definition c6_I2C_DIG_REG_ENIF_RTC_DREG :: u32 where [regs]: "c6_I2C_DIG_REG_ENIF_RTC_DREG = 0x5"
definition c6_I2C_DIG_REG_ENIF_RTC_DREG_MSB :: u32 where [regs]: "c6_I2C_DIG_REG_ENIF_RTC_DREG_MSB = 0x7"
definition c6_I2C_DIG_REG_ENIF_RTC_DREG_LSB :: u32 where [regs]: "c6_I2C_DIG_REG_ENIF_RTC_DREG_LSB = 0x7"
definition c6_I2C_DIG_REG_ENIF_DIG_DREG :: u32 where [regs]: "c6_I2C_DIG_REG_ENIF_DIG_DREG = 0x7"
definition c6_I2C_DIG_REG_ENIF_DIG_DREG_MSB :: u32 where [regs]: "c6_I2C_DIG_REG_ENIF_DIG_DREG_MSB = 0x7"
definition c6_I2C_DIG_REG_ENIF_DIG_DREG_LSB :: u32 where [regs]: "c6_I2C_DIG_REG_ENIF_DIG_DREG_LSB = 0x7"
definition c6_EFUSE_RD_MAC_SPI_SYS_2_REG :: u32 where [regs]: "c6_EFUSE_RD_MAC_SPI_SYS_2_REG = 0x600b084c"
definition c6_EFUSE_ACTIVE_HP_DBIAS_V :: u32 where [regs]: "c6_EFUSE_ACTIVE_HP_DBIAS_V = 0x1f"
definition c6_EFUSE_ACTIVE_HP_DBIAS_S :: nat where [regs]: "c6_EFUSE_ACTIVE_HP_DBIAS_S = 0"
definition c6_EFUSE_ACTIVE_LP_DBIAS_V :: u32 where [regs]: "c6_EFUSE_ACTIVE_LP_DBIAS_V = 0x1f"
definition c6_EFUSE_ACTIVE_LP_DBIAS_S :: nat where [regs]: "c6_EFUSE_ACTIVE_LP_DBIAS_S = 5"
definition c6_PMU_HP_ACTIVE_HP_REGULATOR0_REG :: u32 where [regs]: "c6_PMU_HP_ACTIVE_HP_REGULATOR0_REG = 0x600b0028"
definition c6_PMU_DIG_REGULATOR0_DBIAS_SEL :: u32 where [regs]: "c6_PMU_DIG_REGULATOR0_DBIAS_SEL = 0x4000"
definition c6_PMU_HP_ACTIVE_HP_REGULATOR_DBIAS_V :: u32 where [regs]: "c6_PMU_HP_ACTIVE_HP_REGULATOR_DBIAS_V = 0x1f"
definition c6_PMU_HP_ACTIVE_HP_REGULATOR_DBIAS_S :: nat where [regs]: "c6_PMU_HP_ACTIVE_HP_REGULATOR_DBIAS_S = 27"
definition c6_PMU_HP_MODEM_HP_REGULATOR0_REG :: u32 where [regs]: "c6_PMU_HP_MODEM_HP_REGULATOR0_REG = 0x600b005c"
definition c6_PMU_HP_MODEM_HP_REGULATOR_DBIAS_V :: u32 where [regs]: "c6_PMU_HP_MODEM_HP_REGULATOR_DBIAS_V = 0x1f"
definition c6_PMU_HP_MODEM_HP_REGULATOR_DBIAS_S :: nat where [regs]: "c6_PMU_HP_MODEM_HP_REGULATOR_DBIAS_S = 27"
definition c6_PMU_HP_SLEEP_LP_REGULATOR0_REG :: u32 where [regs]: "c6_PMU_HP_SLEEP_LP_REGULATOR0_REG = 0x600b009c"
definition c6_PMU_HP_SLEEP_LP_REGULATOR_DBIAS_V :: u32 where [regs]: "c6_PMU_HP_SLEEP_LP_REGULATOR_DBIAS_V = 0x1f"
definition c6_PMU_HP_SLEEP_LP_REGULATOR_DBIAS_S :: nat where [regs]: "c6_PMU_HP_SLEEP_LP_REGULATOR_DBIAS_S = 27"
definition c6_PCR_MSPI_CLK_CONF_REG :: u32 where [regs]: "c6_PCR_MSPI_CLK_CONF_REG = 0x6009601c"
definition c6_PCR_MSPI_FAST_HS_DIV_NUM_V :: u32 where [regs]: "c6_PCR_MSPI_FAST_HS_DIV_NUM_V = 0xff"
definition c6_PCR_MSPI_FAST_HS_DIV_NUM_S :: nat where [regs]: "c6_PCR_MSPI_FAST_HS_DIV_NUM_S = 8"
definition c6_PCR_CPU_FREQ_CONF_REG :: u32 where [regs]: "c6_PCR_CPU_FREQ_CONF_REG = 0x60096118"
definition c6_PCR_CPU_HS_DIV_NUM_V :: u32 where [regs]: "c6_PCR_CPU_HS_DIV_NUM_V = 0xff"
definition c6_PCR_CPU_HS_DIV_NUM_S :: nat where [regs]: "c6_PCR_CPU_HS_DIV_NUM_S = 8"
definition c6_PCR_CPU_HS_120M_FORCE :: u32 where [regs]: "c6_PCR_CPU_HS_120M_FORCE = 0x10000"
definition c6_PCR_SYSCLK_CONF_REG :: u32 where [regs]: "c6_PCR_SYSCLK_CONF_REG = 0x60096110"
definition c6_PCR_SOC_CLK_SEL_V :: u32 where [regs]: "c6_PCR_SOC_CLK_SEL_V = 0x3"
definition c6_PCR_SOC_CLK_SEL_S :: nat where [regs]: "c6_PCR_SOC_CLK_SEL_S = 16"
definition c6_LP_WDT_INT_CLR_REG :: u32 where [regs]: "c6_LP_WDT_INT_CLR_REG = 0x600b1c30"
definition c6_LP_WDT_LP_WDT_INT_CLR :: u32 where [regs]: "c6_LP_WDT_LP_WDT_INT_CLR = 0x80000000"
definition c6_LP_WDT_WPROTECT_REG :: u32 where [regs]: "c6_LP_WDT_WPROTECT_REG = 0x600b1c18"
definition c6_LP_WDT_CONFIG0_REG :: u32 where [regs]: "c6_LP_WDT_CONFIG0_REG = 0x600b1c00"
definition c6_LP_WDT_SUPER_WDT_INT_CLR :: u32 where [regs]: "c6_LP_WDT_SUPER_WDT_INT_CLR = 0x40000000"
definition c6_LP_WDT_SWD_WPROTECT_REG :: u32 where [regs]: "c6_LP_WDT_SWD_WPROTECT_REG = 0x600b1c20"
definition c6_LP_WDT_SWD_CONFIG_REG :: u32 where [regs]: "c6_LP_WDT_SWD_CONFIG_REG = 0x600b1c1c"
definition c6_LP_WDT_SWD_AUTO_FEED_EN :: u32 where [regs]: "c6_LP_WDT_SWD_AUTO_FEED_EN = 0x40000"

section \<open>ESP32C61\<close>

definition c61_PCR_SYSCLK_CONF_REG :: u32 where [regs]: "c61_PCR_SYSCLK_CONF_REG = 0x600960e8"
definition c61_PCR_SOC_CLK_SEL_V :: u32 where [regs]: "c61_PCR_SOC_CLK_SEL_V = 0x3"
definition c61_PCR_SOC_CLK_SEL_S :: nat where [regs]: "c61_PCR_SOC_CLK_SEL_S = 16"
definition c61_PCR_BUS_CLK_UPDATE_REG :: u32 where [regs]: "c61_PCR_BUS_CLK_UPDATE_REG = 0x60096120"
definition c61_PCR_BUS_CLOCK_UPDATE_V :: u32 where [regs]: "c61_PCR_BUS_CLOCK_UPDATE_V = 0x1"
definition c61_PCR_BUS_CLOCK_UPDATE_S :: nat where [regs]: "c61_PCR_BUS_CLOCK_UPDATE_S = 0"
definition c61_LP_WDT_INT_CLR_REG :: u32 where [regs]: "c61_LP_WDT_INT_CLR_REG = 0x600b1c30"
definition c61_LP_WDT_LP_WDT_INT_CLR :: u32 where [regs]: "c61_LP_WDT_LP_WDT_INT_CLR = 0x80000000"
definition c61_LP_WDT_WPROTECT_REG :: u32 where [regs]: "c61_LP_WDT_WPROTECT_REG = 0x600b1c18"
definition c61_LP_WDT_CONFIG0_REG :: u32 where [regs]: "c61_LP_WDT_CONFIG0_REG = 0x600b1c00"
definition c61_LP_WDT_SUPER_WDT_INT_CLR :: u32 where [regs]: "c61_LP_WDT_SUPER_WDT_INT_CLR = 0x40000000"
definition c61_LP_WDT_SWD_WPROTECT_REG :: u32 where [regs]: "c61_LP_WDT_SWD_WPROTECT_REG = 0x600b1c20"
definition c61_LP_WDT_SWD_CONFIG_REG :: u32 where [regs]: "c61_LP_WDT_SWD_CONFIG_REG = 0x600b1c1c"
definition c61_LP_WDT_SWD_AUTO_FEED_EN :: u32 where [regs]: "c61_LP_WDT_SWD_AUTO_FEED_EN = 0x40000"

section \<open>ESP32H2\<close>

definition h2_PCR_SYSCLK_CONF_REG :: u32 where [regs]: "h2_PCR_SYSCLK_CONF_REG = 0x6009610c"
definition h2_PCR_SOC_CLK_SEL_V :: u32 where [regs]: "h2_PCR_SOC_CLK_SEL_V = 0x3"
definition h2_PCR_SOC_CLK_SEL_S :: nat where [regs]: "h2_PCR_SOC_CLK_SEL_S = 16"
definition h2_PCR_BUS_CLK_UPDATE_REG :: u32 where [regs]: "h2_PCR_BUS_CLK_UPDATE_REG = 0x60096148"
definition h2_PCR_BUS_CLOCK_UPDATE_V :: u32 where [regs]: "h2_PCR_BUS_CLOCK_UPDATE_V = 0x1"
definition h2_PCR_BUS_CLOCK_UPDATE_S :: nat where [regs]: "h2_PCR_BUS_CLOCK_UPDATE_S = 0"
definition h2_LP_WDT_INT_CLR_REG :: u32 where [regs]: "h2_LP_WDT_INT_CLR_REG = 0x600b1c34"
definition h2_LP_WDT_LP_WDT_INT_CLR :: u32 where [regs]: "h2_LP_WDT_LP_WDT_INT_CLR = 0x80000000"
definition h2_LP_WDT_WPROTECT_REG :: u32 where [regs]: "h2_LP_WDT_WPROTECT_REG = 0x600b1c1c"
definition h2_LP_WDT_CONFIG0_REG :: u32 where [regs]: "h2_LP_WDT_CONFIG0_REG = 0x600b1c00"
definition h2_LP_WDT_SUPER_WDT_INT_CLR :: u32 where [regs]: "h2_LP_WDT_SUPER_WDT_INT_CLR = 0x40000000"
definition h2_LP_WDT_SWD_WPROTECT_REG :: u32 where [regs]: "h2_LP_WDT_SWD_WPROTECT_REG = 0x600b1c24"
definition h2_LP_WDT_SWD_CONFIG_REG :: u32 where [regs]: "h2_LP_WDT_SWD_CONFIG_REG = 0x600b1c20"
definition h2_LP_WDT_SWD_AUTO_FEED_EN :: u32 where [regs]: "h2_LP_WDT_SWD_AUTO_FEED_EN = 0x40000"

section \<open>ESP32H21\<close>

definition h21_I2C_ANA_MST_ANA_CONF2_REG :: u32 where [regs]: "h21_I2C_ANA_MST_ANA_CONF2_REG = 0x600ad820"
definition h21_REGI2C_CONF2_PMU_SEL :: u32 where [regs]: "h21_REGI2C_CONF2_PMU_SEL = 0x1000"
definition h21_I2C_ANA_MST_ANA_CONF1_REG :: u32 where [regs]: "h21_I2C_ANA_MST_ANA_CONF1_REG = 0x600ad81c"
definition h21_REGI2C_CONF1_PMU_SEL :: u32 where [regs]: "h21_REGI2C_CONF1_PMU_SEL = 0x400"
definition h21_I2C_ANA_MST_ANA_CONF1_M :: u32 where [regs]: "h21_I2C_ANA_MST_ANA_CONF1_M = 0xffffff"
definition h21_I2C_ANA_MST_I2C_CTRL_REG :: "u32 \<Rightarrow> u32" where [regs]: "h21_I2C_ANA_MST_I2C_CTRL_REG i = 0x600ad800 + i * 0x4"
definition h21_REGI2C_RTC_BUSY :: u32 where [regs]: "h21_REGI2C_RTC_BUSY = 0x2000000"
definition h21_I2C_DCDC :: u32 where [regs]: "h21_I2C_DCDC = 0x6d"
definition h21_REGI2C_RTC_SLAVE_ID_V :: u32 where [regs]: "h21_REGI2C_RTC_SLAVE_ID_V = 0xff"
definition h21_REGI2C_RTC_SLAVE_ID_S :: nat where [regs]: "h21_REGI2C_RTC_SLAVE_ID_S = 0"
definition h21_REGI2C_RTC_ADDR_V :: u32 where [regs]: "h21_REGI2C_RTC_ADDR_V = 0xff"
definition h21_REGI2C_RTC_ADDR_S :: nat where [regs]: "h21_REGI2C_RTC_ADDR_S = 8"
definition h21_REGI2C_RTC_DATA_S :: nat where [regs]: "h21_REGI2C_RTC_DATA_S = 16"
definition h21_REGI2C_RTC_DATA_V :: u32 where [regs]: "h21_REGI2C_RTC_DATA_V = 0xff"
definition h21_REGI2C_RTC_WR_CNTL_V :: u32 where [regs]: "h21_REGI2C_RTC_WR_CNTL_V = 0x1"
definition h21_REGI2C_RTC_WR_CNTL_S :: nat where [regs]: "h21_REGI2C_RTC_WR_CNTL_S = 24"
definition h21_MODEM_LPCON_CLK_CONF_REG :: u32 where [regs]: "h21_MODEM_LPCON_CLK_CONF_REG = 0x600ad008"
definition h21_MODEM_LPCON_CLK_I2C_MST_EN :: u32 where [regs]: "h21_MODEM_LPCON_CLK_I2C_MST_EN = 0x4"
definition h21_PMU_DCM_CTRL_REG :: u32 where [regs]: "h21_PMU_DCM_CTRL_REG = 0x600b01b8"
definition h21_PMU_DCDC_CCM_SW_EN :: u32 where [regs]: "h21_PMU_DCDC_CCM_SW_EN = 0x8000000"
definition h21_PMU_HP_ACTIVE_BIAS_REG :: u32 where [regs]: "h21_PMU_HP_ACTIVE_BIAS_REG = 0x600b0018"
definition h21_PMU_HP_ACTIVE_DCDC_CCM_ENB :: u32 where [regs]: "h21_PMU_HP_ACTIVE_DCDC_CCM_ENB = 0x200"
definition h21_I2C_DCDC_CCM_DREG0 :: u32 where [regs]: "h21_I2C_DCDC_CCM_DREG0 = 0x7"
definition h21_I2C_DCDC_CCM_DREG0_MSB :: u32 where [regs]: "h21_I2C_DCDC_CCM_DREG0_MSB = 0x4"
definition h21_I2C_DCDC_CCM_DREG0_LSB :: u32 where [regs]: "h21_I2C_DCDC_CCM_DREG0_LSB = 0x0"
definition h21_I2C_DCDC_CCM_PCUR_LIMIT0 :: u32 where [regs]: "h21_I2C_DCDC_CCM_PCUR_LIMIT0 = 0x7"
definition h21_I2C_DCDC_CCM_PCUR_LIMIT0_MSB :: u32 where [regs]: "h21_I2C_DCDC_CCM_PCUR_LIMIT0_MSB = 0x7"
definition h21_I2C_DCDC_CCM_PCUR_LIMIT0_LSB :: u32 where [regs]: "h21_I2C_DCDC_CCM_PCUR_LIMIT0_LSB = 0x5"
definition h21_I2C_DCDC_VCM_DREG0 :: u32 where [regs]: "h21_I2C_DCDC_VCM_DREG0 = 0xa"
definition h21_I2C_DCDC_VCM_DREG0_MSB :: u32 where [regs]: "h21_I2C_DCDC_VCM_DREG0_MSB = 0x4"
definition h21_I2C_DCDC_VCM_DREG0_LSB :: u32 where [regs]: "h21_I2C_DCDC_VCM_DREG0_LSB = 0x0"
definition h21_I2C_DCDC_VCM_PCUR_LIMIT0 :: u32 where [regs]: "h21_I2C_DCDC_VCM_PCUR_LIMIT0 = 0xa"
definition h21_I2C_DCDC_VCM_PCUR_LIMIT0_MSB :: u32 where [regs]: "h21_I2C_DCDC_VCM_PCUR_LIMIT0_MSB = 0x7"
definition h21_I2C_DCDC_VCM_PCUR_LIMIT0_LSB :: u32 where [regs]: "h21_I2C_DCDC_VCM_PCUR_LIMIT0_LSB = 0x5"
definition h21_I2C_DCDC_XPD_TRX :: u32 where [regs]: "h21_I2C_DCDC_XPD_TRX = 0x1"
definition h21_I2C_DCDC_XPD_TRX_MSB :: u32 where [regs]: "h21_I2C_DCDC_XPD_TRX_MSB = 0x7"
definition h21_I2C_DCDC_XPD_TRX_LSB :: u32 where [regs]: "h21_I2C_DCDC_XPD_TRX_LSB = 0x7"
definition h21_PMU_HP_ACTIVE_HP_REGULATOR1_REG :: u32 where [regs]: "h21_PMU_HP_ACTIVE_HP_REGULATOR1_REG = 0x600b002c"
definition h21_PMU_HP_ACTIVE_HP_REGULATOR_DRV_B_V :: u32 where [regs]: "h21_PMU_HP_ACTIVE_HP_REGULATOR_DRV_B_V = 0xffffff"
definition h21_PMU_HP_ACTIVE_HP_REGULATOR_DRV_B_S :: nat where [regs]: "h21_PMU_HP_ACTIVE_HP_REGULATOR_DRV_B_S = 8"
definition h21_PCR_BUS_CLK_UPDATE_REG :: u32 where [regs]: "h21_PCR_BUS_CLK_UPDATE_REG = 0x60096148"
definition h21_PCR_BUS_CLOCK_UPDATE_V :: u32 where [regs]: "h21_PCR_BUS_CLOCK_UPDATE_V = 0x1"
definition h21_PCR_BUS_CLOCK_UPDATE_S :: nat where [regs]: "h21_PCR_BUS_CLOCK_UPDATE_S = 0"
definition h21_PCR_BUS_CLOCK_UPDATE :: u32 where [regs]: "h21_PCR_BUS_CLOCK_UPDATE = 0x1"
definition h21_PCR_CPU_FREQ_CONF_REG :: u32 where [regs]: "h21_PCR_CPU_FREQ_CONF_REG = 0x60096114"
definition h21_PCR_CPU_DIV_NUM_V :: u32 where [regs]: "h21_PCR_CPU_DIV_NUM_V = 0xff"
definition h21_PCR_CPU_DIV_NUM_S :: nat where [regs]: "h21_PCR_CPU_DIV_NUM_S = 0"
definition h21_PCR_AHB_FREQ_CONF_REG :: u32 where [regs]: "h21_PCR_AHB_FREQ_CONF_REG = 0x60096118"
definition h21_PCR_AHB_DIV_NUM_V :: u32 where [regs]: "h21_PCR_AHB_DIV_NUM_V = 0xff"
definition h21_PCR_AHB_DIV_NUM_S :: nat where [regs]: "h21_PCR_AHB_DIV_NUM_S = 0"
definition h21_PCR_SYSCLK_CONF_REG :: u32 where [regs]: "h21_PCR_SYSCLK_CONF_REG = 0x6009610c"
definition h21_PCR_SOC_CLK_SEL_V :: u32 where [regs]: "h21_PCR_SOC_CLK_SEL_V = 0x3"
definition h21_PCR_SOC_CLK_SEL_S :: nat where [regs]: "h21_PCR_SOC_CLK_SEL_S = 16"
definition h21_LP_WDT_INT_CLR_REG :: u32 where [regs]: "h21_LP_WDT_INT_CLR_REG = 0x600b1c34"
definition h21_LP_WDT_LP_WDT_INT_CLR :: u32 where [regs]: "h21_LP_WDT_LP_WDT_INT_CLR = 0x80000000"
definition h21_LP_WDT_WPROTECT_REG :: u32 where [regs]: "h21_LP_WDT_WPROTECT_REG = 0x600b1c1c"
definition h21_LP_WDT_CONFIG0_REG :: u32 where [regs]: "h21_LP_WDT_CONFIG0_REG = 0x600b1c00"
definition h21_LP_WDT_SUPER_WDT_INT_CLR :: u32 where [regs]: "h21_LP_WDT_SUPER_WDT_INT_CLR = 0x40000000"
definition h21_LP_WDT_SWD_WPROTECT_REG :: u32 where [regs]: "h21_LP_WDT_SWD_WPROTECT_REG = 0x600b1c24"
definition h21_LP_WDT_SWD_CONFIG_REG :: u32 where [regs]: "h21_LP_WDT_SWD_CONFIG_REG = 0x600b1c20"
definition h21_LP_WDT_SWD_AUTO_FEED_EN :: u32 where [regs]: "h21_LP_WDT_SWD_AUTO_FEED_EN = 0x40000"

section \<open>ESP32H4\<close>

definition h4_I2C_ANA_MST_ANA_CONF2_REG :: u32 where [regs]: "h4_I2C_ANA_MST_ANA_CONF2_REG = 0x600cf820"
definition h4_REGI2C_CONF2_DCDC_SEL :: u32 where [regs]: "h4_REGI2C_CONF2_DCDC_SEL = 0x1000"
definition h4_I2C_ANA_MST_ANA_CONF1_REG :: u32 where [regs]: "h4_I2C_ANA_MST_ANA_CONF1_REG = 0x600cf81c"
definition h4_REGI2C_CONF1_DCDC_SEL :: u32 where [regs]: "h4_REGI2C_CONF1_DCDC_SEL = 0x400"
definition h4_I2C_ANA_MST_ANA_CONF1_M :: u32 where [regs]: "h4_I2C_ANA_MST_ANA_CONF1_M = 0xffffff"
definition h4_I2C_ANA_MST_I2C_CTRL_REG :: "u32 \<Rightarrow> u32" where [regs]: "h4_I2C_ANA_MST_I2C_CTRL_REG i = 0x600cf800 + i * 0x4"
definition h4_REGI2C_RTC_BUSY :: u32 where [regs]: "h4_REGI2C_RTC_BUSY = 0x2000000"
definition h4_I2C_DCDC :: u32 where [regs]: "h4_I2C_DCDC = 0x6d"
definition h4_REGI2C_RTC_SLAVE_ID_V :: u32 where [regs]: "h4_REGI2C_RTC_SLAVE_ID_V = 0xff"
definition h4_REGI2C_RTC_SLAVE_ID_S :: nat where [regs]: "h4_REGI2C_RTC_SLAVE_ID_S = 0"
definition h4_REGI2C_RTC_ADDR_V :: u32 where [regs]: "h4_REGI2C_RTC_ADDR_V = 0xff"
definition h4_REGI2C_RTC_ADDR_S :: nat where [regs]: "h4_REGI2C_RTC_ADDR_S = 8"
definition h4_REGI2C_RTC_DATA_S :: nat where [regs]: "h4_REGI2C_RTC_DATA_S = 16"
definition h4_REGI2C_RTC_DATA_V :: u32 where [regs]: "h4_REGI2C_RTC_DATA_V = 0xff"
definition h4_REGI2C_RTC_WR_CNTL :: u32 where [regs]: "h4_REGI2C_RTC_WR_CNTL = 0x1000000"
definition h4_MODEM_LPCON_CLK_CONF_REG :: u32 where [regs]: "h4_MODEM_LPCON_CLK_CONF_REG = 0x600cf018"
definition h4_MODEM_LPCON_CLK_I2C_MST_EN :: u32 where [regs]: "h4_MODEM_LPCON_CLK_I2C_MST_EN = 0x4"
definition h4_PMU_DCM_CTRL_REG :: u32 where [regs]: "h4_PMU_DCM_CTRL_REG = 0x600b25b8"
definition h4_PMU_DCDC_CCM_SW_EN :: u32 where [regs]: "h4_PMU_DCDC_CCM_SW_EN = 0x8000000"
definition h4_PMU_HP_ACTIVE_BIAS_REG :: u32 where [regs]: "h4_PMU_HP_ACTIVE_BIAS_REG = 0x600b2418"
definition h4_PMU_HP_ACTIVE_DCDC_CCM_ENB :: u32 where [regs]: "h4_PMU_HP_ACTIVE_DCDC_CCM_ENB = 0x200"
definition h4_I2C_DCDC_CCM_DREG0 :: u32 where [regs]: "h4_I2C_DCDC_CCM_DREG0 = 0x7"
definition h4_I2C_DCDC_CCM_DREG0_MSB :: u32 where [regs]: "h4_I2C_DCDC_CCM_DREG0_MSB = 0x4"
definition h4_I2C_DCDC_CCM_DREG0_LSB :: u32 where [regs]: "h4_I2C_DCDC_CCM_DREG0_LSB = 0x0"
definition h4_I2C_DCDC_CCM_PCUR_LIMIT0 :: u32 where [regs]: "h4_I2C_DCDC_CCM_PCUR_LIMIT0 = 0x7"
definition h4_I2C_DCDC_CCM_PCUR_LIMIT0_MSB :: u32 where [regs]: "h4_I2C_DCDC_CCM_PCUR_LIMIT0_MSB = 0x7"
definition h4_I2C_DCDC_CCM_PCUR_LIMIT0_LSB :: u32 where [regs]: "h4_I2C_DCDC_CCM_PCUR_LIMIT0_LSB = 0x5"
definition h4_I2C_DCDC_VCM_DREG0 :: u32 where [regs]: "h4_I2C_DCDC_VCM_DREG0 = 0xa"
definition h4_I2C_DCDC_VCM_DREG0_MSB :: u32 where [regs]: "h4_I2C_DCDC_VCM_DREG0_MSB = 0x4"
definition h4_I2C_DCDC_VCM_DREG0_LSB :: u32 where [regs]: "h4_I2C_DCDC_VCM_DREG0_LSB = 0x0"
definition h4_I2C_DCDC_VCM_PCUR_LIMIT0 :: u32 where [regs]: "h4_I2C_DCDC_VCM_PCUR_LIMIT0 = 0xa"
definition h4_I2C_DCDC_VCM_PCUR_LIMIT0_MSB :: u32 where [regs]: "h4_I2C_DCDC_VCM_PCUR_LIMIT0_MSB = 0x7"
definition h4_I2C_DCDC_VCM_PCUR_LIMIT0_LSB :: u32 where [regs]: "h4_I2C_DCDC_VCM_PCUR_LIMIT0_LSB = 0x5"
definition h4_I2C_DCDC_XPD_TRX :: u32 where [regs]: "h4_I2C_DCDC_XPD_TRX = 0x1"
definition h4_I2C_DCDC_XPD_TRX_MSB :: u32 where [regs]: "h4_I2C_DCDC_XPD_TRX_MSB = 0x7"
definition h4_I2C_DCDC_XPD_TRX_LSB :: u32 where [regs]: "h4_I2C_DCDC_XPD_TRX_LSB = 0x7"
definition h4_PMU_HP_ACTIVE_HP_REGULATOR1_REG :: u32 where [regs]: "h4_PMU_HP_ACTIVE_HP_REGULATOR1_REG = 0x600b242c"
definition h4_PMU_HP_ACTIVE_HP_REGULATOR_DRV_B_V :: u32 where [regs]: "h4_PMU_HP_ACTIVE_HP_REGULATOR_DRV_B_V = 0xffffff"
definition h4_PMU_HP_ACTIVE_HP_REGULATOR_DRV_B_S :: nat where [regs]: "h4_PMU_HP_ACTIVE_HP_REGULATOR_DRV_B_S = 8"
definition h4_PCR_BUS_CLK_UPDATE_REG :: u32 where [regs]: "h4_PCR_BUS_CLK_UPDATE_REG = 0x60094148"
definition h4_PCR_BUS_CLOCK_UPDATE_V :: u32 where [regs]: "h4_PCR_BUS_CLOCK_UPDATE_V = 0x1"
definition h4_PCR_BUS_CLOCK_UPDATE_S :: nat where [regs]: "h4_PCR_BUS_CLOCK_UPDATE_S = 0"
definition h4_PCR_BUS_CLOCK_UPDATE :: u32 where [regs]: "h4_PCR_BUS_CLOCK_UPDATE = 0x1"
definition h4_PCR_CPU_FREQ_CONF_REG :: u32 where [regs]: "h4_PCR_CPU_FREQ_CONF_REG = 0x6009411c"
definition h4_PCR_CPU_DIV_NUM_V :: u32 where [regs]: "h4_PCR_CPU_DIV_NUM_V = 0xff"
definition h4_PCR_CPU_DIV_NUM_S :: nat where [regs]: "h4_PCR_CPU_DIV_NUM_S = 0"
definition h4_PCR_AHB_FREQ_CONF_REG :: u32 where [regs]: "h4_PCR_AHB_FREQ_CONF_REG = 0x60094120"
definition h4_PCR_AHB_DIV_NUM_V :: u32 where [regs]: "h4_PCR_AHB_DIV_NUM_V = 0xff"
definition h4_PCR_AHB_DIV_NUM_S :: nat where [regs]: "h4_PCR_AHB_DIV_NUM_S = 0"
definition h4_PCR_SYSCLK_CONF_REG :: u32 where [regs]: "h4_PCR_SYSCLK_CONF_REG = 0x60094114"
definition h4_PCR_SOC_CLK_SEL_V :: u32 where [regs]: "h4_PCR_SOC_CLK_SEL_V = 0x3"
definition h4_PCR_SOC_CLK_SEL_S :: nat where [regs]: "h4_PCR_SOC_CLK_SEL_S = 16"
definition h4_LP_WDT_INT_CLR_REG :: u32 where [regs]: "h4_LP_WDT_INT_CLR_REG = 0x600b5434"
definition h4_LP_WDT_LP_WDT_INT_CLR :: u32 where [regs]: "h4_LP_WDT_LP_WDT_INT_CLR = 0x80000000"
definition h4_LP_WDT_WPROTECT_REG :: u32 where [regs]: "h4_LP_WDT_WPROTECT_REG = 0x600b541c"
definition h4_LP_WDT_CONFIG0_REG :: u32 where [regs]: "h4_LP_WDT_CONFIG0_REG = 0x600b5400"
definition h4_LP_WDT_SUPER_WDT_INT_CLR :: u32 where [regs]: "h4_LP_WDT_SUPER_WDT_INT_CLR = 0x40000000"
definition h4_LP_WDT_SWD_WPROTECT_REG :: u32 where [regs]: "h4_LP_WDT_SWD_WPROTECT_REG = 0x600b5424"
definition h4_LP_WDT_SWD_CONFIG_REG :: u32 where [regs]: "h4_LP_WDT_SWD_CONFIG_REG = 0x600b5420"
definition h4_LP_WDT_SWD_AUTO_FEED_EN :: u32 where [regs]: "h4_LP_WDT_SWD_AUTO_FEED_EN = 0x40000"

section \<open>ESP32P4\<close>

definition p4_EFUSE_RD_MAC_SYS_2_REG :: u32 where [regs]: "p4_EFUSE_RD_MAC_SYS_2_REG = 0x5012d04c"
definition p4_EFUSE_WAFER_VERSION_MAJOR_LO_S :: nat where [regs]: "p4_EFUSE_WAFER_VERSION_MAJOR_LO_S = 4"
definition p4_EFUSE_WAFER_VERSION_MAJOR_LO_V :: u32 where [regs]: "p4_EFUSE_WAFER_VERSION_MAJOR_LO_V = 0x3"
definition p4_EFUSE_WAFER_VERSION_MAJOR_HI_S :: nat where [regs]: "p4_EFUSE_WAFER_VERSION_MAJOR_HI_S = 23"
definition p4_EFUSE_WAFER_VERSION_MINOR_S :: nat where [regs]: "p4_EFUSE_WAFER_VERSION_MINOR_S = 0"
definition p4_EFUSE_WAFER_VERSION_MINOR_V :: u32 where [regs]: "p4_EFUSE_WAFER_VERSION_MINOR_V = 0xf"
definition p4_EFUSE_BLK_VERSION_MAJOR_S :: nat where [regs]: "p4_EFUSE_BLK_VERSION_MAJOR_S = 11"
definition p4_EFUSE_BLK_VERSION_MAJOR_V :: u32 where [regs]: "p4_EFUSE_BLK_VERSION_MAJOR_V = 0x3"
definition p4_EFUSE_BLK_VERSION_MINOR_S :: nat where [regs]: "p4_EFUSE_BLK_VERSION_MINOR_S = 8"
definition p4_EFUSE_BLK_VERSION_MINOR_V :: u32 where [regs]: "p4_EFUSE_BLK_VERSION_MINOR_V = 0x7"
definition p4_EFUSE_RD_MAC_SYS_4_REG :: u32 where [regs]: "p4_EFUSE_RD_MAC_SYS_4_REG = 0x5012d054"
definition p4_EFUSE_ACTIVE_HP_DBIAS_S :: nat where [regs]: "p4_EFUSE_ACTIVE_HP_DBIAS_S = 16"
definition p4_EFUSE_ACTIVE_HP_DBIAS_V :: u32 where [regs]: "p4_EFUSE_ACTIVE_HP_DBIAS_V = 0xf"
definition p4_EFUSE_ACTIVE_LP_DBIAS_S :: nat where [regs]: "p4_EFUSE_ACTIVE_LP_DBIAS_S = 20"
definition p4_EFUSE_ACTIVE_LP_DBIAS_V :: u32 where [regs]: "p4_EFUSE_ACTIVE_LP_DBIAS_V = 0xf"
definition p4_HP_SYS_CLKRST_ROOT_CLK_CTRL0_REG :: u32 where [regs]: "p4_HP_SYS_CLKRST_ROOT_CLK_CTRL0_REG = 0x500e6004"
definition p4_HP_SYS_CLKRST_REG_SOC_CLK_DIV_UPDATE :: u32 where [regs]: "p4_HP_SYS_CLKRST_REG_SOC_CLK_DIV_UPDATE = 0x10"
definition p4_PMU_HP_ACTIVE_HP_REGULATOR0_REG :: u32 where [regs]: "p4_PMU_HP_ACTIVE_HP_REGULATOR0_REG = 0x50115028"
definition p4_PMU_HP_ACTIVE_HP_REGULATOR_XPD :: u32 where [regs]: "p4_PMU_HP_ACTIVE_HP_REGULATOR_XPD = 0x40000"
definition p4_PMU_HP_ACTIVE_HP_REGULATOR_DBIAS_V :: u32 where [regs]: "p4_PMU_HP_ACTIVE_HP_REGULATOR_DBIAS_V = 0x1f"
definition p4_PMU_HP_ACTIVE_HP_REGULATOR_DBIAS_S :: nat where [regs]: "p4_PMU_HP_ACTIVE_HP_REGULATOR_DBIAS_S = 27"
definition p4_PMU_LP_ACTIVE_LP_REGULATOR0_REG :: u32 where [regs]: "p4_PMU_LP_ACTIVE_LP_REGULATOR0_REG = 0x5011509c"
definition p4_PMU_LP_ACTIVE_LP_REGULATOR_DBIAS_V :: u32 where [regs]: "p4_PMU_LP_ACTIVE_LP_REGULATOR_DBIAS_V = 0x1f"
definition p4_PMU_LP_ACTIVE_LP_REGULATOR_DBIAS_S :: nat where [regs]: "p4_PMU_LP_ACTIVE_LP_REGULATOR_DBIAS_S = 27"
definition p4_PMU_DCM_CTRL_REG :: u32 where [regs]: "p4_PMU_DCM_CTRL_REG = 0x50115204"
definition p4_PMU_DCDC_FB_RES_FORCE_PD :: u32 where [regs]: "p4_PMU_DCDC_FB_RES_FORCE_PD = 0x800"
definition p4_PMU_DCDC_DONE_FORCE :: u32 where [regs]: "p4_PMU_DCDC_DONE_FORCE = 0x80"
definition p4_PMU_DCDC_ON_REQ :: u32 where [regs]: "p4_PMU_DCDC_ON_REQ = 0x1"
definition p4_PMU_POWER_DCDC_SWITCH_REG :: u32 where [regs]: "p4_PMU_POWER_DCDC_SWITCH_REG = 0x5011510c"
definition p4_PMU_FORCE_DCDC_SWITCH_PU :: u32 where [regs]: "p4_PMU_FORCE_DCDC_SWITCH_PU = 0x1"
definition p4_PMU_FORCE_DCDC_SWITCH_PD :: u32 where [regs]: "p4_PMU_FORCE_DCDC_SWITCH_PD = 0x2"
definition p4_PMU_HP_ACTIVE_BIAS_REG :: u32 where [regs]: "p4_PMU_HP_ACTIVE_BIAS_REG = 0x50115018"
definition p4_PMU_HP_ACTIVE_DCM_VSET_V :: u32 where [regs]: "p4_PMU_HP_ACTIVE_DCM_VSET_V = 0x1f"
definition p4_PMU_HP_ACTIVE_DCM_VSET_S :: nat where [regs]: "p4_PMU_HP_ACTIVE_DCM_VSET_S = 18"
definition p4_PMU_DIG_REGULATOR0_DBIAS_SEL :: u32 where [regs]: "p4_PMU_DIG_REGULATOR0_DBIAS_SEL = 0x4000"
definition p4_LP_SYSTEM_REG_SYS_CTRL_REG :: u32 where [regs]: "p4_LP_SYSTEM_REG_SYS_CTRL_REG = 0x50110008"
definition p4_LP_SYSTEM_REG_LP_FIB_SEL_V :: u32 where [regs]: "p4_LP_SYSTEM_REG_LP_FIB_SEL_V = 0xff"
definition p4_LP_SYSTEM_REG_LP_FIB_SEL_S :: nat where [regs]: "p4_LP_SYSTEM_REG_LP_FIB_SEL_S = 21"
definition p4_HP_SYS_CLKRST_ROOT_CLK_CTRL2_REG :: u32 where [regs]: "p4_HP_SYS_CLKRST_ROOT_CLK_CTRL2_REG = 0x500e600c"
definition p4_HP_SYS_CLKRST_REG_APB_CLK_DIV_NUM_V :: u32 where [regs]: "p4_HP_SYS_CLKRST_REG_APB_CLK_DIV_NUM_V = 0xff"
definition p4_HP_SYS_CLKRST_REG_APB_CLK_DIV_NUM_S :: nat where [regs]: "p4_HP_SYS_CLKRST_REG_APB_CLK_DIV_NUM_S = 16"
definition p4_HP_SYS_CLKRST_ROOT_CLK_CTRL1_REG :: u32 where [regs]: "p4_HP_SYS_CLKRST_ROOT_CLK_CTRL1_REG = 0x500e6008"
definition p4_HP_SYS_CLKRST_REG_SYS_CLK_DIV_NUM_V :: u32 where [regs]: "p4_HP_SYS_CLKRST_REG_SYS_CLK_DIV_NUM_V = 0xff"
definition p4_HP_SYS_CLKRST_REG_SYS_CLK_DIV_NUM_S :: nat where [regs]: "p4_HP_SYS_CLKRST_REG_SYS_CLK_DIV_NUM_S = 24"
definition p4_HP_SYS_CLKRST_REG_MEM_CLK_DIV_NUM_V :: u32 where [regs]: "p4_HP_SYS_CLKRST_REG_MEM_CLK_DIV_NUM_V = 0xff"
definition p4_HP_SYS_CLKRST_REG_MEM_CLK_DIV_NUM_S :: nat where [regs]: "p4_HP_SYS_CLKRST_REG_MEM_CLK_DIV_NUM_S = 0"
definition p4_HP_SYS_CLKRST_REG_CPU_CLK_DIV_NUM_M :: u32 where [regs]: "p4_HP_SYS_CLKRST_REG_CPU_CLK_DIV_NUM_M = 0x1fe0"
definition p4_HP_SYS_CLKRST_REG_CPU_CLK_DIV_NUMERATOR_M :: u32 where [regs]: "p4_HP_SYS_CLKRST_REG_CPU_CLK_DIV_NUMERATOR_M = 0x1fe000"
definition p4_HP_SYS_CLKRST_REG_CPU_CLK_DIV_DENOMINATOR_M :: u32 where [regs]: "p4_HP_SYS_CLKRST_REG_CPU_CLK_DIV_DENOMINATOR_M = 0x1fe00000"
definition p4_HP_SYS_CLKRST_REG_CPU_CLK_DIV_NUM_S :: nat where [regs]: "p4_HP_SYS_CLKRST_REG_CPU_CLK_DIV_NUM_S = 5"
definition p4_LP_CLKRST_HP_CLK_CTRL_REG :: u32 where [regs]: "p4_LP_CLKRST_HP_CLK_CTRL_REG = 0x50111040"
definition p4_LP_CLKRST_HP_ROOT_CLK_SRC_SEL_V :: u32 where [regs]: "p4_LP_CLKRST_HP_ROOT_CLK_SRC_SEL_V = 0x3"
definition p4_LP_CLKRST_HP_ROOT_CLK_SRC_SEL_S :: nat where [regs]: "p4_LP_CLKRST_HP_ROOT_CLK_SRC_SEL_S = 0"
definition p4_LP_WDT_INT_CLR_REG :: u32 where [regs]: "p4_LP_WDT_INT_CLR_REG = 0x50116030"
definition p4_LP_WDT_LP_WDT_INT_CLR :: u32 where [regs]: "p4_LP_WDT_LP_WDT_INT_CLR = 0x80000000"
definition p4_LP_WDT_WPROTECT_REG :: u32 where [regs]: "p4_LP_WDT_WPROTECT_REG = 0x50116018"
definition p4_LP_WDT_CONFIG0_REG :: u32 where [regs]: "p4_LP_WDT_CONFIG0_REG = 0x50116000"
definition p4_LP_WDT_SUPER_WDT_INT_CLR :: u32 where [regs]: "p4_LP_WDT_SUPER_WDT_INT_CLR = 0x40000000"
definition p4_LP_WDT_SWD_WPROTECT_REG :: u32 where [regs]: "p4_LP_WDT_SWD_WPROTECT_REG = 0x50116020"
definition p4_LP_WDT_SWD_CONFIG_REG :: u32 where [regs]: "p4_LP_WDT_SWD_CONFIG_REG = 0x5011601c"
definition p4_LP_WDT_SWD_AUTO_FEED_EN :: u32 where [regs]: "p4_LP_WDT_SWD_AUTO_FEED_EN = 0x40000"

section \<open>ESP32S31\<close>

definition s31_HP_SYS_CLKRST_ROOT_CLK_CTRL0_REG :: u32 where [regs]: "s31_HP_SYS_CLKRST_ROOT_CLK_CTRL0_REG = 0x20587014"
definition s31_HP_SYS_CLKRST_REG_SOC_CLK_UPDATE :: u32 where [regs]: "s31_HP_SYS_CLKRST_REG_SOC_CLK_UPDATE = 0x1"
definition s31_PMU_HP_ACTIVE_HP_REGULATOR0_REG :: u32 where [regs]: "s31_PMU_HP_ACTIVE_HP_REGULATOR0_REG = 0x20704034"
definition s31_HP_SYS_CLKRST_CPU_FREQ_CTRL0_REG :: u32 where [regs]: "s31_HP_SYS_CLKRST_CPU_FREQ_CTRL0_REG = 0x20587004"
definition s31_HP_SYS_CLKRST_MEM_FREQ_CTRL0_REG :: u32 where [regs]: "s31_HP_SYS_CLKRST_MEM_FREQ_CTRL0_REG = 0x20587008"
definition s31_HP_SYS_CLKRST_SYS_FREQ_CTRL0_REG :: u32 where [regs]: "s31_HP_SYS_CLKRST_SYS_FREQ_CTRL0_REG = 0x2058700c"
definition s31_HP_SYS_CLKRST_APB_FREQ_CTRL0_REG :: u32 where [regs]: "s31_HP_SYS_CLKRST_APB_FREQ_CTRL0_REG = 0x20587010"
definition s31_HP_SYS_CLKRST_SOC_CLK_SEL_REG :: u32 where [regs]: "s31_HP_SYS_CLKRST_SOC_CLK_SEL_REG = 0x20587000"
definition s31_HP_SYS_CLKRST_REG_APB_CLK_DIV_NUM_V :: u32 where [regs]: "s31_HP_SYS_CLKRST_REG_APB_CLK_DIV_NUM_V = 0xff"
definition s31_HP_SYS_CLKRST_REG_APB_CLK_DIV_NUM_S :: nat where [regs]: "s31_HP_SYS_CLKRST_REG_APB_CLK_DIV_NUM_S = 0"
definition s31_HP_SYS_CLKRST_REG_CPU_CLK_DIV_NUM_V :: u32 where [regs]: "s31_HP_SYS_CLKRST_REG_CPU_CLK_DIV_NUM_V = 0xff"
definition s31_HP_SYS_CLKRST_REG_CPU_CLK_DIV_NUM_S :: nat where [regs]: "s31_HP_SYS_CLKRST_REG_CPU_CLK_DIV_NUM_S = 0"
definition s31_HP_SYS_CLKRST_REG_MEM_CLK_DIV_NUM_V :: u32 where [regs]: "s31_HP_SYS_CLKRST_REG_MEM_CLK_DIV_NUM_V = 0x1"
definition s31_HP_SYS_CLKRST_REG_MEM_CLK_DIV_NUM_S :: nat where [regs]: "s31_HP_SYS_CLKRST_REG_MEM_CLK_DIV_NUM_S = 0"
definition s31_HP_SYS_CLKRST_REG_SOC_CLK_SEL_V :: u32 where [regs]: "s31_HP_SYS_CLKRST_REG_SOC_CLK_SEL_V = 0x3"
definition s31_HP_SYS_CLKRST_REG_SOC_CLK_SEL_S :: nat where [regs]: "s31_HP_SYS_CLKRST_REG_SOC_CLK_SEL_S = 0"
definition s31_HP_SYS_CLKRST_REG_SYS_CLK_DIV_NUM_V :: u32 where [regs]: "s31_HP_SYS_CLKRST_REG_SYS_CLK_DIV_NUM_V = 0xff"
definition s31_HP_SYS_CLKRST_REG_SYS_CLK_DIV_NUM_S :: nat where [regs]: "s31_HP_SYS_CLKRST_REG_SYS_CLK_DIV_NUM_S = 0"
definition s31_PMU_HP_ACTIVE_HP_REGULATOR_DBIAS_V :: u32 where [regs]: "s31_PMU_HP_ACTIVE_HP_REGULATOR_DBIAS_V = 0x1f"
definition s31_PMU_HP_ACTIVE_HP_REGULATOR_DBIAS_S :: nat where [regs]: "s31_PMU_HP_ACTIVE_HP_REGULATOR_DBIAS_S = 27"

end
