(* ===== verification/Chip_Clock.thy ===== *)
theory Chip_Clock
  imports Clock Clock_Regs
begin

text \<open>
  The clocks and watchdogs of the other chips, \<open>src/target/CHIP/src/clock.c\<close>, each function
  translated with the chip's name in front. Most chips switch the CPU to a PLL; the ESP32-C6,
  ESP32-H4, ESP32-H21 and ESP32-P4 first raise the core voltage, three of them by transactions
  on the internal I2C bus of the regulators; the ESP32-C2 measures its crystal.
\<close>

section \<open>Shared pieces\<close>

definition MHZ :: u32 where [regs]: "MHZ = 1000000"

section \<open>Switching to a PLL\<close>

subsection \<open>ESP8266\<close>

definition esp8266_clock_init :: "'a world_scheme \<Rightarrow> 'a world_scheme option" where
  "esp8266_clock_init w = Some (rom_void (SysFn Esp_rom_set_cpu_ticks_per_us) [52] [] w)"

definition esp8266_WDT_CTL_REG :: u32 where [regs]: "esp8266_WDT_CTL_REG = 0x60000900"

definition esp8266_clock_disable_watchdogs :: "'a world_scheme \<Rightarrow> 'a world_scheme" where
  "esp8266_clock_disable_watchdogs w = REG_SET_BIT esp8266_WDT_CTL_REG 0 w"

subsection \<open>ESP32-S2\<close>

definition s2_CPU_FREQ_MHZ :: u32 where [regs]: "s2_CPU_FREQ_MHZ = 240"

definition s2_clock_init :: "'a clock_world_scheme \<Rightarrow> 'a clock_world_scheme option" where
  "s2_clock_init w =
     (let w = REG_SET_FIELD s2_RTC_CNTL_REG s2_RTC_CNTL_DIG_DBIAS_WAK_V s2_RTC_CNTL_DIG_DBIAS_WAK_S s2_RTC_CNTL_DIG_DBIAS_1V20 w;
          w = REG_SET_FIELD s2_RTC_CNTL_REG s2_RTC_CNTL_DBIAS_WAK_V s2_RTC_CNTL_DBIAS_WAK_S s2_RTC_CNTL_DIG_DBIAS_1V20 w;
          w = w\<lparr>s_cpu_freq := s2_CPU_FREQ_MHZ * MHZ\<rparr>;
          w = rom_void (SysFn Esp_rom_set_cpu_ticks_per_us) [s2_CPU_FREQ_MHZ] [] w;
          w = REG_SET_FIELD s2_DPORT_SYSCLK_CONF_REG s2_DPORT_SOC_CLK_SEL_V s2_DPORT_SOC_CLK_SEL_S 1 w;
          w = REG_SET_FIELD s2_DPORT_CPU_PER_CONF_REG s2_DPORT_PLL_FREQ_SEL_V s2_DPORT_PLL_FREQ_SEL_S 1 w;
          w = REG_SET_FIELD s2_DPORT_CPU_PER_CONF_REG s2_DPORT_CPUPERIOD_SEL_V s2_DPORT_CPUPERIOD_SEL_S 2 w
      in Some w)"

definition s2_get_cpu_freq :: "'a clock_world_scheme \<Rightarrow> u32 \<times> 'a clock_world_scheme" where
  "s2_get_cpu_freq w =
     (if s_cpu_freq w = 0 then (let (t, w) = rom_num (SysFn Esp_rom_get_cpu_ticks_per_us) [] [] w in (t * MHZ, w))
      else (s_cpu_freq w, w))"

definition s2_get_apb_freq :: "'a world_scheme \<Rightarrow> u32 \<times> 'a world_scheme" where
  "s2_get_apb_freq w = rom_num (SysFn Esp_rom_get_apb_frequency) [] [] w"

definition s2_RTC_CNTL_WDT_KEY :: u32 where [regs]: "s2_RTC_CNTL_WDT_KEY = 0x50D83AA1"
definition s2_RTC_CNTL_SWD_KEY :: u32 where [regs]: "s2_RTC_CNTL_SWD_KEY = 0x8F1D312A"

definition s2_clock_disable_watchdogs :: "'a world_scheme \<Rightarrow> 'a world_scheme" where
  "s2_clock_disable_watchdogs w =
     (let w = REG_SET_BIT s2_RTC_CNTL_INT_CLR_REG s2_RTC_CNTL_WDT_INT_CLR w;
          w = WRITE_PERI_REG s2_RTC_CNTL_WDTWPROTECT_REG s2_RTC_CNTL_WDT_KEY w;
          w = WRITE_PERI_REG s2_RTC_CNTL_WDTCONFIG0_REG 0 w;
          w = WRITE_PERI_REG s2_RTC_CNTL_WDTWPROTECT_REG 0 w;
          w = REG_SET_BIT s2_RTC_CNTL_INT_CLR_REG s2_RTC_CNTL_SWD_INT_CLR w;
          w = WRITE_PERI_REG s2_RTC_CNTL_SWD_WPROTECT_REG s2_RTC_CNTL_SWD_KEY w;
          w = SET_PERI_REG_MASK s2_RTC_CNTL_SWD_CONF_REG s2_RTC_CNTL_SWD_AUTO_FEED_EN w
      in WRITE_PERI_REG s2_RTC_CNTL_SWD_WPROTECT_REG 0 w)"

subsection \<open>ESP32-C3\<close>

definition c3_CPU_FREQ_MHZ :: u32 where [regs]: "c3_CPU_FREQ_MHZ = 160"

definition c3_clock_init :: "'a clock_world_scheme \<Rightarrow> 'a clock_world_scheme option" where
  "c3_clock_init w =
     (let w = w\<lparr>s_cpu_freq := c3_CPU_FREQ_MHZ * MHZ\<rparr>;
          w = rom_void (SysFn Esp_rom_set_cpu_ticks_per_us) [c3_CPU_FREQ_MHZ] [] w;
          w = REG_SET_FIELD c3_SYSTEM_SYSCLK_CONF_REG c3_SYSTEM_SOC_CLK_SEL_V c3_SYSTEM_SOC_CLK_SEL_S 1 w;
          w = REG_SET_FIELD c3_SYSTEM_CPU_PER_CONF_REG c3_SYSTEM_PLL_FREQ_SEL_V c3_SYSTEM_PLL_FREQ_SEL_S 1 w;
          w = REG_SET_FIELD c3_SYSTEM_CPU_PER_CONF_REG c3_SYSTEM_CPUPERIOD_SEL_V c3_SYSTEM_CPUPERIOD_SEL_S 1 w
      in Some w)"

definition c3_get_cpu_freq :: "'a clock_world_scheme \<Rightarrow> u32 \<times> 'a clock_world_scheme" where
  "c3_get_cpu_freq w =
     (if s_cpu_freq w = 0 then (let (t, w) = rom_num (SysFn Esp_rom_get_cpu_ticks_per_us) [] [] w in (t * MHZ, w))
      else (s_cpu_freq w, w))"

definition c3_get_apb_freq :: "'a world_scheme \<Rightarrow> u32 \<times> 'a world_scheme" where
  "c3_get_apb_freq w = rom_num (SysFn Esp_rom_get_apb_freq) [] [] w"

definition c3_RTC_CNTL_WDT_KEY :: u32 where [regs]: "c3_RTC_CNTL_WDT_KEY = 0x50D83AA1"
definition c3_RTC_CNTL_SWD_KEY :: u32 where [regs]: "c3_RTC_CNTL_SWD_KEY = 0x8F1D312A"

definition c3_clock_disable_watchdogs :: "'a world_scheme \<Rightarrow> 'a world_scheme" where
  "c3_clock_disable_watchdogs w =
     (let w = REG_SET_BIT c3_RTC_CNTL_INT_CLR_REG c3_RTC_CNTL_WDT_INT_CLR w;
          w = WRITE_PERI_REG c3_RTC_CNTL_WDTWPROTECT_REG c3_RTC_CNTL_WDT_KEY w;
          w = WRITE_PERI_REG c3_RTC_CNTL_WDTCONFIG0_REG 0 w;
          w = WRITE_PERI_REG c3_RTC_CNTL_WDTWPROTECT_REG 0 w;
          w = REG_SET_BIT c3_RTC_CNTL_INT_CLR_REG c3_RTC_CNTL_SWD_INT_CLR w;
          w = WRITE_PERI_REG c3_RTC_CNTL_SWD_WPROTECT_REG c3_RTC_CNTL_SWD_KEY w;
          w = SET_PERI_REG_MASK c3_RTC_CNTL_SWD_CONF_REG c3_RTC_CNTL_SWD_AUTO_FEED_EN w
      in WRITE_PERI_REG c3_RTC_CNTL_SWD_WPROTECT_REG 0 w)"

subsection \<open>ESP32-C5\<close>

definition c5_CPU_FREQ_MHZ :: u32 where [regs]: "c5_CPU_FREQ_MHZ = 192"
definition c5_AHB_FREQ_MHZ :: u32 where [regs]: "c5_AHB_FREQ_MHZ = 40"
definition c5_PLL_F160M_FREQ_MHZ :: u32 where [regs]: "c5_PLL_F160M_FREQ_MHZ = 160"
definition c5_CPU_DIV :: u32 where [regs]: "c5_CPU_DIV = 1"

definition c5_update_bus_clocks :: "'a world_scheme \<Rightarrow> 'a world_scheme option" where
  "c5_update_bus_clocks w =
     (let w = REG_SET_FIELD c5_PCR_BUS_CLK_UPDATE_REG c5_PCR_BUS_CLOCK_UPDATE_V c5_PCR_BUS_CLOCK_UPDATE_S 1 w
      in busy_wait c5_PCR_BUS_CLK_UPDATE_REG (\<lambda>v. v AND c5_PCR_BUS_CLOCK_UPDATE \<noteq> 0) w)"

definition c5_clock_init :: "'a clock_world_scheme \<Rightarrow> 'a clock_world_scheme option" where
  "c5_clock_init w =
     (let w = w\<lparr>s_cpu_freq := c5_CPU_FREQ_MHZ * MHZ\<rparr>;
          w = rom_void (SysFn Esp_rom_set_cpu_ticks_per_us) [c5_CPU_FREQ_MHZ] [] w;
          w = REG_SET_BIT c5_PCR_PLL_DIV_CLK_EN_REG c5_PCR_PLL_160M_CLK_EN w;
          w = REG_SET_FIELD c5_PCR_CPU_FREQ_CONF_REG c5_PCR_CPU_DIV_NUM_V c5_PCR_CPU_DIV_NUM_S (c5_CPU_DIV - 1) w;
          w = REG_SET_FIELD c5_PCR_AHB_FREQ_CONF_REG c5_PCR_AHB_DIV_NUM_V c5_PCR_AHB_DIV_NUM_S (c5_PLL_F160M_FREQ_MHZ div c5_AHB_FREQ_MHZ - 1) w;
          w = REG_SET_FIELD c5_PCR_SYSCLK_CONF_REG c5_PCR_SOC_CLK_SEL_V c5_PCR_SOC_CLK_SEL_S 2 w
      in c5_update_bus_clocks w)"

definition c5_get_cpu_freq :: "'a clock_world_scheme \<Rightarrow> u32 \<times> 'a clock_world_scheme" where
  "c5_get_cpu_freq w =
     (if s_cpu_freq w = 0 then rom_num (SysFn Esp_rom_get_cpu_freq) [] [] w
      else (s_cpu_freq w, w))"

definition c5_LP_WDT_WDT_KEY :: u32 where [regs]: "c5_LP_WDT_WDT_KEY = 0x50D83AA1"
definition c5_LP_WDT_SWD_KEY :: u32 where [regs]: "c5_LP_WDT_SWD_KEY = 0x50D83AA1"

definition c5_clock_disable_watchdogs :: "'a world_scheme \<Rightarrow> 'a world_scheme" where
  "c5_clock_disable_watchdogs w =
     (let w = REG_SET_BIT c5_LP_WDT_INT_CLR_REG c5_LP_WDT_LP_WDT_INT_CLR w;
          w = WRITE_PERI_REG c5_LP_WDT_WPROTECT_REG c5_LP_WDT_WDT_KEY w;
          w = WRITE_PERI_REG c5_LP_WDT_CONFIG0_REG 0 w;
          w = WRITE_PERI_REG c5_LP_WDT_WPROTECT_REG 0 w;
          w = REG_SET_BIT c5_LP_WDT_INT_CLR_REG c5_LP_WDT_SUPER_WDT_INT_CLR w;
          w = WRITE_PERI_REG c5_LP_WDT_SWD_WPROTECT_REG c5_LP_WDT_SWD_KEY w;
          w = SET_PERI_REG_MASK c5_LP_WDT_SWD_CONFIG_REG c5_LP_WDT_SWD_AUTO_FEED_EN w
      in WRITE_PERI_REG c5_LP_WDT_SWD_WPROTECT_REG 0 w)"

subsection \<open>ESP32-C61\<close>

definition c61_CPU_FREQ_MHZ :: u32 where [regs]: "c61_CPU_FREQ_MHZ = 160"

definition c61_clock_init :: "'a clock_world_scheme \<Rightarrow> 'a clock_world_scheme option" where
  "c61_clock_init w =
     (let w = w\<lparr>s_cpu_freq := c61_CPU_FREQ_MHZ * MHZ\<rparr>;
          w = rom_void (SysFn Esp_rom_set_cpu_ticks_per_us) [c61_CPU_FREQ_MHZ] [] w;
          w = REG_SET_FIELD c61_PCR_SYSCLK_CONF_REG c61_PCR_SOC_CLK_SEL_V c61_PCR_SOC_CLK_SEL_S 2 w;
          w = REG_SET_FIELD c61_PCR_BUS_CLK_UPDATE_REG c61_PCR_BUS_CLOCK_UPDATE_V c61_PCR_BUS_CLOCK_UPDATE_S 1 w
      in Some w)"

definition c61_get_cpu_freq :: "'a clock_world_scheme \<Rightarrow> u32 \<times> 'a clock_world_scheme" where
  "c61_get_cpu_freq w =
     (if s_cpu_freq w = 0 then rom_num (SysFn Esp_rom_get_cpu_freq) [] [] w
      else (s_cpu_freq w, w))"

definition c61_LP_WDT_WDT_KEY :: u32 where [regs]: "c61_LP_WDT_WDT_KEY = 0x50D83AA1"
definition c61_LP_WDT_SWD_KEY :: u32 where [regs]: "c61_LP_WDT_SWD_KEY = 0x50D83AA1"

definition c61_clock_disable_watchdogs :: "'a world_scheme \<Rightarrow> 'a world_scheme" where
  "c61_clock_disable_watchdogs w =
     (let w = REG_SET_BIT c61_LP_WDT_INT_CLR_REG c61_LP_WDT_LP_WDT_INT_CLR w;
          w = WRITE_PERI_REG c61_LP_WDT_WPROTECT_REG c61_LP_WDT_WDT_KEY w;
          w = WRITE_PERI_REG c61_LP_WDT_CONFIG0_REG 0 w;
          w = WRITE_PERI_REG c61_LP_WDT_WPROTECT_REG 0 w;
          w = REG_SET_BIT c61_LP_WDT_INT_CLR_REG c61_LP_WDT_SUPER_WDT_INT_CLR w;
          w = WRITE_PERI_REG c61_LP_WDT_SWD_WPROTECT_REG c61_LP_WDT_SWD_KEY w;
          w = SET_PERI_REG_MASK c61_LP_WDT_SWD_CONFIG_REG c61_LP_WDT_SWD_AUTO_FEED_EN w
      in WRITE_PERI_REG c61_LP_WDT_SWD_WPROTECT_REG 0 w)"

subsection \<open>ESP32-H2\<close>

definition h2_CPU_FREQ_MHZ :: u32 where [regs]: "h2_CPU_FREQ_MHZ = 96"

definition h2_clock_init :: "'a clock_world_scheme \<Rightarrow> 'a clock_world_scheme option" where
  "h2_clock_init w =
     (let w = w\<lparr>s_cpu_freq := h2_CPU_FREQ_MHZ * MHZ\<rparr>;
          w = rom_void (SysFn Esp_rom_set_cpu_ticks_per_us) [h2_CPU_FREQ_MHZ] [] w;
          w = REG_SET_FIELD h2_PCR_SYSCLK_CONF_REG h2_PCR_SOC_CLK_SEL_V h2_PCR_SOC_CLK_SEL_S 1 w;
          w = REG_SET_FIELD h2_PCR_BUS_CLK_UPDATE_REG h2_PCR_BUS_CLOCK_UPDATE_V h2_PCR_BUS_CLOCK_UPDATE_S 1 w
      in Some w)"

definition h2_get_cpu_freq :: "'a clock_world_scheme \<Rightarrow> u32 \<times> 'a clock_world_scheme" where
  "h2_get_cpu_freq w =
     (if s_cpu_freq w = 0 then rom_num (SysFn Esp_rom_get_cpu_freq) [] [] w
      else (s_cpu_freq w, w))"

definition h2_LP_WDT_WDT_KEY :: u32 where [regs]: "h2_LP_WDT_WDT_KEY = 0x50D83AA1"
definition h2_LP_WDT_SWD_KEY :: u32 where [regs]: "h2_LP_WDT_SWD_KEY = 0x50D83AA1"

definition h2_clock_disable_watchdogs :: "'a world_scheme \<Rightarrow> 'a world_scheme" where
  "h2_clock_disable_watchdogs w =
     (let w = REG_SET_BIT h2_LP_WDT_INT_CLR_REG h2_LP_WDT_LP_WDT_INT_CLR w;
          w = WRITE_PERI_REG h2_LP_WDT_WPROTECT_REG h2_LP_WDT_WDT_KEY w;
          w = WRITE_PERI_REG h2_LP_WDT_CONFIG0_REG 0 w;
          w = WRITE_PERI_REG h2_LP_WDT_WPROTECT_REG 0 w;
          w = REG_SET_BIT h2_LP_WDT_INT_CLR_REG h2_LP_WDT_SUPER_WDT_INT_CLR w;
          w = WRITE_PERI_REG h2_LP_WDT_SWD_WPROTECT_REG h2_LP_WDT_SWD_KEY w;
          w = SET_PERI_REG_MASK h2_LP_WDT_SWD_CONFIG_REG h2_LP_WDT_SWD_AUTO_FEED_EN w
      in WRITE_PERI_REG h2_LP_WDT_SWD_WPROTECT_REG 0 w)"

subsection \<open>ESP32-S31\<close>

definition s31_HP_CALI_DBIAS_DEFAULT :: u32 where [regs]: "s31_HP_CALI_DBIAS_DEFAULT = 26"
definition s31_SOC_CPU_CLK_SRC_PLL_F240M :: u32 where [regs]: "s31_SOC_CPU_CLK_SRC_PLL_F240M = 3"

definition s31_update_bus_clocks :: "'a world_scheme \<Rightarrow> 'a world_scheme option" where
  "s31_update_bus_clocks w =
     (let w = REG_SET_BIT s31_HP_SYS_CLKRST_ROOT_CLK_CTRL0_REG s31_HP_SYS_CLKRST_REG_SOC_CLK_UPDATE w
      in busy_wait s31_HP_SYS_CLKRST_ROOT_CLK_CTRL0_REG (\<lambda>v. v AND s31_HP_SYS_CLKRST_REG_SOC_CLK_UPDATE \<noteq> 0) w)"

definition s31_clock_init :: "'a clock_world_scheme \<Rightarrow> 'a clock_world_scheme option" where
  "s31_clock_init w =
     (let w = REG_SET_FIELD s31_PMU_HP_ACTIVE_HP_REGULATOR0_REG s31_PMU_HP_ACTIVE_HP_REGULATOR_DBIAS_V s31_PMU_HP_ACTIVE_HP_REGULATOR_DBIAS_S s31_HP_CALI_DBIAS_DEFAULT w;
          w = REG_SET_FIELD s31_HP_SYS_CLKRST_CPU_FREQ_CTRL0_REG s31_HP_SYS_CLKRST_REG_CPU_CLK_DIV_NUM_V s31_HP_SYS_CLKRST_REG_CPU_CLK_DIV_NUM_S 0 w;
          w = REG_SET_FIELD s31_HP_SYS_CLKRST_MEM_FREQ_CTRL0_REG s31_HP_SYS_CLKRST_REG_MEM_CLK_DIV_NUM_V s31_HP_SYS_CLKRST_REG_MEM_CLK_DIV_NUM_S 1 w;
          w = REG_SET_FIELD s31_HP_SYS_CLKRST_SYS_FREQ_CTRL0_REG s31_HP_SYS_CLKRST_REG_SYS_CLK_DIV_NUM_V s31_HP_SYS_CLKRST_REG_SYS_CLK_DIV_NUM_S 2 w;
          w = REG_SET_FIELD s31_HP_SYS_CLKRST_APB_FREQ_CTRL0_REG s31_HP_SYS_CLKRST_REG_APB_CLK_DIV_NUM_V s31_HP_SYS_CLKRST_REG_APB_CLK_DIV_NUM_S 1 w;
          w = REG_SET_FIELD s31_HP_SYS_CLKRST_SOC_CLK_SEL_REG s31_HP_SYS_CLKRST_REG_SOC_CLK_SEL_V s31_HP_SYS_CLKRST_REG_SOC_CLK_SEL_S s31_SOC_CPU_CLK_SRC_PLL_F240M w
      in do { w \<leftarrow> s31_update_bus_clocks w;
           let (f, w) = rom_num (SysFn Esp_rom_get_cpu_freq) [] [] w;
           let w = w\<lparr>s_cpu_freq := f\<rparr>;
           Some (rom_void (SysFn Esp_rom_set_cpu_ticks_per_us) [s_cpu_freq w div MHZ] [] w) })"

definition s31_get_cpu_freq :: "'a clock_world_scheme \<Rightarrow> u32 \<times> 'a clock_world_scheme" where
  "s31_get_cpu_freq w =
     (if s_cpu_freq w \<noteq> 0 then (s_cpu_freq w, w) else rom_num (SysFn Esp_rom_get_cpu_freq) [] [] w)"

definition s31_get_apb_freq :: "'a clock_world_scheme \<Rightarrow> u32 \<times> 'a clock_world_scheme" where
  "s31_get_apb_freq w =
     (let (cpu_div, w) = REG_GET_FIELD s31_HP_SYS_CLKRST_CPU_FREQ_CTRL0_REG s31_HP_SYS_CLKRST_REG_CPU_CLK_DIV_NUM_V s31_HP_SYS_CLKRST_REG_CPU_CLK_DIV_NUM_S w;
          (sys_div, w) = REG_GET_FIELD s31_HP_SYS_CLKRST_SYS_FREQ_CTRL0_REG s31_HP_SYS_CLKRST_REG_SYS_CLK_DIV_NUM_V s31_HP_SYS_CLKRST_REG_SYS_CLK_DIV_NUM_S w;
          (apb_div, w) = REG_GET_FIELD s31_HP_SYS_CLKRST_APB_FREQ_CTRL0_REG s31_HP_SYS_CLKRST_REG_APB_CLK_DIV_NUM_V s31_HP_SYS_CLKRST_REG_APB_CLK_DIV_NUM_S w;
          (f, w) = s31_get_cpu_freq w
      in (f * (cpu_div + 1) div (sys_div + 1) div (apb_div + 1), w))"

subsection \<open>ESP32\<close>

definition esp32_CPU_FREQ_MHZ :: u32 where [regs]: "esp32_CPU_FREQ_MHZ = 160"
definition esp32_CLK_LL_BBPLL_IR_CAL_DELAY_VAL :: u32 where [regs]: "esp32_CLK_LL_BBPLL_IR_CAL_DELAY_VAL = 0x18"
definition esp32_CLK_LL_BBPLL_IR_CAL_EXT_CAP_VAL :: u32 where [regs]: "esp32_CLK_LL_BBPLL_IR_CAL_EXT_CAP_VAL = 0x20"
definition esp32_CLK_LL_BBPLL_OC_ENB_FCAL_VAL :: u32 where [regs]: "esp32_CLK_LL_BBPLL_OC_ENB_FCAL_VAL = 0x9A"
definition esp32_CLK_LL_BBPLL_OC_ENB_VCON_VAL :: u32 where [regs]: "esp32_CLK_LL_BBPLL_OC_ENB_VCON_VAL = 0x00"
definition esp32_CLK_LL_BBPLL_BBADC_CAL_7_0_VAL :: u32 where [regs]: "esp32_CLK_LL_BBPLL_BBADC_CAL_7_0_VAL = 0x00"
definition esp32_CLK_LL_BBPLL_ENDIV5_VAL_320M :: u32 where [regs]: "esp32_CLK_LL_BBPLL_ENDIV5_VAL_320M = 0x43"
definition esp32_CLK_LL_BBPLL_BBADC_DSMP_VAL_320M :: u32 where [regs]: "esp32_CLK_LL_BBPLL_BBADC_DSMP_VAL_320M = 0x84"

definition esp32_bbpll_write :: "u32 \<Rightarrow> u32 \<Rightarrow> 'a world_scheme \<Rightarrow> 'a world_scheme" where
  "esp32_bbpll_write reg value w =
     rom_void (SysFn Rom_i2c_writeReg) [esp32_I2C_BBPLL, esp32_I2C_BBPLL_HOSTID, reg, value] [] w"

definition esp32_bbpll_configure_320m :: "u32 \<Rightarrow> 'a world_scheme \<Rightarrow> 'a world_scheme" where
  "esp32_bbpll_configure_320m xtal_freq_mhz w =
     (let (div_ref, div7_0, div10_8, lref, dcur, bw) =
            (if xtal_freq_mhz = 26 then (12, 224, 4, 1, 0, 1) else (0, 32, 0, 0, 6, 3));
          w = REG_CLR_BIT esp32_RTC_CNTL_OPTIONS0_REG
                (esp32_RTC_CNTL_BIAS_I2C_FORCE_PD OR esp32_RTC_CNTL_BB_I2C_FORCE_PD OR
                 esp32_RTC_CNTL_BBPLL_FORCE_PD OR esp32_RTC_CNTL_BBPLL_I2C_FORCE_PD) w;
          w = REG_CLR_BIT esp32_ANA_CONFIG_REG esp32_I2C_BBPLL_M w;
          w = esp32_bbpll_write esp32_I2C_BBPLL_IR_CAL_DELAY esp32_CLK_LL_BBPLL_IR_CAL_DELAY_VAL w;
          w = esp32_bbpll_write esp32_I2C_BBPLL_IR_CAL_EXT_CAP esp32_CLK_LL_BBPLL_IR_CAL_EXT_CAP_VAL w;
          w = esp32_bbpll_write esp32_I2C_BBPLL_OC_ENB_FCAL esp32_CLK_LL_BBPLL_OC_ENB_FCAL_VAL w;
          w = esp32_bbpll_write esp32_I2C_BBPLL_OC_ENB_VCON esp32_CLK_LL_BBPLL_OC_ENB_VCON_VAL w;
          w = esp32_bbpll_write esp32_I2C_BBPLL_BBADC_CAL_7_0 esp32_CLK_LL_BBPLL_BBADC_CAL_7_0_VAL w;
          w = esp32_bbpll_write esp32_I2C_BBPLL_ENDIV5 esp32_CLK_LL_BBPLL_ENDIV5_VAL_320M w;
          w = esp32_bbpll_write esp32_I2C_BBPLL_BBADC_DSMP esp32_CLK_LL_BBPLL_BBADC_DSMP_VAL_320M w;
          w = esp32_bbpll_write esp32_I2C_BBPLL_OC_LREF (push_bit 7 lref OR push_bit 4 div10_8 OR div_ref) w;
          w = esp32_bbpll_write esp32_I2C_BBPLL_OC_DIV_7_0 div7_0 w;
          w = esp32_bbpll_write esp32_I2C_BBPLL_OC_DCUR (push_bit 6 bw OR dcur) w
      in stub_lib_delay_us 80 w)"

definition esp32_clock_init :: "'a clock_world_scheme \<Rightarrow> 'a clock_world_scheme option" where
  "esp32_clock_init w =
     (let (xtal_freq_hz, w) = rom_num (SysFn Esp_rom_get_detected_xtal_freq) [] [] w;
          xtal_freq_mhz = (if xtal_freq_hz \<noteq> 0 \<and> xtal_freq_hz < 30500000 then 26 else 40);
          w = REG_SET_FIELD esp32_RTC_CNTL_CLK_CONF_REG esp32_RTC_CNTL_SOC_CLK_SEL_V esp32_RTC_CNTL_SOC_CLK_SEL_S 0 w;
          w = rom_void (SysFn Esp_rom_set_cpu_ticks_per_us) [xtal_freq_mhz] [] w;
          w = REG_SET_FIELD esp32_RTC_CNTL_REG esp32_RTC_CNTL_DIG_DBIAS_WAK_V esp32_RTC_CNTL_DIG_DBIAS_WAK_S esp32_RTC_CNTL_DBIAS_1V25 w;
          w = esp32_bbpll_configure_320m xtal_freq_mhz w;
          w = REG_WRITE esp32_DPORT_CPU_PER_CONF_REG 1 w;
          w = WRITE_PERI_REG esp32_SYSCON_PLL_TICK_CONF_REG (80 - 1) w;
          apb_store = drop_bit 12 (80 * MHZ);
          w = WRITE_PERI_REG esp32_RTC_CNTL_STORE5_REG (apb_store OR push_bit 16 apb_store) w;
          w = w\<lparr>s_cpu_freq := esp32_CPU_FREQ_MHZ * MHZ\<rparr>;
          w = rom_void (SysFn Esp_rom_set_cpu_ticks_per_us) [esp32_CPU_FREQ_MHZ] [] w;
          w = REG_SET_FIELD esp32_RTC_CNTL_CLK_CONF_REG esp32_RTC_CNTL_SOC_CLK_SEL_V esp32_RTC_CNTL_SOC_CLK_SEL_S 1 w;
          w = stub_lib_delay_us 30 w
      in Some w)"

definition esp32_get_cpu_freq :: "'a clock_world_scheme \<Rightarrow> u32 \<times> 'a clock_world_scheme" where
  "esp32_get_cpu_freq w =
     (if s_cpu_freq w = 0 then (let (t, w) = rom_num (SysFn Esp_rom_get_cpu_ticks_per_us) [] [] w in (t * MHZ, w))
      else (s_cpu_freq w, w))"

definition esp32_RTC_CNTL_WDT_KEY :: u32 where [regs]: "esp32_RTC_CNTL_WDT_KEY = 0x50D83AA1"

definition esp32_clock_disable_watchdogs :: "'a world_scheme \<Rightarrow> 'a world_scheme" where
  "esp32_clock_disable_watchdogs w =
     (let w = REG_SET_BIT esp32_RTC_CNTL_INT_CLR_REG esp32_RTC_CNTL_WDT_INT_CLR w;
          w = WRITE_PERI_REG esp32_RTC_CNTL_WDTWPROTECT_REG esp32_RTC_CNTL_WDT_KEY w;
          w = WRITE_PERI_REG esp32_RTC_CNTL_WDTCONFIG0_REG 0 w
      in WRITE_PERI_REG esp32_RTC_CNTL_WDTWPROTECT_REG 0 w)"

section \<open>The crystal of the ESP32-C2\<close>

record c2_clock_world = clock_world +
  s_crystal_freq :: u32

definition c2_RC_FAST_HZ :: u32 where [regs]: "c2_RC_FAST_HZ = 17500000"
definition c2_N_SLOW_CYCLES :: u32 where [regs]: "c2_N_SLOW_CYCLES = 10"
definition c2_TIMEOUT_THRES :: u32 where [regs]: "c2_TIMEOUT_THRES = push_bit 12 c2_N_SLOW_CYCLES"

text \<open>
  The two loops that wait for a flag in either of two registers. The first stops when a flag
  is set; the second reads the value of the measurement when the first flag is set, and stops
  with 0 on the second.
\<close>

partial_function (option) c2_wait_stopped :: "'a world_scheme \<Rightarrow> 'a world_scheme option" where
  "c2_wait_stopped w =
     (let (rdy, w) = READ_PERI_REG (c2_TIMG_RTCCALICFG_REG 0) w
      in if rdy AND c2_TIMG_RTC_CALI_RDY \<noteq> 0 then Some w
         else
           (let (timeout, w) = READ_PERI_REG (c2_TIMG_RTCCALICFG2_REG 0) w
            in if timeout AND c2_TIMG_RTC_CALI_TIMEOUT \<noteq> 0 then Some w else c2_wait_stopped w))"

partial_function (option) c2_wait_measured :: "'a world_scheme \<Rightarrow> (u32 \<times> 'a world_scheme) option" where
  "c2_wait_measured w =
     (let (rdy, w) = READ_PERI_REG (c2_TIMG_RTCCALICFG_REG 0) w
      in if rdy AND c2_TIMG_RTC_CALI_RDY \<noteq> 0
         then Some (REG_GET_FIELD (c2_TIMG_RTCCALICFG1_REG 0) c2_TIMG_RTC_CALI_VALUE_V c2_TIMG_RTC_CALI_VALUE_S w)
         else
           (let (timeout, w) = READ_PERI_REG (c2_TIMG_RTCCALICFG2_REG 0) w
            in if timeout AND c2_TIMG_RTC_CALI_TIMEOUT \<noteq> 0 then Some (0, w) else c2_wait_measured w))"

declare c2_wait_stopped.simps [code] c2_wait_measured.simps [code]

definition c2_xtal_of :: "u32 \<Rightarrow> u32" where
  "c2_xtal_of cal_val =
     (if cal_val = 0 then 40 * MHZ
      else
        (let xtal_mhz = ucast ((ucast cal_val * ucast c2_RC_FAST_HZ :: u64) div ucast (256 * c2_N_SLOW_CYCLES * 1000000)) :: u32
         in if xtal_mhz < 33 then 26 * MHZ else 40 * MHZ))"

definition c2_start_measuring :: "'a world_scheme \<Rightarrow> 'a world_scheme option" where
  "c2_start_measuring w =
     do { (cfg, w) \<leftarrow> Some (READ_PERI_REG (c2_TIMG_RTCCALICFG_REG 0) w);
          w \<leftarrow> (if cfg AND c2_TIMG_RTC_CALI_START_CYCLING \<noteq> 0
                 then c2_wait_stopped (REG_SET_FIELD (c2_TIMG_RTCCALICFG2_REG 0)
                        c2_TIMG_RTC_CALI_TIMEOUT_THRES_V c2_TIMG_RTC_CALI_TIMEOUT_THRES_S 1 w)
                 else Some w);
          let w = REG_SET_FIELD (c2_TIMG_RTCCALICFG_REG 0) c2_TIMG_RTC_CALI_CLK_SEL_V c2_TIMG_RTC_CALI_CLK_SEL_S 1 w;
          let w = CLEAR_PERI_REG_MASK (c2_TIMG_RTCCALICFG_REG 0) c2_TIMG_RTC_CALI_START_CYCLING w;
          let w = REG_SET_FIELD (c2_TIMG_RTCCALICFG_REG 0) c2_TIMG_RTC_CALI_MAX_V c2_TIMG_RTC_CALI_MAX_S c2_N_SLOW_CYCLES w;
          let w = REG_SET_FIELD (c2_TIMG_RTCCALICFG2_REG 0) c2_TIMG_RTC_CALI_TIMEOUT_THRES_V c2_TIMG_RTC_CALI_TIMEOUT_THRES_S c2_TIMEOUT_THRES w;
          let w = CLEAR_PERI_REG_MASK (c2_TIMG_RTCCALICFG_REG 0) c2_TIMG_RTC_CALI_START w;
          Some (SET_PERI_REG_MASK (c2_TIMG_RTCCALICFG_REG 0) c2_TIMG_RTC_CALI_START w) }"

definition c2_enable_rc_fast :: "'a world_scheme \<Rightarrow> 'a world_scheme" where
  "c2_enable_rc_fast w =
     (let w = CLEAR_PERI_REG_MASK c2_RTC_CNTL_CLK_CONF_REG c2_RTC_CNTL_ENB_CK8M w;
          w = REG_SET_FIELD c2_RTC_CNTL_TIMER1_REG c2_RTC_CNTL_CK8M_WAIT_V c2_RTC_CNTL_CK8M_WAIT_S 5 w;
          w = CLEAR_PERI_REG_MASK c2_RTC_CNTL_CLK_CONF_REG c2_RTC_CNTL_ENB_CK8M_DIV w;
          w = rom_void (SysFn Esp_rom_delay_us) [50] [] w
      in SET_PERI_REG_MASK c2_RTC_CNTL_CLK_CONF_REG c2_RTC_CNTL_DIG_CLK8M_D256_EN w)"

definition c2_restore_clk_conf :: "u32 \<Rightarrow> 'a world_scheme \<Rightarrow> 'a world_scheme" where
  "c2_restore_clk_conf saved_clk_conf w =
     (let rc_fast_was_on = (saved_clk_conf AND c2_RTC_CNTL_ENB_CK8M = 0);
          d256_was_on = (saved_clk_conf AND c2_RTC_CNTL_ENB_CK8M_DIV = 0);
          d256_digi_was = (saved_clk_conf AND c2_RTC_CNTL_DIG_CLK8M_D256_EN \<noteq> 0);
          w = (if \<not> d256_digi_was then CLEAR_PERI_REG_MASK c2_RTC_CNTL_CLK_CONF_REG c2_RTC_CNTL_DIG_CLK8M_D256_EN w else w);
          w = (if \<not> rc_fast_was_on then
                 (let w = SET_PERI_REG_MASK c2_RTC_CNTL_CLK_CONF_REG c2_RTC_CNTL_ENB_CK8M w
                  in REG_SET_FIELD c2_RTC_CNTL_TIMER1_REG c2_RTC_CNTL_CK8M_WAIT_V c2_RTC_CNTL_CK8M_WAIT_S 20 w)
               else w)
      in if \<not> d256_was_on then SET_PERI_REG_MASK c2_RTC_CNTL_CLK_CONF_REG c2_RTC_CNTL_ENB_CK8M_DIV w else w)"

definition c2_detected_crystal_freq :: "'a world_scheme \<Rightarrow> (u32 \<times> 'a world_scheme) option" where
  "c2_detected_crystal_freq w =
     do { let w = SET_PERI_REG_MASK c2_SYSTEM_PERIP_CLK_EN0_REG c2_SYSTEM_TIMERGROUP_CLK_EN w;
          let w = CLEAR_PERI_REG_MASK c2_SYSTEM_PERIP_RST_EN0_REG c2_SYSTEM_TIMERGROUP_RST w;
          let (saved_clk_conf, w) = READ_PERI_REG c2_RTC_CNTL_CLK_CONF_REG w;
          let w = c2_enable_rc_fast w;
          w \<leftarrow> c2_start_measuring w;
          (cal_val, w) \<leftarrow> c2_wait_measured w;
          let w = CLEAR_PERI_REG_MASK (c2_TIMG_RTCCALICFG_REG 0) c2_TIMG_RTC_CALI_START w;
          let w = c2_restore_clk_conf saved_clk_conf w;
          Some (c2_xtal_of cal_val, w) }"

definition c2_clock_init :: "'a c2_clock_world_scheme \<Rightarrow> 'a c2_clock_world_scheme option" where
  "c2_clock_init w =
     do { (f, w) \<leftarrow> c2_detected_crystal_freq w;
          let w = w\<lparr>s_crystal_freq := f\<rparr>;
          let w = w\<lparr>s_cpu_freq := s_crystal_freq w * 2\<rparr>;
          let w = rom_void (SysFn Esp_rom_set_cpu_ticks_per_us) [s_cpu_freq w div MHZ] [] w;
          let w = REG_SET_FIELD c2_SYSTEM_SYSCLK_CONF_REG c2_SYSTEM_SOC_CLK_SEL_V c2_SYSTEM_SOC_CLK_SEL_S 1 w;
          Some (REG_SET_FIELD c2_SYSTEM_CPU_PER_CONF_REG c2_SYSTEM_PLL_FREQ_SEL_V c2_SYSTEM_PLL_FREQ_SEL_S 0 w) }"

definition c2_get_cpu_freq :: "'a clock_world_scheme \<Rightarrow> u32 \<times> 'a clock_world_scheme" where
  "c2_get_cpu_freq w =
     (if s_cpu_freq w = 0 then (let (t, w) = rom_num (SysFn Esp_rom_get_cpu_ticks_per_us) [] [] w in (t * MHZ, w))
      else (s_cpu_freq w, w))"

definition c2_get_apb_freq :: "'a c2_clock_world_scheme \<Rightarrow> (u32 \<times> 'a c2_clock_world_scheme) option" where
  "c2_get_apb_freq w =
     do { w \<leftarrow> (if s_crystal_freq w = 0
                 then do { (f, w) \<leftarrow> c2_detected_crystal_freq w; Some (w\<lparr>s_crystal_freq := f\<rparr>) }
                 else Some w);
          Some (s_crystal_freq w, w) }"

definition c2_RTC_CNTL_WDT_KEY :: u32 where [regs]: "c2_RTC_CNTL_WDT_KEY = 0x50D83AA1"
definition c2_RTC_CNTL_SWD_KEY :: u32 where [regs]: "c2_RTC_CNTL_SWD_KEY = 0x8F1D312A"

definition c2_clock_disable_watchdogs :: "'a world_scheme \<Rightarrow> 'a world_scheme" where
  "c2_clock_disable_watchdogs w =
     (let w = REG_SET_BIT c2_RTC_CNTL_INT_CLR_REG c2_RTC_CNTL_WDT_INT_CLR w;
          w = WRITE_PERI_REG c2_RTC_CNTL_WDTWPROTECT_REG c2_RTC_CNTL_WDT_KEY w;
          w = WRITE_PERI_REG c2_RTC_CNTL_WDTCONFIG0_REG 0 w;
          w = WRITE_PERI_REG c2_RTC_CNTL_WDTWPROTECT_REG 0 w;
          w = REG_SET_BIT c2_RTC_CNTL_INT_CLR_REG c2_RTC_CNTL_SWD_INT_CLR w;
          w = WRITE_PERI_REG c2_RTC_CNTL_SWD_WPROTECT_REG c2_RTC_CNTL_SWD_KEY w;
          w = SET_PERI_REG_MASK c2_RTC_CNTL_SWD_CONF_REG c2_RTC_CNTL_SWD_AUTO_FEED_EN w
      in WRITE_PERI_REG c2_RTC_CNTL_SWD_WPROTECT_REG 0 w)"

section \<open>Regulators behind the analog I2C bus\<close>

subsection \<open>ESP32-C6\<close>

definition c6_CPU_FREQ_MHZ :: u32 where [regs]: "c6_CPU_FREQ_MHZ = 160"
definition c6_SOC_CPU_CLK_SRC_PLL :: u32 where [regs]: "c6_SOC_CPU_CLK_SRC_PLL = 1"
definition c6_CPU_HS_DIV :: u32 where [regs]: "c6_CPU_HS_DIV = 1"
definition c6_MSPI_FAST_HS_DIV :: u32 where [regs]: "c6_MSPI_FAST_HS_DIV = 6"
definition c6_PMU_HP_ICG_MODEM_CODE_ACTIVE :: u32 where [regs]: "c6_PMU_HP_ICG_MODEM_CODE_ACTIVE = 2"
definition c6_HP_CALI_DBIAS_DEFAULT :: u32 where [regs]: "c6_HP_CALI_DBIAS_DEFAULT = 25"
definition c6_LP_CALI_DBIAS_DEFAULT :: u32 where [regs]: "c6_LP_CALI_DBIAS_DEFAULT = 26"
definition c6_DBIAS_CALI_BLK_VERSION :: u32 where [regs]: "c6_DBIAS_CALI_BLK_VERSION = 3"
definition c6_DBIAS_CALI_MARGIN :: u32 where [regs]: "c6_DBIAS_CALI_MARGIN = 2"
definition c6_DBIAS_MAX :: u32 where [regs]: "c6_DBIAS_MAX = 31"

definition c6_modem_clock_domain_active_state_icg_map_preinit :: "'a world_scheme \<Rightarrow> 'a world_scheme" where
  "c6_modem_clock_domain_active_state_icg_map_preinit w =
     (let w = REG_SET_FIELD c6_PMU_HP_ACTIVE_ICG_MODEM_REG c6_PMU_HP_ACTIVE_DIG_ICG_MODEM_CODE_V c6_PMU_HP_ACTIVE_DIG_ICG_MODEM_CODE_S c6_PMU_HP_ICG_MODEM_CODE_ACTIVE w;
          w = REG_SET_FIELD c6_MODEM_SYSCON_CLK_CONF_POWER_ST_REG c6_MODEM_SYSCON_CLK_MODEM_APB_ST_MAP_V c6_MODEM_SYSCON_CLK_MODEM_APB_ST_MAP_S (BIT (unat c6_PMU_HP_ICG_MODEM_CODE_ACTIVE)) w;
          w = REG_SET_FIELD c6_MODEM_LPCON_CLK_CONF_POWER_ST_REG c6_MODEM_LPCON_CLK_I2C_MST_ST_MAP_V c6_MODEM_LPCON_CLK_I2C_MST_ST_MAP_S (BIT (unat c6_PMU_HP_ICG_MODEM_CODE_ACTIVE)) w;
          w = REG_SET_FIELD c6_MODEM_LPCON_CLK_CONF_POWER_ST_REG c6_MODEM_LPCON_CLK_LP_APB_ST_MAP_V c6_MODEM_LPCON_CLK_LP_APB_ST_MAP_S (BIT (unat c6_PMU_HP_ICG_MODEM_CODE_ACTIVE)) w;
          w = REG_SET_BIT c6_PMU_IMM_MODEM_ICG_REG c6_PMU_UPDATE_DIG_ICG_MODEM_EN w
      in REG_SET_BIT c6_PMU_IMM_SLEEP_SYSCLK_REG c6_PMU_UPDATE_DIG_ICG_SWITCH w)"

definition c6_regi2c_select_dig_reg :: "'a world_scheme \<Rightarrow> u32 \<times> 'a world_scheme" where
  "c6_regi2c_select_dig_reg w =
     (let (sel, w) = REG_GET_BIT c6_I2C_ANA_MST_ANA_CONF2_REG c6_REGI2C_CONF2_DIG_REG_SEL w;
          w = REG_WRITE c6_I2C_ANA_MST_ANA_CONF1_REG (NOT c6_REGI2C_CONF1_DIG_REG_SEL AND c6_I2C_ANA_MST_ANA_CONF1_M) w
      in (if sel \<noteq> 0 then 0 else 1, w))"

definition c6_regi2c_write_mask :: "u32 \<Rightarrow> u32 \<Rightarrow> u32 \<Rightarrow> u32 \<Rightarrow> 'a world_scheme \<Rightarrow> 'a world_scheme option" where
  "c6_regi2c_write_mask reg msb lsb data w =
     do { let (master, w) = c6_regi2c_select_dig_reg w;
          let ctrl = c6_I2C_ANA_MST_I2C_CTRL_REG master;
          let mask = BIT (unat (msb - lsb + 1)) - 1;
          w \<leftarrow> busy_wait ctrl (\<lambda>v. v AND c6_REGI2C_RTC_BUSY \<noteq> 0) w;
          let w = REG_WRITE ctrl
            (push_bit c6_REGI2C_RTC_SLAVE_ID_S (c6_I2C_DIG_REG AND c6_REGI2C_RTC_SLAVE_ID_V) OR
             push_bit c6_REGI2C_RTC_ADDR_S (reg AND c6_REGI2C_RTC_ADDR_V)) w;
          w \<leftarrow> busy_wait ctrl (\<lambda>v. v AND c6_REGI2C_RTC_BUSY \<noteq> 0) w;
          let (temp, w) = REG_GET_FIELD ctrl c6_REGI2C_RTC_DATA_V c6_REGI2C_RTC_DATA_S w;
          let temp = temp AND NOT (push_bit (unat lsb) mask);
          let temp = temp OR push_bit (unat lsb) (data AND mask);
          let w = REG_WRITE ctrl
            (push_bit c6_REGI2C_RTC_SLAVE_ID_S (c6_I2C_DIG_REG AND c6_REGI2C_RTC_SLAVE_ID_V) OR
             push_bit c6_REGI2C_RTC_ADDR_S (reg AND c6_REGI2C_RTC_ADDR_V) OR
             c6_REGI2C_RTC_WR_CNTL OR
             push_bit c6_REGI2C_RTC_DATA_S (temp AND c6_REGI2C_RTC_DATA_V)) w;
          busy_wait ctrl (\<lambda>v. v AND c6_REGI2C_RTC_BUSY \<noteq> 0) w }"

definition c6_get_act_dbias :: "u32 \<Rightarrow> u32 \<Rightarrow> 'a world_scheme \<Rightarrow> u32 \<times> 'a world_scheme" where
  "c6_get_act_dbias efuse_dbias default_dbias w =
     (let (major, w) = REG_GET_FIELD c6_EFUSE_RD_MAC_SPI_SYS_3_REG c6_EFUSE_BLK_VERSION_MAJOR_V c6_EFUSE_BLK_VERSION_MAJOR_S w;
          (minor, w) = REG_GET_FIELD c6_EFUSE_RD_MAC_SPI_SYS_3_REG c6_EFUSE_BLK_VERSION_MINOR_V c6_EFUSE_BLK_VERSION_MINOR_S w
      in (if major * 100 + minor < c6_DBIAS_CALI_BLK_VERSION \<or> efuse_dbias = 0 then default_dbias
          else min (efuse_dbias + c6_DBIAS_CALI_MARGIN) c6_DBIAS_MAX, w))"

definition c6_dbias_init :: "'a world_scheme \<Rightarrow> 'a world_scheme option" where
  "c6_dbias_init w =
     do { let w = REG_SET_BIT c6_MODEM_LPCON_CLK_CONF_REG c6_MODEM_LPCON_CLK_I2C_MST_EN w;
          let w = REG_SET_BIT c6_MODEM_LPCON_I2C_MST_CLK_CONF_REG c6_MODEM_LPCON_CLK_I2C_MST_SEL_160M w;
          w \<leftarrow> c6_regi2c_write_mask c6_I2C_DIG_REG_ENIF_RTC_DREG c6_I2C_DIG_REG_ENIF_RTC_DREG_MSB c6_I2C_DIG_REG_ENIF_RTC_DREG_LSB 1 w;
          w \<leftarrow> c6_regi2c_write_mask c6_I2C_DIG_REG_ENIF_DIG_DREG c6_I2C_DIG_REG_ENIF_DIG_DREG_MSB c6_I2C_DIG_REG_ENIF_DIG_DREG_LSB 1 w;
          let (hp_fuse, w) = REG_GET_FIELD c6_EFUSE_RD_MAC_SPI_SYS_2_REG c6_EFUSE_ACTIVE_HP_DBIAS_V c6_EFUSE_ACTIVE_HP_DBIAS_S w;
          let (hp_cali_dbias, w) = c6_get_act_dbias hp_fuse c6_HP_CALI_DBIAS_DEFAULT w;
          let (lp_fuse, w) = REG_GET_FIELD c6_EFUSE_RD_MAC_SPI_SYS_2_REG c6_EFUSE_ACTIVE_LP_DBIAS_V c6_EFUSE_ACTIVE_LP_DBIAS_S w;
          let (lp_cali_dbias, w) = c6_get_act_dbias lp_fuse c6_LP_CALI_DBIAS_DEFAULT w;
          let w = REG_SET_BIT c6_PMU_HP_ACTIVE_HP_REGULATOR0_REG c6_PMU_DIG_REGULATOR0_DBIAS_SEL w;
          let w = REG_SET_FIELD c6_PMU_HP_ACTIVE_HP_REGULATOR0_REG c6_PMU_HP_ACTIVE_HP_REGULATOR_DBIAS_V c6_PMU_HP_ACTIVE_HP_REGULATOR_DBIAS_S hp_cali_dbias w;
          let w = REG_SET_FIELD c6_PMU_HP_MODEM_HP_REGULATOR0_REG c6_PMU_HP_MODEM_HP_REGULATOR_DBIAS_V c6_PMU_HP_MODEM_HP_REGULATOR_DBIAS_S hp_cali_dbias w;
          Some (REG_SET_FIELD c6_PMU_HP_SLEEP_LP_REGULATOR0_REG c6_PMU_HP_SLEEP_LP_REGULATOR_DBIAS_V c6_PMU_HP_SLEEP_LP_REGULATOR_DBIAS_S lp_cali_dbias w) }"

definition c6_clock_restore_mspi :: "'a world_scheme \<Rightarrow> 'a world_scheme" where
  "c6_clock_restore_mspi w =
     REG_SET_FIELD c6_PCR_MSPI_CLK_CONF_REG c6_PCR_MSPI_FAST_HS_DIV_NUM_V c6_PCR_MSPI_FAST_HS_DIV_NUM_S (c6_MSPI_FAST_HS_DIV - 1) w"

definition c6_clock_init :: "'a clock_world_scheme \<Rightarrow> 'a clock_world_scheme option" where
  "c6_clock_init w =
     do { let w = c6_modem_clock_domain_active_state_icg_map_preinit w;
          w \<leftarrow> c6_dbias_init w;
          let w = w\<lparr>s_cpu_freq := c6_CPU_FREQ_MHZ * MHZ\<rparr>;
          let w = rom_void (SysFn Esp_rom_set_cpu_ticks_per_us) [c6_CPU_FREQ_MHZ] [] w;
          let w = c6_clock_restore_mspi w;
          let w = REG_SET_FIELD c6_PCR_CPU_FREQ_CONF_REG c6_PCR_CPU_HS_DIV_NUM_V c6_PCR_CPU_HS_DIV_NUM_S (c6_CPU_HS_DIV - 1) w;
          let w = REG_CLR_BIT c6_PCR_CPU_FREQ_CONF_REG c6_PCR_CPU_HS_120M_FORCE w;
          Some (REG_SET_FIELD c6_PCR_SYSCLK_CONF_REG c6_PCR_SOC_CLK_SEL_V c6_PCR_SOC_CLK_SEL_S c6_SOC_CPU_CLK_SRC_PLL w) }"

definition c6_get_cpu_freq :: "'a clock_world_scheme \<Rightarrow> u32 \<times> 'a clock_world_scheme" where
  "c6_get_cpu_freq w =
     (if s_cpu_freq w = 0 then rom_num (SysFn Esp_rom_get_cpu_freq) [] [] w
      else (s_cpu_freq w, w))"

definition c6_LP_WDT_WDT_KEY :: u32 where [regs]: "c6_LP_WDT_WDT_KEY = 0x50D83AA1"
definition c6_LP_WDT_SWD_KEY :: u32 where [regs]: "c6_LP_WDT_SWD_KEY = 0x50D83AA1"

definition c6_clock_disable_watchdogs :: "'a world_scheme \<Rightarrow> 'a world_scheme" where
  "c6_clock_disable_watchdogs w =
     (let w = REG_SET_BIT c6_LP_WDT_INT_CLR_REG c6_LP_WDT_LP_WDT_INT_CLR w;
          w = WRITE_PERI_REG c6_LP_WDT_WPROTECT_REG c6_LP_WDT_WDT_KEY w;
          w = WRITE_PERI_REG c6_LP_WDT_CONFIG0_REG 0 w;
          w = WRITE_PERI_REG c6_LP_WDT_WPROTECT_REG 0 w;
          w = REG_SET_BIT c6_LP_WDT_INT_CLR_REG c6_LP_WDT_SUPER_WDT_INT_CLR w;
          w = WRITE_PERI_REG c6_LP_WDT_SWD_WPROTECT_REG c6_LP_WDT_SWD_KEY w;
          w = SET_PERI_REG_MASK c6_LP_WDT_SWD_CONFIG_REG c6_LP_WDT_SWD_AUTO_FEED_EN w
      in WRITE_PERI_REG c6_LP_WDT_SWD_WPROTECT_REG 0 w)"

subsection \<open>ESP32-H4\<close>

definition h4_SOC_CPU_CLK_SRC_PLL :: u32 where [regs]: "h4_SOC_CPU_CLK_SRC_PLL = 3"
definition h4_CPU_FREQ_MHZ :: u32 where [regs]: "h4_CPU_FREQ_MHZ = 96"
definition h4_CPU_DIV :: u32 where [regs]: "h4_CPU_DIV = 1"
definition h4_AHB_DIV :: u32 where [regs]: "h4_AHB_DIV = 3"
definition h4_DCDC_DREG_VALUE :: u32 where [regs]: "h4_DCDC_DREG_VALUE = 24"
definition h4_DCDC_CCM_PCUR_LIMIT :: u32 where [regs]: "h4_DCDC_CCM_PCUR_LIMIT = 4"
definition h4_DCDC_VCM_PCUR_LIMIT :: u32 where [regs]: "h4_DCDC_VCM_PCUR_LIMIT = 2"
definition h4_HP_REGULATOR_DRV_B :: u32 where [regs]: "h4_HP_REGULATOR_DRV_B = 6"
definition h4_DCDC_SETTLE_US :: u32 where [regs]: "h4_DCDC_SETTLE_US = 1000"

definition h4_regi2c_select_dcdc :: "'a world_scheme \<Rightarrow> u32 \<times> 'a world_scheme" where
  "h4_regi2c_select_dcdc w =
     (let (sel, w) = REG_GET_BIT h4_I2C_ANA_MST_ANA_CONF2_REG h4_REGI2C_CONF2_DCDC_SEL w;
          w = REG_WRITE h4_I2C_ANA_MST_ANA_CONF1_REG (NOT h4_REGI2C_CONF1_DCDC_SEL AND h4_I2C_ANA_MST_ANA_CONF1_M) w
      in (if sel \<noteq> 0 then 0 else 1, w))"

definition h4_regi2c_write_mask :: "u32 \<Rightarrow> u32 \<Rightarrow> u32 \<Rightarrow> u32 \<Rightarrow> 'a world_scheme \<Rightarrow> 'a world_scheme option" where
  "h4_regi2c_write_mask reg msb lsb data w =
     do { let (master, w) = h4_regi2c_select_dcdc w;
          let ctrl = h4_I2C_ANA_MST_I2C_CTRL_REG master;
          let mask = push_bit (unat (msb - lsb + 1)) 1 - 1;
          w \<leftarrow> busy_wait ctrl (\<lambda>v. v AND h4_REGI2C_RTC_BUSY \<noteq> 0) w;
          let w = REG_WRITE ctrl
            (push_bit h4_REGI2C_RTC_SLAVE_ID_S (h4_I2C_DCDC AND h4_REGI2C_RTC_SLAVE_ID_V) OR
             push_bit h4_REGI2C_RTC_ADDR_S (reg AND h4_REGI2C_RTC_ADDR_V)) w;
          w \<leftarrow> busy_wait ctrl (\<lambda>v. v AND h4_REGI2C_RTC_BUSY \<noteq> 0) w;
          let (v, w) = REG_READ ctrl w;
          let temp = drop_bit h4_REGI2C_RTC_DATA_S v AND h4_REGI2C_RTC_DATA_V;
          let temp = temp AND NOT (push_bit (unat lsb) mask);
          let temp = temp OR push_bit (unat lsb) (data AND mask);
          let w = REG_WRITE ctrl
            (push_bit h4_REGI2C_RTC_SLAVE_ID_S (h4_I2C_DCDC AND h4_REGI2C_RTC_SLAVE_ID_V) OR
             push_bit h4_REGI2C_RTC_ADDR_S (reg AND h4_REGI2C_RTC_ADDR_V) OR
             h4_REGI2C_RTC_WR_CNTL OR
             push_bit h4_REGI2C_RTC_DATA_S (temp AND h4_REGI2C_RTC_DATA_V)) w;
          busy_wait ctrl (\<lambda>v. v AND h4_REGI2C_RTC_BUSY \<noteq> 0) w }"

definition h4_dcdc_init :: "'a world_scheme \<Rightarrow> 'a world_scheme option" where
  "h4_dcdc_init w =
     do { let w = REG_SET_BIT h4_MODEM_LPCON_CLK_CONF_REG h4_MODEM_LPCON_CLK_I2C_MST_EN w;
          let w = REG_SET_BIT h4_PMU_DCM_CTRL_REG h4_PMU_DCDC_CCM_SW_EN w;
          let w = REG_CLR_BIT h4_PMU_HP_ACTIVE_BIAS_REG h4_PMU_HP_ACTIVE_DCDC_CCM_ENB w;
          w \<leftarrow> h4_regi2c_write_mask h4_I2C_DCDC_CCM_DREG0 h4_I2C_DCDC_CCM_DREG0_MSB h4_I2C_DCDC_CCM_DREG0_LSB h4_DCDC_DREG_VALUE w;
          w \<leftarrow> h4_regi2c_write_mask h4_I2C_DCDC_CCM_PCUR_LIMIT0 h4_I2C_DCDC_CCM_PCUR_LIMIT0_MSB h4_I2C_DCDC_CCM_PCUR_LIMIT0_LSB h4_DCDC_CCM_PCUR_LIMIT w;
          w \<leftarrow> h4_regi2c_write_mask h4_I2C_DCDC_VCM_DREG0 h4_I2C_DCDC_VCM_DREG0_MSB h4_I2C_DCDC_VCM_DREG0_LSB h4_DCDC_DREG_VALUE w;
          w \<leftarrow> h4_regi2c_write_mask h4_I2C_DCDC_VCM_PCUR_LIMIT0 h4_I2C_DCDC_VCM_PCUR_LIMIT0_MSB h4_I2C_DCDC_VCM_PCUR_LIMIT0_LSB h4_DCDC_VCM_PCUR_LIMIT w;
          w \<leftarrow> h4_regi2c_write_mask h4_I2C_DCDC_XPD_TRX h4_I2C_DCDC_XPD_TRX_MSB h4_I2C_DCDC_XPD_TRX_LSB 0 w;
          let w = REG_SET_FIELD h4_PMU_HP_ACTIVE_HP_REGULATOR1_REG h4_PMU_HP_ACTIVE_HP_REGULATOR_DRV_B_V h4_PMU_HP_ACTIVE_HP_REGULATOR_DRV_B_S h4_HP_REGULATOR_DRV_B w;
          Some (stub_lib_delay_us h4_DCDC_SETTLE_US w) }"

definition h4_update_bus_clocks :: "'a world_scheme \<Rightarrow> 'a world_scheme option" where
  "h4_update_bus_clocks w =
     (let w = REG_SET_FIELD h4_PCR_BUS_CLK_UPDATE_REG h4_PCR_BUS_CLOCK_UPDATE_V h4_PCR_BUS_CLOCK_UPDATE_S 1 w
      in busy_wait h4_PCR_BUS_CLK_UPDATE_REG (\<lambda>v. v AND h4_PCR_BUS_CLOCK_UPDATE \<noteq> 0) w)"

definition h4_clock_init :: "'a clock_world_scheme \<Rightarrow> 'a clock_world_scheme option" where
  "h4_clock_init w =
     do { w \<leftarrow> h4_dcdc_init w;
          let w = w\<lparr>s_cpu_freq := h4_CPU_FREQ_MHZ * MHZ\<rparr>;
          let w = rom_void (SysFn Esp_rom_set_cpu_ticks_per_us) [h4_CPU_FREQ_MHZ] [] w;
          let w = REG_SET_FIELD h4_PCR_CPU_FREQ_CONF_REG h4_PCR_CPU_DIV_NUM_V h4_PCR_CPU_DIV_NUM_S (h4_CPU_DIV - 1) w;
          let w = REG_SET_FIELD h4_PCR_AHB_FREQ_CONF_REG h4_PCR_AHB_DIV_NUM_V h4_PCR_AHB_DIV_NUM_S (h4_AHB_DIV - 1) w;
          let w = REG_SET_FIELD h4_PCR_SYSCLK_CONF_REG h4_PCR_SOC_CLK_SEL_V h4_PCR_SOC_CLK_SEL_S h4_SOC_CPU_CLK_SRC_PLL w;
          h4_update_bus_clocks w }"

definition h4_get_cpu_freq :: "'a clock_world_scheme \<Rightarrow> u32 \<times> 'a clock_world_scheme" where
  "h4_get_cpu_freq w =
     (if s_cpu_freq w = 0 then rom_num (SysFn Esp_rom_get_cpu_freq) [] [] w
      else (s_cpu_freq w, w))"

definition h4_LP_WDT_WDT_KEY :: u32 where [regs]: "h4_LP_WDT_WDT_KEY = 0x50D83AA1"
definition h4_LP_WDT_SWD_KEY :: u32 where [regs]: "h4_LP_WDT_SWD_KEY = 0x50D83AA1"

definition h4_clock_disable_watchdogs :: "'a world_scheme \<Rightarrow> 'a world_scheme" where
  "h4_clock_disable_watchdogs w =
     (let w = REG_SET_BIT h4_LP_WDT_INT_CLR_REG h4_LP_WDT_LP_WDT_INT_CLR w;
          w = WRITE_PERI_REG h4_LP_WDT_WPROTECT_REG h4_LP_WDT_WDT_KEY w;
          w = WRITE_PERI_REG h4_LP_WDT_CONFIG0_REG 0 w;
          w = WRITE_PERI_REG h4_LP_WDT_WPROTECT_REG 0 w;
          w = REG_SET_BIT h4_LP_WDT_INT_CLR_REG h4_LP_WDT_SUPER_WDT_INT_CLR w;
          w = WRITE_PERI_REG h4_LP_WDT_SWD_WPROTECT_REG h4_LP_WDT_SWD_KEY w;
          w = SET_PERI_REG_MASK h4_LP_WDT_SWD_CONFIG_REG h4_LP_WDT_SWD_AUTO_FEED_EN w
      in WRITE_PERI_REG h4_LP_WDT_SWD_WPROTECT_REG 0 w)"

subsection \<open>ESP32-H21\<close>

definition h21_SOC_CPU_CLK_SRC_PLL :: u32 where [regs]: "h21_SOC_CPU_CLK_SRC_PLL = 1"
definition h21_CPU_FREQ_MHZ :: u32 where [regs]: "h21_CPU_FREQ_MHZ = 96"
definition h21_CPU_DIV :: u32 where [regs]: "h21_CPU_DIV = 1"
definition h21_AHB_DIV :: u32 where [regs]: "h21_AHB_DIV = 3"
definition h21_DCDC_DREG_VALUE :: u32 where [regs]: "h21_DCDC_DREG_VALUE = 12"
definition h21_DCDC_CCM_PCUR_LIMIT :: u32 where [regs]: "h21_DCDC_CCM_PCUR_LIMIT = 4"
definition h21_DCDC_VCM_PCUR_LIMIT :: u32 where [regs]: "h21_DCDC_VCM_PCUR_LIMIT = 2"
definition h21_HP_REGULATOR_DRV_B :: u32 where [regs]: "h21_HP_REGULATOR_DRV_B = 8"
definition h21_DCDC_SETTLE_US :: u32 where [regs]: "h21_DCDC_SETTLE_US = 1000"

definition h21_regi2c_select_dcdc :: "'a world_scheme \<Rightarrow> u32 \<times> 'a world_scheme" where
  "h21_regi2c_select_dcdc w =
     (let (sel, w) = REG_GET_BIT h21_I2C_ANA_MST_ANA_CONF2_REG h21_REGI2C_CONF2_PMU_SEL w;
          w = REG_WRITE h21_I2C_ANA_MST_ANA_CONF1_REG (NOT h21_REGI2C_CONF1_PMU_SEL AND h21_I2C_ANA_MST_ANA_CONF1_M) w
      in (if sel \<noteq> 0 then 0 else 1, w))"

definition h21_regi2c_write_mask :: "u32 \<Rightarrow> u32 \<Rightarrow> u32 \<Rightarrow> u32 \<Rightarrow> 'a world_scheme \<Rightarrow> 'a world_scheme option" where
  "h21_regi2c_write_mask reg msb lsb data w =
     do { let (master, w) = h21_regi2c_select_dcdc w;
          let ctrl = h21_I2C_ANA_MST_I2C_CTRL_REG master;
          let mask = push_bit (unat (msb - lsb + 1)) 1 - 1;
          w \<leftarrow> busy_wait ctrl (\<lambda>v. v AND h21_REGI2C_RTC_BUSY \<noteq> 0) w;
          let w = REG_WRITE ctrl
            (push_bit h21_REGI2C_RTC_SLAVE_ID_S (h21_I2C_DCDC AND h21_REGI2C_RTC_SLAVE_ID_V) OR
             push_bit h21_REGI2C_RTC_ADDR_S (reg AND h21_REGI2C_RTC_ADDR_V)) w;
          w \<leftarrow> busy_wait ctrl (\<lambda>v. v AND h21_REGI2C_RTC_BUSY \<noteq> 0) w;
          let (v, w) = REG_READ ctrl w;
          let temp = drop_bit h21_REGI2C_RTC_DATA_S v AND h21_REGI2C_RTC_DATA_V;
          let temp = temp AND NOT (push_bit (unat lsb) mask);
          let temp = temp OR push_bit (unat lsb) (data AND mask);
          let w = REG_WRITE ctrl
            (push_bit h21_REGI2C_RTC_SLAVE_ID_S (h21_I2C_DCDC AND h21_REGI2C_RTC_SLAVE_ID_V) OR
             push_bit h21_REGI2C_RTC_ADDR_S (reg AND h21_REGI2C_RTC_ADDR_V) OR
             push_bit h21_REGI2C_RTC_WR_CNTL_S (1 AND h21_REGI2C_RTC_WR_CNTL_V) OR
             push_bit h21_REGI2C_RTC_DATA_S (temp AND h21_REGI2C_RTC_DATA_V)) w;
          busy_wait ctrl (\<lambda>v. v AND h21_REGI2C_RTC_BUSY \<noteq> 0) w }"

definition h21_dcdc_init :: "'a world_scheme \<Rightarrow> 'a world_scheme option" where
  "h21_dcdc_init w =
     do { let w = REG_SET_BIT h21_MODEM_LPCON_CLK_CONF_REG h21_MODEM_LPCON_CLK_I2C_MST_EN w;
          let w = REG_SET_BIT h21_PMU_DCM_CTRL_REG h21_PMU_DCDC_CCM_SW_EN w;
          let w = REG_CLR_BIT h21_PMU_HP_ACTIVE_BIAS_REG h21_PMU_HP_ACTIVE_DCDC_CCM_ENB w;
          w \<leftarrow> h21_regi2c_write_mask h21_I2C_DCDC_CCM_DREG0 h21_I2C_DCDC_CCM_DREG0_MSB h21_I2C_DCDC_CCM_DREG0_LSB h21_DCDC_DREG_VALUE w;
          w \<leftarrow> h21_regi2c_write_mask h21_I2C_DCDC_CCM_PCUR_LIMIT0 h21_I2C_DCDC_CCM_PCUR_LIMIT0_MSB h21_I2C_DCDC_CCM_PCUR_LIMIT0_LSB h21_DCDC_CCM_PCUR_LIMIT w;
          w \<leftarrow> h21_regi2c_write_mask h21_I2C_DCDC_VCM_DREG0 h21_I2C_DCDC_VCM_DREG0_MSB h21_I2C_DCDC_VCM_DREG0_LSB h21_DCDC_DREG_VALUE w;
          w \<leftarrow> h21_regi2c_write_mask h21_I2C_DCDC_VCM_PCUR_LIMIT0 h21_I2C_DCDC_VCM_PCUR_LIMIT0_MSB h21_I2C_DCDC_VCM_PCUR_LIMIT0_LSB h21_DCDC_VCM_PCUR_LIMIT w;
          w \<leftarrow> h21_regi2c_write_mask h21_I2C_DCDC_XPD_TRX h21_I2C_DCDC_XPD_TRX_MSB h21_I2C_DCDC_XPD_TRX_LSB 0 w;
          let w = REG_SET_FIELD h21_PMU_HP_ACTIVE_HP_REGULATOR1_REG h21_PMU_HP_ACTIVE_HP_REGULATOR_DRV_B_V h21_PMU_HP_ACTIVE_HP_REGULATOR_DRV_B_S h21_HP_REGULATOR_DRV_B w;
          Some (stub_lib_delay_us h21_DCDC_SETTLE_US w) }"

definition h21_update_bus_clocks :: "'a world_scheme \<Rightarrow> 'a world_scheme option" where
  "h21_update_bus_clocks w =
     (let w = REG_SET_FIELD h21_PCR_BUS_CLK_UPDATE_REG h21_PCR_BUS_CLOCK_UPDATE_V h21_PCR_BUS_CLOCK_UPDATE_S 1 w
      in busy_wait h21_PCR_BUS_CLK_UPDATE_REG (\<lambda>v. v AND h21_PCR_BUS_CLOCK_UPDATE \<noteq> 0) w)"

definition h21_clock_init :: "'a clock_world_scheme \<Rightarrow> 'a clock_world_scheme option" where
  "h21_clock_init w =
     do { let w = w\<lparr>s_cpu_freq := h21_CPU_FREQ_MHZ * MHZ\<rparr>;
          let w = rom_void (SysFn Esp_rom_set_cpu_ticks_per_us) [h21_CPU_FREQ_MHZ] [] w;
          w \<leftarrow> h21_dcdc_init w;
          let w = REG_SET_FIELD h21_PCR_CPU_FREQ_CONF_REG h21_PCR_CPU_DIV_NUM_V h21_PCR_CPU_DIV_NUM_S (h21_CPU_DIV - 1) w;
          let w = REG_SET_FIELD h21_PCR_AHB_FREQ_CONF_REG h21_PCR_AHB_DIV_NUM_V h21_PCR_AHB_DIV_NUM_S (h21_AHB_DIV - 1) w;
          let w = REG_SET_FIELD h21_PCR_SYSCLK_CONF_REG h21_PCR_SOC_CLK_SEL_V h21_PCR_SOC_CLK_SEL_S h21_SOC_CPU_CLK_SRC_PLL w;
          h21_update_bus_clocks w }"

definition h21_get_cpu_freq :: "'a clock_world_scheme \<Rightarrow> u32 \<times> 'a clock_world_scheme" where
  "h21_get_cpu_freq w =
     (if s_cpu_freq w = 0 then rom_num (SysFn Esp_rom_get_cpu_freq) [] [] w
      else (s_cpu_freq w, w))"

definition h21_LP_WDT_WDT_KEY :: u32 where [regs]: "h21_LP_WDT_WDT_KEY = 0x50D83AA1"
definition h21_LP_WDT_SWD_KEY :: u32 where [regs]: "h21_LP_WDT_SWD_KEY = 0x50D83AA1"

definition h21_clock_disable_watchdogs :: "'a world_scheme \<Rightarrow> 'a world_scheme" where
  "h21_clock_disable_watchdogs w =
     (let w = REG_SET_BIT h21_LP_WDT_INT_CLR_REG h21_LP_WDT_LP_WDT_INT_CLR w;
          w = WRITE_PERI_REG h21_LP_WDT_WPROTECT_REG h21_LP_WDT_WDT_KEY w;
          w = WRITE_PERI_REG h21_LP_WDT_CONFIG0_REG 0 w;
          w = WRITE_PERI_REG h21_LP_WDT_WPROTECT_REG 0 w;
          w = REG_SET_BIT h21_LP_WDT_INT_CLR_REG h21_LP_WDT_SUPER_WDT_INT_CLR w;
          w = WRITE_PERI_REG h21_LP_WDT_SWD_WPROTECT_REG h21_LP_WDT_SWD_KEY w;
          w = SET_PERI_REG_MASK h21_LP_WDT_SWD_CONFIG_REG h21_LP_WDT_SWD_AUTO_FEED_EN w
      in WRITE_PERI_REG h21_LP_WDT_SWD_WPROTECT_REG 0 w)"

section \<open>The converter of the ESP32-P4\<close>

definition p4_HP_CALI_ACTIVE_DCM_VSET_DEFAULT :: u32 where [regs]: "p4_HP_CALI_ACTIVE_DCM_VSET_DEFAULT = 27"
definition p4_HP_CALI_ACTIVE_DBIAS_DEFAULT :: u32 where [regs]: "p4_HP_CALI_ACTIVE_DBIAS_DEFAULT = 24"
definition p4_LP_CALI_ACTIVE_DBIAS_DEFAULT :: u32 where [regs]: "p4_LP_CALI_ACTIVE_DBIAS_DEFAULT = 29"
definition p4_DCDC_SETTLE_US :: u32 where [regs]: "p4_DCDC_SETTLE_US = 1000"
definition p4_CPU_FREQ_MHZ :: u32 where [regs]: "p4_CPU_FREQ_MHZ = 200"

definition p4_get_chip_revision :: "'a world_scheme \<Rightarrow> u32 \<times> 'a world_scheme" where
  "p4_get_chip_revision w =
     (let (reg, w) = REG_READ p4_EFUSE_RD_MAC_SYS_2_REG w;
          major_lo = drop_bit p4_EFUSE_WAFER_VERSION_MAJOR_LO_S reg AND p4_EFUSE_WAFER_VERSION_MAJOR_LO_V;
          major_hi = drop_bit p4_EFUSE_WAFER_VERSION_MAJOR_HI_S reg AND 1;
          major = push_bit 2 major_hi OR major_lo;
          minor = drop_bit p4_EFUSE_WAFER_VERSION_MINOR_S reg AND p4_EFUSE_WAFER_VERSION_MINOR_V
      in (major * 100 + minor, w))"

definition p4_get_blk_version :: "'a world_scheme \<Rightarrow> u32 \<times> 'a world_scheme" where
  "p4_get_blk_version w =
     (let (reg, w) = REG_READ p4_EFUSE_RD_MAC_SYS_2_REG w;
          major = drop_bit p4_EFUSE_BLK_VERSION_MAJOR_S reg AND p4_EFUSE_BLK_VERSION_MAJOR_V;
          minor = drop_bit p4_EFUSE_BLK_VERSION_MINOR_S reg AND p4_EFUSE_BLK_VERSION_MINOR_V
      in (major * 100 + minor, w))"

definition p4_get_act_hp_dbias :: "'a world_scheme \<Rightarrow> u32 \<times> 'a world_scheme" where
  "p4_get_act_hp_dbias w =
     (let hp_cali_dbias = p4_HP_CALI_ACTIVE_DBIAS_DEFAULT;
          (blk_version, w) = p4_get_blk_version w;
          (hp_cali_dbias_efuse, w) =
            (if blk_version \<ge> 2 \<and> blk_version \<noteq> 100
             then (let (reg, w) = REG_READ p4_EFUSE_RD_MAC_SYS_4_REG w
                   in (drop_bit p4_EFUSE_ACTIVE_HP_DBIAS_S reg AND p4_EFUSE_ACTIVE_HP_DBIAS_V, w))
             else (0, w))
      in if hp_cali_dbias_efuse > 0
         then (let hp_cali_dbias = hp_cali_dbias_efuse + 16
               in (if hp_cali_dbias > 31 then 31 else hp_cali_dbias, w))
         else (hp_cali_dbias, w))"

definition p4_get_act_lp_dbias :: "'a world_scheme \<Rightarrow> u32 \<times> 'a world_scheme" where
  "p4_get_act_lp_dbias w =
     (let lp_cali_dbias = p4_LP_CALI_ACTIVE_DBIAS_DEFAULT;
          (blk_version, w) = p4_get_blk_version w;
          (lp_cali_dbias_efuse, w) =
            (if blk_version \<ge> 2 \<and> blk_version \<noteq> 100
             then (let (reg, w) = REG_READ p4_EFUSE_RD_MAC_SYS_4_REG w
                   in (drop_bit p4_EFUSE_ACTIVE_LP_DBIAS_S reg AND p4_EFUSE_ACTIVE_LP_DBIAS_V, w))
             else (0, w))
      in if lp_cali_dbias_efuse > 0
         then (let lp_cali_dbias = lp_cali_dbias_efuse + 16 + 4
               in (if lp_cali_dbias > 31 then 31 else lp_cali_dbias, w))
         else (lp_cali_dbias, w))"

definition p4_bus_update :: "'a world_scheme \<Rightarrow> 'a world_scheme option" where
  "p4_bus_update w =
     (let w = SET_PERI_REG_MASK p4_HP_SYS_CLKRST_ROOT_CLK_CTRL0_REG p4_HP_SYS_CLKRST_REG_SOC_CLK_DIV_UPDATE w
      in busy_wait p4_HP_SYS_CLKRST_ROOT_CLK_CTRL0_REG (\<lambda>v. v AND p4_HP_SYS_CLKRST_REG_SOC_CLK_DIV_UPDATE \<noteq> 0) w)"

definition p4_switch_to_dcdc :: "'a world_scheme \<Rightarrow> 'a world_scheme" where
  "p4_switch_to_dcdc w =
     (let (chip_version, w) = p4_get_chip_revision w;
          (hp_dbias, w) = p4_get_act_hp_dbias w;
          (lp_dbias, w) = p4_get_act_lp_dbias w;
          hp_dcmvset = p4_HP_CALI_ACTIVE_DCM_VSET_DEFAULT;
          w = SET_PERI_REG_MASK p4_PMU_HP_ACTIVE_HP_REGULATOR0_REG p4_PMU_HP_ACTIVE_HP_REGULATOR_XPD w;
          w = REG_SET_FIELD p4_PMU_HP_ACTIVE_HP_REGULATOR0_REG p4_PMU_HP_ACTIVE_HP_REGULATOR_DBIAS_V p4_PMU_HP_ACTIVE_HP_REGULATOR_DBIAS_S hp_dbias w;
          w = REG_SET_FIELD p4_PMU_LP_ACTIVE_LP_REGULATOR0_REG p4_PMU_LP_ACTIVE_LP_REGULATOR_DBIAS_V p4_PMU_LP_ACTIVE_LP_REGULATOR_DBIAS_S lp_dbias w;
          w = (if chip_version \<ge> 301 then SET_PERI_REG_MASK p4_PMU_DCM_CTRL_REG p4_PMU_DCDC_FB_RES_FORCE_PD w else w);
          w = CLEAR_PERI_REG_MASK p4_PMU_DCM_CTRL_REG p4_PMU_DCDC_DONE_FORCE w;
          w = SET_PERI_REG_MASK p4_PMU_DCM_CTRL_REG p4_PMU_DCDC_ON_REQ w;
          w = CLEAR_PERI_REG_MASK p4_PMU_POWER_DCDC_SWITCH_REG p4_PMU_FORCE_DCDC_SWITCH_PU w;
          w = CLEAR_PERI_REG_MASK p4_PMU_POWER_DCDC_SWITCH_REG p4_PMU_FORCE_DCDC_SWITCH_PD w;
          w = REG_SET_FIELD p4_PMU_HP_ACTIVE_BIAS_REG p4_PMU_HP_ACTIVE_DCM_VSET_V p4_PMU_HP_ACTIVE_DCM_VSET_S hp_dcmvset w;
          w = SET_PERI_REG_MASK p4_PMU_HP_ACTIVE_HP_REGULATOR0_REG p4_PMU_DIG_REGULATOR0_DBIAS_SEL w;
          w = stub_lib_delay_us p4_DCDC_SETTLE_US w;
          w = (if chip_version \<ge> 301 then
                 (let w = REG_SET_FIELD p4_LP_SYSTEM_REG_SYS_CTRL_REG p4_LP_SYSTEM_REG_LP_FIB_SEL_V p4_LP_SYSTEM_REG_LP_FIB_SEL_S 0xEF w;
                      w = CLEAR_PERI_REG_MASK p4_PMU_DCM_CTRL_REG p4_PMU_DCDC_FB_RES_FORCE_PD w
                  in stub_lib_delay_us 10 w)
               else w)
      in CLEAR_PERI_REG_MASK p4_PMU_HP_ACTIVE_HP_REGULATOR0_REG p4_PMU_HP_ACTIVE_HP_REGULATOR_XPD w)"

definition p4_apply_cpu_cpll_div2 :: "'a world_scheme \<Rightarrow> 'a world_scheme option" where
  "p4_apply_cpu_cpll_div2 w =
     do { let w = REG_SET_FIELD p4_HP_SYS_CLKRST_ROOT_CLK_CTRL2_REG p4_HP_SYS_CLKRST_REG_APB_CLK_DIV_NUM_V p4_HP_SYS_CLKRST_REG_APB_CLK_DIV_NUM_S 1 w;
          w \<leftarrow> p4_bus_update w;
          let w = REG_SET_FIELD p4_HP_SYS_CLKRST_ROOT_CLK_CTRL1_REG p4_HP_SYS_CLKRST_REG_SYS_CLK_DIV_NUM_V p4_HP_SYS_CLKRST_REG_SYS_CLK_DIV_NUM_S 0 w;
          w \<leftarrow> p4_bus_update w;
          let w = REG_SET_FIELD p4_HP_SYS_CLKRST_ROOT_CLK_CTRL1_REG p4_HP_SYS_CLKRST_REG_MEM_CLK_DIV_NUM_V p4_HP_SYS_CLKRST_REG_MEM_CLK_DIV_NUM_S 0 w;
          w \<leftarrow> p4_bus_update w;
          let (ctrl0, w) = READ_PERI_REG p4_HP_SYS_CLKRST_ROOT_CLK_CTRL0_REG w;
          let ctrl0 = ctrl0 AND NOT (p4_HP_SYS_CLKRST_REG_CPU_CLK_DIV_NUM_M OR p4_HP_SYS_CLKRST_REG_CPU_CLK_DIV_NUMERATOR_M OR
               p4_HP_SYS_CLKRST_REG_CPU_CLK_DIV_DENOMINATOR_M);
          let ctrl0 = ctrl0 OR push_bit p4_HP_SYS_CLKRST_REG_CPU_CLK_DIV_NUM_S 1;
          let w = WRITE_PERI_REG p4_HP_SYS_CLKRST_ROOT_CLK_CTRL0_REG ctrl0 w;
          w \<leftarrow> p4_bus_update w;
          Some (REG_SET_FIELD p4_LP_CLKRST_HP_CLK_CTRL_REG p4_LP_CLKRST_HP_ROOT_CLK_SRC_SEL_V p4_LP_CLKRST_HP_ROOT_CLK_SRC_SEL_S 1 w) }"

definition p4_clock_init :: "'a clock_world_scheme \<Rightarrow> 'a clock_world_scheme option" where
  "p4_clock_init w =
     (let w = p4_switch_to_dcdc w;
          w = w\<lparr>s_cpu_freq := p4_CPU_FREQ_MHZ * MHZ\<rparr>;
          w = rom_void (SysFn Esp_rom_set_cpu_ticks_per_us) [p4_CPU_FREQ_MHZ] [] w
      in p4_apply_cpu_cpll_div2 w)"

definition p4_get_cpu_freq :: "'a clock_world_scheme \<Rightarrow> u32 \<times> 'a clock_world_scheme" where
  "p4_get_cpu_freq w =
     (if s_cpu_freq w = 0 then rom_num (SysFn Esp_rom_get_cpu_freq) [] [] w
      else (s_cpu_freq w, w))"

definition p4_LP_WDT_WDT_KEY :: u32 where [regs]: "p4_LP_WDT_WDT_KEY = 0x50D83AA1"
definition p4_LP_WDT_SWD_KEY :: u32 where [regs]: "p4_LP_WDT_SWD_KEY = 0x50D83AA1"

definition p4_clock_disable_watchdogs :: "'a world_scheme \<Rightarrow> 'a world_scheme" where
  "p4_clock_disable_watchdogs w =
     (let w = REG_SET_BIT p4_LP_WDT_INT_CLR_REG p4_LP_WDT_LP_WDT_INT_CLR w;
          w = WRITE_PERI_REG p4_LP_WDT_WPROTECT_REG p4_LP_WDT_WDT_KEY w;
          w = WRITE_PERI_REG p4_LP_WDT_CONFIG0_REG 0 w;
          w = WRITE_PERI_REG p4_LP_WDT_WPROTECT_REG 0 w;
          w = REG_SET_BIT p4_LP_WDT_INT_CLR_REG p4_LP_WDT_SUPER_WDT_INT_CLR w;
          w = WRITE_PERI_REG p4_LP_WDT_SWD_WPROTECT_REG p4_LP_WDT_SWD_KEY w;
          w = SET_PERI_REG_MASK p4_LP_WDT_SWD_CONFIG_REG p4_LP_WDT_SWD_AUTO_FEED_EN w
      in WRITE_PERI_REG p4_LP_WDT_SWD_WPROTECT_REG 0 w)"

end
