(* ===== verification/Chip_Flash.thy ===== *)
theory Chip_Flash
  imports S3_Flash Chip_Cache Chip_Aes_Xts Chip_Clock
begin

text \<open>
  The flash targets of the other chips, \<open>src/target/CHIP/src/flash.c\<close>, each function translated
  with the chip's name in front, and their links. Most chips add to the generic functions only
  how to wait for the controller and whether the flash needs to be attached; the chips with
  four byte addresses add the ROM function for their commands, chosen by the revision of the
  chip on three of them. The ESP32 and ESP32-S2 save registers like the ESP32-S3 does, and the
  ESP32-P4 switches the cache to four byte addresses itself.
\<close>

section \<open>Waiting for the controller\<close>

text \<open>A bare wait on two flags, \<open>while (P(REG_READ(r)) || Q(REG_READ(r))) {}\<close>.\<close>

partial_function (option) busy_wait_either ::
  "u32 \<Rightarrow> (u32 \<Rightarrow> bool) \<Rightarrow> (u32 \<Rightarrow> bool) \<Rightarrow> 'a world_scheme \<Rightarrow> 'a world_scheme option" where
  "busy_wait_either r C D w =
     (let (v, w) = REG_READ r w
      in if C v then busy_wait_either r C D w
         else (let (v, w) = REG_READ r w in if D v then busy_wait_either r C D w else Some w))"

declare busy_wait_either.simps [code]

lemma busy_wait_either_result:
  assumes "busy_wait_either r P Q w = Some w'"
  shows "emits (\<lambda>e. \<exists>v. e = Rd (Mmio r) v) w w'"
proof (rule busy_wait_either.raw_induct
    [where P = "\<lambda>r C D w w'. emits (\<lambda>e. \<exists>v. e = Rd (Mmio r) v) w w'", OF _ assms])
  fix f :: "u32 \<Rightarrow> (u32 \<Rightarrow> bool) \<Rightarrow> (u32 \<Rightarrow> bool) \<Rightarrow> 'a world_scheme \<Rightarrow> 'a world_scheme option"
  fix r P Q and w w' :: "'a world_scheme"
  assume IH: "\<And>r P Q w w'. f r P Q w = Some w' \<Longrightarrow> emits (\<lambda>e. \<exists>v. e = Rd (Mmio r) v) w w'"
    and eq: "(let (v, w) = REG_READ r w in if P v then f r P Q w
       else (let (v, w) = REG_READ r w in if Q v then f r P Q w else Some w)) = Some w'"
  let ?w = "after w [Rd (Mmio r) (peek (Mmio r) w)]"
  let ?u = "after ?w [Rd (Mmio r) (peek (Mmio r) ?w)]"
  have first: "emits (\<lambda>e. \<exists>v. e = Rd (Mmio r) v) w ?w" by (rule emits_after) simp
  have second: "emits (\<lambda>e. \<exists>v. e = Rd (Mmio r) v) ?w ?u" by (rule emits_after) simp
  consider "f r P Q ?w = Some w'" | "f r P Q ?u = Some w'" | "w' = ?u"
  proof (cases "P (peek (Mmio r) w)")
    case True
    then show ?thesis using that(1) eq by (simp add: REG_READ_eq)
  next
    case False
    then show ?thesis using that(2,3) eq
      by (cases "Q (peek (Mmio r) ?w)") (simp_all add: REG_READ_eq)
  qed
  then show "emits (\<lambda>e. \<exists>v. e = Rd (Mmio r) v) w w'"
  proof cases
    case 1
    show ?thesis by (rule emits_trans [OF first IH [OF 1]])
  next
    case 2
    show ?thesis by (rule emits_trans [OF emits_trans [OF first second] IH [OF 2]])
  next
    case 3
    show ?thesis unfolding 3 by (rule emits_trans [OF first second])
  qed
qed

text \<open>The test of one field of a register.\<close>

definition field_set :: "u32 \<Rightarrow> nat \<Rightarrow> u32 \<Rightarrow> bool" where
  "field_set fV fS v \<longleftrightarrow> drop_bit fS v AND fV \<noteq> 0"

definition esp8266_spi_wait_ready :: "'a world_scheme \<Rightarrow> 'a world_scheme option" where
  "esp8266_spi_wait_ready w =
     busy_wait esp8266_SPI_EXT2_REG (field_set esp8266_SPI_ST_V esp8266_SPI_ST_S) w"

definition esp32_spi_wait_ready :: "'a world_scheme \<Rightarrow> 'a world_scheme option" where
  "esp32_spi_wait_ready w =
     busy_wait (esp32_SPI_EXT2_REG FLASH_SPI_NUM) (field_set esp32_SPI_ST_V esp32_SPI_ST_S) w"

definition s2_spi_wait_ready :: "'a world_scheme \<Rightarrow> 'a world_scheme option" where
  "s2_spi_wait_ready w =
     do { w \<leftarrow> busy_wait (s2_SPI_MEM_FSM_REG FLASH_SPI_NUM) (\<lambda>v. v AND s2_SPI_MEM_ST \<noteq> 0) w;
          busy_wait (s2_SPI_MEM_FSM_REG FLASH_SPI_NUM_INT) (\<lambda>v. v AND s2_SPI_MEM_ST \<noteq> 0) w }"

definition c2_spi_wait_ready :: "'a world_scheme \<Rightarrow> 'a world_scheme option" where
  "c2_spi_wait_ready w =
     busy_wait (c2_SPI_MEM_CMD_REG FLASH_SPI_NUM) (field_set c2_SPI_MEM_MST_ST_V c2_SPI_MEM_MST_ST_S) w"

definition c5_spi_wait_ready :: "'a world_scheme \<Rightarrow> 'a world_scheme option" where
  "c5_spi_wait_ready w =
     busy_wait (c5_SPI_MEM_CMD_REG FLASH_SPI_NUM) (field_set c5_SPI_MEM_MST_ST_V c5_SPI_MEM_MST_ST_S) w"

definition c3_SPI_INTERNAL :: u32 where [regs]: "c3_SPI_INTERNAL = 0"

definition c3_spi_wait_ready :: "'a world_scheme \<Rightarrow> 'a world_scheme option" where
  "c3_spi_wait_ready w =
     do { w \<leftarrow> busy_wait (c3_SPI_MEM_FSM_REG c3_SPI_INTERNAL) (field_set c3_SPI_MEM_EM_ST_V c3_SPI_MEM_EM_ST_S) w;
          busy_wait (c3_SPI_MEM_CMD_REG FLASH_SPI_NUM) (field_set c3_SPI_MEM_MST_ST_V c3_SPI_MEM_MST_ST_S) w }"

definition c6_spi_wait_ready :: "'a world_scheme \<Rightarrow> 'a world_scheme option" where
  "c6_spi_wait_ready w =
     busy_wait_either (c6_SPI_MEM_CMD_REG FLASH_SPI_NUM) (field_set c6_SPI_MEM_MST_ST_V c6_SPI_MEM_MST_ST_S) (field_set c6_SPI_MEM_SLV_ST_V c6_SPI_MEM_SLV_ST_S) w"

definition c61_spi_wait_ready :: "'a world_scheme \<Rightarrow> 'a world_scheme option" where
  "c61_spi_wait_ready w =
     busy_wait_either (c61_SPI_MEM_CMD_REG FLASH_SPI_NUM) (field_set c61_SPI_MEM_MST_ST_V c61_SPI_MEM_MST_ST_S) (field_set c61_SPI_MEM_SLV_ST_V c61_SPI_MEM_SLV_ST_S) w"

definition h2_spi_wait_ready :: "'a world_scheme \<Rightarrow> 'a world_scheme option" where
  "h2_spi_wait_ready w =
     busy_wait_either (h2_SPI_MEM_CMD_REG FLASH_SPI_NUM) (field_set h2_SPI_MEM_MST_ST_V h2_SPI_MEM_MST_ST_S) (field_set h2_SPI_MEM_SLV_ST_V h2_SPI_MEM_SLV_ST_S) w"

definition h21_spi_wait_ready :: "'a world_scheme \<Rightarrow> 'a world_scheme option" where
  "h21_spi_wait_ready w =
     busy_wait_either (h21_SPI_MEM_CMD_REG FLASH_SPI_NUM) (field_set h21_SPI_MEM_MST_ST_V h21_SPI_MEM_MST_ST_S) (field_set h21_SPI_MEM_SLV_ST_V h21_SPI_MEM_SLV_ST_S) w"

definition h4_spi_wait_ready :: "'a world_scheme \<Rightarrow> 'a world_scheme option" where
  "h4_spi_wait_ready w =
     busy_wait_either (h4_SPI_MEM_CMD_REG FLASH_SPI_NUM) (field_set h4_SPI_MEM_MST_ST_V h4_SPI_MEM_MST_ST_S) (field_set h4_SPI_MEM_SLV_ST_V h4_SPI_MEM_SLV_ST_S) w"

definition s31_spi_wait_ready :: "'a world_scheme \<Rightarrow> 'a world_scheme option" where
  "s31_spi_wait_ready w =
     busy_wait_either (s31_SPI_MEM_CMD_REG FLASH_SPI_NUM) (field_set s31_SPI_MEM_MST_ST_V s31_SPI_MEM_MST_ST_S) (field_set s31_SPI_MEM_SLV_ST_V s31_SPI_MEM_SLV_ST_S) w"

definition p4_spi_wait_ready :: "'a world_scheme \<Rightarrow> 'a world_scheme option" where
  "p4_spi_wait_ready w =
     busy_wait_either p4_SPI1_MEM_C_CMD_REG (field_set p4_SPI1_MEM_C_MST_ST_V p4_SPI1_MEM_C_MST_ST_S) (field_set p4_SPI1_MEM_C_SLV_ST_V p4_SPI1_MEM_C_SLV_ST_S) w"

section \<open>Sizes, pins and identification\<close>

definition c5_get_max_supported_flash_size :: "u32" where
  "c5_get_max_supported_flash_size = ucast (MIB 32)"

definition c61_get_max_supported_flash_size :: "u32" where
  "c61_get_max_supported_flash_size = ucast (MIB 32)"

definition h4_get_max_supported_flash_size :: "u32" where
  "h4_get_max_supported_flash_size = ucast (MIB 32)"

definition p4_get_max_supported_flash_size :: "u32" where
  "p4_get_max_supported_flash_size = ucast (MIB 64)"

definition s31_get_max_supported_flash_size :: "u32" where
  "s31_get_max_supported_flash_size = ucast (MIB 64)"

definition esp32_flash_get_spiconfig_efuse :: "'a world_scheme \<Rightarrow> u32 \<times> 'a world_scheme" where
  "esp32_flash_get_spiconfig_efuse w =
     rom_num (FlashFn Esp_rom_efuse_get_flash_gpio_info) [] [] w"

definition s2_flash_get_spiconfig_efuse :: "'a world_scheme \<Rightarrow> u32 \<times> 'a world_scheme" where
  "s2_flash_get_spiconfig_efuse w =
     rom_num (FlashFn Esp_rom_efuse_get_flash_gpio_info) [] [] w"

definition c3_flash_get_spiconfig_efuse :: "'a world_scheme \<Rightarrow> u32 \<times> 'a world_scheme" where
  "c3_flash_get_spiconfig_efuse w =
     rom_num (FlashFn Esp_rom_efuse_get_flash_gpio_info) [] [] w"

definition esp8266_reset_default_spi_pins :: "'a world_scheme \<Rightarrow> 'a world_scheme option" where
  "esp8266_reset_default_spi_pins w = Some w"

definition p4_reset_default_spi_pins :: "'a world_scheme \<Rightarrow> 'a world_scheme option" where
  "p4_reset_default_spi_pins w = Some w"

text \<open>The ESP32 and ESP32-S2 hand out the ROM's \<open>g_rom_flashchip\<close>, the ESP8266 its own.\<close>

definition esp32_flash_get_config :: "chip_ptr" where
  "esp32_flash_get_config =
     \<lparr>c_flash_id = Chip_flash_id, c_chip_size = Chip_size, c_block_size = Chip_block_size,
      c_sector_size = Chip_sector_size, c_page_size = Chip_page_size, c_status_mask = Chip_status_mask\<rparr>"

definition s2_flash_get_config :: "chip_ptr" where
  "s2_flash_get_config =
     \<lparr>c_flash_id = Chip_flash_id, c_chip_size = Chip_size, c_block_size = Chip_block_size,
      c_sector_size = Chip_sector_size, c_page_size = Chip_page_size, c_status_mask = Chip_status_mask\<rparr>"

definition esp8266_flash_get_config :: "chip_ptr" where
  "esp8266_flash_get_config =
     \<lparr>c_flash_id = Custom_flash_id, c_chip_size = Custom_chip_size, c_block_size = Custom_block_size,
      c_sector_size = Custom_sector_size, c_page_size = Custom_page_size, c_status_mask = Custom_status_mask\<rparr>"

text \<open>What the loader puts into the ESP8266's structure.\<close>

definition g_rom_flashchip_custom :: "(rom_var \<times> u32) list" where
  "g_rom_flashchip_custom =
     [(Custom_flash_id, 0), (Custom_chip_size, 0), (Custom_block_size, STUB_FLASH_BLOCK_SIZE),
      (Custom_sector_size, STUB_FLASH_SECTOR_SIZE), (Custom_page_size, STUB_FLASH_PAGE_SIZE),
      (Custom_status_mask, STUB_FLASH_STATUS_MASK)]"

definition esp8266_flash_update_config :: "u32 \<Rightarrow> u32 \<Rightarrow> u32 \<Rightarrow> u32 \<Rightarrow> u32 \<Rightarrow> u32 \<Rightarrow> 'a world_scheme \<Rightarrow> (rc \<times> 'a world_scheme) option" where
  "esp8266_flash_update_config flash_id flash_size block_size sector_size page_size status_mask w =
     (let w = cell_write (RomVar Custom_flash_id) flash_id w;
          w = cell_write (RomVar Custom_chip_size) flash_size w;
          w = cell_write (RomVar Custom_block_size) block_size w;
          w = cell_write (RomVar Custom_sector_size) sector_size w;
          w = cell_write (RomVar Custom_page_size) page_size w;
          w = cell_write (RomVar Custom_status_mask) status_mask w
      in Some (STUB_LIB_OK, w))"

definition esp8266_flash_get_flash_id :: "'a world_scheme \<Rightarrow> (u32 \<times> 'a world_scheme) option" where
  "esp8266_flash_get_flash_id w =
     do { let w = REG_WRITE esp8266_SPI_W0 0 w;
          let w = REG_WRITE esp8266_SPI_CMD esp8266_SPI_FLASH_RDID w;
          w \<leftarrow> busy_wait esp8266_SPI_CMD (\<lambda>v. v \<noteq> 0) w;
          let (v, w) = REG_READ esp8266_SPI_W0 w;
          Some (drop_bit 16 (v AND 0xffffff), w) }"

definition esp32_flash_get_flash_id :: "'a world_scheme \<Rightarrow> (u32 \<times> 'a world_scheme) option" where
  "esp32_flash_get_flash_id w =
     do { let w = WRITE_PERI_REG (esp32_SPI_W0_REG FLASH_SPI_NUM) 0 w;
          let w = WRITE_PERI_REG (esp32_SPI_CMD_REG FLASH_SPI_NUM) esp32_SPI_FLASH_RDID w;
          w \<leftarrow> busy_wait (esp32_SPI_CMD_REG FLASH_SPI_NUM) (\<lambda>v. v \<noteq> 0) w;
          let (v, w) = REG_READ (esp32_SPI_W0_REG FLASH_SPI_NUM) w;
          Some (drop_bit 16 (v AND 0xffffff), w) }"

definition c5_flash_get_flash_id :: "chip_ptr \<Rightarrow> 'a world_scheme \<Rightarrow> (u32 \<times> 'a world_scheme) option" where
  "c5_flash_get_flash_id get_config w =
     (let w = rom_void (FlashFn Esp_rom_spi_flash_update_id) [] [] w
      in Some (cell_read (RomVar (c_flash_id get_config)) w))"

section \<open>Attaching\<close>

definition esp8266_flash_attach :: "u32 \<Rightarrow> bool \<Rightarrow> 'a world_scheme \<Rightarrow> 'a world_scheme option" where
  "esp8266_flash_attach ishspi legacy w =
     (let w = rom_void (FlashFn Esp_rom_spiflash_select_padsfunc) [] [] w
      in Some (rom_void (FlashFn Esp8266_rom_spiflash_attach) [] [] w))"

definition c6_flash_attach :: "u32 \<Rightarrow> bool \<Rightarrow> 'a world_scheme \<Rightarrow> 'a world_scheme option" where
  "c6_flash_attach ishspi legacy w =
     (let w = rom_void (FlashFn Esp_rom_spiflash_attach) [ishspi, of_bool legacy] [] w
      in Some (c6_clock_restore_mspi w))"

text \<open>\<open>&&\<close> reads the eFuse only on revision 7, and the date register only when it is set.\<close>

definition p4_flash_attach :: "u32 \<Rightarrow> bool \<Rightarrow> 'a world_scheme \<Rightarrow> 'a world_scheme option" where
  "p4_flash_attach ishspi legacy w =
     (let (eco, w) = cell_read (RomVar Rom_eco_version) w;
          (boot, w) =
            (if eco = 7 then
               (let (xpd, w) = REG_GET_FIELD p4_EFUSE_RD_REPEAT_DATA1_REG
                      p4_EFUSE_DOWNLOAD_MODE_XPD_ON_V p4_EFUSE_DOWNLOAD_MODE_XPD_ON_S w
                in if xpd \<noteq> 0 then
                     (let (d, w) = REG_READ p4_PMU_DATE_REG w in (d AND 0x3 = 0x3, w))
                   else (False, w))
             else (False, w))
      in if boot then Some (rom_void (FlashFn Esp_rom_spiflash_boot_attach) [ishspi, of_bool legacy, 1] [] w)
         else Some (rom_void (FlashFn Esp_rom_spiflash_attach) [ishspi, of_bool legacy] [] w))"

definition esp32_flash_needs_attach :: "'a world_scheme \<Rightarrow> bool \<times> 'a world_scheme" where
  "esp32_flash_needs_attach w =
     (let (v, w) = READ_PERI_REG (esp32_SPI_CACHE_FCTRL_REG FLASH_SPI_NUM_INT) w
      in (v AND esp32_SPI_CACHE_FLASH_USR_CMD = 0, w))"

definition s2_flash_needs_attach :: "'a world_scheme \<Rightarrow> bool \<times> 'a world_scheme" where
  "s2_flash_needs_attach w =
     (let (v, w) = READ_PERI_REG (s2_SPI_MEM_CACHE_FCTRL_REG FLASH_SPI_NUM_INT) w
      in (v AND s2_SPI_MEM_CACHE_FLASH_USR_CMD = 0, w))"

definition c5_flash_needs_attach :: "'a world_scheme \<Rightarrow> bool \<times> 'a world_scheme" where
  "c5_flash_needs_attach w =
     (let (enabled, w) = c5_cache_is_enabled w in (\<not> enabled, w))"

definition c6_flash_needs_attach :: "'a world_scheme \<Rightarrow> bool \<times> 'a world_scheme" where
  "c6_flash_needs_attach w =
     (let (enabled, w) = c6_cache_is_enabled w in (\<not> enabled, w))"

definition c61_flash_needs_attach :: "'a world_scheme \<Rightarrow> bool \<times> 'a world_scheme" where
  "c61_flash_needs_attach w =
     (let (enabled, w) = c61_cache_is_enabled w in (\<not> enabled, w))"

definition h2_flash_needs_attach :: "'a world_scheme \<Rightarrow> bool \<times> 'a world_scheme" where
  "h2_flash_needs_attach w =
     (let (enabled, w) = h2_cache_is_enabled w in (\<not> enabled, w))"

definition h21_flash_needs_attach :: "'a world_scheme \<Rightarrow> bool \<times> 'a world_scheme" where
  "h21_flash_needs_attach w =
     (let (enabled, w) = h21_cache_is_enabled w in (\<not> enabled, w))"

definition h4_flash_needs_attach :: "'a world_scheme \<Rightarrow> bool \<times> 'a world_scheme" where
  "h4_flash_needs_attach w =
     (let (enabled, w) = h4_cache_is_enabled w in (\<not> enabled, w))"

definition p4_flash_needs_attach :: "'a world_scheme \<Rightarrow> bool \<times> 'a world_scheme" where
  "p4_flash_needs_attach w =
     (let (enabled, w) = p4_cache_is_enabled w in (\<not> enabled, w))"

definition s31_flash_needs_attach :: "'a world_scheme \<Rightarrow> bool \<times> 'a world_scheme" where
  "s31_flash_needs_attach w =
     (let (enabled, w) = s31_cache_is_enabled w in (\<not> enabled, w))"

section \<open>Flash commands\<close>

text \<open>The revision is a constant of the ROM, read once; each revision has its own ROM function.\<close>

definition c5_opiflash_exec_cmd :: "opiflash_cmd_params \<Rightarrow> 'a world_scheme \<Rightarrow> (u8 list \<times> 'a world_scheme) option" where
  "c5_opiflash_exec_cmd params w =
     (let (eco, w) = cell_read (RomVar Rom_eco_version) w
      in Some (rom_exec_flash_cmd
           (if eco \<ge> 5 then Esp_rom_opiflash_exec_cmd_eco 5
            else if eco = 4 then Esp_rom_opiflash_exec_cmd_eco 4
            else if eco = 3 then Esp_rom_opiflash_exec_cmd_eco 3
            else Esp_rom_opiflash_exec_cmd_eco 2) params w))"

definition c61_opiflash_exec_cmd :: "opiflash_cmd_params \<Rightarrow> 'a world_scheme \<Rightarrow> (u8 list \<times> 'a world_scheme) option" where
  "c61_opiflash_exec_cmd params w =
     (let (eco, w) = cell_read (RomVar Rom_eco_version) w
      in Some (rom_exec_flash_cmd
           (if eco \<ge> 0x14 then Esp_rom_opiflash_exec_cmd_eco 5
            else if eco = 4 then Esp_rom_opiflash_exec_cmd_eco 4
            else if eco = 3 then Esp_rom_opiflash_exec_cmd_eco 3
            else if eco = 2 then Esp_rom_opiflash_exec_cmd_eco 2
            else Esp_rom_opiflash_exec_cmd_eco 0) params w))"

definition p4_opiflash_exec_cmd :: "opiflash_cmd_params \<Rightarrow> 'a world_scheme \<Rightarrow> (u8 list \<times> 'a world_scheme) option" where
  "p4_opiflash_exec_cmd params w =
     (let (eco, w) = cell_read (RomVar Rom_eco_version) w
      in Some (rom_exec_flash_cmd
           (if eco = 2 then Esp_rom_opiflash_exec_cmd_eco 2
            else if eco = 5 then Esp_rom_opiflash_exec_cmd_eco 5
            else if eco < 5 then Esp_rom_opiflash_exec_cmd_eco 1
            else if eco = 6 then Esp_rom_opiflash_exec_cmd_eco 6
            else if eco = 7 then Esp_rom_opiflash_exec_cmd_eco 7
            else Esp_rom_opiflash_exec_cmd_eco 8) params w))"

definition s31_opiflash_exec_cmd :: "opiflash_cmd_params \<Rightarrow> 'a world_scheme \<Rightarrow> (u8 list \<times> 'a world_scheme) option" where
  "s31_opiflash_exec_cmd params w =
     Some (rom_exec_flash_cmd Esp_rom_opiflash_exec_cmd params w)"

definition h4_opiflash_exec_cmd :: "opiflash_cmd_params \<Rightarrow> 'a world_scheme \<Rightarrow> (u8 list \<times> 'a world_scheme) option" where
  "h4_opiflash_exec_cmd params w =
     (let (table, w) = cell_read (RomVar Rom_spi_usr_cmd_legacy_funcs) w
      in Some (rom_exec_flash_cmd Exec_flash_cmd params w))"

definition esp8266_flash_write_buff :: "u32 \<Rightarrow> u8 list \<Rightarrow> u32 \<Rightarrow> bool \<Rightarrow> 'a world_scheme \<Rightarrow> (rc \<times> 'a world_scheme) option" where
  "esp8266_flash_write_buff addr buffer sz encrypt w =
     (if encrypt then Some (STUB_LIB_ERR_NOT_SUPPORTED, w)
      else
        (let (res, w) = rom_num (FlashFn Esp_rom_spiflash_write) [addr, sz] (take (unat sz) buffer) w
         in Some (if res = ESP_ROM_SPIFLASH_RESULT_OK then STUB_LIB_OK else STUB_LIB_FAIL, w)))"

definition esp8266_flash_write_enable :: "'a world_scheme \<Rightarrow> 'a world_scheme option" where
  "esp8266_flash_write_enable w =
     do { w \<leftarrow> esp8266_spi_wait_ready w;
          let w = REG_WRITE esp8266_SPI_CMD_REG esp8266_SPI_FLASH_WREN w;
          busy_wait esp8266_SPI_CMD_REG (\<lambda>v. v \<noteq> 0) w }"

definition esp8266_flash_write_encrypted_enable :: "'a world_scheme \<Rightarrow> 'a world_scheme option" where
  "esp8266_flash_write_encrypted_enable w = Some w"

definition esp8266_flash_write_encrypted_disable :: "'a world_scheme \<Rightarrow> 'a world_scheme option" where
  "esp8266_flash_write_encrypted_disable w = Some w"

section \<open>ESP32: saved registers\<close>

text \<open>The enumeration of the saved registers.\<close>

definition esp32_SPI_USER_REG_ID :: nat where "esp32_SPI_USER_REG_ID = 0"
definition esp32_SPI_USER1_REG_ID :: nat where "esp32_SPI_USER1_REG_ID = 1"
definition esp32_SPI_USER2_REG_ID :: nat where "esp32_SPI_USER2_REG_ID = 2"
definition esp32_SPI_SLAVE_REG_ID :: nat where "esp32_SPI_SLAVE_REG_ID = 3"
definition esp32_SPI_CLOCK_REG_ID :: nat where "esp32_SPI_CLOCK_REG_ID = 4"
definition esp32_SPI_CTRL_REG_ID :: nat where "esp32_SPI_CTRL_REG_ID = 5"
definition esp32_SPI_REGS_NUM :: nat where "esp32_SPI_REGS_NUM = 6"

record esp32_flash_state =
  e_spi_regs :: "u32 list"
  e_dummy_len_plus :: u8

text \<open>With the padding of the structure.\<close>

definition esp32_flash_state_size :: "u32" where
  "esp32_flash_state_size = of_nat (4 * esp32_SPI_REGS_NUM + 1 + 3)"

definition esp32_save_reg :: "nat \<Rightarrow> u32 \<Rightarrow> esp32_flash_state \<times> 'a world_scheme \<Rightarrow> esp32_flash_state \<times> 'a world_scheme" where
  "esp32_save_reg i r sw =
     (let (s, w) = sw; (v, w) = READ_PERI_REG r w in (s\<lparr>e_spi_regs := (e_spi_regs s)[i := v]\<rparr>, w))"

definition esp32_flash_state_save :: "esp32_flash_state option \<Rightarrow> 'a world_scheme \<Rightarrow> esp32_flash_state option \<times> 'a world_scheme" where
  "esp32_flash_state_save state w =
     (case state of
        None \<Rightarrow> (None, w)
      | Some s \<Rightarrow>
          (let sw = esp32_save_reg esp32_SPI_USER_REG_ID (esp32_SPI_USER_REG FLASH_SPI_NUM) (s, w);
               sw = esp32_save_reg esp32_SPI_USER1_REG_ID (esp32_SPI_USER1_REG FLASH_SPI_NUM) sw;
               sw = esp32_save_reg esp32_SPI_USER2_REG_ID (esp32_SPI_USER2_REG FLASH_SPI_NUM) sw;
               sw = esp32_save_reg esp32_SPI_SLAVE_REG_ID (esp32_SPI_SLAVE_REG FLASH_SPI_NUM) sw;
               sw = esp32_save_reg esp32_SPI_CLOCK_REG_ID (esp32_SPI_CLOCK_REG FLASH_SPI_NUM) sw;
               (s, w) = esp32_save_reg esp32_SPI_CTRL_REG_ID (esp32_SPI_CTRL_REG FLASH_SPI_NUM) sw;
               (v, w) = cell_read (RomVar (Dummy_len_plus (unat FLASH_SPI_NUM))) w
           in (Some (s\<lparr>e_dummy_len_plus := ucast v\<rparr>), w)))"

definition esp32_flash_state_restore :: "esp32_flash_state option \<Rightarrow> 'a world_scheme \<Rightarrow> 'a world_scheme" where
  "esp32_flash_state_restore state w =
     (case state of
        None \<Rightarrow> w
      | Some s \<Rightarrow>
          (let w = WRITE_PERI_REG (esp32_SPI_USER1_REG FLASH_SPI_NUM) (e_spi_regs s ! esp32_SPI_USER1_REG_ID) w;
               w = WRITE_PERI_REG (esp32_SPI_USER2_REG FLASH_SPI_NUM) (e_spi_regs s ! esp32_SPI_USER2_REG_ID) w;
               w = WRITE_PERI_REG (esp32_SPI_SLAVE_REG FLASH_SPI_NUM) (e_spi_regs s ! esp32_SPI_SLAVE_REG_ID) w;
               w = WRITE_PERI_REG (esp32_SPI_CLOCK_REG FLASH_SPI_NUM) (e_spi_regs s ! esp32_SPI_CLOCK_REG_ID) w;
               w = WRITE_PERI_REG (esp32_SPI_CTRL_REG FLASH_SPI_NUM) (e_spi_regs s ! esp32_SPI_CTRL_REG_ID) w;
               w = WRITE_PERI_REG (esp32_SPI_USER_REG FLASH_SPI_NUM) (e_spi_regs s ! esp32_SPI_USER_REG_ID) w
           in cell_write (RomVar (Dummy_len_plus (unat FLASH_SPI_NUM))) (ucast (e_dummy_len_plus s)) w))"

text \<open>The ROM's erase reprograms SPI0, so its registers are saved around the call.\<close>

definition esp32_rom_spiflash_erase_area :: "u32 \<Rightarrow> u32 \<Rightarrow> 'a world_scheme \<Rightarrow> (u32 \<times> 'a world_scheme) option" where
  "esp32_rom_spiflash_erase_area addr sz w =
     (let (spi0_ctrl, w) = READ_PERI_REG (esp32_SPI_CTRL_REG FLASH_SPI_NUM_INT) w;
          (spi0_user, w) = READ_PERI_REG (esp32_SPI_USER_REG FLASH_SPI_NUM_INT) w;
          (spi0_user1, w) = READ_PERI_REG (esp32_SPI_USER1_REG FLASH_SPI_NUM_INT) w;
          (spi0_user2, w) = READ_PERI_REG (esp32_SPI_USER2_REG FLASH_SPI_NUM_INT) w;
          (spi1_ctrl, w) = READ_PERI_REG (esp32_SPI_CTRL_REG FLASH_SPI_NUM) w;
          (rom_res, w) = rom_num (FlashFn Esp_rom_spiflash_erase_area) [addr, sz] [] w;
          w = WRITE_PERI_REG (esp32_SPI_CTRL_REG FLASH_SPI_NUM_INT) spi0_ctrl w;
          w = WRITE_PERI_REG (esp32_SPI_USER_REG FLASH_SPI_NUM_INT) spi0_user w;
          w = WRITE_PERI_REG (esp32_SPI_USER1_REG FLASH_SPI_NUM_INT) spi0_user1 w;
          w = WRITE_PERI_REG (esp32_SPI_USER2_REG FLASH_SPI_NUM_INT) spi0_user2 w;
          w = WRITE_PERI_REG (esp32_SPI_CTRL_REG FLASH_SPI_NUM) spi1_ctrl w
      in Some (rom_res, w))"

definition esp32_spi_init :: "'a world_scheme \<Rightarrow> 'a world_scheme" where
  "esp32_spi_init w =
     (let w = WRITE_PERI_REG (esp32_SPI_CTRL_REG FLASH_SPI_NUM) (esp32_SPI_WP_REG OR esp32_SPI_RESANDRES) w;
          w = WRITE_PERI_REG (esp32_SPI_CLOCK_REG FLASH_SPI_NUM) 0x3043 w;
          w = WRITE_PERI_REG (esp32_SPI_USER1_REG FLASH_SPI_NUM) 0 w;
          w = REG_SET_FIELD (esp32_SPI_USER1_REG FLASH_SPI_NUM) esp32_SPI_USR_ADDR_BITLEN_V esp32_SPI_USR_ADDR_BITLEN_S 23 w;
          w = REG_SET_FIELD (esp32_SPI_USER1_REG FLASH_SPI_NUM) esp32_SPI_USR_DUMMY_CYCLELEN_V esp32_SPI_USR_DUMMY_CYCLELEN_S 7 w
      in cell_write (RomVar (Dummy_len_plus (unat FLASH_SPI_NUM))) 0 w)"

definition esp32_GPIO_STRAP_REG :: u32 where [regs]: "esp32_GPIO_STRAP_REG = esp32_DR_REG_GPIO_BASE + 0x38"
definition ESP32_STRAP_BOOT_MODE_MASK :: u32 where [regs]: "ESP32_STRAP_BOOT_MODE_MASK = 0x1c"
definition ESP32_STRAP_HSPI_FLASH :: u32 where [regs]: "ESP32_STRAP_HSPI_FLASH = 0x08"

definition esp32_flash_init :: "esp32_flash_state option \<Rightarrow> attach_policy \<Rightarrow> 'a world_scheme \<Rightarrow> (esp32_flash_state option \<times> 'a world_scheme) option" where
  "esp32_flash_init state attach_policy w =
     do { let (state, w) = esp32_flash_state_save state w;
          let (needs_attach, w) = (if attach_policy = STUB_LIB_FLASH_ATTACH_ALWAYS then (True, w)
                                   else esp32_flash_needs_attach w);
          w \<leftarrow>
            (if needs_attach then
               (let (spiconfig, w) = esp32_flash_get_spiconfig_efuse w;
                    (strapping, w) = REG_READ esp32_GPIO_STRAP_REG w;
                    spiconfig =
                      (if spiconfig = 0 \<and> strapping AND ESP32_STRAP_BOOT_MODE_MASK = ESP32_STRAP_HSPI_FLASH
                       then 1 else spiconfig)
                in stub_target_flash_attach spiconfig False w)
             else Some (esp32_spi_init w));
          Some (state, REG_SET_BIT (esp32_SPI_USER_REG FLASH_SPI_NUM) esp32_SPI_USR_COMMAND w) }"

section \<open>ESP32-S2: saved registers\<close>

definition s2_SPI_USER_REG_ID :: nat where "s2_SPI_USER_REG_ID = 0"
definition s2_SPI_CLOCK_REG_ID :: nat where "s2_SPI_CLOCK_REG_ID = 1"
definition s2_SPI_CTRL_REG_ID :: nat where "s2_SPI_CTRL_REG_ID = 2"
definition s2_SPI_REGS_NUM :: nat where "s2_SPI_REGS_NUM = 3"

record s2_flash_state =
  s2_spi_regs :: "u32 list"

definition s2_flash_state_size :: "u32" where
  "s2_flash_state_size = of_nat (4 * s2_SPI_REGS_NUM)"

definition s2_save_reg :: "nat \<Rightarrow> u32 \<Rightarrow> s2_flash_state \<times> 'a world_scheme \<Rightarrow> s2_flash_state \<times> 'a world_scheme" where
  "s2_save_reg i r sw =
     (let (s, w) = sw; (v, w) = READ_PERI_REG r w in (s\<lparr>s2_spi_regs := (s2_spi_regs s)[i := v]\<rparr>, w))"

definition s2_flash_state_save :: "s2_flash_state option \<Rightarrow> 'a world_scheme \<Rightarrow> s2_flash_state option \<times> 'a world_scheme" where
  "s2_flash_state_save state w =
     (case state of
        None \<Rightarrow> (None, w)
      | Some s \<Rightarrow>
          (let sw = s2_save_reg s2_SPI_USER_REG_ID (s2_SPI_MEM_USER_REG FLASH_SPI_NUM) (s, w);
               sw = s2_save_reg s2_SPI_CLOCK_REG_ID (s2_SPI_MEM_CLOCK_REG FLASH_SPI_NUM) sw;
               (s, w) = s2_save_reg s2_SPI_CTRL_REG_ID (s2_SPI_MEM_CTRL_REG FLASH_SPI_NUM) sw
           in (Some s, w)))"

definition s2_flash_state_restore :: "s2_flash_state option \<Rightarrow> 'a world_scheme \<Rightarrow> 'a world_scheme" where
  "s2_flash_state_restore state w =
     (case state of
        None \<Rightarrow> w
      | Some s \<Rightarrow>
          (let w = WRITE_PERI_REG (s2_SPI_MEM_CLOCK_REG FLASH_SPI_NUM) (s2_spi_regs s ! s2_SPI_CLOCK_REG_ID) w;
               w = WRITE_PERI_REG (s2_SPI_MEM_CTRL_REG FLASH_SPI_NUM) (s2_spi_regs s ! s2_SPI_CTRL_REG_ID) w
           in WRITE_PERI_REG (s2_SPI_MEM_USER_REG FLASH_SPI_NUM) (s2_spi_regs s ! s2_SPI_USER_REG_ID) w))"

definition s2_spi_init :: "'a world_scheme \<Rightarrow> 'a world_scheme" where
  "s2_spi_init w =
     (let freqbits = 0x30103;
          w = REG_CLR_BIT (s2_SPI_MEM_MISC_REG FLASH_SPI_NUM_INT) s2_SPI_MEM_CS0_DIS w;
          w = REG_SET_BIT (s2_SPI_MEM_MISC_REG FLASH_SPI_NUM_INT) s2_SPI_MEM_CS1_DIS w;
          w = rom_void (FlashFn Spi_common_set_flash_cs_timing) [] [] w;
          w = WRITE_PERI_REG (s2_SPI_MEM_CLOCK_REG FLASH_SPI_NUM) freqbits w;
          w = WRITE_PERI_REG (s2_SPI_MEM_CLOCK_REG FLASH_SPI_NUM_INT) freqbits w;
          w = WRITE_PERI_REG (s2_SPI_MEM_CTRL_REG FLASH_SPI_NUM) (s2_SPI_MEM_WP_REG OR s2_SPI_MEM_RESANDRES) w;
          w = WRITE_PERI_REG (s2_SPI_MEM_CTRL_REG FLASH_SPI_NUM_INT) s2_SPI_MEM_WP_REG w;
          w = REG_SET_FIELD (s2_SPI_MEM_MISO_DLEN_REG FLASH_SPI_NUM_INT) s2_SPI_MEM_USR_MISO_DBITLEN_V s2_SPI_MEM_USR_MISO_DBITLEN_S 0xff w;
          w = REG_SET_FIELD (s2_SPI_MEM_MOSI_DLEN_REG FLASH_SPI_NUM_INT) s2_SPI_MEM_USR_MOSI_DBITLEN_V s2_SPI_MEM_USR_MOSI_DBITLEN_S 0xff w;
          w = REG_SET_FIELD (s2_SPI_MEM_USER2_REG FLASH_SPI_NUM_INT) s2_SPI_MEM_USR_COMMAND_BITLEN_V s2_SPI_MEM_USR_COMMAND_BITLEN_S 0x7 w;
          w = REG_SET_BIT (s2_SPI_MEM_CACHE_FCTRL_REG FLASH_SPI_NUM_INT) s2_SPI_MEM_CACHE_REQ_EN w;
          w = WRITE_PERI_REG (s2_SPI_MEM_DDR_REG FLASH_SPI_NUM_INT) 0 w;
          w = WRITE_PERI_REG (s2_SPI_MEM_DDR_REG FLASH_SPI_NUM) 0 w;
          w = rom_void (FlashFn Spi_cache_mode_switch) [0] [] w
      in REG_SET_BIT (s2_SPI_MEM_CACHE_FCTRL_REG FLASH_SPI_NUM_INT) s2_SPI_MEM_CACHE_FLASH_USR_CMD w)"

definition s2_flash_init :: "s2_flash_state option \<Rightarrow> attach_policy \<Rightarrow> 'a world_scheme \<Rightarrow> (s2_flash_state option \<times> 'a world_scheme) option" where
  "s2_flash_init state attach_policy w =
     do { let (state, w) = s2_flash_state_save state w;
          let (needs_attach, w) = (if attach_policy = STUB_LIB_FLASH_ATTACH_ALWAYS then (True, w)
                                   else s2_flash_needs_attach w);
          w \<leftarrow>
            (if needs_attach then
               (let (spiconfig, w) = s2_flash_get_spiconfig_efuse w
                in stub_target_flash_attach spiconfig False w)
             else Some (s2_spi_init w));
          Some (state, REG_SET_BIT (s2_SPI_MEM_USER_REG FLASH_SPI_NUM) s2_SPI_MEM_USR_COMMAND w) }"

section \<open>Initialisation of the newer chips\<close>

definition c5_flash_init :: "'s option \<Rightarrow> attach_policy \<Rightarrow> 'a world_scheme \<Rightarrow> ('s option \<times> 'a world_scheme) option" where
  "c5_flash_init state attach_policy w =
     do { let (needs_attach, w) = (if attach_policy = STUB_LIB_FLASH_ATTACH_ALWAYS then (True, w)
                                   else c5_flash_needs_attach w);
          w \<leftarrow> (if needs_attach then stub_target_flash_attach 0 False w else Some w);
          Some (state, REG_SET_BIT (c5_SPI_MEM_USER_REG 1) c5_SPI_MEM_USR_COMMAND w) }"

definition c6_flash_init :: "'s option \<Rightarrow> attach_policy \<Rightarrow> 'a world_scheme \<Rightarrow> ('s option \<times> 'a world_scheme) option" where
  "c6_flash_init state attach_policy w =
     do { let (needs_attach, w) = (if attach_policy = STUB_LIB_FLASH_ATTACH_ALWAYS then (True, w)
                                   else c6_flash_needs_attach w);
          w \<leftarrow> (if needs_attach then c6_flash_attach 0 False w else Some w);
          Some (state, w) }"

definition c61_flash_init :: "'s option \<Rightarrow> attach_policy \<Rightarrow> 'a world_scheme \<Rightarrow> ('s option \<times> 'a world_scheme) option" where
  "c61_flash_init state attach_policy w =
     do { let (needs_attach, w) = (if attach_policy = STUB_LIB_FLASH_ATTACH_ALWAYS then (True, w)
                                   else c61_flash_needs_attach w);
          w \<leftarrow> (if needs_attach then stub_target_flash_attach 0 False w else Some w);
          Some (state, REG_SET_BIT (c61_SPI_MEM_USER_REG 1) c61_SPI_MEM_USR_COMMAND w) }"

definition h2_flash_init :: "'s option \<Rightarrow> attach_policy \<Rightarrow> 'a world_scheme \<Rightarrow> ('s option \<times> 'a world_scheme) option" where
  "h2_flash_init state attach_policy w =
     do { let (needs_attach, w) = (if attach_policy = STUB_LIB_FLASH_ATTACH_ALWAYS then (True, w)
                                   else h2_flash_needs_attach w);
          w \<leftarrow> (if needs_attach then stub_target_flash_attach 0 False w else Some w);
          Some (state, w) }"

definition h4_flash_init :: "'s option \<Rightarrow> attach_policy \<Rightarrow> 'a world_scheme \<Rightarrow> ('s option \<times> 'a world_scheme) option" where
  "h4_flash_init state attach_policy w =
     do { let (needs_attach, w) = (if attach_policy = STUB_LIB_FLASH_ATTACH_ALWAYS then (True, w)
                                   else h4_flash_needs_attach w);
          w \<leftarrow> (if needs_attach then stub_target_flash_attach 0 False w else Some w);
          Some (state, REG_SET_BIT (h4_SPI_MEM_USER_REG 1) h4_SPI_MEM_USR_COMMAND w) }"

definition p4_flash_init :: "'s option \<Rightarrow> attach_policy \<Rightarrow> 'a world_scheme \<Rightarrow> ('s option \<times> 'a world_scheme) option" where
  "p4_flash_init state attach_policy w =
     do { let (needs_attach, w) = (if attach_policy = STUB_LIB_FLASH_ATTACH_ALWAYS then (True, w)
                                   else p4_flash_needs_attach w);
          w \<leftarrow> (if needs_attach then p4_flash_attach 0 False w else Some w);
          Some (state, REG_SET_BIT (p4_SPI_MEM_USER_REG FLASH_SPI_NUM) p4_SPI_MEM_USR_COMMAND w) }"

definition s31_flash_init :: "'s option \<Rightarrow> attach_policy \<Rightarrow> 'a world_scheme \<Rightarrow> ('s option \<times> 'a world_scheme) option" where
  "s31_flash_init state attach_policy w =
     do { let (needs_attach, w) = (if attach_policy = STUB_LIB_FLASH_ATTACH_ALWAYS then (True, w)
                                   else s31_flash_needs_attach w);
          w \<leftarrow> (if needs_attach then Some (rom_void (FlashFn Esp_rom_spiflash_attach) [0, of_bool False] [] w) else Some w);
          Some (state, REG_SET_BIT (s31_SPI_MEM_USER_REG FLASH_SPI_NUM) s31_SPI_MEM_USR_COMMAND w) }"

section \<open>ESP32-P4: four byte addresses for the cache\<close>

record p4_addr32_state =
  p4_applied :: bool
  p4_saved_user :: u32
  p4_saved_user1 :: u32
  p4_saved_user2 :: u32
  p4_saved_ctrl :: u32
  p4_saved_ddr :: u32
  p4_saved_cache_fctrl :: u32
  p4_saved_timing_cali :: u32
  p4_saved_dummy_len_plus :: u8

record p4_world = autoload_world +
  p4_addr32 :: p4_addr32_state

definition p4_ADDR32_CACHE_CMD :: u32 where [regs]: "p4_ADDR32_CACHE_CMD = CMD_FSTRD4B"
definition p4_ADDR32_CACHE_CMD_BITLEN :: u32 where [regs]: "p4_ADDR32_CACHE_CMD_BITLEN = 8"
definition p4_ADDR32_CACHE_ADDR_BITLEN :: u32 where [regs]: "p4_ADDR32_CACHE_ADDR_BITLEN = 32"
definition p4_ADDR32_CACHE_DUMMY_BITLEN :: u32 where [regs]: "p4_ADDR32_CACHE_DUMMY_BITLEN = 8"

definition p4_program_4byte_cache_mode :: "'a world_scheme \<Rightarrow> 'a world_scheme" where
  "p4_program_4byte_cache_mode w =
     (let w = CLEAR_PERI_REG_MASK p4_SPI_MEM_C_TIMING_CALI_REG p4_SPI_MEM_C_TIMING_CALI_M w;
          w = REG_SET_FIELD p4_SPI_MEM_C_TIMING_CALI_REG p4_SPI_MEM_C_EXTRA_DUMMY_CYCLELEN_V p4_SPI_MEM_C_EXTRA_DUMMY_CYCLELEN_S 0 w;
          w = REG_SET_BIT p4_SPI_MEM_C_TIMING_CALI_REG p4_SPI_MEM_C_TIMING_CALI_UPDATE w;
          w = cell_write (RomVar (Dummy_len_plus (unat FLASH_SPI_NUM_INT))) 0 w;
          w = rom_void (FlashFn Esp_rom_spi_set_op_mode) [FLASH_SPI_NUM_INT, spi_flash_mode_num SPI_FLASH_FASTRD_MODE] [] w;
          w = rom_void (FlashFn Esp_rom_spi_set_address_bit_len) [FLASH_SPI_NUM_INT, p4_ADDR32_CACHE_ADDR_BITLEN] [] w;
          w = REG_SET_BIT p4_SPI_MEM_C_CACHE_FCTRL_REG p4_SPI_MEM_C_CACHE_USR_ADDR_4BYTE w;
          w = REG_SET_BIT p4_SPI_MEM_C_USER_REG p4_SPI_MEM_C_USR_DUMMY w;
          w = REG_SET_FIELD p4_SPI_MEM_C_USER1_REG p4_SPI_MEM_C_USR_DUMMY_CYCLELEN_V p4_SPI_MEM_C_USR_DUMMY_CYCLELEN_S (p4_ADDR32_CACHE_DUMMY_BITLEN - 1) w;
          w = REG_SET_FIELD p4_SPI_MEM_C_USER2_REG p4_SPI_MEM_C_USR_COMMAND_VALUE_V p4_SPI_MEM_C_USR_COMMAND_VALUE_S p4_ADDR32_CACHE_CMD w;
          w = REG_SET_FIELD p4_SPI_MEM_C_USER2_REG p4_SPI_MEM_C_USR_COMMAND_BITLEN_V p4_SPI_MEM_C_USR_COMMAND_BITLEN_S (p4_ADDR32_CACHE_CMD_BITLEN - 1) w;
          w = REG_SET_FIELD p4_SPI_MEM_C_DDR_REG p4_SPI_MEM_C_FMEM__VAR_DUMMY_V p4_SPI_MEM_C_FMEM__VAR_DUMMY_S 0 w
      in REG_SET_BIT p4_SPI_MEM_C_CTRL_REG
           (p4_SPI_MEM_C_FDUMMY_RIN OR p4_SPI_MEM_C_WP_REG OR p4_SPI_MEM_C_D_POL OR p4_SPI_MEM_C_Q_POL) w)"

definition p4_enable_4byte_cache_mode :: "'a p4_world_scheme \<Rightarrow> 'a p4_world_scheme" where
  "p4_enable_4byte_cache_mode w =
     (let (usr4, w) = REG_GET_BIT p4_SPI_MEM_C_CACHE_FCTRL_REG p4_SPI_MEM_C_CACHE_USR_ADDR_4BYTE w;
          (already, w) =
            (if usr4 \<noteq> 0 then (True, w)
             else (let (len, w) = REG_GET_FIELD p4_SPI_MEM_C_USER1_REG
                         p4_SPI_MEM_C_USR_ADDR_BITLEN_V p4_SPI_MEM_C_USR_ADDR_BITLEN_S w
                   in (len \<ge> p4_ADDR32_CACHE_ADDR_BITLEN - 1, w)))
      in if already then w
         else
           (let (u, w) = REG_READ p4_SPI_MEM_C_USER_REG w;
                (u1, w) = REG_READ p4_SPI_MEM_C_USER1_REG w;
                (u2, w) = REG_READ p4_SPI_MEM_C_USER2_REG w;
                (ct, w) = REG_READ p4_SPI_MEM_C_CTRL_REG w;
                (dd, w) = REG_READ p4_SPI_MEM_C_DDR_REG w;
                (cf, w) = REG_READ p4_SPI_MEM_C_CACHE_FCTRL_REG w;
                (tc, w) = REG_READ p4_SPI_MEM_C_TIMING_CALI_REG w;
                (d, w) = cell_read (RomVar (Dummy_len_plus (unat FLASH_SPI_NUM_INT))) w;
                w = w\<lparr>p4_addr32 := (p4_addr32 w)\<lparr>p4_saved_user := u, p4_saved_user1 := u1, p4_saved_user2 := u2,
                       p4_saved_ctrl := ct, p4_saved_ddr := dd, p4_saved_cache_fctrl := cf,
                       p4_saved_timing_cali := tc, p4_saved_dummy_len_plus := ucast d\<rparr>\<rparr>;
                w = stub_lib_cache_stop (cache_target_of ESP32P4) w;
                w = p4_program_4byte_cache_mode w;
                w = stub_lib_cache_start (cache_target_of ESP32P4) w
            in w\<lparr>p4_addr32 := (p4_addr32 w)\<lparr>p4_applied := True\<rparr>\<rparr>))"

definition p4_disable_4byte_cache_mode :: "'a p4_world_scheme \<Rightarrow> 'a p4_world_scheme" where
  "p4_disable_4byte_cache_mode w =
     (let s = p4_addr32 w
      in if \<not> p4_applied s then w
         else
           (let w = stub_lib_cache_stop (cache_target_of ESP32P4) w;
                w = REG_WRITE p4_SPI_MEM_C_USER_REG (p4_saved_user s) w;
                w = REG_WRITE p4_SPI_MEM_C_USER1_REG (p4_saved_user1 s) w;
                w = REG_WRITE p4_SPI_MEM_C_USER2_REG (p4_saved_user2 s) w;
                w = REG_WRITE p4_SPI_MEM_C_CTRL_REG (p4_saved_ctrl s) w;
                w = REG_WRITE p4_SPI_MEM_C_DDR_REG (p4_saved_ddr s) w;
                w = REG_WRITE p4_SPI_MEM_C_CACHE_FCTRL_REG (p4_saved_cache_fctrl s) w;
                w = REG_WRITE p4_SPI_MEM_C_TIMING_CALI_REG (p4_saved_timing_cali s) w;
                w = REG_SET_BIT p4_SPI_MEM_C_TIMING_CALI_REG p4_SPI_MEM_C_TIMING_CALI_UPDATE w;
                w = cell_write (RomVar (Dummy_len_plus (unat FLASH_SPI_NUM_INT)))
                      (ucast (p4_saved_dummy_len_plus s)) w;
                w = stub_lib_cache_start (cache_target_of ESP32P4) w
            in w\<lparr>p4_addr32 := (p4_addr32 w)\<lparr>p4_applied := False\<rparr>\<rparr>))"

definition p4_set_4byte_cache_mode :: "bool \<Rightarrow> 'a p4_world_scheme \<Rightarrow> 'a p4_world_scheme option" where
  "p4_set_4byte_cache_mode enable w =
     Some (if enable then p4_enable_4byte_cache_mode w else p4_disable_4byte_cache_mode w)"

section \<open>The links\<close>

text \<open>What the headers of each chip give the generic functions.\<close>

definition esp8266_flash_soc :: flash_soc where
  "esp8266_flash_soc =
     \<lparr>spi_gpio_nums = None,
      cmd_reg = esp8266_SPI_MEM_CMD_REG FLASH_SPI_NUM, addr_reg = esp8266_SPI_MEM_ADDR_REG FLASH_SPI_NUM,
      rd_status_reg = esp8266_SPI_MEM_RD_STATUS_REG FLASH_SPI_NUM, flash_se = esp8266_SPI_MEM_FLASH_SE,
      flash_be = esp8266_SPI_MEM_FLASH_BE, flash_rdsr = esp8266_SPI_MEM_FLASH_RDSR\<rparr>"

definition esp32_flash_soc :: flash_soc where
  "esp32_flash_soc =
     \<lparr>spi_gpio_nums = Some (esp32_SPI_CLK_GPIO_NUM, esp32_SPI_Q_GPIO_NUM, esp32_SPI_D_GPIO_NUM, esp32_SPI_CS0_GPIO_NUM),
      cmd_reg = esp32_SPI_MEM_CMD_REG FLASH_SPI_NUM, addr_reg = esp32_SPI_MEM_ADDR_REG FLASH_SPI_NUM,
      rd_status_reg = esp32_SPI_MEM_RD_STATUS_REG FLASH_SPI_NUM, flash_se = esp32_SPI_MEM_FLASH_SE,
      flash_be = esp32_SPI_MEM_FLASH_BE, flash_rdsr = esp32_SPI_MEM_FLASH_RDSR\<rparr>"

definition s2_flash_soc :: flash_soc where
  "s2_flash_soc =
     \<lparr>spi_gpio_nums = Some (s2_SPI_CLK_GPIO_NUM, s2_SPI_Q_GPIO_NUM, s2_SPI_D_GPIO_NUM, s2_SPI_CS0_GPIO_NUM),
      cmd_reg = s2_SPI_MEM_CMD_REG FLASH_SPI_NUM, addr_reg = s2_SPI_MEM_ADDR_REG FLASH_SPI_NUM,
      rd_status_reg = s2_SPI_MEM_RD_STATUS_REG FLASH_SPI_NUM, flash_se = s2_SPI_MEM_FLASH_SE,
      flash_be = s2_SPI_MEM_FLASH_BE, flash_rdsr = s2_SPI_MEM_FLASH_RDSR\<rparr>"

definition c2_flash_soc :: flash_soc where
  "c2_flash_soc =
     \<lparr>spi_gpio_nums = Some (c2_SPI_CLK_GPIO_NUM, c2_SPI_Q_GPIO_NUM, c2_SPI_D_GPIO_NUM, c2_SPI_CS0_GPIO_NUM),
      cmd_reg = c2_SPI_MEM_CMD_REG FLASH_SPI_NUM, addr_reg = c2_SPI_MEM_ADDR_REG FLASH_SPI_NUM,
      rd_status_reg = c2_SPI_MEM_RD_STATUS_REG FLASH_SPI_NUM, flash_se = c2_SPI_MEM_FLASH_SE,
      flash_be = c2_SPI_MEM_FLASH_BE, flash_rdsr = c2_SPI_MEM_FLASH_RDSR\<rparr>"

definition c3_flash_soc :: flash_soc where
  "c3_flash_soc =
     \<lparr>spi_gpio_nums = Some (c3_SPI_CLK_GPIO_NUM, c3_SPI_Q_GPIO_NUM, c3_SPI_D_GPIO_NUM, c3_SPI_CS0_GPIO_NUM),
      cmd_reg = c3_SPI_MEM_CMD_REG FLASH_SPI_NUM, addr_reg = c3_SPI_MEM_ADDR_REG FLASH_SPI_NUM,
      rd_status_reg = c3_SPI_MEM_RD_STATUS_REG FLASH_SPI_NUM, flash_se = c3_SPI_MEM_FLASH_SE,
      flash_be = c3_SPI_MEM_FLASH_BE, flash_rdsr = c3_SPI_MEM_FLASH_RDSR\<rparr>"

definition c5_flash_soc :: flash_soc where
  "c5_flash_soc =
     \<lparr>spi_gpio_nums = Some (c5_SPI_CLK_GPIO_NUM, c5_SPI_Q_GPIO_NUM, c5_SPI_D_GPIO_NUM, c5_SPI_CS0_GPIO_NUM),
      cmd_reg = c5_SPI_MEM_CMD_REG FLASH_SPI_NUM, addr_reg = c5_SPI_MEM_ADDR_REG FLASH_SPI_NUM,
      rd_status_reg = c5_SPI_MEM_RD_STATUS_REG FLASH_SPI_NUM, flash_se = c5_SPI_MEM_FLASH_SE,
      flash_be = c5_SPI_MEM_FLASH_BE, flash_rdsr = c5_SPI_MEM_FLASH_RDSR\<rparr>"

definition c6_flash_soc :: flash_soc where
  "c6_flash_soc =
     \<lparr>spi_gpio_nums = Some (c6_SPI_CLK_GPIO_NUM, c6_SPI_Q_GPIO_NUM, c6_SPI_D_GPIO_NUM, c6_SPI_CS0_GPIO_NUM),
      cmd_reg = c6_SPI_MEM_CMD_REG FLASH_SPI_NUM, addr_reg = c6_SPI_MEM_ADDR_REG FLASH_SPI_NUM,
      rd_status_reg = c6_SPI_MEM_RD_STATUS_REG FLASH_SPI_NUM, flash_se = c6_SPI_MEM_FLASH_SE,
      flash_be = c6_SPI_MEM_FLASH_BE, flash_rdsr = c6_SPI_MEM_FLASH_RDSR\<rparr>"

definition c61_flash_soc :: flash_soc where
  "c61_flash_soc =
     \<lparr>spi_gpio_nums = Some (c61_SPI_CLK_GPIO_NUM, c61_SPI_Q_GPIO_NUM, c61_SPI_D_GPIO_NUM, c61_SPI_CS0_GPIO_NUM),
      cmd_reg = c61_SPI_MEM_CMD_REG FLASH_SPI_NUM, addr_reg = c61_SPI_MEM_ADDR_REG FLASH_SPI_NUM,
      rd_status_reg = c61_SPI_MEM_RD_STATUS_REG FLASH_SPI_NUM, flash_se = c61_SPI_MEM_FLASH_SE,
      flash_be = c61_SPI_MEM_FLASH_BE, flash_rdsr = c61_SPI_MEM_FLASH_RDSR\<rparr>"

definition h2_flash_soc :: flash_soc where
  "h2_flash_soc =
     \<lparr>spi_gpio_nums = Some (h2_SPI_CLK_GPIO_NUM, h2_SPI_Q_GPIO_NUM, h2_SPI_D_GPIO_NUM, h2_SPI_CS0_GPIO_NUM),
      cmd_reg = h2_SPI_MEM_CMD_REG FLASH_SPI_NUM, addr_reg = h2_SPI_MEM_ADDR_REG FLASH_SPI_NUM,
      rd_status_reg = h2_SPI_MEM_RD_STATUS_REG FLASH_SPI_NUM, flash_se = h2_SPI_MEM_FLASH_SE,
      flash_be = h2_SPI_MEM_FLASH_BE, flash_rdsr = h2_SPI_MEM_FLASH_RDSR\<rparr>"

definition h21_flash_soc :: flash_soc where
  "h21_flash_soc =
     \<lparr>spi_gpio_nums = Some (h21_SPI_CLK_GPIO_NUM, h21_SPI_Q_GPIO_NUM, h21_SPI_D_GPIO_NUM, h21_SPI_CS0_GPIO_NUM),
      cmd_reg = h21_SPI_MEM_CMD_REG FLASH_SPI_NUM, addr_reg = h21_SPI_MEM_ADDR_REG FLASH_SPI_NUM,
      rd_status_reg = h21_SPI_MEM_RD_STATUS_REG FLASH_SPI_NUM, flash_se = h21_SPI_MEM_FLASH_SE,
      flash_be = h21_SPI_MEM_FLASH_BE, flash_rdsr = h21_SPI_MEM_FLASH_RDSR\<rparr>"

definition h4_flash_soc :: flash_soc where
  "h4_flash_soc =
     \<lparr>spi_gpio_nums = Some (h4_SPI_CLK_GPIO_NUM, h4_SPI_Q_GPIO_NUM, h4_SPI_D_GPIO_NUM, h4_SPI_CS0_GPIO_NUM),
      cmd_reg = h4_SPI_MEM_CMD_REG FLASH_SPI_NUM, addr_reg = h4_SPI_MEM_ADDR_REG FLASH_SPI_NUM,
      rd_status_reg = h4_SPI_MEM_RD_STATUS_REG FLASH_SPI_NUM, flash_se = h4_SPI_MEM_FLASH_SE,
      flash_be = h4_SPI_MEM_FLASH_BE, flash_rdsr = h4_SPI_MEM_FLASH_RDSR\<rparr>"

definition p4_flash_soc :: flash_soc where
  "p4_flash_soc =
     \<lparr>spi_gpio_nums = None,
      cmd_reg = p4_SPI_MEM_CMD_REG FLASH_SPI_NUM, addr_reg = p4_SPI_MEM_ADDR_REG FLASH_SPI_NUM,
      rd_status_reg = p4_SPI_MEM_RD_STATUS_REG FLASH_SPI_NUM, flash_se = p4_SPI_MEM_FLASH_SE,
      flash_be = p4_SPI_MEM_FLASH_BE, flash_rdsr = p4_SPI_MEM_FLASH_RDSR\<rparr>"

definition s31_flash_soc :: flash_soc where
  "s31_flash_soc =
     \<lparr>spi_gpio_nums = None,
      cmd_reg = s31_SPI_MEM_CMD_REG FLASH_SPI_NUM, addr_reg = s31_SPI_MEM_ADDR_REG FLASH_SPI_NUM,
      rd_status_reg = s31_SPI_MEM_RD_STATUS_REG FLASH_SPI_NUM, flash_se = s31_SPI_MEM_FLASH_SE,
      flash_be = s31_SPI_MEM_FLASH_BE, flash_rdsr = s31_SPI_MEM_FLASH_RDSR\<rparr>"

text \<open>
  The link of a chip that overrides only the wait for the controller: all other symbols are
  the weak generic functions.
\<close>

definition weak_flash_target ::
  "flash_soc \<Rightarrow> ('a world_scheme \<Rightarrow> 'a world_scheme option) \<Rightarrow> ('s, 'a world_scheme) flash_target" where
  "weak_flash_target S spi_wait_ready =
     \<lparr>t_4byte_addr_supported = False,
      t_reset_default_spi_pins = stub_target_reset_default_spi_pins S,
      t_update_config = stub_target_flash_update_config,
      t_get_max_supported_flash_size = stub_target_get_max_supported_flash_size,
      t_state_size = stub_target_flash_state_size,
      t_init = stub_target_flash_init stub_target_flash_needs_attach
        stub_target_flash_get_spiconfig_efuse stub_target_flash_attach,
      t_attach = stub_target_flash_attach,
      t_get_config = stub_target_flash_get_config,
      t_get_flash_id = stub_target_flash_get_flash_id stub_target_flash_get_config,
      t_deinit = stub_target_flash_deinit stub_target_flash_state_restore,
      t_write_enable = stub_target_flash_write_enable,
      t_write_buff = stub_target_flash_write_buff,
      t_read_buff = stub_target_flash_read_buff,
      t_erase_chip = stub_target_flash_erase_chip,
      t_is_busy = stub_target_flash_is_busy S spi_wait_ready,
      t_erase_sector_start =
        stub_target_flash_erase_sector_start S stub_target_flash_write_enable spi_wait_ready,
      t_erase_block_start =
        stub_target_flash_erase_block_start S stub_target_flash_write_enable spi_wait_ready,
      t_opiflash_exec_cmd = stub_target_opiflash_exec_cmd,
      t_write_encrypted_enable = stub_target_flash_write_encrypted_enable,
      t_write_encrypted_disable = stub_target_flash_write_encrypted_disable,
      t_unlock = stub_target_flash_unlock,
      t_rom_spiflash_erase_area = stub_target_rom_spiflash_erase_area,
      t_set_4byte_cache_mode = stub_target_flash_set_4byte_cache_mode,
      t_aes_xts_init = stub_target_aes_xts_init,
      t_aes_xts_encrypt_trigger = stub_target_aes_xts_encrypt_trigger,
      t_aes_xts_wait_data_ready = stub_target_aes_xts_wait_data_ready,
      t_aes_xts_clear = stub_target_aes_xts_clear\<rparr>"

definition esp8266_flash_target :: "('s, 'a world_scheme) flash_target" where
  "esp8266_flash_target = (weak_flash_target esp8266_flash_soc esp8266_spi_wait_ready)\<lparr>
      t_reset_default_spi_pins := esp8266_reset_default_spi_pins,
      t_update_config := esp8266_flash_update_config,
      t_init := stub_target_flash_init stub_target_flash_needs_attach
        stub_target_flash_get_spiconfig_efuse esp8266_flash_attach,
      t_attach := esp8266_flash_attach,
      t_get_config := esp8266_flash_get_config,
      t_get_flash_id := esp8266_flash_get_flash_id,
      t_write_enable := esp8266_flash_write_enable,
      t_write_buff := esp8266_flash_write_buff,
      t_erase_sector_start :=
        stub_target_flash_erase_sector_start esp8266_flash_soc esp8266_flash_write_enable esp8266_spi_wait_ready,
      t_erase_block_start :=
        stub_target_flash_erase_block_start esp8266_flash_soc esp8266_flash_write_enable esp8266_spi_wait_ready,
      t_write_encrypted_enable := esp8266_flash_write_encrypted_enable,
      t_write_encrypted_disable := esp8266_flash_write_encrypted_disable\<rparr>"

definition esp32_flash_target :: "(esp32_flash_state, 'a world_scheme) flash_target" where
  "esp32_flash_target = (weak_flash_target esp32_flash_soc esp32_spi_wait_ready)\<lparr>
      t_state_size := esp32_flash_state_size,
      t_init := esp32_flash_init,
      t_get_config := esp32_flash_get_config,
      t_get_flash_id := esp32_flash_get_flash_id,
      t_deinit := stub_target_flash_deinit esp32_flash_state_restore,
      t_rom_spiflash_erase_area := esp32_rom_spiflash_erase_area\<rparr>"

definition s2_flash_target :: "(s2_flash_state, 'a world_scheme) flash_target" where
  "s2_flash_target = (weak_flash_target s2_flash_soc s2_spi_wait_ready)\<lparr>
      t_state_size := s2_flash_state_size,
      t_init := s2_flash_init,
      t_get_config := s2_flash_get_config,
      t_get_flash_id := stub_target_flash_get_flash_id s2_flash_get_config,
      t_deinit := stub_target_flash_deinit s2_flash_state_restore\<rparr>"

definition c2_flash_target :: "('s, 'a world_scheme) flash_target" where
  "c2_flash_target = (weak_flash_target c2_flash_soc c2_spi_wait_ready)"

definition c3_flash_target :: "('s, 'a world_scheme) flash_target" where
  "c3_flash_target = (weak_flash_target c3_flash_soc c3_spi_wait_ready)\<lparr>
      t_init := stub_target_flash_init stub_target_flash_needs_attach
        c3_flash_get_spiconfig_efuse stub_target_flash_attach\<rparr>"

definition c5_flash_target :: "('s, 'a world_scheme) flash_target" where
  "c5_flash_target = (weak_flash_target c5_flash_soc c5_spi_wait_ready)\<lparr>
      t_4byte_addr_supported := True,
      t_get_max_supported_flash_size := c5_get_max_supported_flash_size,
      t_init := c5_flash_init,
      t_opiflash_exec_cmd := c5_opiflash_exec_cmd,
      t_get_flash_id := c5_flash_get_flash_id stub_target_flash_get_config,
      t_aes_xts_init := c5_aes_xts_init,
      t_aes_xts_encrypt_trigger := c5_aes_xts_encrypt_trigger,
      t_aes_xts_wait_data_ready := c5_aes_xts_wait_data_ready,
      t_aes_xts_clear := c5_aes_xts_clear\<rparr>"

definition c6_flash_target :: "('s, 'a world_scheme) flash_target" where
  "c6_flash_target = (weak_flash_target c6_flash_soc c6_spi_wait_ready)\<lparr>
      t_init := c6_flash_init,
      t_attach := c6_flash_attach\<rparr>"

definition c61_flash_target :: "('s, 'a world_scheme) flash_target" where
  "c61_flash_target = (weak_flash_target c61_flash_soc c61_spi_wait_ready)\<lparr>
      t_4byte_addr_supported := True,
      t_get_max_supported_flash_size := c61_get_max_supported_flash_size,
      t_init := c61_flash_init,
      t_opiflash_exec_cmd := c61_opiflash_exec_cmd,
      t_aes_xts_init := c61_aes_xts_init,
      t_aes_xts_encrypt_trigger := c61_aes_xts_encrypt_trigger,
      t_aes_xts_wait_data_ready := c61_aes_xts_wait_data_ready,
      t_aes_xts_clear := c61_aes_xts_clear\<rparr>"

definition h2_flash_target :: "('s, 'a world_scheme) flash_target" where
  "h2_flash_target = (weak_flash_target h2_flash_soc h2_spi_wait_ready)\<lparr>
      t_init := h2_flash_init\<rparr>"

definition h21_flash_target :: "('s, 'a world_scheme) flash_target" where
  "h21_flash_target = (weak_flash_target h21_flash_soc h21_spi_wait_ready)\<lparr>
      t_init := stub_target_flash_init h21_flash_needs_attach
        stub_target_flash_get_spiconfig_efuse stub_target_flash_attach\<rparr>"

definition h4_flash_target :: "('s, 'a world_scheme) flash_target" where
  "h4_flash_target = (weak_flash_target h4_flash_soc h4_spi_wait_ready)\<lparr>
      t_4byte_addr_supported := True,
      t_get_max_supported_flash_size := h4_get_max_supported_flash_size,
      t_init := h4_flash_init,
      t_opiflash_exec_cmd := h4_opiflash_exec_cmd,
      t_aes_xts_init := h4_aes_xts_init,
      t_aes_xts_encrypt_trigger := h4_aes_xts_encrypt_trigger,
      t_aes_xts_wait_data_ready := h4_aes_xts_wait_data_ready,
      t_aes_xts_clear := h4_aes_xts_clear\<rparr>"

definition p4_flash_target :: "('s, 'a p4_world_scheme) flash_target" where
  "p4_flash_target = (weak_flash_target p4_flash_soc p4_spi_wait_ready)\<lparr>
      t_4byte_addr_supported := True,
      t_get_max_supported_flash_size := p4_get_max_supported_flash_size,
      t_init := p4_flash_init,
      t_opiflash_exec_cmd := p4_opiflash_exec_cmd,
      t_reset_default_spi_pins := p4_reset_default_spi_pins,
      t_attach := p4_flash_attach,
      t_set_4byte_cache_mode := p4_set_4byte_cache_mode,
      t_aes_xts_init := p4_aes_xts_init,
      t_aes_xts_encrypt_trigger := p4_aes_xts_encrypt_trigger,
      t_aes_xts_wait_data_ready := p4_aes_xts_wait_data_ready,
      t_aes_xts_clear := p4_aes_xts_clear\<rparr>"

definition s31_flash_target :: "('s, 'a world_scheme) flash_target" where
  "s31_flash_target = (weak_flash_target s31_flash_soc s31_spi_wait_ready)\<lparr>
      t_4byte_addr_supported := True,
      t_get_max_supported_flash_size := s31_get_max_supported_flash_size,
      t_init := s31_flash_init,
      t_opiflash_exec_cmd := s31_opiflash_exec_cmd,
      t_aes_xts_init := s31_aes_xts_init,
      t_aes_xts_encrypt_trigger := s31_aes_xts_encrypt_trigger,
      t_aes_xts_wait_data_ready := s31_aes_xts_wait_data_ready,
      t_aes_xts_clear := s31_aes_xts_clear\<rparr>"

end
