(* ===== verification/Chip_Nor.thy ===== *)
theory Chip_Nor
  imports S3_Flash_Props Chip_Flash
begin

text \<open>
  Every chip's flash target meets the contract \<open>nor_target\<close>: how each waits for its controller
  only reads, each sends its commands through some ROM function, and the ESP8266 enables writes
  by the command register. So writing, erasing and reading is correct on all of them.
\<close>

section \<open>Waiting and sending\<close>

lemma busy_wait_either_polls:
  "busy_wait_either r C D w = Some w' \<Longrightarrow> r \<noteq> rd_status_reg S \<Longrightarrow> emits (polls S) w w'"
  by (rule emits_mono [OF busy_wait_either_result]) (auto simp: polls_def)

lemma esp8266_spi_wait_ready_polls: "esp8266_spi_wait_ready w = Some w' \<Longrightarrow> emits (polls esp8266_flash_soc) w w'"
  unfolding esp8266_spi_wait_ready_def by (erule busy_wait_polls) (simp add: esp8266_flash_soc_def regs)

lemma esp32_spi_wait_ready_polls: "esp32_spi_wait_ready w = Some w' \<Longrightarrow> emits (polls esp32_flash_soc) w w'"
  unfolding esp32_spi_wait_ready_def by (erule busy_wait_polls) (simp add: esp32_flash_soc_def regs)

lemma s2_spi_wait_ready_polls: "s2_spi_wait_ready w = Some w' \<Longrightarrow> emits (polls s2_flash_soc) w w'"
  unfolding s2_spi_wait_ready_def bind_eq_Some_conv
  by (elim exE conjE, rule emits_trans, erule busy_wait_polls, simp add: s2_flash_soc_def regs,
      erule busy_wait_polls, simp add: s2_flash_soc_def regs)

lemma c2_spi_wait_ready_polls: "c2_spi_wait_ready w = Some w' \<Longrightarrow> emits (polls c2_flash_soc) w w'"
  unfolding c2_spi_wait_ready_def by (erule busy_wait_polls) (simp add: c2_flash_soc_def regs)

lemma c3_spi_wait_ready_polls: "c3_spi_wait_ready w = Some w' \<Longrightarrow> emits (polls c3_flash_soc) w w'"
  unfolding c3_spi_wait_ready_def bind_eq_Some_conv
  by (elim exE conjE, rule emits_trans, erule busy_wait_polls, simp add: c3_flash_soc_def regs,
      erule busy_wait_polls, simp add: c3_flash_soc_def regs)

lemma c5_spi_wait_ready_polls: "c5_spi_wait_ready w = Some w' \<Longrightarrow> emits (polls c5_flash_soc) w w'"
  unfolding c5_spi_wait_ready_def by (erule busy_wait_polls) (simp add: c5_flash_soc_def regs)

lemma c6_spi_wait_ready_polls: "c6_spi_wait_ready w = Some w' \<Longrightarrow> emits (polls c6_flash_soc) w w'"
  unfolding c6_spi_wait_ready_def by (erule busy_wait_either_polls) (simp add: c6_flash_soc_def regs)

lemma c61_spi_wait_ready_polls: "c61_spi_wait_ready w = Some w' \<Longrightarrow> emits (polls c61_flash_soc) w w'"
  unfolding c61_spi_wait_ready_def by (erule busy_wait_either_polls) (simp add: c61_flash_soc_def regs)

lemma h2_spi_wait_ready_polls: "h2_spi_wait_ready w = Some w' \<Longrightarrow> emits (polls h2_flash_soc) w w'"
  unfolding h2_spi_wait_ready_def by (erule busy_wait_either_polls) (simp add: h2_flash_soc_def regs)

lemma h21_spi_wait_ready_polls: "h21_spi_wait_ready w = Some w' \<Longrightarrow> emits (polls h21_flash_soc) w w'"
  unfolding h21_spi_wait_ready_def by (erule busy_wait_either_polls) (simp add: h21_flash_soc_def regs)

lemma h4_spi_wait_ready_polls: "h4_spi_wait_ready w = Some w' \<Longrightarrow> emits (polls h4_flash_soc) w w'"
  unfolding h4_spi_wait_ready_def by (erule busy_wait_either_polls) (simp add: h4_flash_soc_def regs)

lemma p4_spi_wait_ready_polls: "p4_spi_wait_ready w = Some w' \<Longrightarrow> emits (polls p4_flash_soc) w w'"
  unfolding p4_spi_wait_ready_def by (erule busy_wait_either_polls) (simp add: p4_flash_soc_def regs)

lemma s31_spi_wait_ready_polls: "s31_spi_wait_ready w = Some w' \<Longrightarrow> emits (polls s31_flash_soc) w w'"
  unfolding s31_spi_wait_ready_def by (erule busy_wait_either_polls) (simp add: s31_flash_soc_def regs)

lemma exec_by_eco:
  assumes "(let (eco, w) = cell_read (RomVar x) w
      in Some (rom_exec_flash_cmd (f eco) p w)) = Some (out, w')" and "\<And>eco. exec_fn (f eco)"
  shows "\<exists>f u. exec_fn f \<and> emits (polls S) w u \<and> rom_exec_flash_cmd f p u = (out, w')"
proof -
  let ?u = "after w [Rd (RomVar x) (peek (RomVar x) w)]"
  have "rom_exec_flash_cmd (f (peek (RomVar x) w)) p ?u = (out, w')"
    using assms(1) by (simp add: prim_eq)
  moreover have "emits (polls S) w ?u" by (simp add: emits_after polls_def)
  ultimately show ?thesis using assms(2) by blast
qed

lemma c5_exec_rom:
  assumes "c5_opiflash_exec_cmd p w = Some (out, w')"
  shows "\<exists>f u. exec_fn f \<and> emits (polls c5_flash_soc) w u \<and> rom_exec_flash_cmd f p u = (out, w')"
  by (rule exec_by_eco [OF assms [unfolded c5_opiflash_exec_cmd_def]]) simp

lemma c61_exec_rom:
  assumes "c61_opiflash_exec_cmd p w = Some (out, w')"
  shows "\<exists>f u. exec_fn f \<and> emits (polls c61_flash_soc) w u \<and> rom_exec_flash_cmd f p u = (out, w')"
  by (rule exec_by_eco [OF assms [unfolded c61_opiflash_exec_cmd_def]]) simp

lemma p4_exec_rom:
  assumes "p4_opiflash_exec_cmd p w = Some (out, w')"
  shows "\<exists>f u. exec_fn f \<and> emits (polls p4_flash_soc) w u \<and> rom_exec_flash_cmd f p u = (out, w')"
  by (rule exec_by_eco [OF assms [unfolded p4_opiflash_exec_cmd_def]]) simp

lemma s31_exec_rom:
  assumes "s31_opiflash_exec_cmd p w = Some (out, w')"
  shows "\<exists>f u. exec_fn f \<and> emits (polls s31_flash_soc) w u \<and> rom_exec_flash_cmd f p u = (out, w')"
proof -
  have "rom_exec_flash_cmd Esp_rom_opiflash_exec_cmd p w = (out, w')"
    using assms by (simp add: s31_opiflash_exec_cmd_def)
  moreover have "emits (polls s31_flash_soc) w w" by (rule emits_refl)
  ultimately show ?thesis using exec_fn.simps(1) by blast
qed

lemma h4_exec_rom:
  assumes "h4_opiflash_exec_cmd p w = Some (out, w')"
  shows "\<exists>f u. exec_fn f \<and> emits (polls h4_flash_soc) w u \<and> rom_exec_flash_cmd f p u = (out, w')"
  by (rule exec_by_eco [OF assms [unfolded h4_opiflash_exec_cmd_def]]) simp

text \<open>The ESP8266 enables writes by the command register.\<close>

lemma esp8266_write_enable_chip:
  assumes "esp8266_flash_write_enable w = Some w'" and idle: "\<not> cbusy (flash_chip esp8266_flash_soc m w)"
  shows "flash_chip esp8266_flash_soc m w' = (flash_chip esp8266_flash_soc m w)\<lparr>cwel := True\<rparr> \<and>
    large_flash_mode w' = large_flash_mode w"
proof -
  let ?S = esp8266_flash_soc
  define c where "c v = after v [Wr (Mmio (cmd_reg ?S)) (BIT 30)]" for v :: "'a flash_world_scheme"
  have regs_eq: "esp8266_SPI_CMD_REG = cmd_reg ?S" "esp8266_SPI_FLASH_WREN = BIT 30"
    and ne: "cmd_reg ?S \<noteq> rd_status_reg ?S" "cmd_reg ?S \<noteq> addr_reg ?S"
    by (simp_all add: esp8266_flash_soc_def regs BIT_def)
  obtain w1 where w1: "esp8266_spi_wait_ready w = Some w1"
    and w2: "busy_wait (cmd_reg ?S) (\<lambda>v. v \<noteq> 0) (c w1) = Some w'"
    using assms(1) by (auto simp: esp8266_flash_write_enable_def bind_eq_Some_conv regs_eq prim_eq Let_def c_def)
  note e = esp8266_spi_wait_ready_polls [OF w1] busy_wait_polls [OF w2 ne(1)]
  have "flash_chip ?S m (c w1) = (flash_chip ?S m w1)\<lparr>cwel := True\<rparr>"
    using idle flash_chip_emits [OF e(1) polls_step, where m = m] ne by (simp add: c_def chip_defs)
  then show ?thesis
    using flash_chip_emits [OF e(1) polls_step, where m = m] flash_chip_emits [OF e(2) polls_step, where m = m]
      emits_large [OF e(1)] emits_large [OF e(2)] by (simp add: c_def)
qed

lemma esp8266_write_buff_rom:
  assumes "esp8266_flash_write_buff a d n False w = Some (STUB_LIB_OK, w')"
  shows "rom_num (FlashFn Esp_rom_spiflash_write) [a, n] (take (unat n) d) w = (ESP_ROM_SPIFLASH_RESULT_OK, w')"
  using assms by (auto simp: esp8266_flash_write_buff_def rcs split: prod.splits if_splits)

section \<open>The contracts\<close>

lemma weak_target_sel [simp]:
  "t_is_busy (weak_flash_target S sw) = stub_target_flash_is_busy S sw"
  "t_write_enable (weak_flash_target S sw) = stub_target_flash_write_enable"
  "t_erase_sector_start (weak_flash_target S sw) =
     stub_target_flash_erase_sector_start S stub_target_flash_write_enable sw"
  "t_erase_block_start (weak_flash_target S sw) =
     stub_target_flash_erase_block_start S stub_target_flash_write_enable sw"
  "t_read_buff (weak_flash_target S sw) = stub_target_flash_read_buff"
  "t_write_buff (weak_flash_target S sw) = stub_target_flash_write_buff"
  "t_4byte_addr_supported (weak_flash_target S sw) = False"
  by (simp_all add: weak_flash_target_def)

interpretation esp8266: nor_target esp8266_flash_soc esp8266_flash_target esp8266_spi_wait_ready
  esp8266_flash_write_enable
proof (unfold_locales, goal_cases)
  case (3 w w')
  then show ?case by (rule esp8266_spi_wait_ready_polls)
next
  case (4 w w' m)
  then show ?case by (rule esp8266_write_enable_chip)
next
  case (10 a d n w w')
  then show ?case by (intro esp8266_write_buff_rom) (simp add: esp8266_flash_target_def)
qed (simp_all add: esp8266_flash_soc_def esp8266_flash_target_def regs BIT_def)

interpretation esp32: nor_target esp32_flash_soc esp32_flash_target esp32_spi_wait_ready
  stub_target_flash_write_enable
proof (rule generic_nor_target, goal_cases)
  case (3 w w')
  then show ?case by (rule esp32_spi_wait_ready_polls)
qed (simp_all add: esp32_flash_soc_def esp32_flash_target_def regs BIT_def)

interpretation s2: nor_target s2_flash_soc s2_flash_target s2_spi_wait_ready
  stub_target_flash_write_enable
proof (rule generic_nor_target, goal_cases)
  case (3 w w')
  then show ?case by (rule s2_spi_wait_ready_polls)
qed (simp_all add: s2_flash_soc_def s2_flash_target_def regs BIT_def)

interpretation c2: nor_target c2_flash_soc c2_flash_target c2_spi_wait_ready
  stub_target_flash_write_enable
proof (rule generic_nor_target, goal_cases)
  case (3 w w')
  then show ?case by (rule c2_spi_wait_ready_polls)
qed (simp_all add: c2_flash_soc_def c2_flash_target_def regs BIT_def)

interpretation c3: nor_target c3_flash_soc c3_flash_target c3_spi_wait_ready
  stub_target_flash_write_enable
proof (rule generic_nor_target, goal_cases)
  case (3 w w')
  then show ?case by (rule c3_spi_wait_ready_polls)
qed (simp_all add: c3_flash_soc_def c3_flash_target_def regs BIT_def)

interpretation c5: nor_target c5_flash_soc c5_flash_target c5_spi_wait_ready
  stub_target_flash_write_enable
proof (rule generic_nor_target, goal_cases)
  case (3 w w')
  then show ?case by (rule c5_spi_wait_ready_polls)
next
  case (10 p w out w')
  then have "c5_opiflash_exec_cmd p w = Some (out, w')" by (simp add: c5_flash_target_def)
  then show ?case by (rule c5_exec_rom)
qed (simp_all add: c5_flash_soc_def c5_flash_target_def regs BIT_def)

interpretation c6: nor_target c6_flash_soc c6_flash_target c6_spi_wait_ready
  stub_target_flash_write_enable
proof (rule generic_nor_target, goal_cases)
  case (3 w w')
  then show ?case by (rule c6_spi_wait_ready_polls)
qed (simp_all add: c6_flash_soc_def c6_flash_target_def regs BIT_def)

interpretation c61: nor_target c61_flash_soc c61_flash_target c61_spi_wait_ready
  stub_target_flash_write_enable
proof (rule generic_nor_target, goal_cases)
  case (3 w w')
  then show ?case by (rule c61_spi_wait_ready_polls)
next
  case (10 p w out w')
  then have "c61_opiflash_exec_cmd p w = Some (out, w')" by (simp add: c61_flash_target_def)
  then show ?case by (rule c61_exec_rom)
qed (simp_all add: c61_flash_soc_def c61_flash_target_def regs BIT_def)

interpretation h2: nor_target h2_flash_soc h2_flash_target h2_spi_wait_ready
  stub_target_flash_write_enable
proof (rule generic_nor_target, goal_cases)
  case (3 w w')
  then show ?case by (rule h2_spi_wait_ready_polls)
qed (simp_all add: h2_flash_soc_def h2_flash_target_def regs BIT_def)

interpretation h21: nor_target h21_flash_soc h21_flash_target h21_spi_wait_ready
  stub_target_flash_write_enable
proof (rule generic_nor_target, goal_cases)
  case (3 w w')
  then show ?case by (rule h21_spi_wait_ready_polls)
qed (simp_all add: h21_flash_soc_def h21_flash_target_def regs BIT_def)

interpretation h4: nor_target h4_flash_soc h4_flash_target h4_spi_wait_ready
  stub_target_flash_write_enable
proof (rule generic_nor_target, goal_cases)
  case (3 w w')
  then show ?case by (rule h4_spi_wait_ready_polls)
next
  case (10 p w out w')
  then have "h4_opiflash_exec_cmd p w = Some (out, w')" by (simp add: h4_flash_target_def)
  then show ?case by (rule h4_exec_rom)
qed (simp_all add: h4_flash_soc_def h4_flash_target_def regs BIT_def)

interpretation p4: nor_target p4_flash_soc p4_flash_target p4_spi_wait_ready
  stub_target_flash_write_enable
proof (rule generic_nor_target, goal_cases)
  case (3 w w')
  then show ?case by (rule p4_spi_wait_ready_polls)
next
  case (10 p w out w')
  then have "p4_opiflash_exec_cmd p w = Some (out, w')" by (simp add: p4_flash_target_def)
  then show ?case by (rule p4_exec_rom)
qed (simp_all add: p4_flash_soc_def p4_flash_target_def regs BIT_def)

interpretation s31: nor_target s31_flash_soc s31_flash_target s31_spi_wait_ready
  stub_target_flash_write_enable
proof (rule generic_nor_target, goal_cases)
  case (3 w w')
  then show ?case by (rule s31_spi_wait_ready_polls)
next
  case (10 p w out w')
  then have "s31_opiflash_exec_cmd p w = Some (out, w')" by (simp add: s31_flash_target_def)
  then show ?case by (rule s31_exec_rom)
qed (simp_all add: s31_flash_soc_def s31_flash_target_def regs BIT_def)

section \<open>What the flash API does on every chip\<close>

text \<open>
  For concrete runs: a world whose registers read 0 and whose ROM functions return 0 and, the
  reading ones, what the chip holds, with or without four byte addresses.
\<close>

definition nor_world :: "flash_soc \<Rightarrow> image \<Rightarrow> bool \<Rightarrow> flash_world" where
  "nor_world S m large =
     \<lparr>rd_dev = \<lambda>_ _. 0,
      rom_dev = \<lambda>es f args d.
        (0, if case f of FlashFn g \<Rightarrow> exec_fn g | _ \<Rightarrow> False
            then image_bytes (cmem (chip_of S m es)) (args ! 4) (unat (args ! 9) div 8)
            else if f = FlashFn Esp_rom_spiflash_read
            then image_bytes (cmem (chip_of S m es)) (args ! 0) (unat (args ! 1))
            else []),
      mem_dev = \<lambda>_ _ n. replicate n 0, sym_addr = \<lambda>_. 0, trace = [], large_flash_mode = large\<rparr>"

lemma flash_mem_nor_world [simp]: "flash_mem S m (nor_world S' m' l) = m"
  by (simp add: flash_mem_def flash_chip_def chip_of_def nor_world_def)

text \<open>
  C1: On each of the fourteen chips an unencrypted write of any address and size that
  reports success has programmed exactly the given bytes: every byte of the range is ANDed
  with its data byte and every other byte of the flash is as before, whether the write went
  out through the ROM or, in large flash mode, page by page through four byte commands, and
  with any unaligned head and tail.
\<close>

lemma flash_write_on_every_chip:
  "writes_exactly esp8266_flash_soc esp8266_flash_target \<and>
     writes_exactly esp32_flash_soc esp32_flash_target \<and>
     writes_exactly s2_flash_soc s2_flash_target \<and>
     writes_exactly s3_flash_soc s3_flash_target \<and>
     writes_exactly c2_flash_soc c2_flash_target \<and>
     writes_exactly c3_flash_soc c3_flash_target \<and>
     writes_exactly c5_flash_soc c5_flash_target \<and>
     writes_exactly c6_flash_soc c6_flash_target \<and>
     writes_exactly c61_flash_soc c61_flash_target \<and>
     writes_exactly h2_flash_soc h2_flash_target \<and>
     writes_exactly h21_flash_soc h21_flash_target \<and>
     writes_exactly h4_flash_soc h4_flash_target \<and>
     writes_exactly p4_flash_soc p4_flash_target \<and>
     writes_exactly s31_flash_soc s31_flash_target"
  by (intro conjI esp8266.writes esp32.writes s2.writes s3.writes c2.writes c3.writes c5.writes c6.writes c61.writes h2.writes h21.writes h4.writes
      p4.writes s31.writes)

text \<open>On the ESP32-C61, five bytes across a page boundary by four byte commands.\<close>

lemma flash_write_on_every_chip_witness:
  "\<exists>w'. stub_lib_flash_write_buff (c61_flash_target :: (unit, unit) ftarget) 0x10FD [1, 2, 3, 4, 5] 5 False
        (nor_world c61_flash_soc (\<lambda>_. 0xFF) True) = Some (STUB_LIB_OK, w') \<and>
     flash_mem c61_flash_soc (\<lambda>_. 0xFF) w' = program 0x10FD [1, 2, 3, 4, 5] (\<lambda>_. 0xFF)"
proof -
  let ?w = "nor_world c61_flash_soc (\<lambda>_. 0xFF) True"
  have "gives (stub_lib_flash_write_buff (c61_flash_target :: (unit, unit) ftarget) 0x10FD [1, 2, 3, 4, 5] 5 False ?w)
    (\<lambda>r. r = STUB_LIB_OK)" by code_simp
  then obtain w' where w: "stub_lib_flash_write_buff (c61_flash_target :: (unit, unit) ftarget) 0x10FD [1, 2, 3, 4, 5] 5 False ?w =
    Some (STUB_LIB_OK, w')" by (rule givesE)
  have "writes_exactly c61_flash_soc (c61_flash_target :: (unit, unit) ftarget)"
    using flash_write_on_every_chip by blast
  from writes_exactlyD [OF this w, where m = "\<lambda>_. 0xFF"] w show ?thesis by simp
qed

text \<open>
  C2: On each of the fourteen chips an area erase that reports success has set exactly the
  bytes of the area to 0xFF and left the flash idle, by any mix of sector and block erases;
  where four byte addresses are not in use this needs the area to lie in the first 16 MiB.
\<close>

lemma flash_erase_on_every_chip:
  "erases_exactly esp8266_flash_soc esp8266_flash_target \<and>
     erases_exactly esp32_flash_soc esp32_flash_target \<and>
     erases_exactly s2_flash_soc s2_flash_target \<and>
     erases_exactly s3_flash_soc s3_flash_target \<and>
     erases_exactly c2_flash_soc c2_flash_target \<and>
     erases_exactly c3_flash_soc c3_flash_target \<and>
     erases_exactly c5_flash_soc c5_flash_target \<and>
     erases_exactly c6_flash_soc c6_flash_target \<and>
     erases_exactly c61_flash_soc c61_flash_target \<and>
     erases_exactly h2_flash_soc h2_flash_target \<and>
     erases_exactly h21_flash_soc h21_flash_target \<and>
     erases_exactly h4_flash_soc h4_flash_target \<and>
     erases_exactly p4_flash_soc p4_flash_target \<and>
     erases_exactly s31_flash_soc s31_flash_target"
  by (intro conjI esp8266.erases esp32.erases s2.erases s3.erases c2.erases c3.erases c5.erases c6.erases c61.erases h2.erases h21.erases h4.erases
      p4.erases s31.erases)

text \<open>On the ESP32, two sectors and a block with 24 bit addresses.\<close>

lemma flash_erase_on_every_chip_witness:
  "\<exists>w'. stub_lib_flash_erase_area esp32_flash_target 0xE000 0x12000 (nor_world esp32_flash_soc (\<lambda>_. 0) False) =
       Some (STUB_LIB_OK, w') \<and>
     flash_mem esp32_flash_soc (\<lambda>_. 0) w' = erase 0xE000 0x12000 (\<lambda>_. 0)"
proof -
  let ?w = "nor_world esp32_flash_soc (\<lambda>_. 0) False"
  have "gives (stub_lib_flash_erase_area esp32_flash_target 0xE000 0x12000 ?w) (\<lambda>r. r = STUB_LIB_OK)"
    by code_simp
  then obtain w' where w: "stub_lib_flash_erase_area esp32_flash_target 0xE000 0x12000 ?w =
    Some (STUB_LIB_OK, w')" by (rule givesE)
  have "erases_exactly esp32_flash_soc (esp32_flash_target :: (esp32_flash_state, unit) ftarget)"
    using flash_erase_on_every_chip by blast
  from erases_exactlyD [OF this w, where m = "\<lambda>_. 0"] w show ?thesis by simp
qed

text \<open>
  C3: On each of the fourteen chips a read that reports success returns the bytes the flash
  holds at the address, all of them and in order, and leaves the flash unchanged.
\<close>

lemma flash_read_on_every_chip:
  "reads_exactly esp8266_flash_soc esp8266_flash_target \<and>
     reads_exactly esp32_flash_soc esp32_flash_target \<and>
     reads_exactly s2_flash_soc s2_flash_target \<and>
     reads_exactly s3_flash_soc s3_flash_target \<and>
     reads_exactly c2_flash_soc c2_flash_target \<and>
     reads_exactly c3_flash_soc c3_flash_target \<and>
     reads_exactly c5_flash_soc c5_flash_target \<and>
     reads_exactly c6_flash_soc c6_flash_target \<and>
     reads_exactly c61_flash_soc c61_flash_target \<and>
     reads_exactly h2_flash_soc h2_flash_target \<and>
     reads_exactly h21_flash_soc h21_flash_target \<and>
     reads_exactly h4_flash_soc h4_flash_target \<and>
     reads_exactly p4_flash_soc p4_flash_target \<and>
     reads_exactly s31_flash_soc s31_flash_target"
  by (intro conjI esp8266.reads esp32.reads s2.reads s3.reads c2.reads c3.reads c5.reads c6.reads c61.reads h2.reads h21.reads h4.reads
      p4.reads s31.reads)

text \<open>On the ESP32-C5, twenty bytes by four byte commands.\<close>

lemma flash_read_on_every_chip_witness:
  "\<exists>w'. stub_lib_flash_read_buff (c5_flash_target :: (unit, unit) ftarget) 0x1000 20 (nor_world c5_flash_soc (\<lambda>x. ucast x) True) =
       Some ((STUB_LIB_OK, image_bytes (\<lambda>x. ucast x) 0x1000 20), w')"
proof -
  let ?m = "\<lambda>x. ucast x :: u8" and ?w = "nor_world c5_flash_soc (\<lambda>x. ucast x) True"
  have "gives (stub_lib_flash_read_buff (c5_flash_target :: (unit, unit) ftarget) 0x1000 20 ?w) (\<lambda>r. fst r = STUB_LIB_OK)"
    by code_simp
  then obtain bs w' where w: "stub_lib_flash_read_buff (c5_flash_target :: (unit, unit) ftarget) 0x1000 20 ?w = Some ((STUB_LIB_OK, bs), w')"
    by (auto simp: gives_def split: option.splits)
  have "reads_chip c5_flash_soc ?m ?w" by (auto simp: reads_chip_def nor_world_def)
  moreover have "reads_exactly c5_flash_soc (c5_flash_target :: (unit, unit) ftarget)"
    using flash_read_on_every_chip by blast
  ultimately show ?thesis using reads_exactlyD [OF _ w, where m = ?m] w by simp
qed

end
