(* ===== verification/Chip_Encrypt.thy ===== *)
theory Chip_Encrypt
  imports Chip_Nor
begin

text \<open>
  Encrypted writes seen at the AES-XTS engine. A model of the engine reads what it is asked to
  encrypt off the trace; the locale \<open>xts_target\<close> is what a flash target with an engine brings
  to it, and is interpreted on the six chips that have one.
\<close>

section \<open>The engine\<close>

text \<open>
  The registers of an engine, and its state: the 64 bytes of plaintext, the address, the
  block size code, the destination, and the blocks it was started on, each the address with
  the bytes it took. When started the engine takes 16, 32 or 64 bytes, by the size code, from
  the place in its buffer that the address has within 64 bytes, and only if the destination
  is the flash.
\<close>

record xts_regs =
  x_size :: u32
  x_plain :: u32
  x_addr :: u32
  x_dest :: u32
  x_trigger :: u32

record xts_engine =
  e_plain :: "nat \<Rightarrow> u8"
  e_addr :: u32
  e_size :: u32
  e_dest :: u32
  e_taken :: "(u32 \<times> u8 list) list"

definition xts_store :: "nat \<Rightarrow> u8 list \<Rightarrow> (nat \<Rightarrow> u8) \<Rightarrow> nat \<Rightarrow> u8" where
  "xts_store k bs p i = (if k \<le> i \<and> i < k + length bs \<and> i < 64 then bs ! (i - k) else p i)"

definition xts_take :: "xts_engine \<Rightarrow> u8 list" where
  "xts_take s = map (\<lambda>i. e_plain s (unat (e_addr s) mod 64 + i)) [0..<16 * 2 ^ unat (e_size s)]"

definition xts_step :: "xts_regs \<Rightarrow> ev \<Rightarrow> xts_engine \<Rightarrow> xts_engine" where
  "xts_step R e s =
     (case e of
        St b bs \<Rightarrow> s\<lparr>e_plain := xts_store (unat (b - x_plain R)) bs (e_plain s)\<rparr>
      | Wr (Mmio r) v \<Rightarrow>
          if r = x_size R then s\<lparr>e_size := v\<rparr>
          else if r = x_addr R then s\<lparr>e_addr := v\<rparr>
          else if r = x_dest R then s\<lparr>e_dest := v\<rparr>
          else if r = x_trigger R \<and> v = 1 \<and> e_dest s = 0
          then s\<lparr>e_taken := e_taken s @ [(e_addr s, xts_take s)]\<rparr> else s
      | _ \<Rightarrow> s)"

text \<open>The engine after a trace; it leaves reset with another destination than the flash.\<close>

definition xts_engine_of :: "xts_regs \<Rightarrow> ev list \<Rightarrow> xts_engine" where
  "xts_engine_of R es = fold (xts_step R) es
     \<lparr>e_plain = \<lambda>_. 0, e_addr = 0, e_size = 0, e_dest = 1, e_taken = []\<rparr>"

definition xts_blocks :: "xts_regs \<Rightarrow> 'a world_scheme \<Rightarrow> (u32 \<times> u8 list) list" where
  "xts_blocks R w = e_taken (xts_engine_of R (trace w))"

text \<open>Blocks that follow one another from an address, and each aligned to its own length.\<close>

fun contiguous :: "u32 \<Rightarrow> (u32 \<times> u8 list) list \<Rightarrow> bool" where
  "contiguous a [] \<longleftrightarrow> True"
| "contiguous a ((b, bs) # r) \<longleftrightarrow> b = a \<and> contiguous (a + of_nat (length bs)) r"

definition block_ok :: "u32 \<times> u8 list \<Rightarrow> bool" where
  "block_ok x \<longleftrightarrow> length (snd x) \<in> {16, 32, 64} \<and> length (snd x) dvd unat (fst x)"

text \<open>Events the engine does not notice.\<close>

definition not_xts :: "xts_regs \<Rightarrow> ev \<Rightarrow> bool" where
  "not_xts R e \<longleftrightarrow> (case e of
     St b bs \<Rightarrow> False
   | Wr (Mmio r) v \<Rightarrow> r \<notin> {x_size R, x_addr R, x_dest R, x_trigger R}
   | _ \<Rightarrow> True)"

lemma not_xts_simps [simp]:
  "not_xts R (Rd c v)" "not_xts R (Call f args d r out)"
  "not_xts R (Wr (Mmio r) v) \<longleftrightarrow> r \<notin> {x_size R, x_addr R, x_dest R, x_trigger R}"
  by (simp_all add: not_xts_def)

lemma not_xts_step: "not_xts R e \<Longrightarrow> xts_step R e s = s"
  by (auto simp: not_xts_def xts_step_def split: ev.splits cell.splits)

lemma xts_engine_emits:
  assumes "emits (not_xts R) w w'"
  shows "xts_engine_of R (trace w') = xts_engine_of R (trace w)"
proof -
  obtain es where es: "list_all (not_xts R) es" "w' = after w es" using assms by (rule emitsE)
  have "fold (xts_step R) es s = s" for s
    using es(1) by (induction es arbitrary: s) (auto simp: not_xts_step)
  then show ?thesis using es(2) by (simp add: xts_engine_of_def)
qed

text \<open>
  What an encrypted write in large flash mode that reports success has handed the engine: the
  data, in blocks that follow one another from the address.
\<close>

definition encrypts_exactly :: "xts_regs \<Rightarrow> ('s, 'a) ftarget \<Rightarrow> bool" where
  "encrypts_exactly R T \<longleftrightarrow> (\<forall>a d sz w w'.
     stub_lib_flash_write_buff T a d sz True w = Some (STUB_LIB_OK, w') \<and> large_flash_mode w \<and>
     unat sz \<le> length d \<longrightarrow>
     (\<exists>blks. xts_blocks R w' = xts_blocks R w @ blks \<and> concat (map snd blks) = take (unat sz) d \<and>
       contiguous a blks \<and> list_all block_ok blks))"

lemma encrypts_exactlyD:
  assumes "encrypts_exactly R T" "stub_lib_flash_write_buff T a d sz True w = Some (STUB_LIB_OK, w')"
    "large_flash_mode w" "unat sz \<le> length d"
  shows "\<exists>blks. xts_blocks R w' = xts_blocks R w @ blks \<and> concat (map snd blks) = take (unat sz) d \<and>
    contiguous a blks \<and> list_all block_ok blks"
  using assms unfolding encrypts_exactly_def by blast

section \<open>Handing over one block\<close>

lemma xts_take_stored:
  fixes a n x :: u32
  assumes n: "unat n \<in> {16, 32, 64}" "unat n dvd unat a" "unat n \<le> length d"
  shows "xts_take \<lparr>e_plain = xts_store (unat (a mod MAX_ENCRYPT_BLOCK)) (take (unat n) d) p, e_addr = a,
      e_size = drop_bit 5 n, e_dest = x, e_taken = t\<rparr> = take (unat n) d"
proof -
  have off: "unat (a mod MAX_ENCRYPT_BLOCK) = unat a mod 64"
    by (simp add: regs unat_mod)
  have code: "16 * 2 ^ unat (drop_bit 5 n) = unat n"
    using n(1) by (auto simp: unat_drop_bit_eq drop_bit_nat_def)
  have room: "unat a mod 64 + unat n \<le> 64"
  proof -
    have "unat n dvd unat a mod 64" using n(1,2) by (auto simp: dvd_mod)
    moreover have "unat a mod 64 < 64" by simp
    ultimately show ?thesis using n(1) by (auto elim!: dvdE)
  qed
  show ?thesis
    using room n(3)
    by (intro nth_equalityI) (auto simp: xts_take_def code off xts_store_def)
qed

lemma xts_trigger_engine:
  fixes a n :: u32
  assumes "distinct [x_size R, x_addr R, x_dest R, x_trigger R]" "e_dest (xts_engine_of R es) = 0"
    and n: "unat n \<in> {16, 32, 64}" "unat n dvd unat a" "unat n \<le> length d"
  defines "E \<equiv> xts_engine_of R (es @ [Wr (Mmio (x_size R)) (drop_bit 5 n),
      St (x_plain R + a mod MAX_ENCRYPT_BLOCK) (take (unat n) d), Wr (Mmio (x_addr R)) a, Wr (Mmio (x_trigger R)) 1])"
  shows "e_taken E = e_taken (xts_engine_of R es) @ [(a, take (unat n) d)] \<and> e_dest E = 0"
proof -
  define s where "s = xts_engine_of R es"
  have E: "E = fold (xts_step R) [Wr (Mmio (x_size R)) (drop_bit 5 n),
      St (x_plain R + a mod MAX_ENCRYPT_BLOCK) (take (unat n) d), Wr (Mmio (x_addr R)) a, Wr (Mmio (x_trigger R)) 1] s"
    by (simp add: E_def s_def xts_engine_of_def)
  have ne: "x_addr R \<noteq> x_size R" "x_trigger R \<noteq> x_size R" "x_trigger R \<noteq> x_addr R" "x_trigger R \<noteq> x_dest R"
    using assms(1) by auto
  show ?thesis
    using assms(2) ne xts_take_stored [OF n, where p = "e_plain s" and x = 0 and t = "e_taken s"]
    by (cases s) (simp add: E xts_step_def s_def [symmetric])
qed

lemma block_size_cases:
  fixes a sz :: u32
  assumes "16 dvd unat a" "16 dvd unat sz" "sz \<noteq> 0"
  defines "c \<equiv> ucast (get_write_block_size_encrypted a sz (STUB_FLASH_PAGE_SIZE - a mod STUB_FLASH_PAGE_SIZE)) :: u32"
  shows "unat c \<in> {16, 32, 64}" "unat c dvd unat a" "unat c \<le> unat sz" "unat (sz - c) = unat sz - unat c"
    "16 dvd unat (a + c)" "16 dvd unat (sz - c)" "unat (sz - c) < unat sz"
proof -
  have sz: "16 \<le> unat sz" using assms(2,3) by (auto simp: unat_gt_0 dvd_imp_le)
  have "unat c \<in> {16, 32, 64} \<and> unat c dvd unat a \<and> unat c \<le> unat sz"
    using assms(1) sz
    by (auto simp: c_def get_write_block_size_encrypted_def IS_ALIGNED_64 IS_ALIGNED_32 word_le_nat_alt)
  then show c: "unat c \<in> {16, 32, 64}" "unat c dvd unat a" "unat c \<le> unat sz" by auto
  then have d16: "16 dvd unat c" by auto
  show d: "unat (sz - c) = unat sz - unat c" using c by (simp add: unat_diff word_le_nat_alt)
  show "16 dvd unat (a + c)" using d16 assms(1) by (simp add: unat_word_ariths dvd_mod_iff)
  show "16 dvd unat (sz - c)" unfolding d using d16 assms(2) by simp
  show "unat (sz - c) < unat sz" using c d by auto
qed

section \<open>What a target with an engine brings\<close>

locale xts_target = nor_target S T spi_wait_ready write_enable
  for S :: flash_soc and T :: "('s, 'a) ftarget"
    and spi_wait_ready write_enable :: "'a flash_world_scheme \<Rightarrow> 'a flash_world_scheme option" +
  fixes R :: xts_regs
  assumes xts_distinct: "distinct [x_size R, x_addr R, x_dest R, x_trigger R]"
    and xts_apart: "{cmd_reg S, rd_status_reg S} \<inter> {x_size R, x_addr R, x_dest R, x_trigger R} = {}"
    and large: "t_4byte_addr_supported T"
    and xts_init: "t_aes_xts_init T w = Some w' \<Longrightarrow>
      \<exists>v. emits (not_xts R) w v \<and> w' = after v [Wr (Mmio (x_dest R)) 0]"
    and xts_trigger: "t_aes_xts_encrypt_trigger T a d n w = Some (after w
      [Wr (Mmio (x_size R)) (drop_bit 5 n), St (x_plain R + a mod MAX_ENCRYPT_BLOCK) (take (unat n) d),
       Wr (Mmio (x_addr R)) a, Wr (Mmio (x_trigger R)) 1])"
    and xts_wait: "t_aes_xts_wait_data_ready T t w = Some (res, w') \<Longrightarrow> emits (not_xts R) w w'"
    and xts_clear: "t_aes_xts_clear T w = Some w' \<Longrightarrow> emits (not_xts R) w w'"
    and xts_wren: "write_enable w = Some w' \<Longrightarrow> emits (not_xts R) w w'"
    and xts_unlock: "t_unlock T w = Some (res, w') \<Longrightarrow> emits (not_xts R) w w'"
    and xts_enable: "t_write_encrypted_enable T w = Some w' \<Longrightarrow> emits (not_xts R) w w'"
    and xts_disable: "t_write_encrypted_disable T w = Some w' \<Longrightarrow> emits (not_xts R) w w'"
begin

lemma poll_not_xts: "poll_ev S e \<Longrightarrow> not_xts R e"
  using xts_apart by (auto simp: poll_ev_def not_xts_def split: ev.splits cell.splits)

lemma wait_not_xts: "stub_lib_flash_wait_ready T t w = Some (res, w') \<Longrightarrow> emits (not_xts R) w w'"
  by (rule emits_mono [OF wait_ready_emits poll_not_xts])

lemma exec_not_xts: "exec_write_cmd_4b T n a d l w = Some w' \<Longrightarrow> emits (not_xts R) w w'"
proof -
  assume "exec_write_cmd_4b T n a d l w = Some w'"
  then obtain p out where "t_opiflash_exec_cmd T p w = Some (out, w')"
    by (auto simp: exec_write_cmd_4b_def)
  from exec [OF large this] obtain f u where u: "emits (polls S) w u" "rom_exec_flash_cmd f p u = (out, w')"
    by blast
  have "emits (not_xts R) w u"
    by (rule emits_mono [OF u(1)]) (auto simp: polls_def not_xts_def split: ev.splits)
  moreover have "emits (not_xts R) u w'"
    using u(2) by (auto simp: rom_exec_flash_cmd_def prim_eq intro!: emits_after)
  ultimately show "emits (not_xts R) w w'" by (rule emits_trans)
qed

lemma one_block:
  assumes trig: "t_aes_xts_encrypt_trigger T a d n w = Some w1" and rest: "emits (not_xts R) w1 w'"
    and dest: "e_dest (xts_engine_of R (trace w)) = 0"
    and n: "unat n \<in> {16, 32, 64}" "unat n dvd unat a" "unat n \<le> length d"
  shows "xts_blocks R w' = xts_blocks R w @ [(a, take (unat n) d)] \<and> e_dest (xts_engine_of R (trace w')) = 0"
  using trig xts_trigger_engine [OF xts_distinct dest n]
  by (auto simp: xts_blocks_def xts_engine_emits [OF rest] xts_trigger)

lemma write_loop_blocks:
  assumes "write_loop_encrypted T n t a d sz w = Some (STUB_LIB_OK, w')"
    and "16 dvd unat a" "16 dvd unat sz" "unat sz \<le> length d" "e_dest (xts_engine_of R (trace w)) = 0"
  shows "\<exists>blks. xts_blocks R w' = xts_blocks R w @ blks \<and>
    concat (map snd blks) = take (unat sz) d \<and> contiguous a blks \<and> list_all block_ok blks"
  using assms
proof (induction "unat sz" arbitrary: a d sz w rule: less_induct)
  case less
  define c where "c = (ucast (get_write_block_size_encrypted a sz
     (STUB_FLASH_PAGE_SIZE - a mod STUB_FLASH_PAGE_SIZE)) :: u32)"
  show ?case
  proof (cases "sz > 0")
    case False
    then have "sz = 0" by (simp add: word_gt_0)
    then show ?thesis using less(2) by (subst (asm) write_loop_encrypted.simps) (auto intro: exI [of _ "[]"])
  next
    case True
    then have nz: "sz \<noteq> 0" by auto
    note cc = block_size_cases [OF less(3,4) nz, folded c_def]
    obtain w1 w2 w3 w4 w5 w6 where
        w1: "t_aes_xts_encrypt_trigger T a d c w = Some w1"
      and w2: "write_enable w1 = Some w2"
      and w3: "t_aes_xts_wait_data_ready T t w2 = Some (STUB_LIB_OK, w3)"
      and w4: "exec_write_cmd_4b T n a None (8 * c - 1) w3 = Some w4"
      and w5: "t_aes_xts_clear T w4 = Some w5"
      and w6: "stub_lib_flash_wait_ready T t w5 = Some (STUB_LIB_OK, w6)"
      and rest: "write_loop_encrypted T n t (a + c) (drop (unat c) d) (sz - c) w6 = Some (STUB_LIB_OK, w')"
      using less(2) True
      by (subst (asm) write_loop_encrypted.simps)
        (auto simp: bind_eq_Some_conv Let_def c_def [symmetric] rcs link split: if_splits)
    have "emits (not_xts R) w1 w6"
      using xts_wren [OF w2] xts_wait [OF w3] exec_not_xts [OF w4] xts_clear [OF w5] wait_not_xts [OF w6]
      by (blast intro: emits_trans)
    moreover have "unat c \<le> length d" using cc(3) less(5) by simp
    ultimately have blk: "xts_blocks R w6 = xts_blocks R w @ [(a, take (unat c) d)]"
        "e_dest (xts_engine_of R (trace w6)) = 0"
      using one_block [OF w1 _ less(6) cc(1,2)] by auto
    obtain blks where b: "xts_blocks R w' = xts_blocks R w6 @ blks"
        "concat (map snd blks) = take (unat (sz - c)) (drop (unat c) d)" "contiguous (a + c) blks"
        "list_all block_ok blks"
      using less(1) [OF cc(7) rest cc(5,6) _ blk(2)] less(5) cc(4) by (auto simp: diff_le_mono)
    have "length (take (unat c) d) = unat c" using cc(3) less(5) by simp
    then show ?thesis
      using b blk cc by (intro exI [of _ "(a, take (unat c) d) # blks"])
        (auto simp: block_ok_def take_append_take_drop)
  qed
qed

lemma one_write:
  assumes "stub_lib_flash_write_buff T a d sz True w = Some (STUB_LIB_OK, w')"
    and "large_flash_mode w" "unat sz \<le> length d"
  shows "\<exists>blks. xts_blocks R w' = xts_blocks R w @ blks \<and>
    concat (map snd blks) = take (unat sz) d \<and> contiguous a blks \<and> list_all block_ok blks"
proof (cases "sz = 0")
  case True
  then show ?thesis
    using assms(1) by (auto simp: stub_lib_flash_write_buff_def intro: exI [of _ "[]"])
next
  case False
  have u: "use_4byte T w" using assms(2) large by (simp add: use_4byte_def)
  obtain w1 w2 w3 w4 w5 where al: "IS_ALIGNED a 16" "IS_ALIGNED sz 16"
    and w1: "t_write_encrypted_enable T w = Some w1" and w2: "t_aes_xts_init T w1 = Some w2"
    and w3: "t_unlock T w2 = Some (STUB_LIB_OK, w3)"
    and w4: "stub_lib_flash_wait_ready T (write_timeout_us sz) w3 = Some (STUB_LIB_OK, w4)"
    and w5: "write_loop_encrypted T FLASH_SPI_NUM (write_timeout_us sz) a d sz w4 = Some (STUB_LIB_OK, w5)"
    and w': "t_write_encrypted_disable T w5 = Some w'"
    using assms(1) False u
    by (auto simp: stub_lib_flash_write_buff_def flash_write_buff_def stub_target_flash_4byte_write_def
        stub_target_flash_4byte_write_encrypted_def bind_eq_Some_conv Let_def rcs split: if_splits)
  obtain v where v: "emits (not_xts R) w1 v" "w2 = after v [Wr (Mmio (x_dest R)) 0]"
    using xts_init [OF w2] by blast
  have "xts_engine_of R (trace v) = xts_engine_of R (trace w)"
    using xts_engine_emits [OF emits_trans [OF xts_enable [OF w1] v(1)]] .
  then have "xts_engine_of R (trace w2) = (xts_engine_of R (trace w))\<lparr>e_dest := 0\<rparr>"
    using xts_distinct by (auto simp: v(2) xts_engine_of_def xts_step_def)
  moreover have "xts_engine_of R (trace w4) = xts_engine_of R (trace w2)"
    by (rule xts_engine_emits [OF emits_trans [OF xts_unlock [OF w3] wait_not_xts [OF w4]]])
  ultimately have "xts_blocks R w4 = xts_blocks R w" "e_dest (xts_engine_of R (trace w4)) = 0"
    by (simp_all add: xts_blocks_def)
  moreover have "xts_blocks R w' = xts_blocks R w5"
    by (simp add: xts_blocks_def xts_engine_emits [OF xts_disable [OF w']])
  ultimately show ?thesis
    using write_loop_blocks [OF w5 al [unfolded IS_ALIGNED_16] assms(3)] by simp
qed

lemma encrypts: "encrypts_exactly R T"
  unfolding encrypts_exactly_def using one_write by blast

end

section \<open>The six engines\<close>

lemma wait_reg_state_quiet:
  assumes "stub_target_wait_reg_state r x t w = (res, t', w')"
  shows "emits (not_xts R) w w'"
proof -
  have "emits (not_xts R) w v" if "wait_reg_loop C r n w = (res, m, v)" for C n m v
    using wait_reg_loop_waits [OF that]
    by (auto simp: list_all_iff poll_of_def not_xts_def intro!: emits_after split: ev.splits)
  then show ?thesis
    using assms
    by (auto simp: stub_target_wait_reg_state_def prim_eq split: option.splits if_splits prod.splits intro!: emits_after)
qed

text \<open>Waiting for an engine: two bounded waits with one write between them.\<close>

lemma two_waits_quiet:
  assumes "(let (ret, timeout_us, w) = stub_target_wait_reg_state r x t w
      in if ret \<noteq> STUB_LIB_OK then Some (ret, w)
         else (let w = REG_WRITE q 1 w; (ret, timeout_us, w) = stub_target_wait_reg_state r y timeout_us w
               in Some (ret, w))) = Some (res, w')"
    and q: "q \<notin> {x_size R, x_addr R, x_dest R, x_trigger R}"
  shows "emits (not_xts R) w w'"
proof -
  obtain r1 t1 w1 where w1: "stub_target_wait_reg_state r x t w = (r1, t1, w1)" by (metis prod_cases3)
  obtain r2 t2 w2 where w2: "stub_target_wait_reg_state r y t1 (after w1 [Wr (Mmio q) 1]) = (r2, t2, w2)"
    by (metis prod_cases3)
  have rel: "emits (not_xts R) w1 (after w1 [Wr (Mmio q) 1])" using q by (intro emits_after) simp
  have "w' = w1 \<or> w' = w2" using assms(1) w1 w2 by (auto simp: prim_eq split: if_splits)
  then show ?thesis
    using wait_reg_state_quiet [OF w1] rel wait_reg_state_quiet [OF w2] by (blast intro: emits_trans)
qed

lemma flash_ops_quiet:
  "stub_target_flash_write_enable w = Some w' \<Longrightarrow> emits (not_xts R) w w'"
  "stub_target_flash_write_encrypted_enable w = Some w' \<Longrightarrow> emits (not_xts R) w w'"
  "stub_target_flash_write_encrypted_disable w = Some w' \<Longrightarrow> emits (not_xts R) w w'"
  "stub_target_flash_unlock w = Some (res, w') \<Longrightarrow> emits (not_xts R) w w'"
  by (auto simp: stub_target_flash_write_enable_def stub_target_flash_write_encrypted_enable_def
      stub_target_flash_write_encrypted_disable_def stub_target_flash_unlock_def prim_eq
      split: if_splits intro!: emits_after)

definition s3_xts :: xts_regs where
  "s3_xts = \<lparr>x_size = AES_XTS_SIZE_REG, x_plain = AES_XTS_PLAIN_BASE, x_addr = AES_XTS_PHYSICAL_ADDR_REG,
     x_dest = AES_XTS_DESTINATION_REG, x_trigger = AES_XTS_TRIGGER_REG\<rparr>"

definition c5_xts :: xts_regs where
  "c5_xts = \<lparr>x_size = c5_SPI_MEM_XTS_LINESIZE_REG 0, x_plain = c5_SPI_MEM_XTS_PLAIN_BASE_REG 0,
     x_addr = c5_SPI_MEM_XTS_PHYSICAL_ADDRESS_REG 0, x_dest = c5_SPI_MEM_XTS_DESTINATION_REG 0,
     x_trigger = c5_SPI_MEM_XTS_TRIGGER_REG 0\<rparr>"

definition c61_xts :: xts_regs where
  "c61_xts = \<lparr>x_size = c61_SPI_MEM_XTS_LINESIZE_REG 0, x_plain = c61_SPI_MEM_XTS_PLAIN_BASE_REG 0,
     x_addr = c61_SPI_MEM_XTS_PHYSICAL_ADDRESS_REG 0, x_dest = c61_SPI_MEM_XTS_DESTINATION_REG 0,
     x_trigger = c61_SPI_MEM_XTS_TRIGGER_REG 0\<rparr>"

definition h4_xts :: xts_regs where
  "h4_xts = \<lparr>x_size = h4_SPI_MEM_XTS_LINESIZE_REG 0, x_plain = h4_SPI_MEM_XTS_PLAIN_BASE_REG 0,
     x_addr = h4_SPI_MEM_XTS_PHYSICAL_ADDRESS_REG 0, x_dest = h4_SPI_MEM_XTS_DESTINATION_REG 0,
     x_trigger = h4_SPI_MEM_XTS_TRIGGER_REG 0\<rparr>"

definition p4_xts :: xts_regs where
  "p4_xts = \<lparr>x_size = p4_SPI_MEM_C_XTS_LINESIZE_REG, x_plain = p4_SPI_MEM_C_XTS_PLAIN_BASE_REG,
     x_addr = p4_SPI_MEM_C_XTS_PHYSICAL_ADDRESS_REG, x_dest = p4_SPI_MEM_C_XTS_DESTINATION_REG,
     x_trigger = p4_SPI_MEM_C_XTS_TRIGGER_REG\<rparr>"

definition s31_xts :: xts_regs where
  "s31_xts = \<lparr>x_size = s31_SPI_MEM_C_XTS_LINESIZE_REG, x_plain = s31_SPI_MEM_C_XTS_PLAIN_BASE_REG,
     x_addr = s31_SPI_MEM_C_XTS_PHYSICAL_ADDRESS_REG, x_dest = s31_SPI_MEM_C_XTS_DESTINATION_REG,
     x_trigger = s31_SPI_MEM_C_XTS_TRIGGER_REG\<rparr>"

interpretation s3_engine: xts_target s3_flash_soc s3_flash_target s3_spi_wait_ready
  stub_target_flash_write_enable s3_xts
proof (unfold_locales, goal_cases)
  case (4 w w')
  then have "s3_aes_xts_init w = Some w'" by (simp add: s3_flash_target_def)
  then show ?case
    by (intro exI [of _ "w"])
      (auto simp: s3_aes_xts_init_def prim_eq s3_xts_def intro: emits_after)
next
  case (6 t w res w')
  then have "s3_aes_xts_wait_data_ready t w = Some (res, w')" by (simp add: s3_flash_target_def)
  then show ?case unfolding s3_aes_xts_wait_data_ready_def by (rule two_waits_quiet) (simp add: s3_xts_def regs)
next
  case (7 w w')
  then have "s3_aes_xts_clear w = Some w'" by (simp add: s3_flash_target_def)
  then show ?case by (auto simp: s3_aes_xts_clear_def prim_eq s3_xts_def regs intro!: emits_after)
qed (auto simp: s3_flash_target_def weak_flash_target_def s3_aes_xts_encrypt_trigger_def prim_eq Let_def s3_xts_def
    s3_flash_soc_def regs intro: flash_ops_quiet)

interpretation c5_engine: xts_target c5_flash_soc c5_flash_target c5_spi_wait_ready
  stub_target_flash_write_enable c5_xts
proof (unfold_locales, goal_cases)
  case (4 w w')
  then have "c5_aes_xts_init w = Some w'" by (simp add: c5_flash_target_def)
  then show ?case
    by (intro exI [of _ "w"])
      (auto simp: c5_aes_xts_init_def prim_eq c5_xts_def c5_INTERNAL_SPI_NUM_def intro: emits_after)
next
  case (6 t w res w')
  then have "c5_aes_xts_wait_data_ready t w = Some (res, w')" by (simp add: c5_flash_target_def)
  then show ?case unfolding c5_aes_xts_wait_data_ready_def by (rule two_waits_quiet) (simp add: c5_xts_def regs)
next
  case (7 w w')
  then have "c5_aes_xts_clear w = Some w'" by (simp add: c5_flash_target_def)
  then show ?case by (auto simp: c5_aes_xts_clear_def prim_eq c5_xts_def regs intro!: emits_after)
qed (auto simp: c5_flash_target_def weak_flash_target_def c5_aes_xts_encrypt_trigger_def prim_eq Let_def c5_xts_def
    c5_flash_soc_def regs intro: flash_ops_quiet)

interpretation c61_engine: xts_target c61_flash_soc c61_flash_target c61_spi_wait_ready
  stub_target_flash_write_enable c61_xts
proof (unfold_locales, goal_cases)
  case (4 w w')
  then have "c61_aes_xts_init w = Some w'" by (simp add: c61_flash_target_def)
  then show ?case
    by (intro exI [of _ "w"])
      (auto simp: c61_aes_xts_init_def prim_eq c61_xts_def c61_INTERNAL_SPI_NUM_def intro: emits_after)
next
  case (6 t w res w')
  then have "c61_aes_xts_wait_data_ready t w = Some (res, w')" by (simp add: c61_flash_target_def)
  then show ?case unfolding c61_aes_xts_wait_data_ready_def by (rule two_waits_quiet) (simp add: c61_xts_def regs)
next
  case (7 w w')
  then have "c61_aes_xts_clear w = Some w'" by (simp add: c61_flash_target_def)
  then show ?case by (auto simp: c61_aes_xts_clear_def prim_eq c61_xts_def regs intro!: emits_after)
qed (auto simp: c61_flash_target_def weak_flash_target_def c61_aes_xts_encrypt_trigger_def prim_eq Let_def c61_xts_def
    c61_flash_soc_def regs intro: flash_ops_quiet)

interpretation h4_engine: xts_target h4_flash_soc h4_flash_target h4_spi_wait_ready
  stub_target_flash_write_enable h4_xts
proof (unfold_locales, goal_cases)
  case (4 w w')
  then have "h4_aes_xts_init w = Some w'" by (simp add: h4_flash_target_def)
  then show ?case
    by (intro exI [of _ "snd (rom_num (FlashFn Esp_rom_recover_key) [0] [] w)"])
      (auto simp: h4_aes_xts_init_def prim_eq h4_xts_def h4_INTERNAL_SPI_NUM_def intro: emits_after)
next
  case (6 t w res w')
  then have "h4_aes_xts_wait_data_ready t w = Some (res, w')" by (simp add: h4_flash_target_def)
  then show ?case unfolding h4_aes_xts_wait_data_ready_def by (rule two_waits_quiet) (simp add: h4_xts_def regs)
next
  case (7 w w')
  then have "h4_aes_xts_clear w = Some w'" by (simp add: h4_flash_target_def)
  then show ?case by (auto simp: h4_aes_xts_clear_def prim_eq h4_xts_def regs intro!: emits_after)
qed (auto simp: h4_flash_target_def weak_flash_target_def h4_aes_xts_encrypt_trigger_def prim_eq Let_def h4_xts_def
    h4_flash_soc_def regs intro: flash_ops_quiet)

interpretation p4_engine: xts_target p4_flash_soc p4_flash_target p4_spi_wait_ready
  stub_target_flash_write_enable p4_xts
proof (unfold_locales, goal_cases)
  case (4 w w')
  then have "p4_aes_xts_init w = Some w'" by (simp add: p4_flash_target_def)
  then show ?case
    by (intro exI [of _ "w"])
      (auto simp: p4_aes_xts_init_def prim_eq p4_xts_def intro: emits_after)
next
  case (6 t w res w')
  then have "p4_aes_xts_wait_data_ready t w = Some (res, w')" by (simp add: p4_flash_target_def)
  then show ?case unfolding p4_aes_xts_wait_data_ready_def by (rule two_waits_quiet) (simp add: p4_xts_def regs)
next
  case (7 w w')
  then have "p4_aes_xts_clear w = Some w'" by (simp add: p4_flash_target_def)
  then show ?case by (auto simp: p4_aes_xts_clear_def prim_eq p4_xts_def regs intro!: emits_after)
qed (auto simp: p4_flash_target_def weak_flash_target_def p4_aes_xts_encrypt_trigger_def prim_eq Let_def p4_xts_def
    p4_flash_soc_def regs intro: flash_ops_quiet)

interpretation s31_engine: xts_target s31_flash_soc s31_flash_target s31_spi_wait_ready
  stub_target_flash_write_enable s31_xts
proof (unfold_locales, goal_cases)
  case (4 w w')
  then have "s31_aes_xts_init w = Some w'" by (simp add: s31_flash_target_def)
  then show ?case
    by (intro exI [of _ "snd (rom_num (FlashFn Esp_rom_recover_key) [0] [] w)"])
      (auto simp: s31_aes_xts_init_def prim_eq s31_xts_def intro: emits_after)
next
  case (6 t w res w')
  then have "s31_aes_xts_wait_data_ready t w = Some (res, w')" by (simp add: s31_flash_target_def)
  then show ?case unfolding s31_aes_xts_wait_data_ready_def by (rule two_waits_quiet) (simp add: s31_xts_def regs)
next
  case (7 w w')
  then have "s31_aes_xts_clear w = Some w'" by (simp add: s31_flash_target_def)
  then show ?case by (auto simp: s31_aes_xts_clear_def prim_eq s31_xts_def regs intro!: emits_after)
qed (auto simp: s31_flash_target_def weak_flash_target_def s31_aes_xts_encrypt_trigger_def prim_eq Let_def s31_xts_def
    s31_flash_soc_def regs intro: flash_ops_quiet)

text \<open>
  C4: On each of the six chips with an AES-XTS engine (ESP32-S3, ESP32-C5, ESP32-C61,
  ESP32-H4, ESP32-P4 and ESP32-S31) an encrypted write in large flash mode that reports
  success has started the engine, with the flash as its destination, on exactly the given
  bytes: on blocks of 16, 32 or 64 bytes that follow one another from the address and are
  each aligned to their own length, every one with its size code set, its plaintext at the
  place in the engine's buffer that its address asks for, and its address.
\<close>

lemma encrypted_write_blocks:
  "encrypts_exactly s3_xts s3_flash_target \<and> encrypts_exactly c5_xts c5_flash_target \<and>
   encrypts_exactly c61_xts c61_flash_target \<and> encrypts_exactly h4_xts h4_flash_target \<and>
   encrypts_exactly p4_xts p4_flash_target \<and> encrypts_exactly s31_xts s31_flash_target"
  by (intro conjI s3_engine.encrypts c5_engine.encrypts c61_engine.encrypts h4_engine.encrypts
      p4_engine.encrypts s31_engine.encrypts)

text \<open>Two blocks on the ESP32-S3: 16 bytes up to a 64 byte boundary, then the 32 that are left.\<close>

definition aes_world :: s3_world where
  "aes_world = large_world\<lparr>rd_dev := \<lambda>es c.
     if c = Mmio AES_XTS_STATE_REG
     then (if Wr (Mmio AES_XTS_RELEASE_REG) 1 \<in> set (takeWhile (\<lambda>e. e \<noteq> Wr (Mmio AES_XTS_TRIGGER_REG) 1) (rev es))
           then AES_XTS_STATE_VISIBLE else AES_XTS_STATE_DONE)
     else 0\<rparr>"

lemma encrypted_write_blocks_witness:
  "\<exists>w' blks. stub_lib_flash_write_buff s3_flash_target 0x1030 (map of_nat [0..<48]) 48 True aes_world =
       Some (STUB_LIB_OK, w') \<and> xts_blocks s3_xts w' = blks \<and>
     concat (map snd blks) = map of_nat [0..<48] \<and> contiguous 0x1030 blks \<and> list_all block_ok blks"
proof -
  have "gives (stub_lib_flash_write_buff s3_flash_target 0x1030 (map of_nat [0..<48]) 48 True aes_world)
    (\<lambda>r. r = STUB_LIB_OK)" by code_simp
  then obtain w' where r: "stub_lib_flash_write_buff s3_flash_target 0x1030 (map of_nat [0..<48]) 48 True aes_world =
    Some (STUB_LIB_OK, w')" by (rule givesE)
  have l: "large_flash_mode aes_world" "xts_blocks s3_xts aes_world = []"
    by (simp_all add: aes_world_def large_world_def quiet_world_def xts_blocks_def xts_engine_of_def)
  have "encrypts_exactly s3_xts (s3_flash_target :: (s3_flash_state, unit s3_world_ext) ftarget)"
    using encrypted_write_blocks by blast
  from encrypts_exactlyD [OF this r l(1)] l(2) r show ?thesis by auto
qed

end
