(* ===== verification/S3_Flash_Crypt.thy ===== *)
theory S3_Flash_Crypt
  imports Chip_Encrypt
begin

text \<open>The switch of the flash encryption around an encrypted write on the ESP32-S3, seen in the trace.\<close>

section \<open>Encryption is switched off again\<close>

definition enc_on :: "ev list \<Rightarrow> bool" where
  "enc_on es = fold (\<lambda>e b. case e of
       Call (FlashFn f) _ _ _ _ \<Rightarrow>
         if f = Esp_rom_spiflash_write_encrypted_enable then True
         else if f = Esp_rom_spiflash_write_encrypted_disable then False else b
     | _ \<Rightarrow> b) es False"

text \<open>
  C9: An encrypted write in large flash mode never leaves the flash encryption switched on,
  whether it succeeds, times out or fails to unlock the flash.
\<close>

lemma encrypted_write_switches_off:
  assumes "stub_lib_flash_write_buff s3_flash_target a d sz True w = Some (res, w')"
    and "large_flash_mode w" "\<not> enc_on (trace w)"
  shows "\<not> enc_on (trace w')"
proof -
  have "w' = w \<or> (\<exists>w5. stub_target_flash_write_encrypted_disable w5 = Some w')"
    using assms(1,2)
    by (auto simp: stub_lib_flash_write_buff_def flash_write_buff_def stub_target_flash_4byte_write_def
        use_4byte_def stub_target_flash_4byte_write_encrypted_def bind_eq_Some_conv Let_def split: if_splits)
  then show ?thesis
  proof
    assume "w' = w"
    then show ?thesis using assms(3) by simp
  next
    assume "\<exists>w5. stub_target_flash_write_encrypted_disable w5 = Some w'"
    then show ?thesis by (auto simp: stub_target_flash_write_encrypted_disable_def prim_eq enc_on_def)
  qed
qed

lemma encrypted_write_switches_off_witness:
  "\<exists>w'. stub_lib_flash_write_buff s3_flash_target 0x1000 (replicate 16 0) 16 True aes_world = Some (STUB_LIB_OK, w') \<and>
     \<not> enc_on (trace w')"
proof -
  have "gives (stub_lib_flash_write_buff s3_flash_target 0x1000 (replicate 16 0) 16 True aes_world)
    (\<lambda>r. r = STUB_LIB_OK)" by code_simp
  then obtain w' where r: "stub_lib_flash_write_buff s3_flash_target 0x1000 (replicate 16 0) 16 True aes_world =
    Some (STUB_LIB_OK, w')" by (rule givesE)
  have "large_flash_mode aes_world" "\<not> enc_on (trace aes_world)"
    by (simp_all add: aes_world_def large_world_def quiet_world_def enc_on_def)
  from encrypted_write_switches_off [OF r this] r show ?thesis by blast
qed

end
