(* ===== verification/S3_Flash_State.thy ===== *)
theory S3_Flash_State
  imports S3_Flash_Crypt Plain
begin

text \<open>
  What the ESP32-S3 build puts back: attaching to the flash and releasing it restores the SPI
  controllers, and switching the cache to four byte addresses and back restores SPI0.
\<close>

section \<open>The saved cells\<close>

definition spi1_cells :: "cell list" where
  "spi1_cells =
     [Mmio (SPI_MEM_USER_REG FLASH_SPI_NUM), Mmio (SPI_MEM_CTRL_REG FLASH_SPI_NUM),
      Mmio (SPI_MEM_CTRL2_REG FLASH_SPI_NUM), Mmio (SPI_MEM_CLOCK_REG FLASH_SPI_NUM),
      Mmio (SPI_MEM_DDR_REG FLASH_SPI_NUM), Mmio (SPI_MEM_TIMING_CALI_REG FLASH_SPI_NUM)]"

definition spi1_dummy :: cell where
  "spi1_dummy = RomVar (Dummy_len_plus (unat FLASH_SPI_NUM))"

definition spi0_cells :: "cell list" where
  "spi0_cells =
     [Mmio (SPI_MEM_USER_REG FLASH_SPI_NUM_INT), Mmio (SPI_MEM_USER1_REG FLASH_SPI_NUM_INT),
      Mmio (SPI_MEM_USER2_REG FLASH_SPI_NUM_INT), Mmio (SPI_MEM_CTRL_REG FLASH_SPI_NUM_INT),
      Mmio (SPI_MEM_CTRL2_REG FLASH_SPI_NUM_INT), Mmio (SPI_MEM_CACHE_FCTRL_REG FLASH_SPI_NUM_INT),
      Mmio (SPI_MEM_DDR_REG FLASH_SPI_NUM_INT), Mmio (SPI_MEM_TIMING_CALI_REG FLASH_SPI_NUM_INT),
      Mmio (SPI_MEM_CLOCK_REG FLASH_SPI_NUM_INT), Mmio (SPI_MEM_MISC_REG FLASH_SPI_NUM_INT),
      Mmio (SPI_MEM_MISO_DLEN_REG FLASH_SPI_NUM_INT), Mmio (SPI_MEM_MOSI_DLEN_REG FLASH_SPI_NUM_INT)]"

definition spi0_dummy :: cell where
  "spi0_dummy = RomVar (Dummy_len_plus (unat FLASH_SPI_NUM_INT))"

definition all_plain :: "'a world_scheme \<Rightarrow> bool" where
  "all_plain w \<longleftrightarrow> list_all (plain w) (spi1_cells @ [spi1_dummy] @ spi0_cells @ [spi0_dummy])"

text \<open>Reading a list of cells one after the other.\<close>

definition reads_of :: "cell list \<Rightarrow> 'a world_scheme \<Rightarrow> ev list" where
  "reads_of cs w = map (\<lambda>c. Rd c (peek c w)) cs"

lemma save_regs:
  assumes "list_all (plain w) spi1_cells" "plain w spi1_dummy" "length (spi_regs s) = 6"
  shows "s3_flash_state_save (Some s) w =
    (Some (s\<lparr>spi_regs := map (\<lambda>c. peek c w) spi1_cells, st_dummy_len_plus := ucast (peek spi1_dummy w)\<rparr>),
     after w (reads_of (spi1_cells @ [spi1_dummy]) w))"
proof -
  obtain a b c d e f where "spi_regs s = [a, b, c, d, e, f]"
    using assms(3) by (auto simp: length_Suc_conv eval_nat_numeral)
  then show ?thesis
    using assms(1,2)
    by (simp add: s3_flash_state_save_def save_spi_reg_def prim_eq reg_ids spi1_cells_def spi1_dummy_def
        peek_keeps reads_of_def eval_nat_numeral)
qed


lemma save_spi0:
  assumes "list_all (plain w) spi0_cells" "plain w spi0_dummy" "length (spi0_regs s) = 12"
  shows "octal_save_spi0_state s w =
    (s\<lparr>spi0_regs := map (\<lambda>c. peek c w) spi0_cells, spi0_dummy_len_plus := ucast (peek spi0_dummy w),
       target_cr2 := (if peek (Mmio (SPI_MEM_DDR_REG FLASH_SPI_NUM_INT)) w AND SPI_MEM_SPI_FMEM_DDR_EN \<noteq> 0
                      then MXIC_CR2_MODE_OPI_DTR else MXIC_CR2_MODE_OPI_STR),
       octal_active := True\<rparr>,
     after w (reads_of (spi0_cells @ [spi0_dummy]) w))"
proof -
  obtain a b c d e f g h i j k l where "spi0_regs s = [a, b, c, d, e, f, g, h, i, j, k, l]"
    using assms(3) by (auto simp: length_Suc_conv eval_nat_numeral)
  then show ?thesis
    using assms(1,2)
    by (simp add: octal_save_spi0_state_def save_spi0_reg_def prim_eq reg_ids spi0_cells_def spi0_dummy_def
        peek_keeps reads_of_def eval_nat_numeral)
qed

text \<open>Writing the saved values back, in the code's order.\<close>

lemma restore_regs:
  "s3_flash_state_restore (Some s) w = after w (wrs
     [(Mmio (SPI_MEM_CTRL_REG FLASH_SPI_NUM), spi_regs s ! 1),
      (Mmio (SPI_MEM_CTRL2_REG FLASH_SPI_NUM), spi_regs s ! 2),
      (Mmio (SPI_MEM_CLOCK_REG FLASH_SPI_NUM), spi_regs s ! 3),
      (Mmio (SPI_MEM_DDR_REG FLASH_SPI_NUM), spi_regs s ! 4),
      (Mmio (SPI_MEM_USER_REG FLASH_SPI_NUM), spi_regs s ! 0),
      (Mmio (SPI_MEM_TIMING_CALI_REG FLASH_SPI_NUM), spi_regs s ! 5),
      (spi1_dummy, ucast (st_dummy_len_plus s))])"
  by (simp add: s3_flash_state_restore_def prim_eq reg_ids wrs_def spi1_dummy_def)

lemma restore_spi0:
  "octal_restore_spi0_state s w = after w (wrs
     [(Mmio (SPI_MEM_CLOCK_REG FLASH_SPI_NUM_INT), spi0_regs s ! 8),
      (Mmio (SPI_MEM_USER_REG FLASH_SPI_NUM_INT), spi0_regs s ! 0),
      (Mmio (SPI_MEM_USER1_REG FLASH_SPI_NUM_INT), spi0_regs s ! 1),
      (Mmio (SPI_MEM_USER2_REG FLASH_SPI_NUM_INT), spi0_regs s ! 2),
      (Mmio (SPI_MEM_CTRL_REG FLASH_SPI_NUM_INT), spi0_regs s ! 3),
      (Mmio (SPI_MEM_CTRL2_REG FLASH_SPI_NUM_INT), spi0_regs s ! 4),
      (Mmio (SPI_MEM_CACHE_FCTRL_REG FLASH_SPI_NUM_INT), spi0_regs s ! 5),
      (Mmio (SPI_MEM_DDR_REG FLASH_SPI_NUM_INT), spi0_regs s ! 6),
      (Mmio (SPI_MEM_TIMING_CALI_REG FLASH_SPI_NUM_INT), spi0_regs s ! 7),
      (Mmio (SPI_MEM_MISC_REG FLASH_SPI_NUM_INT), spi0_regs s ! 9),
      (Mmio (SPI_MEM_MISO_DLEN_REG FLASH_SPI_NUM_INT), spi0_regs s ! 10),
      (Mmio (SPI_MEM_MOSI_DLEN_REG FLASH_SPI_NUM_INT), spi0_regs s ! 11),
      (spi0_dummy, ucast (spi0_dummy_len_plus s))])"
  by (simp add: octal_restore_spi0_state_def prim_eq reg_ids wrs_def spi0_dummy_def)

lemma restore_regs_peek:
  assumes "list_all (plain w) spi1_cells" "plain w spi1_dummy" "spi_regs s = map f spi1_cells"
    "st_dummy_len_plus s = ucast (f spi1_dummy)" "unat (f spi1_dummy) < 256"
  shows "\<forall>c\<in>set (spi1_dummy # spi1_cells). peek c (s3_flash_state_restore (Some s) w) = f c"
proof
  fix c assume c: "c \<in> set (spi1_dummy # spi1_cells)"
  then have "plain w c" using assms(1,2) by (auto simp: list_all_iff)
  then show "peek c (s3_flash_state_restore (Some s) w) = f c"
    unfolding restore_regs
    by (rule peek_writes [where es = "[]" and fs = "[]", simplified])
      (use c assms in \<open>auto simp: spi1_cells_def spi1_dummy_def ucast_byte regs\<close>)
qed


lemma restore_spi0_peek:
  assumes "list_all (plain w) spi0_cells" "plain w spi0_dummy" "spi0_regs s = map f spi0_cells"
    "spi0_dummy_len_plus s = ucast (f spi0_dummy)" "unat (f spi0_dummy) < 256"
    and "c \<in> set (spi0_dummy # spi0_cells)" "list_all (keeps c) fs"
  shows "peek c (after (octal_restore_spi0_state s w) fs) = f c"
proof -
  have "plain w c" using assms(1,2,6) by (auto simp: list_all_iff)
  then show ?thesis
    unfolding restore_spi0 after_after
    by (rule peek_writes [where es = "[]", simplified])
      (use assms(3-7) in \<open>auto simp: spi0_cells_def spi0_dummy_def ucast_byte regs\<close>)
qed

section \<open>Attach and release\<close>

definition octal_flash :: "'a world_scheme \<Rightarrow> bool" where
  "octal_flash w \<longleftrightarrow> rom_ret (FlashFn Ets_efuse_flash_octal_mode) [] [] w \<noteq> 0"

text \<open>The stub takes the controllers over as they are when nobody has to attach the flash.\<close>

definition takes_over :: "attach_policy \<Rightarrow> 'a world_scheme \<Rightarrow> bool" where
  "takes_over p w \<longleftrightarrow> p = STUB_LIB_FLASH_ATTACH_IF_NEEDED \<and>
     peek (Mmio (SPI_MEM_CACHE_FCTRL_REG FLASH_SPI_NUM_INT)) w AND SPI_MEM_CACHE_FLASH_USR_CMD \<noteq> 0"

lemma all_plainD:
  assumes "all_plain w"
  shows "list_all (plain w) spi1_cells" "plain w spi1_dummy" "list_all (plain w) spi0_cells" "plain w spi0_dummy"
  using assms by (simp_all add: all_plain_def)

lemma map_peek_keeps:
  "list_all (plain w) cs \<Longrightarrow> (\<And>c. list_all (keeps c) es) \<Longrightarrow> map (\<lambda>c. peek c (after w es)) cs = map (\<lambda>c. peek c w) cs"
  by (auto simp: list_all_iff intro!: peek_keeps)

lemma keeps_reads: "list_all (keeps c) (reads_of cs w)"
  by (simp add: reads_of_def list_all_iff)

definition saved_state :: "'a world_scheme \<Rightarrow> s3_flash_state \<Rightarrow> s3_flash_state" where
  "saved_state w s = s\<lparr>spi_regs := map (\<lambda>c. peek c w) spi1_cells,
     st_dummy_len_plus := ucast (peek spi1_dummy w), octal_active := False, target_cr2 := 0\<rparr>"

definition saved_octal :: "'a world_scheme \<Rightarrow> s3_flash_state \<Rightarrow> s3_flash_state" where
  "saved_octal w s = (saved_state w s)\<lparr>spi0_regs := map (\<lambda>c. peek c w) spi0_cells,
     spi0_dummy_len_plus := ucast (peek spi0_dummy w),
     target_cr2 := (if peek (Mmio (SPI_MEM_DDR_REG FLASH_SPI_NUM_INT)) w AND SPI_MEM_SPI_FMEM_DDR_EN \<noteq> 0
                    then MXIC_CR2_MODE_OPI_DTR else MXIC_CR2_MODE_OPI_STR),
     octal_active := True\<rparr>"

lemma init_state:
  assumes init: "s3_flash_init (Some s) p w = Some (st, w1)" and wf: "wf_state s" and pl: "all_plain w"
  shows "st = Some (if octal_flash w \<and> takes_over p w then saved_octal w s else saved_state w s)"
proof -
  define e where "e = Call (FlashFn Ets_efuse_flash_octal_mode) [] []
    (rom_ret (FlashFn Ets_efuse_flash_octal_mode) [] [] w) (rom_out (FlashFn Ets_efuse_flash_octal_mode) [] [] w)"
  let ?f = "Mmio (SPI_MEM_CACHE_FCTRL_REG FLASH_SPI_NUM_INT)"
  define es where "es = (if p = STUB_LIB_FLASH_ATTACH_ALWAYS then [e] else [e, Rd ?f (peek ?f w)])"
  have k: "list_all (keeps c) es" for c by (simp add: es_def e_def)
  note plw = all_plainD [OF pl]
  have f0: "?f \<in> set spi0_cells" by (simp add: spi0_cells_def)
  then have f: "peek ?f (after w [e]) = peek ?f w"
    using plw(3) by (intro peek_keeps) (auto simp: list_all_iff e_def)
  have sv: "s3_flash_state_save (Some s) (after w es) =
    (Some (s\<lparr>spi_regs := map (\<lambda>c. peek c w) spi1_cells, st_dummy_len_plus := ucast (peek spi1_dummy w)\<rparr>),
     after (after w es) (reads_of (spi1_cells @ [spi1_dummy]) (after w es)))"
    using save_regs [of "after w es" s] plw wf k
    by (simp add: map_peek_keeps peek_keeps wf_state_def reg_ids del: after_after)
  define w2 where "w2 = after (after w es) (reads_of (spi1_cells @ [spi1_dummy]) (after w es))"
  have k2: "list_all (keeps c) (es @ reads_of (spi1_cells @ [spi1_dummy]) (after w es))" for c
    using k by (simp add: keeps_reads del: map_append)
  have d0: "Mmio (SPI_MEM_DDR_REG FLASH_SPI_NUM_INT) \<in> set spi0_cells" by (simp add: spi0_cells_def)
  have oc: "octal_save_spi0_state (saved_state w s) w2 = (saved_octal w s, after w2 (reads_of (spi0_cells @ [spi0_dummy]) w2))"
    using save_spi0 [of w2 "saved_state w s"] plw wf k2 d0
    by (simp add: w2_def map_peek_keeps peek_keeps wf_state_def reg_ids saved_octal_def saved_state_def list_all_iff)
  have at: "(if p = STUB_LIB_FLASH_ATTACH_ALWAYS then (True, after w [e]) else s3_flash_needs_attach (after w [e])) =
    (\<not> takes_over p w, after w es)"
    by (cases p) (use f in \<open>auto simp: takes_over_def es_def s3_flash_needs_attach_def prim_eq\<close>)
  have ov: "rom_num (FlashFn Ets_efuse_flash_octal_mode) [] [] w =
    (rom_ret (FlashFn Ets_efuse_flash_octal_mode) [] [] w, after w [e])"
    by (simp add: prim_eq e_def)
  note init' = init [unfolded s3_flash_init_def]
  have sv': "s3_flash_state_save (Some s) (after w es) = (Some (s\<lparr>spi_regs := map (\<lambda>c. peek c w) spi1_cells,
     st_dummy_len_plus := ucast (peek spi1_dummy w)\<rparr>), w2)"
    by (simp only: sv w2_def)
  note init'' = init' [simplified ov Let_def prod.case at sv' option.map]
  show ?thesis
    using init'' oc
    by (cases "takes_over p w"; cases "octal_flash w")
      (auto simp: octal_flash_def saved_state_def bind_eq_Some_conv split: prod.splits)
qed


text \<open>Releasing the flash, with what happens on an octal flash before the SPI1 registers are restored.\<close>

lemma deinit_steps:
  assumes "s3_flash_deinit (Some s) w = Some w'"
  obtains v es where "rd_dev v = rd_dev w" "list_all is_cache_call es"
    "w' = s3_flash_state_restore (Some s) (if octal_active s then after (octal_restore_spi0_state s v) es else w)"
proof -
  define v where "v = octal_restore_chip_mode (target_cr2 s) (stub_lib_cache_stop s3_cache_target w)"
  have rdv: "rd_dev v = rd_dev w"
    by (simp add: v_def octal_restore_chip_mode_def rom_opiflash_exec_cmd_def rom_exec_flash_cmd_def prim_eq s3_cache_defs
        stub_lib_delay_us_eq Let_def)
  obtain es where es: "stub_lib_cache_start s3_cache_target (octal_restore_spi0_state s v) =
      after (octal_restore_spi0_state s v) es" "list_all is_cache_call es"
    using s3_cache_stop_start_emits(2) by (rule emitsE)
  have "w' = s3_flash_state_restore (Some s) (if octal_active s then after (octal_restore_spi0_state s v) es else w)"
    using assms by (cases "octal_active s") (simp_all add: s3_flash_deinit_def v_def [symmetric] es(1) Let_def)
  with rdv es(2) show ?thesis by (rule that)
qed

text \<open>
  C5: Releasing the flash restores every SPI1 register and the dummy length that attaching
  to it had saved, whatever happened to them in between; on an octal flash the stub took
  over without attaching, the registers of SPI0 as well.
\<close>

lemma init_deinit_restores:
  assumes init: "s3_flash_init (Some s) p w = Some (st, w1)" and wf: "wf_state s" and pl: "all_plain w"
    and same: "rd_dev w2 = rd_dev w" and deinit: "s3_flash_deinit st w2 = Some w3"
    and bytes: "unat (peek spi1_dummy w) < 256" "unat (peek spi0_dummy w) < 256"
  shows "(\<forall>c\<in>set (spi1_dummy # spi1_cells). peek c w3 = peek c w) \<and>
    (octal_flash w \<and> takes_over p w \<longrightarrow> (\<forall>c\<in>set (spi0_dummy # spi0_cells). peek c w3 = peek c w))"
proof -
  define s' where "s' = (if octal_flash w \<and> takes_over p w then saved_octal w s else saved_state w s)"
  have st: "st = Some s'" using init_state [OF init wf pl] by (simp add: s'_def)
  have f1: "spi_regs s' = map (\<lambda>c. peek c w) spi1_cells" "st_dummy_len_plus s' = ucast (peek spi1_dummy w)"
    by (simp_all add: s'_def saved_octal_def saved_state_def)
  obtain v es where v: "rd_dev v = rd_dev w" and es: "list_all is_cache_call es"
    and w3: "w3 = s3_flash_state_restore (Some s') (if octal_active s' then after (octal_restore_spi0_state s' v) es else w2)"
    using deinit_steps [OF deinit [unfolded st]] same by metis
  have "rd_dev (if octal_active s' then after (octal_restore_spi0_state s' v) es else w2) = rd_dev w"
    using same v by (simp add: restore_spi0)
  then have "plain (if octal_active s' then after (octal_restore_spi0_state s' v) es else w2) = plain w"
    by (simp add: plain_def fun_eq_iff)
  then have "\<forall>c\<in>set (spi1_dummy # spi1_cells). peek c w3 = peek c w"
    unfolding w3 using all_plainD [OF pl] f1 bytes(1) by (intro restore_regs_peek) simp_all
  moreover have "peek c w3 = peek c w"
    if oc: "octal_flash w \<and> takes_over p w" and c: "c \<in> set (spi0_dummy # spi0_cells)" for c
  proof -
    have s': "octal_active s'" "spi0_regs s' = map (\<lambda>c. peek c w) spi0_cells"
      "spi0_dummy_len_plus s' = ucast (peek spi0_dummy w)"
      using oc by (simp_all add: s'_def saved_octal_def saved_state_def)
    have pv: "plain v = plain w" using v by (simp add: plain_def fun_eq_iff)
    have k: "list_all (keeps c) es"
      using es by (auto simp: list_all_iff is_cache_call_keeps)
    have "c \<notin> set (spi1_dummy # spi1_cells)"
      using c by (auto simp: spi0_cells_def spi0_dummy_def spi1_cells_def spi1_dummy_def regs)
    then have "peek c w3 = peek c (after (octal_restore_spi0_state s' v) (es @ wrs
       [(Mmio (SPI_MEM_CTRL_REG FLASH_SPI_NUM), spi_regs s' ! 1),
      (Mmio (SPI_MEM_CTRL2_REG FLASH_SPI_NUM), spi_regs s' ! 2),
      (Mmio (SPI_MEM_CLOCK_REG FLASH_SPI_NUM), spi_regs s' ! 3),
      (Mmio (SPI_MEM_DDR_REG FLASH_SPI_NUM), spi_regs s' ! 4),
      (Mmio (SPI_MEM_USER_REG FLASH_SPI_NUM), spi_regs s' ! 0),
      (Mmio (SPI_MEM_TIMING_CALI_REG FLASH_SPI_NUM), spi_regs s' ! 5),
      (spi1_dummy, ucast (st_dummy_len_plus s'))]))"
      by (simp add: w3 s'(1) restore_regs)
    also have "\<dots> = peek c w"
      using all_plainD [OF pl] s' pv bytes(2) c k \<open>c \<notin> _\<close>
      by (intro restore_spi0_peek) (auto simp: spi1_cells_def intro!: keeps_writes)
    finally show ?thesis .
  qed
  ultimately show ?thesis by blast
qed


text \<open>A register file whose cells are all 5 at first, on an octal flash.\<close>

definition regfile_world :: s3_world where
  "regfile_world = quiet_world\<lparr>rd_dev := regfile 5, rom_dev := \<lambda>_ f _ _. (1, [])\<rparr>"

lemma regfile_world_plain: "plain regfile_world c"
  by (rule regfile_plain [of _ 5]) (simp add: regfile_world_def)

definition returns :: "'x option \<Rightarrow> bool" where
  "returns x \<longleftrightarrow> x \<noteq> None"

lemma returns_Some [simp]: "returns (Some x)"
  by (simp add: returns_def)

lemma returns_bind: "returns x \<Longrightarrow> (\<And>r. x = Some r \<Longrightarrow> returns (f r)) \<Longrightarrow> returns (Option.bind x f)"
  by (cases x) (auto simp: returns_def)

lemma init_returns: "returns (s3_flash_init s p w)"
  by (auto simp: s3_flash_init_def Let_def stub_target_flash_attach_def split: prod.splits option.splits
      intro!: returns_bind)

lemma init_deinit_restores_witness:
  "\<exists>st w1 w3. s3_flash_init (Some \<lparr>spi_regs = replicate 6 0, spi0_regs = replicate 12 0, st_dummy_len_plus = 0,
        spi0_dummy_len_plus = 0, target_cr2 = 9, octal_active = False\<rparr>)
      STUB_LIB_FLASH_ATTACH_IF_NEEDED regfile_world = Some (st, w1) \<and>
     s3_flash_deinit st (after regfile_world [Wr (Mmio (SPI_MEM_USER_REG 1)) 7, Wr (Mmio (SPI_MEM_USER_REG 0)) 8]) = Some w3 \<and>
     (\<forall>c\<in>set (spi1_dummy # spi1_cells @ spi0_dummy # spi0_cells). peek c w3 = 5)"
proof -
  let ?s = "\<lparr>spi_regs = replicate 6 0, spi0_regs = replicate 12 0, st_dummy_len_plus = 0,
        spi0_dummy_len_plus = 0, target_cr2 = 9, octal_active = False\<rparr> :: s3_flash_state"
  let ?w2 = "after regfile_world [Wr (Mmio (SPI_MEM_USER_REG 1)) 7, Wr (Mmio (SPI_MEM_USER_REG 0)) 8]"
  obtain st w1 where i: "s3_flash_init (Some ?s) STUB_LIB_FLASH_ATTACH_IF_NEEDED regfile_world = Some (st, w1)"
    using init_returns [of "Some ?s" STUB_LIB_FLASH_ATTACH_IF_NEEDED regfile_world] by (auto simp: returns_def)
  obtain w3 where d: "s3_flash_deinit st ?w2 = Some w3" by (simp add: s3_flash_deinit_def)
  have pk: "peek c regfile_world = 5" for c
    by (simp add: peek_def regfile_world_def regfile_def quiet_world_def)
  have o: "octal_flash regfile_world \<and> takes_over STUB_LIB_FLASH_ATTACH_IF_NEEDED regfile_world"
    by (simp add: octal_flash_def takes_over_def pk rom_ret_def) (simp add: regfile_world_def regs)
  have "wf_state ?s" "all_plain regfile_world" "rd_dev ?w2 = rd_dev regfile_world"
    "unat (peek spi1_dummy regfile_world) < 256" "unat (peek spi0_dummy regfile_world) < 256"
    by (simp_all add: wf_state_def reg_ids all_plain_def regfile_world_plain pk list_all_iff)
  from init_deinit_restores [OF i this(1-3) d this(4,5)] o i d pk show ?thesis by auto
qed

section \<open>The cache's four byte mode\<close>

text \<open>The cells \<open>s_addr32_state\<close> keeps.\<close>

definition addr32_cells :: "cell list" where
  "addr32_cells =
     [Mmio (SPI_MEM_USER_REG FLASH_SPI_NUM_INT), Mmio (SPI_MEM_USER1_REG FLASH_SPI_NUM_INT),
      Mmio (SPI_MEM_USER2_REG FLASH_SPI_NUM_INT), Mmio (SPI_MEM_CACHE_FCTRL_REG FLASH_SPI_NUM_INT),
      Mmio (SPI_MEM_CTRL_REG FLASH_SPI_NUM_INT), Mmio (SPI_MEM_TIMING_CALI_REG FLASH_SPI_NUM_INT)]"

definition addr32_saved :: "'a world_scheme \<Rightarrow> addr32_state" where
  "addr32_saved w = \<lparr>applied = True,
     saved_user = peek (Mmio (SPI_MEM_USER_REG FLASH_SPI_NUM_INT)) w,
     saved_user1 = peek (Mmio (SPI_MEM_USER1_REG FLASH_SPI_NUM_INT)) w,
     saved_user2 = peek (Mmio (SPI_MEM_USER2_REG FLASH_SPI_NUM_INT)) w,
     saved_cache_fctrl = peek (Mmio (SPI_MEM_CACHE_FCTRL_REG FLASH_SPI_NUM_INT)) w,
     saved_ctrl = peek (Mmio (SPI_MEM_CTRL_REG FLASH_SPI_NUM_INT)) w,
     saved_timing_cali = peek (Mmio (SPI_MEM_TIMING_CALI_REG FLASH_SPI_NUM_INT)) w,
     saved_dummy_len_plus = ucast (peek spi0_dummy w)\<rparr>"

definition already_4byte :: "'a world_scheme \<Rightarrow> bool" where
  "already_4byte w \<longleftrightarrow>
     drop_bit SPI_MEM_USR_ADDR_BITLEN_S (peek (Mmio (SPI_MEM_USER1_REG FLASH_SPI_NUM_INT)) w)
       AND SPI_MEM_USR_ADDR_BITLEN_V = 31"

lemma s3_after_fields [simp]:
  "s_addr32_state (after w es) = s_addr32_state w"
  "after (w\<lparr>s_addr32_state := x\<rparr>) es = (after w es)\<lparr>s_addr32_state := x\<rparr>"
  "peek c (w\<lparr>s_addr32_state := x\<rparr>) = peek c w"
  "rom_ret f args d (w\<lparr>s_addr32_state := x\<rparr>) = rom_ret f args d w"
  "rom_out f args d (w\<lparr>s_addr32_state := x\<rparr>) = rom_out f args d w"
  by (simp_all add: after_def peek_def rom_ret_def rom_out_def)

lemma s_addr32_state_frames [frames]:
  "s_addr32_state (REG_CLR_BIT r b w) = s_addr32_state w"
  "s_addr32_state (CLEAR_PERI_REG_MASK r b w) = s_addr32_state w"
  "s_addr32_state (REG_SET_FIELD r fV fS x w) = s_addr32_state w"
  "s_addr32_state (cell_write c v w) = s_addr32_state w"
  "s_addr32_state (rom_void f a d w) = s_addr32_state w"
  "s_addr32_state (stub_lib_cache_stop s3_cache_target w) = s_addr32_state w"
  "s_addr32_state (stub_lib_cache_start s3_cache_target w) = s_addr32_state w"
  "s_addr32_state (REG_WRITE r v w) = s_addr32_state w"
  by (simp_all add: prim_eq s3_cache_defs Let_def)

lemma enable_saves:
  assumes "\<not> already_4byte w" "list_all (plain w) addr32_cells" "plain w spi0_dummy"
  shows "s_addr32_state (enable_4byte_cache_mode w) = addr32_saved w"
  using assms
  by (simp add: enable_4byte_cache_mode_def REG_GET_eq REG_READ_eq cell_eq(1) frames already_4byte_def Let_def
      addr32_cells_def spi0_dummy_def addr32_saved_def peek_keeps)


lemma disable_peek:
  assumes "applied (s_addr32_state w)" "list_all (plain w) addr32_cells" "plain w spi0_dummy"
    "s_addr32_state w = addr32_saved v" "unat (peek spi0_dummy v) < 256"
    and c: "c \<in> set (spi0_dummy # addr32_cells)"
  shows "peek c (disable_4byte_cache_mode w) = peek c v"
proof -
  obtain es where es: "stub_lib_cache_stop s3_cache_target w = after w es"
    using s3_cache_stop_start_emits(1) by (rule emitsE)
  let ?s = "s_addr32_state w"
  define ws where "ws = [(Mmio (SPI_MEM_USER_REG FLASH_SPI_NUM_INT), saved_user ?s),
      (Mmio (SPI_MEM_USER1_REG FLASH_SPI_NUM_INT), saved_user1 ?s),
      (Mmio (SPI_MEM_USER2_REG FLASH_SPI_NUM_INT), saved_user2 ?s),
      (Mmio (SPI_MEM_CACHE_FCTRL_REG FLASH_SPI_NUM_INT), saved_cache_fctrl ?s),
      (Mmio (SPI_MEM_CTRL_REG FLASH_SPI_NUM_INT), saved_ctrl ?s),
      (Mmio (SPI_MEM_TIMING_CALI_REG FLASH_SPI_NUM_INT), saved_timing_cali ?s),
      (spi0_dummy, ucast (saved_dummy_len_plus ?s))]"
  define u where "u = after w (es @ wrs ws)"
  obtain fs where fs: "list_all is_cache_call fs" "stub_lib_cache_start s3_cache_target u = after u fs"
    using s3_cache_stop_start_emits(2) by (rule emitsE)
  have "peek c (disable_4byte_cache_mode w) = peek c (after w (es @ wrs ws @ fs))"
  proof -
    have "disable_4byte_cache_mode w =
      (let w = stub_lib_cache_start s3_cache_target u in w\<lparr>s_addr32_state := (s_addr32_state w)\<lparr>applied := False\<rparr>\<rparr>)"
      using assms(1) by (simp add: disable_4byte_cache_mode_def es u_def ws_def wrs_def Let_def REG_WRITE_eq cell_eq
          spi0_dummy_def)
    then show ?thesis by (simp add: Let_def fs(2)) (simp add: u_def)
  qed
  also have "\<dots> = peek c v"
  proof (rule peek_writes)
    show "plain w c" using c assms(2,3) by (auto simp: list_all_iff)
    show "(c, peek c v) \<in> set ws"
      using c assms(4,5) by (auto simp: ws_def addr32_cells_def addr32_saved_def ucast_byte)
    show "distinct (map fst ws)" by (simp add: ws_def spi0_dummy_def regs)
    show "list_all (keeps c) fs" using fs(1) by (auto simp: list_all_iff is_cache_call_keeps)
  qed
  finally show ?thesis .
qed

text \<open>
  C6: Switching the cache to four byte addresses and back restores the six SPI0 registers
  and the dummy length it changes, and clears the flag that says they are saved.
\<close>

lemma set_4byte_cache_mode_restores:
  assumes "s3_set_4byte_cache_mode True w = Some w1" and "\<not> already_4byte w"
    and "list_all (plain w) (spi0_dummy # addr32_cells)" "unat (peek spi0_dummy w) < 256"
    and "rd_dev w2 = rd_dev w" "s_addr32_state w2 = s_addr32_state w1"
    and "s3_set_4byte_cache_mode False w2 = Some w3"
  shows "(\<forall>c\<in>set (spi0_dummy # addr32_cells). peek c w3 = peek c w) \<and> \<not> applied (s_addr32_state w3)"
proof -
  have w1: "s_addr32_state w2 = addr32_saved w"
    using assms(1,2,3,6) enable_saves [of w] by (auto simp: s3_set_4byte_cache_mode_def)
  have w3: "w3 = disable_4byte_cache_mode w2" using assms(7) by (simp add: s3_set_4byte_cache_mode_def)
  have "plain w2 = plain w" using assms(5) by (simp add: plain_def fun_eq_iff)
  then have "\<forall>c\<in>set (spi0_dummy # addr32_cells). peek c w3 = peek c w"
    unfolding w3 using assms(3,4) w1 disable_peek [of w2 w]
    by (auto simp: addr32_saved_def)
  moreover have "\<not> applied (s_addr32_state w3)"
    by (simp add: w3 disable_4byte_cache_mode_def Let_def frames)
  ultimately show ?thesis by blast
qed

lemma set_4byte_cache_mode_restores_witness:
  "\<exists>w1 w3. s3_set_4byte_cache_mode True regfile_world = Some w1 \<and>
     s3_set_4byte_cache_mode False (after (regfile_world\<lparr>s_addr32_state := s_addr32_state w1\<rparr>)
       [Wr (Mmio (SPI_MEM_USER_REG 0)) 8, Wr (Mmio (SPI_MEM_CTRL_REG 0)) 9]) = Some w3 \<and>
     (\<forall>c\<in>set (spi0_dummy # addr32_cells). peek c w3 = 5) \<and> \<not> applied (s_addr32_state w3)"
proof -
  obtain w1 where i: "s3_set_4byte_cache_mode True regfile_world = Some w1"
    by (simp add: s3_set_4byte_cache_mode_def)
  let ?w2 = "after (regfile_world\<lparr>s_addr32_state := s_addr32_state w1\<rparr>)
       [Wr (Mmio (SPI_MEM_USER_REG 0)) 8, Wr (Mmio (SPI_MEM_CTRL_REG 0)) 9]"
  obtain w3 where d: "s3_set_4byte_cache_mode False ?w2 = Some w3"
    by (simp add: s3_set_4byte_cache_mode_def)
  have pk: "peek c regfile_world = 5" for c
    by (simp add: peek_def regfile_world_def regfile_def quiet_world_def)
  have "\<not> already_4byte regfile_world" by (simp add: already_4byte_def pk regs)
  moreover have "list_all (plain regfile_world) (spi0_dummy # addr32_cells)"
    by (simp add: regfile_world_plain list_all_iff)
  ultimately show ?thesis
    using set_4byte_cache_mode_restores [OF i _ _ _ _ _ d] i d by (auto simp: pk)
qed

section \<open>Initialisation\<close>

text \<open>
  The size an identification stands for is unknown or a power of two between 256 KiB
  and 256 MiB.
\<close>

lemma id_to_size_power:
  "stub_target_flash_id_to_flash_size i = 0 \<or>
   (\<exists>k. 18 \<le> k \<and> k \<le> 28 \<and> stub_target_flash_id_to_flash_size i = push_bit k 1)"
proof (cases "i AND 0xff \<in> {0x12, 0x13, 0x14, 0x15, 0x16, 0x17, 0x18, 0x19, 0x1A, 0x1B, 0x1C}")
  case True
  then have "18 \<le> unat (i AND 0xff) \<and> unat (i AND 0xff) \<le> 28" by auto
  then show ?thesis
    using True by (simp only: stub_target_flash_id_to_flash_size_def Let_def if_True) blast
next
  case False
  have "MIB 32 = push_bit 25 1" by (simp add: MIB_def)
  then show ?thesis
    using False by (simp only: stub_target_flash_id_to_flash_size_def Let_def if_False) (auto intro: exI [of _ 25])
qed

text \<open>
  The capacity a manufacturer's identification names by its last byte, 0 when the code is not
  one of those in use: the exponent of two for 256 KiB up to 256 MiB, and one code of its own
  for 32 MiB.
\<close>

definition capacity :: "u32 \<Rightarrow> nat" where
  "capacity i = (let b = unat i mod 256 in if 18 \<le> b \<and> b \<le> 28 then 2 ^ b else if b = 57 then 2 ^ 25 else 0)"

lemma id_to_size_capacity: "unat (stub_target_flash_id_to_flash_size i) = capacity i"
proof -
  define j where "j = i AND 0xff"
  have b: "unat j = unat i mod 256"
    using unat_and_pow2 [of i 8] by (simp add: j_def)
  have mem: "j \<in> {0x12, 0x13, 0x14, 0x15, 0x16, 0x17, 0x18, 0x19, 0x1A, 0x1B, 0x1C} \<longleftrightarrow> 18 \<le> unat j \<and> unat j \<le> 28"
    by (simp add: word_unat_eq_iff) presburger
  show ?thesis
  proof (cases "18 \<le> unat j \<and> unat j \<le> 28")
    case True
    then have "(2 :: nat) ^ unat j \<le> 2 ^ 28" by (intro power_increasing) simp_all
    then have "unat (of_nat (2 ^ unat j) :: u32) = 2 ^ unat j" by (intro unat_of_nat32) simp
    then have "unat (push_bit (unat j) 1 :: u32) = 2 ^ unat j" by (simp add: push_bit_eq_mult)
    then show ?thesis
      using True mem b by (simp only: stub_target_flash_id_to_flash_size_def j_def [symmetric] Let_def capacity_def if_True simp_thms)
  next
    case False
    then show ?thesis
      using mem b by (simp only: stub_target_flash_id_to_flash_size_def j_def [symmetric] Let_def capacity_def if_False simp_thms)
        (simp add: word_unat_eq_iff MIB_def)
  qed
qed

definition configured_size :: "u32 \<Rightarrow> u32" where
  "configured_size i = (if stub_target_flash_id_to_flash_size i = 0 then s3_get_max_supported_flash_size
     else stub_target_flash_id_to_flash_size i)"

lemma configured_size_spec:
  "stub_target_flash_id_to_flash_size i = 0 \<longleftrightarrow> capacity i = 0"
  "unat (configured_size i) = (if capacity i = 0 then 2 ^ 30 else capacity i)"
  "configured_size i > MIB 16 \<longleftrightarrow> 2 ^ 24 < unat (configured_size i)"
proof -
  show z: "stub_target_flash_id_to_flash_size i = 0 \<longleftrightarrow> capacity i = 0"
    unfolding id_to_size_capacity [symmetric] by (simp add: unat_eq_zero)
  have "unat s3_get_max_supported_flash_size = 2 ^ 30" by (simp add: s3_get_max_supported_flash_size_def GIB_def)
  then show "unat (configured_size i) = (if capacity i = 0 then 2 ^ 30 else capacity i)"
    unfolding configured_size_def z by (simp add: id_to_size_capacity)
  show "configured_size i > MIB 16 \<longleftrightarrow> 2 ^ 24 < unat (configured_size i)"
    by (simp add: word_less_nat_alt MIB_def)
qed

lemma evs_save [evs_rules]:
  "evs w (snd sw) \<Longrightarrow> evs w (snd (save_spi_reg i r sw))"
  "evs w (snd sw) \<Longrightarrow> evs w (snd (save_spi0_reg i r sw))"
  by (simp_all add: save_spi_reg_def save_spi0_reg_def prim_eq split_beta evs_after)

lemma evs_s3 [evs_rules]:
  "evs w u \<Longrightarrow> evs w (s3_spi_init u)"
  "evs w u \<Longrightarrow> evs w (s3_flash_init_funcs u)"
  "evs w u \<Longrightarrow> evs w (snd (s3_flash_needs_attach u))"
  "evs w u \<Longrightarrow> evs w (snd (s3_flash_get_spiconfig_efuse u))"
  "evs w u \<Longrightarrow> evs w (snd (octal_save_spi0_state s u))"
  "evs w u \<Longrightarrow> evs w (snd (s3_flash_state_save st u))"
  by (auto simp: s3_spi_init_def s3_flash_init_funcs_def s3_flash_needs_attach_def s3_flash_get_spiconfig_efuse_def
      octal_save_spi0_state_def s3_flash_state_save_def Let_def split_beta intro!: evs_rules split: option.splits)

lemma s3_flash_init_evs:
  assumes "s3_flash_init s p w = Some (s', w')"
  shows "evs w w'"
  using assms
  by (auto simp: s3_flash_init_def Let_def split_beta stub_target_flash_attach_def intro!: evs_rules
      split: option.splits if_splits)

lemma evs_large: "evs w w' \<Longrightarrow> large_flash_mode w' = large_flash_mode w"
  unfolding evs_def by (rule emits_large)


text \<open>The cache switch adds events and changes only its own static.\<close>

definition grows :: "'a flash_world_scheme \<Rightarrow> 'a flash_world_scheme \<Rightarrow> bool" where
  "grows w w' \<longleftrightarrow> (\<exists>es. trace w' = trace w @ es) \<and> large_flash_mode w' = large_flash_mode w"

lemma grows_refl: "grows w w"
  by (simp add: grows_def)

lemma grows_evs: "grows w u \<Longrightarrow> evs u v \<Longrightarrow> grows w v"
  using evs_large [of u v] by (auto simp: grows_def evs_def emits_def)

lemma grows_state: "grows w u \<Longrightarrow> grows w (u\<lparr>s_addr32_state := x\<rparr>)"
  by (simp add: grows_def)

lemma evs_cache [evs_rules]:
  "evs w u \<Longrightarrow> evs w (stub_lib_cache_stop s3_cache_target u)"
  "evs w u \<Longrightarrow> evs w (stub_lib_cache_start s3_cache_target u)"
  by (auto simp: s3_cache_defs Let_def intro!: evs_rules)

lemma grows_prims:
  "grows w u \<Longrightarrow> grows w (CLEAR_PERI_REG_MASK r v u)" "grows w u \<Longrightarrow> grows w (REG_SET_FIELD r a b v u)"
  "grows w u \<Longrightarrow> grows w (cell_write c v u)" "grows w u \<Longrightarrow> grows w (rom_void f args d u)"
  "grows w u \<Longrightarrow> grows w (emit e u)" "grows w u \<Longrightarrow> grows w (snd (REG_READ r u))"
  "grows w u \<Longrightarrow> grows w (snd (REG_GET_FIELD r a b u))"
  "grows w u \<Longrightarrow> grows w (stub_lib_cache_stop s3_cache_target u)"
  "grows w u \<Longrightarrow> grows w (stub_lib_cache_start s3_cache_target u)"
  by (erule grows_evs, simp add: REG_GET_FIELD_def split_beta evs_rules)+

lemma enable_grows: "grows w (enable_4byte_cache_mode w)"
  unfolding enable_4byte_cache_mode_def Let_def split_beta
  by (auto intro!: grows_state grows_prims grows_refl)

text \<open>
  C10: On the ESP32-S3, initialising the flash configures the ROM with the capacity the
  identification names, 256 KiB to 256 MiB by its last byte, or with 1 GiB, the largest the
  chip supports, when it names none, and with the fixed geometry; it reports which of the
  two it was or that the configuration failed, and turns large flash mode on exactly when
  that size exceeds 16 MiB.
\<close>

lemma init_ex_outcome:
  assumes "stub_lib_flash_init_ex s3_flash_target s p e w = Some (r, s', w')"
  shows "\<exists>pre mid id n ret out. trace w' = pre @ Rd (RomVar Chip_flash_id) id # mid @
       [Call (FlashFn Esp_rom_spiflash_config_param) [id, n, 0x10000, 0x1000, 0x100, 0xFFFF] [] ret out] \<and>
    unat n = (if capacity id = 0 then 2 ^ 30 else capacity id) \<and>
    r = (if ret \<noteq> 0 then STUB_LIB_FAIL
         else if capacity id = 0 then STUB_LIB_ERR_UNKNOWN_FLASH_ID else STUB_LIB_OK) \<and>
    (large_flash_mode w' \<longleftrightarrow> large_flash_mode w \<or> 2 ^ 24 < unat n)"
proof -
  obtain w1 where w1: "s3_flash_init s p w = Some (s', w1)"
    using assms by (auto simp: stub_lib_flash_init_ex_def bind_eq_Some_conv Let_def split_beta)
  define w2 where "w2 = rom_void (FlashFn Esp_rom_spi_flash_update_id) [] [] w1"
  define i where "i = peek (RomVar Chip_flash_id) w2"
  define w3 where "w3 = after w2 [Rd (RomVar Chip_flash_id) i]"
  define big where "big \<longleftrightarrow> configured_size i > MIB 16"
  define w4 where "w4 = (if big then (if e then enable_4byte_cache_mode (w3\<lparr>large_flash_mode := True\<rparr>)
     else w3\<lparr>large_flash_mode := True\<rparr>) else w3)"
  let ?f = "FlashFn Esp_rom_spiflash_config_param"
  let ?a = "[i, configured_size i, STUB_FLASH_BLOCK_SIZE, STUB_FLASH_SECTOR_SIZE, STUB_FLASH_PAGE_SIZE,
     STUB_FLASH_STATUS_MASK]"
  have w': "w' = after w4 [Call ?f ?a [] (rom_ret ?f ?a [] w4) (rom_out ?f ?a [] w4)]"
    and r: "r = (if rom_ret ?f ?a [] w4 \<noteq> 0 then STUB_LIB_FAIL
       else if stub_target_flash_id_to_flash_size i = 0 then STUB_LIB_ERR_UNKNOWN_FLASH_ID else STUB_LIB_OK)"
    using assms w1
    by (auto simp: stub_lib_flash_init_ex_def bind_eq_Some_conv Let_def split_beta rcs
        stub_target_flash_get_flash_id_def stub_target_flash_get_config_def stub_target_flash_update_config_def
        s3_set_4byte_cache_mode_def w2_def [symmetric] i_def [symmetric] w3_def [symmetric] cell_eq
        configured_size_def w4_def big_def rom_eq(2) split: if_splits)
  have "evs w w3"
    using s3_flash_init_evs [OF w1] by (simp add: w3_def w2_def evs_rules evs_after)
  then have l3: "large_flash_mode w3 = large_flash_mode w" by (rule evs_large)
  have "\<exists>mid. trace w4 = trace w3 @ mid"
    using enable_grows [of "w3\<lparr>large_flash_mode := True\<rparr>"] by (auto simp: w4_def grows_def)
  then obtain mid where mid: "trace w4 = trace w3 @ mid" by blast
  have "large_flash_mode w4 \<longleftrightarrow> large_flash_mode w \<or> big"
    using enable_grows [of "w3\<lparr>large_flash_mode := True\<rparr>"] l3 by (auto simp: w4_def grows_def)
  then have tr: "trace w' = trace w2 @ Rd (RomVar Chip_flash_id) i # mid @
      [Call ?f ?a [] (rom_ret ?f ?a [] w4) (rom_out ?f ?a [] w4)]"
    and lg: "large_flash_mode w' \<longleftrightarrow> large_flash_mode w \<or> configured_size i > MIB 16"
    using mid by (simp_all add: w' w3_def big_def)
  have "?a = [i, configured_size i, 0x10000, 0x1000, 0x100, 0xFFFF]" by (simp add: regs)
  note tr' = tr [unfolded this]
  show ?thesis
    by (rule exI, rule exI, rule exI, rule exI, rule exI, rule exI, rule conjI, rule tr', intro conjI)
      (use r lg in \<open>simp_all only: configured_size_spec rom_ret_def regs\<close>)
qed

lemma init_ex_outcome_witness:
  "\<exists>r s' w' pre mid id n ret out. stub_lib_flash_init_ex s3_flash_target None STUB_LIB_FLASH_ATTACH_ALWAYS False
       (quiet_world\<lparr>rd_dev := \<lambda>_ _. 0x39\<rparr>) = Some (r, s', w') \<and>
     trace w' = pre @ Rd (RomVar Chip_flash_id) id # mid @
       [Call (FlashFn Esp_rom_spiflash_config_param) [id, n, 0x10000, 0x1000, 0x100, 0xFFFF] [] ret out] \<and>
     unat n = (if capacity id = 0 then 2 ^ 30 else capacity id) \<and> (large_flash_mode w' \<longleftrightarrow> 2 ^ 24 < unat n)"
proof -
  let ?w = "quiet_world\<lparr>rd_dev := \<lambda>_ _. 0x39\<rparr>"
  have "returns (stub_lib_flash_init_ex s3_flash_target None STUB_LIB_FLASH_ATTACH_ALWAYS False ?w)"
    by (auto simp: stub_lib_flash_init_ex_def Let_def stub_target_flash_get_flash_id_def
        stub_target_flash_update_config_def split: prod.splits intro!: returns_bind init_returns)
  then obtain r s' w' where r: "stub_lib_flash_init_ex s3_flash_target None STUB_LIB_FLASH_ATTACH_ALWAYS False ?w = Some (r, s', w')"
    by (auto simp: returns_def)
  have "\<not> large_flash_mode ?w" by (simp add: quiet_world_def)
  with init_ex_outcome [OF r] r show ?thesis by blast
qed

end
