(* ===== verification/Chip_Window.thy ===== *)
theory Chip_Window
  imports Chip_Cache
begin

text \<open>
  Reading flash through the cache on every chip. What the drivers of all chips have in common
  is the locale \<open>mmu_chip\<close>: an operation only reads, moves the index register or calls the
  cache functions of the ROM, except that writing an entry writes that entry. It gives the
  contract \<open>mmu_table\<close> of the window code, and each chip's functions are shown to meet it.
\<close>

section \<open>The entries of a table\<close>

text \<open>
  Entries are behind an index and a content register, or are words of a table. \<open>entry_of\<close> is
  what the software would read as an entry after the events es.
\<close>

datatype mmu_port = Indexed u32 u32 | Table u32

fun entry_of :: "mmu_port \<Rightarrow> (ev list \<Rightarrow> cell \<Rightarrow> u32) \<Rightarrow> ev list \<Rightarrow> u32 \<Rightarrow> u32" where
  "entry_of (Indexed i c) rd es e = rd (es @ [Wr (Mmio i) e]) (Mmio c)"
| "entry_of (Table b) rd es e = rd es (Mmio (b + 4 * e))"

fun put_events :: "mmu_port \<Rightarrow> u32 \<Rightarrow> u32 \<Rightarrow> ev list" where
  "put_events (Indexed i c) e v = [Wr (Mmio i) e, Wr (Mmio c) v]"
| "put_events (Table b) e v = [Wr (Mmio (b + 4 * e)) v]"

fun entry_cell :: "mmu_port \<Rightarrow> u32 \<Rightarrow> cell" where
  "entry_cell (Indexed i c) e = Mmio c"
| "entry_cell (Table b) e = Mmio (b + 4 * e)"

text \<open>
  Events that leave the entries alone: reads, writes elsewhere, the ROM functions of the cache
  that do not set up the MMU, and the query of the encryption fuse.
\<close>

definition quiet_call :: "rom_fn \<Rightarrow> bool" where
  "quiet_call f \<longleftrightarrow> (case f of CacheFn g \<Rightarrow> g \<noteq> ROM_Boot_Cache_Init \<and> g \<noteq> Cache_MMU_Init
     | FlashFn g \<Rightarrow> g = Esp_rom_efuse_flash_encryption_enabled | _ \<Rightarrow> False)"

definition quiet :: "mmu_port \<Rightarrow> u32 \<Rightarrow> ev \<Rightarrow> bool" where
  "quiet P n x \<longleftrightarrow> (case x of Wr c v \<Rightarrow> \<forall>e<n. c \<noteq> entry_cell P e | Call f args d r out \<Rightarrow> quiet_call f | _ \<Rightarrow> True)"

text \<open>The hardware keeps n entries: a write sets its entry, quiet events none.\<close>

definition port_law :: "mmu_port \<Rightarrow> u32 \<Rightarrow> (ev list \<Rightarrow> cell \<Rightarrow> u32) \<Rightarrow> bool" where
  "port_law P n rd \<longleftrightarrow>
     (\<forall>es e v f. e < n \<longrightarrow> f < n \<longrightarrow>
        entry_of P rd (es @ put_events P e v) f = (if f = e then v else entry_of P rd es f)) \<and>
     (\<forall>es x f. f < n \<longrightarrow> quiet P n x \<longrightarrow> entry_of P rd (es @ [x]) f = entry_of P rd es f)"

lemma entry_of_quiet:
  assumes "port_law P n rd" "list_all (quiet P n) xs" "f < n"
  shows "entry_of P rd (es @ xs) f = entry_of P rd es f"
  using assms(2)
proof (induction xs rule: rev_induct)
  case (snoc x xs)
  then have q: "quiet P n x" and IH: "entry_of P rd (es @ xs) f = entry_of P rd es f" by simp_all
  have "entry_of P rd ((es @ xs) @ [x]) f = entry_of P rd (es @ xs) f"
    using assms(1,3) q unfolding port_law_def by blast
  then show ?case using IH by simp
qed simp

section \<open>What an operation does to the world\<close>

definition runs :: "'a mmap_world_scheme \<Rightarrow> 'a mmap_world_scheme \<Rightarrow> ev list \<Rightarrow> bool" where
  "runs w w' es \<longleftrightarrow> trace w' = trace w @ es \<and> rd_dev w' = rd_dev w \<and> rom_dev w' = rom_dev w \<and>
     mem_dev w' = mem_dev w \<and> s_mmap_state w' = s_mmap_state w"

definition steps :: "mmu_port \<Rightarrow> u32 \<Rightarrow> 'a mmap_world_scheme \<Rightarrow> 'a mmap_world_scheme \<Rightarrow> bool" where
  "steps P n w w' \<longleftrightarrow> (\<exists>es. list_all (quiet P n) es \<and> runs w w' es)"

lemma runs_after: "runs w (after w es) es"
  by (simp add: runs_def)

lemma steps_refl: "steps P n w w"
  unfolding steps_def by (rule exI [of _ "[]"]) (simp add: runs_def)

lemma steps_trans: "steps P n w u \<Longrightarrow> steps P n u v \<Longrightarrow> steps P n w v"
proof -
  assume "steps P n w u" "steps P n u v"
  then obtain es fs where "list_all (quiet P n) es" "runs w u es" "list_all (quiet P n) fs" "runs u v fs"
    by (auto simp: steps_def)
  then show ?thesis by (auto simp: steps_def runs_def intro!: exI [of _ "es @ fs"])
qed

lemma steps_after: "steps P n w u \<Longrightarrow> list_all (quiet P n) es \<Longrightarrow> steps P n w (after u es)"
  by (erule steps_trans) (auto simp: steps_def intro: runs_after)

lemma steps_autoload: "steps P n w u \<Longrightarrow> steps P n w (u\<lparr>s_saved_autoload := x\<rparr>)"
  by (erule steps_trans) (auto simp: steps_def runs_def intro!: exI [of _ "[]"])

lemma quiet_simps [simp]:
  "quiet P n (Rd c v)" "quiet P n (Ld a bs)" "quiet P n (St a bs)"
  "quiet P n (Call f args d r out) = quiet_call f"
  by (simp_all add: quiet_def)

lemma steps_calls:
  "steps P n w u \<Longrightarrow> quiet_call (CacheFn f) \<Longrightarrow> steps P n w (rom_void (CacheFn f) args d u)"
  "steps P n w u \<Longrightarrow> quiet_call (CacheFn f) \<Longrightarrow> steps P n w (s31_table_call f args u)"
  "steps P n w u \<Longrightarrow> steps P n w (snd (mem_load a k u))"
  by (simp_all add: prim_eq s31_table_call_def steps_after)

lemma steps_suspend:
  assumes "steps P n w u" "quiet_call (CacheFn f)"
  shows "steps P n w (let (r, u) = rom_num (CacheFn f) args d u in if r \<noteq> 0 then u\<lparr>s_saved_autoload := x u\<rparr> else u)"
  using assms by (simp add: prim_eq steps_after steps_autoload)

section \<open>A chip's window\<close>

record mmu_shape =
  sh_port :: mmu_port
  sh_first :: u32
  sh_count :: u32
  sh_shift :: nat
  sh_raw :: "u32 \<Rightarrow> u32"
  sh_pages :: nat
  sh_base :: u32

definition mmu_entries :: "mmu_shape \<Rightarrow> 'a world_scheme \<Rightarrow> u32 \<Rightarrow> u32" where
  "mmu_entries S w e = (if e < sh_count S then entry_of (sh_port S) (rd_dev w) (trace w) e else 0)"

text \<open>
  The hardware: the table keeps its entries, and the byte at an offset in the window is the
  byte of the flash page its entry names.
\<close>

definition window_hw :: "mmu_shape \<Rightarrow> (u32 \<Rightarrow> u8) \<Rightarrow> 'a world_scheme \<Rightarrow> bool" where
  "window_hw S flash w \<longleftrightarrow> port_law (sh_port S) (sh_count S) (rd_dev w) \<and>
     (\<forall>es a n. length (mem_dev w es a n) = n \<and>
        (\<forall>i x p. i < n \<and> x = unat (a + of_nat i - sh_base S) \<and>
           x div 2 ^ sh_shift S < unat (sh_count S - sh_first S) \<and>
           entry_of (sh_port S) (rd_dev w) es (sh_first S + of_nat (x div 2 ^ sh_shift S)) = sh_raw S p \<and>
           unat p < sh_pages S \<longrightarrow>
           mem_dev w es a n ! i = flash (p * 2 ^ sh_shift S + of_nat (x mod 2 ^ sh_shift S))))"

text \<open>The numbers of a shape fit the address space.\<close>

definition shape_ok :: "mmu_shape \<Rightarrow> bool" where
  "shape_ok S \<longleftrightarrow> sh_first S \<le> sh_count S \<and>
     unat (sh_count S - sh_first S) * 2 ^ sh_shift S \<le> 4294967296 \<and>
     mmu_page_shift (2 ^ sh_shift S) = sh_shift S \<and> 0 < sh_shift S \<and> sh_shift S < 32 \<and>
     sh_pages S * 2 ^ sh_shift S \<le> 4294967296"

lemma window_hw_cong: "rd_dev w' = rd_dev w \<Longrightarrow> mem_dev w' = mem_dev w \<Longrightarrow> window_hw S flash w' = window_hw S flash w"
  by (simp add: window_hw_def)

lemma mmu_entries_steps:
  assumes "window_hw S flash w" "steps (sh_port S) (sh_count S) w w'"
  shows "mmu_entries S w' = mmu_entries S w" "window_hw S flash w'"
proof -
  obtain es where es: "list_all (quiet (sh_port S) (sh_count S)) es" "runs w w' es" using assms(2) by (auto simp: steps_def)
  then have d: "rd_dev w' = rd_dev w" "mem_dev w' = mem_dev w" "trace w' = trace w @ es" by (simp_all only: runs_def)
  then show "window_hw S flash w'" using assms(1) window_hw_cong by blast
  have "port_law (sh_port S) (sh_count S) (rd_dev w)" using assms(1) by (simp add: window_hw_def)
  then show "mmu_entries S w' = mmu_entries S w"
    unfolding mmu_entries_def d by (intro ext if_cong refl) (rule entry_of_quiet [OF _ es(1)])
qed

lemma mmu_entries_put:
  assumes "window_hw S flash w" "runs w w' (put_events (sh_port S) e v)" "e < sh_count S"
  shows "mmu_entries S w' = (mmu_entries S w)(e := v)" "window_hw S flash w'"
proof -
  have d: "rd_dev w' = rd_dev w" "mem_dev w' = mem_dev w" "trace w' = trace w @ put_events (sh_port S) e v"
    using assms(2) by (simp_all only: runs_def)
  then show "window_hw S flash w'" using assms(1) window_hw_cong by blast
  have "port_law (sh_port S) (sh_count S) (rd_dev w)" using assms(1) by (simp add: window_hw_def)
  then have put: "entry_of (sh_port S) (rd_dev w) (trace w @ put_events (sh_port S) e v) f =
      (if f = e then v else entry_of (sh_port S) (rd_dev w) (trace w) f)" if "f < sh_count S" for f
    using that assms(3) unfolding port_law_def by blast
  show "mmu_entries S w' = (mmu_entries S w)(e := v)"
  proof
    fix f
    show "mmu_entries S w' f = ((mmu_entries S w)(e := v)) f"
      using put [of f] assms(3) by (cases "f < sh_count S"; cases "f = e") (simp_all add: mmu_entries_def d)
  qed
qed

definition hw_ok ::
  "mmu_shape \<Rightarrow> (u32 \<Rightarrow> u8) \<Rightarrow> ((ev list \<Rightarrow> cell \<Rightarrow> u32) \<Rightarrow>
     (ev list \<Rightarrow> rom_fn \<Rightarrow> u32 list \<Rightarrow> u8 list \<Rightarrow> u32 \<times> u8 list) \<Rightarrow> bool) \<Rightarrow> 'a world_scheme \<Rightarrow> bool" where
  "hw_ok S flash law w \<longleftrightarrow> window_hw S flash w \<and> law (rd_dev w) (rom_dev w)"

locale mmu_chip =
  fixes M :: "'a mmap_world_scheme mmu_target" and C :: "('s, 'a mmap_world_scheme) cache_target"
    and S :: mmu_shape and flash :: "u32 \<Rightarrow> u8"
    and law :: "(ev list \<Rightarrow> cell \<Rightarrow> u32) \<Rightarrow> (ev list \<Rightarrow> rom_fn \<Rightarrow> u32 list \<Rightarrow> u8 list \<Rightarrow> u32 \<times> u8 list) \<Rightarrow> bool"
  assumes page_size: "law (rd_dev w) (rom_dev w) \<Longrightarrow> tm_get_page_size M w = (p, w') \<Longrightarrow>
      p = 2 ^ sh_shift S \<and> steps (sh_port S) (sh_count S) w w'"
    and drom_vaddr: "law (rd_dev w) (rom_dev w) \<Longrightarrow> tm_get_drom_vaddr M w = (v, w') \<Longrightarrow>
      v = sh_base S \<and> steps (sh_port S) (sh_count S) w w'"
    and entry_read: "e < sh_count S \<Longrightarrow> tm_read_entry M e w = (v, w') \<Longrightarrow>
      v = mmu_entries S w e \<and> steps (sh_port S) (sh_count S) w w'"
    and entry_write: "law (rd_dev w) (rom_dev w) \<Longrightarrow> e < sh_count S \<Longrightarrow>
      \<exists>u. steps (sh_port S) (sh_count S) w u \<and> runs u (tm_write_entry M e p w) (put_events (sh_port S) e (sh_raw S p))"
    and entry_restore: "e < sh_count S \<Longrightarrow> runs w (tm_restore_entry M e v w) (put_events (sh_port S) e v)"
    and stop: "steps (sh_port S) (sh_count S) w (stub_lib_cache_stop C w)"
    and start: "steps (sh_port S) (sh_count S) w (stub_lib_cache_start C w)"
    and invalidated: "steps (sh_port S) (sh_count S) w (mmu_invalidate_region C v k w)"
    and first: "tm_get_drom_entry_start M = sh_first S" and count: "tm_get_drom_entry_end M = sh_count S"
    and shape: "shape_ok S"
begin

lemma hw_steps:
  assumes "hw_ok S flash law w" "steps (sh_port S) (sh_count S) w w'"
  shows "hw_ok S flash law w' \<and> mmu_entries S w' = mmu_entries S w \<and> s_mmap_state w' = s_mmap_state w"
  using assms mmu_entries_steps [of S flash w w'] by (auto simp: hw_ok_def steps_def runs_def)

lemma hw_put:
  assumes "hw_ok S flash law w" "runs w w' (put_events (sh_port S) e v)" "e < sh_count S"
  shows "hw_ok S flash law w' \<and> mmu_entries S w' = (mmu_entries S w)(e := v) \<and> s_mmap_state w' = s_mmap_state w"
  using assms mmu_entries_put [of S flash w w' e v] by (auto simp: hw_ok_def runs_def)

end

sublocale mmu_chip \<subseteq> table: mmu_table M C "hw_ok S flash law" "mmu_entries S" "sh_raw S" "2 ^ sh_shift S" "sh_base S"
    "sh_shift S" "\<lambda>e. e < sh_count S" flash "sh_pages S"
proof (unfold_locales, goal_cases)
  case (1 w p w')
  then show ?case using page_size [of w p w'] hw_steps [of w w'] by (auto simp: hw_ok_def)
next
  case (2 w v w')
  then show ?case using drom_vaddr [of w v w'] hw_steps [of w w'] by (auto simp: hw_ok_def)
next
  case (3 w e v w')
  then show ?case using entry_read [of e w v w'] hw_steps [of w w'] by auto
next
  case (4 w e p)
  then obtain u where u: "steps (sh_port S) (sh_count S) w u"
      "runs u (tm_write_entry M e p w) (put_events (sh_port S) e (sh_raw S p))"
    using entry_write [of w e p] by (auto simp: hw_ok_def)
  with 4 hw_steps [OF 4(1) u(1)] hw_put [of u _ e "sh_raw S p"] show ?case by metis
next
  case (5 w e v)
  then show ?case using entry_restore [of e w v] hw_put by blast
next
  case (6 w a n)
  have "steps (sh_port S) (sh_count S) w (snd (mem_load a n w))" by (rule steps_calls) (rule steps_refl)
  then show ?case using 6 hw_steps by blast
next
  case (7 w s)
  then show ?case by (simp add: hw_ok_def window_hw_def mmu_entries_def fun_eq_iff)
next
  case (8 w)
  then show ?case using stop hw_steps by blast
next
  case (9 w)
  then show ?case using start hw_steps by blast
next
  case (10 w v k)
  then show ?case using invalidated hw_steps by blast
next
  case (18 w i n a p)
  let ?x = "unat (a + of_nat i - sh_base S)"
  have lt: "sh_first S + of_nat (?x div 2 ^ sh_shift S) < sh_count S"
  proof -
    have "unat (sh_count S - sh_first S) = unat (sh_count S) - unat (sh_first S)"
      using shape by (intro unat_diff) (simp add: shape_ok_def)
    then have k: "unat (sh_first S) + ?x div 2 ^ sh_shift S < unat (sh_count S)"
      using 18(5) by (simp add: first count)
    moreover have "unat (of_nat (?x div 2 ^ sh_shift S) :: u32) = ?x div 2 ^ sh_shift S"
      using k unat_lt32 [of "sh_count S"] by (intro unat_of_nat32) simp
    ultimately show ?thesis
      using unat_lt32 [of "sh_count S"] by (simp add: word_less_nat_alt unat_add_lt32)
  qed
  then show ?case
    using 18 by (auto simp: hw_ok_def window_hw_def mem_eq mmu_entries_def first count)
next
  case (20 w a n)
  then show ?case by (simp add: hw_ok_def window_hw_def mem_eq)
qed (use shape in \<open>auto simp: shape_ok_def first count\<close>)

section \<open>Which reads succeed\<close>

definition pages_touched :: "nat \<Rightarrow> u32 \<Rightarrow> u32 \<Rightarrow> nat" where
  "pages_touched shift a sz = (unat a mod 2 ^ shift + unat sz + (2 ^ shift - 1)) div 2 ^ shift"

text \<open>
  The page count is computed by adding a page less one and shifting, in 32 bits: the sum
  wraps when the end of the range lies in the last page below 4 GiB.
\<close>

definition count_wraps :: "nat \<Rightarrow> u32 \<Rightarrow> u32 \<Rightarrow> bool" where
  "count_wraps shift a sz \<longleftrightarrow> 4294967296 - 2 ^ shift < unat a mod 2 ^ shift + unat sz \<and>
     unat a mod 2 ^ shift + unat sz < 4294967296"

lemma pages_touched_pos: "sz \<noteq> 0 \<Longrightarrow> 0 < pages_touched n a sz"
proof -
  assume "sz \<noteq> 0"
  then have "0 < unat sz" by (simp add: unat_gt_0)
  then have "2 ^ n \<le> unat a mod 2 ^ n + unat sz + (2 ^ n - 1)" by linarith
  then show ?thesis by (simp add: pages_touched_def div_greater_zero_iff)
qed

context mmu_table
begin

lemma page_count_eq:
  fixes a sz :: u32
  assumes nw: "unat sz + 2 * 2 ^ shift \<le> 4294967296"
  defines "off \<equiv> a - ALIGN_DOWN a page_size"
  shows "unat off = unat a mod 2 ^ shift" "\<not> sz > 0xFFFFFFFF - off"
    "unat (drop_bit shift (sz + off + page_size - 1)) = pages_touched shift a sz"
proof -
  show off: "unat off = unat a mod 2 ^ shift"
    using unat_and_pow2 [of a shift] ALIGN_DOWN_pow2 [of a shift] shift(2,4) by (simp add: off_def)
  have o: "unat off < 2 ^ shift" using off by simp
  have "unat (0xFFFFFFFF - off) = 4294967295 - unat off"
    using o nw by (subst unat_diff) (simp_all add: word_le_nat_alt)
  then show "\<not> sz > 0xFFFFFFFF - off" using o nw by (simp add: word_less_nat_alt)
  have u1: "unat (sz + off) = unat sz + unat off" by (rule unat_add_lt32) (use nw o in simp)
  have ps: "unat page_size = 2 ^ shift" by (rule unat_page_size)
  have "unat (sz + off + page_size) = unat (sz + off) + unat page_size"
    by (rule unat_add_lt32) (use nw o u1 ps in simp)
  moreover have "1 \<le> unat sz + unat off + (2 :: nat) ^ shift"
    using one_le_numeral [of num.One] by (simp add: Suc_le_eq add_pos_pos trans_less_add2)
  ultimately have pm1: "unat (sz + off + page_size - 1) = unat sz + unat off + (2 ^ shift - 1)"
    using u1 ps by (subst unat_diff) (simp_all add: word_le_nat_alt)
  show "unat (drop_bit shift (sz + off + page_size - 1)) = pages_touched shift a sz"
    unfolding unat_drop_bit_eq pm1 pages_touched_def off drop_bit_nat_def by (simp only: add.commute)
qed

lemma count_cases:
  fixes a sz :: u32
  defines "off \<equiv> a - ALIGN_DOWN a page_size"
  shows "sz > 0xFFFFFFFF - off \<longleftrightarrow> 4294967296 \<le> unat a mod 2 ^ shift + unat sz"
    "unat a mod 2 ^ shift + unat sz < 4294967296 \<Longrightarrow> unat (drop_bit shift (sz + off + page_size - 1)) =
       (if count_wraps shift a sz then 0 else pages_touched shift a sz)"
proof -
  define x where "x = unat a mod 2 ^ shift + unat sz"
  define m where "m = (2 :: nat) ^ shift"
  have off: "unat off = unat a mod 2 ^ shift"
    using unat_and_pow2 [of a shift] ALIGN_DOWN_pow2 [of a shift] shift(2,4) by (simp add: off_def)
  have "unat (0xFFFFFFFF - off) = 4294967295 - unat off"
    using unat_lt32 [of off] by (subst unat_diff) (simp_all add: word_le_nat_alt)
  then show "sz > 0xFFFFFFFF - off \<longleftrightarrow> 4294967296 \<le> unat a mod 2 ^ shift + unat sz"
    using unat_lt32 [of off] by (auto simp: word_less_nat_alt off)
  assume lt: "unat a mod 2 ^ shift + unat sz < 4294967296"
  have m: "1 \<le> m" "m \<le> 4294967296"
    using shift(4) power_increasing [of shift 32 "2 :: nat"] by (simp_all add: m_def)
  have "(of_nat (m - 1) :: u32) = page_size - 1" using m by (simp add: of_nat_diff m_def shift(2))
  moreover have "sz + off = of_nat x" by (simp add: x_def off [symmetric] add.commute)
  ultimately have "sz + off + page_size - 1 = of_nat (x + (m - 1))" by (simp add: algebra_simps)
  then have u: "unat (sz + off + page_size - 1) = (x + (m - 1)) mod 4294967296"
    by (simp only: unat_of_nat) simp
  have cw: "count_wraps shift a sz \<longleftrightarrow> 4294967296 - m < x"
    using lt by (simp add: count_wraps_def x_def m_def)
  have "(x + (m - 1)) mod 4294967296 div m = (if count_wraps shift a sz then 0 else (x + (m - 1)) div m)"
  proof (cases "x + (m - 1) < 4294967296")
    case True
    then have "\<not> count_wraps shift a sz" using m unfolding cw by linarith
    with True show ?thesis by simp
  next
    case False
    then have "(x + (m - 1)) mod 4294967296 = x + (m - 1) - 4294967296"
      using lt m(2) by (subst le_mod_geq) (simp_all add: x_def)
    moreover have "x + (m - 1) - 4294967296 < m" using lt m by (simp add: x_def)
    moreover have "count_wraps shift a sz" using False m unfolding cw by linarith
    ultimately show ?thesis by simp
  qed
  then show "unat (drop_bit shift (sz + off + page_size - 1)) =
      (if count_wraps shift a sz then 0 else pages_touched shift a sz)"
    unfolding unat_drop_bit_eq drop_bit_nat_def u pages_touched_def x_def m_def .
qed

lemma read_flash_rc:
  assumes "ok w"
  shows "fst (fst (stub_lib_mmu_read_flash M C a sz w)) =
    (if sz = 0 \<or> 4294967296 \<le> unat a mod 2 ^ shift + unat sz \<or> \<not> count_wraps shift a sz \<and>
        (pages_touched shift a sz > 8 \<or>
         pages_touched shift a sz > unat (tm_get_drom_entry_end M - tm_get_drom_entry_start M))
     then STUB_LIB_ERR_INVALID_ARG else STUB_LIB_OK)"
proof -
  obtain p w1 where w1: "tm_get_page_size M w = (p, w1)" by fastforce
  have p: "p = page_size" using get_page_size [OF assms(1) w1] by simp
  obtain v w2 where w2: "tm_get_drom_vaddr M w1 = (v, w2)" by fastforce
  define off where "off = a - ALIGN_DOWN a page_size"
  define n where "n = (if count_wraps shift a sz then 0 else pages_touched shift a sz)"
  note pg = count_cases [of a sz, folded off_def n_def]
  have "fst (fst (mmu_mmap M C a sz w)) =
    (if sz = 0 \<or> 4294967296 \<le> unat a mod 2 ^ shift + unat sz \<or> n > 8 \<or>
        n > unat (tm_get_drom_entry_end M - tm_get_drom_entry_start M)
     then STUB_LIB_ERR_INVALID_ARG else STUB_LIB_OK)"
  proof (cases "4294967296 \<le> unat a mod 2 ^ shift + unat sz")
    case True
    then show ?thesis
      using pg(1) shift(1,3) unfolding mmu_mmap_def w1 p by (simp add: off_def [symmetric] Let_def)
  next
    case False
    then have gt: "drop_bit shift (sz + off + page_size - 1) > STUB_MMAP_MAX_PAGES \<longleftrightarrow> n > 8"
      "drop_bit shift (sz + off + page_size - 1) > tm_get_drom_entry_end M - tm_get_drom_entry_start M \<longleftrightarrow>
         n > unat (tm_get_drom_entry_end M - tm_get_drom_entry_start M)"
      using pg(2) by (simp_all add: word_less_nat_alt regs)
    show ?thesis
      using False pg(1) shift(1,3) unfolding mmu_mmap_def w1 p
      by (simp add: off_def [symmetric] gt w2 Let_def)
  qed
  then show ?thesis
    unfolding stub_lib_mmu_read_flash_def n_def by (auto simp: split_beta rcs split: if_splits)
qed

text \<open>When the count of pages wraps, nothing is mapped, and the address lies just behind the window.\<close>

lemma wrapped_mmap:
  assumes "ok w" "wf_mmap w" "count_wraps shift a sz"
  obtains v w' where "mmu_mmap M C a sz w = ((STUB_LIB_OK, v), w')" "page_count (s_mmap_state w') = 0"
    "entry w' = entry w"
    "v = drom_base + (tm_get_drom_entry_end M - tm_get_drom_entry_start M) * page_size + of_nat (unat a mod 2 ^ shift)"
proof -
  have x: "unat a mod 2 ^ shift + unat sz < 4294967296" "sz \<noteq> 0"
  proof -
    have "(2 :: nat) ^ shift \<le> 2147483648" using shift(4) power_increasing [of shift 31 "2 :: nat"] by simp
    moreover have "unat a mod 2 ^ shift < 2 ^ shift" by simp
    ultimately have "0 < unat sz" using assms(3) unfolding count_wraps_def by linarith
    then show "sz \<noteq> 0" by (simp add: unat_gt_0)
    show "unat a mod 2 ^ shift + unat sz < 4294967296" using assms(3) by (simp add: count_wraps_def)
  qed
  then have "fst (fst (stub_lib_mmu_read_flash M C a sz w)) = STUB_LIB_OK"
    using read_flash_rc [OF assms(1), of a sz] assms(3) by simp
  then obtain v w' where m: "mmu_mmap M C a sz w = ((STUB_LIB_OK, v), w')"
    by (metis prod.collapse read_flashE)
  define off where "off = a - ALIGN_DOWN a page_size"
  obtain pages start where r: "pages = drop_bit shift (sz + off + page_size - 1)"
    "start = tm_get_drom_entry_end M - pages"
    "v = drom_base + (start - tm_get_drom_entry_start M) * page_size + off"
    "\<And>e. entry w' e = (if unat (e - start) < unat pages
       then raw (drop_bit shift (ALIGN_DOWN a page_size) + (e - start)) else entry w e)"
    "page_count (s_mmap_state w') = pages"
    unfolding off_def by (rule mmap_ok [OF assms(1,2) m]) blast
  have "unat pages = 0" using count_cases(2) [OF x(1)] assms(3) by (simp add: r(1) off_def)
  moreover have "off = of_nat (unat a mod 2 ^ shift)"
    unfolding off_def page_offset [symmetric] by simp
  ultimately show thesis using that [OF m] r by (auto simp: unat_eq_0)
qed

text \<open>The pages of a mapping are the last ones of the window.\<close>

lemma mmap_address:
  assumes "ok w" "wf_mmap w" "mmu_mmap M C a sz w = ((STUB_LIB_OK, v), w')"
    and nw: "unat sz + 2 * 2 ^ shift \<le> 4294967296"
  defines "n \<equiv> unat (tm_get_drom_entry_end M - tm_get_drom_entry_start M)"
  shows "(n - 8) * 2 ^ shift \<le> unat (v - drom_base)" "unat (v - drom_base) < n * 2 ^ shift"
proof -
  define off where "off = a - ALIGN_DOWN a page_size"
  obtain pages start where m: "pages = drop_bit shift (sz + off + page_size - 1)" "start = tm_get_drom_entry_end M - pages"
    "unat pages \<le> 8" "unat pages \<le> n" "v = drom_base + (start - tm_get_drom_entry_start M) * page_size + off" "sz \<noteq> 0"
    unfolding off_def n_def by (rule mmap_ok [OF assms(1-3)]) blast
  have pg: "unat off < 2 ^ shift" "0 < unat pages"
    using page_count_eq [OF nw, of a, folded off_def] pages_touched_pos [OF m(6), of shift a] by (simp_all add: m(1))
  have k: "unat (start - tm_get_drom_entry_start M) + unat pages = n"
    using map_range(2) [of pages] m(4) unfolding n_def m(2) by blast
  let ?k = "unat (start - tm_get_drom_entry_start M)"
  have "(?k + 1) * 2 ^ shift \<le> n * 2 ^ shift" using k pg(2) by (intro mult_right_mono) linarith+
  then have le: "?k * 2 ^ shift + 2 ^ shift \<le> n * 2 ^ shift" by simp
  have "unat ((start - tm_get_drom_entry_start M) * page_size) = ?k * 2 ^ shift"
    using le pg(1) drom_size unat_page_size unfolding n_def [symmetric]
    by (simp add: unat_word_ariths)
  then have "unat ((start - tm_get_drom_entry_start M) * page_size + off) = ?k * 2 ^ shift + unat off"
    using le pg(1) drom_size unfolding n_def [symmetric] by (subst unat_add_lt32) simp_all
  then have v: "unat (v - drom_base) = ?k * 2 ^ shift + unat off" by (simp add: m(5))
  then show "unat (v - drom_base) < n * 2 ^ shift" using le pg(1) by linarith
  have "n - 8 \<le> ?k" using k m(3) by linarith
  then have "(n - 8) * 2 ^ shift \<le> ?k * 2 ^ shift" by (rule mult_right_mono) simp
  then show "(n - 8) * 2 ^ shift \<le> unat (v - drom_base)" using v by linarith
qed

end

section \<open>The chips\<close>

text \<open>
  The encryption fuse does not change, and neither does the page size code in a control
  register, which the chip had from its boot loader.
\<close>

definition fuse_law :: "bool \<Rightarrow> (ev list \<Rightarrow> rom_fn \<Rightarrow> u32 list \<Rightarrow> u8 list \<Rightarrow> u32 \<times> u8 list) \<Rightarrow> bool" where
  "fuse_law enc rom \<longleftrightarrow> (\<forall>es. (fst (rom es (FlashFn Esp_rom_efuse_flash_encryption_enabled) [] []) \<noteq> 0) = enc)"

definition size_law :: "u32 \<Rightarrow> u32 \<Rightarrow> (ev list \<Rightarrow> cell \<Rightarrow> u32) \<Rightarrow> bool" where
  "size_law reg k rd \<longleftrightarrow> (\<forall>es. drop_bit 3 (rd es (Mmio reg)) AND 3 = k)"

definition page_code :: "u32 \<Rightarrow> nat" where
  "page_code k = (if k = 0 then 0 else if k = 1 then 1 else if k = 2 then 2 else 3)"

text \<open>
  The shape of each chip's table, with flash encryption on or off and for a page size code k.
  The page numbers it counts are those below the control bits of an entry.
\<close>

fun shape_of :: "chip \<Rightarrow> bool \<Rightarrow> u32 \<Rightarrow> mmu_shape" where
  "shape_of ESP32C6 enc k = \<lparr>sh_port = Indexed c6_SPI_MEM_MMU_ITEM_INDEX_REG c6_SPI_MEM_MMU_ITEM_CONTENT_REG,
     sh_first = ESP32C6_STUB_MMU_DROM_ENTRY_START, sh_count = c6_SOC_MMU_ENTRY_NUM, sh_shift = 16 - page_code k,
     sh_raw = \<lambda>p. p OR (if enc then c6_SOC_MMU_SENSITIVE else 0) OR c6_SOC_MMU_VALID,
     sh_pages = 512, sh_base = c6_SOC_DROM_LOW + 2 * 2 ^ (16 - page_code k)\<rparr>"
| "shape_of ESP32H2 enc k = \<lparr>sh_port = Indexed h2_SPI_MEM_MMU_ITEM_INDEX_REG h2_SPI_MEM_MMU_ITEM_CONTENT_REG,
     sh_first = ESP32H2_STUB_MMU_DROM_ENTRY_START, sh_count = h2_SOC_MMU_ENTRY_NUM, sh_shift = 16 - page_code k,
     sh_raw = \<lambda>p. p OR (if enc then h2_SOC_MMU_SENSITIVE else 0) OR h2_SOC_MMU_VALID,
     sh_pages = 512, sh_base = h2_SOC_DROM_LOW + 2 * 2 ^ (16 - page_code k)\<rparr>"
| "shape_of ESP32H21 enc k = \<lparr>sh_port = Indexed h21_SPI_MEM_MMU_ITEM_INDEX_REG h21_SPI_MEM_MMU_ITEM_CONTENT_REG,
     sh_first = ESP32H21_STUB_MMU_DROM_ENTRY_START, sh_count = h21_SOC_MMU_ENTRY_NUM, sh_shift = 16 - page_code k,
     sh_raw = \<lambda>p. p OR (if enc then h21_SOC_MMU_SENSITIVE else 0) OR h21_SOC_MMU_VALID,
     sh_pages = 512, sh_base = h21_SOC_DROM_LOW + 2 * 2 ^ (16 - page_code k)\<rparr>"
| "shape_of ESP32C61 enc k = \<lparr>sh_port = Indexed c61_SPI_MEM_MMU_ITEM_INDEX_REG c61_SPI_MEM_MMU_ITEM_CONTENT_REG,
     sh_first = ESP32C61_STUB_MMU_DROM_ENTRY_START, sh_count = c61_SOC_MMU_ENTRY_NUM, sh_shift = 16 - page_code k,
     sh_raw = \<lambda>p. p OR (if enc then c61_SOC_MMU_SENSITIVE else 0) OR c61_SOC_MMU_VALID,
     sh_pages = 1024, sh_base = c61_SOC_DROM_LOW + 2 * 2 ^ (16 - page_code k)\<rparr>"
| "shape_of ESP32C5 enc k = \<lparr>sh_port = Indexed c5_SPI_MEM_MMU_ITEM_INDEX_REG c5_SPI_MEM_MMU_ITEM_CONTENT_REG,
     sh_first = ESP32C5_STUB_MMU_DROM_ENTRY_START, sh_count = c5_SOC_MMU_ENTRY_NUM, sh_shift = 16,
     sh_raw = \<lambda>p. p OR (if enc then c5_SOC_MMU_SENSITIVE else 0) OR c5_SOC_MMU_VALID,
     sh_pages = 1024, sh_base = c5_SOC_DROM_LOW + 2 * 2 ^ (16)\<rparr>"
| "shape_of ESP32H4 enc k = \<lparr>sh_port = Indexed h4_SPI_MEM_MMU_ITEM_INDEX_REG h4_SPI_MEM_MMU_ITEM_CONTENT_REG,
     sh_first = ESP32H4_STUB_MMU_DROM_ENTRY_START, sh_count = h4_SOC_MMU_ENTRY_NUM, sh_shift = 16 - page_code k,
     sh_raw = \<lambda>p. p OR h4_SOC_MMU_ACCESS_FLASH OR (if enc then h4_SOC_MMU_SENSITIVE else 0) OR h4_SOC_MMU_VALID,
     sh_pages = 512, sh_base = h4_SOC_DROM_LOW + 2 * 2 ^ (16 - page_code k)\<rparr>"
| "shape_of ESP32P4 enc k = \<lparr>sh_port = Indexed p4_SPI_MEM_C_MMU_ITEM_INDEX_REG p4_SPI_MEM_C_MMU_ITEM_CONTENT_REG,
     sh_first = ESP32P4_STUB_MMU_DROM_ENTRY_START, sh_count = p4_SOC_MMU_ENTRY_NUM, sh_shift = 16,
     sh_raw = \<lambda>p. p OR p4_SOC_MMU_FLASH_VALID OR p4_SOC_MMU_ACCESS_FLASH OR (if enc then p4_SOC_MMU_FLASH_SENSITIVE else 0),
     sh_pages = 2048, sh_base = p4_SOC_DROM_LOW + 2 * 2 ^ (16)\<rparr>"
| "shape_of ESP32S31 enc k = \<lparr>sh_port = Indexed s31_SPI_MEM_C_MMU_ITEM_INDEX_REG s31_SPI_MEM_C_MMU_ITEM_CONTENT_REG,
     sh_first = ESP32S31_STUB_MMU_DROM_ENTRY_START, sh_count = s31_SOC_MMU_ENTRY_NUM, sh_shift = 18 - page_code k,
     sh_raw = \<lambda>p. p OR s31_SOC_MMU_FLASH_VALID OR s31_SOC_MMU_ACCESS_FLASH OR (if enc then s31_SOC_MMU_FLASH_SENSITIVE else 0),
     sh_pages = 1024, sh_base = s31_SOC_DROM_LOW + 2 * 2 ^ (18 - page_code k)\<rparr>"
| "shape_of ESP32C2 enc k = \<lparr>sh_port = Table c2_DR_REG_MMU_TABLE,
     sh_first = ESP32C2_STUB_MMU_DROM_ENTRY_START, sh_count = ESP32C2_STUB_MMU_DROM_ENTRY_END, sh_shift = 14 + min 2 (page_code k),
     sh_raw = \<lambda>p. p,
     sh_pages = 64, sh_base = c2_SOC_DROM_LOW + 2 * 2 ^ (14 + min 2 (page_code k))\<rparr>"
| "shape_of ESP32C3 enc k = \<lparr>sh_port = Table c3_DR_REG_MMU_TABLE,
     sh_first = ESP32C3_STUB_MMU_DROM_ENTRY_START, sh_count = ESP32C3_STUB_MMU_DROM_ENTRY_END, sh_shift = 16,
     sh_raw = \<lambda>p. p,
     sh_pages = 256, sh_base = c3_SOC_DROM_LOW + 2 * 2 ^ 16\<rparr>"
| "shape_of ESP32S3 enc k = \<lparr>sh_port = Table DR_REG_MMU_TABLE,
     sh_first = ESP32S3_STUB_MMU_DROM_ENTRY_START, sh_count = ESP32S3_STUB_MMU_DROM_ENTRY_END, sh_shift = 16,
     sh_raw = \<lambda>p. p,
     sh_pages = 0x4000, sh_base = SOC_DROM_LOW + 2 * 2 ^ 16\<rparr>"
| "shape_of ESP32S2 enc k = \<lparr>sh_port = Table s2_DR_REG_MMU_TABLE,
     sh_first = s2_SOC_MMU_DROM0_PAGES_START, sh_count = s2_SOC_MMU_DROM0_PAGES_END, sh_shift = 16,
     sh_raw = \<lambda>p. p OR s2_SOC_MMU_ACCESS_FLASH,
     sh_pages = 0x4000, sh_base = s2_SOC_DROM_LOW\<rparr>"
| "shape_of ESP32 enc k = \<lparr>sh_port = Table esp32_DPORT_PRO_FLASH_MMU_TABLE,
     sh_first = esp32_SOC_MMU_DROM0_PAGES_START, sh_count = esp32_SOC_MMU_DROM0_PAGES_END, sh_shift = 16,
     sh_raw = \<lambda>p. p,
     sh_pages = 256, sh_base = esp32_SOC_DROM_LOW\<rparr>"
| "shape_of ESP8266 enc k = \<lparr>sh_port = Table 0,
     sh_first = 0, sh_count = 0, sh_shift = 16,
     sh_raw = \<lambda>p. p,
     sh_pages = 0, sh_base = 0\<rparr>"

fun law_of :: "chip \<Rightarrow> bool \<Rightarrow> u32 \<Rightarrow> (ev list \<Rightarrow> cell \<Rightarrow> u32) \<Rightarrow>
    (ev list \<Rightarrow> rom_fn \<Rightarrow> u32 list \<Rightarrow> u8 list \<Rightarrow> u32 \<times> u8 list) \<Rightarrow> bool" where
  "law_of ESP32C6 enc k rd rom \<longleftrightarrow> fuse_law enc rom \<and> size_law c6_SPI_MEM_MMU_POWER_CTRL_REG k rd"
| "law_of ESP32H2 enc k rd rom \<longleftrightarrow> fuse_law enc rom \<and> size_law h2_SPI_MEM_MMU_POWER_CTRL_REG k rd"
| "law_of ESP32H21 enc k rd rom \<longleftrightarrow> fuse_law enc rom \<and> size_law h21_SPI_MEM_MMU_POWER_CTRL_REG k rd"
| "law_of ESP32C61 enc k rd rom \<longleftrightarrow> fuse_law enc rom \<and> size_law c61_SPI_MEM_MMU_POWER_CTRL_REG k rd"
| "law_of ESP32C5 enc k rd rom \<longleftrightarrow> fuse_law enc rom"
| "law_of ESP32H4 enc k rd rom \<longleftrightarrow> fuse_law enc rom \<and> size_law h4_SPI_MEM_MMU_POWER_CTRL_REG k rd"
| "law_of ESP32P4 enc k rd rom \<longleftrightarrow> fuse_law enc rom"
| "law_of ESP32S31 enc k rd rom \<longleftrightarrow> fuse_law enc rom \<and> size_law s31_SPI_MEM_C_MMU_POWER_CTRL_REG k rd"
| "law_of ESP32C2 enc k rd rom \<longleftrightarrow> size_law c2_EXTMEM_CACHE_CONF_MISC_REG k rd"
| "law_of c enc k rd rom \<longleftrightarrow> True"

lemma page_code_cases:
  obtains "page_code k = 0" | "page_code k = 1" | "page_code k = 2" | "page_code k = 3"
proof -
  have "page_code k \<in> {0, 1, 2, 3}" by (simp add: page_code_def)
  then show thesis using that by auto
qed

lemma chip_shape_ok: "shape_ok (shape_of c enc k)"
  by (cases k rule: page_code_cases; cases c) (simp_all add: shape_ok_def mmu_page_shift_def regs)

section \<open>Each chip meets the contract\<close>

lemma steps_if: "steps P n w u \<Longrightarrow> steps P n w v \<Longrightarrow> steps P n w (if b then u else v)"
  by simp

lemma steps_rom_num: "steps P n w u \<Longrightarrow> quiet_call (CacheFn f) \<Longrightarrow> steps P n w (snd (rom_num (CacheFn f) args d u))"
  by (simp add: prim_eq steps_after)

lemma quiet_cache_fn: "f \<noteq> ROM_Boot_Cache_Init \<Longrightarrow> f \<noteq> Cache_MMU_Init \<Longrightarrow> quiet_call (CacheFn f)"
  by (simp add: quiet_call_def)

lemmas steps_rules = steps_calls steps_rom_num steps_autoload steps_if steps_refl quiet_cache_fn

lemma chip_stop: "steps P n w (stub_lib_cache_stop (cache_target_of c) w)"
  unfolding stub_lib_cache_stop_def
  by (cases c; simp only: cache_target_of.simps cache_target.select_convs chip_cache_stop_defs
      s3_cache_target_def s3_cache_stop_def stub_target_cache_stop_def Let_def split_beta;
      intro steps_rules cache_fn.distinct)

lemma chip_start: "steps P n w (stub_lib_cache_start (cache_target_of c) w)"
  unfolding stub_lib_cache_start_def
  by (cases c; simp only: cache_target_of.simps cache_target.select_convs chip_cache_stop_defs
      s3_cache_target_def s3_cache_start_def stub_target_cache_start_def Let_def split_beta;
      intro steps_rules cache_fn.distinct)

lemma steps_evict: "steps P n w u \<Longrightarrow> steps P n w (fold (esp32_evict b) xs u)"
  by (induction xs arbitrary: u) (simp_all add: esp32_evict_def Let_def steps_calls)

lemma steps_reads:
  "steps P n w u \<Longrightarrow> steps P n w (snd (REG_GET_BIT r m u))"
  "steps P n w u \<Longrightarrow> steps P n w (snd (esp32_cache_is_enabled u))"
  by (simp_all add: prim_eq esp32_cache_is_enabled_def steps_after)

lemma chip_writeback: "steps P n w (stub_lib_cache_writeback_all (cache_target_of c) w)"
  unfolding stub_lib_cache_writeback_all_def
  by (cases c; simp only: cache_target_of.simps cache_target.select_convs chip_cache_invalidate_defs
      s3_cache_target_def s3_cache_writeback_all_def stub_target_cache_writeback_all_def Let_def split_beta;
      intro steps_rules steps_evict steps_reads cache_fn.distinct)

lemma chip_invalidate:
  "steps P n w u \<Longrightarrow> steps P n w (stub_lib_cache_invalidate_all (cache_target_of c) u)"
  "steps P n w u \<Longrightarrow> steps P n w (stub_lib_cache_invalidate_addr (cache_target_of c) v k u)"
  unfolding stub_lib_cache_invalidate_all_def stub_lib_cache_invalidate_addr_def
  by (cases c; simp only: cache_target_of.simps cache_target.select_convs chip_cache_invalidate_defs
      s3_cache_target_def s3_cache_invalidate_all_def s3_cache_invalidate_addr_def
      stub_target_cache_invalidate_all_def stub_target_cache_invalidate_addr_def Let_def split_beta;
      intro steps_rules cache_fn.distinct; assumption)+

lemma chip_invalidate_region: "steps P n w (mmu_invalidate_region (cache_target_of c) v k w)"
  unfolding mmu_invalidate_region_def by (intro steps_if chip_invalidate chip_writeback steps_refl)

lemma chip_page_size:
  assumes "law_of c enc k (rd_dev w) (rom_dev w)" "tm_get_page_size (mmu_target_of c) w = (p, w')"
  shows "p = 2 ^ sh_shift (shape_of c enc k) \<and> (\<exists>es. w' = after w es \<and> list_all (\<lambda>e. \<exists>r v. e = Rd (Mmio r) v) es)"
  using assms by (cases c)
   (auto simp: page_code_def c6_mmu_get_page_size_def h2_mmu_get_page_size_def h21_mmu_get_page_size_def
      c61_mmu_get_page_size_def h4_mmu_get_page_size_def p4_mmu_get_page_size_def s31_mmu_get_page_size_def
      c2_mmu_get_page_size_def s3_mmu_target_def stub_target_mmu_get_page_size_def prim_eq size_law_def peek_def regs
      intro: exI [of _ "[]"] split: if_splits)

lemmas chip_vaddr_defs = c6_mmu_get_drom_vaddr_def
  h2_mmu_get_drom_vaddr_def
  h21_mmu_get_drom_vaddr_def
  c61_mmu_get_drom_vaddr_def
  c5_mmu_get_drom_vaddr_def
  h4_mmu_get_drom_vaddr_def
  p4_mmu_get_drom_vaddr_def
  s31_mmu_get_drom_vaddr_def
  esp32_mmu_get_drom_vaddr_def
  s2_mmu_get_drom_vaddr_def
  c2_mmu_get_drom_vaddr_def
  c3_mmu_get_drom_vaddr_def
lemmas chip_read_defs = c6_mmu_read_entry_def
  h2_mmu_read_entry_def
  h21_mmu_read_entry_def
  c61_mmu_read_entry_def
  c5_mmu_read_entry_def
  h4_mmu_read_entry_def
  p4_mmu_read_entry_def
  s31_mmu_read_entry_def
  esp32_mmu_read_entry_def
  s2_mmu_read_entry_def
  c2_mmu_read_entry_def
  c3_mmu_read_entry_def
lemmas chip_write_defs = c6_mmu_write_entry_def
  h2_mmu_write_entry_def
  h21_mmu_write_entry_def
  c61_mmu_write_entry_def
  c5_mmu_write_entry_def
  h4_mmu_write_entry_def
  p4_mmu_write_entry_def
  s31_mmu_write_entry_def
  esp32_mmu_write_entry_def
  s2_mmu_write_entry_def
  c2_mmu_write_entry_def
  c3_mmu_write_entry_def
lemmas chip_restore_defs = c6_mmu_restore_entry_def
  h2_mmu_restore_entry_def
  h21_mmu_restore_entry_def
  c61_mmu_restore_entry_def
  c5_mmu_restore_entry_def
  h4_mmu_restore_entry_def
  p4_mmu_restore_entry_def
  s31_mmu_restore_entry_def
  esp32_mmu_restore_entry_def
  s2_mmu_restore_entry_def
  c2_mmu_restore_entry_def
  c3_mmu_restore_entry_def
lemmas chip_start_defs = c6_mmu_get_drom_entry_start_def
  h2_mmu_get_drom_entry_start_def
  h21_mmu_get_drom_entry_start_def
  c61_mmu_get_drom_entry_start_def
  c5_mmu_get_drom_entry_start_def
  h4_mmu_get_drom_entry_start_def
  p4_mmu_get_drom_entry_start_def
  s31_mmu_get_drom_entry_start_def
  esp32_mmu_get_drom_entry_start_def
  s2_mmu_get_drom_entry_start_def
  c2_mmu_get_drom_entry_start_def
  c3_mmu_get_drom_entry_start_def
lemmas chip_end_defs = c6_mmu_get_drom_entry_end_def
  h2_mmu_get_drom_entry_end_def
  h21_mmu_get_drom_entry_end_def
  c61_mmu_get_drom_entry_end_def
  c5_mmu_get_drom_entry_end_def
  h4_mmu_get_drom_entry_end_def
  p4_mmu_get_drom_entry_end_def
  s31_mmu_get_drom_entry_end_def
  esp32_mmu_get_drom_entry_end_def
  s2_mmu_get_drom_entry_end_def
  c2_mmu_get_drom_entry_end_def
  c3_mmu_get_drom_entry_end_def
lemmas chip_size_defs = c6_mmu_get_page_size_def h2_mmu_get_page_size_def h21_mmu_get_page_size_def
  c61_mmu_get_page_size_def h4_mmu_get_page_size_def p4_mmu_get_page_size_def s31_mmu_get_page_size_def
  c2_mmu_get_page_size_def stub_target_mmu_get_page_size_def

lemmas weak_mmu_defs = stub_target_mmu_get_drom_vaddr_def stub_target_mmu_get_drom_entry_start_def
  stub_target_mmu_get_drom_entry_end_def stub_target_mmu_write_entry_def stub_target_mmu_read_entry_def
  stub_target_mmu_restore_entry_def
lemmas s3_mmu_defs = s3_mmu_target_def s3_mmu_get_drom_vaddr_def s3_mmu_get_drom_entry_start_def
  s3_mmu_get_drom_entry_end_def s3_mmu_write_entry_def s3_mmu_read_entry_def s3_mmu_restore_entry_def

lemmas chip_table_defs = esp32_MMU_TABLE_def s2_MMU_TABLE_def c2_MMU_TABLE_def c3_MMU_TABLE_def MMU_TABLE_def

lemma chip_first: "tm_get_drom_entry_start (mmu_target_of c) = sh_first (shape_of c enc k)"
  by (cases c) (simp_all add: chip_start_defs s3_mmu_defs weak_mmu_defs)

lemma chip_count: "tm_get_drom_entry_end (mmu_target_of c) = sh_count (shape_of c enc k)"
  by (cases c) (simp_all add: chip_end_defs s3_mmu_defs weak_mmu_defs)

lemma chip_drom_vaddr:
  assumes "law_of c enc k (rd_dev w) (rom_dev w)" "tm_get_drom_vaddr (mmu_target_of c) w = (v, w')"
  shows "v = sh_base (shape_of c enc k) \<and> (\<exists>es. w' = after w es \<and> list_all (\<lambda>e. \<exists>r v. e = Rd (Mmio r) v) es)"
  using assms by (cases c)
   (auto simp: page_code_def chip_vaddr_defs chip_size_defs chip_start_defs s3_mmu_defs weak_mmu_defs prim_eq size_law_def peek_def regs
      intro: exI [of _ "[]"] split: if_splits prod.splits)

lemma steps_reading: "list_all (\<lambda>e. \<exists>r v. e = Rd (Mmio r) v) es \<Longrightarrow> steps P n w (after w es)"
  by (rule steps_after [OF steps_refl]) (auto simp: list_all_iff)

lemma chip_read:
  assumes "e < sh_count (shape_of c enc k)" "tm_read_entry (mmu_target_of c) e w = (v, w')"
  shows "v = mmu_entries (shape_of c enc k) w e \<and> steps (sh_port (shape_of c enc k)) (sh_count (shape_of c enc k)) w w'"
  using assms by (cases c)
   (auto simp: chip_read_defs s3_mmu_defs weak_mmu_defs chip_table_defs prim_eq peek_def mmu_entries_def
      intro!: steps_after [OF steps_refl], simp_all add: quiet_def regs)

lemma chip_restore:
  assumes "e < sh_count (shape_of c enc k)"
  shows "runs w (tm_restore_entry (mmu_target_of c) e v w) (put_events (sh_port (shape_of c enc k)) e v)"
  using assms by (cases c)
   (simp_all add: chip_restore_defs s3_mmu_defs weak_mmu_defs chip_table_defs prim_eq runs_after)

lemma encrypted_call:
  assumes "fuse_law enc (rom_dev w)"
  obtains x where "stub_target_security_flash_is_encrypted w = (enc, after w [x])" "\<forall>P n. quiet P n x"
proof -
  have "(rom_ret (FlashFn Esp_rom_efuse_flash_encryption_enabled) [] [] w \<noteq> 0) = enc"
    using assms by (simp add: fuse_law_def rom_ret_def)
  then show thesis
    by (intro that [of "Call (FlashFn Esp_rom_efuse_flash_encryption_enabled) [] []
          (rom_ret (FlashFn Esp_rom_efuse_flash_encryption_enabled) [] [] w)
          (rom_out (FlashFn Esp_rom_efuse_flash_encryption_enabled) [] [] w)"])
      (simp_all add: stub_target_security_flash_is_encrypted_def prim_eq quiet_call_def)
qed

lemma write_after_quiet:
  "quiet P n x \<Longrightarrow> \<exists>u. steps P n w u \<and> runs u (after w (x # es)) es"
  by (intro exI [of _ "after w [x]"] conjI steps_after [OF steps_refl]) (simp_all add: runs_def)

lemma write_at_once: "\<exists>u. steps P n w u \<and> runs u (after w es) es"
  by (intro exI [of _ w] conjI steps_refl runs_after)

lemma chip_write:
  assumes "law_of c enc k (rd_dev w) (rom_dev w)" "e < sh_count (shape_of c enc k)"
  shows "\<exists>u. steps (sh_port (shape_of c enc k)) (sh_count (shape_of c enc k)) w u \<and>
    runs u (tm_write_entry (mmu_target_of c) e p w) (put_events (sh_port (shape_of c enc k)) e (sh_raw (shape_of c enc k) p))"
proof (cases "fuse_law enc (rom_dev w)")
  case True
  then obtain x where "stub_target_security_flash_is_encrypted w = (enc, after w [x])" "\<forall>P n. quiet P n x"
    by (rule encrypted_call)
  then show ?thesis
    using assms by (cases c)
     (auto simp: chip_write_defs s3_mmu_defs weak_mmu_defs chip_table_defs prim_eq or.assoc
        intro: write_after_quiet write_at_once)
next
  case False
  then show ?thesis
    using assms by (cases c)
     (auto simp: chip_write_defs s3_mmu_defs weak_mmu_defs chip_table_defs prim_eq intro: write_at_once)
qed

interpretation chip: mmu_chip "mmu_target_of c" "cache_target_of c" "shape_of c enc k" flash "law_of c enc k"
  for c enc k flash
proof (unfold_locales, goal_cases)
  case (1 w p w')
  then show ?case using chip_page_size [of c enc k w p w'] steps_reading by blast
next
  case (2 w v w')
  then show ?case using chip_drom_vaddr [of c enc k w v w'] steps_reading by blast
next
  case (3 e w v w')
  then show ?case by (rule chip_read)
next
  case (4 w e p)
  then show ?case by (rule chip_write)
next
  case (5 e w v)
  then show ?case by (rule chip_restore)
qed (rule chip_stop chip_start chip_invalidate_region chip_first chip_count chip_shape_ok)+

section \<open>Reading flash on any chip\<close>

text \<open>
  The window hardware of a chip in a world: flash encryption on or off, a page size code, and
  what the flash holds.
\<close>

definition chip_hw :: "chip \<Rightarrow> bool \<Rightarrow> u32 \<Rightarrow> (u32 \<Rightarrow> u8) \<Rightarrow> 'a world_scheme \<Rightarrow> bool" where
  "chip_hw c enc k flash w \<longleftrightarrow> hw_ok (shape_of c enc k) flash (law_of c enc k) w"

text \<open>
  C11: On every chip, with flash encryption on or off and for every page size its MMU can be
  set to, reading flash through the cache window returns the bytes of the flash at the
  address, for any size that does not wrap and any offset in a page, and leaves every entry
  of the MMU table as it found it and nothing mapped. The chips keep their entries in tables
  of words or behind an index register, and mark them differently.
\<close>

lemma chips_read_flash:
  assumes "chip_hw c enc k flash w" "wf_mmap w"
    and "stub_lib_mmu_read_flash (mmu_target_of c) (cache_target_of c) a sz w = ((STUB_LIB_OK, bs), w')"
    and "unat sz + 2 * 2 ^ sh_shift (shape_of c enc k) \<le> 4294967296"
    and "unat a + unat sz \<le> sh_pages (shape_of c enc k) * 2 ^ sh_shift (shape_of c enc k)"
  shows "bs = map (\<lambda>i. flash (a + of_nat i)) [0..<unat sz] \<and>
    mmu_entries (shape_of c enc k) w' = mmu_entries (shape_of c enc k) w \<and> page_count (s_mmap_state w') = 0"
  using chip.table.read_flash_data [OF assms(1) [unfolded chip_hw_def] assms(2-5)]
    chip.table.read_flash_restores [OF assms(1) [unfolded chip_hw_def] assms(2,3)] by blast

lemma chip_entries: "unat (sh_count (shape_of c enc k) - sh_first (shape_of c enc k)) = 0 \<longleftrightarrow> c = ESP8266"
  "c \<noteq> ESP8266 \<Longrightarrow> 8 \<le> unat (sh_count (shape_of c enc k) - sh_first (shape_of c enc k))"
  by (cases c; simp add: regs)+





text \<open>A chip with indexed entries and an encrypted flash, for concrete runs.\<close>

fun item_step :: "u32 \<Rightarrow> u32 \<Rightarrow> ev \<Rightarrow> u32 \<times> (u32 \<Rightarrow> u32) \<Rightarrow> u32 \<times> (u32 \<Rightarrow> u32)" where
  "item_step idx con (Wr c v) (i, t) =
     (if c = Mmio con then (i, t(i := v)) else if c = Mmio idx then (v, t) else (i, t))"
| "item_step idx con x s = s"

definition item_state :: "u32 \<Rightarrow> u32 \<Rightarrow> ev list \<Rightarrow> u32 \<times> (u32 \<Rightarrow> u32)" where
  "item_state idx con es = fold (item_step idx con) es (0, \<lambda>_. 0)"

definition item_rd :: "u32 \<Rightarrow> u32 \<Rightarrow> ev list \<Rightarrow> cell \<Rightarrow> u32" where
  "item_rd idx con es c = (let (i, t) = item_state idx con es in if c = Mmio con then t i else 0)"

lemma item_entry: "idx \<noteq> con \<Longrightarrow> entry_of (Indexed idx con) (item_rd idx con) es e = snd (item_state idx con es) e"
  by (cases "item_state idx con es") (simp add: item_rd_def item_state_def)

lemma item_quiet:
  assumes "0 < n" "quiet (Indexed idx con) n x"
  shows "snd (item_step idx con x s) = snd s"
proof (cases x)
  case (Wr c v)
  then have "c \<noteq> Mmio con" using assms unfolding quiet_def by auto
  then show ?thesis using Wr by (cases s) simp
qed simp_all

lemma item_port_law: "idx \<noteq> con \<Longrightarrow> port_law (Indexed idx con) n (item_rd idx con)"
  unfolding port_law_def
proof (intro conjI allI impI, goal_cases)
  case (1 es e v f)
  then show ?case by (cases "item_state idx con es") (simp add: item_entry item_state_def del: entry_of.simps)
next
  case (2 es x f)
  then have "0 < n" by (simp add: word_gt_0_no word_less_nat_alt)
  then show ?case using 2 item_quiet [of n idx con x "item_state idx con es"]
    by (simp add: item_entry item_state_def del: entry_of.simps)
qed

definition c6_world :: autoload_world where
  "c6_world =
     \<lparr>rd_dev = item_rd c6_SPI_MEM_MMU_ITEM_INDEX_REG c6_SPI_MEM_MMU_ITEM_CONTENT_REG,
      rom_dev = \<lambda>_ _ _ _. (1, []),
      mem_dev = \<lambda>es a n. map (\<lambda>i. let x = unat (a + of_nat i - (c6_SOC_DROM_LOW + 2 * 2 ^ 16));
          raw = snd (item_state c6_SPI_MEM_MMU_ITEM_INDEX_REG c6_SPI_MEM_MMU_ITEM_CONTENT_REG es) (2 + of_nat (x div 2 ^ 16))
        in ucast ((raw AND mask 9) * 2 ^ 16 + of_nat (x mod 2 ^ 16))) [0..<n],
      sym_addr = \<lambda>_. 0, trace = [],
      large_flash_mode = False,
      s_mmap_state = \<lparr>vaddr_base = 0, entry_start = 0, page_count = 0, saved_entries = replicate 8 0\<rparr>,
      s_saved_autoload = 0\<rparr>"

lemma c6_raw_page:
  assumes "unat p < 512"
  shows "(p OR c6_SOC_MMU_SENSITIVE OR c6_SOC_MMU_VALID) AND mask 9 = p"
proof -
  have "p AND mask 9 = p"
    using assms unat_and_pow2 [of p 9] by (simp add: word_unat_eq_iff mask_eq_exp_minus_1)
  moreover have "c6_SOC_MMU_SENSITIVE AND mask 9 = 0" "c6_SOC_MMU_VALID AND mask 9 = 0"
    by (simp_all add: regs mask_eq_exp_minus_1)
  ultimately show ?thesis by (simp only: bit.conj_disj_distrib2 or.right_neutral)
qed

lemma c6_world_hw: "chip_hw ESP32C6 True 0 (\<lambda>x. ucast x) c6_world" "wf_mmap c6_world"
proof -
  have ne: "c6_SPI_MEM_MMU_ITEM_INDEX_REG \<noteq> c6_SPI_MEM_MMU_ITEM_CONTENT_REG" by (simp add: regs)
  have "item_rd c6_SPI_MEM_MMU_ITEM_INDEX_REG c6_SPI_MEM_MMU_ITEM_CONTENT_REG es (Mmio c6_SPI_MEM_MMU_POWER_CTRL_REG) = 0" for es
    by (simp add: item_rd_def split_beta regs)
  then show "chip_hw ESP32C6 True 0 (\<lambda>x. ucast x) c6_world"
    using item_port_law [OF ne] item_entry [OF ne]
    by (auto simp: chip_hw_def hw_ok_def window_hw_def fuse_law_def size_law_def page_code_def c6_world_def
        c6_raw_page ESP32C6_STUB_MMU_DROM_ENTRY_START_def Let_def simp del: entry_of.simps)
  show "wf_mmap c6_world" by (simp add: wf_mmap_def c6_world_def regs)
qed



lemma c6_world_reads:
  "fst (fst (stub_lib_mmu_read_flash (mmu_target_of ESP32C6) (cache_target_of ESP32C6) 0x1FFFE 4 c6_world)) = STUB_LIB_OK"
  using chip.table.read_flash_rc [of ESP32C6 True 0 "\<lambda>x. ucast x" c6_world "0x1FFFE" 4] c6_world_hw(1)
  by (simp add: chip_hw_def pages_touched_def count_wraps_def page_code_def c6_mmu_get_drom_entry_start_def c6_mmu_get_drom_entry_end_def regs)

lemma chips_read_flash_witness:
  "\<exists>bs w'. stub_lib_mmu_read_flash (mmu_target_of ESP32C6) (cache_target_of ESP32C6) 0x1FFFE 4 c6_world = ((STUB_LIB_OK, bs), w') \<and>
     bs = map (\<lambda>i. ucast (0x1FFFE + of_nat i :: u32)) [0..<4] \<and>
     mmu_entries (shape_of ESP32C6 True 0) w' = mmu_entries (shape_of ESP32C6 True 0) c6_world"
proof -
  note c6_world_reads
  then obtain bs w' where r: "stub_lib_mmu_read_flash (mmu_target_of ESP32C6) (cache_target_of ESP32C6) 0x1FFFE 4 c6_world = ((STUB_LIB_OK, bs), w')"
    by (metis prod.collapse)
  from chips_read_flash [OF c6_world_hw r] r show ?thesis by (simp add: page_code_def)
qed

section \<open>Valid entries\<close>

text \<open>What a chip's driver looks for in an entry.\<close>

fun valid_raw :: "chip \<Rightarrow> u32 \<Rightarrow> bool" where
  "valid_raw ESP32C6 v \<longleftrightarrow> v AND c6_SOC_MMU_VALID \<noteq> 0"
| "valid_raw ESP32H2 v \<longleftrightarrow> v AND h2_SOC_MMU_VALID \<noteq> 0"
| "valid_raw ESP32H21 v \<longleftrightarrow> v AND h21_SOC_MMU_VALID \<noteq> 0"
| "valid_raw ESP32C61 v \<longleftrightarrow> v AND c61_SOC_MMU_VALID \<noteq> 0"
| "valid_raw ESP32C5 v \<longleftrightarrow> v AND c5_SOC_MMU_VALID \<noteq> 0"
| "valid_raw ESP32H4 v \<longleftrightarrow> v AND h4_SOC_MMU_VALID \<noteq> 0 \<and> v AND h4_SOC_MMU_ACCESS_PSRAM = 0"
| "valid_raw ESP32P4 v \<longleftrightarrow> v AND p4_SOC_MMU_FLASH_VALID = p4_SOC_MMU_FLASH_VALID"
| "valid_raw ESP32S31 v \<longleftrightarrow> v AND s31_SOC_MMU_FLASH_VALID \<noteq> 0 \<and> v AND s31_SOC_MMU_ACCESS_PSRAM = 0"
| "valid_raw c v \<longleftrightarrow> False"

context mmu_chip
begin

lemma scan_finds:
  assumes "hw_ok S flash law w" "unat i + k \<le> unat (sh_count S)"
  shows "(fst (scan_entries (tm_read_entry M) V k i w) \<longleftrightarrow> (\<exists>j<k. V (mmu_entries S w (i + of_nat j)))) \<and>
    mmu_entries S (snd (scan_entries (tm_read_entry M) V k i w)) = mmu_entries S w"
  using assms
proof (induction k arbitrary: i w)
  case (Suc k)
  obtain v u where r: "tm_read_entry M i w = (v, u)" by fastforce
  have i: "i < sh_count S" using Suc.prems(2) by (simp add: word_less_nat_alt)
  note v = entry_read [OF i r]
  note u = hw_steps [OF Suc.prems(1) conjunct2 [OF v]]
  have i1: "unat (i + 1) = unat i + 1"
    using Suc.prems(2) unat_lt32 [of "sh_count S"] by (subst unat_add_lt32) simp_all
  have le: "unat (i + 1) + k \<le> unat (sh_count S)" using Suc.prems(2) i1 by simp
  have ih: "fst (scan_entries (tm_read_entry M) V k (i + 1) u) \<longleftrightarrow> (\<exists>j<k. V (mmu_entries S u (i + 1 + of_nat j)))"
    "mmu_entries S (snd (scan_entries (tm_read_entry M) V k (i + 1) u)) = mmu_entries S u"
    using Suc.IH [OF conjunct1 [OF u] le] by blast+
  have shift: "(\<exists>j<Suc k. V (mmu_entries S w (i + of_nat j))) \<longleftrightarrow>
      V (mmu_entries S w i) \<or> (\<exists>j<k. V (mmu_entries S w (i + 1 + of_nat j)))"
    by (simp add: Ex_less_Suc2 algebra_simps)
  show ?case unfolding shift using v u ih by (simp add: r)
qed simp_all

end

lemmas chip_valid_defs = c6_mmu_has_valid_entry_def h2_mmu_has_valid_entry_def h21_mmu_has_valid_entry_def
  c61_mmu_has_valid_entry_def c5_mmu_has_valid_entry_def h4_mmu_has_valid_entry_def
  p4_mmu_has_valid_entry_def s31_mmu_has_valid_entry_def

lemma chip_valid_scan:
  assumes "c \<notin> {ESP32, ESP32S2, ESP32C2, ESP32C3, ESP32S3, ESP8266}"
  shows "tm_has_valid_entry (mmu_target_of c) w =
    scan_entries (tm_read_entry (mmu_target_of c)) (valid_raw c) (unat (sh_count (shape_of c enc k))) 0 w"
  using assms
  by (cases c; simp add: chip_valid_defs; intro arg_cong [where f = "\<lambda>V. scan_entries _ V _ _ _"] ext; simp)

lemma chips_has_valid_entry:
  fixes w :: "'a autoload_world_scheme"
  assumes "chip_hw c enc k flash w"
  shows "fst (tm_has_valid_entry (mmu_target_of c) w) \<longleftrightarrow>
      (\<exists>j < unat (sh_count (shape_of c enc k)). valid_raw c (mmu_entries (shape_of c enc k) w (of_nat j))) \<and>
    mmu_entries (shape_of c enc k) (snd (tm_has_valid_entry (mmu_target_of c) w)) = mmu_entries (shape_of c enc k) w"
proof (cases "c \<in> {ESP32, ESP32S2, ESP32C2, ESP32C3, ESP32S3, ESP8266}")
  case True
  then show ?thesis
    by (cases c) (simp_all add: stub_target_mmu_has_valid_entry_def s3_mmu_target_def)
next
  case False
  then show ?thesis
    using chip.scan_finds [OF assms [unfolded chip_hw_def], of 0 "unat (sh_count (shape_of c enc k))" "valid_raw c"]
    unfolding chip_valid_scan [OF False, of w enc k] by simp
qed

section \<open>Suspended engines\<close>

text \<open>The arguments and the answer of the last call of a cache function.\<close>

definition last_call :: "cache_fn \<Rightarrow> ev list \<Rightarrow> (u32 list \<times> u32) option" where
  "last_call f es = fold (\<lambda>x r. case x of
     Call (CacheFn g) args d ret out \<Rightarrow> if g = f then Some (args, ret) else r | _ \<Rightarrow> r) es None"

text \<open>The functions that suspend and resume an engine, and the argument that turns it on again.\<close>

fun engines :: "chip \<Rightarrow> (cache_fn \<times> cache_fn \<times> u32) list" where
  "engines ESP32S2 =
     [(Cache_Suspend_ICache, Cache_Resume_ICache, s2_EXTMEM_PRO_ICACHE_AUTOLOAD_ENA),
      (Cache_Suspend_DCache, Cache_Resume_DCache, s2_EXTMEM_PRO_DCACHE_AUTOLOAD_ENA)]"
| "engines ESP32P4 =
     [(Cache_Suspend_L1_CORE0_ICache_Autoload, Cache_Resume_L1_CORE0_ICache_Autoload, 1),
      (Cache_Suspend_L1_CORE1_ICache_Autoload, Cache_Resume_L1_CORE1_ICache_Autoload, 1),
      (Cache_Suspend_L1_DCache_Autoload, Cache_Resume_L1_DCache_Autoload, 1),
      (Cache_Suspend_L2_Cache_Autoload, Cache_Resume_L2_Cache_Autoload, 1)]"
| "engines c = []"

definition resumed_as_suspended :: "ev list \<Rightarrow> ev list \<Rightarrow> cache_fn \<times> cache_fn \<times> u32 \<Rightarrow> bool" where
  "resumed_as_suspended stopped started e \<longleftrightarrow> (case e of (suspend, resume, on) \<Rightarrow>
     \<exists>args r ret. last_call suspend stopped = Some (args, r) \<and>
       last_call resume started = Some ([if r \<noteq> 0 then on else 0], ret))"

lemma last_call_snoc [simp]:
  "last_call f (es @ [Call (CacheFn g) args d r out]) = (if g = f then Some (args, r) else last_call f es)"
  by (simp add: last_call_def)

definition suspend :: "cache_fn \<Rightarrow> u32 \<Rightarrow> 'a autoload_world_scheme \<Rightarrow> 'a autoload_world_scheme" where
  "suspend f b w =
     (let (r, w) = rom_num (CacheFn f) [] [] w
      in if r \<noteq> 0 then w\<lparr>s_saved_autoload := s_saved_autoload w OR b\<rparr> else w)"

lemma suspend_eq:
  obtains r out where "trace (suspend f b w) = trace w @ [Call (CacheFn f) [] [] r out]"
    "s_saved_autoload (suspend f b w) = s_saved_autoload w OR (if r \<noteq> 0 then b else 0)"
  by (rule that [of "rom_ret (CacheFn f) [] [] w" "rom_out (CacheFn f) [] [] w"])
    (simp_all add: suspend_def prim_eq after_def)

lemma stop_suspends:
  "stub_lib_cache_stop (cache_target_of ESP32P4) w =
     suspend Cache_Suspend_L2_Cache_Autoload (BIT 3) (suspend Cache_Suspend_L1_DCache_Autoload (BIT 2)
       (suspend Cache_Suspend_L1_CORE1_ICache_Autoload (BIT 1)
         (suspend Cache_Suspend_L1_CORE0_ICache_Autoload (BIT 0) (w\<lparr>s_saved_autoload := 0\<rparr>))))"
  "stub_lib_cache_stop (cache_target_of ESP32S2) w =
     suspend Cache_Suspend_DCache (BIT 1) (suspend Cache_Suspend_ICache (BIT 0) (w\<lparr>s_saved_autoload := 0\<rparr>))"
  by (simp_all only: stub_lib_cache_stop_def cache_target_of.simps cache_target.select_convs
      p4_cache_stop_def s2_cache_stop_def suspend_def Let_def split_beta)

lemma s_saved_autoload_after [simp]: "s_saved_autoload (after w es) = s_saved_autoload w"
  by (simp add: after_def)

lemma resume_eq:
  obtains r out where "trace (rom_void f args d w) = trace w @ [Call f args d r out]"
    "s_saved_autoload (rom_void f args d w) = s_saved_autoload w"
  by (rule that [of "rom_ret f args d w" "rom_out f args d w"]) (simp_all add: prim_eq)

lemma s2_resumed:
  assumes "s_saved_autoload u = s_saved_autoload (stub_lib_cache_stop (cache_target_of ESP32S2) w)"
  shows "list_all (resumed_as_suspended (trace (stub_lib_cache_stop (cache_target_of ESP32S2) w))
     (trace (stub_lib_cache_start (cache_target_of ESP32S2) u))) (engines ESP32S2)"
proof -
  define w0 where "w0 = w\<lparr>s_saved_autoload := 0\<rparr>"
  define w1 where "w1 = suspend Cache_Suspend_ICache (BIT 0) w0"
  define w2 where "w2 = suspend Cache_Suspend_DCache (BIT 1) w1"
  obtain r1 o1 where w1: "trace w1 = trace w0 @ [Call (CacheFn Cache_Suspend_ICache) [] [] r1 o1]"
    "s_saved_autoload w1 = s_saved_autoload w0 OR (if r1 \<noteq> 0 then BIT 0 else 0)"
    unfolding w1_def by (rule suspend_eq)
  obtain r2 o2 where w2: "trace w2 = trace w1 @ [Call (CacheFn Cache_Suspend_DCache) [] [] r2 o2]"
    "s_saved_autoload w2 = s_saved_autoload w1 OR (if r2 \<noteq> 0 then BIT 1 else 0)"
    unfolding w2_def by (rule suspend_eq)
  have st: "stub_lib_cache_stop (cache_target_of ESP32S2) w = w2" unfolding stop_suspends w0_def w1_def w2_def ..
  have u: "s_saved_autoload u = (if r1 \<noteq> 0 then BIT 0 else 0) OR (if r2 \<noteq> 0 then BIT 1 else 0)"
    using assms unfolding st w2 w1 by (simp add: w0_def)
  show ?thesis
    unfolding st
    by (simp add: w1 w2 stub_lib_cache_start_def s2_cache_start_def prim_eq resumed_as_suspended_def
        last_call_def Let_def u) (simp add: regs)
qed

lemma p4_stopped:
  obtains r1 o1 r2 o2 r3 o3 r4 o4 where
    "trace (stub_lib_cache_stop (cache_target_of ESP32P4) w) = trace w @
       [Call (CacheFn Cache_Suspend_L1_CORE0_ICache_Autoload) [] [] r1 o1,
        Call (CacheFn Cache_Suspend_L1_CORE1_ICache_Autoload) [] [] r2 o2,
        Call (CacheFn Cache_Suspend_L1_DCache_Autoload) [] [] r3 o3,
        Call (CacheFn Cache_Suspend_L2_Cache_Autoload) [] [] r4 o4]"
    "s_saved_autoload (stub_lib_cache_stop (cache_target_of ESP32P4) w) =
       (if r1 \<noteq> 0 then BIT 0 else 0) OR (if r2 \<noteq> 0 then BIT 1 else 0) OR
       (if r3 \<noteq> 0 then BIT 2 else 0) OR (if r4 \<noteq> 0 then BIT 3 else 0)"
proof -
  define w0 where "w0 = w\<lparr>s_saved_autoload := 0\<rparr>"
  define w1 where "w1 = suspend Cache_Suspend_L1_CORE0_ICache_Autoload (BIT 0) w0"
  define w2 where "w2 = suspend Cache_Suspend_L1_CORE1_ICache_Autoload (BIT 1) w1"
  define w3 where "w3 = suspend Cache_Suspend_L1_DCache_Autoload (BIT 2) w2"
  define w4 where "w4 = suspend Cache_Suspend_L2_Cache_Autoload (BIT 3) w3"
  obtain r1 o1 where w1: "trace w1 = trace w0 @ [Call (CacheFn Cache_Suspend_L1_CORE0_ICache_Autoload) [] [] r1 o1]"
    "s_saved_autoload w1 = s_saved_autoload w0 OR (if r1 \<noteq> 0 then BIT 0 else 0)"
    unfolding w1_def by (rule suspend_eq)
  obtain r2 o2 where w2: "trace w2 = trace w1 @ [Call (CacheFn Cache_Suspend_L1_CORE1_ICache_Autoload) [] [] r2 o2]"
    "s_saved_autoload w2 = s_saved_autoload w1 OR (if r2 \<noteq> 0 then BIT 1 else 0)"
    unfolding w2_def by (rule suspend_eq)
  obtain r3 o3 where w3: "trace w3 = trace w2 @ [Call (CacheFn Cache_Suspend_L1_DCache_Autoload) [] [] r3 o3]"
    "s_saved_autoload w3 = s_saved_autoload w2 OR (if r3 \<noteq> 0 then BIT 2 else 0)"
    unfolding w3_def by (rule suspend_eq)
  obtain r4 o4 where w4: "trace w4 = trace w3 @ [Call (CacheFn Cache_Suspend_L2_Cache_Autoload) [] [] r4 o4]"
    "s_saved_autoload w4 = s_saved_autoload w3 OR (if r4 \<noteq> 0 then BIT 3 else 0)"
    unfolding w4_def by (rule suspend_eq)
  have st: "stub_lib_cache_stop (cache_target_of ESP32P4) w = w4"
    unfolding stop_suspends w0_def w1_def w2_def w3_def w4_def ..
  show thesis
    by (rule that [of r1 o1 r2 o2 r3 o3 r4 o4]) (unfold st w4 w3 w2 w1, simp_all add: w0_def or.assoc)
qed

lemma p4_resumed:
  assumes "s_saved_autoload u = s_saved_autoload (stub_lib_cache_stop (cache_target_of ESP32P4) w)"
  shows "list_all (resumed_as_suspended (trace (stub_lib_cache_stop (cache_target_of ESP32P4) w))
     (trace (stub_lib_cache_start (cache_target_of ESP32P4) u))) (engines ESP32P4)"
proof -
  obtain r1 o1 r2 o2 r3 o3 r4 o4 where w:
    "trace (stub_lib_cache_stop (cache_target_of ESP32P4) w) = trace w @
       [Call (CacheFn Cache_Suspend_L1_CORE0_ICache_Autoload) [] [] r1 o1,
        Call (CacheFn Cache_Suspend_L1_CORE1_ICache_Autoload) [] [] r2 o2,
        Call (CacheFn Cache_Suspend_L1_DCache_Autoload) [] [] r3 o3,
        Call (CacheFn Cache_Suspend_L2_Cache_Autoload) [] [] r4 o4]"
    "s_saved_autoload (stub_lib_cache_stop (cache_target_of ESP32P4) w) =
       (if r1 \<noteq> 0 then BIT 0 else 0) OR (if r2 \<noteq> 0 then BIT 1 else 0) OR
       (if r3 \<noteq> 0 then BIT 2 else 0) OR (if r4 \<noteq> 0 then BIT 3 else 0)"
    by (rule p4_stopped)
  have bits: "s_saved_autoload u AND BIT 0 \<noteq> 0 \<longleftrightarrow> r1 \<noteq> 0" "s_saved_autoload u AND BIT 1 \<noteq> 0 \<longleftrightarrow> r2 \<noteq> 0"
    "s_saved_autoload u AND BIT 2 \<noteq> 0 \<longleftrightarrow> r3 \<noteq> 0" "s_saved_autoload u AND BIT 3 \<noteq> 0 \<longleftrightarrow> r4 \<noteq> 0"
    unfolding assms w(2) by (cases "r1 = 0"; cases "r2 = 0"; cases "r3 = 0"; cases "r4 = 0"; simp add: regs)+
  define u1 where "u1 = rom_void (CacheFn Cache_Resume_L2_Cache_Autoload) [if r4 \<noteq> 0 then 1 else 0] [] u"
  define u2 where "u2 = rom_void (CacheFn Cache_Resume_L1_DCache_Autoload) [if r3 \<noteq> 0 then 1 else 0] [] u1"
  define u3 where "u3 = rom_void (CacheFn Cache_Resume_L1_CORE0_ICache_Autoload) [if r1 \<noteq> 0 then 1 else 0] [] u2"
  define u4 where "u4 = rom_void (CacheFn Cache_Resume_L1_CORE1_ICache_Autoload) [if r2 \<noteq> 0 then 1 else 0] [] u3"
  obtain q1 p1 where u1: "trace u1 = trace u @ [Call (CacheFn Cache_Resume_L2_Cache_Autoload) [if r4 \<noteq> 0 then 1 else 0] [] q1 p1]"
    "s_saved_autoload u1 = s_saved_autoload u" unfolding u1_def by (rule resume_eq)
  obtain q2 p2 where u2: "trace u2 = trace u1 @ [Call (CacheFn Cache_Resume_L1_DCache_Autoload) [if r3 \<noteq> 0 then 1 else 0] [] q2 p2]"
    "s_saved_autoload u2 = s_saved_autoload u1" unfolding u2_def by (rule resume_eq)
  obtain q3 p3 where u3: "trace u3 = trace u2 @ [Call (CacheFn Cache_Resume_L1_CORE0_ICache_Autoload) [if r1 \<noteq> 0 then 1 else 0] [] q3 p3]"
    "s_saved_autoload u3 = s_saved_autoload u2" unfolding u3_def by (rule resume_eq)
  obtain q4 p4 where u4: "trace u4 = trace u3 @ [Call (CacheFn Cache_Resume_L1_CORE1_ICache_Autoload) [if r2 \<noteq> 0 then 1 else 0] [] q4 p4]"
    unfolding u4_def by (rule resume_eq)
  have start: "stub_lib_cache_start (cache_target_of ESP32P4) u = u4"
    unfolding stub_lib_cache_start_def cache_target_of.simps cache_target.select_convs p4_cache_start_def Let_def
      bits u1_def [symmetric] u1(2) u2_def [symmetric] u2(2) u3_def [symmetric] u3(2) u4_def [symmetric] ..
  show ?thesis
    unfolding start w(1) u4 u3(1) u2(1) u1(1) by (simp add: resumed_as_suspended_def last_call_def)
qed

text \<open>
  C14: Starting the cache of the ESP32-S2 and the ESP32-P4 after it was stopped turns on
  again exactly the caches or autoload engines that were running when it was stopped, each
  through its own ROM function, whatever happened in between, as long as the saved flags are
  as the stop left them.
\<close>

lemma engines_resumed:
  assumes "s_saved_autoload u = s_saved_autoload (stub_lib_cache_stop (cache_target_of c) w)"
  shows "list_all (resumed_as_suspended (trace (stub_lib_cache_stop (cache_target_of c) w))
     (trace (stub_lib_cache_start (cache_target_of c) u))) (engines c)"
proof (cases "c = ESP32S2 \<or> c = ESP32P4")
  case True
  then show ?thesis using s2_resumed [of u w] p4_resumed [of u w] assms by metis
next
  case False
  then have "engines c = []" by (cases c) simp_all
  then show ?thesis by simp
qed

lemma engines_resumed_witness:
  "list_all (resumed_as_suspended (trace (stub_lib_cache_stop (cache_target_of ESP32P4) c6_world))
     (trace (stub_lib_cache_start (cache_target_of ESP32P4) (stub_lib_cache_stop (cache_target_of ESP32P4) c6_world))))
     (engines ESP32P4)"
  by (rule engines_resumed) (rule refl)

lemma chips_has_valid_entry_witness:
  "\<not> fst (tm_has_valid_entry (mmu_target_of ESP32C6) c6_world)"
  using chips_has_valid_entry [OF c6_world_hw(1)]
  by (simp add: mmu_entries_def c6_world_def item_rd_def item_state_def split_beta regs)

section \<open>Mapped addresses and the memory map\<close>

text \<open>
  The addresses the window hands out, the last eight pages of its range, against the range the
  chip's memory map calls data ROM.
\<close>

definition drom_agrees :: "chip \<Rightarrow> u32 \<Rightarrow> bool" where
  "drom_agrees c k \<longleftrightarrow>
     \<not> (c \<in> {ESP32C6, ESP32H2} \<and> page_code k = 0 \<or> c = ESP32S31 \<and> page_code k < 2)"

lemmas soc_defs = esp32_soc_def esp32s2_soc_def esp32s3_soc_def esp32c2_soc_def esp32c3_soc_def esp32c5_soc_def
  esp32c6_soc_def esp32c61_soc_def esp32h2_soc_def esp32h21_soc_def esp32h4_soc_def esp32p4_soc_def esp32s31_soc_def

lemma window_drom:
  fixes k v :: u32 and enc :: bool
  assumes "c \<noteq> ESP8266"
  defines "S \<equiv> shape_of c enc k"
  defines "n \<equiv> unat (sh_count S - sh_first S)"
  assumes v: "(n - 8) * 2 ^ sh_shift S \<le> unat (v - sh_base S)" "unat (v - sh_base S) < n * 2 ^ sh_shift S"
  shows "stub_lib_mem_is_drom (soc_of c) v \<longleftrightarrow> drom_agrees c k"
proof -
  define x where "x = unat (v - sh_base S)"
  have "v = sh_base S + of_nat x" by (simp add: x_def)
  have x32: "unat (of_nat x :: u32) = x" by (simp add: x_def)
  have sum: "unat (sh_base S) + n * 2 ^ sh_shift S < 4294967296"
    unfolding n_def S_def by (cases k rule: page_code_cases; cases c; simp add: regs)
  have uv: "unat v = unat (sh_base S) + x"
    unfolding \<open>v = _\<close> using sum v(2) x32 by (subst unat_add_lt32) (simp_all add: x_def)
  have x: "(n - 8) * 2 ^ sh_shift S \<le> x" "x < n * 2 ^ sh_shift S" using v by (simp_all add: x_def)
  show ?thesis
    unfolding stub_lib_mem_is_drom_def stub_target_mem_is_drom_def
    using assms(1) x uv unfolding n_def S_def
    by (cases k rule: page_code_cases; cases c;
      simp add: within_def drom_agrees_def soc_defs word_le_nat_alt word_less_nat_alt regs)
qed

text \<open>
  C13: The address at which flash is mapped lies in the range the memory map of the chip
  calls data ROM on every chip but three: the ESP32-C6 and ESP32-H2 with 64 KB pages and the
  ESP32-S31 with 256 KB or 128 KB pages map above the end of that range, so that
  stub_lib_mem_is_drom denies an address the library itself handed out.
\<close>

lemma mapped_address_is_drom:
  fixes w :: "'a autoload_world_scheme"
  assumes "chip_hw c enc k flash w" "wf_mmap w"
    and "mmu_mmap (mmu_target_of c) (cache_target_of c) a sz w = ((STUB_LIB_OK, v), w')"
    and "unat sz + 2 * 2 ^ sh_shift (shape_of c enc k) \<le> 4294967296"
  shows "stub_lib_mem_is_drom (soc_of c) v \<longleftrightarrow> drom_agrees c k"
proof -
  note range = chip.table.mmap_address [OF assms(1) [unfolded chip_hw_def] assms(2-4),
      unfolded chip_first [of c enc k] chip_count [of c enc k]]
  have "unat (sh_count (shape_of c enc k) - sh_first (shape_of c enc k)) \<noteq> 0"
    using range(2) by (intro notI) (simp only: mult_zero_left not_less_zero)
  then have "c \<noteq> ESP8266" unfolding chip_entries(1) .
  then show ?thesis using range by (rule window_drom)
qed

lemma mapped_address_is_drom_witness:
  "\<exists>v w'. mmu_mmap (mmu_target_of ESP32C6) (cache_target_of ESP32C6) 0x1FFFE 4 c6_world = ((STUB_LIB_OK, v), w') \<and>
     \<not> stub_lib_mem_is_drom (soc_of ESP32C6) v"
proof -
  note c6_world_reads
  then obtain bs w' where r: "stub_lib_mmu_read_flash (mmu_target_of ESP32C6) (cache_target_of ESP32C6) 0x1FFFE 4 c6_world = ((STUB_LIB_OK, bs), w')"
    by (metis prod.collapse)
  then obtain v u where m: "mmu_mmap (mmu_target_of ESP32C6) (cache_target_of ESP32C6) 0x1FFFE 4 c6_world = ((STUB_LIB_OK, v), u)"
    by (rule read_flashE)
  from mapped_address_is_drom [OF c6_world_hw m] have "\<not> stub_lib_mem_is_drom (soc_of ESP32C6) v"
    by (simp add: page_code_def drom_agrees_def)
  with m show ?thesis by blast
qed

end
