(* ===== verification/Chip_State.thy ===== *)
theory Chip_State
  imports S3_Flash_State Chip_Nor Chip_Window
begin

text \<open>
  What the other chips put back: the ESP32 and the ESP32-S2 restore the SPI controller they
  took over, the ESP32 keeps the controllers as they are across an erase by its ROM, and the
  ESP32-P4 restores the controller of the cache after four byte mode.
\<close>

section \<open>Attach and release\<close>

text \<open>
  Attaching saves cells, releasing writes them back, whatever happened to them in between.
  Variables of the ROM among them are bytes.
\<close>

definition restores ::
  "('s option \<Rightarrow> attach_policy \<Rightarrow> 'a world_scheme \<Rightarrow> ('s option \<times> 'a world_scheme) option) \<Rightarrow>
    ('s option \<Rightarrow> 'a world_scheme \<Rightarrow> 'a world_scheme option) \<Rightarrow> ('s \<Rightarrow> bool) \<Rightarrow> cell list \<Rightarrow> bool" where
  "restores init deinit ok cells \<longleftrightarrow>
     (\<forall>s p w st w1 w2 w3. ok s \<and> list_all (plain w) cells \<and>
        (\<forall>x. RomVar x \<in> set cells \<longrightarrow> unat (peek (RomVar x) w) < 256) \<and>
        init (Some s) p w = Some (st, w1) \<and> rd_dev w2 = rd_dev w \<and> deinit st w2 = Some w3 \<longrightarrow>
        (\<forall>c\<in>set cells. peek c w3 = peek c w))"

definition esp32_cells :: "cell list" where
  "esp32_cells =
     [Mmio (esp32_SPI_USER_REG FLASH_SPI_NUM), Mmio (esp32_SPI_USER1_REG FLASH_SPI_NUM),
      Mmio (esp32_SPI_USER2_REG FLASH_SPI_NUM), Mmio (esp32_SPI_SLAVE_REG FLASH_SPI_NUM),
      Mmio (esp32_SPI_CLOCK_REG FLASH_SPI_NUM), Mmio (esp32_SPI_CTRL_REG FLASH_SPI_NUM)]"

definition s2_cells :: "cell list" where
  "s2_cells =
     [Mmio (s2_SPI_MEM_USER_REG FLASH_SPI_NUM), Mmio (s2_SPI_MEM_CLOCK_REG FLASH_SPI_NUM),
      Mmio (s2_SPI_MEM_CTRL_REG FLASH_SPI_NUM)]"

lemmas esp32_ids = esp32_SPI_USER_REG_ID_def esp32_SPI_USER1_REG_ID_def esp32_SPI_USER2_REG_ID_def
  esp32_SPI_SLAVE_REG_ID_def esp32_SPI_CLOCK_REG_ID_def esp32_SPI_CTRL_REG_ID_def esp32_SPI_REGS_NUM_def

lemmas s2_ids = s2_SPI_USER_REG_ID_def s2_SPI_CLOCK_REG_ID_def s2_SPI_CTRL_REG_ID_def s2_SPI_REGS_NUM_def

text \<open>Both states hold an array of registers, as long as the code declares it.\<close>

definition esp32_wf :: "esp32_flash_state \<Rightarrow> bool" where
  "esp32_wf s \<longleftrightarrow> length (e_spi_regs s) = esp32_SPI_REGS_NUM"

definition s2_wf :: "s2_flash_state \<Rightarrow> bool" where
  "s2_wf s \<longleftrightarrow> length (s2_spi_regs s) = s2_SPI_REGS_NUM"

lemma esp32_save:
  assumes "list_all (plain w) (spi1_dummy # esp32_cells)" "esp32_wf s"
  shows "fst (esp32_flash_state_save (Some s) w) =
    Some (s\<lparr>e_spi_regs := map (\<lambda>c. peek c w) esp32_cells, e_dummy_len_plus := ucast (peek spi1_dummy w)\<rparr>)"
proof -
  obtain a b c d e f where "e_spi_regs s = [a, b, c, d, e, f]"
    using assms(2) by (auto simp: esp32_wf_def esp32_ids length_Suc_conv eval_nat_numeral)
  then show ?thesis
    using assms(1)
    by (simp add: esp32_flash_state_save_def esp32_save_reg_def prim_eq esp32_ids esp32_cells_def spi1_dummy_def
        peek_keeps eval_nat_numeral)
qed

lemma s2_save:
  assumes "list_all (plain w) s2_cells" "s2_wf s"
  shows "fst (s2_flash_state_save (Some s) w) = Some (s\<lparr>s2_spi_regs := map (\<lambda>c. peek c w) s2_cells\<rparr>)"
proof -
  obtain a b c where "s2_spi_regs s = [a, b, c]"
    using assms(2) by (auto simp: s2_wf_def s2_ids length_Suc_conv eval_nat_numeral)
  then show ?thesis
    using assms(1)
    by (simp add: s2_flash_state_save_def s2_save_reg_def prim_eq s2_ids s2_cells_def peek_keeps eval_nat_numeral)
qed

lemma esp32_restore:
  "esp32_flash_state_restore (Some s) w = after w (wrs
     [(Mmio (esp32_SPI_USER1_REG FLASH_SPI_NUM), e_spi_regs s ! 1),
      (Mmio (esp32_SPI_USER2_REG FLASH_SPI_NUM), e_spi_regs s ! 2),
      (Mmio (esp32_SPI_SLAVE_REG FLASH_SPI_NUM), e_spi_regs s ! 3),
      (Mmio (esp32_SPI_CLOCK_REG FLASH_SPI_NUM), e_spi_regs s ! 4),
      (Mmio (esp32_SPI_CTRL_REG FLASH_SPI_NUM), e_spi_regs s ! 5),
      (Mmio (esp32_SPI_USER_REG FLASH_SPI_NUM), e_spi_regs s ! 0),
      (spi1_dummy, ucast (e_dummy_len_plus s))])"
  by (simp add: esp32_flash_state_restore_def prim_eq esp32_ids wrs_def spi1_dummy_def)

lemma s2_restore:
  "s2_flash_state_restore (Some s) w = after w (wrs
     [(Mmio (s2_SPI_MEM_CLOCK_REG FLASH_SPI_NUM), s2_spi_regs s ! 1),
      (Mmio (s2_SPI_MEM_CTRL_REG FLASH_SPI_NUM), s2_spi_regs s ! 2),
      (Mmio (s2_SPI_MEM_USER_REG FLASH_SPI_NUM), s2_spi_regs s ! 0)])"
  by (simp add: s2_flash_state_restore_def prim_eq s2_ids wrs_def)

text \<open>The rest of the initialisation passes the saved state on.\<close>

lemma esp32_init_state: "esp32_flash_init s p w = Some (st, w1) \<Longrightarrow> st = fst (esp32_flash_state_save s w)"
  by (auto simp: esp32_flash_init_def bind_eq_Some_conv Let_def split: prod.splits)

lemma s2_init_state: "s2_flash_init s p w = Some (st, w1) \<Longrightarrow> st = fst (s2_flash_state_save s w)"
  by (auto simp: s2_flash_init_def bind_eq_Some_conv Let_def split: prod.splits)

lemma esp32_restores:
  "restores esp32_flash_init (stub_target_flash_deinit esp32_flash_state_restore) esp32_wf (spi1_dummy # esp32_cells)"
  unfolding restores_def
proof (intro allI impI ballI, elim conjE)
  fix s p st and w w1 w2 w3 :: "'a world_scheme" and c
  assume wf: "esp32_wf s" and pl: "list_all (plain w) (spi1_dummy # esp32_cells)"
    and b: "\<forall>x. RomVar x \<in> set (spi1_dummy # esp32_cells) \<longrightarrow> unat (peek (RomVar x) w) < 256"
    and i: "esp32_flash_init (Some s) p w = Some (st, w1)" and same: "rd_dev w2 = rd_dev w"
    and d: "stub_target_flash_deinit esp32_flash_state_restore st w2 = Some w3"
    and c: "c \<in> set (spi1_dummy # esp32_cells)"
  let ?s = "s\<lparr>e_spi_regs := map (\<lambda>c. peek c w) esp32_cells, e_dummy_len_plus := ucast (peek spi1_dummy w)\<rparr>"
  have w3: "w3 = esp32_flash_state_restore (Some ?s) w2"
    using d esp32_init_state [OF i] esp32_save [OF pl wf] by (simp add: stub_target_flash_deinit_def)
  have "plain w2 c" using pl c same by (auto simp: list_all_iff plain_def)
  moreover have "unat (peek spi1_dummy w) < 256" using b by (simp add: spi1_dummy_def)
  ultimately show "peek c w3 = peek c w"
    unfolding w3 esp32_restore
    by (intro peek_writes [where es = "[]" and fs = "[]", simplified])
      (use c in \<open>auto simp: esp32_cells_def spi1_dummy_def ucast_byte regs\<close>)
qed

lemma s2_restores:
  "restores s2_flash_init (stub_target_flash_deinit s2_flash_state_restore) s2_wf s2_cells"
  unfolding restores_def
proof (intro allI impI ballI, elim conjE)
  fix s p st and w w1 w2 w3 :: "'a world_scheme" and c
  assume wf: "s2_wf s" and pl: "list_all (plain w) s2_cells"
    and i: "s2_flash_init (Some s) p w = Some (st, w1)" and same: "rd_dev w2 = rd_dev w"
    and d: "stub_target_flash_deinit s2_flash_state_restore st w2 = Some w3" and c: "c \<in> set s2_cells"
  let ?s = "s\<lparr>s2_spi_regs := map (\<lambda>c. peek c w) s2_cells\<rparr>"
  have w3: "w3 = s2_flash_state_restore (Some ?s) w2"
    using d s2_init_state [OF i] s2_save [OF pl wf] by (simp add: stub_target_flash_deinit_def)
  have "plain w2 c" using pl c same by (auto simp: list_all_iff plain_def)
  then show "peek c w3 = peek c w"
    unfolding w3 s2_restore
    by (intro peek_writes [where es = "[]" and fs = "[]", simplified])
      (use c in \<open>auto simp: s2_cells_def regs\<close>)
qed

text \<open>
  C39: On the ESP32 and the ESP32-S2 releasing the flash restores every SPI1 register, and
  on the ESP32 the dummy length, that attaching to it had saved, whatever happened to them
  in between.
\<close>

lemma esp32_s2_registers_restored:
  "restores esp32_flash_init (stub_target_flash_deinit esp32_flash_state_restore) esp32_wf (spi1_dummy # esp32_cells) \<and>
   restores s2_flash_init (stub_target_flash_deinit s2_flash_state_restore) s2_wf s2_cells"
  using esp32_restores s2_restores by blast

text \<open>A register file whose cells are all 5 at first.\<close>

definition plain_world :: world where
  "plain_world = \<lparr>rd_dev = regfile 5, rom_dev = \<lambda>_ _ _ _. (1, []), mem_dev = \<lambda>_ _ n. replicate n 0,
     sym_addr = \<lambda>_. 0, trace = []\<rparr>"

lemma plain_world_cells: "plain plain_world c" "peek c plain_world = 5"
  by (rule regfile_plain [of _ 5]) (simp_all add: plain_world_def peek_def regfile_def)

lemma esp32_s2_registers_restored_witness:
  "\<exists>st w1 w3. esp32_flash_init (Some \<lparr>e_spi_regs = replicate 6 0, e_dummy_len_plus = 0\<rparr>)
      STUB_LIB_FLASH_ATTACH_IF_NEEDED plain_world = Some (st, w1) \<and>
     stub_target_flash_deinit esp32_flash_state_restore st
       (after plain_world [Wr (Mmio (esp32_SPI_USER_REG 1)) 7, Wr (Mmio (esp32_SPI_CTRL_REG 1)) 8]) = Some w3 \<and>
     (\<forall>c\<in>set (spi1_dummy # esp32_cells). peek c w3 = 5)"
proof -
  let ?s = "\<lparr>e_spi_regs = replicate 6 0, e_dummy_len_plus = 0\<rparr> :: esp32_flash_state"
  let ?w2 = "after plain_world [Wr (Mmio (esp32_SPI_USER_REG 1)) 7, Wr (Mmio (esp32_SPI_CTRL_REG 1)) 8]"
  have "\<exists>st w1. esp32_flash_init (Some ?s) STUB_LIB_FLASH_ATTACH_IF_NEEDED plain_world = Some (st, w1)"
    by (simp add: esp32_flash_init_def stub_target_flash_attach_def Let_def split_beta)
  then obtain st w1 where i: "esp32_flash_init (Some ?s) STUB_LIB_FLASH_ATTACH_IF_NEEDED plain_world = Some (st, w1)"
    by blast
  obtain w3 where d: "stub_target_flash_deinit esp32_flash_state_restore st ?w2 = Some w3"
    by (simp add: stub_target_flash_deinit_def)
  have "esp32_wf ?s" by (simp add: esp32_wf_def esp32_ids)
  with i d esp32_s2_registers_restored [THEN conjunct1, unfolded restores_def, rule_format,
      of ?s plain_world STUB_LIB_FLASH_ATTACH_IF_NEEDED st w1 ?w2 w3]
  show ?thesis by (simp add: plain_world_cells list_all_iff)
qed

section \<open>The ESP32's erase\<close>

definition esp32_erase_cells :: "cell list" where
  "esp32_erase_cells =
     [Mmio (esp32_SPI_CTRL_REG FLASH_SPI_NUM_INT), Mmio (esp32_SPI_USER_REG FLASH_SPI_NUM_INT),
      Mmio (esp32_SPI_USER1_REG FLASH_SPI_NUM_INT), Mmio (esp32_SPI_USER2_REG FLASH_SPI_NUM_INT),
      Mmio (esp32_SPI_CTRL_REG FLASH_SPI_NUM)]"

text \<open>
  An erase through the ROM of the ESP32 leaves the five registers of the SPI
  controllers it saves as they were, whatever the ROM did to them, and passes the result of
  the ROM on.
\<close>

lemma esp32_erase_keeps_spi:
  assumes "esp32_rom_spiflash_erase_area a n w = Some (r, w')" and "list_all (plain w) esp32_erase_cells"
  shows "r = rom_ret (FlashFn Esp_rom_spiflash_erase_area) [a, n] [] (after w (reads_of esp32_erase_cells w)) \<and>
    (\<forall>c\<in>set esp32_erase_cells. peek c w' = peek c w)"
proof -
  let ?rs = "reads_of esp32_erase_cells w" and ?f = "FlashFn Esp_rom_spiflash_erase_area"
  let ?u = "after w ?rs"
  let ?e = "Call ?f [a, n] [] (rom_ret ?f [a, n] [] ?u) (rom_out ?f [a, n] [] ?u)"
  have e: "r = rom_ret ?f [a, n] [] ?u \<and>
     w' = after w ((?rs @ [?e]) @ wrs (map (\<lambda>c. (c, peek c w)) esp32_erase_cells) @ [])"
    using assms
    by (auto simp: esp32_rom_spiflash_erase_area_def prim_eq wrs_def esp32_erase_cells_def reads_of_def peek_keeps)
  moreover have "peek c w' = peek c w" if "c \<in> set esp32_erase_cells" for c
    using that assms(2) conjunct2 [OF e]
    by (simp only:) (intro peek_writes, auto simp: list_all_iff esp32_erase_cells_def regs)
  ultimately show ?thesis by blast
qed


lemma esp32_erase_keeps_spi_witness:
  "\<exists>w'. esp32_rom_spiflash_erase_area 0x1000 0x1000 plain_world = Some (1, w') \<and>
     (\<forall>c\<in>set esp32_erase_cells. peek c w' = 5)"
proof -
  obtain r w' where e: "esp32_rom_spiflash_erase_area 0x1000 0x1000 plain_world = Some (r, w')"
    by (simp add: esp32_rom_spiflash_erase_area_def split_beta Let_def)
  have "list_all (plain plain_world) esp32_erase_cells" by (simp add: plain_world_cells list_all_iff)
  from esp32_erase_keeps_spi [OF e this] e show ?thesis
    by (simp add: plain_world_cells rom_ret_def) (simp add: plain_world_def)
qed

section \<open>Four byte addresses for the cache of the ESP32-P4\<close>

definition p4_addr32_cells :: "cell list" where
  "p4_addr32_cells =
     [Mmio p4_SPI_MEM_C_USER_REG, Mmio p4_SPI_MEM_C_USER1_REG, Mmio p4_SPI_MEM_C_USER2_REG,
      Mmio p4_SPI_MEM_C_CTRL_REG, Mmio p4_SPI_MEM_C_DDR_REG, Mmio p4_SPI_MEM_C_CACHE_FCTRL_REG]"

definition p4_timing :: cell where
  "p4_timing = Mmio p4_SPI_MEM_C_TIMING_CALI_REG"

definition p4_addr32_saved :: "'a world_scheme \<Rightarrow> p4_addr32_state" where
  "p4_addr32_saved w = \<lparr>p4_applied = True,
     p4_saved_user = peek (Mmio p4_SPI_MEM_C_USER_REG) w,
     p4_saved_user1 = peek (Mmio p4_SPI_MEM_C_USER1_REG) w,
     p4_saved_user2 = peek (Mmio p4_SPI_MEM_C_USER2_REG) w,
     p4_saved_ctrl = peek (Mmio p4_SPI_MEM_C_CTRL_REG) w,
     p4_saved_ddr = peek (Mmio p4_SPI_MEM_C_DDR_REG) w,
     p4_saved_cache_fctrl = peek (Mmio p4_SPI_MEM_C_CACHE_FCTRL_REG) w,
     p4_saved_timing_cali = peek p4_timing w,
     p4_saved_dummy_len_plus = ucast (peek spi0_dummy w)\<rparr>"

definition p4_already_4byte :: "'a world_scheme \<Rightarrow> bool" where
  "p4_already_4byte w \<longleftrightarrow>
     peek (Mmio p4_SPI_MEM_C_CACHE_FCTRL_REG) w AND p4_SPI_MEM_C_CACHE_USR_ADDR_4BYTE \<noteq> 0 \<or>
     drop_bit p4_SPI_MEM_C_USR_ADDR_BITLEN_S (peek (Mmio p4_SPI_MEM_C_USER1_REG) w)
       AND p4_SPI_MEM_C_USR_ADDR_BITLEN_V \<ge> 31"

lemma p4_after_fields [simp]:
  "p4_addr32 (after w es) = p4_addr32 w"
  "after (w\<lparr>p4_addr32 := x\<rparr>) es = (after w es)\<lparr>p4_addr32 := x\<rparr>"
  "peek c (w\<lparr>p4_addr32 := x\<rparr>) = peek c w"
  "rom_ret f args d (w\<lparr>p4_addr32 := x\<rparr>) = rom_ret f args d w"
  "rom_out f args d (w\<lparr>p4_addr32 := x\<rparr>) = rom_out f args d w"
  by (simp_all add: after_def peek_def rom_ret_def rom_out_def)

lemma autoload_after [simp]:
  "after (w\<lparr>s_saved_autoload := x\<rparr>) es = (after w es)\<lparr>s_saved_autoload := x\<rparr>"
  "peek c (w\<lparr>s_saved_autoload := x\<rparr>) = peek c w"
  "rd_dev (w\<lparr>s_saved_autoload := x\<rparr>) = rd_dev w"
  "p4_addr32 (v\<lparr>s_saved_autoload := x\<rparr>) = p4_addr32 v"
  by (simp_all add: after_def peek_def)

text \<open>Stopping and starting the cache are ROM calls of the cache; only the flags change.\<close>

definition cache_only :: "'a autoload_world_scheme \<Rightarrow> 'a autoload_world_scheme \<Rightarrow> bool" where
  "cache_only w w' \<longleftrightarrow> (\<exists>es x. list_all is_cache_call es \<and> w' = (after w es)\<lparr>s_saved_autoload := x\<rparr>)"

lemma cache_only_after: "list_all is_cache_call es \<Longrightarrow> cache_only w (after w es)"
proof -
  assume "list_all is_cache_call es"
  moreover have "after w es = (after w es)\<lparr>s_saved_autoload := s_saved_autoload (after w es)\<rparr>" by simp
  ultimately show "cache_only w (after w es)" unfolding cache_only_def by blast
qed

lemma cache_only_update: "cache_only w (w\<lparr>s_saved_autoload := x\<rparr>)"
  unfolding cache_only_def by (intro exI [of _ "[]"] exI [of _ x]) simp

lemma cache_only_trans [trans]: "cache_only w w' \<Longrightarrow> cache_only w' w'' \<Longrightarrow> cache_only w w''"
  unfolding cache_only_def
proof (elim exE conjE)
  fix es x fs y
  assume "list_all is_cache_call es" "w' = (after w es)\<lparr>s_saved_autoload := x\<rparr>"
    "list_all is_cache_call fs" "w'' = (after w' fs)\<lparr>s_saved_autoload := y\<rparr>"
  then show "\<exists>es x. list_all is_cache_call es \<and> w'' = (after w es)\<lparr>s_saved_autoload := x\<rparr>"
    by (intro exI [of _ "es @ fs"] exI [of _ y]) simp
qed

lemma cache_only_suspend: "cache_only w (suspend f b w)"
proof -
  let ?e = "Call (CacheFn f) [] [] (rom_ret (CacheFn f) [] [] w) (rom_out (CacheFn f) [] [] w)"
  have call: "cache_only w (after w [?e])" by (rule cache_only_after) (simp add: is_cache_call_def)
  have upd: "cache_only w ((after w [?e])\<lparr>s_saved_autoload := x\<rparr>)" for x
    using call cache_only_update by (rule cache_only_trans)
  from call upd show ?thesis
    by (cases "rom_ret (CacheFn f) [] [] w = 0") (simp_all only: suspend_def prim_eq Let_def prod.case if_True if_False simp_thms)
qed

lemma cache_only_suspendI: "cache_only w u \<Longrightarrow> cache_only w (suspend f b u)"
  by (rule cache_only_trans [OF _ cache_only_suspend])

lemma cache_only_call: "cache_only w u \<Longrightarrow> cache_only w (rom_void (CacheFn f) args d u)"
  by (erule cache_only_trans) (simp add: prim_eq cache_only_after is_cache_call_def)

lemma cache_only_refl: "cache_only w w"
  using cache_only_after [of "[]"] by simp

lemma cache_only_p4:
  "cache_only w (stub_lib_cache_stop (cache_target_of ESP32P4) w)"
  "cache_only w (stub_lib_cache_start (cache_target_of ESP32P4) w)"
proof -
  show "cache_only w (stub_lib_cache_stop (cache_target_of ESP32P4) w)"
    unfolding stop_suspends by (intro cache_only_suspendI cache_only_update)
  show "cache_only w (stub_lib_cache_start (cache_target_of ESP32P4) w)"
    unfolding stub_lib_cache_start_def cache_target_of.simps cache_target.select_convs p4_cache_start_def Let_def
    by (intro cache_only_call cache_only_refl)
qed

lemma cache_only_fields:
  assumes "cache_only w w'"
  shows "p4_addr32 w' = p4_addr32 w" "rd_dev w' = rd_dev w"
  using assms by (auto simp: cache_only_def)


lemma p4_addr32_frames [frames]:
  "p4_addr32 (REG_SET_BIT r b w) = p4_addr32 w" "p4_addr32 (CLEAR_PERI_REG_MASK r b w) = p4_addr32 w"
  "p4_addr32 (REG_SET_FIELD r fV fS x w) = p4_addr32 w" "p4_addr32 (cell_write c v w) = p4_addr32 w"
  "p4_addr32 (rom_void f a d w) = p4_addr32 w" "p4_addr32 (REG_WRITE r v w) = p4_addr32 w"
  "p4_addr32 (stub_lib_cache_stop (cache_target_of ESP32P4) w) = p4_addr32 w"
  "p4_addr32 (stub_lib_cache_start (cache_target_of ESP32P4) w) = p4_addr32 w"
  using cache_only_fields(1) [OF cache_only_p4(1)] cache_only_fields(1) [OF cache_only_p4(2)]
  by (simp_all add: prim_eq Let_def)

lemma p4_enable_saves:
  assumes "\<not> p4_already_4byte w" "list_all (plain w) (p4_timing # spi0_dummy # p4_addr32_cells)"
  shows "p4_addr32 (p4_enable_4byte_cache_mode w) = p4_addr32_saved w"
proof -
  have prog: "p4_addr32 (p4_program_4byte_cache_mode u) = p4_addr32 u" for u :: "'a p4_world_scheme"
    by (simp add: p4_program_4byte_cache_mode_def frames Let_def)
  note frame = frames prog
  have pl: "plain w (Mmio p4_SPI_MEM_C_USER_REG)" "plain w (Mmio p4_SPI_MEM_C_USER1_REG)"
    "plain w (Mmio p4_SPI_MEM_C_USER2_REG)" "plain w (Mmio p4_SPI_MEM_C_CTRL_REG)" "plain w (Mmio p4_SPI_MEM_C_DDR_REG)"
    "plain w (Mmio p4_SPI_MEM_C_CACHE_FCTRL_REG)" "plain w (Mmio p4_SPI_MEM_C_TIMING_CALI_REG)" "plain w spi0_dummy"
    using assms(2) by (simp_all add: p4_addr32_cells_def p4_timing_def)
  have no: "peek (Mmio p4_SPI_MEM_C_CACHE_FCTRL_REG) w AND p4_SPI_MEM_C_CACHE_USR_ADDR_4BYTE = 0"
    "\<not> p4_ADDR32_CACHE_ADDR_BITLEN - 1 \<le> drop_bit p4_SPI_MEM_C_USR_ADDR_BITLEN_S (peek (Mmio p4_SPI_MEM_C_USER1_REG) w)
       AND p4_SPI_MEM_C_USR_ADDR_BITLEN_V"
    using assms(1) by (simp_all add: p4_already_4byte_def p4_ADDR32_CACHE_ADDR_BITLEN_def)
  show ?thesis
    unfolding p4_enable_4byte_cache_mode_def p4_addr32_saved_def p4_timing_def spi0_dummy_def [symmetric]
    by (simp add: REG_GET_eq REG_READ_eq cell_eq(1) frame Let_def pl peek_keeps no del: cache_target_of.simps cong: if_cong)
qed


text \<open>
  Releasing writes the saved values back and asks the controller to take the timing over,
  which leaves the request bit in the timing register.
\<close>

definition p4_restored :: "p4_addr32_state \<Rightarrow> (cell \<times> u32) list" where
  "p4_restored s =
     [(Mmio p4_SPI_MEM_C_USER_REG, p4_saved_user s), (Mmio p4_SPI_MEM_C_USER1_REG, p4_saved_user1 s),
      (Mmio p4_SPI_MEM_C_USER2_REG, p4_saved_user2 s), (Mmio p4_SPI_MEM_C_CTRL_REG, p4_saved_ctrl s),
      (Mmio p4_SPI_MEM_C_DDR_REG, p4_saved_ddr s), (Mmio p4_SPI_MEM_C_CACHE_FCTRL_REG, p4_saved_cache_fctrl s),
      (spi0_dummy, ucast (p4_saved_dummy_len_plus s)),
      (p4_timing, p4_saved_timing_cali s OR p4_SPI_MEM_C_TIMING_CALI_UPDATE)]"

lemma p4_disable_peek:
  assumes "p4_applied (p4_addr32 w)" "list_all (plain w) (p4_timing # spi0_dummy # p4_addr32_cells)"
    and cv: "(c, v) \<in> set (p4_restored (p4_addr32 w))"
  shows "peek c (p4_disable_4byte_cache_mode w) = v"
proof -
  define s where "s = p4_addr32 w"
  obtain es x where es: "stub_lib_cache_stop (cache_target_of ESP32P4) w = (after w es)\<lparr>s_saved_autoload := x\<rparr>"
    using cache_only_p4(1) unfolding cache_only_def by blast
  define as where "as = [(Mmio p4_SPI_MEM_C_USER_REG, p4_saved_user s), (Mmio p4_SPI_MEM_C_USER1_REG, p4_saved_user1 s),
      (Mmio p4_SPI_MEM_C_USER2_REG, p4_saved_user2 s), (Mmio p4_SPI_MEM_C_CTRL_REG, p4_saved_ctrl s),
      (Mmio p4_SPI_MEM_C_DDR_REG, p4_saved_ddr s), (Mmio p4_SPI_MEM_C_CACHE_FCTRL_REG, p4_saved_cache_fctrl s)]"
  define t where "t = p4_saved_timing_cali s"
  define v1 where "v1 = after w (es @ wrs as @ [Wr p4_timing t])"
  have pt: "peek p4_timing v1 = t"
    unfolding v1_def using assms(2) peek_written [of w p4_timing "[]" "es @ wrs as" t] by simp
  define u where "u = after w (es @ wrs as @ [Wr p4_timing t, Rd p4_timing t, 
      Wr p4_timing (t OR p4_SPI_MEM_C_TIMING_CALI_UPDATE), Wr spi0_dummy (ucast (p4_saved_dummy_len_plus s))])"
  obtain fs y where fs: "list_all is_cache_call fs"
      "stub_lib_cache_start (cache_target_of ESP32P4) (u\<lparr>s_saved_autoload := x\<rparr>) =
        (after (u\<lparr>s_saved_autoload := x\<rparr>) fs)\<lparr>s_saved_autoload := y\<rparr>"
    using cache_only_p4(2) unfolding cache_only_def by blast
  have "REG_SET_BIT p4_SPI_MEM_C_TIMING_CALI_REG p4_SPI_MEM_C_TIMING_CALI_UPDATE v1 =
      after v1 [Rd p4_timing t, Wr p4_timing (t OR p4_SPI_MEM_C_TIMING_CALI_UPDATE)]"
    using pt by (simp add: prim_eq p4_timing_def)
  then have "p4_disable_4byte_cache_mode w =
    (let w = stub_lib_cache_start (cache_target_of ESP32P4) (u\<lparr>s_saved_autoload := x\<rparr>)
     in w\<lparr>p4_addr32 := (p4_addr32 w)\<lparr>p4_applied := False\<rparr>\<rparr>)"
    using assms(1) pt
    by (simp add: p4_disable_4byte_cache_mode_def es u_def v1_def as_def wrs_def Let_def REG_WRITE_eq cell_eq
        s_def t_def p4_timing_def spi0_dummy_def prim_eq del: cache_target_of.simps)
  then have "peek c (p4_disable_4byte_cache_mode w) = peek c (after u fs)"
    by (simp add: Let_def fs(2) del: cache_target_of.simps)
  also have "\<dots> = v"
  proof -
    have k: "list_all (keeps c) fs" for c using fs(1) by (auto simp: list_all_iff is_cache_call_keeps)
    have pl: "plain w c" using cv assms(2) by (auto simp: p4_restored_def p4_addr32_cells_def)
    have nd: "distinct (map fst as)" "p4_timing \<notin> fst ` set as" "spi0_dummy \<notin> fst ` set as" "p4_timing \<noteq> spi0_dummy"
      by (auto simp: as_def p4_timing_def spi0_dummy_def regs)
    consider "(c, v) \<in> set as" | "c = spi0_dummy" "v = ucast (p4_saved_dummy_len_plus s)"
      | "c = p4_timing" "v = t OR p4_SPI_MEM_C_TIMING_CALI_UPDATE"
      using cv unfolding p4_restored_def as_def s_def t_def by auto
    then show ?thesis
    proof cases
      case 1
      then have "c \<noteq> p4_timing" "c \<noteq> spi0_dummy" using nd(2,3) by (force simp: image_iff)+
      then show ?thesis
        using peek_writes [OF pl 1 nd(1), of "[Wr p4_timing t, Rd p4_timing t,
            Wr p4_timing (t OR p4_SPI_MEM_C_TIMING_CALI_UPDATE), Wr spi0_dummy (ucast (p4_saved_dummy_len_plus s))] @ fs" es] k
        by (simp add: u_def)
    next
      case 2
      then show ?thesis
        using peek_written [OF pl k, of "es @ wrs as @ [Wr p4_timing t, Rd p4_timing t,
            Wr p4_timing (t OR p4_SPI_MEM_C_TIMING_CALI_UPDATE)]" v] by (simp add: u_def)
    next
      case 3
      then show ?thesis
        using peek_written [OF pl, of "Wr spi0_dummy (ucast (p4_saved_dummy_len_plus s)) # fs"
            "es @ wrs as @ [Wr p4_timing t, Rd p4_timing t]" v] k nd(4) by (simp add: u_def)
    qed
  qed
  finally show ?thesis .
qed


text \<open>
  C19: On the ESP32-P4 switching the cache to four byte addresses and back restores the six
  registers of its controller and the dummy length, restores the timing register up to the
  request bit that makes the controller take it over, and clears the flag that says they are
  saved.
\<close>

lemma p4_cache_mode_restored:
  assumes "p4_set_4byte_cache_mode True w = Some w1" and "\<not> p4_already_4byte w"
    and "list_all (plain w) (p4_timing # spi0_dummy # p4_addr32_cells)" "unat (peek spi0_dummy w) < 256"
    and "rd_dev w2 = rd_dev w" "p4_addr32 w2 = p4_addr32 w1"
    and "p4_set_4byte_cache_mode False w2 = Some w3"
  shows "(\<forall>c\<in>set (spi0_dummy # p4_addr32_cells). peek c w3 = peek c w) \<and>
    peek p4_timing w3 = peek p4_timing w OR p4_SPI_MEM_C_TIMING_CALI_UPDATE \<and> \<not> p4_applied (p4_addr32 w3)"
proof -
  have s: "p4_addr32 w2 = p4_addr32_saved w"
    using assms(1,6) p4_enable_saves [OF assms(2,3)] by (auto simp: p4_set_4byte_cache_mode_def)
  have w3: "w3 = p4_disable_4byte_cache_mode w2" using assms(7) by (simp add: p4_set_4byte_cache_mode_def)
  have pl: "list_all (plain w2) (p4_timing # spi0_dummy # p4_addr32_cells)"
    using assms(3) plain_cong [OF assms(5)] by (simp add: list_all_iff)
  have "p4_applied (p4_addr32 w2)" by (simp add: s p4_addr32_saved_def)
  note p = p4_disable_peek [OF this pl]
  have "peek c w3 = peek c w" if "c \<in> set (spi0_dummy # p4_addr32_cells)" for c
    unfolding w3 by (rule p) (use that assms(4) in \<open>auto simp: s p4_restored_def p4_addr32_saved_def p4_addr32_cells_def ucast_byte\<close>)
  moreover have "peek p4_timing w3 = peek p4_timing w OR p4_SPI_MEM_C_TIMING_CALI_UPDATE"
    unfolding w3 by (rule p) (simp add: s p4_restored_def p4_addr32_saved_def)
  moreover have "\<not> p4_applied (p4_addr32 w3)"
    by (simp add: w3 p4_disable_4byte_cache_mode_def Let_def del: cache_target_of.simps)
  ultimately show ?thesis by blast
qed


definition p4_plain_world :: p4_world where
  "p4_plain_world = \<lparr>rd_dev = regfile 0, rom_dev = \<lambda>_ _ _ _. (0, []), mem_dev = \<lambda>_ _ n. replicate n 0,
     sym_addr = \<lambda>_. 0, trace = [], large_flash_mode = True,
     s_mmap_state = \<lparr>vaddr_base = 0, entry_start = 0, page_count = 0, saved_entries = replicate 8 0\<rparr>,
     s_saved_autoload = 0,
     p4_addr32 = \<lparr>p4_applied = False, p4_saved_user = 0, p4_saved_user1 = 0, p4_saved_user2 = 0, p4_saved_ctrl = 0,
       p4_saved_ddr = 0, p4_saved_cache_fctrl = 0, p4_saved_timing_cali = 0, p4_saved_dummy_len_plus = 0\<rparr>\<rparr>"

lemma p4_cache_mode_restored_witness:
  "\<exists>w1 w3. p4_set_4byte_cache_mode True p4_plain_world = Some w1 \<and>
     p4_set_4byte_cache_mode False (after (p4_plain_world\<lparr>p4_addr32 := p4_addr32 w1\<rparr>)
       [Wr (Mmio p4_SPI_MEM_C_USER_REG) 8, Wr (Mmio p4_SPI_MEM_C_DDR_REG) 9]) = Some w3 \<and>
     (\<forall>c\<in>set (spi0_dummy # p4_addr32_cells). peek c w3 = 0) \<and> \<not> p4_applied (p4_addr32 w3)"
proof -
  obtain w1 where i: "p4_set_4byte_cache_mode True p4_plain_world = Some w1"
    by (simp add: p4_set_4byte_cache_mode_def)
  let ?w2 = "after (p4_plain_world\<lparr>p4_addr32 := p4_addr32 w1\<rparr>)
       [Wr (Mmio p4_SPI_MEM_C_USER_REG) 8, Wr (Mmio p4_SPI_MEM_C_DDR_REG) 9]"
  obtain w3 where d: "p4_set_4byte_cache_mode False ?w2 = Some w3" by (simp add: p4_set_4byte_cache_mode_def)
  have pk: "peek c p4_plain_world = 0" for c by (simp add: peek_def p4_plain_world_def regfile_def)
  have "plain p4_plain_world c" for c by (rule regfile_plain [of _ 0]) (simp add: p4_plain_world_def)
  moreover have "\<not> p4_already_4byte p4_plain_world" by (simp add: p4_already_4byte_def pk)
  ultimately show ?thesis
    using p4_cache_mode_restored [OF i _ _ _ _ _ d] i d by (auto simp: pk list_all_iff)
qed

end
