(* ===== verification/Chip_Clock_Props.thy ===== *)
theory Chip_Clock_Props
  imports Chip_Clock Plain
begin

text \<open>
  What the clock drivers promise: the watchdogs are off afterwards on every chip that has the
  registers for it, a field written over the analog I2C bus reaches the slave and nothing else
  does, and the ESP32-C2 tells its two crystals apart and puts its clock selection back.
\<close>

section \<open>Watchdogs\<close>

text \<open>
  A watchdog register is behind a lock: a write to it acts only while the last write to its
  protection register was the key.
\<close>

definition guard_step :: "u32 \<Rightarrow> u32 \<Rightarrow> u32 \<Rightarrow> ev \<Rightarrow> bool \<times> u32 \<Rightarrow> bool \<times> u32" where
  "guard_step protect key reg e s =
     (case e of
        Wr (Mmio r) v \<Rightarrow> if r = protect then (v = key, snd s) else if r = reg \<and> fst s then (fst s, v) else s
      | _ \<Rightarrow> s)"

text \<open>
  Running f, from any state of the lock and of the register, ends with the lock closed and
  the register as P says.
\<close>

definition leaves_locked ::
  "('a world_scheme \<Rightarrow> 'a world_scheme) \<Rightarrow> u32 \<Rightarrow> u32 \<Rightarrow> u32 \<Rightarrow> (u32 \<Rightarrow> bool) \<Rightarrow> bool" where
  "leaves_locked f protect key reg P \<longleftrightarrow>
     (\<forall>w s. \<exists>es. f w = after w es \<and>
        \<not> fst (fold (guard_step protect key reg) es s) \<and> P (snd (fold (guard_step protect key reg) es s)))"

lemma leaves_lockedI:
  assumes "\<And>w. \<exists>es. f w = after w es \<and>
      (\<forall>s. \<not> fst (fold (guard_step protect key reg) es s) \<and> P (snd (fold (guard_step protect key reg) es s)))"
  shows "leaves_locked f protect key reg P"
  unfolding leaves_locked_def using assms by blast

lemma or_mask_set: "(x OR b) AND b = (b :: u32)"
  by (simp add: word_ao_absorbs)

text \<open>Ten chips share one sequence, for their own registers.\<close>

definition watchdogs_off ::
  "u32 \<Rightarrow> u32 \<Rightarrow> u32 \<Rightarrow> u32 \<Rightarrow> u32 \<Rightarrow> u32 \<Rightarrow> u32 \<Rightarrow> u32 \<Rightarrow> u32 \<Rightarrow> u32 \<Rightarrow> 'a world_scheme \<Rightarrow> 'a world_scheme" where
  "watchdogs_off clr b protect key cfg b' sprotect skey scfg feed w =
     (let w = REG_SET_BIT clr b w;
          w = WRITE_PERI_REG protect key w;
          w = WRITE_PERI_REG cfg 0 w;
          w = WRITE_PERI_REG protect 0 w;
          w = REG_SET_BIT clr b' w;
          w = WRITE_PERI_REG sprotect skey w;
          w = SET_PERI_REG_MASK scfg feed w
      in WRITE_PERI_REG sprotect 0 w)"

lemma watchdogs_off_locked:
  assumes "distinct [clr, protect, cfg, sprotect, scfg]" "key \<noteq> 0" "skey \<noteq> 0" "feed \<noteq> 0"
    and "f = watchdogs_off clr b protect key cfg b' sprotect skey scfg feed"
  shows "leaves_locked f protect key cfg (\<lambda>v. v = 0)"
    "leaves_locked f sprotect skey scfg (\<lambda>v. v AND feed \<noteq> 0)"
proof -
  define es where "es u v x = [Rd (Mmio clr) u, Wr (Mmio clr) (u OR b), Wr (Mmio protect) key, Wr (Mmio cfg) 0,
      Wr (Mmio protect) 0, Rd (Mmio clr) v, Wr (Mmio clr) (v OR b'), Wr (Mmio sprotect) skey,
      Rd (Mmio scfg) x, Wr (Mmio scfg) (x OR feed), Wr (Mmio sprotect) 0]" for u v x
  have e: "\<exists>u v x. f w = after w (es u v x)" for w
    unfolding assms(5) watchdogs_off_def peri_eq REG_WRITE_eq Let_def es_def
    by (intro exI) (simp only: rmw_eq after_after append.simps)
  have "\<not> fst (fold (guard_step protect key cfg) (es u v x) s) \<and> snd (fold (guard_step protect key cfg) (es u v x) s) = 0"
    "\<not> fst (fold (guard_step sprotect skey scfg) (es u v x) s) \<and>
      snd (fold (guard_step sprotect skey scfg) (es u v x) s) AND feed \<noteq> 0" for u v x s
    using assms(1-4) by (auto simp: es_def guard_step_def or_mask_set)
  then show "leaves_locked f protect key cfg (\<lambda>v. v = 0)"
    "leaves_locked f sprotect skey scfg (\<lambda>v. v AND feed \<noteq> 0)"
    unfolding leaves_locked_def using e by metis+
qed

text \<open>The ESP32 has no second watchdog.\<close>

lemma esp32_watchdog_locked:
  "leaves_locked esp32_clock_disable_watchdogs esp32_RTC_CNTL_WDTWPROTECT_REG 0x50D83AA1
     esp32_RTC_CNTL_WDTCONFIG0_REG (\<lambda>v. v = 0)"
proof (rule leaves_lockedI)
  fix w :: "'a world_scheme"
  define es where "es u = [Rd (Mmio esp32_RTC_CNTL_INT_CLR_REG) u,
      Wr (Mmio esp32_RTC_CNTL_INT_CLR_REG) (u OR esp32_RTC_CNTL_WDT_INT_CLR),
      Wr (Mmio esp32_RTC_CNTL_WDTWPROTECT_REG) 0x50D83AA1, Wr (Mmio esp32_RTC_CNTL_WDTCONFIG0_REG) 0,
      Wr (Mmio esp32_RTC_CNTL_WDTWPROTECT_REG) 0]" for u
  let ?g = "guard_step esp32_RTC_CNTL_WDTWPROTECT_REG 0x50D83AA1 esp32_RTC_CNTL_WDTCONFIG0_REG"
  have "\<exists>u. esp32_clock_disable_watchdogs w = after w (es u)"
    by (simp add: esp32_clock_disable_watchdogs_def prim_eq es_def esp32_RTC_CNTL_WDT_KEY_def) blast
  moreover have "\<not> fst (fold ?g (es u) s) \<and> snd (fold ?g (es u) s) = 0" for u s
    by (simp add: es_def guard_step_def) (simp add: regs)
  ultimately show "\<exists>es. esp32_clock_disable_watchdogs w = after w es \<and>
      (\<forall>s. \<not> fst (fold ?g es s) \<and> snd (fold ?g es s) = 0)" by metis
qed

lemma s3_watchdogs_eq:
  "s3_clock_disable_watchdogs = watchdogs_off RTC_CNTL_INT_CLR_REG RTC_CNTL_WDT_INT_CLR RTC_CNTL_WDTWPROTECT_REG 0x50D83AA1 RTC_CNTL_WDTCONFIG0_REG
     RTC_CNTL_SWD_INT_CLR RTC_CNTL_SWD_WPROTECT_REG 0x8F1D312A RTC_CNTL_SWD_CONF_REG RTC_CNTL_SWD_AUTO_FEED_EN"
  by (simp add: fun_eq_iff s3_clock_disable_watchdogs_def watchdogs_off_def RTC_CNTL_WDT_KEY_def RTC_CNTL_SWD_KEY_def)

lemma s2_watchdogs_eq:
  "s2_clock_disable_watchdogs = watchdogs_off s2_RTC_CNTL_INT_CLR_REG s2_RTC_CNTL_WDT_INT_CLR s2_RTC_CNTL_WDTWPROTECT_REG 0x50D83AA1 s2_RTC_CNTL_WDTCONFIG0_REG
     s2_RTC_CNTL_SWD_INT_CLR s2_RTC_CNTL_SWD_WPROTECT_REG 0x8F1D312A s2_RTC_CNTL_SWD_CONF_REG s2_RTC_CNTL_SWD_AUTO_FEED_EN"
  by (simp add: fun_eq_iff s2_clock_disable_watchdogs_def watchdogs_off_def s2_RTC_CNTL_WDT_KEY_def s2_RTC_CNTL_SWD_KEY_def)

lemma c2_watchdogs_eq:
  "c2_clock_disable_watchdogs = watchdogs_off c2_RTC_CNTL_INT_CLR_REG c2_RTC_CNTL_WDT_INT_CLR c2_RTC_CNTL_WDTWPROTECT_REG 0x50D83AA1 c2_RTC_CNTL_WDTCONFIG0_REG
     c2_RTC_CNTL_SWD_INT_CLR c2_RTC_CNTL_SWD_WPROTECT_REG 0x8F1D312A c2_RTC_CNTL_SWD_CONF_REG c2_RTC_CNTL_SWD_AUTO_FEED_EN"
  by (simp add: fun_eq_iff c2_clock_disable_watchdogs_def watchdogs_off_def c2_RTC_CNTL_WDT_KEY_def c2_RTC_CNTL_SWD_KEY_def)

lemma c3_watchdogs_eq:
  "c3_clock_disable_watchdogs = watchdogs_off c3_RTC_CNTL_INT_CLR_REG c3_RTC_CNTL_WDT_INT_CLR c3_RTC_CNTL_WDTWPROTECT_REG 0x50D83AA1 c3_RTC_CNTL_WDTCONFIG0_REG
     c3_RTC_CNTL_SWD_INT_CLR c3_RTC_CNTL_SWD_WPROTECT_REG 0x8F1D312A c3_RTC_CNTL_SWD_CONF_REG c3_RTC_CNTL_SWD_AUTO_FEED_EN"
  by (simp add: fun_eq_iff c3_clock_disable_watchdogs_def watchdogs_off_def c3_RTC_CNTL_WDT_KEY_def c3_RTC_CNTL_SWD_KEY_def)

lemma c5_watchdogs_eq:
  "c5_clock_disable_watchdogs = watchdogs_off c5_LP_WDT_INT_CLR_REG c5_LP_WDT_LP_WDT_INT_CLR c5_LP_WDT_WPROTECT_REG 0x50D83AA1 c5_LP_WDT_CONFIG0_REG
     c5_LP_WDT_SUPER_WDT_INT_CLR c5_LP_WDT_SWD_WPROTECT_REG 0x50D83AA1 c5_LP_WDT_SWD_CONFIG_REG c5_LP_WDT_SWD_AUTO_FEED_EN"
  by (simp add: fun_eq_iff c5_clock_disable_watchdogs_def watchdogs_off_def c5_LP_WDT_WDT_KEY_def c5_LP_WDT_SWD_KEY_def)

lemma c6_watchdogs_eq:
  "c6_clock_disable_watchdogs = watchdogs_off c6_LP_WDT_INT_CLR_REG c6_LP_WDT_LP_WDT_INT_CLR c6_LP_WDT_WPROTECT_REG 0x50D83AA1 c6_LP_WDT_CONFIG0_REG
     c6_LP_WDT_SUPER_WDT_INT_CLR c6_LP_WDT_SWD_WPROTECT_REG 0x50D83AA1 c6_LP_WDT_SWD_CONFIG_REG c6_LP_WDT_SWD_AUTO_FEED_EN"
  by (simp add: fun_eq_iff c6_clock_disable_watchdogs_def watchdogs_off_def c6_LP_WDT_WDT_KEY_def c6_LP_WDT_SWD_KEY_def)

lemma c61_watchdogs_eq:
  "c61_clock_disable_watchdogs = watchdogs_off c61_LP_WDT_INT_CLR_REG c61_LP_WDT_LP_WDT_INT_CLR c61_LP_WDT_WPROTECT_REG 0x50D83AA1 c61_LP_WDT_CONFIG0_REG
     c61_LP_WDT_SUPER_WDT_INT_CLR c61_LP_WDT_SWD_WPROTECT_REG 0x50D83AA1 c61_LP_WDT_SWD_CONFIG_REG c61_LP_WDT_SWD_AUTO_FEED_EN"
  by (simp add: fun_eq_iff c61_clock_disable_watchdogs_def watchdogs_off_def c61_LP_WDT_WDT_KEY_def c61_LP_WDT_SWD_KEY_def)

lemma h2_watchdogs_eq:
  "h2_clock_disable_watchdogs = watchdogs_off h2_LP_WDT_INT_CLR_REG h2_LP_WDT_LP_WDT_INT_CLR h2_LP_WDT_WPROTECT_REG 0x50D83AA1 h2_LP_WDT_CONFIG0_REG
     h2_LP_WDT_SUPER_WDT_INT_CLR h2_LP_WDT_SWD_WPROTECT_REG 0x50D83AA1 h2_LP_WDT_SWD_CONFIG_REG h2_LP_WDT_SWD_AUTO_FEED_EN"
  by (simp add: fun_eq_iff h2_clock_disable_watchdogs_def watchdogs_off_def h2_LP_WDT_WDT_KEY_def h2_LP_WDT_SWD_KEY_def)

lemma h21_watchdogs_eq:
  "h21_clock_disable_watchdogs = watchdogs_off h21_LP_WDT_INT_CLR_REG h21_LP_WDT_LP_WDT_INT_CLR h21_LP_WDT_WPROTECT_REG 0x50D83AA1 h21_LP_WDT_CONFIG0_REG
     h21_LP_WDT_SUPER_WDT_INT_CLR h21_LP_WDT_SWD_WPROTECT_REG 0x50D83AA1 h21_LP_WDT_SWD_CONFIG_REG h21_LP_WDT_SWD_AUTO_FEED_EN"
  by (simp add: fun_eq_iff h21_clock_disable_watchdogs_def watchdogs_off_def h21_LP_WDT_WDT_KEY_def h21_LP_WDT_SWD_KEY_def)

lemma h4_watchdogs_eq:
  "h4_clock_disable_watchdogs = watchdogs_off h4_LP_WDT_INT_CLR_REG h4_LP_WDT_LP_WDT_INT_CLR h4_LP_WDT_WPROTECT_REG 0x50D83AA1 h4_LP_WDT_CONFIG0_REG
     h4_LP_WDT_SUPER_WDT_INT_CLR h4_LP_WDT_SWD_WPROTECT_REG 0x50D83AA1 h4_LP_WDT_SWD_CONFIG_REG h4_LP_WDT_SWD_AUTO_FEED_EN"
  by (simp add: fun_eq_iff h4_clock_disable_watchdogs_def watchdogs_off_def h4_LP_WDT_WDT_KEY_def h4_LP_WDT_SWD_KEY_def)

lemma p4_watchdogs_eq:
  "p4_clock_disable_watchdogs = watchdogs_off p4_LP_WDT_INT_CLR_REG p4_LP_WDT_LP_WDT_INT_CLR p4_LP_WDT_WPROTECT_REG 0x50D83AA1 p4_LP_WDT_CONFIG0_REG
     p4_LP_WDT_SUPER_WDT_INT_CLR p4_LP_WDT_SWD_WPROTECT_REG 0x50D83AA1 p4_LP_WDT_SWD_CONFIG_REG p4_LP_WDT_SWD_AUTO_FEED_EN"
  by (simp add: fun_eq_iff p4_clock_disable_watchdogs_def watchdogs_off_def p4_LP_WDT_WDT_KEY_def p4_LP_WDT_SWD_KEY_def)

text \<open>The ESP8266's function writes back what it read.\<close>

lemma esp8266_watchdog_rewritten:
  "esp8266_clock_disable_watchdogs w = after w
     [Rd (Mmio esp8266_WDT_CTL_REG) (peek (Mmio esp8266_WDT_CTL_REG) w),
      Wr (Mmio esp8266_WDT_CTL_REG) (peek (Mmio esp8266_WDT_CTL_REG) w)]"
  by (simp add: esp8266_clock_disable_watchdogs_def prim_eq)

text \<open>
  C24: Disabling the watchdogs leaves, on the twelve chips whose driver has the function for
  an RTC or LP watchdog and whatever the state of its lock, the configuration register of
  the watchdog at 0, the super watchdog (which the ESP32 does not have) feeding itself, and
  both locked again. The other two leave their watchdog as it was: the function of the
  ESP8266 only writes back what it read, and the ESP32-S31, whose register map does have an
  RTC watchdog, links the generic function, which accesses nothing.
\<close>

lemma every_chip_watchdogs_disabled:
  "leaves_locked esp32_clock_disable_watchdogs esp32_RTC_CNTL_WDTWPROTECT_REG 0x50D83AA1 esp32_RTC_CNTL_WDTCONFIG0_REG (\<lambda>v. v = 0) \<and>
   leaves_locked s3_clock_disable_watchdogs RTC_CNTL_WDTWPROTECT_REG 0x50D83AA1 RTC_CNTL_WDTCONFIG0_REG (\<lambda>v. v = 0) \<and>
   leaves_locked s3_clock_disable_watchdogs RTC_CNTL_SWD_WPROTECT_REG 0x8F1D312A RTC_CNTL_SWD_CONF_REG (\<lambda>v. v AND RTC_CNTL_SWD_AUTO_FEED_EN \<noteq> 0) \<and>
   leaves_locked s2_clock_disable_watchdogs s2_RTC_CNTL_WDTWPROTECT_REG 0x50D83AA1 s2_RTC_CNTL_WDTCONFIG0_REG (\<lambda>v. v = 0) \<and>
   leaves_locked s2_clock_disable_watchdogs s2_RTC_CNTL_SWD_WPROTECT_REG 0x8F1D312A s2_RTC_CNTL_SWD_CONF_REG (\<lambda>v. v AND s2_RTC_CNTL_SWD_AUTO_FEED_EN \<noteq> 0) \<and>
   leaves_locked c2_clock_disable_watchdogs c2_RTC_CNTL_WDTWPROTECT_REG 0x50D83AA1 c2_RTC_CNTL_WDTCONFIG0_REG (\<lambda>v. v = 0) \<and>
   leaves_locked c2_clock_disable_watchdogs c2_RTC_CNTL_SWD_WPROTECT_REG 0x8F1D312A c2_RTC_CNTL_SWD_CONF_REG (\<lambda>v. v AND c2_RTC_CNTL_SWD_AUTO_FEED_EN \<noteq> 0) \<and>
   leaves_locked c3_clock_disable_watchdogs c3_RTC_CNTL_WDTWPROTECT_REG 0x50D83AA1 c3_RTC_CNTL_WDTCONFIG0_REG (\<lambda>v. v = 0) \<and>
   leaves_locked c3_clock_disable_watchdogs c3_RTC_CNTL_SWD_WPROTECT_REG 0x8F1D312A c3_RTC_CNTL_SWD_CONF_REG (\<lambda>v. v AND c3_RTC_CNTL_SWD_AUTO_FEED_EN \<noteq> 0) \<and>
   leaves_locked c5_clock_disable_watchdogs c5_LP_WDT_WPROTECT_REG 0x50D83AA1 c5_LP_WDT_CONFIG0_REG (\<lambda>v. v = 0) \<and>
   leaves_locked c5_clock_disable_watchdogs c5_LP_WDT_SWD_WPROTECT_REG 0x50D83AA1 c5_LP_WDT_SWD_CONFIG_REG (\<lambda>v. v AND c5_LP_WDT_SWD_AUTO_FEED_EN \<noteq> 0) \<and>
   leaves_locked c6_clock_disable_watchdogs c6_LP_WDT_WPROTECT_REG 0x50D83AA1 c6_LP_WDT_CONFIG0_REG (\<lambda>v. v = 0) \<and>
   leaves_locked c6_clock_disable_watchdogs c6_LP_WDT_SWD_WPROTECT_REG 0x50D83AA1 c6_LP_WDT_SWD_CONFIG_REG (\<lambda>v. v AND c6_LP_WDT_SWD_AUTO_FEED_EN \<noteq> 0) \<and>
   leaves_locked c61_clock_disable_watchdogs c61_LP_WDT_WPROTECT_REG 0x50D83AA1 c61_LP_WDT_CONFIG0_REG (\<lambda>v. v = 0) \<and>
   leaves_locked c61_clock_disable_watchdogs c61_LP_WDT_SWD_WPROTECT_REG 0x50D83AA1 c61_LP_WDT_SWD_CONFIG_REG (\<lambda>v. v AND c61_LP_WDT_SWD_AUTO_FEED_EN \<noteq> 0) \<and>
   leaves_locked h2_clock_disable_watchdogs h2_LP_WDT_WPROTECT_REG 0x50D83AA1 h2_LP_WDT_CONFIG0_REG (\<lambda>v. v = 0) \<and>
   leaves_locked h2_clock_disable_watchdogs h2_LP_WDT_SWD_WPROTECT_REG 0x50D83AA1 h2_LP_WDT_SWD_CONFIG_REG (\<lambda>v. v AND h2_LP_WDT_SWD_AUTO_FEED_EN \<noteq> 0) \<and>
   leaves_locked h21_clock_disable_watchdogs h21_LP_WDT_WPROTECT_REG 0x50D83AA1 h21_LP_WDT_CONFIG0_REG (\<lambda>v. v = 0) \<and>
   leaves_locked h21_clock_disable_watchdogs h21_LP_WDT_SWD_WPROTECT_REG 0x50D83AA1 h21_LP_WDT_SWD_CONFIG_REG (\<lambda>v. v AND h21_LP_WDT_SWD_AUTO_FEED_EN \<noteq> 0) \<and>
   leaves_locked h4_clock_disable_watchdogs h4_LP_WDT_WPROTECT_REG 0x50D83AA1 h4_LP_WDT_CONFIG0_REG (\<lambda>v. v = 0) \<and>
   leaves_locked h4_clock_disable_watchdogs h4_LP_WDT_SWD_WPROTECT_REG 0x50D83AA1 h4_LP_WDT_SWD_CONFIG_REG (\<lambda>v. v AND h4_LP_WDT_SWD_AUTO_FEED_EN \<noteq> 0) \<and>
   leaves_locked p4_clock_disable_watchdogs p4_LP_WDT_WPROTECT_REG 0x50D83AA1 p4_LP_WDT_CONFIG0_REG (\<lambda>v. v = 0) \<and>
   leaves_locked p4_clock_disable_watchdogs p4_LP_WDT_SWD_WPROTECT_REG 0x50D83AA1 p4_LP_WDT_SWD_CONFIG_REG (\<lambda>v. v AND p4_LP_WDT_SWD_AUTO_FEED_EN \<noteq> 0) \<and>
   esp8266_clock_disable_watchdogs w = after w
     [Rd (Mmio esp8266_WDT_CTL_REG) (peek (Mmio esp8266_WDT_CTL_REG) w),
      Wr (Mmio esp8266_WDT_CTL_REG) (peek (Mmio esp8266_WDT_CTL_REG) w)] \<and>
   stub_target_clock_disable_watchdogs w' = w'"
  by (intro conjI esp32_watchdog_locked esp8266_watchdog_rewritten stub_target_clock_disable_watchdogs_def; rule watchdogs_off_locked;
      (rule s3_watchdogs_eq s2_watchdogs_eq c2_watchdogs_eq c3_watchdogs_eq c5_watchdogs_eq c6_watchdogs_eq c61_watchdogs_eq h2_watchdogs_eq h21_watchdogs_eq h4_watchdogs_eq p4_watchdogs_eq)?; simp add: regs)

section \<open>The analog I2C bus\<close>

text \<open>
  The regulators of the ESP32-C6, ESP32-H4 and ESP32-H21 sit behind a bus with two masters, of
  which one, with control register m, reaches them. A word written to its control register
  addresses a byte of a slave and, with the write bit, stores the byte in the word. It is
  accepted only while the regulator is enabled on the bus (bit 10 of the configuration is clear)
  and when the last access to the master has found it idle; a word written at any other time,
  or to the other master, has no effect. \<open>ana_of\<close> follows the bytes, the address, and what is
  known of the masters.
\<close>

record ana =
  abytes :: "u32 \<Rightarrow> u32 \<Rightarrow> u32"
  aaddr :: "u32 \<times> u32"
  aidle :: bool
  aenabled :: bool

definition ana_step :: "u32 \<Rightarrow> u32 \<Rightarrow> ev \<Rightarrow> ana \<Rightarrow> ana" where
  "ana_step B m e s =
     (case e of
        Rd (Mmio r) v \<Rightarrow> if r = m then s\<lparr>aidle := (v AND BIT 25 = 0)\<rparr> else s
      | Wr (Mmio r) v \<Rightarrow>
          if r = B + 0x1c then s\<lparr>aenabled := (v AND BIT 10 = 0)\<rparr>
          else if r = m then
            (if aidle s \<and> aenabled s then
               (let slave = v AND 0xff; a = drop_bit 8 v AND 0xff; s = s\<lparr>aaddr := (slave, a)\<rparr>
                in if v AND BIT 24 \<noteq> 0
                   then s\<lparr>abytes := (abytes s)(slave := (abytes s slave)(a := drop_bit 16 v AND 0xff))\<rparr>
                   else s)
             else s)\<lparr>aidle := False\<rparr>
          else s
      | _ \<Rightarrow> s)"

definition ana_of :: "u32 \<Rightarrow> u32 \<Rightarrow> (u32 \<Rightarrow> u32 \<Rightarrow> u32) \<Rightarrow> ev list \<Rightarrow> ana" where
  "ana_of B m F es = fold (ana_step B m) es \<lparr>abytes = F, aaddr = (0, 0), aidle = False, aenabled = False\<rparr>"

text \<open>
  Bit 12 of the configuration behind says which master reaches the regulator. When this master
  is not busy it shows the byte it addressed last, and a further read of it finds the same.
\<close>

definition ana_bus :: "u32 \<Rightarrow> u32 \<Rightarrow> (u32 \<Rightarrow> u32 \<Rightarrow> u32) \<Rightarrow> 'a world_scheme \<Rightarrow> bool" where
  "ana_bus B m F w \<longleftrightarrow>
     (\<forall>es. m = (if rd_dev w es (Mmio (B + 0x20)) AND 0x1000 \<noteq> 0 then B else B + 4)) \<and>
     (\<forall>es. rd_dev w es (Mmio m) AND BIT 25 = 0 \<longrightarrow>
        (let s = ana_of B m F es
         in drop_bit 16 (rd_dev w es (Mmio m)) AND 0xff = abytes s (fst (aaddr s)) (snd (aaddr s))) \<and>
        (\<forall>v. rd_dev w (es @ [Rd (Mmio m) v]) (Mmio m) = rd_dev w es (Mmio m)))"

text \<open>
  A write of bits lsb to msb of a byte of slave 0x6d: exactly these bits of exactly this byte
  become the data's, and the master has finished.
\<close>

definition writes_field :: "u32 \<Rightarrow> (u32 \<Rightarrow> u32 \<Rightarrow> u32 \<Rightarrow> u32 \<Rightarrow> 'a world_scheme \<Rightarrow> 'a world_scheme option) \<Rightarrow> bool" where
  "writes_field B f \<longleftrightarrow>
     (\<forall>m F reg msb lsb data w w'. f reg msb lsb data w = Some w' \<and> ana_bus B m F w \<and>
        reg < 256 \<and> lsb \<le> msb \<and> msb < 8 \<longrightarrow>
        (let old = abytes (ana_of B m F (trace w)); new = abytes (ana_of B m F (trace w'))
         in aidle (ana_of B m F (trace w')) \<and>
            (\<exists>x. new = old(0x6d := (old 0x6d)(reg := x)) \<and>
              (\<forall>i. bit x i \<longleftrightarrow>
                 (if unat lsb \<le> i \<and> i \<le> unat msb then bit data (i - unat lsb) else bit (old 0x6d reg) i)))))"

text \<open>The three chips run one protocol, at different addresses.\<close>

definition ana_write_mask :: "u32 \<Rightarrow> u32 \<Rightarrow> u32 \<Rightarrow> u32 \<Rightarrow> u32 \<Rightarrow> 'a world_scheme \<Rightarrow> 'a world_scheme option" where
  "ana_write_mask B reg msb lsb data w =
     do { let (sel, w) = REG_GET_BIT (B + 0x20) 0x1000 w;
          let w = REG_WRITE (B + 0x1c) 0xfffbff w;
          let ctrl = (if sel \<noteq> 0 then B else B + 4);
          let m = BIT (unat (msb - lsb + 1)) - 1;
          w \<leftarrow> busy_wait ctrl (\<lambda>v. v AND 0x2000000 \<noteq> 0) w;
          let w = REG_WRITE ctrl (0x6d OR push_bit 8 (reg AND 0xff)) w;
          w \<leftarrow> busy_wait ctrl (\<lambda>v. v AND 0x2000000 \<noteq> 0) w;
          let (v, w) = REG_READ ctrl w;
          let temp = (drop_bit 16 v AND 0xff) AND NOT (push_bit (unat lsb) m) OR push_bit (unat lsb) (data AND m);
          let w = REG_WRITE ctrl (0x6d OR push_bit 8 (reg AND 0xff) OR 0x1000000 OR push_bit 16 (temp AND 0xff)) w;
          busy_wait ctrl (\<lambda>v. v AND 0x2000000 \<noteq> 0) w }"

lemma ana_write_mask_chips:
  "c6_regi2c_write_mask = ana_write_mask 0x600af800"
  "h4_regi2c_write_mask = ana_write_mask 0x600cf800"
  "h21_regi2c_write_mask = ana_write_mask 0x600ad800"
  by (simp_all add: fun_eq_iff c6_regi2c_write_mask_def h4_regi2c_write_mask_def h21_regi2c_write_mask_def
      c6_regi2c_select_dig_reg_def h4_regi2c_select_dcdc_def h21_regi2c_select_dcdc_def ana_write_mask_def
      REG_GET_eq REG_READ_eq Let_def BIT_def regs cong: if_cong)


lemma busy_wait_last:
  assumes "busy_wait r P w = Some w'"
  obtains u where "emits (\<lambda>e. \<exists>v. e = Rd (Mmio r) v) w u" "\<not> P (peek (Mmio r) u)"
    "w' = after u [Rd (Mmio r) (peek (Mmio r) u)]"
proof -
  have "\<exists>u. emits (\<lambda>e. \<exists>v. e = Rd (Mmio r) v) w u \<and> \<not> P (peek (Mmio r) u) \<and>
      w' = after u [Rd (Mmio r) (peek (Mmio r) u)]"
  proof (rule busy_wait.raw_induct [where P = "\<lambda>r C w w'. \<exists>u. emits (\<lambda>e. \<exists>v. e = Rd (Mmio r) v) w u \<and>
        \<not> C (peek (Mmio r) u) \<and> w' = after u [Rd (Mmio r) (peek (Mmio r) u)]", OF _ assms])
    fix f :: "u32 \<Rightarrow> (u32 \<Rightarrow> bool) \<Rightarrow> 'a world_scheme \<Rightarrow> 'a world_scheme option" and r P w w'
    assume IH: "\<And>r P w w'. f r P w = Some w' \<Longrightarrow> \<exists>u. emits (\<lambda>e. \<exists>v. e = Rd (Mmio r) v) w u \<and>
          \<not> P (peek (Mmio r) u) \<and> w' = after u [Rd (Mmio r) (peek (Mmio r) u)]"
      and eq: "(let (v, w) = REG_READ r w in if P v then f r P w else Some w) = Some w'"
    let ?w = "after w [Rd (Mmio r) (peek (Mmio r) w)]"
    have e: "emits (\<lambda>e. \<exists>v. e = Rd (Mmio r) v) w ?w" by (rule emits_after) simp
    show "\<exists>u. emits (\<lambda>e. \<exists>v. e = Rd (Mmio r) v) w u \<and> \<not> P (peek (Mmio r) u) \<and>
        w' = after u [Rd (Mmio r) (peek (Mmio r) u)]"
    proof (cases "P (peek (Mmio r) w)")
      case True
      then have "f r P ?w = Some w'" using eq by (simp add: REG_READ_eq)
      from IH [OF this] obtain u where "emits (\<lambda>e. \<exists>v. e = Rd (Mmio r) v) ?w u" "\<not> P (peek (Mmio r) u)"
        "w' = after u [Rd (Mmio r) (peek (Mmio r) u)]" by blast
      with emits_trans [OF e this(1)] show ?thesis by blast
    next
      case False
      then have "w' = ?w" using eq by (simp add: REG_READ_eq)
      with False emits_refl show ?thesis by blast
    qed
  qed
  with that show ?thesis by blast
qed

lemma bit_consts:
  "bit (0xff :: u32) i \<longleftrightarrow> i < 8" "bit (0x1000000 :: u32) i \<longleftrightarrow> i = 24" "bit (0x6d :: u32) i \<Longrightarrow> i < 8"
proof -
  have "(0xff :: u32) = mask 8" by (simp add: mask_eq_exp_minus_1)
  then show "bit (0xff :: u32) i \<longleftrightarrow> i < 8" by (simp only: bit_mask_iff) auto
  have "(0x1000000 :: u32) = push_bit 24 1" by simp
  then show "bit (0x1000000 :: u32) i \<longleftrightarrow> i = 24" by (simp only: bit_simps) auto
  have "(0x6d :: u32) = take_bit 8 0x6d" by simp
  then show "bit (0x6d :: u32) i \<Longrightarrow> i < 8" by (metis bit_take_bit_iff)
qed

lemma ctrl_fields:
  fixes a d x :: u32
  assumes "x = 0 \<or> x = 0x1000000 OR push_bit 16 (d AND 0xff)"
  defines "c \<equiv> 0x6d OR push_bit 8 (a AND 0xff) OR x"
  shows "c AND 0xff = 0x6d" "drop_bit 8 c AND 0xff = a AND 0xff" "c AND BIT 24 \<noteq> 0 \<longleftrightarrow> x \<noteq> 0"
    "x \<noteq> 0 \<Longrightarrow> drop_bit 16 c AND 0xff = d AND 0xff"
proof -
  have x: "bit x i \<longleftrightarrow> x \<noteq> 0 \<and> (i = 24 \<or> 16 \<le> i \<and> i < 24 \<and> bit d (i - 16))" for i
  proof (cases "x = 0")
    case False
    then have "x = 0x1000000 OR push_bit 16 (d AND 0xff)" using assms(1) by blast
    moreover have "(0x1000000 OR push_bit 16 (d AND 0xff)) \<noteq> (0 :: u32)"
      using bit_consts(2) [of 24] by (metis bit_0_eq bit_or_iff bot_apply bot_bool_def)
    ultimately show ?thesis
      by (simp only: bit_simps bit_consts(1,2)) auto
  qed simp
  have c: "bit c i \<longleftrightarrow> bit (0x6d :: u32) i \<or> 8 \<le> i \<and> i < 16 \<and> bit a (i - 8) \<or> bit x i" for i
    unfolding c_def by (simp only: bit_simps bit_consts(1,2)) auto
  show "c AND 0xff = 0x6d" by (rule bit_word_eqI) (auto simp only: bit_and_iff c x bit_consts(1) dest: bit_consts(3))
  show "drop_bit 8 c AND 0xff = a AND 0xff"
    by (rule bit_word_eqI) (auto simp only: bit_and_iff bit_drop_bit_eq c x bit_consts(1) o_def diff_add_inverse add_diff_cancel_right' dest: bit_consts(3))
  show "x \<noteq> 0 \<Longrightarrow> drop_bit 16 c AND 0xff = d AND 0xff"
    by (rule bit_word_eqI) (auto simp only: bit_and_iff bit_drop_bit_eq c x bit_consts(1) o_def diff_add_inverse add_diff_cancel_right' dest: bit_consts(3))
  have "c AND BIT 24 \<noteq> 0 \<longleftrightarrow> bit c 24"
    by (simp add: BIT_def bit_iff_and_push_bit_not_eq_0)
  then show "c AND BIT 24 \<noteq> 0 \<longleftrightarrow> x \<noteq> 0" using bit_consts(3) [of 24] by (auto simp: c x)
qed


lemma ana_of_after: "ana_of B m F (trace (after w es)) = fold (ana_step B m) es (ana_of B m F (trace w))"
  by (simp add: ana_of_def after_def)

text \<open>Reads of the master change nothing but what is known of it.\<close>

lemma ana_of_reads:
  assumes "emits (\<lambda>e. \<exists>v. e = Rd (Mmio m) v) w w'"
  shows "\<exists>x. ana_of B m F (trace w') = ana_of B m F (trace w)\<lparr>aidle := x\<rparr>"
proof -
  obtain es where es: "list_all (\<lambda>e. \<exists>v. e = Rd (Mmio m) v) es" "w' = after w es" using assms by (rule emitsE)
  have "\<exists>x. fold (ana_step B m) es s = s\<lparr>aidle := x\<rparr>" for s
    using es(1)
  proof (induction es arbitrary: s)
    case Nil
    show ?case by (rule exI [of _ "aidle s"]) simp
  next
    case (Cons e es)
    then obtain v where "e = Rd (Mmio m) v" and "list_all (\<lambda>e. \<exists>v. e = Rd (Mmio m) v) es" by auto
    with Cons.IH [of "s\<lparr>aidle := (v AND BIT 25 = 0)\<rparr>"] show ?case by (auto simp: ana_step_def)
  qed
  then show ?thesis by (simp only: es(2) ana_of_after)
qed

lemma ana_bus_after [simp]: "ana_bus B m F (after w es) = ana_bus B m F w"
  by (simp add: ana_bus_def)

lemma ana_bus_emits: "emits P w w' \<Longrightarrow> ana_bus B m F w' = ana_bus B m F w"
  by (auto elim: emitsE)

text \<open>
  After a wait for the master it is known to be idle, nothing has changed, and its control
  register shows the byte addressed last.
\<close>

lemma ana_waited:
  assumes "busy_wait m (\<lambda>v. v AND 0x2000000 \<noteq> 0) w = Some w'" and bus: "ana_bus B m F w"
  shows "ana_of B m F (trace w') = ana_of B m F (trace w)\<lparr>aidle := True\<rparr>" "ana_bus B m F w'"
    "drop_bit 16 (peek (Mmio m) w') AND 0xff =
      abytes (ana_of B m F (trace w)) (fst (aaddr (ana_of B m F (trace w)))) (snd (aaddr (ana_of B m F (trace w))))"
    "peek (Mmio m) w' AND BIT 25 = 0"
proof -
  obtain u where u: "emits (\<lambda>e. \<exists>v. e = Rd (Mmio m) v) w u" "\<not> peek (Mmio m) u AND 0x2000000 \<noteq> 0"
    "w' = after u [Rd (Mmio m) (peek (Mmio m) u)]"
    using assms(1) by (rule busy_wait_last)
  obtain x where au: "ana_of B m F (trace u) = ana_of B m F (trace w)\<lparr>aidle := x\<rparr>"
    using ana_of_reads [OF u(1)] by blast
  have "(BIT 25 :: u32) = 0x2000000" by (simp add: BIT_def)
  then have nb: "peek (Mmio m) u AND BIT 25 = 0" using u(2) by simp
  show "ana_of B m F (trace w') = ana_of B m F (trace w)\<lparr>aidle := True\<rparr>"
    by (simp only: u(3) ana_of_after au) (simp add: ana_step_def nb)
  have bu: "ana_bus B m F u" using ana_bus_emits [OF u(1)] bus by simp
  then show "ana_bus B m F w'" by (simp add: u(3))
  from bu [unfolded ana_bus_def, THEN conjunct2, rule_format, of "trace u"] nb
  have shown: "drop_bit 16 (peek (Mmio m) u) AND 0xff =
      abytes (ana_of B m F (trace u)) (fst (aaddr (ana_of B m F (trace u)))) (snd (aaddr (ana_of B m F (trace u))))"
    and same: "peek (Mmio m) w' = peek (Mmio m) u"
    by (simp_all add: u(3) peek_def after_def Let_def)
  from shown show "drop_bit 16 (peek (Mmio m) w') AND 0xff =
      abytes (ana_of B m F (trace w)) (fst (aaddr (ana_of B m F (trace w)))) (snd (aaddr (ana_of B m F (trace w))))"
    by (simp add: same au)
  show "peek (Mmio m) w' AND BIT 25 = 0" using nb by (simp only: same)
qed

text \<open>A field put into a byte.\<close>

lemma byte_and_255:
  fixes reg :: u32
  shows "reg < 256 \<Longrightarrow> reg AND 0xff = reg"
proof -
  assume "reg < 256"
  then have "unat reg < 256" by (simp add: word_less_nat_alt)
  then show ?thesis by (simp add: word_unat_eq_iff unat_and_pow2 [of reg 8, simplified])
qed

lemma masked_field_bits:
  fixes b data lsb msb :: u32
  assumes "lsb \<le> msb" "msb < 8" and b: "\<And>i. bit b i \<Longrightarrow> i < 8"
  defines "m \<equiv> BIT (unat (msb - lsb + 1)) - 1"
  shows "bit ((b AND NOT (push_bit (unat lsb) m) OR push_bit (unat lsb) (data AND m)) AND 0xff) i =
    (if unat lsb \<le> i \<and> i \<le> unat msb then bit data (i - unat lsb) else bit b i)"
proof -
  have n: "unat (msb - lsb + 1) = unat msb - unat lsb + 1" "unat lsb \<le> unat msb" "unat msb < 8"
    using assms(1,2) by (simp_all add: word_le_nat_alt word_less_nat_alt unat_diff unat_add_lt32)
  have m: "bit m j \<longleftrightarrow> j \<le> unat msb - unat lsb" for j
  proof -
    have "m = mask (unat msb - unat lsb + 1)"
      by (simp only: m_def BIT_def n(1) mask_eq_exp_minus_1 push_bit_of_1)
    then show ?thesis using n by (auto simp: bit_mask_iff)
  qed
  show ?thesis
    unfolding bit_and_iff bit_or_iff bit_not_iff bit_push_bit_iff bit_consts(1) m
    using n b [of i] by (auto simp: possible_bit_def)
qed

lemma ana_write_mask_ok: "writes_field B (ana_write_mask B)"
  unfolding writes_field_def Let_def
proof (intro allI impI, elim conjE)
  fix r F reg msb lsb data and w w' :: "'a world_scheme"
  assume run: "ana_write_mask B reg msb lsb data w = Some w'" and bus: "ana_bus B r F w"
    and reg: "reg < 256" and lm: "lsb \<le> msb" and m8: "msb < 8"
  define sel where "sel = peek (Mmio (B + 0x20)) w AND 0x1000"
  have r_def: "r = (if sel \<noteq> 0 then B else B + 4)"
    using bus [unfolded ana_bus_def, THEN conjunct1, rule_format, of "trace w"] by (simp add: sel_def peek_def)
  then have r: "r \<noteq> B + 0x1c" "r \<noteq> B + 0x20" by auto
  define m :: u32 where "m = BIT (unat (msb - lsb + 1)) - 1"
  define c1 where "c1 = 0x6d OR push_bit 8 (reg AND 0xff)"
  define temp where "temp v = (drop_bit 16 v AND 0xff) AND NOT (push_bit (unat lsb) m) OR push_bit (unat lsb) (data AND m)"
    for v :: u32
  define c2 where "c2 v = 0x6d OR push_bit 8 (reg AND 0xff) OR 0x1000000 OR push_bit 16 (temp v AND 0xff)" for v
  define w1 where "w1 = after w [Rd (Mmio (B + 0x20)) (peek (Mmio (B + 0x20)) w), Wr (Mmio (B + 0x1c)) 0xfffbff]"
  let ?P = "\<lambda>v :: u32. v AND 0x2000000 \<noteq> 0"
  obtain w2 w3 where w2: "busy_wait r ?P w1 = Some w2" and w3: "busy_wait r ?P (after w2 [Wr (Mmio r) c1]) = Some w3"
    and w4: "busy_wait r ?P (after w3 [Rd (Mmio r) (peek (Mmio r) w3), Wr (Mmio r) (c2 (peek (Mmio r) w3))]) = Some w'"
    using run unfolding ana_write_mask_def REG_GET_eq prod.case Let_def sel_def [symmetric] r_def [symmetric]
    by (auto simp: REG_READ_eq REG_WRITE_eq bind_eq_Some_conv w1_def c1_def c2_def m_def temp_def)
  define s where "s = ana_of B r F (trace w)\<lparr>aidle := True, aenabled := True\<rparr>"
  have "(0xfffbff :: u32) AND BIT 10 = 0" by (simp add: BIT_def)
  then have a1: "ana_of B r F (trace w1) = ana_of B r F (trace w)\<lparr>aenabled := True\<rparr>"
    using r by (simp only: w1_def ana_of_after) (simp add: ana_step_def)
  have b1: "ana_bus B r F w1" using bus by (simp add: w1_def)
  note q2 = ana_waited [OF w2 b1]
  have a2: "ana_of B r F (trace w2) = s" by (simp add: q2(1) a1 s_def)
  have b2: "ana_bus B r F (after w2 [Wr (Mmio r) c1])" using q2(2) by simp
  note q3 = ana_waited [OF w3 b2]
  have reg8: "reg AND 0xff = reg" by (rule byte_and_255 [OF reg])
  have acc: "aidle s" "aenabled s" by (simp_all add: s_def)
  have c1: "c1 AND 0xff = 0x6d" "drop_bit 8 c1 AND 0xff = reg" "c1 AND BIT 24 = 0"
    using ctrl_fields(1-3) [of 0 0 reg] by (simp_all add: c1_def reg8 del: push_bit_and)
  have a3: "ana_of B r F (trace (after w2 [Wr (Mmio r) c1])) = s\<lparr>aaddr := (0x6d, reg), aidle := False\<rparr>"
    unfolding ana_of_after a2 using r by (simp add: ana_step_def acc c1)
  let ?v = "peek (Mmio r) w3"
  have v: "drop_bit 16 ?v AND 0xff = abytes s 0x6d reg" using q3(3) [unfolded a3] by simp
  have "bit (0x1000000 OR push_bit 16 (temp ?v AND 0xff)) 24" by (simp only: bit_or_iff bit_consts(2)) simp
  then have x: "0x1000000 OR push_bit 16 (temp ?v AND 0xff) \<noteq> 0" by auto
  note c2 = ctrl_fields [of "0x1000000 OR push_bit 16 (temp ?v AND 0xff)" "temp ?v" reg]
  have c2': "c2 ?v AND 0xff = 0x6d" "drop_bit 8 (c2 ?v) AND 0xff = reg" "c2 ?v AND BIT 24 \<noteq> 0"
    "drop_bit 16 (c2 ?v) AND 0xff = temp ?v AND 0xff"
    using c2 x by (simp_all add: c2_def reg8 or.assoc del: push_bit_and)
  let ?w3 = "after w3 [Rd (Mmio r) ?v, Wr (Mmio r) (c2 ?v)]"
  have b3: "ana_bus B r F ?w3" using q3(2) by simp
  have "ana_of B r F (trace w3) = s\<lparr>aaddr := (0x6d, reg)\<rparr>" unfolding q3(1) a3 by (simp add: s_def)
  then have "ana_of B r F (trace ?w3) = s\<lparr>aaddr := (0x6d, reg), aidle := False,
      abytes := (abytes s)(0x6d := (abytes s 0x6d)(reg := temp ?v AND 0xff))\<rparr>"
    unfolding ana_of_after using r by (simp add: ana_step_def acc q3(4) c2' Let_def)
  then have "abytes (ana_of B r F (trace w')) = (abytes s)(0x6d := (abytes s 0x6d)(reg := temp ?v AND 0xff))"
    and idle: "aidle (ana_of B r F (trace w'))"
    using ana_waited(1) [OF w4 b3] by simp_all
  moreover have "bit (temp ?v AND 0xff) i = (if unat lsb \<le> i \<and> i \<le> unat msb then bit data (i - unat lsb)
          else bit (abytes s 0x6d reg) i)" for i
  proof -
    have "bit (abytes s 0x6d reg) i \<Longrightarrow> i < 8" for i using v by (metis bit_and_iff bit_consts(1))
    from masked_field_bits [OF lm m8 this, folded m_def] show ?thesis unfolding temp_def v .
  qed
  moreover have "abytes s = abytes (ana_of B r F (trace w))" by (simp add: s_def)
  ultimately show "aidle (ana_of B r F (trace w')) \<and>
      (\<exists>x. abytes (ana_of B r F (trace w')) = (abytes (ana_of B r F (trace w)))
         (0x6d := (abytes (ana_of B r F (trace w)) 0x6d)(reg := x)) \<and>
       (\<forall>i. bit x i = (if unat lsb \<le> i \<and> i \<le> unat msb then bit data (i - unat lsb)
          else bit (abytes (ana_of B r F (trace w)) 0x6d reg) i)))"
    by (simp only: idle) blast
qed

text \<open>
  C31: On the ESP32-C6, ESP32-H4 and ESP32-H21 a field write over the analog I2C bus that
  returns has changed exactly the bits of the field in exactly one byte of the regulator and
  left its master idle, whichever of the two masters reaches the regulator and even when
  this master was busy or the regulator not enabled before.
\<close>

lemma regi2c_writes_field:
  "writes_field 0x600af800 c6_regi2c_write_mask \<and> writes_field 0x600cf800 h4_regi2c_write_mask \<and>
   writes_field 0x600ad800 h21_regi2c_write_mask"
  by (simp add: ana_write_mask_chips ana_write_mask_ok)


text \<open>A bus whose second master reaches slaves with bytes 0x55 and is never busy.\<close>

definition ana_world :: "u32 \<Rightarrow> world" where
  "ana_world B =
     \<lparr>rd_dev = \<lambda>es c. (case c of
        Mmio r \<Rightarrow>
          if r = B + 4 then
            (let s = ana_of B (B + 4) (\<lambda>_ _. 0x55) es
             in push_bit 16 (abytes s (fst (aaddr s)) (snd (aaddr s)) AND 0xff))
          else 0
      | _ \<Rightarrow> 0),
      rom_dev = \<lambda>_ _ _ _. (0, []), mem_dev = \<lambda>_ _ n. replicate n 0, sym_addr = \<lambda>_. 0, trace = []\<rparr>"

lemma ana_bytes: "abytes (ana_of B m (\<lambda>_ _. 0x55) es) a b AND 0xff = abytes (ana_of B m (\<lambda>_ _. 0x55) es) a b"
proof (induction es arbitrary: a b rule: rev_induct)
  case (snoc e es)
  then show ?case
    by (auto simp: ana_of_def ana_step_def Let_def and.assoc split: ev.splits cell.splits)
qed (simp add: ana_of_def)

lemma ana_world_bus: "ana_bus B (B + 4) (\<lambda>_ _. 0x55) (ana_world B)"
proof -
  have "abytes (ana_of B m F (es @ [Rd c v])) = abytes (ana_of B m F es)"
    "aaddr (ana_of B m F (es @ [Rd c v])) = aaddr (ana_of B m F es)" for m F es c v
    by (simp_all add: ana_of_def ana_step_def split: cell.splits)
  moreover have "drop_bit 16 (push_bit 16 x) AND 0xff = x AND 0xff" for x :: u32
    unfolding bit_eq_iff bit_and_iff bit_drop_bit_eq bit_push_bit_iff o_def bit_consts(1) by auto
  ultimately show ?thesis
    unfolding ana_bus_def by (simp add: ana_world_def Let_def ana_bytes del: push_bit_and)
qed

lemma regi2c_writes_field_witness:
  "\<exists>w' x. c6_regi2c_write_mask 5 6 4 3 (ana_world 0x600af800) = Some w' \<and>
     abytes (ana_of 0x600af800 0x600af804 (\<lambda>_ _. 0x55) (trace w')) = (\<lambda>_ _. 0x55)(0x6d := (\<lambda>_. 0x55)(5 := x)) \<and>
     (\<forall>i. bit x i \<longleftrightarrow> (if 4 \<le> i \<and> i \<le> 6 then bit (3 :: u32) (i - 4) else bit (0x55 :: u32) i))"
proof -
  let ?w = "ana_world 0x600af800" and ?F = "\<lambda>_ _. 0x55 :: u32"
  have "case c6_regi2c_write_mask 5 6 4 3 ?w of None \<Rightarrow> False | Some _ \<Rightarrow> True" by code_simp
  then obtain w' where w': "c6_regi2c_write_mask 5 6 4 3 ?w = Some w'" by (auto split: option.splits)
  have t: "abytes (ana_of 0x600af800 0x600af804 ?F (trace ?w)) = ?F" by (simp add: ana_world_def ana_of_def)
  have b: "ana_bus 0x600af800 0x600af804 ?F ?w" using ana_world_bus [of "0x600af800"] by simp
  show ?thesis
    using regi2c_writes_field [THEN conjunct1, unfolded writes_field_def Let_def, rule_format,
        of 5 6 4 3 ?w w' "0x600af804" ?F] w' b unfolding t by auto
qed

section \<open>The crystal of the ESP32-C2\<close>

text \<open>The values read from a register.\<close>

definition seen :: "u32 \<Rightarrow> ev list \<Rightarrow> u32 list" where
  "seen r es = concat (map (\<lambda>e. case e of Rd (Mmio q) v \<Rightarrow> if q = r then [v] else [] | _ \<Rightarrow> []) es)"

lemma seen_simps [simp]:
  "seen r [] = []" "seen r (es @ fs) = seen r es @ seen r fs"
  "seen r (Rd (Mmio q) v # es) = (if q = r then v # seen r es else seen r es)"
  "seen r (Wr c v # es) = seen r es" "seen r (Call f args d x out # es) = seen r es"
  by (simp_all add: seen_def)

text \<open>The conversion to MHz separates the crystals at a count of 4827; nothing overflows.\<close>

lemma c2_xtal_of_eq: "c2_xtal_of v = (if 0 < v \<and> v \<le> 4827 then 26 * MHZ else 40 * MHZ)"
proof (cases "v = 0")
  case False
  let ?q = "(ucast v * ucast c2_RC_FAST_HZ :: u64) div ucast (256 * c2_N_SLOW_CYCLES * 1000000)"
  have v: "unat v < 2 ^ 32" using unat_lt32 [of v] by simp
  have u: "unat (ucast v :: u64) = unat v"
    using v by (simp add: unsigned_ucast_eq unsigned_take_bit_eq take_bit_nat_eq_self)
  have "unat ((ucast v :: u64) * ucast c2_RC_FAST_HZ) = unat v * 17500000"
    using v by (simp add: unat_word_ariths u) (simp add: regs)
  then have q: "unat ?q = unat v * 17500000 div 2560000000"
    by (simp add: regs unat_div)
  then have "unat (ucast ?q :: u32) = unat v * 17500000 div 2560000000"
    using v by (simp add: unsigned_ucast_eq unsigned_take_bit_eq take_bit_eq_mod)
  then have "(ucast ?q :: u32) < 33 \<longleftrightarrow> v \<le> 4827"
    by (simp add: word_less_nat_alt word_le_nat_alt) (auto simp: div_less_iff_less_mult)
  then show ?thesis using False by (simp add: c2_xtal_of_def Let_def word_gt_0)
qed (simp add: c2_xtal_of_def)


lemma c2_wait_stopped_reads:
  assumes "c2_wait_stopped w = Some w'"
  shows "emits (\<lambda>e. \<exists>r v. e = Rd (Mmio r) v \<and> r \<in> {c2_TIMG_RTCCALICFG_REG 0, c2_TIMG_RTCCALICFG2_REG 0}) w w'"
proof (rule c2_wait_stopped.raw_induct [where P = "\<lambda>w w'. emits (\<lambda>e. \<exists>r v. e = Rd (Mmio r) v \<and>
      r \<in> {c2_TIMG_RTCCALICFG_REG 0, c2_TIMG_RTCCALICFG2_REG 0}) w w'", OF _ assms])
  fix f :: "'a world_scheme \<Rightarrow> 'a world_scheme option" and w w'
  let ?Q = "\<lambda>e. \<exists>r v. e = Rd (Mmio r) v \<and> r \<in> {c2_TIMG_RTCCALICFG_REG 0, c2_TIMG_RTCCALICFG2_REG 0}"
  assume IH: "\<And>w w'. f w = Some w' \<Longrightarrow> emits ?Q w w'"
    and eq: "(let (rdy, w) = READ_PERI_REG (c2_TIMG_RTCCALICFG_REG 0) w
      in if rdy AND c2_TIMG_RTC_CALI_RDY \<noteq> 0 then Some w
         else (let (timeout, w) = READ_PERI_REG (c2_TIMG_RTCCALICFG2_REG 0) w
               in if timeout AND c2_TIMG_RTC_CALI_TIMEOUT \<noteq> 0 then Some w else f w)) = Some w'"
  define u where "u = snd (REG_READ (c2_TIMG_RTCCALICFG_REG 0) w)"
  define x where "x = snd (REG_READ (c2_TIMG_RTCCALICFG2_REG 0) u)"
  have u: "emits ?Q w u" by (simp add: u_def REG_READ_eq emits_after)
  have x: "emits ?Q u x" by (simp add: x_def REG_READ_eq emits_after)
  consider "w' = u" | "w' = x" | "f x = Some w'"
  proof (cases "fst (REG_READ (c2_TIMG_RTCCALICFG_REG 0) w) AND c2_TIMG_RTC_CALI_RDY = 0")
    case False
    then show ?thesis using that(1) eq by (simp add: split_beta peri_eq u_def)
  next
    case True
    then show ?thesis using that(2,3) eq
      by (cases "fst (REG_READ (c2_TIMG_RTCCALICFG2_REG 0) u) AND c2_TIMG_RTC_CALI_TIMEOUT = 0")
        (simp_all add: split_beta peri_eq u_def x_def)
  qed
  then show "emits ?Q w w'"
    by cases (use u emits_trans [OF u x] emits_trans [OF emits_trans [OF u x] IH] in simp_all)
qed

lemma c2_wait_measured_reads:
  assumes "c2_wait_measured w = Some (n, w')"
  obtains u where "emits (\<lambda>e. \<exists>r v. e = Rd (Mmio r) v \<and>
      r \<in> {c2_TIMG_RTCCALICFG_REG 0, c2_TIMG_RTCCALICFG2_REG 0}) w u"
    "n = 0 \<and> w' = u \<or> (\<exists>v. n = drop_bit c2_TIMG_RTC_CALI_VALUE_S v AND c2_TIMG_RTC_CALI_VALUE_V \<and>
       w' = after u [Rd (Mmio (c2_TIMG_RTCCALICFG1_REG 0)) v])"
proof -
  let ?Q = "\<lambda>e. \<exists>r v. e = Rd (Mmio r) v \<and> r \<in> {c2_TIMG_RTCCALICFG_REG 0, c2_TIMG_RTCCALICFG2_REG 0}"
  let ?R = "\<lambda>w y. \<exists>u. emits ?Q w u \<and> (fst y = 0 \<and> snd y = u \<or>
      (\<exists>v. fst y = drop_bit c2_TIMG_RTC_CALI_VALUE_S v AND c2_TIMG_RTC_CALI_VALUE_V \<and>
       snd y = after u [Rd (Mmio (c2_TIMG_RTCCALICFG1_REG 0)) v]))"
  have "?R w (n, w')"
  proof (rule c2_wait_measured.raw_induct [where P = ?R, OF _ assms])
    fix f :: "'a world_scheme \<Rightarrow> (u32 \<times> 'a world_scheme) option" and w y
    assume IH: "\<And>w y. f w = Some y \<Longrightarrow> ?R w y"
      and eq: "(let (rdy, w) = READ_PERI_REG (c2_TIMG_RTCCALICFG_REG 0) w
        in if rdy AND c2_TIMG_RTC_CALI_RDY \<noteq> 0
           then Some (REG_GET_FIELD (c2_TIMG_RTCCALICFG1_REG 0) c2_TIMG_RTC_CALI_VALUE_V c2_TIMG_RTC_CALI_VALUE_S w)
           else (let (timeout, w) = READ_PERI_REG (c2_TIMG_RTCCALICFG2_REG 0) w
                 in if timeout AND c2_TIMG_RTC_CALI_TIMEOUT \<noteq> 0 then Some (0, w) else f w)) = Some y"
    define u where "u = snd (REG_READ (c2_TIMG_RTCCALICFG_REG 0) w)"
    define x where "x = snd (REG_READ (c2_TIMG_RTCCALICFG2_REG 0) u)"
    have u: "emits ?Q w u" by (simp add: u_def REG_READ_eq emits_after)
    have x: "emits ?Q u x" by (simp add: x_def REG_READ_eq emits_after)
    consider "y = REG_GET_FIELD (c2_TIMG_RTCCALICFG1_REG 0) c2_TIMG_RTC_CALI_VALUE_V c2_TIMG_RTC_CALI_VALUE_S u"
      | "y = (0, x)" | "f x = Some y"
    proof (cases "fst (REG_READ (c2_TIMG_RTCCALICFG_REG 0) w) AND c2_TIMG_RTC_CALI_RDY = 0")
    case False
    then show ?thesis using that(1) eq by (simp add: split_beta peri_eq u_def)
  next
    case True
    then show ?thesis using that(2,3) eq
      by (cases "fst (REG_READ (c2_TIMG_RTCCALICFG2_REG 0) u) AND c2_TIMG_RTC_CALI_TIMEOUT = 0")
        (simp_all add: split_beta peri_eq u_def x_def)
  qed
    then show "?R w y"
    proof cases
      case 1
      then show ?thesis using u by (auto simp: REG_GET_eq)
    next
      case 2
      then show ?thesis using emits_trans [OF u x] by auto
    next
      case 3
      then obtain z where z: "emits ?Q x z" "fst y = 0 \<and> snd y = z \<or>
        (\<exists>v. fst y = drop_bit c2_TIMG_RTC_CALI_VALUE_S v AND c2_TIMG_RTC_CALI_VALUE_V \<and>
         snd y = after z [Rd (Mmio (c2_TIMG_RTCCALICFG1_REG 0)) v])" using IH by blast
      then show ?thesis using emits_trans [OF emits_trans [OF u x] z(1)] by blast
    qed
  qed
  then show ?thesis using that by (simp only: fst_conv snd_conv) blast
qed


lemma emits_rmw:
  assumes "emits P w u" "\<And>v. P (Rd (Mmio r) v)" "\<And>v. P (Wr (Mmio r) v)"
  shows "emits P w (REG_SET_BIT r b u)" "emits P w (REG_CLR_BIT r b u)" "emits P w (REG_SET_FIELD r fV fS x u)"
  by (rule emits_trans [OF assms(1)], simp add: rmw_eq emits_after assms(2,3))+

text \<open>Events that change neither register of the RC oscillator and do not read the count.\<close>

definition c2_aside :: "ev \<Rightarrow> bool" where
  "c2_aside e \<longleftrightarrow> keeps (Mmio c2_RTC_CNTL_CLK_CONF_REG) e \<and> keeps (Mmio c2_RTC_CNTL_TIMER1_REG) e \<and> (\<forall>v. e \<noteq> Rd (Mmio (c2_TIMG_RTCCALICFG1_REG 0)) v)"

lemma c2_aside_reg:
  "r \<noteq> c2_TIMG_RTCCALICFG1_REG 0 \<Longrightarrow> c2_aside (Rd (Mmio r) v)"
  "r \<noteq> c2_RTC_CNTL_CLK_CONF_REG \<Longrightarrow> r \<noteq> c2_RTC_CNTL_TIMER1_REG \<Longrightarrow> c2_aside (Wr (Mmio r) v)"
  by (auto simp: c2_aside_def)

lemma c2_ne [simp]:
  "c2_TIMG_RTCCALICFG_REG 0 \<noteq> c2_TIMG_RTCCALICFG1_REG 0" "c2_TIMG_RTCCALICFG2_REG 0 \<noteq> c2_TIMG_RTCCALICFG1_REG 0"
  "c2_TIMG_RTCCALICFG_REG 0 \<noteq> c2_RTC_CNTL_CLK_CONF_REG" "c2_TIMG_RTCCALICFG2_REG 0 \<noteq> c2_RTC_CNTL_CLK_CONF_REG"
  "c2_RTC_CNTL_TIMER1_REG \<noteq> c2_RTC_CNTL_CLK_CONF_REG" "c2_RTC_CNTL_TIMER1_REG \<noteq> c2_TIMG_RTCCALICFG1_REG 0"
  "c2_RTC_CNTL_CLK_CONF_REG \<noteq> c2_TIMG_RTCCALICFG1_REG 0" "c2_RTC_CNTL_CLK_CONF_REG \<noteq> c2_RTC_CNTL_TIMER1_REG"
  "c2_TIMG_RTCCALICFG_REG 0 \<noteq> c2_RTC_CNTL_TIMER1_REG" "c2_TIMG_RTCCALICFG2_REG 0 \<noteq> c2_RTC_CNTL_TIMER1_REG"
  by (simp_all add: regs)

lemma c2_polls_aside:
  assumes "emits (\<lambda>e. \<exists>r v. e = Rd (Mmio r) v \<and> r \<in> {c2_TIMG_RTCCALICFG_REG 0, c2_TIMG_RTCCALICFG2_REG 0}) w u"
  shows "emits c2_aside w u"
  by (rule emits_mono [OF assms]) (auto simp: c2_aside_reg)

lemma c2_start_measuring_aside:
  assumes "c2_start_measuring w = Some w'"
  shows "emits c2_aside w w'"
proof -
  define u where "u = snd (REG_READ (c2_TIMG_RTCCALICFG_REG 0) w)"
  have u: "emits c2_aside w u" by (simp add: u_def REG_READ_eq emits_after c2_aside_reg)
  obtain x where x: "x = u \<or> c2_wait_stopped (REG_SET_FIELD (c2_TIMG_RTCCALICFG2_REG 0)
        c2_TIMG_RTC_CALI_TIMEOUT_THRES_V c2_TIMG_RTC_CALI_TIMEOUT_THRES_S 1 u) = Some x"
    and w': "w' = SET_PERI_REG_MASK (c2_TIMG_RTCCALICFG_REG 0) c2_TIMG_RTC_CALI_START
       (CLEAR_PERI_REG_MASK (c2_TIMG_RTCCALICFG_REG 0) c2_TIMG_RTC_CALI_START
       (REG_SET_FIELD (c2_TIMG_RTCCALICFG2_REG 0) c2_TIMG_RTC_CALI_TIMEOUT_THRES_V c2_TIMG_RTC_CALI_TIMEOUT_THRES_S c2_TIMEOUT_THRES
       (REG_SET_FIELD (c2_TIMG_RTCCALICFG_REG 0) c2_TIMG_RTC_CALI_MAX_V c2_TIMG_RTC_CALI_MAX_S c2_N_SLOW_CYCLES
       (CLEAR_PERI_REG_MASK (c2_TIMG_RTCCALICFG_REG 0) c2_TIMG_RTC_CALI_START_CYCLING
       (REG_SET_FIELD (c2_TIMG_RTCCALICFG_REG 0) c2_TIMG_RTC_CALI_CLK_SEL_V c2_TIMG_RTC_CALI_CLK_SEL_S 1 x)))))"
    using assms by (auto simp: c2_start_measuring_def peri_eq u_def bind_eq_Some_conv Let_def split_beta split: if_splits)
  let ?y = "REG_SET_FIELD (c2_TIMG_RTCCALICFG2_REG 0) c2_TIMG_RTC_CALI_TIMEOUT_THRES_V
      c2_TIMG_RTC_CALI_TIMEOUT_THRES_S 1 u"
  have y: "emits c2_aside w ?y" by (intro emits_rmw u) (simp_all add: c2_aside_reg)
  have "emits c2_aside w x" if "c2_wait_stopped ?y = Some x"
    by (rule emits_trans [OF y c2_polls_aside [OF c2_wait_stopped_reads [OF that]]])
  with x u have "emits c2_aside w x" by blast
  then show ?thesis unfolding w' peri_eq by (intro emits_rmw) (simp_all add: c2_aside_reg)
qed

lemma peek_aside:
  assumes "emits c2_aside w u" "plain w (Mmio r)" "r = c2_RTC_CNTL_CLK_CONF_REG \<or> r = c2_RTC_CNTL_TIMER1_REG"
  shows "peek (Mmio r) u = peek (Mmio r) w" "plain u (Mmio r)"
proof -
  obtain es where es: "list_all c2_aside es" "u = after w es" using assms(1) by (rule emitsE)
  then have "list_all (keeps (Mmio r)) es" using assms(3) by (auto simp: list_all_iff c2_aside_def)
  then show "peek (Mmio r) u = peek (Mmio r) w"
    using peek_keeps [OF assms(2)] es(2) by simp
  show "plain u (Mmio r)" using assms(2) es(2) by simp
qed

text \<open>Switching the clocks of the measurement on, and putting the configuration back.\<close>

lemma c2_rc_fast:
  assumes "plain w (Mmio c2_RTC_CNTL_CLK_CONF_REG)"
  shows "peek (Mmio c2_RTC_CNTL_CLK_CONF_REG) (c2_enable_rc_fast w) =
     peek (Mmio c2_RTC_CNTL_CLK_CONF_REG) w AND NOT c2_RTC_CNTL_ENB_CK8M AND NOT c2_RTC_CNTL_ENB_CK8M_DIV
       OR c2_RTC_CNTL_DIG_CLK8M_D256_EN"
    "plain (c2_enable_rc_fast w) = plain w"
proof -
  have d: "peek c (rom_void (SysFn Esp_rom_delay_us) a [] u) = peek c u" if "plain u c" for a u c
    using that by (simp add: prim_eq peek_keeps)
  have p: "plain (rom_void f a d u) = plain u" for f a d u by (simp add: prim_eq)
  show "peek (Mmio c2_RTC_CNTL_CLK_CONF_REG) (c2_enable_rc_fast w) =
     peek (Mmio c2_RTC_CNTL_CLK_CONF_REG) w AND NOT c2_RTC_CNTL_ENB_CK8M AND NOT c2_RTC_CNTL_ENB_CK8M_DIV
       OR c2_RTC_CNTL_DIG_CLK8M_D256_EN"
    using assms by (simp add: c2_enable_rc_fast_def Let_def peri_eq plain_peek d p and.assoc)
  show "plain (c2_enable_rc_fast w) = plain w"
    by (simp add: c2_enable_rc_fast_def Let_def peri_eq p)
qed

lemma c2_bits:
  "bit c2_RTC_CNTL_ENB_CK8M i \<longleftrightarrow> i = 6" "bit c2_RTC_CNTL_ENB_CK8M_DIV i \<longleftrightarrow> i = 7"
  "bit c2_RTC_CNTL_DIG_CLK8M_D256_EN i \<longleftrightarrow> i = 9"
proof -
  have e: "c2_RTC_CNTL_ENB_CK8M = push_bit 6 1" "c2_RTC_CNTL_ENB_CK8M_DIV = push_bit 7 1"
    "c2_RTC_CNTL_DIG_CLK8M_D256_EN = push_bit 9 1" by (simp_all add: regs)
  show "bit c2_RTC_CNTL_ENB_CK8M i \<longleftrightarrow> i = 6" by (simp only: e bit_simps) auto
  show "bit c2_RTC_CNTL_ENB_CK8M_DIV i \<longleftrightarrow> i = 7" by (simp only: e bit_simps) auto
  show "bit c2_RTC_CNTL_DIG_CLK8M_D256_EN i \<longleftrightarrow> i = 9" by (simp only: e bit_simps) auto
qed

lemma and_single: "(\<And>i. bit (b :: u32) i \<longleftrightarrow> i = k) \<Longrightarrow> v AND b = 0 \<longleftrightarrow> \<not> bit v k"
  by (auto simp only: bit_eq_iff [of "v AND b" 0] bit_and_iff bit_0_eq bot_fun_def bot_bool_def dest: bit_imp_possible_bit)

lemma c2_restored:
  assumes pl: "plain w (Mmio c2_RTC_CNTL_CLK_CONF_REG)"
    and x: "peek (Mmio c2_RTC_CNTL_CLK_CONF_REG) w =
      v AND NOT c2_RTC_CNTL_ENB_CK8M AND NOT c2_RTC_CNTL_ENB_CK8M_DIV OR c2_RTC_CNTL_DIG_CLK8M_D256_EN"
  shows "peek (Mmio c2_RTC_CNTL_CLK_CONF_REG) (c2_restore_clk_conf v w) = v"
proof -
  note single = and_single [OF c2_bits(1)] and_single [OF c2_bits(2)] and_single [OF c2_bits(3)]
  note p = c2_restore_clk_conf_def Let_def peri_eq plain_peek pl single x
  show ?thesis
    by (cases "bit v 6"; cases "bit v 7"; cases "bit v 9"; simp add: p;
        rule bit_word_eqI; auto simp: bit_and_iff bit_or_iff bit_not_iff c2_bits possible_bit_def)
qed

text \<open>Everything but the measurement leaves the count alone.\<close>

definition c2_count_unread :: "ev \<Rightarrow> bool" where
  "c2_count_unread e \<longleftrightarrow> (\<forall>v. e \<noteq> Rd (Mmio (c2_TIMG_RTCCALICFG1_REG 0)) v)"

lemma c2_count_unread_reg [simp]:
  "c2_count_unread (Wr c v)" "c2_count_unread (Call f args d x out)"
  "c2_count_unread (Rd (Mmio r) v) \<longleftrightarrow> r \<noteq> c2_TIMG_RTCCALICFG1_REG 0"
  by (auto simp: c2_count_unread_def)

lemma c2_count_unread_seen:
  assumes "emits c2_count_unread w u"
  obtains es where "u = after w es" "seen (c2_TIMG_RTCCALICFG1_REG 0) es = []"
proof -
  obtain es where es: "list_all c2_count_unread es" "u = after w es" using assms by (rule emitsE)
  from es(1) have "seen (c2_TIMG_RTCCALICFG1_REG 0) es = []"
    by (induction es) (auto simp: seen_def c2_count_unread_def split: ev.splits cell.splits)
  with es(2) that show ?thesis by blast
qed

lemma c2_restore_unread: "emits c2_count_unread w u \<Longrightarrow> emits c2_count_unread w (c2_restore_clk_conf v u)"
  unfolding c2_restore_clk_conf_def Let_def peri_eq by (simp split: if_split) (intro impI conjI emits_rmw; simp)

lemma c2_enable_unread: "emits c2_count_unread w u \<Longrightarrow> emits c2_count_unread w (c2_enable_rc_fast u)"
proof -
  assume u: "emits c2_count_unread w u"
  have r: "emits c2_count_unread w x \<Longrightarrow> emits c2_count_unread w (rom_void f a d x)" for x f a d
    by (erule emits_trans) (simp add: prim_eq emits_after)
  show ?thesis
    unfolding c2_enable_rc_fast_def Let_def peri_eq by (intro emits_rmw r u) simp_all
qed

text \<open>The steps of the detection up to the measurement, and the measurement itself.\<close>

definition c2_clocked :: "'a world_scheme \<Rightarrow> 'a world_scheme" where
  "c2_clocked w = CLEAR_PERI_REG_MASK c2_SYSTEM_PERIP_RST_EN0_REG c2_SYSTEM_TIMERGROUP_RST
    (SET_PERI_REG_MASK c2_SYSTEM_PERIP_CLK_EN0_REG c2_SYSTEM_TIMERGROUP_CLK_EN w)"

definition c2_measures :: "'a world_scheme \<Rightarrow> 'a world_scheme" where
  "c2_measures w = c2_enable_rc_fast (snd (READ_PERI_REG c2_RTC_CNTL_CLK_CONF_REG (c2_clocked w)))"

lemma c2_detected_steps:
  fixes w w' :: "'a world_scheme"
  assumes "c2_detected_crystal_freq w = Some (f, w')"
  obtains u w5 n where "emits c2_aside (c2_measures w) u" "f = c2_xtal_of n"
    "w' = c2_restore_clk_conf (peek (Mmio c2_RTC_CNTL_CLK_CONF_REG) (c2_clocked w))
      (CLEAR_PERI_REG_MASK (c2_TIMG_RTCCALICFG_REG 0) c2_TIMG_RTC_CALI_START w5)"
    "n = 0 \<and> w5 = u \<or> (\<exists>v. n = drop_bit c2_TIMG_RTC_CALI_VALUE_S v AND c2_TIMG_RTC_CALI_VALUE_V \<and>
      w5 = after u [Rd (Mmio (c2_TIMG_RTCCALICFG1_REG 0)) v])"
proof -
  have sv: "READ_PERI_REG c2_RTC_CNTL_CLK_CONF_REG (c2_clocked w) =
    (peek (Mmio c2_RTC_CNTL_CLK_CONF_REG) (c2_clocked w), snd (READ_PERI_REG c2_RTC_CNTL_CLK_CONF_REG (c2_clocked w)))"
    by (simp add: peri_eq REG_READ_eq)
  obtain w4 n w5 where w4: "c2_start_measuring (c2_measures w) = Some w4" and w5: "c2_wait_measured w4 = Some (n, w5)"
    and w': "w' = c2_restore_clk_conf (peek (Mmio c2_RTC_CNTL_CLK_CONF_REG) (c2_clocked w))
      (CLEAR_PERI_REG_MASK (c2_TIMG_RTCCALICFG_REG 0) c2_TIMG_RTC_CALI_START w5)" and f: "f = c2_xtal_of n"
    using assms unfolding c2_detected_crystal_freq_def Let_def c2_clocked_def [symmetric]
    by (subst (asm) sv) (auto simp only: c2_measures_def bind_eq_Some_conv prod.case prod.inject option.inject)
  obtain u where u: "emits c2_aside w4 u" and n: "n = 0 \<and> w5 = u \<or>
      (\<exists>v. n = drop_bit c2_TIMG_RTC_CALI_VALUE_S v AND c2_TIMG_RTC_CALI_VALUE_V \<and>
        w5 = after u [Rd (Mmio (c2_TIMG_RTCCALICFG1_REG 0)) v])"
    by (rule c2_wait_measured_reads [OF w5]) (use c2_polls_aside that in blast)
  show ?thesis by (rule that [OF emits_trans [OF c2_start_measuring_aside [OF w4] u] f w' n])
qed

lemma c2_clocked_peek:
  "plain w (Mmio c2_RTC_CNTL_CLK_CONF_REG) \<Longrightarrow>
     peek (Mmio c2_RTC_CNTL_CLK_CONF_REG) (c2_clocked w) = peek (Mmio c2_RTC_CNTL_CLK_CONF_REG) w"
  "plain (c2_clocked w) = plain w"
  by (simp_all add: c2_clocked_def peri_eq plain_peek) (simp add: regs)

lemma c2_clock_kept:
  assumes "c2_detected_crystal_freq w = Some (f, w')" and pl: "plain w (Mmio c2_RTC_CNTL_CLK_CONF_REG)"
  shows "peek (Mmio c2_RTC_CNTL_CLK_CONF_REG) w' = peek (Mmio c2_RTC_CNTL_CLK_CONF_REG) w"
proof -
  let ?c = "Mmio c2_RTC_CNTL_CLK_CONF_REG"
  from c2_detected_steps [OF assms(1)] obtain u w5 n where u: "emits c2_aside (c2_measures w) u"
    and w': "w' = c2_restore_clk_conf (peek ?c (c2_clocked w))
      (CLEAR_PERI_REG_MASK (c2_TIMG_RTCCALICFG_REG 0) c2_TIMG_RTC_CALI_START w5)"
    and n: "n = 0 \<and> w5 = u \<or> (\<exists>v. n = drop_bit c2_TIMG_RTC_CALI_VALUE_S v AND c2_TIMG_RTC_CALI_VALUE_V \<and>
      w5 = after u [Rd (Mmio (c2_TIMG_RTCCALICFG1_REG 0)) v])" .
  define w2 where "w2 = snd (READ_PERI_REG c2_RTC_CNTL_CLK_CONF_REG (c2_clocked w))"
  have p2: "peek ?c w2 = peek ?c w" "plain w2 = plain w"
    using pl by (simp_all add: w2_def peri_eq REG_READ_eq peek_keeps c2_clocked_peek)
  have p3: "peek ?c (c2_measures w) = peek ?c w AND NOT c2_RTC_CNTL_ENB_CK8M AND NOT c2_RTC_CNTL_ENB_CK8M_DIV
       OR c2_RTC_CNTL_DIG_CLK8M_D256_EN" "plain (c2_measures w) ?c"
    using c2_rc_fast [of w2] p2 pl by (simp_all add: c2_measures_def w2_def)
  note p4 = peek_aside [OF u p3(2) disjI1 [OF refl]]
  have p5: "peek ?c w5 = peek ?c u" "plain w5 ?c" using n p4(2) by (auto simp: peek_keeps)
  let ?w6 = "CLEAR_PERI_REG_MASK (c2_TIMG_RTCCALICFG_REG 0) c2_TIMG_RTC_CALI_START w5"
  have p6: "peek ?c ?w6 = peek ?c w5" "plain ?w6 ?c" using p5 c2_ne(3) [symmetric] by (simp_all add: peri_eq plain_peek)
  show ?thesis unfolding w' c2_clocked_peek(1) [OF pl] by (rule c2_restored [OF p6(2)]) (simp only: p6 p5 p4 p3)
qed

text \<open>The time the oscillator is given to start is not put back: it ends as 5 or as 20.\<close>

lemma c2_wait_written:
  assumes pl: "plain w (Mmio c2_RTC_CNTL_TIMER1_REG)"
  defines "m \<equiv> push_bit c2_RTC_CNTL_CK8M_WAIT_S c2_RTC_CNTL_CK8M_WAIT_V"
  shows "peek (Mmio c2_RTC_CNTL_TIMER1_REG) (c2_enable_rc_fast w) =
      peek (Mmio c2_RTC_CNTL_TIMER1_REG) w AND NOT m OR push_bit c2_RTC_CNTL_CK8M_WAIT_S 5"
    "peek (Mmio c2_RTC_CNTL_TIMER1_REG) (c2_restore_clk_conf v w) =
      (if v AND c2_RTC_CNTL_ENB_CK8M = 0 then peek (Mmio c2_RTC_CNTL_TIMER1_REG) w
       else peek (Mmio c2_RTC_CNTL_TIMER1_REG) w AND NOT m OR push_bit c2_RTC_CNTL_CK8M_WAIT_S 20)"
proof -
  let ?c = "Mmio c2_RTC_CNTL_TIMER1_REG"
  have p: "plain (rom_void f a d u) = plain u" for f a d u by (simp add: prim_eq)
  have d: "peek c (rom_void (SysFn Esp_rom_delay_us) a [] u) = peek c u" if "plain u c" for a u c
    using that by (simp add: prim_eq peek_keeps)
  have f: "peek ?c (REG_SET_FIELD c2_RTC_CNTL_TIMER1_REG c2_RTC_CNTL_CK8M_WAIT_V c2_RTC_CNTL_CK8M_WAIT_S x u) =
      peek ?c u AND NOT m OR push_bit c2_RTC_CNTL_CK8M_WAIT_S (x AND c2_RTC_CNTL_CK8M_WAIT_V)" if "plain u ?c" for x u
    using peek_written [OF that, of "[]" "[Rd ?c (peek ?c u)]"] by (simp only: rmw_eq m_def append.simps list.pred_inject)
  have k: "(5 :: u32) AND c2_RTC_CNTL_CK8M_WAIT_V = 5" "(20 :: u32) AND c2_RTC_CNTL_CK8M_WAIT_V = 20" by (simp_all add: regs)
  show "peek ?c (c2_enable_rc_fast w) = peek ?c w AND NOT m OR push_bit c2_RTC_CNTL_CK8M_WAIT_S 5"
    using pl c2_ne(8) [symmetric] by (simp add: c2_enable_rc_fast_def Let_def peri_eq plain_peek(1,2) p d f k del: push_bit_and)
  show "peek ?c (c2_restore_clk_conf v w) = (if v AND c2_RTC_CNTL_ENB_CK8M = 0 then peek ?c w
       else peek ?c w AND NOT m OR push_bit c2_RTC_CNTL_CK8M_WAIT_S 20)"
    using pl c2_ne(8) [symmetric] by (simp add: c2_restore_clk_conf_def Let_def peri_eq plain_peek(1,2) f k del: push_bit_and)
qed

lemma c2_wait_kept:
  assumes "c2_detected_crystal_freq w = Some (f, w')"
    and pl: "plain w (Mmio c2_RTC_CNTL_CLK_CONF_REG)" "plain w (Mmio c2_RTC_CNTL_TIMER1_REG)"
  shows "peek (Mmio c2_RTC_CNTL_TIMER1_REG) w' =
      peek (Mmio c2_RTC_CNTL_TIMER1_REG) w AND NOT (push_bit c2_RTC_CNTL_CK8M_WAIT_S c2_RTC_CNTL_CK8M_WAIT_V) OR
      push_bit c2_RTC_CNTL_CK8M_WAIT_S (if peek (Mmio c2_RTC_CNTL_CLK_CONF_REG) w AND c2_RTC_CNTL_ENB_CK8M = 0 then 5 else 20)"
proof -
  let ?c = "Mmio c2_RTC_CNTL_TIMER1_REG"
  let ?m = "push_bit c2_RTC_CNTL_CK8M_WAIT_S c2_RTC_CNTL_CK8M_WAIT_V"
  from c2_detected_steps [OF assms(1)] obtain u w5 n where u: "emits c2_aside (c2_measures w) u"
    and w': "w' = c2_restore_clk_conf (peek (Mmio c2_RTC_CNTL_CLK_CONF_REG) (c2_clocked w))
      (CLEAR_PERI_REG_MASK (c2_TIMG_RTCCALICFG_REG 0) c2_TIMG_RTC_CALI_START w5)"
    and n: "n = 0 \<and> w5 = u \<or> (\<exists>v. n = drop_bit c2_TIMG_RTC_CALI_VALUE_S v AND c2_TIMG_RTC_CALI_VALUE_V \<and>
      w5 = after u [Rd (Mmio (c2_TIMG_RTCCALICFG1_REG 0)) v])" .
  define w2 where "w2 = snd (READ_PERI_REG c2_RTC_CNTL_CLK_CONF_REG (c2_clocked w))"
  have ne: "c2_RTC_CNTL_TIMER1_REG \<noteq> c2_SYSTEM_PERIP_RST_EN0_REG" "c2_RTC_CNTL_TIMER1_REG \<noteq> c2_SYSTEM_PERIP_CLK_EN0_REG"
    by (simp_all add: regs)
  have p2: "peek ?c w2 = peek ?c w" "plain w2 = plain w"
    using pl ne by (simp_all add: w2_def peri_eq REG_READ_eq peek_keeps c2_clocked_def plain_peek)
  have p3: "peek ?c (c2_measures w) = peek ?c w AND NOT ?m OR push_bit c2_RTC_CNTL_CK8M_WAIT_S 5" "plain (c2_measures w) ?c"
    using c2_wait_written(1) [of w2] c2_rc_fast(2) [of w2] p2 pl by (simp_all add: c2_measures_def w2_def)
  note p4 = peek_aside [OF u p3(2) disjI2 [OF refl]]
  have p5: "peek ?c w5 = peek ?c u" "plain w5 ?c" using n p4(2) by (auto simp: peek_keeps)
  let ?w6 = "CLEAR_PERI_REG_MASK (c2_TIMG_RTCCALICFG_REG 0) c2_TIMG_RTC_CALI_START w5"
  have p6: "peek ?c ?w6 = peek ?c w5" "plain ?w6 ?c" using p5 c2_ne(9) [symmetric] by (simp_all add: peri_eq plain_peek)
  have k: "(x AND NOT m OR a) AND NOT m OR b = x AND NOT m OR b" if "a AND NOT m = 0" for x m a b :: u32
    using that by (simp add: word_ao_dist and.assoc)
  have z: "push_bit c2_RTC_CNTL_CK8M_WAIT_S 5 AND NOT ?m = (0 :: u32)" by (simp add: regs)
  have m6: "peek ?c ?w6 = peek ?c w AND NOT ?m OR push_bit c2_RTC_CNTL_CK8M_WAIT_S 5" by (simp only: p6 p5 p4 p3)
  show ?thesis unfolding w' c2_clocked_peek(1) [OF pl(1)] c2_wait_written(2) [OF p6(2)] m6 k [OF z]
    by (cases "peek (Mmio c2_RTC_CNTL_CLK_CONF_REG) w AND c2_RTC_CNTL_ENB_CK8M = 0") (simp_all only: if_True if_False simp_thms)
qed

lemma c2_measures_unread: "emits c2_count_unread w (c2_measures w)"
proof -
  have "emits c2_count_unread w (c2_clocked w)"
    unfolding c2_clocked_def peri_eq by (intro emits_rmw emits_refl) (simp_all, simp_all add: regs)
  moreover have "emits c2_count_unread (c2_clocked w) (snd (READ_PERI_REG c2_RTC_CNTL_CLK_CONF_REG (c2_clocked w)))"
    by (simp add: peri_eq REG_READ_eq emits_after)
  ultimately show ?thesis unfolding c2_measures_def using c2_enable_unread emits_trans by blast
qed

lemma c2_count_decides:
  fixes w w' :: "'a world_scheme"
  assumes "c2_detected_crystal_freq w = Some (f, w')"
  shows "\<exists>es. w' = after w es \<and>
      f = (if \<exists>v\<in>set (seen (c2_TIMG_RTCCALICFG1_REG 0) es).
              0 < drop_bit c2_TIMG_RTC_CALI_VALUE_S v AND c2_TIMG_RTC_CALI_VALUE_V \<and>
              drop_bit c2_TIMG_RTC_CALI_VALUE_S v AND c2_TIMG_RTC_CALI_VALUE_V \<le> 4827
           then 26000000 else 40000000)"
proof -
  let ?r = "c2_TIMG_RTCCALICFG1_REG 0"
  from c2_detected_steps [OF assms] obtain u w5 n where u: "emits c2_aside (c2_measures w) u" and f: "f = c2_xtal_of n"
    and w': "w' = c2_restore_clk_conf (peek (Mmio c2_RTC_CNTL_CLK_CONF_REG) (c2_clocked w))
      (CLEAR_PERI_REG_MASK (c2_TIMG_RTCCALICFG_REG 0) c2_TIMG_RTC_CALI_START w5)"
    and n: "n = 0 \<and> w5 = u \<or> (\<exists>v. n = drop_bit c2_TIMG_RTC_CALI_VALUE_S v AND c2_TIMG_RTC_CALI_VALUE_V \<and>
      w5 = after u [Rd (Mmio ?r) v])" .
  have aside: "emits c2_count_unread (c2_measures w) u"
    using u by (rule emits_mono) (simp add: c2_aside_def c2_count_unread_def)
  then obtain es where es: "u = after w es" "seen ?r es = []"
    using c2_count_unread_seen [OF emits_trans [OF c2_measures_unread]] by blast
  have "emits c2_count_unread w5 w'"
    unfolding w' peri_eq by (intro c2_restore_unread emits_rmw emits_refl) simp_all
  then obtain fs where fs: "w' = after w5 fs" "seen ?r fs = []" by (rule c2_count_unread_seen)
  from n show ?thesis
  proof (elim disjE exE conjE)
    assume "n = 0" "w5 = u"
    then show ?thesis
      using es fs f by (intro exI [of _ "es @ fs"]) (simp add: c2_xtal_of_eq MHZ_def)
  next
    fix v assume "n = drop_bit c2_TIMG_RTC_CALI_VALUE_S v AND c2_TIMG_RTC_CALI_VALUE_V" "w5 = after u [Rd (Mmio ?r) v]"
    then show ?thesis
      using es fs f by (intro exI [of _ "es @ Rd (Mmio ?r) v # fs"]) (simp add: c2_xtal_of_eq MHZ_def)
  qed
qed

text \<open>
  C32: The ESP32-C2 takes its crystal for 26 MHz exactly when the measurement gave a count
  between 1 and 4827, for 40 MHz otherwise, a timeout included, without overflow in the
  conversion. Of the two registers of the RTC controller it changes for the measurement, the
  one that selects and gates the clocks (\<open>RTC_CNTL_CLK_CONF\<close>) is afterwards as
  it was; the start time of the oscillator in the other (\<open>RTC_CNTL_TIMER1\<close>) is
  not, it is 5 when the oscillator was on and 20 when it was off, whatever it was before,
  and the rest of that register is unchanged.
\<close>

lemma c2_crystal_detected:
  assumes "c2_detected_crystal_freq w = Some (f, w')"
    and pl: "plain w (Mmio c2_RTC_CNTL_CLK_CONF_REG)" "plain w (Mmio c2_RTC_CNTL_TIMER1_REG)"
  shows "(\<exists>es. w' = after w es \<and>
      f = (if \<exists>v\<in>set (seen (c2_TIMG_RTCCALICFG1_REG 0) es).
              0 < drop_bit c2_TIMG_RTC_CALI_VALUE_S v AND c2_TIMG_RTC_CALI_VALUE_V \<and>
              drop_bit c2_TIMG_RTC_CALI_VALUE_S v AND c2_TIMG_RTC_CALI_VALUE_V \<le> 4827
           then 26000000 else 40000000)) \<and>
    peek (Mmio c2_RTC_CNTL_CLK_CONF_REG) w' = peek (Mmio c2_RTC_CNTL_CLK_CONF_REG) w \<and>
    peek (Mmio c2_RTC_CNTL_TIMER1_REG) w' =
      peek (Mmio c2_RTC_CNTL_TIMER1_REG) w AND NOT (push_bit c2_RTC_CNTL_CK8M_WAIT_S c2_RTC_CNTL_CK8M_WAIT_V) OR
      push_bit c2_RTC_CNTL_CK8M_WAIT_S (if peek (Mmio c2_RTC_CNTL_CLK_CONF_REG) w AND c2_RTC_CNTL_ENB_CK8M = 0 then 5 else 20)"
  using c2_count_decides [OF assms(1)] c2_clock_kept [OF assms(1,2)] c2_wait_kept [OF assms] by (intro conjI)

text \<open>
  A timer that is ready with a count of 4000, and a register file otherwise.
\<close>

definition c2_world :: world where
  "c2_world =
     \<lparr>rd_dev = \<lambda>es c.
        if c = Mmio (c2_TIMG_RTCCALICFG_REG 0) then c2_TIMG_RTC_CALI_RDY
        else if c = Mmio (c2_TIMG_RTCCALICFG1_REG 0) then push_bit 7 4000
        else regfile 0x40 es c,
      rom_dev = \<lambda>_ _ _ _. (0, []), mem_dev = \<lambda>_ _ n. replicate n 0, sym_addr = \<lambda>_. 0, trace = []\<rparr>"

lemma c2_world_plain: "plain c2_world (Mmio c2_RTC_CNTL_CLK_CONF_REG)" "plain c2_world (Mmio c2_RTC_CNTL_TIMER1_REG)"
proof -
  have "plain c2_world (Mmio r)"
    if "r \<noteq> c2_TIMG_RTCCALICFG_REG 0" "r \<noteq> c2_TIMG_RTCCALICFG1_REG 0" for r
  proof -
    have "plain (c2_world\<lparr>rd_dev := regfile 0x40\<rparr>) (Mmio r)"
      by (rule regfile_plain [of _ "0x40"]) simp
    moreover have "rd_dev c2_world es (Mmio r) = rd_dev (c2_world\<lparr>rd_dev := regfile 0x40\<rparr>) es (Mmio r)" for es
      using that by (simp add: c2_world_def)
    ultimately show ?thesis by (simp add: plain_def)
  qed
  then show "plain c2_world (Mmio c2_RTC_CNTL_CLK_CONF_REG)" "plain c2_world (Mmio c2_RTC_CNTL_TIMER1_REG)"
    using c2_ne(3,7,6,9) by metis+
qed

lemma c2_crystal_detected_witness:
  "\<exists>w'. c2_detected_crystal_freq c2_world = Some (26000000, w') \<and>
     peek (Mmio c2_RTC_CNTL_CLK_CONF_REG) w' = 0x40 \<and> peek (Mmio c2_RTC_CNTL_TIMER1_REG) w' = 0x500"
proof -
  have rd: "peek (Mmio (c2_TIMG_RTCCALICFG_REG 0)) u = c2_TIMG_RTC_CALI_RDY"
    "peek (Mmio (c2_TIMG_RTCCALICFG1_REG 0)) u = push_bit 7 4000" if "rd_dev u = rd_dev c2_world" for u :: world
    using that c2_ne(1) [symmetric] by (simp_all add: peek_def c2_world_def)
  have dev: "rd_dev (REG_SET_BIT r b u) = rd_dev u" "rd_dev (REG_CLR_BIT r b u) = rd_dev u"
    "rd_dev (REG_SET_FIELD r fV fS x u) = rd_dev u" "rd_dev (rom_void g a d u) = rd_dev u"
    for r b fV x a d and g :: rom_fn and fS and u :: world by (simp_all add: rmw_eq rom_eq)
  have no_cycling: "c2_TIMG_RTC_CALI_RDY AND c2_TIMG_RTC_CALI_START_CYCLING = 0" "c2_TIMG_RTC_CALI_RDY \<noteq> 0"
    by (simp_all add: regs)
  have s: "\<exists>v. c2_start_measuring u = Some v \<and> rd_dev v = rd_dev c2_world" if "rd_dev u = rd_dev c2_world" for u :: world
    using that by (simp add: c2_start_measuring_def peri_eq REG_READ_eq rd no_cycling dev Let_def)
  have m: "\<exists>v. c2_wait_measured u = Some (4000, v)" if "rd_dev u = rd_dev c2_world" for u :: world
    using that
    by (subst c2_wait_measured.simps) (simp add: peri_eq REG_READ_eq REG_GET_eq rd no_cycling, simp add: regs)
  obtain x where x: "rd_dev x = rd_dev c2_world" "c2_detected_crystal_freq c2_world = do {
      w \<leftarrow> c2_start_measuring x; (cal_val, w) \<leftarrow> c2_wait_measured w;
      let w = CLEAR_PERI_REG_MASK (c2_TIMG_RTCCALICFG_REG 0) c2_TIMG_RTC_CALI_START w;
      let w = c2_restore_clk_conf (peek (Mmio c2_RTC_CNTL_CLK_CONF_REG) (REG_CLR_BIT c2_SYSTEM_PERIP_RST_EN0_REG
        c2_SYSTEM_TIMERGROUP_RST (REG_SET_BIT c2_SYSTEM_PERIP_CLK_EN0_REG c2_SYSTEM_TIMERGROUP_CLK_EN c2_world))) w;
      Some (c2_xtal_of cal_val, w) }"
    by (rule that) (simp_all add: c2_detected_crystal_freq_def Let_def peri_eq REG_READ_eq c2_enable_rc_fast_def dev)
  obtain y where y: "c2_start_measuring x = Some y" "rd_dev y = rd_dev c2_world" using s [OF x(1)] by blast
  obtain z where z: "c2_wait_measured y = Some (4000, z)" using m [OF y(2)] by blast
  obtain w' where d: "c2_detected_crystal_freq c2_world = Some (26000000, w')"
    unfolding x(2) by (simp add: y(1) z c2_xtal_of_eq MHZ_def)
  have k: "peek (Mmio c2_RTC_CNTL_CLK_CONF_REG) c2_world = 0x40" "peek (Mmio c2_RTC_CNTL_TIMER1_REG) c2_world = 0x40"
    using c2_ne(3,7,6,9) [symmetric] by (simp_all add: peek_def c2_world_def regfile_def)
  have "(0x40 :: u32) AND NOT (push_bit c2_RTC_CNTL_CK8M_WAIT_S c2_RTC_CNTL_CK8M_WAIT_V) OR
      push_bit c2_RTC_CNTL_CK8M_WAIT_S (if 0x40 AND c2_RTC_CNTL_ENB_CK8M = 0 then 5 else 20) = 0x500"
    by (simp add: regs)
  with d c2_crystal_detected [OF d c2_world_plain] k show ?thesis by simp
qed

end
