(* ===== verification/Chip_Returns.thy ===== *)
theory Chip_Returns
  imports Chip_Encrypt
begin

text \<open>
  Every request of the flash API is answered. The library waits for its flash controller in
  bare loops, so it can hang when the controller does; the locale \<open>answering\<close> is what the API
  needs of a target instead: in a state where the controller comes to rest, every operation of
  the target returns in such a state. Each of the fourteen linked targets provides it.
\<close>

section \<open>Returning in a good state\<close>

text \<open>x returns, and in a state that satisfies I.\<close>

definition ends :: "('w \<Rightarrow> bool) \<Rightarrow> ('r \<Rightarrow> 'w) \<Rightarrow> 'r option \<Rightarrow> bool" where
  "ends I f x \<longleftrightarrow> (\<exists>r. x = Some r \<and> I (f r))"

abbreviation end_w :: "('w \<Rightarrow> bool) \<Rightarrow> 'w option \<Rightarrow> bool" where
  "end_w I \<equiv> ends I (\<lambda>w. w)"

abbreviation end_r :: "('w \<Rightarrow> bool) \<Rightarrow> ('r \<times> 'w) option \<Rightarrow> bool" where
  "end_r I \<equiv> ends I snd"

lemma ends_Some [simp]: "ends I f (Some r) \<longleftrightarrow> I (f r)"
  by (simp add: ends_def)

lemma ends_bind: "ends I f x \<Longrightarrow> (\<And>r. x = Some r \<Longrightarrow> I (f r) \<Longrightarrow> ends I g (h r)) \<Longrightarrow> ends I g (Option.bind x h)"
  by (auto simp: ends_def)

lemmas ends_bind_w = ends_bind [where f = "\<lambda>w. w"]
lemmas ends_bind_r = ends_bind [where f = snd]

lemma ends_map: "end_r I x \<Longrightarrow> end_w I (map_option snd x)"
  by (auto simp: ends_def)

lemma ends_returns: "ends I f x \<Longrightarrow> x \<noteq> None"
  by (auto simp: ends_def)

lemma endsE:
  assumes "end_r I x"
  obtains r w where "x = Some (r, w)" "I w"
  using assms by (auto simp: ends_def)

section \<open>The API over a target that answers\<close>

locale answering =
  fixes T :: "('s, 'a) ftarget" and I :: "'a flash_world_scheme \<Rightarrow> bool"
  assumes keeps: "I w \<Longrightarrow> I (after w es)"
    and busy: "I w \<Longrightarrow> end_r I (t_is_busy T w)"
    and write_enable: "I w \<Longrightarrow> end_w I (t_write_enable T w)"
    and unlock: "I w \<Longrightarrow> end_r I (t_unlock T w)"
    and encrypted_enable: "I w \<Longrightarrow> end_w I (t_write_encrypted_enable T w)"
    and encrypted_disable: "I w \<Longrightarrow> end_w I (t_write_encrypted_disable T w)"
    and sector_start: "I w \<Longrightarrow> end_w I (t_erase_sector_start T a w)"
    and block_start: "I w \<Longrightarrow> end_w I (t_erase_block_start T a w)"
    and target_write: "I w \<Longrightarrow> end_r I (t_write_buff T a d n e w)"
    and target_read: "I w \<Longrightarrow> end_r I (t_read_buff T a n w)"
    and exec_cmd: "I w \<Longrightarrow> end_r I (t_opiflash_exec_cmd T p w)"
    and xts_init: "I w \<Longrightarrow> end_w I (t_aes_xts_init T w)"
    and xts_trigger: "I w \<Longrightarrow> end_w I (t_aes_xts_encrypt_trigger T a d n w)"
    and xts_wait: "I w \<Longrightarrow> end_r I (t_aes_xts_wait_data_ready T t w)"
    and xts_clear: "I w \<Longrightarrow> end_w I (t_aes_xts_clear T w)"
begin

lemma delay: "I w \<Longrightarrow> I (stub_lib_delay_us n w)"
  by (simp add: stub_lib_delay_us_eq keeps)

lemma wait_loop: "I w \<Longrightarrow> end_r I (wait_ready_loop T t e w)"
proof (induction "rounds_left t e" arbitrary: e w rule: less_induct)
  case less
  obtain b w1 where b: "t_is_busy T w = Some (b, w1)" "I w1" using busy [OF less(2)] by (rule endsE)
  show ?case
  proof (cases "b \<and> e + 1 < t")
    case True
    then show ?thesis
      using less(1) [OF rounds_left_less delay [OF b(2)]] b by (subst wait_ready_loop.simps) (simp add: Let_def)
  next
    case False
    then show ?thesis using b delay by (subst wait_ready_loop.simps) (auto simp: Let_def)
  qed
qed

lemma wait_ready: "I w \<Longrightarrow> end_r I (stub_lib_flash_wait_ready T t w)"
  by (simp add: stub_lib_flash_wait_ready_def wait_loop)

lemma exec_4b:
  "I w \<Longrightarrow> end_w I (exec_write_cmd_4b T n a d' l w)"
  "I w \<Longrightarrow> end_r I (exec_read_cmd_4b T n a l w)"
  "I w \<Longrightarrow> end_w I (exec_erase_cmd_4b T n a c w)"
  by (simp_all add: exec_cmd exec_write_cmd_4b_def exec_read_cmd_4b_def exec_erase_cmd_4b_def ends_map)

lemmas operations = busy write_enable unlock encrypted_enable encrypted_disable sector_start block_start
  target_write target_read xts_init xts_trigger xts_wait xts_clear wait_ready exec_4b

lemmas steps = ends_bind_w ends_bind_r operations

lemma plain_write_loop: "I w \<Longrightarrow> end_r I (write_loop_unencrypted T n t a d sz w)"
proof (induction "unat sz" arbitrary: a d sz w rule: less_induct)
  case less
  define c where "c = get_write_chunk_size_unencrypted sz (STUB_FLASH_PAGE_SIZE - a mod STUB_FLASH_PAGE_SIZE)"
  have "end_r I (write_loop_unencrypted T n t (a + c) (drop (unat c) d) (sz - c) v)" if "sz > 0" "I v" for v
    by (rule less(1) [OF _ that(2)])
      (use that(1) chunk_pos_le [of sz a, folded c_def] in \<open>simp add: word_gt_0 unat_gt_0\<close>)
  then show ?case
    using less(2) by (subst write_loop_unencrypted.simps)
      (auto simp: Let_def c_def [symmetric] intro!: steps split: prod.splits)
qed

lemma encrypted_write_loop:
  "I w \<Longrightarrow> 16 dvd unat a \<Longrightarrow> 16 dvd unat sz \<Longrightarrow> end_r I (write_loop_encrypted T n t a d sz w)"
proof (induction "unat sz" arbitrary: a d sz w rule: less_induct)
  case less
  show ?case
  proof (cases "sz > 0")
    case False
    then show ?thesis using less(2) by (subst write_loop_encrypted.simps) simp
  next
    case True
    then have "sz \<noteq> 0" by auto
    note c = block_size_cases [OF less(3,4) this]
    show ?thesis
      using True less(1) [OF c(7) _ c(5,6)] less(2)
      by (subst write_loop_encrypted.simps) (auto simp: Let_def intro!: steps split: prod.splits)
  qed
qed

lemma read_loop: "I w \<Longrightarrow> end_r I (read_loop_4b T n a sz w)"
proof (induction "unat sz" arbitrary: a sz w rule: less_induct)
  case less
  define c where "c = (if sz > 16 then 16 else sz)"
  have "end_r I (read_loop_4b T n (a + c) (sz - c) v)" if "sz > 0" "I v" for v
    by (rule less(1) [OF _ that(2)])
      (use that(1) in \<open>auto simp: c_def word_gt_0 unat_gt_0 word_less_nat_alt unat_diff word_le_nat_alt\<close>)
  then show ?case
    using less(2) by (subst read_loop_4b.simps)
      (auto simp: Let_def c_def [symmetric] intro!: steps split: prod.splits)
qed

lemma start_next_erase:
  assumes "I w"
  obtains r a' s' w' where
    "stub_lib_flash_start_next_erase T (Some a) (Some sz) t w = Some (r, Some a', Some s', w')" "I w'"
proof -
  have "ends I (\<lambda>(r, a', s', w'). w') (stub_lib_flash_start_next_erase T (Some a) (Some sz) t w)"
    using assms
    by (auto simp: stub_lib_flash_start_next_erase_def Let_def erase_start_4b_def
        stub_target_flash_4byte_erase_block_start_def stub_target_flash_4byte_erase_sector_start_def
        intro!: steps split: prod.splits)
  then obtain r a' s' w' where
    st: "stub_lib_flash_start_next_erase T (Some a) (Some sz) t w = Some (r, a', s', w')" "I w'"
    by (auto simp: ends_def)
  moreover have "a' \<noteq> None \<and> s' \<noteq> None"
    using st(1) by (auto simp: stub_lib_flash_start_next_erase_def Let_def bind_eq_Some_conv split: if_splits)
  ultimately show thesis using that by auto
qed

lemma erase_loop: "I w \<Longrightarrow> end_r I (erase_area_loop T a sz w)"
proof (induction "unat sz" arbitrary: a sz w rule: less_induct)
  case less
  obtain r a' s' w' where
    st: "stub_lib_flash_start_next_erase T (Some a) (Some sz) STUB_FLASH_ERASE_TIMEOUT_US w = Some (r, Some a', Some s', w')"
    and w': "I w'" using less(2) by (rule start_next_erase)
  have "unat s' < unat sz" if "r = STUB_LIB_OK" "sz > 0"
    using start_next_erase_decreases [OF st [unfolded that(1)]] that(2) by (auto simp: word_gt_0)
  then show ?case using less st w' by (subst erase_area_loop.simps) auto
qed

lemma any_write_buff:
  "I w \<Longrightarrow> \<not> e \<or> 16 dvd unat a \<and> 16 dvd unat sz \<Longrightarrow> end_r I (flash_write_buff T a d sz e w)"
  by (auto simp: flash_write_buff_def stub_target_flash_4byte_write_def Let_def
      stub_target_flash_4byte_write_unencrypted_def stub_target_flash_4byte_write_encrypted_def IS_ALIGNED_16
      intro!: steps plain_write_loop encrypted_write_loop split: prod.splits)

lemma partial_word_write: "I w \<Longrightarrow> end_r I (flash_write_partial_word T a d n k w)"
  by (simp add: flash_write_partial_word_def any_write_buff)

lemma write_answers: "I w \<Longrightarrow> end_r I (stub_lib_flash_write_buff T a d sz e w)"
  by (auto simp: stub_lib_flash_write_buff_def Let_def IS_ALIGNED_16 split_beta
      intro!: any_write_buff partial_word_write ends_bind_w ends_bind_r
        ends_bind [where f = "\<lambda>r. snd (snd (snd (snd r)))"])

lemma read_answers: "I w \<Longrightarrow> end_r I (stub_lib_flash_read_buff T a sz w)"
  by (auto simp: stub_lib_flash_read_buff_def stub_target_flash_4byte_read_def Let_def
      intro!: steps read_loop split: prod.splits)

lemma erase_answers: "I w \<Longrightarrow> end_r I (stub_lib_flash_erase_area T a sz w)"
  by (auto simp: stub_lib_flash_erase_area_def intro!: steps erase_loop split: prod.splits)

end

section \<open>A controller that comes to rest\<close>

text \<open>
  A register comes to rest when, whatever happened before, it no longer satisfies C once it
  has been read often enough. Then the bare waits on it return.
\<close>

definition rests :: "u32 \<Rightarrow> (u32 \<Rightarrow> bool) \<Rightarrow> 'a world_scheme \<Rightarrow> bool" where
  "rests r C w \<longleftrightarrow> (\<forall>es. \<exists>n. \<forall>k\<ge>n. \<not> C (peek (Mmio r) (reads_of_reg k r (after w es))))"

lemma rests_after [simp]: "rests r C w \<Longrightarrow> rests r C (after w es)"
  by (auto simp: rests_def)

lemma rests_mono: "rests r C w \<Longrightarrow> (\<And>v. D v \<Longrightarrow> C v) \<Longrightarrow> rests r D w"
  unfolding rests_def by meson

lemma rests_settles: "rests r C w \<Longrightarrow> settles r C w"
  unfolding rests_def settles_def by blast

lemma busy_wait_rests: "rests r C w \<Longrightarrow> end_w (evs w) (busy_wait r C w)"
proof -
  assume "rests r C w"
  from busy_wait_settles [OF rests_settles [OF this]] obtain es where "busy_wait r C w = Some (after w es)" by blast
  then show ?thesis by (simp add: evs_after evs_refl)
qed

lemma busy_wait_either_unfold:
  "busy_wait_either r C D w =
     (let u = after w [Rd (Mmio r) (peek (Mmio r) w)]; v = after u [Rd (Mmio r) (peek (Mmio r) u)]
      in if C (peek (Mmio r) w) then busy_wait_either r C D u
         else if D (peek (Mmio r) u) then busy_wait_either r C D v else Some v)"
  by (subst busy_wait_either.simps) (simp add: REG_READ_eq Let_def)

lemma busy_wait_either_rests:
  assumes "rests r (\<lambda>v. C v \<or> D v) w"
  shows "end_w (evs w) (busy_wait_either r C D w)"
proof -
  define next_w where "next_w u = after u [Rd (Mmio r) (peek (Mmio r) u)]" for u :: "'a world_scheme"
  define idle where "idle n u \<longleftrightarrow> (\<forall>k\<ge>n. \<not> (C (peek (Mmio r) (reads_of_reg k r u)) \<or> D (peek (Mmio r) (reads_of_reg k r u))))"
    for n and u :: "'a world_scheme"
  have later: "idle n (next_w u)" if "idle (Suc n) u" for n u
    unfolding idle_def
  proof (intro allI impI)
    fix k assume "n \<le> k"
    then show "\<not> (C (peek (Mmio r) (reads_of_reg k r (next_w u))) \<or> D (peek (Mmio r) (reads_of_reg k r (next_w u))))"
      using that [unfolded idle_def, rule_format, of "Suc k"] by (simp add: next_w_def)
  qed
  have weaken: "idle (Suc n) u" if "idle n u" for n u
    using that by (simp add: idle_def)
  have step: "busy_wait_either r C D u =
      (if C (peek (Mmio r) u) then busy_wait_either r C D (next_w u)
       else if D (peek (Mmio r) (next_w u)) then busy_wait_either r C D (next_w (next_w u))
       else Some (next_w (next_w u)))" for u
    by (subst busy_wait_either_unfold) (simp add: next_w_def Let_def)
  have "\<exists>w'. busy_wait_either r C D u = Some w'" if "idle n u" for n u
    using that
  proof (induction n arbitrary: u)
    case 0
    from 0 [unfolded idle_def, rule_format, of 0] 0 [unfolded idle_def, rule_format, of 1]
    have "\<not> C (peek (Mmio r) u)" "\<not> D (peek (Mmio r) (next_w u))" by (simp_all add: next_w_def)
    then show ?case by (subst step) simp
  next
    case (Suc n)
    from Suc.IH [OF later [OF Suc.prems]] Suc.IH [OF later [OF weaken [OF later [OF Suc.prems]]]]
    show ?case by (subst step) simp
  qed
  then have "\<exists>w'. busy_wait_either r C D u = Some w'" if "\<exists>n. idle n u" for u using that by blast
  then obtain w' where w': "busy_wait_either r C D w = Some w'"
    using assms [unfolded rests_def, rule_format, of "[]"] by (auto simp: idle_def)
  then have "evs w w'"
    unfolding evs_def by (rule emits_mono [OF busy_wait_either_result]) simp
  then show ?thesis by (simp add: w')
qed

section \<open>The fourteen targets\<close>

text \<open>
  What the chips' waits rest on: the command register of the controller the flash is on, with
  all its commands and busy flags, and on some chips flags of other registers.
\<close>

definition at_rest :: "flash_soc \<Rightarrow> (u32 \<times> (u32 \<Rightarrow> bool)) list \<Rightarrow> 'a world_scheme \<Rightarrow> bool" where
  "at_rest S others w \<longleftrightarrow> rests (cmd_reg S) (\<lambda>v. v \<noteq> 0) w \<and> (\<forall>(r, C)\<in>set others. rests r C w)"

lemma at_rest_after: "at_rest S others w \<Longrightarrow> at_rest S others (after w es)"
  by (auto simp: at_rest_def)

lemma at_rest_evs: "at_rest S others w \<Longrightarrow> evs w w' \<Longrightarrow> at_rest S others w'"
  unfolding evs_def by (auto elim!: emitsE intro: at_rest_after)

lemma ends_evs:
  assumes "at_rest S others w"
  shows "end_w (evs w) x \<Longrightarrow> end_w (at_rest S others) x" "end_r (evs w) y \<Longrightarrow> end_r (at_rest S others) y"
  using at_rest_evs [OF assms] by (auto simp: ends_def)

lemma field_set_0 [simp]: "\<not> field_set fV fS 0"
  by (simp add: field_set_def)

text \<open>The operations that no chip overrides with one that waits.\<close>

lemma generic_evs:
  "end_w (evs w) (stub_target_flash_write_enable w)"
  "end_r (evs w) (stub_target_flash_unlock w)"
  "end_w (evs w) (stub_target_flash_write_encrypted_enable w)"
  "end_w (evs w) (stub_target_flash_write_encrypted_disable w)"
  "end_r (evs w) (stub_target_flash_write_buff a d n e w)"
  "end_r (evs w) (stub_target_flash_read_buff a n w)"
  by (simp_all add: stub_target_flash_write_enable_def stub_target_flash_unlock_def
      stub_target_flash_write_encrypted_enable_def stub_target_flash_write_encrypted_disable_def
      stub_target_flash_write_buff_def stub_target_flash_read_buff_def prim_eq evs_after evs_refl split_beta)

lemma target_answers:
  fixes T :: "('s, 'a) ftarget"
  assumes link: "t_is_busy T = stub_target_flash_is_busy S sw" "t_write_enable T = we"
      "t_erase_sector_start T = stub_target_flash_erase_sector_start S we sw"
      "t_erase_block_start T = stub_target_flash_erase_block_start S we sw"
      "t_read_buff T = stub_target_flash_read_buff" "t_unlock T = stub_target_flash_unlock"
    and wait: "\<And>w. at_rest S others w \<Longrightarrow> end_w (evs w) (sw w)"
    and wren: "\<And>w. at_rest S others w \<Longrightarrow> end_w (evs w) (we w)"
    and ops: "\<And>w. end_w (evs w) (t_write_encrypted_enable T w)"
      "\<And>w. end_w (evs w) (t_write_encrypted_disable T w)"
      "\<And>a d n e w. end_r (evs w) (t_write_buff T a d n e w)"
      "\<And>p w. end_r (evs w) (t_opiflash_exec_cmd T p w)" "\<And>w. end_w (evs w) (t_aes_xts_init T w)"
      "\<And>a d n w. end_w (evs w) (t_aes_xts_encrypt_trigger T a d n w)"
      "\<And>t w. end_r (evs w) (t_aes_xts_wait_data_ready T t w)" "\<And>w. end_w (evs w) (t_aes_xts_clear T w)"
  shows "answering T (at_rest S others)"
proof -
  let ?I = "at_rest S others :: 'a flash_world_scheme \<Rightarrow> bool"
  have cmd: "end_w ?I (busy_wait (cmd_reg S) (\<lambda>v. v \<noteq> 0) w)" if "?I w" for w
    by (rule ends_evs(1) [OF that busy_wait_rests]) (use that in \<open>simp add: at_rest_def\<close>)
  have sw: "end_w ?I (sw w)" and we: "end_w ?I (we w)" if "?I w" for w
    using ends_evs [OF that] wait [OF that] wren [OF that] by blast+
  show ?thesis
  proof (unfold_locales, goal_cases)
    case (2 w)
    then show ?case
      unfolding link stub_target_flash_is_busy_def Let_def
      by (intro ends_bind_w [OF sw] ends_bind_w [OF cmd]) (auto simp: prim_eq at_rest_after)
  next
    case (7 w a)
    then show ?case
      unfolding link stub_target_flash_erase_sector_start_def Let_def
      by (intro ends_bind_w [OF sw] ends_bind_w [OF we] cmd) (auto simp: prim_eq at_rest_after)
  next
    case (8 w a)
    then show ?case
      unfolding link stub_target_flash_erase_block_start_def Let_def
      by (intro ends_bind_w [OF sw] ends_bind_w [OF we] cmd) (auto simp: prim_eq at_rest_after)
  qed (auto simp: at_rest_after link intro: we ends_evs ops generic_evs)
qed

lemma evs_bind:
  "end_w (evs w) x \<Longrightarrow> (\<And>u. evs w u \<Longrightarrow> end_w (evs u) (f u)) \<Longrightarrow> end_w (evs w) (Option.bind x f)"
  by (auto simp: ends_def) (meson evs_trans)

lemma flag_wait:
  "at_rest S others w \<Longrightarrow> (r, C) \<in> set others \<Longrightarrow> end_w (evs w) (busy_wait r C w)"
  by (rule busy_wait_rests) (auto simp: at_rest_def)

lemma cmd_wait_ends:
  "at_rest S others w \<Longrightarrow> r = cmd_reg S \<Longrightarrow> \<not> C 0 \<Longrightarrow> end_w (evs w) (busy_wait r C w)"
  by (rule busy_wait_rests, rule rests_mono [where C = "\<lambda>v. v \<noteq> 0"]) (auto simp: at_rest_def)

lemma cmd_wait_either:
  "at_rest S others w \<Longrightarrow> r = cmd_reg S \<Longrightarrow> \<not> C 0 \<Longrightarrow> \<not> D 0 \<Longrightarrow> end_w (evs w) (busy_wait_either r C D w)"
  by (rule busy_wait_either_rests, rule rests_mono [where C = "\<lambda>v. v \<noteq> 0"]) (auto simp: at_rest_def)

definition esp8266_flags :: "(u32 \<times> (u32 \<Rightarrow> bool)) list" where
  "esp8266_flags = [(esp8266_SPI_EXT2_REG, field_set esp8266_SPI_ST_V esp8266_SPI_ST_S)]"

definition esp32_flags :: "(u32 \<times> (u32 \<Rightarrow> bool)) list" where
  "esp32_flags = [(esp32_SPI_EXT2_REG FLASH_SPI_NUM, field_set esp32_SPI_ST_V esp32_SPI_ST_S)]"

definition s2_flags :: "(u32 \<times> (u32 \<Rightarrow> bool)) list" where
  "s2_flags = [(s2_SPI_MEM_FSM_REG FLASH_SPI_NUM, \<lambda>v. v AND s2_SPI_MEM_ST \<noteq> 0),
     (s2_SPI_MEM_FSM_REG FLASH_SPI_NUM_INT, \<lambda>v. v AND s2_SPI_MEM_ST \<noteq> 0)]"

definition s3_flags :: "(u32 \<times> (u32 \<Rightarrow> bool)) list" where
  "s3_flags = [(SPI_MEM_FSM_REG FLASH_SPI_NUM, field_set SPI_MEM_ST_V SPI_MEM_ST_S),
     (SPI_MEM_FSM_REG FLASH_SPI_NUM_INT, \<lambda>v. v AND SPI_MEM_ST \<noteq> 0)]"

definition c3_flags :: "(u32 \<times> (u32 \<Rightarrow> bool)) list" where
  "c3_flags = [(c3_SPI_MEM_FSM_REG c3_SPI_INTERNAL, field_set c3_SPI_MEM_EM_ST_V c3_SPI_MEM_EM_ST_S)]"

lemma waits_answer:
  "at_rest esp8266_flash_soc esp8266_flags w \<Longrightarrow> end_w (evs w) (esp8266_spi_wait_ready w)"
  "at_rest esp32_flash_soc esp32_flags w \<Longrightarrow> end_w (evs w) (esp32_spi_wait_ready w)"
  "at_rest s2_flash_soc s2_flags w \<Longrightarrow> end_w (evs w) (s2_spi_wait_ready w)"
  "at_rest s3_flash_soc s3_flags w \<Longrightarrow> end_w (evs w) (s3_spi_wait_ready w)"
  "at_rest c2_flash_soc [] w \<Longrightarrow> end_w (evs w) (c2_spi_wait_ready w)"
  "at_rest c3_flash_soc c3_flags w \<Longrightarrow> end_w (evs w) (c3_spi_wait_ready w)"
  "at_rest c5_flash_soc [] w \<Longrightarrow> end_w (evs w) (c5_spi_wait_ready w)"
  unfolding esp8266_spi_wait_ready_def esp32_spi_wait_ready_def s2_spi_wait_ready_def s3_spi_wait_ready_def
    c2_spi_wait_ready_def c3_spi_wait_ready_def c5_spi_wait_ready_def field_set_def [symmetric]
  by (assumption | rule evs_bind flag_wait at_rest_evs cmd_wait_ends |
      (simp add: esp8266_flags_def esp32_flags_def s2_flags_def s3_flags_def c3_flags_def
         c2_flash_soc_def c3_flash_soc_def c5_flash_soc_def regs; fail))+

lemma either_waits_answer:
  "at_rest c6_flash_soc [] w \<Longrightarrow> end_w (evs w) (c6_spi_wait_ready w)"
  "at_rest c61_flash_soc [] w \<Longrightarrow> end_w (evs w) (c61_spi_wait_ready w)"
  "at_rest h2_flash_soc [] w \<Longrightarrow> end_w (evs w) (h2_spi_wait_ready w)"
  "at_rest h21_flash_soc [] w \<Longrightarrow> end_w (evs w) (h21_spi_wait_ready w)"
  "at_rest h4_flash_soc [] w \<Longrightarrow> end_w (evs w) (h4_spi_wait_ready w)"
  "at_rest p4_flash_soc [] w \<Longrightarrow> end_w (evs w) (p4_spi_wait_ready w)"
  "at_rest s31_flash_soc [] w \<Longrightarrow> end_w (evs w) (s31_spi_wait_ready w)"
  unfolding c6_spi_wait_ready_def c61_spi_wait_ready_def h2_spi_wait_ready_def h21_spi_wait_ready_def
    h4_spi_wait_ready_def p4_spi_wait_ready_def s31_spi_wait_ready_def
  by (erule cmd_wait_either; simp add: c6_flash_soc_def c61_flash_soc_def h2_flash_soc_def h21_flash_soc_def
      h4_flash_soc_def p4_flash_soc_def s31_flash_soc_def regs)+

lemma exec_evs:
  "end_r (evs w) (stub_target_opiflash_exec_cmd p w)" "end_r (evs w) (s3_opiflash_exec_cmd p w)"
  "end_r (evs w) (c5_opiflash_exec_cmd p w)" "end_r (evs w) (c61_opiflash_exec_cmd p w)"
  "end_r (evs w) (h4_opiflash_exec_cmd p w)" "end_r (evs w) (p4_opiflash_exec_cmd p w)"
  "end_r (evs w) (s31_opiflash_exec_cmd p w)"
  by (simp_all add: stub_target_opiflash_exec_cmd_def s3_opiflash_exec_cmd_def rom_opiflash_exec_cmd_def
      c5_opiflash_exec_cmd_def c61_opiflash_exec_cmd_def h4_opiflash_exec_cmd_def p4_opiflash_exec_cmd_def
      s31_opiflash_exec_cmd_def rom_exec_flash_cmd_def prim_eq split_beta evs_after evs_refl)

lemma wait_reg_state_evs: "evs w (snd (snd (stub_target_wait_reg_state r x t w)))"
  using wait_reg_state_quiet [of r x t w] unfolding evs_def by (metis emits_mono prod.collapse)

lemma two_waits_evs:
  "end_r (evs w) (let (ret, timeout_us, w) = stub_target_wait_reg_state r x t w
      in if ret \<noteq> STUB_LIB_OK then Some (ret, w)
         else (let w = REG_WRITE q 1 w; (ret, timeout_us, w) = stub_target_wait_reg_state r y timeout_us w
               in Some (ret, w)))"
proof -
  obtain r1 t1 w1 where w1: "stub_target_wait_reg_state r x t w = (r1, t1, w1)" by (metis prod_cases3)
  obtain r2 t2 w2 where w2: "stub_target_wait_reg_state r y t1 (after w1 [Wr (Mmio q) 1]) = (r2, t2, w2)"
    by (metis prod_cases3)
  have "evs w w1" "evs (after w1 [Wr (Mmio q) 1]) w2"
    using wait_reg_state_evs [of w r x t] wait_reg_state_evs [of "after w1 [Wr (Mmio q) 1]" r y t1] w1 w2 by simp_all
  then have "evs w w1" "evs w w2" by (blast intro: evs_trans evs_after)+
  then show ?thesis by (simp add: w1 w2 prim_eq)
qed

lemma xts_evs:
  "end_w (evs w) (s3_aes_xts_init w)" "end_w (evs w) (s3_aes_xts_encrypt_trigger a d n w)"
  "end_w (evs w) (s3_aes_xts_clear w)"
  "end_w (evs w) (c5_aes_xts_init w)" "end_w (evs w) (c5_aes_xts_encrypt_trigger a d n w)"
  "end_w (evs w) (c5_aes_xts_clear w)"
  "end_w (evs w) (c61_aes_xts_init w)" "end_w (evs w) (c61_aes_xts_encrypt_trigger a d n w)"
  "end_w (evs w) (c61_aes_xts_clear w)"
  "end_w (evs w) (h4_aes_xts_init w)" "end_w (evs w) (h4_aes_xts_encrypt_trigger a d n w)"
  "end_w (evs w) (h4_aes_xts_clear w)"
  "end_w (evs w) (p4_aes_xts_init w)" "end_w (evs w) (p4_aes_xts_encrypt_trigger a d n w)"
  "end_w (evs w) (p4_aes_xts_clear w)"
  "end_w (evs w) (s31_aes_xts_init w)" "end_w (evs w) (s31_aes_xts_encrypt_trigger a d n w)"
  "end_w (evs w) (s31_aes_xts_clear w)"
  "end_w (evs w) (stub_target_aes_xts_init w)" "end_w (evs w) (stub_target_aes_xts_encrypt_trigger a d n w)"
  "end_w (evs w) (stub_target_aes_xts_clear w)" "end_r (evs w) (stub_target_aes_xts_wait_data_ready t w)"
  by (simp_all add: s3_aes_xts_init_def s3_aes_xts_encrypt_trigger_def s3_aes_xts_clear_def
      c5_aes_xts_init_def c5_aes_xts_encrypt_trigger_def c5_aes_xts_clear_def
      c61_aes_xts_init_def c61_aes_xts_encrypt_trigger_def c61_aes_xts_clear_def
      h4_aes_xts_init_def h4_aes_xts_encrypt_trigger_def h4_aes_xts_clear_def
      p4_aes_xts_init_def p4_aes_xts_encrypt_trigger_def p4_aes_xts_clear_def
      s31_aes_xts_init_def s31_aes_xts_encrypt_trigger_def s31_aes_xts_clear_def
      stub_target_aes_xts_init_def stub_target_aes_xts_encrypt_trigger_def stub_target_aes_xts_clear_def
      stub_target_aes_xts_wait_data_ready_def prim_eq Let_def split_beta evs_after evs_refl)

lemma xts_wait_evs:
"end_r (evs w) (s3_aes_xts_wait_data_ready t w)"
 "end_r (evs w) (c5_aes_xts_wait_data_ready t w)"
 "end_r (evs w) (c61_aes_xts_wait_data_ready t w)"
 "end_r (evs w) (h4_aes_xts_wait_data_ready t w)"
 "end_r (evs w) (p4_aes_xts_wait_data_ready t w)"
 "end_r (evs w) (s31_aes_xts_wait_data_ready t w)"
  unfolding s3_aes_xts_wait_data_ready_def
    c5_aes_xts_wait_data_ready_def
    c61_aes_xts_wait_data_ready_def
    h4_aes_xts_wait_data_ready_def
    p4_aes_xts_wait_data_ready_def
    s31_aes_xts_wait_data_ready_def
  by (rule two_waits_evs)+

lemma esp8266_evs:
  "end_r (evs w) (esp8266_flash_write_buff a d n e w)" "end_w (evs w) (esp8266_flash_write_encrypted_enable w)"
  "end_w (evs w) (esp8266_flash_write_encrypted_disable w)"
  by (simp_all add: esp8266_flash_write_buff_def esp8266_flash_write_encrypted_enable_def
      esp8266_flash_write_encrypted_disable_def prim_eq evs_after evs_refl)

lemma esp8266_write_enable_answers:
  assumes "at_rest esp8266_flash_soc esp8266_flags w"
  shows "end_w (evs w) (esp8266_flash_write_enable w)"
proof -
  have "end_w (evs u) (busy_wait esp8266_SPI_CMD_REG (\<lambda>v. v \<noteq> 0) (REG_WRITE r x u))" if "evs w u" for u r x
  proof -
    have "evs u (REG_WRITE r x u)" by (simp add: prim_eq evs_after evs_refl)
    then have "end_w (evs (REG_WRITE r x u)) (busy_wait esp8266_SPI_CMD_REG (\<lambda>v. v \<noteq> 0) (REG_WRITE r x u))"
      by (intro cmd_wait_ends [OF at_rest_evs [OF assms evs_trans [OF that]]]) (simp_all add: esp8266_flash_soc_def regs)
    then show ?thesis using \<open>evs u _\<close> by (auto simp: ends_def intro: evs_trans)
  qed
  then show ?thesis
    unfolding esp8266_flash_write_enable_def Let_def by (intro evs_bind [OF waits_answer(1) [OF assms]])
qed

lemmas api_evs = generic_evs exec_evs xts_evs xts_wait_evs waits_answer either_waits_answer esp8266_evs
  esp8266_write_enable_answers

interpretation esp8266_api: answering esp8266_flash_target "at_rest esp8266_flash_soc esp8266_flags"
  by (rule target_answers [where sw = esp8266_spi_wait_ready and we = esp8266_flash_write_enable])
    (auto simp: esp8266_flash_target_def weak_flash_target_def intro: api_evs)

interpretation esp32_api: answering esp32_flash_target "at_rest esp32_flash_soc esp32_flags"
  by (rule target_answers [where sw = esp32_spi_wait_ready and we = stub_target_flash_write_enable])
    (auto simp: esp32_flash_target_def weak_flash_target_def intro: api_evs)

interpretation s2_api: answering s2_flash_target "at_rest s2_flash_soc s2_flags"
  by (rule target_answers [where sw = s2_spi_wait_ready and we = stub_target_flash_write_enable])
    (auto simp: s2_flash_target_def weak_flash_target_def intro: api_evs)

interpretation s3_api: answering s3_flash_target "at_rest s3_flash_soc s3_flags"
  by (rule target_answers [where sw = s3_spi_wait_ready and we = stub_target_flash_write_enable])
    (auto simp: s3_flash_target_def weak_flash_target_def intro: api_evs)

interpretation c2_api: answering c2_flash_target "at_rest c2_flash_soc []"
  by (rule target_answers [where sw = c2_spi_wait_ready and we = stub_target_flash_write_enable])
    (auto simp: c2_flash_target_def weak_flash_target_def intro: api_evs)

interpretation c3_api: answering c3_flash_target "at_rest c3_flash_soc c3_flags"
  by (rule target_answers [where sw = c3_spi_wait_ready and we = stub_target_flash_write_enable])
    (auto simp: c3_flash_target_def weak_flash_target_def intro: api_evs)

interpretation c5_api: answering c5_flash_target "at_rest c5_flash_soc []"
  by (rule target_answers [where sw = c5_spi_wait_ready and we = stub_target_flash_write_enable])
    (auto simp: c5_flash_target_def weak_flash_target_def intro: api_evs)

interpretation c6_api: answering c6_flash_target "at_rest c6_flash_soc []"
  by (rule target_answers [where sw = c6_spi_wait_ready and we = stub_target_flash_write_enable])
    (auto simp: c6_flash_target_def weak_flash_target_def intro: api_evs)

interpretation c61_api: answering c61_flash_target "at_rest c61_flash_soc []"
  by (rule target_answers [where sw = c61_spi_wait_ready and we = stub_target_flash_write_enable])
    (auto simp: c61_flash_target_def weak_flash_target_def intro: api_evs)

interpretation h2_api: answering h2_flash_target "at_rest h2_flash_soc []"
  by (rule target_answers [where sw = h2_spi_wait_ready and we = stub_target_flash_write_enable])
    (auto simp: h2_flash_target_def weak_flash_target_def intro: api_evs)

interpretation h21_api: answering h21_flash_target "at_rest h21_flash_soc []"
  by (rule target_answers [where sw = h21_spi_wait_ready and we = stub_target_flash_write_enable])
    (auto simp: h21_flash_target_def weak_flash_target_def intro: api_evs)

interpretation h4_api: answering h4_flash_target "at_rest h4_flash_soc []"
  by (rule target_answers [where sw = h4_spi_wait_ready and we = stub_target_flash_write_enable])
    (auto simp: h4_flash_target_def weak_flash_target_def intro: api_evs)

interpretation p4_api: answering p4_flash_target "at_rest p4_flash_soc []"
  by (rule target_answers [where sw = p4_spi_wait_ready and we = stub_target_flash_write_enable])
    (auto simp: p4_flash_target_def weak_flash_target_def intro: api_evs)

interpretation s31_api: answering s31_flash_target "at_rest s31_flash_soc []"
  by (rule target_answers [where sw = s31_spi_wait_ready and we = stub_target_flash_write_enable])
    (auto simp: s31_flash_target_def weak_flash_target_def intro: api_evs)

section \<open>Every request is answered\<close>

text \<open>In a state that satisfies I the write, read and erase functions of the API return, for any arguments.\<close>

definition answers :: "('s, 'a) ftarget \<Rightarrow> ('a flash_world_scheme \<Rightarrow> bool) \<Rightarrow> bool" where
  "answers T I \<longleftrightarrow> (\<forall>w. I w \<longrightarrow>
     (\<forall>a d sz e. stub_lib_flash_write_buff T a d sz e w \<noteq> None) \<and>
     (\<forall>a sz. stub_lib_flash_read_buff T a sz w \<noteq> None) \<and>
     (\<forall>a sz. stub_lib_flash_erase_area T a sz w \<noteq> None))"

context answering
begin

lemma api: "answers T I"
  unfolding answers_def
  by (blast dest: write_answers read_answers erase_answers ends_returns)

end

text \<open>
  C8: On each of the fourteen chips the write, read and erase functions of the API return,
  for any arguments and on every path, if the flash controller comes to rest: if its command
  register, read often enough, has no command and no busy flag left, and neither do the
  state registers that the ESP8266, ESP32, ESP32-S2, ESP32-S3 and ESP32-C3 poll as well.
  Only their bare waits for the controller can hang.
\<close>

lemma flash_api_returns:
  "answers esp8266_flash_target (at_rest esp8266_flash_soc esp8266_flags) \<and>
   answers esp32_flash_target (at_rest esp32_flash_soc esp32_flags) \<and>
   answers s2_flash_target (at_rest s2_flash_soc s2_flags) \<and>
   answers s3_flash_target (at_rest s3_flash_soc s3_flags) \<and>
   answers c2_flash_target (at_rest c2_flash_soc []) \<and>
   answers c3_flash_target (at_rest c3_flash_soc c3_flags) \<and>
   answers c5_flash_target (at_rest c5_flash_soc []) \<and>
   answers c6_flash_target (at_rest c6_flash_soc []) \<and>
   answers c61_flash_target (at_rest c61_flash_soc []) \<and>
   answers h2_flash_target (at_rest h2_flash_soc []) \<and>
   answers h21_flash_target (at_rest h21_flash_soc []) \<and>
   answers h4_flash_target (at_rest h4_flash_soc []) \<and>
   answers p4_flash_target (at_rest p4_flash_soc []) \<and>
   answers s31_flash_target (at_rest s31_flash_soc [])"
  by (intro conjI esp8266_api.api esp32_api.api s2_api.api s3_api.api c2_api.api c3_api.api c5_api.api c6_api.api c61_api.api h2_api.api h21_api.api h4_api.api p4_api.api s31_api.api)

text \<open>
  A controller that is busy for three reads after everything else: on the ESP32-C6 three bytes
  at an unaligned address are written, four bytes read and a sector erased.
\<close>

definition is_read :: "ev \<Rightarrow> bool" where
  "is_read e = (case e of Rd c v \<Rightarrow> True | _ \<Rightarrow> False)"

lemma is_read_Rd [simp]: "is_read (Rd c v)"
  by (simp add: is_read_def)

definition slow_world :: flash_world where
  "slow_world =
     \<lparr>rd_dev = \<lambda>es c. if length (takeWhile is_read (rev es)) < 3 then 0xFF else 0,
      rom_dev = \<lambda>_ _ _ _. (0, []), mem_dev = \<lambda>_ _ n. replicate n 0, sym_addr = \<lambda>_. 0, trace = [],
      large_flash_mode = False\<rparr>"

lemma reads_of_reg_reads:
  "n \<le> length (takeWhile is_read (rev (trace w))) \<Longrightarrow>
     n + k \<le> length (takeWhile is_read (rev (trace (reads_of_reg k r w))))"
proof (induction k arbitrary: n w)
  case (Suc k)
  let ?w = "after w [Rd (Mmio r) (peek (Mmio r) w)]"
  have "Suc n \<le> length (takeWhile is_read (rev (trace ?w)))" using Suc.prems by simp
  from Suc.IH [OF this] show ?case by simp
qed simp

lemma slow_world_rests: "rests r (\<lambda>v. v \<noteq> 0) slow_world"
  unfolding rests_def
proof (intro allI exI [of _ 3] impI)
  fix es and k :: nat assume "3 \<le> k"
  then have "3 \<le> length (takeWhile is_read (rev (trace (reads_of_reg k r (after slow_world es)))))"
    using reads_of_reg_reads [of 0 "after slow_world es" k r] by simp
  then show "\<not> peek (Mmio r) (reads_of_reg k r (after slow_world es)) \<noteq> 0"
    unfolding peek_def reads_of_reg_devs by (simp add: slow_world_def)
qed

lemma flash_api_returns_witness:
  "stub_lib_flash_write_buff (c6_flash_target :: (unit, unit) ftarget) 0x1001 [1, 2, 3] 3 False slow_world \<noteq> None \<and>
   stub_lib_flash_read_buff (c6_flash_target :: (unit, unit) ftarget) 0x1000 4 slow_world \<noteq> None \<and>
   stub_lib_flash_erase_area (c6_flash_target :: (unit, unit) ftarget) 0x1000 0x1000 slow_world \<noteq> None"
proof -
  have "at_rest c6_flash_soc [] slow_world" by (simp add: at_rest_def slow_world_rests)
  moreover have "answers (c6_flash_target :: (unit, unit) ftarget) (at_rest c6_flash_soc [])"
    using flash_api_returns by blast
  ultimately show ?thesis unfolding answers_def by blast
qed

end
