(* ===== verification/Nand.thy ===== *)
theory Nand
  imports Plain S3_Regs
begin

text \<open>
  SPI NAND flash, \<open>src/target/esp32s3/src/nand.c\<close>: the transactions of the SPI2
  controller, and on top of them the commands of the W25N01GV. The weak versions in
  \<open>src/target/common/src/nand.c\<close> answer that NAND is not supported.
\<close>

section \<open>Constants of target/nand.h\<close>

definition NAND_ERASE_TIMEOUT_US :: nat where "NAND_ERASE_TIMEOUT_US = 1000000"

definition NAND_CMD_SET_REGISTER :: u8 where [regs]: "NAND_CMD_SET_REGISTER = 0x1F"
definition NAND_CMD_READ_REGISTER :: u8 where [regs]: "NAND_CMD_READ_REGISTER = 0x0F"
definition NAND_CMD_WRITE_ENABLE :: u8 where [regs]: "NAND_CMD_WRITE_ENABLE = 0x06"
definition NAND_CMD_PAGE_READ :: u8 where [regs]: "NAND_CMD_PAGE_READ = 0x13"
definition NAND_CMD_PROGRAM_EXECUTE :: u8 where [regs]: "NAND_CMD_PROGRAM_EXECUTE = 0x10"
definition NAND_CMD_PROGRAM_LOAD :: u8 where [regs]: "NAND_CMD_PROGRAM_LOAD = 0x02"
definition NAND_CMD_PROGRAM_LOAD_RANDOM :: u8 where [regs]: "NAND_CMD_PROGRAM_LOAD_RANDOM = 0x84"
definition NAND_CMD_READ_FROM_CACHE :: u8 where [regs]: "NAND_CMD_READ_FROM_CACHE = 0x03"
definition NAND_CMD_ERASE_BLOCK :: u8 where [regs]: "NAND_CMD_ERASE_BLOCK = 0xD8"
definition NAND_CMD_READ_ID :: u8 where [regs]: "NAND_CMD_READ_ID = 0x9F"
definition NAND_CMD_RESET :: u8 where [regs]: "NAND_CMD_RESET = 0xFF"

definition NAND_REG_PROTECT :: u8 where [regs]: "NAND_REG_PROTECT = 0xA0"
definition NAND_REG_CONFIG :: u8 where [regs]: "NAND_REG_CONFIG = 0xB0"
definition NAND_REG_STATUS :: u8 where [regs]: "NAND_REG_STATUS = 0xC0"

definition NAND_CFG_BUF :: u8 where [regs]: "NAND_CFG_BUF = 0x08"
definition NAND_CFG_ECC_EN :: u8 where [regs]: "NAND_CFG_ECC_EN = 0x10"
definition NAND_STAT_BUSY :: u8 where [regs]: "NAND_STAT_BUSY = 0x01"
definition NAND_STAT_ERASE_FAILED :: u8 where [regs]: "NAND_STAT_ERASE_FAILED = 0x04"
definition NAND_STAT_PROGRAM_FAILED :: u8 where [regs]: "NAND_STAT_PROGRAM_FAILED = 0x08"
definition NAND_STAT_ECC_MASK :: u8 where [regs]: "NAND_STAT_ECC_MASK = 0x30"
definition NAND_STAT_ECC_UNCORR :: u8 where [regs]: "NAND_STAT_ECC_UNCORR = 0x20"

definition NAND_ERR_NOT_INITIALIZED :: rc where [rcs]: "NAND_ERR_NOT_INITIALIZED = -1"
definition NAND_ERR_ERASE_FAILED :: rc where [rcs]: "NAND_ERR_ERASE_FAILED = -2"
definition NAND_ERR_PROGRAM_FAILED :: rc where [rcs]: "NAND_ERR_PROGRAM_FAILED = -3"
definition NAND_ERR_ECC_UNCORRECTABLE :: rc where [rcs]: "NAND_ERR_ECC_UNCORRECTABLE = -4"
definition NAND_ERR_TIMEOUT :: rc where [rcs]: "NAND_ERR_TIMEOUT = -5"
definition NAND_ERR_PIN_INVALID :: rc where [rcs]: "NAND_ERR_PIN_INVALID = -10"
definition NAND_ERR_SPI_FAIL :: rc where [rcs]: "NAND_ERR_SPI_FAIL = -11"
definition NAND_ERR_PROTECTION :: rc where [rcs]: "NAND_ERR_PROTECTION = -50"
definition NAND_ERR_RESET_FAILED :: rc where [rcs]: "NAND_ERR_RESET_FAILED = -100"

definition HSPI_PIN_FIELD :: "u32 \<Rightarrow> nat \<Rightarrow> u8" where
  "HSPI_PIN_FIELD arg s = ucast (drop_bit s arg AND 0x3F)"

record nand_config =
  page_size :: u32
  pages_per_block :: u32
  block_size :: u32
  initialized :: bool

record nand_world = world +
  s_nand_config :: nand_config
  s_last_status_byte :: u8

section \<open>The weak versions for targets without NAND\<close>

definition stub_target_nand_attach :: "u32 \<Rightarrow> 'w \<Rightarrow> rc \<times> 'w" where
  "stub_target_nand_attach hspi_arg w = (STUB_LIB_ERR_NOT_SUPPORTED, w)"

definition stub_target_nand_read_bbm :: "u32 \<Rightarrow> 'w \<Rightarrow> (rc \<times> u8 list) \<times> 'w" where
  "stub_target_nand_read_bbm page_number w = ((STUB_LIB_ERR_NOT_SUPPORTED, []), w)"

definition stub_target_nand_write_bbm :: "u32 \<Rightarrow> u8 \<Rightarrow> 'w \<Rightarrow> rc \<times> 'w" where
  "stub_target_nand_write_bbm page_number is_bad w = (STUB_LIB_ERR_NOT_SUPPORTED, w)"

definition stub_target_nand_read_id :: "'w \<Rightarrow> (rc \<times> (u8 \<times> u16) option) \<times> 'w" where
  "stub_target_nand_read_id w = ((STUB_LIB_ERR_NOT_SUPPORTED, None), w)"

definition stub_target_nand_read_page :: "u32 \<Rightarrow> u32 \<Rightarrow> 'w \<Rightarrow> (rc \<times> u8 list) \<times> 'w" where
  "stub_target_nand_read_page page_number buf_size w = ((STUB_LIB_ERR_NOT_SUPPORTED, []), w)"

definition stub_target_nand_write_page :: "u32 \<Rightarrow> u8 list \<Rightarrow> u32 \<Rightarrow> 'w \<Rightarrow> rc \<times> 'w" where
  "stub_target_nand_write_page page_number buf buf_size w = (STUB_LIB_ERR_NOT_SUPPORTED, w)"

definition stub_target_nand_erase_block :: "u32 \<Rightarrow> 'w \<Rightarrow> rc \<times> 'w" where
  "stub_target_nand_erase_block page_number w = (STUB_LIB_ERR_NOT_SUPPORTED, w)"

definition stub_target_nand_get_page_size :: "'w \<Rightarrow> u32" where
  "stub_target_nand_get_page_size w = 0"

definition stub_target_nand_read_register :: "u8 \<Rightarrow> 'w \<Rightarrow> (rc \<times> u8 list) \<times> 'w" where
  "stub_target_nand_read_register r w = ((STUB_LIB_ERR_NOT_SUPPORTED, []), w)"

section \<open>The SPI2 transport\<close>

definition NAND_SPI_NUM :: u32 where [regs]: "NAND_SPI_NUM = 2"

definition PIN_MOSI :: u8 where "PIN_MOSI = 11"
definition PIN_MISO :: u8 where "PIN_MISO = 13"
definition PIN_CLK :: u8 where "PIN_CLK = 12"
definition PIN_CS :: u8 where "PIN_CS = 10"
definition PIN_WP :: u8 where "PIN_WP = 14"
definition PIN_HD :: u8 where "PIN_HD = 9"
definition SPI_BUSY_TIMEOUT_ITERS :: nat where "SPI_BUSY_TIMEOUT_ITERS = 100000"

definition gpio :: "gpio_fn \<Rightarrow> u32 list \<Rightarrow> 'a world_scheme \<Rightarrow> 'a world_scheme" where
  "gpio f args w = rom_void (GpioFn f) args [] w"

definition set_iomux_fspi :: "u32 \<Rightarrow> u8 \<Rightarrow> 'a world_scheme \<Rightarrow> 'a world_scheme" where
  "set_iomux_fspi iomux_reg gpio_num w =
     (let (v, w) = REG_READ iomux_reg w;
          w = REG_WRITE iomux_reg ((v AND NOT MCU_SEL_M) OR push_bit MCU_SEL_S 4) w;
          w = gpio Gpio_pad_input_enable [ucast gpio_num] w
      in gpio Gpio_pad_set_drv [ucast gpio_num, 2] w)"

definition matrix_pin :: "u8 \<Rightarrow> 'a world_scheme \<Rightarrow> 'a world_scheme" where
  "matrix_pin pin w =
     (let w = gpio Esp_rom_gpio_pad_select_gpio [ucast pin] w;
          w = gpio Gpio_pad_input_enable [ucast pin] w
      in gpio Gpio_pad_set_drv [ucast pin, 2] w)"

text \<open>The five pins in the order clk, q, d, cs, hd.\<close>

definition hspi_pins :: "u32 \<Rightarrow> u8 \<times> u8 \<times> u8 \<times> u8 \<times> u8" where
  "hspi_pins hspi_arg =
     (if hspi_arg = 0 then (PIN_CLK, PIN_MISO, PIN_MOSI, PIN_CS, PIN_HD)
      else (HSPI_PIN_FIELD hspi_arg 0, HSPI_PIN_FIELD hspi_arg 6, HSPI_PIN_FIELD hspi_arg 12,
            HSPI_PIN_FIELD hspi_arg 18, HSPI_PIN_FIELD hspi_arg 24))"

definition iomux_pins :: "u8 \<times> u8 \<times> u8 \<times> u8 \<times> u8 \<Rightarrow> 'a world_scheme \<Rightarrow> 'a world_scheme" where
  "iomux_pins pins w =
     (let (pin_clk, pin_q, pin_d, pin_cs, pin_hd) = pins;
          w = set_iomux_fspi PERIPHS_IO_MUX_GPIO11_U PIN_MOSI w;
          w = set_iomux_fspi PERIPHS_IO_MUX_GPIO13_U PIN_MISO w;
          w = set_iomux_fspi PERIPHS_IO_MUX_GPIO12_U PIN_CLK w;
          w = set_iomux_fspi PERIPHS_IO_MUX_GPIO10_U PIN_CS w;
          w = set_iomux_fspi PERIPHS_IO_MUX_GPIO14_U PIN_WP w;
          w = set_iomux_fspi PERIPHS_IO_MUX_GPIO9_U PIN_HD w;
          w = gpio Gpio_output_enable [ucast pin_d] w;
          w = gpio Gpio_output_enable [ucast pin_clk] w;
          w = gpio Gpio_output_enable [ucast pin_cs] w;
          w = gpio Gpio_output_enable [ucast PIN_WP] w;
          w = gpio Gpio_output_enable [ucast pin_hd] w
      in gpio Gpio_output_disable [ucast pin_q] w)"

definition matrix_pins :: "u8 \<times> u8 \<times> u8 \<times> u8 \<times> u8 \<Rightarrow> 'a world_scheme \<Rightarrow> 'a world_scheme" where
  "matrix_pins pins w =
     (let (pin_clk, pin_q, pin_d, pin_cs, pin_hd) = pins;
          w = fold matrix_pin [pin_clk, pin_q, pin_d, pin_cs, pin_hd, PIN_WP] w;
          w = gpio Esp_rom_gpio_connect_out_signal [ucast pin_clk, FSPICLK_OUT_IDX, 0, 0] w;
          w = gpio Esp_rom_gpio_connect_out_signal [ucast pin_d, FSPID_OUT_IDX, 0, 0] w;
          w = gpio Esp_rom_gpio_connect_out_signal [ucast pin_cs, FSPICS0_OUT_IDX, 0, 0] w;
          w = gpio Esp_rom_gpio_connect_in_signal [ucast pin_q, FSPIQ_IN_IDX, 0] w;
          w = gpio Esp_rom_gpio_connect_out_signal [ucast pin_hd, FSPIHD_OUT_IDX, 0, 0] w;
          w = gpio Esp_rom_gpio_connect_out_signal [ucast PIN_WP, FSPIWP_OUT_IDX, 0, 0] w;
          w = gpio Gpio_output_enable [ucast pin_clk] w;
          w = gpio Gpio_output_enable [ucast pin_d] w;
          w = gpio Gpio_output_enable [ucast pin_cs] w;
          w = gpio Gpio_output_enable [ucast pin_hd] w;
          w = gpio Gpio_output_enable [ucast PIN_WP] w
      in gpio Gpio_output_disable [ucast pin_q] w)"

text \<open>The register setup before the pins, and the clock and chip select timing after them.\<close>

definition spi_nand_setup :: "'a world_scheme \<Rightarrow> 'a world_scheme" where
  "spi_nand_setup w =
     (let w = REG_SET_BIT SYSTEM_PERIP_CLK_EN0_REG SYSTEM_SPI2_CLK_EN w;
          w = REG_SET_BIT SYSTEM_PERIP_RST_EN0_REG SYSTEM_SPI2_RST w;
          w = REG_CLR_BIT SYSTEM_PERIP_RST_EN0_REG SYSTEM_SPI2_RST w;
          w = REG_WRITE (SPI_CLK_GATE_REG NAND_SPI_NUM) (SPI_CLK_EN OR SPI_MST_CLK_ACTIVE OR SPI_MST_CLK_SEL) w;
          w = REG_WRITE (SPI_SLAVE_REG NAND_SPI_NUM) 0 w;
          w = REG_WRITE (SPI_USER_REG NAND_SPI_NUM) 0 w;
          w = REG_WRITE (SPI_USER1_REG NAND_SPI_NUM) 0 w;
          w = REG_WRITE (SPI_USER2_REG NAND_SPI_NUM) 0 w;
          w = REG_WRITE (SPI_CTRL_REG NAND_SPI_NUM) (SPI_WP_POL OR SPI_HOLD_POL) w;
          w = REG_WRITE (SPI_CLOCK_REG NAND_SPI_NUM) 0 w;
          w = REG_WRITE (SPI_MISC_REG NAND_SPI_NUM) 0 w;
          w = REG_WRITE (SPI_MS_DLEN_REG NAND_SPI_NUM) 0 w;
          w = REG_WRITE (SPI_DIN_MODE_REG NAND_SPI_NUM) 0 w;
          w = REG_WRITE (SPI_DIN_NUM_REG NAND_SPI_NUM) 0 w;
          w = REG_WRITE (SPI_DOUT_MODE_REG NAND_SPI_NUM) 0 w;
          w = REG_WRITE (SPI_DMA_CONF_REG NAND_SPI_NUM) 0 w;
          w = REG_SET_BIT (SPI_DMA_CONF_REG NAND_SPI_NUM) SPI_RX_AFIFO_RST w;
          w = REG_CLR_BIT (SPI_DMA_CONF_REG NAND_SPI_NUM) SPI_RX_AFIFO_RST w;
          w = REG_SET_BIT (SPI_DMA_CONF_REG NAND_SPI_NUM) SPI_BUF_AFIFO_RST w
      in REG_CLR_BIT (SPI_DMA_CONF_REG NAND_SPI_NUM) SPI_BUF_AFIFO_RST w)"

definition spi_nand_timing :: "'a world_scheme \<Rightarrow> 'a world_scheme" where
  "spi_nand_timing w =
     (let w = REG_WRITE (SPI_CLOCK_REG NAND_SPI_NUM) (push_bit SPI_CLKCNT_N_S 1 OR push_bit SPI_CLKCNT_L_S 1) w;
          w = REG_WRITE (SPI_MISC_REG NAND_SPI_NUM) 0 w;
          w = REG_WRITE (SPI_USER_REG NAND_SPI_NUM) (SPI_CS_SETUP OR SPI_CS_HOLD OR SPI_DOUTDIN) w;
          w = REG_SET_FIELD (SPI_USER1_REG NAND_SPI_NUM) SPI_CS_SETUP_TIME_V SPI_CS_SETUP_TIME_S 1 w
      in REG_SET_FIELD (SPI_USER1_REG NAND_SPI_NUM) SPI_CS_HOLD_TIME_V SPI_CS_HOLD_TIME_S 1 w)"

definition spi_nand_init :: "u32 \<Rightarrow> 'a world_scheme \<Rightarrow> rc \<times> 'a world_scheme" where
  "spi_nand_init hspi_arg w =
     (let pins = hspi_pins hspi_arg; (pin_clk, pin_q, pin_d, pin_cs, pin_hd) = pins
      in if \<exists>p \<in> set [pin_clk, pin_q, pin_d, pin_cs, pin_hd]. MAX_PAD_GPIO_NUM \<le> ucast p
         then (NAND_ERR_PIN_INVALID, w)
         else
           (let w = spi_nand_setup w;
                use_iomux = (pins = (PIN_CLK, PIN_MISO, PIN_MOSI, PIN_CS, PIN_HD));
                w = (if use_iomux then iomux_pins pins w else matrix_pins pins w)
            in (0, spi_nand_timing w)))"

text \<open>
  \<open>while (REG\_READ(cmd) & mask) { if (--timeout <= 0) return fail; delay(1); }\<close>: True when the
  bits went down.
\<close>

function spi_nand_wait :: "u32 \<Rightarrow> nat \<Rightarrow> 'a world_scheme \<Rightarrow> bool \<times> 'a world_scheme" where
  "spi_nand_wait bits t w =
     (let (v, w) = REG_READ (SPI_CMD_REG NAND_SPI_NUM) w
      in if v AND bits = 0 then (True, w)
         else if t \<le> 1 then (False, w)
         else spi_nand_wait bits (t - 1) (stub_lib_delay_us 1 w))"
  by pat_completeness auto
termination by (relation "measure (\<lambda>(m, t, w). t)") auto

declare spi_nand_wait.simps [simp del]

text \<open>Word i of the data registers: four bytes, little endian, those past the end 0.\<close>

definition nand_tx_word :: "u8 list option \<Rightarrow> u16 \<Rightarrow> nat \<Rightarrow> u32" where
  "nand_tx_word tx_data tx_bits i =
     (case tx_data of None \<Rightarrow> 0
      | Some tx \<Rightarrow>
          (let tx_bytes = (unat tx_bits + 7) div 8
           in fold (\<lambda>j word. word OR push_bit (j * 8) (ucast (tx ! (i * 4 + j)))) [0..<min 4 (tx_bytes - i * 4)] 0))"

definition nand_rx_bytes :: "nat \<Rightarrow> nat \<Rightarrow> u32 \<Rightarrow> u8 list" where
  "nand_rx_bytes rx_bytes i word =
     map (\<lambda>j. ucast (drop_bit (j * 8) word AND 0xFF)) [0..<min 4 (rx_bytes - i * 4)]"

definition nand_rx_word :: "nat \<Rightarrow> nat \<Rightarrow> u8 list \<times> 'a world_scheme \<Rightarrow> u8 list \<times> 'a world_scheme" where
  "nand_rx_word rx_bytes i s =
     (let (rx, w) = s;
          (word, w) = REG_READ (SPI_W0_REG NAND_SPI_NUM + of_nat (i * 4)) w
      in (rx @ nand_rx_bytes rx_bytes i word, w))"

definition nand_user_val :: "u8 \<Rightarrow> u16 \<Rightarrow> u16 \<Rightarrow> u32" where
  "nand_user_val addr_bits tx_bits rx_bits =
     SPI_CS_SETUP OR SPI_CS_HOLD OR SPI_USR_COMMAND
     OR (if addr_bits > 0 then SPI_USR_ADDR else 0)
     OR (if tx_bits > 0 then SPI_USR_MOSI OR SPI_DOUTDIN else 0)
     OR (if rx_bits > 0 then SPI_USR_MISO else 0)"

text \<open>Everything between the first wait and the launch: one transaction's registers.\<close>

definition spi_nand_load ::
  "u8 \<Rightarrow> u32 \<Rightarrow> u8 \<Rightarrow> u8 list option \<Rightarrow> u16 \<Rightarrow> u16 \<Rightarrow> 'a world_scheme \<Rightarrow> 'a world_scheme" where
  "spi_nand_load cmd addr addr_bits tx_data tx_bits rx_bits w =
     (let w = REG_SET_BIT (SPI_DMA_CONF_REG NAND_SPI_NUM) SPI_BUF_AFIFO_RST w;
          w = REG_CLR_BIT (SPI_DMA_CONF_REG NAND_SPI_NUM) SPI_BUF_AFIFO_RST w;
          w = REG_SET_BIT (SPI_DMA_CONF_REG NAND_SPI_NUM) SPI_RX_AFIFO_RST w;
          w = REG_CLR_BIT (SPI_DMA_CONF_REG NAND_SPI_NUM) SPI_RX_AFIFO_RST w;
          w = fold (\<lambda>i. REG_WRITE (SPI_W0_REG NAND_SPI_NUM + of_nat (i * 4)) 0) [0..<16] w;
          w = REG_WRITE (SPI_USER_REG NAND_SPI_NUM) (nand_user_val addr_bits tx_bits rx_bits) w;
          w = REG_WRITE (SPI_USER2_REG NAND_SPI_NUM) (ucast cmd) w;
          w = REG_SET_FIELD (SPI_USER2_REG NAND_SPI_NUM) SPI_USR_COMMAND_BITLEN_V SPI_USR_COMMAND_BITLEN_S 7 w;
          w = (if addr_bits > 0 then
                 (let w = REG_WRITE (SPI_ADDR_REG NAND_SPI_NUM) (push_bit (32 - unat addr_bits) addr) w
                  in REG_SET_FIELD (SPI_USER1_REG NAND_SPI_NUM) SPI_USR_ADDR_BITLEN_V SPI_USR_ADDR_BITLEN_S
                       (ucast addr_bits - 1) w)
               else w);
          data_bits = max tx_bits rx_bits
      in if data_bits > 0 then
           (let data_bytes = (unat data_bits + 7) div 8;
                w = fold (\<lambda>i. REG_WRITE (SPI_W0_REG NAND_SPI_NUM + of_nat (i * 4)) (nand_tx_word tx_data tx_bits i))
                      [0..<(data_bytes + 3) div 4] w
            in REG_WRITE (SPI_MS_DLEN_REG NAND_SPI_NUM) (ucast data_bits - 1) w)
         else w)"

text \<open>
  The result is the return code and the bytes stored through \<open>rx\_data\<close>; \<open>rx\_data\<close> says
  whether that pointer is not NULL.
\<close>

definition spi_nand_transaction ::
  "u8 \<Rightarrow> u32 \<Rightarrow> u8 \<Rightarrow> u8 list option \<Rightarrow> u16 \<Rightarrow> bool \<Rightarrow> u16 \<Rightarrow> 'a world_scheme \<Rightarrow>
   (rc \<times> u8 list) \<times> 'a world_scheme" where
  "spi_nand_transaction cmd addr addr_bits tx_data tx_bits rx_data rx_bits w =
     (let (idle, w) = spi_nand_wait SPI_USR SPI_BUSY_TIMEOUT_ITERS w
      in if \<not> idle then ((NAND_ERR_SPI_FAIL, []), w)
         else
           (let w = spi_nand_load cmd addr addr_bits tx_data tx_bits rx_bits w;
                w = REG_WRITE (SPI_CMD_REG NAND_SPI_NUM) SPI_UPDATE w;
                (synced, w) = spi_nand_wait SPI_UPDATE SPI_BUSY_TIMEOUT_ITERS w
            in if \<not> synced then ((NAND_ERR_SPI_FAIL, []), w)
               else
                 (let w = REG_WRITE (SPI_CMD_REG NAND_SPI_NUM) SPI_USR w;
                      (finished, w) = spi_nand_wait SPI_USR SPI_BUSY_TIMEOUT_ITERS w
                  in if \<not> finished then ((NAND_ERR_SPI_FAIL, []), w)
                     else if rx_bits > 0 \<and> rx_data then
                       (let rx_bytes = (unat rx_bits + 7) div 8;
                            (rx, w) = fold (nand_rx_word rx_bytes) [0..<(rx_bytes + 3) div 4] ([], w)
                        in ((0, rx), w))
                     else ((0, []), w))))"

section \<open>The NAND protocol\<close>

text \<open>A transaction without data.\<close>

abbreviation nand_command :: "u8 \<Rightarrow> u32 \<Rightarrow> u8 \<Rightarrow> 'a world_scheme \<Rightarrow> (rc \<times> u8 list) \<times> 'a world_scheme" where
  "nand_command cmd addr addr_bits \<equiv> spi_nand_transaction cmd addr addr_bits None 0 False 0"

text \<open>\<open>while (timeout-- > 0)\<close> of \<open>nand\_wait\_ready\<close>, with timeout iterations left.\<close>

primrec nand_ready_loop :: "nat \<Rightarrow> 'a nand_world_scheme \<Rightarrow> rc \<times> 'a nand_world_scheme" where
  "nand_ready_loop 0 w = (NAND_ERR_TIMEOUT, w)"
| "nand_ready_loop (Suc timeout) w =
     (let ((ret, rx), w) = spi_nand_transaction NAND_CMD_READ_REGISTER (ucast NAND_REG_STATUS) 8 None 0 True 8 w
      in if ret \<noteq> 0 then (ret, w)
         else
           (let status = rx ! 0;
                w = w\<lparr>s_last_status_byte := status\<rparr>
            in if status AND NAND_STAT_BUSY = 0 then (0, w)
               else nand_ready_loop timeout (stub_lib_delay_us 10 w)))"

definition nand_wait_ready :: "'a nand_world_scheme \<Rightarrow> rc \<times> 'a nand_world_scheme" where
  "nand_wait_ready w = nand_ready_loop (NAND_ERASE_TIMEOUT_US div 10) (stub_lib_delay_us 10 w)"

definition nand_wait_program_erase :: "'a nand_world_scheme \<Rightarrow> rc \<times> 'a nand_world_scheme" where
  "nand_wait_program_erase w =
     (let (ret, w) = nand_wait_ready w
      in if ret \<noteq> 0 then (ret, w)
         else if s_last_status_byte w AND NAND_STAT_ERASE_FAILED \<noteq> 0 then (NAND_ERR_ERASE_FAILED, w)
         else if s_last_status_byte w AND NAND_STAT_PROGRAM_FAILED \<noteq> 0 then (NAND_ERR_PROGRAM_FAILED, w)
         else (0, w))"

definition s3_nand_read_register :: "u8 \<Rightarrow> bool \<Rightarrow> 'a world_scheme \<Rightarrow> (rc \<times> u8 list) \<times> 'a world_scheme" where
  "s3_nand_read_register r val w = spi_nand_transaction NAND_CMD_READ_REGISTER (ucast r) 8 None 0 val 8 w"

definition nand_write_register :: "u8 \<Rightarrow> u8 \<Rightarrow> 'a world_scheme \<Rightarrow> rc \<times> 'a world_scheme" where
  "nand_write_register r v w =
     (let ((ret, rx), w) = spi_nand_transaction NAND_CMD_SET_REGISTER 0 0 (Some [r, v]) 16 False 0 w in (ret, w))"

definition nand_write_enable :: "'a world_scheme \<Rightarrow> rc \<times> 'a world_scheme" where
  "nand_write_enable w = (let ((ret, rx), w) = nand_command NAND_CMD_WRITE_ENABLE 0 0 w in (ret, w))"

text \<open>The manufacturer and device identification, when they were read.\<close>

definition s3_nand_read_id :: "'a world_scheme \<Rightarrow> (rc \<times> (u8 \<times> u16) option) \<times> 'a world_scheme" where
  "s3_nand_read_id w =
     (let ((ret, id_buf), w) = spi_nand_transaction NAND_CMD_READ_ID 0 8 None 0 True 24 w
      in if ret \<noteq> 0 then ((ret, None), w)
         else ((0, Some (id_buf ! 0, push_bit 8 (ucast (id_buf ! 1)) OR ucast (id_buf ! 2))), w))"

text \<open>The part of the attach that configures a chip which is ready: protection off, ECC and buffer mode on.\<close>

definition nand_configure :: "'a world_scheme \<Rightarrow> rc \<times> 'a world_scheme" where
  "nand_configure w =
     (let (ret, w) = nand_write_register NAND_REG_PROTECT 0 w
      in if ret \<noteq> 0 then (ret, w)
         else
     (let ((ret, prot_after), w) = s3_nand_read_register NAND_REG_PROTECT True w
      in if ret \<noteq> 0 then (NAND_ERR_SPI_FAIL, w)
         else if prot_after ! 0 \<noteq> 0 then (NAND_ERR_PROTECTION, w)
         else
     (let ((ret, cfg), w) = s3_nand_read_register NAND_REG_CONFIG True w
      in if ret \<noteq> 0 then (NAND_ERR_SPI_FAIL, w)
         else
     (let (ret, w) = nand_write_register NAND_REG_CONFIG (cfg ! 0 OR NAND_CFG_ECC_EN OR NAND_CFG_BUF) w
      in if ret \<noteq> 0 then (NAND_ERR_SPI_FAIL, w)
         else
     (let ((ret, cfg_after), w) = s3_nand_read_register NAND_REG_CONFIG True w
      in if ret \<noteq> 0 then (NAND_ERR_SPI_FAIL, w)
         else if cfg_after ! 0 AND NAND_CFG_BUF \<noteq> NAND_CFG_BUF then (NAND_ERR_SPI_FAIL, w)
         else if cfg_after ! 0 AND NAND_CFG_ECC_EN = 0 then (NAND_ERR_SPI_FAIL, w)
         else (0, w))))))"

definition s3_nand_attach :: "u32 \<Rightarrow> 'a nand_world_scheme \<Rightarrow> rc \<times> 'a nand_world_scheme" where
  "s3_nand_attach hspi_arg w =
     (let w = w\<lparr>s_nand_config := (s_nand_config w)\<lparr>page_size := 2048, pages_per_block := 64,
                  block_size := 128 * 1024, initialized := False\<rparr>,
                s_last_status_byte := 0xFF\<rparr>;
          (ret, w) = spi_nand_init hspi_arg w
      in if ret \<noteq> 0 then (ret, w)
         else
           (let w = stub_lib_delay_us 5000 w;
                ((ret, rx), w) = nand_command NAND_CMD_RESET 0 0 w
            in if ret \<noteq> 0 then (NAND_ERR_RESET_FAILED, w)
               else
                 (let w = stub_lib_delay_us 10000 w;
                      (ret, w) = nand_wait_ready w
                  in if ret \<noteq> 0 then (ret, w)
                     else nand_configure (w\<lparr>s_nand_config := (s_nand_config w)\<lparr>initialized := True\<rparr>\<rparr>))))"

definition nand_page_addr :: "u32 \<Rightarrow> u32" where
  "nand_page_addr page_number = page_number AND 0xFFFFFF"

definition nand_plane_bit :: "u32 \<Rightarrow> 'a nand_world_scheme \<Rightarrow> u32" where
  "nand_plane_bit page_number w =
     (if (page_number div pages_per_block (s_nand_config w)) AND 1 \<noteq> 0 then 0x8000 else 0)"

text \<open>\<open>spare\<close> is the address of the output buffer, which has to be aligned.\<close>

definition s3_nand_read_bbm ::
  "u32 \<Rightarrow> u32 \<Rightarrow> 'a nand_world_scheme \<Rightarrow> (rc \<times> u8 list) \<times> 'a nand_world_scheme" where
  "s3_nand_read_bbm page_number spare w =
     (if \<not> initialized (s_nand_config w) then ((NAND_ERR_NOT_INITIALIZED, []), w)
      else if \<not> IS_ALIGNED spare 4 then ((STUB_LIB_ERR_INVALID_ARG, []), w)
      else
        (let ((ret, rx), w) = nand_command NAND_CMD_PAGE_READ (nand_page_addr page_number) 24 w
         in if ret \<noteq> 0 then ((NAND_ERR_SPI_FAIL, []), w)
            else
        (let (ret, w) = nand_wait_ready w
         in if ret \<noteq> 0 then ((ret, []), w)
            else
        (let col_spare = page_size (s_nand_config w);
             ((ret, rx), w) = spi_nand_transaction NAND_CMD_READ_FROM_CACHE (push_bit 8 col_spare) 24 None 0 True 32 w
         in if ret \<noteq> 0 then ((NAND_ERR_SPI_FAIL, rx), w) else ((0, rx), w)))))"

definition nand_execute :: "u8 \<Rightarrow> u32 \<Rightarrow> 'a nand_world_scheme \<Rightarrow> rc \<times> 'a nand_world_scheme" where
  "nand_execute cmd page_number w =
     (let ((ret, rx), w) = nand_command cmd (nand_page_addr page_number) 24 w
      in if ret \<noteq> 0 then (NAND_ERR_SPI_FAIL, w) else nand_wait_program_erase w)"

definition s3_nand_write_bbm :: "u32 \<Rightarrow> u8 \<Rightarrow> 'a nand_world_scheme \<Rightarrow> rc \<times> 'a nand_world_scheme" where
  "s3_nand_write_bbm page_number is_bad w =
     (if \<not> initialized (s_nand_config w) then (NAND_ERR_NOT_INITIALIZED, w)
      else
        (let bad_block_marker = replicate 4 (if is_bad \<noteq> 0 then 0x00 else 0xFF);
             ((ret, rx), w) = nand_command NAND_CMD_PAGE_READ (nand_page_addr page_number) 24 w
         in if ret \<noteq> 0 then (NAND_ERR_SPI_FAIL, w)
            else
        (let (ret, w) = nand_wait_ready w
         in if ret \<noteq> 0 then (ret, w)
            else
        (let (ret, w) = nand_write_enable w
         in if ret \<noteq> 0 then (ret, w)
            else
        (let col_addr = page_size (s_nand_config w) OR nand_plane_bit page_number w;
             ((ret, rx), w) =
               spi_nand_transaction NAND_CMD_PROGRAM_LOAD_RANDOM col_addr 16 (Some bad_block_marker) 32 False 0 w
         in if ret \<noteq> 0 then (NAND_ERR_SPI_FAIL, w)
            else nand_execute NAND_CMD_PROGRAM_EXECUTE page_number w)))))"

definition SPI_NAND_MAX_RX_BYTES :: u32 where "SPI_NAND_MAX_RX_BYTES = 64"
definition SPI_NAND_MAX_TX_BYTES :: u32 where "SPI_NAND_MAX_TX_BYTES = 64"

text \<open>A chunk of at most 64 bytes makes progress towards the end and stops there.\<close>

lemma nand_chunk:
  fixes offset len :: u32
  assumes "offset < len"
  defines "chunk \<equiv> min (len - offset) 64"
  shows "unat chunk = min (unat len - unat offset) 64" "unat (offset + chunk) = unat offset + unat chunk"
    "0 < unat chunk" "unat offset + unat chunk \<le> unat len"
proof -
  have o: "unat offset < unat len" using assms(1) by (simp add: word_less_nat_alt)
  then have d: "unat (len - offset) = unat len - unat offset" by (simp add: unat_diff word_le_nat_alt)
  show c: "unat chunk = min (unat len - unat offset) 64"
    by (simp add: chunk_def min_def word_le_nat_alt d)
  then show l: "0 < unat chunk" "unat offset + unat chunk \<le> unat len" using o by auto
  show "unat (offset + chunk) = unat offset + unat chunk"
    by (rule unat_add_lt32) (use l unat_lt32 [of len] in linarith)
qed

lemma nand_chunk_less:
  "offset < len \<Longrightarrow> unat len - unat (offset + min (len - offset) 64) < unat len - unat (offset :: u32)"
proof -
  assume o: "offset < len"
  have "unat offset < unat len" using o by (simp add: word_less_nat_alt)
  then show ?thesis unfolding nand_chunk(1,2) [OF o] by simp
qed

text \<open>The load loop of \<open>stub\_target\_nand\_write\_page\<close>.\<close>

function nand_write_loop ::
  "u8 list \<Rightarrow> u32 \<Rightarrow> u32 \<Rightarrow> u32 \<Rightarrow> 'a nand_world_scheme \<Rightarrow> rc \<times> 'a nand_world_scheme" where
  "nand_write_loop buf write_len plane_bit offset w =
     (if offset < write_len then
        (let chunk = min (write_len - offset) SPI_NAND_MAX_TX_BYTES;
             col_addr = offset OR plane_bit;
             cmd = (if offset = 0 then NAND_CMD_PROGRAM_LOAD else NAND_CMD_PROGRAM_LOAD_RANDOM);
             ((ret, rx), w) =
               spi_nand_transaction cmd col_addr 16 (Some (drop (unat offset) buf)) (ucast (chunk * 8)) False 0 w
         in if ret \<noteq> 0 then (NAND_ERR_SPI_FAIL, w)
            else nand_write_loop buf write_len plane_bit (offset + chunk) w)
      else (0, w))"
  by pat_completeness auto

termination
  by (relation "measure (\<lambda>(buf, len, p, offset, w). unat len - unat offset)")
    (simp_all add: SPI_NAND_MAX_TX_BYTES_def nand_chunk_less)

declare nand_write_loop.simps [simp del]

definition s3_nand_write_page ::
  "u32 \<Rightarrow> u8 list \<Rightarrow> u32 \<Rightarrow> 'a nand_world_scheme \<Rightarrow> rc \<times> 'a nand_world_scheme" where
  "s3_nand_write_page page_number buf buf_size w =
     (if \<not> initialized (s_nand_config w) then (NAND_ERR_NOT_INITIALIZED, w)
      else
        (let write_len = min buf_size (page_size (s_nand_config w))
         in if write_len = 0 then (0, w)
            else
        (let (ret, w) = nand_write_enable w
         in if ret \<noteq> 0 then (ret, w)
            else
        (let (ret, w) = nand_write_loop buf write_len (nand_plane_bit page_number w) 0 w
         in if ret \<noteq> 0 then (ret, w)
            else nand_execute NAND_CMD_PROGRAM_EXECUTE page_number w))))"

definition s3_nand_erase_block :: "u32 \<Rightarrow> 'a nand_world_scheme \<Rightarrow> rc \<times> 'a nand_world_scheme" where
  "s3_nand_erase_block page_number w =
     (if \<not> initialized (s_nand_config w) then (NAND_ERR_NOT_INITIALIZED, w)
      else
        (let (ret, w) = nand_write_enable w
         in if ret \<noteq> 0 then (ret, w) else nand_execute NAND_CMD_ERASE_BLOCK page_number w))"

definition nand_check_ecc_after_read :: "'a nand_world_scheme \<Rightarrow> rc" where
  "nand_check_ecc_after_read w =
     (if s_last_status_byte w AND NAND_STAT_ECC_MASK \<ge> NAND_STAT_ECC_UNCORR
      then NAND_ERR_ECC_UNCORRECTABLE else 0)"

text \<open>The copy loop of \<open>stub\_target\_nand\_read\_page\<close>; \<open>got\<close> is what it has stored so far.\<close>

function nand_read_loop ::
  "u32 \<Rightarrow> u32 \<Rightarrow> u32 \<Rightarrow> u8 list \<Rightarrow> 'a nand_world_scheme \<Rightarrow> (rc \<times> u8 list) \<times> 'a nand_world_scheme" where
  "nand_read_loop read_len plane_bit offset got w =
     (if offset < read_len then
        (let chunk = min (read_len - offset) SPI_NAND_MAX_RX_BYTES;
             col_addr = offset OR plane_bit;
             ((ret, rx), w) =
               spi_nand_transaction NAND_CMD_READ_FROM_CACHE (push_bit 8 col_addr) 24 None 0 True (ucast (chunk * 8)) w
         in if ret \<noteq> 0 then ((NAND_ERR_SPI_FAIL, got), w)
            else nand_read_loop read_len plane_bit (offset + chunk) (got @ rx) w)
      else ((0, got), w))"
  by pat_completeness auto
termination
  by (relation "measure (\<lambda>(len, p, offset, got, w). unat len - unat offset)")
    (simp_all add: SPI_NAND_MAX_RX_BYTES_def nand_chunk_less)

declare nand_read_loop.simps [simp del]

definition s3_nand_read_page ::
  "u32 \<Rightarrow> u32 \<Rightarrow> 'a nand_world_scheme \<Rightarrow> (rc \<times> u8 list) \<times> 'a nand_world_scheme" where
  "s3_nand_read_page page_number buf_size w =
     (if \<not> initialized (s_nand_config w) then ((NAND_ERR_NOT_INITIALIZED, []), w)
      else
        (let read_len = (if buf_size > page_size (s_nand_config w) then page_size (s_nand_config w) else buf_size);
             ((ret, rx), w) = nand_command NAND_CMD_PAGE_READ (nand_page_addr page_number) 24 w
         in if ret \<noteq> 0 then ((NAND_ERR_SPI_FAIL, []), w)
            else
        (let (ret, w) = nand_wait_ready w
         in if ret \<noteq> 0 then ((ret, []), w)
            else
        (let ret = nand_check_ecc_after_read w
         in if ret \<noteq> 0 then ((ret, []), w)
            else nand_read_loop read_len (nand_plane_bit page_number w) 0 [] w))))"

definition s3_nand_get_page_size :: "'a nand_world_scheme \<Rightarrow> u32" where
  "s3_nand_get_page_size w = page_size (s_nand_config w)"

end
