(* ===== verification/Nand_Chip.thy ===== *)
theory Nand_Chip
  imports Nand
begin

text \<open>
  What the NAND driver achieves on a chip. The reference chip follows the trace: it decodes
  each launch of the SPI2 controller from the controller's registers, and it finishes the
  operation it is busy with when a status read shows it ready. Its commands are those the
  comments of \<open>nand.c\<close> and \<open>target/nand.h\<close> describe: two page caches, one for even and one for
  odd blocks, selected by bit 15 of the column.
\<close>

section \<open>Frames on the bus\<close>

record nand_frame =
  f_cmd :: u8
  f_addr_bits :: nat
  f_addr :: u32
  f_tx :: "u8 list"
  f_rx :: nat

definition W_cell :: "nat \<Rightarrow> u32" where
  "W_cell i = SPI_W0_REG NAND_SPI_NUM + of_nat (i * 4)"

text \<open>What the controller clocks out for its registers: address and data most significant bit first.\<close>

definition frame_of :: "(u32 \<Rightarrow> u32) \<Rightarrow> nand_frame" where
  "frame_of r =
     (let user = r (SPI_USER_REG NAND_SPI_NUM);
          ab = (if user AND SPI_USR_ADDR \<noteq> 0
                then unat (drop_bit SPI_USR_ADDR_BITLEN_S (r (SPI_USER1_REG NAND_SPI_NUM))) + 1 else 0);
          n = (unat (r (SPI_MS_DLEN_REG NAND_SPI_NUM)) + 1) div 8
      in \<lparr>f_cmd = ucast (r (SPI_USER2_REG NAND_SPI_NUM)), f_addr_bits = ab,
          f_addr = (if ab = 0 then 0 else drop_bit (32 - ab) (r (SPI_ADDR_REG NAND_SPI_NUM))),
          f_tx = (if user AND SPI_USR_MOSI \<noteq> 0
                  then map (\<lambda>k. ucast (drop_bit (k mod 4 * 8) (r (W_cell (k div 4))))) [0..<n] else []),
          f_rx = (if user AND SPI_USR_MISO \<noteq> 0 then n else 0)\<rparr>)"

section \<open>The chip\<close>

datatype nand_job = Load nat | Program nat | Erase nat

record nand_chip =
  cells :: "nat \<Rightarrow> nat \<Rightarrow> u8"
  caches :: "bool \<Rightarrow> nat \<Rightarrow> u8"
  wel :: bool
  job :: "nand_job option"
  asked :: bool
  dout :: "u8 list"

text \<open>The cache a page goes through: odd blocks have their own.\<close>

definition plane_of :: "nat \<Rightarrow> bool" where
  "plane_of p \<longleftrightarrow> odd (p div 64)"

definition put :: "nat \<Rightarrow> u8 list \<Rightarrow> (nat \<Rightarrow> u8) \<Rightarrow> nat \<Rightarrow> u8" where
  "put col d c i = (if col \<le> i \<and> i < col + length d then d ! (i - col) else c i)"

definition nand_cmd :: "nand_frame \<Rightarrow> nand_chip \<Rightarrow> nand_chip" where
  "nand_cmd f c =
     (let a = unat (f_addr f); col = a mod 0x8000; odd_plane = (a div 0x8000 mod 2 = 1);
          rd_col = a div 0x100 mod 0x8000; rd_plane = (a div 0x800000 mod 2 = 1);
          c = c\<lparr>dout := [], asked := False\<rparr>
      in if f_cmd f = NAND_CMD_READ_REGISTER then c\<lparr>asked := (a = unat NAND_REG_STATUS)\<rparr>
         else if job c \<noteq> None then c
         else if f_cmd f = NAND_CMD_WRITE_ENABLE then c\<lparr>wel := True\<rparr>
         else if f_cmd f = NAND_CMD_PAGE_READ \<and> f_addr_bits f = 24 then c\<lparr>job := Some (Load a)\<rparr>
         else if f_cmd f = NAND_CMD_READ_FROM_CACHE \<and> f_addr_bits f = 24
         then c\<lparr>dout := map (\<lambda>k. caches c rd_plane (rd_col + k)) [0..<f_rx f]\<rparr>
         else if f_cmd f = NAND_CMD_PROGRAM_LOAD \<and> f_addr_bits f = 16 \<and> wel c
         then c\<lparr>caches := (caches c)(odd_plane := put col (f_tx f) (\<lambda>_. 0xFF))\<rparr>
         else if f_cmd f = NAND_CMD_PROGRAM_LOAD_RANDOM \<and> f_addr_bits f = 16 \<and> wel c
         then c\<lparr>caches := (caches c)(odd_plane := put col (f_tx f) (caches c odd_plane))\<rparr>
         else if f_cmd f = NAND_CMD_PROGRAM_EXECUTE \<and> f_addr_bits f = 24 \<and> wel c
         then c\<lparr>job := Some (Program a), wel := False\<rparr>
         else if f_cmd f = NAND_CMD_ERASE_BLOCK \<and> f_addr_bits f = 24 \<and> wel c
         then c\<lparr>job := Some (Erase a), wel := False\<rparr>
         else c)"

text \<open>
  A status byte that says ready ends the job: with a failure bit set a program or erase did
  nothing, and with an uncorrectable error the page did not reach the cache.
\<close>

definition finish :: "u8 \<Rightarrow> nand_job \<Rightarrow> nand_chip \<Rightarrow> nand_chip" where
  "finish st j c =
     (case j of
        Load p \<Rightarrow> if st AND NAND_STAT_ECC_MASK \<ge> NAND_STAT_ECC_UNCORR then c
                  else c\<lparr>caches := (caches c)(plane_of p := cells c p)\<rparr>
      | Program p \<Rightarrow> if st AND NAND_STAT_PROGRAM_FAILED \<noteq> 0 then c
                  else c\<lparr>cells := (cells c)(p := \<lambda>i. cells c p i AND caches c (plane_of p) i)\<rparr>
      | Erase p \<Rightarrow> if st AND NAND_STAT_ERASE_FAILED \<noteq> 0 then c
                  else c\<lparr>cells := (\<lambda>q. if q div 64 = p div 64 then (\<lambda>_. 0xFF) else cells c q)\<rparr>)"

definition nand_seen :: "u8 \<Rightarrow> nand_chip \<Rightarrow> nand_chip" where
  "nand_seen st c =
     (case job c of
        Some j \<Rightarrow> if asked c \<and> st AND NAND_STAT_BUSY = 0 then finish st j (c\<lparr>job := None\<rparr>) else c
      | None \<Rightarrow> c)"

record nand_sim =
  spi :: "u32 \<Rightarrow> u32"
  chip :: nand_chip

definition nand_step :: "ev \<Rightarrow> nand_sim \<Rightarrow> nand_sim" where
  "nand_step e s =
     (case e of
        Wr (Mmio a) v \<Rightarrow>
          (if a = SPI_CMD_REG NAND_SPI_NUM then
             if v = SPI_USR then s\<lparr>chip := nand_cmd (frame_of (spi s)) (chip s)\<rparr> else s
           else if a - SPI_W0_REG NAND_SPI_NUM < 64
           then s\<lparr>spi := (spi s)(a := v), chip := (chip s)\<lparr>dout := []\<rparr>\<rparr>
           else s\<lparr>spi := (spi s)(a := v)\<rparr>)
      | Rd (Mmio a) v \<Rightarrow>
          if a = SPI_W0_REG NAND_SPI_NUM then s\<lparr>chip := nand_seen (ucast v) (chip s)\<rparr> else s
      | _ \<Rightarrow> s)"

definition nand_run :: "nand_chip \<Rightarrow> ev list \<Rightarrow> nand_sim" where
  "nand_run c0 es = fold nand_step es \<lparr>spi = \<lambda>_. 0, chip = c0\<rparr>"

definition nand_sim_of :: "nand_chip \<Rightarrow> 'a world_scheme \<Rightarrow> nand_sim" where
  "nand_sim_of c0 w = nand_run c0 (trace w)"

definition chip_in :: "nand_chip \<Rightarrow> 'a world_scheme \<Rightarrow> nand_chip" where
  "chip_in c0 w = chip (nand_sim_of c0 w)"

text \<open>
  What the driver needs of the hardware: the command register reads back what was written to
  it, and after a transaction the data registers hold the bytes the chip sent.
\<close>

definition nand_bus :: "nand_chip \<Rightarrow> 'a world_scheme \<Rightarrow> bool" where
  "nand_bus c0 w \<longleftrightarrow>
     (\<forall>es v. rd_dev w (es @ [Wr (Mmio (SPI_USER2_REG NAND_SPI_NUM)) v]) (Mmio (SPI_USER2_REG NAND_SPI_NUM)) = v) \<and>
     (\<forall>es k. k < length (dout (chip (nand_run c0 es))) \<and> k < 64 \<longrightarrow>
        ucast (drop_bit (k mod 4 * 8) (rd_dev w es (Mmio (W_cell (k div 4))))) = dout (chip (nand_run c0 es)) ! k)"

lemma nand_bus_after [simp]: "nand_bus c0 (after w es) = nand_bus c0 w"
  by (simp add: nand_bus_def)

lemma nand_sim_after: "nand_sim_of c0 (after w es) = fold nand_step es (nand_sim_of c0 w)"
  by (simp add: nand_sim_of_def nand_run_def)

section \<open>One transaction\<close>

lemma nand_wait_quiet:
  "spi_nand_wait m t w = (ok, w') \<Longrightarrow> \<exists>es. w' = after w es \<and> (\<forall>s. fold nand_step es s = s)"
proof (induction m t w arbitrary: w' rule: spi_nand_wait.induct)
  case (1 m t w)
  let ?r = "Rd (Mmio (SPI_CMD_REG NAND_SPI_NUM)) (peek (Mmio (SPI_CMD_REG NAND_SPI_NUM)) w)"
  let ?w1 = "after w [?r]"
  let ?d = "Call (SysFn Ets_delay_us) [1] [] (rom_ret (SysFn Ets_delay_us) [1] [] ?w1) (rom_out (SysFn Ets_delay_us) [1] [] ?w1)"
  have q: "nand_step ?r s = s" "nand_step ?d s = s" for s by (simp_all add: nand_step_def regs)
  show ?case
  proof (cases "peek (Mmio (SPI_CMD_REG NAND_SPI_NUM)) w AND m = 0 \<or> t \<le> 1")
    case True
    then have "w' = ?w1"
      using 1(2) by (subst (asm) spi_nand_wait.simps) (auto simp: REG_READ_eq split: if_splits)
    then show ?thesis using q by (intro exI [of _ "[?r]"]) simp
  next
    case False
    then have "spi_nand_wait m (t - 1) (after w [?r, ?d]) = (ok, w')"
      using 1(2) by (subst (asm) spi_nand_wait.simps) (simp add: REG_READ_eq stub_lib_delay_us_eq)
    then obtain es where "w' = after (after w [?r, ?d]) es" "\<forall>s. fold nand_step es s = s"
      using 1(1) [OF REG_READ_eq [symmetric] refl] False by (auto simp: REG_READ_eq stub_lib_delay_us_eq)
    then show ?thesis using q by (intro exI [of _ "[?r, ?d] @ es"]) simp
  qed
qed

lemma fold_REG_WRITE: "fold (\<lambda>i. REG_WRITE (a i) (f i)) is w = after w (map (\<lambda>i. Wr (Mmio (a i)) (f i)) is)"
  by (induction "is" arbitrary: w) (simp_all add: REG_WRITE_eq)

lemma W_cell_offset: "i < 16 \<Longrightarrow> unat (W_cell i - SPI_W0_REG NAND_SPI_NUM) = i * 4"
proof -
  assume "i < 16"
  then have "unat (of_nat (i * 4) :: u32) = i * 4" by (intro unat_of_nat32) simp
  then show ?thesis by (simp only: W_cell_def add_diff_cancel_left')
qed

lemma W_cell_facts:
  assumes "i < 16"
  shows "W_cell i - SPI_W0_REG NAND_SPI_NUM < 64" "j < 16 \<Longrightarrow> W_cell i = W_cell j \<longleftrightarrow> i = j"
    "W_cell i \<noteq> SPI_CMD_REG NAND_SPI_NUM"
proof -
  have lt: "W_cell i - SPI_W0_REG NAND_SPI_NUM < 64" using assms W_cell_offset [OF assms] by (simp add: word_less_nat_alt)
  then show "W_cell i - SPI_W0_REG NAND_SPI_NUM < 64" .
  have "\<not> SPI_CMD_REG NAND_SPI_NUM - SPI_W0_REG NAND_SPI_NUM < 64" by (simp add: regs)
  then show "W_cell i \<noteq> SPI_CMD_REG NAND_SPI_NUM" using lt by metis
  assume j: "j < 16"
  show "W_cell i = W_cell j \<longleftrightarrow> i = j"
    using W_cell_offset [OF assms] W_cell_offset [OF j] by (metis mult_right_cancel zero_neq_numeral)
qed

text \<open>Filling data registers.\<close>

lemma fill_W:
  fixes s :: nand_sim and f :: "nat \<Rightarrow> u32"
  assumes "n \<le> 16"
  defines "s' \<equiv> fold nand_step (map (\<lambda>i. Wr (Mmio (W_cell i)) (f i)) [0..<n]) s"
  shows "chip s' = (if n = 0 then chip s else (chip s)\<lparr>dout := []\<rparr>)"
    "i < n \<Longrightarrow> spi s' (W_cell i) = f i"
    "\<not> a - SPI_W0_REG NAND_SPI_NUM < 64 \<Longrightarrow> spi s' a = spi s a"
  using assms(1) unfolding s'_def
proof (induction n arbitrary: i)
  case (Suc n)
  note n = W_cell_facts [of n]
  { case 1 then show ?case using Suc n by (simp add: nand_step_def) }
  { case 2 then show ?case using Suc n W_cell_facts(2) [of i n] by (auto simp: nand_step_def less_Suc_eq) }
  { case 3 then show ?case using Suc n by (auto simp: nand_step_def) }
qed simp_all

text \<open>Bytes in a data register.\<close>

lemma packed_bit:
  "m \<le> 4 \<Longrightarrow> bit (fold (\<lambda>j word. word OR push_bit (j * 8) (ucast (g j :: u8))) [0..<m] (0 :: u32)) n \<longleftrightarrow>
     n div 8 < m \<and> bit (g (n div 8)) (n mod 8)"
proof (induction m)
  case (Suc m)
  have "bit (push_bit (m * 8) (ucast (g m)) :: u32) n \<longleftrightarrow> n div 8 = m \<and> bit (g (n div 8)) (n mod 8)"
  proof (cases "n div 8 = m")
    case True
    then have "m * 8 \<le> n" "n - m * 8 = n mod 8" "n < 32" using Suc.prems by (auto simp: minus_div_mult_eq_mod)
    moreover have "n mod 8 < 32" by (rule less_trans [of _ 8]) simp_all
    ultimately show ?thesis using True by (simp add: bit_push_bit_iff bit_ucast_iff)
  next
    case False
    have "\<not> (m * 8 \<le> n \<and> n - m * 8 < 8)" using False by auto
    then show ?thesis using False by (auto simp: bit_push_bit_iff bit_ucast_iff bit_imp_le_length dest: bit_imp_le_length)
  qed
  then show ?case using Suc by (auto simp: bit_or_iff less_Suc_eq)
qed simp

lemma packed_byte:
  assumes "m \<le> 4" "j < m"
  shows "ucast (drop_bit (j * 8) (fold (\<lambda>j word. word OR push_bit (j * 8) (ucast (g j :: u8))) [0..<m] (0 :: u32))) = g j"
proof (rule bit_word_eqI)
  fix n assume "n < LENGTH(8)"
  then have "(j * 8 + n) div 8 = j" "(j * 8 + n) mod 8 = n" "n < 8" by auto
  then show "bit (ucast (drop_bit (j * 8) (fold (\<lambda>j word. word OR push_bit (j * 8) (ucast (g j))) [0..<m] (0 :: u32))) :: u8) n =
      bit (g j) n"
    using assms by (simp add: bit_ucast_iff bit_drop_bit_eq packed_bit)
qed

lemma tx_byte:
  assumes "unat tb = 8 * n" "k < n"
  shows "ucast (drop_bit (k mod 4 * 8) (nand_tx_word (Some d) tb (k div 4))) = d ! k"
proof -
  have "(8 * n + 7) div 8 = n" by simp
  moreover have "k mod 4 < min 4 (n - k div 4 * 4)" using assms(2) by (simp add: min_def) presburger
  ultimately show ?thesis
    using packed_byte [of "min 4 (n - k div 4 * 4)" "k mod 4" "\<lambda>j. d ! (k div 4 * 4 + j)"] assms(1)
    by (simp add: nand_tx_word_def Let_def)
qed

lemma rx_byte: "nand_rx_bytes n i v = map (\<lambda>j. ucast (drop_bit (j * 8) v)) [0..<min 4 (n - i * 4)]"
proof -
  have m: "(0xFF :: u32) = mask 8" by (simp add: mask_eq_exp_minus_1)
  have "(ucast (x AND 0xFF) :: u8) = ucast x" for x :: u32
    unfolding m by (rule bit_word_eqI) (auto simp: bit_simps)
  then show ?thesis by (simp add: nand_rx_bytes_def)
qed

text \<open>The fields a read-modify-write sets.\<close>

lemma user2_cmd: "ucast ((ucast (cmd :: u8) AND NOT (push_bit 28 0xF)) OR push_bit 28 (7 AND 0xF) :: u32) = cmd"
proof -
  have m: "(0xF :: u32) = mask 4" "(7 :: u32) = mask 3" by (simp_all add: mask_eq_exp_minus_1)
  show ?thesis unfolding m by (rule bit_word_eqI) (auto simp: bit_simps)
qed

lemma user1_bits:
  assumes "ab \<in> {8, 16, 24 :: u8}"
  shows "unat (drop_bit 27 ((v AND NOT (push_bit 27 0x1F)) OR push_bit 27 ((ucast ab - 1) AND 0x1F) :: u32)) + 1 = unat ab"
proof -
  have m: "(0x1F :: u32) = mask 5" by (simp add: mask_eq_exp_minus_1)
  have "drop_bit 27 ((v AND NOT (push_bit 27 0x1F)) OR push_bit 27 (x AND 0x1F) :: u32) = x AND 0x1F" for x
    unfolding m by (rule bit_word_eqI) (auto simp: bit_simps)
  then show ?thesis using assms by auto
qed

lemma addr_shift:
  assumes "unat (addr :: u32) < 2 ^ n" "n \<le> 32"
  shows "drop_bit (32 - n) (push_bit (32 - n) addr) = addr"
proof (rule bit_word_eqI)
  fix k assume k: "k < LENGTH(32)"
  have "take_bit n addr = addr" using assms(1) by (simp add: word_unat_eq_iff unat_take_bit)
  then have "bit addr k \<Longrightarrow> k < n" by (metis bit_take_bit_iff)
  then show "bit (drop_bit (32 - n) (push_bit (32 - n) addr)) k = bit addr k"
    using k assms(2) by (auto simp: bit_drop_bit_eq bit_push_bit_iff)
qed

text \<open>The controller's registers apart from the command and data registers.\<close>

definition plain_reg :: "u32 \<Rightarrow> bool" where
  "plain_reg a \<longleftrightarrow> a \<noteq> SPI_CMD_REG NAND_SPI_NUM \<and> \<not> a - SPI_W0_REG NAND_SPI_NUM < 64"

lemma plain_regs [simp]:
  "plain_reg (SPI_DMA_CONF_REG NAND_SPI_NUM)" "plain_reg (SPI_USER_REG NAND_SPI_NUM)"
  "plain_reg (SPI_USER1_REG NAND_SPI_NUM)" "plain_reg (SPI_USER2_REG NAND_SPI_NUM)"
  "plain_reg (SPI_ADDR_REG NAND_SPI_NUM)" "plain_reg (SPI_MS_DLEN_REG NAND_SPI_NUM)"
  by (simp_all add: plain_reg_def regs)

lemma sim_writes:
  assumes "plain_reg a"
  shows "nand_sim_of c0 (REG_WRITE a v w) = (nand_sim_of c0 w)\<lparr>spi := (spi (nand_sim_of c0 w))(a := v)\<rparr>"
    "nand_sim_of c0 (REG_SET_BIT a v w) =
       (nand_sim_of c0 w)\<lparr>spi := (spi (nand_sim_of c0 w))(a := peek (Mmio a) w OR v)\<rparr>"
    "nand_sim_of c0 (REG_CLR_BIT a v w) =
       (nand_sim_of c0 w)\<lparr>spi := (spi (nand_sim_of c0 w))(a := peek (Mmio a) w AND NOT v)\<rparr>"
    "nand_sim_of c0 (REG_SET_FIELD a fV fS v w) = (nand_sim_of c0 w)\<lparr>spi := (spi (nand_sim_of c0 w))
       (a := (peek (Mmio a) w AND NOT (push_bit fS fV)) OR push_bit fS (v AND fV))\<rparr>"
proof -
  have "a \<noteq> SPI_W0_REG NAND_SPI_NUM" using assms by (auto simp: plain_reg_def)
  then show "nand_sim_of c0 (REG_WRITE a v w) = (nand_sim_of c0 w)\<lparr>spi := (spi (nand_sim_of c0 w))(a := v)\<rparr>"
    "nand_sim_of c0 (REG_SET_BIT a v w) =
       (nand_sim_of c0 w)\<lparr>spi := (spi (nand_sim_of c0 w))(a := peek (Mmio a) w OR v)\<rparr>"
    "nand_sim_of c0 (REG_CLR_BIT a v w) =
       (nand_sim_of c0 w)\<lparr>spi := (spi (nand_sim_of c0 w))(a := peek (Mmio a) w AND NOT v)\<rparr>"
    "nand_sim_of c0 (REG_SET_FIELD a fV fS v w) = (nand_sim_of c0 w)\<lparr>spi := (spi (nand_sim_of c0 w))
       (a := (peek (Mmio a) w AND NOT (push_bit fS fV)) OR push_bit fS (v AND fV))\<rparr>"
    using assms by (simp_all add: prim_eq nand_sim_after nand_step_def plain_reg_def)
qed

lemma sim_fill_W:
  fixes w :: "'a world_scheme" and f :: "nat \<Rightarrow> u32"
  assumes "n \<le> 16"
  defines "w' \<equiv> fold (\<lambda>i. REG_WRITE (SPI_W0_REG NAND_SPI_NUM + of_nat (i * 4)) (f i)) [0..<n] w"
  shows "chip_in c0 w' = (if n = 0 then chip_in c0 w else (chip_in c0 w)\<lparr>dout := []\<rparr>)"
    "i < n \<Longrightarrow> spi (nand_sim_of c0 w') (W_cell i) = f i"
    "plain_reg a \<Longrightarrow> spi (nand_sim_of c0 w') a = spi (nand_sim_of c0 w) a"
proof -
  have w': "w' = after w (map (\<lambda>i. Wr (Mmio (W_cell i)) (f i)) [0..<n])"
    unfolding w'_def fold_REG_WRITE W_cell_def by (rule refl)
  note fill = fill_W [OF assms(1), where f = f and s = "nand_sim_of c0 w"]
  show "chip_in c0 w' = (if n = 0 then chip_in c0 w else (chip_in c0 w)\<lparr>dout := []\<rparr>)"
    "i < n \<Longrightarrow> spi (nand_sim_of c0 w') (W_cell i) = f i"
    "plain_reg a \<Longrightarrow> spi (nand_sim_of c0 w') a = spi (nand_sim_of c0 w) a"
    using fill by (simp_all add: w' nand_sim_after chip_in_def plain_reg_def)
qed

lemma evs_fill_W [evs_rules]:
  "evs w u \<Longrightarrow> evs w (fold (\<lambda>i. REG_WRITE (a i) (f i)) is u)"
  by (simp add: fold_REG_WRITE evs_after)

text \<open>The shape of the transactions the driver makes: n bytes out or m bytes in.\<close>

definition nand_args :: "u32 \<Rightarrow> u8 \<Rightarrow> u8 list option \<Rightarrow> u16 \<Rightarrow> u16 \<Rightarrow> nat \<Rightarrow> nat \<Rightarrow> bool" where
  "nand_args addr ab tx tb rb n m \<longleftrightarrow> ab \<in> {0, 8, 16, 24} \<and> unat addr < 2 ^ unat ab \<and>
     unat tb = 8 * n \<and> unat rb = 8 * m \<and> n \<le> 64 \<and> m \<le> 64 \<and> (n = 0 \<or> m = 0) \<and>
     (case tx of None \<Rightarrow> n = 0 | Some d \<Rightarrow> n \<le> length d)"

definition the_frame :: "u8 \<Rightarrow> u32 \<Rightarrow> u8 \<Rightarrow> u8 list option \<Rightarrow> nat \<Rightarrow> nat \<Rightarrow> nand_frame" where
  "the_frame cmd addr ab tx n m =
     \<lparr>f_cmd = cmd, f_addr_bits = unat ab, f_addr = addr,
      f_tx = (case tx of None \<Rightarrow> [] | Some d \<Rightarrow> take n d), f_rx = m\<rparr>"

lemma user_val_bits:
  "nand_user_val ab tb rb AND SPI_USR_ADDR \<noteq> 0 \<longleftrightarrow> ab > 0"
  "nand_user_val ab tb rb AND SPI_USR_MOSI \<noteq> 0 \<longleftrightarrow> tb > 0"
  "nand_user_val ab tb rb AND SPI_USR_MISO \<noteq> 0 \<longleftrightarrow> rb > 0"
  by (cases "ab > 0"; cases "tb > 0"; cases "rb > 0"; simp add: nand_user_val_def regs)+

text \<open>Loading is the command and its address first, then the data words and their number.\<close>

definition nand_head :: "u8 \<Rightarrow> u32 \<Rightarrow> u8 \<Rightarrow> u16 \<Rightarrow> u16 \<Rightarrow> 'a world_scheme \<Rightarrow> 'a world_scheme" where
  "nand_head cmd addr ab tb rb w =
     (let w = REG_SET_BIT (SPI_DMA_CONF_REG NAND_SPI_NUM) SPI_BUF_AFIFO_RST w;
          w = REG_CLR_BIT (SPI_DMA_CONF_REG NAND_SPI_NUM) SPI_BUF_AFIFO_RST w;
          w = REG_SET_BIT (SPI_DMA_CONF_REG NAND_SPI_NUM) SPI_RX_AFIFO_RST w;
          w = REG_CLR_BIT (SPI_DMA_CONF_REG NAND_SPI_NUM) SPI_RX_AFIFO_RST w;
          w = fold (\<lambda>i. REG_WRITE (SPI_W0_REG NAND_SPI_NUM + of_nat (i * 4)) 0) [0..<16] w;
          w = REG_WRITE (SPI_USER_REG NAND_SPI_NUM) (nand_user_val ab tb rb) w;
          w = REG_WRITE (SPI_USER2_REG NAND_SPI_NUM) (ucast cmd) w;
          w = REG_SET_FIELD (SPI_USER2_REG NAND_SPI_NUM) SPI_USR_COMMAND_BITLEN_V SPI_USR_COMMAND_BITLEN_S 7 w
      in if ab > 0 then REG_SET_FIELD (SPI_USER1_REG NAND_SPI_NUM) SPI_USR_ADDR_BITLEN_V SPI_USR_ADDR_BITLEN_S
           (ucast ab - 1) (REG_WRITE (SPI_ADDR_REG NAND_SPI_NUM) (push_bit (32 - unat ab) addr) w) else w)"

definition nand_words :: "u16 \<Rightarrow> u16 \<Rightarrow> nat" where
  "nand_words tb rb = ((unat (max tb rb) + 7) div 8 + 3) div 4"

definition nand_data :: "u8 list option \<Rightarrow> u16 \<Rightarrow> u16 \<Rightarrow> 'a world_scheme \<Rightarrow> 'a world_scheme" where
  "nand_data tx tb rb w =
     (if max tb rb > 0 then REG_WRITE (SPI_MS_DLEN_REG NAND_SPI_NUM) (ucast (max tb rb) - 1)
        (fold (\<lambda>i. REG_WRITE (SPI_W0_REG NAND_SPI_NUM + of_nat (i * 4)) (nand_tx_word tx tb i)) [0..<nand_words tb rb] w)
      else w)"

lemma spi_nand_load_split: "spi_nand_load cmd addr ab tx tb rb w = nand_data tx tb rb (nand_head cmd addr ab tb rb w)"
  by (simp add: spi_nand_load_def nand_data_def nand_head_def nand_words_def Let_def)

lemma head_frame:
  fixes cmd :: u8
  assumes bus: "nand_bus c0 w" and args: "nand_args addr ab tx tb rb n m"
  defines "w' \<equiv> nand_head cmd addr ab tb rb w"
  shows "evs w w'" "chip_in c0 w' = (chip_in c0 w)\<lparr>dout := []\<rparr>"
    "spi (nand_sim_of c0 w') (SPI_USER_REG NAND_SPI_NUM) = nand_user_val ab tb rb"
    "ucast (spi (nand_sim_of c0 w') (SPI_USER2_REG NAND_SPI_NUM)) = cmd"
    "ab > 0 \<Longrightarrow> unat (drop_bit SPI_USR_ADDR_BITLEN_S (spi (nand_sim_of c0 w') (SPI_USER1_REG NAND_SPI_NUM))) + 1 = unat ab"
    "ab > 0 \<Longrightarrow> drop_bit (32 - unat ab) (spi (nand_sim_of c0 w') (SPI_ADDR_REG NAND_SPI_NUM)) = addr"
proof -
  define w1 where "w1 = REG_CLR_BIT (SPI_DMA_CONF_REG NAND_SPI_NUM) SPI_RX_AFIFO_RST
    (REG_SET_BIT (SPI_DMA_CONF_REG NAND_SPI_NUM) SPI_RX_AFIFO_RST
    (REG_CLR_BIT (SPI_DMA_CONF_REG NAND_SPI_NUM) SPI_BUF_AFIFO_RST
    (REG_SET_BIT (SPI_DMA_CONF_REG NAND_SPI_NUM) SPI_BUF_AFIFO_RST w)))"
  define w2 where "w2 = fold (\<lambda>i. REG_WRITE (SPI_W0_REG NAND_SPI_NUM + of_nat (i * 4)) 0) [0..<16] w1"
  define w3 where "w3 = REG_WRITE (SPI_USER2_REG NAND_SPI_NUM) (ucast cmd)
    (REG_WRITE (SPI_USER_REG NAND_SPI_NUM) (nand_user_val ab tb rb) w2)"
  define w4 where "w4 = REG_SET_FIELD (SPI_USER2_REG NAND_SPI_NUM) SPI_USR_COMMAND_BITLEN_V SPI_USR_COMMAND_BITLEN_S 7 w3"
  have w': "w' = (if ab > 0 then REG_SET_FIELD (SPI_USER1_REG NAND_SPI_NUM) SPI_USR_ADDR_BITLEN_V
     SPI_USR_ADDR_BITLEN_S (ucast ab - 1) (REG_WRITE (SPI_ADDR_REG NAND_SPI_NUM) (push_bit (32 - unat ab) addr) w4) else w4)"
    by (simp add: w'_def nand_head_def Let_def w1_def w2_def w3_def w4_def)
  have e2: "evs w w2" by (simp add: w2_def w1_def evs_rules)
  then show "evs w w'" by (simp add: w' w3_def w4_def evs_rules)
  have c2: "chip_in c0 w2 = (chip_in c0 w)\<lparr>dout := []\<rparr>"
    using sim_fill_W(1) [where n = 16 and f = "\<lambda>_. 0" and w = w1] by (simp add: w2_def) (simp add: w1_def chip_in_def sim_writes)
  obtain es where "w2 = after w es" using e2 by (auto simp: evs_def elim: emitsE)
  then have "peek (Mmio (SPI_USER2_REG NAND_SPI_NUM)) w3 = ucast cmd"
    using bus by (simp add: w3_def REG_WRITE_eq peek_def nand_bus_def flip: append_assoc)
  then have r4: "chip_in c0 w4 = (chip_in c0 w)\<lparr>dout := []\<rparr>"
    "spi (nand_sim_of c0 w4) (SPI_USER_REG NAND_SPI_NUM) = nand_user_val ab tb rb"
    "ucast (spi (nand_sim_of c0 w4) (SPI_USER2_REG NAND_SPI_NUM)) = cmd"
    using user2_cmd [of cmd] c2 by (simp_all add: w4_def w3_def sim_writes chip_in_def) (simp_all add: regs)
  then show "chip_in c0 w' = (chip_in c0 w)\<lparr>dout := []\<rparr>"
    "spi (nand_sim_of c0 w') (SPI_USER_REG NAND_SPI_NUM) = nand_user_val ab tb rb"
    "ucast (spi (nand_sim_of c0 w') (SPI_USER2_REG NAND_SPI_NUM)) = cmd"
    by (simp_all add: w' sim_writes chip_in_def) (simp_all add: regs)
  assume "ab > 0"
  moreover from this have "ab \<in> {8, 16, 24}" "unat ab \<le> 32" using args by (auto simp: nand_args_def)
  ultimately show "unat (drop_bit SPI_USR_ADDR_BITLEN_S (spi (nand_sim_of c0 w') (SPI_USER1_REG NAND_SPI_NUM))) + 1 = unat ab"
    "drop_bit (32 - unat ab) (spi (nand_sim_of c0 w') (SPI_ADDR_REG NAND_SPI_NUM)) = addr"
    using user1_bits [of ab "peek (Mmio (SPI_USER1_REG NAND_SPI_NUM)) (REG_WRITE (SPI_ADDR_REG NAND_SPI_NUM) (push_bit (32 - unat ab) addr) w4)"]
      addr_shift [of addr "unat ab"] args
    by (simp_all add: w' sim_writes nand_args_def) (simp_all add: regs)
qed

lemma args_bits:
  assumes "nand_args addr ab tx tb rb n m"
  shows "unat (max tb rb) = 8 * max n m" "nand_words tb rb = (max n m + 3) div 4" "nand_words tb rb \<le> 16"
    "tb > 0 \<longleftrightarrow> 0 < n" "rb > 0 \<longleftrightarrow> 0 < m"
proof -
  show mx: "unat (max tb rb) = 8 * max n m" using assms by (auto simp: nand_args_def max_def word_le_nat_alt)
  then show "nand_words tb rb = (max n m + 3) div 4" "nand_words tb rb \<le> 16"
    using assms by (auto simp: nand_words_def nand_args_def)
  show "tb > 0 \<longleftrightarrow> 0 < n" "rb > 0 \<longleftrightarrow> 0 < m"
    using assms by (auto simp: nand_args_def unat_gt_0 [symmetric] word_neq_0_conv [symmetric])
qed

lemma data_frame:
  fixes w :: "'a world_scheme"
  assumes args: "nand_args addr ab tx tb rb n m"
  defines "w' \<equiv> nand_data tx tb rb w"
  shows "evs w w'" "chip_in c0 w' = (if max tb rb > 0 then (chip_in c0 w)\<lparr>dout := []\<rparr> else chip_in c0 w)"
    "r \<in> {SPI_USER_REG NAND_SPI_NUM, SPI_USER1_REG NAND_SPI_NUM, SPI_USER2_REG NAND_SPI_NUM, SPI_ADDR_REG NAND_SPI_NUM} \<Longrightarrow>
      spi (nand_sim_of c0 w') r = spi (nand_sim_of c0 w) r"
    "i < nand_words tb rb \<Longrightarrow> max tb rb > 0 \<Longrightarrow> spi (nand_sim_of c0 w') (W_cell i) = nand_tx_word tx tb i"
    "max tb rb > 0 \<Longrightarrow> (unat (spi (nand_sim_of c0 w') (SPI_MS_DLEN_REG NAND_SPI_NUM)) + 1) div 8 = max n m"
proof -
  note ab = args_bits [OF args]
  define v where "v = fold (\<lambda>i. REG_WRITE (SPI_W0_REG NAND_SPI_NUM + of_nat (i * 4)) (nand_tx_word tx tb i)) [0..<nand_words tb rb] w"
  note fill = sim_fill_W [OF ab(3), where f = "nand_tx_word tx tb" and w = w, folded v_def]
  have w': "w' = (if max tb rb > 0 then REG_WRITE (SPI_MS_DLEN_REG NAND_SPI_NUM) (ucast (max tb rb) - 1) v else w)"
    by (simp add: w'_def nand_data_def v_def)
  show "evs w w'" by (simp add: w' v_def evs_rules)
  have pos: "max tb rb > 0 \<longleftrightarrow> 0 < nand_words tb rb" using ab(2,4,5) by (auto simp: less_max_iff_disj)
  then show "chip_in c0 w' = (if max tb rb > 0 then (chip_in c0 w)\<lparr>dout := []\<rparr> else chip_in c0 w)"
    using fill(1) by (simp add: w' chip_in_def sim_writes)
  show "spi (nand_sim_of c0 w') r = spi (nand_sim_of c0 w) r"
    if "r \<in> {SPI_USER_REG NAND_SPI_NUM, SPI_USER1_REG NAND_SPI_NUM, SPI_USER2_REG NAND_SPI_NUM, SPI_ADDR_REG NAND_SPI_NUM}"
    using that fill(3) by (auto simp: w' sim_writes) (simp_all add: regs)
  show "spi (nand_sim_of c0 w') (W_cell i) = nand_tx_word tx tb i" if "i < nand_words tb rb" "max tb rb > 0"
  proof -
    have "W_cell i - SPI_W0_REG NAND_SPI_NUM < 64" using that ab(3) by (intro W_cell_facts) simp
    moreover have "plain_reg (SPI_MS_DLEN_REG NAND_SPI_NUM)" by simp
    ultimately have "W_cell i \<noteq> SPI_MS_DLEN_REG NAND_SPI_NUM" unfolding plain_reg_def by metis
    then show ?thesis using that fill(2) by (simp add: w' sim_writes)
  qed
  assume p: "max tb rb > 0"
  have u: "unat (ucast (max tb rb) :: u32) = 8 * max n m"
    using ab(1) args by (auto simp: unsigned_ucast_eq unsigned_take_bit_eq take_bit_eq_mod nand_args_def)
  have "0 < max n m" using p ab(1) by (metis gr0I mult_0_right unat_eq_0 word_gt_0)
  then show "(unat (spi (nand_sim_of c0 w') (SPI_MS_DLEN_REG NAND_SPI_NUM)) + 1) div 8 = max n m"
    using p u by (simp add: w' sim_writes unat_pred unat_gt_0 [symmetric] word_neq_0_conv)
qed

lemma bytes_of_words:
  assumes args: "nand_args addr ab tx tb rb n m"
    and words: "\<And>i. i < nand_words tb rb \<Longrightarrow> max tb rb > 0 \<Longrightarrow> g i = nand_tx_word tx tb i"
  shows "map (\<lambda>j. ucast (drop_bit (j mod 4 * 8) (g (j div 4)))) [0..<n] = (case tx of None \<Rightarrow> [] | Some d \<Rightarrow> take n d)"
proof (cases tx)
  case None
  then show ?thesis using args by (simp add: nand_args_def)
next
  case (Some d)
  have "ucast (drop_bit (j mod 4 * 8) (g (j div 4))) = d ! j" if "j < n" for j
  proof -
    have "j div 4 < nand_words tb rb" "max tb rb > 0"
      using that args_bits(2,4) [OF args] by (auto simp: less_max_iff_disj)
    then show ?thesis using words that tx_byte [of tb n j d] args Some by (simp add: nand_args_def)
  qed
  then show ?thesis using Some args by (intro nth_equalityI) (simp_all add: nand_args_def)
qed

lemma load_frame:
  fixes cmd :: u8
  assumes bus: "nand_bus c0 w" and args: "nand_args addr ab tx tb rb n m"
  defines "w' \<equiv> spi_nand_load cmd addr ab tx tb rb w"
  shows "evs w w'" "chip_in c0 w' = (chip_in c0 w)\<lparr>dout := []\<rparr>"
    "frame_of (spi (nand_sim_of c0 w')) = the_frame cmd addr ab tx n m"
proof -
  define v where "v = nand_head cmd addr ab tb rb w"
  note h = head_frame [OF assms(1,2), of cmd, folded v_def]
  have w': "w' = nand_data tx tb rb v" by (simp add: w'_def v_def spi_nand_load_split)
  note d = data_frame [OF args, where w = v, folded w'] and tr = args_bits(4,5) [OF args]
  show "evs w w'" using evs_trans [OF h(1) d(1)] .
  show "chip_in c0 w' = (chip_in c0 w)\<lparr>dout := []\<rparr>" using d(2) h(2) by simp
  have nm: "n = 0 \<or> m = 0" using args by (simp add: nand_args_def)
  note tx = bytes_of_words [OF args, of "\<lambda>i. spi (nand_sim_of c0 w') (W_cell i)", OF d(4)]
  have a0: "addr = 0" "unat ab = 0" if "\<not> ab > 0"
    using that args by (auto simp: nand_args_def unat_gt_0 word_neq_0_conv [symmetric] unsigned_eq_0_iff)
  have mn: "max tb rb > 0" "max n m = n" if "0 < n" using that tr nm by (auto simp: less_max_iff_disj)
  have mm: "max tb rb > 0" "max n m = m" if "0 < m" using that tr nm by (auto simp: less_max_iff_disj)
  have n0: "tx = None \<or> (\<exists>d. tx = Some d)" by (cases tx) auto
  have r: "spi (nand_sim_of c0 w') (SPI_USER_REG NAND_SPI_NUM) = nand_user_val ab tb rb"
    "ucast (spi (nand_sim_of c0 w') (SPI_USER2_REG NAND_SPI_NUM)) = cmd"
    "spi (nand_sim_of c0 w') (SPI_USER1_REG NAND_SPI_NUM) = spi (nand_sim_of c0 v) (SPI_USER1_REG NAND_SPI_NUM)"
    "spi (nand_sim_of c0 w') (SPI_ADDR_REG NAND_SPI_NUM) = spi (nand_sim_of c0 v) (SPI_ADDR_REG NAND_SPI_NUM)"
    using h(3,4) d(3) by simp_all
  show "frame_of (spi (nand_sim_of c0 w')) = the_frame cmd addr ab tx n m"
    using h(5,6) a0 d(5) mn mm tx nm n0
    unfolding frame_of_def Let_def r user_val_bits the_frame_def tr
    by (cases "0 < n"; cases "0 < m"; cases "ab > 0") auto
qed

lemma dout_seen [simp]: "dout (nand_seen st c) = dout c"
  by (auto simp: nand_seen_def finish_def split: option.splits nand_job.splits)

lemma nand_cmd_dout: "nand_cmd f (c\<lparr>dout := d\<rparr>) = nand_cmd f c"
  by (simp add: nand_cmd_def Let_def)

lemma evsE:
  assumes "evs w w'" obtains es where "w' = after w es"
  using assms by (auto simp: evs_def elim: emitsE)

lemma nand_bus_evs: "evs w w' \<Longrightarrow> nand_bus c0 w' = nand_bus c0 w"
  by (auto elim: evsE)

lemma W_cell_0: "i < 16 \<Longrightarrow> W_cell i = SPI_W0_REG NAND_SPI_NUM \<longleftrightarrow> i = 0"
  using W_cell_facts(2) [of i 0] by (simp add: W_cell_def)

lemma rx_loop:
  assumes "nand_bus c0 u" and "k \<le> (n + 3) div 4" "n \<le> 64"
    and "fold (nand_rx_word n) [0..<k] ([], u) = (rx, u')"
  shows "evs u u' \<and> length rx = min n (4 * k) \<and>
    chip_in c0 u' = (if k = 0 then chip_in c0 u else nand_seen (rx ! 0) (chip_in c0 u)) \<and>
    (0 < k \<longrightarrow> rx ! 0 = ucast (peek (Mmio (W_cell 0)) u)) \<and>
    (n \<le> length (dout (chip_in c0 u)) \<longrightarrow> rx = take (4 * k) (take n (dout (chip_in c0 u))))"
  using assms(2,4)
proof (induction k arbitrary: rx u')
  case 0
  then show ?case by (simp add: evs_refl)
next
  case (Suc k)
  obtain rx1 u1 where f: "fold (nand_rx_word n) [0..<k] ([], u) = (rx1, u1)" by fastforce
  have IH: "evs u u1" "length rx1 = min n (4 * k)"
    "chip_in c0 u1 = (if k = 0 then chip_in c0 u else nand_seen (rx1 ! 0) (chip_in c0 u))"
    "0 < k \<Longrightarrow> rx1 ! 0 = ucast (peek (Mmio (W_cell 0)) u)"
    "n \<le> length (dout (chip_in c0 u)) \<Longrightarrow> rx1 = take (4 * k) (take n (dout (chip_in c0 u)))"
    using Suc.IH [OF _ f] Suc.prems(1) by auto
  define v where "v = peek (Mmio (W_cell k)) u1"
  have k: "4 * k < n" "k < 16" using Suc.prems(1) assms(3) by auto
  have res: "rx = rx1 @ nand_rx_bytes n k v" "u' = after u1 [Rd (Mmio (W_cell k)) v]"
  proof -
    have "nand_rx_word n k (rx1, u1) = (rx1 @ nand_rx_bytes n k v, after u1 [Rd (Mmio (W_cell k)) v])"
      by (simp add: nand_rx_word_def REG_READ_eq v_def W_cell_def)
    then show "rx = rx1 @ nand_rx_bytes n k v" "u' = after u1 [Rd (Mmio (W_cell k)) v]"
      using Suc.prems(2) f by simp_all
  qed
  have chip: "chip_in c0 u' = (if k = 0 then nand_seen (ucast v) (chip_in c0 u1) else chip_in c0 u1)"
    using k(2) W_cell_0 [of k] by (simp add: res(2) chip_in_def nand_sim_after nand_step_def)
  have hd: "rx ! 0 = (if k = 0 then ucast v else rx1 ! 0)"
    using k IH(2) by (auto simp: res(1) nth_append rx_byte)
  have "u1 = u" if "k = 0" using f that by simp
  then have hd0: "rx ! 0 = ucast (peek (Mmio (W_cell 0)) u)" using hd IH(4) by (cases "k = 0") (auto simp: v_def)
  have len: "length rx = min n (4 * Suc k)" using k IH(2) by (auto simp: res(1) rx_byte)
  have "rx = take (4 * Suc k) (take n (dout (chip_in c0 u)))" if d: "n \<le> length (dout (chip_in c0 u))"
  proof (rule nth_equalityI)
    show "length rx = length (take (4 * Suc k) (take n (dout (chip_in c0 u))))" using len d by simp
    fix i assume "i < length rx"
    then have i: "i < n" "i < 4 * k + 4" using len by simp_all
    show "rx ! i = take (4 * Suc k) (take n (dout (chip_in c0 u))) ! i"
    proof (cases "i < 4 * k")
      case True
      then show ?thesis using IH(2) IH(5) [OF d] i by (simp add: res(1) nth_append)
    next
      case False
      then have "i div 4 = k" using i by auto
      moreover from this have "i mod 4 = i - 4 * k" by (simp add: minus_mult_div_eq_mod [symmetric])
      moreover have "dout (chip_in c0 u1) = dout (chip_in c0 u)" using IH(3) by simp
      moreover have "nand_bus c0 u1" using nand_bus_evs [OF IH(1)] assms(1) by simp
      moreover have "k' < length (dout (chip_in c0 u1)) \<Longrightarrow> k' < 64 \<Longrightarrow>
          ucast (drop_bit (k' mod 4 * 8) (peek (Mmio (W_cell (k' div 4))) u1)) = dout (chip_in c0 u1) ! k'" for k'
        using calculation(4) by (simp add: nand_bus_def peek_def chip_in_def nand_sim_of_def)
      ultimately have "ucast (drop_bit ((i - 4 * k) * 8) v) = dout (chip_in c0 u) ! i"
        using i d assms(3) unfolding v_def by (metis order_less_le_trans)
      moreover have "i - 4 * k < min 4 (n - k * 4)" using False i by auto
      ultimately show ?thesis using False IH(2) i k by (simp add: res(1) nth_append rx_byte del: min_less_iff_conj)
    qed
  qed
  then show ?case
    using IH(1,3) chip hd hd0 len by (auto simp: res(2) evs_after)
qed

lemma nand_launch:
  "chip_in c0 (REG_WRITE (SPI_CMD_REG NAND_SPI_NUM) SPI_UPDATE w) = chip_in c0 w"
  "nand_sim_of c0 (REG_WRITE (SPI_CMD_REG NAND_SPI_NUM) SPI_UPDATE w) = nand_sim_of c0 w"
  "chip_in c0 (REG_WRITE (SPI_CMD_REG NAND_SPI_NUM) SPI_USR w) =
     nand_cmd (frame_of (spi (nand_sim_of c0 w))) (chip_in c0 w)"
  by (simp_all add: REG_WRITE_eq chip_in_def nand_sim_after nand_step_def) (simp_all add: regs)

lemma nand_wait_sim:
  assumes "spi_nand_wait m t w = (ok, w')"
  shows "evs w w'" "nand_sim_of c0 w' = nand_sim_of c0 w" "chip_in c0 w' = chip_in c0 w"
  using nand_wait_quiet [OF assms] by (auto simp: evs_after evs_refl nand_sim_after chip_in_def)

text \<open>
  A transaction that succeeds has sent its frame to the chip once and, when it reads, has
  returned what the chip answered.
\<close>

lemma nand_transaction:
  assumes bus: "nand_bus c0 w" and args: "nand_args addr ab tx tb rb n m"
    and t: "spi_nand_transaction cmd addr ab tx tb rd rb w = ((rc, rx), w')"
  defines "c \<equiv> nand_cmd (the_frame cmd addr ab tx n m) (chip_in c0 w)"
  shows "evs w w'" "rc = 0 \<or> rc = NAND_ERR_SPI_FAIL"
    "rc = 0 \<Longrightarrow> chip_in c0 w' = (if rd \<and> 0 < m then nand_seen (rx ! 0) c else c)"
    "rc = 0 \<Longrightarrow> rd \<Longrightarrow> length rx = m \<and> (length (dout c) = m \<longrightarrow> rx = dout c)"
    "rc = 0 \<Longrightarrow> rd \<Longrightarrow> 0 < m \<Longrightarrow>
      \<exists>u. evs w u \<and> chip_in c0 u = c \<and> rx ! 0 = ucast (peek (Mmio (W_cell 0)) u)"
proof -
  obtain ok1 w1 where w1: "spi_nand_wait SPI_USR SPI_BUSY_TIMEOUT_ITERS w = (ok1, w1)" by fastforce
  define w2 where "w2 = spi_nand_load cmd addr ab tx tb rb w1"
  obtain ok2 w3 where w3: "spi_nand_wait SPI_UPDATE SPI_BUSY_TIMEOUT_ITERS
      (REG_WRITE (SPI_CMD_REG NAND_SPI_NUM) SPI_UPDATE w2) = (ok2, w3)" by fastforce
  obtain ok3 w4 where w4: "spi_nand_wait SPI_USR SPI_BUSY_TIMEOUT_ITERS
      (REG_WRITE (SPI_CMD_REG NAND_SPI_NUM) SPI_USR w3) = (ok3, w4)" by fastforce
  note q1 = nand_wait_sim [OF w1] and q3 = nand_wait_sim [OF w3] and q4 = nand_wait_sim [OF w4]
  have "nand_bus c0 w1" using nand_bus_evs [OF q1(1)] bus by simp
  note ld = load_frame [OF this args, where cmd = cmd, folded w2_def]
  have e3: "evs w w3"
    by (rule evs_trans [OF q1(1) evs_trans [OF ld(1) evs_trans [OF _ q3(1)]]]) (simp add: evs_rules)
  have e4: "evs w w4" by (rule evs_trans [OF e3 evs_trans [OF _ q4(1)]]) (simp add: evs_rules)
  have c4: "chip_in c0 w4 = c"
    using q1(3) q3(2,3) q4(3) ld(2,3) by (simp add: nand_launch c_def nand_cmd_dout)
  obtain rx5 w5 where w5: "fold (nand_rx_word m) [0..<(m + 3) div 4] ([], w4) = (rx5, w5)" by fastforce
  have m: "(unat rb + 7) div 8 = m" "m \<le> 64" using args by (simp_all add: nand_args_def)
  have rb: "rb > 0 \<longleftrightarrow> 0 < m" using args by (auto simp: nand_args_def unat_gt_0 [symmetric] word_neq_0_conv [symmetric])
  have "nand_bus c0 w4" using nand_bus_evs [OF e4] bus by simp
  note l = rx_loop [OF this le_refl m(2) w5]
  have tr: "((rc, rx), w') =
    (if \<not> ok1 then ((NAND_ERR_SPI_FAIL, []), w1) else if \<not> ok2 then ((NAND_ERR_SPI_FAIL, []), w3)
     else if \<not> ok3 then ((NAND_ERR_SPI_FAIL, []), w4) else if 0 < m \<and> rd then ((0, rx5), w5) else ((0, []), w4))"
    unfolding t [symmetric] spi_nand_transaction_def w1 Let_def m(1) rb
    by (simp add: w2_def [symmetric] w3 w4 w5)
  show "evs w w'" using tr q1(1) e3 e4 l by (auto split: if_splits intro: evs_trans)
  show "rc = 0 \<or> rc = NAND_ERR_SPI_FAIL" using tr by (auto split: if_splits)
  have nz: "NAND_ERR_SPI_FAIL \<noteq> 0" by (simp add: rcs)
  show "rc = 0 \<Longrightarrow> chip_in c0 w' = (if rd \<and> 0 < m then nand_seen (rx ! 0) c else c)"
    using tr l c4 nz by (auto split: if_splits)
  show "rc = 0 \<Longrightarrow> rd \<Longrightarrow> length rx = m \<and> (length (dout c) = m \<longrightarrow> rx = dout c)"
    using tr l c4 nz by (auto split: if_splits)
  assume "rc = 0" "rd" "0 < m"
  then have "rx ! 0 = ucast (peek (Mmio (W_cell 0)) w4)" using tr l nz by (auto split: if_splits)
  then show "\<exists>u. evs w u \<and> chip_in c0 u = c \<and> rx ! 0 = ucast (peek (Mmio (W_cell 0)) u)" using e4 c4 by blast
qed

end
