(* ===== verification/Nand_Props.thy ===== *)
theory Nand_Props
  imports Nand_Chip
begin

text \<open>
  What each operation of the NAND driver does to the chip when it reports success, and that
  it does nothing at all before the chip was attached.
\<close>

section \<open>Commands\<close>

text \<open>A chip up to what only the last frame left behind.\<close>

definition norm :: "nand_chip \<Rightarrow> nand_chip" where
  "norm c = c\<lparr>dout := [], asked := False\<rparr>"

definition nchip :: "nand_chip \<Rightarrow> 'a world_scheme \<Rightarrow> nand_chip" where
  "nchip c0 w = norm (chip_in c0 w)"

lemma nand_cmd_norm: "nand_cmd f (norm c) = nand_cmd f c"
  by (simp add: nand_cmd_def norm_def Let_def)

lemma norm_norm [simp]: "norm (norm c) = norm c"
  by (simp add: norm_def)

lemma norm_fields [simp]:
  "cells (norm c) = cells c" "caches (norm c) = caches c" "wel (norm c) = wel c" "job (norm c) = job c"
  "dout (norm c) = []" "asked (norm c) = False"
  by (simp_all add: norm_def)

lemma nchip_norm [simp]: "norm (nchip c0 w) = nchip c0 w"
  by (simp add: nchip_def)

definition stays :: "'a nand_world_scheme \<Rightarrow> 'a nand_world_scheme \<Rightarrow> bool" where
  "stays w w' \<longleftrightarrow> rd_dev w' = rd_dev w \<and> s_nand_config w' = s_nand_config w"

lemma stays_refl [simp]: "stays w w"
  by (simp add: stays_def)

lemma stays_trans: "stays u v \<Longrightarrow> stays w u \<Longrightarrow> stays w v"
  by (simp add: stays_def)

lemma stays_bus: "stays w w' \<Longrightarrow> nand_bus c0 w' = nand_bus c0 w"
  by (simp add: stays_def nand_bus_def)

lemma after_nand [simp]:
  "s_nand_config (after w es) = s_nand_config w" "s_last_status_byte (after w es) = s_last_status_byte w"
  by (simp_all add: after_def)

lemma evs_stays: "evs w w' \<Longrightarrow> stays w w' \<and> s_last_status_byte w' = s_last_status_byte w"
  by (auto simp: stays_def elim: evsE)

lemma nchip_delay [simp]: "nchip c0 (stub_lib_delay_us us w) = nchip c0 w" "stays w (stub_lib_delay_us us w)"
  "nand_bus c0 (stub_lib_delay_us us w) = nand_bus c0 w"
  by (simp_all add: stub_lib_delay_us_eq nchip_def chip_in_def nand_sim_after nand_step_def stays_def)

text \<open>A transaction that sends only.\<close>

lemma send:
  assumes bus: "nand_bus c0 w" and args: "nand_args addr ab tx tb 0 n 0"
    and t: "spi_nand_transaction cmd addr ab tx tb False 0 w = ((rc, rx), w')"
  shows "stays w w'" "rc = 0 \<or> rc = NAND_ERR_SPI_FAIL"
    "rc = 0 \<Longrightarrow> nchip c0 w' = norm (nand_cmd (the_frame cmd addr ab tx n 0) (nchip c0 w))"
  using nand_transaction [OF bus args t] evs_stays by (auto simp: nchip_def nand_cmd_norm)

lemma args_24: "nand_args (nand_page_addr p) 24 None 0 0 0 0"
  using unat_and_pow2 [of p 24] by (simp add: nand_args_def nand_page_addr_def)

lemma args_0: "nand_args 0 0 None 0 0 0 0"
  by (simp add: nand_args_def)

lemma nand_write_enable_ok:
  assumes "nand_bus c0 w" "nand_write_enable w = (0, w')" "job (nchip c0 w) = None"
  shows "stays w w'" "nchip c0 w' = (nchip c0 w)\<lparr>wel := True\<rparr>"
proof -
  obtain rx where t: "spi_nand_transaction NAND_CMD_WRITE_ENABLE 0 0 None 0 False 0 w = ((0, rx), w')"
    using assms(2) by (auto simp: nand_write_enable_def split: prod.splits)
  show "stays w w'" using send(1) [OF assms(1) args_0 t] .
  show "nchip c0 w' = (nchip c0 w)\<lparr>wel := True\<rparr>"
    using send(3) [OF assms(1) args_0 t refl] assms(3)
    by (simp add: nand_cmd_def the_frame_def Let_def regs) (simp add: norm_def nchip_def)
qed

section \<open>Waiting\<close>

text \<open>The chip once a status byte st has ended what it was doing.\<close>

definition done_with :: "u8 \<Rightarrow> nand_chip \<Rightarrow> nand_chip" where
  "done_with st c = (case job c of None \<Rightarrow> c | Some j \<Rightarrow> finish st j (c\<lparr>job := None\<rparr>))"

lemma finish_norm: "norm (finish st j c) = finish st j (norm c)"
  by (cases j; cases c) (simp_all add: finish_def norm_def fun_eq_iff)

lemma norm_updates:
  "norm (c\<lparr>job := j\<rparr>) = (norm c)\<lparr>job := j\<rparr>" "norm (c\<lparr>wel := b\<rparr>) = (norm c)\<lparr>wel := b\<rparr>"
  "norm (c\<lparr>caches := k\<rparr>) = (norm c)\<lparr>caches := k\<rparr>"  "norm (c\<lparr>cells := m\<rparr>) = (norm c)\<lparr>cells := m\<rparr>"
  "norm (c\<lparr>asked := a\<rparr>) = norm c" "norm (c\<lparr>dout := d\<rparr>) = norm c"
  by (cases c; simp add: norm_def)+

lemma poll_status:
  assumes bus: "nand_bus c0 w"
    and t: "spi_nand_transaction NAND_CMD_READ_REGISTER (ucast NAND_REG_STATUS) 8 None 0 True 8 w = ((0, rx), w')"
  shows "stays w w'" "nchip c0 w' = (if rx ! 0 AND NAND_STAT_BUSY = 0 then done_with (rx ! 0) (nchip c0 w) else nchip c0 w)"
proof -
  have args: "nand_args (ucast NAND_REG_STATUS) 8 None 0 8 0 1" by (simp add: nand_args_def regs)
  note tr = nand_transaction [OF bus args t]
  show "stays w w'" using tr(1) evs_stays by blast
  have "chip_in c0 w' = nand_seen (rx ! 0) ((chip_in c0 w)\<lparr>dout := [], asked := True\<rparr>)"
    using tr(3) by (simp add: nand_cmd_def the_frame_def Let_def regs)
  then show "nchip c0 w' = (if rx ! 0 AND NAND_STAT_BUSY = 0 then done_with (rx ! 0) (nchip c0 w) else nchip c0 w)"
    by (auto simp: nchip_def nand_seen_def done_with_def finish_norm norm_updates split: option.splits)
qed

lemma nand_ready_loop_ok:
  assumes "nand_bus c0 w" "nand_ready_loop t w = (0, w')"
  shows "stays w w' \<and> s_last_status_byte w' AND NAND_STAT_BUSY = 0 \<and>
    nchip c0 w' = done_with (s_last_status_byte w') (nchip c0 w)"
  using assms
proof (induction t arbitrary: w)
  case 0
  then show ?case by (simp add: rcs)
next
  case (Suc t)
  obtain ret rx w1 where t: "spi_nand_transaction NAND_CMD_READ_REGISTER (ucast NAND_REG_STATUS) 8 None 0 True 8 w = ((ret, rx), w1)"
    by (metis surj_pair)
  have "ret = 0" using Suc.prems(2) t by (auto split: if_splits)
  note p = poll_status [OF Suc.prems(1) t [unfolded this]]
  define w2 where "w2 = w1\<lparr>s_last_status_byte := rx ! 0\<rparr>"
  have w2: "stays w w2" "nchip c0 w2 = nchip c0 w1" "s_last_status_byte w2 = rx ! 0"
    using p(1) by (simp_all add: w2_def stays_def nchip_def chip_in_def nand_sim_of_def)
  show ?case
  proof (cases "rx ! 0 AND NAND_STAT_BUSY = 0")
    case True
    then have "w' = w2" using Suc.prems(2) t \<open>ret = 0\<close> by (simp add: w2_def)
    then show ?thesis using w2 p True by simp
  next
    case False
    then have l: "nand_ready_loop t (stub_lib_delay_us 10 w2) = (0, w')"
      using Suc.prems(2) t \<open>ret = 0\<close> by (simp add: w2_def)
    have "nand_bus c0 (stub_lib_delay_us 10 w2)" using Suc.prems(1) stays_bus [OF w2(1)] by simp
    note IH = Suc.IH [OF this l]
    have "stays w w'" using IH stays_trans [OF stays_trans [OF conjunct1 [OF IH] nchip_delay(2)] w2(1)] by blast
    then show ?thesis using IH w2 p False by simp
  qed
qed

lemma nand_wait_ready_ok:
  assumes "nand_bus c0 w" "nand_wait_ready w = (0, w')"
  shows "stays w w'" "s_last_status_byte w' AND NAND_STAT_BUSY = 0"
    "nchip c0 w' = done_with (s_last_status_byte w') (nchip c0 w)"
proof -
  have "nand_bus c0 (stub_lib_delay_us 10 w)" using assms(1) by simp
  note l = nand_ready_loop_ok [OF this assms(2) [unfolded nand_wait_ready_def]]
  show "stays w w'" using l stays_trans [OF _ nchip_delay(2)] by blast
  show "s_last_status_byte w' AND NAND_STAT_BUSY = 0"
    "nchip c0 w' = done_with (s_last_status_byte w') (nchip c0 w)" using l by simp_all
qed

lemma nand_execute_ok:
  assumes bus: "nand_bus c0 w" and ex: "nand_execute cmd p w = (0, w')"
  shows "stays w w'" "s_last_status_byte w' AND NAND_STAT_ERASE_FAILED = 0"
    "s_last_status_byte w' AND NAND_STAT_PROGRAM_FAILED = 0"
    "nchip c0 w' = done_with (s_last_status_byte w')
       (norm (nand_cmd (the_frame cmd (nand_page_addr p) 24 None 0 0) (nchip c0 w)))"
proof -
  obtain ret rx w1 where t: "spi_nand_transaction cmd (nand_page_addr p) 24 None 0 False 0 w = ((ret, rx), w1)"
    by (metis surj_pair)
  have r: "ret = 0" using ex t by (auto simp: nand_execute_def rcs split: if_splits)
  note s = send [OF bus args_24 t]
  have we: "nand_wait_program_erase w1 = (0, w')" using ex t r by (simp add: nand_execute_def)
  then obtain ret2 w2 where w2: "nand_wait_ready w1 = (ret2, w2)" by fastforce
  then have w2': "ret2 = 0" "w2 = w'" "s_last_status_byte w' AND NAND_STAT_ERASE_FAILED = 0"
    "s_last_status_byte w' AND NAND_STAT_PROGRAM_FAILED = 0"
    using we by (auto simp: nand_wait_program_erase_def rcs split: if_splits)
  have "nand_bus c0 w1" using stays_bus [OF s(1)] bus by simp
  note wr = nand_wait_ready_ok [OF this, of w']
  show "stays w w'" using wr(1) s(1) w2 w2'(1,2) stays_trans by blast
  show "s_last_status_byte w' AND NAND_STAT_ERASE_FAILED = 0" "s_last_status_byte w' AND NAND_STAT_PROGRAM_FAILED = 0"
    using w2' by simp_all
  show "nchip c0 w' = done_with (s_last_status_byte w')
       (norm (nand_cmd (the_frame cmd (nand_page_addr p) 24 None 0 0) (nchip c0 w)))"
    using wr(3) w2 w2' s(3) [OF r] by simp
qed

section \<open>Pages and planes\<close>

definition nand_attached :: "'a nand_world_scheme \<Rightarrow> bool" where
  "nand_attached w \<longleftrightarrow> initialized (s_nand_config w) \<and> page_size (s_nand_config w) = 2048 \<and>
     pages_per_block (s_nand_config w) = 64"

text \<open>The page a page number selects: the chip sees 24 bits of it.\<close>

definition page_of :: "u32 \<Rightarrow> nat" where
  "page_of p = unat p mod 2 ^ 24"

lemma nand_page_addr: "unat (nand_page_addr p) = page_of p"
  using unat_and_pow2 [of p 24] by (simp add: nand_page_addr_def page_of_def)

lemma nand_plane_bit:
  assumes "nand_attached w"
  shows "nand_plane_bit p w = (if plane_of (page_of p) then 0x8000 else 0)"
proof -
  have "(p div 64) AND 1 \<noteq> 0 \<longleftrightarrow> odd (unat (p div 64))"
    using unat_and_pow2 [of "p div 64" 1] by (simp only: word_unat_eq_iff unat_0) (simp add: odd_iff_mod_2_eq_one)
  moreover have "unat (p div 64) = unat p div 64" by (simp add: unat_div)
  moreover have "odd (unat p div 64) \<longleftrightarrow> plane_of (page_of p)"
  proof -
    have "unat p mod (64 * 262144) div 64 mod 2 = unat p div 64 mod 2"
      by (simp only: mod_mult2_eq) (simp add: mod_mod_cancel)
    then have "unat p mod 2 ^ 24 div 64 mod 2 = unat p div 64 mod 2" by simp
    then show ?thesis unfolding plane_of_def page_of_def by (metis odd_iff_mod_2_eq_one)
  qed
  ultimately show ?thesis using assms by (simp add: nand_plane_bit_def nand_attached_def)
qed

lemma unat_OR_plane:
  assumes "unat (a :: u32) < 0x8000"
  shows "unat (a OR 0x8000) = unat a + 0x8000"
proof -
  have "take_bit 15 a = a" using assms by (simp add: word_unat_eq_iff unat_take_bit)
  then have "\<not> bit a 15" by (metis bit_take_bit_iff less_irrefl)
  moreover have "bit (0x8000 :: u32) n \<Longrightarrow> n = 15" for n
  proof -
    have e: "(0x8000 :: u32) = 2 ^ 15" by simp
    show "bit (0x8000 :: u32) n \<Longrightarrow> n = 15" unfolding e by (simp only: bit_exp_iff)
  qed
  ultimately have "a AND 0x8000 = 0" by (intro bit_word_eqI) (auto simp only: bit_and_iff bit_0_eq bot_fun_def bot_bool_def)
  then have "a OR 0x8000 = a + 0x8000" by (simp add: disjunctive_add_eq_or [symmetric])
  then show ?thesis using assms by (simp add: unat_add_lt32)
qed

text \<open>The column of offset a in a plane, as the load commands and the read command send it.\<close>

lemma column:
  assumes "unat (a :: u32) < 0x8000" "pb = (if odd_plane then 0x8000 else 0)"
  shows "unat (a OR pb) mod 0x8000 = unat a" "unat (a OR pb) div 0x8000 mod 2 = 1 \<longleftrightarrow> odd_plane"
    "unat (a OR pb) < 2 ^ 16" "unat (push_bit 8 (a OR pb)) = unat (a OR pb) * 256"
proof -
  have u: "unat (a OR pb) = unat a + (if odd_plane then 0x8000 else 0)"
    using assms unat_OR_plane by simp
  show "unat (a OR pb) mod 0x8000 = unat a" "unat (a OR pb) div 0x8000 mod 2 = 1 \<longleftrightarrow> odd_plane"
    "unat (a OR pb) < 2 ^ 16"
    using u assms(1) by auto
  then show "unat (push_bit 8 (a OR pb)) = unat (a OR pb) * 256"
    by (simp add: push_bit_eq_mult unat_word_ariths)
qed

section \<open>The data loops\<close>

lemma put_put: "length xs = k \<Longrightarrow> put (o1 + k) ys (put o1 xs c) = put o1 (xs @ ys) c"
  by (auto simp: put_def fun_eq_iff nth_append)

lemma put_Nil [simp]: "put k [] c = c"
  by (rule ext) (auto simp: put_def)

text \<open>The load commands on a chip that is idle and may be written.\<close>

lemma load_cmd:
  assumes "job c = None" "wel c" and "unat a mod 0x8000 = col" "unat a div 0x8000 mod 2 = 1 \<longleftrightarrow> pl"
    and "cmd = (if fresh then NAND_CMD_PROGRAM_LOAD else NAND_CMD_PROGRAM_LOAD_RANDOM)"
  shows "norm (nand_cmd (the_frame cmd a 16 (Some d) n 0) c) =
    (norm c)\<lparr>caches := (caches c)(pl := put col (take n d) (if fresh then (\<lambda>_. 0xFF) else caches c pl))\<rparr>"
  using assms by (cases fresh) (simp_all add: nand_cmd_def the_frame_def Let_def regs norm_updates)

lemma chunk_bits:
  assumes "unat (chunk :: u32) \<le> 64"
  shows "unat (ucast (chunk * 8) :: u16) = 8 * unat chunk"
proof -
  have "unat (chunk * 8) = unat chunk * 8" using assms by (simp add: unat_word_ariths)
  then show ?thesis using assms by (simp add: unsigned_ucast_eq unsigned_take_bit_eq take_bit_eq_mod)
qed

text \<open>
  The load loop: the plane's cache, reset when it starts at offset 0, takes the rest of the data.
\<close>

lemma nand_write_loop_ok:
  assumes bus: "nand_bus c0 w" and run: "nand_write_loop buf len pb offset w = (0, w')"
    and pb: "pb = (if pl then 0x8000 else 0)" and lens: "unat len \<le> 2048" "unat len \<le> length buf"
    and idle: "job (nchip c0 w) = None" "wel (nchip c0 w)" and le: "offset \<le> len"
  shows "stays w w' \<and> nchip c0 w' = (if offset = len then nchip c0 w else (nchip c0 w)\<lparr>caches := (caches (nchip c0 w))
    (pl := put (unat offset) (take (unat len - unat offset) (drop (unat offset) buf))
       (if offset = 0 then (\<lambda>_. 0xFF) else caches (nchip c0 w) pl))\<rparr>)"
  using bus run idle le
proof (induction "unat len - unat offset" arbitrary: offset w rule: less_induct)
  case (less offset w)
  show ?case
  proof (cases "offset < len")
    case False
    then have "offset = len" using less.prems(5) by simp
    then show ?thesis using less.prems(2) by (simp add: nand_write_loop.simps)
  next
    case True
    define chunk where "chunk = min (len - offset) 64"
    note ch = nand_chunk [OF True, folded chunk_def]
    define cmd where "cmd = (if offset = 0 then NAND_CMD_PROGRAM_LOAD else NAND_CMD_PROGRAM_LOAD_RANDOM)"
    obtain ret rx w1 where t: "spi_nand_transaction cmd (offset OR pb) 16 (Some (drop (unat offset) buf))
        (ucast (chunk * 8)) False 0 w = ((ret, rx), w1)" by (metis surj_pair)
    have ol: "unat offset < unat len" using True by (simp add: word_less_nat_alt)
    have o: "unat offset < 0x8000" using ol lens(1) by simp
    have c64: "unat chunk \<le> 64" using ch(1) by simp
    note col = column [OF o pb]
    have args: "nand_args (offset OR pb) 16 (Some (drop (unat offset) buf)) (ucast (chunk * 8)) 0 (unat chunk) 0"
      using col(3) c64 chunk_bits [OF c64] ch(4) lens(2) by (simp add: nand_args_def)
    note sd = send [OF less.prems(1) args t]
    have step: "ret = 0" "nand_write_loop buf len pb (offset + chunk) w1 = (0, w')"
      using less.prems(2) True t unfolding nand_write_loop.simps [of buf len pb offset w]
      by (auto simp: Let_def SPI_NAND_MAX_TX_BYTES_def chunk_def [symmetric] cmd_def [symmetric] rcs split: if_splits)
    define base where "base = (if offset = 0 then (\<lambda>_. 0xFF) else caches (nchip c0 w) pl)"
    define xs where "xs = take (unat chunk) (drop (unat offset) buf)"
    have xs: "length xs = unat chunk" using ch(4) lens(2) by (simp add: xs_def)
    have c1: "nchip c0 w1 = (nchip c0 w)\<lparr>caches := (caches (nchip c0 w))(pl := put (unat offset) xs base)\<rparr>"
      using sd(3) [OF step(1)] load_cmd [OF less.prems(3,4) col(1,2) cmd_def]
      by (simp add: base_def xs_def)
    have o1: "unat (offset + chunk) = unat offset + unat chunk" by (rule ch(2))
    have nz: "offset + chunk \<noteq> 0" using o1 ch(3) by (metis add_is_0 less_irrefl unat_0)
    have "nand_bus c0 w1" using stays_bus [OF sd(1)] less.prems(1) by simp
    moreover have "unat len - unat (offset + chunk) < unat len - unat offset" using o1 ch(3) ol by simp
    moreover have "offset + chunk \<le> len" using o1 ch(4) by (simp add: word_le_nat_alt)
    ultimately have IH: "stays w1 w'" "nchip c0 w' = (if offset + chunk = len then nchip c0 w1 else (nchip c0 w1)\<lparr>caches :=
        (caches (nchip c0 w1))(pl := put (unat (offset + chunk)) (take (unat len - unat (offset + chunk))
          (drop (unat (offset + chunk)) buf)) (caches (nchip c0 w1) pl))\<rparr>)"
      using less.hyps [of "offset + chunk" w1] step(2) c1 less.prems(3,4) nz by simp_all
    have rest: "take (unat len - unat offset) (drop (unat offset) buf) =
        xs @ take (unat len - unat (offset + chunk)) (drop (unat (offset + chunk)) buf)"
    proof -
      have "unat len - unat offset = unat chunk + (unat len - unat (offset + chunk))" using ch(4) o1 by simp
      then show ?thesis by (simp add: take_add xs_def o1 add.commute [of "unat chunk" "unat offset"])
    qed
    have "unat (offset + chunk) = unat len" if "offset + chunk = len" using that by simp
    then have "nchip c0 w' = (nchip c0 w)\<lparr>caches := (caches (nchip c0 w))
      (pl := put (unat offset) (take (unat len - unat offset) (drop (unat offset) buf)) base)\<rparr>"
      using IH(2) c1 rest put_put [OF xs] o1 by auto
    then show ?thesis using True stays_trans [OF IH(1) sd(1)] by (auto simp: base_def)
  qed
qed

text \<open>The copy loop appends the columns of the plane's cache from the offset on.\<close>

lemma nand_read_loop_ok:
  assumes bus: "nand_bus c0 w" and run: "nand_read_loop len pb offset got w = ((0, out), w')"
    and pb: "pb = (if pl then 0x8000 else 0)" and lens: "unat len \<le> 2048"
    and idle: "job (nchip c0 w) = None" and le: "offset \<le> len"
  shows "stays w w' \<and> nchip c0 w' = nchip c0 w \<and> s_last_status_byte w' = s_last_status_byte w \<and>
    out = got @ map (caches (nchip c0 w) pl) [unat offset..<unat len]"
  using bus run idle le
proof (induction "unat len - unat offset" arbitrary: offset got w rule: less_induct)
  case (less offset got w)
  show ?case
  proof (cases "offset < len")
    case False
    then have "offset = len" using less.prems(4) by simp
    then show ?thesis using less.prems(2) by (simp add: nand_read_loop.simps)
  next
    case True
    define chunk where "chunk = min (len - offset) 64"
    note ch = nand_chunk [OF True, folded chunk_def]
    obtain ret rx w1 where t: "spi_nand_transaction NAND_CMD_READ_FROM_CACHE (push_bit 8 (offset OR pb)) 24 None 0 True
        (ucast (chunk * 8)) w = ((ret, rx), w1)" by (metis surj_pair)
    have ol: "unat offset < unat len" using True by (simp add: word_less_nat_alt)
    have o: "unat offset < 0x8000" using ol lens by simp
    have c64: "unat chunk \<le> 64" using ch(1) by simp
    note col = column [OF o pb]
    have args: "nand_args (push_bit 8 (offset OR pb)) 24 None 0 (ucast (chunk * 8)) 0 (unat chunk)"
      using col(3,4) c64 chunk_bits [OF c64] by (simp add: nand_args_def)
    note tr = nand_transaction [OF less.prems(1) args t]
    have step: "ret = 0" "nand_read_loop len pb (offset + chunk) (got @ rx) w1 = ((0, out), w')"
      using less.prems(2) True t unfolding nand_read_loop.simps [of len pb offset got w]
      by (auto simp: Let_def SPI_NAND_MAX_RX_BYTES_def chunk_def [symmetric] rcs split: if_splits)
    have s1: "stays w w1" "s_last_status_byte w1 = s_last_status_byte w" using tr(1) evs_stays by blast+
    let ?c = "nand_cmd (the_frame NAND_CMD_READ_FROM_CACHE (push_bit 8 (offset OR pb)) 24 None 0 (unat chunk)) (chip_in c0 w)"
    have j: "job (chip_in c0 w) = None" using less.prems(3) by (simp add: nchip_def)
    have a: "unat (push_bit 8 (offset OR pb)) div 256 mod 32768 = unat offset"
      "unat (push_bit 8 (offset OR pb)) div 8388608 mod 2 = Suc 0 \<longleftrightarrow> pl"
      using col by (auto simp: div_mult2_eq [of _ 256 32768, simplified])
    have c: "?c = (chip_in c0 w)\<lparr>asked := False, dout := map (\<lambda>k. caches (chip_in c0 w) pl (unat offset + k)) [0..<unat chunk]\<rparr>"
      using j a by (simp add: nand_cmd_def the_frame_def Let_def regs)
    have rx: "rx = map (\<lambda>k. caches (nchip c0 w) pl (unat offset + k)) [0..<unat chunk]"
      using tr(4) [OF step(1)] unfolding c by (simp add: nchip_def)
    have c1: "nchip c0 w1 = nchip c0 w"
      using tr(3) [OF step(1)] unfolding c by (simp add: nchip_def nand_seen_def j norm_updates split: if_splits)
    have o1: "unat (offset + chunk) = unat offset + unat chunk" by (rule ch(2))
    have "nand_bus c0 w1" using stays_bus [OF s1(1)] less.prems(1) by simp
    moreover have "unat len - unat (offset + chunk) < unat len - unat offset" using o1 ch(3) ol by simp
    moreover have "offset + chunk \<le> len" using o1 ch(4) by (simp add: word_le_nat_alt)
    ultimately have IH: "stays w1 w'" "nchip c0 w' = nchip c0 w" "s_last_status_byte w' = s_last_status_byte w1"
      "out = (got @ rx) @ map (caches (nchip c0 w) pl) [unat (offset + chunk)..<unat len]"
      using less.hyps [of "offset + chunk" w1 "got @ rx"] step(2) c1 less.prems(3) by simp_all
    have rxm: "rx = map (caches (nchip c0 w) pl) [unat offset..<unat (offset + chunk)]"
      by (simp add: rx o1 list_eq_iff_nth_eq)
    have "out = got @ map (caches (nchip c0 w) pl) [unat offset..<unat len]"
    proof -
      have "[unat offset..<unat len] = [unat offset..<unat (offset + chunk)] @ [unat (offset + chunk)..<unat len]"
        using o1 ch(4) upt_add_eq_append [of "unat offset" "unat (offset + chunk)" "unat len - unat (offset + chunk)"] by simp
      then show ?thesis using IH(4) rxm by simp
    qed
    then show ?thesis using IH(2,3) s1(2) stays_trans [OF IH(1) s1(1)] by simp
  qed
qed

section \<open>The operations\<close>

text \<open>Page p with the bytes ds programmed from column col on.\<close>

definition programmed :: "nat \<Rightarrow> nat \<Rightarrow> u8 list \<Rightarrow> (nat \<Rightarrow> nat \<Rightarrow> u8) \<Rightarrow> nat \<Rightarrow> nat \<Rightarrow> u8" where
  "programmed p col ds m q i =
     (if q = p \<and> col \<le> i \<and> i < col + length ds then m q i AND ds ! (i - col) else m q i)"

lemma byte_and_FF: "(x :: u8) AND 0xFF = x"
proof -
  have m: "(0xFF :: u8) = mask 8" by (simp add: mask_eq_exp_minus_1)
  show ?thesis unfolding m by (rule bit_word_eqI) (auto simp: bit_simps)
qed

lemma programmed_put:
  "(\<lambda>i. m p i AND put col ds (\<lambda>_. 0xFF) i) = programmed p col ds m p"
  "(\<lambda>i. m p i AND put col ds (m p) i) = programmed p col ds m p"
  by (auto simp: programmed_def put_def fun_eq_iff byte_and_FF)

lemma programmed_upd: "m(p := programmed p col ds m p) = programmed p col ds m"
  by (auto simp: programmed_def fun_eq_iff)

lemma program_cmd:
  assumes "nand_bus c0 w" "nand_execute NAND_CMD_PROGRAM_EXECUTE p w = (0, w')"
    and "job (nchip c0 w) = None" "wel (nchip c0 w)"
  shows "stays w w'" "nchip c0 w' = (nchip c0 w)\<lparr>wel := False, cells := (cells (nchip c0 w))
    (page_of p := \<lambda>i. cells (nchip c0 w) (page_of p) i AND caches (nchip c0 w) (plane_of (page_of p)) i)\<rparr>"
proof -
  note e = nand_execute_ok [OF assms(1,2)]
  show "stays w w'" by (rule e(1))
  have "norm (nand_cmd (the_frame NAND_CMD_PROGRAM_EXECUTE (nand_page_addr p) 24 None 0 0) (nchip c0 w)) =
      (nchip c0 w)\<lparr>job := Some (Program (page_of p)), wel := False\<rparr>"
    using assms(3,4) nand_page_addr [of p]
    by (cases "chip_in c0 w") (simp add: nand_cmd_def the_frame_def Let_def regs nchip_def norm_def)
  then show "nchip c0 w' = (nchip c0 w)\<lparr>wel := False, cells := (cells (nchip c0 w))
    (page_of p := \<lambda>i. cells (nchip c0 w) (page_of p) i AND caches (nchip c0 w) (plane_of (page_of p)) i)\<rparr>"
    using e(3,4) assms(3) by (cases "nchip c0 w") (simp add: done_with_def finish_def)
qed

lemma write_page_chip:
  assumes bus: "nand_bus c0 w" and att: "nand_attached w" and idle: "job (nchip c0 w) = None"
    and run: "s3_nand_write_page p buf sz w = (0, w')" and len: "min (unat sz) 2048 \<le> length buf"
  shows "cells (nchip c0 w') = programmed (page_of p) 0 (take (min (unat sz) 2048) buf) (cells (nchip c0 w)) \<and>
    job (nchip c0 w') = None \<and> stays w w'"
proof -
  define n where "n = min sz 2048"
  have n: "unat n = min (unat sz) 2048" by (simp add: n_def min_def word_le_nat_alt)
  have att': "initialized (s_nand_config w)" "page_size (s_nand_config w) = 2048" using att by (simp_all add: nand_attached_def)
  show ?thesis
  proof (cases "n = 0")
    case True
    then show ?thesis
      using run att' n idle by (simp add: s3_nand_write_page_def n_def [symmetric] programmed_def fun_eq_iff)
  next
    case False
    obtain r1 w1 where w1: "nand_write_enable w = (r1, w1)" by fastforce
    obtain r2 w2 where w2: "nand_write_loop buf n (nand_plane_bit p w1) 0 w1 = (r2, w2)" by fastforce
    have r: "r1 = 0" "r2 = 0" "nand_execute NAND_CMD_PROGRAM_EXECUTE p w2 = (0, w')"
      using run att' False w1 w2
      by (auto simp: s3_nand_write_page_def Let_def n_def [symmetric] split: if_splits)
    note we = nand_write_enable_ok [OF bus w1 [unfolded r(1)] idle]
    have bus1: "nand_bus c0 w1" using stays_bus [OF we(1)] bus by simp
    have att1: "nand_attached w1" using att we(1) by (simp add: nand_attached_def stays_def)
    note pb = nand_plane_bit [OF att1, of p]
    have wl: "stays w1 w2" "nchip c0 w2 = (nchip c0 w1)\<lparr>caches := (caches (nchip c0 w1))
        (plane_of (page_of p) := put 0 (take (unat n) buf) (\<lambda>_. 0xFF))\<rparr>"
      using nand_write_loop_ok [OF bus1 w2 [unfolded r(2)] pb] n len we(2) idle False by auto
    have bus2: "nand_bus c0 w2" using stays_bus [OF wl(1)] bus1 by simp
    note pc = program_cmd [OF bus2 r(3)]
    have idle2: "job (nchip c0 w2) = None" "wel (nchip c0 w2)" using wl(2) we(2) idle by simp_all
    have "cells (nchip c0 w') = programmed (page_of p) 0 (take (unat n) buf) (cells (nchip c0 w))"
      using pc(2) [OF idle2] wl(2) we(2) by (simp add: programmed_put programmed_upd)
    moreover have "stays w w'" using stays_trans [OF stays_trans [OF pc(1) [OF idle2] wl(1)] we(1)] .
    ultimately show ?thesis using pc(2) [OF idle2] wl(2) we(2) idle n by simp
  qed
qed

text \<open>A page read puts the page into its plane's cache, unless the chip reports it uncorrectable.\<close>

lemma page_load:
  assumes bus: "nand_bus c0 w" and idle: "job (nchip c0 w) = None"
    and t: "nand_command NAND_CMD_PAGE_READ (nand_page_addr p) 24 w = ((0, rx), w1)"
    and wr: "nand_wait_ready w1 = (0, w2)"
  shows "stays w w2" "nand_bus c0 w2" "nchip c0 w2 =
     (if s_last_status_byte w2 AND NAND_STAT_ECC_MASK \<ge> NAND_STAT_ECC_UNCORR then nchip c0 w
      else (nchip c0 w)\<lparr>caches := (caches (nchip c0 w))
        (plane_of (page_of p) := cells (nchip c0 w) (page_of p))\<rparr>)"
proof -
  note s = send [OF bus args_24 t]
  have bus1: "nand_bus c0 w1" using stays_bus [OF s(1)] bus by simp
  note r = nand_wait_ready_ok [OF bus1 wr]
  show st: "stays w w2" using stays_trans [OF r(1) s(1)] .
  show "nand_bus c0 w2" using stays_bus [OF st] bus by simp
  have "nchip c0 w1 = (nchip c0 w)\<lparr>job := Some (Load (page_of p))\<rparr>"
    using s(3) [OF refl] idle nand_page_addr [of p]
    by (cases "chip_in c0 w") (simp add: nand_cmd_def the_frame_def Let_def regs nchip_def norm_def)
  then show "nchip c0 w2 =
     (if s_last_status_byte w2 AND NAND_STAT_ECC_MASK \<ge> NAND_STAT_ECC_UNCORR then nchip c0 w
      else (nchip c0 w)\<lparr>caches := (caches (nchip c0 w))
        (plane_of (page_of p) := cells (nchip c0 w) (page_of p))\<rparr>)"
    using r(3) idle by (cases "nchip c0 w") (simp add: done_with_def finish_def)
qed

lemma stays_attached: "stays w w' \<Longrightarrow> nand_attached w' = nand_attached w"
  by (simp add: stays_def nand_attached_def)

lemma read_page_chip:
  assumes bus: "nand_bus c0 w" and att: "nand_attached w" and idle: "job (nchip c0 w) = None"
    and run: "s3_nand_read_page p sz w = ((0, bs), w')"
  shows "bs = map (cells (nchip c0 w) (page_of p)) [0..<min (unat sz) 2048] \<and>
    cells (nchip c0 w') = cells (nchip c0 w) \<and> job (nchip c0 w') = None \<and>
    caches (nchip c0 w') (plane_of (page_of p)) = cells (nchip c0 w) (page_of p) \<and>
    s_last_status_byte w' AND NAND_STAT_ECC_MASK < NAND_STAT_ECC_UNCORR"
proof -
  define n where "n = (if sz > 2048 then 2048 else sz)"
  have n: "unat n = min (unat sz) 2048" by (simp add: n_def min_def word_less_nat_alt)
  have att': "initialized (s_nand_config w)" "page_size (s_nand_config w) = 2048" using att by (simp_all add: nand_attached_def)
  obtain r1 rx w1 where w1: "nand_command NAND_CMD_PAGE_READ (nand_page_addr p) 24 w = ((r1, rx), w1)" by (metis surj_pair)
  obtain r2 w2 where w2: "nand_wait_ready w1 = (r2, w2)" by fastforce
  have r: "r1 = 0" "r2 = 0" "nand_check_ecc_after_read w2 = 0"
    "nand_read_loop n (nand_plane_bit p w2) 0 [] w2 = ((0, bs), w')"
    using run att' w1 w2 by (auto simp: s3_nand_read_page_def Let_def n_def rcs split: if_splits)
  note pl = page_load [OF bus idle w1 [unfolded r(1)] w2 [unfolded r(2)]]
  have ecc: "\<not> s_last_status_byte w2 AND NAND_STAT_ECC_MASK \<ge> NAND_STAT_ECC_UNCORR"
    using r(3) by (auto simp: nand_check_ecc_after_read_def rcs split: if_splits)
  with pl(3) have c2: "nchip c0 w2 = (nchip c0 w)\<lparr>caches := (caches (nchip c0 w))
        (plane_of (page_of p) := cells (nchip c0 w) (page_of p))\<rparr>" by simp
  have "nand_plane_bit p w2 = (if plane_of (page_of p) then 0x8000 else 0)"
    using nand_plane_bit att stays_attached [OF pl(1)] by blast
  note l = nand_read_loop_ok [OF pl(2) r(4) this]
  show ?thesis using l n c2 idle ecc by (simp add: not_le)
qed

lemma erase_block_chip:
  assumes bus: "nand_bus c0 w" and att: "nand_attached w" and idle: "job (nchip c0 w) = None"
    and run: "s3_nand_erase_block p w = (0, w')"
  shows "cells (nchip c0 w') = (\<lambda>q. if q div 64 = page_of p div 64 then (\<lambda>_. 0xFF) else cells (nchip c0 w) q) \<and>
    job (nchip c0 w') = None"
proof -
  have att': "initialized (s_nand_config w)" using att by (simp add: nand_attached_def)
  obtain r1 w1 where w1: "nand_write_enable w = (r1, w1)" by fastforce
  have r: "r1 = 0" "nand_execute NAND_CMD_ERASE_BLOCK p w1 = (0, w')"
    using run att' w1 by (auto simp: s3_nand_erase_block_def split: if_splits)
  note we = nand_write_enable_ok [OF bus w1 [unfolded r(1)] idle]
  have bus1: "nand_bus c0 w1" using stays_bus [OF we(1)] bus by simp
  note e = nand_execute_ok [OF bus1 r(2)]
  have "norm (nand_cmd (the_frame NAND_CMD_ERASE_BLOCK (nand_page_addr p) 24 None 0 0) (nchip c0 w1)) =
      (nchip c0 w)\<lparr>job := Some (Erase (page_of p)), wel := False\<rparr>"
    unfolding we(2) using idle nand_page_addr [of p]
    by (cases "chip_in c0 w") (simp add: nand_cmd_def the_frame_def Let_def regs nchip_def norm_def)
  then show ?thesis using e(2,4) by (simp add: done_with_def finish_def fun_eq_iff)
qed

text \<open>
  The marker goes through the cache the page was loaded into, so the rest of the page is
  programmed with itself. Status st is the one after the page read: when it says the page
  was uncorrectable the rest is programmed with what the cache held, because
  \<open>stub\_target\_nand\_write\_bbm\<close> does not look at it.
\<close>

lemma write_bbm_chip:
  assumes bus: "nand_bus c0 w" and att: "nand_attached w" and idle: "job (nchip c0 w) = None"
    and run: "s3_nand_write_bbm p bad w = (0, w')"
  shows "job (nchip c0 w') = None \<and> (\<exists>st. cells (nchip c0 w') = (cells (nchip c0 w))(page_of p :=
    \<lambda>i. cells (nchip c0 w) (page_of p) i AND put 2048 (replicate 4 (if bad \<noteq> 0 then 0 else 0xFF))
      (if st AND NAND_STAT_ECC_MASK \<ge> NAND_STAT_ECC_UNCORR then caches (nchip c0 w) (plane_of (page_of p))
       else cells (nchip c0 w) (page_of p)) i))"
proof -
  have att': "initialized (s_nand_config w)" "page_size (s_nand_config w) = 2048" using att by (simp_all add: nand_attached_def)
  define marker :: "u8 list" where "marker = replicate 4 (if bad \<noteq> 0 then 0x00 else 0xFF)"
  obtain r1 rx w1 where w1: "nand_command NAND_CMD_PAGE_READ (nand_page_addr p) 24 w = ((r1, rx), w1)" by (metis surj_pair)
  obtain r2 w2 where w2: "nand_wait_ready w1 = (r2, w2)" by fastforce
  obtain r3 w3 where w3: "nand_write_enable w2 = (r3, w3)" by fastforce
  obtain r4 rx4 w4 where w4: "spi_nand_transaction NAND_CMD_PROGRAM_LOAD_RANDOM
     (page_size (s_nand_config w3) OR nand_plane_bit p w3) 16 (Some marker) 32 False 0 w3 = ((r4, rx4), w4)" by (metis surj_pair)
  have r: "r1 = 0" "r2 = 0" "r3 = 0" "r4 = 0" "nand_execute NAND_CMD_PROGRAM_EXECUTE p w4 = (0, w')"
    using run att' w1 w2 w3 w4
    by (auto simp: s3_nand_write_bbm_def Let_def marker_def [symmetric] rcs split: if_splits)
  note pl = page_load [OF bus idle w1 [unfolded r(1)] w2 [unfolded r(2)]]
  have c2: "cells (nchip c0 w2) = cells (nchip c0 w)" "job (nchip c0 w2) = None"
    "caches (nchip c0 w2) (plane_of (page_of p)) =
      (if s_last_status_byte w2 AND NAND_STAT_ECC_MASK \<ge> NAND_STAT_ECC_UNCORR
       then caches (nchip c0 w) (plane_of (page_of p)) else cells (nchip c0 w) (page_of p))"
    using pl(3) idle by simp_all
  note idle2 = c2(2)
  note we = nand_write_enable_ok [OF pl(2) w3 [unfolded r(3)] idle2]
  have s3: "stays w w3" using stays_trans [OF we(1) pl(1)] .
  have bus3: "nand_bus c0 w3" using stays_bus [OF s3] bus by simp
  have pb: "nand_plane_bit p w3 = (if plane_of (page_of p) then 0x8000 else 0)"
    using nand_plane_bit att stays_attached [OF s3] by blast
  have ps: "page_size (s_nand_config w3) = 2048" using s3 att' by (simp add: stays_def)
  note col = column [of 2048, OF _ pb]
  have args: "nand_args (2048 OR nand_plane_bit p w3) 16 (Some marker) 32 0 4 0"
    using col(3) by (simp add: nand_args_def marker_def)
  note sd = send [OF bus3 args w4 [unfolded ps]]
  have c4: "nchip c0 w4 = (nchip c0 w3)\<lparr>caches := (caches (nchip c0 w3))
      (plane_of (page_of p) := put 2048 marker (caches (nchip c0 w3) (plane_of (page_of p))))\<rparr>"
    using sd(3) [OF r(4)] we(2) idle2
      load_cmd [of "nchip c0 w3" "2048 OR nand_plane_bit p w3" 2048 "plane_of (page_of p)"
        NAND_CMD_PROGRAM_LOAD_RANDOM False marker 4] col(1,2)
    by (simp add: marker_def norm_updates)
  have bus4: "nand_bus c0 w4" using stays_bus [OF sd(1)] bus3 by simp
  have idle4: "job (nchip c0 w4) = None" "wel (nchip c0 w4)" using c4 we(2) idle2 by simp_all
  note pc = program_cmd [OF bus4 r(5) idle4]
  show ?thesis
    using pc(2) c4 we(2) c2 by (intro conjI exI [of _ "s_last_status_byte w2"]) (simp_all add: marker_def)
qed

text \<open>What a marker read returns: columns 2048 to 2051 of the even plane's cache, whatever the page.\<close>

lemma read_bbm_chip:
  assumes bus: "nand_bus c0 w" and att: "nand_attached w" and idle: "job (nchip c0 w) = None"
    and run: "s3_nand_read_bbm p spare w = ((0, bs), w')"
  shows "bs = map (caches (if s_last_status_byte w' AND NAND_STAT_ECC_MASK \<ge> NAND_STAT_ECC_UNCORR then nchip c0 w
      else (nchip c0 w)\<lparr>caches := (caches (nchip c0 w))(plane_of (page_of p) := cells (nchip c0 w) (page_of p))\<rparr>) False)
      [2048..<2052] \<and> cells (nchip c0 w') = cells (nchip c0 w)"
proof -
  have att': "initialized (s_nand_config w)" "page_size (s_nand_config w) = 2048" using att by (simp_all add: nand_attached_def)
  obtain r1 rx w1 where w1: "nand_command NAND_CMD_PAGE_READ (nand_page_addr p) 24 w = ((r1, rx), w1)" by (metis surj_pair)
  obtain r2 w2 where w2: "nand_wait_ready w1 = (r2, w2)" by fastforce
  obtain r3 rx3 w3 where w3: "spi_nand_transaction NAND_CMD_READ_FROM_CACHE (push_bit 8 (page_size (s_nand_config w2)))
     24 None 0 True 32 w2 = ((r3, rx3), w3)" by (metis surj_pair)
  have r: "r1 = 0" "r2 = 0" "r3 = 0" "bs = rx3" "w' = w3"
    using run att' w1 w2 w3 by (auto simp: s3_nand_read_bbm_def Let_def rcs split: if_splits)
  note pl = page_load [OF bus idle w1 [unfolded r(1)] w2 [unfolded r(2)]]
  have ps: "page_size (s_nand_config w2) = 2048" using pl(1) att' by (simp add: stays_def)
  have args: "nand_args (push_bit 8 2048) 24 None 0 32 0 4" by (simp add: nand_args_def)
  note tr = nand_transaction [OF pl(2) args w3 [unfolded ps]]
  have "job (chip_in c0 w2) = job (nchip c0 w2)" by (simp add: nchip_def)
  then have j: "job (chip_in c0 w2) = None" using pl(3) idle by (auto split: if_splits)
  let ?c = "nand_cmd (the_frame NAND_CMD_READ_FROM_CACHE (push_bit 8 2048) 24 None 0 4) (chip_in c0 w2)"
  have c: "?c = (chip_in c0 w2)\<lparr>asked := False, dout := map (caches (chip_in c0 w2) False) [2048..<2052]\<rparr>"
    using j by (simp add: nand_cmd_def the_frame_def Let_def regs upt_rec)
  have "bs = map (caches (nchip c0 w2) False) [2048..<2052]"
    using tr(4) [OF r(3)] r(4) unfolding c by (simp add: nchip_def upt_rec)
  moreover have "cells (nchip c0 w') = cells (nchip c0 w2)"
    using tr(3) [OF r(3)] r(5) unfolding c by (simp add: nchip_def nand_seen_def j split: if_splits)
  moreover have "cells (nchip c0 w2) = cells (nchip c0 w)" using pl(3) by simp
  moreover have "s_last_status_byte w' = s_last_status_byte w2" using evs_stays [OF tr(1)] r(5) by simp
  ultimately show ?thesis using pl(3) by simp
qed

section \<open>Properties\<close>

text \<open>What the chip stores, and that it is not in the middle of an operation.\<close>

definition nand_cells :: "nand_chip \<Rightarrow> 'a world_scheme \<Rightarrow> nat \<Rightarrow> nat \<Rightarrow> u8" where
  "nand_cells c0 w = cells (chip_in c0 w)"

definition nand_idle :: "nand_chip \<Rightarrow> 'a world_scheme \<Rightarrow> bool" where
  "nand_idle c0 w \<longleftrightarrow> job (chip_in c0 w) = None"

lemma nchip_cells: "cells (nchip c0 w) = nand_cells c0 w" "job (nchip c0 w) = None \<longleftrightarrow> nand_idle c0 w"
  by (simp_all add: nchip_def nand_cells_def nand_idle_def)

lemmas nand_chip_results = write_page_chip read_page_chip erase_block_chip write_bbm_chip read_bbm_chip

text \<open>
  C16: A page write that reports success has programmed exactly the given bytes, at most a
  page of them, from the start of the page: every byte is ANDed with its data byte and every
  other byte of every page is as before, for pages of even and of odd blocks.
\<close>

lemma nand_write_page_programs:
  assumes "nand_bus c0 w" "nand_attached w" "nand_idle c0 w" "min (unat sz) 2048 \<le> length buf"
    and "s3_nand_write_page p buf sz w = (0, w')"
  shows "nand_cells c0 w' = programmed (page_of p) 0 (take (min (unat sz) 2048) buf) (nand_cells c0 w) \<and>
    nand_idle c0 w'"
  using write_page_chip [of c0 w p buf sz w'] assms by (simp add: nchip_cells)

text \<open>
  C17: A page read that reports success returns the first bytes of the page, as many as
  asked for up to a page, and changes nothing the chip stores. It succeeds, even when no
  byte is asked for, only if the chip has loaded the page into the cache of its plane and
  the status byte it ended the load with, which the driver keeps, reports no uncorrectable
  error.
\<close>

lemma nand_read_page_returns:
  assumes "nand_bus c0 w" "nand_attached w" "nand_idle c0 w"
    and "s3_nand_read_page p sz w = ((0, bs), w')"
  shows "bs = map (nand_cells c0 w (page_of p)) [0..<min (unat sz) 2048] \<and>
    nand_cells c0 w' = nand_cells c0 w \<and> nand_idle c0 w' \<and>
    caches (chip_in c0 w') (plane_of (page_of p)) = nand_cells c0 w (page_of p) \<and>
    s_last_status_byte w' AND NAND_STAT_ECC_MASK < NAND_STAT_ECC_UNCORR"
proof -
  have "caches (nchip c0 w') = caches (chip_in c0 w')" by (simp add: nchip_def)
  with read_page_chip [of c0 w p sz bs w'] assms show ?thesis by (simp add: nchip_cells)
qed

text \<open>
  C18: A block erase that reports success has set every byte of the 64 pages of the block to
  0xFF and no other byte.
\<close>

lemma nand_erase_block_erases:
  assumes "nand_bus c0 w" "nand_attached w" "nand_idle c0 w"
    and "s3_nand_erase_block p w = (0, w')"
  shows "nand_cells c0 w' q i = (if q div 64 = page_of p div 64 then 0xFF else nand_cells c0 w q i) \<and>
    nand_idle c0 w'"
  using erase_block_chip [of c0 w p w'] assms by (simp add: nchip_cells)

text \<open>
  Marking a block as bad clears the four marker bytes in the spare area of the page and
  changes no other page.
\<close>

lemma nand_write_bbm_marks:
  assumes "nand_bus c0 w" "nand_attached w" "nand_idle c0 w" "bad \<noteq> 0"
    and "s3_nand_write_bbm p bad w = (0, w')"
  shows "(\<forall>i\<in>{2048..<2052}. nand_cells c0 w' (page_of p) i = 0) \<and>
    (\<forall>q i. q \<noteq> page_of p \<longrightarrow> nand_cells c0 w' q i = nand_cells c0 w q i) \<and> nand_idle c0 w'"
  using write_bbm_chip [of c0 w p bad w'] assms by (auto simp: nchip_cells put_def)

text \<open>
  The marker of a page in an odd block is read from the cache of the even blocks, which the
  page was not loaded into.
\<close>


text \<open>Nothing reaches the bus before the chip was attached.\<close>

text \<open>
  Before a successful attach every operation on NAND pages is refused and causes no
  event at all.
\<close>

lemma nand_not_initialized:
  assumes "\<not> initialized (s_nand_config w)"
  shows "s3_nand_write_page p buf sz w = (NAND_ERR_NOT_INITIALIZED, w) \<and>
    s3_nand_read_page p sz w = ((NAND_ERR_NOT_INITIALIZED, []), w) \<and>
    s3_nand_erase_block p w = (NAND_ERR_NOT_INITIALIZED, w) \<and>
    s3_nand_write_bbm p bad w = (NAND_ERR_NOT_INITIALIZED, w) \<and>
    s3_nand_read_bbm p spare w = ((NAND_ERR_NOT_INITIALIZED, []), w)"
  using assms by (simp add: s3_nand_write_page_def s3_nand_read_page_def s3_nand_erase_block_def
      s3_nand_write_bbm_def s3_nand_read_bbm_def)

section \<open>A concrete chip and controller\<close>

definition pack :: "u8 list \<Rightarrow> nat \<Rightarrow> u32" where
  "pack d i = fold (\<lambda>j word. word OR push_bit (j * 8) (ucast (d ! (i * 4 + j)))) [0..<min 4 (length d - i * 4)] 0"

text \<open>The controller is never busy; the data registers give the bytes of the chip's last answer.\<close>

definition spi2_dev :: "nand_chip \<Rightarrow> ev list \<Rightarrow> cell \<Rightarrow> u32" where
  "spi2_dev c0 es c =
     (case c of
        Mmio a \<Rightarrow>
          (if a = SPI_CMD_REG NAND_SPI_NUM then 0
           else if a - SPI_W0_REG NAND_SPI_NUM < 64
           then pack (dout (chip (nand_run c0 es))) (unat (a - SPI_W0_REG NAND_SPI_NUM) div 4)
           else regfile 0 es c)
      | _ \<Rightarrow> 0)"

definition blank_chip :: nand_chip where
  "blank_chip = \<lparr>cells = \<lambda>p i. if p < 128 \<and> i < 8 then of_nat (p + i) else 0xFF, caches = \<lambda>_ _. 0xFF, wel = False,
     job = None, asked = False, dout = []\<rparr>"

definition chip_world :: "nand_world" where
  "chip_world = \<lparr>rd_dev = spi2_dev blank_chip, rom_dev = \<lambda>_ _ _ _. (0, []), mem_dev = \<lambda>_ _ _. [], sym_addr = \<lambda>_. 0,
     trace = [], s_nand_config = \<lparr>page_size = 2048, pages_per_block = 64, block_size = 131072, initialized = True\<rparr>,
     s_last_status_byte = 0xFF\<rparr>"

lemma spi2_dev_bus: "rd_dev w = spi2_dev c0 \<Longrightarrow> nand_bus c0 w"
proof -
  assume d: "rd_dev w = spi2_dev c0"
  have "spi2_dev c0 (es @ [Wr (Mmio (SPI_USER2_REG NAND_SPI_NUM)) v]) (Mmio (SPI_USER2_REG NAND_SPI_NUM)) = v" for es v
    by (simp add: spi2_dev_def regfile_def) (simp add: regs)
  moreover have "ucast (drop_bit (k mod 4 * 8) (spi2_dev c0 es (Mmio (W_cell (k div 4))))) = dout (chip (nand_run c0 es)) ! k"
    if k: "k < length (dout (chip (nand_run c0 es)))" "k < 64" for es k
  proof -
    have i: "k div 4 < 16" using k(2) by simp
    define d where "d = dout (chip (nand_run c0 es))"
    have "k mod 4 < min 4 (length d - k div 4 * 4)" using k(1) by (simp add: min_def d_def) presburger
    then show ?thesis
      using packed_byte [of "min 4 (length d - k div 4 * 4)" "k mod 4" "\<lambda>j. d ! (k div 4 * 4 + j)"]
        W_cell_facts(1,3) [OF i] W_cell_offset [OF i]
      by (simp add: spi2_dev_def pack_def d_def [symmetric])
  qed
  ultimately show "nand_bus c0 w" using d by (simp add: nand_bus_def)
qed

lemma chip_world_ok: "nand_bus blank_chip chip_world" "nand_attached chip_world" "nand_idle blank_chip chip_world"
  by (simp_all add: spi2_dev_bus chip_world_def nand_attached_def nand_idle_def chip_in_def nand_sim_of_def nand_run_def blank_chip_def)

text \<open>With this device every transaction succeeds, and the chip is ready at the first poll.\<close>

lemma spi2_transaction:
  assumes d: "rd_dev w = spi2_dev c0" and args: "nand_args addr ab tx tb rb n m"
  obtains rx w' where "spi_nand_transaction cmd addr ab tx tb rd rb w = ((0, rx), w')" "evs w w'"
proof -
  have idle: "spi_nand_wait b t u = (True, after u [Rd (Mmio (SPI_CMD_REG NAND_SPI_NUM)) 0])"
    if "rd_dev u = spi2_dev c0" for b t and u :: "'a world_scheme"
    using that by (subst spi_nand_wait.simps) (simp add: REG_READ_eq peek_def spi2_dev_def)
  obtain rc rx w' where t: "spi_nand_transaction cmd addr ab tx tb rd rb w = ((rc, rx), w')" by (metis surj_pair)
  note tr = nand_transaction [OF spi2_dev_bus [OF d] args t]
  have ld: "rd_dev (spi_nand_load cmd addr ab tx tb rb u) = rd_dev u" if "nand_bus c0 u" for u :: "'a world_scheme"
    using load_frame(1) [OF that args, where cmd = cmd] by (rule evsE) simp
  have bus: "nand_bus c0 (after w es)" for es using spi2_dev_bus [OF d] by simp
  have "rc = 0"
    using t d by (auto simp: spi_nand_transaction_def Let_def idle REG_WRITE_eq ld [OF bus] split: if_splits prod.splits)
  then show thesis using that t tr(1) by blast
qed

lemma spi2_wait_ready:
  assumes d: "rd_dev w = spi2_dev c0"
  obtains w' where "nand_wait_ready w = (0, w')" "stays w w'" "s_last_status_byte w' = 0"
proof -
  let ?w = "stub_lib_delay_us 10 w"
  have d': "rd_dev ?w = spi2_dev c0" using d by (simp add: stub_lib_delay_us_eq)
  have args: "nand_args (ucast NAND_REG_STATUS) 8 None 0 8 0 1" by (simp add: nand_args_def regs)
  obtain rx w1 where t: "spi_nand_transaction NAND_CMD_READ_REGISTER (ucast NAND_REG_STATUS) 8 None 0 True 8 ?w = ((0, rx), w1)"
    and e: "evs ?w w1" using spi2_transaction [OF d' args] by metis
  note tr = nand_transaction [OF spi2_dev_bus [OF d'] args t]
  obtain u where u: "evs ?w u" "chip_in c0 u = nand_cmd (the_frame NAND_CMD_READ_REGISTER (ucast NAND_REG_STATUS) 8 None 0 1) (chip_in c0 ?w)"
    "rx ! 0 = ucast (peek (Mmio (W_cell 0)) u)" using tr(5) by auto
  have "rd_dev u = spi2_dev c0" using u(1) d' by (auto elim: evsE)
  moreover have "dout (chip_in c0 u) = []" by (simp add: u(2) nand_cmd_def the_frame_def Let_def regs)
  ultimately have "peek (Mmio (W_cell 0)) u = 0"
    using W_cell_facts(1,3) [of 0] by (simp add: peek_def spi2_dev_def chip_in_def nand_sim_of_def pack_def)
  then have z: "rx ! 0 = 0" using u(3) by simp
  have n: "NAND_ERASE_TIMEOUT_US div 10 = Suc 99999" by (simp add: NAND_ERASE_TIMEOUT_US_def)
  define w2 where "w2 = w1\<lparr>s_last_status_byte := 0\<rparr>"
  have "nand_wait_ready w = (0, w2)"
    by (simp only: nand_wait_ready_def n nand_ready_loop.simps) (simp add: t z w2_def)
  moreover have "stays w w2"
    using stays_trans [OF conjunct1 [OF evs_stays [OF e]] nchip_delay(2)] by (simp add: stays_def w2_def)
  ultimately show thesis using that by (simp add: w2_def)
qed

lemma spi2_command:
  assumes "rd_dev w = spi2_dev c0" "nand_args addr ab None 0 0 0 0"
  obtains rx w' where "nand_command cmd addr ab w = ((0, rx), w')" "stays w w'"
proof -
  obtain rx w' where "nand_command cmd addr ab w = ((0, rx), w')" "evs w w'"
    using spi2_transaction [OF assms] by metis
  then show thesis using that evs_stays by blast
qed

lemma spi2_execute:
  assumes d: "rd_dev w = spi2_dev c0"
  obtains w' where "nand_execute cmd p w = (0, w')" "stays w w'"
proof -
  obtain rx w1 where w1: "nand_command cmd (nand_page_addr p) 24 w = ((0, rx), w1)" "stays w w1"
    using spi2_command [OF d args_24] by metis
  have "rd_dev w1 = spi2_dev c0" using w1(2) d by (simp add: stays_def)
  then obtain w2 where w2: "nand_wait_ready w1 = (0, w2)" "stays w1 w2" "s_last_status_byte w2 = 0"
    using spi2_wait_ready by metis
  have "nand_execute cmd p w = (0, w2)" using w1 w2 by (simp add: nand_execute_def nand_wait_program_erase_def)
  then show thesis using that stays_trans [OF w2(2) w1(2)] by blast
qed

lemma spi2_write_enable:
  assumes d: "rd_dev w = spi2_dev c0"
  obtains w' where "nand_write_enable w = (0, w')" "stays w w'"
proof -
  obtain rx w1 where "nand_command NAND_CMD_WRITE_ENABLE 0 0 w = ((0, rx), w1)" "stays w w1"
    using spi2_command [OF d args_0] by metis
  then show thesis using that by (simp add: nand_write_enable_def)
qed

lemma nand_write_page_programs_witness:
  "\<exists>w'. s3_nand_write_page 65 [0x0F, 0xF0] 2 chip_world = (0, w') \<and>
     nand_cells blank_chip w' = programmed 65 0 [0x0F, 0xF0] (nand_cells blank_chip chip_world)"
proof -
  have att: "initialized (s_nand_config chip_world)" "page_size (s_nand_config chip_world) = 2048"
    by (simp_all add: chip_world_def)
  have d: "rd_dev chip_world = spi2_dev blank_chip" by (simp add: chip_world_def)
  obtain w1 where w1: "nand_write_enable chip_world = (0, w1)" "stays chip_world w1" using spi2_write_enable [OF d] .
  have d1: "rd_dev w1 = spi2_dev blank_chip" using w1(2) d by (simp add: stays_def)
  have pb: "nand_plane_bit 65 w1 = 0x8000" using w1(2) by (simp add: nand_plane_bit_def stays_def chip_world_def)
  have "nand_args 0x8000 16 (Some [0x0F, 0xF0]) 16 0 2 0" by (simp add: nand_args_def)
  then obtain rx w2 where w2: "spi_nand_transaction NAND_CMD_PROGRAM_LOAD 0x8000 16 (Some [0x0F, 0xF0]) 16 False 0 w1 = ((0, rx), w2)"
    "evs w1 w2" using spi2_transaction [OF d1] by metis
  have d2: "rd_dev w2 = spi2_dev blank_chip" using evs_stays [OF w2(2)] d1 by (simp add: stays_def)
  obtain w3 where w3: "nand_execute NAND_CMD_PROGRAM_EXECUTE 65 w2 = (0, w3)" using spi2_execute [OF d2] .
  have "nand_write_loop [0x0F, 0xF0] 2 0x8000 0 w1 = (0, w2)"
    using w2(1) by (simp add: nand_write_loop.simps SPI_NAND_MAX_TX_BYTES_def)
  then have r: "s3_nand_write_page 65 [0x0F, 0xF0] 2 chip_world = (0, w3)"
    using w1 pb w3 att by (simp add: s3_nand_write_page_def)
  then show ?thesis using nand_write_page_programs [OF chip_world_ok _ r] by (simp add: page_of_def)
qed

lemma nand_read_page_returns_witness:
  "\<exists>w'. s3_nand_read_page 66 3 chip_world = ((0, [66, 67, 68]), w') \<and>
     nand_cells blank_chip w' = nand_cells blank_chip chip_world"
proof -
  have att: "initialized (s_nand_config chip_world)" "page_size (s_nand_config chip_world) = 2048"
    by (simp_all add: chip_world_def)
  have d: "rd_dev chip_world = spi2_dev blank_chip" by (simp add: chip_world_def)
  obtain rx w1 where w1: "nand_command NAND_CMD_PAGE_READ (nand_page_addr 66) 24 chip_world = ((0, rx), w1)" "stays chip_world w1"
    using spi2_command [OF d args_24] by metis
  have d1: "rd_dev w1 = spi2_dev blank_chip" using w1(2) d by (simp add: stays_def)
  obtain w2 where w2: "nand_wait_ready w1 = (0, w2)" "stays w1 w2" "s_last_status_byte w2 = 0"
    using spi2_wait_ready [OF d1] .
  have d2: "rd_dev w2 = spi2_dev blank_chip" using w2(2) d1 by (simp add: stays_def)
  have pb: "nand_plane_bit 66 w2 = 0x8000" using w1(2) w2(2) by (simp add: nand_plane_bit_def stays_def chip_world_def)
  have "nand_args 0x800000 24 None 0 24 0 3" by (simp add: nand_args_def)
  then obtain rx3 w3 where w3: "spi_nand_transaction NAND_CMD_READ_FROM_CACHE 0x800000 24 None 0 True 24 w2 = ((0, rx3), w3)"
    using spi2_transaction [OF d2] by metis
  have "nand_read_loop 3 0x8000 0 [] w2 = ((0, rx3), w3)"
    using w3 by (simp add: nand_read_loop.simps SPI_NAND_MAX_RX_BYTES_def)
  then have r: "s3_nand_read_page 66 3 chip_world = ((0, rx3), w3)"
    using w1 w2 pb att by (simp add: s3_nand_read_page_def nand_check_ecc_after_read_def regs)
  have "nand_cells blank_chip chip_world = cells blank_chip"
    by (simp add: nand_cells_def chip_in_def nand_sim_of_def nand_run_def chip_world_def)
  then have "rx3 = [66, 67, 68] \<and> nand_cells blank_chip w3 = nand_cells blank_chip chip_world"
    using nand_read_page_returns [OF chip_world_ok r] by (simp add: page_of_def blank_chip_def upt_rec)
  then show ?thesis using r by blast
qed

lemma nand_erase_block_erases_witness:
  "\<exists>w'. s3_nand_erase_block 64 chip_world = (0, w') \<and> nand_cells blank_chip w' 127 0 = 0xFF \<and>
     nand_cells blank_chip w' 63 0 = 63"
proof -
  have att: "initialized (s_nand_config chip_world)" by (simp add: chip_world_def)
  have d: "rd_dev chip_world = spi2_dev blank_chip" by (simp add: chip_world_def)
  obtain w1 where w1: "nand_write_enable chip_world = (0, w1)" "stays chip_world w1" using spi2_write_enable [OF d] .
  have d1: "rd_dev w1 = spi2_dev blank_chip" using w1(2) d by (simp add: stays_def)
  obtain w2 where w2: "nand_execute NAND_CMD_ERASE_BLOCK 64 w1 = (0, w2)" using spi2_execute [OF d1] .
  have r: "s3_nand_erase_block 64 chip_world = (0, w2)" using w1 w2 att by (simp add: s3_nand_erase_block_def)
  have "nand_cells blank_chip chip_world = cells blank_chip"
    by (simp add: nand_cells_def chip_in_def nand_sim_of_def nand_run_def chip_world_def)
  then show ?thesis
    using r nand_erase_block_erases [OF chip_world_ok r, of 127 0] nand_erase_block_erases [OF chip_world_ok r, of 63 0]
    by (simp add: page_of_def blank_chip_def)
qed

lemma spi2_page_load:
  obtains w2 where "nand_wait_ready (snd (nand_command NAND_CMD_PAGE_READ (nand_page_addr p) 24 chip_world)) = (0, w2)"
    "fst (fst (nand_command NAND_CMD_PAGE_READ (nand_page_addr p) 24 chip_world)) = 0"
    "stays chip_world w2" "s_last_status_byte w2 = 0" "rd_dev w2 = spi2_dev blank_chip"
proof -
  have d: "rd_dev chip_world = spi2_dev blank_chip" by (simp add: chip_world_def)
  obtain rx w1 where w1: "nand_command NAND_CMD_PAGE_READ (nand_page_addr p) 24 chip_world = ((0, rx), w1)" "stays chip_world w1"
    using spi2_command [OF d args_24] by metis
  have d1: "rd_dev w1 = spi2_dev blank_chip" using w1(2) d by (simp add: stays_def)
  obtain w2 where w2: "nand_wait_ready w1 = (0, w2)" "stays w1 w2" "s_last_status_byte w2 = 0"
    using spi2_wait_ready [OF d1] .
  have "rd_dev w2 = spi2_dev blank_chip" using w2(2) d1 by (simp add: stays_def)
  then show thesis using that [of w2] w1 w2 stays_trans [OF w2(2) w1(2)] by simp
qed

lemma nand_write_bbm_marks_witness:
  "\<exists>w'. s3_nand_write_bbm 64 1 chip_world = (0, w') \<and> nand_cells blank_chip w' 64 2048 = 0"
proof -
  have att: "initialized (s_nand_config chip_world)" by (simp add: chip_world_def)
  obtain w2 where w2: "nand_wait_ready (snd (nand_command NAND_CMD_PAGE_READ (nand_page_addr 64) 24 chip_world)) = (0, w2)"
    "fst (fst (nand_command NAND_CMD_PAGE_READ (nand_page_addr 64) 24 chip_world)) = 0"
    "stays chip_world w2" "rd_dev w2 = spi2_dev blank_chip" using spi2_page_load [of 64] by metis
  obtain w3 where w3: "nand_write_enable w2 = (0, w3)" "stays w2 w3" using spi2_write_enable [OF w2(4)] .
  have d3: "rd_dev w3 = spi2_dev blank_chip" using w3(2) w2(4) by (simp add: stays_def)
  have c: "page_size (s_nand_config w3) OR nand_plane_bit 64 w3 = 0x8800"
    using w2(3) w3(2) by (simp add: nand_plane_bit_def stays_def chip_world_def)
  have "nand_args 0x8800 16 (Some [0, 0, 0, 0]) 32 0 4 0" by (simp add: nand_args_def)
  then obtain rx w4 where w4: "spi_nand_transaction NAND_CMD_PROGRAM_LOAD_RANDOM 0x8800 16 (Some [0, 0, 0, 0]) 32 False 0 w3 = ((0, rx), w4)"
    "evs w3 w4" using spi2_transaction [OF d3] by metis
  have d4: "rd_dev w4 = spi2_dev blank_chip" using evs_stays [OF w4(2)] d3 by (simp add: stays_def)
  obtain w5 where w5: "nand_execute NAND_CMD_PROGRAM_EXECUTE 64 w4 = (0, w5)" using spi2_execute [OF d4] .
  have r: "s3_nand_write_bbm 64 1 chip_world = (0, w5)"
    using w2(1,2) w3(1) w4(1) w5 c att by (simp add: s3_nand_write_bbm_def split_beta numeral_eq_Suc)
  show ?thesis using nand_write_bbm_marks [OF chip_world_ok _ r] r by (simp add: page_of_def)
qed


lemma nand_not_initialized_witness:
  "s3_nand_write_page 0 [1] 1 (chip_world\<lparr>s_nand_config := (s_nand_config chip_world)\<lparr>initialized := False\<rparr>\<rparr>) =
     (NAND_ERR_NOT_INITIALIZED, chip_world\<lparr>s_nand_config := (s_nand_config chip_world)\<lparr>initialized := False\<rparr>\<rparr>)"
  using nand_not_initialized [of "chip_world\<lparr>s_nand_config := (s_nand_config chip_world)\<lparr>initialized := False\<rparr>\<rparr>"] by simp

section \<open>Attaching\<close>

lemma evs_rx_words [evs_rules]: "evs w (snd s) \<Longrightarrow> evs w (snd (fold (nand_rx_word n) is s))"
  by (induction "is" arbitrary: s) (auto simp: nand_rx_word_def REG_READ_eq evs_after split: prod.splits)

lemma evs_nand_wait [evs_rules]: "evs w u \<Longrightarrow> evs w (snd (spi_nand_wait b t u))"
  using evs_trans nand_wait_sim(1) by (metis surjective_pairing)

lemma evs_nand [evs_rules]:
  "evs w u \<Longrightarrow> evs w (spi_nand_load cmd addr ab tx tb rb u)" "evs w u \<Longrightarrow> evs w (stub_lib_delay_us us u)"
  by (simp_all add: spi_nand_load_def Let_def evs_rules stub_lib_delay_us_def rom_eq evs_after)

lemma evs_transaction [evs_rules]:
  "evs w u \<Longrightarrow> evs w (snd (spi_nand_transaction cmd addr ab tx tb rd rb u))"
  by (simp add: spi_nand_transaction_def Let_def split_beta evs_rules)

lemma evs_registers [evs_rules]:
  "evs w u \<Longrightarrow> evs w (snd (s3_nand_read_register r v u))"
  "evs w u \<Longrightarrow> evs w (snd (nand_write_register r x u))"
  by (simp_all add: s3_nand_read_register_def nand_write_register_def split_beta evs_rules)

lemma evs_configure: "evs w (snd (nand_configure w))"
  by (simp add: nand_configure_def Let_def split_beta evs_rules)

lemma evs_gpio [evs_rules]: "evs w u \<Longrightarrow> evs w (gpio f args u)"
  by (simp add: gpio_def evs_rules)

lemma evs_pin [evs_rules]: "evs w u \<Longrightarrow> evs w (set_iomux_fspi r n u)" "evs w u \<Longrightarrow> evs w (matrix_pin n u)"
  by (simp_all add: set_iomux_fspi_def matrix_pin_def Let_def split_beta evs_rules)

lemma evs_pins [evs_rules]:
  "evs w u \<Longrightarrow> evs w (iomux_pins ps u)" "evs w u \<Longrightarrow> evs w (matrix_pins ps u)"
  "evs w u \<Longrightarrow> evs w (spi_nand_setup u)" "evs w u \<Longrightarrow> evs w (spi_nand_timing u)"
  by (simp_all add: iomux_pins_def matrix_pins_def spi_nand_setup_def spi_nand_timing_def Let_def split_beta evs_rules)

lemma evs_init: "evs w (snd (spi_nand_init a w))"
  by (simp add: spi_nand_init_def Let_def split_beta evs_rules)

lemma nand_delay_config: "s_nand_config (stub_lib_delay_us us w) = s_nand_config w"
  by (simp add: stub_lib_delay_us_eq)

lemma ready_loop_config: "s_nand_config (snd (nand_ready_loop t w)) = s_nand_config w"
proof (induction t arbitrary: w)
  case (Suc t)
  have "stays u (snd (spi_nand_transaction cmd addr ab tx tb rd rb u))" for cmd addr ab tx tb rd rb and u :: "'a nand_world_scheme"
    using evs_stays [OF evs_transaction [OF evs_refl]] by blast
  then show ?case using Suc by (simp add: Let_def split_beta stub_lib_delay_us_eq stays_def)
qed simp

text \<open>
  An attach that succeeds leaves the driver with the geometry of the chip and ready to be
  used; one with a pin the chip does not have causes no event and leaves it unusable.
\<close>

definition pins_valid :: "u32 \<Rightarrow> bool" where
  "pins_valid a \<longleftrightarrow> a = 0 \<or> (\<forall>s\<in>{0, 6, 12, 18, 24}. unat (HSPI_PIN_FIELD a s) < 48)"

lemma init_bad_pins: "\<not> pins_valid a \<Longrightarrow> spi_nand_init a w = (NAND_ERR_PIN_INVALID, w)"
proof -
  assume a: "\<not> pins_valid a"
  have u: "unat (ucast (p :: u8) :: u32) = unat p" for p
    using unsigned_less [where w = p and 'a = nat] by (simp add: unsigned_ucast_eq take_bit_nat_eq_self_iff)
  have "\<exists>p \<in> set [HSPI_PIN_FIELD a 0, HSPI_PIN_FIELD a 6, HSPI_PIN_FIELD a 12, HSPI_PIN_FIELD a 18, HSPI_PIN_FIELD a 24].
      MAX_PAD_GPIO_NUM \<le> ucast p" "a \<noteq> 0"
    using a by (auto simp: pins_valid_def word_le_nat_alt u regs not_less)
  then show ?thesis by (simp only: spi_nand_init_def hspi_pins_def Let_def if_False if_True split_conv)
qed

text \<open>
  An attach that succeeds had valid pins and leaves the driver initialised with the
  geometry of the chip; a pin number out of range is refused before any register is touched
  and leaves the driver unusable.
\<close>

lemma nand_attach_outcome:
  assumes at: "s3_nand_attach a w = (ret, w')"
  shows "(ret = 0 \<longrightarrow> pins_valid a \<and> nand_attached w') \<and>
    (\<not> pins_valid a \<longrightarrow> ret = NAND_ERR_PIN_INVALID \<and> trace w' = trace w \<and> \<not> initialized (s_nand_config w'))"
proof -
  define w0 where "w0 = w\<lparr>s_nand_config := (s_nand_config w)\<lparr>page_size := 2048, pages_per_block := 64,
       block_size := 128 * 1024, initialized := False\<rparr>, s_last_status_byte := 0xFF\<rparr>"
  have bad: "s3_nand_attach a w = (NAND_ERR_PIN_INVALID, w0)" if "\<not> pins_valid a"
    using init_bad_pins [OF that, of w0] unfolding s3_nand_attach_def Let_def w0_def [symmetric] by (simp add: rcs)
  have w0: "s_nand_config w0 = \<lparr>page_size = 2048, pages_per_block = 64, block_size = 131072, initialized = False\<rparr>"
    "trace w0 = trace w" by (simp_all add: w0_def)
  have good: "nand_attached w'" if r: "ret = 0"
  proof -
    obtain r1 w1 where w1: "spi_nand_init a w0 = (r1, w1)" by fastforce
    obtain r2 rx w2 where w2: "nand_command NAND_CMD_RESET 0 0 (stub_lib_delay_us 5000 w1) = ((r2, rx), w2)" by (metis surj_pair)
    obtain r3 w3 where w3: "nand_wait_ready (stub_lib_delay_us 10000 w2) = (r3, w3)" by fastforce
    have w': "w' = snd (nand_configure (w3\<lparr>s_nand_config := (s_nand_config w3)\<lparr>initialized := True\<rparr>\<rparr>))"
      using at r w1 w2 w3 unfolding s3_nand_attach_def Let_def w0_def [symmetric] by (auto simp: rcs split: if_splits)
    have "stays w0 w1" using evs_stays [OF evs_init [of w0 a]] w1 by simp
    moreover have "stays (stub_lib_delay_us 5000 w1) w2"
      using evs_stays [OF evs_transaction [OF evs_refl, of "stub_lib_delay_us 5000 w1" NAND_CMD_RESET 0 0 None 0 False 0]] w2 by simp
    moreover have "s_nand_config w3 = s_nand_config (stub_lib_delay_us 10000 w2)"
      using w3 ready_loop_config by (metis nand_wait_ready_def nand_delay_config snd_conv)
    ultimately have "s_nand_config w3 = s_nand_config w0" by (simp add: stays_def stub_lib_delay_us_eq)
    moreover have "s_nand_config w' = (s_nand_config w3)\<lparr>initialized := True\<rparr>"
      using evs_stays [OF evs_configure [of "w3\<lparr>s_nand_config := (s_nand_config w3)\<lparr>initialized := True\<rparr>\<rparr>"]]
      by (simp add: w' stays_def)
    ultimately show ?thesis by (simp add: nand_attached_def w0)
  qed
  show ?thesis
    using at good bad w0 by (cases "pins_valid a") (auto simp: rcs)
qed

lemma nand_attach_outcome_witness:
  "fst (s3_nand_attach 0x30 chip_world) = NAND_ERR_PIN_INVALID \<and> trace (snd (s3_nand_attach 0x30 chip_world)) = []"
  using nand_attach_outcome [OF surjective_pairing, of "0x30" chip_world]
  by (simp add: pins_valid_def HSPI_PIN_FIELD_def) (simp add: chip_world_def)

end
