(* ===== verification/Serial.thy ===== *)
theory Serial
  imports World
begin

text \<open>
  Contracts of the transports: a byte-wise transmitter, met by the library's three serial
  ports USB OTG, USB serial JTAG and UART, and a receiver of frames, met by the SPI slave and
  the SDIO driver.
\<close>

section \<open>Transmitters\<close>

text \<open>
  A transmitter takes a byte and says with status 0 that it accepted it. It may keep accepted
  bytes for a while; a flush hands over all it has kept. \<open>tx_all\<close> offers bytes in order and
  collects those that were accepted.
\<close>

fun tx_all :: "(u8 \<Rightarrow> 'w \<Rightarrow> u8 \<times> 'w) \<Rightarrow> u8 list \<Rightarrow> 'w \<Rightarrow> u8 list \<times> 'w" where
  "tx_all put [] w = ([], w)"
| "tx_all put (c # cs) w =
     (let (st, w) = put c w; (bs, w) = tx_all put cs w
      in ((if st = 0 then c # bs else bs), w))"

locale transmitter =
  fixes put :: "u8 \<Rightarrow> 'w \<Rightarrow> u8 \<times> 'w" and flush :: "'w \<Rightarrow> 'w"
    and sent :: "'w \<Rightarrow> u8 list" and kept :: "'w \<Rightarrow> u8 list" and wf :: "'w \<Rightarrow> bool"
  assumes put_wf: "wf w \<Longrightarrow> wf (snd (put c w))"
    and put_stream: "wf w \<Longrightarrow> put c w = (st, w') \<Longrightarrow>
      sent w' @ kept w' = sent w @ kept w @ (if st = 0 then [c] else [])"
    and flush_wf: "wf w \<Longrightarrow> wf (flush w)"
    and flush_sent: "wf w \<Longrightarrow> sent (flush w) = sent w @ kept w"
    and flush_kept: "wf w \<Longrightarrow> kept (flush w) = []"
begin

lemma tx_all_stream:
  "wf w \<Longrightarrow> tx_all put cs w = (bs, w') \<Longrightarrow> wf w' \<and> sent w' @ kept w' = sent w @ kept w @ bs"
proof (induction cs arbitrary: w bs)
  case (Cons c cs)
  obtain st w1 where p: "put c w = (st, w1)" by fastforce
  obtain bs1 where t: "tx_all put cs w1 = (bs1, w')" and bs: "bs = (if st = 0 then c # bs1 else bs1)"
    using Cons.prems(2) p by (auto split: prod.splits)
  have "wf w1" using put_wf [OF Cons.prems(1), of c] p by simp
  then show ?case using Cons.IH t put_stream [OF Cons.prems(1) p] bs by fastforce
qed simp

text \<open>After a flush everything that was accepted has been handed over, in order and once.\<close>

lemma tx_all_flush:
  assumes "wf w" "tx_all put cs w = (bs, w')"
  shows "sent (flush w') = sent w @ kept w @ bs \<and> kept (flush w') = []"
  using tx_all_stream [OF assms] by (simp add: flush_sent flush_kept)

end

text \<open>A transmitter that never refuses accepts everything.\<close>

locale eager_transmitter = transmitter +
  assumes put_ok: "fst (put c w) = 0"
begin

lemma tx_all_accepts: "fst (tx_all put cs w) = cs"
proof (induction cs arbitrary: w)
  case (Cons c cs)
  then show ?case using put_ok [of c w] by (cases "put c w") (auto simp: split_beta)
qed simp

end

section \<open>Receivers of frames\<close>

text \<open>
  A receiver is handed a buffer and then owns it as its window, until a frame has arrived.
  Arming an idle receiver gives it a window that starts at the buffer and is not longer than
  it was told; arming an armed one changes nothing. \<open>placed\<close> says that the linker put the
  receiver's descriptors where they can be.
\<close>

locale frame_receiver =
  fixes rearm :: "u32 \<Rightarrow> u32 \<Rightarrow> 'w \<Rightarrow> rc \<times> 'w" and armed :: "'w \<Rightarrow> bool" and window :: "'w \<Rightarrow> u32 \<times> u32"
    and placed :: "'w \<Rightarrow> bool"
  assumes rearm_idle: "placed w \<Longrightarrow> rearm buf n w = (STUB_LIB_OK, w') \<Longrightarrow> \<not> armed w \<Longrightarrow>
      armed w' \<and> fst (window w') = buf \<and> 0 < snd (window w') \<and> snd (window w') \<le> n"
    and rearm_armed: "armed w \<Longrightarrow> rearm buf n w = (STUB_LIB_OK, w)"
    and rearm_fails: "rearm buf n w = (ret, w') \<Longrightarrow> ret \<noteq> STUB_LIB_OK \<Longrightarrow> w' = w"

end
