(* ===== verification/Serial_Ports.thy ===== *)
theory Serial_Ports
  imports Serial Plain S3_Regs
begin

text \<open>
  The USB serial JTAG port (\<open>src/usb_serial_jtag.c\<close>, its weak target in
  \<open>src/target/common/src/usb_serial_jtag.c\<close>, the ESP32-S3's in
  \<open>src/target/esp32s3/src/usb_serial_jtag.c\<close>) and the UART (\<open>src/uart.c\<close>,
  \<open>src/target/common/src/uart.c\<close>, \<open>src/target/esp32s3/src/uart.c\<close>).
\<close>

section \<open>USB serial JTAG\<close>

text \<open>The target's only operation is \<open>rominit\_intr\_attach\<close>, an argument where it is called.\<close>

definition stub_target_usb_serial_jtag_is_supported :: bool where
  "stub_target_usb_serial_jtag_is_supported = False"

definition stub_target_usb_serial_jtag_rominit_intr_attach :: "u32 \<Rightarrow> u32 \<Rightarrow> u32 \<Rightarrow> 'w \<Rightarrow> 'w" where
  "stub_target_usb_serial_jtag_rominit_intr_attach intr_num handler flags w = w"

definition s3_usb_serial_jtag_rominit_intr_attach :: "u32 \<Rightarrow> u32 \<Rightarrow> u32 \<Rightarrow> 'a world_scheme \<Rightarrow> 'a world_scheme" where
  "s3_usb_serial_jtag_rominit_intr_attach intr_num handler flags w =
     (let w = WRITE_PERI_REG INTERRUPT_CORE0_USB_DEVICE_INT_MAP_REG intr_num w;
          w = WRITE_PERI_REG USB_SERIAL_JTAG_INT_CLR_REG 0xFFFFFFFF w;
          w = rom_void (IoFn Esp_rom_isr_attach) [intr_num, handler, 0] [] w;
          w = (if flags \<noteq> 0 then SET_PERI_REG_MASK USB_SERIAL_JTAG_INT_ENA_REG flags w else w)
      in rom_void (IoFn Esp_rom_isr_unmask) [push_bit (unat intr_num) 1] [] w)"

definition stub_lib_usb_serial_jtag_is_active :: "'a world_scheme \<Rightarrow> bool \<times> 'a world_scheme" where
  "stub_lib_usb_serial_jtag_is_active w =
     (let (uart, w) = rom_num (IoFn Esp_rom_get_uart_device) [] [] w
      in if uart = 0 then (False, w)
         else
           (let (v, w) = cell_read (RomVar Uart_buff_uart_no) w
            in (sint (ucast v :: 8 word) = sint ESP_ROM_USB_SERIAL_DEVICE_NUM, w)))"

definition stub_lib_usb_serial_jtag_rominit_intr_attach ::
  "(u32 \<Rightarrow> u32 \<Rightarrow> u32 \<Rightarrow> 'w \<Rightarrow> 'w) \<Rightarrow> u32 \<Rightarrow> u32 \<Rightarrow> u32 \<Rightarrow> 'w \<Rightarrow> 'w" where
  "stub_lib_usb_serial_jtag_rominit_intr_attach target_attach intr_num handler flags w =
     target_attach intr_num handler flags w"

definition stub_lib_usb_serial_jtag_clear_intr_flags :: "'a world_scheme \<Rightarrow> u32 \<times> 'a world_scheme" where
  "stub_lib_usb_serial_jtag_clear_intr_flags w =
     (let (status, w) = READ_PERI_REG USB_SERIAL_JTAG_INT_ST_REG w
      in (status, WRITE_PERI_REG USB_SERIAL_JTAG_INT_CLR_REG status w))"

definition stub_lib_usb_serial_jtag_is_data_available :: "'a world_scheme \<Rightarrow> bool \<times> 'a world_scheme" where
  "stub_lib_usb_serial_jtag_is_data_available w =
     (let (v, w) = READ_PERI_REG USB_SERIAL_JTAG_EP1_CONF_REG w
      in (v AND USB_SERIAL_JTAG_SERIAL_OUT_EP_DATA_AVAIL \<noteq> 0, w))"

definition stub_lib_usb_serial_jtag_read_rxfifo_byte :: "'a world_scheme \<Rightarrow> u8 \<times> 'a world_scheme" where
  "stub_lib_usb_serial_jtag_read_rxfifo_byte w =
     (let (v, w) = READ_PERI_REG USB_SERIAL_JTAG_EP1_REG w in (ucast (v AND 0xFF), w))"

definition stub_lib_usb_serial_jtag_tx_one_char :: "u8 \<Rightarrow> 'a world_scheme \<Rightarrow> u8 \<times> 'a world_scheme" where
  "stub_lib_usb_serial_jtag_tx_one_char c w =
     (let (ret, t, w) = stub_target_wait_reg_bit_set USB_SERIAL_JTAG_EP1_CONF_REG
                          USB_SERIAL_JTAG_SERIAL_IN_EP_DATA_FREE (Some 50000) w
      in if ret \<noteq> STUB_LIB_OK then (1, w)
         else (0, WRITE_PERI_REG USB_SERIAL_JTAG_EP1_REG (ucast c) w))"

definition stub_lib_usb_serial_jtag_tx_flush :: "'a world_scheme \<Rightarrow> 'a world_scheme" where
  "stub_lib_usb_serial_jtag_tx_flush w =
     (let (ret, t, w) = stub_target_wait_reg_bit_set USB_SERIAL_JTAG_EP1_CONF_REG
                          USB_SERIAL_JTAG_SERIAL_IN_EP_DATA_FREE (Some 50000) w
      in SET_PERI_REG_MASK USB_SERIAL_JTAG_EP1_CONF_REG USB_SERIAL_JTAG_WR_DONE w)"

text \<open>Chips without the port.\<close>

definition no_usb_serial_jtag_is_active :: "'w \<Rightarrow> bool \<times> 'w" where
  "no_usb_serial_jtag_is_active w = (False, w)"
definition no_usb_serial_jtag_rominit_intr_attach :: "u32 \<Rightarrow> u32 \<Rightarrow> u32 \<Rightarrow> 'w \<Rightarrow> 'w" where
  "no_usb_serial_jtag_rominit_intr_attach intr_num handler flags w = w"
definition no_usb_serial_jtag_clear_intr_flags :: "'w \<Rightarrow> u32 \<times> 'w" where
  "no_usb_serial_jtag_clear_intr_flags w = (0, w)"
definition no_usb_serial_jtag_is_data_available :: "'w \<Rightarrow> bool \<times> 'w" where
  "no_usb_serial_jtag_is_data_available w = (False, w)"
definition no_usb_serial_jtag_read_rxfifo_byte :: "'w \<Rightarrow> u8 \<times> 'w" where
  "no_usb_serial_jtag_read_rxfifo_byte w = (0, w)"
definition no_usb_serial_jtag_tx_one_char :: "u8 \<Rightarrow> 'w \<Rightarrow> u8 \<times> 'w" where
  "no_usb_serial_jtag_tx_one_char c w = (1, w)"

section \<open>The UART\<close>

record 'w uart_target =
  tt_wait_idle :: "u8 \<Rightarrow> 'w \<Rightarrow> 'w option"
  tt_init :: "u8 \<Rightarrow> 'w \<Rightarrow> 'w option"
  tt_rominit_set_baudrate :: "u8 \<Rightarrow> u32 \<Rightarrow> 'w \<Rightarrow> 'w option"
  tt_tx_flush :: "u8 \<Rightarrow> 'w \<Rightarrow> 'w option"
  tt_set_rx_timeout :: "u8 \<Rightarrow> u8 \<Rightarrow> 'w \<Rightarrow> 'w option"

text \<open>A target's operation may poll a register that never changes: None.\<close>

text \<open>
  The weak target. \<open>stub\_target\_rom\_uart\_attach\<close> and \<open>stub\_target\_rom\_uart\_init\<close> have no
  weak version; they are arguments. A division by zero is undefined in C and traps on the
  chip: None. The second argument of \<open>set\_rx\_timeout\<close> is ignored where the UART has no
  synchronised registers.
\<close>

definition stub_target_uart_wait_idle :: "u8 \<Rightarrow> 'a world_scheme \<Rightarrow> 'a world_scheme" where
  "stub_target_uart_wait_idle uart_num w = rom_void (IoFn Esp_rom_uart_tx_wait_idle) [ucast uart_num] [] w"

definition stub_target_uart_init ::
  "(u32 \<Rightarrow> 'a world_scheme \<Rightarrow> 'a world_scheme) \<Rightarrow> (u8 \<Rightarrow> u32 \<Rightarrow> 'a world_scheme \<Rightarrow> 'a world_scheme) \<Rightarrow> u8 \<Rightarrow>
   'a world_scheme \<Rightarrow> 'a world_scheme" where
  "stub_target_uart_init rom_attach rom_init uart_num w =
     (let w = rom_attach 0 w;
          (xtal, w) = rom_num (SysFn Esp_rom_get_xtal_freq) [] [] w;
          w = rom_init uart_num xtal w
      in rom_void (IoFn Esp_rom_uart_set_as_console) [ucast uart_num] [] w)"

definition stub_target_uart_rominit_set_baudrate ::
  "(u8 \<Rightarrow> 'a world_scheme \<Rightarrow> 'a world_scheme) \<Rightarrow> u8 \<Rightarrow> u32 \<Rightarrow> 'a world_scheme \<Rightarrow> 'a world_scheme option" where
  "stub_target_uart_rominit_set_baudrate wait_idle uart_num baudrate w =
     (let w = stub_lib_delay_us (5 * 1000) w;
          (xtal, w) = rom_num (SysFn Esp_rom_get_xtal_freq) [] [] w
      in if baudrate = 0 then None
         else
           (let clk_div = push_bit 4 xtal div baudrate;
                w = wait_idle uart_num w;
                w = rom_void (IoFn Esp_rom_uart_div_modify) [ucast uart_num, clk_div] [] w
            in Some (stub_lib_delay_us (5 * 1000) w)))"

definition stub_target_uart_tx_flush :: "u8 \<Rightarrow> 'a world_scheme \<Rightarrow> 'a world_scheme" where
  "stub_target_uart_tx_flush uart_no w = rom_void (IoFn Esp_rom_uart_flush_tx) [ucast uart_no] [] w"

definition stub_target_uart_set_rx_timeout :: "u8 \<Rightarrow> u8 \<Rightarrow> 'w \<Rightarrow> 'w" where
  "stub_target_uart_set_rx_timeout uart_num timeout w = w"

subsection \<open>The API\<close>

definition stub_lib_uart_wait_idle :: "'w uart_target \<Rightarrow> u8 \<Rightarrow> 'w \<Rightarrow> 'w option" where
  "stub_lib_uart_wait_idle T uart_num w = tt_wait_idle T uart_num w"

definition stub_lib_uart_init :: "'w uart_target \<Rightarrow> u8 \<Rightarrow> 'w \<Rightarrow> 'w option" where
  "stub_lib_uart_init T uart_num w = tt_init T uart_num w"

definition stub_lib_uart_rominit_get_baudrate :: "'a world_scheme \<Rightarrow> u32 \<times> 'a world_scheme" where
  "stub_lib_uart_rominit_get_baudrate w =
     (let (uart, w) = rom_num (IoFn Esp_rom_get_uart_device) [] [] w
      in if uart = 0 then (0, w)
         else
           (let (baud, w) = cell_read (RomVar Uart_baud_rate) w
            in if sint baud \<le> 0 then (0, w)
               else (let (baud, w) = cell_read (RomVar Uart_baud_rate) w in (baud, w))))"

definition stub_lib_uart_rominit_set_baudrate :: "'w uart_target \<Rightarrow> u8 \<Rightarrow> u32 \<Rightarrow> 'w \<Rightarrow> 'w option" where
  "stub_lib_uart_rominit_set_baudrate T uart_num baudrate w = tt_rominit_set_baudrate T uart_num baudrate w"

definition stub_lib_uart_tx_flush :: "'w uart_target \<Rightarrow> u8 \<Rightarrow> 'w \<Rightarrow> 'w option" where
  "stub_lib_uart_tx_flush T uart_no w = tt_tx_flush T uart_no w"

definition stub_lib_uart_rominit_intr_attach :: "u8 \<Rightarrow> u32 \<Rightarrow> u32 \<Rightarrow> u32 \<Rightarrow> 'a world_scheme \<Rightarrow> 'a world_scheme" where
  "stub_lib_uart_rominit_intr_attach uart_num intr_num handler flags w =
     (let w = WRITE_PERI_REG (UART_INT_CLR_REG (ucast uart_num)) 0xFFFFFFFF w;
          w = rom_void (IoFn Esp_rom_isr_attach) [intr_num, handler, 0] [] w;
          w = (if flags \<noteq> 0 then SET_PERI_REG_MASK (UART_INT_ENA_REG (ucast uart_num)) flags w else w)
      in rom_void (IoFn Esp_rom_isr_unmask) [push_bit (unat intr_num) 1] [] w)"

definition stub_lib_uart_clear_intr_flags :: "u8 \<Rightarrow> 'a world_scheme \<Rightarrow> u32 \<times> 'a world_scheme" where
  "stub_lib_uart_clear_intr_flags uart_num w =
     (let (status, w) = READ_PERI_REG (UART_INT_ST_REG (ucast uart_num)) w
      in (status, WRITE_PERI_REG (UART_INT_CLR_REG (ucast uart_num)) status w))"

definition stub_lib_uart_get_rxfifo_count :: "u8 \<Rightarrow> 'a world_scheme \<Rightarrow> u32 \<times> 'a world_scheme" where
  "stub_lib_uart_get_rxfifo_count uart_num w =
     (let (status, w) = READ_PERI_REG (UART_STATUS_REG (ucast uart_num)) w
      in (drop_bit UART_RXFIFO_CNT_S status AND UART_RXFIFO_CNT_V, w))"

definition stub_lib_uart_read_rxfifo_byte :: "u8 \<Rightarrow> 'a world_scheme \<Rightarrow> u8 \<times> 'a world_scheme" where
  "stub_lib_uart_read_rxfifo_byte uart_num w =
     (let (v, w) = READ_PERI_REG (UART_FIFO_REG (ucast uart_num)) w in (ucast (v AND UART_RXFIFO_RD_BYTE_V), w))"

definition stub_lib_uart_set_rx_timeout :: "'w uart_target \<Rightarrow> u8 \<Rightarrow> u8 \<Rightarrow> 'w \<Rightarrow> 'w option" where
  "stub_lib_uart_set_rx_timeout T uart_num timeout w = tt_set_rx_timeout T uart_num timeout w"

definition stub_lib_uart_set_rxfifo_full_threshold :: "u8 \<Rightarrow> u16 \<Rightarrow> 'a world_scheme \<Rightarrow> 'a world_scheme" where
  "stub_lib_uart_set_rxfifo_full_threshold uart_num threshold w =
     SET_PERI_REG_BITS (UART_CONF1_REG (ucast uart_num)) UART_RXFIFO_FULL_THRHD_V (ucast threshold) UART_RXFIFO_FULL_THRHD_S w"

definition stub_lib_uart_tx_one_char :: "u8 \<Rightarrow> 'a world_scheme \<Rightarrow> u8 \<times> 'a world_scheme" where
  "stub_lib_uart_tx_one_char c w =
     (let (r, w) = rom_num (IoFn Esp_rom_uart_tx_one_char) [ucast c] [] w in (ucast r, w))"

definition stub_lib_uart_rx_one_char :: "'a world_scheme \<Rightarrow> u8 \<times> 'a world_scheme" where
  "stub_lib_uart_rx_one_char w =
     (let (r, w) = rom_num (IoFn Esp_rom_uart_rx_one_char) [] [] w in (ucast r, w))"

subsection \<open>The ESP32-S3\<close>

definition s3_rom_uart_attach :: "u32 \<Rightarrow> 'a world_scheme \<Rightarrow> 'a world_scheme" where
  "s3_rom_uart_attach rxBuffer w = rom_void (IoFn Esp_rom_uart_attach) [rxBuffer] [] w"

definition s3_rom_uart_init :: "u8 \<Rightarrow> u32 \<Rightarrow> 'a world_scheme \<Rightarrow> 'a world_scheme" where
  "s3_rom_uart_init uart_no clock w = rom_void (IoFn Esp_rom_uart_init) [ucast uart_no, clock] [] w"

definition s3_uart_init :: "u8 \<Rightarrow> 'a world_scheme \<Rightarrow> 'a world_scheme" where
  "s3_uart_init uart_num w =
     (let w = s3_rom_uart_attach 0 w;
          (xtal, w) = rom_num (SysFn Esp_rom_get_xtal_freq) [] [] w;
          w = s3_rom_uart_init uart_num xtal w;
          w = rom_void (IoFn Esp_rom_uart_set_as_console) [ucast uart_num] [] w
      in cell_write (RomVar G_uart_print) 1 w)"

definition s3_uart_rominit_set_baudrate :: "u8 \<Rightarrow> u32 \<Rightarrow> 'a world_scheme \<Rightarrow> 'a world_scheme option" where
  "s3_uart_rominit_set_baudrate uart_num baudrate w =
     (let w = stub_lib_delay_us (5 * 1000) w;
          (xtal, w) = rom_num (SysFn Esp_rom_get_xtal_freq) [] [] w
      in if baudrate = 0 then None
         else
           (let clk_div = push_bit 4 xtal div baudrate;
                w = stub_target_uart_wait_idle uart_num w;
                w = rom_void (IoFn Esp_rom_uart_div_modify) [ucast uart_num, clk_div] [] w
            in Some (stub_lib_delay_us (5 * 1000) w)))"

definition s3_uart_set_rx_timeout :: "u8 \<Rightarrow> u8 \<Rightarrow> 'a world_scheme \<Rightarrow> 'a world_scheme" where
  "s3_uart_set_rx_timeout uart_num timeout w =
     (if timeout > 0 then
        (let w = SET_PERI_REG_BITS (UART_MEM_CONF_REG (ucast uart_num)) UART_RX_TOUT_THRHD_V (ucast timeout) UART_RX_TOUT_THRHD_S w
         in SET_PERI_REG_BITS (UART_CONF1_REG (ucast uart_num)) UART_RX_TOUT_EN_V 1 UART_RX_TOUT_EN_S w)
      else SET_PERI_REG_BITS (UART_CONF1_REG (ucast uart_num)) UART_RX_TOUT_EN_V 0 UART_RX_TOUT_EN_S w)"

definition s3_uart_target :: "'a world_scheme uart_target" where
  "s3_uart_target = \<lparr>tt_wait_idle = \<lambda>n w. Some (stub_target_uart_wait_idle n w),
     tt_init = \<lambda>n w. Some (s3_uart_init n w), tt_rominit_set_baudrate = s3_uart_rominit_set_baudrate,
     tt_tx_flush = \<lambda>n w. Some (stub_target_uart_tx_flush n w),
     tt_set_rx_timeout = \<lambda>n t w. Some (s3_uart_set_rx_timeout n t w)\<rparr>"

section \<open>What is sent\<close>

lemma byte_word [simp]: "ucast (ucast (c :: u8) :: u32) = c"
  by (rule bit_word_eqI) (simp add: bit_simps)

definition jtag_sent :: "'a world_scheme \<Rightarrow> u8 list" where
  "jtag_sent w = map ucast (written USB_SERIAL_JTAG_EP1_REG (trace w))"

text \<open>
  A byte is refused exactly when none of 50000 polls, one per microsecond, found room for it; otherwise it
  is written once, right after the first poll that did.
\<close>

lemma jtag_tx_outcome:
  assumes "stub_lib_usb_serial_jtag_tx_one_char c w = (st, w')"
  obtains es where "w' = after w (es @ (if st = 0 then [Wr (Mmio USB_SERIAL_JTAG_EP1_REG) (ucast c)] else []))"
    "list_all (poll_of USB_SERIAL_JTAG_EP1_CONF_REG) es" "st = 0 \<or> st = 1"
    "waited (\<lambda>v. v AND USB_SERIAL_JTAG_SERIAL_IN_EP_DATA_FREE \<noteq> 0) 50000
       (if st = 0 then STUB_LIB_OK else STUB_LIB_ERR_TIMEOUT) (polled es)"
proof -
  obtain res t v where q: "stub_target_wait_reg_bit_set USB_SERIAL_JTAG_EP1_CONF_REG
      USB_SERIAL_JTAG_SERIAL_IN_EP_DATA_FREE (Some 50000) w = (res, t, v)" by (metis prod_cases3)
  obtain es where es: "v = after w es" "list_all (poll_of USB_SERIAL_JTAG_EP1_CONF_REG) es"
    "waited (\<lambda>v. v AND USB_SERIAL_JTAG_SERIAL_IN_EP_DATA_FREE \<noteq> 0) (max 1 (unat (50000 :: u64))) res (polled es)"
    by (rule wait_bit_waits [OF q])
  have "st = (if res = STUB_LIB_OK then 0 else 1)"
    and "w' = (if res = STUB_LIB_OK then after v [Wr (Mmio USB_SERIAL_JTAG_EP1_REG) (ucast c)] else v)"
    using assms by (auto simp: stub_lib_usb_serial_jtag_tx_one_char_def q prim_eq split: if_splits)
  moreover have "res \<noteq> STUB_LIB_OK \<Longrightarrow> res = STUB_LIB_ERR_TIMEOUT" using es(3) by (auto simp: waited_def)
  ultimately show ?thesis using es by (intro that [of es]) (auto split: if_splits)
qed

lemma jtag_sent_after: "jtag_sent (after w es) = jtag_sent w @ map ucast (written USB_SERIAL_JTAG_EP1_REG es)"
  by (simp add: jtag_sent_def)

lemma jtag_flush_sent: "jtag_sent (stub_lib_usb_serial_jtag_tx_flush w) = jtag_sent w"
proof -
  obtain res t v where q: "stub_target_wait_reg_bit_set USB_SERIAL_JTAG_EP1_CONF_REG
      USB_SERIAL_JTAG_SERIAL_IN_EP_DATA_FREE (Some 50000) w = (res, t, v)" by (metis prod_cases3)
  obtain es where "v = after w es" "list_all (poll_of USB_SERIAL_JTAG_EP1_CONF_REG) es"
    by (rule wait_bit_waits [OF q])
  then show ?thesis
    by (simp add: stub_lib_usb_serial_jtag_tx_flush_def q prim_eq jtag_sent_after polls_written) (simp add: regs)
qed

interpretation jtag: transmitter stub_lib_usb_serial_jtag_tx_one_char stub_lib_usb_serial_jtag_tx_flush
  jtag_sent "\<lambda>_. []" "\<lambda>_. True"
proof (unfold_locales, goal_cases)
  case (2 w c st w')
  obtain es where "w' = after w (es @ (if st = 0 then [Wr (Mmio USB_SERIAL_JTAG_EP1_REG) (ucast c)] else []))"
    "list_all (poll_of USB_SERIAL_JTAG_EP1_CONF_REG) es" by (rule jtag_tx_outcome [OF 2(2)])
  then show ?case by (simp add: jtag_sent_after polls_written)
qed (simp_all add: jtag_flush_sent)

text \<open>The UART's ROM function takes the bytes for which it answers 0.\<close>

definition uart_taken :: "ev \<Rightarrow> u8 list" where
  "uart_taken e = (case e of Call (IoFn Esp_rom_uart_tx_one_char) [c] d r out \<Rightarrow>
     if (ucast r :: u8) = 0 then [ucast c] else [] | _ \<Rightarrow> [])"

definition uart_sent :: "'a world_scheme \<Rightarrow> u8 list" where
  "uart_sent w = concat (map uart_taken (trace w))"

interpretation uart: transmitter stub_lib_uart_tx_one_char "stub_target_uart_tx_flush n"
  uart_sent "\<lambda>_. []" "\<lambda>_. True"
  by unfold_locales (auto simp: stub_lib_uart_tx_one_char_def stub_target_uart_tx_flush_def rom_eq uart_sent_def uart_taken_def)

text \<open>
  Of the bytes offered to the USB serial JTAG port exactly those it answered 0 for have
  been written to its FIFO, in order and once, and a flush adds none.
\<close>

lemma usb_serial_jtag_stream:
  assumes "tx_all stub_lib_usb_serial_jtag_tx_one_char cs w = (bs, w')"
  shows "jtag_sent (stub_lib_usb_serial_jtag_tx_flush w') = jtag_sent w @ bs"
  using jtag.tx_all_flush [OF TrueI assms] by simp

text \<open>
  A byte offered to the USB serial JTAG port is written at the first poll that finds
  room for it, and refused exactly when 50000 polls, one per microsecond, have found none.
\<close>

lemma usb_serial_jtag_tx_outcome:
  assumes "stub_lib_usb_serial_jtag_tx_one_char c w = (st, w')"
  shows "\<exists>es. w' = after w (es @ (if st = 0 then [Wr (Mmio USB_SERIAL_JTAG_EP1_REG) (ucast c)] else [])) \<and>
    list_all (poll_of USB_SERIAL_JTAG_EP1_CONF_REG) es \<and>
    waited (\<lambda>v. v AND USB_SERIAL_JTAG_SERIAL_IN_EP_DATA_FREE \<noteq> 0) 50000
      (if st = 0 then STUB_LIB_OK else STUB_LIB_ERR_TIMEOUT) (polled es)"
  using jtag_tx_outcome [OF assms] by metis

section \<open>Examples\<close>

text \<open>A host that always has room, and a crystal of 40 MHz.\<close>

definition port_world :: world where
  "port_world = \<lparr>rd_dev = \<lambda>_ _. 2,
     rom_dev = \<lambda>_ f _ _. (if f = SysFn Esp_rom_get_xtal_freq then 40000000 else 0, []),
     mem_dev = \<lambda>_ _ _. [], sym_addr = \<lambda>_. 0, trace = []\<rparr>"

lemma usb_serial_jtag_stream_witness:
  "jtag_sent (stub_lib_usb_serial_jtag_tx_flush (snd (tx_all stub_lib_usb_serial_jtag_tx_one_char [65, 66] port_world))) =
     [65, 66]"
proof -
  obtain bs w' where t: "tx_all stub_lib_usb_serial_jtag_tx_one_char [65, 66] port_world = (bs, w')" by fastforce
  have "fst (tx_all stub_lib_usb_serial_jtag_tx_one_char [65, 66] port_world) = [65, 66]" by code_simp
  then show ?thesis using usb_serial_jtag_stream [OF t] t by (simp add: jtag_sent_def port_world_def written_def)
qed

lemma usb_serial_jtag_tx_outcome_witness:
  "\<exists>es. snd (stub_lib_usb_serial_jtag_tx_one_char 65 port_world) =
      after port_world (es @ [Wr (Mmio USB_SERIAL_JTAG_EP1_REG) 65]) \<and>
    waited (\<lambda>v. v AND USB_SERIAL_JTAG_SERIAL_IN_EP_DATA_FREE \<noteq> 0) 50000 STUB_LIB_OK (polled es)"
proof -
  obtain w' where t: "stub_lib_usb_serial_jtag_tx_one_char 65 port_world = (fst (stub_lib_usb_serial_jtag_tx_one_char 65 port_world), w')"
    by (metis prod.collapse)
  have "fst (stub_lib_usb_serial_jtag_tx_one_char 65 port_world) = 0" by code_simp
  then show ?thesis using usb_serial_jtag_tx_outcome [OF t] t by (auto simp: prod_eq_iff)
qed

end
