(* ===== verification/Io_Regs.thy ===== *)
theory Io_Regs
  imports Prelude
begin

text \<open>
  Constants of the serial ports and transports of the chips other than the ESP32-S3: UART,
  USB, SPI slave, SDIO and trace memory, each under its C name with the chip in front and
  with the value the chip's headers give it. A macro that takes the number of a controller is
  a function.
\<close>

section \<open>ESP8266\<close>

definition esp8266_UART_STATUS_REG :: "u32 \<Rightarrow> u32" where [regs]: "esp8266_UART_STATUS_REG i = 0x6000001c + i * 0xf00"
definition esp8266_UART_TXFIFO_CNT_S :: nat where [regs]: "esp8266_UART_TXFIFO_CNT_S = 16"
definition esp8266_UART_TXFIFO_CNT_V :: u32 where [regs]: "esp8266_UART_TXFIFO_CNT_V = 0xff"
definition esp8266_UART_TXD :: u32 where [regs]: "esp8266_UART_TXD = 0x80000000"
definition esp8266_UART_CLKDIV_REG :: "u32 \<Rightarrow> u32" where [regs]: "esp8266_UART_CLKDIV_REG i = 0x60000014 + i * 0xf00"
definition esp8266_UART_CLKDIV_M :: u32 where [regs]: "esp8266_UART_CLKDIV_M = 0xfffff"
definition esp8266_UART_CONF1_REG :: "u32 \<Rightarrow> u32" where [regs]: "esp8266_UART_CONF1_REG i = 0x60000024 + i * 0xf00"
definition esp8266_UART_RX_TOUT_THRHD_V :: u32 where [regs]: "esp8266_UART_RX_TOUT_THRHD_V = 0x7f"
definition esp8266_UART_RX_TOUT_THRHD_S :: nat where [regs]: "esp8266_UART_RX_TOUT_THRHD_S = 24"
definition esp8266_UART_RX_TOUT_EN_V :: u32 where [regs]: "esp8266_UART_RX_TOUT_EN_V = 0x1"
definition esp8266_UART_RX_TOUT_EN_S :: nat where [regs]: "esp8266_UART_RX_TOUT_EN_S = 31"

section \<open>ESP32\<close>

definition esp32_DR_REG_RTCCNTL_BASE :: u32 where [regs]: "esp32_DR_REG_RTCCNTL_BASE = 0x3ff48000"
definition esp32_REG_UART_BASE :: "u32 \<Rightarrow> u32" where
  [regs]: "esp32_REG_UART_BASE i = 0x3ff40000 + i * 0x10000 + (if i > 1 then 0xe000 else 0)"
definition esp32_UART_CONF1_REG :: "u32 \<Rightarrow> u32" where [regs]: "esp32_UART_CONF1_REG i = esp32_REG_UART_BASE i + 0x24"
definition esp32_UART_RX_TOUT_THRHD_V :: u32 where [regs]: "esp32_UART_RX_TOUT_THRHD_V = 0x7f"
definition esp32_UART_RX_TOUT_THRHD_S :: nat where [regs]: "esp32_UART_RX_TOUT_THRHD_S = 24"
definition esp32_UART_RX_TOUT_EN_V :: u32 where [regs]: "esp32_UART_RX_TOUT_EN_V = 0x1"
definition esp32_UART_RX_TOUT_EN_S :: nat where [regs]: "esp32_UART_RX_TOUT_EN_S = 31"
definition esp32_DR_REG_DPORT_BASE :: u32 where [regs]: "esp32_DR_REG_DPORT_BASE = 0x3ff00000"

section \<open>ESP32S2\<close>

definition s2_UART_MEM_CONF_REG :: "u32 \<Rightarrow> u32" where [regs]: "s2_UART_MEM_CONF_REG i = 0x6000005c + i * 0x10000"
definition s2_UART_RX_TOUT_THRHD_V :: u32 where [regs]: "s2_UART_RX_TOUT_THRHD_V = 0x3ff"
definition s2_UART_RX_TOUT_THRHD_S :: nat where [regs]: "s2_UART_RX_TOUT_THRHD_S = 16"
definition s2_UART_CONF1_REG :: "u32 \<Rightarrow> u32" where [regs]: "s2_UART_CONF1_REG i = 0x60000024 + i * 0x10000"
definition s2_UART_RX_TOUT_EN_V :: u32 where [regs]: "s2_UART_RX_TOUT_EN_V = 0x1"
definition s2_UART_RX_TOUT_EN_S :: nat where [regs]: "s2_UART_RX_TOUT_EN_S = 31"
definition s2_USB_GAHBCFG_REG :: u32 where [regs]: "s2_USB_GAHBCFG_REG = 0x60080008"
definition s2_USB_GLBLLNTRMSK :: u32 where [regs]: "s2_USB_GLBLLNTRMSK = 0x1"
definition s2_RTC_CNTL_OPTION1_REG :: u32 where [regs]: "s2_RTC_CNTL_OPTION1_REG = 0x3f408128"
definition s2_RTC_CNTL_FORCE_DOWNLOAD_BOOT :: u32 where [regs]: "s2_RTC_CNTL_FORCE_DOWNLOAD_BOOT = 0x1"
definition s2_DR_REG_SENSITIVE_BASE :: u32 where [regs]: "s2_DR_REG_SENSITIVE_BASE = 0x3f4c1000"
definition s2_SPI_W0_REG :: u32 where [regs]: "s2_SPI_W0_REG = 0x3f424098"
definition s2_SPI_W1_REG :: u32 where [regs]: "s2_SPI_W1_REG = 0x3f42409c"
definition s2_SPI_W2_REG :: u32 where [regs]: "s2_SPI_W2_REG = 0x3f4240a0"
definition s2_SPI_W3_REG :: u32 where [regs]: "s2_SPI_W3_REG = 0x3f4240a4"
definition s2_SPI_IN_SUC_EOF_INT_RAW :: u32 where [regs]: "s2_SPI_IN_SUC_EOF_INT_RAW = 0x20"
definition s2_SPI_OUT_TOTAL_EOF_INT_RAW :: u32 where [regs]: "s2_SPI_OUT_TOTAL_EOF_INT_RAW = 0x100"
definition s2_SPI_SLAVE_REG :: u32 where [regs]: "s2_SPI_SLAVE_REG = 0x3f424030"
definition s2_SPI_SLAVE_MODE :: u32 where [regs]: "s2_SPI_SLAVE_MODE = 0x40000000"
definition s2_SPI_DMA_INT_ENA_REG :: u32 where [regs]: "s2_SPI_DMA_INT_ENA_REG = 0x3f424058"
definition s2_SPI_DMA_CONF_REG :: u32 where [regs]: "s2_SPI_DMA_CONF_REG = 0x3f42404c"
definition s2_SPI_AHBM_RST :: u32 where [regs]: "s2_SPI_AHBM_RST = 0x20"
definition s2_SPI_AHBM_FIFO_RST :: u32 where [regs]: "s2_SPI_AHBM_FIFO_RST = 0x10"
definition s2_SPI_IN_RST :: u32 where [regs]: "s2_SPI_IN_RST = 0x4"
definition s2_SPI_DMA_INT_CLR_REG :: u32 where [regs]: "s2_SPI_DMA_INT_CLR_REG = 0x3f424064"
definition s2_SPI_DMA_IN_LINK_REG :: u32 where [regs]: "s2_SPI_DMA_IN_LINK_REG = 0x3f424054"
definition s2_SPI_INLINK_ADDR :: u32 where [regs]: "s2_SPI_INLINK_ADDR = 0xfffff"
definition s2_SPI_DMA_RX_ENA :: u32 where [regs]: "s2_SPI_DMA_RX_ENA = 0x80000000"
definition s2_SPI_INLINK_START :: u32 where [regs]: "s2_SPI_INLINK_START = 0x20000000"
definition s2_SPI_DMA_INT_RAW_REG :: u32 where [regs]: "s2_SPI_DMA_INT_RAW_REG = 0x3f42405c"
definition s2_SPI_SLV_RD_BYTE_REG :: u32 where [regs]: "s2_SPI_SLV_RD_BYTE_REG = 0x3f424040"
definition s2_SPI_SLV_DATA_BYTELEN :: u32 where [regs]: "s2_SPI_SLV_DATA_BYTELEN = 0xfffff"
definition s2_SPI_OUT_RST :: u32 where [regs]: "s2_SPI_OUT_RST = 0x8"
definition s2_SPI_DMA_OUT_LINK_REG :: u32 where [regs]: "s2_SPI_DMA_OUT_LINK_REG = 0x3f424050"
definition s2_SPI_OUTLINK_ADDR :: u32 where [regs]: "s2_SPI_OUTLINK_ADDR = 0xfffff"
definition s2_SPI_DMA_TX_ENA :: u32 where [regs]: "s2_SPI_DMA_TX_ENA = 0x80000000"
definition s2_SPI_OUTLINK_START :: u32 where [regs]: "s2_SPI_OUTLINK_START = 0x20000000"

section \<open>ESP32C2\<close>

definition c2_UART_MEM_CONF_REG :: "u32 \<Rightarrow> u32" where [regs]: "c2_UART_MEM_CONF_REG i = 0x60000060 + i * 0x10000"
definition c2_UART_RX_TOUT_THRHD_V :: u32 where [regs]: "c2_UART_RX_TOUT_THRHD_V = 0x3ff"
definition c2_UART_RX_TOUT_THRHD_S :: nat where [regs]: "c2_UART_RX_TOUT_THRHD_S = 16"
definition c2_UART_CONF1_REG :: "u32 \<Rightarrow> u32" where [regs]: "c2_UART_CONF1_REG i = 0x60000024 + i * 0x10000"
definition c2_UART_RX_TOUT_EN_V :: u32 where [regs]: "c2_UART_RX_TOUT_EN_V = 0x1"
definition c2_UART_RX_TOUT_EN_S :: nat where [regs]: "c2_UART_RX_TOUT_EN_S = 21"
definition c2_SPI_W0_REG :: "u32 \<Rightarrow> u32" where [regs]: "c2_SPI_W0_REG i = 0x60022098 + i * 0x1000"
definition c2_SPI_W1_REG :: "u32 \<Rightarrow> u32" where [regs]: "c2_SPI_W1_REG i = 0x6002209c + i * 0x1000"
definition c2_SPI_W2_REG :: "u32 \<Rightarrow> u32" where [regs]: "c2_SPI_W2_REG i = 0x600220a0 + i * 0x1000"
definition c2_SPI_W3_REG :: "u32 \<Rightarrow> u32" where [regs]: "c2_SPI_W3_REG i = 0x600220a4 + i * 0x1000"
definition c2_SPI_SLV_WR_DMA_DONE_INT_RAW :: u32 where [regs]: "c2_SPI_SLV_WR_DMA_DONE_INT_RAW = 0x200"
definition c2_SPI_SLV_WR_DMA_DONE_INT_CLR :: u32 where [regs]: "c2_SPI_SLV_WR_DMA_DONE_INT_CLR = 0x200"
definition c2_SPI_SLV_RD_DMA_DONE_INT_RAW :: u32 where [regs]: "c2_SPI_SLV_RD_DMA_DONE_INT_RAW = 0x100"
definition c2_SPI_SLV_RD_DMA_DONE_INT_CLR :: u32 where [regs]: "c2_SPI_SLV_RD_DMA_DONE_INT_CLR = 0x100"
definition c2_SPI_SLAVE_REG :: "u32 \<Rightarrow> u32" where [regs]: "c2_SPI_SLAVE_REG i = 0x600220e0 + i * 0x1000"
definition c2_SPI_SLAVE_MODE :: u32 where [regs]: "c2_SPI_SLAVE_MODE = 0x4000000"
definition c2_SPI_DMA_INT_ENA_REG :: "u32 \<Rightarrow> u32" where [regs]: "c2_SPI_DMA_INT_ENA_REG i = 0x60022034 + i * 0x1000"
definition c2_GDMA_IN_CONF0_CH0_REG :: u32 where [regs]: "c2_GDMA_IN_CONF0_CH0_REG = 0x6003f070"
definition c2_GDMA_IN_RST_CH0 :: u32 where [regs]: "c2_GDMA_IN_RST_CH0 = 0x1"
definition c2_SPI_DMA_INT_CLR_REG :: "u32 \<Rightarrow> u32" where [regs]: "c2_SPI_DMA_INT_CLR_REG i = 0x60022038 + i * 0x1000"
definition c2_SPI_DMA_CONF_REG :: "u32 \<Rightarrow> u32" where [regs]: "c2_SPI_DMA_CONF_REG i = 0x60022030 + i * 0x1000"
definition c2_SPI_DMA_AFIFO_RST :: u32 where [regs]: "c2_SPI_DMA_AFIFO_RST = 0x80000000"
definition c2_SPI_BUF_AFIFO_RST :: u32 where [regs]: "c2_SPI_BUF_AFIFO_RST = 0x40000000"
definition c2_SPI_RX_AFIFO_RST :: u32 where [regs]: "c2_SPI_RX_AFIFO_RST = 0x20000000"
definition c2_SPI_DMA_RX_ENA :: u32 where [regs]: "c2_SPI_DMA_RX_ENA = 0x8000000"
definition c2_GDMA_IN_LINK_CH0_REG :: u32 where [regs]: "c2_GDMA_IN_LINK_CH0_REG = 0x6003f080"
definition c2_GDMA_INLINK_ADDR_CH0 :: u32 where [regs]: "c2_GDMA_INLINK_ADDR_CH0 = 0xfffff"
definition c2_GDMA_INT_CLR_CH0_REG :: u32 where [regs]: "c2_GDMA_INT_CLR_CH0_REG = 0x6003f00c"
definition c2_GDMA_INFIFO_UDF_CH0_INT_CLR :: u32 where [regs]: "c2_GDMA_INFIFO_UDF_CH0_INT_CLR = 0x400"
definition c2_GDMA_INLINK_START_CH0 :: u32 where [regs]: "c2_GDMA_INLINK_START_CH0 = 0x400000"
definition c2_SPI_DMA_INT_RAW_REG :: "u32 \<Rightarrow> u32" where [regs]: "c2_SPI_DMA_INT_RAW_REG i = 0x6002203c + i * 0x1000"
definition c2_GDMA_INT_RAW_CH0_REG :: u32 where [regs]: "c2_GDMA_INT_RAW_CH0_REG = 0x6003f000"
definition c2_GDMA_IN_SUC_EOF_CH0_INT_RAW :: u32 where [regs]: "c2_GDMA_IN_SUC_EOF_CH0_INT_RAW = 0x2"
definition c2_GDMA_IN_SUC_EOF_CH0_INT_CLR :: u32 where [regs]: "c2_GDMA_IN_SUC_EOF_CH0_INT_CLR = 0x2"
definition c2_SPI_SLAVE1_REG :: "u32 \<Rightarrow> u32" where [regs]: "c2_SPI_SLAVE1_REG i = 0x600220e4 + i * 0x1000"
definition c2_SPI_SLV_DATA_BITLEN :: u32 where [regs]: "c2_SPI_SLV_DATA_BITLEN = 0x3ffff"
definition c2_GDMA_OUT_CONF0_CH0_REG :: u32 where [regs]: "c2_GDMA_OUT_CONF0_CH0_REG = 0x6003f0d0"
definition c2_GDMA_OUT_RST_CH0 :: u32 where [regs]: "c2_GDMA_OUT_RST_CH0 = 0x1"
definition c2_GDMA_OUT_LINK_CH0_REG :: u32 where [regs]: "c2_GDMA_OUT_LINK_CH0_REG = 0x6003f0e0"
definition c2_GDMA_OUTLINK_START_CH0 :: u32 where [regs]: "c2_GDMA_OUTLINK_START_CH0 = 0x200000"
definition c2_SPI_DMA_TX_ENA :: u32 where [regs]: "c2_SPI_DMA_TX_ENA = 0x10000000"
definition c2_GDMA_OUT_DONE_CH0_INT_RAW :: u32 where [regs]: "c2_GDMA_OUT_DONE_CH0_INT_RAW = 0x8"
definition c2_GDMA_OUT_DONE_CH0_INT_CLR :: u32 where [regs]: "c2_GDMA_OUT_DONE_CH0_INT_CLR = 0x8"

section \<open>ESP32C3\<close>

definition c3_UART_MEM_CONF_REG :: "u32 \<Rightarrow> u32" where [regs]: "c3_UART_MEM_CONF_REG i = 0x60000060 + i * 0x10000"
definition c3_UART_RX_TOUT_THRHD_V :: u32 where [regs]: "c3_UART_RX_TOUT_THRHD_V = 0x3ff"
definition c3_UART_RX_TOUT_THRHD_S :: nat where [regs]: "c3_UART_RX_TOUT_THRHD_S = 16"
definition c3_UART_CONF1_REG :: "u32 \<Rightarrow> u32" where [regs]: "c3_UART_CONF1_REG i = 0x60000024 + i * 0x10000"
definition c3_UART_RX_TOUT_EN_V :: u32 where [regs]: "c3_UART_RX_TOUT_EN_V = 0x1"
definition c3_UART_RX_TOUT_EN_S :: nat where [regs]: "c3_UART_RX_TOUT_EN_S = 21"
definition c3_INTERRUPT_CORE0_USB_INTR_MAP_REG :: u32 where [regs]: "c3_INTERRUPT_CORE0_USB_INTR_MAP_REG = 0x600c2068"
definition c3_USB_SERIAL_JTAG_INT_CLR_REG :: u32 where [regs]: "c3_USB_SERIAL_JTAG_INT_CLR_REG = 0x60043014"
definition c3_USB_SERIAL_JTAG_INT_ENA_REG :: u32 where [regs]: "c3_USB_SERIAL_JTAG_INT_ENA_REG = 0x60043010"
definition c3_SPI_W0_REG :: "u32 \<Rightarrow> u32" where [regs]: "c3_SPI_W0_REG i = 0x60022098 + i * 0x1000"
definition c3_SPI_W1_REG :: "u32 \<Rightarrow> u32" where [regs]: "c3_SPI_W1_REG i = 0x6002209c + i * 0x1000"
definition c3_SPI_W2_REG :: "u32 \<Rightarrow> u32" where [regs]: "c3_SPI_W2_REG i = 0x600220a0 + i * 0x1000"
definition c3_SPI_W3_REG :: "u32 \<Rightarrow> u32" where [regs]: "c3_SPI_W3_REG i = 0x600220a4 + i * 0x1000"
definition c3_SPI_SLV_WR_DMA_DONE_INT_RAW :: u32 where [regs]: "c3_SPI_SLV_WR_DMA_DONE_INT_RAW = 0x200"
definition c3_SPI_SLV_WR_DMA_DONE_INT_CLR :: u32 where [regs]: "c3_SPI_SLV_WR_DMA_DONE_INT_CLR = 0x200"
definition c3_SPI_SLV_RD_DMA_DONE_INT_RAW :: u32 where [regs]: "c3_SPI_SLV_RD_DMA_DONE_INT_RAW = 0x100"
definition c3_SPI_SLV_RD_DMA_DONE_INT_CLR :: u32 where [regs]: "c3_SPI_SLV_RD_DMA_DONE_INT_CLR = 0x100"
definition c3_SPI_SLAVE_REG :: "u32 \<Rightarrow> u32" where [regs]: "c3_SPI_SLAVE_REG i = 0x600220e0 + i * 0x1000"
definition c3_SPI_SLAVE_MODE :: u32 where [regs]: "c3_SPI_SLAVE_MODE = 0x4000000"
definition c3_SPI_DMA_INT_ENA_REG :: "u32 \<Rightarrow> u32" where [regs]: "c3_SPI_DMA_INT_ENA_REG i = 0x60022034 + i * 0x1000"
definition c3_GDMA_IN_CONF0_CH0_REG :: u32 where [regs]: "c3_GDMA_IN_CONF0_CH0_REG = 0x6003f070"
definition c3_GDMA_IN_RST_CH0 :: u32 where [regs]: "c3_GDMA_IN_RST_CH0 = 0x1"
definition c3_SPI_DMA_INT_CLR_REG :: "u32 \<Rightarrow> u32" where [regs]: "c3_SPI_DMA_INT_CLR_REG i = 0x60022038 + i * 0x1000"
definition c3_SPI_DMA_CONF_REG :: "u32 \<Rightarrow> u32" where [regs]: "c3_SPI_DMA_CONF_REG i = 0x60022030 + i * 0x1000"
definition c3_SPI_DMA_AFIFO_RST :: u32 where [regs]: "c3_SPI_DMA_AFIFO_RST = 0x80000000"
definition c3_SPI_BUF_AFIFO_RST :: u32 where [regs]: "c3_SPI_BUF_AFIFO_RST = 0x40000000"
definition c3_SPI_RX_AFIFO_RST :: u32 where [regs]: "c3_SPI_RX_AFIFO_RST = 0x20000000"
definition c3_SPI_DMA_RX_ENA :: u32 where [regs]: "c3_SPI_DMA_RX_ENA = 0x8000000"
definition c3_GDMA_IN_LINK_CH0_REG :: u32 where [regs]: "c3_GDMA_IN_LINK_CH0_REG = 0x6003f080"
definition c3_GDMA_INLINK_ADDR_CH0 :: u32 where [regs]: "c3_GDMA_INLINK_ADDR_CH0 = 0xfffff"
definition c3_GDMA_INT_CLR_CH0_REG :: u32 where [regs]: "c3_GDMA_INT_CLR_CH0_REG = 0x6003f00c"
definition c3_GDMA_INFIFO_UDF_CH0_INT_CLR :: u32 where [regs]: "c3_GDMA_INFIFO_UDF_CH0_INT_CLR = 0x400"
definition c3_GDMA_INLINK_START_CH0 :: u32 where [regs]: "c3_GDMA_INLINK_START_CH0 = 0x400000"
definition c3_SPI_DMA_INT_RAW_REG :: "u32 \<Rightarrow> u32" where [regs]: "c3_SPI_DMA_INT_RAW_REG i = 0x6002203c + i * 0x1000"
definition c3_GDMA_INT_RAW_CH0_REG :: u32 where [regs]: "c3_GDMA_INT_RAW_CH0_REG = 0x6003f000"
definition c3_GDMA_IN_SUC_EOF_CH0_INT_RAW :: u32 where [regs]: "c3_GDMA_IN_SUC_EOF_CH0_INT_RAW = 0x2"
definition c3_GDMA_IN_SUC_EOF_CH0_INT_CLR :: u32 where [regs]: "c3_GDMA_IN_SUC_EOF_CH0_INT_CLR = 0x2"
definition c3_SPI_SLAVE1_REG :: "u32 \<Rightarrow> u32" where [regs]: "c3_SPI_SLAVE1_REG i = 0x600220e4 + i * 0x1000"
definition c3_SPI_SLV_DATA_BITLEN :: u32 where [regs]: "c3_SPI_SLV_DATA_BITLEN = 0x3ffff"
definition c3_GDMA_OUT_CONF0_CH0_REG :: u32 where [regs]: "c3_GDMA_OUT_CONF0_CH0_REG = 0x6003f0d0"
definition c3_GDMA_OUT_RST_CH0 :: u32 where [regs]: "c3_GDMA_OUT_RST_CH0 = 0x1"
definition c3_GDMA_OUT_LINK_CH0_REG :: u32 where [regs]: "c3_GDMA_OUT_LINK_CH0_REG = 0x6003f0e0"
definition c3_GDMA_OUTLINK_START_CH0 :: u32 where [regs]: "c3_GDMA_OUTLINK_START_CH0 = 0x200000"
definition c3_SPI_DMA_TX_ENA :: u32 where [regs]: "c3_SPI_DMA_TX_ENA = 0x10000000"
definition c3_GDMA_OUT_DONE_CH0_INT_RAW :: u32 where [regs]: "c3_GDMA_OUT_DONE_CH0_INT_RAW = 0x8"
definition c3_GDMA_OUT_DONE_CH0_INT_CLR :: u32 where [regs]: "c3_GDMA_OUT_DONE_CH0_INT_CLR = 0x8"

section \<open>ESP32C5\<close>

definition c5_INTERRUPT_CORE0_USB_SERIAL_JTAG_INTR_MAP_REG :: u32 where [regs]: "c5_INTERRUPT_CORE0_USB_SERIAL_JTAG_INTR_MAP_REG = 0x600100d8"
definition c5_CLIC_EXT_INTR_NUM_OFFSET :: u32 where [regs]: "c5_CLIC_EXT_INTR_NUM_OFFSET = 0x10"
definition c5_USB_SERIAL_JTAG_INT_CLR_REG :: u32 where [regs]: "c5_USB_SERIAL_JTAG_INT_CLR_REG = 0x6000f014"
definition c5_USB_SERIAL_JTAG_INT_ENA_REG :: u32 where [regs]: "c5_USB_SERIAL_JTAG_INT_ENA_REG = 0x6000f010"
definition c5_SDIO_SLC0TOKEN1_REG :: u32 where [regs]: "c5_SDIO_SLC0TOKEN1_REG = 0x60017064"
definition c5_SDIO_SLC0_TOKEN1_WR :: u32 where [regs]: "c5_SDIO_SLC0_TOKEN1_WR = 0x1000"
definition c5_SDIO_SLC0_TOKEN1_WDATA_MASK :: u32 where [regs]: "c5_SDIO_SLC0_TOKEN1_WDATA_MASK = 0xfff"
definition c5_SDIO_SLCCONF0_REG :: u32 where [regs]: "c5_SDIO_SLCCONF0_REG = 0x60017000"
definition c5_SDIO_SLC0_TX_RST :: u32 where [regs]: "c5_SDIO_SLC0_TX_RST = 0x1"
definition c5_SDIO_SLC0INT_CLR_REG :: u32 where [regs]: "c5_SDIO_SLC0INT_CLR_REG = 0x60017010"
definition c5_SDIO_SLC0_TX_SUC_EOF_INT :: u32 where [regs]: "c5_SDIO_SLC0_TX_SUC_EOF_INT = 0x8000"
definition c5_SDIO_SLC0_TX_DSCR_ERR_INT :: u32 where [regs]: "c5_SDIO_SLC0_TX_DSCR_ERR_INT = 0x80000"
definition c5_SDIO_SLC0_TX_DSCR_EMPTY_INT :: u32 where [regs]: "c5_SDIO_SLC0_TX_DSCR_EMPTY_INT = 0x200000"
definition c5_SDIO_SLC0TX_LINK_ADDR_REG :: u32 where [regs]: "c5_SDIO_SLC0TX_LINK_ADDR_REG = 0x60017048"
definition c5_SDIO_SLC0TX_LINK_REG :: u32 where [regs]: "c5_SDIO_SLC0TX_LINK_REG = 0x60017044"
definition c5_SDIO_SLC0_TXLINK_START :: u32 where [regs]: "c5_SDIO_SLC0_TXLINK_START = 0x20000000"
definition c5_SDIO_SLC0INT_RAW_REG :: u32 where [regs]: "c5_SDIO_SLC0INT_RAW_REG = 0x60017004"
definition c5_SDIO_SLC0_RX_DSCR_ERR_INT :: u32 where [regs]: "c5_SDIO_SLC0_RX_DSCR_ERR_INT = 0x100000"
definition c5_SDIO_SLC_RX_DSCR_CONF_REG :: u32 where [regs]: "c5_SDIO_SLC_RX_DSCR_CONF_REG = 0x600170a8"
definition c5_SDIO_SLC0_TOKEN_NO_REPLACE :: u32 where [regs]: "c5_SDIO_SLC0_TOKEN_NO_REPLACE = 0x1"
definition c5_SDIO_SLC0INT_ENA_REG :: u32 where [regs]: "c5_SDIO_SLC0INT_ENA_REG = 0x6001700c"
definition c5_INTERRUPT_CORE0_SLC0_INTR_MAP_REG :: u32 where [regs]: "c5_INTERRUPT_CORE0_SLC0_INTR_MAP_REG = 0x60010114"
definition c5_SDIO_SLC0_RX_EOF_INT :: u32 where [regs]: "c5_SDIO_SLC0_RX_EOF_INT = 0x20000"
definition c5_SDIO_SLC0_RX_DONE_INT :: u32 where [regs]: "c5_SDIO_SLC0_RX_DONE_INT = 0x10000"
definition c5_SDIO_SLC0_RX_DSCR_EMPTY_INT :: u32 where [regs]: "c5_SDIO_SLC0_RX_DSCR_EMPTY_INT = 0x40000"
definition c5_SLCHOST_CONF_W0_REG :: u32 where [regs]: "c5_SLCHOST_CONF_W0_REG = 0x6001806c"
definition c5_UART_TOUT_CONF_SYNC_REG :: "u32 \<Rightarrow> u32" where [regs]: "c5_UART_TOUT_CONF_SYNC_REG i = 0x60000064 + i * 0x1000"
definition c5_UART_REG_UPDATE_REG :: "u32 \<Rightarrow> u32" where [regs]: "c5_UART_REG_UPDATE_REG i = 0x60000098 + i * 0x1000"
definition c5_UART_REG_UPDATE :: u32 where [regs]: "c5_UART_REG_UPDATE = 0x1"
definition c5_UART_RX_TOUT_THRHD_V :: u32 where [regs]: "c5_UART_RX_TOUT_THRHD_V = 0x3ff"
definition c5_UART_RX_TOUT_THRHD_S :: nat where [regs]: "c5_UART_RX_TOUT_THRHD_S = 2"
definition c5_UART_RX_TOUT_EN_V :: u32 where [regs]: "c5_UART_RX_TOUT_EN_V = 0x1"
definition c5_UART_RX_TOUT_EN_S :: nat where [regs]: "c5_UART_RX_TOUT_EN_S = 0"

section \<open>ESP32C6\<close>

definition c6_INTMTX_CORE0_USB_INTR_MAP_REG :: u32 where [regs]: "c6_INTMTX_CORE0_USB_INTR_MAP_REG = 0x600100c0"
definition c6_USB_SERIAL_JTAG_INT_CLR_REG :: u32 where [regs]: "c6_USB_SERIAL_JTAG_INT_CLR_REG = 0x6000f014"
definition c6_USB_SERIAL_JTAG_INT_ENA_REG :: u32 where [regs]: "c6_USB_SERIAL_JTAG_INT_ENA_REG = 0x6000f010"
definition c6_UART_TOUT_CONF_SYNC_REG :: "u32 \<Rightarrow> u32" where [regs]: "c6_UART_TOUT_CONF_SYNC_REG i = 0x60000064 + i * 0x1000"
definition c6_UART_REG_UPDATE_REG :: "u32 \<Rightarrow> u32" where [regs]: "c6_UART_REG_UPDATE_REG i = 0x60000098 + i * 0x1000"
definition c6_UART_REG_UPDATE :: u32 where [regs]: "c6_UART_REG_UPDATE = 0x1"
definition c6_UART_RX_TOUT_THRHD_V :: u32 where [regs]: "c6_UART_RX_TOUT_THRHD_V = 0x3ff"
definition c6_UART_RX_TOUT_THRHD_S :: nat where [regs]: "c6_UART_RX_TOUT_THRHD_S = 2"
definition c6_UART_RX_TOUT_EN_V :: u32 where [regs]: "c6_UART_RX_TOUT_EN_V = 0x1"
definition c6_UART_RX_TOUT_EN_S :: nat where [regs]: "c6_UART_RX_TOUT_EN_S = 0"

section \<open>ESP32C61\<close>

definition c61_INTERRUPT_CORE0_USB_INTR_MAP_REG :: u32 where [regs]: "c61_INTERRUPT_CORE0_USB_INTR_MAP_REG = 0x600100b0"
definition c61_CLIC_EXT_INTR_NUM_OFFSET :: u32 where [regs]: "c61_CLIC_EXT_INTR_NUM_OFFSET = 0x10"
definition c61_USB_SERIAL_JTAG_INT_CLR_REG :: u32 where [regs]: "c61_USB_SERIAL_JTAG_INT_CLR_REG = 0x6000f014"
definition c61_USB_SERIAL_JTAG_INT_ENA_REG :: u32 where [regs]: "c61_USB_SERIAL_JTAG_INT_ENA_REG = 0x6000f010"
definition c61_UART_TOUT_CONF_SYNC_REG :: "u32 \<Rightarrow> u32" where [regs]: "c61_UART_TOUT_CONF_SYNC_REG i = 0x60000064 + i * 0x1000"
definition c61_UART_REG_UPDATE_REG :: "u32 \<Rightarrow> u32" where [regs]: "c61_UART_REG_UPDATE_REG i = 0x60000098 + i * 0x1000"
definition c61_UART_REG_UPDATE :: u32 where [regs]: "c61_UART_REG_UPDATE = 0x1"
definition c61_UART_RX_TOUT_THRHD_V :: u32 where [regs]: "c61_UART_RX_TOUT_THRHD_V = 0x3ff"
definition c61_UART_RX_TOUT_THRHD_S :: nat where [regs]: "c61_UART_RX_TOUT_THRHD_S = 2"
definition c61_UART_RX_TOUT_EN_V :: u32 where [regs]: "c61_UART_RX_TOUT_EN_V = 0x1"
definition c61_UART_RX_TOUT_EN_S :: nat where [regs]: "c61_UART_RX_TOUT_EN_S = 0"

section \<open>ESP32H2\<close>

definition h2_INTMTX_CORE0_USB_INTR_MAP_REG :: u32 where [regs]: "h2_INTMTX_CORE0_USB_INTR_MAP_REG = 0x60010094"
definition h2_USB_SERIAL_JTAG_INT_CLR_REG :: u32 where [regs]: "h2_USB_SERIAL_JTAG_INT_CLR_REG = 0x6000f014"
definition h2_USB_SERIAL_JTAG_INT_ENA_REG :: u32 where [regs]: "h2_USB_SERIAL_JTAG_INT_ENA_REG = 0x6000f010"
definition h2_UART_TOUT_CONF_SYNC_REG :: "u32 \<Rightarrow> u32" where [regs]: "h2_UART_TOUT_CONF_SYNC_REG i = 0x60000064 + i * 0x1000"
definition h2_UART_REG_UPDATE_REG :: "u32 \<Rightarrow> u32" where [regs]: "h2_UART_REG_UPDATE_REG i = 0x60000098 + i * 0x1000"
definition h2_UART_REG_UPDATE :: u32 where [regs]: "h2_UART_REG_UPDATE = 0x1"
definition h2_UART_RX_TOUT_THRHD_V :: u32 where [regs]: "h2_UART_RX_TOUT_THRHD_V = 0x3ff"
definition h2_UART_RX_TOUT_THRHD_S :: nat where [regs]: "h2_UART_RX_TOUT_THRHD_S = 2"
definition h2_UART_RX_TOUT_EN_V :: u32 where [regs]: "h2_UART_RX_TOUT_EN_V = 0x1"
definition h2_UART_RX_TOUT_EN_S :: nat where [regs]: "h2_UART_RX_TOUT_EN_S = 0"

section \<open>ESP32H21\<close>

definition h21_INTMTX_CORE0_USB_INTR_MAP_REG :: u32 where [regs]: "h21_INTMTX_CORE0_USB_INTR_MAP_REG = 0x60010094"
definition h21_USB_SERIAL_JTAG_INT_CLR_REG :: u32 where [regs]: "h21_USB_SERIAL_JTAG_INT_CLR_REG = 0x6000f014"
definition h21_USB_SERIAL_JTAG_INT_ENA_REG :: u32 where [regs]: "h21_USB_SERIAL_JTAG_INT_ENA_REG = 0x6000f010"
definition h21_UART_TOUT_CONF_SYNC_REG :: "u32 \<Rightarrow> u32" where [regs]: "h21_UART_TOUT_CONF_SYNC_REG i = 0x60000064 + i * 0x1000"
definition h21_UART_REG_UPDATE_REG :: "u32 \<Rightarrow> u32" where [regs]: "h21_UART_REG_UPDATE_REG i = 0x60000098 + i * 0x1000"
definition h21_UART_REG_UPDATE :: u32 where [regs]: "h21_UART_REG_UPDATE = 0x1"
definition h21_UART_RX_TOUT_THRHD_V :: u32 where [regs]: "h21_UART_RX_TOUT_THRHD_V = 0x3ff"
definition h21_UART_RX_TOUT_THRHD_S :: nat where [regs]: "h21_UART_RX_TOUT_THRHD_S = 2"
definition h21_UART_RX_TOUT_EN_V :: u32 where [regs]: "h21_UART_RX_TOUT_EN_V = 0x1"
definition h21_UART_RX_TOUT_EN_S :: nat where [regs]: "h21_UART_RX_TOUT_EN_S = 0"

section \<open>ESP32H4\<close>

definition h4_USB_SERIAL_JTAG_INT_CLR_REG :: u32 where [regs]: "h4_USB_SERIAL_JTAG_INT_CLR_REG = 0x6001d014"
definition h4_USB_SERIAL_JTAG_INT_ENA_REG :: u32 where [regs]: "h4_USB_SERIAL_JTAG_INT_ENA_REG = 0x6001d010"
definition h4_UART_TOUT_CONF_SYNC_REG :: "u32 \<Rightarrow> u32" where [regs]: "h4_UART_TOUT_CONF_SYNC_REG i = 0x60012064 + i * 0x1000"
definition h4_UART_REG_UPDATE_REG :: "u32 \<Rightarrow> u32" where [regs]: "h4_UART_REG_UPDATE_REG i = 0x60012098 + i * 0x1000"
definition h4_UART_REG_UPDATE :: u32 where [regs]: "h4_UART_REG_UPDATE = 0x1"
definition h4_UART_RX_TOUT_THRHD_V :: u32 where [regs]: "h4_UART_RX_TOUT_THRHD_V = 0x3ff"
definition h4_UART_RX_TOUT_THRHD_S :: nat where [regs]: "h4_UART_RX_TOUT_THRHD_S = 2"
definition h4_UART_RX_TOUT_EN_V :: u32 where [regs]: "h4_UART_RX_TOUT_EN_V = 0x1"
definition h4_UART_RX_TOUT_EN_S :: nat where [regs]: "h4_UART_RX_TOUT_EN_S = 0"

section \<open>ESP32P4\<close>

definition p4_INTERRUPT_CORE0_USB_DEVICE_INT_MAP_REG :: u32 where [regs]: "p4_INTERRUPT_CORE0_USB_DEVICE_INT_MAP_REG = 0x500d6058"
definition p4_CLIC_EXT_INTR_NUM_OFFSET :: u32 where [regs]: "p4_CLIC_EXT_INTR_NUM_OFFSET = 0x10"
definition p4_USB_SERIAL_JTAG_INT_CLR_REG :: u32 where [regs]: "p4_USB_SERIAL_JTAG_INT_CLR_REG = 0x500d2014"
definition p4_USB_SERIAL_JTAG_INT_ENA_REG :: u32 where [regs]: "p4_USB_SERIAL_JTAG_INT_ENA_REG = 0x500d2010"
definition p4_HP_SYSTEM_SYS_USBOTG20_CTRL_REG :: u32 where [regs]: "p4_HP_SYSTEM_SYS_USBOTG20_CTRL_REG = 0x500e515c"
definition p4_HP_SYSTEM_SYS_OTG_SUSPENDM :: u32 where [regs]: "p4_HP_SYSTEM_SYS_OTG_SUSPENDM = 0x200000"
definition p4_INTERRUPT_CORE0_USB_OTG_INT_MAP_REG :: u32 where [regs]: "p4_INTERRUPT_CORE0_USB_OTG_INT_MAP_REG = 0x500d6174"
definition p4_DR_REG_USB2_BASE :: u32 where [regs]: "p4_DR_REG_USB2_BASE = 0x50000000"
definition p4_LP_SYSTEM_REG_FORCE_DOWNLOAD_BOOT :: u32 where [regs]: "p4_LP_SYSTEM_REG_FORCE_DOWNLOAD_BOOT = 0x4"
definition p4_SPI_W0_REG :: "u32 \<Rightarrow> u32" where [regs]: "p4_SPI_W0_REG i = 0x500ce098 + i * 0x1000"
definition p4_SPI_W1_REG :: "u32 \<Rightarrow> u32" where [regs]: "p4_SPI_W1_REG i = 0x500ce09c + i * 0x1000"
definition p4_SPI_W2_REG :: "u32 \<Rightarrow> u32" where [regs]: "p4_SPI_W2_REG i = 0x500ce0a0 + i * 0x1000"
definition p4_SPI_W3_REG :: "u32 \<Rightarrow> u32" where [regs]: "p4_SPI_W3_REG i = 0x500ce0a4 + i * 0x1000"
definition p4_SPI_SLV_WR_DMA_DONE_INT_RAW :: u32 where [regs]: "p4_SPI_SLV_WR_DMA_DONE_INT_RAW = 0x200"
definition p4_SPI_SLV_WR_DMA_DONE_INT_CLR :: u32 where [regs]: "p4_SPI_SLV_WR_DMA_DONE_INT_CLR = 0x200"
definition p4_SPI_SLV_RD_DMA_DONE_INT_RAW :: u32 where [regs]: "p4_SPI_SLV_RD_DMA_DONE_INT_RAW = 0x100"
definition p4_SPI_SLV_RD_DMA_DONE_INT_CLR :: u32 where [regs]: "p4_SPI_SLV_RD_DMA_DONE_INT_CLR = 0x100"
definition p4_SPI_SLAVE_REG :: "u32 \<Rightarrow> u32" where [regs]: "p4_SPI_SLAVE_REG i = 0x500ce0e0 + i * 0x1000"
definition p4_SPI_SLAVE_MODE :: u32 where [regs]: "p4_SPI_SLAVE_MODE = 0x4000000"
definition p4_INTERRUPT_CORE0_SPI2_INT_MAP_REG :: u32 where [regs]: "p4_INTERRUPT_CORE0_SPI2_INT_MAP_REG = 0x500d6064"
definition p4_SPI_DMA_INT_CLR_REG :: "u32 \<Rightarrow> u32" where [regs]: "p4_SPI_DMA_INT_CLR_REG i = 0x500ce038 + i * 0x1000"
definition p4_AXI_DMA_IN_CONF0_CH0_REG :: u32 where [regs]: "p4_AXI_DMA_IN_CONF0_CH0_REG = 0x5008a010"
definition p4_AXI_DMA_IN_RST_CH0 :: u32 where [regs]: "p4_AXI_DMA_IN_RST_CH0 = 0x1"
definition p4_SPI_DMA_CONF_REG :: "u32 \<Rightarrow> u32" where [regs]: "p4_SPI_DMA_CONF_REG i = 0x500ce030 + i * 0x1000"
definition p4_SPI_DMA_AFIFO_RST :: u32 where [regs]: "p4_SPI_DMA_AFIFO_RST = 0x80000000"
definition p4_SPI_BUF_AFIFO_RST :: u32 where [regs]: "p4_SPI_BUF_AFIFO_RST = 0x40000000"
definition p4_SPI_RX_AFIFO_RST :: u32 where [regs]: "p4_SPI_RX_AFIFO_RST = 0x20000000"
definition p4_SPI_DMA_RX_ENA :: u32 where [regs]: "p4_SPI_DMA_RX_ENA = 0x8000000"
definition p4_AXI_DMA_IN_LINK2_CH0_REG :: u32 where [regs]: "p4_AXI_DMA_IN_LINK2_CH0_REG = 0x5008a024"
definition p4_AXI_DMA_IN_INT_CLR_CH0_REG :: u32 where [regs]: "p4_AXI_DMA_IN_INT_CLR_CH0_REG = 0x5008a00c"
definition p4_AXI_DMA_IN_DSCR_ERR_CH0_INT_CLR :: u32 where [regs]: "p4_AXI_DMA_IN_DSCR_ERR_CH0_INT_CLR = 0x8"
definition p4_AXI_DMA_INFIFO_L1_UDF_CH0_INT_CLR :: u32 where [regs]: "p4_AXI_DMA_INFIFO_L1_UDF_CH0_INT_CLR = 0x40"
definition p4_AXI_DMA_INFIFO_L2_UDF_CH0_INT_CLR :: u32 where [regs]: "p4_AXI_DMA_INFIFO_L2_UDF_CH0_INT_CLR = 0x100"
definition p4_AXI_DMA_INFIFO_L3_UDF_CH0_INT_CLR :: u32 where [regs]: "p4_AXI_DMA_INFIFO_L3_UDF_CH0_INT_CLR = 0x400"
definition p4_AXI_DMA_IN_LINK1_CH0_REG :: u32 where [regs]: "p4_AXI_DMA_IN_LINK1_CH0_REG = 0x5008a020"
definition p4_AXI_DMA_INLINK_START_CH0 :: u32 where [regs]: "p4_AXI_DMA_INLINK_START_CH0 = 0x4"
definition p4_SPI_DMA_INT_RAW_REG :: "u32 \<Rightarrow> u32" where [regs]: "p4_SPI_DMA_INT_RAW_REG i = 0x500ce03c + i * 0x1000"
definition p4_AXI_DMA_IN_INT_RAW_CH0_REG :: u32 where [regs]: "p4_AXI_DMA_IN_INT_RAW_CH0_REG = 0x5008a000"
definition p4_AXI_DMA_IN_SUC_EOF_CH0_INT_RAW :: u32 where [regs]: "p4_AXI_DMA_IN_SUC_EOF_CH0_INT_RAW = 0x2"
definition p4_AXI_DMA_IN_SUC_EOF_CH0_INT_CLR :: u32 where [regs]: "p4_AXI_DMA_IN_SUC_EOF_CH0_INT_CLR = 0x2"
definition p4_SPI_SLAVE1_REG :: "u32 \<Rightarrow> u32" where [regs]: "p4_SPI_SLAVE1_REG i = 0x500ce0e4 + i * 0x1000"
definition p4_SPI_SLV_DATA_BITLEN :: u32 where [regs]: "p4_SPI_SLV_DATA_BITLEN = 0x3ffff"
definition p4_AXI_DMA_OUT_CONF0_CH0_REG :: u32 where [regs]: "p4_AXI_DMA_OUT_CONF0_CH0_REG = 0x5008a148"
definition p4_AXI_DMA_OUT_RST_CH0 :: u32 where [regs]: "p4_AXI_DMA_OUT_RST_CH0 = 0x1"
definition p4_AXI_DMA_OUT_LINK2_CH0_REG :: u32 where [regs]: "p4_AXI_DMA_OUT_LINK2_CH0_REG = 0x5008a15c"
definition p4_AXI_DMA_OUT_LINK1_CH0_REG :: u32 where [regs]: "p4_AXI_DMA_OUT_LINK1_CH0_REG = 0x5008a158"
definition p4_AXI_DMA_OUTLINK_START_CH0 :: u32 where [regs]: "p4_AXI_DMA_OUTLINK_START_CH0 = 0x2"
definition p4_SPI_DMA_TX_ENA :: u32 where [regs]: "p4_SPI_DMA_TX_ENA = 0x10000000"
definition p4_AXI_DMA_OUT_INT_RAW_CH0_REG :: u32 where [regs]: "p4_AXI_DMA_OUT_INT_RAW_CH0_REG = 0x5008a138"
definition p4_AXI_DMA_OUT_DONE_CH0_INT_RAW :: u32 where [regs]: "p4_AXI_DMA_OUT_DONE_CH0_INT_RAW = 0x1"
definition p4_AXI_DMA_OUT_INT_CLR_CH0_REG :: u32 where [regs]: "p4_AXI_DMA_OUT_INT_CLR_CH0_REG = 0x5008a144"
definition p4_AXI_DMA_OUT_DONE_CH0_INT_CLR :: u32 where [regs]: "p4_AXI_DMA_OUT_DONE_CH0_INT_CLR = 0x1"
definition p4_UART_TOUT_CONF_SYNC_REG :: "u32 \<Rightarrow> u32" where [regs]: "p4_UART_TOUT_CONF_SYNC_REG i = 0x500ca064 + i * 0x1000"
definition p4_UART_REG_UPDATE_REG :: "u32 \<Rightarrow> u32" where [regs]: "p4_UART_REG_UPDATE_REG i = 0x500ca098 + i * 0x1000"
definition p4_UART_REG_UPDATE :: u32 where [regs]: "p4_UART_REG_UPDATE = 0x1"
definition p4_UART_RX_TOUT_THRHD_V :: u32 where [regs]: "p4_UART_RX_TOUT_THRHD_V = 0x3ff"
definition p4_UART_RX_TOUT_THRHD_S :: nat where [regs]: "p4_UART_RX_TOUT_THRHD_S = 2"
definition p4_UART_RX_TOUT_EN_V :: u32 where [regs]: "p4_UART_RX_TOUT_EN_V = 0x1"
definition p4_UART_RX_TOUT_EN_S :: nat where [regs]: "p4_UART_RX_TOUT_EN_S = 0"

section \<open>ESP32S31\<close>

definition s31_USB_SERIAL_JTAG_INT_CLR_REG :: u32 where [regs]: "s31_USB_SERIAL_JTAG_INT_CLR_REG = 0x20391014"
definition s31_USB_SERIAL_JTAG_INT_ENA_REG :: u32 where [regs]: "s31_USB_SERIAL_JTAG_INT_ENA_REG = 0x20391010"
definition s31_USB_OTGHS_GAHBCFG_REG :: u32 where [regs]: "s31_USB_OTGHS_GAHBCFG_REG = 0x20300008"
definition s31_USB_OTGHS_GAHBCFG_GLBLINTRMSK :: u32 where [regs]: "s31_USB_OTGHS_GAHBCFG_GLBLINTRMSK = 0x1"
definition s31_LP_SYSTEM_REG_SYS_CTRL_REG :: u32 where [regs]: "s31_LP_SYSTEM_REG_SYS_CTRL_REG = 0x20700008"
definition s31_LP_SYSTEM_REG_FORCE_DOWNLOAD_BOOT :: u32 where [regs]: "s31_LP_SYSTEM_REG_FORCE_DOWNLOAD_BOOT = 0x4"
definition s31_UART_TOUT_CONF_SYNC_REG :: "u32 \<Rightarrow> u32" where [regs]: "s31_UART_TOUT_CONF_SYNC_REG i = 0x2038a064 + i * 0x1000"
definition s31_UART_REG_UPDATE_REG :: "u32 \<Rightarrow> u32" where [regs]: "s31_UART_REG_UPDATE_REG i = 0x2038a098 + i * 0x1000"
definition s31_UART_REG_UPDATE :: u32 where [regs]: "s31_UART_REG_UPDATE = 0x1"
definition s31_UART_RX_TOUT_THRHD_V :: u32 where [regs]: "s31_UART_RX_TOUT_THRHD_V = 0x3ff"
definition s31_UART_RX_TOUT_THRHD_S :: nat where [regs]: "s31_UART_RX_TOUT_THRHD_S = 2"
definition s31_UART_RX_TOUT_EN_V :: u32 where [regs]: "s31_UART_RX_TOUT_EN_V = 0x1"
definition s31_UART_RX_TOUT_EN_S :: nat where [regs]: "s31_UART_RX_TOUT_EN_S = 0"

end
