(* ===== verification/Chip_Serial.thy ===== *)
theory Chip_Serial
  imports Serial_Ports Io_Regs Chip_Clock_Props
begin

text \<open>
  The serial ports of the chips other than the ESP32-S3: \<open>src/target/CHIP/src/uart.c\<close>,
  \<open>src/target/CHIP/src/usb\_serial\_jtag.c\<close> and the trace memory of
  \<open>src/target/CHIP/src/trax.c\<close>, with the weak \<open>stub\_target\_uart\_set\_rx\_timeout\<close> in the build of
  the chips whose UART synchronises its registers. A function of a chip carries the chip's
  name for the prefix \<open>stub\_target\<close>. The last section proves which divisor the baud rate of
  each chip is set with.
\<close>

section \<open>ESP32\<close>

definition esp32_RTC_STORE5 :: u32 where [regs]: "esp32_RTC_STORE5 = esp32_DR_REG_RTCCNTL_BASE + 0xb4"

definition ets_get_detected_xtal_freq_patch :: "'a world_scheme \<Rightarrow> u32 \<times> 'a world_scheme" where
  "ets_get_detected_xtal_freq_patch w =
     (let (clock, w) = rom_num (SysFn Esp_rom_get_detected_xtal_freq) [] [] w;
          clock = (if clock < 30500 * 1000 then 26 * 1000 * 1000 else 40 * 1000 * 1000);
          (rtc_store5, w) = REG_READ esp32_RTC_STORE5 w;
          high = drop_bit 16 rtc_store5;
          low = rtc_store5 AND 0xffff
      in if high = low \<and> high \<noteq> 0 \<and> high \<noteq> 0xffff then (push_bit 12 high, w)
         else (clock, REG_WRITE esp32_RTC_STORE5 (drop_bit 12 clock OR push_bit 16 (drop_bit 12 clock)) w))"

definition esp32_get_apb_freq :: "'a world_scheme \<Rightarrow> u32 \<times> 'a world_scheme" where
  "esp32_get_apb_freq w =
     (let (sel, w) = REG_GET_FIELD esp32_RTC_CNTL_CLK_CONF_REG esp32_RTC_CNTL_SOC_CLK_SEL_V esp32_RTC_CNTL_SOC_CLK_SEL_S w
      in if sel = 1 then (80 * MHZ, w) else ets_get_detected_xtal_freq_patch w)"

definition esp32_rom_uart_attach :: "u32 \<Rightarrow> 'a world_scheme \<Rightarrow> 'a world_scheme" where
  "esp32_rom_uart_attach rxBuffer w = rom_void (IoFn Esp_rom_uart_attach) [] [] w"

definition esp32_rom_uart_init :: "u8 \<Rightarrow> u32 \<Rightarrow> 'a world_scheme \<Rightarrow> 'a world_scheme" where
  "esp32_rom_uart_init uart_no clock w = rom_void (IoFn Esp_rom_uart_init) [ucast uart_no, clock] [] w"

definition esp32_uart_init :: "u8 \<Rightarrow> 'a world_scheme \<Rightarrow> 'a world_scheme" where
  "esp32_uart_init uart_num w =
     (let w = esp32_rom_uart_attach 0 w;
          (apb, w) = esp32_get_apb_freq w;
          w = esp32_rom_uart_init uart_num apb w
      in rom_void (IoFn Esp_rom_uart_set_as_console) [ucast uart_num] [] w)"

definition esp32_uart_rominit_set_baudrate :: "u8 \<Rightarrow> u32 \<Rightarrow> 'a world_scheme \<Rightarrow> 'a world_scheme option" where
  "esp32_uart_rominit_set_baudrate uart_num baudrate w =
     (let w = stub_lib_delay_us (5 * 1000) w;
          (apb, w) = esp32_get_apb_freq w
      in if baudrate = 0 then None
         else
           (let clk_div = push_bit 4 apb div baudrate;
                w = stub_target_uart_wait_idle uart_num w;
                w = rom_void (IoFn Esp_rom_uart_div_modify) [ucast uart_num, clk_div] [] w
            in Some (stub_lib_delay_us (5 * 1000) w)))"

definition esp32_uart_set_rx_timeout :: "u8 \<Rightarrow> u8 \<Rightarrow> 'a world_scheme \<Rightarrow> 'a world_scheme" where
  "esp32_uart_set_rx_timeout uart_num timeout w =
     (if timeout > 0 then
        (let w = SET_PERI_REG_BITS (esp32_UART_CONF1_REG (ucast uart_num)) esp32_UART_RX_TOUT_THRHD_V (ucast timeout) esp32_UART_RX_TOUT_THRHD_S w
         in SET_PERI_REG_BITS (esp32_UART_CONF1_REG (ucast uart_num)) esp32_UART_RX_TOUT_EN_V 1 esp32_UART_RX_TOUT_EN_S w)
      else SET_PERI_REG_BITS (esp32_UART_CONF1_REG (ucast uart_num)) esp32_UART_RX_TOUT_EN_V 0 esp32_UART_RX_TOUT_EN_S w)"

definition esp32_uart_target :: "'a world_scheme uart_target" where
  "esp32_uart_target = \<lparr>tt_wait_idle = \<lambda>n w. Some (stub_target_uart_wait_idle n w),
     tt_init = \<lambda>n w. Some (esp32_uart_init n w), tt_rominit_set_baudrate = esp32_uart_rominit_set_baudrate,
     tt_tx_flush = \<lambda>n w. Some (stub_target_uart_tx_flush n w),
     tt_set_rx_timeout = \<lambda>n t w. Some (esp32_uart_set_rx_timeout n t w)\<rparr>"

definition esp32_TRACEMEM_MUX_MODE_REG :: u32 where [regs]: "esp32_TRACEMEM_MUX_MODE_REG = esp32_DR_REG_DPORT_BASE + 0x070"
definition esp32_TRACEMEM_ENA_REG :: u32 where [regs]: "esp32_TRACEMEM_ENA_REG = esp32_DR_REG_DPORT_BASE + 0x074"
definition esp32_TRACEMEM_ENA_M :: u32 where [regs]: "esp32_TRACEMEM_ENA_M = 1"
definition esp32_TRACEMEM_MUX_BLK0_ONLY :: u32 where [regs]: "esp32_TRACEMEM_MUX_BLK0_ONLY = 1"
definition esp32_TRACEMEM_MUX_BLK1_ONLY :: u32 where [regs]: "esp32_TRACEMEM_MUX_BLK1_ONLY = 2"

definition esp32_trax_mem_enable :: "'a world_scheme \<Rightarrow> 'a world_scheme" where
  "esp32_trax_mem_enable w = WRITE_PERI_REG esp32_TRACEMEM_ENA_REG esp32_TRACEMEM_ENA_M w"

definition esp32_trax_select_mem_block :: "u32 \<Rightarrow> 'a world_scheme \<Rightarrow> 'a world_scheme" where
  "esp32_trax_select_mem_block block w =
     WRITE_PERI_REG esp32_TRACEMEM_MUX_MODE_REG
       (if block \<noteq> 0 then esp32_TRACEMEM_MUX_BLK0_ONLY else esp32_TRACEMEM_MUX_BLK1_ONLY) w"

section \<open>ESP32-S2\<close>

definition s2_rom_uart_attach :: "u32 \<Rightarrow> 'a world_scheme \<Rightarrow> 'a world_scheme" where
  "s2_rom_uart_attach rxBuffer w = rom_void (IoFn Esp_rom_uart_attach) [rxBuffer] [] w"

definition s2_rom_uart_init :: "u8 \<Rightarrow> u32 \<Rightarrow> 'a world_scheme \<Rightarrow> 'a world_scheme" where
  "s2_rom_uart_init uart_no clock w = rom_void (IoFn Esp_rom_uart_init) [ucast uart_no, clock] [] w"

definition s2_uart_init :: "u8 \<Rightarrow> 'a world_scheme \<Rightarrow> 'a world_scheme" where
  "s2_uart_init uart_num w =
     (let w = s2_rom_uart_attach 0 w;
          (apb, w) = s2_get_apb_freq w;
          w = s2_rom_uart_init uart_num apb w
      in rom_void (IoFn Esp_rom_uart_tx_switch) [ucast uart_num] [] w)"

definition s2_uart_rominit_set_baudrate :: "u8 \<Rightarrow> u32 \<Rightarrow> 'a world_scheme \<Rightarrow> 'a world_scheme option" where
  "s2_uart_rominit_set_baudrate uart_num baudrate w =
     (let w = stub_lib_delay_us (5 * 1000) w;
          (apb, w) = s2_get_apb_freq w
      in if baudrate = 0 then None
         else
           (let clk_div = push_bit 4 apb div baudrate;
                w = stub_target_uart_wait_idle uart_num w;
                w = rom_void (IoFn Esp_rom_uart_div_modify) [ucast uart_num, clk_div] [] w
            in Some (stub_lib_delay_us (5 * 1000) w)))"

definition s2_uart_set_rx_timeout :: "u8 \<Rightarrow> u8 \<Rightarrow> 'a world_scheme \<Rightarrow> 'a world_scheme" where
  "s2_uart_set_rx_timeout uart_num timeout w =
     (if timeout > 0 then
        (let w = SET_PERI_REG_BITS (s2_UART_MEM_CONF_REG (ucast uart_num)) s2_UART_RX_TOUT_THRHD_V (ucast timeout) s2_UART_RX_TOUT_THRHD_S w
         in SET_PERI_REG_BITS (s2_UART_CONF1_REG (ucast uart_num)) s2_UART_RX_TOUT_EN_V 1 s2_UART_RX_TOUT_EN_S w)
      else SET_PERI_REG_BITS (s2_UART_CONF1_REG (ucast uart_num)) s2_UART_RX_TOUT_EN_V 0 s2_UART_RX_TOUT_EN_S w)"

definition s2_uart_target :: "'a world_scheme uart_target" where
  "s2_uart_target = \<lparr>tt_wait_idle = \<lambda>n w. Some (stub_target_uart_wait_idle n w),
     tt_init = \<lambda>n w. Some (s2_uart_init n w), tt_rominit_set_baudrate = s2_uart_rominit_set_baudrate,
     tt_tx_flush = \<lambda>n w. Some (stub_target_uart_tx_flush n w),
     tt_set_rx_timeout = \<lambda>n t w. Some (s2_uart_set_rx_timeout n t w)\<rparr>"

definition s2_PMS_OCCUPY_3_REG :: u32 where [regs]: "s2_PMS_OCCUPY_3_REG = s2_DR_REG_SENSITIVE_BASE + 0x0E0"
definition s2_TRACEMEM_MUX_BLK0_NUM :: nat where [regs]: "s2_TRACEMEM_MUX_BLK0_NUM = 19"
definition s2_TRACEMEM_MUX_BLK1_NUM :: nat where [regs]: "s2_TRACEMEM_MUX_BLK1_NUM = 20"

definition s2_trax_mem_enable :: "'w \<Rightarrow> 'w" where "s2_trax_mem_enable w = w"

definition s2_trax_select_mem_block :: "u32 \<Rightarrow> 'a world_scheme \<Rightarrow> 'a world_scheme" where
  "s2_trax_select_mem_block block w =
     WRITE_PERI_REG s2_PMS_OCCUPY_3_REG
       (if block \<noteq> 0 then BIT (s2_TRACEMEM_MUX_BLK0_NUM - 4) else BIT (s2_TRACEMEM_MUX_BLK1_NUM - 4)) w"

section \<open>ESP32-S3, the trace memory\<close>

definition s3_DR_REG_SENSITIVE_BASE :: u32 where [regs]: "s3_DR_REG_SENSITIVE_BASE = 0x600C1000"
definition s3_SENSITIVE_INTERNAL_SRAM_USAGE_2_REG :: u32 where
  [regs]: "s3_SENSITIVE_INTERNAL_SRAM_USAGE_2_REG = s3_DR_REG_SENSITIVE_BASE + 0x18"
definition s3_TRACEMEM_MUX_BLK0_NUM :: nat where [regs]: "s3_TRACEMEM_MUX_BLK0_NUM = 22"
definition s3_TRACEMEM_MUX_BLK1_NUM :: nat where [regs]: "s3_TRACEMEM_MUX_BLK1_NUM = 26"

definition TRACEMEM_MUX_BLK_ALLOC :: "nat \<Rightarrow> u32" where
  [regs]: "TRACEMEM_MUX_BLK_ALLOC n = of_nat ((n - 2) mod 4)"
definition TRACEMEM_CORE0_MUX_BLK_BITS :: "nat \<Rightarrow> u32" where
  [regs]: "TRACEMEM_CORE0_MUX_BLK_BITS n = BIT ((n - 2) div 4) OR push_bit 14 (TRACEMEM_MUX_BLK_ALLOC n)"
definition TRACEMEM_CORE1_MUX_BLK_BITS :: "nat \<Rightarrow> u32" where
  [regs]: "TRACEMEM_CORE1_MUX_BLK_BITS n = BIT (7 + (n - 2) div 4) OR push_bit 16 (TRACEMEM_MUX_BLK_ALLOC n)"

definition s3_trax_mem_enable :: "'w \<Rightarrow> 'w" where "s3_trax_mem_enable w = w"

definition s3_trax_select_mem_block :: "u32 \<Rightarrow> 'a world_scheme \<Rightarrow> 'a world_scheme" where
  "s3_trax_select_mem_block block w =
     (let block_bits = (if block \<noteq> 0 then TRACEMEM_CORE0_MUX_BLK_BITS s3_TRACEMEM_MUX_BLK0_NUM
                        else TRACEMEM_CORE0_MUX_BLK_BITS s3_TRACEMEM_MUX_BLK1_NUM);
          block_bits = block_bits OR
                       (if block \<noteq> 0 then TRACEMEM_CORE1_MUX_BLK_BITS s3_TRACEMEM_MUX_BLK0_NUM
                        else TRACEMEM_CORE1_MUX_BLK_BITS s3_TRACEMEM_MUX_BLK1_NUM)
      in WRITE_PERI_REG s3_SENSITIVE_INTERNAL_SRAM_USAGE_2_REG block_bits w)"

section \<open>ESP32-C2\<close>

text \<open>The APB frequency is measured the first time; the measurement may wait for ever.\<close>

definition c2_rom_uart_attach :: "u32 \<Rightarrow> 'a world_scheme \<Rightarrow> 'a world_scheme" where
  "c2_rom_uart_attach rxBuffer w = rom_void (IoFn Esp_rom_uart_attach) [rxBuffer] [] w"

definition c2_rom_uart_init :: "u8 \<Rightarrow> u32 \<Rightarrow> 'a world_scheme \<Rightarrow> 'a world_scheme" where
  "c2_rom_uart_init uart_no clock w = rom_void (IoFn Esp_rom_uart_init) [ucast uart_no, clock] [] w"

definition c2_uart_init :: "u8 \<Rightarrow> 'a c2_clock_world_scheme \<Rightarrow> 'a c2_clock_world_scheme option" where
  "c2_uart_init uart_num w = do {
     let w = c2_rom_uart_attach 0 w;
     (apb, w) \<leftarrow> c2_get_apb_freq w;
     let w = c2_rom_uart_init uart_num apb w;
     let w = rom_void (IoFn Esp_rom_uart_set_as_console) [ucast uart_num] [] w;
     Some (cell_write (RomVar G_uart_print) 1 w) }"

definition c2_uart_rominit_set_baudrate ::
  "u8 \<Rightarrow> u32 \<Rightarrow> 'a c2_clock_world_scheme \<Rightarrow> 'a c2_clock_world_scheme option" where
  "c2_uart_rominit_set_baudrate uart_num baudrate w = do {
     let w = stub_lib_delay_us (5 * 1000) w;
     (apb, w) \<leftarrow> c2_get_apb_freq w;
     if baudrate = 0 then None
     else
       (let clk_div = push_bit 4 apb div baudrate;
            w = stub_target_uart_wait_idle uart_num w;
            w = rom_void (IoFn Esp_rom_uart_div_modify) [ucast uart_num, clk_div] [] w
        in Some (stub_lib_delay_us (5 * 1000) w)) }"

definition c2_uart_set_rx_timeout :: "u8 \<Rightarrow> u8 \<Rightarrow> 'a world_scheme \<Rightarrow> 'a world_scheme" where
  "c2_uart_set_rx_timeout uart_num timeout w =
     (if timeout > 0 then
        (let w = SET_PERI_REG_BITS (c2_UART_MEM_CONF_REG (ucast uart_num)) c2_UART_RX_TOUT_THRHD_V (ucast timeout) c2_UART_RX_TOUT_THRHD_S w
         in SET_PERI_REG_BITS (c2_UART_CONF1_REG (ucast uart_num)) c2_UART_RX_TOUT_EN_V 1 c2_UART_RX_TOUT_EN_S w)
      else SET_PERI_REG_BITS (c2_UART_CONF1_REG (ucast uart_num)) c2_UART_RX_TOUT_EN_V 0 c2_UART_RX_TOUT_EN_S w)"


definition c2_uart_target :: "'a c2_clock_world_scheme uart_target" where
  "c2_uart_target = \<lparr>tt_wait_idle = \<lambda>n w. Some (stub_target_uart_wait_idle n w), tt_init = c2_uart_init,
     tt_rominit_set_baudrate = c2_uart_rominit_set_baudrate,
     tt_tx_flush = \<lambda>n w. Some (stub_target_uart_tx_flush n w),
     tt_set_rx_timeout = \<lambda>n t w. Some (c2_uart_set_rx_timeout n t w)\<rparr>"

section \<open>ESP32-C3\<close>

definition c3_rom_uart_attach :: "u32 \<Rightarrow> 'a world_scheme \<Rightarrow> 'a world_scheme" where
  "c3_rom_uart_attach rxBuffer w = rom_void (IoFn Esp_rom_uart_attach) [rxBuffer] [] w"

definition c3_rom_uart_init :: "u8 \<Rightarrow> u32 \<Rightarrow> 'a world_scheme \<Rightarrow> 'a world_scheme" where
  "c3_rom_uart_init uart_no clock w = rom_void (IoFn Esp_rom_uart_init) [ucast uart_no, clock] [] w"

definition c3_uart_init :: "u8 \<Rightarrow> 'a world_scheme \<Rightarrow> 'a world_scheme" where
  "c3_uart_init uart_num w =
     (let w = c3_rom_uart_attach 0 w;
          (xtal, w) = rom_num (SysFn Esp_rom_get_xtal_freq) [] [] w;
          w = c3_rom_uart_init uart_num xtal w
      in cell_write (RomVar G_uart_print) 1 w)"

definition c3_uart_rominit_set_baudrate :: "u8 \<Rightarrow> u32 \<Rightarrow> 'a world_scheme \<Rightarrow> 'a world_scheme option" where
  "c3_uart_rominit_set_baudrate uart_num baudrate w =
     (let w = stub_lib_delay_us (5 * 1000) w;
          (xtal, w) = rom_num (SysFn Esp_rom_get_xtal_freq) [] [] w
      in if baudrate = 0 then None
         else
           (let clk_div = push_bit 4 xtal div baudrate;
                w = stub_target_uart_wait_idle uart_num w;
                w = rom_void (IoFn Esp_rom_uart_div_modify) [ucast uart_num, clk_div] [] w
            in Some (stub_lib_delay_us (5 * 1000) w)))"

definition c3_uart_set_rx_timeout :: "u8 \<Rightarrow> u8 \<Rightarrow> 'a world_scheme \<Rightarrow> 'a world_scheme" where
  "c3_uart_set_rx_timeout uart_num timeout w =
     (if timeout > 0 then
        (let w = SET_PERI_REG_BITS (c3_UART_MEM_CONF_REG (ucast uart_num)) c3_UART_RX_TOUT_THRHD_V (ucast timeout) c3_UART_RX_TOUT_THRHD_S w
         in SET_PERI_REG_BITS (c3_UART_CONF1_REG (ucast uart_num)) c3_UART_RX_TOUT_EN_V 1 c3_UART_RX_TOUT_EN_S w)
      else SET_PERI_REG_BITS (c3_UART_CONF1_REG (ucast uart_num)) c3_UART_RX_TOUT_EN_V 0 c3_UART_RX_TOUT_EN_S w)"

definition c3_uart_target :: "'a world_scheme uart_target" where
  "c3_uart_target = \<lparr>tt_wait_idle = \<lambda>n w. Some (stub_target_uart_wait_idle n w),
     tt_init = \<lambda>n w. Some (c3_uart_init n w), tt_rominit_set_baudrate = c3_uart_rominit_set_baudrate,
     tt_tx_flush = \<lambda>n w. Some (stub_target_uart_tx_flush n w),
     tt_set_rx_timeout = \<lambda>n t w. Some (c3_uart_set_rx_timeout n t w)\<rparr>"

section \<open>ESP8266\<close>

definition esp8266_rom_uart_attach :: "u32 \<Rightarrow> 'a world_scheme \<Rightarrow> 'a world_scheme" where
  "esp8266_rom_uart_attach rxBuffer w = rom_void (IoFn Esp_rom_uart_attach) [] [] w"

definition esp8266_rom_uart_init :: "u8 \<Rightarrow> u32 \<Rightarrow> 'a world_scheme \<Rightarrow> 'a world_scheme" where
  "esp8266_rom_uart_init uart_no clock w = rom_void (IoFn Esp_rom_uart_init) [ucast uart_no, clock] [] w"

definition esp8266_uart_wait_idle :: "u8 \<Rightarrow> 'a world_scheme \<Rightarrow> 'a world_scheme option" where
  "esp8266_uart_wait_idle uart_num w =
     busy_wait (esp8266_UART_STATUS_REG (ucast uart_num))
       (\<lambda>status. drop_bit esp8266_UART_TXFIFO_CNT_S status AND esp8266_UART_TXFIFO_CNT_V \<noteq> 0 \<or>
          status AND esp8266_UART_TXD \<noteq> 0) w"

definition esp8266_uart_init :: "u8 \<Rightarrow> 'w \<Rightarrow> 'w" where
  "esp8266_uart_init uart_num w = w"

definition esp8266_uart_rominit_set_baudrate :: "u8 \<Rightarrow> u32 \<Rightarrow> 'a world_scheme \<Rightarrow> 'a world_scheme option" where
  "esp8266_uart_rominit_set_baudrate uart_num baudrate w =
     (let w = stub_lib_delay_us (5 * 1000) w;
          (uart_reg_value, w) = READ_PERI_REG (esp8266_UART_CLKDIV_REG (ucast uart_num)) w;
          clk_div = uart_reg_value AND esp8266_UART_CLKDIV_M
      in if baudrate = 0 then None
         else
           (let new_clk_div = clk_div * 115200 div baudrate
            in do {
              w \<leftarrow> esp8266_uart_wait_idle uart_num w;
              let w = rom_void (IoFn Esp_rom_uart_div_modify) [ucast uart_num, new_clk_div] [] w;
              Some (stub_lib_delay_us (5 * 1000) w) }))"

definition esp8266_uart_tx_flush :: "u8 \<Rightarrow> 'a world_scheme \<Rightarrow> 'a world_scheme option" where
  "esp8266_uart_tx_flush uart_no w =
     (let UART0_STATUS_REG = 0x60000F1C; UART_STATUS_TX_EMPTY = push_bit 16 0xFF
      in busy_wait UART0_STATUS_REG (\<lambda>v. v AND UART_STATUS_TX_EMPTY \<noteq> 0) w)"

definition esp8266_uart_set_rx_timeout :: "u8 \<Rightarrow> u8 \<Rightarrow> 'a world_scheme \<Rightarrow> 'a world_scheme" where
  "esp8266_uart_set_rx_timeout uart_num timeout w =
     (if timeout > 0 then
        (let w = SET_PERI_REG_BITS (esp8266_UART_CONF1_REG (ucast uart_num)) esp8266_UART_RX_TOUT_THRHD_V (ucast timeout) esp8266_UART_RX_TOUT_THRHD_S w
         in SET_PERI_REG_BITS (esp8266_UART_CONF1_REG (ucast uart_num)) esp8266_UART_RX_TOUT_EN_V 1 esp8266_UART_RX_TOUT_EN_S w)
      else SET_PERI_REG_BITS (esp8266_UART_CONF1_REG (ucast uart_num)) esp8266_UART_RX_TOUT_EN_V 0 esp8266_UART_RX_TOUT_EN_S w)"


definition esp8266_uart_target :: "'a world_scheme uart_target" where
  "esp8266_uart_target = \<lparr>tt_wait_idle = esp8266_uart_wait_idle, tt_init = \<lambda>n w. Some (esp8266_uart_init n w),
     tt_rominit_set_baudrate = esp8266_uart_rominit_set_baudrate, tt_tx_flush = esp8266_uart_tx_flush,
     tt_set_rx_timeout = \<lambda>n t w. Some (esp8266_uart_set_rx_timeout n t w)\<rparr>"

section \<open>The chips with the common UART\<close>

text \<open>
  The weak \<open>stub\_target\_uart\_set\_rx\_timeout\<close> where \<open>SOC\_UART\_HAS\_SYNC\_REG\_UPDATE\<close> is set, over
  the registers and fields of the chip; it may wait for ever.
\<close>

record uart_sync_regs =
  ur_TOUT_CONF_SYNC_REG :: "u32 \<Rightarrow> u32"
  ur_REG_UPDATE_REG :: "u32 \<Rightarrow> u32"
  ur_REG_UPDATE :: u32
  ur_RX_TOUT_THRHD_V :: u32
  ur_RX_TOUT_THRHD_S :: nat
  ur_RX_TOUT_EN_V :: u32
  ur_RX_TOUT_EN_S :: nat

definition uart_set_rx_timeout_sync ::
  "uart_sync_regs \<Rightarrow> u8 \<Rightarrow> u8 \<Rightarrow> 'a world_scheme \<Rightarrow> 'a world_scheme option" where
  "uart_set_rx_timeout_sync R uart_num timeout w =
     (let tout = ur_TOUT_CONF_SYNC_REG R (ucast uart_num);
          w = (if timeout > 0 then
                 (let w = SET_PERI_REG_BITS tout (ur_RX_TOUT_THRHD_V R) (ucast timeout) (ur_RX_TOUT_THRHD_S R) w
                  in SET_PERI_REG_BITS tout (ur_RX_TOUT_EN_V R) 1 (ur_RX_TOUT_EN_S R) w)
               else SET_PERI_REG_BITS tout (ur_RX_TOUT_EN_V R) 0 (ur_RX_TOUT_EN_S R) w);
          w = WRITE_PERI_REG (ur_REG_UPDATE_REG R (ucast uart_num)) (ur_REG_UPDATE R) w
      in busy_wait (ur_REG_UPDATE_REG R (ucast uart_num)) (\<lambda>v. v AND ur_REG_UPDATE R \<noteq> 0) w)"

definition c5_rom_uart_attach :: "u32 \<Rightarrow> 'a world_scheme \<Rightarrow> 'a world_scheme" where
  "c5_rom_uart_attach rxBuffer w = rom_void (IoFn Esp_rom_uart_attach) [rxBuffer] [] w"

definition c5_rom_uart_init :: "u8 \<Rightarrow> u32 \<Rightarrow> 'a world_scheme \<Rightarrow> 'a world_scheme" where
  "c5_rom_uart_init uart_no clock w = rom_void (IoFn Esp_rom_uart_init) [ucast uart_no] [] w"

definition c5_uart_sync_regs :: uart_sync_regs where
  "c5_uart_sync_regs = \<lparr>ur_TOUT_CONF_SYNC_REG = c5_UART_TOUT_CONF_SYNC_REG, ur_REG_UPDATE_REG = c5_UART_REG_UPDATE_REG,
     ur_REG_UPDATE = c5_UART_REG_UPDATE, ur_RX_TOUT_THRHD_V = c5_UART_RX_TOUT_THRHD_V,
     ur_RX_TOUT_THRHD_S = c5_UART_RX_TOUT_THRHD_S, ur_RX_TOUT_EN_V = c5_UART_RX_TOUT_EN_V,
     ur_RX_TOUT_EN_S = c5_UART_RX_TOUT_EN_S\<rparr>"

definition c5_uart_target :: "'a world_scheme uart_target" where
  "c5_uart_target = \<lparr>tt_wait_idle = \<lambda>n w. Some (stub_target_uart_wait_idle n w),
     tt_init = \<lambda>n w. Some (stub_target_uart_init c5_rom_uart_attach c5_rom_uart_init n w),
     tt_rominit_set_baudrate = stub_target_uart_rominit_set_baudrate stub_target_uart_wait_idle,
     tt_tx_flush = \<lambda>n w. Some (stub_target_uart_tx_flush n w),
     tt_set_rx_timeout = uart_set_rx_timeout_sync c5_uart_sync_regs\<rparr>"

definition c6_rom_uart_attach :: "u32 \<Rightarrow> 'a world_scheme \<Rightarrow> 'a world_scheme" where
  "c6_rom_uart_attach rxBuffer w = rom_void (IoFn Esp_rom_uart_attach) [rxBuffer] [] w"

definition c6_rom_uart_init :: "u8 \<Rightarrow> u32 \<Rightarrow> 'a world_scheme \<Rightarrow> 'a world_scheme" where
  "c6_rom_uart_init uart_no clock w = rom_void (IoFn Esp_rom_uart_init) [ucast uart_no] [] w"

definition c6_uart_sync_regs :: uart_sync_regs where
  "c6_uart_sync_regs = \<lparr>ur_TOUT_CONF_SYNC_REG = c6_UART_TOUT_CONF_SYNC_REG, ur_REG_UPDATE_REG = c6_UART_REG_UPDATE_REG,
     ur_REG_UPDATE = c6_UART_REG_UPDATE, ur_RX_TOUT_THRHD_V = c6_UART_RX_TOUT_THRHD_V,
     ur_RX_TOUT_THRHD_S = c6_UART_RX_TOUT_THRHD_S, ur_RX_TOUT_EN_V = c6_UART_RX_TOUT_EN_V,
     ur_RX_TOUT_EN_S = c6_UART_RX_TOUT_EN_S\<rparr>"

definition c6_uart_target :: "'a world_scheme uart_target" where
  "c6_uart_target = \<lparr>tt_wait_idle = \<lambda>n w. Some (stub_target_uart_wait_idle n w),
     tt_init = \<lambda>n w. Some (stub_target_uart_init c6_rom_uart_attach c6_rom_uart_init n w),
     tt_rominit_set_baudrate = stub_target_uart_rominit_set_baudrate stub_target_uart_wait_idle,
     tt_tx_flush = \<lambda>n w. Some (stub_target_uart_tx_flush n w),
     tt_set_rx_timeout = uart_set_rx_timeout_sync c6_uart_sync_regs\<rparr>"

definition c61_rom_uart_attach :: "u32 \<Rightarrow> 'a world_scheme \<Rightarrow> 'a world_scheme" where
  "c61_rom_uart_attach rxBuffer w = rom_void (IoFn Esp_rom_uart_attach) [rxBuffer] [] w"

definition c61_rom_uart_init :: "u8 \<Rightarrow> u32 \<Rightarrow> 'a world_scheme \<Rightarrow> 'a world_scheme" where
  "c61_rom_uart_init uart_no clock w = rom_void (IoFn Esp_rom_uart_init) [ucast uart_no] [] w"

definition c61_uart_sync_regs :: uart_sync_regs where
  "c61_uart_sync_regs = \<lparr>ur_TOUT_CONF_SYNC_REG = c61_UART_TOUT_CONF_SYNC_REG, ur_REG_UPDATE_REG = c61_UART_REG_UPDATE_REG,
     ur_REG_UPDATE = c61_UART_REG_UPDATE, ur_RX_TOUT_THRHD_V = c61_UART_RX_TOUT_THRHD_V,
     ur_RX_TOUT_THRHD_S = c61_UART_RX_TOUT_THRHD_S, ur_RX_TOUT_EN_V = c61_UART_RX_TOUT_EN_V,
     ur_RX_TOUT_EN_S = c61_UART_RX_TOUT_EN_S\<rparr>"

definition c61_uart_target :: "'a world_scheme uart_target" where
  "c61_uart_target = \<lparr>tt_wait_idle = \<lambda>n w. Some (stub_target_uart_wait_idle n w),
     tt_init = \<lambda>n w. Some (stub_target_uart_init c61_rom_uart_attach c61_rom_uart_init n w),
     tt_rominit_set_baudrate = stub_target_uart_rominit_set_baudrate stub_target_uart_wait_idle,
     tt_tx_flush = \<lambda>n w. Some (stub_target_uart_tx_flush n w),
     tt_set_rx_timeout = uart_set_rx_timeout_sync c61_uart_sync_regs\<rparr>"

definition h2_rom_uart_attach :: "u32 \<Rightarrow> 'a world_scheme \<Rightarrow> 'a world_scheme" where
  "h2_rom_uart_attach rxBuffer w = rom_void (IoFn Esp_rom_uart_attach) [rxBuffer] [] w"

definition h2_rom_uart_init :: "u8 \<Rightarrow> u32 \<Rightarrow> 'a world_scheme \<Rightarrow> 'a world_scheme" where
  "h2_rom_uart_init uart_no clock w = rom_void (IoFn Esp_rom_uart_init) [ucast uart_no] [] w"

definition h2_uart_sync_regs :: uart_sync_regs where
  "h2_uart_sync_regs = \<lparr>ur_TOUT_CONF_SYNC_REG = h2_UART_TOUT_CONF_SYNC_REG, ur_REG_UPDATE_REG = h2_UART_REG_UPDATE_REG,
     ur_REG_UPDATE = h2_UART_REG_UPDATE, ur_RX_TOUT_THRHD_V = h2_UART_RX_TOUT_THRHD_V,
     ur_RX_TOUT_THRHD_S = h2_UART_RX_TOUT_THRHD_S, ur_RX_TOUT_EN_V = h2_UART_RX_TOUT_EN_V,
     ur_RX_TOUT_EN_S = h2_UART_RX_TOUT_EN_S\<rparr>"

definition h2_uart_target :: "'a world_scheme uart_target" where
  "h2_uart_target = \<lparr>tt_wait_idle = \<lambda>n w. Some (stub_target_uart_wait_idle n w),
     tt_init = \<lambda>n w. Some (stub_target_uart_init h2_rom_uart_attach h2_rom_uart_init n w),
     tt_rominit_set_baudrate = stub_target_uart_rominit_set_baudrate stub_target_uart_wait_idle,
     tt_tx_flush = \<lambda>n w. Some (stub_target_uart_tx_flush n w),
     tt_set_rx_timeout = uart_set_rx_timeout_sync h2_uart_sync_regs\<rparr>"

definition h21_rom_uart_attach :: "u32 \<Rightarrow> 'a world_scheme \<Rightarrow> 'a world_scheme" where
  "h21_rom_uart_attach rxBuffer w = rom_void (IoFn Esp_rom_uart_attach) [rxBuffer] [] w"

definition h21_rom_uart_init :: "u8 \<Rightarrow> u32 \<Rightarrow> 'a world_scheme \<Rightarrow> 'a world_scheme" where
  "h21_rom_uart_init uart_no clock w = rom_void (IoFn Esp_rom_uart_init) [ucast uart_no] [] w"

definition h21_uart_sync_regs :: uart_sync_regs where
  "h21_uart_sync_regs = \<lparr>ur_TOUT_CONF_SYNC_REG = h21_UART_TOUT_CONF_SYNC_REG, ur_REG_UPDATE_REG = h21_UART_REG_UPDATE_REG,
     ur_REG_UPDATE = h21_UART_REG_UPDATE, ur_RX_TOUT_THRHD_V = h21_UART_RX_TOUT_THRHD_V,
     ur_RX_TOUT_THRHD_S = h21_UART_RX_TOUT_THRHD_S, ur_RX_TOUT_EN_V = h21_UART_RX_TOUT_EN_V,
     ur_RX_TOUT_EN_S = h21_UART_RX_TOUT_EN_S\<rparr>"

definition h21_uart_target :: "'a world_scheme uart_target" where
  "h21_uart_target = \<lparr>tt_wait_idle = \<lambda>n w. Some (stub_target_uart_wait_idle n w),
     tt_init = \<lambda>n w. Some (stub_target_uart_init h21_rom_uart_attach h21_rom_uart_init n w),
     tt_rominit_set_baudrate = stub_target_uart_rominit_set_baudrate stub_target_uart_wait_idle,
     tt_tx_flush = \<lambda>n w. Some (stub_target_uart_tx_flush n w),
     tt_set_rx_timeout = uart_set_rx_timeout_sync h21_uart_sync_regs\<rparr>"

definition h4_rom_uart_attach :: "u32 \<Rightarrow> 'a world_scheme \<Rightarrow> 'a world_scheme" where
  "h4_rom_uart_attach rxBuffer w = rom_void (IoFn Esp_rom_uart_attach) [rxBuffer] [] w"

definition h4_rom_uart_init :: "u8 \<Rightarrow> u32 \<Rightarrow> 'a world_scheme \<Rightarrow> 'a world_scheme" where
  "h4_rom_uart_init uart_no clock w = rom_void (IoFn Esp_rom_uart_init) [ucast uart_no] [] w"

definition h4_uart_sync_regs :: uart_sync_regs where
  "h4_uart_sync_regs = \<lparr>ur_TOUT_CONF_SYNC_REG = h4_UART_TOUT_CONF_SYNC_REG, ur_REG_UPDATE_REG = h4_UART_REG_UPDATE_REG,
     ur_REG_UPDATE = h4_UART_REG_UPDATE, ur_RX_TOUT_THRHD_V = h4_UART_RX_TOUT_THRHD_V,
     ur_RX_TOUT_THRHD_S = h4_UART_RX_TOUT_THRHD_S, ur_RX_TOUT_EN_V = h4_UART_RX_TOUT_EN_V,
     ur_RX_TOUT_EN_S = h4_UART_RX_TOUT_EN_S\<rparr>"

definition h4_uart_target :: "'a world_scheme uart_target" where
  "h4_uart_target = \<lparr>tt_wait_idle = \<lambda>n w. Some (stub_target_uart_wait_idle n w),
     tt_init = \<lambda>n w. Some (stub_target_uart_init h4_rom_uart_attach h4_rom_uart_init n w),
     tt_rominit_set_baudrate = stub_target_uart_rominit_set_baudrate stub_target_uart_wait_idle,
     tt_tx_flush = \<lambda>n w. Some (stub_target_uart_tx_flush n w),
     tt_set_rx_timeout = uart_set_rx_timeout_sync h4_uart_sync_regs\<rparr>"

definition p4_rom_uart_attach :: "u32 \<Rightarrow> 'a world_scheme \<Rightarrow> 'a world_scheme" where
  "p4_rom_uart_attach rxBuffer w = rom_void (IoFn Esp_rom_uart_attach) [rxBuffer] [] w"

definition p4_rom_uart_init :: "u8 \<Rightarrow> u32 \<Rightarrow> 'a world_scheme \<Rightarrow> 'a world_scheme" where
  "p4_rom_uart_init uart_no clock w = rom_void (IoFn Esp_rom_uart_init) [ucast uart_no] [] w"

definition p4_uart_sync_regs :: uart_sync_regs where
  "p4_uart_sync_regs = \<lparr>ur_TOUT_CONF_SYNC_REG = p4_UART_TOUT_CONF_SYNC_REG, ur_REG_UPDATE_REG = p4_UART_REG_UPDATE_REG,
     ur_REG_UPDATE = p4_UART_REG_UPDATE, ur_RX_TOUT_THRHD_V = p4_UART_RX_TOUT_THRHD_V,
     ur_RX_TOUT_THRHD_S = p4_UART_RX_TOUT_THRHD_S, ur_RX_TOUT_EN_V = p4_UART_RX_TOUT_EN_V,
     ur_RX_TOUT_EN_S = p4_UART_RX_TOUT_EN_S\<rparr>"

definition p4_uart_target :: "'a world_scheme uart_target" where
  "p4_uart_target = \<lparr>tt_wait_idle = \<lambda>n w. Some (stub_target_uart_wait_idle n w),
     tt_init = \<lambda>n w. Some (stub_target_uart_init p4_rom_uart_attach p4_rom_uart_init n w),
     tt_rominit_set_baudrate = stub_target_uart_rominit_set_baudrate stub_target_uart_wait_idle,
     tt_tx_flush = \<lambda>n w. Some (stub_target_uart_tx_flush n w),
     tt_set_rx_timeout = uart_set_rx_timeout_sync p4_uart_sync_regs\<rparr>"

definition s31_rom_uart_attach :: "u32 \<Rightarrow> 'a world_scheme \<Rightarrow> 'a world_scheme" where
  "s31_rom_uart_attach rxBuffer w = rom_void (IoFn Esp_rom_uart_attach) [rxBuffer] [] w"

definition s31_rom_uart_init :: "u8 \<Rightarrow> u32 \<Rightarrow> 'a world_scheme \<Rightarrow> 'a world_scheme" where
  "s31_rom_uart_init uart_no clock w = rom_void (IoFn Esp_rom_uart_init) [ucast uart_no] [] w"

definition s31_uart_sync_regs :: uart_sync_regs where
  "s31_uart_sync_regs = \<lparr>ur_TOUT_CONF_SYNC_REG = s31_UART_TOUT_CONF_SYNC_REG, ur_REG_UPDATE_REG = s31_UART_REG_UPDATE_REG,
     ur_REG_UPDATE = s31_UART_REG_UPDATE, ur_RX_TOUT_THRHD_V = s31_UART_RX_TOUT_THRHD_V,
     ur_RX_TOUT_THRHD_S = s31_UART_RX_TOUT_THRHD_S, ur_RX_TOUT_EN_V = s31_UART_RX_TOUT_EN_V,
     ur_RX_TOUT_EN_S = s31_UART_RX_TOUT_EN_S\<rparr>"

definition s31_uart_target :: "'a world_scheme uart_target" where
  "s31_uart_target = \<lparr>tt_wait_idle = \<lambda>n w. Some (stub_target_uart_wait_idle n w),
     tt_init = \<lambda>n w. Some (stub_target_uart_init s31_rom_uart_attach s31_rom_uart_init n w),
     tt_rominit_set_baudrate = stub_target_uart_rominit_set_baudrate stub_target_uart_wait_idle,
     tt_tx_flush = \<lambda>n w. Some (stub_target_uart_tx_flush n w),
     tt_set_rx_timeout = uart_set_rx_timeout_sync s31_uart_sync_regs\<rparr>"

section \<open>USB serial JTAG\<close>

definition h4_ETS_USB_SERIAL_JTAG_INTR_SOURCE :: u32 where [regs]: "h4_ETS_USB_SERIAL_JTAG_INTR_SOURCE = 60"
definition s31_ETS_USB_DEVICE_INTR_SOURCE :: u32 where [regs]: "s31_ETS_USB_DEVICE_INTR_SOURCE = 2"

definition c3_usb_serial_jtag_rominit_intr_attach ::
  "u32 \<Rightarrow> u32 \<Rightarrow> u32 \<Rightarrow> 'a world_scheme \<Rightarrow> 'a world_scheme" where
  "c3_usb_serial_jtag_rominit_intr_attach intr_num handler flags w =
     (let w = WRITE_PERI_REG c3_INTERRUPT_CORE0_USB_INTR_MAP_REG intr_num w;
          w = rom_void (SdioFn Esp_rom_esprv_intc_int_set_priority) [intr_num, 1] [] w;
          w = WRITE_PERI_REG c3_USB_SERIAL_JTAG_INT_CLR_REG 0xFFFFFFFF w;
          w = rom_void (IoFn Esp_rom_isr_attach) [intr_num, handler, 0] [] w;
          w = (if flags \<noteq> 0 then SET_PERI_REG_MASK c3_USB_SERIAL_JTAG_INT_ENA_REG flags w else w)
      in rom_void (IoFn Esp_rom_isr_unmask) [push_bit (unat intr_num) 1] [] w)"

definition c5_usb_serial_jtag_rominit_intr_attach ::
  "u32 \<Rightarrow> u32 \<Rightarrow> u32 \<Rightarrow> 'a world_scheme \<Rightarrow> 'a world_scheme" where
  "c5_usb_serial_jtag_rominit_intr_attach intr_num handler flags w =
     (let w = WRITE_PERI_REG c5_INTERRUPT_CORE0_USB_SERIAL_JTAG_INTR_MAP_REG (intr_num + c5_CLIC_EXT_INTR_NUM_OFFSET) w;
          w = rom_void (SdioFn Esp_rom_esprv_intc_int_set_priority) [intr_num, 1] [] w;
          w = WRITE_PERI_REG c5_USB_SERIAL_JTAG_INT_CLR_REG 0xFFFFFFFF w;
          w = rom_void (IoFn Esp_rom_isr_attach) [intr_num, handler, 0] [] w;
          w = (if flags \<noteq> 0 then SET_PERI_REG_MASK c5_USB_SERIAL_JTAG_INT_ENA_REG flags w else w)
      in rom_void (IoFn Esp_rom_isr_unmask) [push_bit (unat intr_num) 1] [] w)"

definition c6_usb_serial_jtag_rominit_intr_attach ::
  "u32 \<Rightarrow> u32 \<Rightarrow> u32 \<Rightarrow> 'a world_scheme \<Rightarrow> 'a world_scheme" where
  "c6_usb_serial_jtag_rominit_intr_attach intr_num handler flags w =
     (let w = WRITE_PERI_REG c6_INTMTX_CORE0_USB_INTR_MAP_REG intr_num w;
          w = rom_void (SdioFn Esp_rom_esprv_intc_int_set_priority) [intr_num, 1] [] w;
          w = WRITE_PERI_REG c6_USB_SERIAL_JTAG_INT_CLR_REG 0xFFFFFFFF w;
          w = rom_void (IoFn Esp_rom_isr_attach) [intr_num, handler, 0] [] w;
          w = (if flags \<noteq> 0 then SET_PERI_REG_MASK c6_USB_SERIAL_JTAG_INT_ENA_REG flags w else w)
      in rom_void (IoFn Esp_rom_isr_unmask) [push_bit (unat intr_num) 1] [] w)"

definition c61_usb_serial_jtag_rominit_intr_attach ::
  "u32 \<Rightarrow> u32 \<Rightarrow> u32 \<Rightarrow> 'a world_scheme \<Rightarrow> 'a world_scheme" where
  "c61_usb_serial_jtag_rominit_intr_attach intr_num handler flags w =
     (let w = WRITE_PERI_REG c61_INTERRUPT_CORE0_USB_INTR_MAP_REG (intr_num + c61_CLIC_EXT_INTR_NUM_OFFSET) w;
          w = rom_void (SdioFn Esp_rom_esprv_intc_int_set_priority) [intr_num, 1] [] w;
          w = WRITE_PERI_REG c61_USB_SERIAL_JTAG_INT_CLR_REG 0xFFFFFFFF w;
          w = rom_void (IoFn Esp_rom_isr_attach) [intr_num, handler, 0] [] w;
          w = (if flags \<noteq> 0 then SET_PERI_REG_MASK c61_USB_SERIAL_JTAG_INT_ENA_REG flags w else w)
      in rom_void (IoFn Esp_rom_isr_unmask) [push_bit (unat intr_num) 1] [] w)"

definition h2_usb_serial_jtag_rominit_intr_attach ::
  "u32 \<Rightarrow> u32 \<Rightarrow> u32 \<Rightarrow> 'a world_scheme \<Rightarrow> 'a world_scheme" where
  "h2_usb_serial_jtag_rominit_intr_attach intr_num handler flags w =
     (let w = WRITE_PERI_REG h2_INTMTX_CORE0_USB_INTR_MAP_REG intr_num w;
          w = rom_void (SdioFn Esp_rom_esprv_intc_int_set_priority) [intr_num, 1] [] w;
          w = WRITE_PERI_REG h2_USB_SERIAL_JTAG_INT_CLR_REG 0xFFFFFFFF w;
          w = rom_void (IoFn Esp_rom_isr_attach) [intr_num, handler, 0] [] w;
          w = (if flags \<noteq> 0 then SET_PERI_REG_MASK h2_USB_SERIAL_JTAG_INT_ENA_REG flags w else w)
      in rom_void (IoFn Esp_rom_isr_unmask) [push_bit (unat intr_num) 1] [] w)"

definition h21_usb_serial_jtag_rominit_intr_attach ::
  "u32 \<Rightarrow> u32 \<Rightarrow> u32 \<Rightarrow> 'a world_scheme \<Rightarrow> 'a world_scheme" where
  "h21_usb_serial_jtag_rominit_intr_attach intr_num handler flags w =
     (let w = WRITE_PERI_REG h21_INTMTX_CORE0_USB_INTR_MAP_REG intr_num w;
          w = rom_void (SdioFn Esp_rom_esprv_intc_int_set_priority) [intr_num, 1] [] w;
          w = WRITE_PERI_REG h21_USB_SERIAL_JTAG_INT_CLR_REG 0xFFFFFFFF w;
          w = rom_void (IoFn Esp_rom_isr_attach) [intr_num, handler, 0] [] w;
          w = (if flags \<noteq> 0 then SET_PERI_REG_MASK h21_USB_SERIAL_JTAG_INT_ENA_REG flags w else w)
      in rom_void (IoFn Esp_rom_isr_unmask) [push_bit (unat intr_num) 1] [] w)"

definition h4_usb_serial_jtag_rominit_intr_attach ::
  "u32 \<Rightarrow> u32 \<Rightarrow> u32 \<Rightarrow> 'a world_scheme \<Rightarrow> 'a world_scheme" where
  "h4_usb_serial_jtag_rominit_intr_attach intr_num handler flags w =
     (let w = rom_void (IoFn Esp_rom_route_intr_matrix) [0, h4_ETS_USB_SERIAL_JTAG_INTR_SOURCE, intr_num] [] w;
          w = rom_void (SdioFn Esp_rom_esprv_intc_int_set_priority) [intr_num, 1] [] w;
          w = WRITE_PERI_REG h4_USB_SERIAL_JTAG_INT_CLR_REG 0xFFFFFFFF w;
          w = rom_void (IoFn Esp_rom_isr_attach) [intr_num, handler, 0] [] w;
          w = (if flags \<noteq> 0 then SET_PERI_REG_MASK h4_USB_SERIAL_JTAG_INT_ENA_REG flags w else w)
      in rom_void (IoFn Esp_rom_isr_unmask) [push_bit (unat intr_num) 1] [] w)"

definition p4_usb_serial_jtag_rominit_intr_attach ::
  "u32 \<Rightarrow> u32 \<Rightarrow> u32 \<Rightarrow> 'a world_scheme \<Rightarrow> 'a world_scheme" where
  "p4_usb_serial_jtag_rominit_intr_attach intr_num handler flags w =
     (let w = WRITE_PERI_REG p4_INTERRUPT_CORE0_USB_DEVICE_INT_MAP_REG (intr_num + p4_CLIC_EXT_INTR_NUM_OFFSET) w;
          w = rom_void (SdioFn Esp_rom_esprv_intc_int_set_priority) [intr_num, 1] [] w;
          w = WRITE_PERI_REG p4_USB_SERIAL_JTAG_INT_CLR_REG 0xFFFFFFFF w;
          w = rom_void (IoFn Esp_rom_isr_attach) [intr_num, handler, 0] [] w;
          w = (if flags \<noteq> 0 then SET_PERI_REG_MASK p4_USB_SERIAL_JTAG_INT_ENA_REG flags w else w)
      in rom_void (IoFn Esp_rom_isr_unmask) [push_bit (unat intr_num) 1] [] w)"

definition s31_usb_serial_jtag_rominit_intr_attach ::
  "u32 \<Rightarrow> u32 \<Rightarrow> u32 \<Rightarrow> 'a world_scheme \<Rightarrow> 'a world_scheme" where
  "s31_usb_serial_jtag_rominit_intr_attach intr_num handler flags w =
     (let w = rom_void (IoFn Esp_rom_route_intr_matrix) [0, s31_ETS_USB_DEVICE_INTR_SOURCE, intr_num] [] w;
          w = rom_void (SdioFn Esp_rom_esprv_intc_int_set_priority) [intr_num, 1] [] w;
          w = WRITE_PERI_REG s31_USB_SERIAL_JTAG_INT_CLR_REG 0xFFFFFFFF w;
          w = rom_void (IoFn Esp_rom_isr_attach) [intr_num, handler, 0] [] w;
          w = (if flags \<noteq> 0 then SET_PERI_REG_MASK s31_USB_SERIAL_JTAG_INT_ENA_REG flags w else w)
      in rom_void (IoFn Esp_rom_isr_unmask) [push_bit (unat intr_num) 1] [] w)"

section \<open>The baud rate\<close>

text \<open>The divisors a sequence of events programs, and the operations that program none.\<close>

definition divisors :: "ev list \<Rightarrow> (u32 \<times> u32) list" where
  "divisors es = concat (map (\<lambda>e. case e of Call (IoFn Esp_rom_uart_div_modify) [n, d] _ _ _ \<Rightarrow> [(n, d)] | _ \<Rightarrow> []) es)"

lemma divisors_simps [simp]:
  "divisors [] = []" "divisors (es @ fs) = divisors es @ divisors fs"
  "divisors (Rd c v # es) = divisors es" "divisors (Wr c v # es) = divisors es"
  "divisors (Call (IoFn Esp_rom_uart_div_modify) [n, d] ds r out # es) = (n, d) # divisors es"
  "f \<noteq> IoFn Esp_rom_uart_div_modify \<Longrightarrow> divisors (Call f args ds r out # es) = divisors es"
  by (auto simp: divisors_def split: rom_fn.splits io_fn.splits)

lemma divisors_prims [simp]:
  "divisors (trace (REG_WRITE r v w)) = divisors (trace w)"
  "divisors (trace (snd (REG_READ r w))) = divisors (trace w)"
  "divisors (trace (snd (REG_GET_FIELD r fV fS w))) = divisors (trace w)"
  "divisors (trace (REG_SET_BIT r b w)) = divisors (trace w)"
  "divisors (trace (REG_CLR_BIT r b w)) = divisors (trace w)"
  "divisors (trace (REG_SET_FIELD r fV fS x w)) = divisors (trace w)"
  "f \<noteq> IoFn Esp_rom_uart_div_modify \<Longrightarrow> divisors (trace (rom_void f args ds w)) = divisors (trace w)"
  "f \<noteq> IoFn Esp_rom_uart_div_modify \<Longrightarrow> divisors (trace (snd (rom_num f args ds w))) = divisors (trace w)"
  "divisors (trace (rom_void (IoFn Esp_rom_uart_div_modify) [n, d] ds w)) = divisors (trace w) @ [(n, d)]"
  "divisors (trace (stub_lib_delay_us us w)) = divisors (trace w)"
  by (simp_all add: prim_eq stub_lib_delay_us_eq)

text \<open>The clock the UART of a chip is divided from, the ESP8266's apart, which only scales its divisor.\<close>

definition xtal_clock :: "'a world_scheme \<Rightarrow> (u32 \<times> 'a world_scheme) option" where
  "xtal_clock w = Some (rom_num (SysFn Esp_rom_get_xtal_freq) [] [] w)"

definition uart_clocks ::
  "('a c2_clock_world_scheme uart_target \<times> ('a c2_clock_world_scheme \<Rightarrow> (u32 \<times> 'a c2_clock_world_scheme) option)) list" where
  "uart_clocks =
     [(esp32_uart_target, Some \<circ> esp32_get_apb_freq), (s2_uart_target, Some \<circ> s2_get_apb_freq),
      (s3_uart_target, xtal_clock), (c2_uart_target, c2_get_apb_freq), (c3_uart_target, xtal_clock),
      (c5_uart_target, xtal_clock), (c6_uart_target, xtal_clock), (c61_uart_target, xtal_clock),
      (h2_uart_target, xtal_clock), (h21_uart_target, xtal_clock), (h4_uart_target, xtal_clock),
      (p4_uart_target, xtal_clock), (s31_uart_target, xtal_clock)]"

lemma uart_set_baudrate_eq:
  assumes "(T, clock) \<in> set uart_clocks"
  shows "stub_lib_uart_rominit_set_baudrate T n b w =
     (case clock (stub_lib_delay_us 5000 w) of None \<Rightarrow> None
      | Some (f, w) \<Rightarrow> if b = 0 then None
          else Some (stub_lib_delay_us 5000
                 (rom_void (IoFn Esp_rom_uart_div_modify) [ucast n, push_bit 4 f div b] []
                    (stub_target_uart_wait_idle n w))))"
  using assms unfolding uart_clocks_def stub_lib_uart_rominit_set_baudrate_def
  by (simp, elim disjE conjE; hypsubst)
    (simp_all add: esp32_uart_target_def s2_uart_target_def s3_uart_target_def c2_uart_target_def c3_uart_target_def
      c5_uart_target_def c6_uart_target_def c61_uart_target_def h2_uart_target_def h21_uart_target_def
      h4_uart_target_def p4_uart_target_def s31_uart_target_def esp32_uart_rominit_set_baudrate_def
      s2_uart_rominit_set_baudrate_def s3_uart_rominit_set_baudrate_def c2_uart_rominit_set_baudrate_def
      c3_uart_rominit_set_baudrate_def stub_target_uart_rominit_set_baudrate_def xtal_clock_def Let_def
      split: option.split prod.split)

text \<open>Finding out the clock programs no divisor.\<close>

lemma emits_divisors:
  assumes "emits P w u" "\<And>e. P e \<Longrightarrow> divisors [e] = []"
  shows "divisors (trace u) = divisors (trace w)"
proof -
  obtain es where es: "list_all P es" "u = after w es" using assms(1) by (rule emitsE)
  have "divisors es = []" using es(1)
  proof (induction es)
    case (Cons e es)
    then show ?case using assms(2) [of e] divisors_simps(2) [of "[e]" es] by simp
  qed simp
  then show ?thesis using es(2) by simp
qed

lemma c2_measured_divisors:
  assumes "c2_detected_crystal_freq w = Some (f, w')"
  shows "divisors (trace w') = divisors (trace w)"
proof -
  have s: "divisors (trace x) = divisors (trace u)" if "c2_start_measuring u = Some x"
    for u x :: "'a world_scheme"
  proof (rule emits_divisors [OF c2_start_measuring_aside [OF that]])
    fix e assume "c2_aside e"
    then show "divisors [e] = []"
      by (cases e) (auto simp: c2_aside_def keeps_def harmless_def divisors_def split: rom_fn.splits)
  qed
  have m: "divisors (trace x) = divisors (trace u)" if meas: "c2_wait_measured u = Some (v, x)"
    for u x :: "'a world_scheme" and v
  proof -
    obtain y where y: "emits (\<lambda>e. \<exists>r v. e = Rd (Mmio r) v \<and>
        r \<in> {c2_TIMG_RTCCALICFG_REG 0, c2_TIMG_RTCCALICFG2_REG 0}) u y"
      "v = 0 \<and> x = y \<or> (\<exists>k. v = drop_bit c2_TIMG_RTC_CALI_VALUE_S k AND c2_TIMG_RTC_CALI_VALUE_V \<and>
         x = after y [Rd (Mmio (c2_TIMG_RTCCALICFG1_REG 0)) k])"
      by (rule c2_wait_measured_reads [OF meas]) blast
    have "divisors (trace y) = divisors (trace u)" by (rule emits_divisors [OF y(1)]) auto
    then show ?thesis using y(2) by auto
  qed
  show ?thesis
    using assms
    by (auto simp: c2_detected_crystal_freq_def bind_eq_Some_conv Let_def peri_eq split_beta c2_restore_clk_conf_def
        c2_enable_rc_fast_def dest!: s m)
qed

lemma clock_divisors:
  assumes "(T, clock) \<in> set uart_clocks" "clock w = Some (f, w')"
  shows "divisors (trace w') = divisors (trace w)"
proof -
  have "clock = Some \<circ> esp32_get_apb_freq \<or> clock = Some \<circ> s2_get_apb_freq \<or> clock = c2_get_apb_freq \<or> clock = xtal_clock"
    using assms(1) by (auto simp: uart_clocks_def)
  then show ?thesis
  proof (elim disjE)
    assume "clock = Some \<circ> esp32_get_apb_freq"
    then have w': "w' = snd (esp32_get_apb_freq w)" using assms(2) by auto
    show ?thesis unfolding w'
      by (simp add: esp32_get_apb_freq_def ets_get_detected_xtal_freq_patch_def Let_def split_beta)
  next
    assume "clock = c2_get_apb_freq"
    then show ?thesis
      using assms(2) by (auto simp: c2_get_apb_freq_def bind_eq_Some_conv dest: c2_measured_divisors split: if_splits)
  next
    assume "clock = xtal_clock"
    then have "w' = snd (rom_num (SysFn Esp_rom_get_xtal_freq) [] [] w)" using assms(2) by (auto simp: xtal_clock_def)
    then show ?thesis by simp
  next
    assume "clock = Some \<circ> s2_get_apb_freq"
    then have "w' = snd (s2_get_apb_freq w)" using assms(2) by auto
    then show ?thesis by (simp add: s2_get_apb_freq_def)
  qed
qed

text \<open>The divisor is a number of sixteenths; it is exact unless the clock overflows its shift.\<close>

lemma sixteenths:
  fixes f b :: u32
  assumes "unat f < 2 ^ 28" "b \<noteq> 0"
  shows "unat (push_bit 4 f div b) * unat b \<le> 16 * unat f"
    "16 * unat f < (unat (push_bit 4 f div b) + 1) * unat b"
proof -
  have "unat (push_bit 4 f) = 16 * unat f" using assms(1) by (simp add: push_bit_eq_mult unat_word_ariths)
  then have d: "unat (push_bit 4 f div b) = 16 * unat f div unat b" by (simp add: unat_div)
  show "unat (push_bit 4 f div b) * unat b \<le> 16 * unat f" unfolding d by simp
  have "0 < unat b" using assms(2) by (simp add: unat_gt_0)
  then show "16 * unat f < (unat (push_bit 4 f div b) + 1) * unat b"
    unfolding d by (simp add: dividend_less_div_times)
qed

text \<open>
  Setting a baud rate other than 0 programs, once, the largest divisor in sixteenths that
  does not exceed the ratio of clock and baud rate.
\<close>

text \<open>
  C21: On every chip but the ESP8266, setting a baud rate other than 0 returns and programs
  the divider of the port exactly once, with the largest divisor in sixteenths that does not
  exceed the ratio of the clock the driver found to the baud rate, without overflow for any
  clock below 268 MHz.
\<close>

lemma uart_baudrate_on_every_chip:
  assumes "(T, clock) \<in> set uart_clocks" "clock (stub_lib_delay_us 5000 w) = Some (f, w1)"
    and "unat f < 2 ^ 28" "baudrate \<noteq> 0"
  shows "\<exists>d w'. stub_lib_uart_rominit_set_baudrate T n baudrate w = Some w' \<and>
    divisors (trace w') = divisors (trace w) @ [(ucast n, d)] \<and>
    unat d * unat baudrate \<le> 16 * unat f \<and> 16 * unat f < (unat d + 1) * unat baudrate"
  using assms(4) clock_divisors [OF assms(1,2)] sixteenths [OF assms(3,4)]
  by (simp add: uart_set_baudrate_eq [OF assms(1)] assms(2) stub_target_uart_wait_idle_def)

lemma uart_baudrate_zero:
  assumes "(T, clock) \<in> set uart_clocks"
  shows "stub_lib_uart_rominit_set_baudrate T n 0 w = None"
  by (simp add: uart_set_baudrate_eq [OF assms] split: option.split)

text \<open>
  The ESP8266 polls until the level of its transmit line reads 0, though an idle line is at 1:
  on a port whose line is idle neither waiting for it nor setting its baud rate ever ends.
\<close>

lemma busy_wait_stuck:
  assumes "\<And>es. C (rd_dev w es (Mmio r))"
  shows "busy_wait r C w = None"
proof (rule ccontr)
  assume "busy_wait r C w \<noteq> None"
  then obtain w' where w': "busy_wait r C w = Some w'" by blast
  have "\<not> (\<forall>es. C (rd_dev w es (Mmio r)))"
  proof (rule busy_wait.raw_induct [where P = "\<lambda>r C w w'. \<not> (\<forall>es. C (rd_dev w es (Mmio r)))", OF _ w'])
    fix f :: "u32 \<Rightarrow> (u32 \<Rightarrow> bool) \<Rightarrow> 'a world_scheme \<Rightarrow> 'a world_scheme option" and r C w w'
    assume IH: "\<And>r C w w'. f r C w = Some w' \<Longrightarrow> \<not> (\<forall>es. C (rd_dev w es (Mmio r)))"
      and eq: "(let (v, w) = REG_READ r w in if C v then f r C w else Some w) = Some w'"
    show "\<not> (\<forall>es. C (rd_dev w es (Mmio r)))"
      using eq IH [of r C "after w [Rd (Mmio r) (peek (Mmio r) w)]" w']
      by (auto simp: REG_READ_eq peek_def split: if_splits)
  qed
  then show False using assms by blast
qed

lemma esp8266_idle_line_hangs:
  assumes "\<And>es. rd_dev w es (Mmio (esp8266_UART_STATUS_REG (ucast n))) AND esp8266_UART_TXD \<noteq> 0"
  shows "stub_lib_uart_wait_idle esp8266_uart_target n w = None"
    "stub_lib_uart_rominit_set_baudrate esp8266_uart_target n baudrate w = None"
proof -
  have hang: "esp8266_uart_wait_idle n (after w es) = None" for es
    unfolding esp8266_uart_wait_idle_def by (rule busy_wait_stuck) (use assms in simp)
  show "stub_lib_uart_wait_idle esp8266_uart_target n w = None"
    using hang [of "[]"] by (simp add: stub_lib_uart_wait_idle_def esp8266_uart_target_def)
  show "stub_lib_uart_rominit_set_baudrate esp8266_uart_target n baudrate w = None"
    using hang
    by (simp add: stub_lib_uart_rominit_set_baudrate_def esp8266_uart_target_def
        esp8266_uart_rominit_set_baudrate_def prim_eq stub_lib_delay_us_eq Let_def)
qed

section \<open>Example\<close>

text \<open>A chip with a crystal of 40 MHz.\<close>

definition uart_chip :: c2_clock_world where
  "uart_chip = \<lparr>rd_dev = \<lambda>_ _. 0, rom_dev = \<lambda>_ f _ _. (if f = SysFn Esp_rom_get_xtal_freq then 40000000 else 0, []),
     mem_dev = \<lambda>_ _ _. [], sym_addr = \<lambda>_. 0, trace = [], s_cpu_freq = 0, s_crystal_freq = 0\<rparr>"

lemma uart_baudrate_on_every_chip_witness:
  "\<exists>d w'. stub_lib_uart_rominit_set_baudrate c6_uart_target 0 115200 uart_chip = Some w' \<and>
     divisors (trace w') = [(0, d)] \<and> unat d = 5555"
proof -
  obtain w1 where "xtal_clock (stub_lib_delay_us 5000 uart_chip) = Some (40000000, w1)"
    by (simp add: xtal_clock_def rom_num_eq rom_ret_def stub_lib_delay_us_eq) (simp add: uart_chip_def)
  moreover have "(c6_uart_target, xtal_clock) \<in> set uart_clocks" by (simp add: uart_clocks_def)
  ultimately obtain d w' where d: "stub_lib_uart_rominit_set_baudrate c6_uart_target 0 115200 uart_chip = Some w'"
    "divisors (trace w') = divisors (trace uart_chip) @ [(0, d)]"
    "unat d * 115200 \<le> 640000000" "640000000 < (unat d + 1) * 115200"
    using uart_baudrate_on_every_chip [of c6_uart_target xtal_clock uart_chip "40000000" w1 "115200" 0] by auto
  moreover from d(3,4) have "unat d < 5556" "5554 < unat d" by simp_all
  then have "unat d = 5555" by simp
  ultimately show ?thesis by (auto simp: uart_chip_def)
qed

end
