(* ===== verification/Slave_Spi.thy ===== *)
theory Slave_Spi
  imports Serial Plain S3_Regs
begin

text \<open>
  The SPI slave transport: the API of \<open>src/slave_spi.c\<close> over an arbitrary target, the weak
  target of \<open>src/target/common/src/slave_spi.c\<close>, and the ESP32-S3's
  \<open>src/target/esp32s3/src/slave_spi.c\<close>, which receives frames through a chain of DMA
  descriptors and announces its buffers to the host in the shared registers W1 and W2. The
  locale \<open>slave_spi_driver\<close> states what the drivers of all chips have in common and proves the
  invariants of their sessions; \<open>Chip_Slave_Spi\<close> has the other chips.
\<close>

section \<open>The target's interface and the API\<close>

text \<open>\<open>out\_len\<close> is None when the caller passed NULL; buffers are given by their address.\<close>

record 'w slave_spi_target =
  t_spi_is_active :: "'w \<Rightarrow> bool \<times> 'w"
  t_spi_init :: "'w \<Rightarrow> 'w"
  t_spi_take_rx_frame :: "bool \<Rightarrow> 'w \<Rightarrow> (bool \<times> u32 option) \<times> 'w"
  t_spi_rearm :: "u32 \<Rightarrow> u32 \<Rightarrow> 'w \<Rightarrow> rc \<times> 'w"
  t_spi_tx_frame :: "u32 \<Rightarrow> u32 \<Rightarrow> 'w \<Rightarrow> rc \<times> 'w"

definition stub_target_slave_spi_is_active :: "'w \<Rightarrow> bool \<times> 'w" where
  "stub_target_slave_spi_is_active w = (False, w)"

definition stub_target_slave_spi_init :: "'w \<Rightarrow> 'w" where
  "stub_target_slave_spi_init w = w"

definition stub_target_slave_spi_take_rx_frame :: "bool \<Rightarrow> 'w \<Rightarrow> (bool \<times> u32 option) \<times> 'w" where
  "stub_target_slave_spi_take_rx_frame out_len w = ((False, None), w)"

definition stub_target_slave_spi_rearm :: "u32 \<Rightarrow> u32 \<Rightarrow> 'w \<Rightarrow> rc \<times> 'w" where
  "stub_target_slave_spi_rearm buf max_size w = (STUB_LIB_ERR_NOT_SUPPORTED, w)"

definition stub_target_slave_spi_tx_frame :: "u32 \<Rightarrow> u32 \<Rightarrow> 'w \<Rightarrow> rc \<times> 'w" where
  "stub_target_slave_spi_tx_frame data len w = (STUB_LIB_ERR_NOT_SUPPORTED, w)"

definition SLAVE_SPI_DMA_ALIGN :: u32 where [regs]: "SLAVE_SPI_DMA_ALIGN = 4"

definition stub_lib_slave_spi_is_active :: "'w slave_spi_target \<Rightarrow> 'w \<Rightarrow> bool \<times> 'w" where
  "stub_lib_slave_spi_is_active T w = t_spi_is_active T w"

definition stub_lib_slave_spi_init :: "'w slave_spi_target \<Rightarrow> 'w \<Rightarrow> 'w" where
  "stub_lib_slave_spi_init T w = t_spi_init T w"

definition stub_lib_slave_spi_take_rx_frame ::
  "'w slave_spi_target \<Rightarrow> bool \<Rightarrow> 'w \<Rightarrow> (bool \<times> u32 option) \<times> 'w" where
  "stub_lib_slave_spi_take_rx_frame T out_len w = t_spi_take_rx_frame T out_len w"

definition stub_lib_slave_spi_rearm :: "'w slave_spi_target \<Rightarrow> u32 \<Rightarrow> u32 \<Rightarrow> 'w \<Rightarrow> rc \<times> 'w" where
  "stub_lib_slave_spi_rearm T buf max_size w =
     (if buf = 0 \<or> max_size = 0 \<or> \<not> IS_ALIGNED buf SLAVE_SPI_DMA_ALIGN then (STUB_LIB_ERR_INVALID_ARG, w)
      else
        (let max_size = max_size AND NOT (SLAVE_SPI_DMA_ALIGN - 1)
         in if max_size = 0 then (STUB_LIB_ERR_INVALID_ARG, w)
            else
              (let (ret, w) = t_spi_rearm T buf max_size w
               in if ret \<noteq> STUB_LIB_OK then (ret, w) else (STUB_LIB_OK, w))))"

definition stub_lib_slave_spi_tx_frame :: "'w slave_spi_target \<Rightarrow> u32 \<Rightarrow> u32 \<Rightarrow> 'w \<Rightarrow> rc \<times> 'w" where
  "stub_lib_slave_spi_tx_frame T data len w =
     (if data = 0 \<or> len = 0 \<or> \<not> IS_ALIGNED data 4 then (STUB_LIB_ERR_INVALID_ARG, w)
      else
        (let (ret, w) = t_spi_tx_frame T data len w
         in if ret \<noteq> STUB_LIB_OK then (ret, w) else (STUB_LIB_OK, w)))"

section \<open>The contract of a target\<close>

locale slave_spi_link = frame_receiver "t_spi_rearm T" armed window placed
  for T :: "'w slave_spi_target" and armed window placed
begin

text \<open>The window the API arms lies in the caller's buffer and starts on a DMA boundary.\<close>

lemma rearm_window:
  assumes "stub_lib_slave_spi_rearm T buf n w = (STUB_LIB_OK, w')" "\<not> armed w" "placed w"
  shows "armed w' \<and> fst (window w') = buf \<and> 4 dvd unat buf \<and> buf \<noteq> 0 \<and>
    0 < unat (snd (window w')) \<and> unat (snd (window w')) \<le> unat n - unat n mod 4"
proof -
  have d: "n AND - 4 = ALIGN_DOWN n 4" by (simp add: ALIGN_DOWN_def)
  have r: "t_spi_rearm T buf (ALIGN_DOWN n 4) w = (STUB_LIB_OK, w')" and b: "buf \<noteq> 0" "IS_ALIGNED buf 4"
    using assms(1) by (auto simp: stub_lib_slave_spi_rearm_def Let_def regs rcs d split: if_splits prod.splits)
  note i = rearm_idle [OF assms(3) r assms(2)]
  have "unat (snd (window w')) \<le> unat (ALIGN_DOWN n 4)" using i by (simp add: word_le_nat_alt)
  then show ?thesis using i b by (auto simp: IS_ALIGNED_4 unat_ALIGN_DOWN_4 unat_gt_0)
qed

lemma rearm_refused: "stub_lib_slave_spi_rearm T buf n w = (ret, w') \<Longrightarrow> ret \<noteq> STUB_LIB_OK \<Longrightarrow> w' = w"
  by (auto simp: stub_lib_slave_spi_rearm_def Let_def dest: rearm_fails split: if_splits prod.splits)

end

section \<open>The ESP32-S3 driver\<close>

text \<open>\<open>next\<close> names the descriptor of the receive chain it points to.\<close>

record lldesc_spi =
  d_size :: "12 word"
  d_length :: "12 word"
  d_offset :: "5 word"
  d_sosf :: bool
  d_eof :: bool
  d_owner :: bool
  d_buf :: u32
  d_next :: "nat option"

record slave_spi_world = world +
  s_dmadesc_tx :: lldesc_spi
  s_dmadesc_rx :: "lldesc_spi list"
  s_seq_rx :: u32
  s_seq_tx :: u32
  s_rx_armed :: bool
  s_rx_buf :: u32
  s_rx_len :: u32

definition SPI_SLV_HOST :: u32 where [regs]: "SPI_SLV_HOST = 2"
definition SPI_SLV_REG_RXSTA :: u32 where [regs]: "SPI_SLV_REG_RXSTA = SPI_W1_REG SPI_SLV_HOST"
definition SPI_SLV_REG_TXSTA :: u32 where [regs]: "SPI_SLV_REG_TXSTA = SPI_W2_REG SPI_SLV_HOST"
definition SPI_SLV_REG_CMD :: u32 where [regs]: "SPI_SLV_REG_CMD = SPI_W3_REG SPI_SLV_HOST"

definition SPI_SLV_RX_DONE :: u32 where [regs]: "SPI_SLV_RX_DONE = SPI_SLV_WR_DMA_DONE_INT_RAW"
definition SPI_SLV_RX_DONE_CLR :: u32 where [regs]: "SPI_SLV_RX_DONE_CLR = SPI_SLV_WR_DMA_DONE_INT_CLR"
definition SPI_SLV_TX_DONE :: u32 where [regs]: "SPI_SLV_TX_DONE = SPI_SLV_RD_DMA_DONE_INT_RAW"
definition SPI_SLV_TX_DONE_CLR :: u32 where [regs]: "SPI_SLV_TX_DONE_CLR = SPI_SLV_RD_DMA_DONE_INT_CLR"

definition s3_slave_spi_is_active :: "'a world_scheme \<Rightarrow> bool \<times> 'a world_scheme" where
  "s3_slave_spi_is_active w =
     (let (v, w) = READ_PERI_REG (SPI_SLAVE_REG SPI_SLV_HOST) w
      in if v AND SPI_SLAVE_MODE = 0 then (False, w)
         else
           (let (v, w) = READ_PERI_REG SPI_SLV_REG_CMD w; cmd = v AND 0xFF
            in (cmd = SPI_SLV_CMD_READY \<or> cmd = SPI_SLV_CMD_DONE, w)))"

definition s3_slave_spi_init :: "'a slave_spi_world_scheme \<Rightarrow> 'a slave_spi_world_scheme" where
  "s3_slave_spi_init w =
     (let w = WRITE_PERI_REG (SPI_DMA_INT_ENA_REG SPI_SLV_HOST) 0 w;
          w = WRITE_PERI_REG SPI_SLV_REG_CMD SPI_SLV_CMD_IDLE w
      in w\<lparr>s_seq_rx := SPI_SLV_STATE_INIT, s_seq_tx := SPI_SLV_STATE_INIT, s_rx_armed := False\<rparr>)"

text \<open>
  The loop that splits the buffer over the descriptors. \<open>dma\<close> is the length a chip gives the
  DMA engine for a chunk: the chunk's, except on the ESP32-S2.
\<close>

definition rx_desc :: "(u32 \<Rightarrow> u32) \<Rightarrow> u32 \<Rightarrow> u32 \<Rightarrow> u32 \<Rightarrow> nat \<Rightarrow> lldesc_spi" where
  "rx_desc dma remaining chunk buf_pos desc_idx =
     \<lparr>d_size = ucast (dma chunk AND LLDESC_SPI_SIZE_MASK), d_length = ucast (dma chunk AND LLDESC_SPI_SIZE_MASK),
      d_offset = 0, d_sosf = False, d_eof = (remaining \<le> chunk), d_owner = True, d_buf = buf_pos,
      d_next = (if remaining \<le> chunk then None else Some (desc_idx + 1))\<rparr>"

function rx_split :: "(u32 \<Rightarrow> u32) \<Rightarrow> u32 \<Rightarrow> u32 \<Rightarrow> nat \<Rightarrow> lldesc_spi list \<Rightarrow> lldesc_spi list" where
  "rx_split dma remaining buf_pos desc_idx descs =
     (if remaining = 0 then descs
      else
        (let chunk = (if remaining > LLDESC_SPI_MAX_BUFFER_SIZE then LLDESC_SPI_MAX_BUFFER_SIZE else remaining)
         in rx_split dma (remaining - chunk) (buf_pos + chunk) (desc_idx + 1)
              (descs[desc_idx := rx_desc dma remaining chunk buf_pos desc_idx])))"
  by pat_completeness auto
termination
proof (relation "measure (\<lambda>(dma, remaining, p, i, ds). unat remaining)")
  fix dma :: "u32 \<Rightarrow> u32" and remaining chunk p :: u32 and i and ds :: "lldesc_spi list"
  assume "remaining \<noteq> 0"
    and c: "chunk = (if remaining > LLDESC_SPI_MAX_BUFFER_SIZE then LLDESC_SPI_MAX_BUFFER_SIZE else remaining)"
  then have "chunk \<le> remaining" "0 < unat chunk" by (auto simp: regs unat_gt_0 word_less_nat_alt word_le_nat_alt)
  then show "((dma, remaining - chunk, p + chunk, i + 1, ds[i := rx_desc dma remaining chunk p i]), (dma, remaining, p, i, ds))
      \<in> measure (\<lambda>(dma, remaining, p, i, ds). unat remaining)"
    by (simp add: unat_diff word_le_nat_alt)
qed simp

declare rx_split.simps [simp del]

definition spi_slv_rxdma_arm :: "u32 \<Rightarrow> u32 \<Rightarrow> 'a slave_spi_world_scheme \<Rightarrow> 'a slave_spi_world_scheme" where
  "spi_slv_rxdma_arm buf len w =
     (let w = w\<lparr>s_dmadesc_rx := rx_split (\<lambda>chunk. chunk) len buf 0 (s_dmadesc_rx w)\<rparr>;
          w = SET_PERI_REG_MASK GDMA_IN_CONF0_CH0_REG GDMA_IN_RST_CH0 w;
          w = CLEAR_PERI_REG_MASK GDMA_IN_CONF0_CH0_REG GDMA_IN_RST_CH0 w;
          w = WRITE_PERI_REG (SPI_DMA_INT_CLR_REG SPI_SLV_HOST) SPI_SLV_RX_DONE_CLR w;
          w = WRITE_PERI_REG (SPI_DMA_CONF_REG SPI_SLV_HOST) (SPI_DMA_AFIFO_RST OR SPI_BUF_AFIFO_RST OR SPI_RX_AFIFO_RST) w;
          w = SET_PERI_REG_MASK (SPI_DMA_CONF_REG SPI_SLV_HOST) SPI_DMA_RX_ENA w;
          w = WRITE_PERI_REG GDMA_IN_LINK_CH0_REG (sym_addr w Sym_dmadesc_rx AND GDMA_INLINK_ADDR_CH0) w;
          w = WRITE_PERI_REG GDMA_IN_INT_CLR_CH0_REG GDMA_INFIFO_UDF_L1_CH0_INT_CLR w
      in SET_PERI_REG_MASK GDMA_IN_LINK_CH0_REG GDMA_INLINK_START_CH0 w)"

definition s3_slave_spi_rearm :: "u32 \<Rightarrow> u32 \<Rightarrow> 'a slave_spi_world_scheme \<Rightarrow> rc \<times> 'a slave_spi_world_scheme" where
  "s3_slave_spi_rearm buf max_size w =
     (if s_rx_armed w then (STUB_LIB_OK, w)
      else if buf = 0 \<or> max_size = 0 then (STUB_LIB_ERR_INVALID_ARG, w)
      else
        (let max_size = (if max_size > SPI_SLV_RX_MAX_LEN then SPI_SLV_RX_MAX_LEN else max_size);
             w = spi_slv_rxdma_arm buf max_size w;
             w = w\<lparr>s_rx_buf := buf, s_rx_len := max_size\<rparr>;
             w = w\<lparr>s_seq_rx := s_seq_rx w XOR SPI_SLV_STA_TOGGLE\<rparr>;
             rxsta = s_seq_rx w OR push_bit SPI_SLV_STA_LEN_SHIFT max_size;
             w = w\<lparr>s_seq_rx := s_seq_rx w AND NOT SPI_SLV_STA_INIT\<rparr>;
             w = WRITE_PERI_REG SPI_SLV_REG_RXSTA rxsta w
         in (STUB_LIB_OK, w\<lparr>s_rx_armed := True\<rparr>)))"

definition s3_slave_spi_take_rx_frame ::
  "bool \<Rightarrow> 'a slave_spi_world_scheme \<Rightarrow> (bool \<times> u32 option) \<times> 'a slave_spi_world_scheme" where
  "s3_slave_spi_take_rx_frame out_len w =
     (let (v, w) = READ_PERI_REG SPI_SLV_REG_CMD w;
          w = (if v AND 0xFF = SPI_SLV_CMD_READY then WRITE_PERI_REG SPI_SLV_REG_CMD SPI_SLV_CMD_READY w else w);
          (v, w) = READ_PERI_REG (SPI_DMA_INT_RAW_REG SPI_SLV_HOST) w
      in if v AND SPI_SLV_RX_DONE = 0 then ((False, None), w)
         else
           (let (ret, t, w) = stub_target_wait_reg_bit_set GDMA_IN_INT_RAW_CH0_REG GDMA_IN_SUC_EOF_CH0_INT_RAW
                                (Some (ucast SPI_SLV_DMA_DONE_TIMEOUT_US)) w
            in if ret \<noteq> STUB_LIB_OK then ((False, None), w)
               else
                 (let w = WRITE_PERI_REG GDMA_IN_INT_CLR_CH0_REG GDMA_IN_SUC_EOF_CH0_INT_CLR w;
                      w = WRITE_PERI_REG (SPI_DMA_INT_CLR_REG SPI_SLV_HOST) SPI_SLV_RX_DONE_CLR w;
                      (len, w) = (if out_len then
                                    (let (v, w) = READ_PERI_REG (SPI_SLAVE1_REG SPI_SLV_HOST) w
                                     in (Some ((v AND SPI_SLV_DATA_BITLEN) div 8), w))
                                  else (None, w))
                  in ((True, len), w\<lparr>s_rx_armed := False\<rparr>))))"

text \<open>The part of a transmission up to the announcement in W2.\<close>

definition spi_slv_tx_start :: "u32 \<Rightarrow> u32 \<Rightarrow> 'a slave_spi_world_scheme \<Rightarrow> 'a slave_spi_world_scheme" where
  "spi_slv_tx_start data len w =
     (let w = WRITE_PERI_REG (SPI_DMA_INT_CLR_REG SPI_SLV_HOST) SPI_SLV_TX_DONE_CLR w;
          w = w\<lparr>s_dmadesc_tx := (s_dmadesc_tx w)\<lparr>d_size := ucast (len AND LLDESC_SPI_SIZE_MASK),
                 d_length := ucast (len AND LLDESC_SPI_SIZE_MASK), d_buf := data, d_sosf := False, d_eof := True,
                 d_owner := True, d_next := None\<rparr>\<rparr>;
          w = SET_PERI_REG_MASK GDMA_OUT_CONF0_CH0_REG GDMA_OUT_RST_CH0 w;
          w = CLEAR_PERI_REG_MASK GDMA_OUT_CONF0_CH0_REG GDMA_OUT_RST_CH0 w;
          w = WRITE_PERI_REG GDMA_OUT_LINK_CH0_REG (sym_addr w Sym_dmadesc_tx AND GDMA_INLINK_ADDR_CH0) w;
          w = SET_PERI_REG_MASK GDMA_OUT_LINK_CH0_REG GDMA_OUTLINK_START_CH0 w;
          w = WRITE_PERI_REG (SPI_DMA_CONF_REG SPI_SLV_HOST) (SPI_DMA_AFIFO_RST OR SPI_BUF_AFIFO_RST OR SPI_RX_AFIFO_RST) w;
          w = SET_PERI_REG_MASK (SPI_DMA_CONF_REG SPI_SLV_HOST) SPI_DMA_TX_ENA w;
          w = w\<lparr>s_seq_tx := s_seq_tx w XOR SPI_SLV_STA_TOGGLE\<rparr>;
          txsta = s_seq_tx w OR push_bit SPI_SLV_STA_LEN_SHIFT len;
          w = w\<lparr>s_seq_tx := s_seq_tx w AND NOT SPI_SLV_STA_INIT\<rparr>
      in WRITE_PERI_REG SPI_SLV_REG_TXSTA txsta w)"

definition s3_slave_spi_tx_frame :: "u32 \<Rightarrow> u32 \<Rightarrow> 'a slave_spi_world_scheme \<Rightarrow> rc \<times> 'a slave_spi_world_scheme" where
  "s3_slave_spi_tx_frame data len w =
     (if len > LLDESC_SPI_MAX_BUFFER_SIZE then (STUB_LIB_ERR_INVALID_ARG, w)
      else
        (let w = spi_slv_tx_start data len w;
             (ret, t, w) = stub_target_wait_reg_bit_set (SPI_DMA_INT_RAW_REG SPI_SLV_HOST) SPI_SLV_TX_DONE
                             (Some (ucast SPI_SLV_TX_TIMEOUT_US)) w
         in if ret \<noteq> STUB_LIB_OK then (STUB_LIB_FAIL, w\<lparr>s_rx_armed := False\<rparr>)
            else
              (let w = WRITE_PERI_REG (SPI_DMA_INT_CLR_REG SPI_SLV_HOST) SPI_SLV_TX_DONE_CLR w;
                   (ret, t, w) = stub_target_wait_reg_bit_set GDMA_OUT_INT_RAW_CH0_REG GDMA_OUT_DONE_CH0_INT_RAW
                                   (Some (ucast SPI_SLV_DMA_DONE_TIMEOUT_US)) w
               in if ret \<noteq> STUB_LIB_OK then (STUB_LIB_FAIL, w\<lparr>s_rx_armed := False\<rparr>)
                  else
                    (let w = WRITE_PERI_REG GDMA_OUT_INT_CLR_CH0_REG GDMA_OUT_DONE_CH0_INT_CLR w
                     in (STUB_LIB_OK, if s_rx_armed w \<and> s_rx_buf w \<noteq> 0 then spi_slv_rxdma_arm (s_rx_buf w) (s_rx_len w) w else w)))))"

definition s3_slave_spi_target :: "'a slave_spi_world_scheme slave_spi_target" where
  "s3_slave_spi_target =
     \<lparr>t_spi_is_active = s3_slave_spi_is_active, t_spi_init = s3_slave_spi_init,
      t_spi_take_rx_frame = s3_slave_spi_take_rx_frame, t_spi_rearm = s3_slave_spi_rearm,
      t_spi_tx_frame = s3_slave_spi_tx_frame\<rparr>"

section \<open>The descriptor chain\<close>

text \<open>The descriptors the DMA engine visits from index i on, at most n of them, and the addresses of one.\<close>

fun chain :: "nat \<Rightarrow> lldesc_spi list \<Rightarrow> nat \<Rightarrow> lldesc_spi list" where
  "chain 0 ds i = []"
| "chain (Suc n) ds i =
     (if i < length ds then ds ! i # (case d_next (ds ! i) of None \<Rightarrow> [] | Some j \<Rightarrow> chain n ds j) else [])"

definition dma_addrs :: "lldesc_spi \<Rightarrow> u32 list" where
  "dma_addrs d = map (\<lambda>k. d_buf d + of_nat k) [0..<unat (d_length d)]"

definition covers :: "lldesc_spi list \<Rightarrow> u32 \<Rightarrow> u32 \<Rightarrow> bool" where
  "covers ds buf len \<longleftrightarrow> concat (map dma_addrs ds) = map (\<lambda>k. buf + of_nat k) [0..<unat len] \<and>
     list_all d_owner ds \<and> list_all (\<lambda>d. d_length d = d_size d) ds \<and> ds \<noteq> [] \<and>
     d_eof (last ds) \<and> list_all (\<lambda>d. \<not> d_eof d) (butlast ds)"

lemma desc_length:
  assumes "unat (chunk :: u32) \<le> 4092"
  shows "unat (ucast (chunk AND LLDESC_SPI_SIZE_MASK) :: 12 word) = unat chunk"
proof -
  have "unat (chunk AND 0xFFF) = unat chunk" using unat_and_pow2 [of chunk 12] assms by simp
  then show ?thesis using assms by (simp add: regs unsigned_ucast_eq unsigned_take_bit_eq take_bit_nat_eq_self_iff)
qed

lemma addrs_append:
  "map (\<lambda>k. p + of_nat k) [0..<m] @ map (\<lambda>k. (p + of_nat m) + of_nat k) [0..<n] = map (\<lambda>k. p + of_nat k :: u32) [0..<m + n]"
  by (rule nth_equalityI) (auto simp: nth_append)

lemma rx_split_0 [simp]: "rx_split dma 0 p i ds = ds"
  by (subst rx_split.simps) simp

lemma rx_split_chain:
  fixes p :: u32
  assumes "remaining \<noteq> 0" "unat remaining \<le> (length ds - i) * 4092" "length ds - i \<le> n"
  defines "ds' \<equiv> rx_split (\<lambda>chunk. chunk) remaining p i ds"
  shows "length ds' = length ds \<and> (\<forall>j<i. ds' ! j = ds ! j) \<and> covers (chain n ds' i) p remaining"
  using assms
proof (induction "\<lambda>chunk. chunk :: u32" remaining p i ds arbitrary: n ds' rule: rx_split.induct)
  case (1 remaining p i ds)
  define chunk where "chunk = (if remaining > LLDESC_SPI_MAX_BUFFER_SIZE then LLDESC_SPI_MAX_BUFFER_SIZE else remaining)"
  define d where "d = rx_desc (\<lambda>chunk. chunk) remaining chunk p i"
  have i: "i < length ds" using 1(2,3) by (cases "i < length ds") (simp_all add: unsigned_eq_0_iff)
  obtain m where n: "n = Suc m" using 1(4) i by (cases n) simp_all
  have c: "unat chunk = min (unat remaining) 4092" by (auto simp: chunk_def regs word_less_nat_alt)
  have le: "chunk \<le> remaining" using c by (simp add: word_le_nat_alt)
  have eq: "rx_split (\<lambda>chunk. chunk) remaining p i ds = rx_split (\<lambda>chunk. chunk) (remaining - chunk) (p + chunk) (i + 1) (ds[i := d])"
    using 1(2) by (subst rx_split.simps) (simp add: chunk_def d_def Let_def)
  have d: "dma_addrs d = map (\<lambda>k. p + of_nat k) [0..<unat chunk]" "d_owner d" "d_length d = d_size d"
    using desc_length [of chunk] c by (simp_all add: d_def rx_desc_def dma_addrs_def)
  show ?case
  proof (cases "remaining \<le> chunk")
    case True
    then have ce: "chunk = remaining" using le by simp
    then have split: "rx_split (\<lambda>chunk. chunk) remaining p i ds = ds[i := d]" by (simp add: eq)
    have "d_next d = None" using True by (simp add: d_def rx_desc_def)
    then have "chain n (ds[i := d]) i = [d]" using i by (simp add: n)
    then show ?thesis using d True ce by (simp add: split covers_def) (simp add: d_def rx_desc_def)
  next
    case False
    let ?ds = "ds[i := d]" and ?r = "remaining - chunk"
    have c4: "unat chunk = 4092" using c False by (auto simp: word_le_nat_alt min_def split: if_splits)
    have r: "?r \<noteq> 0" using False by auto
    have ur: "unat ?r = unat remaining - unat chunk" using le by (rule unat_diff)
    have "unat ?r \<le> (length ?ds - (i + 1)) * 4092" using 1(3) i c4 by (simp add: ur diff_mult_distrib)
    moreover have "length ?ds - (i + 1) \<le> m" using 1(4) n by simp
    ultimately have IH: "length (rx_split (\<lambda>chunk. chunk) ?r (p + chunk) (i + 1) ?ds) = length ds"
      "\<And>j. j < i + 1 \<Longrightarrow> rx_split (\<lambda>chunk. chunk) ?r (p + chunk) (i + 1) ?ds ! j = ?ds ! j"
      "covers (chain m (rx_split (\<lambda>chunk. chunk) ?r (p + chunk) (i + 1) ?ds) (i + 1)) (p + chunk) ?r"
      using 1(1) [OF 1(2) chunk_def, folded d_def, of m] r by simp_all
    have hd: "rx_split (\<lambda>chunk. chunk) ?r (p + chunk) (i + 1) ?ds ! i = d" using IH(2) [of i] i by simp
    have ch: "chain n (rx_split (\<lambda>chunk. chunk) remaining p i ds) i = d # chain m (rx_split (\<lambda>chunk. chunk) ?r (p + chunk) (i + 1) ?ds) (i + 1)"
      using hd i IH(1) False by (simp add: n eq) (simp add: d_def rx_desc_def)
    have "p + chunk = p + of_nat (unat chunk)" by simp
    then have "map (\<lambda>k. p + of_nat k) [0..<unat chunk] @ map (\<lambda>k. (p + chunk) + of_nat k) [0..<unat ?r] =
        map (\<lambda>k. p + of_nat k) [0..<unat remaining]"
      using addrs_append [of p "unat chunk" "unat ?r"] le by (simp add: ur word_le_nat_alt)
    moreover have "\<not> d_eof d" using False by (simp add: d_def rx_desc_def)
    ultimately have "covers (chain n (rx_split (\<lambda>chunk. chunk) remaining p i ds) i) p remaining"
      using IH(3) d by (simp add: ch covers_def)
    then show ?thesis using IH(1,2) by (simp add: eq)
  qed
qed

section \<open>What the primitives leave alone\<close>

text \<open>The values written to a register so far.\<close>

definition writes :: "u32 \<Rightarrow> 'a world_scheme \<Rightarrow> u32 list" where
  "writes r w = written r (trace w)"

lemma writes_prims [simp]:
  "writes q (REG_WRITE r v w) = (if r = q then writes q w @ [v] else writes q w)"
  "writes q (snd (REG_READ r w)) = writes q w"
  "r \<noteq> q \<Longrightarrow> writes q (REG_SET_BIT r b w) = writes q w"
  "r \<noteq> q \<Longrightarrow> writes q (REG_CLR_BIT r b w) = writes q w"
  "writes q (rom_void f args ds w) = writes q w"
  by (simp_all add: writes_def prim_eq)

lemma writes_more [simp]:
  "writes q (w\<lparr>s_dmadesc_tx := d\<rparr>) = writes q w" "writes q (w\<lparr>s_dmadesc_rx := ds\<rparr>) = writes q w"
  "writes q (w\<lparr>s_seq_rx := v\<rparr>) = writes q w" "writes q (w\<lparr>s_seq_tx := v\<rparr>) = writes q w"
  "writes q (w\<lparr>s_rx_armed := b\<rparr>) = writes q w" "writes q (w\<lparr>s_rx_buf := v\<rparr>) = writes q w"
  "writes q (w\<lparr>s_rx_len := v\<rparr>) = writes q w"
  by (simp_all add: writes_def)

text \<open>The driver's variables but the transmit descriptor.\<close>

definition link_state :: "'a slave_spi_world_scheme \<Rightarrow> lldesc_spi list \<times> u32 \<times> u32 \<times> bool \<times> u32 \<times> u32" where
  "link_state w = (s_dmadesc_rx w, s_seq_rx w, s_seq_tx w, s_rx_armed w, s_rx_buf w, s_rx_len w)"

lemma link_state_after [simp]: "link_state (after w es) = link_state w"
  by (simp add: link_state_def after_def)

lemma link_state_prims [simp]:
  "link_state (REG_WRITE r v w) = link_state w" "link_state (snd (REG_READ r w)) = link_state w"
  "link_state (REG_SET_BIT r b w) = link_state w" "link_state (REG_CLR_BIT r b w) = link_state w"
  "link_state (rom_void f args ds w) = link_state w"
  by (simp_all add: prim_eq)

lemma link_fields:
  assumes "link_state w' = link_state w"
  shows "s_dmadesc_rx w' = s_dmadesc_rx w" "s_seq_rx w' = s_seq_rx w" "s_seq_tx w' = s_seq_tx w"
    "s_rx_armed w' = s_rx_armed w" "s_rx_buf w' = s_rx_buf w" "s_rx_len w' = s_rx_len w"
  using assms by (simp_all add: link_state_def)

lemmas slave_prims [simp] =
  link_fields [OF link_state_prims(1)] link_fields [OF link_state_prims(2)] link_fields [OF link_state_prims(3)]
  link_fields [OF link_state_prims(4)] link_fields [OF link_state_prims(5)]

lemma slave_wait [simp]:
  "writes q (snd (snd (stub_target_wait_reg_bit_set r m (Some t) w))) = writes q w"
  "link_state (snd (snd (stub_target_wait_reg_bit_set r m (Some t) w))) = link_state w"
proof -
  obtain ret t' w' where e: "stub_target_wait_reg_bit_set r m (Some t) w = (ret, t', w')" by (metis prod_cases3)
  then obtain es where "w' = after w es" "written q es = []" by (metis wait_bit_waits polls_written)
  then show "writes q (snd (snd (stub_target_wait_reg_bit_set r m (Some t) w))) = writes q w"
    "link_state (snd (snd (stub_target_wait_reg_bit_set r m (Some t) w))) = link_state w"
    by (simp_all add: e writes_def)
qed

lemmas slave_wait_fields [simp] = link_fields [OF slave_wait(2)]

section \<open>What the drivers have in common\<close>

definition clamp :: "u32 \<Rightarrow> u32" where
  "clamp n = (if n > SPI_SLV_RX_MAX_LEN then SPI_SLV_RX_MAX_LEN else n)"

lemma clamp_bounds: "n \<noteq> 0 \<Longrightarrow> clamp n \<noteq> 0 \<and> unat (clamp n) \<le> 20460 \<and> unat (clamp n) \<le> unat n"
  by (auto simp: clamp_def regs word_less_nat_alt)

lemma clamp_4: "4 dvd unat n \<Longrightarrow> 4 dvd unat (clamp n)"
  by (simp add: clamp_def regs)

text \<open>
  The status word for a length that follows from a counter, and the counter after it: the
  toggle bit flips, the initial mark is dropped after its first use.
\<close>

definition sta_word :: "u32 \<Rightarrow> u32 \<Rightarrow> u32" where
  "sta_word s len = (s XOR SPI_SLV_STA_TOGGLE) OR push_bit SPI_SLV_STA_LEN_SHIFT len"

definition sta_next :: "u32 \<Rightarrow> u32" where
  "sta_next s = (s XOR SPI_SLV_STA_TOGGLE) AND NOT SPI_SLV_STA_INIT"

text \<open>The descriptors of an armed buffer of whole words.\<close>

definition rx_chain :: "u32 \<Rightarrow> u32 \<Rightarrow> lldesc_spi list \<Rightarrow> lldesc_spi list" where
  "rx_chain len buf ds = rx_split (\<lambda>chunk. chunk) len buf 0 ds"

locale slave_spi_driver =
  fixes T :: "'a slave_spi_world_scheme slave_spi_target" and rxsta txsta :: u32
  assumes init_effect: "w' = t_spi_init T w \<Longrightarrow>
      writes rxsta w' = writes rxsta w \<and> writes txsta w' = writes txsta w \<and> s_seq_rx w' = SPI_SLV_STATE_INIT \<and>
      s_seq_tx w' = SPI_SLV_STATE_INIT \<and> \<not> s_rx_armed w' \<and> s_dmadesc_rx w' = s_dmadesc_rx w"
    and rearm_armed: "s_rx_armed w \<Longrightarrow> t_spi_rearm T buf n w = (STUB_LIB_OK, w)"
    and rearm_invalid: "\<not> s_rx_armed w \<Longrightarrow> buf = 0 \<or> n = 0 \<Longrightarrow> t_spi_rearm T buf n w = (STUB_LIB_ERR_INVALID_ARG, w)"
    and rearm_effect: "\<not> s_rx_armed w \<Longrightarrow> buf \<noteq> 0 \<Longrightarrow> n \<noteq> 0 \<Longrightarrow> t_spi_rearm T buf n w = (ret, w') \<Longrightarrow>
      ret = STUB_LIB_OK \<and> writes rxsta w' = writes rxsta w @ [sta_word (s_seq_rx w) (clamp n)] \<and>
      writes txsta w' = writes txsta w \<and> s_seq_rx w' = sta_next (s_seq_rx w) \<and> s_seq_tx w' = s_seq_tx w \<and>
      s_rx_armed w' \<and> s_rx_buf w' = buf \<and> s_rx_len w' = clamp n \<and>
      (4 dvd unat n \<longrightarrow> s_dmadesc_rx w' = rx_chain (clamp n) buf (s_dmadesc_rx w))"
    and take_effect: "t_spi_take_rx_frame T ol w = ((ok, len), w') \<Longrightarrow>
      writes rxsta w' = writes rxsta w \<and> writes txsta w' = writes txsta w \<and>
      link_state w' = link_state (w\<lparr>s_rx_armed := s_rx_armed w \<and> \<not> ok\<rparr>)"
    and tx_long: "l > LLDESC_SPI_MAX_BUFFER_SIZE \<Longrightarrow> t_spi_tx_frame T data l w = (STUB_LIB_ERR_INVALID_ARG, w)"
    and tx_effect: "\<not> l > LLDESC_SPI_MAX_BUFFER_SIZE \<Longrightarrow> t_spi_tx_frame T data l w = (ret, w') \<Longrightarrow>
      writes rxsta w' = writes rxsta w \<and> writes txsta w' = writes txsta w @ [sta_word (s_seq_tx w) l] \<and>
      s_seq_rx w' = s_seq_rx w \<and> s_seq_tx w' = sta_next (s_seq_tx w) \<and> (s_rx_armed w' \<longrightarrow> s_rx_armed w) \<and>
      s_rx_buf w' = s_rx_buf w \<and> s_rx_len w' = s_rx_len w \<and>
      (s_dmadesc_rx w' = s_dmadesc_rx w \<or> s_rx_armed w \<and>
        (4 dvd unat (s_rx_len w) \<longrightarrow> s_dmadesc_rx w' = rx_chain (s_rx_len w) (s_rx_buf w) (s_dmadesc_rx w)))"

sublocale slave_spi_driver \<subseteq> link: slave_spi_link T s_rx_armed "\<lambda>w. (s_rx_buf w, s_rx_len w)" "\<lambda>_. True"
proof (unfold_locales, goal_cases)
  case (1 w buf n w')
  then have "buf \<noteq> 0 \<and> n \<noteq> 0" using rearm_invalid [of w buf n] by (auto simp: rcs)
  then show ?case using 1 rearm_effect [of w buf n STUB_LIB_OK w'] clamp_bounds [of n]
    by (simp add: word_le_nat_alt word_neq_0_conv [symmetric])
next
  case (2 w buf n)
  then show ?case by (rule rearm_armed)
next
  case (3 buf n w ret w')
  then show ?case
    using rearm_armed [of w buf n] rearm_invalid [of w buf n] rearm_effect [of w buf n ret w']
    by (metis prod.inject)
qed

section \<open>Sessions\<close>

text \<open>The states a driver can be in after an initialisation through the API, whatever the host does.\<close>

inductive spi_session ::
  "'w slave_spi_target \<Rightarrow> 'w \<Rightarrow> 'w \<Rightarrow> bool" for T w0 where
  start: "spi_session T w0 (stub_lib_slave_spi_init T w0)"
| rearm: "spi_session T w0 w \<Longrightarrow> stub_lib_slave_spi_rearm T buf n w = (ret, w') \<Longrightarrow> spi_session T w0 w'"
| take: "spi_session T w0 w \<Longrightarrow> stub_lib_slave_spi_take_rx_frame T ol w = (res, w') \<Longrightarrow> spi_session T w0 w'"
| tx: "spi_session T w0 w \<Longrightarrow> stub_lib_slave_spi_tx_frame T data len w = (ret, w') \<Longrightarrow> spi_session T w0 w'"

text \<open>
  The state word of the k-th announcement: the first carries the INIT bit, after that the
  toggle bit changes every time. \<open>seq\_ok\<close> relates it to the driver's counter.
\<close>

definition state_bits :: "nat \<Rightarrow> u32" where
  "state_bits k = (if k = 0 then SPI_SLV_STA_INIT else if odd k then SPI_SLV_STA_TOGGLE else 0)"

definition seq_ok :: "u32 \<Rightarrow> u32 list \<Rightarrow> bool" where
  "seq_ok s ann \<longleftrightarrow> (\<forall>k<length ann. ann ! k AND 3 = state_bits k) \<and>
     s = (if ann = [] then SPI_SLV_STATE_INIT else if even (length ann) then SPI_SLV_STA_TOGGLE else 0)"

lemma low_bits: "x \<in> {0, 1, 2} \<Longrightarrow> (x OR push_bit 2 n) AND 3 = (x :: u32)"
proof -
  have m: "(3 :: u32) = mask 2" by (simp add: mask_eq_exp_minus_1)
  have "(x OR push_bit 2 n) AND 3 = x AND 3" for x :: u32
    unfolding m by (rule bit_word_eqI) (auto simp: bit_simps)
  then show "x \<in> {0, 1, 2} \<Longrightarrow> (x OR push_bit 2 n) AND 3 = x" by auto
qed

lemma seq_step: "seq_ok s ann \<Longrightarrow> seq_ok (sta_next s) (ann @ [sta_word s n])"
proof -
  assume a: "seq_ok s ann"
  consider "ann = []" "s = 3" | "ann \<noteq> []" "even (length ann)" "s = 1" | "ann \<noteq> []" "odd (length ann)" "s = 0"
    using a by (auto simp: seq_ok_def regs split: if_splits)
  then show ?thesis
    using a low_bits [of 0 n] low_bits [of 1 n] low_bits [of 2 n]
    by cases (auto simp: seq_ok_def regs state_bits_def nth_append less_Suc_eq sta_word_def sta_next_def)
qed

text \<open>What a session has written to a register.\<close>

definition announced :: "u32 \<Rightarrow> 'a world_scheme \<Rightarrow> 'a world_scheme \<Rightarrow> u32 list" where
  "announced r w0 w = drop (length (writes r w0)) (writes r w)"

definition rx_window_ok :: "'a slave_spi_world_scheme \<Rightarrow> bool" where
  "rx_window_ok w \<longleftrightarrow> length (s_dmadesc_rx w) = 5 \<and>
     (s_rx_armed w \<longrightarrow> s_rx_buf w \<noteq> 0 \<and> s_rx_len w \<noteq> 0 \<and> unat (s_rx_len w) \<le> 20460 \<and> 4 dvd unat (s_rx_len w) \<and>
        covers (chain 5 (s_dmadesc_rx w) 0) (s_rx_buf w) (s_rx_len w))"

lemma chain_ok:
  assumes "length ds = 5" "len \<noteq> 0" "unat len \<le> 20460"
  shows "length (rx_chain len buf ds) = 5 \<and> covers (chain 5 (rx_chain len buf ds) 0) buf len"
  using rx_split_chain [of len ds 0 5 buf] assms by (simp add: rx_chain_def)

lemma rx_window_ok_cong:
  "link_state w' = link_state (w\<lparr>s_rx_armed := b\<rparr>) \<Longrightarrow> (b \<longrightarrow> s_rx_armed w) \<Longrightarrow> rx_window_ok w \<Longrightarrow> rx_window_ok w'"
  by (auto simp: rx_window_ok_def link_state_def)

definition session_inv ::
  "u32 \<Rightarrow> u32 \<Rightarrow> 'a slave_spi_world_scheme \<Rightarrow> 'a slave_spi_world_scheme \<Rightarrow> bool" where
  "session_inv rxsta txsta w0 w \<longleftrightarrow>
     (\<exists>rs ts. writes rxsta w = writes rxsta w0 @ rs \<and> writes txsta w = writes txsta w0 @ ts \<and>
        seq_ok (s_seq_rx w) rs \<and> seq_ok (s_seq_tx w) ts) \<and> rx_window_ok w"

context slave_spi_driver
begin

lemma api_rearm:
  assumes "stub_lib_slave_spi_rearm T buf n w = (ret, w')"
  shows "w' = w \<or> \<not> s_rx_armed w \<and> (\<exists>m. 4 dvd unat m \<and> buf \<noteq> 0 \<and> m \<noteq> 0 \<and> t_spi_rearm T buf m w = (ret, w'))"
proof -
  define m where "m = n AND NOT (SLAVE_SPI_DMA_ALIGN - 1)"
  have "m = ALIGN_DOWN n 4" by (simp add: m_def ALIGN_DOWN_def regs)
  then have m: "4 dvd unat m" by (simp add: unat_ALIGN_DOWN_4)
  have "w' = w \<or> buf \<noteq> 0 \<and> m \<noteq> 0 \<and> t_spi_rearm T buf m w = (ret, w')"
    using assms unfolding stub_lib_slave_spi_rearm_def Let_def m_def [symmetric]
    by (auto split: if_splits prod.splits)
  then show ?thesis using m rearm_armed [of w buf m] by (cases "s_rx_armed w") auto
qed

lemma session_invariant:
  assumes "spi_session T w0 w" "length (s_dmadesc_rx w0) = 5"
  shows "session_inv rxsta txsta w0 w"
  using assms
proof (induction rule: spi_session.induct)
  case start
  then show ?case using init_effect [OF refl, of w0]
    by (simp add: session_inv_def stub_lib_slave_spi_init_def seq_ok_def rx_window_ok_def)
next
  case (rearm w buf n ret w')
  then have inv: "session_inv rxsta txsta w0 w" by blast
  show ?case using api_rearm [OF rearm.hyps(2)]
  proof (elim disjE conjE exE)
    fix m assume a: "\<not> s_rx_armed w" "4 dvd unat m" "buf \<noteq> 0" "m \<noteq> 0" "t_spi_rearm T buf m w = (ret, w')"
    note e = rearm_effect [OF a(1,3,4,5)]
    have "rx_window_ok w'"
      using inv e chain_ok [of "s_dmadesc_rx w" "clamp m" buf] clamp_bounds [OF a(4)] clamp_4 [OF a(2)] a(2,3)
      by (simp add: session_inv_def rx_window_ok_def)
    then show ?case using inv e seq_step unfolding session_inv_def by (metis append.assoc)
  qed (use inv in simp)
next
  case (take w ol res w')
  obtain ok len where res: "res = (ok, len)" by fastforce
  have e: "writes rxsta w' = writes rxsta w" "writes txsta w' = writes txsta w"
    "link_state w' = link_state (w\<lparr>s_rx_armed := s_rx_armed w \<and> \<not> ok\<rparr>)"
    using take_effect [of ol w ok len w'] take.hyps(2) by (simp_all add: res stub_lib_slave_spi_take_rx_frame_def)
  have "s_seq_rx w' = s_seq_rx w" "s_seq_tx w' = s_seq_tx w" using e(3) by (simp_all add: link_state_def)
  then show ?case using take e rx_window_ok_cong [OF e(3)] by (auto simp: session_inv_def)
next
  case (tx w data len ret w')
  then have inv: "session_inv rxsta txsta w0 w" by blast
  have "w' = w \<or> t_spi_tx_frame T data len w = (ret, w')"
    using tx.hyps(2) by (auto simp: stub_lib_slave_spi_tx_frame_def Let_def split: if_splits prod.splits)
  then consider "w' = w" | "\<not> len > LLDESC_SPI_MAX_BUFFER_SIZE" "t_spi_tx_frame T data len w = (ret, w')"
    using tx_long [of len data w] by fastforce
  then show ?case
  proof cases
    case 2
    note e = tx_effect [OF 2]
    have "rx_window_ok w'"
      using inv e chain_ok [of "s_dmadesc_rx w" "s_rx_len w" "s_rx_buf w"]
      by (auto simp: session_inv_def rx_window_ok_def)
    then show ?thesis using inv e seq_step unfolding session_inv_def by (metis append.assoc)
  qed (use inv in simp)
qed

lemma handshake_alternates:
  assumes "spi_session T w0 w" "length (s_dmadesc_rx w0) = 5" "r = rxsta \<or> r = txsta"
    and "k < length (announced r w0 w)"
  shows "announced r w0 w ! k AND 3 = state_bits k"
  using session_invariant [OF assms(1,2)] assms(3,4) by (auto simp: announced_def seq_ok_def session_inv_def)

lemma session_window:
  assumes "spi_session T w0 w" "length (s_dmadesc_rx w0) = 5" "s_rx_armed w"
  shows "covers (chain 5 (s_dmadesc_rx w) 0) (s_rx_buf w) (s_rx_len w) \<and> unat (s_rx_len w) \<le> 20460"
  using session_invariant [OF assms(1,2)] assms(3) by (auto simp: session_inv_def rx_window_ok_def)

lemma api_window:
  assumes "stub_lib_slave_spi_rearm T buf n w = (STUB_LIB_OK, w')" "\<not> s_rx_armed w"
  shows "s_rx_armed w' \<and> s_rx_buf w' = buf \<and> 4 dvd unat buf \<and> buf \<noteq> 0 \<and>
    0 < unat (s_rx_len w') \<and> unat (s_rx_len w') \<le> unat n - unat n mod 4"
  using link.rearm_window [OF assms TrueI] by simp

lemma api_refuses:
  "buf = 0 \<or> unat n < 4 \<or> \<not> 4 dvd unat buf \<Longrightarrow>
     stub_lib_slave_spi_rearm T buf n w = (STUB_LIB_ERR_INVALID_ARG, w)"
  "d = 0 \<or> l = 0 \<or> \<not> 4 dvd unat d \<or> unat l > 4092 \<Longrightarrow>
     stub_lib_slave_spi_tx_frame T d l w = (STUB_LIB_ERR_INVALID_ARG, w)"
proof -
  have z: "n AND NOT (SLAVE_SPI_DMA_ALIGN - 1) = 0 \<longleftrightarrow> unat n < 4"
    using unat_ALIGN_DOWN_4 [of n] by (simp add: ALIGN_DOWN_def regs word_unat_eq_iff) presburger
  show "buf = 0 \<or> unat n < 4 \<or> \<not> 4 dvd unat buf \<Longrightarrow>
     stub_lib_slave_spi_rearm T buf n w = (STUB_LIB_ERR_INVALID_ARG, w)"
    unfolding stub_lib_slave_spi_rearm_def Let_def z by (auto simp: IS_ALIGNED_4 SLAVE_SPI_DMA_ALIGN_def)
  show "d = 0 \<or> l = 0 \<or> \<not> 4 dvd unat d \<or> unat l > 4092 \<Longrightarrow>
     stub_lib_slave_spi_tx_frame T d l w = (STUB_LIB_ERR_INVALID_ARG, w)"
    using tx_long [of l d w]
    by (auto simp: stub_lib_slave_spi_tx_frame_def IS_ALIGNED_4 LLDESC_SPI_MAX_BUFFER_SIZE_def word_less_nat_alt rcs)
qed

end

section \<open>The ESP32-S3 meets the contract\<close>

lemma s3_arm_effect [simp]:
  "writes SPI_SLV_REG_RXSTA (spi_slv_rxdma_arm buf len w) = writes SPI_SLV_REG_RXSTA w"
  "writes SPI_SLV_REG_TXSTA (spi_slv_rxdma_arm buf len w) = writes SPI_SLV_REG_TXSTA w"
  "link_state (spi_slv_rxdma_arm buf len w) = link_state (w\<lparr>s_dmadesc_rx := rx_chain len buf (s_dmadesc_rx w)\<rparr>)"
  by (simp_all add: spi_slv_rxdma_arm_def Let_def peri_eq rx_chain_def regs)

lemmas s3_arm_fields [simp] = link_fields [OF s3_arm_effect(3)]

lemma s3_tx_start [simp]:
  "writes SPI_SLV_REG_RXSTA (spi_slv_tx_start data len w) = writes SPI_SLV_REG_RXSTA w"
  "writes SPI_SLV_REG_TXSTA (spi_slv_tx_start data len w) = writes SPI_SLV_REG_TXSTA w @ [sta_word (s_seq_tx w) len]"
  "link_state (spi_slv_tx_start data len w) = link_state (w\<lparr>s_seq_tx := sta_next (s_seq_tx w)\<rparr>)"
  by (simp_all add: spi_slv_tx_start_def Let_def peri_eq sta_word_def sta_next_def regs link_state_def)

lemmas s3_tx_start_fields [simp] = link_fields [OF s3_tx_start(3)]

lemma s3_slave_regs [simp]:
  "SPI_SLV_REG_CMD \<noteq> SPI_SLV_REG_RXSTA" "SPI_SLV_REG_CMD \<noteq> SPI_SLV_REG_TXSTA"
  "SPI_SLV_REG_RXSTA \<noteq> SPI_SLV_REG_TXSTA" "SPI_SLV_REG_TXSTA \<noteq> SPI_SLV_REG_RXSTA"
  "SPI_DMA_INT_CLR_REG SPI_SLV_HOST \<noteq> SPI_SLV_REG_RXSTA" "SPI_DMA_INT_CLR_REG SPI_SLV_HOST \<noteq> SPI_SLV_REG_TXSTA"
  "SPI_DMA_INT_ENA_REG SPI_SLV_HOST \<noteq> SPI_SLV_REG_RXSTA" "SPI_DMA_INT_ENA_REG SPI_SLV_HOST \<noteq> SPI_SLV_REG_TXSTA"
  "GDMA_IN_INT_CLR_CH0_REG \<noteq> SPI_SLV_REG_RXSTA" "GDMA_IN_INT_CLR_CH0_REG \<noteq> SPI_SLV_REG_TXSTA"
  "GDMA_OUT_INT_CLR_CH0_REG \<noteq> SPI_SLV_REG_RXSTA" "GDMA_OUT_INT_CLR_CH0_REG \<noteq> SPI_SLV_REG_TXSTA"
  by (simp_all add: regs)

interpretation s3_spi: slave_spi_driver s3_slave_spi_target SPI_SLV_REG_RXSTA SPI_SLV_REG_TXSTA
  by unfold_locales
    (auto simp: s3_slave_spi_target_def s3_slave_spi_init_def s3_slave_spi_rearm_def s3_slave_spi_take_rx_frame_def
      s3_slave_spi_tx_frame_def Let_def peri_eq split_beta clamp_def [symmetric] sta_word_def sta_next_def
      link_state_def split: if_splits)

end
