(* ===== verification/Chip_Slave_Spi.thy ===== *)
theory Chip_Slave_Spi
  imports Slave_Spi Io_Regs
begin

text \<open>
  The SPI slave drivers of the other chips that have one: \<open>src/target/CHIP/src/slave_spi.c\<close> of
  the ESP32-C2, ESP32-C3, ESP32-S2 and ESP32-P4, each over the variables of
  \<open>slave_spi_world\<close>. They differ from the ESP32-S3 in the DMA engine they drive; the ESP32-S2
  rounds the length of a descriptor up to a word and has no engine to wait for, the ESP32-P4
  writes back and invalidates its data cache. Each meets \<open>slave_spi_driver\<close>, so the properties
  at the end hold for all five.
\<close>

section \<open>ESP32-C2\<close>

definition c2_SPI_SLV_HOST :: u32 where [regs]: "c2_SPI_SLV_HOST = 2"
definition c2_SPI_SLV_REG_RXSTA :: u32 where [regs]: "c2_SPI_SLV_REG_RXSTA = c2_SPI_W1_REG c2_SPI_SLV_HOST"
definition c2_SPI_SLV_REG_TXSTA :: u32 where [regs]: "c2_SPI_SLV_REG_TXSTA = c2_SPI_W2_REG c2_SPI_SLV_HOST"
definition c2_SPI_SLV_REG_CMD :: u32 where [regs]: "c2_SPI_SLV_REG_CMD = c2_SPI_W3_REG c2_SPI_SLV_HOST"

definition c2_SPI_SLV_RX_DONE :: u32 where [regs]: "c2_SPI_SLV_RX_DONE = c2_SPI_SLV_WR_DMA_DONE_INT_RAW"
definition c2_SPI_SLV_RX_DONE_CLR :: u32 where [regs]: "c2_SPI_SLV_RX_DONE_CLR = c2_SPI_SLV_WR_DMA_DONE_INT_CLR"
definition c2_SPI_SLV_TX_DONE :: u32 where [regs]: "c2_SPI_SLV_TX_DONE = c2_SPI_SLV_RD_DMA_DONE_INT_RAW"
definition c2_SPI_SLV_TX_DONE_CLR :: u32 where [regs]: "c2_SPI_SLV_TX_DONE_CLR = c2_SPI_SLV_RD_DMA_DONE_INT_CLR"

definition c2_slave_spi_is_active :: "'a world_scheme \<Rightarrow> bool \<times> 'a world_scheme" where
  "c2_slave_spi_is_active w =
     (let (v, w) = READ_PERI_REG (c2_SPI_SLAVE_REG c2_SPI_SLV_HOST) w
      in if v AND c2_SPI_SLAVE_MODE = 0 then (False, w)
         else
           (let (v, w) = READ_PERI_REG c2_SPI_SLV_REG_CMD w; cmd = v AND 0xFF
            in (cmd = SPI_SLV_CMD_READY \<or> cmd = SPI_SLV_CMD_DONE, w)))"

definition c2_slave_spi_init :: "'a slave_spi_world_scheme \<Rightarrow> 'a slave_spi_world_scheme" where
  "c2_slave_spi_init w =
     (let w = WRITE_PERI_REG (c2_SPI_DMA_INT_ENA_REG c2_SPI_SLV_HOST) 0 w;
          w = WRITE_PERI_REG c2_SPI_SLV_REG_CMD SPI_SLV_CMD_IDLE w
      in w\<lparr>s_seq_rx := SPI_SLV_STATE_INIT, s_seq_tx := SPI_SLV_STATE_INIT, s_rx_armed := False\<rparr>)"

definition c2_spi_slv_rxdma_arm :: "u32 \<Rightarrow> u32 \<Rightarrow> 'a slave_spi_world_scheme \<Rightarrow> 'a slave_spi_world_scheme" where
  "c2_spi_slv_rxdma_arm buf len w =
     (let w = w\<lparr>s_dmadesc_rx := rx_split (\<lambda>chunk. chunk) len buf 0 (s_dmadesc_rx w)\<rparr>;
          w = SET_PERI_REG_MASK c2_GDMA_IN_CONF0_CH0_REG c2_GDMA_IN_RST_CH0 w;
          w = CLEAR_PERI_REG_MASK c2_GDMA_IN_CONF0_CH0_REG c2_GDMA_IN_RST_CH0 w;
          w = WRITE_PERI_REG (c2_SPI_DMA_INT_CLR_REG c2_SPI_SLV_HOST) c2_SPI_SLV_RX_DONE_CLR w;
          w = WRITE_PERI_REG (c2_SPI_DMA_CONF_REG c2_SPI_SLV_HOST) (c2_SPI_DMA_AFIFO_RST OR c2_SPI_BUF_AFIFO_RST OR c2_SPI_RX_AFIFO_RST) w;
          w = SET_PERI_REG_MASK (c2_SPI_DMA_CONF_REG c2_SPI_SLV_HOST) c2_SPI_DMA_RX_ENA w;
          w = WRITE_PERI_REG c2_GDMA_IN_LINK_CH0_REG (sym_addr w Sym_dmadesc_rx AND c2_GDMA_INLINK_ADDR_CH0) w;
          w = WRITE_PERI_REG c2_GDMA_INT_CLR_CH0_REG c2_GDMA_INFIFO_UDF_CH0_INT_CLR w
      in SET_PERI_REG_MASK c2_GDMA_IN_LINK_CH0_REG c2_GDMA_INLINK_START_CH0 w)"

definition c2_slave_spi_rearm :: "u32 \<Rightarrow> u32 \<Rightarrow> 'a slave_spi_world_scheme \<Rightarrow> rc \<times> 'a slave_spi_world_scheme" where
  "c2_slave_spi_rearm buf max_size w =
     (if s_rx_armed w then (STUB_LIB_OK, w)
      else if buf = 0 \<or> max_size = 0 then (STUB_LIB_ERR_INVALID_ARG, w)
      else
        (let max_size = (if max_size > SPI_SLV_RX_MAX_LEN then SPI_SLV_RX_MAX_LEN else max_size);
             w = c2_spi_slv_rxdma_arm buf max_size w;
             w = w\<lparr>s_rx_buf := buf, s_rx_len := max_size\<rparr>;
             w = w\<lparr>s_seq_rx := s_seq_rx w XOR SPI_SLV_STA_TOGGLE\<rparr>;
             rxsta = s_seq_rx w OR push_bit SPI_SLV_STA_LEN_SHIFT max_size;
             w = w\<lparr>s_seq_rx := s_seq_rx w AND NOT SPI_SLV_STA_INIT\<rparr>;
             w = WRITE_PERI_REG c2_SPI_SLV_REG_RXSTA rxsta w
         in (STUB_LIB_OK, w\<lparr>s_rx_armed := True\<rparr>)))"

definition c2_slave_spi_take_rx_frame ::
  "bool \<Rightarrow> 'a slave_spi_world_scheme \<Rightarrow> (bool \<times> u32 option) \<times> 'a slave_spi_world_scheme" where
  "c2_slave_spi_take_rx_frame out_len w =
     (let (v, w) = READ_PERI_REG c2_SPI_SLV_REG_CMD w;
          w = (if v AND 0xFF = SPI_SLV_CMD_READY then WRITE_PERI_REG c2_SPI_SLV_REG_CMD SPI_SLV_CMD_READY w else w);
          (v, w) = READ_PERI_REG (c2_SPI_DMA_INT_RAW_REG c2_SPI_SLV_HOST) w
      in if v AND c2_SPI_SLV_RX_DONE = 0 then ((False, None), w)
         else
           (let (ret, t, w) = stub_target_wait_reg_bit_set c2_GDMA_INT_RAW_CH0_REG c2_GDMA_IN_SUC_EOF_CH0_INT_RAW
                                (Some (ucast SPI_SLV_DMA_DONE_TIMEOUT_US)) w
            in if ret \<noteq> STUB_LIB_OK then ((False, None), w)
               else
                 (let w = WRITE_PERI_REG c2_GDMA_INT_CLR_CH0_REG c2_GDMA_IN_SUC_EOF_CH0_INT_CLR w;
                      w = WRITE_PERI_REG (c2_SPI_DMA_INT_CLR_REG c2_SPI_SLV_HOST) c2_SPI_SLV_RX_DONE_CLR w;
                      (len, w) = (if out_len then
                                    (let (v, w) = READ_PERI_REG (c2_SPI_SLAVE1_REG c2_SPI_SLV_HOST) w
                                     in (Some ((v AND c2_SPI_SLV_DATA_BITLEN) div 8), w))
                                  else (None, w))
                  in ((True, len), w\<lparr>s_rx_armed := False\<rparr>))))"

text \<open>The part of a transmission up to the announcement in W2.\<close>

definition c2_spi_slv_tx_start :: "u32 \<Rightarrow> u32 \<Rightarrow> 'a slave_spi_world_scheme \<Rightarrow> 'a slave_spi_world_scheme" where
  "c2_spi_slv_tx_start data len w =
     (let w = WRITE_PERI_REG (c2_SPI_DMA_INT_CLR_REG c2_SPI_SLV_HOST) c2_SPI_SLV_TX_DONE_CLR w;
          w = w\<lparr>s_dmadesc_tx := (s_dmadesc_tx w)\<lparr>d_size := ucast (len AND LLDESC_SPI_SIZE_MASK),
                 d_length := ucast (len AND LLDESC_SPI_SIZE_MASK), d_buf := data, d_sosf := False, d_eof := True,
                 d_owner := True, d_next := None\<rparr>\<rparr>;
          w = SET_PERI_REG_MASK c2_GDMA_OUT_CONF0_CH0_REG c2_GDMA_OUT_RST_CH0 w;
          w = CLEAR_PERI_REG_MASK c2_GDMA_OUT_CONF0_CH0_REG c2_GDMA_OUT_RST_CH0 w;
          w = WRITE_PERI_REG c2_GDMA_OUT_LINK_CH0_REG (sym_addr w Sym_dmadesc_tx AND c2_GDMA_INLINK_ADDR_CH0) w;
          w = SET_PERI_REG_MASK c2_GDMA_OUT_LINK_CH0_REG c2_GDMA_OUTLINK_START_CH0 w;
          w = WRITE_PERI_REG (c2_SPI_DMA_CONF_REG c2_SPI_SLV_HOST) (c2_SPI_DMA_AFIFO_RST OR c2_SPI_BUF_AFIFO_RST OR c2_SPI_RX_AFIFO_RST) w;
          w = SET_PERI_REG_MASK (c2_SPI_DMA_CONF_REG c2_SPI_SLV_HOST) c2_SPI_DMA_TX_ENA w;
          w = w\<lparr>s_seq_tx := s_seq_tx w XOR SPI_SLV_STA_TOGGLE\<rparr>;
          txsta = s_seq_tx w OR push_bit SPI_SLV_STA_LEN_SHIFT len;
          w = w\<lparr>s_seq_tx := s_seq_tx w AND NOT SPI_SLV_STA_INIT\<rparr>
      in WRITE_PERI_REG c2_SPI_SLV_REG_TXSTA txsta w)"

definition c2_slave_spi_tx_frame :: "u32 \<Rightarrow> u32 \<Rightarrow> 'a slave_spi_world_scheme \<Rightarrow> rc \<times> 'a slave_spi_world_scheme" where
  "c2_slave_spi_tx_frame data len w =
     (if len > LLDESC_SPI_MAX_BUFFER_SIZE then (STUB_LIB_ERR_INVALID_ARG, w)
      else
        (let w = c2_spi_slv_tx_start data len w;
             (ret, t, w) = stub_target_wait_reg_bit_set (c2_SPI_DMA_INT_RAW_REG c2_SPI_SLV_HOST) c2_SPI_SLV_TX_DONE
                             (Some (ucast SPI_SLV_TX_TIMEOUT_US)) w
         in if ret \<noteq> STUB_LIB_OK then (STUB_LIB_FAIL, w\<lparr>s_rx_armed := False\<rparr>)
            else
              (let w = WRITE_PERI_REG (c2_SPI_DMA_INT_CLR_REG c2_SPI_SLV_HOST) c2_SPI_SLV_TX_DONE_CLR w;
                   (ret, t, w) = stub_target_wait_reg_bit_set c2_GDMA_INT_RAW_CH0_REG c2_GDMA_OUT_DONE_CH0_INT_RAW
                                   (Some (ucast SPI_SLV_DMA_DONE_TIMEOUT_US)) w
               in if ret \<noteq> STUB_LIB_OK then (STUB_LIB_FAIL, w\<lparr>s_rx_armed := False\<rparr>)
                  else
                    (let w = WRITE_PERI_REG c2_GDMA_INT_CLR_CH0_REG c2_GDMA_OUT_DONE_CH0_INT_CLR w
                     in (STUB_LIB_OK, if s_rx_armed w \<and> s_rx_buf w \<noteq> 0 then c2_spi_slv_rxdma_arm (s_rx_buf w) (s_rx_len w) w else w)))))"

definition c2_slave_spi_target :: "'a slave_spi_world_scheme slave_spi_target" where
  "c2_slave_spi_target =
     \<lparr>t_spi_is_active = c2_slave_spi_is_active, t_spi_init = c2_slave_spi_init,
      t_spi_take_rx_frame = c2_slave_spi_take_rx_frame, t_spi_rearm = c2_slave_spi_rearm,
      t_spi_tx_frame = c2_slave_spi_tx_frame\<rparr>"

lemma c2_arm_effect [simp]:
  "writes c2_SPI_SLV_REG_RXSTA (c2_spi_slv_rxdma_arm buf len w) = writes c2_SPI_SLV_REG_RXSTA w"
  "writes c2_SPI_SLV_REG_TXSTA (c2_spi_slv_rxdma_arm buf len w) = writes c2_SPI_SLV_REG_TXSTA w"
  "link_state (c2_spi_slv_rxdma_arm buf len w) = link_state (w\<lparr>s_dmadesc_rx := rx_chain len buf (s_dmadesc_rx w)\<rparr>)"
  by (simp_all add: c2_spi_slv_rxdma_arm_def Let_def peri_eq rx_chain_def regs)

lemmas c2_arm_fields [simp] = link_fields [OF c2_arm_effect(3)]

lemma c2_tx_start [simp]:
  "writes c2_SPI_SLV_REG_RXSTA (c2_spi_slv_tx_start data len w) = writes c2_SPI_SLV_REG_RXSTA w"
  "writes c2_SPI_SLV_REG_TXSTA (c2_spi_slv_tx_start data len w) = writes c2_SPI_SLV_REG_TXSTA w @ [sta_word (s_seq_tx w) len]"
  "link_state (c2_spi_slv_tx_start data len w) = link_state (w\<lparr>s_seq_tx := sta_next (s_seq_tx w)\<rparr>)"
  by (simp_all add: c2_spi_slv_tx_start_def Let_def peri_eq sta_word_def sta_next_def regs link_state_def)

lemmas c2_tx_start_fields [simp] = link_fields [OF c2_tx_start(3)]

lemma c2_slave_regs [simp]:
  "c2_SPI_SLV_REG_RXSTA \<noteq> c2_SPI_SLV_REG_TXSTA" "c2_SPI_SLV_REG_TXSTA \<noteq> c2_SPI_SLV_REG_RXSTA"
  "c2_SPI_SLV_REG_CMD \<noteq> c2_SPI_SLV_REG_RXSTA" "c2_SPI_SLV_REG_CMD \<noteq> c2_SPI_SLV_REG_TXSTA"
  "c2_SPI_DMA_INT_CLR_REG c2_SPI_SLV_HOST \<noteq> c2_SPI_SLV_REG_RXSTA" "c2_SPI_DMA_INT_CLR_REG c2_SPI_SLV_HOST \<noteq> c2_SPI_SLV_REG_TXSTA"
  "c2_SPI_DMA_INT_ENA_REG c2_SPI_SLV_HOST \<noteq> c2_SPI_SLV_REG_RXSTA" "c2_SPI_DMA_INT_ENA_REG c2_SPI_SLV_HOST \<noteq> c2_SPI_SLV_REG_TXSTA"
  "c2_GDMA_INT_CLR_CH0_REG \<noteq> c2_SPI_SLV_REG_RXSTA" "c2_GDMA_INT_CLR_CH0_REG \<noteq> c2_SPI_SLV_REG_TXSTA"
  by (simp_all add: regs)

interpretation c2_spi: slave_spi_driver c2_slave_spi_target c2_SPI_SLV_REG_RXSTA c2_SPI_SLV_REG_TXSTA
  by unfold_locales
    (auto simp: c2_slave_spi_target_def c2_slave_spi_init_def c2_slave_spi_rearm_def c2_slave_spi_take_rx_frame_def
      c2_slave_spi_tx_frame_def Let_def peri_eq split_beta clamp_def [symmetric] sta_word_def sta_next_def
      link_state_def split: if_splits)

section \<open>ESP32-C3\<close>

definition c3_SPI_SLV_HOST :: u32 where [regs]: "c3_SPI_SLV_HOST = 2"
definition c3_SPI_SLV_REG_RXSTA :: u32 where [regs]: "c3_SPI_SLV_REG_RXSTA = c3_SPI_W1_REG c3_SPI_SLV_HOST"
definition c3_SPI_SLV_REG_TXSTA :: u32 where [regs]: "c3_SPI_SLV_REG_TXSTA = c3_SPI_W2_REG c3_SPI_SLV_HOST"
definition c3_SPI_SLV_REG_CMD :: u32 where [regs]: "c3_SPI_SLV_REG_CMD = c3_SPI_W3_REG c3_SPI_SLV_HOST"

definition c3_SPI_SLV_RX_DONE :: u32 where [regs]: "c3_SPI_SLV_RX_DONE = c3_SPI_SLV_WR_DMA_DONE_INT_RAW"
definition c3_SPI_SLV_RX_DONE_CLR :: u32 where [regs]: "c3_SPI_SLV_RX_DONE_CLR = c3_SPI_SLV_WR_DMA_DONE_INT_CLR"
definition c3_SPI_SLV_TX_DONE :: u32 where [regs]: "c3_SPI_SLV_TX_DONE = c3_SPI_SLV_RD_DMA_DONE_INT_RAW"
definition c3_SPI_SLV_TX_DONE_CLR :: u32 where [regs]: "c3_SPI_SLV_TX_DONE_CLR = c3_SPI_SLV_RD_DMA_DONE_INT_CLR"

definition c3_slave_spi_is_active :: "'a world_scheme \<Rightarrow> bool \<times> 'a world_scheme" where
  "c3_slave_spi_is_active w =
     (let (v, w) = READ_PERI_REG (c3_SPI_SLAVE_REG c3_SPI_SLV_HOST) w
      in if v AND c3_SPI_SLAVE_MODE = 0 then (False, w)
         else
           (let (v, w) = READ_PERI_REG c3_SPI_SLV_REG_CMD w; cmd = v AND 0xFF
            in (cmd = SPI_SLV_CMD_READY \<or> cmd = SPI_SLV_CMD_DONE, w)))"

definition c3_slave_spi_init :: "'a slave_spi_world_scheme \<Rightarrow> 'a slave_spi_world_scheme" where
  "c3_slave_spi_init w =
     (let w = WRITE_PERI_REG (c3_SPI_DMA_INT_ENA_REG c3_SPI_SLV_HOST) 0 w;
          w = WRITE_PERI_REG c3_SPI_SLV_REG_CMD SPI_SLV_CMD_IDLE w
      in w\<lparr>s_seq_rx := SPI_SLV_STATE_INIT, s_seq_tx := SPI_SLV_STATE_INIT, s_rx_armed := False\<rparr>)"

definition c3_spi_slv_rxdma_arm :: "u32 \<Rightarrow> u32 \<Rightarrow> 'a slave_spi_world_scheme \<Rightarrow> 'a slave_spi_world_scheme" where
  "c3_spi_slv_rxdma_arm buf len w =
     (let w = w\<lparr>s_dmadesc_rx := rx_split (\<lambda>chunk. chunk) len buf 0 (s_dmadesc_rx w)\<rparr>;
          w = SET_PERI_REG_MASK c3_GDMA_IN_CONF0_CH0_REG c3_GDMA_IN_RST_CH0 w;
          w = CLEAR_PERI_REG_MASK c3_GDMA_IN_CONF0_CH0_REG c3_GDMA_IN_RST_CH0 w;
          w = WRITE_PERI_REG (c3_SPI_DMA_INT_CLR_REG c3_SPI_SLV_HOST) c3_SPI_SLV_RX_DONE_CLR w;
          w = WRITE_PERI_REG (c3_SPI_DMA_CONF_REG c3_SPI_SLV_HOST) (c3_SPI_DMA_AFIFO_RST OR c3_SPI_BUF_AFIFO_RST OR c3_SPI_RX_AFIFO_RST) w;
          w = SET_PERI_REG_MASK (c3_SPI_DMA_CONF_REG c3_SPI_SLV_HOST) c3_SPI_DMA_RX_ENA w;
          w = WRITE_PERI_REG c3_GDMA_IN_LINK_CH0_REG (sym_addr w Sym_dmadesc_rx AND c3_GDMA_INLINK_ADDR_CH0) w;
          w = WRITE_PERI_REG c3_GDMA_INT_CLR_CH0_REG c3_GDMA_INFIFO_UDF_CH0_INT_CLR w
      in SET_PERI_REG_MASK c3_GDMA_IN_LINK_CH0_REG c3_GDMA_INLINK_START_CH0 w)"

definition c3_slave_spi_rearm :: "u32 \<Rightarrow> u32 \<Rightarrow> 'a slave_spi_world_scheme \<Rightarrow> rc \<times> 'a slave_spi_world_scheme" where
  "c3_slave_spi_rearm buf max_size w =
     (if s_rx_armed w then (STUB_LIB_OK, w)
      else if buf = 0 \<or> max_size = 0 then (STUB_LIB_ERR_INVALID_ARG, w)
      else
        (let max_size = (if max_size > SPI_SLV_RX_MAX_LEN then SPI_SLV_RX_MAX_LEN else max_size);
             w = c3_spi_slv_rxdma_arm buf max_size w;
             w = w\<lparr>s_rx_buf := buf, s_rx_len := max_size\<rparr>;
             w = w\<lparr>s_seq_rx := s_seq_rx w XOR SPI_SLV_STA_TOGGLE\<rparr>;
             rxsta = s_seq_rx w OR push_bit SPI_SLV_STA_LEN_SHIFT max_size;
             w = w\<lparr>s_seq_rx := s_seq_rx w AND NOT SPI_SLV_STA_INIT\<rparr>;
             w = WRITE_PERI_REG c3_SPI_SLV_REG_RXSTA rxsta w
         in (STUB_LIB_OK, w\<lparr>s_rx_armed := True\<rparr>)))"

definition c3_slave_spi_take_rx_frame ::
  "bool \<Rightarrow> 'a slave_spi_world_scheme \<Rightarrow> (bool \<times> u32 option) \<times> 'a slave_spi_world_scheme" where
  "c3_slave_spi_take_rx_frame out_len w =
     (let (v, w) = READ_PERI_REG c3_SPI_SLV_REG_CMD w;
          w = (if v AND 0xFF = SPI_SLV_CMD_READY then WRITE_PERI_REG c3_SPI_SLV_REG_CMD SPI_SLV_CMD_READY w else w);
          (v, w) = READ_PERI_REG (c3_SPI_DMA_INT_RAW_REG c3_SPI_SLV_HOST) w
      in if v AND c3_SPI_SLV_RX_DONE = 0 then ((False, None), w)
         else
           (let (ret, t, w) = stub_target_wait_reg_bit_set c3_GDMA_INT_RAW_CH0_REG c3_GDMA_IN_SUC_EOF_CH0_INT_RAW
                                (Some (ucast SPI_SLV_DMA_DONE_TIMEOUT_US)) w
            in if ret \<noteq> STUB_LIB_OK then ((False, None), w)
               else
                 (let w = WRITE_PERI_REG c3_GDMA_INT_CLR_CH0_REG c3_GDMA_IN_SUC_EOF_CH0_INT_CLR w;
                      w = WRITE_PERI_REG (c3_SPI_DMA_INT_CLR_REG c3_SPI_SLV_HOST) c3_SPI_SLV_RX_DONE_CLR w;
                      (len, w) = (if out_len then
                                    (let (v, w) = READ_PERI_REG (c3_SPI_SLAVE1_REG c3_SPI_SLV_HOST) w
                                     in (Some ((v AND c3_SPI_SLV_DATA_BITLEN) div 8), w))
                                  else (None, w))
                  in ((True, len), w\<lparr>s_rx_armed := False\<rparr>))))"

text \<open>The part of a transmission up to the announcement in W2.\<close>

definition c3_spi_slv_tx_start :: "u32 \<Rightarrow> u32 \<Rightarrow> 'a slave_spi_world_scheme \<Rightarrow> 'a slave_spi_world_scheme" where
  "c3_spi_slv_tx_start data len w =
     (let w = WRITE_PERI_REG (c3_SPI_DMA_INT_CLR_REG c3_SPI_SLV_HOST) c3_SPI_SLV_TX_DONE_CLR w;
          w = w\<lparr>s_dmadesc_tx := (s_dmadesc_tx w)\<lparr>d_size := ucast (len AND LLDESC_SPI_SIZE_MASK),
                 d_length := ucast (len AND LLDESC_SPI_SIZE_MASK), d_buf := data, d_sosf := False, d_eof := True,
                 d_owner := True, d_next := None\<rparr>\<rparr>;
          w = SET_PERI_REG_MASK c3_GDMA_OUT_CONF0_CH0_REG c3_GDMA_OUT_RST_CH0 w;
          w = CLEAR_PERI_REG_MASK c3_GDMA_OUT_CONF0_CH0_REG c3_GDMA_OUT_RST_CH0 w;
          w = WRITE_PERI_REG c3_GDMA_OUT_LINK_CH0_REG (sym_addr w Sym_dmadesc_tx AND c3_GDMA_INLINK_ADDR_CH0) w;
          w = SET_PERI_REG_MASK c3_GDMA_OUT_LINK_CH0_REG c3_GDMA_OUTLINK_START_CH0 w;
          w = WRITE_PERI_REG (c3_SPI_DMA_CONF_REG c3_SPI_SLV_HOST) (c3_SPI_DMA_AFIFO_RST OR c3_SPI_BUF_AFIFO_RST OR c3_SPI_RX_AFIFO_RST) w;
          w = SET_PERI_REG_MASK (c3_SPI_DMA_CONF_REG c3_SPI_SLV_HOST) c3_SPI_DMA_TX_ENA w;
          w = w\<lparr>s_seq_tx := s_seq_tx w XOR SPI_SLV_STA_TOGGLE\<rparr>;
          txsta = s_seq_tx w OR push_bit SPI_SLV_STA_LEN_SHIFT len;
          w = w\<lparr>s_seq_tx := s_seq_tx w AND NOT SPI_SLV_STA_INIT\<rparr>
      in WRITE_PERI_REG c3_SPI_SLV_REG_TXSTA txsta w)"

definition c3_slave_spi_tx_frame :: "u32 \<Rightarrow> u32 \<Rightarrow> 'a slave_spi_world_scheme \<Rightarrow> rc \<times> 'a slave_spi_world_scheme" where
  "c3_slave_spi_tx_frame data len w =
     (if len > LLDESC_SPI_MAX_BUFFER_SIZE then (STUB_LIB_ERR_INVALID_ARG, w)
      else
        (let w = c3_spi_slv_tx_start data len w;
             (ret, t, w) = stub_target_wait_reg_bit_set (c3_SPI_DMA_INT_RAW_REG c3_SPI_SLV_HOST) c3_SPI_SLV_TX_DONE
                             (Some (ucast SPI_SLV_TX_TIMEOUT_US)) w
         in if ret \<noteq> STUB_LIB_OK then (STUB_LIB_FAIL, w\<lparr>s_rx_armed := False\<rparr>)
            else
              (let w = WRITE_PERI_REG (c3_SPI_DMA_INT_CLR_REG c3_SPI_SLV_HOST) c3_SPI_SLV_TX_DONE_CLR w;
                   (ret, t, w) = stub_target_wait_reg_bit_set c3_GDMA_INT_RAW_CH0_REG c3_GDMA_OUT_DONE_CH0_INT_RAW
                                   (Some (ucast SPI_SLV_DMA_DONE_TIMEOUT_US)) w
               in if ret \<noteq> STUB_LIB_OK then (STUB_LIB_FAIL, w\<lparr>s_rx_armed := False\<rparr>)
                  else
                    (let w = WRITE_PERI_REG c3_GDMA_INT_CLR_CH0_REG c3_GDMA_OUT_DONE_CH0_INT_CLR w
                     in (STUB_LIB_OK, if s_rx_armed w \<and> s_rx_buf w \<noteq> 0 then c3_spi_slv_rxdma_arm (s_rx_buf w) (s_rx_len w) w else w)))))"

definition c3_slave_spi_target :: "'a slave_spi_world_scheme slave_spi_target" where
  "c3_slave_spi_target =
     \<lparr>t_spi_is_active = c3_slave_spi_is_active, t_spi_init = c3_slave_spi_init,
      t_spi_take_rx_frame = c3_slave_spi_take_rx_frame, t_spi_rearm = c3_slave_spi_rearm,
      t_spi_tx_frame = c3_slave_spi_tx_frame\<rparr>"

lemma c3_arm_effect [simp]:
  "writes c3_SPI_SLV_REG_RXSTA (c3_spi_slv_rxdma_arm buf len w) = writes c3_SPI_SLV_REG_RXSTA w"
  "writes c3_SPI_SLV_REG_TXSTA (c3_spi_slv_rxdma_arm buf len w) = writes c3_SPI_SLV_REG_TXSTA w"
  "link_state (c3_spi_slv_rxdma_arm buf len w) = link_state (w\<lparr>s_dmadesc_rx := rx_chain len buf (s_dmadesc_rx w)\<rparr>)"
  by (simp_all add: c3_spi_slv_rxdma_arm_def Let_def peri_eq rx_chain_def regs)

lemmas c3_arm_fields [simp] = link_fields [OF c3_arm_effect(3)]

lemma c3_tx_start [simp]:
  "writes c3_SPI_SLV_REG_RXSTA (c3_spi_slv_tx_start data len w) = writes c3_SPI_SLV_REG_RXSTA w"
  "writes c3_SPI_SLV_REG_TXSTA (c3_spi_slv_tx_start data len w) = writes c3_SPI_SLV_REG_TXSTA w @ [sta_word (s_seq_tx w) len]"
  "link_state (c3_spi_slv_tx_start data len w) = link_state (w\<lparr>s_seq_tx := sta_next (s_seq_tx w)\<rparr>)"
  by (simp_all add: c3_spi_slv_tx_start_def Let_def peri_eq sta_word_def sta_next_def regs link_state_def)

lemmas c3_tx_start_fields [simp] = link_fields [OF c3_tx_start(3)]

lemma c3_slave_regs [simp]:
  "c3_SPI_SLV_REG_RXSTA \<noteq> c3_SPI_SLV_REG_TXSTA" "c3_SPI_SLV_REG_TXSTA \<noteq> c3_SPI_SLV_REG_RXSTA"
  "c3_SPI_SLV_REG_CMD \<noteq> c3_SPI_SLV_REG_RXSTA" "c3_SPI_SLV_REG_CMD \<noteq> c3_SPI_SLV_REG_TXSTA"
  "c3_SPI_DMA_INT_CLR_REG c3_SPI_SLV_HOST \<noteq> c3_SPI_SLV_REG_RXSTA" "c3_SPI_DMA_INT_CLR_REG c3_SPI_SLV_HOST \<noteq> c3_SPI_SLV_REG_TXSTA"
  "c3_SPI_DMA_INT_ENA_REG c3_SPI_SLV_HOST \<noteq> c3_SPI_SLV_REG_RXSTA" "c3_SPI_DMA_INT_ENA_REG c3_SPI_SLV_HOST \<noteq> c3_SPI_SLV_REG_TXSTA"
  "c3_GDMA_INT_CLR_CH0_REG \<noteq> c3_SPI_SLV_REG_RXSTA" "c3_GDMA_INT_CLR_CH0_REG \<noteq> c3_SPI_SLV_REG_TXSTA"
  by (simp_all add: regs)

interpretation c3_spi: slave_spi_driver c3_slave_spi_target c3_SPI_SLV_REG_RXSTA c3_SPI_SLV_REG_TXSTA
  by unfold_locales
    (auto simp: c3_slave_spi_target_def c3_slave_spi_init_def c3_slave_spi_rearm_def c3_slave_spi_take_rx_frame_def
      c3_slave_spi_tx_frame_def Let_def peri_eq split_beta clamp_def [symmetric] sta_word_def sta_next_def
      link_state_def split: if_splits)

section \<open>ESP32-P4\<close>

definition p4_SPI_SLV_HOST :: u32 where [regs]: "p4_SPI_SLV_HOST = 2"
definition p4_SPI_SLV_REG_RXSTA :: u32 where [regs]: "p4_SPI_SLV_REG_RXSTA = p4_SPI_W1_REG p4_SPI_SLV_HOST"
definition p4_SPI_SLV_REG_TXSTA :: u32 where [regs]: "p4_SPI_SLV_REG_TXSTA = p4_SPI_W2_REG p4_SPI_SLV_HOST"
definition p4_SPI_SLV_REG_CMD :: u32 where [regs]: "p4_SPI_SLV_REG_CMD = p4_SPI_W3_REG p4_SPI_SLV_HOST"

definition p4_SPI_SLV_RX_DONE :: u32 where [regs]: "p4_SPI_SLV_RX_DONE = p4_SPI_SLV_WR_DMA_DONE_INT_RAW"
definition p4_SPI_SLV_RX_DONE_CLR :: u32 where [regs]: "p4_SPI_SLV_RX_DONE_CLR = p4_SPI_SLV_WR_DMA_DONE_INT_CLR"
definition p4_SPI_SLV_TX_DONE :: u32 where [regs]: "p4_SPI_SLV_TX_DONE = p4_SPI_SLV_RD_DMA_DONE_INT_RAW"
definition p4_SPI_SLV_TX_DONE_CLR :: u32 where [regs]: "p4_SPI_SLV_TX_DONE_CLR = p4_SPI_SLV_RD_DMA_DONE_INT_CLR"

definition p4_slave_spi_is_active :: "'a world_scheme \<Rightarrow> bool \<times> 'a world_scheme" where
  "p4_slave_spi_is_active w =
     (let (v, w) = READ_PERI_REG (p4_SPI_SLAVE_REG p4_SPI_SLV_HOST) w
      in if v AND p4_SPI_SLAVE_MODE = 0 then (False, w)
         else
           (let (v, w) = READ_PERI_REG p4_SPI_SLV_REG_CMD w; cmd = v AND 0xFF
            in (cmd = SPI_SLV_CMD_READY \<or> cmd = SPI_SLV_CMD_DONE, w)))"

definition p4_slave_spi_init :: "'a slave_spi_world_scheme \<Rightarrow> 'a slave_spi_world_scheme" where
  "p4_slave_spi_init w =
     (let w = WRITE_PERI_REG p4_INTERRUPT_CORE0_SPI2_INT_MAP_REG 0 w;
          w = WRITE_PERI_REG p4_SPI_SLV_REG_CMD SPI_SLV_CMD_IDLE w
      in w\<lparr>s_seq_rx := SPI_SLV_STATE_INIT, s_seq_tx := SPI_SLV_STATE_INIT, s_rx_armed := False\<rparr>)"

text \<open>
  The number of descriptors the loop fills, \<open>desc\_idx\<close> after it; a descriptor has 16 bytes.
\<close>

function p4_rx_split_count :: "u32 \<Rightarrow> nat \<Rightarrow> nat" where
  "p4_rx_split_count remaining desc_idx =
     (if remaining = 0 then desc_idx
      else
        (let chunk = (if remaining > LLDESC_SPI_MAX_BUFFER_SIZE then LLDESC_SPI_MAX_BUFFER_SIZE else remaining)
         in p4_rx_split_count (remaining - chunk) (desc_idx + 1)))"
  by pat_completeness auto
termination
  by (relation "measure (\<lambda>(remaining, i). unat remaining)")
    (auto simp: regs unat_diff word_le_nat_alt word_less_nat_alt unat_gt_0)

declare p4_rx_split_count.simps [simp del]

definition p4_slv_CACHE_MAP_L1_DCACHE :: u32 where [regs]: "p4_slv_CACHE_MAP_L1_DCACHE = BIT 4"

definition p4_dcache_writeback :: "u32 \<Rightarrow> u32 \<Rightarrow> 'a world_scheme \<Rightarrow> 'a world_scheme" where
  "p4_dcache_writeback addr len w = rom_void (CacheFn Cache_WriteBack_Addr) [p4_slv_CACHE_MAP_L1_DCACHE, addr, len] [] w"

definition p4_dcache_invalidate :: "u32 \<Rightarrow> u32 \<Rightarrow> 'a world_scheme \<Rightarrow> 'a world_scheme" where
  "p4_dcache_invalidate addr len w = rom_void (CacheFn Cache_Invalidate_Addr) [p4_slv_CACHE_MAP_L1_DCACHE, addr, len] [] w"

definition p4_dcache_flush :: "u32 \<Rightarrow> u32 \<Rightarrow> 'a world_scheme \<Rightarrow> 'a world_scheme" where
  "p4_dcache_flush addr len w = p4_dcache_invalidate addr len (p4_dcache_writeback addr len w)"

definition p4_spi_slv_rxdma_arm :: "u32 \<Rightarrow> u32 \<Rightarrow> 'a slave_spi_world_scheme \<Rightarrow> 'a slave_spi_world_scheme" where
  "p4_spi_slv_rxdma_arm buf len w =
     (let w = w\<lparr>s_dmadesc_rx := rx_split (\<lambda>chunk. chunk) len buf 0 (s_dmadesc_rx w)\<rparr>;
          w = p4_dcache_writeback (sym_addr w Sym_dmadesc_rx) (of_nat (p4_rx_split_count len 0) * 16) w;
          w = p4_dcache_flush buf len w;
          w = WRITE_PERI_REG (p4_SPI_DMA_INT_CLR_REG p4_SPI_SLV_HOST) p4_SPI_SLV_RX_DONE_CLR w;
          w = SET_PERI_REG_MASK p4_AXI_DMA_IN_CONF0_CH0_REG p4_AXI_DMA_IN_RST_CH0 w;
          w = CLEAR_PERI_REG_MASK p4_AXI_DMA_IN_CONF0_CH0_REG p4_AXI_DMA_IN_RST_CH0 w;
          w = WRITE_PERI_REG (p4_SPI_DMA_CONF_REG p4_SPI_SLV_HOST) (p4_SPI_DMA_AFIFO_RST OR p4_SPI_BUF_AFIFO_RST OR p4_SPI_RX_AFIFO_RST) w;
          w = SET_PERI_REG_MASK (p4_SPI_DMA_CONF_REG p4_SPI_SLV_HOST) p4_SPI_DMA_RX_ENA w;
          w = WRITE_PERI_REG p4_AXI_DMA_IN_LINK2_CH0_REG (sym_addr w Sym_dmadesc_rx) w;
          w = WRITE_PERI_REG p4_AXI_DMA_IN_INT_CLR_CH0_REG
                (p4_AXI_DMA_IN_DSCR_ERR_CH0_INT_CLR OR p4_AXI_DMA_INFIFO_L1_UDF_CH0_INT_CLR OR
                 p4_AXI_DMA_INFIFO_L2_UDF_CH0_INT_CLR OR p4_AXI_DMA_INFIFO_L3_UDF_CH0_INT_CLR) w
      in SET_PERI_REG_MASK p4_AXI_DMA_IN_LINK1_CH0_REG p4_AXI_DMA_INLINK_START_CH0 w)"

definition p4_slave_spi_rearm :: "u32 \<Rightarrow> u32 \<Rightarrow> 'a slave_spi_world_scheme \<Rightarrow> rc \<times> 'a slave_spi_world_scheme" where
  "p4_slave_spi_rearm buf max_size w =
     (if s_rx_armed w then (STUB_LIB_OK, w)
      else if buf = 0 \<or> max_size = 0 then (STUB_LIB_ERR_INVALID_ARG, w)
      else
        (let max_size = (if max_size > SPI_SLV_RX_MAX_LEN then SPI_SLV_RX_MAX_LEN else max_size);
             w = p4_spi_slv_rxdma_arm buf max_size w;
             w = w\<lparr>s_rx_buf := buf, s_rx_len := max_size\<rparr>;
             w = w\<lparr>s_seq_rx := s_seq_rx w XOR SPI_SLV_STA_TOGGLE\<rparr>;
             rxsta = s_seq_rx w OR push_bit SPI_SLV_STA_LEN_SHIFT max_size;
             w = w\<lparr>s_seq_rx := s_seq_rx w AND NOT SPI_SLV_STA_INIT\<rparr>;
             w = WRITE_PERI_REG p4_SPI_SLV_REG_RXSTA rxsta w
         in (STUB_LIB_OK, w\<lparr>s_rx_armed := True\<rparr>)))"

definition p4_slave_spi_take_rx_frame ::
  "bool \<Rightarrow> 'a slave_spi_world_scheme \<Rightarrow> (bool \<times> u32 option) \<times> 'a slave_spi_world_scheme" where
  "p4_slave_spi_take_rx_frame out_len w =
     (let (v, w) = READ_PERI_REG p4_SPI_SLV_REG_CMD w;
          w = (if v AND 0xFF = SPI_SLV_CMD_READY then WRITE_PERI_REG p4_SPI_SLV_REG_CMD SPI_SLV_CMD_READY w else w);
          (v, w) = READ_PERI_REG (p4_SPI_DMA_INT_RAW_REG p4_SPI_SLV_HOST) w
      in if v AND p4_SPI_SLV_RX_DONE = 0 then ((False, None), w)
         else
           (let (ret, t, w) = stub_target_wait_reg_bit_set p4_AXI_DMA_IN_INT_RAW_CH0_REG p4_AXI_DMA_IN_SUC_EOF_CH0_INT_RAW
                                (Some (ucast SPI_SLV_DMA_DONE_TIMEOUT_US)) w
            in if ret \<noteq> STUB_LIB_OK then ((False, None), w)
               else
                 (let w = WRITE_PERI_REG p4_AXI_DMA_IN_INT_CLR_CH0_REG p4_AXI_DMA_IN_SUC_EOF_CH0_INT_CLR w;
                      w = WRITE_PERI_REG (p4_SPI_DMA_INT_CLR_REG p4_SPI_SLV_HOST) p4_SPI_SLV_RX_DONE_CLR w;
                      w = (if s_rx_buf w \<noteq> 0 then p4_dcache_invalidate (s_rx_buf w) (s_rx_len w) w else w);
                      (len, w) = (if out_len then
                                    (let (v, w) = READ_PERI_REG (p4_SPI_SLAVE1_REG p4_SPI_SLV_HOST) w
                                     in (Some ((v AND p4_SPI_SLV_DATA_BITLEN) div 8), w))
                                  else (None, w))
                  in ((True, len), w\<lparr>s_rx_armed := False\<rparr>))))"

text \<open>The part of a transmission up to the announcement in W2.\<close>

definition p4_spi_slv_tx_start :: "u32 \<Rightarrow> u32 \<Rightarrow> 'a slave_spi_world_scheme \<Rightarrow> 'a slave_spi_world_scheme" where
  "p4_spi_slv_tx_start data len w =
     (let w = WRITE_PERI_REG (p4_SPI_DMA_INT_CLR_REG p4_SPI_SLV_HOST) p4_SPI_SLV_TX_DONE_CLR w;
          w = w\<lparr>s_dmadesc_tx := (s_dmadesc_tx w)\<lparr>d_size := ucast (len AND LLDESC_SPI_SIZE_MASK),
                 d_length := ucast (len AND LLDESC_SPI_SIZE_MASK), d_buf := data, d_sosf := False, d_eof := True,
                 d_owner := True, d_next := None\<rparr>\<rparr>;
          w = p4_dcache_writeback data len w;
          w = p4_dcache_writeback (sym_addr w Sym_dmadesc_tx) 16 w;
          w = SET_PERI_REG_MASK p4_AXI_DMA_OUT_CONF0_CH0_REG p4_AXI_DMA_OUT_RST_CH0 w;
          w = CLEAR_PERI_REG_MASK p4_AXI_DMA_OUT_CONF0_CH0_REG p4_AXI_DMA_OUT_RST_CH0 w;
          w = WRITE_PERI_REG p4_AXI_DMA_OUT_LINK2_CH0_REG (sym_addr w Sym_dmadesc_tx) w;
          w = SET_PERI_REG_MASK p4_AXI_DMA_OUT_LINK1_CH0_REG p4_AXI_DMA_OUTLINK_START_CH0 w;
          w = WRITE_PERI_REG (p4_SPI_DMA_CONF_REG p4_SPI_SLV_HOST) (p4_SPI_DMA_AFIFO_RST OR p4_SPI_BUF_AFIFO_RST OR p4_SPI_RX_AFIFO_RST) w;
          w = SET_PERI_REG_MASK (p4_SPI_DMA_CONF_REG p4_SPI_SLV_HOST) p4_SPI_DMA_TX_ENA w;
          w = w\<lparr>s_seq_tx := s_seq_tx w XOR SPI_SLV_STA_TOGGLE\<rparr>;
          txsta = s_seq_tx w OR push_bit SPI_SLV_STA_LEN_SHIFT len;
          w = w\<lparr>s_seq_tx := s_seq_tx w AND NOT SPI_SLV_STA_INIT\<rparr>
      in WRITE_PERI_REG p4_SPI_SLV_REG_TXSTA txsta w)"

definition p4_slave_spi_tx_frame :: "u32 \<Rightarrow> u32 \<Rightarrow> 'a slave_spi_world_scheme \<Rightarrow> rc \<times> 'a slave_spi_world_scheme" where
  "p4_slave_spi_tx_frame data len w =
     (if len > LLDESC_SPI_MAX_BUFFER_SIZE then (STUB_LIB_ERR_INVALID_ARG, w)
      else
        (let w = p4_spi_slv_tx_start data len w;
             (ret, t, w) = stub_target_wait_reg_bit_set (p4_SPI_DMA_INT_RAW_REG p4_SPI_SLV_HOST) p4_SPI_SLV_TX_DONE
                             (Some (ucast SPI_SLV_TX_TIMEOUT_US)) w
         in if ret \<noteq> STUB_LIB_OK then (STUB_LIB_FAIL, w\<lparr>s_rx_armed := False\<rparr>)
            else
              (let w = WRITE_PERI_REG (p4_SPI_DMA_INT_CLR_REG p4_SPI_SLV_HOST) p4_SPI_SLV_TX_DONE_CLR w;
                   (ret, t, w) = stub_target_wait_reg_bit_set p4_AXI_DMA_OUT_INT_RAW_CH0_REG p4_AXI_DMA_OUT_DONE_CH0_INT_RAW
                                   (Some (ucast SPI_SLV_DMA_DONE_TIMEOUT_US)) w
               in if ret \<noteq> STUB_LIB_OK then (STUB_LIB_FAIL, w\<lparr>s_rx_armed := False\<rparr>)
                  else
                    (let w = WRITE_PERI_REG p4_AXI_DMA_OUT_INT_CLR_CH0_REG p4_AXI_DMA_OUT_DONE_CH0_INT_CLR w
                     in (STUB_LIB_OK, if s_rx_armed w \<and> s_rx_buf w \<noteq> 0 then p4_spi_slv_rxdma_arm (s_rx_buf w) (s_rx_len w) w else w)))))"

definition p4_slave_spi_target :: "'a slave_spi_world_scheme slave_spi_target" where
  "p4_slave_spi_target =
     \<lparr>t_spi_is_active = p4_slave_spi_is_active, t_spi_init = p4_slave_spi_init,
      t_spi_take_rx_frame = p4_slave_spi_take_rx_frame, t_spi_rearm = p4_slave_spi_rearm,
      t_spi_tx_frame = p4_slave_spi_tx_frame\<rparr>"

lemma p4_arm_effect [simp]:
  "writes p4_SPI_SLV_REG_RXSTA (p4_spi_slv_rxdma_arm buf len w) = writes p4_SPI_SLV_REG_RXSTA w"
  "writes p4_SPI_SLV_REG_TXSTA (p4_spi_slv_rxdma_arm buf len w) = writes p4_SPI_SLV_REG_TXSTA w"
  "link_state (p4_spi_slv_rxdma_arm buf len w) = link_state (w\<lparr>s_dmadesc_rx := rx_chain len buf (s_dmadesc_rx w)\<rparr>)"
  by (simp_all add: p4_spi_slv_rxdma_arm_def Let_def peri_eq rx_chain_def regs p4_dcache_writeback_def p4_dcache_invalidate_def p4_dcache_flush_def)

lemmas p4_arm_fields [simp] = link_fields [OF p4_arm_effect(3)]

lemma p4_tx_start [simp]:
  "writes p4_SPI_SLV_REG_RXSTA (p4_spi_slv_tx_start data len w) = writes p4_SPI_SLV_REG_RXSTA w"
  "writes p4_SPI_SLV_REG_TXSTA (p4_spi_slv_tx_start data len w) = writes p4_SPI_SLV_REG_TXSTA w @ [sta_word (s_seq_tx w) len]"
  "link_state (p4_spi_slv_tx_start data len w) = link_state (w\<lparr>s_seq_tx := sta_next (s_seq_tx w)\<rparr>)"
  by (simp_all add: p4_spi_slv_tx_start_def Let_def peri_eq sta_word_def sta_next_def regs link_state_def p4_dcache_writeback_def p4_dcache_invalidate_def p4_dcache_flush_def)

lemmas p4_tx_start_fields [simp] = link_fields [OF p4_tx_start(3)]

lemma p4_slave_regs [simp]:
  "p4_SPI_SLV_REG_RXSTA \<noteq> p4_SPI_SLV_REG_TXSTA" "p4_SPI_SLV_REG_TXSTA \<noteq> p4_SPI_SLV_REG_RXSTA"
  "p4_SPI_SLV_REG_CMD \<noteq> p4_SPI_SLV_REG_RXSTA" "p4_SPI_SLV_REG_CMD \<noteq> p4_SPI_SLV_REG_TXSTA"
  "p4_SPI_DMA_INT_CLR_REG p4_SPI_SLV_HOST \<noteq> p4_SPI_SLV_REG_RXSTA" "p4_SPI_DMA_INT_CLR_REG p4_SPI_SLV_HOST \<noteq> p4_SPI_SLV_REG_TXSTA"
  "p4_INTERRUPT_CORE0_SPI2_INT_MAP_REG \<noteq> p4_SPI_SLV_REG_RXSTA" "p4_INTERRUPT_CORE0_SPI2_INT_MAP_REG \<noteq> p4_SPI_SLV_REG_TXSTA"
  "p4_AXI_DMA_IN_INT_CLR_CH0_REG \<noteq> p4_SPI_SLV_REG_RXSTA" "p4_AXI_DMA_IN_INT_CLR_CH0_REG \<noteq> p4_SPI_SLV_REG_TXSTA"
  "p4_AXI_DMA_OUT_INT_CLR_CH0_REG \<noteq> p4_SPI_SLV_REG_RXSTA" "p4_AXI_DMA_OUT_INT_CLR_CH0_REG \<noteq> p4_SPI_SLV_REG_TXSTA"
  by (simp_all add: regs)

interpretation p4_spi: slave_spi_driver p4_slave_spi_target p4_SPI_SLV_REG_RXSTA p4_SPI_SLV_REG_TXSTA
  by unfold_locales
    (auto simp: p4_slave_spi_target_def p4_slave_spi_init_def p4_slave_spi_rearm_def p4_slave_spi_take_rx_frame_def
      p4_slave_spi_tx_frame_def Let_def peri_eq split_beta clamp_def [symmetric] sta_word_def sta_next_def
      link_state_def p4_dcache_writeback_def p4_dcache_invalidate_def p4_dcache_flush_def split: if_splits)

section \<open>ESP32-S2\<close>

definition s2_SPI_SLV_REG_RXSTA :: u32 where [regs]: "s2_SPI_SLV_REG_RXSTA = s2_SPI_W1_REG"
definition s2_SPI_SLV_REG_TXSTA :: u32 where [regs]: "s2_SPI_SLV_REG_TXSTA = s2_SPI_W2_REG"
definition s2_SPI_SLV_REG_CMD :: u32 where [regs]: "s2_SPI_SLV_REG_CMD = s2_SPI_W3_REG"

definition s2_SPI_SLV_RX_DONE :: u32 where [regs]: "s2_SPI_SLV_RX_DONE = s2_SPI_IN_SUC_EOF_INT_RAW"
definition s2_SPI_SLV_TX_DONE :: u32 where [regs]: "s2_SPI_SLV_TX_DONE = s2_SPI_OUT_TOTAL_EOF_INT_RAW"

definition s2_slave_spi_is_active :: "'a world_scheme \<Rightarrow> bool \<times> 'a world_scheme" where
  "s2_slave_spi_is_active w =
     (let (v, w) = READ_PERI_REG s2_SPI_SLAVE_REG w
      in if v AND s2_SPI_SLAVE_MODE = 0 then (False, w)
         else
           (let (v, w) = READ_PERI_REG s2_SPI_SLV_REG_CMD w; cmd = v AND 0xFF
            in (cmd = SPI_SLV_CMD_READY \<or> cmd = SPI_SLV_CMD_DONE, w)))"

definition s2_slave_spi_init :: "'a slave_spi_world_scheme \<Rightarrow> 'a slave_spi_world_scheme" where
  "s2_slave_spi_init w =
     (let w = WRITE_PERI_REG s2_SPI_DMA_INT_ENA_REG 0 w;
          w = WRITE_PERI_REG s2_SPI_SLV_REG_CMD SPI_SLV_CMD_IDLE w
      in w\<lparr>s_seq_rx := SPI_SLV_STATE_INIT, s_seq_tx := SPI_SLV_STATE_INIT, s_rx_armed := False\<rparr>)"

text \<open>Receiving needs the length rounded up to the next 32-bit boundary.\<close>

definition s2_dma_len :: "u32 \<Rightarrow> u32" where
  "s2_dma_len chunk = (chunk + 3) AND NOT 3"

definition s2_spi_slv_rxdma_arm :: "u32 \<Rightarrow> u32 \<Rightarrow> 'a slave_spi_world_scheme \<Rightarrow> 'a slave_spi_world_scheme" where
  "s2_spi_slv_rxdma_arm buf len w =
     (let w = w\<lparr>s_dmadesc_rx := rx_split s2_dma_len len buf 0 (s_dmadesc_rx w)\<rparr>;
          w = SET_PERI_REG_MASK s2_SPI_DMA_CONF_REG (s2_SPI_AHBM_RST OR s2_SPI_AHBM_FIFO_RST) w;
          w = CLEAR_PERI_REG_MASK s2_SPI_DMA_CONF_REG (s2_SPI_AHBM_RST OR s2_SPI_AHBM_FIFO_RST) w;
          w = SET_PERI_REG_MASK s2_SPI_DMA_CONF_REG s2_SPI_IN_RST w;
          w = CLEAR_PERI_REG_MASK s2_SPI_DMA_CONF_REG s2_SPI_IN_RST w;
          w = WRITE_PERI_REG s2_SPI_DMA_INT_CLR_REG s2_SPI_SLV_RX_DONE w;
          w = WRITE_PERI_REG s2_SPI_DMA_IN_LINK_REG
                ((sym_addr w Sym_dmadesc_rx AND s2_SPI_INLINK_ADDR) OR s2_SPI_DMA_RX_ENA) w
      in SET_PERI_REG_MASK s2_SPI_DMA_IN_LINK_REG s2_SPI_INLINK_START w)"

definition s2_slave_spi_rearm :: "u32 \<Rightarrow> u32 \<Rightarrow> 'a slave_spi_world_scheme \<Rightarrow> rc \<times> 'a slave_spi_world_scheme" where
  "s2_slave_spi_rearm buf max_size w =
     (if s_rx_armed w then (STUB_LIB_OK, w)
      else if buf = 0 \<or> max_size = 0 then (STUB_LIB_ERR_INVALID_ARG, w)
      else
        (let max_size = (if max_size > SPI_SLV_RX_MAX_LEN then SPI_SLV_RX_MAX_LEN else max_size);
             w = s2_spi_slv_rxdma_arm buf max_size w;
             w = w\<lparr>s_rx_buf := buf, s_rx_len := max_size\<rparr>;
             w = w\<lparr>s_seq_rx := s_seq_rx w XOR SPI_SLV_STA_TOGGLE\<rparr>;
             rxsta = s_seq_rx w OR push_bit SPI_SLV_STA_LEN_SHIFT max_size;
             w = w\<lparr>s_seq_rx := s_seq_rx w AND NOT SPI_SLV_STA_INIT\<rparr>;
             w = WRITE_PERI_REG s2_SPI_SLV_REG_RXSTA rxsta w
         in (STUB_LIB_OK, w\<lparr>s_rx_armed := True\<rparr>)))"

definition s2_slave_spi_take_rx_frame ::
  "bool \<Rightarrow> 'a slave_spi_world_scheme \<Rightarrow> (bool \<times> u32 option) \<times> 'a slave_spi_world_scheme" where
  "s2_slave_spi_take_rx_frame out_len w =
     (let (v, w) = READ_PERI_REG s2_SPI_SLV_REG_CMD w;
          w = (if v AND 0xFF = SPI_SLV_CMD_READY then WRITE_PERI_REG s2_SPI_SLV_REG_CMD SPI_SLV_CMD_READY w else w);
          (v, w) = READ_PERI_REG s2_SPI_DMA_INT_RAW_REG w
      in if v AND s2_SPI_SLV_RX_DONE = 0 then ((False, None), w)
         else
           (let w = WRITE_PERI_REG s2_SPI_DMA_INT_CLR_REG s2_SPI_SLV_RX_DONE w;
                (len, w) = (if out_len then
                              (let (v, w) = READ_PERI_REG s2_SPI_SLV_RD_BYTE_REG w
                               in (Some (v AND s2_SPI_SLV_DATA_BYTELEN), w))
                            else (None, w))
            in ((True, len), w\<lparr>s_rx_armed := False\<rparr>)))"

definition s2_spi_slv_tx_start :: "u32 \<Rightarrow> u32 \<Rightarrow> 'a slave_spi_world_scheme \<Rightarrow> 'a slave_spi_world_scheme" where
  "s2_spi_slv_tx_start data len w =
     (let w = WRITE_PERI_REG s2_SPI_DMA_INT_CLR_REG s2_SPI_SLV_TX_DONE w;
          w = w\<lparr>s_dmadesc_tx := (s_dmadesc_tx w)\<lparr>d_size := ucast (len AND LLDESC_SPI_SIZE_MASK),
                 d_length := ucast (len AND LLDESC_SPI_SIZE_MASK), d_buf := data, d_sosf := False, d_eof := True,
                 d_owner := True, d_next := None\<rparr>\<rparr>;
          w = SET_PERI_REG_MASK s2_SPI_DMA_CONF_REG (s2_SPI_AHBM_RST OR s2_SPI_AHBM_FIFO_RST) w;
          w = CLEAR_PERI_REG_MASK s2_SPI_DMA_CONF_REG (s2_SPI_AHBM_RST OR s2_SPI_AHBM_FIFO_RST) w;
          w = SET_PERI_REG_MASK s2_SPI_DMA_CONF_REG s2_SPI_OUT_RST w;
          w = CLEAR_PERI_REG_MASK s2_SPI_DMA_CONF_REG s2_SPI_OUT_RST w;
          w = WRITE_PERI_REG s2_SPI_DMA_OUT_LINK_REG
                ((sym_addr w Sym_dmadesc_tx AND s2_SPI_OUTLINK_ADDR) OR s2_SPI_DMA_TX_ENA) w;
          w = SET_PERI_REG_MASK s2_SPI_DMA_OUT_LINK_REG s2_SPI_OUTLINK_START w;
          w = w\<lparr>s_seq_tx := s_seq_tx w XOR SPI_SLV_STA_TOGGLE\<rparr>;
          txsta = s_seq_tx w OR push_bit SPI_SLV_STA_LEN_SHIFT len;
          w = w\<lparr>s_seq_tx := s_seq_tx w AND NOT SPI_SLV_STA_INIT\<rparr>
      in WRITE_PERI_REG s2_SPI_SLV_REG_TXSTA txsta w)"

definition s2_slave_spi_tx_frame :: "u32 \<Rightarrow> u32 \<Rightarrow> 'a slave_spi_world_scheme \<Rightarrow> rc \<times> 'a slave_spi_world_scheme" where
  "s2_slave_spi_tx_frame data len w =
     (if len > LLDESC_SPI_MAX_BUFFER_SIZE then (STUB_LIB_ERR_INVALID_ARG, w)
      else
        (let w = s2_spi_slv_tx_start data len w;
             (ret, t, w) = stub_target_wait_reg_bit_set s2_SPI_DMA_INT_RAW_REG s2_SPI_SLV_TX_DONE
                             (Some (ucast SPI_SLV_TX_TIMEOUT_US)) w
         in if ret \<noteq> STUB_LIB_OK then (STUB_LIB_FAIL, w\<lparr>s_rx_armed := False\<rparr>)
            else
              (let w = WRITE_PERI_REG s2_SPI_DMA_INT_CLR_REG s2_SPI_SLV_TX_DONE w
               in (STUB_LIB_OK, if s_rx_armed w \<and> s_rx_buf w \<noteq> 0 then s2_spi_slv_rxdma_arm (s_rx_buf w) (s_rx_len w) w else w))))"

definition s2_slave_spi_target :: "'a slave_spi_world_scheme slave_spi_target" where
  "s2_slave_spi_target =
     \<lparr>t_spi_is_active = s2_slave_spi_is_active, t_spi_init = s2_slave_spi_init,
      t_spi_take_rx_frame = s2_slave_spi_take_rx_frame, t_spi_rearm = s2_slave_spi_rearm,
      t_spi_tx_frame = s2_slave_spi_tx_frame\<rparr>"

text \<open>For a buffer of whole words the rounding changes nothing; otherwise the last descriptor exceeds it.\<close>

lemma s2_dma_len_word:
  assumes "4 dvd unat c" "unat c \<le> 4092"
  shows "s2_dma_len c = c"
proof -
  have "unat (c + 3) = unat c + 3" using assms(2) by (simp add: unat_word_ariths)
  moreover have "s2_dma_len c = ALIGN_DOWN (c + 3) 4" by (simp add: s2_dma_len_def ALIGN_DOWN_def)
  moreover have "(unat c + 3) mod 4 = 3" using assms(1) by presburger
  ultimately have "unat (s2_dma_len c) = unat c" by (simp add: unat_ALIGN_DOWN_4)
  then show ?thesis by (simp add: word_unat_eq_iff)
qed

lemma s2_split_words:
  "4 dvd unat remaining \<Longrightarrow> rx_split s2_dma_len remaining p i ds = rx_split (\<lambda>chunk. chunk) remaining p i ds"
proof (induction "\<lambda>chunk. chunk :: u32" remaining p i ds rule: rx_split.induct)
  case (1 remaining p i ds)
  define chunk where "chunk = (if remaining > LLDESC_SPI_MAX_BUFFER_SIZE then LLDESC_SPI_MAX_BUFFER_SIZE else remaining)"
  have c: "unat chunk = min (unat remaining) 4092" by (auto simp: chunk_def regs word_less_nat_alt)
  then have c4: "4 dvd unat chunk" using 1(2) by (auto simp: min_def)
  have le: "chunk \<le> remaining" using c by (simp add: word_le_nat_alt)
  have "rx_desc s2_dma_len remaining chunk p i = rx_desc (\<lambda>chunk. chunk) remaining chunk p i"
    using s2_dma_len_word [OF c4] c by (simp add: rx_desc_def)
  moreover have "4 dvd unat (remaining - chunk)" using 1(2) c4 le by (simp add: unat_sub word_le_nat_alt)
  ultimately show ?case
    using 1(1) [OF _ chunk_def]
    by (subst (1 2) rx_split.simps) (simp add: chunk_def [symmetric] Let_def)
qed

lemma s2_chain: "4 dvd unat len \<Longrightarrow> rx_split s2_dma_len len buf 0 ds = rx_chain len buf ds"
  by (simp add: rx_chain_def s2_split_words)

lemma s2_arm_effect [simp]:
  "writes s2_SPI_SLV_REG_RXSTA (s2_spi_slv_rxdma_arm buf len w) = writes s2_SPI_SLV_REG_RXSTA w"
  "writes s2_SPI_SLV_REG_TXSTA (s2_spi_slv_rxdma_arm buf len w) = writes s2_SPI_SLV_REG_TXSTA w"
  "link_state (s2_spi_slv_rxdma_arm buf len w) = link_state (w\<lparr>s_dmadesc_rx := rx_split s2_dma_len len buf 0 (s_dmadesc_rx w)\<rparr>)"
  by (simp_all add: s2_spi_slv_rxdma_arm_def Let_def peri_eq regs)

lemmas s2_arm_fields [simp] = link_fields [OF s2_arm_effect(3)]

lemma s2_tx_start [simp]:
  "writes s2_SPI_SLV_REG_RXSTA (s2_spi_slv_tx_start data len w) = writes s2_SPI_SLV_REG_RXSTA w"
  "writes s2_SPI_SLV_REG_TXSTA (s2_spi_slv_tx_start data len w) = writes s2_SPI_SLV_REG_TXSTA w @ [sta_word (s_seq_tx w) len]"
  "link_state (s2_spi_slv_tx_start data len w) = link_state (w\<lparr>s_seq_tx := sta_next (s_seq_tx w)\<rparr>)"
  by (simp_all add: s2_spi_slv_tx_start_def Let_def peri_eq sta_word_def sta_next_def regs link_state_def)

lemmas s2_tx_start_fields [simp] = link_fields [OF s2_tx_start(3)]

lemma s2_slave_regs [simp]:
  "s2_SPI_SLV_REG_RXSTA \<noteq> s2_SPI_SLV_REG_TXSTA" "s2_SPI_SLV_REG_TXSTA \<noteq> s2_SPI_SLV_REG_RXSTA"
  "s2_SPI_SLV_REG_CMD \<noteq> s2_SPI_SLV_REG_RXSTA" "s2_SPI_SLV_REG_CMD \<noteq> s2_SPI_SLV_REG_TXSTA"
  "s2_SPI_DMA_INT_CLR_REG \<noteq> s2_SPI_SLV_REG_RXSTA" "s2_SPI_DMA_INT_CLR_REG \<noteq> s2_SPI_SLV_REG_TXSTA"
  "s2_SPI_DMA_INT_ENA_REG \<noteq> s2_SPI_SLV_REG_RXSTA" "s2_SPI_DMA_INT_ENA_REG \<noteq> s2_SPI_SLV_REG_TXSTA"
  by (simp_all add: regs)

interpretation s2_spi: slave_spi_driver s2_slave_spi_target s2_SPI_SLV_REG_RXSTA s2_SPI_SLV_REG_TXSTA
  by unfold_locales
    (auto simp: s2_slave_spi_target_def s2_slave_spi_init_def s2_slave_spi_rearm_def s2_slave_spi_take_rx_frame_def
      s2_slave_spi_tx_frame_def Let_def peri_eq split_beta clamp_def [symmetric] sta_word_def sta_next_def
      link_state_def s2_chain clamp_4 split: if_splits)

section \<open>Properties\<close>

text \<open>The five targets with their status registers.\<close>

definition slave_spi_drivers :: "('a slave_spi_world_scheme slave_spi_target \<times> u32 \<times> u32) list" where
  "slave_spi_drivers =
     [(s3_slave_spi_target, SPI_SLV_REG_RXSTA, SPI_SLV_REG_TXSTA),
      (s2_slave_spi_target, s2_SPI_SLV_REG_RXSTA, s2_SPI_SLV_REG_TXSTA),
      (c2_slave_spi_target, c2_SPI_SLV_REG_RXSTA, c2_SPI_SLV_REG_TXSTA),
      (c3_slave_spi_target, c3_SPI_SLV_REG_RXSTA, c3_SPI_SLV_REG_TXSTA),
      (p4_slave_spi_target, p4_SPI_SLV_REG_RXSTA, p4_SPI_SLV_REG_TXSTA)]"

lemma slave_spi_drivers: "(T, rxsta, txsta) \<in> set slave_spi_drivers \<Longrightarrow> slave_spi_driver T rxsta txsta"
  unfolding slave_spi_drivers_def
  using s3_spi.slave_spi_driver_axioms s2_spi.slave_spi_driver_axioms c2_spi.slave_spi_driver_axioms
    c3_spi.slave_spi_driver_axioms p4_spi.slave_spi_driver_axioms by auto

text \<open>
  C22: In every session through the API with the slave SPI driver of the ESP32-S3, -S2, -C2,
  -C3 or -P4 the values announced to the host in the receive and in the transmit status
  register alternate their toggle bit: the first carries the initial mark as well, and no
  two consecutive announcements have the same low bits, whatever operations, refusals and
  timeouts the session has.
\<close>

lemma spi_handshake_alternates:
  assumes "(T, rxsta, txsta) \<in> set slave_spi_drivers" "spi_session T w0 w" "length (s_dmadesc_rx w0) = 5"
    and "r = rxsta \<or> r = txsta" "k < length (announced r w0 w)"
  shows "announced r w0 w ! k AND 3 = state_bits k"
  by (rule slave_spi_driver.handshake_alternates [OF slave_spi_drivers [OF assms(1)] assms(2-5)])

text \<open>
  C23: Whenever the slave SPI driver of one of these five chips is armed in a session, its
  descriptor chain covers exactly the announced receive buffer: every address once and in
  order, no descriptor over its length field, all owned by the DMA engine and only the last
  one marked as the end.
\<close>

lemma spi_rx_window:
  assumes "(T, rxsta, txsta) \<in> set slave_spi_drivers" "spi_session T w0 w" "length (s_dmadesc_rx w0) = 5"
    and "s_rx_armed w"
  shows "covers (chain 5 (s_dmadesc_rx w) 0) (s_rx_buf w) (s_rx_len w) \<and> unat (s_rx_len w) \<le> 20460"
  by (rule slave_spi_driver.session_window [OF slave_spi_drivers [OF assms(1)] assms(2-4)])

text \<open>
  Arming the idle driver through the API yields a receive window that starts at the
  aligned buffer of the caller and is no longer than the size given, rounded down to the DMA
  alignment.
\<close>

lemma spi_rearm_window:
  assumes "(T, rxsta, txsta) \<in> set slave_spi_drivers"
    and "stub_lib_slave_spi_rearm T buf n w = (STUB_LIB_OK, w')" "\<not> s_rx_armed w"
  shows "s_rx_armed w' \<and> s_rx_buf w' = buf \<and> 4 dvd unat buf \<and> buf \<noteq> 0 \<and>
    0 < unat (s_rx_len w') \<and> unat (s_rx_len w') \<le> unat n - unat n mod 4"
  by (rule slave_spi_driver.api_window [OF slave_spi_drivers [OF assms(1)] assms(2,3)])

text \<open>
  The rounding of the ESP32-S2 makes the driver itself, called without the API, write past a
  buffer that is not a whole number of words.
\<close>

lemma s2_unaligned_overrun:
  "unat (d_length (rx_split s2_dma_len 101 buf 0 [d] ! 0)) = 104"
  by (subst rx_split.simps) (simp add: rx_desc_def s2_dma_len_def regs)

section \<open>Examples\<close>

text \<open>A host that has always finished: every status bit reads as set.\<close>

definition blank_desc :: lldesc_spi where
  "blank_desc = \<lparr>d_size = 0, d_length = 0, d_offset = 0, d_sosf = False, d_eof = False, d_owner = False, d_buf = 0, d_next = None\<rparr>"

definition eager_host :: slave_spi_world where
  "eager_host = \<lparr>rd_dev = \<lambda>_ _. 0xFFFFFFFF, rom_dev = \<lambda>_ _ _ _. (0, []), mem_dev = \<lambda>_ _ _. [], sym_addr = \<lambda>_. 0,
     trace = [], s_dmadesc_tx = blank_desc, s_dmadesc_rx = replicate 5 blank_desc, s_seq_rx = 0, s_seq_tx = 0,
     s_rx_armed = False, s_rx_buf = 0, s_rx_len = 0\<rparr>"

text \<open>Two receive windows, the first of them used, and a frame sent.\<close>

definition host_run :: "slave_spi_world slave_spi_target \<Rightarrow> slave_spi_world" where
  "host_run T = snd (stub_lib_slave_spi_tx_frame T 0x3FC80000 16
     (snd (stub_lib_slave_spi_rearm T 0x3FC90000 9001 (snd (stub_lib_slave_spi_take_rx_frame T True
     (snd (stub_lib_slave_spi_rearm T 0x3FC90000 100 (stub_lib_slave_spi_init T eager_host))))))))"

lemma host_run_session: "spi_session T eager_host (host_run T)"
  unfolding host_run_def by (meson spi_session.intros surjective_pairing)

lemma spi_handshake_alternates_witness:
  "announced s2_SPI_SLV_REG_RXSTA eager_host (host_run s2_slave_spi_target) = [2 + 4 * 100, 1 + 4 * 9000] \<and>
   announced s2_SPI_SLV_REG_RXSTA eager_host (host_run s2_slave_spi_target) ! 1 AND 3 = SPI_SLV_STA_TOGGLE"
proof -
  have a: "announced s2_SPI_SLV_REG_RXSTA eager_host (host_run s2_slave_spi_target) = [2 + 4 * 100, 1 + 4 * 9000]"
    by code_simp
  have m: "(s2_slave_spi_target, s2_SPI_SLV_REG_RXSTA, s2_SPI_SLV_REG_TXSTA) \<in> set slave_spi_drivers"
    by (simp add: slave_spi_drivers_def)
  show ?thesis
    using spi_handshake_alternates [OF m host_run_session, of s2_SPI_SLV_REG_RXSTA 1] a
    by (simp add: eager_host_def state_bits_def)
qed

lemma spi_rx_window_witness:
  "s_rx_armed (host_run p4_slave_spi_target) \<and> covers (chain 5 (s_dmadesc_rx (host_run p4_slave_spi_target)) 0) 0x3FC90000 9000"
proof -
  have "s_rx_armed (host_run p4_slave_spi_target)" "s_rx_buf (host_run p4_slave_spi_target) = 0x3FC90000"
    "s_rx_len (host_run p4_slave_spi_target) = 9000" by code_simp+
  moreover have m: "(p4_slave_spi_target, p4_SPI_SLV_REG_RXSTA, p4_SPI_SLV_REG_TXSTA) \<in> set slave_spi_drivers"
    by (simp add: slave_spi_drivers_def)
  ultimately show ?thesis using spi_rx_window [OF m host_run_session] by (simp add: eager_host_def)
qed

end
