(* ===== verification/C6_Regs.thy ===== *)
theory C6_Regs
  imports Prelude
begin

text \<open>
  The register addresses and bit masks of the ESP32-C6 that its SDIO driver uses, each under
  its C name and with the value its header gives it.
\<close>

section \<open>slc\_reg.h\<close>

definition SDIO_SLCCONF0_REG :: u32 where [regs]: "SDIO_SLCCONF0_REG = 0x60017000"
definition SDIO_SLC0_TX_RST :: u32 where [regs]: "SDIO_SLC0_TX_RST = 0x1"
definition SDIO_SLC0INT_RAW_REG :: u32 where [regs]: "SDIO_SLC0INT_RAW_REG = 0x60017004"
definition SDIO_SLC0INT_ENA_REG :: u32 where [regs]: "SDIO_SLC0INT_ENA_REG = 0x6001700c"
definition SDIO_SLC0INT_CLR_REG :: u32 where [regs]: "SDIO_SLC0INT_CLR_REG = 0x60017010"
definition SDIO_SLC0TX_LINK_REG :: u32 where [regs]: "SDIO_SLC0TX_LINK_REG = 0x60017044"
definition SDIO_SLC0TX_LINK_ADDR_REG :: u32 where [regs]: "SDIO_SLC0TX_LINK_ADDR_REG = 0x60017048"
definition SDIO_SLC0TOKEN1_REG :: u32 where [regs]: "SDIO_SLC0TOKEN1_REG = 0x60017064"
definition SDIO_SLC_RX_DSCR_CONF_REG :: u32 where [regs]: "SDIO_SLC_RX_DSCR_CONF_REG = 0x600170a8"
definition SDIO_SLC0_TOKEN1_WDATA_MASK :: u32 where [regs]: "SDIO_SLC0_TOKEN1_WDATA_MASK = 0xfff"
definition SDIO_SLC0_TOKEN1_WR :: u32 where [regs]: "SDIO_SLC0_TOKEN1_WR = 0x1000"
definition SDIO_SLC0_TOKEN_NO_REPLACE :: u32 where [regs]: "SDIO_SLC0_TOKEN_NO_REPLACE = 0x1"
definition SDIO_SLC0_TXLINK_START :: u32 where [regs]: "SDIO_SLC0_TXLINK_START = 0x20000000"
definition SDIO_SLC0_TX_SUC_EOF_INT :: u32 where [regs]: "SDIO_SLC0_TX_SUC_EOF_INT = 0x8000"
definition SDIO_SLC0_RX_DONE_INT :: u32 where [regs]: "SDIO_SLC0_RX_DONE_INT = 0x10000"
definition SDIO_SLC0_RX_EOF_INT :: u32 where [regs]: "SDIO_SLC0_RX_EOF_INT = 0x20000"
definition SDIO_SLC0_RX_DSCR_EMPTY_INT :: u32 where [regs]: "SDIO_SLC0_RX_DSCR_EMPTY_INT = 0x40000"
definition SDIO_SLC0_TX_DSCR_ERR_INT :: u32 where [regs]: "SDIO_SLC0_TX_DSCR_ERR_INT = 0x80000"
definition SDIO_SLC0_RX_DSCR_ERR_INT :: u32 where [regs]: "SDIO_SLC0_RX_DSCR_ERR_INT = 0x100000"
definition SDIO_SLC0_TX_DSCR_EMPTY_INT :: u32 where [regs]: "SDIO_SLC0_TX_DSCR_EMPTY_INT = 0x200000"

section \<open>slchost\_reg.h\<close>

definition SLCHOST_CONF_W0_REG :: u32 where [regs]: "SLCHOST_CONF_W0_REG = 0x6001806c"

section \<open>interrupt\_matrix\_reg.h\<close>

definition INTMTX_CORE0_SLC0_INTR_MAP_REG :: u32 where [regs]: "INTMTX_CORE0_SLC0_INTR_MAP_REG = 0x60010100"

end
