(* ===== verification/Sdio.thy ===== *)
theory Sdio
  imports Serial Plain C6_Regs
begin

text \<open>
  The SDIO transport: the API of \<open>src/sdio.c\<close> over an arbitrary target, the weak target of
  \<open>src/target/common/src/sdio.c\<close>, and the ESP32-C6's \<open>src/target/esp32c6/src/sdio.c\<close>, whose
  receive path runs in an interrupt. Its DMA descriptors are words of memory the hardware and
  the ROM change as well, so they are cells of the device; \<open>private/rom\_sdio\_types.h\<close> fixes
  their layout and that of the ROM's control block.
\<close>

section \<open>The API and the weak target\<close>

record 'w sdio_target =
  ts_is_active :: "'w \<Rightarrow> bool \<times> 'w"
  ts_init :: "'w \<Rightarrow> 'w"
  ts_take_rx_frame :: "bool \<Rightarrow> 'w \<Rightarrow> (bool \<times> u32 option) \<times> 'w"
  ts_rearm :: "u32 \<Rightarrow> u32 \<Rightarrow> 'w \<Rightarrow> rc \<times> 'w"
  ts_tx_frame :: "u32 \<Rightarrow> u32 \<Rightarrow> 'w \<Rightarrow> rc \<times> 'w"

definition stub_target_sdio_is_active :: "'w \<Rightarrow> bool \<times> 'w" where
  "stub_target_sdio_is_active w = (False, w)"

definition stub_target_sdio_init :: "'w \<Rightarrow> 'w" where
  "stub_target_sdio_init w = w"

definition stub_target_sdio_take_rx_frame :: "bool \<Rightarrow> 'w \<Rightarrow> (bool \<times> u32 option) \<times> 'w" where
  "stub_target_sdio_take_rx_frame out_len w = ((False, None), w)"

definition stub_target_sdio_rearm :: "u32 \<Rightarrow> u32 \<Rightarrow> 'w \<Rightarrow> rc \<times> 'w" where
  "stub_target_sdio_rearm buf max_size w = (STUB_LIB_ERR_NOT_SUPPORTED, w)"

definition stub_target_sdio_tx_frame :: "u32 \<Rightarrow> u32 \<Rightarrow> 'w \<Rightarrow> rc \<times> 'w" where
  "stub_target_sdio_tx_frame data len w = (STUB_LIB_ERR_NOT_SUPPORTED, w)"

definition SDIO_DMA_ALIGN :: u32 where [regs]: "SDIO_DMA_ALIGN = 4"
definition SDIO_DMA_DESC_MAX_LEN :: u32 where [regs]: "SDIO_DMA_DESC_MAX_LEN = 0x3FFF"

definition stub_lib_sdio_is_active :: "'w sdio_target \<Rightarrow> 'w \<Rightarrow> bool \<times> 'w" where
  "stub_lib_sdio_is_active T w = ts_is_active T w"

definition stub_lib_sdio_init :: "'w sdio_target \<Rightarrow> 'w \<Rightarrow> 'w" where
  "stub_lib_sdio_init T w = ts_init T w"

definition stub_lib_sdio_take_rx_frame :: "'w sdio_target \<Rightarrow> bool \<Rightarrow> 'w \<Rightarrow> (bool \<times> u32 option) \<times> 'w" where
  "stub_lib_sdio_take_rx_frame T out_len w = ts_take_rx_frame T out_len w"

definition stub_lib_sdio_rearm :: "'w sdio_target \<Rightarrow> u32 \<Rightarrow> u32 \<Rightarrow> 'w \<Rightarrow> rc \<times> 'w" where
  "stub_lib_sdio_rearm T buf max_size w =
     (if buf = 0 \<or> max_size = 0 \<or> \<not> IS_ALIGNED buf SDIO_DMA_ALIGN then (STUB_LIB_ERR_INVALID_ARG, w)
      else
        (let (ret, w) = ts_rearm T buf max_size w
         in if ret \<noteq> STUB_LIB_OK then (ret, w) else (STUB_LIB_OK, w)))"

definition stub_lib_sdio_tx_frame :: "'w sdio_target \<Rightarrow> u32 \<Rightarrow> u32 \<Rightarrow> 'w \<Rightarrow> rc \<times> 'w" where
  "stub_lib_sdio_tx_frame T data len w =
     (if data = 0 \<or> len = 0 \<or> len > SDIO_DMA_DESC_MAX_LEN \<or> \<not> IS_ALIGNED data SDIO_DMA_ALIGN
      then (STUB_LIB_ERR_INVALID_ARG, w)
      else
        (let (ret, w) = ts_tx_frame T data len w
         in if ret \<noteq> STUB_LIB_OK then (ret, w) else (STUB_LIB_OK, w)))"

section \<open>Descriptors and the control block\<close>

text \<open>
  \<open>lldesc\_t\<close>: a word of bit fields, the first in the lowest bits, the buffer's address and the
  next descriptor's. Assigning to a bit field reads and writes the word.
\<close>

definition lldesc_set_size :: "u32 \<Rightarrow> u32 \<Rightarrow> 'a world_scheme \<Rightarrow> 'a world_scheme" where
  "lldesc_set_size d v w = REG_SET_FIELD d 0x3FFF 0 v w"
definition lldesc_set_length :: "u32 \<Rightarrow> u32 \<Rightarrow> 'a world_scheme \<Rightarrow> 'a world_scheme" where
  "lldesc_set_length d v w = REG_SET_FIELD d 0x3FFF 14 v w"
definition lldesc_set_offset :: "u32 \<Rightarrow> u32 \<Rightarrow> 'a world_scheme \<Rightarrow> 'a world_scheme" where
  "lldesc_set_offset d v w = REG_SET_FIELD d 1 28 v w"
definition lldesc_set_sosf :: "u32 \<Rightarrow> u32 \<Rightarrow> 'a world_scheme \<Rightarrow> 'a world_scheme" where
  "lldesc_set_sosf d v w = REG_SET_FIELD d 1 29 v w"
definition lldesc_set_eof :: "u32 \<Rightarrow> u32 \<Rightarrow> 'a world_scheme \<Rightarrow> 'a world_scheme" where
  "lldesc_set_eof d v w = REG_SET_FIELD d 1 30 v w"
definition lldesc_set_owner :: "u32 \<Rightarrow> u32 \<Rightarrow> 'a world_scheme \<Rightarrow> 'a world_scheme" where
  "lldesc_set_owner d v w = REG_SET_FIELD d 1 31 v w"
definition lldesc_length :: "u32 \<Rightarrow> 'a world_scheme \<Rightarrow> u32 \<times> 'a world_scheme" where
  "lldesc_length d w = REG_GET_FIELD d 0x3FFF 14 w"
definition lldesc_set_buf :: "u32 \<Rightarrow> u32 \<Rightarrow> 'a world_scheme \<Rightarrow> 'a world_scheme" where
  "lldesc_set_buf d v w = REG_WRITE (d + 4) v w"
definition lldesc_set_next :: "u32 \<Rightarrow> u32 \<Rightarrow> 'a world_scheme \<Rightarrow> 'a world_scheme" where
  "lldesc_set_next d v w = REG_WRITE (d + 8) v w"
definition lldesc_next :: "u32 \<Rightarrow> 'a world_scheme \<Rightarrow> u32 \<times> 'a world_scheme" where
  "lldesc_next d w = REG_READ (d + 8) w"

text \<open>
  \<open>sip\_t\<close>: the pointer to the SLC control block at offset 48, whose first and last
  descriptors of the receive direction are at 4 and 12, and the free list at 20 and 24.
\<close>

definition sip_slc :: "u32 \<Rightarrow> 'a world_scheme \<Rightarrow> u32 \<times> 'a world_scheme" where
  "sip_slc sip w = REG_READ (sip + 48) w"
definition slc_set_first_desc_0 :: "u32 \<Rightarrow> u32 \<Rightarrow> 'a world_scheme \<Rightarrow> 'a world_scheme" where
  "slc_set_first_desc_0 slc v w = REG_WRITE (slc + 4) v w"
definition slc_set_last_desc_0 :: "u32 \<Rightarrow> u32 \<Rightarrow> 'a world_scheme \<Rightarrow> 'a world_scheme" where
  "slc_set_last_desc_0 slc v w = REG_WRITE (slc + 12) v w"
definition SIP_SET_FIRST_FREE_TO_HOST_DS :: "u32 \<Rightarrow> u32 \<Rightarrow> 'a world_scheme \<Rightarrow> 'a world_scheme" where
  "SIP_SET_FIRST_FREE_TO_HOST_DS sip v w = REG_WRITE (sip + 20) v w"
definition SIP_SET_LAST_FREE_TO_HOST_DS :: "u32 \<Rightarrow> u32 \<Rightarrow> 'a world_scheme \<Rightarrow> 'a world_scheme" where
  "SIP_SET_LAST_FREE_TO_HOST_DS sip v w = REG_WRITE (sip + 24) v w"

section \<open>The ESP32-C6 driver\<close>

definition SDIO_SLC_INT_CLR_ALL :: u32 where [regs]: "SDIO_SLC_INT_CLR_ALL = 0xFFFFFFFF"
definition SDIO_TX_TIMEOUT_US :: u32 where [regs]: "SDIO_TX_TIMEOUT_US = 1000000"
definition SDIO_SLC_INTERRUPT_NUM :: u32 where [regs]: "SDIO_SLC_INTERRUPT_NUM = 18"
definition SDIO_RX_BLKSZ :: u32 where [regs]: "SDIO_RX_BLKSZ = 512"
definition SDIO_RX_NUM_DESC :: u32 where [regs]: "SDIO_RX_NUM_DESC = 33"

record sdio_world = world +
  sd_rx_armed :: bool
  sd_rx_frame_ready :: bool
  sd_rx_received_len :: u32
  sd_sip :: u32

definition rx_desc_addr :: "'a world_scheme \<Rightarrow> u32 \<Rightarrow> u32" where
  "rx_desc_addr w i = sym_addr w Sym_sdio_rx_desc + 12 * i"

definition sdio_set_rx_credits :: "u32 \<Rightarrow> 'a world_scheme \<Rightarrow> 'a world_scheme" where
  "sdio_set_rx_credits credits w =
     REG_WRITE SDIO_SLC0TOKEN1_REG (SDIO_SLC0_TOKEN1_WR OR (credits AND SDIO_SLC0_TOKEN1_WDATA_MASK)) w"

definition sdio_reset_from_host_window :: "'a sdio_world_scheme \<Rightarrow> 'a sdio_world_scheme" where
  "sdio_reset_from_host_window w =
     (let w = REG_SET_BIT SDIO_SLCCONF0_REG SDIO_SLC0_TX_RST w;
          w = REG_CLR_BIT SDIO_SLCCONF0_REG SDIO_SLC0_TX_RST w;
          w = REG_WRITE SDIO_SLC0INT_CLR_REG
                (SDIO_SLC0_TX_SUC_EOF_INT OR SDIO_SLC0_TX_DSCR_ERR_INT OR SDIO_SLC0_TX_DSCR_EMPTY_INT) w;
          (slc, w) = sip_slc (sd_sip w) w;
          w = slc_set_first_desc_0 slc 0 w;
          (slc, w) = sip_slc (sd_sip w) w;
          w = slc_set_last_desc_0 slc 0 w
      in w\<lparr>sd_rx_armed := False\<rparr>)"

text \<open>One round of the loop that builds the chain.\<close>

definition sdio_arm_desc :: "u32 \<Rightarrow> u32 \<Rightarrow> nat \<Rightarrow> 'a world_scheme \<Rightarrow> 'a world_scheme" where
  "sdio_arm_desc buf rx_desc_count k w =
     (let i = of_nat k; desc = rx_desc_addr w i;
          w = lldesc_set_size desc SDIO_RX_BLKSZ w;
          w = lldesc_set_length desc 0 w;
          w = lldesc_set_offset desc 0 w;
          w = lldesc_set_sosf desc 0 w;
          w = lldesc_set_eof desc 0 w;
          w = lldesc_set_owner desc 1 w;
          w = lldesc_set_buf desc (buf + of_nat k * SDIO_RX_BLKSZ) w
      in lldesc_set_next desc (if i + 1 < rx_desc_count then rx_desc_addr w (i + 1) else 0) w)"

text \<open>
  What \<open>stub\_target\_sdio\_rearm\<close> does after its guards, step by step: the chain, its address,
  the start of the DMA, the credits of the host, and the note that the driver is armed. The
  receive interrupt is enabled and can come between any two of them.
\<close>

definition run_steps :: "('w \<Rightarrow> 'w) list \<Rightarrow> 'w \<Rightarrow> 'w" where
  "run_steps steps w = fold (\<lambda>step w. step w) steps w"

definition sdio_rearm_steps :: "u32 \<Rightarrow> u32 \<Rightarrow> ('a sdio_world_scheme \<Rightarrow> 'a sdio_world_scheme) list" where
  "sdio_rearm_steps buf rx_desc_count =
     map (sdio_arm_desc buf rx_desc_count) [0..<unat rx_desc_count] @
     [\<lambda>w. REG_WRITE SDIO_SLC0TX_LINK_ADDR_REG (rx_desc_addr w 0) w,
      \<lambda>w. REG_SET_BIT SDIO_SLC0TX_LINK_REG SDIO_SLC0_TXLINK_START w,
      \<lambda>w. sdio_set_rx_credits rx_desc_count w,
      \<lambda>w. w\<lparr>sd_rx_armed := True\<rparr>]"

definition rx_desc_count_of :: "u32 \<Rightarrow> u32" where
  "rx_desc_count_of max_size =
     (let n = max_size div SDIO_RX_BLKSZ in if n > SDIO_RX_NUM_DESC then SDIO_RX_NUM_DESC else n)"

definition c6_sdio_rearm :: "u32 \<Rightarrow> u32 \<Rightarrow> 'a sdio_world_scheme \<Rightarrow> rc \<times> 'a sdio_world_scheme" where
  "c6_sdio_rearm buf max_size w =
     (if sd_rx_armed w then (STUB_LIB_OK, w)
      else if sd_rx_frame_ready w then (STUB_LIB_FAIL, w)
      else
        (let rx_desc_count = rx_desc_count_of max_size
         in if rx_desc_count = 0 then (STUB_LIB_ERR_INVALID_ARG, w)
            else (STUB_LIB_OK, run_steps (sdio_rearm_steps buf rx_desc_count) w)))"

text \<open>The walk over the received chain; None when it never ends.\<close>

partial_function (option) sdio_chain_len ::
  "u32 \<Rightarrow> u32 \<Rightarrow> u32 \<Rightarrow> 'a world_scheme \<Rightarrow> (u32 \<times> 'a world_scheme) option" where
  "sdio_chain_len cur known_tail len w =
     (if cur = 0 then Some (len, w)
      else
        (let (chunk_len, w) = lldesc_length cur w; len = len + chunk_len
         in if cur = known_tail then Some (len, w)
            else (let (nxt, w) = lldesc_next cur w in sdio_chain_len nxt known_tail len w)))"

declare sdio_chain_len.simps [code]

definition sdio_process_from_host :: "u32 \<Rightarrow> u32 \<Rightarrow> 'a sdio_world_scheme \<Rightarrow> 'a sdio_world_scheme option" where
  "sdio_process_from_host head known_tail w = do {
     (len, w) \<leftarrow> sdio_chain_len head known_tail 0 w;
     let w = w\<lparr>sd_rx_received_len := len\<rparr>;
     let w = w\<lparr>sd_rx_frame_ready := True\<rparr>;
     Some (sdio_reset_from_host_window w) }"

text \<open>
  The interrupt service routine. When the ROM stores no pointers, \<open>head\<close> and \<open>tail\<close> are
  uninitialised: None.
\<close>

definition sdio_slc_isr :: "'a sdio_world_scheme \<Rightarrow> 'a sdio_world_scheme option" where
  "sdio_slc_isr w =
     (let (raw, w) = REG_READ SDIO_SLC0INT_RAW_REG w
      in do {
        w \<leftarrow>
          (if raw AND SDIO_SLC0_TX_SUC_EOF_INT \<noteq> 0 then
             (let w = REG_WRITE SDIO_SLC0INT_CLR_REG SDIO_SLC0_TX_SUC_EOF_INT w;
                  ((r, out), w) = rom_call (SdioFn Slc_from_host_chain_fetch) [] [] w
              in if length out \<noteq> 8 then None
                 else
                   (let head = stored_u32 (take 4 out) 0; tail = stored_u32 (drop 4 out) 0
                    in if head = 0 then Some (w\<lparr>sd_rx_armed := False\<rparr>)
                       else sdio_process_from_host head tail (lldesc_set_eof tail 0 w)))
           else Some w);
        let w = (if raw AND SDIO_SLC0_TX_DSCR_ERR_INT \<noteq> 0
                 then REG_WRITE SDIO_SLC0INT_CLR_REG SDIO_SLC0_TX_DSCR_ERR_INT w else w);
        let w = (if raw AND SDIO_SLC0_RX_DSCR_ERR_INT \<noteq> 0
                 then REG_WRITE SDIO_SLC0INT_CLR_REG SDIO_SLC0_RX_DSCR_ERR_INT w else w);
        Some (if raw AND SDIO_SLC0_TX_DSCR_EMPTY_INT \<noteq> 0
              then sdio_reset_from_host_window (REG_WRITE SDIO_SLC0INT_CLR_REG SDIO_SLC0_TX_DSCR_EMPTY_INT w) else w) })"

definition c6_sdio_take_rx_frame :: "bool \<Rightarrow> 'a sdio_world_scheme \<Rightarrow> (bool \<times> u32 option) \<times> 'a sdio_world_scheme" where
  "c6_sdio_take_rx_frame out_len w =
     (if \<not> sd_rx_frame_ready w then ((False, None), w)
      else
        (let len = (if out_len then Some (sd_rx_received_len w) else None)
         in ((True, len), w\<lparr>sd_rx_frame_ready := False\<rparr>)))"

definition c6_sdio_is_active :: "'a world_scheme \<Rightarrow> bool \<times> 'a world_scheme" where
  "c6_sdio_is_active w = (let (r, w) = rom_num (SdioFn Sip_download_begin) [] [] w in (r \<noteq> 0, w))"

definition c6_sdio_init :: "'a sdio_world_scheme \<Rightarrow> 'a sdio_world_scheme" where
  "c6_sdio_init w =
     (let (sip, w) = rom_num (SdioFn Sip_get_ptr) [] [] w;
          w = w\<lparr>sd_sip := sip\<rparr>;
          w = sdio_reset_from_host_window w;
          w = REG_SET_BIT SDIO_SLC_RX_DSCR_CONF_REG SDIO_SLC0_TOKEN_NO_REPLACE w;
          w = sdio_set_rx_credits 0 w;
          w = w\<lparr>sd_rx_armed := False, sd_rx_frame_ready := False, sd_rx_received_len := 0\<rparr>;
          w = REG_WRITE SDIO_SLC0INT_ENA_REG 0 w;
          w = REG_WRITE SDIO_SLC0INT_CLR_REG SDIO_SLC_INT_CLR_ALL w;
          w = WRITE_PERI_REG INTMTX_CORE0_SLC0_INTR_MAP_REG SDIO_SLC_INTERRUPT_NUM w;
          w = rom_void (SdioFn Esp_rom_esprv_intc_int_set_priority) [SDIO_SLC_INTERRUPT_NUM, 1] [] w;
          w = rom_void (IoFn Esp_rom_isr_attach) [SDIO_SLC_INTERRUPT_NUM, sym_addr w Sym_sdio_isr, 0] [] w;
          w = rom_void (IoFn Esp_rom_isr_unmask) [BIT (unat SDIO_SLC_INTERRUPT_NUM)] [] w
      in REG_WRITE SDIO_SLC0INT_ENA_REG
           (SDIO_SLC0_TX_SUC_EOF_INT OR SDIO_SLC0_TX_DSCR_ERR_INT OR SDIO_SLC0_TX_DSCR_EMPTY_INT) w)"

definition sdio_wait_tx_done :: "'a world_scheme \<Rightarrow> bool \<times> 'a world_scheme" where
  "sdio_wait_tx_done w =
     (let (wait_res, t, w) = stub_target_wait_reg_bit_set SDIO_SLC0INT_RAW_REG
                               (SDIO_SLC0_RX_EOF_INT OR SDIO_SLC0_RX_DSCR_ERR_INT) (Some (ucast SDIO_TX_TIMEOUT_US)) w
      in if wait_res \<noteq> STUB_LIB_OK then (False, w)
         else
           (let (raw, w) = REG_READ SDIO_SLC0INT_RAW_REG w
            in if raw AND SDIO_SLC0_RX_EOF_INT \<noteq> 0 then
                 (let w = REG_WRITE SDIO_SLC0INT_CLR_REG
                            (SDIO_SLC0_RX_DONE_INT OR SDIO_SLC0_RX_EOF_INT OR SDIO_SLC0_RX_DSCR_EMPTY_INT) w
                  in (True, rom_void (SdioFn Slc_to_host_chain_recycle) [] [] w))
               else if raw AND SDIO_SLC0_RX_DSCR_ERR_INT \<noteq> 0 then
                 (False, REG_WRITE SDIO_SLC0INT_CLR_REG SDIO_SLC0_RX_DSCR_ERR_INT w)
               else (False, w)))"

definition c6_sdio_tx_frame :: "u32 \<Rightarrow> u32 \<Rightarrow> 'a sdio_world_scheme \<Rightarrow> rc \<times> 'a sdio_world_scheme" where
  "c6_sdio_tx_frame data len w =
     (let desc = sym_addr w Sym_sdio_tx_desc;
          w = lldesc_set_size desc (len AND SDIO_DMA_DESC_MAX_LEN) w;
          w = lldesc_set_length desc (len AND SDIO_DMA_DESC_MAX_LEN) w;
          w = lldesc_set_offset desc 0 w;
          w = lldesc_set_sosf desc 0 w;
          w = lldesc_set_eof desc 1 w;
          w = lldesc_set_owner desc 1 w;
          w = lldesc_set_buf desc data w;
          w = lldesc_set_next desc 0 w;
          w = REG_WRITE SDIO_SLC0INT_CLR_REG
                (SDIO_SLC0_RX_DONE_INT OR SDIO_SLC0_RX_EOF_INT OR SDIO_SLC0_RX_DSCR_EMPTY_INT OR SDIO_SLC0_RX_DSCR_ERR_INT) w;
          w = REG_WRITE SLCHOST_CONF_W0_REG len w;
          w = rom_void (SdioFn Slc_send_to_host_chain) [desc, desc] [] w;
          (ok, w) = sdio_wait_tx_done w;
          w = SIP_SET_FIRST_FREE_TO_HOST_DS (sd_sip w) 0 w;
          w = SIP_SET_LAST_FREE_TO_HOST_DS (sd_sip w) 0 w
      in (if ok then STUB_LIB_OK else STUB_LIB_FAIL, w))"

definition c6_sdio_target :: "'a sdio_world_scheme sdio_target" where
  "c6_sdio_target = \<lparr>ts_is_active = c6_sdio_is_active, ts_init = c6_sdio_init,
     ts_take_rx_frame = c6_sdio_take_rx_frame, ts_rearm = c6_sdio_rearm, ts_tx_frame = c6_sdio_tx_frame\<rparr>"

section \<open>The receive state\<close>

lemma sdio_after [simp]:
  "sd_rx_armed (after w es) = sd_rx_armed w" "sd_rx_frame_ready (after w es) = sd_rx_frame_ready w"
  "sd_rx_received_len (after w es) = sd_rx_received_len w" "sd_sip (after w es) = sd_sip w"
  by (simp_all add: after_def)

lemma evs_flags:
  assumes "evs w w'"
  shows "sd_rx_armed w' = sd_rx_armed w" "sd_rx_frame_ready w' = sd_rx_frame_ready w"
    "sd_rx_received_len w' = sd_rx_received_len w"
  using assms by (auto simp: evs_def elim!: emitsE)

lemma evs_desc [evs_rules]:
  "evs w u \<Longrightarrow> evs w (lldesc_set_size d v u)" "evs w u \<Longrightarrow> evs w (lldesc_set_length d v u)"
  "evs w u \<Longrightarrow> evs w (lldesc_set_offset d v u)" "evs w u \<Longrightarrow> evs w (lldesc_set_sosf d v u)"
  "evs w u \<Longrightarrow> evs w (lldesc_set_eof d v u)" "evs w u \<Longrightarrow> evs w (lldesc_set_owner d v u)"
  "evs w u \<Longrightarrow> evs w (lldesc_set_buf d v u)" "evs w u \<Longrightarrow> evs w (lldesc_set_next d v u)"
  "evs w u \<Longrightarrow> evs w (snd (lldesc_length d u))" "evs w u \<Longrightarrow> evs w (snd (lldesc_next d u))"
  "evs w u \<Longrightarrow> evs w (sdio_set_rx_credits n u)" "evs w u \<Longrightarrow> evs w (snd (sip_slc p u))"
  "evs w u \<Longrightarrow> evs w (slc_set_first_desc_0 p v u)" "evs w u \<Longrightarrow> evs w (slc_set_last_desc_0 p v u)"
  "evs w u \<Longrightarrow> evs w (SIP_SET_FIRST_FREE_TO_HOST_DS p v u)" "evs w u \<Longrightarrow> evs w (SIP_SET_LAST_FREE_TO_HOST_DS p v u)"
  by (simp_all add: lldesc_set_size_def lldesc_set_length_def lldesc_set_offset_def lldesc_set_sosf_def
      lldesc_set_eof_def lldesc_set_owner_def lldesc_set_buf_def lldesc_set_next_def lldesc_length_def
      lldesc_next_def sdio_set_rx_credits_def sip_slc_def slc_set_first_desc_0_def slc_set_last_desc_0_def
      SIP_SET_FIRST_FREE_TO_HOST_DS_def SIP_SET_LAST_FREE_TO_HOST_DS_def REG_GET_FIELD_def split_beta evs_rules)

lemma evs_arm [evs_rules]: "evs w u \<Longrightarrow> evs w (sdio_arm_desc buf n k u)"
  by (simp add: sdio_arm_desc_def Let_def evs_rules)

text \<open>The steps before the last, together.\<close>

definition sdio_start_rx :: "u32 \<Rightarrow> u32 \<Rightarrow> 'a world_scheme \<Rightarrow> 'a world_scheme" where
  "sdio_start_rx buf rx_desc_count w =
     (let w = fold (sdio_arm_desc buf rx_desc_count) [0..<unat rx_desc_count] w;
          w = REG_WRITE SDIO_SLC0TX_LINK_ADDR_REG (rx_desc_addr w 0) w;
          w = REG_SET_BIT SDIO_SLC0TX_LINK_REG SDIO_SLC0_TXLINK_START w
      in sdio_set_rx_credits rx_desc_count w)"

lemma run_steps_simps [simp]:
  "run_steps [] w = w" "run_steps (f # fs) w = run_steps fs (f w)" "run_steps (fs @ gs) w = run_steps gs (run_steps fs w)"
  by (simp_all add: run_steps_def)

lemma run_rearm_steps: "run_steps (sdio_rearm_steps buf n) w = (sdio_start_rx buf n w)\<lparr>sd_rx_armed := True\<rparr>"
  by (simp add: sdio_rearm_steps_def sdio_start_rx_def Let_def) (simp add: run_steps_def fold_map comp_def)

lemma c6_sdio_rearm_eq:
  "c6_sdio_rearm buf n w =
     (if sd_rx_armed w then (STUB_LIB_OK, w) else if sd_rx_frame_ready w then (STUB_LIB_FAIL, w)
      else if rx_desc_count_of n = 0 then (STUB_LIB_ERR_INVALID_ARG, w)
      else (STUB_LIB_OK, (sdio_start_rx buf (rx_desc_count_of n) w)\<lparr>sd_rx_armed := True\<rparr>))"
  by (simp add: c6_sdio_rearm_def Let_def run_rearm_steps)

text \<open>Any run of them but the last only adds events.\<close>

lemma evs_rearm_steps:
  assumes "sdio_rearm_steps buf n = xs @ ys" "ys \<noteq> []"
  shows "\<exists>u. evs w u \<and> run_steps ys w = u\<lparr>sd_rx_armed := True\<rparr>"
proof -
  let ?last = "\<lambda>w. w\<lparr>sd_rx_armed := True\<rparr>"
  have s: "butlast (sdio_rearm_steps buf n) = xs @ butlast ys" "last (sdio_rearm_steps buf n) = last ys"
    using assms by (simp_all add: butlast_append)
  have "\<forall>f\<in>set (xs @ butlast ys). \<forall>w. evs w (f w)"
    unfolding s(1) [symmetric] by (auto simp: sdio_rearm_steps_def butlast_append intro: evs_rules evs_refl)
  then have all: "\<forall>f\<in>set (butlast ys). \<forall>w. evs w (f w)" by auto
  have "evs w (run_steps fs u)" if "\<forall>f\<in>set fs. \<forall>w. evs w (f w)" "evs w u" for fs u
    using that by (induction fs arbitrary: u) (auto dest: evs_trans)
  then have "evs w (run_steps (butlast ys) w)" using all evs_refl by blast
  moreover have "run_steps ys w = last ys (run_steps (butlast ys) w)"
    using assms(2) run_steps_simps(3) [of "butlast ys" "[last ys]" w] by simp
  moreover have "last ys = ?last" unfolding s(2) [symmetric] by (simp add: sdio_rearm_steps_def)
  ultimately show ?thesis by auto
qed

lemma evs_start: "evs w (sdio_start_rx buf n w)"
proof -
  have "evs w (fold (sdio_arm_desc buf n) ks u)" if "evs w u" for ks u
    using that by (induction ks arbitrary: u) (simp_all add: evs_rules)
  from this [OF evs_refl] show ?thesis by (simp add: sdio_start_rx_def Let_def evs_rules)
qed

text \<open>A reset of the window disarms the driver and touches nothing else of its state.\<close>

lemma reset_flags:
  "\<not> sd_rx_armed (sdio_reset_from_host_window w)"
  "sd_rx_frame_ready (sdio_reset_from_host_window w) = sd_rx_frame_ready w"
  "sd_rx_received_len (sdio_reset_from_host_window w) = sd_rx_received_len w"
  by (simp_all add: sdio_reset_from_host_window_def sip_slc_def slc_set_first_desc_0_def slc_set_last_desc_0_def
      Let_def prim_eq)

lemma process_flags:
  assumes "sdio_process_from_host h t w = Some w'"
  shows "\<not> sd_rx_armed w' \<and> sd_rx_frame_ready w'"
  using assms by (auto simp: sdio_process_from_host_def reset_flags split: Option.bind_splits prod.splits)

text \<open>The routine's four parts; only the first can set the flag that a frame is ready.\<close>

lemma isr_flags:
  assumes "sdio_slc_isr w = Some w'" "\<not> (sd_rx_armed w \<and> sd_rx_frame_ready w)"
  shows "\<not> (sd_rx_armed w' \<and> sd_rx_frame_ready w')"
proof -
  define raw where "raw = peek (Mmio SDIO_SLC0INT_RAW_REG) w"
  define w1 where "w1 = snd (REG_READ SDIO_SLC0INT_RAW_REG w)"
  define eof where "eof u = (if raw AND SDIO_SLC0_TX_SUC_EOF_INT \<noteq> 0 then
             (let w = REG_WRITE SDIO_SLC0INT_CLR_REG SDIO_SLC0_TX_SUC_EOF_INT u;
                  ((r, out), w) = rom_call (SdioFn Slc_from_host_chain_fetch) [] [] w
              in if length out \<noteq> 8 then None
                 else
                   (let head = stored_u32 (take 4 out) 0; tail = stored_u32 (drop 4 out) 0
                    in if head = 0 then Some (w\<lparr>sd_rx_armed := False\<rparr>)
                       else sdio_process_from_host head tail (lldesc_set_eof tail 0 w)))
           else Some u)" for u :: "'a sdio_world_scheme"
  have w1: "sd_rx_armed w1 = sd_rx_armed w" "sd_rx_frame_ready w1 = sd_rx_frame_ready w"
    by (simp_all add: w1_def REG_READ_eq)
  obtain w2 where w2: "eof w1 = Some w2" and w': "w' = (let
      w = (if raw AND SDIO_SLC0_TX_DSCR_ERR_INT \<noteq> 0 then REG_WRITE SDIO_SLC0INT_CLR_REG SDIO_SLC0_TX_DSCR_ERR_INT w2 else w2);
      w = (if raw AND SDIO_SLC0_RX_DSCR_ERR_INT \<noteq> 0 then REG_WRITE SDIO_SLC0INT_CLR_REG SDIO_SLC0_RX_DSCR_ERR_INT w else w)
      in if raw AND SDIO_SLC0_TX_DSCR_EMPTY_INT \<noteq> 0
         then sdio_reset_from_host_window (REG_WRITE SDIO_SLC0INT_CLR_REG SDIO_SLC0_TX_DSCR_EMPTY_INT w) else w)"
  proof -
    have "sdio_slc_isr w = eof w1 \<bind> (\<lambda>w2. Some (let
      w = (if raw AND SDIO_SLC0_TX_DSCR_ERR_INT \<noteq> 0 then REG_WRITE SDIO_SLC0INT_CLR_REG SDIO_SLC0_TX_DSCR_ERR_INT w2 else w2);
      w = (if raw AND SDIO_SLC0_RX_DSCR_ERR_INT \<noteq> 0 then REG_WRITE SDIO_SLC0INT_CLR_REG SDIO_SLC0_RX_DSCR_ERR_INT w else w)
      in if raw AND SDIO_SLC0_TX_DSCR_EMPTY_INT \<noteq> 0
         then sdio_reset_from_host_window (REG_WRITE SDIO_SLC0INT_CLR_REG SDIO_SLC0_TX_DSCR_EMPTY_INT w) else w))"
      unfolding sdio_slc_isr_def eof_def raw_def w1_def REG_READ_eq Let_def split_conv snd_conv ..
    then show ?thesis using assms(1) that by (auto split: Option.bind_splits)
  qed
  have "\<not> (sd_rx_armed w2 \<and> sd_rx_frame_ready w2)"
  proof (cases "raw AND SDIO_SLC0_TX_SUC_EOF_INT = 0")
    case True
    then show ?thesis using w2 w1 assms(2) by (simp add: eof_def)
  next
    case False
    then show ?thesis using w2 process_flags
      by (auto simp: eof_def Let_def rom_eq split: if_splits prod.splits)
  qed
  then show ?thesis by (simp add: w' Let_def reset_flags REG_WRITE_eq)
qed

text \<open>
  The states a driver can be in after an initialisation, with interrupts between the calls;
  \<open>isr\<close> is its interrupt routine.
\<close>

inductive sdio_session ::
  "'w sdio_target \<Rightarrow> ('w \<Rightarrow> 'w option) \<Rightarrow> 'w \<Rightarrow> 'w \<Rightarrow> bool" for T isr w0 where
  init: "sdio_session T isr w0 (ts_init T w0)"
| rearm: "sdio_session T isr w0 w \<Longrightarrow> ts_rearm T buf n w = (ret, w') \<Longrightarrow> sdio_session T isr w0 w'"
| take: "sdio_session T isr w0 w \<Longrightarrow> ts_take_rx_frame T ol w = (res, w') \<Longrightarrow> sdio_session T isr w0 w'"
| tx: "sdio_session T isr w0 w \<Longrightarrow> ts_tx_frame T data len w = (ret, w') \<Longrightarrow> sdio_session T isr w0 w'"
| interrupt: "sdio_session T isr w0 w \<Longrightarrow> isr w = Some w' \<Longrightarrow> sdio_session T isr w0 w'"

lemma init_flags: "\<not> sd_rx_armed (c6_sdio_init w)" "\<not> sd_rx_frame_ready (c6_sdio_init w)"
proof -
  have "\<exists>u. evs (u\<lparr>sd_rx_armed := False, sd_rx_frame_ready := False, sd_rx_received_len := 0\<rparr>) (c6_sdio_init w)"
    unfolding c6_sdio_init_def Let_def split_beta peri_eq by (rule exI, (intro evs_rules)?, rule evs_refl)
  then show "\<not> sd_rx_armed (c6_sdio_init w)" "\<not> sd_rx_frame_ready (c6_sdio_init w)" using evs_flags(1,2) by fastforce+
qed

lemma tx_flags:
  assumes "c6_sdio_tx_frame data len w = (ret, w')"
  shows "evs w w'"
proof -
  have e: "evs w (snd (sdio_wait_tx_done u))" if "evs w u" for u
  proof -
    obtain res t v where q: "stub_target_wait_reg_bit_set SDIO_SLC0INT_RAW_REG
        (SDIO_SLC0_RX_EOF_INT OR SDIO_SLC0_RX_DSCR_ERR_INT) (Some (ucast SDIO_TX_TIMEOUT_US)) u = (res, t, v)"
      by (metis prod_cases3)
    obtain es where "v = after u es" by (rule wait_bit_waits [OF q])
    then have "evs w v" using that by (simp add: evs_after)
    then show ?thesis by (simp add: sdio_wait_tx_done_def q Let_def split_beta evs_rules)
  qed
  have "evs w (snd (c6_sdio_tx_frame data len w))"
    unfolding c6_sdio_tx_frame_def Let_def split_beta snd_conv by (intro evs_rules e)
  then show ?thesis using assms by simp
qed

lemma evs_devs:
  "evs w w' \<Longrightarrow> rd_dev w' = rd_dev w" "evs w w' \<Longrightarrow> rom_dev w' = rom_dev w" "evs w w' \<Longrightarrow> sym_addr w' = sym_addr w"
  by (auto simp: evs_def elim!: emitsE)

lemma init_devs:
  "rd_dev (c6_sdio_init w) = rd_dev w" "rom_dev (c6_sdio_init w) = rom_dev w" "sym_addr (c6_sdio_init w) = sym_addr w"
proof -
  have r: "rd_dev (sdio_reset_from_host_window u) = rd_dev u" "rom_dev (sdio_reset_from_host_window u) = rom_dev u"
    "sym_addr (sdio_reset_from_host_window u) = sym_addr u" for u :: "'b sdio_world_scheme"
    by (simp_all add: sdio_reset_from_host_window_def sip_slc_def slc_set_first_desc_0_def slc_set_last_desc_0_def Let_def prim_eq)
  show "rd_dev (c6_sdio_init w) = rd_dev w" "rom_dev (c6_sdio_init w) = rom_dev w" "sym_addr (c6_sdio_init w) = sym_addr w"
    by (simp_all add: c6_sdio_init_def Let_def split_beta r sdio_set_rx_credits_def prim_eq rom_void_eq rom_num_eq emit_after)
qed

text \<open>
  While a frame waits to be taken, the driver is not armed; what counts of the initialisation
  is that it leaves both flags clear.
\<close>

lemma session_flags:
  assumes "sdio_session T isr w0 w"
    and ops: "ts_rearm T = c6_sdio_rearm" "ts_take_rx_frame T = c6_sdio_take_rx_frame"
      "ts_tx_frame T = c6_sdio_tx_frame" "isr = sdio_slc_isr"
    and flags: "\<And>w. \<not> sd_rx_armed (ts_init T w) \<and> \<not> sd_rx_frame_ready (ts_init T w)"
  shows "\<not> (sd_rx_armed w \<and> sd_rx_frame_ready w)"
  using assms(1)
proof induction
  case init
  then show ?case using flags by simp
next
  case (rearm w buf n ret w')
  then show ?case
    using evs_flags [OF evs_start, of buf "rx_desc_count_of n" w] by (auto simp: ops c6_sdio_rearm_eq Let_def split: if_splits)
next
  case (take w ol res w')
  then show ?case by (auto simp: ops c6_sdio_take_rx_frame_def split: if_splits)
next
  case (tx w data len ret w')
  then show ?case using evs_flags [OF tx_flags] unfolding ops by metis
next
  case (interrupt w w')
  from isr_flags [OF interrupt.hyps(2) [unfolded ops] interrupt.IH] show ?case .
qed

section \<open>The length of a frame\<close>

text \<open>
  The descriptors of a received frame, as the ROM's chain in memory has them: distinct cells
  that hold their values, each pointing to the next, and the last one known as the tail.
\<close>

fun linked :: "'a world_scheme \<Rightarrow> u32 \<Rightarrow> u32 list \<Rightarrow> bool" where
  "linked w tail [] \<longleftrightarrow> False"
| "linked w tail [d] \<longleftrightarrow> d = tail \<and> d \<noteq> 0 \<and> plain w (Mmio d)"
| "linked w tail (d # e # ds) \<longleftrightarrow> d \<noteq> tail \<and> d \<noteq> 0 \<and> plain w (Mmio d) \<and> plain w (Mmio (d + 8)) \<and> d + 8 \<noteq> tail \<and>
     peek (Mmio (d + 8)) w = e \<and> linked w tail (e # ds)"

definition desc_len :: "'a world_scheme \<Rightarrow> u32 \<Rightarrow> u32" where
  "desc_len w d = drop_bit 14 (peek (Mmio d) w) AND 0x3FFF"

lemma linked_keeps:
  "linked w tail ds \<Longrightarrow> list_all (\<lambda>e. \<forall>d\<in>set ds. keeps (Mmio (d + 8)) e \<or> d = tail) es \<Longrightarrow> linked (after w es) tail ds"
proof (induction w tail ds rule: linked.induct)
  case (3 w tail d e ds)
  then have "peek (Mmio (d + 8)) (after w es) = peek (Mmio (d + 8)) w"
    by (intro peek_keeps) (auto simp: list_all_iff)
  then show ?case using 3 by (auto simp: list_all_iff)
qed auto

lemma linked_cells: "linked w tail ds \<Longrightarrow> d \<in> set ds \<Longrightarrow> plain w (Mmio d)"
  by (induction w tail ds rule: linked.induct) auto

lemma chain_len_sum:
  "linked w tail ds \<Longrightarrow> \<exists>w'. sdio_chain_len (hd ds) tail len w = Some (len + sum_list (map (desc_len w) ds), w')"
proof (induction ds arbitrary: len w)
  case (Cons d ds)
  let ?u = "after w [Rd (Mmio d) (peek (Mmio d) w)]"
  have nz: "d \<noteq> 0" using Cons.prems by (cases ds) auto
  have l: "lldesc_length d w = (desc_len w d, ?u)" by (simp add: lldesc_length_def REG_GET_eq desc_len_def)
  show ?case
  proof (cases ds)
    case Nil
    then show ?thesis using Cons.prems nz by (subst sdio_chain_len.simps) (auto simp: lldesc_length_def REG_GET_eq desc_len_def)
  next
    case (Cons e es)
    let ?v = "after ?u [Rd (Mmio (d + 8)) (peek (Mmio (d + 8)) ?u)]"
    have p: "peek (Mmio (d + 8)) ?u = e"
      using Cons.prems peek_keeps [of w "Mmio (d + 8)" "[Rd (Mmio d) (peek (Mmio d) w)]"] Cons by simp
    have lk: "linked ?v tail ds"
      using Cons.prems Cons linked_keeps [of w tail ds "[Rd (Mmio d) (peek (Mmio d) w), Rd (Mmio (d + 8)) (peek (Mmio (d + 8)) ?u)]"]
      by simp
    have same: "desc_len ?v x = desc_len w x" if "x \<in> set ds" for x
    proof -
      have "linked w tail ds" using Cons.prems Cons by simp
      then have "plain w (Mmio x)" using that by (rule linked_cells)
      then show ?thesis unfolding desc_len_def after_after by (subst peek_keeps) simp_all
    qed
    obtain w' where "sdio_chain_len (hd ds) tail (len + desc_len w d) ?v =
        Some (len + desc_len w d + sum_list (map (desc_len ?v) ds), w')"
      using Cons.IH [OF lk] by blast
    moreover have "map (desc_len ?v) ds = map (desc_len w) ds" using same by simp
    moreover have "sdio_chain_len d tail len w = sdio_chain_len (hd ds) tail (len + desc_len w d) ?v"
      using Cons.prems nz Cons p by (subst sdio_chain_len.simps) (simp add: l lldesc_next_def REG_READ_eq)
    ultimately show ?thesis by (intro exI [of _ w']) (simp only: list.sel list.map sum_list.Cons add.assoc)
  qed
qed simp

text \<open>Clearing the tail's \<open>eof\<close> bit leaves every length of the chain as it was.\<close>

lemma linked_distinct: "linked w tail ds \<Longrightarrow> d \<in> set ds \<Longrightarrow> d = tail \<or> d + 8 \<noteq> tail"
  by (induction w tail ds rule: linked.induct) auto

lemma clear_bit_length:
  "drop_bit 14 ((v AND NOT (push_bit 30 k)) OR push_bit 30 (0 AND k)) AND 0x3FFF = drop_bit 14 v AND (0x3FFF :: u32)"
proof -
  have "drop_bit 14 ((v AND NOT (push_bit 30 k)) OR push_bit 30 (0 AND k)) AND mask 14 = drop_bit 14 v AND (mask 14 :: u32)"
    by (rule bit_word_eqI) (auto simp: bit_simps)
  then show ?thesis by (simp add: mask_eq_exp_minus_1)
qed

lemma eof_keeps_len:
  assumes "linked w tail ds"
  shows "linked (lldesc_set_eof tail 0 w) tail ds \<and>
    map (desc_len (lldesc_set_eof tail 0 w)) ds = map (desc_len w) ds"
proof -
  let ?v = "peek (Mmio tail) w"
  let ?x = "(?v AND NOT (push_bit 30 1)) OR push_bit 30 (0 AND 1)"
  have u: "lldesc_set_eof tail 0 w = after w [Rd (Mmio tail) ?v, Wr (Mmio tail) ?x]"
    by (simp add: lldesc_set_eof_def rmw_eq)
  have "linked (lldesc_set_eof tail 0 w) tail ds"
    unfolding u using linked_distinct [OF assms] by (intro linked_keeps [OF assms]) fastforce
  moreover have "desc_len (lldesc_set_eof tail 0 w) d = desc_len w d" if "d \<in> set ds" for d
  proof -
    have p: "plain w (Mmio d)" using assms that by (rule linked_cells)
    show ?thesis
    proof (cases "d = tail")
      case True
      have "drop_bit 14 ?x AND 0x3FFF = drop_bit 14 ?v AND 0x3FFF" by (rule clear_bit_length)
      moreover have "peek (Mmio tail) (lldesc_set_eof tail 0 w) = ?x"
        unfolding u using peek_written [of w "Mmio tail" "[]" "[Rd (Mmio tail) ?v]" ?x] p True by simp
      ultimately show ?thesis by (simp add: desc_len_def True)
    next
      case False
      then show ?thesis using peek_keeps [OF p, of "[Rd (Mmio tail) ?v, Wr (Mmio tail) ?x]"] by (simp add: desc_len_def u)
    qed
  qed
  ultimately show ?thesis by simp
qed

text \<open>The pointers the interrupt routine gets from the ROM, and the world after that call.\<close>

definition sdio_fetched :: "'a sdio_world_scheme \<Rightarrow> (u32 \<times> u32 \<times> 'a sdio_world_scheme) option" where
  "sdio_fetched w =
     (let w = REG_WRITE SDIO_SLC0INT_CLR_REG SDIO_SLC0_TX_SUC_EOF_INT (snd (REG_READ SDIO_SLC0INT_RAW_REG w));
          ((r, out), w) = rom_call (SdioFn Slc_from_host_chain_fetch) [] [] w
      in if length out = 8 then Some (stored_u32 (take 4 out) 0, stored_u32 (drop 4 out) 0, w) else None)"

lemma process_received:
  assumes "linked w tail ds" "hd ds = head"
  shows "\<exists>w'. sdio_process_from_host head tail (lldesc_set_eof tail 0 w) = Some w' \<and> sd_rx_frame_ready w' \<and>
    \<not> sd_rx_armed w' \<and> sd_rx_received_len w' = sum_list (map (desc_len w) ds)"
proof -
  let ?u = "lldesc_set_eof tail 0 w"
  have e: "linked ?u tail ds" "map (desc_len ?u) ds = map (desc_len w) ds" using eof_keeps_len [OF assms(1)] by simp_all
  obtain v where "sdio_chain_len head tail 0 ?u = Some (sum_list (map (desc_len w) ds), v)"
    using chain_len_sum [OF e(1), of 0] assms(2) by (auto simp: e(2))
  then show ?thesis by (simp add: sdio_process_from_host_def reset_flags)
qed

lemma isr_after_eof:
  assumes "peek (Mmio SDIO_SLC0INT_RAW_REG) w AND SDIO_SLC0_TX_SUC_EOF_INT \<noteq> 0"
    and "sdio_fetched w = Some (head, tail, v)" "head \<noteq> 0" "sdio_process_from_host head tail (lldesc_set_eof tail 0 v) = Some u"
  obtains w' where "sdio_slc_isr w = Some w'" "sd_rx_frame_ready w' = sd_rx_frame_ready u"
    "sd_rx_armed w' = (sd_rx_armed u \<and> sd_rx_armed w')" "sd_rx_received_len w' = sd_rx_received_len u"
proof -
  let ?raw = "peek (Mmio SDIO_SLC0INT_RAW_REG) w"
  define w3 where "w3 = (if ?raw AND SDIO_SLC0_TX_DSCR_ERR_INT \<noteq> 0 then REG_WRITE SDIO_SLC0INT_CLR_REG SDIO_SLC0_TX_DSCR_ERR_INT u else u)"
  define w4 where "w4 = (if ?raw AND SDIO_SLC0_RX_DSCR_ERR_INT \<noteq> 0 then REG_WRITE SDIO_SLC0INT_CLR_REG SDIO_SLC0_RX_DSCR_ERR_INT w3 else w3)"
  have w4: "sd_rx_frame_ready w4 = sd_rx_frame_ready u" "sd_rx_armed w4 = sd_rx_armed u" "sd_rx_received_len w4 = sd_rx_received_len u"
    by (simp_all add: w4_def w3_def REG_WRITE_eq)
  have "sdio_slc_isr w = Some (if ?raw AND SDIO_SLC0_TX_DSCR_EMPTY_INT \<noteq> 0
      then sdio_reset_from_host_window (REG_WRITE SDIO_SLC0INT_CLR_REG SDIO_SLC0_TX_DSCR_EMPTY_INT w4) else w4)"
    using assms by (auto simp: sdio_slc_isr_def sdio_fetched_def REG_READ_eq Let_def w4_def w3_def split: prod.splits if_splits)
  then show ?thesis by (rule that) (auto simp: w4 reset_flags REG_WRITE_eq)
qed

lemma c6_frame_length:
  assumes "peek (Mmio SDIO_SLC0INT_RAW_REG) w AND SDIO_SLC0_TX_SUC_EOF_INT \<noteq> 0"
    and "sdio_fetched w = Some (head, tail, v)" "linked v tail (head # ds)"
  shows "\<exists>w'. sdio_slc_isr w = Some w' \<and> \<not> sd_rx_armed w' \<and>
    fst (stub_lib_sdio_take_rx_frame c6_sdio_target True w') = (True, Some (sum_list (map (desc_len v) (head # ds))))"
proof -
  obtain u where u: "sdio_process_from_host head tail (lldesc_set_eof tail 0 v) = Some u" "sd_rx_frame_ready u"
    "\<not> sd_rx_armed u" "sd_rx_received_len u = sum_list (map (desc_len v) (head # ds))"
    using process_received [OF assms(3)] by auto
  have "head \<noteq> 0" using assms(3) by (cases ds) auto
  from isr_after_eof [OF assms(1,2) this u(1)] u(2-4) show ?thesis
    by (auto simp: stub_lib_sdio_take_rx_frame_def c6_sdio_target_def c6_sdio_take_rx_frame_def)
qed

section \<open>The chain the driver arms\<close>

definition set_field :: "u32 \<Rightarrow> nat \<Rightarrow> u32 \<Rightarrow> u32 \<Rightarrow> u32" where
  "set_field fV fS x v = (v AND NOT (push_bit fS fV)) OR push_bit fS (x AND fV)"

text \<open>Events that read anything and write one descriptor only.\<close>

definition desc_ev :: "u32 \<Rightarrow> ev \<Rightarrow> bool" where
  "desc_ev d e \<longleftrightarrow> (case e of Rd c v \<Rightarrow> True | Wr c v \<Rightarrow> c \<in> {Mmio d, Mmio (d + 4), Mmio (d + 8)} | _ \<Rightarrow> False)"

lemma desc_ev_keeps: "list_all (desc_ev d) es \<Longrightarrow> c \<notin> {Mmio d, Mmio (d + 4), Mmio (d + 8)} \<Longrightarrow> list_all (keeps c) es"
  by (auto simp: list_all_iff desc_ev_def keeps_def split: ev.splits)

lemma desc_ev_written: "list_all (desc_ev d) es \<Longrightarrow> r \<notin> {d, d + 4, d + 8} \<Longrightarrow> written r es = []"
  by (induction es) (auto simp: desc_ev_def written_def split: ev.splits)

lemma set_field_plain:
  assumes "plain w (Mmio d)" "list_all (desc_ev d) es"
  obtains fs where "REG_SET_FIELD d fV fS x (after w es) = after w fs" "list_all (desc_ev d) fs"
    "peek (Mmio d) (after w fs) = set_field fV fS x (peek (Mmio d) (after w es))"
proof -
  let ?v = "peek (Mmio d) (after w es)"
  let ?fs = "es @ [Rd (Mmio d) ?v, Wr (Mmio d) (set_field fV fS x ?v)]"
  have "peek (Mmio d) (after w ?fs) = set_field fV fS x ?v"
    using peek_written [OF assms(1), of "[]" "es @ [Rd (Mmio d) ?v]" "set_field fV fS x ?v"] by simp
  then show thesis by (intro that [of ?fs]) (simp_all add: rmw_eq set_field_def desc_ev_def assms(2))
qed

lemma bit_set_field:
  "bit (set_field (mask n) s x v) i \<longleftrightarrow> i < 32 \<and> (if s \<le> i \<and> i < s + n then bit x (i - s) else bit v i)"
  unfolding set_field_def by (auto simp: bit_simps dest: bit_imp_le_length)

lemma six_fields:
  "set_field (mask 1) 31 own (set_field (mask 1) 30 0 (set_field (mask 1) 29 0 (set_field (mask 1) 28 0
     (set_field (mask 14) 14 0 (set_field (mask 14) 0 sz v))))) = push_bit 31 (own AND mask 1) OR (sz AND mask 14)"
proof (rule bit_word_eqI)
  fix i :: nat
  assume "i < LENGTH(32)"
  then consider "i < 14" | "14 \<le> i" "i < 28" | "i = 28" | "i = 29" | "i = 30" | "i = 31" by fastforce
  then show "bit (set_field (mask 1) 31 own (set_field (mask 1) 30 0 (set_field (mask 1) 29 0 (set_field (mask 1) 28 0
     (set_field (mask 14) 14 0 (set_field (mask 14) 0 sz v)))))) i = bit (push_bit 31 (own AND mask 1) OR (sz AND mask 14)) i"
    unfolding bit_set_field by cases (auto simp: bit_simps)
qed

text \<open>A free descriptor of one block: owned by the DMA engine, 512 bytes large, all else zero.\<close>

lemma six_fields_value:
  "set_field 1 31 1 (set_field 1 30 0 (set_field 1 29 0 (set_field 1 28 0
     (set_field 0x3FFF 14 0 (set_field 0x3FFF 0 SDIO_RX_BLKSZ v))))) = 0x80000200"
  using six_fields [where own = 1 and sz = SDIO_RX_BLKSZ and v = v] by (simp add: mask_eq_exp_minus_1 regs)

lemma arm_desc_effect:
  fixes w :: "'a world_scheme"
  defines "d k \<equiv> rx_desc_addr w (of_nat k)"
  assumes "plain w (Mmio (d k))" "plain w (Mmio (d k + 4))" "plain w (Mmio (d k + 8))"
  obtains es where "sdio_arm_desc buf n k w = after w es" "list_all (desc_ev (d k)) es"
    "peek (Mmio (d k)) (after w es) = 0x80000200" "peek (Mmio (d k + 4)) (after w es) = buf + of_nat k * SDIO_RX_BLKSZ"
    "peek (Mmio (d k + 8)) (after w es) = (if of_nat k + 1 < n then rx_desc_addr w (of_nat k + 1) else 0)"
proof -
  note step = set_field_plain [OF assms(2)]
  obtain e1 where 1: "lldesc_set_size (d k) SDIO_RX_BLKSZ w = after w e1" "list_all (desc_ev (d k)) e1"
    "peek (Mmio (d k)) (after w e1) = set_field 0x3FFF 0 SDIO_RX_BLKSZ (peek (Mmio (d k)) w)"
    using step [where es = "[]" and fV = "0x3FFF" and fS = 0 and x = SDIO_RX_BLKSZ] by (auto simp: lldesc_set_size_def)
  obtain e2 where 2: "lldesc_set_length (d k) 0 (after w e1) = after w e2" "list_all (desc_ev (d k)) e2"
    "peek (Mmio (d k)) (after w e2) = set_field 0x3FFF 14 0 (peek (Mmio (d k)) (after w e1))"
    using step [OF 1(2), where fV = "0x3FFF" and fS = 14 and x = 0] by (auto simp: lldesc_set_length_def)
  obtain e3 where 3: "lldesc_set_offset (d k) 0 (after w e2) = after w e3" "list_all (desc_ev (d k)) e3"
    "peek (Mmio (d k)) (after w e3) = set_field 1 28 0 (peek (Mmio (d k)) (after w e2))"
    using step [OF 2(2), where fV = 1 and fS = 28 and x = 0] by (auto simp: lldesc_set_offset_def)
  obtain e4 where 4: "lldesc_set_sosf (d k) 0 (after w e3) = after w e4" "list_all (desc_ev (d k)) e4"
    "peek (Mmio (d k)) (after w e4) = set_field 1 29 0 (peek (Mmio (d k)) (after w e3))"
    using step [OF 3(2), where fV = 1 and fS = 29 and x = 0] by (auto simp: lldesc_set_sosf_def)
  obtain e5 where 5: "lldesc_set_eof (d k) 0 (after w e4) = after w e5" "list_all (desc_ev (d k)) e5"
    "peek (Mmio (d k)) (after w e5) = set_field 1 30 0 (peek (Mmio (d k)) (after w e4))"
    using step [OF 4(2), where fV = 1 and fS = 30 and x = 0] by (auto simp: lldesc_set_eof_def)
  obtain e6 where 6: "lldesc_set_owner (d k) 1 (after w e5) = after w e6" "list_all (desc_ev (d k)) e6"
    "peek (Mmio (d k)) (after w e6) = set_field 1 31 1 (peek (Mmio (d k)) (after w e5))"
    using step [OF 5(2), where fV = 1 and fS = 31 and x = 1] by (auto simp: lldesc_set_owner_def)
  define b where "b = buf + of_nat k * SDIO_RX_BLKSZ"
  define q where "q = (if of_nat k + 1 < n then rx_desc_addr w (of_nat k + 1) else 0)"
  define es where "es = e6 @ [Wr (Mmio (d k + 4)) b, Wr (Mmio (d k + 8)) q]"
  have v: "peek (Mmio (d k)) (after w e6) = 0x80000200"
    using six_fields_value by (simp add: 1(3) 2(3) 3(3) 4(3) 5(3) 6(3))
  have "sdio_arm_desc buf n k w = after w es"
    by (simp add: sdio_arm_desc_def Let_def flip: d_def)
      (simp add: 1(1) 2(1) 3(1) 4(1) 5(1) 6(1) lldesc_set_buf_def lldesc_set_next_def REG_WRITE_eq rx_desc_addr_def
        es_def b_def q_def)
  moreover have "list_all (desc_ev (d k)) es" using 6(2) by (simp add: es_def desc_ev_def)
  moreover have "peek (Mmio (d k)) (after w es) = 0x80000200"
    using peek_keeps [of "after w e6" "Mmio (d k)" "[Wr (Mmio (d k + 4)) b, Wr (Mmio (d k + 8)) q]"] assms v by (simp add: es_def)
  moreover have "peek (Mmio (d k + 4)) (after w es) = b"
    using peek_written [of w "Mmio (d k + 4)" "[Wr (Mmio (d k + 8)) q]" e6 b] assms by (simp add: es_def)
  moreover have "peek (Mmio (d k + 8)) (after w es) = q"
    using peek_written [of w "Mmio (d k + 8)" "[]" "e6 @ [Wr (Mmio (d k + 4)) b]" q] assms by (simp add: es_def)
  ultimately show thesis using that unfolding b_def q_def by blast
qed

text \<open>
  The receive descriptors are where they can be: ordinary memory below the peripherals, each
  word of it holding what was last written.
\<close>

definition sdio_placed :: "'a world_scheme \<Rightarrow> bool" where
  "sdio_placed w \<longleftrightarrow> unat (sym_addr w Sym_sdio_rx_desc) + 396 \<le> 0x60000000 \<and>
     (\<forall>a. unat a < 0x60000000 \<longrightarrow> plain w (Mmio a))"

lemma desc_below:
  assumes "sdio_placed w" "k < 33" "c < 12"
  shows "unat (rx_desc_addr w (of_nat k) + of_nat c) = unat (sym_addr w Sym_sdio_rx_desc) + 12 * k + c"
    "unat (rx_desc_addr w (of_nat k) + of_nat c) < 0x60000000"
proof -
  have e: "rx_desc_addr w (of_nat k) + of_nat c = sym_addr w Sym_sdio_rx_desc + of_nat (12 * k + c)"
    by (simp add: rx_desc_addr_def)
  have "unat (of_nat (12 * k + c) :: u32) = 12 * k + c" using assms(2,3) by (intro unat_of_nat32) simp
  then show u: "unat (rx_desc_addr w (of_nat k) + of_nat c) = unat (sym_addr w Sym_sdio_rx_desc) + 12 * k + c"
    using assms unfolding e by (subst unat_add_lt32) (simp_all add: sdio_placed_def)
  then show "unat (rx_desc_addr w (of_nat k) + of_nat c) < 0x60000000"
    using assms by (simp add: sdio_placed_def)
qed

lemma desc_plain:
  assumes "sdio_placed w" "k < 33"
  shows "plain w (Mmio (rx_desc_addr w (of_nat k)))" "plain w (Mmio (rx_desc_addr w (of_nat k) + 4))"
    "plain w (Mmio (rx_desc_addr w (of_nat k) + 8))"
  using desc_below(2) [OF assms, of 0] desc_below(2) [OF assms, of 4] desc_below(2) [OF assms, of 8] assms(1)
  by (simp_all add: sdio_placed_def)

lemma desc_apart:
  assumes "sdio_placed w" "j < 33" "k < 33" "j \<noteq> k" "a < 12" "b < 12"
  shows "rx_desc_addr w (of_nat j) + of_nat a \<noteq> rx_desc_addr w (of_nat k) + of_nat b"
proof
  assume "rx_desc_addr w (of_nat j) + of_nat a = rx_desc_addr w (of_nat k) + of_nat b"
  then have "12 * j + a = 12 * k + b"
    using desc_below(1) [OF assms(1,2,5)] desc_below(1) [OF assms(1,3,6)] by simp
  then show False using assms(4-6) by presburger
qed

lemma desc_cells_apart:
  assumes "sdio_placed w" "j < 33" "k < 33" "j \<noteq> k"
  shows "{rx_desc_addr w (of_nat j), rx_desc_addr w (of_nat j) + 4, rx_desc_addr w (of_nat j) + 8} \<inter>
    {rx_desc_addr w (of_nat k), rx_desc_addr w (of_nat k) + 4, rx_desc_addr w (of_nat k) + 8} = {}"
  using desc_apart [OF assms, of 0 0] desc_apart [OF assms, of 0 4] desc_apart [OF assms, of 0 8]
    desc_apart [OF assms, of 4 0] desc_apart [OF assms, of 4 4] desc_apart [OF assms, of 4 8]
    desc_apart [OF assms, of 8 0] desc_apart [OF assms, of 8 4] desc_apart [OF assms, of 8 8] by auto

text \<open>Descriptor k of an armed chain of n, as the DMA engine finds it in memory.\<close>

definition desc_free :: "'a world_scheme \<Rightarrow> u32 \<Rightarrow> u32 \<Rightarrow> nat \<Rightarrow> bool" where
  "desc_free w buf n k \<longleftrightarrow> (let d = rx_desc_addr w (of_nat k)
     in peek (Mmio d) w = 0x80000200 \<and> peek (Mmio (d + 4)) w = buf + of_nat k * SDIO_RX_BLKSZ \<and>
        peek (Mmio (d + 8)) w = (if of_nat k + 1 < n then rx_desc_addr w (of_nat k + 1) else 0))"

lemma rx_desc_addr_after [simp]: "rx_desc_addr (after w es) k = rx_desc_addr w k"
  by (simp add: rx_desc_addr_def)

lemma sdio_placed_after [simp]: "sdio_placed (after w es) = sdio_placed w"
  by (simp add: sdio_placed_def)

lemma desc_free_keeps:
  assumes "sdio_placed w" "k < 33" "desc_free w buf n k"
    and "\<And>c. c \<in> {rx_desc_addr w (of_nat k), rx_desc_addr w (of_nat k) + 4, rx_desc_addr w (of_nat k) + 8} \<Longrightarrow>
      list_all (keeps (Mmio c)) es"
  shows "desc_free (after w es) buf n k"
  using assms(3) peek_keeps [OF desc_plain(1) [OF assms(1,2)] assms(4)] peek_keeps [OF desc_plain(2) [OF assms(1,2)] assms(4)]
    peek_keeps [OF desc_plain(3) [OF assms(1,2)] assms(4)]
  by (simp add: desc_free_def Let_def)

lemma arm_desc_free:
  assumes "sdio_placed w" "k < 33"
  shows "\<exists>fs. sdio_arm_desc buf n k w = after w fs \<and> list_all (desc_ev (rx_desc_addr w (of_nat k))) fs \<and>
    desc_free (after w fs) buf n k"
proof -
  obtain es where "sdio_arm_desc buf n k w = after w es" "list_all (desc_ev (rx_desc_addr w (of_nat k))) es"
    "peek (Mmio (rx_desc_addr w (of_nat k))) (after w es) = 0x80000200"
    "peek (Mmio (rx_desc_addr w (of_nat k) + 4)) (after w es) = buf + of_nat k * SDIO_RX_BLKSZ"
    "peek (Mmio (rx_desc_addr w (of_nat k) + 8)) (after w es) = (if of_nat k + 1 < n then rx_desc_addr w (of_nat k + 1) else 0)"
    by (rule arm_desc_effect [OF desc_plain [OF assms]])
  then show ?thesis by (intro exI [of _ es]) (simp add: desc_free_def Let_def)
qed

lemma arm_all:
  assumes "sdio_placed w" "m \<le> 33"
  shows "\<exists>es. fold (sdio_arm_desc buf n) [0..<m] w = after w es \<and>
    list_all (\<lambda>e. \<exists>k<m. desc_ev (rx_desc_addr w (of_nat k)) e) es \<and> (\<forall>k<m. desc_free (after w es) buf n k)"
  using assms(2)
proof (induction m)
  case 0
  then show ?case by (intro exI [of _ "[]"]) simp
next
  case (Suc m)
  then obtain es where es: "fold (sdio_arm_desc buf n) [0..<m] w = after w es"
    "list_all (\<lambda>e. \<exists>k<m. desc_ev (rx_desc_addr w (of_nat k)) e) es" "\<forall>k<m. desc_free (after w es) buf n k" by auto
  have m: "m < 33" using Suc.prems by simp
  obtain fs where fs: "sdio_arm_desc buf n m (after w es) = after w (es @ fs)" "list_all (desc_ev (rx_desc_addr w (of_nat m))) fs"
    "desc_free (after w (es @ fs)) buf n m"
    using arm_desc_free [of "after w es" m buf n] assms(1) m unfolding after_after rx_desc_addr_after sdio_placed_after by blast
  have "desc_free (after w (es @ fs)) buf n k" if "k < m" for k
  proof -
    have "desc_free (after (after w es) fs) buf n k"
    proof (rule desc_free_keeps)
      fix c
      assume "c \<in> {rx_desc_addr (after w es) (of_nat k), rx_desc_addr (after w es) (of_nat k) + 4, rx_desc_addr (after w es) (of_nat k) + 8}"
      then show "list_all (keeps (Mmio c)) fs"
        using desc_cells_apart [OF assms(1), of k m] that m by (intro desc_ev_keeps [OF fs(2)]) auto
    qed (use that m es(3) assms(1) in auto)
    then show ?thesis by simp
  qed
  then have "\<forall>k<Suc m. desc_free (after w (es @ fs)) buf n k" using fs(3) by (auto simp: less_Suc_eq)
  moreover have "list_all (\<lambda>e. \<exists>k<Suc m. desc_ev (rx_desc_addr w (of_nat k)) e) (es @ fs)"
    using es(2) fs(2) by (auto simp: list_all_iff less_Suc_eq)
  ultimately show ?case using es(1) fs(1) by (intro exI [of _ "es @ fs"]) simp
qed

lemma count_of:
  "unat (rx_desc_count_of n) = min 33 (unat n div 512)" "rx_desc_count_of n = of_nat (min 33 (unat n div 512))"
proof -
  show u: "unat (rx_desc_count_of n) = min 33 (unat n div 512)"
    by (auto simp: rx_desc_count_of_def regs Let_def unat_div word_less_nat_alt word_le_nat_alt min_def)
  show "rx_desc_count_of n = of_nat (min 33 (unat n div 512))" by (simp flip: u)
qed

lemma above: "0x60000000 \<le> unat r \<Longrightarrow> sdio_placed w \<Longrightarrow> k < 33 \<Longrightarrow>
  r \<notin> {rx_desc_addr w (of_nat k), rx_desc_addr w (of_nat k) + 4, rx_desc_addr w (of_nat k) + 8}"
  using desc_below(2) [of w k 0] desc_below(2) [of w k 4] desc_below(2) [of w k 8] by auto

lemma start_effect:
  fixes w :: "'a world_scheme" and n :: u32
  assumes "sdio_placed w" "unat c \<le> 33"
  shows "\<exists>es. sdio_start_rx buf c w = after w es \<and> (\<forall>k<unat c. desc_free (after w es) buf c k) \<and>
    written SDIO_SLC0TX_LINK_ADDR_REG es = [rx_desc_addr w 0] \<and>
    written SDIO_SLC0TOKEN1_REG es = [SDIO_SLC0_TOKEN1_WR OR (c AND 0xFFF)]"
proof -
  obtain es where es: "fold (sdio_arm_desc buf c) [0..<unat c] w = after w es"
    "list_all (\<lambda>e. \<exists>k<unat c. desc_ev (rx_desc_addr w (of_nat k)) e) es" "\<forall>k<unat c. desc_free (after w es) buf c k"
    using arm_all [OF assms] by blast
  define x where "x = peek (Mmio SDIO_SLC0TX_LINK_REG) (after w (es @ [Wr (Mmio SDIO_SLC0TX_LINK_ADDR_REG) (rx_desc_addr w 0)]))"
  define fs where "fs = [Wr (Mmio SDIO_SLC0TX_LINK_ADDR_REG) (rx_desc_addr w 0), Rd (Mmio SDIO_SLC0TX_LINK_REG) x,
    Wr (Mmio SDIO_SLC0TX_LINK_REG) (x OR SDIO_SLC0_TXLINK_START),
    Wr (Mmio SDIO_SLC0TOKEN1_REG) (SDIO_SLC0_TOKEN1_WR OR (c AND SDIO_SLC0_TOKEN1_WDATA_MASK))]"
  have r: "sdio_start_rx buf c w = after w (es @ fs)"
    by (simp add: sdio_start_rx_def Let_def es(1) REG_WRITE_eq rmw_eq sdio_set_rx_credits_def fs_def x_def)
  have no: "written r es = []" if "0x60000000 \<le> unat r" for r
    using es(2)
  proof (induction es)
    case (Cons e es)
    then obtain k where "k < unat c" and ev: "desc_ev (rx_desc_addr w (of_nat k)) e" by auto
    then have "k < 33" using assms(2) by simp
    then have "written r [e] = []" using desc_ev_written [of "rx_desc_addr w (of_nat k)" "[e]" r] above [OF that assms(1)] ev by simp
    then show ?case using Cons by (simp add: written_def)
  qed simp
  have "desc_free (after (after w es) fs) buf c k" if "k < unat c" for k
  proof (rule desc_free_keeps)
    fix a
    assume "a \<in> {rx_desc_addr (after w es) (of_nat k), rx_desc_addr (after w es) (of_nat k) + 4, rx_desc_addr (after w es) (of_nat k) + 8}"
    moreover have "SDIO_SLC0TX_LINK_ADDR_REG \<noteq> a \<and> SDIO_SLC0TX_LINK_REG \<noteq> a \<and> SDIO_SLC0TOKEN1_REG \<noteq> a"
      if "a \<in> {rx_desc_addr w (of_nat k), rx_desc_addr w (of_nat k) + 4, rx_desc_addr w (of_nat k) + 8}"
    proof -
      have k: "k < 33" using \<open>k < unat c\<close> assms(2) by simp
      have "0x60000000 \<le> unat SDIO_SLC0TX_LINK_ADDR_REG" "0x60000000 \<le> unat SDIO_SLC0TX_LINK_REG"
        "0x60000000 \<le> unat SDIO_SLC0TOKEN1_REG" by (simp_all add: regs)
      then show ?thesis using that above [OF _ assms(1) k] by metis
    qed
    ultimately show "list_all (keeps (Mmio a)) fs" by (simp add: fs_def)
  qed (use that es(3) assms in auto)
  then show ?thesis unfolding r using no
    by (intro exI [of _ "es @ fs"] conjI refl) (simp_all add: fs_def regs)
qed

text \<open>The window: the first descriptor's buffer, and a block for each credit given to the host.\<close>

definition sdio_window :: "'a world_scheme \<Rightarrow> u32 \<times> u32" where
  "sdio_window w = (peek (Mmio (rx_desc_addr w 0 + 4)) w, 512 * (last (written SDIO_SLC0TOKEN1_REG (trace w)) AND 0xFFF))"

lemma rearm_armed_chain:
  assumes "sdio_placed w" "c6_sdio_rearm buf n w = (STUB_LIB_OK, w')" "\<not> sd_rx_armed w"
  defines "c \<equiv> min 33 (unat n div 512)"
  shows "sd_rx_armed w' \<and> 0 < c \<and> (\<forall>k<c. desc_free w' buf (of_nat c) k) \<and>
    last (written SDIO_SLC0TX_LINK_ADDR_REG (trace w')) = rx_desc_addr w' 0 \<and>
    last (written SDIO_SLC0TOKEN1_REG (trace w')) = SDIO_SLC0_TOKEN1_WR OR of_nat c"
proof -
  have u: "unat (rx_desc_count_of n) = c" "rx_desc_count_of n = of_nat c" by (simp_all only: count_of(1) count_of(2) [symmetric] c_def)
  have w': "w' = sdio_start_rx buf (of_nat c) w\<lparr>sd_rx_armed := True\<rparr>" "0 < c"
    using assms(2,3) u by (auto simp: c6_sdio_rearm_eq Let_def rcs intro!: gr0I split: if_splits)
  have uc: "unat (of_nat c :: u32) = c" by (rule unat_of_nat32) (simp add: c_def)
  obtain es where es: "sdio_start_rx buf (of_nat c) w = after w es" "\<forall>k<c. desc_free (after w es) buf (of_nat c) k"
    "written SDIO_SLC0TX_LINK_ADDR_REG es = [rx_desc_addr w 0]"
    "written SDIO_SLC0TOKEN1_REG es = [SDIO_SLC0_TOKEN1_WR OR (of_nat c AND 0xFFF)]"
    using start_effect [OF assms(1), of "of_nat c" buf] unfolding uc by (auto simp: c_def)
  have "(of_nat c :: u32) AND 0xFFF = of_nat c"
    by (simp add: word_unat_eq_iff unat_and_4095 uc) (simp add: c_def)
  moreover have "desc_free (v\<lparr>sd_rx_armed := True\<rparr>) = desc_free v" "rx_desc_addr (v\<lparr>sd_rx_armed := True\<rparr>) = rx_desc_addr v"
    for v :: "'a sdio_world_scheme" by (simp_all add: desc_free_def rx_desc_addr_def peek_def fun_eq_iff)
  ultimately show ?thesis using es w'(2) by (simp add: w'(1))
qed

locale sdio_link = frame_receiver "ts_rearm T" armed window placed
  for T :: "'w sdio_target" and armed window placed
begin

text \<open>The API refuses a buffer the DMA engine cannot use, and arms any other.\<close>

lemma rearm_window:
  assumes "stub_lib_sdio_rearm T buf n w = (STUB_LIB_OK, w')" "\<not> armed w" "placed w"
  shows "armed w' \<and> fst (window w') = buf \<and> 4 dvd unat buf \<and> buf \<noteq> 0 \<and>
    0 < unat (snd (window w')) \<and> unat (snd (window w')) \<le> unat n"
proof -
  have r: "ts_rearm T buf n w = (STUB_LIB_OK, w')" and b: "buf \<noteq> 0" "IS_ALIGNED buf 4"
    using assms(1) by (auto simp: stub_lib_sdio_rearm_def Let_def regs rcs split: if_splits prod.splits)
  show ?thesis using rearm_idle [OF assms(3) r assms(2)] b by (auto simp: IS_ALIGNED_4 unat_gt_0 word_le_nat_alt)
qed

end

interpretation c6_sdio: sdio_link c6_sdio_target sd_rx_armed sdio_window sdio_placed
proof (unfold_locales, goal_cases)
  case (1 w buf n w')
  then have r: "c6_sdio_rearm buf n w = (STUB_LIB_OK, w')" by (simp add: c6_sdio_target_def)
  define c where "c = min 33 (unat n div 512)"
  note h = rearm_armed_chain [OF 1(1) r 1(3), folded c_def]
  have "desc_free w' buf (of_nat c) 0" using h by blast
  then have f: "fst (sdio_window w') = buf" by (simp add: desc_free_def Let_def sdio_window_def)
  have "(of_nat c :: u32) AND 0xFFF = of_nat c"
    using unat_of_nat32 [of c] by (simp add: word_unat_eq_iff unat_and_4095) (simp add: c_def)
  then have "snd (sdio_window w') = 512 * of_nat c" using h by (simp add: sdio_window_def regs bit.conj_disj_distrib2)
  moreover have "unat (512 * of_nat c :: u32) = 512 * c"
  proof -
    have "c \<le> 33" by (simp add: c_def)
    then show ?thesis using unat_of_nat32 [of "512 * c"] by simp
  qed
  ultimately have s: "unat (snd (sdio_window w')) = 512 * c" by simp
  have "c \<le> unat n div 512" by (simp add: c_def)
  then have "512 * c \<le> unat n" by (simp add: less_eq_div_iff_mult_less_eq mult.commute)
  then show ?case using h f s by (intro conjI) (simp_all only: word_le_nat_alt word_less_nat_alt unat_0, simp)
next
  case (2 w buf n)
  then show ?case by (simp add: c6_sdio_target_def c6_sdio_rearm_eq)
next
  case (3 buf n w ret w')
  then show ?case by (auto simp: c6_sdio_target_def c6_sdio_rearm_eq Let_def split: if_splits)
qed

section \<open>Properties\<close>

lemma c6_rearm_window:
  assumes "stub_lib_sdio_rearm c6_sdio_target buf n w = (STUB_LIB_OK, w')" "\<not> sd_rx_armed w" "sdio_placed w"
  defines "c \<equiv> min 33 (unat n div 512)"
  shows "sd_rx_armed w' \<and> buf \<noteq> 0 \<and> 4 dvd unat buf \<and> 0 < c \<and> 512 * c \<le> unat n \<and>
    (\<forall>k<c. desc_free w' buf (of_nat c) k) \<and>
    last (written SDIO_SLC0TX_LINK_ADDR_REG (trace w')) = rx_desc_addr w' 0 \<and>
    last (written SDIO_SLC0TOKEN1_REG (trace w')) = SDIO_SLC0_TOKEN1_WR OR of_nat c"
proof -
  have "c6_sdio_rearm buf n w = (STUB_LIB_OK, w')"
    using assms(1) by (auto simp: stub_lib_sdio_rearm_def c6_sdio_target_def rcs split: if_splits prod.splits)
  moreover have "512 * c \<le> unat n"
  proof -
    have "c \<le> unat n div 512" by (simp add: c_def)
    then show ?thesis by (simp add: less_eq_div_iff_mult_less_eq mult.commute)
  qed
  ultimately show ?thesis
    using rearm_armed_chain [OF assms(3) _ assms(2), of buf n w'] c6_sdio.rearm_window [OF assms(1-3)] by (simp add: c_def)
qed

text \<open>
  A device: the interrupt cause is always a completed frame, the first receive descriptor has
  received 512 bytes and the second 100, and every other cell holds what was written to it.
\<close>

definition sdio_dev :: "ev list \<Rightarrow> cell \<Rightarrow> u32" where
  "sdio_dev es c = (if c = Mmio SDIO_SLC0INT_RAW_REG then SDIO_SLC0_TX_SUC_EOF_INT
     else regfile (if c = Mmio 0x40800000 then push_bit 14 512 else if c = Mmio 0x40800008 then 0x4080000C
       else if c = Mmio 0x4080000C then push_bit 14 100 else 0) es c)"

definition sdio_rom :: "ev list \<Rightarrow> rom_fn \<Rightarrow> u32 list \<Rightarrow> u8 list \<Rightarrow> u32 \<times> u8 list" where
  "sdio_rom es f args d = (if f = SdioFn Slc_from_host_chain_fetch then (0, [0, 0, 0x80, 0x40, 0x0C, 0, 0x80, 0x40]) else (0, []))"

definition sdio_host :: sdio_world where
  "sdio_host = \<lparr>rd_dev = sdio_dev, rom_dev = sdio_rom, mem_dev = \<lambda>_ _ _. [],
     sym_addr = (\<lambda>s. if s = Sym_sdio_rx_desc then 0x40800000 else 0), trace = [],
     sd_rx_armed = True, sd_rx_frame_ready = False, sd_rx_received_len = 0, sd_sip = 0x40810000\<rparr>"

lemma sdio_host_plain: "unat a < 0x60000000 \<Longrightarrow> plain sdio_host (Mmio a)"
  by (auto simp: plain_def sdio_host_def sdio_dev_def regfile_def keeps_def regs split: ev.splits)

lemma sdio_host_linked: "linked (after sdio_host es) 0x4080000C [0x40800000, 0x4080000C] \<longleftrightarrow>
    peek (Mmio 0x40800008) (after sdio_host es) = 0x4080000C"
  using sdio_host_plain [of "0x40800000"] sdio_host_plain [of "0x40800008"] sdio_host_plain [of "0x4080000C"] by simp

text \<open>An interrupt once two descriptors are armed.\<close>

lemma sdio_host_placed: "rd_dev w = sdio_dev \<Longrightarrow> sym_addr w = sym_addr sdio_host \<Longrightarrow> sdio_placed w"
proof -
  assume r: "rd_dev w = sdio_dev" and s: "sym_addr w = sym_addr sdio_host"
  have "rd_dev w = rd_dev sdio_host" by (simp add: r sdio_host_def)
  then have "plain w = plain sdio_host" by (simp add: plain_def fun_eq_iff)
  then show "sdio_placed w" by (simp add: sdio_placed_def sdio_host_plain s) (simp add: sdio_host_def)
qed

lemma sdio_host_start:
  assumes d: "rd_dev w = sdio_dev" "sym_addr w = sym_addr sdio_host"
  shows "peek (Mmio 0x40800008) (sdio_start_rx buf 2 w) = 0x4080000C"
proof -
  have a: "rx_desc_addr w 0 = 0x40800000" "rx_desc_addr w 1 = 0x4080000C"
    using d(2) by (simp_all add: rx_desc_addr_def sdio_host_def)
  obtain es where "sdio_start_rx buf 2 w = after w es" "desc_free (after w es) buf 2 0"
    using start_effect [OF sdio_host_placed [OF d], of 2 buf] by auto
  then show ?thesis using a by (simp add: desc_free_def Let_def)
qed

lemma sdio_host_fetched:
  assumes d: "rd_dev w = sdio_dev" "rom_dev w = sdio_rom" and "peek (Mmio 0x40800008) w = 0x4080000C"
  obtains v where "peek (Mmio SDIO_SLC0INT_RAW_REG) w AND SDIO_SLC0_TX_SUC_EOF_INT \<noteq> 0"
    "sdio_fetched w = Some (0x40800000, 0x4080000C, v)" "linked v 0x4080000C [0x40800000, 0x4080000C]"
proof -
  let ?fs = "[Rd (Mmio SDIO_SLC0INT_RAW_REG) SDIO_SLC0_TX_SUC_EOF_INT, Wr (Mmio SDIO_SLC0INT_CLR_REG) SDIO_SLC0_TX_SUC_EOF_INT,
    Call (SdioFn Slc_from_host_chain_fetch) [] [] 0 [0, 0, 0x80, 0x40, 0x0C, 0, 0x80, 0x40]]"
  have p: "peek (Mmio SDIO_SLC0INT_RAW_REG) w = SDIO_SLC0_TX_SUC_EOF_INT" by (simp add: peek_def d(1) sdio_dev_def)
  have f: "sdio_fetched w = Some (0x40800000, 0x4080000C, after w ?fs)"
    by (simp add: sdio_fetched_def REG_READ_eq REG_WRITE_eq p rom_call_eq rom_ret_def rom_out_def Let_def emit_after d(2))
      (simp add: sdio_rom_def stored_u32_def)
  have l: "peek (Mmio 0x40800008) (after w ?fs) = 0x4080000C"
    using assms(3) by (simp add: peek_def d(1) sdio_dev_def regfile_def regs)
  have "rd_dev (after w ?fs) = rd_dev sdio_host" by (simp add: d(1) sdio_host_def)
  then have "plain (after w ?fs) = plain sdio_host" by (simp add: plain_def fun_eq_iff)
  then have "linked (after w ?fs) 0x4080000C [0x40800000, 0x4080000C]"
    using l sdio_host_plain [of "0x40800000"] sdio_host_plain [of "0x40800008"] sdio_host_plain [of "0x4080000C"] by simp
  moreover have "peek (Mmio SDIO_SLC0INT_RAW_REG) w AND SDIO_SLC0_TX_SUC_EOF_INT \<noteq> 0" unfolding p by (simp add: regs)
  ultimately show ?thesis using f that by blast
qed

lemma sdio_host_received:
  assumes "rd_dev w = sdio_dev" "rom_dev w = sdio_rom" "peek (Mmio 0x40800008) w = 0x4080000C"
  shows "\<exists>w'. sdio_slc_isr w = Some w' \<and> sd_rx_frame_ready w'"
proof -
  obtain v where v: "peek (Mmio SDIO_SLC0INT_RAW_REG) w AND SDIO_SLC0_TX_SUC_EOF_INT \<noteq> 0"
    "sdio_fetched w = Some (0x40800000, 0x4080000C, v)" "linked v 0x4080000C [0x40800000, 0x4080000C]"
    using assms by (rule sdio_host_fetched)
  from process_received [OF v(3)] obtain u where
    "sdio_process_from_host 0x40800000 0x4080000C (lldesc_set_eof 0x4080000C 0 v) = Some u" "sd_rx_frame_ready u" by auto
  from isr_after_eof [OF v(1,2) _ this(1)] this(2) show ?thesis by auto
qed

end
