(* ===== verification/Sdio_C5.thy ===== *)
theory Sdio_C5
  imports Sdio Io_Regs
begin

text \<open>
  The SDIO driver of the ESP32-C5, \<open>src/target/esp32c5/src/sdio.c\<close>, over the variables of
  \<open>sdio_world\<close>. Its registers have the addresses of the ESP32-C6's, so all but two of its
  operations equal that chip's: whether it is active depends on the version of the ROM, and its
  interrupt is routed through another register. The properties hold for both drivers.
\<close>

section \<open>The driver\<close>

definition c5_SDIO_SLC_INT_CLR_ALL :: u32 where [regs]: "c5_SDIO_SLC_INT_CLR_ALL = 0xFFFFFFFF"
definition c5_SDIO_TX_TIMEOUT_US :: u32 where [regs]: "c5_SDIO_TX_TIMEOUT_US = 1000000"
definition c5_SDIO_SLC_INTERRUPT_NUM :: u32 where [regs]: "c5_SDIO_SLC_INTERRUPT_NUM = 18"
definition c5_SDIO_RX_BLKSZ :: u32 where [regs]: "c5_SDIO_RX_BLKSZ = 512"
definition c5_SDIO_RX_NUM_DESC :: u32 where [regs]: "c5_SDIO_RX_NUM_DESC = 33"

definition c5_sdio_set_rx_credits :: "u32 \<Rightarrow> 'a world_scheme \<Rightarrow> 'a world_scheme" where
  "c5_sdio_set_rx_credits credits w =
     REG_WRITE c5_SDIO_SLC0TOKEN1_REG (c5_SDIO_SLC0_TOKEN1_WR OR (credits AND c5_SDIO_SLC0_TOKEN1_WDATA_MASK)) w"

definition c5_sdio_reset_from_host_window :: "'a sdio_world_scheme \<Rightarrow> 'a sdio_world_scheme" where
  "c5_sdio_reset_from_host_window w =
     (let w = REG_SET_BIT c5_SDIO_SLCCONF0_REG c5_SDIO_SLC0_TX_RST w;
          w = REG_CLR_BIT c5_SDIO_SLCCONF0_REG c5_SDIO_SLC0_TX_RST w;
          w = REG_WRITE c5_SDIO_SLC0INT_CLR_REG
                (c5_SDIO_SLC0_TX_SUC_EOF_INT OR c5_SDIO_SLC0_TX_DSCR_ERR_INT OR c5_SDIO_SLC0_TX_DSCR_EMPTY_INT) w;
          (slc, w) = sip_slc (sd_sip w) w;
          w = slc_set_first_desc_0 slc 0 w;
          (slc, w) = sip_slc (sd_sip w) w;
          w = slc_set_last_desc_0 slc 0 w
      in w\<lparr>sd_rx_armed := False\<rparr>)"

text \<open>One round of the loop that builds the chain.\<close>

definition c5_sdio_arm_desc :: "u32 \<Rightarrow> u32 \<Rightarrow> nat \<Rightarrow> 'a world_scheme \<Rightarrow> 'a world_scheme" where
  "c5_sdio_arm_desc buf rx_desc_count k w =
     (let i = of_nat k; desc = rx_desc_addr w i;
          w = lldesc_set_size desc c5_SDIO_RX_BLKSZ w;
          w = lldesc_set_length desc 0 w;
          w = lldesc_set_offset desc 0 w;
          w = lldesc_set_sosf desc 0 w;
          w = lldesc_set_eof desc 0 w;
          w = lldesc_set_owner desc 1 w;
          w = lldesc_set_buf desc (buf + of_nat k * c5_SDIO_RX_BLKSZ) w
      in lldesc_set_next desc (if i + 1 < rx_desc_count then rx_desc_addr w (i + 1) else 0) w)"

text \<open>What \<open>stub\_target\_sdio\_rearm\<close> does after its guards, step by step.\<close>

definition c5_sdio_rearm_steps :: "u32 \<Rightarrow> u32 \<Rightarrow> ('a sdio_world_scheme \<Rightarrow> 'a sdio_world_scheme) list" where
  "c5_sdio_rearm_steps buf rx_desc_count =
     map (c5_sdio_arm_desc buf rx_desc_count) [0..<unat rx_desc_count] @
     [\<lambda>w. REG_WRITE c5_SDIO_SLC0TX_LINK_ADDR_REG (rx_desc_addr w 0) w,
      \<lambda>w. REG_SET_BIT c5_SDIO_SLC0TX_LINK_REG c5_SDIO_SLC0_TXLINK_START w,
      \<lambda>w. c5_sdio_set_rx_credits rx_desc_count w,
      \<lambda>w. w\<lparr>sd_rx_armed := True\<rparr>]"

definition c5_rx_desc_count_of :: "u32 \<Rightarrow> u32" where
  "c5_rx_desc_count_of max_size =
     (let n = max_size div c5_SDIO_RX_BLKSZ in if n > c5_SDIO_RX_NUM_DESC then c5_SDIO_RX_NUM_DESC else n)"

definition c5_sdio_rearm :: "u32 \<Rightarrow> u32 \<Rightarrow> 'a sdio_world_scheme \<Rightarrow> rc \<times> 'a sdio_world_scheme" where
  "c5_sdio_rearm buf max_size w =
     (if sd_rx_armed w then (STUB_LIB_OK, w)
      else if sd_rx_frame_ready w then (STUB_LIB_FAIL, w)
      else
        (let rx_desc_count = c5_rx_desc_count_of max_size
         in if rx_desc_count = 0 then (STUB_LIB_ERR_INVALID_ARG, w)
            else (STUB_LIB_OK, run_steps (c5_sdio_rearm_steps buf rx_desc_count) w)))"

text \<open>The walk over the received chain holds no register of the chip: it is \<open>sdio\_chain\_len\<close>.\<close>

definition c5_sdio_process_from_host :: "u32 \<Rightarrow> u32 \<Rightarrow> 'a sdio_world_scheme \<Rightarrow> 'a sdio_world_scheme option" where
  "c5_sdio_process_from_host head known_tail w = do {
     (len, w) \<leftarrow> sdio_chain_len head known_tail 0 w;
     let w = w\<lparr>sd_rx_received_len := len\<rparr>;
     let w = w\<lparr>sd_rx_frame_ready := True\<rparr>;
     Some (c5_sdio_reset_from_host_window w) }"

text \<open>
  The interrupt service routine. When the ROM stores no pointers, \<open>head\<close> and \<open>tail\<close> are
  uninitialised: None.
\<close>

definition c5_sdio_slc_isr :: "'a sdio_world_scheme \<Rightarrow> 'a sdio_world_scheme option" where
  "c5_sdio_slc_isr w =
     (let (raw, w) = REG_READ c5_SDIO_SLC0INT_RAW_REG w
      in do {
        w \<leftarrow>
          (if raw AND c5_SDIO_SLC0_TX_SUC_EOF_INT \<noteq> 0 then
             (let w = REG_WRITE c5_SDIO_SLC0INT_CLR_REG c5_SDIO_SLC0_TX_SUC_EOF_INT w;
                  ((r, out), w) = rom_call (SdioFn Slc_from_host_chain_fetch) [] [] w
              in if length out \<noteq> 8 then None
                 else
                   (let head = stored_u32 (take 4 out) 0; tail = stored_u32 (drop 4 out) 0
                    in if head = 0 then Some (w\<lparr>sd_rx_armed := False\<rparr>)
                       else c5_sdio_process_from_host head tail (lldesc_set_eof tail 0 w)))
           else Some w);
        let w = (if raw AND c5_SDIO_SLC0_TX_DSCR_ERR_INT \<noteq> 0
                 then REG_WRITE c5_SDIO_SLC0INT_CLR_REG c5_SDIO_SLC0_TX_DSCR_ERR_INT w else w);
        let w = (if raw AND c5_SDIO_SLC0_RX_DSCR_ERR_INT \<noteq> 0
                 then REG_WRITE c5_SDIO_SLC0INT_CLR_REG c5_SDIO_SLC0_RX_DSCR_ERR_INT w else w);
        Some (if raw AND c5_SDIO_SLC0_TX_DSCR_EMPTY_INT \<noteq> 0
              then c5_sdio_reset_from_host_window (REG_WRITE c5_SDIO_SLC0INT_CLR_REG c5_SDIO_SLC0_TX_DSCR_EMPTY_INT w) else w) })"

definition c5_sdio_take_rx_frame :: "bool \<Rightarrow> 'a sdio_world_scheme \<Rightarrow> (bool \<times> u32 option) \<times> 'a sdio_world_scheme" where
  "c5_sdio_take_rx_frame out_len w =
     (if \<not> sd_rx_frame_ready w then ((False, None), w)
      else
        (let len = (if out_len then Some (sd_rx_received_len w) else None)
         in ((True, len), w\<lparr>sd_rx_frame_ready := False\<rparr>)))"

definition c5_sdio_is_active :: "'a world_scheme \<Rightarrow> bool \<times> 'a world_scheme" where
  "c5_sdio_is_active w =
     (let (v, w) = cell_read (RomVar Rom_eco_version) w
      in if v \<ge> 2 then (let (r, w) = rom_num (SdioFn Sip_download_begin) [] [] w in (r \<noteq> 0, w)) else (False, w))"

definition c5_sdio_init :: "'a sdio_world_scheme \<Rightarrow> 'a sdio_world_scheme" where
  "c5_sdio_init w =
     (let (sip, w) = rom_num (SdioFn Sip_get_ptr) [] [] w;
          w = w\<lparr>sd_sip := sip\<rparr>;
          w = c5_sdio_reset_from_host_window w;
          w = REG_SET_BIT c5_SDIO_SLC_RX_DSCR_CONF_REG c5_SDIO_SLC0_TOKEN_NO_REPLACE w;
          w = c5_sdio_set_rx_credits 0 w;
          w = w\<lparr>sd_rx_armed := False, sd_rx_frame_ready := False, sd_rx_received_len := 0\<rparr>;
          w = REG_WRITE c5_SDIO_SLC0INT_ENA_REG 0 w;
          w = REG_WRITE c5_SDIO_SLC0INT_CLR_REG c5_SDIO_SLC_INT_CLR_ALL w;
          w = WRITE_PERI_REG c5_INTERRUPT_CORE0_SLC0_INTR_MAP_REG (c5_SDIO_SLC_INTERRUPT_NUM + c5_CLIC_EXT_INTR_NUM_OFFSET) w;
          w = rom_void (SdioFn Esp_rom_esprv_intc_int_set_priority) [c5_SDIO_SLC_INTERRUPT_NUM, 1] [] w;
          w = rom_void (IoFn Esp_rom_isr_attach) [c5_SDIO_SLC_INTERRUPT_NUM, sym_addr w Sym_sdio_isr, 0] [] w;
          w = rom_void (IoFn Esp_rom_isr_unmask) [BIT (unat c5_SDIO_SLC_INTERRUPT_NUM)] [] w
      in REG_WRITE c5_SDIO_SLC0INT_ENA_REG
           (c5_SDIO_SLC0_TX_SUC_EOF_INT OR c5_SDIO_SLC0_TX_DSCR_ERR_INT OR c5_SDIO_SLC0_TX_DSCR_EMPTY_INT) w)"

definition c5_sdio_wait_tx_done :: "'a world_scheme \<Rightarrow> bool \<times> 'a world_scheme" where
  "c5_sdio_wait_tx_done w =
     (let (wait_res, t, w) = stub_target_wait_reg_bit_set c5_SDIO_SLC0INT_RAW_REG
                               (c5_SDIO_SLC0_RX_EOF_INT OR c5_SDIO_SLC0_RX_DSCR_ERR_INT) (Some (ucast c5_SDIO_TX_TIMEOUT_US)) w
      in if wait_res \<noteq> STUB_LIB_OK then (False, w)
         else
           (let (raw, w) = REG_READ c5_SDIO_SLC0INT_RAW_REG w
            in if raw AND c5_SDIO_SLC0_RX_EOF_INT \<noteq> 0 then
                 (let w = REG_WRITE c5_SDIO_SLC0INT_CLR_REG
                            (c5_SDIO_SLC0_RX_DONE_INT OR c5_SDIO_SLC0_RX_EOF_INT OR c5_SDIO_SLC0_RX_DSCR_EMPTY_INT) w
                  in (True, rom_void (SdioFn Slc_to_host_chain_recycle) [] [] w))
               else if raw AND c5_SDIO_SLC0_RX_DSCR_ERR_INT \<noteq> 0 then
                 (False, REG_WRITE c5_SDIO_SLC0INT_CLR_REG c5_SDIO_SLC0_RX_DSCR_ERR_INT w)
               else (False, w)))"

definition c5_sdio_tx_frame :: "u32 \<Rightarrow> u32 \<Rightarrow> 'a sdio_world_scheme \<Rightarrow> rc \<times> 'a sdio_world_scheme" where
  "c5_sdio_tx_frame data len w =
     (let desc = sym_addr w Sym_sdio_tx_desc;
          w = lldesc_set_size desc (len AND SDIO_DMA_DESC_MAX_LEN) w;
          w = lldesc_set_length desc (len AND SDIO_DMA_DESC_MAX_LEN) w;
          w = lldesc_set_offset desc 0 w;
          w = lldesc_set_sosf desc 0 w;
          w = lldesc_set_eof desc 1 w;
          w = lldesc_set_owner desc 1 w;
          w = lldesc_set_buf desc data w;
          w = lldesc_set_next desc 0 w;
          w = REG_WRITE c5_SDIO_SLC0INT_CLR_REG
                (c5_SDIO_SLC0_RX_DONE_INT OR c5_SDIO_SLC0_RX_EOF_INT OR c5_SDIO_SLC0_RX_DSCR_EMPTY_INT OR c5_SDIO_SLC0_RX_DSCR_ERR_INT) w;
          w = REG_WRITE c5_SLCHOST_CONF_W0_REG len w;
          w = rom_void (SdioFn Slc_send_to_host_chain) [desc, desc] [] w;
          (ok, w) = c5_sdio_wait_tx_done w;
          w = SIP_SET_FIRST_FREE_TO_HOST_DS (sd_sip w) 0 w;
          w = SIP_SET_LAST_FREE_TO_HOST_DS (sd_sip w) 0 w
      in (if ok then STUB_LIB_OK else STUB_LIB_FAIL, w))"

definition c5_sdio_target :: "'a sdio_world_scheme sdio_target" where
  "c5_sdio_target = \<lparr>ts_is_active = c5_sdio_is_active, ts_init = c5_sdio_init,
     ts_take_rx_frame = c5_sdio_take_rx_frame, ts_rearm = c5_sdio_rearm, ts_tx_frame = c5_sdio_tx_frame\<rparr>"

section \<open>What it shares with the ESP32-C6\<close>

lemma c5_sdio_consts:
  "c5_SDIO_SLC_INT_CLR_ALL = SDIO_SLC_INT_CLR_ALL" "c5_SDIO_TX_TIMEOUT_US = SDIO_TX_TIMEOUT_US"
  "c5_SDIO_SLC_INTERRUPT_NUM = SDIO_SLC_INTERRUPT_NUM" "c5_SDIO_RX_BLKSZ = SDIO_RX_BLKSZ"
  "c5_SDIO_RX_NUM_DESC = SDIO_RX_NUM_DESC" "c5_SDIO_SLC0TOKEN1_REG = SDIO_SLC0TOKEN1_REG"
  "c5_SDIO_SLC0_TOKEN1_WR = SDIO_SLC0_TOKEN1_WR" "c5_SDIO_SLC0_TOKEN1_WDATA_MASK = SDIO_SLC0_TOKEN1_WDATA_MASK"
  "c5_SDIO_SLCCONF0_REG = SDIO_SLCCONF0_REG" "c5_SDIO_SLC0_TX_RST = SDIO_SLC0_TX_RST"
  "c5_SDIO_SLC0INT_CLR_REG = SDIO_SLC0INT_CLR_REG" "c5_SDIO_SLC0INT_RAW_REG = SDIO_SLC0INT_RAW_REG"
  "c5_SDIO_SLC0INT_ENA_REG = SDIO_SLC0INT_ENA_REG" "c5_SDIO_SLC0_TX_SUC_EOF_INT = SDIO_SLC0_TX_SUC_EOF_INT"
  "c5_SDIO_SLC0_TX_DSCR_ERR_INT = SDIO_SLC0_TX_DSCR_ERR_INT" "c5_SDIO_SLC0_TX_DSCR_EMPTY_INT = SDIO_SLC0_TX_DSCR_EMPTY_INT"
  "c5_SDIO_SLC0_RX_DSCR_ERR_INT = SDIO_SLC0_RX_DSCR_ERR_INT" "c5_SDIO_SLC0_RX_DSCR_EMPTY_INT = SDIO_SLC0_RX_DSCR_EMPTY_INT"
  "c5_SDIO_SLC0_RX_EOF_INT = SDIO_SLC0_RX_EOF_INT" "c5_SDIO_SLC0_RX_DONE_INT = SDIO_SLC0_RX_DONE_INT"
  "c5_SDIO_SLC0TX_LINK_ADDR_REG = SDIO_SLC0TX_LINK_ADDR_REG" "c5_SDIO_SLC0TX_LINK_REG = SDIO_SLC0TX_LINK_REG"
  "c5_SDIO_SLC0_TXLINK_START = SDIO_SLC0_TXLINK_START" "c5_SDIO_SLC_RX_DSCR_CONF_REG = SDIO_SLC_RX_DSCR_CONF_REG"
  "c5_SDIO_SLC0_TOKEN_NO_REPLACE = SDIO_SLC0_TOKEN_NO_REPLACE" "c5_SLCHOST_CONF_W0_REG = SLCHOST_CONF_W0_REG"
  by (simp_all add: regs)

lemma c5_sdio_parts:
  "c5_sdio_set_rx_credits = sdio_set_rx_credits" "c5_sdio_reset_from_host_window = sdio_reset_from_host_window"
  "c5_sdio_arm_desc = sdio_arm_desc" "c5_rx_desc_count_of = rx_desc_count_of" "c5_sdio_wait_tx_done = sdio_wait_tx_done"
proof -
  show "c5_sdio_set_rx_credits = sdio_set_rx_credits" by (intro ext, unfold c5_sdio_set_rx_credits_def sdio_set_rx_credits_def c5_sdio_consts, rule refl)
  show "c5_sdio_reset_from_host_window = sdio_reset_from_host_window" by (intro ext, unfold c5_sdio_reset_from_host_window_def sdio_reset_from_host_window_def c5_sdio_consts, rule refl)
  show "c5_sdio_arm_desc = sdio_arm_desc" by (intro ext, unfold c5_sdio_arm_desc_def sdio_arm_desc_def c5_sdio_consts, rule refl)
  show "c5_rx_desc_count_of = rx_desc_count_of" by (intro ext, unfold c5_rx_desc_count_of_def rx_desc_count_of_def c5_sdio_consts, rule refl)
  show "c5_sdio_wait_tx_done = sdio_wait_tx_done" by (intro ext, unfold c5_sdio_wait_tx_done_def sdio_wait_tx_done_def c5_sdio_consts, rule refl)
qed

lemma c5_sdio_steps: "c5_sdio_rearm_steps = sdio_rearm_steps"
  by (intro ext, unfold c5_sdio_rearm_steps_def sdio_rearm_steps_def c5_sdio_consts c5_sdio_parts, rule refl)

lemma c5_sdio_process: "c5_sdio_process_from_host = sdio_process_from_host"
  by (intro ext, unfold c5_sdio_process_from_host_def sdio_process_from_host_def c5_sdio_parts, rule refl)

lemma c5_sdio_isr: "c5_sdio_slc_isr = sdio_slc_isr"
  by (intro ext, unfold c5_sdio_slc_isr_def sdio_slc_isr_def c5_sdio_process c5_sdio_consts c5_sdio_parts, rule refl)

lemma c5_sdio_same:
  "c5_sdio_rearm = c6_sdio_rearm" "c5_sdio_take_rx_frame = c6_sdio_take_rx_frame" "c5_sdio_tx_frame = c6_sdio_tx_frame"
proof -
  show "c5_sdio_rearm = c6_sdio_rearm" by (intro ext, unfold c5_sdio_rearm_def c6_sdio_rearm_def c5_sdio_steps c5_sdio_parts, rule refl)
  show "c5_sdio_take_rx_frame = c6_sdio_take_rx_frame" by (intro ext, unfold c5_sdio_take_rx_frame_def c6_sdio_take_rx_frame_def, rule refl)
  show "c5_sdio_tx_frame = c6_sdio_tx_frame" by (intro ext, unfold c5_sdio_tx_frame_def c6_sdio_tx_frame_def c5_sdio_consts c5_sdio_parts, rule refl)
qed

lemma c5_init_flags: "\<not> sd_rx_armed (c5_sdio_init w) \<and> \<not> sd_rx_frame_ready (c5_sdio_init w)"
proof -
  have "\<exists>u. evs (u\<lparr>sd_rx_armed := False, sd_rx_frame_ready := False, sd_rx_received_len := 0\<rparr>) (c5_sdio_init w)"
    unfolding c5_sdio_init_def c5_sdio_parts Let_def split_beta peri_eq by (rule exI, (intro evs_rules)?, rule evs_refl)
  then show ?thesis using evs_flags(1,2) by fastforce
qed

section \<open>Properties of both drivers\<close>

text \<open>The drivers with their interrupt routines.\<close>

definition sdio_drivers :: "('a sdio_world_scheme sdio_target \<times> ('a sdio_world_scheme \<Rightarrow> 'a sdio_world_scheme option)) list" where
  "sdio_drivers = [(c6_sdio_target, sdio_slc_isr), (c5_sdio_target, c5_sdio_slc_isr)]"

lemma sdio_drivers:
  assumes "(T, isr) \<in> set sdio_drivers"
  shows "isr = sdio_slc_isr" "ts_rearm T = c6_sdio_rearm" "ts_take_rx_frame T = c6_sdio_take_rx_frame"
    "ts_tx_frame T = c6_sdio_tx_frame" "\<not> sd_rx_armed (ts_init T w) \<and> \<not> sd_rx_frame_ready (ts_init T w)"
    "stub_lib_sdio_rearm T = stub_lib_sdio_rearm c6_sdio_target"
    "stub_lib_sdio_take_rx_frame T = stub_lib_sdio_take_rx_frame c6_sdio_target"
  using assms init_flags [of w] c5_init_flags [of w]
  by (auto simp: sdio_drivers_def c6_sdio_target_def c5_sdio_target_def c5_sdio_isr c5_sdio_same fun_eq_iff
      stub_lib_sdio_rearm_def stub_lib_sdio_take_rx_frame_def)

text \<open>
  C25: When the SDIO interrupt of the ESP32-C6 or ESP32-C5 reports a completed frame and the
  ROM hands out its descriptors, linked from head to tail, the routine ends, the driver is
  disarmed and the application is told the sum of the lengths in the descriptors.
\<close>

lemma sdio_frame_length:
  assumes "(T, isr) \<in> set sdio_drivers" "peek (Mmio SDIO_SLC0INT_RAW_REG) w AND SDIO_SLC0_TX_SUC_EOF_INT \<noteq> 0"
    and "sdio_fetched w = Some (head, tail, v)" "linked v tail (head # ds)"
  shows "\<exists>w'. isr w = Some w' \<and> \<not> sd_rx_armed w' \<and>
    fst (stub_lib_sdio_take_rx_frame T True w') = (True, Some (sum_list (map (desc_len v) (head # ds))))"
  using c6_frame_length [OF assms(2-4)] by (simp add: sdio_drivers [OF assms(1)])

text \<open>
  C26: Arming the idle SDIO driver of the ESP32-C6 or ESP32-C5 through the API leaves in
  memory a chain of as many free 512 byte descriptors as fit in the buffer, at most 33, each
  pointing at its block and linked to the next, hands the first to the DMA engine and gives
  the host exactly one credit for each.
\<close>

lemma sdio_rearm_window:
  assumes "(T, isr) \<in> set sdio_drivers"
    and "stub_lib_sdio_rearm T buf n w = (STUB_LIB_OK, w')" "\<not> sd_rx_armed w" "sdio_placed w"
  defines "c \<equiv> min 33 (unat n div 512)"
  shows "sd_rx_armed w' \<and> buf \<noteq> 0 \<and> 4 dvd unat buf \<and> 0 < c \<and> 512 * c \<le> unat n \<and>
    (\<forall>k<c. desc_free w' buf (of_nat c) k) \<and>
    last (written SDIO_SLC0TX_LINK_ADDR_REG (trace w')) = rx_desc_addr w' 0 \<and>
    last (written SDIO_SLC0TOKEN1_REG (trace w')) = SDIO_SLC0_TOKEN1_WR OR of_nat c"
  unfolding c_def by (rule c6_rearm_window [OF assms(2) [unfolded sdio_drivers [OF assms(1)]] assms(3,4)])

text \<open>
  C27: In every session of the SDIO driver of the ESP32-C6 or ESP32-C5 whose interrupts come
  between calls, the driver is not armed while a received frame waits to be taken.
\<close>

lemma sdio_not_armed_while_ready:
  assumes "(T, isr) \<in> set sdio_drivers" "sdio_session T isr w0 w"
  shows "\<not> (sd_rx_armed w \<and> sd_rx_frame_ready w)"
  using session_flags [OF assms(2)] sdio_drivers [OF assms(1)] by blast

text \<open>
  C28: The invariant does not survive an interrupt inside the arming. When the routine that
  delivers a frame runs before the last of the arming's steps, the assignment to the flag,
  it disarms the driver, and the rest of the steps leaves it marked as armed while the frame
  waits. The frame is taken as usual; from then on every further arming reports success and
  does nothing. This holds for the drivers of the ESP32-C6 and the ESP32-C5, whatever the
  step the interrupt follows, in particular after the start of the DMA.
\<close>

lemma sdio_rearm_race:
  assumes "(T, isr, steps) \<in> {(c6_sdio_target, sdio_slc_isr, sdio_rearm_steps), (c5_sdio_target, c5_sdio_slc_isr, c5_sdio_rearm_steps)}"
    and idle: "\<not> sd_rx_armed w" "\<not> sd_rx_frame_ready w" "512 \<le> n"
    and split: "steps buf (rx_desc_count_of n) = xs @ ys" "ys \<noteq> []"
    and frame: "peek (Mmio SDIO_SLC0INT_RAW_REG) (run_steps xs w) AND SDIO_SLC0_TX_SUC_EOF_INT \<noteq> 0"
      "sdio_fetched (run_steps xs w) = Some (head, tail, v)" "linked v tail (head # ds)"
  shows "ts_rearm T buf n w = (STUB_LIB_OK, run_steps ys (run_steps xs w)) \<and>
    (\<exists>i u. isr (run_steps xs w) = Some i \<and> \<not> sd_rx_armed i \<and>
       sd_rx_armed (run_steps ys i) \<and> sd_rx_frame_ready (run_steps ys i) \<and>
       ts_take_rx_frame T True (run_steps ys i) = ((True, Some (sum_list (map (desc_len v) (head # ds)))), u) \<and>
       (\<forall>buf' n'. ts_rearm T buf' n' u = (STUB_LIB_OK, u)))"
proof -
  have T: "isr = sdio_slc_isr" "ts_rearm T = c6_sdio_rearm" "ts_take_rx_frame T = c6_sdio_take_rx_frame" "steps = sdio_rearm_steps"
    using assms(1) by (auto simp: c6_sdio_target_def c5_sdio_target_def c5_sdio_isr c5_sdio_same c5_sdio_steps)
  have n: "rx_desc_count_of n \<noteq> 0"
    using idle(3) count_of(1) [of n] by (auto simp: word_le_nat_alt min_def split: if_splits)
  have r: "ts_rearm T buf n w = (STUB_LIB_OK, run_steps ys (run_steps xs w))"
    using idle n by (simp add: T c6_sdio_rearm_def Let_def split(1) [unfolded T])
  obtain i where i: "sdio_slc_isr (run_steps xs w) = Some i" "\<not> sd_rx_armed i"
    "fst (stub_lib_sdio_take_rx_frame c6_sdio_target True i) = (True, Some (sum_list (map (desc_len v) (head # ds))))"
    using c6_frame_length [OF frame] by blast
  then have ready: "sd_rx_frame_ready i" "sd_rx_received_len i = sum_list (map (desc_len v) (head # ds))"
    by (auto simp: stub_lib_sdio_take_rx_frame_def c6_sdio_target_def c6_sdio_take_rx_frame_def split: if_splits)
  obtain x where x: "evs i x" "run_steps ys i = x\<lparr>sd_rx_armed := True\<rparr>"
    using evs_rearm_steps [OF split [unfolded T], of i] by blast
  note f = evs_flags [OF x(1)]
  show ?thesis
    using i(1,2) ready f by (intro conjI [OF r]) (simp add: T x(2) c6_sdio_take_rx_frame_def c6_sdio_rearm_def)
qed

section \<open>Examples\<close>

lemma c6_driver: "(c6_sdio_target, sdio_slc_isr) \<in> set sdio_drivers"
  and c5_driver: "(c5_sdio_target, c5_sdio_slc_isr) \<in> set sdio_drivers"
  by (simp_all add: sdio_drivers_def)

lemma sdio_frame_length_witness:
  "\<exists>w'. c5_sdio_slc_isr sdio_host = Some w' \<and>
     fst (stub_lib_sdio_take_rx_frame c5_sdio_target True w') = (True, Some 612)"
proof -
  define raw where "raw = SDIO_SLC0_TX_SUC_EOF_INT"
  define es where "es = [Rd (Mmio SDIO_SLC0INT_RAW_REG) SDIO_SLC0_TX_SUC_EOF_INT, Wr (Mmio SDIO_SLC0INT_CLR_REG) SDIO_SLC0_TX_SUC_EOF_INT,
    Call (SdioFn Slc_from_host_chain_fetch) [] [] 0 [0, 0, 0x80, 0x40, 0x0C, 0, 0x80, 0x40]]"
  have p: "peek (Mmio SDIO_SLC0INT_RAW_REG) sdio_host = SDIO_SLC0_TX_SUC_EOF_INT"
    by (simp add: peek_def sdio_host_def sdio_dev_def)
  have f: "sdio_fetched sdio_host = Some (0x40800000, 0x4080000C, after sdio_host es)"
    by (simp add: sdio_fetched_def REG_READ_eq REG_WRITE_eq p rom_call_eq rom_ret_def rom_out_def Let_def emit_after es_def)
      (simp add: sdio_host_def sdio_rom_def stored_u32_def)
  have v: "peek (Mmio 0x40800000) (after sdio_host es) = push_bit 14 512" "peek (Mmio 0x40800008) (after sdio_host es) = 0x4080000C"
    "peek (Mmio 0x4080000C) (after sdio_host es) = push_bit 14 100"
    by (simp_all add: peek_def sdio_host_def sdio_dev_def regfile_def es_def regs)
  show ?thesis
    using sdio_frame_length [OF c5_driver _ f, of "[0x4080000C]"] v sdio_host_plain [of "0x40800000"] sdio_host_plain [of "0x40800008"] sdio_host_plain [of "0x4080000C"]
    by (simp add: p sdio_host_linked desc_len_def) (auto simp: regs)
qed

lemma sdio_not_armed_while_ready_witness:
  "\<exists>w. sdio_session c6_sdio_target sdio_slc_isr sdio_host w \<and> sd_rx_frame_ready w \<and> \<not> sd_rx_armed w"
proof -
  let ?i = "c6_sdio_init sdio_host"
  let ?w = "snd (c6_sdio_rearm 0x40820000 1024 ?i)"
  have n: "rx_desc_count_of 1024 = 2" by code_simp
  have d: "rd_dev ?i = sdio_dev" "rom_dev ?i = sdio_rom" "sym_addr ?i = sym_addr sdio_host"
    using init_devs [of sdio_host] by (simp_all add: sdio_host_def)
  have i: "\<not> sd_rx_armed ?i" "\<not> sd_rx_frame_ready ?i" by (rule init_flags)+
  have w: "?w = (sdio_start_rx 0x40820000 2 ?i)\<lparr>sd_rx_armed := True\<rparr>" using i by (simp add: c6_sdio_rearm_eq n)
  have "rd_dev ?w = sdio_dev" "rom_dev ?w = sdio_rom"
    using evs_devs [OF evs_start, of "0x40820000" 2 ?i] by (simp_all add: w d)
  moreover have "peek (Mmio 0x40800008) ?w = 0x4080000C"
    using sdio_host_start [OF d(1,3), of "0x40820000"] by (simp add: w peek_def)
  ultimately obtain w' where w': "sdio_slc_isr ?w = Some w'" "sd_rx_frame_ready w'" using sdio_host_received by blast
  have "sdio_session c6_sdio_target sdio_slc_isr sdio_host ?w" using sdio_session.rearm [OF sdio_session.init surjective_pairing, of c6_sdio_target sdio_slc_isr sdio_host "0x40820000" 1024]
    by (simp add: c6_sdio_target_def)
  then have "sdio_session c6_sdio_target sdio_slc_isr sdio_host w'" using w'(1) by (rule sdio_session.interrupt)
  then show ?thesis using sdio_not_armed_while_ready [OF c6_driver, of sdio_host w'] w'(2) by blast
qed

lemma sdio_rearm_window_witness:
  "\<exists>w'. stub_lib_sdio_rearm c5_sdio_target 0x40820000 1100 (sdio_host\<lparr>sd_rx_armed := False\<rparr>) = (STUB_LIB_OK, w') \<and>
     desc_free w' 0x40820000 2 0 \<and> desc_free w' 0x40820000 2 1"
proof -
  let ?h = "sdio_host\<lparr>sd_rx_armed := False\<rparr>"
  have "fst (stub_lib_sdio_rearm c5_sdio_target 0x40820000 1100 ?h) = STUB_LIB_OK" by code_simp
  then obtain w' where r: "stub_lib_sdio_rearm c5_sdio_target 0x40820000 1100 ?h = (STUB_LIB_OK, w')"
    by (metis prod.collapse)
  have "plain ?h = plain sdio_host" by (simp add: plain_def fun_eq_iff)
  then have "sdio_placed ?h" by (simp add: sdio_placed_def sdio_host_plain) (simp add: sdio_host_def)
  then show ?thesis using sdio_rearm_window [OF c5_driver r] by (simp add: r)
qed

lemma sdio_rearm_race_witness:
  "\<exists>i u len. sdio_slc_isr (sdio_start_rx 0x40820000 2 (sdio_host\<lparr>sd_rx_armed := False\<rparr>)) = Some i \<and> \<not> sd_rx_armed i \<and>
     c6_sdio_take_rx_frame True (i\<lparr>sd_rx_armed := True\<rparr>) = ((True, Some len), u) \<and>
     c6_sdio_rearm 0x40820000 1024 u = (STUB_LIB_OK, u)"
proof -
  let ?h = "sdio_host\<lparr>sd_rx_armed := False\<rparr>"
  define w where "w = sdio_start_rx 0x40820000 2 ?h"
  let ?s = "sdio_rearm_steps 0x40820000 2 :: (sdio_world \<Rightarrow> sdio_world) list"
  have s: "?s = butlast ?s @ [\<lambda>w. w\<lparr>sd_rx_armed := True\<rparr>]" by (simp add: sdio_rearm_steps_def butlast_append)
  have w: "run_steps (butlast ?s) ?h = w"
    by (simp add: w_def sdio_rearm_steps_def butlast_append sdio_start_rx_def Let_def) (simp add: run_steps_def fold_map comp_def)
  have n: "rx_desc_count_of 1024 = 2" by code_simp
  have d: "rd_dev w = sdio_dev" "rom_dev w = sdio_rom"
    using evs_devs [OF evs_start, of "0x40820000" 2 ?h] by (simp_all add: w_def sdio_host_def)
  have "peek (Mmio 0x40800008) w = 0x4080000C"
    unfolding w_def by (rule sdio_host_start) (simp_all add: sdio_host_def)
  from sdio_host_fetched [OF d this] obtain v where
    v: "peek (Mmio SDIO_SLC0INT_RAW_REG) w AND SDIO_SLC0_TX_SUC_EOF_INT \<noteq> 0"
      "sdio_fetched w = Some (0x40800000, 0x4080000C, v)" "linked v 0x4080000C [0x40800000, 0x4080000C]" .
  have T: "(c6_sdio_target, sdio_slc_isr, sdio_rearm_steps :: u32 \<Rightarrow> u32 \<Rightarrow> (sdio_world \<Rightarrow> sdio_world) list) \<in>
      {(c6_sdio_target, sdio_slc_isr, sdio_rearm_steps), (c5_sdio_target, c5_sdio_slc_isr, c5_sdio_rearm_steps)}" by simp
  have "\<not> sd_rx_armed ?h" "\<not> sd_rx_frame_ready ?h" by (simp_all add: sdio_host_def)
  from sdio_rearm_race [OF T this, of 1024, unfolded n, OF _ s, unfolded w, OF _ _ v] show ?thesis
    by (simp add: c6_sdio_target_def flip: w_def) blast
qed

end
