(* ===== verification/Usb_Otg.thy ===== *)
theory Usb_Otg
  imports Serial Plain S3_Regs Io_Regs Clock_Regs
begin

text \<open>
  The serial port over USB: the driver of the ROM's USB OTG port in \<open>src/usb_otg.c\<close>, its weak
  target in \<open>src/target/common/src/usb_otg.c\<close> and those of the four chips that have the port, the
  ESP32-S3, ESP32-S2, ESP32-P4 and ESP32-S31, in \<open>src/target/CHIP/src/usb_otg.c\<close>. The ROM's CDC-ACM functions and the application's receive
  callback are parameters.
\<close>

section \<open>The driver\<close>

definition ACM_BYTES_PER_TX :: nat where [regs]: "ACM_BYTES_PER_TX = 64"
definition LINE_CTRL_RTS :: u32 where [regs]: "LINE_CTRL_RTS = 2"
definition ACM_STATUS_LINESTATE_CHANGED :: int where [regs]: "ACM_STATUS_LINESTATE_CHANGED = - 1"
definition ACM_STATUS_RX :: int where [regs]: "ACM_STATUS_RX = - 4"

text \<open>The callback is kept as the address of the application's function.\<close>

record usb_otg_world = world +
  s_usb_int_num :: u32
  s_rx_callback :: u32
  s_cdcacm_txbuf :: "u8 list"
  s_cdcacm_txpos :: nat
  s_cdcacm_old_rts :: u32
  s_reset_requested :: bool

record 'w usb_otg_target =
  tu_is_supported :: bool
  tu_rominit_intr_attach :: "u32 \<Rightarrow> u32 \<Rightarrow> 'w \<Rightarrow> 'w"
  tu_handle_reset :: "'w \<Rightarrow> 'w"

definition stub_target_usb_otg_is_supported :: bool where
  "stub_target_usb_otg_is_supported = False"

definition stub_target_usb_otg_rominit_intr_attach :: "u32 \<Rightarrow> u32 \<Rightarrow> 'w \<Rightarrow> 'w" where
  "stub_target_usb_otg_rominit_intr_attach intr_num callback w = w"

definition stub_target_usb_otg_handle_reset :: "'w \<Rightarrow> 'w" where
  "stub_target_usb_otg_handle_reset w = w"

definition uart_acm_dev :: "'a world_scheme \<Rightarrow> u32" where
  "uart_acm_dev w = sym_addr w Sym_uart_acm_dev"

definition stub_lib_usb_otg_is_active :: "'a world_scheme usb_otg_target \<Rightarrow> 'a world_scheme \<Rightarrow> bool \<times> 'a world_scheme" where
  "stub_lib_usb_otg_is_active T w =
     (if \<not> tu_is_supported T then (False, w)
      else
        (let (uart, w) = rom_num (IoFn Esp_rom_get_uart_device) [] [] w
         in if uart = 0 then (False, w)
            else
              (let (v, w) = cell_read (RomVar Uart_buff_uart_no) w
               in (sint (ucast v :: 8 word) = sint ESP_ROM_USB_OTG_NUM, w))))"

text \<open>
  The receive loop. It never ends when the port never runs empty, and a read that stores no
  byte leaves the variable it passes on uninitialised: both are None. \<open>app\<close> is the
  application's code at an address.
\<close>

partial_function (option) cdcacm_rx_loop ::
  "(u32 \<Rightarrow> u8 \<Rightarrow> 'a usb_otg_world_scheme \<Rightarrow> 'a usb_otg_world_scheme) \<Rightarrow> u32 \<Rightarrow> 'a usb_otg_world_scheme \<Rightarrow>
   'a usb_otg_world_scheme option" where
  "cdcacm_rx_loop app dev w =
     (let (cnt, w) = rom_num (UsbFn Esp_rom_cdc_acm_rx_fifo_cnt) [dev] [] w
      in if sint cnt > 0 then
           (let ((r, out), w) = rom_call (UsbFn Esp_rom_cdc_acm_fifo_read) [dev, 1] [] w
            in if out = [] then None
               else cdcacm_rx_loop app dev (app (s_rx_callback w) (hd out) w))
         else Some w)"

declare cdcacm_rx_loop.simps [code]

definition stub_lib_usb_otg_cdcacm_callback ::
  "(u32 \<Rightarrow> u8 \<Rightarrow> 'a usb_otg_world_scheme \<Rightarrow> 'a usb_otg_world_scheme) \<Rightarrow> u32 \<Rightarrow> int \<Rightarrow>
   'a usb_otg_world_scheme \<Rightarrow> 'a usb_otg_world_scheme option" where
  "stub_lib_usb_otg_cdcacm_callback app dev status w =
     (if status = ACM_STATUS_RX then cdcacm_rx_loop app dev w
      else if status = ACM_STATUS_LINESTATE_CHANGED then
        (let ((r, out), w) = rom_call (UsbFn Esp_rom_cdc_acm_line_ctrl_get) [dev, LINE_CTRL_RTS] [] w;
             rts = stored_u32 out 0;
             w = (if rts = 0 \<and> s_cdcacm_old_rts w = 1 then w\<lparr>s_reset_requested := True\<rparr> else w)
         in Some (w\<lparr>s_cdcacm_old_rts := rts\<rparr>))
      else Some w)"

definition stub_lib_usb_otg_rominit_intr_attach ::
  "'a usb_otg_world_scheme usb_otg_target \<Rightarrow> u32 \<Rightarrow> u32 \<Rightarrow> 'a usb_otg_world_scheme \<Rightarrow> 'a usb_otg_world_scheme" where
  "stub_lib_usb_otg_rominit_intr_attach T intr_num rx_callback w =
     (let w = w\<lparr>s_usb_int_num := intr_num, s_rx_callback := rx_callback, s_cdcacm_txpos := 0,
                s_reset_requested := False\<rparr>;
          ((r, out), w) = rom_call (UsbFn Esp_rom_cdc_acm_line_ctrl_get) [uart_acm_dev w, LINE_CTRL_RTS] [] w;
          w = w\<lparr>s_cdcacm_old_rts := stored_u32 out (s_cdcacm_old_rts w)\<rparr>
      in tu_rominit_intr_attach T intr_num (sym_addr w Sym_cdcacm_callback) w)"

definition stub_lib_usb_otg_tx_flush :: "'a usb_otg_world_scheme \<Rightarrow> 'a usb_otg_world_scheme" where
  "stub_lib_usb_otg_tx_flush w =
     (let w = rom_void (UsbFn Esp_rom_cdc_acm_fifo_fill) [uart_acm_dev w, of_nat (s_cdcacm_txpos w)]
                (take (s_cdcacm_txpos w) (s_cdcacm_txbuf w)) w
      in w\<lparr>s_cdcacm_txpos := 0\<rparr>)"

definition stub_lib_usb_otg_tx_one_char :: "u8 \<Rightarrow> 'a usb_otg_world_scheme \<Rightarrow> u8 \<times> 'a usb_otg_world_scheme" where
  "stub_lib_usb_otg_tx_one_char c w =
     (let w = w\<lparr>s_cdcacm_txbuf := (s_cdcacm_txbuf w)[s_cdcacm_txpos w := c], s_cdcacm_txpos := s_cdcacm_txpos w + 1\<rparr>;
          w = (if s_cdcacm_txpos w = ACM_BYTES_PER_TX then stub_lib_usb_otg_tx_flush w else w)
      in (0, w))"

definition stub_lib_usb_otg_rx_async_enable :: "bool \<Rightarrow> 'a usb_otg_world_scheme \<Rightarrow> 'a usb_otg_world_scheme" where
  "stub_lib_usb_otg_rx_async_enable enable w =
     (if enable then
        (let w = rom_void (UsbFn Esp_rom_cdc_acm_irq_rx_enable) [uart_acm_dev w] [] w
         in rom_void (IoFn Esp_rom_isr_unmask) [push_bit (unat (s_usb_int_num w)) 1] [] w)
      else
        (let w = rom_void (IoFn Esp_rom_isr_mask) [push_bit (unat (s_usb_int_num w)) 1] [] w
         in rom_void (UsbFn Esp_rom_cdc_acm_irq_rx_disable) [uart_acm_dev w] [] w))"

definition stub_lib_usb_otg_is_reset_requested :: "'a usb_otg_world_scheme \<Rightarrow> bool" where
  "stub_lib_usb_otg_is_reset_requested w = s_reset_requested w"

definition stub_lib_usb_otg_handle_reset ::
  "'a usb_otg_world_scheme usb_otg_target \<Rightarrow> 'a usb_otg_world_scheme \<Rightarrow> 'a usb_otg_world_scheme" where
  "stub_lib_usb_otg_handle_reset T w =
     (let w = w\<lparr>s_reset_requested := False\<rparr>;
          w = rom_void (IoFn Esp_rom_isr_mask) [push_bit (unat (s_usb_int_num w)) 1] [] w;
          w = stub_lib_delay_us 10000 w
      in tu_handle_reset T w)"

section \<open>Chips whose ROM has no such port\<close>

definition no_usb_otg_is_active :: "'w \<Rightarrow> bool \<times> 'w" where "no_usb_otg_is_active w = (False, w)"
definition no_usb_otg_rominit_intr_attach :: "u32 \<Rightarrow> u32 \<Rightarrow> 'w \<Rightarrow> 'w" where
  "no_usb_otg_rominit_intr_attach intr_num rx_callback w = w"
definition no_usb_otg_tx_one_char :: "u8 \<Rightarrow> 'w \<Rightarrow> u8 \<times> 'w" where "no_usb_otg_tx_one_char c w = (0, w)"
definition no_usb_otg_tx_flush :: "'w \<Rightarrow> 'w" where "no_usb_otg_tx_flush w = w"
definition no_usb_otg_rx_async_enable :: "bool \<Rightarrow> 'w \<Rightarrow> 'w" where "no_usb_otg_rx_async_enable enable w = w"
definition no_usb_otg_is_reset_requested :: "'w \<Rightarrow> bool" where "no_usb_otg_is_reset_requested w = False"
definition no_usb_otg_handle_reset :: "'w \<Rightarrow> 'w" where "no_usb_otg_handle_reset w = w"

section \<open>The ESP32-S3\<close>

definition USBDC_PERSIST_ENA :: u32 where [regs]: "USBDC_PERSIST_ENA = push_bit 31 1"

definition s3_usb_otg_is_supported :: bool where "s3_usb_otg_is_supported = True"

definition usb_dw_isr_handler_wrapper :: "u32 \<Rightarrow> 'a world_scheme \<Rightarrow> 'a world_scheme" where
  "usb_dw_isr_handler_wrapper arg w = rom_void (UsbFn Esp_rom_usb_dw_isr_handler) [arg] [] w"

definition s3_usb_otg_rominit_intr_attach :: "u32 \<Rightarrow> u32 \<Rightarrow> 'a world_scheme \<Rightarrow> 'a world_scheme" where
  "s3_usb_otg_rominit_intr_attach intr_num callback w =
     (let w = WRITE_PERI_REG INTERRUPT_CORE0_USB_INTR_MAP_REG intr_num w;
          w = rom_void (IoFn Esp_rom_isr_attach) [intr_num, sym_addr w Sym_usb_isr_wrapper, 0] [] w;
          w = rom_void (UsbFn Esp_rom_cdc_acm_irq_callback_set) [uart_acm_dev w, callback] [] w;
          w = rom_void (UsbFn Esp_rom_cdc_acm_irq_rx_enable) [uart_acm_dev w] [] w;
          w = rom_void (UsbFn Esp_rom_cdc_acm_irq_state_enable) [uart_acm_dev w] [] w;
          w = SET_PERI_REG_MASK USB_GAHBCFG_REG USB_GLBLLNTRMSK w
      in rom_void (IoFn Esp_rom_isr_unmask) [push_bit (unat intr_num) 1] [] w)"

definition s3_usb_otg_handle_reset :: "'a world_scheme \<Rightarrow> 'a world_scheme" where
  "s3_usb_otg_handle_reset w =
     (let w = rom_void (UsbFn Esp_rom_usb_dc_check_poll_for_interrupts) [] [] w;
          w = CLEAR_PERI_REG_MASK RTC_CNTL_OPTION1_REG RTC_CNTL_FORCE_DOWNLOAD_BOOT w;
          w = rom_void (UsbFn Esp_rom_chip_usb_set_persist_flags) [USBDC_PERSIST_ENA] [] w;
          w = rom_void (UsbFn Esp_rom_usb_dc_prepare_persist) [] [] w
      in rom_void (UsbFn Esp_rom_software_reset_cpu) [0] [] w)"

definition s3_usb_otg_target :: "'a usb_otg_world_scheme usb_otg_target" where
  "s3_usb_otg_target = \<lparr>tu_is_supported = s3_usb_otg_is_supported,
     tu_rominit_intr_attach = s3_usb_otg_rominit_intr_attach, tu_handle_reset = s3_usb_otg_handle_reset\<rparr>"

subsection \<open>The ESP32-S2, ESP32-P4 and ESP32-S31\<close>

definition s2_ETS_USB_INTR_SOURCE :: u32 where [regs]: "s2_ETS_USB_INTR_SOURCE = 48"
definition p4_USB_GAHBCFG_REG_OFFSET :: u32 where [regs]: "p4_USB_GAHBCFG_REG_OFFSET = 0x008"
definition p4_USB_GLBLLNTRMSK :: u32 where [regs]: "p4_USB_GLBLLNTRMSK = push_bit 0 1"
definition s31_ETS_USB_OTGHS_INTR_SOURCE :: u32 where [regs]: "s31_ETS_USB_OTGHS_INTR_SOURCE = 99"

definition s2_usb_otg_is_supported :: bool where "s2_usb_otg_is_supported = True"

definition s2_usb_otg_rominit_intr_attach :: "u32 \<Rightarrow> u32 \<Rightarrow> 'a world_scheme \<Rightarrow> 'a world_scheme" where
  "s2_usb_otg_rominit_intr_attach intr_num callback w =
     (let w = rom_void (IoFn Esp_rom_route_intr_matrix) [0, s2_ETS_USB_INTR_SOURCE, intr_num] [] w;
          w = rom_void (IoFn Esp_rom_isr_attach) [intr_num, sym_addr w Sym_rom_usb_dw_isr, 0] [] w;
          w = rom_void (UsbFn Esp_rom_cdc_acm_irq_callback_set) [uart_acm_dev w, callback] [] w;
          w = rom_void (UsbFn Esp_rom_cdc_acm_irq_rx_enable) [uart_acm_dev w] [] w;
          w = rom_void (UsbFn Esp_rom_cdc_acm_irq_state_enable) [uart_acm_dev w] [] w;
          w = SET_PERI_REG_MASK s2_USB_GAHBCFG_REG s2_USB_GLBLLNTRMSK w
      in rom_void (IoFn Esp_rom_isr_unmask) [push_bit (unat intr_num) 1] [] w)"

definition s2_usb_otg_handle_reset :: "'a world_scheme \<Rightarrow> 'a world_scheme" where
  "s2_usb_otg_handle_reset w =
     (let w = rom_void (UsbFn Esp_rom_usb_dc_check_poll_for_interrupts) [] [] w;
          w = CLEAR_PERI_REG_MASK s2_RTC_CNTL_OPTION1_REG s2_RTC_CNTL_FORCE_DOWNLOAD_BOOT w;
          w = rom_void (UsbFn Esp_rom_chip_usb_set_persist_flags) [USBDC_PERSIST_ENA] [] w;
          w = rom_void (UsbFn Esp_rom_usb_dc_prepare_persist) [] [] w
      in rom_void (UsbFn Esp_rom_software_reset_cpu) [0] [] w)"

definition s2_usb_otg_target :: "'a usb_otg_world_scheme usb_otg_target" where
  "s2_usb_otg_target = \<lparr>tu_is_supported = s2_usb_otg_is_supported,
     tu_rominit_intr_attach = s2_usb_otg_rominit_intr_attach, tu_handle_reset = s2_usb_otg_handle_reset\<rparr>"

definition p4_usb_otg_is_supported :: bool where "p4_usb_otg_is_supported = True"

definition p4_usb_otg_rominit_intr_attach :: "u32 \<Rightarrow> u32 \<Rightarrow> 'a world_scheme \<Rightarrow> 'a world_scheme" where
  "p4_usb_otg_rominit_intr_attach intr_num callback w =
     (let w = SET_PERI_REG_MASK p4_HP_SYSTEM_SYS_USBOTG20_CTRL_REG p4_HP_SYSTEM_SYS_OTG_SUSPENDM w;
          w = WRITE_PERI_REG p4_INTERRUPT_CORE0_USB_OTG_INT_MAP_REG (intr_num + p4_CLIC_EXT_INTR_NUM_OFFSET) w;
          w = rom_void (SdioFn Esp_rom_esprv_intc_int_set_priority) [intr_num, 1] [] w;
          w = rom_void (IoFn Esp_rom_isr_attach) [intr_num, sym_addr w Sym_rom_usb_dw_isr, 0] [] w;
          w = rom_void (UsbFn Esp_rom_cdc_acm_irq_callback_set) [uart_acm_dev w, callback] [] w;
          w = rom_void (UsbFn Esp_rom_cdc_acm_irq_rx_enable) [uart_acm_dev w] [] w;
          w = rom_void (UsbFn Esp_rom_cdc_acm_irq_state_enable) [uart_acm_dev w] [] w;
          w = SET_PERI_REG_MASK (p4_DR_REG_USB2_BASE + p4_USB_GAHBCFG_REG_OFFSET) p4_USB_GLBLLNTRMSK w
      in rom_void (IoFn Esp_rom_isr_unmask) [push_bit (unat intr_num) 1] [] w)"

definition p4_usb_otg_handle_reset :: "'a world_scheme \<Rightarrow> 'a world_scheme" where
  "p4_usb_otg_handle_reset w =
     (let w = rom_void (UsbFn Esp_rom_usb_dc_check_poll_for_interrupts) [] [] w;
          w = CLEAR_PERI_REG_MASK p4_LP_SYSTEM_REG_SYS_CTRL_REG p4_LP_SYSTEM_REG_FORCE_DOWNLOAD_BOOT w;
          w = rom_void (UsbFn Esp_rom_chip_usb_set_persist_flags) [USBDC_PERSIST_ENA] [] w;
          w = rom_void (UsbFn Esp_rom_usb_dc_prepare_persist) [] [] w
      in rom_void (UsbFn Esp_rom_software_reset_cpu) [0] [] w)"

definition p4_usb_otg_target :: "'a usb_otg_world_scheme usb_otg_target" where
  "p4_usb_otg_target = \<lparr>tu_is_supported = p4_usb_otg_is_supported,
     tu_rominit_intr_attach = p4_usb_otg_rominit_intr_attach, tu_handle_reset = p4_usb_otg_handle_reset\<rparr>"

definition s31_usb_otg_is_supported :: bool where "s31_usb_otg_is_supported = True"

definition s31_usb_otg_rominit_intr_attach :: "u32 \<Rightarrow> u32 \<Rightarrow> 'a world_scheme \<Rightarrow> 'a world_scheme" where
  "s31_usb_otg_rominit_intr_attach intr_num callback w =
     (let w = rom_void (IoFn Esp_rom_route_intr_matrix) [0, s31_ETS_USB_OTGHS_INTR_SOURCE, intr_num] [] w;
          w = rom_void (SdioFn Esp_rom_esprv_intc_int_set_priority) [intr_num, 1] [] w;
          w = rom_void (IoFn Esp_rom_isr_attach) [intr_num, sym_addr w Sym_rom_usb_dw_isr, 0] [] w;
          w = rom_void (UsbFn Esp_rom_cdc_acm_irq_callback_set) [uart_acm_dev w, callback] [] w;
          w = rom_void (UsbFn Esp_rom_cdc_acm_irq_rx_enable) [uart_acm_dev w] [] w;
          w = rom_void (UsbFn Esp_rom_cdc_acm_irq_state_enable) [uart_acm_dev w] [] w;
          w = SET_PERI_REG_MASK s31_USB_OTGHS_GAHBCFG_REG s31_USB_OTGHS_GAHBCFG_GLBLINTRMSK w
      in rom_void (IoFn Esp_rom_isr_unmask) [push_bit (unat intr_num) 1] [] w)"

definition s31_usb_otg_handle_reset :: "'a world_scheme \<Rightarrow> 'a world_scheme" where
  "s31_usb_otg_handle_reset w =
     (let w = rom_void (UsbFn Esp_rom_usb_dc_check_poll_for_interrupts) [] [] w;
          w = CLEAR_PERI_REG_MASK s31_LP_SYSTEM_REG_SYS_CTRL_REG s31_LP_SYSTEM_REG_FORCE_DOWNLOAD_BOOT w;
          w = rom_void (UsbFn Esp_rom_chip_usb_set_persist_flags) [USBDC_PERSIST_ENA] [] w;
          w = rom_void (UsbFn Esp_rom_usb_dc_prepare_persist) [] [] w
      in rom_void (UsbFn Esp_rom_software_reset_cpu) [0] [] w)"

definition s31_usb_otg_target :: "'a usb_otg_world_scheme usb_otg_target" where
  "s31_usb_otg_target = \<lparr>tu_is_supported = s31_usb_otg_is_supported,
     tu_rominit_intr_attach = s31_usb_otg_rominit_intr_attach, tu_handle_reset = s31_usb_otg_handle_reset\<rparr>"

definition usb_otg_targets :: "'a usb_otg_world_scheme usb_otg_target list" where
  "usb_otg_targets = [s3_usb_otg_target, s2_usb_otg_target, p4_usb_otg_target, s31_usb_otg_target]"

section \<open>The transmit buffer\<close>

lemma usb_otg_after [simp]:
  "s_usb_int_num (after w es) = s_usb_int_num w" "s_rx_callback (after w es) = s_rx_callback w"
  "s_cdcacm_txbuf (after w es) = s_cdcacm_txbuf w" "s_cdcacm_txpos (after w es) = s_cdcacm_txpos w"
  "s_cdcacm_old_rts (after w es) = s_cdcacm_old_rts w" "s_reset_requested (after w es) = s_reset_requested w"
  by (simp_all add: after_def)

text \<open>The packets handed to the ROM, and what waits in the buffer.\<close>

definition packet :: "ev \<Rightarrow> u8 list list" where
  "packet e = (case e of Call (UsbFn Esp_rom_cdc_acm_fifo_fill) args d r out \<Rightarrow> [d] | _ \<Rightarrow> [])"

definition packets :: "'a world_scheme \<Rightarrow> u8 list list" where
  "packets w = concat (map packet (trace w))"

definition otg_sent :: "'a world_scheme \<Rightarrow> u8 list" where
  "otg_sent w = concat (packets w)"

definition otg_kept :: "'a usb_otg_world_scheme \<Rightarrow> u8 list" where
  "otg_kept w = take (s_cdcacm_txpos w) (s_cdcacm_txbuf w)"

definition otg_wf :: "'a usb_otg_world_scheme \<Rightarrow> bool" where
  "otg_wf w \<longleftrightarrow> length (s_cdcacm_txbuf w) = 64 \<and> s_cdcacm_txpos w < 64"

lemma packet_fill [simp]: "packet (Call (UsbFn Esp_rom_cdc_acm_fifo_fill) args d r out) = [d]"
  by (simp add: packet_def)

lemma otg_flush_effect:
  assumes "length (s_cdcacm_txbuf w) = 64" "s_cdcacm_txpos w \<le> 64"
  shows "otg_wf (stub_lib_usb_otg_tx_flush w) \<and> otg_kept (stub_lib_usb_otg_tx_flush w) = [] \<and>
    packets (stub_lib_usb_otg_tx_flush w) = packets w @ [otg_kept w]"
  using assms by (simp add: stub_lib_usb_otg_tx_flush_def rom_eq otg_wf_def otg_kept_def packets_def Let_def)

lemma otg_put_effect:
  fixes c :: u8
  assumes "otg_wf w"
  defines "w' \<equiv> snd (stub_lib_usb_otg_tx_one_char c w)"
  shows "otg_wf w' \<and> (if s_cdcacm_txpos w = 63
     then packets w' = packets w @ [otg_kept w @ [c]] \<and> otg_kept w' = []
     else packets w' = packets w \<and> otg_kept w' = otg_kept w @ [c])"
proof -
  let ?u = "w\<lparr>s_cdcacm_txbuf := (s_cdcacm_txbuf w)[s_cdcacm_txpos w := c], s_cdcacm_txpos := s_cdcacm_txpos w + 1\<rparr>"
  have k: "otg_kept ?u = otg_kept w @ [c]" "packets ?u = packets w"
    using assms(1) by (simp_all add: otg_kept_def otg_wf_def packets_def take_Suc_conv_app_nth)
  show ?thesis
  proof (cases "s_cdcacm_txpos w = 63")
    case True
    then have "w' = stub_lib_usb_otg_tx_flush ?u"
      by (simp add: w'_def stub_lib_usb_otg_tx_one_char_def Let_def regs)
    then show ?thesis using otg_flush_effect [of ?u] assms(1) True k by (simp add: otg_wf_def)
  next
    case False
    then have "w' = ?u" using assms(1)
      by (simp add: w'_def stub_lib_usb_otg_tx_one_char_def Let_def regs otg_wf_def)
    then show ?thesis using assms(1) False k by (simp add: otg_wf_def)
  qed
qed

interpretation otg: eager_transmitter stub_lib_usb_otg_tx_one_char stub_lib_usb_otg_tx_flush otg_sent otg_kept otg_wf
proof (unfold_locales, goal_cases)
  case (1 w c)
  then show ?case using otg_put_effect [of w c] by simp
next
  case (2 w c st w')
  then have "st = 0" by (auto simp: stub_lib_usb_otg_tx_one_char_def Let_def)
  then show ?case using otg_put_effect [OF 2(1), of c] 2(2) by (auto simp: otg_sent_def split: if_splits)
next
  case (3 w)
  then show ?case using otg_flush_effect [of w] by (simp add: otg_wf_def)
next
  case (4 w)
  then show ?case using otg_flush_effect [of w] by (simp add: otg_wf_def otg_sent_def)
next
  case (5 w)
  then show ?case using otg_flush_effect [of w] by (simp add: otg_wf_def)
next
  case (6 c w)
  then show ?case by (simp add: stub_lib_usb_otg_tx_one_char_def Let_def)
qed

text \<open>Without a flush, packets leave only when they are full.\<close>

lemma otg_full_packets:
  assumes "otg_wf w"
  shows "\<exists>ps. packets (snd (tx_all stub_lib_usb_otg_tx_one_char cs w)) = packets w @ ps \<and>
    list_all (\<lambda>p. length p = 64) ps"
  using assms
proof (induction cs arbitrary: w)
  case (Cons c cs)
  let ?w = "snd (stub_lib_usb_otg_tx_one_char c w)"
  note e = otg_put_effect [OF Cons.prems, of c]
  obtain ps where ps: "packets (snd (tx_all stub_lib_usb_otg_tx_one_char cs ?w)) = packets ?w @ ps"
    "list_all (\<lambda>p. length p = 64) ps" using Cons.IH [of ?w] e by blast
  have n: "snd (tx_all stub_lib_usb_otg_tx_one_char (c # cs) w) = snd (tx_all stub_lib_usb_otg_tx_one_char cs ?w)"
    by (simp add: split_beta)
  show ?case
  proof (cases "s_cdcacm_txpos w = 63")
    case True
    then have "length (otg_kept w @ [c]) = 64" using Cons.prems by (simp add: otg_kept_def otg_wf_def)
    then show ?thesis using e True ps unfolding n by (intro exI [of _ "(otg_kept w @ [c]) # ps"]) simp
  next
    case False
    then show ?thesis using e ps unfolding n by auto
  qed
qed simp

text \<open>
  Whatever is written to the port arrives at the ROM: after a flush the packets handed over are
  the bytes in order, all but the last one full.
\<close>

text \<open>
  C29: Writing any bytes to the USB OTG port and flushing it hands exactly these bytes to
  the ROM, in order and once, in packets of which all but the last are full and the last is
  not.
\<close>

lemma usb_otg_stream:
  fixes cs :: "u8 list"
  assumes "otg_wf w" "otg_kept w = []"
  defines "w' \<equiv> snd (tx_all stub_lib_usb_otg_tx_one_char cs w)"
  shows "\<exists>ps p. packets (stub_lib_usb_otg_tx_flush w') = packets w @ ps @ [p] \<and>
    list_all (\<lambda>q. length q = 64) ps \<and> length p < 64 \<and> concat ps @ p = cs"
proof -
  have t: "tx_all stub_lib_usb_otg_tx_one_char cs w = (cs, w')"
    using otg.tx_all_accepts [of cs w] by (simp add: w'_def prod_eq_iff)
  obtain ps where ps: "packets w' = packets w @ ps" "list_all (\<lambda>q. length q = 64) ps"
    using otg_full_packets [OF assms(1), of cs] by (auto simp: w'_def)
  have wf: "otg_wf w'" and s: "otg_sent w' @ otg_kept w' = otg_sent w @ cs"
    using otg.tx_all_stream [OF assms(1) t] assms(2) by simp_all
  have "packets (stub_lib_usb_otg_tx_flush w') = packets w' @ [otg_kept w']"
    using otg_flush_effect [of w'] wf by (simp add: otg_wf_def)
  moreover have "concat ps @ otg_kept w' = cs" using s ps(1) by (simp add: otg_sent_def)
  moreover have "length (otg_kept w') < 64" using wf by (simp add: otg_kept_def otg_wf_def)
  ultimately show ?thesis using ps by (intro exI [of _ ps] exI [of _ "otg_kept w'"]) simp
qed

section \<open>The reset request\<close>

text \<open>The values of RTS the ROM reported, in order; a report without a value counts as 0.\<close>

definition rts_of :: "ev \<Rightarrow> u32 list" where
  "rts_of e = (case e of Call (UsbFn Esp_rom_cdc_acm_line_ctrl_get) args d r out \<Rightarrow> [stored_u32 out 0] | _ \<Rightarrow> [])"

definition rts_seq :: "ev list \<Rightarrow> u32 list" where
  "rts_seq es = concat (map rts_of es)"

lemma rts_seq_simps [simp]:
  "rts_seq [] = []" "rts_seq (es @ fs) = rts_seq es @ rts_seq fs" "rts_seq (Rd c v # es) = rts_seq es"
  "rts_seq (Wr c v # es) = rts_seq es"
  "rts_seq (Call (UsbFn Esp_rom_cdc_acm_line_ctrl_get) args d r out # es) = stored_u32 out 0 # rts_seq es"
  "f \<noteq> UsbFn Esp_rom_cdc_acm_line_ctrl_get \<Longrightarrow> rts_seq (Call f args d r out # es) = rts_seq es"
  by (auto simp: rts_seq_def rts_of_def split: rom_fn.splits usb_fn.splits)

definition falls :: "u32 list \<Rightarrow> bool" where
  "falls vs \<longleftrightarrow> (\<exists>i. Suc i < length vs \<and> vs ! i = 1 \<and> vs ! Suc i = 0)"

lemma falls_snoc: "vs \<noteq> [] \<Longrightarrow> falls (vs @ [v]) \<longleftrightarrow> falls vs \<or> (last vs = 1 \<and> v = 0)"
proof (induction vs rule: rev_induct)
  case (snoc x vs)
  have "falls ((vs @ [x]) @ [v]) \<longleftrightarrow> falls (vs @ [x]) \<or> x = 1 \<and> v = 0"
  proof
    assume "falls ((vs @ [x]) @ [v])"
    then obtain i where i: "Suc i < length ((vs @ [x]) @ [v])" "((vs @ [x]) @ [v]) ! i = 1" "((vs @ [x]) @ [v]) ! Suc i = 0"
      unfolding falls_def by blast
    show "falls (vs @ [x]) \<or> x = 1 \<and> v = 0"
    proof (cases "Suc i < length (vs @ [x])")
      case True
      then show ?thesis using i unfolding falls_def by (intro disjI1 exI [of _ i]) (simp add: nth_append split: if_splits)
    next
      case False
      then have "i = length vs" using i(1) by simp
      then show ?thesis using i(2,3) by (simp add: nth_append)
    qed
  next
    assume "falls (vs @ [x]) \<or> x = 1 \<and> v = 0"
    then show "falls ((vs @ [x]) @ [v])"
    proof
      assume "falls (vs @ [x])"
      then obtain i where "Suc i < length (vs @ [x])" "(vs @ [x]) ! i = 1" "(vs @ [x]) ! Suc i = 0"
        unfolding falls_def by blast
      then show ?thesis unfolding falls_def by (intro exI [of _ i]) (simp add: nth_append split: if_splits)
    next
      assume "x = 1 \<and> v = 0"
      then show ?thesis unfolding falls_def by (intro exI [of _ "length vs"]) (simp add: nth_append)
    qed
  qed
  then show ?case by simp
qed simp

text \<open>
  The application only answers a received byte; it does not ask for the line state behind the
  driver's back and does not touch the driver's variables.
\<close>

definition app_ok :: "(u32 \<Rightarrow> u8 \<Rightarrow> 'a usb_otg_world_scheme \<Rightarrow> 'a usb_otg_world_scheme) \<Rightarrow> bool" where
  "app_ok app \<longleftrightarrow> (\<forall>a c w. \<exists>es. app a c w = after w es \<and> rts_seq es = [])"

inductive otg_session ::
  "'a usb_otg_world_scheme usb_otg_target \<Rightarrow> (u32 \<Rightarrow> u8 \<Rightarrow> 'a usb_otg_world_scheme \<Rightarrow> 'a usb_otg_world_scheme) \<Rightarrow>
   'a usb_otg_world_scheme \<Rightarrow> 'a usb_otg_world_scheme \<Rightarrow> bool" for T app w0 where
  attach: "otg_session T app w0 (stub_lib_usb_otg_rominit_intr_attach T intr_num cb w0)"
| interrupt: "otg_session T app w0 w \<Longrightarrow> stub_lib_usb_otg_cdcacm_callback app dev status w = Some w' \<Longrightarrow> otg_session T app w0 w'"
| put: "otg_session T app w0 w \<Longrightarrow> otg_session T app w0 (snd (stub_lib_usb_otg_tx_one_char c w))"
| flush: "otg_session T app w0 w \<Longrightarrow> otg_session T app w0 (stub_lib_usb_otg_tx_flush w)"
| enable: "otg_session T app w0 w \<Longrightarrow> otg_session T app w0 (stub_lib_usb_otg_rx_async_enable b w)"

text \<open>An operation that asks for no line state and leaves the two variables alone.\<close>

definition calm :: "'a usb_otg_world_scheme \<Rightarrow> 'a usb_otg_world_scheme \<Rightarrow> bool" where
  "calm w w' \<longleftrightarrow> (\<exists>es. trace w' = trace w @ es \<and> rts_seq es = []) \<and> rom_dev w' = rom_dev w \<and>
     s_cdcacm_old_rts w' = s_cdcacm_old_rts w \<and> s_reset_requested w' = s_reset_requested w"

lemma calm_refl: "calm w w" by (simp add: calm_def)

lemma calm_trans: "calm u v \<Longrightarrow> calm v w \<Longrightarrow> calm u w"
  unfolding calm_def by (metis append.assoc append_Nil2 rts_seq_simps(2))

lemma calm_after: "rts_seq es = [] \<Longrightarrow> calm w (after w es)"
  by (simp add: calm_def)

lemma calm_step:
  assumes "calm w u"
  shows "f \<noteq> UsbFn Esp_rom_cdc_acm_line_ctrl_get \<Longrightarrow> calm w (rom_void f args d u)"
    "f \<noteq> UsbFn Esp_rom_cdc_acm_line_ctrl_get \<Longrightarrow> calm w (snd (rom_num f args d u))"
    "f \<noteq> UsbFn Esp_rom_cdc_acm_line_ctrl_get \<Longrightarrow> calm w (snd (rom_call f args d u))"
    "calm w (WRITE_PERI_REG r v u)" "calm w (SET_PERI_REG_MASK r v u)"
  by (auto intro!: calm_trans [OF assms] calm_after simp: prim_eq)

lemma rx_loop_calm:
  assumes "app_ok app" "cdcacm_rx_loop app dev w = Some w'"
  shows "calm w w'"
proof (rule cdcacm_rx_loop.raw_induct [where P = "\<lambda>app dev w w'. app_ok app \<longrightarrow> calm w w'", OF _ assms(2), rule_format, OF _ assms(1)],
    goal_cases)
  case (1 loop app dev w w')
  let ?u = "snd (rom_num (UsbFn Esp_rom_cdc_acm_rx_fifo_cnt) [dev] [] w)"
  let ?v = "snd (rom_call (UsbFn Esp_rom_cdc_acm_fifo_read) [dev, 1] [] ?u)"
  have u: "calm w ?u" and v: "calm ?u ?v" by (simp_all add: calm_step calm_refl)
  consider "w' = ?u" | c where "loop app dev (app (s_rx_callback ?v) c ?v) = Some w'"
  proof (cases "sint (fst (rom_num (UsbFn Esp_rom_cdc_acm_rx_fifo_cnt) [dev] [] w)) > 0")
    case True
    then show ?thesis using 1(2) that(2) unfolding Let_def split_beta by (simp split: if_splits)
  next
    case False
    then show ?thesis using 1(2) that(1) unfolding Let_def split_beta by simp
  qed
  then show ?case
  proof cases
    case 1
    then show ?thesis using u by simp
  next
    case (2 c)
    have "calm ?v (app (s_rx_callback ?v) c ?v)" using 1(3) by (metis app_ok_def calm_after)
    then show ?thesis using u v 1(1) [OF 2] 1(3) by (meson calm_trans)
  qed
qed

lemma flush_calm: "calm w (stub_lib_usb_otg_tx_flush w)"
  by (simp add: calm_def stub_lib_usb_otg_tx_flush_def rom_eq)

lemma put_calm: "calm w (snd (stub_lib_usb_otg_tx_one_char c w))"
proof -
  let ?u = "w\<lparr>s_cdcacm_txbuf := (s_cdcacm_txbuf w)[s_cdcacm_txpos w := c], s_cdcacm_txpos := s_cdcacm_txpos w + 1\<rparr>"
  have "calm w ?u" by (simp add: calm_def)
  moreover have "snd (stub_lib_usb_otg_tx_one_char c w) = ?u \<or>
      snd (stub_lib_usb_otg_tx_one_char c w) = stub_lib_usb_otg_tx_flush ?u"
    unfolding stub_lib_usb_otg_tx_one_char_def Let_def snd_conv by metis
  ultimately show ?thesis using calm_trans [OF _ flush_calm, of w ?u] by auto
qed

lemma enable_calm: "calm w (stub_lib_usb_otg_rx_async_enable b w)"
  by (simp add: stub_lib_usb_otg_rx_async_enable_def Let_def calm_step calm_refl)

text \<open>The ROM reports the line state it is asked for.\<close>

definition reports_lines :: "'a world_scheme \<Rightarrow> bool" where
  "reports_lines w \<longleftrightarrow> (\<forall>es args d. length (snd (rom_dev w es (UsbFn Esp_rom_cdc_acm_line_ctrl_get) args d)) = 4)"

definition rts_inv :: "'a usb_otg_world_scheme \<Rightarrow> 'a usb_otg_world_scheme \<Rightarrow> bool" where
  "rts_inv w0 w \<longleftrightarrow> (\<exists>es. trace w = trace w0 @ es \<and> rts_seq es \<noteq> [] \<and>
     s_cdcacm_old_rts w = last (rts_seq es) \<and> (s_reset_requested w \<longleftrightarrow> falls (rts_seq es)))"

lemma rts_inv_calm: "rts_inv w0 w \<Longrightarrow> calm w w' \<Longrightarrow> rts_inv w0 w'"
  unfolding rts_inv_def calm_def by (metis append.assoc append_Nil2 rts_seq_simps(2))

lemma attach_calm:
  assumes "T \<in> set usb_otg_targets"
  shows "calm w (tu_rominit_intr_attach T intr_num cb w)"
  using assms unfolding usb_otg_targets_def
  by (simp, elim disjE; hypsubst)
    (simp_all add: s3_usb_otg_target_def s2_usb_otg_target_def p4_usb_otg_target_def s31_usb_otg_target_def
      s3_usb_otg_rominit_intr_attach_def s2_usb_otg_rominit_intr_attach_def p4_usb_otg_rominit_intr_attach_def
      s31_usb_otg_rominit_intr_attach_def Let_def calm_step calm_refl)

lemma attach_effect:
  fixes w0 :: "'a usb_otg_world_scheme" and intr_num cb :: u32
  assumes "reports_lines w0" and T: "T \<in> set usb_otg_targets"
  defines "v \<equiv> stored_u32 (rom_out (UsbFn Esp_rom_cdc_acm_line_ctrl_get) [uart_acm_dev w0, LINE_CTRL_RTS] [] w0) 0"
    and "w \<equiv> stub_lib_usb_otg_rominit_intr_attach T intr_num cb w0"
  shows "\<exists>es. trace w = trace w0 @ es \<and> rts_seq es = [v] \<and> s_cdcacm_old_rts w = v \<and> \<not> s_reset_requested w \<and>
    rom_dev w = rom_dev w0"
proof -
  define f where "f = UsbFn Esp_rom_cdc_acm_line_ctrl_get"
  let ?a = "[uart_acm_dev w0, LINE_CTRL_RTS]"
  define out where "out = rom_out f ?a [] w0"
  let ?e = "Call f ?a [] (rom_ret f ?a [] w0) out"
  let ?i = "w0\<lparr>s_usb_int_num := intr_num, s_rx_callback := cb, s_cdcacm_txpos := 0, s_reset_requested := False\<rparr>"
  let ?u = "after ?i [?e]\<lparr>s_cdcacm_old_rts := stored_u32 out (s_cdcacm_old_rts w0)\<rparr>"
  have same: "rom_out f ?a [] ?i = out" "rom_ret f ?a [] ?i = rom_ret f ?a [] w0" "uart_acm_dev ?i = uart_acm_dev w0"
    by (simp_all add: out_def rom_out_def rom_ret_def uart_acm_dev_def)
  have l: "length out = 4" using assms(1) by (simp add: reports_lines_def out_def f_def rom_out_def)
  have v: "stored_u32 out (s_cdcacm_old_rts w0) = v"
    using stored_u32_any [OF l] by (simp add: v_def out_def f_def)
  have "trace ?u = trace w0 @ [?e] \<and> rts_seq [?e] = [v] \<and> s_cdcacm_old_rts ?u = v \<and> \<not> s_reset_requested ?u \<and>
      rom_dev ?u = rom_dev w0"
    using stored_u32_any [OF l, of "s_cdcacm_old_rts w0"] by (simp add: f_def v)
  moreover have "calm ?u (tu_rominit_intr_attach T intr_num (sym_addr ?u Sym_cdcacm_callback) ?u)"
    by (rule attach_calm [OF T])
  moreover have "w = tu_rominit_intr_attach T intr_num (sym_addr ?u Sym_cdcacm_callback) ?u"
    unfolding w_def stub_lib_usb_otg_rominit_intr_attach_def Let_def f_def [symmetric] rom_eq split_conv same
    by (simp add: emit_after)
  ultimately show ?thesis
    unfolding calm_def by (metis append.assoc append_Nil2 rts_seq_simps(2))
qed

lemma rts_inv_interrupt:
  assumes "rts_inv w0 w" "app_ok app" "stub_lib_usb_otg_cdcacm_callback app dev status w = Some w'"
  shows "rts_inv w0 w'"
proof (cases "status = ACM_STATUS_LINESTATE_CHANGED")
  case False
  then have "cdcacm_rx_loop app dev w = Some w' \<or> w' = w"
    using assms(3) unfolding stub_lib_usb_otg_cdcacm_callback_def by (simp split: if_splits)
  then show ?thesis using assms(1) rx_loop_calm [OF assms(2)] rts_inv_calm by metis
next
  case True
  obtain es where es: "trace w = trace w0 @ es" "rts_seq es \<noteq> []" "s_cdcacm_old_rts w = last (rts_seq es)"
    "s_reset_requested w \<longleftrightarrow> falls (rts_seq es)" using assms(1) by (auto simp: rts_inv_def)
  define f where "f = UsbFn Esp_rom_cdc_acm_line_ctrl_get"
  define v where "v = stored_u32 (rom_out f [dev, LINE_CTRL_RTS] [] w) 0"
  let ?e = "Call f [dev, LINE_CTRL_RTS] [] (rom_ret f [dev, LINE_CTRL_RTS] [] w) (rom_out f [dev, LINE_CTRL_RTS] [] w)"
  have "trace w' = trace w0 @ es @ [?e]" "s_cdcacm_old_rts w' = v"
    "s_reset_requested w' \<longleftrightarrow> s_reset_requested w \<or> (v = 0 \<and> s_cdcacm_old_rts w = 1)"
    using assms(3) True
    using assms(3) True unfolding stub_lib_usb_otg_cdcacm_callback_def Let_def rom_eq split_conv f_def [symmetric] v_def [symmetric]
    by (simp_all add: regs split: if_splits) (auto simp: es(1))
  moreover have "rts_seq (es @ [?e]) = rts_seq es @ [v]" by (simp add: v_def f_def)
  ultimately show ?thesis
    unfolding rts_inv_def by (intro exI [of _ "es @ [?e]"]) (use es falls_snoc [OF es(2), of v] in auto)
qed

text \<open>
  The driver asks for a reset exactly when RTS has fallen since the port was attached.
\<close>

text \<open>
  C30: At any point of a session on the USB OTG port of the ESP32-S3, -S2, -P4 or -S31 a
  reset is requested exactly when, since the port was attached, the ROM has reported the
  request-to-send line as 1 and then, the next time it was asked, as 0.
\<close>

lemma usb_otg_reset_on_falling_rts:
  assumes "T \<in> set usb_otg_targets" "otg_session T app w0 w" "app_ok app" "reports_lines w0"
  shows "stub_lib_usb_otg_is_reset_requested w \<longleftrightarrow> falls (rts_seq (drop (length (trace w0)) (trace w)))"
proof -
  have "rts_inv w0 w" using assms(2)
  proof induction
    case (attach intr_num cb)
    show ?case using attach_effect [OF assms(4,1), of intr_num cb]
      by (auto simp: rts_inv_def falls_def)
  next
    case (interrupt w dev status w')
    then show ?case using assms(3) by (blast intro: rts_inv_interrupt)
  qed (blast intro: rts_inv_calm put_calm flush_calm enable_calm)+
  then show ?thesis by (auto simp: rts_inv_def stub_lib_usb_otg_is_reset_requested_def)
qed

text \<open>Handling the request clears it, and the CPU is reset last, after the persistent flags are set.\<close>

definition otg_calls :: "ev list \<Rightarrow> rom_fn list" where
  "otg_calls es = concat (map (\<lambda>e. case e of Call f args d r out \<Rightarrow> [f] | _ \<Rightarrow> []) es)"

lemma usb_otg_handle_reset_order:
  fixes w :: "'a usb_otg_world_scheme"
  assumes "T \<in> set usb_otg_targets"
  defines "w' \<equiv> stub_lib_usb_otg_handle_reset T w"
  shows "\<not> stub_lib_usb_otg_is_reset_requested w' \<and>
    otg_calls (drop (length (trace w)) (trace w')) =
      [IoFn Esp_rom_isr_mask, SysFn Ets_delay_us, UsbFn Esp_rom_usb_dc_check_poll_for_interrupts,
       UsbFn Esp_rom_chip_usb_set_persist_flags, UsbFn Esp_rom_usb_dc_prepare_persist, UsbFn Esp_rom_software_reset_cpu]"
  using assms(1) unfolding usb_otg_targets_def
  by (simp, elim disjE; hypsubst)
    (simp_all add: w'_def stub_lib_usb_otg_handle_reset_def s3_usb_otg_target_def s3_usb_otg_handle_reset_def
      s2_usb_otg_target_def s2_usb_otg_handle_reset_def p4_usb_otg_target_def p4_usb_otg_handle_reset_def
      s31_usb_otg_target_def s31_usb_otg_handle_reset_def stub_lib_usb_otg_is_reset_requested_def otg_calls_def Let_def prim_eq stub_lib_delay_us_eq)

section \<open>Examples\<close>

definition otg_world :: usb_otg_world where
  "otg_world = \<lparr>rd_dev = \<lambda>_ _. 0, rom_dev = \<lambda>es _ _ _. (0, if rts_seq es = [] then [1, 0, 0, 0] else [0, 0, 0, 0]),
     mem_dev = \<lambda>_ _ _. [], sym_addr = \<lambda>_. 0, trace = [], s_usb_int_num = 0, s_rx_callback = 0,
     s_cdcacm_txbuf = replicate 64 0, s_cdcacm_txpos = 0, s_cdcacm_old_rts = 0, s_reset_requested = False\<rparr>"

lemma usb_otg_stream_witness:
  "\<exists>ps p. packets (stub_lib_usb_otg_tx_flush (snd (tx_all stub_lib_usb_otg_tx_one_char (replicate 70 7) otg_world))) =
     packets otg_world @ ps @ [p] \<and> list_all (\<lambda>q. length q = 64) ps \<and> length p < 64 \<and> concat ps @ p = replicate 70 7"
  by (rule usb_otg_stream) (simp_all add: otg_wf_def otg_kept_def otg_world_def)

lemma usb_otg_reset_on_falling_rts_witness:
  "\<exists>w. otg_session p4_usb_otg_target (\<lambda>_ _ w. w) otg_world w \<and> falls (rts_seq (trace w))"
proof -
  define w1 where "w1 = stub_lib_usb_otg_rominit_intr_attach p4_usb_otg_target 5 0 otg_world"
  have s1: "otg_session p4_usb_otg_target (\<lambda>_ _ w. w) otg_world w1" unfolding w1_def by (rule otg_session.attach)
  have rep: "reports_lines otg_world" by (simp add: reports_lines_def otg_world_def)
  have T: "p4_usb_otg_target \<in> set (usb_otg_targets :: usb_otg_world usb_otg_target list)" by (simp add: usb_otg_targets_def)
  obtain es where es: "trace w1 = es" "rts_seq es = [1]" "s_cdcacm_old_rts w1 = 1" "rom_dev w1 = rom_dev otg_world"
    using attach_effect [OF rep T, of 5 0] by (auto simp: w1_def otg_world_def rom_out_def stored_u32_def)
  then obtain w2 where w2: "stub_lib_usb_otg_cdcacm_callback (\<lambda>_ _ w. w) 0 (- 1) w1 = Some w2" "s_reset_requested w2"
    by (auto simp: stub_lib_usb_otg_cdcacm_callback_def ACM_STATUS_RX_def ACM_STATUS_LINESTATE_CHANGED_def
        rom_eq Let_def rom_out_def otg_world_def stored_u32_def)
  have s2: "otg_session p4_usb_otg_target (\<lambda>_ _ w. w) otg_world w2" by (rule otg_session.interrupt [OF s1 w2(1)])
  have "app_ok (\<lambda>_ _ w. w :: usb_otg_world)" unfolding app_ok_def by (metis after_Nil rts_seq_simps(1))
  then show ?thesis using rep usb_otg_reset_on_falling_rts [OF T s2] s2 w2(2)
    by (auto simp: stub_lib_usb_otg_is_reset_requested_def otg_world_def)
qed

end
