(* ===== verification/Log.thy ===== *)
theory Log
  imports Serial
begin

text \<open>
  The log: the formatter of \<open>src/log_common.c\<close>, which breaks a format into calls of the ROM's
  \<open>ets\_printf\<close>, and the back ends of \<open>src/log_buf.c\<close>, \<open>src/log_uart.c\<close> and
  \<open>src/log_usj.c\<close> that say where the ROM puts the characters. \<open>ets\_printf\<close> is a parameter.
\<close>

section \<open>Levels\<close>

text \<open>An enumeration is an \<open>int\<close> in C; a caller may pass any value.\<close>

definition STUB_LOG_LEVEL_NONE :: int where [simp]: "STUB_LOG_LEVEL_NONE = 0"
definition STUB_LOG_LEVEL_E :: int where [simp]: "STUB_LOG_LEVEL_E = 1"
definition STUB_LOG_LEVEL_W :: int where [simp]: "STUB_LOG_LEVEL_W = 2"
definition STUB_LOG_LEVEL_I :: int where [simp]: "STUB_LOG_LEVEL_I = 3"
definition STUB_LOG_LEVEL_D :: int where [simp]: "STUB_LOG_LEVEL_D = 4"
definition STUB_LOG_LEVEL_T :: int where [simp]: "STUB_LOG_LEVEL_T = 5"
definition STUB_LOG_LEVEL_V :: int where [simp]: "STUB_LOG_LEVEL_V = 6"

definition stub_lib_log_level_normalize :: "int \<Rightarrow> int" where
  "stub_lib_log_level_normalize level =
     (if level < STUB_LOG_LEVEL_NONE then STUB_LOG_LEVEL_NONE
      else if level > STUB_LOG_LEVEL_V then STUB_LOG_LEVEL_V else level)"

record log_world = world +
  g_stub_lib_log_level :: int

definition stub_lib_log_set_level :: "int \<Rightarrow> 'a log_world_scheme \<Rightarrow> 'a log_world_scheme" where
  "stub_lib_log_set_level level w = w\<lparr>g_stub_lib_log_level := stub_lib_log_level_normalize level\<rparr>"

definition stub_lib_log_level_enabled :: "int \<Rightarrow> 'a log_world_scheme \<Rightarrow> bool" where
  "stub_lib_log_level_enabled level w \<longleftrightarrow> g_stub_lib_log_level w \<ge> level"

definition stub_lib_log_init ::
  "('a log_world_scheme \<Rightarrow> 'a log_world_scheme) \<Rightarrow> int \<Rightarrow> 'a log_world_scheme \<Rightarrow> 'a log_world_scheme" where
  "stub_lib_log_init backend_init level w = backend_init (stub_lib_log_set_level level w)"

section \<open>The formatter\<close>

text \<open>
  A variadic argument is a machine word or a string pointer, None for NULL. Reading an
  argument that is not there, or one of the other kind, is undefined in C.
\<close>

datatype va = Word_arg u32 | Str_arg "string option"

definition INT_MIN :: u32 where "INT_MIN = 0x80000000"

text \<open>
  The calls of \<open>ets\_printf\<close>, each a format with one argument. A character argument is
  promoted to \<open>int\<close>.
\<close>

type_synonym 'w ets_printf = "string \<Rightarrow> va \<Rightarrow> 'w \<Rightarrow> 'w"

definition char_arg :: "char \<Rightarrow> va" where
  "char_arg c = Word_arg (of_nat (of_char c))"

text \<open>
  The loop over a format, from the character it is at. The result is None where the code has
  no defined behaviour: a missing or unsuitable argument; a format that ends in a percent
  sign, where the default case prints the sign and steps over the terminating NUL; and the
  negation of the smallest integer, which an \<open>int\<close> cannot hold.
\<close>

fun log_printf_loop :: "'w ets_printf \<Rightarrow> string \<Rightarrow> va list \<Rightarrow> 'w \<Rightarrow> 'w option" where
  "log_printf_loop ets [] args w = Some w"
| "log_printf_loop ets (c # fmt) args w =
     (if c \<noteq> CHR ''%'' then log_printf_loop ets fmt args (ets ''%c'' (char_arg c) w)
      else
        (case fmt of
           [] \<Rightarrow> None
         | k # fmt \<Rightarrow>
             if k = CHR ''s'' then
               (case args of Str_arg s # args \<Rightarrow>
                  log_printf_loop ets fmt args
                    (ets ''%s'' (Str_arg (Some (case s of None \<Rightarrow> ''(null)'' | Some s \<Rightarrow> s))) w)
                | _ \<Rightarrow> None)
             else if k = CHR ''d'' then
               (case args of Word_arg d # args \<Rightarrow>
                  if d = INT_MIN then None
                  else log_printf_loop ets fmt args
                    (if sint d < 0 then ets ''-%u'' (Word_arg (- d)) w else ets ''%u'' (Word_arg d) w)
                | _ \<Rightarrow> None)
             else if k = CHR ''u'' \<or> k = CHR ''x'' \<or> k = CHR ''X'' then
               (case args of Word_arg d # args \<Rightarrow> log_printf_loop ets fmt args (ets [CHR ''%'', k] (Word_arg d) w)
                | _ \<Rightarrow> None)
             else if k = CHR ''c'' then
               (case args of Word_arg d # args \<Rightarrow> log_printf_loop ets fmt args (ets ''%c'' (Word_arg d) w)
                | _ \<Rightarrow> None)
             else log_printf_loop ets fmt args (ets ''%s'' (Str_arg (Some [CHR ''%'', k])) w)))"

definition stub_lib_log_printf :: "'w ets_printf \<Rightarrow> string \<Rightarrow> va list \<Rightarrow> 'w \<Rightarrow> 'w option" where
  "stub_lib_log_printf ets fmt args w = log_printf_loop ets fmt args w"

text \<open>The macro behind \<open>STUB_LOGE\<close> and the other levels.\<close>

definition STUB_LOG_AT_LEVEL ::
  "'a log_world_scheme ets_printf \<Rightarrow> int \<Rightarrow> string \<Rightarrow> va list \<Rightarrow> 'a log_world_scheme \<Rightarrow> 'a log_world_scheme option" where
  "STUB_LOG_AT_LEVEL ets level fmt args w =
     (if stub_lib_log_level_enabled level w then stub_lib_log_printf ets fmt args w else Some w)"

section \<open>Back ends\<close>

definition STUB_LIB_LOG_BUF_SIZE :: nat where [simp]: "STUB_LIB_LOG_BUF_SIZE = 4096"

text \<open>The buffer of \<open>src/log\_buf.c\<close> with its write position \<open>count\<close>.\<close>

record log_buf_world = log_world +
  lb_count :: u32
  lb_buf :: string

definition stub_lib_log_buf_write_char :: "char \<Rightarrow> 'a log_buf_world_scheme \<Rightarrow> 'a log_buf_world_scheme" where
  "stub_lib_log_buf_write_char c w =
     (let w = w\<lparr>lb_buf := (lb_buf w)[unat (lb_count w) := c]\<rparr>
      in w\<lparr>lb_count := (lb_count w + 1) mod of_nat STUB_LIB_LOG_BUF_SIZE\<rparr>)"

definition log_buf_backend_init :: "'a world_scheme \<Rightarrow> 'a world_scheme" where
  "log_buf_backend_init w =
     (let w = rom_void (IoFn Ets_install_putc1) [sym_addr w Sym_log_buf_write_char] [] w
      in rom_void (IoFn Ets_install_putc2) [0] [] w)"

text \<open>The other two; the first takes the target's \<open>stub\_target\_uart\_init\<close>.\<close>

definition STUB_LIB_LOG_UART_NUM :: u8 where "STUB_LIB_LOG_UART_NUM = 0"

definition log_uart_backend_init ::
  "(u8 \<Rightarrow> 'a world_scheme \<Rightarrow> 'a world_scheme option) \<Rightarrow> 'a world_scheme \<Rightarrow> 'a world_scheme option" where
  "log_uart_backend_init uart_init w = do {
     w \<leftarrow> uart_init STUB_LIB_LOG_UART_NUM w;
     let w = rom_void (IoFn Ets_install_putc1) [0] [] w;
     let w = rom_void (IoFn Ets_install_putc2) [0] [] w;
     Some (rom_void (IoFn Ets_install_uart_printf) [] [] w) }"

definition log_usj_backend_init :: "'a world_scheme \<Rightarrow> 'a world_scheme" where
  "log_usj_backend_init w =
     (let w = rom_void (IoFn Ets_install_putc1) [0] [] w;
          w = rom_void (IoFn Ets_install_putc2) [0] [] w
      in rom_void (IoFn Ets_install_usb_printf) [] [] w)"

section \<open>What printf promises\<close>

text \<open>Numbers in a base up to 16, the most significant digit first.\<close>

definition digit_char :: "string \<Rightarrow> nat \<Rightarrow> char" where
  "digit_char ds d = ds ! d"

fun digits :: "string \<Rightarrow> nat \<Rightarrow> string" where
  "digits ds n = (if length ds \<le> 1 then [] else if n < length ds then [ds ! n] else digits ds (n div length ds) @ [ds ! (n mod length ds)])"

declare digits.simps [simp del]

definition dec :: "nat \<Rightarrow> string" where "dec = digits ''0123456789''"
definition hexl :: "nat \<Rightarrow> string" where "hexl = digits ''0123456789abcdef''"
definition hexu :: "nat \<Rightarrow> string" where "hexu = digits ''0123456789ABCDEF''"

text \<open>One conversion of the C standard.\<close>

definition convert :: "char \<Rightarrow> va \<Rightarrow> string option" where
  "convert k a = (case a of
     Str_arg s \<Rightarrow> if k = CHR ''s'' then Some (case s of None \<Rightarrow> ''(null)'' | Some s \<Rightarrow> s) else None
   | Word_arg v \<Rightarrow>
       if k = CHR ''d'' then Some (if sint v < 0 then CHR ''-'' # dec (nat (- sint v)) else dec (nat (sint v)))
       else if k = CHR ''u'' then Some (dec (unat v))
       else if k = CHR ''x'' then Some (hexl (unat v))
       else if k = CHR ''X'' then Some (hexu (unat v))
       else if k = CHR ''c'' then Some [char_of (unat v mod 256)] else None)"

text \<open>
  The text of a format: each of the conversions \<open>s\<close>, \<open>d\<close>, \<open>u\<close>, \<open>x\<close>, \<open>X\<close> and \<open>c\<close> (those that
  \<open>include/esp-stub-lib/log.h\<close> lists) stands for its argument, except that there is none for the
  smallest integer; a percent sign with any other character after it is taken as it stands.
\<close>

definition conversion_text :: "char \<Rightarrow> va \<Rightarrow> string option" where
  "conversion_text k a = (if k = CHR ''d'' \<and> a = Word_arg INT_MIN then None else convert k a)"

fun formatted :: "string \<Rightarrow> va list \<Rightarrow> string option" where
  "formatted [] args = Some []"
| "formatted (c # fmt) args =
     (if c \<noteq> CHR ''%'' then map_option (Cons c) (formatted fmt args)
      else (case fmt of
         [] \<Rightarrow> None
       | k # fmt \<Rightarrow>
           if k \<in> set ''sduxXc'' then
             (case args of [] \<Rightarrow> None
              | a # args \<Rightarrow> (case conversion_text k a of None \<Rightarrow> None
                  | Some s \<Rightarrow> map_option ((@) s) (formatted fmt args)))
           else map_option (\<lambda>s. CHR ''%'' # k # s) (formatted fmt args)))"

text \<open>
  What the ROM's \<open>ets\_printf\<close> is documented to do with the formats it is given: it passes
  the text, character by character, to the function installed with \<open>ets\_install\_putc1\<close>.
\<close>

definition ets_text :: "string \<Rightarrow> va \<Rightarrow> string option" where
  "ets_text f a =
     (if f = ''-%u'' then map_option (Cons (CHR ''-'')) (convert (CHR ''u'') a)
      else if length f = 2 \<and> hd f = CHR ''%'' then convert (f ! 1) a else None)"

definition prints_through :: "'w ets_printf \<Rightarrow> (char \<Rightarrow> 'w \<Rightarrow> 'w) \<Rightarrow> bool" where
  "prints_through ets put \<longleftrightarrow> (\<forall>f a s w. ets_text f a = Some s \<longrightarrow> ets f a w = fold put s w)"

lemma char_arg_text: "ets_text ''%c'' (char_arg c) = Some [c]"
proof -
  have "of_char c < (256 :: nat)" by (rule nat_of_char_less_256)
  moreover from this have "unat (of_nat (of_char c) :: u32) = of_char c" by (intro unat_of_nat32) linarith
  ultimately show ?thesis by (simp add: ets_text_def convert_def char_arg_def)
qed

lemma uint_of_sint: "uint (d :: u32) = sint d mod 2 ^ 32"
  using uint_sint [of d] by (simp add: take_bit_eq_mod)

lemma nonneg_text: "\<not> sint (d :: u32) < 0 \<Longrightarrow> nat (sint d) = unat d"
  using sint_lt [of d] uint_of_sint [of d] by (simp add: nat_uint_eq [symmetric])

lemma minus_text:
  assumes "sint (d :: u32) < 0"
  shows "unat (- d) = nat (- sint d)"
proof -
  have "- (2 ^ 31) \<le> sint d" using sint_ge [of d] by simp
  moreover have "uint (- d) = (- uint d) mod 2 ^ 32" using uint_word_ariths(4) [of d] by simp
  moreover have "(- uint d) mod 2 ^ 32 = (- sint d) mod 2 ^ 32" unfolding uint_of_sint by (rule mod_minus_eq)
  ultimately have "uint (- d) = - sint d" using assms by simp
  then show ?thesis by (metis nat_uint_eq)
qed

locale rom_printf =
  fixes ets :: "'w ets_printf" and put :: "char \<Rightarrow> 'w \<Rightarrow> 'w"
  assumes prints: "prints_through ets put"
begin

lemma ets_fold: "ets_text f a = Some s \<Longrightarrow> ets f a w = fold put s w"
  using prints by (simp add: prints_through_def)

lemma ets_char: "ets ''%c'' (char_arg c) w = put c w"
  using ets_fold [OF char_arg_text] by simp

text \<open>One conversion.\<close>

lemma conversion:
  assumes "k \<in> set ''sduxXc''"
  shows "log_printf_loop ets (CHR ''%'' # k # fmt) (a # args) w =
    (case conversion_text k a of None \<Rightarrow> None | Some s \<Rightarrow> log_printf_loop ets fmt args (fold put s w))"
proof -
  have u: "ets [CHR ''%'', k] a w = fold put s w" if "convert k a = Some s" for k a s w
    using ets_fold [of "[CHR ''%'', k]" a s w] that by (simp add: ets_text_def)
  have m: "ets ''-%u'' (Word_arg (- d)) w = fold put (CHR ''-'' # dec (nat (- sint d))) w" if "sint d < 0" for d :: u32
    using ets_fold [of "''-%u''" "Word_arg (- d)"] that by (simp add: ets_text_def convert_def minus_text)
  have p: "ets ''%u'' (Word_arg d) w = fold put (dec (nat (sint d))) w" if "\<not> sint d < 0" for d :: u32
    using u [of "CHR ''u''" "Word_arg d"] that by (simp add: convert_def nonneg_text)
  show ?thesis
    using assms by (auto simp: u conversion_text_def convert_def m p nonneg_text split: va.splits option.splits)
qed

text \<open>The formatter prints the text of its format, or has no meaning when there is none.\<close>

lemma printf_formats:
  "log_printf_loop ets fmt args w = map_option (\<lambda>s. fold put s w) (formatted fmt args)"
proof (induction fmt args arbitrary: w rule: formatted.induct)
  case (2 c fmt args)
  show ?case
  proof (cases "c = CHR ''%''")
    case False
    then show ?thesis using 2(1) by (simp add: ets_char option.map_comp comp_def)
  next
    case c: True
    show ?thesis
    proof (cases fmt)
      case (Cons k rest)
      show ?thesis
      proof (cases "k \<in> set ''sduxXc''")
        case True
        show ?thesis
        proof (cases args)
          case Nil
          then show ?thesis using True c Cons by auto
        next
          case (Cons a as)
          have f: "formatted (c # fmt) args =
              (case conversion_text k a of None \<Rightarrow> None | Some t \<Rightarrow> map_option ((@) t) (formatted rest as))"
            using True c Cons \<open>fmt = k # rest\<close> by simp
          have IH: "log_printf_loop ets rest as u = map_option (\<lambda>s. fold put s u) (formatted rest as)"
            if "conversion_text k a = Some t" for t u
            using 2(2) c \<open>fmt = k # rest\<close> True Cons that by simp
          show ?thesis unfolding f
            using conversion [OF True, of rest a as w] IH c Cons \<open>fmt = k # rest\<close>
            by (cases "conversion_text k a") (simp_all add: option.map_comp comp_def del: log_printf_loop.simps)
        qed
      next
        case False
        then show ?thesis using 2(3) c Cons
          ets_fold [of "''%s''" "Str_arg (Some [CHR ''%'', k])" "[CHR ''%'', k]" w]
          by (simp add: ets_text_def convert_def option.map_comp comp_def)
      qed
    qed (simp add: c)
  qed
qed simp

end

section \<open>The log buffer\<close>

text \<open>The ROM's \<open>ets\_printf\<close> over the function installed as putc1.\<close>

definition ets_through :: "(char \<Rightarrow> 'w \<Rightarrow> 'w) \<Rightarrow> 'w ets_printf" where
  "ets_through put f a w = (case ets_text f a of None \<Rightarrow> w | Some s \<Rightarrow> fold put s w)"

interpretation log_buf: rom_printf "ets_through stub_lib_log_buf_write_char" stub_lib_log_buf_write_char
  by unfold_locales (simp add: prints_through_def ets_through_def)

text \<open>
  The buffer after the text \<open>hist\<close> has been logged: the i-th character stands at i modulo the
  size, as long as fewer characters than the size have come after it.
\<close>

definition logged :: "string \<Rightarrow> 'a log_buf_world_scheme \<Rightarrow> bool" where
  "logged hist w \<longleftrightarrow> length (lb_buf w) = 4096 \<and> unat (lb_count w) = length hist mod 4096 \<and>
     (\<forall>i<length hist. length hist \<le> i + 4096 \<longrightarrow> lb_buf w ! (i mod 4096) = hist ! i)"

lemma logged_Nil: "length (lb_buf w) = 4096 \<Longrightarrow> lb_count w = 0 \<Longrightarrow> logged [] w"
  by (simp add: logged_def)

lemma mod_window: "i < n \<Longrightarrow> n < i + 4096 \<Longrightarrow> i mod 4096 \<noteq> n mod (4096 :: nat)"
proof
  assume a: "i < n" "n < i + 4096" "i mod 4096 = n mod 4096"
  then have "4096 dvd n - i" by (metis less_imp_le mod_eq_dvd_iff_nat)
  then show False using a(1,2) by (auto dest: dvd_imp_le)
qed

lemma write_char_logged:
  assumes "logged hist w"
  shows "logged (hist @ [c]) (stub_lib_log_buf_write_char c w)"
proof -
  let ?n = "length hist" and ?w = "stub_lib_log_buf_write_char c w"
  have l: "length (lb_buf w) = 4096" and n: "unat (lb_count w) = ?n mod 4096"
    and h: "\<And>i. i < ?n \<Longrightarrow> ?n \<le> i + 4096 \<Longrightarrow> lb_buf w ! (i mod 4096) = hist ! i"
    using assms by (auto simp: logged_def)
  have b: "lb_buf ?w = (lb_buf w)[?n mod 4096 := c]" and k: "lb_count ?w = (lb_count w + 1) mod 4096"
    by (simp_all add: stub_lib_log_buf_write_char_def n)
  have lt: "?n mod 4096 < 4096" by simp
  then have "unat (lb_count w + 1) = ?n mod 4096 + 1" using n by (simp add: unat_word_ariths)
  then have cnt: "unat (lb_count ?w) = length (hist @ [c]) mod 4096" by (simp add: k unat_mod mod_Suc_eq)
  have "lb_buf ?w ! (i mod 4096) = (hist @ [c]) ! i" if i: "i < length (hist @ [c])" "length (hist @ [c]) \<le> i + 4096" for i
  proof (cases "i = ?n")
    case True
    then show ?thesis using l lt by (simp add: b)
  next
    case False
    then have "i < ?n" using i(1) by simp
    moreover from this have "i mod 4096 \<noteq> ?n mod 4096" using i(2) by (intro mod_window) simp_all
    ultimately show ?thesis using h [of i] i(2) by (simp add: b nth_append)
  qed
  then show ?thesis using l cnt by (simp add: logged_def b)
qed

lemma fold_logged: "logged hist w \<Longrightarrow> logged (hist @ s) (fold stub_lib_log_buf_write_char s w)"
proof (induction s arbitrary: hist w)
  case (Cons c s)
  then show ?case using write_char_logged [OF Cons.prems, of c] by fastforce
qed simp

section \<open>Properties\<close>


text \<open>
  C34: Logging through the buffer back end keeps, after any number of messages, the last
  4096 characters logged, each at its position modulo the size of the buffer.
\<close>

lemma log_buf_keeps_last:
  assumes "prints_through ets stub_lib_log_buf_write_char" "logged hist w" "formatted fmt args = Some s"
  shows "\<exists>w'. stub_lib_log_printf ets fmt args w = Some w' \<and> logged (hist @ s) w'"
  using fold_logged [OF assms(2), of s] assms(3)
  by (simp add: stub_lib_log_printf_def rom_printf.printf_formats [OF rom_printf.intro [OF assms(1)]])

lemma log_level_filter:
  assumes "stub_lib_log_level_normalize lv \<ge> level"
  shows "STUB_LOG_AT_LEVEL ets level fmt args (stub_lib_log_set_level lv w) =
    stub_lib_log_printf ets fmt args (stub_lib_log_set_level lv w)"
  using assms by (simp add: STUB_LOG_AT_LEVEL_def stub_lib_log_level_enabled_def stub_lib_log_set_level_def)

lemma log_printf_undefined:
  "stub_lib_log_printf ets ''100%'' [] w = None" "stub_lib_log_printf ets ''%d'' [Word_arg INT_MIN] w = None"
  by (simp_all add: stub_lib_log_printf_def)

section \<open>Examples\<close>

definition log_world_0 :: log_buf_world where
  "log_world_0 = \<lparr>rd_dev = \<lambda>_ _. 0, rom_dev = \<lambda>_ _ _ _. (0, []), mem_dev = \<lambda>_ _ _. [], sym_addr = \<lambda>_. 0, trace = [],
     g_stub_lib_log_level = 3, lb_count = 0, lb_buf = replicate 4096 (CHR ''.'')\<rparr>"

lemma format_example:
  "formatted ''%s=%d (%x) %c%%'' [Str_arg (Some ''n''), Word_arg (- 42), Word_arg 0xBE, Word_arg 33] =
     Some ''n=-42 (be) !%%''"
  by code_simp


lemma log_buf_keeps_last_witness:
  "\<exists>w'. stub_lib_log_printf (ets_through stub_lib_log_buf_write_char) ''%s=%d (%x) %c%%''
     [Str_arg (Some ''n''), Word_arg (- 42), Word_arg 0xBE, Word_arg 33] log_world_0 = Some w' \<and>
     logged ''n=-42 (be) !%%'' w'"
proof -
  have "logged [] log_world_0" by (rule logged_Nil) (simp_all add: log_world_0_def)
  then show ?thesis using log_buf_keeps_last [OF log_buf.prints _ format_example, of "[]"] by simp
qed

end
