(* ===== verification/Hash.thy ===== *)
theory Hash
  imports World
begin

text \<open>
  Hashing: the API of \<open>src/sha256.c\<close> and \<open>src/md5.c\<close> over an arbitrary target, the targets of
  \<open>src/target/common/src/sha256.c\<close> and \<open>md5.c\<close>, which leave the work to the ROM, and the
  ESP32-C2's \<open>src/target/esp32c2/src/md5.c\<close> and the ESP8266's \<open>src/target/esp8266/src/sha256.c\<close>.
\<close>

section \<open>The targets and the API\<close>

text \<open>Data is the list of the bytes at the pointer; a digest that is asked for is a result.\<close>

record 'w sha_target =
  th_start :: "'w \<Rightarrow> 'w"
  th_data :: "u8 list \<Rightarrow> u32 \<Rightarrow> 'w \<Rightarrow> 'w option"
  th_finish :: "bool \<Rightarrow> 'w \<Rightarrow> (u8 list \<times> 'w) option"

definition stub_lib_sha256_start :: "'w sha_target \<Rightarrow> 'w \<Rightarrow> 'w" where
  "stub_lib_sha256_start T w = th_start T w"

definition stub_lib_sha256_data :: "'w sha_target \<Rightarrow> u8 list \<Rightarrow> u32 \<Rightarrow> 'w \<Rightarrow> 'w option" where
  "stub_lib_sha256_data T data data_len w = th_data T data data_len w"

definition stub_lib_sha256_finish :: "'w sha_target \<Rightarrow> bool \<Rightarrow> 'w \<Rightarrow> (u8 list \<times> 'w) option" where
  "stub_lib_sha256_finish T digest w = th_finish T digest w"

text \<open>A context is named by its address; the ROM keeps its contents.\<close>

record 'w md5_target =
  tm5_init :: "u32 \<Rightarrow> 'w \<Rightarrow> 'w"
  tm5_update :: "u32 \<Rightarrow> u8 list \<Rightarrow> u32 \<Rightarrow> 'w \<Rightarrow> 'w"
  tm5_final :: "u32 \<Rightarrow> 'w \<Rightarrow> u8 list \<times> 'w"

definition stub_lib_md5_init :: "'w md5_target \<Rightarrow> u32 \<Rightarrow> 'w \<Rightarrow> 'w" where
  "stub_lib_md5_init T ctx w = tm5_init T ctx w"

definition stub_lib_md5_update :: "'w md5_target \<Rightarrow> u32 \<Rightarrow> u8 list \<Rightarrow> u32 \<Rightarrow> 'w \<Rightarrow> 'w" where
  "stub_lib_md5_update T ctx data len w = tm5_update T ctx data len w"

definition stub_lib_md5_final :: "'w md5_target \<Rightarrow> u32 \<Rightarrow> 'w \<Rightarrow> u8 list \<times> 'w" where
  "stub_lib_md5_final T ctx w = tm5_final T ctx w"

section \<open>Targets whose ROM hashes\<close>

definition SHA2_256 :: u32 where [regs]: "SHA2_256 = 2"

definition stub_target_sha256_start :: "'a world_scheme \<Rightarrow> 'a world_scheme" where
  "stub_target_sha256_start w =
     (let w = rom_void (SysFn Ets_sha_enable) [] [] w
      in rom_void (SysFn Ets_sha_init) [sym_addr w Sym_sha_ctx, SHA2_256] [] w)"

definition stub_target_sha256_data :: "u8 list \<Rightarrow> u32 \<Rightarrow> 'a world_scheme \<Rightarrow> 'a world_scheme option" where
  "stub_target_sha256_data data data_len w =
     Some (rom_void (SysFn Ets_sha_update) [sym_addr w Sym_sha_ctx, data_len, 0] data w)"

definition stub_target_sha256_finish :: "bool \<Rightarrow> 'a world_scheme \<Rightarrow> (u8 list \<times> 'a world_scheme) option" where
  "stub_target_sha256_finish digest w =
     (if \<not> digest then
        (let w = mem_store (sym_addr w Sym_sha_ctx) (replicate 216 0) w
         in Some ([], rom_void (SysFn Ets_sha_disable) [] [] w))
      else
        (let ((r, out), w) = rom_call (SysFn Ets_sha_finish) [sym_addr w Sym_sha_ctx] [] w
         in Some (out, rom_void (SysFn Ets_sha_disable) [] [] w)))"

definition stub_target_md5_init :: "u32 \<Rightarrow> 'a world_scheme \<Rightarrow> 'a world_scheme" where
  "stub_target_md5_init ctx w = rom_void (SysFn MD5Init) [ctx] [] w"

definition stub_target_md5_update :: "u32 \<Rightarrow> u8 list \<Rightarrow> u32 \<Rightarrow> 'a world_scheme \<Rightarrow> 'a world_scheme" where
  "stub_target_md5_update ctx data len w = rom_void (SysFn MD5Update) [ctx, len] data w"

definition stub_target_md5_final :: "u32 \<Rightarrow> 'a world_scheme \<Rightarrow> u8 list \<times> 'a world_scheme" where
  "stub_target_md5_final ctx w =
     (let ((r, out), w) = rom_call (SysFn MD5Final) [ctx] [] w in (out, w))"

definition c2_md5_init :: "u32 \<Rightarrow> 'a world_scheme \<Rightarrow> 'a world_scheme" where
  "c2_md5_init ctx w = rom_void (SysFn Mbedtls_md5_starts_ret) [ctx] [] w"

definition c2_md5_update :: "u32 \<Rightarrow> u8 list \<Rightarrow> u32 \<Rightarrow> 'a world_scheme \<Rightarrow> 'a world_scheme" where
  "c2_md5_update ctx data len w = rom_void (SysFn Mbedtls_md5_update_ret) [ctx, len] data w"

definition c2_md5_final :: "u32 \<Rightarrow> 'a world_scheme \<Rightarrow> u8 list \<times> 'a world_scheme" where
  "c2_md5_final ctx w =
     (let ((r, out), w) = rom_call (SysFn Mbedtls_md5_finish_ret) [ctx] [] w in (out, w))"

text \<open>
  The ESP8266 has no SHA-256, \<open>src/target/esp8266/src/sha256.c\<close>: a digest that is asked for is
  not written.
\<close>

definition esp8266_sha256_start :: "'w \<Rightarrow> 'w" where
  "esp8266_sha256_start w = w"

definition esp8266_sha256_data :: "u8 list \<Rightarrow> u32 \<Rightarrow> 'w \<Rightarrow> 'w option" where
  "esp8266_sha256_data data data_len w = Some w"

definition esp8266_sha256_finish :: "bool \<Rightarrow> 'w \<Rightarrow> (u8 list \<times> 'w) option" where
  "esp8266_sha256_finish digest w = Some ([], w)"

end
