(* ===== verification/Esp32_Sha.thy ===== *)
theory Esp32_Sha
  imports Hash
begin

text \<open>
  SHA-256 on the ESP32, \<open>src/target/esp32/src/sha256.c\<close>: the driver pads the message and feeds the
  SHA engine block by block. The reference is the padding of FIPS 180-4 and an engine that
  applies an arbitrary compression function to each block; the driver computes that digest,
  unless the padding array is read past its end.
\<close>

section \<open>The driver\<close>

definition SHA_TEXT_BASE :: u32 where [regs]: "SHA_TEXT_BASE = 0x3FF03000"
definition SHA_256_START_REG :: u32 where [regs]: "SHA_256_START_REG = 0x3FF03000 + 0x90"
definition SHA_256_CONTINUE_REG :: u32 where [regs]: "SHA_256_CONTINUE_REG = 0x3FF03000 + 0x94"
definition SHA_256_LOAD_REG :: u32 where [regs]: "SHA_256_LOAD_REG = 0x3FF03000 + 0x98"
definition SHA_256_BUSY_REG :: u32 where [regs]: "SHA_256_BUSY_REG = 0x3FF03000 + 0x9C"
definition BLOCK_WORDS :: u32 where [regs]: "BLOCK_WORDS = 64 div 4"
definition DIGEST_WORDS :: u32 where [regs]: "DIGEST_WORDS = 32 div 4"

text \<open>
  \<open>past\_padding\<close> is what the linker put behind the constant array \<open>padding\<close>, which the code can
  read (see the section on the digest).
\<close>

record sha_world = world +
  words_hashed :: u32
  past_padding :: "u8 list"

text \<open>Word i of a buffer as the little-endian CPU reads it, and as it stores a word.\<close>

definition word_at :: "u8 list \<Rightarrow> nat \<Rightarrow> u32" where
  "word_at data i = stored_u32 (take 4 (drop (4 * i) data)) 0"

definition le_bytes :: "u32 \<Rightarrow> u8 list" where
  "le_bytes v = [ucast v, ucast (drop_bit 8 v), ucast (drop_bit 16 v), ucast (drop_bit 24 v)]"

text \<open>\<open>\_\_builtin\_bswap32\<close>\<close>

definition bswap32 :: "u32 \<Rightarrow> u32" where
  "bswap32 v = stored_u32 (rev (le_bytes v)) 0"

definition esp32_sha256_start :: "'a sha_world_scheme \<Rightarrow> 'a sha_world_scheme" where
  "esp32_sha256_start w = rom_void (SysFn Ets_sha_enable) [] [] (w\<lparr>words_hashed := 0\<rparr>)"

text \<open>The inner loop of \<open>stub\_target\_sha256\_data\<close>; \<open>pos\<close> counts the words consumed so far.\<close>

definition sha_copy :: "u8 list \<Rightarrow> nat \<Rightarrow> u32 \<Rightarrow> u32 \<Rightarrow> 'a world_scheme \<Rightarrow> 'a world_scheme" where
  "sha_copy data pos block_count copy_words w =
     fold (\<lambda>i w. REG_WRITE (SHA_TEXT_BASE + 4 * (block_count + of_nat i)) (bswap32 (word_at data (pos + i))) w)
       [0..<unat copy_words] w"

function sha_data_loop :: "u8 list \<Rightarrow> nat \<Rightarrow> u32 \<Rightarrow> 'a sha_world_scheme \<Rightarrow> 'a sha_world_scheme option" where
  "sha_data_loop data pos word_len w =
     (if word_len = 0 then Some w
      else do {
        let block_count = words_hashed w mod BLOCK_WORDS;
        let copy_words = BLOCK_WORDS - block_count;
        let copy_words = (if word_len < copy_words then word_len else copy_words);
        w \<leftarrow> busy_wait SHA_256_BUSY_REG (\<lambda>v. v \<noteq> 0) w;
        let w = sha_copy data pos block_count copy_words w;
        let w = w\<lparr>words_hashed := words_hashed w + copy_words\<rparr>;
        let block_count = block_count + copy_words;
        let w = (if block_count = BLOCK_WORDS
                 then (if words_hashed w = BLOCK_WORDS then REG_WRITE SHA_256_START_REG 1 w
                       else REG_WRITE SHA_256_CONTINUE_REG 1 w)
                 else w);
        sha_data_loop data (pos + unat copy_words) (word_len - copy_words) w })"
  by pat_completeness auto
termination
proof (relation "measure (\<lambda>(data, pos, word_len, w). unat word_len)")
  fix data :: "u8 list" and pos and n b c d :: u32 and w u v x y :: "'a sha_world_scheme" and e
  assume "n \<noteq> 0" and b: "b = words_hashed w mod BLOCK_WORDS" and "c = BLOCK_WORDS - b"
    and d: "d = (if n < c then n else c)"
  have "unat b < 16" by (simp add: b regs unat_mod)
  then have "0 < unat c" using \<open>c = BLOCK_WORDS - b\<close> by (simp add: regs unat_sub word_le_nat_alt)
  then have "d \<le> n" "0 < unat d" using \<open>n \<noteq> 0\<close> by (auto simp: d word_le_nat_alt word_less_nat_alt unat_gt_0)
  then show "((data, pos + unat d, n - d, y), (data, pos, n, w)) \<in> measure (\<lambda>(data, pos, word_len, w). unat word_len)"
    by (simp add: unat_diff word_le_nat_alt)
qed simp

declare sha_data_loop.simps [simp del]

definition esp32_sha256_data :: "u8 list \<Rightarrow> u32 \<Rightarrow> 'a sha_world_scheme \<Rightarrow> 'a sha_world_scheme option" where
  "esp32_sha256_data data data_len w = sha_data_loop data 0 (data_len div 4) w"

definition sha_padding :: "u8 list" where
  "sha_padding = 0x80 # replicate 63 0"

text \<open>C ints, which stay small here.\<close>

definition sha_pad_bytes :: "u32 \<Rightarrow> int" where
  "sha_pad_bytes hashed =
     (let block_bytes = int (unat ((hashed mod BLOCK_WORDS) * 4));
          pad_bytes = 55 - block_bytes;
          pad_bytes = (if pad_bytes < 0 then pad_bytes + 64 else pad_bytes)
      in pad_bytes + 5)"

definition esp32_sha256_finish :: "bool \<Rightarrow> 'a sha_world_scheme \<Rightarrow> (u8 list \<times> 'a sha_world_scheme) option" where
  "esp32_sha256_finish digest w =
     (if \<not> digest then Some ([], rom_void (SysFn Ets_sha_disable) [] [] w)
      else do {
        let data_words = words_hashed w;
        w \<leftarrow> esp32_sha256_data (sha_padding @ past_padding w) (of_int (sha_pad_bytes (words_hashed w))) w;
        let bit_count = bswap32 (data_words * 32);
        w \<leftarrow> esp32_sha256_data (le_bytes bit_count) 4 w;
        w \<leftarrow> busy_wait SHA_256_BUSY_REG (\<lambda>v. v = 1) w;
        let w = REG_WRITE SHA_256_LOAD_REG 1 w;
        w \<leftarrow> busy_wait SHA_256_BUSY_REG (\<lambda>v. v = 1) w;
        let (bs, w) = fold (\<lambda>i (bs, w). let (v, w) = REG_READ (SHA_TEXT_BASE + 4 * of_nat i) w
                                        in (bs @ le_bytes (bswap32 v), w)) [0..<unat DIGEST_WORDS] ([], w);
        Some (bs, rom_void (SysFn Ets_sha_disable) [] [] w) })"

definition esp32_sha_target :: "'a sha_world_scheme sha_target" where
  "esp32_sha_target = \<lparr>th_start = esp32_sha256_start, th_data = esp32_sha256_data, th_finish = esp32_sha256_finish\<rparr>"

lemma esp32_sha_link [simp]:
  "th_start esp32_sha_target = esp32_sha256_start" "th_data esp32_sha_target = esp32_sha256_data"
  "th_finish esp32_sha_target = esp32_sha256_finish"
  by (simp_all add: esp32_sha_target_def)

section \<open>Words and bytes\<close>

fun be_words :: "u8 list \<Rightarrow> u32 list" where
  "be_words (a # b # c # d # bs) = stored_u32 [d, c, b, a] 0 # be_words bs"
| "be_words bs = []"

definition be_bytes :: "u32 \<Rightarrow> u8 list" where
  "be_bytes v = rev (le_bytes v)"

lemma le_bytes_stored [simp]: "le_bytes (stored_u32 [a, b, c, d] x) = [a, b, c, d]"
  unfolding le_bytes_def stored_u32_def
  by (simp, intro conjI; rule bit_word_eqI) (auto simp: bit_simps dest: bit_imp_le_length)

lemma stored_le_bytes [simp]: "stored_u32 (le_bytes v) x = v"
proof (rule bit_word_eqI)
  fix n :: nat
  assume "n < LENGTH(32)"
  then consider "n < 8" | "8 \<le> n" "n < 16" | "16 \<le> n" "n < 24" | "24 \<le> n" "n < 32" by fastforce
  then show "bit (stored_u32 (le_bytes v) x) n = bit v n"
    by cases (auto simp: le_bytes_def stored_u32_def bit_simps)
qed

lemma le_bytesE:
  obtains a b c d where "le_bytes v = [a, b, c, d]"
  by (simp add: le_bytes_def)

lemma bswap_stored [simp]: "bswap32 (stored_u32 [a, b, c, d] x) = stored_u32 [d, c, b, a] 0"
  by (simp add: bswap32_def)

lemma le_bytes_bswap [simp]: "le_bytes (bswap32 v) = be_bytes v"
  by (rule le_bytesE [of v]) (simp add: bswap32_def be_bytes_def)

lemma bswap_bswap [simp]: "bswap32 (bswap32 v) = v"
proof -
  have "bswap32 (bswap32 v) = stored_u32 (rev (be_bytes v)) 0" unfolding bswap32_def [of "bswap32 v"] by simp
  then show ?thesis by (simp add: be_bytes_def)
qed

lemma length_bytes [simp]: "length (le_bytes v) = 4" "length (be_bytes v) = 4"
  by (simp_all add: le_bytes_def be_bytes_def)

lemma be_words_append: "4 dvd length xs \<Longrightarrow> be_words (xs @ ys) = be_words xs @ be_words ys"
proof (induction xs rule: be_words.induct)
  case (1 a b c d bs)
  then have "4 dvd length bs" by simp presburger
  then show ?case using 1 by simp
qed (auto dest: dvd_imp_le)

lemma length_be_words: "length (be_words bs) = length bs div 4"
  by (induction bs rule: be_words.induct) simp_all

lemma be_words_bytes [simp]: "be_words (be_bytes v @ bs) = v # be_words bs"
proof (rule le_bytesE [of v])
  fix a b c d
  assume v: "le_bytes v = [a, b, c, d]"
  then have "stored_u32 [a, b, c, d] 0 = v" by (metis stored_le_bytes)
  then show ?thesis by (simp add: be_bytes_def v)
qed

lemma bswap_word_at: "4 * i + 3 < length bs \<Longrightarrow> bswap32 (word_at bs i) = be_words bs ! i"
proof (induction bs arbitrary: i rule: be_words.induct)
  case (1 a b c d bs)
  show ?case
  proof (cases i)
    case 0
    then show ?thesis by (simp add: word_at_def)
  next
    case (Suc j)
    then have "drop (4 * i) (a # b # c # d # bs) = drop (4 * j) bs" by (simp add: drop_Cons')
    then have "word_at (a # b # c # d # bs) i = word_at bs j" by (simp add: word_at_def)
    then show ?thesis using 1 Suc by simp
  qed
qed simp_all

section \<open>The engine\<close>

text \<open>
  The SHA engine of the ESP32, over an arbitrary compression function f with initial value iv:
  sixteen text registers, a running hash that a start replaces and a continuation extends, and
  a load that shows the hash in the text registers.
\<close>

record sha_engine =
  text_regs :: "nat \<Rightarrow> u32"
  hash :: "u32 list"

definition sha_step :: "(u32 list \<Rightarrow> u32 list \<Rightarrow> u32 list) \<Rightarrow> u32 list \<Rightarrow> ev \<Rightarrow> sha_engine \<Rightarrow> sha_engine" where
  "sha_step f iv e s =
     (case e of
        Wr (Mmio a) v \<Rightarrow>
          (if a - SHA_TEXT_BASE < 64 then s\<lparr>text_regs := (text_regs s)(unat (a - SHA_TEXT_BASE) div 4 := v)\<rparr>
           else if a = SHA_256_START_REG then s\<lparr>hash := f iv (map (text_regs s) [0..<16])\<rparr>
           else if a = SHA_256_CONTINUE_REG then s\<lparr>hash := f (hash s) (map (text_regs s) [0..<16])\<rparr>
           else if a = SHA_256_LOAD_REG
           then s\<lparr>text_regs := (\<lambda>i. if i < 8 then hash s ! i else text_regs s i)\<rparr>
           else s)
      | _ \<Rightarrow> s)"

definition sha_run :: "(u32 list \<Rightarrow> u32 list \<Rightarrow> u32 list) \<Rightarrow> u32 list \<Rightarrow> ev list \<Rightarrow> sha_engine" where
  "sha_run f iv es = fold (sha_step f iv) es \<lparr>text_regs = \<lambda>_. 0, hash = []\<rparr>"

text \<open>What the driver needs of it: the digest can be read, and the engine is never busy for ever.\<close>

definition sha_bus :: "(u32 list \<Rightarrow> u32 list \<Rightarrow> u32 list) \<Rightarrow> u32 list \<Rightarrow> 'a world_scheme \<Rightarrow> bool" where
  "sha_bus f iv w \<longleftrightarrow>
     (\<forall>es i. i < 8 \<longrightarrow> rd_dev w es (Mmio (SHA_TEXT_BASE + 4 * of_nat i)) = text_regs (sha_run f iv es) i) \<and>
     settles SHA_256_BUSY_REG (\<lambda>v. v \<noteq> 0) w"

text \<open>The reference: the message in blocks of sixteen words, each compressed into the hash.\<close>

definition blocks :: "u32 list \<Rightarrow> u32 list list" where
  "blocks ws = map (\<lambda>k. take 16 (drop (16 * k) ws)) [0..<length ws div 16]"

definition hash_blocks :: "(u32 list \<Rightarrow> u32 list \<Rightarrow> u32 list) \<Rightarrow> u32 list \<Rightarrow> u32 list list \<Rightarrow> u32 list" where
  "hash_blocks f iv bs = fold (\<lambda>b h. f h b) bs iv"

lemma fill_up: "n mod 16 + k = 16 \<Longrightarrow> n + k = n div 16 * 16 + 16" for n k :: nat
  by (metis add.assoc div_mult_mod_eq)

lemma block_within: "k < (n :: nat) div 16 \<Longrightarrow> 16 * k + 16 \<le> n"
proof -
  assume "k < n div 16"
  then have "Suc k \<le> n div 16" by simp
  then show ?thesis by (simp add: less_eq_div_iff_mult_less_eq)
qed

lemma blocks_short: "length ws mod 16 + length vs < 16 \<Longrightarrow> blocks (ws @ vs) = blocks ws"
proof -
  assume a: "length ws mod 16 + length vs < 16"
  have d: "(length ws + length vs) div 16 = length ws div 16"
    using a div_add1_eq [of "length ws" "length vs" 16] by simp
  have "take 16 (drop (16 * k) (ws @ vs)) = take 16 (drop (16 * k) ws)" if "k < length ws div 16" for k
    using block_within [OF that] by simp
  then show ?thesis unfolding blocks_def length_append d by simp
qed

lemma blocks_full:
  assumes "length ws mod 16 + length vs = 16"
  shows "blocks (ws @ vs) = blocks ws @ [drop (length ws - length ws mod 16) ws @ vs]"
proof -
  have "length ws + length vs = Suc (length ws div 16) * 16" using fill_up [OF assms] by simp
  then have d: "(length ws + length vs) div 16 = Suc (length ws div 16)" by simp
  have l: "16 * (length ws div 16) = length ws - length ws mod 16" by (simp add: minus_mod_eq_mult_div)
  have "take 16 (drop (16 * k) (ws @ vs)) = take 16 (drop (16 * k) ws)" if "k < length ws div 16" for k
    using block_within [OF that] by simp
  moreover have "take 16 (drop (16 * (length ws div 16)) (ws @ vs)) = drop (length ws - length ws mod 16) ws @ vs"
    using assms unfolding l by simp
  ultimately show ?thesis unfolding blocks_def length_append d by simp
qed

text \<open>The state of driver and engine after the words \<open>ws\<close>.\<close>

definition sha_state :: "(u32 list \<Rightarrow> u32 list \<Rightarrow> u32 list) \<Rightarrow> u32 list \<Rightarrow> u32 list \<Rightarrow> 'a sha_world_scheme \<Rightarrow> bool" where
  "sha_state f iv ws w \<longleftrightarrow>
     (let s = sha_run f iv (trace w) in
       words_hashed w = of_nat (length ws) \<and>
       (16 \<le> length ws \<longrightarrow> hash s = hash_blocks f iv (blocks ws)) \<and>
       (\<forall>i < length ws mod 16. text_regs s i = ws ! (length ws - length ws mod 16 + i)))"

lemma sha_run_append: "sha_run f iv (es @ fs) = fold (sha_step f iv) fs (sha_run f iv es)"
  by (simp add: sha_run_def)

lemma sha_step_Rd [simp]: "sha_step f iv (Rd c v) s = s"
  by (simp add: sha_step_def)

lemma sha_step_reads: "list_all (\<lambda>e. \<exists>v. e = Rd (Mmio r) v) es \<Longrightarrow> fold (sha_step f iv) es s = s"
  by (induction es arbitrary: s) (auto simp: sha_step_def)

text \<open>Filling text registers m to m + n.\<close>

lemma sha_fill:
  assumes "m + n \<le> 16"
  shows "fold (sha_step f iv) (map (\<lambda>i. Wr (Mmio (SHA_TEXT_BASE + 4 * (of_nat m + of_nat i))) (g i)) [0..<n]) s =
    s\<lparr>text_regs := (\<lambda>j. if m \<le> j \<and> j < m + n then g (j - m) else text_regs s j)\<rparr>"
  using assms
proof (induction n)
  case (Suc n)
  have "unat (4 * of_nat (m + n) :: u32) = 4 * (m + n)"
    using unat_of_nat32 [of "4 * (m + n)"] Suc.prems by simp
  then have a: "4 * (of_nat m + of_nat n :: u32) < 64" "unat (4 * (of_nat m + of_nat n :: u32)) div 4 = m + n"
    using Suc.prems by (simp_all add: word_less_nat_alt)
  show ?case using Suc a by (auto simp: sha_step_def fun_eq_iff less_Suc_eq)
next
  case 0
  have "(\<lambda>j. if m \<le> j \<and> j < m then g (j - m) else text_regs s j) = text_regs s" by (rule ext) (auto dest: leD)
  then show ?case by simp
qed

section \<open>Feeding the engine\<close>

lemma sha_world_after [simp]:
  "words_hashed (after w es) = words_hashed w" "past_padding (after w es) = past_padding w"
  by (simp_all add: after_def)

lemma sha_copy_eq:
  assumes "block_count = of_nat m" "unat copy_words = length new"
    and "\<And>i. i < length new \<Longrightarrow> bswap32 (word_at data (pos + i)) = new ! i"
  shows "sha_copy data pos block_count copy_words w =
    after w (map (\<lambda>i. Wr (Mmio (SHA_TEXT_BASE + 4 * (of_nat m + of_nat i))) (new ! i)) [0..<length new])"
proof -
  have "fold (\<lambda>i. REG_WRITE (a i) (g i)) is w = after w (map (\<lambda>i. Wr (Mmio (a i)) (g i)) is)"
    for a g and "is" :: "nat list" and w :: "'a world_scheme"
    by (induction "is" arbitrary: w) (simp_all add: REG_WRITE_eq)
  from this [of "\<lambda>i. SHA_TEXT_BASE + 4 * (of_nat m + of_nat i)" "\<lambda>i. bswap32 (word_at data (pos + i))" "[0..<length new]" w]
  show ?thesis unfolding sha_copy_def assms(1,2) using assms(3) by (simp cong: map_cong)
qed

text \<open>
  The words in the text registers after a round, and what the hash is: as before while the
  block is not full, one compression on when it is.
\<close>

lemma sha_texts:
  assumes "sha_state f iv ws w" "i < length ws mod 16 + length new"
  shows "(if length ws mod 16 \<le> i \<and> i < length ws mod 16 + length new then new ! (i - length ws mod 16)
      else text_regs (sha_run f iv (trace w)) i) = (ws @ new) ! (length ws - length ws mod 16 + i)"
proof -
  have "length ws mod 16 \<le> length ws" by simp
  then show ?thesis using assms by (auto simp: sha_state_def Let_def nth_append)
qed

lemma sha_hash_short:
  assumes st: "sha_state f iv ws w" and lt: "length ws mod 16 + length new < 16"
  shows "length (ws @ new) mod 16 = length ws mod 16 + length new"
    "16 \<le> length (ws @ new) \<Longrightarrow> hash (sha_run f iv (trace w)) = hash_blocks f iv (blocks (ws @ new))"
proof -
  show "length (ws @ new) mod 16 = length ws mod 16 + length new"
    using lt by (metis length_append mod_add_left_eq mod_less)
  assume "16 \<le> length (ws @ new)"
  then have "16 \<le> length ws"
    using lt div_mult_mod_eq [of "length ws" 16] by simp (cases "length ws div 16"; simp)
  then show "hash (sha_run f iv (trace w)) = hash_blocks f iv (blocks (ws @ new))"
    using st blocks_short [OF lt] by (simp add: sha_state_def Let_def)
qed

lemma sha_hash_full:
  assumes st: "sha_state f iv ws w" and full: "length ws mod 16 + length new = 16" and "new \<noteq> []"
  shows "length (ws @ new) mod 16 = 0"
    "f (if length (ws @ new) = 16 then iv else hash (sha_run f iv (trace w))) (drop (length ws - length ws mod 16) ws @ new) =
      hash_blocks f iv (blocks (ws @ new))"
proof -
  show "length (ws @ new) mod 16 = 0" using full by simp (metis mod_add_left_eq mod_self)
  have l: "length ws + length new = length ws div 16 * 16 + 16" by (rule fill_up [OF full])
  have b: "blocks ws = []" if "length (ws @ new) = 16"
  proof -
    have "length ws < 16" using that \<open>new \<noteq> []\<close> by (cases new) auto
    then show ?thesis by (simp add: blocks_def)
  qed
  have h: "hash (sha_run f iv (trace w)) = hash_blocks f iv (blocks ws)" if "length (ws @ new) \<noteq> 16"
  proof -
    have "length ws div 16 \<noteq> 0" using that l by (metis add_0 length_append mult_0)
    then have "16 \<le> length ws" by (metis div_less not_le)
    then show ?thesis using st by (simp add: sha_state_def Let_def)
  qed
  show "f (if length (ws @ new) = 16 then iv else hash (sha_run f iv (trace w))) (drop (length ws - length ws mod 16) ws @ new) =
      hash_blocks f iv (blocks (ws @ new))"
    unfolding blocks_full [OF full] using b h by (simp add: hash_blocks_def)
qed

text \<open>One round of the loop: n words that fit in the current block.\<close>

lemma sha_round:
  fixes w :: "'a sha_world_scheme" and new :: "u32 list"
  defines "m \<equiv> \<lambda>ws :: u32 list. length ws mod 16"
  assumes st: "sha_state f iv ws w" and len: "m ws + length new \<le> 16" "new \<noteq> []" "length ws + length new < 2 ^ 32"
    and es: "list_all (\<lambda>e. \<exists>v. e = Rd (Mmio SHA_256_BUSY_REG) v) es"
    and u: "u = (after w (es @ map (\<lambda>i. Wr (Mmio (SHA_TEXT_BASE + 4 * (of_nat (m ws) + of_nat i))) (new ! i)) [0..<length new]))
      \<lparr>words_hashed := words_hashed w + of_nat (length new)\<rparr>"
    and w': "w' = (if m ws + length new = 16
      then (if words_hashed u = BLOCK_WORDS then REG_WRITE SHA_256_START_REG 1 u else REG_WRITE SHA_256_CONTINUE_REG 1 u) else u)"
  shows "sha_state f iv (ws @ new) w'"
proof -
  let ?s = "sha_run f iv (trace w)"
  define s' where "s' = ?s\<lparr>text_regs := (\<lambda>j. if m ws \<le> j \<and> j < m ws + length new then new ! (j - m ws) else text_regs ?s j)\<rparr>"
  have tu: "sha_run f iv (trace u) = s'" and h': "hash s' = hash ?s"
    using sha_fill [of "m ws" "length new" f iv "(!) new" ?s] len(1) by (simp_all add: u s'_def sha_run_append sha_step_reads [OF es])
  have hu: "words_hashed u = of_nat (length (ws @ new))" using st by (simp add: u sha_state_def Let_def)
  have le: "m ws \<le> length ws" by (simp add: m_def)
  have tx: "text_regs s' i = (ws @ new) ! (length ws - m ws + i)" if "i < m ws + length new" for i
  proof -
    have "text_regs s' i = (if length ws mod 16 \<le> i \<and> i < length ws mod 16 + length new then new ! (i - length ws mod 16)
      else text_regs ?s i)" by (simp add: s'_def m_def)
    then show ?thesis unfolding m_def sha_texts [OF st that [unfolded m_def]] .
  qed
  show ?thesis
  proof (cases "m ws + length new = 16")
    case False
    then have wu: "w' = u" by (simp add: w')
    have "length ws mod 16 + length new < 16" using False len(1) by (simp add: m_def)
    note short = sha_hash_short [OF st this]
    have "length (ws @ new) - (m ws + length new) = length ws - m ws" using le by simp
    then show ?thesis using False tx [unfolded m_def] hu short h' unfolding m_def sha_state_def Let_def by (simp add: wu tu)
  next
    case True
    note full = sha_hash_full [OF st True [unfolded m_def] len(2)]
    have "map (text_regs s') [0..<16] = drop (length ws - m ws) ws @ new"
      by (rule nth_equalityI) (use True le tx in \<open>auto simp: nth_append\<close>)
    note blk = full(2) [folded this [unfolded m_def] h']
    have l: "unat (of_nat (length (ws @ new)) :: u32) = length (ws @ new)"
      by (rule unat_of_nat32) (use len(3) in simp)
    have "unat BLOCK_WORDS = 16" by (simp add: regs)
    then have first: "words_hashed u = BLOCK_WORDS \<longleftrightarrow> length (ws @ new) = 16" by (simp only: hu word_unat_eq_iff l)
    have w'e: "w' = after u [Wr (Mmio (if words_hashed u = BLOCK_WORDS then SHA_256_START_REG else SHA_256_CONTINUE_REG)) 1]"
      using True by (simp add: w' REG_WRITE_eq)
    have "hash (sha_run f iv (trace w')) = hash_blocks f iv (blocks (ws @ new))"
      using blk first by (cases "length (ws @ new) = 16") (simp_all add: w'e sha_run_append tu sha_step_def regs)
    then show ?thesis unfolding sha_state_def Let_def using full(1) hu by (simp add: w'e)
  qed
qed

text \<open>Operations of the driver add events and count words; the device is the same.\<close>

definition sha_next :: "'a sha_world_scheme \<Rightarrow> 'a sha_world_scheme \<Rightarrow> bool" where
  "sha_next w w' \<longleftrightarrow> rd_dev w' = rd_dev w \<and> past_padding w' = past_padding w \<and> (\<exists>es. trace w' = trace w @ es)"

lemma sha_next_refl: "sha_next w w"
  by (simp add: sha_next_def)

lemma sha_next_trans [trans]: "sha_next u v \<Longrightarrow> sha_next v w \<Longrightarrow> sha_next u w"
  by (auto simp: sha_next_def)

lemma sha_next_bus: "sha_next w w' \<Longrightarrow> sha_bus f iv w \<Longrightarrow> sha_bus f iv w'"
  by (auto simp: sha_next_def sha_bus_def intro: settles_cong)

lemma sha_next_after: "sha_next w u \<Longrightarrow> sha_next w (after u es)"
  by (auto simp: sha_next_def)

text \<open>The words a round takes: what is left, or what the block has room for.\<close>

lemma sha_room:
  fixes n :: u32
  assumes st: "sha_state f iv ws w" and "length ws < 2 ^ 32"
  defines "bc \<equiv> words_hashed w mod BLOCK_WORDS"
  defines "c \<equiv> if n < BLOCK_WORDS - bc then n else BLOCK_WORDS - bc"
  shows "bc = of_nat (length ws mod 16)" "unat c = min (unat n) (16 - length ws mod 16)"
    "bc + c = BLOCK_WORDS \<longleftrightarrow> length ws mod 16 + unat c = 16"
proof -
  have b16: "unat BLOCK_WORDS = 16" by (simp add: regs)
  have "unat (of_nat (length ws) :: u32) = length ws" by (rule unat_of_nat32) (use assms(2) in simp)
  then have ubc: "unat bc = length ws mod 16" using st by (simp add: bc_def sha_state_def Let_def unat_mod) (simp add: regs)
  then show "bc = of_nat (length ws mod 16)" by (metis of_nat_unat ucast_id)
  have "unat (BLOCK_WORDS - bc) = 16 - length ws mod 16"
    using ubc by (subst unat_diff) (simp_all add: word_le_nat_alt b16)
  then show uc: "unat c = min (unat n) (16 - length ws mod 16)" by (auto simp: c_def word_less_nat_alt)
  have "unat (bc + c) = length ws mod 16 + unat c" using ubc uc by (subst unat_add_lt32) simp_all
  then show "bc + c = BLOCK_WORDS \<longleftrightarrow> length ws mod 16 + unat c = 16" by (simp add: word_unat_eq_iff b16)
qed

lemma sha_loop_round:
  fixes w :: "'a sha_world_scheme"
  assumes bus: "sha_bus f iv w" and st: "sha_state f iv ws w" and "n \<noteq> 0"
    and fit: "4 * (pos + unat n) \<le> length data" "length ws + unat n < 2 ^ 32"
  obtains v c where "sha_data_loop data pos n w = sha_data_loop data (pos + unat c) (n - c) v" "sha_next w v"
    "sha_state f iv (ws @ take (unat c) (drop pos (be_words data))) v" "0 < unat c" "c \<le> n"
proof -
  let ?m = "length ws mod 16"
  define bc where "bc = words_hashed w mod BLOCK_WORDS"
  define c where "c = (if n < BLOCK_WORDS - bc then n else BLOCK_WORDS - bc)"
  have "length ws < 2 ^ 32" using fit(2) by simp
  note room = sha_room(1) [OF st this, folded bc_def] sha_room(2,3) [OF st this, where n = n, folded bc_def, folded c_def]
  have cpos: "0 < unat c" using room(2) \<open>n \<noteq> 0\<close> by (simp add: unat_gt_0)
  define new where "new = take (unat c) (drop pos (be_words data))"
  have ln: "length new = unat c" using fit(1) room(2) by (simp add: new_def length_be_words)
  obtain es where es: "busy_wait SHA_256_BUSY_REG (\<lambda>v. v \<noteq> 0) w = Some (after w es)"
    "list_all (\<lambda>e. \<exists>v. e = Rd (Mmio SHA_256_BUSY_REG) v) es"
    using busy_wait_settles [of SHA_256_BUSY_REG "\<lambda>v. v \<noteq> 0" w] bus unfolding sha_bus_def by metis
  have cp: "sha_copy data pos bc c v = after v (map (\<lambda>i. Wr (Mmio (SHA_TEXT_BASE + 4 * (of_nat ?m + of_nat i))) (new ! i)) [0..<length new])"
    for v :: "'a sha_world_scheme"
  proof (rule sha_copy_eq [OF room(1)])
    fix i assume i: "i < length new"
    then have "4 * (pos + i) + 3 < length data" using ln room(2) fit(1) by simp
    moreover have "pos \<le> length (be_words data)" using fit(1) by (simp add: length_be_words)
    ultimately show "bswap32 (word_at data (pos + i)) = new ! i" using i by (simp add: bswap_word_at new_def)
  qed (simp add: ln)
  define u where "u = (after w (es @ map (\<lambda>i. Wr (Mmio (SHA_TEXT_BASE + 4 * (of_nat ?m + of_nat i))) (new ! i)) [0..<length new]))
    \<lparr>words_hashed := words_hashed w + of_nat (length new)\<rparr>"
  define v where "v = (if ?m + length new = 16
    then (if words_hashed u = BLOCK_WORDS then REG_WRITE SHA_256_START_REG 1 u else REG_WRITE SHA_256_CONTINUE_REG 1 u) else u)"
  have u': "u = (after w (es @ map (\<lambda>i. Wr (Mmio (SHA_TEXT_BASE + 4 * (of_nat ?m + of_nat i))) (new ! i)) [0..<length new]))
    \<lparr>words_hashed := words_hashed w + c\<rparr>" by (simp add: u_def ln)
  have "sha_data_loop data pos n w = sha_data_loop data (pos + unat c) (n - c) v"
    using \<open>n \<noteq> 0\<close> es(1) unfolding sha_data_loop.simps [of data pos n w] bc_def [symmetric] Let_def c_def [symmetric]
    by (simp add: cp room(3) ln [symmetric] v_def u')
  moreover have "sha_state f iv (ws @ new) v"
  proof (rule sha_round [OF st _ _ _ es(2) u_def v_def])
    have "?m < 16" by simp
    then show "?m + length new \<le> 16" using room(2) ln by linarith
  qed (use room(2) ln cpos fit(2) in auto)
  moreover have "sha_next w v" by (auto simp: sha_next_def v_def u_def REG_WRITE_eq)
  moreover have "c \<le> n" using room(2) by (simp add: word_le_nat_alt)
  ultimately show ?thesis using that cpos unfolding new_def by blast
qed

text \<open>The loop takes its words in order and ends.\<close>

lemma sha_loop:
  assumes "sha_bus f iv w" "sha_state f iv ws w"
    and "4 * (pos + unat n) \<le> length data" "length ws + unat n < 2 ^ 32"
  shows "\<exists>w'. sha_data_loop data pos n w = Some w' \<and> sha_next w w' \<and>
    sha_state f iv (ws @ take (unat n) (drop pos (be_words data))) w'"
  using assms
proof (induction "unat n" arbitrary: pos n ws w rule: less_induct)
  case (less n pos ws w)
  show ?case
  proof (cases "n = 0")
    case True
    then have "sha_data_loop data pos n w = Some w" by (subst sha_data_loop.simps) simp
    then show ?thesis using True less.prems(2) sha_next_refl by auto
  next
    case False
    from sha_loop_round [OF less.prems(1,2) False less.prems(3,4)] obtain v c where
      v: "sha_data_loop data pos n w = sha_data_loop data (pos + unat c) (n - c) v" "sha_next w v"
        "sha_state f iv (ws @ take (unat c) (drop pos (be_words data))) v" "0 < unat c" "c \<le> n" .
    have r: "unat (n - c) = unat n - unat c" "unat c \<le> unat n" using v(5) by (simp_all add: unat_diff word_le_nat_alt)
    have "\<exists>w'. sha_data_loop data (pos + unat c) (n - c) v = Some w' \<and> sha_next v w' \<and>
      sha_state f iv ((ws @ take (unat c) (drop pos (be_words data))) @ take (unat (n - c)) (drop (pos + unat c) (be_words data))) w'"
      by (rule less.hyps) (use v less.prems r sha_next_bus [OF v(2)] in \<open>auto simp: length_be_words\<close>)
    moreover have "take (unat n) (drop pos (be_words data)) =
      take (unat c) (drop pos (be_words data)) @ take (unat (n - c)) (drop (pos + unat c) (be_words data))"
      using r take_add [of "unat c" "unat (n - c)" "drop pos (be_words data)"] by (simp add: add.commute)
    ultimately show ?thesis using v(1,2) sha_next_trans by (metis append.assoc)
  qed
qed

lemma sha_data:
  assumes "sha_bus f iv w" "sha_state f iv ws w" "unat len \<le> length data" "length ws + unat len div 4 < 2 ^ 32"
  shows "\<exists>w'. esp32_sha256_data data len w = Some w' \<and> sha_next w w' \<and>
    sha_state f iv (ws @ take (unat len div 4) (be_words data)) w'"
proof -
  have "unat (len div 4) = unat len div 4" by (simp add: unat_div)
  then show ?thesis
    using sha_loop [OF assms(1,2), of 0 "len div 4" data] assms(3,4) by (simp add: esp32_sha256_data_def)
qed

section \<open>Padding\<close>

text \<open>The words of the padding, with hi as the upper half of the length.\<close>

definition pad_zeros :: "nat \<Rightarrow> nat" where
  "pad_zeros n = (if n mod 16 \<le> 13 then 13 - n mod 16 else 29 - n mod 16)"

definition pad_words :: "u32 \<Rightarrow> u32 list \<Rightarrow> u32 list" where
  "pad_words hi ws = ws @ 0x80000000 # replicate (pad_zeros (length ws)) 0 @ [hi, of_nat (length ws) * 32]"

text \<open>
  The word the driver puts there: zero, except when the padding needs one byte more than the
  array has, and then what lies behind it.
\<close>

definition pad_high :: "u8 list \<Rightarrow> nat \<Rightarrow> u32" where
  "pad_high past n = (if n mod 16 = 14 then be_words past ! 0 else 0)"

lemma pad_bytes_eq:
  assumes "n < 2 ^ 32"
  shows "sha_pad_bytes (of_nat n) = int (4 * (pad_zeros n + 2))"
proof -
  have "unat (of_nat n :: u32) = n" using assms by (intro unat_of_nat32) simp
  then have h: "unat ((of_nat n :: u32) mod BLOCK_WORDS) = n mod 16" by (simp add: unat_mod) (simp add: regs)
  have "unat (((of_nat n :: u32) mod BLOCK_WORDS) * 4) = 4 * (n mod 16)"
    using h by (simp add: unat_word_ariths)
  then have "sha_pad_bytes (of_nat n) = (let p = 55 - int (4 * (n mod 16)); p = (if p < 0 then p + 64 else p) in p + 5)"
    by (simp only: sha_pad_bytes_def Let_def)
  moreover have "n mod 16 < 16" by simp
  ultimately show ?thesis by (simp add: pad_zeros_def Let_def)
qed

lemma be_words_zeros: "be_words (replicate (4 * k) 0 @ bs) = replicate k 0 @ be_words bs"
  by (induction k) (simp_all add: stored_u32_def numeral_eq_Suc)

lemma be_words_mark: "be_words (0x80 # 0 # 0 # 0 # bs) = 0x80000000 # be_words bs"
  by (simp add: stored_u32_def)

lemma padding_words:
  assumes "n < 2 ^ 32" "4 \<le> length past"
  shows "take (pad_zeros n + 2) (be_words (sha_padding @ past)) = 0x80000000 # replicate (pad_zeros n) 0 @ [pad_high past n]"
proof -
  have p: "sha_padding = 0x80 # 0 # 0 # 0 # replicate (4 * 15) 0" by (simp add: sha_padding_def numeral_eq_Suc)
  have b: "be_words (sha_padding @ past) = 0x80000000 # replicate 15 0 @ be_words past"
    unfolding p append_Cons be_words_mark be_words_zeros ..
  have z: "pad_zeros n \<le> 15" "pad_zeros n = 15 \<longleftrightarrow> n mod 16 = 14" by (auto simp: pad_zeros_def)
  show ?thesis
  proof (cases "n mod 16 = 14")
    case True
    obtain v vs where "be_words past = v # vs" using assms(2) by (cases past rule: be_words.cases) auto
    then show ?thesis using True z by (simp add: b pad_high_def)
  next
    case False
    then have "pad_zeros n < 15" using z by simp
    then show ?thesis using False by (simp add: b pad_high_def replicate_append_same flip: replicate_Suc)
  qed
qed

section \<open>The digest\<close>

lemma sha_feed_pad:
  assumes "sha_bus f iv w" "sha_state f iv ws w" "length ws < 2 ^ 27" "4 \<le> length (past_padding w)"
  shows "\<exists>w1 w2. esp32_sha256_data (sha_padding @ past_padding w) (of_int (sha_pad_bytes (words_hashed w))) w = Some w1 \<and>
    esp32_sha256_data (le_bytes (bswap32 (words_hashed w * 32))) 4 w1 = Some w2 \<and> sha_next w w2 \<and>
    sha_state f iv (pad_words (pad_high (past_padding w) (length ws)) ws) w2"
proof -
  let ?n = "length ws" and ?past = "past_padding w"
  define len :: u32 where "len = of_nat (4 * (pad_zeros ?n + 2))"
  have z: "pad_zeros ?n \<le> 15" by (auto simp: pad_zeros_def)
  then have ul: "unat len = 4 * (pad_zeros ?n + 2)" unfolding len_def by (intro unat_of_nat32) simp
  have wh: "words_hashed w = of_nat ?n" using assms(2) by (simp add: sha_state_def Let_def)
  have li: "of_int (sha_pad_bytes (words_hashed w)) = len"
  proof -
    have "?n < 2 ^ 32" using assms(3) by simp
    then show ?thesis by (simp only: wh len_def pad_bytes_eq of_int_of_nat_eq)
  qed
  let ?ws1 = "ws @ 0x80000000 # replicate (pad_zeros ?n) 0 @ [pad_high ?past ?n]"
  have pw: "take (unat len div 4) (be_words (sha_padding @ ?past)) = 0x80000000 # replicate (pad_zeros ?n) 0 @ [pad_high ?past ?n]"
    using padding_words [of ?n ?past] assms(3,4) by (simp add: ul)
  obtain w1 where w1: "esp32_sha256_data (sha_padding @ ?past) len w = Some w1" "sha_next w w1" "sha_state f iv ?ws1 w1"
    using sha_data [OF assms(1,2), of len "sha_padding @ ?past"] assms(3,4) z unfolding pw by (auto simp: ul sha_padding_def)
  have "take (unat (4 :: u32) div 4) (be_words (le_bytes (bswap32 (words_hashed w * 32)))) = [of_nat ?n * 32]"
    using be_words_bytes [of "of_nat ?n * 32" "[]"] by (simp add: wh)
  then obtain w2 where "esp32_sha256_data (le_bytes (bswap32 (words_hashed w * 32))) 4 w1 = Some w2" "sha_next w1 w2"
    "sha_state f iv (?ws1 @ [of_nat ?n * 32]) w2"
    using sha_data [OF sha_next_bus [OF w1(2) assms(1)] w1(3), of 4 "le_bytes (bswap32 (words_hashed w * 32))"] assms(3) z by auto
  then show ?thesis using w1 li sha_next_trans [OF w1(2)] by (auto simp: pad_words_def)
qed

lemma read_digest:
  assumes "sha_bus f iv v" "n \<le> 8"
  shows "\<exists>es. fold (\<lambda>i (bs, w). let (v, w) = REG_READ (SHA_TEXT_BASE + 4 * of_nat i) w in (bs @ le_bytes (bswap32 v), w)) [0..<n] ([], v) =
    (concat (map (\<lambda>i. be_bytes (text_regs (sha_run f iv (trace v)) i)) [0..<n]), after v es) \<and>
    (\<forall>s. fold (sha_step f iv) es s = s)"
  using assms(2)
proof (induction n)
  case 0
  then show ?case by (intro exI [of _ "[]"]) simp
next
  case (Suc n)
  then obtain es where es: "fold (\<lambda>i (bs, w). let (v, w) = REG_READ (SHA_TEXT_BASE + 4 * of_nat i) w in (bs @ le_bytes (bswap32 v), w)) [0..<n] ([], v) =
    (concat (map (\<lambda>i. be_bytes (text_regs (sha_run f iv (trace v)) i)) [0..<n]), after v es)"
    "\<forall>s. fold (sha_step f iv) es s = s" by auto
  have "peek (Mmio (SHA_TEXT_BASE + 4 * of_nat n)) (after v es) = text_regs (sha_run f iv (trace v)) n"
    using assms(1) es(2) Suc.prems by (simp add: sha_bus_def peek_def sha_run_append)
  then show ?case
    using es by (intro exI [of _ "es @ [Rd (Mmio (SHA_TEXT_BASE + 4 * of_nat n)) (text_regs (sha_run f iv (trace v)) n)]"])
      (simp add: REG_READ_eq)
qed

lemma sha_finish:
  assumes "sha_bus f iv w" "sha_state f iv ws w" "length ws < 2 ^ 27" "4 \<le> length (past_padding w)"
    and "\<And>h b. length (f h b) = 8"
  shows "\<exists>w'. esp32_sha256_finish True w =
    Some (concat (map be_bytes (hash_blocks f iv (blocks (pad_words (pad_high (past_padding w) (length ws)) ws)))), w')"
proof -
  let ?ps = "pad_words (pad_high (past_padding w) (length ws)) ws"
  obtain w1 w2 where w1: "esp32_sha256_data (sha_padding @ past_padding w) (of_int (sha_pad_bytes (words_hashed w))) w = Some w1"
    and w2: "esp32_sha256_data (le_bytes (bswap32 (words_hashed w * 32))) 4 w1 = Some w2" "sha_next w w2" "sha_state f iv ?ps w2"
    using sha_feed_pad [OF assms(1-4)] by blast
  have b2: "sha_bus f iv w2" using sha_next_bus [OF w2(2) assms(1)] .
  have set: "settles SHA_256_BUSY_REG (\<lambda>v. v = 1) w2" using b2 by (auto simp: sha_bus_def elim: settles_mono)
  obtain es where es: "busy_wait SHA_256_BUSY_REG (\<lambda>v. v = 1) w2 = Some (after w2 es)"
    "list_all (\<lambda>e. \<exists>v. e = Rd (Mmio SHA_256_BUSY_REG) v) es" by (rule busy_wait_settles [OF set])
  let ?w3 = "after w2 (es @ [Wr (Mmio SHA_256_LOAD_REG) 1])"
  obtain fs where fs: "busy_wait SHA_256_BUSY_REG (\<lambda>v. v = 1) ?w3 = Some (after ?w3 fs)"
    "list_all (\<lambda>e. \<exists>v. e = Rd (Mmio SHA_256_BUSY_REG) v) fs" by (rule busy_wait_settles [OF settles_after [OF set]])
  define w4 where "w4 = after ?w3 fs"
  have full: "16 \<le> length ?ps"
    using div_mult_mod_eq [of "length ws" 16] by (auto simp: pad_words_def pad_zeros_def)
  then have h: "hash (sha_run f iv (trace w2)) = hash_blocks f iv (blocks ?ps)"
    using w2(3) by (simp add: sha_state_def Let_def)
  have "blocks ?ps \<noteq> []" using full by (simp add: blocks_def div_eq_0_iff)
  then have l8: "length (hash_blocks f iv (blocks ?ps)) = 8"
    by (cases "blocks ?ps" rule: rev_cases) (simp_all add: hash_blocks_def assms(5))
  have tx: "text_regs (sha_run f iv (trace w4)) i = hash_blocks f iv (blocks ?ps) ! i" if "i < 8" for i
    using that by (simp add: w4_def sha_run_append sha_step_reads [OF es(2)] sha_step_reads [OF fs(2)] sha_step_def regs h)
  have "sha_bus f iv w4" using b2 by (auto simp: sha_bus_def w4_def)
  from read_digest [OF this, of 8] obtain gs where gs:
    "fold (\<lambda>i (bs, w). let (v, w) = REG_READ (SHA_TEXT_BASE + 4 * of_nat i) w in (bs @ le_bytes (bswap32 v), w)) [0..<8] ([], w4) =
      (concat (map (\<lambda>i. be_bytes (text_regs (sha_run f iv (trace w4)) i)) [0..<8]), after w4 gs)" by auto
  have d: "concat (map (\<lambda>i. be_bytes (text_regs (sha_run f iv (trace w4)) i)) [0..<8]) =
      concat (map be_bytes (hash_blocks f iv (blocks ?ps)))"
  proof -
    have "map (\<lambda>i. be_bytes (text_regs (sha_run f iv (trace w4)) i)) [0..<8] = map be_bytes (hash_blocks f iv (blocks ?ps))"
      by (rule nth_equalityI) (simp_all add: l8 tx del: upt_Suc)
    then show ?thesis by simp
  qed
  have "unat DIGEST_WORDS = 8" by (simp add: regs)
  then have "esp32_sha256_finish True w = Some (concat (map be_bytes (hash_blocks f iv (blocks ?ps))),
      rom_void (SysFn Ets_sha_disable) [] [] (after w4 gs))"
    using w1 w2(1) es(1) fs(1) [folded w4_def] gs d by (simp add: esp32_sha256_finish_def REG_WRITE_eq Let_def del: upt_Suc)
  then show ?thesis by blast
qed

text \<open>The padding of FIPS 180-4, in bytes: the bit length of the message ends it, in eight bytes.\<close>

definition be64 :: "nat \<Rightarrow> u8 list" where
  "be64 n = map (\<lambda>i. of_nat (n div 256 ^ (7 - i))) [0..<8]"

definition sha_pad :: "u8 list \<Rightarrow> u8 list" where
  "sha_pad msg = msg @ 0x80 # replicate ((119 - length msg mod 64) mod 64) 0 @ be64 (8 * length msg)"

lemma be64_small: "n < 2 ^ 32 \<Longrightarrow> be64 n = be_bytes 0 @ be_bytes (of_nat n)"
proof -
  assume n: "n < 2 ^ 32"
  have u: "unat (of_nat n :: u32) = n" by (rule unat_of_nat32) (use n in simp)
  have d: "ucast (drop_bit k (of_nat n :: u32)) = (of_nat (n div 2 ^ k) :: u8)" for k
  proof -
    have "unat (drop_bit k (of_nat n :: u32)) = n div 2 ^ k" by (simp only: unat_drop_bit_eq u) (simp only: drop_bit_eq_div)
    moreover have "ucast x = (of_nat (unat x) :: u8)" for x :: u32 by simp
    ultimately show ?thesis by metis
  qed
  show ?thesis
    using d [of 0] d [of 8] d [of 16] d [of 24] n by (simp add: be64_def be_bytes_def le_bytes_def upt_rec)
qed

text \<open>The same with other bytes in place of the upper half of the length.\<close>

definition sha_pad_high :: "u8 list \<Rightarrow> u8 list \<Rightarrow> u8 list" where
  "sha_pad_high hi msg = msg @ 0x80 # replicate ((119 - length msg mod 64) mod 64) 0 @ hi @ drop 4 (be64 (8 * length msg))"

lemma sha_pad_high_0: "length msg < 2 ^ 29 \<Longrightarrow> sha_pad_high (be_bytes 0) msg = sha_pad msg"
  using be64_small [of "8 * length msg"] by (simp add: sha_pad_high_def sha_pad_def)

lemma sha_pad_words:
  assumes "4 dvd length msg" "length msg < 2 ^ 29"
  shows "be_words (sha_pad_high (be_bytes hi) msg) = pad_words hi (be_words msg)"
proof -
  define n where "n = length msg div 4"
  have l: "length msg = 4 * n" using assms(1) by (simp add: n_def)
  have lw: "length (be_words msg) = n" by (simp add: length_be_words n_def)
  have "(119 - 4 * r) mod 64 = 4 * (if r \<le> 13 then 13 - r else 29 - r) + 3" if "r < 16" for r :: nat
  proof -
    have "\<forall>r\<in>set [0..<16]. (119 - 4 * r) mod 64 = 4 * (if r \<le> 13 then 13 - r else 29 - r) + (3 :: nat)"
      by (simp add: upt_rec)
    then show ?thesis using that by simp
  qed
  moreover have "length msg mod 64 = 4 * (n mod 16)" unfolding l using mult_mod_right [of 4 n 16] by simp
  ultimately have z: "(119 - length msg mod 64) mod 64 = 3 + 4 * pad_zeros n" by (simp add: pad_zeros_def)
  have b: "drop 4 (be64 (8 * length msg)) = be_bytes (of_nat n * 32) @ []"
    using be64_small [of "8 * length msg"] assms(2) by (simp add: l mult.commute)
  have "be_words (sha_pad_high (be_bytes hi) msg) =
      be_words msg @ be_words (0x80 # replicate (3 + 4 * pad_zeros n) 0 @ be_bytes hi @ drop 4 (be64 (8 * length msg)))"
    unfolding sha_pad_high_def z by (rule be_words_append [OF assms(1)])
  also have "0x80 # replicate (3 + 4 * pad_zeros n) 0 @ be_bytes hi @ drop 4 (be64 (8 * length msg)) =
      0x80 # 0 # 0 # 0 # replicate (4 * pad_zeros n) (0 :: u8) @ be_bytes hi @ drop 4 (be64 (8 * length msg))"
    by (simp add: numeral_eq_Suc)
  finally show ?thesis unfolding be_words_mark be_words_zeros b be_words_bytes by (simp add: pad_words_def lw)
qed

section \<open>Hashing a message\<close>

text \<open>A client hashing a message it has in several buffers, through the API.\<close>

fun sha_feed :: "'w sha_target \<Rightarrow> u8 list list \<Rightarrow> 'w \<Rightarrow> 'w option" where
  "sha_feed T [] w = Some w"
| "sha_feed T (c # cs) w = do { w \<leftarrow> stub_lib_sha256_data T c (of_nat (length c)) w; sha_feed T cs w }"

definition sha256_of :: "'w sha_target \<Rightarrow> u8 list list \<Rightarrow> 'w \<Rightarrow> (u8 list \<times> 'w) option" where
  "sha256_of T cs w = do { w \<leftarrow> sha_feed T cs (stub_lib_sha256_start T w); stub_lib_sha256_finish T True w }"

lemma sha_feed_state:
  assumes "sha_bus f iv w" "sha_state f iv ws w" "\<forall>c\<in>set cs. 4 dvd length c" "4 * length ws + length (concat cs) < 2 ^ 29"
  shows "\<exists>w'. sha_feed esp32_sha_target cs w = Some w' \<and> sha_next w w' \<and> sha_state f iv (ws @ be_words (concat cs)) w'"
  using assms
proof (induction cs arbitrary: w ws)
  case Nil
  then show ?case using sha_next_refl by auto
next
  case (Cons c cs)
  have ul: "unat (of_nat (length c) :: u32) = length c" by (rule unat_of_nat32) (use Cons.prems(4) in simp)
  have t: "take (length c div 4) (be_words c) = be_words c" by (simp add: length_be_words)
  have "length ws + length c div 4 < 2 ^ 32" using Cons.prems(4) div_le_dividend [of "length c" 4] by simp
  then obtain v where v: "esp32_sha256_data c (of_nat (length c)) w = Some v" "sha_next w v" "sha_state f iv (ws @ be_words c) v"
    using sha_data [OF Cons.prems(1,2), of "of_nat (length c)" c] Cons.prems(4) unfolding ul t by auto
  have "4 * length (ws @ be_words c) + length (concat cs) < 2 ^ 29"
    using Cons.prems(3,4) by (simp add: length_be_words)
  from Cons.IH [OF sha_next_bus [OF v(2) Cons.prems(1)] v(3) _ this] Cons.prems(3) obtain w' where
    "sha_feed esp32_sha_target cs v = Some w'" "sha_next v w'" "sha_state f iv ((ws @ be_words c) @ be_words (concat cs)) w'" by auto
  then show ?case using v sha_next_trans [OF v(2)] Cons.prems(3) be_words_append [of c "concat cs"]
    by (auto simp: stub_lib_sha256_data_def)
qed

lemma sha256_of_eq:
  assumes "sha_bus f iv w" "\<And>h b. length (f h b) = 8" "\<forall>c\<in>set cs. 4 dvd length c" "length (concat cs) < 2 ^ 29"
    and "4 \<le> length (past_padding w)"
  defines "ws \<equiv> be_words (concat cs)"
  shows "\<exists>w'. sha256_of esp32_sha_target cs w =
    Some (concat (map be_bytes (hash_blocks f iv (blocks (pad_words (pad_high (past_padding w) (length ws)) ws)))), w')"
proof -
  define u where "u = stub_lib_sha256_start esp32_sha_target w"
  have u: "sha_next w u" "sha_state f iv [] u"
    by (simp_all add: u_def sha_next_def sha_state_def stub_lib_sha256_start_def esp32_sha256_start_def
        rom_void_eq emit_after)
  obtain v where v: "sha_feed esp32_sha_target cs u = Some v" "sha_next u v" "sha_state f iv ws v"
    using sha_feed_state [OF sha_next_bus [OF u(1) assms(1)] u(2) assms(3)] assms(4) by (auto simp: ws_def)
  have nx: "sha_next w v" using sha_next_trans [OF u(1) v(2)] .
  then have p: "past_padding v = past_padding w" by (simp add: sha_next_def)
  have "length ws < 2 ^ 27" using assms(4) by (simp add: ws_def length_be_words)
  from sha_finish [OF sha_next_bus [OF nx assms(1)] v(3) this _ assms(2)] assms(5)
  show ?thesis using v(1) by (auto simp: sha256_of_def p stub_lib_sha256_finish_def simp flip: u_def)
qed

lemma sha256_of_bytes:
  assumes "sha_bus f iv w" "\<forall>h b. length (f h b) = 8" "\<forall>c\<in>set cs. 4 dvd length c" "length (concat cs) < 2 ^ 29"
    and "past_padding w = a # b # c # d # ps"
  shows "\<exists>w'. sha256_of esp32_sha_target cs w = Some (concat (map be_bytes (hash_blocks f iv (blocks (be_words
    (sha_pad_high (if length (concat cs) mod 64 = 56 then [a, b, c, d] else [0, 0, 0, 0]) (concat cs)))))), w')"
proof -
  define ws where "ws = be_words (concat cs)"
  have d: "4 dvd length (concat cs)" using assms(3) by (induction cs) auto
  have "length (concat cs) mod 64 = 4 * (length ws mod 16)"
    using mult_mod_right [of 4 "length ws" 16] d by (simp add: ws_def length_be_words)
  then have "pad_high (past_padding w) (length ws) = (if length (concat cs) mod 64 = 56 then stored_u32 [d, c, b, a] 0 else 0)"
    by (auto simp: pad_high_def assms(5))
  moreover have "be_bytes (stored_u32 [d, c, b, a] 0) = [a, b, c, d]" "be_bytes 0 = [0, 0, 0, 0]"
    by (simp add: be_bytes_def) (simp add: be_bytes_def le_bytes_def)
  ultimately have "be_bytes (pad_high (past_padding w) (length ws)) =
      (if length (concat cs) mod 64 = 56 then [a, b, c, d] else [0, 0, 0, 0])" by simp
  then show ?thesis
    using sha256_of_eq [OF assms(1) _ assms(3,4), folded ws_def] assms(2,5)
      sha_pad_words [OF d assms(4), of "pad_high (past_padding w) (length ws)", folded ws_def] by simp
qed

section \<open>Properties\<close>

text \<open>
  C37: The ESP32 hash driver returns, in the end and for any way of cutting the message into
  word aligned pieces, the digest of the message with the padding of the standard (the bit
  1, zeros and the length in 64 bits) over whatever compression function the engine
  computes, for every message shorter than 2 to the 29 bytes whose length is not 56 modulo
  64, and for those whose length is when the four bytes behind the padding array happen to
  be zero. (The driver counts bits in 32 bits, so 2 to the 29 bytes are its limit.)
\<close>

lemma sha256_digest:
  assumes "sha_bus f iv w" "\<forall>h b. length (f h b) = 8" "\<forall>c\<in>set cs. 4 dvd length c" "length (concat cs) < 2 ^ 29"
    and "past_padding w = a # b # c # d # ps" "length (concat cs) mod 64 \<noteq> 56 \<or> [a, b, c, d] = [0, 0, 0, 0]"
  shows "\<exists>w'. sha256_of esp32_sha_target cs w =
    Some (concat (map be_bytes (hash_blocks f iv (blocks (be_words (sha_pad (concat cs)))))), w')"
proof -
  have "be_bytes 0 = [0, 0, 0, 0]" by (simp add: be_bytes_def le_bytes_def)
  then have "sha_pad_high [0, 0, 0, 0] (concat cs) = sha_pad (concat cs)" using sha_pad_high_0 [OF assms(4)] by simp
  then show ?thesis using sha256_of_bytes [OF assms(1-5)] assms(6) by (auto split: if_splits)
qed

text \<open>
  C38: For a message whose length is 56 modulo 64 the driver reads four bytes past the end
  of its padding array and hashes them as the upper half of the message length.
\<close>

lemma sha256_overread:
  assumes "sha_bus f iv w" "\<forall>h b. length (f h b) = 8" "\<forall>c\<in>set cs. 4 dvd length c" "length (concat cs) < 2 ^ 29"
    and "past_padding w = a # b # c # d # ps" "length (concat cs) mod 64 = 56"
  shows "\<exists>w'. sha256_of esp32_sha_target cs w = Some (concat (map be_bytes (hash_blocks f iv (blocks (be_words
    (sha_pad_high [a, b, c, d] (concat cs)))))), w')"
  using sha256_of_bytes [OF assms(1-5)] assms(6) by simp

text \<open>An engine that keeps the second half of a block as its hash.\<close>

definition half_block :: "u32 list \<Rightarrow> u32 list \<Rightarrow> u32 list" where
  "half_block h b = map (\<lambda>i. if i + 8 < length b then b ! (i + 8) else 0) [0..<8]"

definition sha_dev :: "ev list \<Rightarrow> cell \<Rightarrow> u32" where
  "sha_dev es c = (case c of Mmio a \<Rightarrow>
     if a - SHA_TEXT_BASE < 32 then text_regs (sha_run half_block [] es) (unat (a - SHA_TEXT_BASE) div 4) else 0 | _ \<Rightarrow> 0)"

definition sha_world_0 :: sha_world where
  "sha_world_0 = \<lparr>rd_dev = sha_dev, rom_dev = \<lambda>_ _ _ _. (0, []), mem_dev = \<lambda>_ _ _. [], sym_addr = \<lambda>_. 0, trace = [],
     words_hashed = 7, past_padding = [1, 2, 3, 4]\<rparr>"

lemma sha_world_0_bus: "sha_bus half_block [] sha_world_0"
proof -
  have "sha_dev es (Mmio (SHA_TEXT_BASE + 4 * of_nat i)) = text_regs (sha_run half_block [] es) i" if "i < 8" for es i
  proof -
    have "unat (4 * of_nat i :: u32) = 4 * i" using unat_of_nat32 [of "4 * i"] that by simp
    then show ?thesis using that by (simp add: sha_dev_def word_less_nat_alt)
  qed
  moreover have "settles SHA_256_BUSY_REG (\<lambda>v. v \<noteq> 0) sha_world_0"
    unfolding settles_def by (intro allI exI [of _ 0]) (simp add: peek_def sha_world_0_def sha_dev_def regs)
  ultimately show ?thesis by (simp add: sha_bus_def) (simp add: sha_world_0_def)
qed

lemma half_block_length: "\<forall>h b. length (half_block h b) = 8"
  by (simp add: half_block_def)

lemma sha256_digest_witness:
  "\<exists>w'. sha256_of esp32_sha_target [[0x61, 0x62, 0x63, 0x64], []] sha_world_0 = Some (replicate 31 0 @ [32], w')"
proof -
  have l4: "length [0x61 :: u8, 0x62, 0x63, 0x64] = 4" by simp
  have "be_words (sha_pad [0x61, 0x62, 0x63, 0x64]) = 0x61626364 # 0x80000000 # replicate 13 0 @ [32]"
  proof -
    have "length [0x61 :: u8, 0x62, 0x63, 0x64] < 2 ^ 29" "4 dvd length [0x61 :: u8, 0x62, 0x63, 0x64]" unfolding l4 by simp_all
    then have "be_words (sha_pad [0x61, 0x62, 0x63, 0x64]) = pad_words 0 (be_words [0x61, 0x62, 0x63, 0x64])"
      using sha_pad_words sha_pad_high_0 by metis
    also have "\<dots> = 0x61626364 # 0x80000000 # replicate 13 0 @ [32]" by code_simp
    finally show ?thesis .
  qed
  moreover have "concat (map be_bytes (hash_blocks half_block [] (blocks (0x61626364 # 0x80000000 # replicate 13 0 @ [32])))) =
    replicate 31 0 @ [32]" by code_simp
  moreover have "past_padding sha_world_0 = 1 # 2 # 3 # 4 # []" by (simp add: sha_world_0_def)
  ultimately show ?thesis
    using sha256_digest [OF sha_world_0_bus half_block_length, of "[[0x61, 0x62, 0x63, 0x64], []]"] l4
    by (simp del: list.size(4))
qed

lemma sha256_overread_witness:
  "\<exists>w'. sha256_of esp32_sha_target [replicate 56 0] sha_world_0 = Some (replicate 24 0 @ [1, 2, 3, 4, 0, 0, 1, 0xC0], w')"
proof -
  have "be_bytes 0x01020304 = [1, 2, 3, 4]" by code_simp
  then have "be_words (sha_pad_high [1, 2, 3, 4] (replicate 56 0)) = pad_words 0x01020304 (be_words (replicate (4 * 14) 0 @ []))"
    using sha_pad_words [of "replicate 56 0" "0x01020304"] by simp
  also have "\<dots> = replicate 14 0 @ 0x80000000 # replicate 15 0 @ [0x01020304, 448]"
    unfolding be_words_zeros by (simp add: pad_words_def pad_zeros_def)
  finally have "be_words (sha_pad_high [1, 2, 3, 4] (replicate 56 0)) = replicate 14 0 @ 0x80000000 # replicate 15 0 @ [0x01020304, 448]" .
  moreover have "concat (map be_bytes (hash_blocks half_block [] (blocks (replicate 14 0 @ 0x80000000 # replicate 15 0 @ [0x01020304, 448])))) =
    replicate 24 0 @ [1, 2, 3, 4, 0, 0, 1, 0xC0]" by code_simp
  moreover have "past_padding sha_world_0 = 1 # 2 # 3 # 4 # []" by (simp add: sha_world_0_def)
  ultimately show ?thesis
    using sha256_overread [OF sha_world_0_bus half_block_length, of "[replicate 56 0]"] by simp
qed

end
