(* ===== verification/Rom_Patched.thy ===== *)
theory Rom_Patched
  imports World
begin

text \<open>
  The compiler's support functions the ROM of the ESP8266 lacks,
  \<open>src/target/esp8266/src/rom-patched.c\<close>. Signed integers are words read by \<open>sint\<close>.
\<close>

section \<open>The functions\<close>

definition bswapsi2 :: "u32 \<Rightarrow> u32" where
  "bswapsi2 u = drop_bit 24 (u AND 0xff000000) OR drop_bit 8 (u AND 0x00ff0000) OR
     push_bit 8 (u AND 0x0000ff00) OR push_bit 24 (u AND 0x000000ff)"

text \<open>
  \<open>\_\_ashldi3\<close> works on the two halves of the value, \<open>low\<close> and \<open>high\<close>; a shift by a negative
  amount is undefined: None. The result is the union's \<open>all\<close> over the halves it assigns.
\<close>

definition ashldi3 :: "u64 \<Rightarrow> u32 \<Rightarrow> u64 option" where
  "ashldi3 a b =
     (let bits_in_word = 32; low = (ucast a :: u32); high = (ucast (drop_bit 32 a) :: u32)
      in if b = 0 then Some a
         else if sint b \<ge> 64 then Some 0
         else if sint b \<ge> bits_in_word then Some (word_cat (push_bit (nat (sint b - bits_in_word)) low) (0 :: u32))
         else if sint b < 0 then None
         else Some (word_cat (push_bit (nat (sint b)) high OR drop_bit (nat (bits_in_word - sint b)) low)
                (push_bit (nat (sint b)) low)))"

section \<open>What they compute\<close>

lemma bit_word_cat_u32:
  "bit (word_cat (h :: u32) (l :: u32) :: u64) n \<longleftrightarrow> n < 64 \<and> (if n < 32 then bit l n else bit h (n - 32))"
  by (simp add: bit_word_cat_iff)

lemma shift_below_word:
  fixes a :: u64
  assumes "0 < n" "n < 32"
  shows "word_cat (push_bit n (ucast (drop_bit 32 a) :: u32) OR drop_bit (32 - n) (ucast a)) (push_bit n (ucast a :: u32)) = push_bit n a"
proof (rule bit_word_eqI)
  fix k :: nat
  assume k: "k < LENGTH(64)"
  consider "k < n" | "n \<le> k" "k < 32" | "32 \<le> k" "k < 32 + n" | "32 + n \<le> k" by linarith
  then show "bit (word_cat (push_bit n (ucast (drop_bit 32 a) :: u32) OR drop_bit (32 - n) (ucast a)) (push_bit n (ucast a :: u32)) :: u64) k = bit (push_bit n a) k"
    unfolding bit_word_cat_u32 using assms k
    by cases (auto simp: bit_or_iff bit_push_bit_iff bit_drop_bit_eq bit_ucast_iff)
qed

lemma shift_above_word:
  fixes a :: u64
  assumes "32 \<le> n" "n < 64"
  shows "word_cat (push_bit (n - 32) (ucast a :: u32)) (0 :: u32) = push_bit n a"
proof (rule bit_word_eqI)
  fix k :: nat
  assume k: "k < LENGTH(64)"
  consider "k < 32" | "32 \<le> k" "k < n" | "n \<le> k" by linarith
  then show "bit (word_cat (push_bit (n - 32) (ucast a :: u32)) (0 :: u32) :: u64) k = bit (push_bit n a) k"
    unfolding bit_word_cat_u32 using assms k
    by cases (auto simp add: bit_push_bit_iff bit_ucast_iff)
qed

text \<open>For every amount the compiler may pass, it is the shift of the 64 bit value.\<close>

lemma ashldi3_shifts:
  assumes "0 \<le> sint b"
  shows "ashldi3 a b = Some (push_bit (nat (sint b)) a)"
proof -
  define n where "n = nat (sint b)"
  have n: "sint b = int n" using assms by (simp add: n_def)
  have z: "b = 0" if "n = 0"
  proof -
    have "b = of_int (sint b)" by simp
    then show ?thesis using n that by simp
  qed
  consider "n = 0" | "0 < n" "n < 32" | "32 \<le> n" "n < 64" | "64 \<le> n" by linarith
  then show ?thesis
  proof cases
    case 1
    then show ?thesis using z n by (simp add: ashldi3_def)
  next
    case 2
    then have "b \<noteq> 0" using n by auto
    then show ?thesis using 2 n shift_below_word [OF 2] by (simp add: ashldi3_def Let_def nat_diff_distrib)
  next
    case 3
    then have "b \<noteq> 0" using n by auto
    then show ?thesis using 3 n shift_above_word [OF 3] by (simp add: ashldi3_def Let_def nat_diff_distrib)
  next
    case 4
    then have "b \<noteq> 0" using n by auto
    moreover have "push_bit n a = 0" using 4 by (intro bit_word_eqI) (simp add: bit_push_bit_iff)
    ultimately show ?thesis using 4 n by (simp add: ashldi3_def Let_def)
  qed
qed

text \<open>Swapping the bytes of a stored word reads them in the other order.\<close>

lemma bswapsi2_stored:
  "bswapsi2 (stored_u32 [a, b, c, d] 0) = stored_u32 [d, c, b, a] 0"
proof -
  have m: "(0xff000000 :: u32) = push_bit 24 (mask 8)" "(0x00ff0000 :: u32) = push_bit 16 (mask 8)"
    "(0x0000ff00 :: u32) = push_bit 8 (mask 8)" "(0x000000ff :: u32) = mask 8"
    by (simp_all add: mask_eq_exp_minus_1)
  show ?thesis
  proof (rule bit_word_eqI)
    fix k :: nat
    assume k: "k < LENGTH(32)"
    consider "k < 8" | "8 \<le> k" "k < 16" | "16 \<le> k" "k < 24" | "24 \<le> k" by linarith
    then show "bit (bswapsi2 (stored_u32 [a, b, c, d] 0)) k = bit (stored_u32 [d, c, b, a] 0) k"
      unfolding bswapsi2_def m stored_u32_def list.case using k
      by cases (simp_all add: bit_or_iff bit_and_iff bit_push_bit_iff bit_drop_bit_eq bit_ucast_iff bit_mask_iff bit_imp_le_length
          not_le add_diff_eq, auto dest: bit_imp_le_length)
  qed
qed

corollary bswapsi2_involution: "bswapsi2 (bswapsi2 (stored_u32 [a, b, c, d] 0)) = stored_u32 [a, b, c, d] 0"
  by (simp only: bswapsi2_stored)

end
