(* ===== verification/Spec2Isabelle.thy ===== *)
theory Spec2Isabelle
  imports Chip_State Chip_Window Chip_Clock_Props S3_Flash_State S3_Flash_Crypt Chip_Returns Nand_Props Chip_Serial
    Chip_Slave_Spi Sdio_C5 Usb_Otg Log Clock Esp32_Sha Rom_Patched
begin

text \<open>
  A model of esp-stub-lib, the hardware library that Espressif's flasher stubs link: flash,
  cache and MMU, serial transports, clocks, hashes, NAND and logging for fourteen chips. All
  paths below are relative to the repository's directory \<open>src/\<close> that holds the library.

  \<^bold>\<open>The program.\<close> An application calls \<open>stub_lib_*\<close> functions (\<open>src/*.c\<close>). They check their
  arguments, keep a little state of their own and call \<open>stub_target_*\<close> functions, of which
  \<open>src/target/common/src\<close> holds weak versions and \<open>src/target/CHIP/src\<close> the ones a chip puts in
  their place at link time. Targets talk to registers and to functions of the chip's ROM.

  \<^bold>\<open>The machine.\<close> \<open>World\<close> holds what the code talks to. A \<open>world\<close> carries the trace of all
  register accesses, ROM calls and memory accesses so far, and response functions, arbitrary
  parameters, that answer the next one from the whole trace; so every result is for any
  hardware unless a hypothesis restricts it. The macros of \<open>bit_utils.h\<close> are in \<open>Prelude\<close>,
  those of \<open>soc_utils.h\<close>, \<open>src/rom_wrappers.c\<close> and the polling helpers of \<open>helpers.h\<close> in
  \<open>World\<close>. \<open>Plain\<close> describes registers that hold what was written last. The static variables of
  a component extend the record \<open>world\<close>. A C integer is a word of its width; a return code is
  an integer; an out parameter is a further result. Each chip's constants are in \<open>S3_Regs\<close>,
  \<open>C6_Regs\<close>, \<open>Chip_Regs\<close>, \<open>Flash_Regs\<close>, \<open>Clock_Regs\<close> and \<open>Io_Regs\<close>, under their C names with the
  chip in front (none for the ESP32-S3, whose driver was modelled first).

  \<^bold>\<open>Linking.\<close> The symbols of a target are the fields of a record (\<open>flash_target\<close>,
  \<open>cache_target\<close>, \<open>mmu_target\<close>, \<open>uart_target\<close>, \<open>sdio_target\<close> and so on) that the \<open>stub_lib\<close>
  functions take as an argument; a chip's link is a value of it, weak functions included. A
  function of a chip has the chip's name in front of the rest of its own:
  \<open>c6_sdio_rearm\<close> is \<open>stub_target_sdio_rearm\<close> of \<open>src/target/esp32c6/src/sdio.c\<close>.

  \<^bold>\<open>The theories.\<close>
    \<^item> Flash. \<open>Flash_Lib\<close> is \<open>src/flash.c\<close>; \<open>Flash_Target\<close> the interface and
      \<open>common/src/flash.c\<close>; \<open>Flash_4byte\<close> is \<open>common/src/flash_4byte.c\<close>; \<open>S3_Flash\<close> with
      \<open>S3_Aes_Xts\<close>, and \<open>Chip_Flash\<close> with \<open>Chip_Aes_Xts\<close>, are the chips' \<open>flash.c\<close> and
      \<open>aes_xts.c\<close>. \<open>Flash_Spec\<close> states as the locale \<open>nor_flash\<close> what a target does to an
      abstract flash memory and proves write, erase and read once; \<open>Nor_Chip\<close> is a reference
      chip that follows the trace, and its locale \<open>nor_target\<close> gives \<open>nor_flash\<close>; \<open>S3_Nor\<close> and
      \<open>Chip_Nor\<close> interpret it on all fourteen drivers. \<open>Chip_Encrypt\<close> extends it to the locale
      \<open>xts_target\<close>, with a reference AES engine that takes its registers and its plaintext buffer
      from the trace, and interprets it on the six drivers that have one. \<open>Chip_Returns\<close> proves
      that the operations end over a target that answers (locale \<open>answering\<close>) and interprets it
      on all drivers. \<open>S3_Flash_Props\<close>, \<open>S3_Flash_Crypt\<close>, \<open>S3_Flash_State\<close> and \<open>Chip_State\<close> add the
      wait for the flash, what switches encryption off, initialisation, and the registers each
      driver puts back.
    \<^item> Cache and MMU. \<open>Cache\<close> and \<open>Chip_Cache\<close> are \<open>src/cache.c\<close> and the chips' \<open>cache.c\<close>; \<open>Mmu\<close>,
      \<open>S3_Mmu\<close> and \<open>Chip_Mmu\<close> are \<open>src/mmu.c\<close> and the chips' \<open>mmu.c\<close>. The locale \<open>mmu_table\<close> is the
      contract of an MMU table; \<open>Chip_Window\<close> meets it for every chip and page size through
      \<open>mmu_chip\<close> and proves the reads through the window. \<open>Soc\<close> has the memory maps
      (\<open>src/mem_utils.c\<close>, each chip's \<open>soc.h\<close>), \<open>Security\<close> is \<open>src/security.c\<close> with its targets.
    \<^item> NAND. \<open>Nand\<close> is \<open>src/target/esp32s3/src/nand.c\<close> with the weak versions; \<open>Nand_Chip\<close> is a
      reference chip that decodes the SPI2 transactions; \<open>Nand_Props\<close> proves page reads and
      writes, block erases and markers against it.
    \<^item> Transports. \<open>Serial\<close> holds the contracts \<open>transmitter\<close>, \<open>eager_transmitter\<close> and
      \<open>frame_receiver\<close>. \<open>Serial_Ports\<close> and \<open>Chip_Serial\<close> are the UART, USB serial JTAG and trace
      memory of all chips; \<open>Usb_Otg\<close> the USB OTG port of four; \<open>Slave_Spi\<close> and \<open>Chip_Slave_Spi\<close>
      the SPI slave of five, through the locale \<open>slave_spi_driver\<close>; \<open>Sdio\<close> and \<open>Sdio_C5\<close> the SDIO
      drivers of the ESP32-C6 and ESP32-C5.
    \<^item> The rest. \<open>Clock\<close>, \<open>Chip_Clock\<close>, \<open>Chip_Clock_Props\<close>: clocks, regulators and watchdogs.
      \<open>Hash\<close>, \<open>Esp32_Sha\<close>: hashes. \<open>Log\<close>: the formatter of \<open>src/log_common.c\<close> and its three back
      ends. \<open>Rom_Patched\<close>: the compiler support of the ESP8266.

  \<^bold>\<open>What is shown.\<close> The claims C1 to C40 stand before their lemmas in these theories. They say
  that flash writes, erases and reads do what they should on every chip (C1 to C3), what
  encrypted writes give the AES engine and leave on (C4, C9), which state is restored (C5, C6, C14, C19, C39),
  how initialisation and waiting end (C7, C8, C10), what the cache window shows and where (C11
  to C13, C15), what NAND operations do (C16 to C18, C20), which divisor a baud rate gets (C21),
  how the frame transports keep their windows and handshakes (C22, C23, C25 to C28) and the USB
  port its bytes and resets (C29, C30), what clocks and watchdogs are set to (C24, C31, C32,
  C35, C36), what the log prints and keeps (C33, C34), that the hash of the ESP32 is that
  of the padded message (C37, C38), and that the memory maps are sound (C40). Where the code
  falls short of its purpose the claim says so: C13, C15, C20, C24, C28 and C38 prove defects,
  C32 says which register is not put back, and C33 where the formatter is undefined.

  \<^bold>\<open>Loops.\<close> No loop has fuel. Loops with a bound are functions with a measure: the remaining
  bytes, the remaining timeout in microseconds (64 bits), the words left. Busy waits without a
  bound, the encrypted write that contains one, the walk over a DMA chain and the USB receive
  loop are partial functions into \<open>option\<close>, None when they never end; C8 proves that the flash
  functions return once the controller comes to rest, C25 that the walk ends,
  \<open>esp8266_idle_line_hangs\<close> that one wait does not.

  \<^bold>\<open>Assumptions.\<close> What the hardware and the ROM do is a named hypothesis: the NOR and NAND chips
  answer as the reference chips do, an SPI controller delivers what it was told to and comes to
  rest in the end, an MMU entry shows its page, the SHA engine applies some compression
  function, a master of the analog I2C bus that is not busy shows the byte it addressed, and
  registers named as plain hold what was written. Each claim with a hypothesis has a witness
  beside it that meets it with a concrete device. Interrupts come between calls, but C28 lets
  one come between any two steps of an operation.

  \<^bold>\<open>Not modelled.\<close> \<open>src/target/esp8266/src/miniz.c\<close>, a vendored compression library no function
  here calls; the ROM's functions themselves; the register headers under
  \<open>src/target/CHIP/include/soc\<close> beyond the constants the code uses; the capability headers, of
  which each definition follows the branch its chip's build takes; build files, linker scripts
  and the example. The drivers' log calls expand to nothing in a build without
  \<open>STUB_LOG_ENABLED\<close>, the one modelled. Time is the sequence of events: a delay is a ROM call.
\<close>

end
